(* ===== verification/Prelude.thy ===== *)
theory Prelude
  imports Main "HOL-Library.Word"
begin

section \<open>Shared types, results and generic lemmas\<close>

text \<open>
  What every component of the development uses: the machine integers of the
  source as words of their width, byte buffers, results as sums (\<open>Inl\<close> the
  error, \<open>Inr\<close> the value), Rust's \<open>saturating_add\<close> and \<open>checked_add\<close>, and the
  lemmas on lists, options and words the components share.

  Four collections carry the automation. \<open>wire_defs\<close> holds the definitions of
  the message encoders and decoders, \<open>wire_eval\<close> the laws that evaluate them on concrete
  messages, \<open>op_defs\<close> the definitions of the opcode constants, and \<open>table_simps\<close> the laws of the
  handle table.

  Conventions. A \<open>usize\<close> is a \<open>nat\<close> bounded by \<open>usize_max\<close> where the source checks it
  (the targets are 64-bit); a cast \<open>len as u32\<close> is \<open>word_of_nat\<close>, which wraps as the
  cast does; a slice or vector is a list.
\<close>

unbundle bit_operations_syntax

type_synonym u8 = "8 word"
type_synonym u16 = "16 word"
type_synonym u32 = "32 word"
type_synonym u64 = "64 word"
type_synonym bytes = "u8 list"

named_theorems wire_defs \<open>definitions of encoders and decoders\<close>
named_theorems op_defs \<open>definitions of opcode constants\<close>
named_theorems table_simps \<open>laws of the handle table\<close>
named_theorems wire_eval \<open>laws that evaluate an encoder followed by a decoder\<close>

definition usize_max :: nat where
  "usize_max = 2 ^ 64 - 1"

text \<open>Rust's \<open>usize::checked_add\<close> and \<open>uN::saturating_add\<close>.\<close>

definition checked_add :: "nat \<Rightarrow> nat \<Rightarrow> nat option" where
  "checked_add a b = (if a + b \<le> usize_max then Some (a + b) else None)"

definition saturating_add :: "'a::len word \<Rightarrow> 'a word \<Rightarrow> 'a word" where
  "saturating_add a b = (if unat a + unat b < 2 ^ LENGTH('a) then a + b else - 1)"

definition is_ok :: "'e + 'a \<Rightarrow> bool" where
  "is_ok r = (case r of Inl _ \<Rightarrow> False | Inr _ \<Rightarrow> True)"

text \<open>Rust's \<open>?\<close> on a \<open>Result\<close>.\<close>

definition res_bind :: "'e + 'a \<Rightarrow> ('a \<Rightarrow> 'e + 'b) \<Rightarrow> 'e + 'b" where
  "res_bind m f = (case m of Inl e \<Rightarrow> Inl e | Inr a \<Rightarrow> f a)"

lemma res_bind_simps [simp]:
  "res_bind (Inl e) f = Inl e"
  "res_bind (Inr a) f = f a"
  by (simp_all add: res_bind_def)

lemma res_bind_eq_Inr:
  "res_bind m f = Inr b \<longleftrightarrow> (\<exists>a. m = Inr a \<and> f a = Inr b)"
  by (cases m) simp_all

lemma is_ok_simps [simp]:
  "\<not> is_ok (Inl e)"
  "is_ok (Inr a)"
  by (simp_all add: is_ok_def)

lemma checked_add_small [simp]:
  "a + b \<le> usize_max \<Longrightarrow> checked_add a b = Some (a + b)"
  by (simp add: checked_add_def)

subsection \<open>Saturating addition\<close>

lemma unat_saturating_add:
  "unat (saturating_add a b) = min (unat a + unat b) (2 ^ LENGTH('a) - 1)"
  for a b :: "'a::len word"
proof (cases "unat a + unat b < 2 ^ LENGTH('a)")
  case True
  then show ?thesis
    by (simp add: saturating_add_def unat_word_ariths)
next
  case False
  then show ?thesis
    by (simp add: saturating_add_def unsigned_minus_1_eq_mask mask_eq_exp_minus_1)
qed

lemma saturating_add_ge: "a \<le> saturating_add a b"
  for a b :: "'a::len word"
proof -
  have "unat a < 2 ^ LENGTH('a)"
    by (rule unsigned_less)
  then have "unat a \<le> 2 ^ LENGTH('a) - 1"
    by linarith
  then show ?thesis
    by (simp add: word_le_nat_alt unat_saturating_add)
qed

lemma saturating_add_commute: "saturating_add a b = saturating_add b a"
  for a b :: "'a::len word"
  by (rule unsigned_word_eqI [where 'a = nat]) (simp add: unat_saturating_add add.commute)

lemma saturating_add_assoc:
  "saturating_add (saturating_add a b) c = saturating_add a (saturating_add b c)"
  for a b c :: "'a::len word"
proof -
  have clamp: "min (min (x + y) m + z) m = min (x + min (y + z) m) m" for x y z m :: nat
    by arith
  show ?thesis
    by (rule unsigned_word_eqI [where 'a = nat]) (simp only: unat_saturating_add clamp)
qed

lemma saturating_add_left_commute: "saturating_add a (saturating_add b c) = saturating_add b (saturating_add a c)"
  for a b c :: "'a::len word"
  by (metis saturating_add_assoc saturating_add_commute)

lemmas saturating_add_ac = saturating_add_assoc saturating_add_commute saturating_add_left_commute

text \<open>A natural number cut to the largest word, which is what a saturating counter holds.\<close>

definition clamp :: "nat \<Rightarrow> 'a::len word" where
  "clamp n = word_of_nat (min n (2 ^ LENGTH('a) - 1))"

lemma unat_clamp: "unat (clamp n :: 'a::len word) = min n (2 ^ LENGTH('a) - 1)"
proof -
  have "min n (2 ^ LENGTH('a) - 1) < 2 ^ LENGTH('a)"
    by (rule le_less_trans [OF min.cobounded2]) simp
  then show ?thesis
    by (simp add: clamp_def unsigned_of_nat take_bit_nat_eq_self)
qed

lemma clamp_unat [simp]: "clamp (unat a) = a"
  for a :: "'a::len word"
proof -
  have "unat a < 2 ^ LENGTH('a)"
    by (rule unsigned_less)
  then have "unat a \<le> 2 ^ LENGTH('a) - 1"
    by linarith
  then show ?thesis
    by (simp add: clamp_def min_absorb1)
qed

lemma clamp_add: "clamp (m + n) = saturating_add (clamp m) (clamp n)"
proof -
  have min_min: "min (m + n) k = min (min m k + min n k) k" for m n k :: nat
    by arith
  show ?thesis
    by (rule unsigned_word_eqI [where 'a = nat]) (simp only: unat_saturating_add unat_clamp min_min [symmetric])
qed

lemma clamp_0 [simp]: "clamp 0 = 0"
  by (simp add: clamp_def)

lemma clamp_small: "n < 2 ^ LENGTH('a) \<Longrightarrow> clamp n = (word_of_nat n :: 'a::len word)"
  by (simp add: clamp_def min_absorb1)

lemma clamp_1: "clamp (Suc 0) = (1 :: 'a::len word)"
  using clamp_unat [of "1 :: 'a word"] by simp

lemma clamp_Suc: "clamp (Suc n) = saturating_add (clamp n) 1"
  using clamp_add [of n 1] by (simp add: clamp_1)

lemma saturating_add_zero [simp]:
  "saturating_add a 0 = a"
  "saturating_add 0 a = a"
  for a :: "'a::len word"
  using unsigned_less [of a, where ?'a = nat] by (simp_all add: saturating_add_def)

subsection \<open>Lists\<close>

lemma take_join:
  "take m xs @ take n (drop m xs) = take (m + n) xs"
  "take m xs @ take n (drop m xs) @ ys = take (m + n) xs @ ys"
  by (simp_all add: take_add)

lemma take_drop_join: "i + m = j \<Longrightarrow> take m (drop i xs) @ drop j xs = drop i xs"
  by (metis add.commute append_take_drop_id drop_drop)

text \<open>Positions stay numerals: no rewriting of \<open>2 + n\<close> to successors.\<close>

declare add_2_eq_Suc [simp del] add_2_eq_Suc' [simp del]

lemma nth_list_update_any: "j < length xs \<Longrightarrow> xs[i := x] ! j = (if i = j then x else xs ! j)"
  by (cases "i = j") simp_all

lemma last_in_butlast_set:
  "xs \<noteq> [] \<Longrightarrow> set xs = insert (last xs) (set (butlast xs))"
  by (induction xs) auto

lemma distinct_last_notin_butlast:
  "xs \<noteq> [] \<Longrightarrow> distinct xs \<Longrightarrow> last xs \<notin> set (butlast xs)"
  by (metis append_butlast_last_id distinct_append not_distinct_conv_prefix)

text \<open>A loop that appends, and splitting at the first separator.\<close>

lemma fold_append_concat: "fold (\<lambda>x out. out @ f x) xs out = out @ concat (map f xs)"
  by (induction xs arbitrary: out) simp_all

lemma split_first:
  "c \<notin> set a \<Longrightarrow> c \<notin> set a' \<Longrightarrow> a @ c # b = a' @ c # b' \<longleftrightarrow> a = a' \<and> b = b'"
proof (induction a arbitrary: a')
  case Nil
  then show ?case by (cases a') auto
next
  case (Cons x a)
  then show ?case by (cases a') auto
qed

lemma concat_terminated_inj:
  assumes "list_all (\<lambda>l. c \<notin> set l) xs" "list_all (\<lambda>l. c \<notin> set l) ys"
    "concat (map (\<lambda>l. l @ [c]) xs) = concat (map (\<lambda>l. l @ [c]) ys)"
  shows "xs = ys"
  using assms
proof (induction xs arbitrary: ys)
  case Nil
  then show ?case by (cases ys) simp_all
next
  case (Cons x xs)
  then obtain y ys' where ys: "ys = y # ys'" by (cases ys) simp_all
  have "x @ c # concat (map (\<lambda>l. l @ [c]) xs) = y @ c # concat (map (\<lambda>l. l @ [c]) ys')"
    using Cons.prems(3) by (simp add: ys)
  moreover have "c \<notin> set x" "c \<notin> set y" using Cons.prems by (simp_all add: ys)
  ultimately have "x = y" "concat (map (\<lambda>l. l @ [c]) xs) = concat (map (\<lambda>l. l @ [c]) ys')"
    using split_first [of c x y] by blast+
  then show ?case using Cons.IH [of ys'] Cons.prems by (simp add: ys)
qed

end
