(* ===== verification/Wire.thy ===== *)
theory Wire
  imports Prelude
begin

section \<open>Little-endian bytes, the bounds-checked reader, and the body contract\<close>

text \<open>
  The bottom of \<open>graftx-protocol\<close>: the error type \<open>ProtocolError\<close>, the integer
  encodings \<open>to_le_bytes\<close> and \<open>from_le_bytes\<close> of the standard library, the private
  \<open>Reader\<close> over a byte slice, and the interface every request and response body of
  the crate offers: \<open>encode\<close>, which appends to a buffer, and \<open>decode\<close>, which reads
  the front of one.

  The locale \<open>wire_body\<close> states that interface's laws once. Each message type
  of the \<open>*_Wire\<close> theories is an interpretation of it, and what its context
  proves (round trip, injectivity, exact size, truncation) is then a fact about that
  message's own encoder and decoder.
\<close>

subsection \<open>Errors\<close>

datatype protocol_error =
    UnexpectedEof
  | UnknownOpcode u32
  | BadKind u16
  | BadVersion u16 u16
  | FrameTooLarge u32
  | BodyLenMismatch u32 nat

type_synonym 'a proto_result = "protocol_error + 'a"

subsection \<open>Integers as little-endian bytes\<close>

fun to_le :: "nat \<Rightarrow> 'a::len word \<Rightarrow> bytes" where
  "to_le 0 w = []"
| "to_le (Suc n) w = ucast w # to_le n (drop_bit 8 w)"

fun from_le :: "bytes \<Rightarrow> 'a::len word" where
  "from_le [] = 0"
| "from_le (b # bs) = ucast b OR push_bit 8 (from_le bs)"

definition u16_to_le_bytes :: "u16 \<Rightarrow> bytes" where
  "u16_to_le_bytes w = to_le 2 w"

definition u32_to_le_bytes :: "u32 \<Rightarrow> bytes" where
  "u32_to_le_bytes w = to_le 4 w"

definition u64_to_le_bytes :: "u64 \<Rightarrow> bytes" where
  "u64_to_le_bytes w = to_le 8 w"

definition u16_from_le_bytes :: "bytes \<Rightarrow> u16" where
  "u16_from_le_bytes bs = from_le bs"

definition u32_from_le_bytes :: "bytes \<Rightarrow> u32" where
  "u32_from_le_bytes bs = from_le bs"

definition u64_from_le_bytes :: "bytes \<Rightarrow> u64" where
  "u64_from_le_bytes bs = from_le bs"

lemma length_to_le [simp]: "length (to_le n w) = n"
  by (induction n arbitrary: w) simp_all

lemma from_le_to_le: "from_le (to_le n w) = take_bit (8 * n) w"
proof (induction n arbitrary: w)
  case 0
  then show ?case by simp
next
  case (Suc n)
  show ?case
    by (rule bit_word_eqI) (auto simp: Suc bit_simps)
qed

lemma ucast_low_byte:
  "8 \<le> LENGTH('a) \<Longrightarrow> (ucast (ucast b OR push_bit 8 v :: 'a::len word) :: u8) = b"
  by (rule bit_word_eqI) (auto simp: bit_simps)

lemma to_le_cong:
  "(\<And>i. i < 8 * n \<Longrightarrow> bit v i = bit w i) \<Longrightarrow> to_le n v = to_le n w"
proof (induction n arbitrary: v w)
  case 0
  then show ?case by simp
next
  case (Suc n)
  have "(ucast v :: u8) = ucast w"
    by (rule bit_word_eqI) (auto simp: bit_simps Suc.prems dest: bit_imp_le_length)
  moreover have "to_le n (drop_bit 8 v) = to_le n (drop_bit 8 w)"
    by (rule Suc.IH) (simp add: bit_simps Suc.prems)
  ultimately show ?case by simp
qed

lemma to_le_from_le:
  "8 * length bs \<le> LENGTH('a) \<Longrightarrow> to_le (length bs) (from_le bs :: 'a::len word) = bs"
proof (induction bs)
  case Nil
  then show ?case by simp
next
  case (Cons b bs)
  have tail: "to_le n (drop_bit 8 (ucast b) OR drop_bit 8 (push_bit 8 v)) = to_le n v"
    if "8 * Suc n \<le> LENGTH('a)" for n and v :: "'a word"
    by (rule to_le_cong) (use that in \<open>auto simp: bit_simps dest: bit_imp_le_length\<close>)
  show ?case using Cons
    by (simp add: ucast_low_byte tail)
qed

lemma length_int_to_le_bytes [simp]:
  "length (u16_to_le_bytes a) = 2"
  "length (u32_to_le_bytes b) = 4"
  "length (u64_to_le_bytes c) = 8"
  by (simp_all add: u16_to_le_bytes_def u32_to_le_bytes_def u64_to_le_bytes_def)

lemma from_le_bytes_to_le_bytes [simp]:
  "u16_from_le_bytes (u16_to_le_bytes a) = a"
  "u32_from_le_bytes (u32_to_le_bytes b) = b"
  "u64_from_le_bytes (u64_to_le_bytes c) = c"
  by (simp_all add: u16_to_le_bytes_def u32_to_le_bytes_def u64_to_le_bytes_def
      u16_from_le_bytes_def u32_from_le_bytes_def u64_from_le_bytes_def
      from_le_to_le take_bit_word_eq_self)

lemma to_le_bytes_from_le_bytes:
  "length bs = 2 \<Longrightarrow> u16_to_le_bytes (u16_from_le_bytes bs) = bs"
  "length bs = 4 \<Longrightarrow> u32_to_le_bytes (u32_from_le_bytes bs) = bs"
  "length bs = 8 \<Longrightarrow> u64_to_le_bytes (u64_from_le_bytes bs) = bs"
  using to_le_from_le [of bs, where 'a = 16] to_le_from_le [of bs, where 'a = 32]
    to_le_from_le [of bs, where 'a = 64]
  by (simp_all add: u16_to_le_bytes_def u32_to_le_bytes_def u64_to_le_bytes_def
      u16_from_le_bytes_def u32_from_le_bytes_def u64_from_le_bytes_def)

subsection \<open>The reader\<close>

text \<open>
  \<open>Reader\<close>: the buffer and the position of the next unread byte. Each method takes the
  reader and returns the value with the moved reader, or the error; an error ends the
  decode (every call site uses \<open>?\<close>), so the reader is not returned with it.
\<close>

record reader =
  reader_buf :: bytes
  reader_pos :: nat

type_synonym 'a reading = "reader \<Rightarrow> ('a \<times> reader) proto_result"

definition reader_new :: "bytes \<Rightarrow> reader" where
  "reader_new buf = \<lparr>reader_buf = buf, reader_pos = 0\<rparr>"

definition reader_arr :: "nat \<Rightarrow> bytes reading" where
  "reader_arr n r =
     (case checked_add (reader_pos r) n of
        None \<Rightarrow> Inl UnexpectedEof
      | Some endpos \<Rightarrow>
          (if endpos \<le> length (reader_buf r)
           then Inr (take n (drop (reader_pos r) (reader_buf r)), r\<lparr>reader_pos := endpos\<rparr>)
           else Inl UnexpectedEof))"

text \<open>Sequencing of reads, and the end of a decode.\<close>

definition read_bind :: "'a reading \<Rightarrow> ('a \<Rightarrow> 'b reading) \<Rightarrow> 'b reading" where
  "read_bind m f r = res_bind (m r) (\<lambda>(a, r'). f a r')"

definition read_ok :: "'a \<Rightarrow> 'a reading" where
  "read_ok a r = Inr (a, r)"

definition read_run :: "'a reading \<Rightarrow> bytes \<Rightarrow> 'a proto_result" where
  "read_run m buf = res_bind (m (reader_new buf)) (\<lambda>(a, _). Inr a)"

definition reader_u16 :: "u16 reading" where
  "reader_u16 = read_bind (reader_arr 2) (\<lambda>bs. read_ok (u16_from_le_bytes bs))"

definition reader_u32 :: "u32 reading" where
  "reader_u32 = read_bind (reader_arr 4) (\<lambda>bs. read_ok (u32_from_le_bytes bs))"

definition reader_u64 :: "u64 reading" where
  "reader_u64 = read_bind (reader_arr 8) (\<lambda>bs. read_ok (u64_from_le_bytes bs))"

text \<open>The loop \<open>for _ in 0..count { v.push(read()?) }\<close>.\<close>

fun read_many :: "nat \<Rightarrow> 'a reading \<Rightarrow> 'a list reading" where
  "read_many 0 m = read_ok []"
| "read_many (Suc n) m = read_bind m (\<lambda>a. read_bind (read_many n m) (\<lambda>as. read_ok (a # as)))"

lemma reader_arr_at:
  "p + n \<le> usize_max \<Longrightarrow>
   reader_arr n \<lparr>reader_buf = buf, reader_pos = p\<rparr> =
     (if p + n \<le> length buf
      then Inr (take n (drop p buf), \<lparr>reader_buf = buf, reader_pos = p + n\<rparr>)
      else Inl UnexpectedEof)"
  by (simp add: reader_arr_def)

lemma read_int_at:
  "p + 2 \<le> usize_max \<Longrightarrow> read_bind reader_u16 f16 \<lparr>reader_buf = buf, reader_pos = p\<rparr> =
     (if p + 2 \<le> length buf
      then f16 (u16_from_le_bytes (take 2 (drop p buf))) \<lparr>reader_buf = buf, reader_pos = p + 2\<rparr>
      else Inl UnexpectedEof)"
  "p + 4 \<le> usize_max \<Longrightarrow> read_bind reader_u32 f32 \<lparr>reader_buf = buf, reader_pos = p\<rparr> =
     (if p + 4 \<le> length buf
      then f32 (u32_from_le_bytes (take 4 (drop p buf))) \<lparr>reader_buf = buf, reader_pos = p + 4\<rparr>
      else Inl UnexpectedEof)"
  "p + 8 \<le> usize_max \<Longrightarrow> read_bind reader_u64 f64 \<lparr>reader_buf = buf, reader_pos = p\<rparr> =
     (if p + 8 \<le> length buf
      then f64 (u64_from_le_bytes (take 8 (drop p buf))) \<lparr>reader_buf = buf, reader_pos = p + 8\<rparr>
      else Inl UnexpectedEof)"
  by (simp_all add: reader_u16_def reader_u32_def reader_u64_def read_bind_def read_ok_def
      reader_arr_at)

lemma read_ok_at [simp]: "read_ok a r = Inr (a, r)"
  by (simp add: read_ok_def)

lemma read_run_new: "read_run m buf =
    res_bind (m \<lparr>reader_buf = buf, reader_pos = 0\<rparr>) (\<lambda>(a, _). Inr a)"
  by (simp add: read_run_def reader_new_def)

text \<open>What the decode of a fixed layout unfolds to.\<close>

lemmas read_simps = read_run_new read_int_at usize_max_def

subsection \<open>The contract of a request or response body\<close>

text \<open>
  What a body of fixed width promises: encoding appends exactly \<open>width\<close> bytes, decoding reads the
  value back whatever follows it, a shorter buffer is \<open>UnexpectedEof\<close>, and a buffer decodes to a
  message exactly when it begins with that message's encoding.
\<close>

definition body_contract :: "('a \<Rightarrow> bytes \<Rightarrow> bytes) \<Rightarrow> (bytes \<Rightarrow> 'a proto_result) \<Rightarrow> nat \<Rightarrow> bool" where
  "body_contract encode decode width \<longleftrightarrow>
     (\<forall>x out. encode x out = out @ encode x [] \<and> length (encode x []) = width) \<and>
     (\<forall>x rest. decode (encode x [] @ rest) = Inr x) \<and>
     (\<forall>buf. length buf < width \<longrightarrow> decode buf = Inl UnexpectedEof) \<and>
     (\<forall>buf x. decode buf = Inr x \<longleftrightarrow> (\<exists>rest. buf = encode x [] @ rest))"

locale wire_body =
  fixes encode :: "'a \<Rightarrow> bytes \<Rightarrow> bytes"
    and decode :: "bytes \<Rightarrow> 'a proto_result"
    and width :: nat
  assumes encode_append: "encode x out = out @ encode x []"
    and encode_width: "length (encode x []) = width"
    and decode_encode: "decode (encode x [] @ rest) = Inr x"
    and decode_short: "length buf < width \<Longrightarrow> decode buf = Inl UnexpectedEof"
    and decode_enough: "width \<le> length buf \<Longrightarrow>
        \<exists>x. decode buf = Inr x \<and> encode x [] = take width buf"
begin

lemma decode_roundtrip [wire_eval]: "decode (encode x []) = Inr x"
  using decode_encode [of x "[]"] by simp

lemmas decode_eval [wire_eval] = encode_width decode_short

lemma encode_inj: "encode x [] = encode y [] \<Longrightarrow> x = y"
  by (metis decode_roundtrip sum.inject(2))

lemma decode_prefix: "width \<le> length buf \<Longrightarrow> decode buf = decode (take width buf)"
proof -
  assume enough: "width \<le> length buf"
  then obtain x where x: "decode buf = Inr x" "encode x [] = take width buf"
    using decode_enough by blast
  show ?thesis
    using x decode_roundtrip [of x] by simp
qed

lemma decode_canonical: "decode buf = Inr x \<Longrightarrow> encode x [] = take width buf"
  using decode_enough [of buf] decode_short [of buf] by (cases "width \<le> length buf") auto

lemma decode_ok_iff: "is_ok (decode buf) \<longleftrightarrow> width \<le> length buf"
  using decode_enough [of buf] decode_short [of buf] by (cases "width \<le> length buf") auto

lemma decode_error: "decode buf = Inl e \<Longrightarrow> e = UnexpectedEof \<and> length buf < width"
  using decode_enough [of buf] decode_short [of buf] by (cases "width \<le> length buf") auto

lemma decode_cases:
  "decode buf = Inl UnexpectedEof \<or> (\<exists>x. decode buf = Inr x)"
  using decode_enough [of buf] decode_short [of buf] by (cases "width \<le> length buf") auto

lemma decode_Inr_iff:
  "decode buf = Inr x \<longleftrightarrow> (\<exists>rest. buf = encode x [] @ rest)"
proof
  assume "decode buf = Inr x"
  then have "encode x [] = take width buf" by (rule decode_canonical)
  then have "buf = encode x [] @ drop width buf" by simp
  then show "\<exists>rest. buf = encode x [] @ rest" ..
next
  assume "\<exists>rest. buf = encode x [] @ rest"
  then show "decode buf = Inr x" using decode_encode by blast
qed

lemma contract: "body_contract encode decode width"
  unfolding body_contract_def using encode_append encode_width decode_encode decode_short decode_Inr_iff by blast

end

end
