(* ===== verification/Protocol.thy ===== *)
theory Protocol
  imports Wire
begin

section \<open>The wire protocol: opcodes, handles, frame header, handshake\<close>

text \<open>
  \<open>crates/graftx-protocol/src/lib.rs\<close> without the per-API bodies: the protocol
  constants, the opcode scheme and every opcode constant, the 64-bit \<open>Handle\<close>, the
  28-byte frame header with its codec, the two handshake bodies, and
  \<open>encode_frame\<close> / \<open>decode_frame\<close>. The header, \<open>Hello\<close> and \<open>Welcome\<close> are
  interpretations of \<open>wire_body\<close>, except that the header decoder rejects an unknown
  frame kind.
\<close>

definition PROTOCOL_MAJOR :: u16 where
  "PROTOCOL_MAJOR = 0"

definition PROTOCOL_MINOR :: u16 where
  "PROTOCOL_MINOR = 0"

definition DEFAULT_MAX_FRAME_BODY :: u32 where
  "DEFAULT_MAX_FRAME_BODY = push_bit 20 1"

subsection \<open>API namespaces and opcodes\<close>

datatype api_id =
    Core | Vulkan | OpenGl | Cuda | OpenCl | Hip | LevelZero | Video | WebGpu | OptiX | Sycl | Amf

text \<open>\<open>api as u8\<close>: the discriminant.\<close>

fun api_id_u8 :: "api_id \<Rightarrow> u8" where
  "api_id_u8 Core = 0x00"
| "api_id_u8 Vulkan = 0x01"
| "api_id_u8 OpenGl = 0x02"
| "api_id_u8 Cuda = 0x03"
| "api_id_u8 OpenCl = 0x04"
| "api_id_u8 Hip = 0x05"
| "api_id_u8 LevelZero = 0x06"
| "api_id_u8 Video = 0x07"
| "api_id_u8 WebGpu = 0x08"
| "api_id_u8 OptiX = 0x09"
| "api_id_u8 Sycl = 0x0A"
| "api_id_u8 Amf = 0x0B"

text \<open>Every \<open>api_id\<close> by enumeration, so that statements over all of them compute.\<close>

instantiation api_id :: enum
begin

definition enum_api_id :: "api_id list" where
  "enum_api_id = [Core, Vulkan, OpenGl, Cuda, OpenCl, Hip, LevelZero, Video, WebGpu, OptiX, Sycl, Amf]"

definition enum_all_api_id :: "(api_id \<Rightarrow> bool) \<Rightarrow> bool" where
  "enum_all_api_id P = list_all P enum_class.enum"

definition enum_ex_api_id :: "(api_id \<Rightarrow> bool) \<Rightarrow> bool" where
  "enum_ex_api_id P = list_ex P enum_class.enum"

instance
proof
  show univ: "(UNIV :: api_id set) = set enum_class.enum"
  proof (rule set_eqI)
    fix a :: api_id
    show "a \<in> UNIV \<longleftrightarrow> a \<in> set enum_class.enum"
      by (cases a) (simp_all add: enum_api_id_def)
  qed
  show "distinct (enum_class.enum :: api_id list)"
    by (simp add: enum_api_id_def)
  show "enum_class.enum_all P \<longleftrightarrow> Ball UNIV P" for P :: "api_id \<Rightarrow> bool"
    using univ by (auto simp: enum_all_api_id_def list_all_iff)
  show "enum_class.enum_ex P \<longleftrightarrow> Bex UNIV P" for P :: "api_id \<Rightarrow> bool"
    using univ by (auto simp: enum_ex_api_id_def list_ex_iff)
qed

end

lemma api_id_u8_inj: "api_id_u8 a = api_id_u8 b \<Longrightarrow> a = b"
  by (cases a; cases b) simp_all

definition opcode :: "api_id \<Rightarrow> u32 \<Rightarrow> u32" where
  "opcode api call = push_bit 24 (ucast (api_id_u8 api)) OR (call AND 0x00FFFFFF)"

definition opcode_api :: "u32 \<Rightarrow> u8" where
  "opcode_api op = ucast (drop_bit 24 op)"

definition opcode_call :: "u32 \<Rightarrow> u32" where
  "opcode_call op = op AND 0x00FFFFFF"

lemma low24_mask: "(0x00FFFFFF :: u32) = mask 24"
  by (simp add: mask_eq_exp_minus_1)

lemma opcode_api_opcode: "opcode_api (opcode api call) = api_id_u8 api"
  by (rule bit_word_eqI)
    (auto simp: opcode_api_def opcode_def low24_mask bit_simps dest: bit_imp_le_length)

lemma opcode_call_opcode: "opcode_call (opcode api call) = call AND 0x00FFFFFF"
  by (rule bit_word_eqI) (auto simp: opcode_call_def opcode_def low24_mask bit_simps)

lemma opcode_split:
  "op = push_bit 24 (ucast (opcode_api op)) OR opcode_call op"
  by (rule bit_word_eqI)
    (auto simp: opcode_api_def opcode_call_def low24_mask bit_simps dest: bit_imp_le_length)

lemma opcode_eqI:
  "opcode_api a = opcode_api b \<Longrightarrow> opcode_call a = opcode_call b \<Longrightarrow> a = b"
  by (metis opcode_split)

text \<open>\<open>core_op\<close>\<close>

definition core_op_HELLO :: u32 where
  [op_defs]: "core_op_HELLO = opcode Core 0x000001"

definition core_op_WELCOME :: u32 where
  [op_defs]: "core_op_WELCOME = opcode Core 0x000002"

definition core_op_NOOP :: u32 where
  [op_defs]: "core_op_NOOP = opcode Core 0x000003"

lemma core_op_values:
  "core_op_HELLO = 0x00000001"
  "core_op_WELCOME = 0x00000002"
  "core_op_NOOP = 0x00000003"
  by (simp_all add: op_defs opcode_def)

text \<open>\<open>vk_op\<close>\<close>

definition vk_op_CREATE_INSTANCE :: u32 where
  [op_defs]: "vk_op_CREATE_INSTANCE = opcode Vulkan 0x0001"

definition vk_op_DESTROY_INSTANCE :: u32 where
  [op_defs]: "vk_op_DESTROY_INSTANCE = opcode Vulkan 0x0002"

definition vk_op_ENUMERATE_PHYSICAL_DEVICES :: u32 where
  [op_defs]: "vk_op_ENUMERATE_PHYSICAL_DEVICES = opcode Vulkan 0x0003"

definition vk_op_GET_PHYSICAL_DEVICE_PROPERTIES :: u32 where
  [op_defs]: "vk_op_GET_PHYSICAL_DEVICE_PROPERTIES = opcode Vulkan 0x0004"

definition vk_op_CREATE_DEVICE :: u32 where
  [op_defs]: "vk_op_CREATE_DEVICE = opcode Vulkan 0x0005"

definition vk_op_DESTROY_DEVICE :: u32 where
  [op_defs]: "vk_op_DESTROY_DEVICE = opcode Vulkan 0x0006"

definition vk_op_GET_DEVICE_QUEUE :: u32 where
  [op_defs]: "vk_op_GET_DEVICE_QUEUE = opcode Vulkan 0x0007"

definition vk_op_DEVICE_WAIT_IDLE :: u32 where
  [op_defs]: "vk_op_DEVICE_WAIT_IDLE = opcode Vulkan 0x0008"

definition vk_op_ALLOCATE_MEMORY :: u32 where
  [op_defs]: "vk_op_ALLOCATE_MEMORY = opcode Vulkan 0x0010"

definition vk_op_CREATE_BUFFER :: u32 where
  [op_defs]: "vk_op_CREATE_BUFFER = opcode Vulkan 0x0011"

definition vk_op_BIND_BUFFER_MEMORY :: u32 where
  [op_defs]: "vk_op_BIND_BUFFER_MEMORY = opcode Vulkan 0x0012"

definition vk_op_DESTROY_BUFFER :: u32 where
  [op_defs]: "vk_op_DESTROY_BUFFER = opcode Vulkan 0x0013"

definition vk_op_FREE_MEMORY :: u32 where
  [op_defs]: "vk_op_FREE_MEMORY = opcode Vulkan 0x0014"

definition vk_op_CREATE_COMMAND_POOL :: u32 where
  [op_defs]: "vk_op_CREATE_COMMAND_POOL = opcode Vulkan 0x0020"

definition vk_op_ALLOCATE_COMMAND_BUFFER :: u32 where
  [op_defs]: "vk_op_ALLOCATE_COMMAND_BUFFER = opcode Vulkan 0x0021"

definition vk_op_QUEUE_SUBMIT :: u32 where
  [op_defs]: "vk_op_QUEUE_SUBMIT = opcode Vulkan 0x0022"

definition vk_op_CMD_COPY_BUFFER :: u32 where
  [op_defs]: "vk_op_CMD_COPY_BUFFER = opcode Vulkan 0x0023"

definition vk_op_CMD_DRAW :: u32 where
  [op_defs]: "vk_op_CMD_DRAW = opcode Vulkan 0x0024"

definition vk_op_DESTROY_COMMAND_POOL :: u32 where
  [op_defs]: "vk_op_DESTROY_COMMAND_POOL = opcode Vulkan 0x0025"

lemma vk_op_values:
  "vk_op_CREATE_INSTANCE = 0x01000001"
  "vk_op_DESTROY_INSTANCE = 0x01000002"
  "vk_op_ENUMERATE_PHYSICAL_DEVICES = 0x01000003"
  "vk_op_GET_PHYSICAL_DEVICE_PROPERTIES = 0x01000004"
  "vk_op_CREATE_DEVICE = 0x01000005"
  "vk_op_DESTROY_DEVICE = 0x01000006"
  "vk_op_GET_DEVICE_QUEUE = 0x01000007"
  "vk_op_DEVICE_WAIT_IDLE = 0x01000008"
  "vk_op_ALLOCATE_MEMORY = 0x01000010"
  "vk_op_CREATE_BUFFER = 0x01000011"
  "vk_op_BIND_BUFFER_MEMORY = 0x01000012"
  "vk_op_DESTROY_BUFFER = 0x01000013"
  "vk_op_FREE_MEMORY = 0x01000014"
  "vk_op_CREATE_COMMAND_POOL = 0x01000020"
  "vk_op_ALLOCATE_COMMAND_BUFFER = 0x01000021"
  "vk_op_QUEUE_SUBMIT = 0x01000022"
  "vk_op_CMD_COPY_BUFFER = 0x01000023"
  "vk_op_CMD_DRAW = 0x01000024"
  "vk_op_DESTROY_COMMAND_POOL = 0x01000025"
  by (simp_all add: op_defs opcode_def)

text \<open>\<open>gl_op\<close>\<close>

definition gl_op_CREATE_CONTEXT :: u32 where
  [op_defs]: "gl_op_CREATE_CONTEXT = opcode OpenGl 0x0001"

definition gl_op_MAKE_CURRENT :: u32 where
  [op_defs]: "gl_op_MAKE_CURRENT = opcode OpenGl 0x0002"

definition gl_op_GEN_BUFFER :: u32 where
  [op_defs]: "gl_op_GEN_BUFFER = opcode OpenGl 0x0003"

definition gl_op_SWAP_BUFFERS :: u32 where
  [op_defs]: "gl_op_SWAP_BUFFERS = opcode OpenGl 0x0004"

definition gl_op_DELETE_BUFFER :: u32 where
  [op_defs]: "gl_op_DELETE_BUFFER = opcode OpenGl 0x0005"

lemma gl_op_values:
  "gl_op_CREATE_CONTEXT = 0x02000001"
  "gl_op_MAKE_CURRENT = 0x02000002"
  "gl_op_GEN_BUFFER = 0x02000003"
  "gl_op_SWAP_BUFFERS = 0x02000004"
  "gl_op_DELETE_BUFFER = 0x02000005"
  by (simp_all add: op_defs opcode_def)

text \<open>\<open>cuda_op\<close>\<close>

definition cuda_op_CTX_CREATE :: u32 where
  [op_defs]: "cuda_op_CTX_CREATE = opcode Cuda 0x0001"

definition cuda_op_MEM_ALLOC :: u32 where
  [op_defs]: "cuda_op_MEM_ALLOC = opcode Cuda 0x0002"

definition cuda_op_MEM_FREE :: u32 where
  [op_defs]: "cuda_op_MEM_FREE = opcode Cuda 0x0003"

definition cuda_op_LAUNCH_KERNEL :: u32 where
  [op_defs]: "cuda_op_LAUNCH_KERNEL = opcode Cuda 0x0010"

definition cuda_op_MEMCPY_HTOD :: u32 where
  [op_defs]: "cuda_op_MEMCPY_HTOD = opcode Cuda 0x0011"

definition cuda_op_MEMCPY_DTOH :: u32 where
  [op_defs]: "cuda_op_MEMCPY_DTOH = opcode Cuda 0x0012"

lemma cuda_op_values:
  "cuda_op_CTX_CREATE = 0x03000001"
  "cuda_op_MEM_ALLOC = 0x03000002"
  "cuda_op_MEM_FREE = 0x03000003"
  "cuda_op_LAUNCH_KERNEL = 0x03000010"
  "cuda_op_MEMCPY_HTOD = 0x03000011"
  "cuda_op_MEMCPY_DTOH = 0x03000012"
  by (simp_all add: op_defs opcode_def)

text \<open>\<open>hip_op\<close>\<close>

definition hip_op_MALLOC :: u32 where
  [op_defs]: "hip_op_MALLOC = opcode Hip 0x0001"

definition hip_op_FREE :: u32 where
  [op_defs]: "hip_op_FREE = opcode Hip 0x0002"

definition hip_op_STREAM_CREATE :: u32 where
  [op_defs]: "hip_op_STREAM_CREATE = opcode Hip 0x0003"

lemma hip_op_values:
  "hip_op_MALLOC = 0x05000001"
  "hip_op_FREE = 0x05000002"
  "hip_op_STREAM_CREATE = 0x05000003"
  by (simp_all add: op_defs opcode_def)

text \<open>\<open>cl_op\<close>\<close>

definition cl_op_CREATE_CONTEXT :: u32 where
  [op_defs]: "cl_op_CREATE_CONTEXT = opcode OpenCl 0x0001"

definition cl_op_CREATE_BUFFER :: u32 where
  [op_defs]: "cl_op_CREATE_BUFFER = opcode OpenCl 0x0002"

definition cl_op_RELEASE_BUFFER :: u32 where
  [op_defs]: "cl_op_RELEASE_BUFFER = opcode OpenCl 0x0003"

lemma cl_op_values:
  "cl_op_CREATE_CONTEXT = 0x04000001"
  "cl_op_CREATE_BUFFER = 0x04000002"
  "cl_op_RELEASE_BUFFER = 0x04000003"
  by (simp_all add: op_defs opcode_def)

text \<open>\<open>l0_op\<close>\<close>

definition l0_op_CONTEXT_CREATE :: u32 where
  [op_defs]: "l0_op_CONTEXT_CREATE = opcode LevelZero 0x0001"

definition l0_op_MEM_ALLOC_DEVICE :: u32 where
  [op_defs]: "l0_op_MEM_ALLOC_DEVICE = opcode LevelZero 0x0002"

definition l0_op_MEM_FREE :: u32 where
  [op_defs]: "l0_op_MEM_FREE = opcode LevelZero 0x0003"

lemma l0_op_values:
  "l0_op_CONTEXT_CREATE = 0x06000001"
  "l0_op_MEM_ALLOC_DEVICE = 0x06000002"
  "l0_op_MEM_FREE = 0x06000003"
  by (simp_all add: op_defs opcode_def)

text \<open>\<open>video_op\<close>\<close>

definition video_op_CREATE_DECODE_SESSION :: u32 where
  [op_defs]: "video_op_CREATE_DECODE_SESSION = opcode Video 0x0001"

definition video_op_DECODE_FRAME :: u32 where
  [op_defs]: "video_op_DECODE_FRAME = opcode Video 0x0002"

definition video_op_DESTROY_SESSION :: u32 where
  [op_defs]: "video_op_DESTROY_SESSION = opcode Video 0x0003"

lemma video_op_values:
  "video_op_CREATE_DECODE_SESSION = 0x07000001"
  "video_op_DECODE_FRAME = 0x07000002"
  "video_op_DESTROY_SESSION = 0x07000003"
  by (simp_all add: op_defs opcode_def)

text \<open>\<open>wgpu_op\<close>\<close>

definition wgpu_op_REQUEST_DEVICE :: u32 where
  [op_defs]: "wgpu_op_REQUEST_DEVICE = opcode WebGpu 0x0001"

definition wgpu_op_CREATE_BUFFER :: u32 where
  [op_defs]: "wgpu_op_CREATE_BUFFER = opcode WebGpu 0x0002"

definition wgpu_op_DESTROY_BUFFER :: u32 where
  [op_defs]: "wgpu_op_DESTROY_BUFFER = opcode WebGpu 0x0003"

lemma wgpu_op_values:
  "wgpu_op_REQUEST_DEVICE = 0x08000001"
  "wgpu_op_CREATE_BUFFER = 0x08000002"
  "wgpu_op_DESTROY_BUFFER = 0x08000003"
  by (simp_all add: op_defs opcode_def)

text \<open>\<open>optix_op\<close>\<close>

definition optix_op_CONTEXT_CREATE :: u32 where
  [op_defs]: "optix_op_CONTEXT_CREATE = opcode OptiX 0x0001"

definition optix_op_PIPELINE_CREATE :: u32 where
  [op_defs]: "optix_op_PIPELINE_CREATE = opcode OptiX 0x0002"

definition optix_op_DESTROY :: u32 where
  [op_defs]: "optix_op_DESTROY = opcode OptiX 0x0003"

lemma optix_op_values:
  "optix_op_CONTEXT_CREATE = 0x09000001"
  "optix_op_PIPELINE_CREATE = 0x09000002"
  "optix_op_DESTROY = 0x09000003"
  by (simp_all add: op_defs opcode_def)

text \<open>\<open>sycl_op\<close>\<close>

definition sycl_op_QUEUE_CREATE :: u32 where
  [op_defs]: "sycl_op_QUEUE_CREATE = opcode Sycl 0x0001"

definition sycl_op_MALLOC_DEVICE :: u32 where
  [op_defs]: "sycl_op_MALLOC_DEVICE = opcode Sycl 0x0002"

definition sycl_op_FREE :: u32 where
  [op_defs]: "sycl_op_FREE = opcode Sycl 0x0003"

lemma sycl_op_values:
  "sycl_op_QUEUE_CREATE = 0x0a000001"
  "sycl_op_MALLOC_DEVICE = 0x0a000002"
  "sycl_op_FREE = 0x0a000003"
  by (simp_all add: op_defs opcode_def)

text \<open>\<open>amf_op\<close>\<close>

definition amf_op_CREATE_ENCODER :: u32 where
  [op_defs]: "amf_op_CREATE_ENCODER = opcode Amf 0x0001"

definition amf_op_ENCODE_FRAME :: u32 where
  [op_defs]: "amf_op_ENCODE_FRAME = opcode Amf 0x0002"

definition amf_op_DESTROY_ENCODER :: u32 where
  [op_defs]: "amf_op_DESTROY_ENCODER = opcode Amf 0x0003"

lemma amf_op_values:
  "amf_op_CREATE_ENCODER = 0x0b000001"
  "amf_op_ENCODE_FRAME = 0x0b000002"
  "amf_op_DESTROY_ENCODER = 0x0b000003"
  by (simp_all add: op_defs opcode_def)
lemmas op_values =
  core_op_values vk_op_values gl_op_values cuda_op_values hip_op_values cl_op_values
  l0_op_values video_op_values wgpu_op_values optix_op_values sycl_op_values amf_op_values

subsection \<open>Handles\<close>

text \<open>\<open>struct Handle(u64)\<close>: kind in the top byte, 24 bits of generation, 32 bits of slot.\<close>

datatype Handle = Handle (handle_raw: u64)

definition KIND_BITS :: nat where
  "KIND_BITS = 8"

definition GENERATION_BITS :: nat where
  "GENERATION_BITS = 24"

definition SLOT_BITS :: nat where
  "SLOT_BITS = 32"

definition GENERATION_MAX :: u32 where
  "GENERATION_MAX = push_bit GENERATION_BITS 1 - 1"

definition handle_new :: "u8 \<Rightarrow> u32 \<Rightarrow> u32 \<Rightarrow> Handle" where
  "handle_new kind generation slot =
     (let k = push_bit (GENERATION_BITS + SLOT_BITS) (ucast kind);
          g = push_bit SLOT_BITS (ucast (generation AND GENERATION_MAX));
          s = ucast slot
      in Handle (k OR g OR s))"

definition handle_kind :: "Handle \<Rightarrow> u8" where
  "handle_kind h = ucast (drop_bit (GENERATION_BITS + SLOT_BITS) (handle_raw h))"

definition handle_generation :: "Handle \<Rightarrow> u32" where
  "handle_generation h = ucast (drop_bit SLOT_BITS (handle_raw h)) AND GENERATION_MAX"

definition handle_slot :: "Handle \<Rightarrow> u32" where
  "handle_slot h = ucast (handle_raw h)"

definition handle_from_raw :: "u64 \<Rightarrow> Handle" where
  "handle_from_raw raw = Handle raw"

lemmas handle_defs = handle_new_def handle_kind_def handle_generation_def handle_slot_def
  KIND_BITS_def GENERATION_BITS_def SLOT_BITS_def

lemma GENERATION_MAX_mask: "GENERATION_MAX = mask 24"
  by (simp add: GENERATION_MAX_def GENERATION_BITS_def mask_eq_exp_minus_1)

lemma GENERATION_MAX_value: "GENERATION_MAX = 0xFFFFFF"
  by (simp add: GENERATION_MAX_def GENERATION_BITS_def)

lemma handle_kind_new [simp]: "handle_kind (handle_new k g s) = k"
  by (rule bit_word_eqI)
    (auto simp: handle_defs GENERATION_MAX_mask bit_simps dest: bit_imp_le_length)

lemma handle_slot_new [simp]: "handle_slot (handle_new k g s) = s"
  by (rule bit_word_eqI)
    (auto simp: handle_defs GENERATION_MAX_mask bit_simps dest: bit_imp_le_length)

lemma handle_generation_new [simp]: "handle_generation (handle_new k g s) = g AND GENERATION_MAX"
  by (rule bit_word_eqI)
    (auto simp: handle_defs GENERATION_MAX_mask bit_simps dest: bit_imp_le_length)

lemma handle_new_parts: "handle_new (handle_kind h) (handle_generation h) (handle_slot h) = h"
proof (rule Handle.expand, rule bit_word_eqI)
  fix n assume "n < LENGTH(64)"
  then show "bit (handle_raw (handle_new (handle_kind h) (handle_generation h) (handle_slot h))) n
      \<longleftrightarrow> bit (handle_raw h) n"
    by (cases "n < 32"; cases "n < 56") (auto simp: handle_defs GENERATION_MAX_mask bit_simps)
qed

lemma and_GENERATION_MAX: "g \<le> GENERATION_MAX \<Longrightarrow> g AND GENERATION_MAX = g"
proof -
  assume "g \<le> GENERATION_MAX"
  then have "unat g < 2 ^ 24"
    by (simp add: GENERATION_MAX_value word_le_nat_alt)
  then have "unat (take_bit 24 g) = unat g"
    by (simp add: unsigned_take_bit_eq take_bit_nat_eq_self)
  then have "take_bit 24 g = g"
    by (rule unsigned_word_eqI)
  then show ?thesis
    by (simp add: GENERATION_MAX_mask flip: take_bit_eq_mask)
qed

lemma le_GENERATION_MAX: "g AND GENERATION_MAX \<le> GENERATION_MAX"
proof -
  have "unat (take_bit 24 g) < 2 ^ 24"
    using take_bit_nat_less_exp [of 24 "unat g"] by (simp add: unsigned_take_bit_eq)
  moreover have "g AND GENERATION_MAX = take_bit 24 g"
    by (simp add: GENERATION_MAX_mask take_bit_eq_mask)
  ultimately show ?thesis
    by (simp add: GENERATION_MAX_value word_le_nat_alt)
qed

lemma handle_generation_le: "handle_generation h \<le> GENERATION_MAX"
  by (simp add: handle_generation_def le_GENERATION_MAX)

lemma handle_from_raw_raw [simp]:
  "handle_from_raw (handle_raw h) = h"
  "handle_raw (handle_from_raw r) = r"
  by (simp_all add: handle_from_raw_def)

subsection \<open>Frame header\<close>

datatype FrameKind = Request | Response | Event

fun frame_kind_u16 :: "FrameKind \<Rightarrow> u16" where
  "frame_kind_u16 Request = 0"
| "frame_kind_u16 Response = 1"
| "frame_kind_u16 Event = 2"

definition frame_kind_from_u16 :: "u16 \<Rightarrow> FrameKind proto_result" where
  "frame_kind_from_u16 v =
     (if v = 0 then Inr Request
      else if v = 1 then Inr Response
      else if v = 2 then Inr Event
      else Inl (BadKind v))"

record FrameHeader =
  fh_version :: u16
  fh_flags :: u16
  fh_kind :: FrameKind
  fh_opcode :: u32
  fh_req_id :: u32
  fh_seq :: u64
  fh_body_len :: u32

definition HEADER_LEN :: nat where
  "HEADER_LEN = 28"

definition frame_header_encode :: "FrameHeader \<Rightarrow> bytes \<Rightarrow> bytes" where
  "frame_header_encode h out =
     out
     @ u16_to_le_bytes (fh_version h)
     @ u16_to_le_bytes (fh_flags h)
     @ u16_to_le_bytes (frame_kind_u16 (fh_kind h))
     @ u16_to_le_bytes 0
     @ u32_to_le_bytes (fh_opcode h)
     @ u32_to_le_bytes (fh_req_id h)
     @ u64_to_le_bytes (fh_seq h)
     @ u32_to_le_bytes (fh_body_len h)"

definition read_lift :: "'a proto_result \<Rightarrow> 'a reading" where
  "read_lift m r = res_bind m (\<lambda>a. Inr (a, r))"

definition frame_header_decode :: "bytes \<Rightarrow> FrameHeader proto_result" where
  "frame_header_decode buf = read_run
     (read_bind reader_u16 (\<lambda>version.
      read_bind reader_u16 (\<lambda>flags.
      read_bind reader_u16 (\<lambda>k.
      read_bind (read_lift (frame_kind_from_u16 k)) (\<lambda>kind.
      read_bind reader_u16 (\<lambda>reserved.
      read_bind reader_u32 (\<lambda>op.
      read_bind reader_u32 (\<lambda>req_id.
      read_bind reader_u64 (\<lambda>seq.
      read_bind reader_u32 (\<lambda>body_len.
      read_ok \<lparr>fh_version = version, fh_flags = flags, fh_kind = kind, fh_opcode = op,
               fh_req_id = req_id, fh_seq = seq, fh_body_len = body_len\<rparr>)))))))))) buf"

lemma read_lift_bind: "read_bind (read_lift m) f r = res_bind m (\<lambda>a. f a r)"
  by (cases m) (simp_all add: read_bind_def read_lift_def)

lemma frame_kind_from_u16_u16 [simp]: "frame_kind_from_u16 (frame_kind_u16 k) = Inr k"
  by (cases k) (simp_all add: frame_kind_from_u16_def)

lemma frame_kind_from_u16_Inr: "frame_kind_from_u16 v = Inr k \<longleftrightarrow> v = frame_kind_u16 k"
  by (cases k) (auto simp: frame_kind_from_u16_def)

lemma frame_kind_from_u16_Inl:
  "frame_kind_from_u16 v = Inl e \<longleftrightarrow> v \<notin> range frame_kind_u16 \<and> e = BadKind v"
proof -
  have "(UNIV :: FrameKind set) = {Request, Response, Event}"
  proof (intro set_eqI iffI)
    fix k :: FrameKind
    show "k \<in> {Request, Response, Event}" by (cases k) simp_all
  qed simp
  then have "range frame_kind_u16 = frame_kind_u16 ` {Request, Response, Event}"
    by (rule arg_cong)
  then have "range frame_kind_u16 = {0, 1, 2}"
    by (simp only: image_insert image_empty frame_kind_u16.simps)
  then show ?thesis
    by (auto simp: frame_kind_from_u16_def)
qed

lemma length_frame_header_encode [simp]:
  "length (frame_header_encode h out) = length out + HEADER_LEN"
  by (simp add: frame_header_encode_def HEADER_LEN_def)

lemma frame_header_decode_encode:
  "frame_header_decode (frame_header_encode h [] @ rest) = Inr h"
  by (simp add: frame_header_decode_def frame_header_encode_def read_simps read_lift_bind)

lemma frame_header_decode_empty_out:
  "frame_header_encode h out = out @ frame_header_encode h []"
  by (simp add: frame_header_encode_def)

text \<open>
  The decoder on any buffer: the header needs 28 bytes, of which the kind is checked as
  soon as it is read.
\<close>

lemma frame_header_decode_enough:
  "HEADER_LEN \<le> length buf \<Longrightarrow>
   frame_header_decode buf =
     res_bind (frame_kind_from_u16 (u16_from_le_bytes (take 2 (drop 4 buf)))) (\<lambda>kind. Inr
       \<lparr>fh_version = u16_from_le_bytes (take 2 buf),
        fh_flags = u16_from_le_bytes (take 2 (drop 2 buf)),
        fh_kind = kind,
        fh_opcode = u32_from_le_bytes (take 4 (drop 8 buf)),
        fh_req_id = u32_from_le_bytes (take 4 (drop 12 buf)),
        fh_seq = u64_from_le_bytes (take 8 (drop 16 buf)),
        fh_body_len = u32_from_le_bytes (take 4 (drop 24 buf))\<rparr>)"
  by (cases "frame_kind_from_u16 (u16_from_le_bytes (take 2 (drop 4 buf)))")
    (simp_all add: frame_header_decode_def read_simps read_lift_bind HEADER_LEN_def)

subsection \<open>Handshake bodies\<close>

record Hello =
  hello_proto_major :: u16
  hello_proto_minor :: u16
  hello_features :: u32
  hello_max_frame_body :: u32

definition hello_encode :: "Hello \<Rightarrow> bytes \<Rightarrow> bytes" where
  [wire_defs]: "hello_encode self out =
     out
     @ u16_to_le_bytes (hello_proto_major self)
     @ u16_to_le_bytes (hello_proto_minor self)
     @ u32_to_le_bytes (hello_features self)
     @ u32_to_le_bytes (hello_max_frame_body self)"

definition hello_decode :: "bytes \<Rightarrow> Hello proto_result" where
  [wire_defs]: "hello_decode buf = read_run
     (read_bind reader_u16 (\<lambda>proto_major.
      read_bind reader_u16 (\<lambda>proto_minor.
      read_bind reader_u32 (\<lambda>features.
      read_bind reader_u32 (\<lambda>max_frame_body.
      read_ok \<lparr>hello_proto_major = proto_major, hello_proto_minor = proto_minor,
               hello_features = features, hello_max_frame_body = max_frame_body\<rparr>))))) buf"

record Welcome =
  welcome_proto_major :: u16
  welcome_proto_minor :: u16
  welcome_features :: u32
  welcome_max_frame_body :: u32
  welcome_session_id :: u64

definition welcome_encode :: "Welcome \<Rightarrow> bytes \<Rightarrow> bytes" where
  [wire_defs]: "welcome_encode self out =
     out
     @ u16_to_le_bytes (welcome_proto_major self)
     @ u16_to_le_bytes (welcome_proto_minor self)
     @ u32_to_le_bytes (welcome_features self)
     @ u32_to_le_bytes (welcome_max_frame_body self)
     @ u64_to_le_bytes (welcome_session_id self)"

definition welcome_decode :: "bytes \<Rightarrow> Welcome proto_result" where
  [wire_defs]: "welcome_decode buf = read_run
     (read_bind reader_u16 (\<lambda>proto_major.
      read_bind reader_u16 (\<lambda>proto_minor.
      read_bind reader_u32 (\<lambda>features.
      read_bind reader_u32 (\<lambda>max_frame_body.
      read_bind reader_u64 (\<lambda>session_id.
      read_ok \<lparr>welcome_proto_major = proto_major, welcome_proto_minor = proto_minor,
               welcome_features = features, welcome_max_frame_body = max_frame_body,
               welcome_session_id = session_id\<rparr>)))))) buf"

lemmas body_proof = wire_defs read_simps to_le_bytes_from_le_bytes take_join

interpretation hello_body: wire_body hello_encode hello_decode 12
  by unfold_locales (simp_all add: body_proof)

interpretation welcome_body: wire_body welcome_encode welcome_decode 20
  by unfold_locales (simp_all add: body_proof)

subsection \<open>Frames\<close>

definition encode_frame :: "FrameHeader \<Rightarrow> bytes \<Rightarrow> bytes" where
  "encode_frame header body = frame_header_encode header [] @ body"

definition decode_frame :: "bytes \<Rightarrow> (FrameHeader \<times> bytes) proto_result" where
  "decode_frame buf =
     (if length buf < HEADER_LEN then Inl UnexpectedEof
      else res_bind (frame_header_decode buf) (\<lambda>header. Inr (header, drop HEADER_LEN buf)))"

lemma length_encode_frame [simp]: "length (encode_frame h body) = HEADER_LEN + length body"
  by (simp add: encode_frame_def)

lemma decode_encode_frame [simp]: "decode_frame (encode_frame h body) = Inr (h, body)"
  by (simp add: decode_frame_def encode_frame_def frame_header_decode_encode)

lemma decode_frame_Inr:
  "decode_frame buf = Inr (h, body) \<Longrightarrow> HEADER_LEN \<le> length buf \<and> body = drop HEADER_LEN buf"
  by (auto simp: decode_frame_def res_bind_eq_Inr split: if_splits)

end
