(* ===== verification/Vk_Wire.thy ===== *)
theory Vk_Wire
  imports Protocol
begin

section \<open>Vulkan request and response bodies\<close>

text \<open>
  The module \<open>vk\<close> of \<open>crates/graftx-protocol/src/lib.rs\<close>: one record per body,
  with its encoder and decoder, and each of them an interpretation of \<open>wire_body\<close> at the
  body's size in bytes. A handle travels as its raw 64-bit value.
\<close>

subsection \<open>\<open>vk::CreateInstanceRequest\<close>\<close>

record vk_CreateInstanceRequest =
  vk_CreateInstanceRequest_app_api_version :: u32

definition vk_CreateInstanceRequest_encode :: "vk_CreateInstanceRequest \<Rightarrow> bytes \<Rightarrow> bytes" where
  [wire_defs]: "vk_CreateInstanceRequest_encode self out =
     out
     @ u32_to_le_bytes (vk_CreateInstanceRequest_app_api_version self)"

definition vk_CreateInstanceRequest_decode :: "bytes \<Rightarrow> vk_CreateInstanceRequest proto_result" where
  [wire_defs]: "vk_CreateInstanceRequest_decode buf = read_run
     (read_bind reader_u32 (\<lambda>app_api_version.
      read_ok \<lparr>vk_CreateInstanceRequest_app_api_version = app_api_version\<rparr>)) buf"

interpretation vk_CreateInstanceRequest_body: wire_body vk_CreateInstanceRequest_encode vk_CreateInstanceRequest_decode 4
  by unfold_locales (simp_all add: vk_CreateInstanceRequest_encode_def vk_CreateInstanceRequest_decode_def body_proof)

subsection \<open>\<open>vk::CreateInstanceResponse\<close>\<close>

record vk_CreateInstanceResponse =
  vk_CreateInstanceResponse_instance :: Handle

definition vk_CreateInstanceResponse_encode :: "vk_CreateInstanceResponse \<Rightarrow> bytes \<Rightarrow> bytes" where
  [wire_defs]: "vk_CreateInstanceResponse_encode self out =
     out
     @ u64_to_le_bytes (handle_raw (vk_CreateInstanceResponse_instance self))"

definition vk_CreateInstanceResponse_decode :: "bytes \<Rightarrow> vk_CreateInstanceResponse proto_result" where
  [wire_defs]: "vk_CreateInstanceResponse_decode buf = read_run
     (read_bind reader_u64 (\<lambda>instance.
      read_ok \<lparr>vk_CreateInstanceResponse_instance = handle_from_raw instance\<rparr>)) buf"

interpretation vk_CreateInstanceResponse_body: wire_body vk_CreateInstanceResponse_encode vk_CreateInstanceResponse_decode 8
  by unfold_locales (simp_all add: vk_CreateInstanceResponse_encode_def vk_CreateInstanceResponse_decode_def body_proof)

subsection \<open>\<open>vk::EnumeratePhysicalDevicesRequest\<close>\<close>

record vk_EnumeratePhysicalDevicesRequest =
  vk_EnumeratePhysicalDevicesRequest_instance :: Handle

definition vk_EnumeratePhysicalDevicesRequest_encode :: "vk_EnumeratePhysicalDevicesRequest \<Rightarrow> bytes \<Rightarrow> bytes" where
  [wire_defs]: "vk_EnumeratePhysicalDevicesRequest_encode self out =
     out
     @ u64_to_le_bytes (handle_raw (vk_EnumeratePhysicalDevicesRequest_instance self))"

definition vk_EnumeratePhysicalDevicesRequest_decode :: "bytes \<Rightarrow> vk_EnumeratePhysicalDevicesRequest proto_result" where
  [wire_defs]: "vk_EnumeratePhysicalDevicesRequest_decode buf = read_run
     (read_bind reader_u64 (\<lambda>instance.
      read_ok \<lparr>vk_EnumeratePhysicalDevicesRequest_instance = handle_from_raw instance\<rparr>)) buf"

interpretation vk_EnumeratePhysicalDevicesRequest_body: wire_body vk_EnumeratePhysicalDevicesRequest_encode vk_EnumeratePhysicalDevicesRequest_decode 8
  by unfold_locales (simp_all add: vk_EnumeratePhysicalDevicesRequest_encode_def vk_EnumeratePhysicalDevicesRequest_decode_def body_proof)

subsection \<open>\<open>vk::EnumeratePhysicalDevicesResponse\<close>\<close>

record vk_EnumeratePhysicalDevicesResponse =
  vk_EnumeratePhysicalDevicesResponse_devices :: "Handle list"

definition vk_EnumeratePhysicalDevicesResponse_encode ::
    "vk_EnumeratePhysicalDevicesResponse \<Rightarrow> bytes \<Rightarrow> bytes" where
  [wire_defs]: "vk_EnumeratePhysicalDevicesResponse_encode self out =
     fold (\<lambda>device out. out @ u64_to_le_bytes (handle_raw device))
       (vk_EnumeratePhysicalDevicesResponse_devices self)
       (out @ u32_to_le_bytes (word_of_nat (length (vk_EnumeratePhysicalDevicesResponse_devices self))))"

definition vk_EnumeratePhysicalDevicesResponse_decode ::
    "bytes \<Rightarrow> vk_EnumeratePhysicalDevicesResponse proto_result" where
  [wire_defs]: "vk_EnumeratePhysicalDevicesResponse_decode buf = read_run
     (read_bind reader_u32 (\<lambda>count.
      read_bind (read_many (unat count) (read_bind reader_u64 (\<lambda>raw. read_ok (handle_from_raw raw)))) (\<lambda>devices.
      read_ok \<lparr>vk_EnumeratePhysicalDevicesResponse_devices = devices\<rparr>))) buf"

text \<open>
  This body is the one of variable size: a count and that many handles. It is no
  interpretation of \<open>wire_body\<close>; its round trip is proved from the loop's.
\<close>

lemma read_many_handles:
  "p + 8 * length hs \<le> usize_max \<Longrightarrow>
   drop p buf = concat (map (\<lambda>h. u64_to_le_bytes (handle_raw h)) hs) @ rest \<Longrightarrow>
   p \<le> length buf \<Longrightarrow>
   read_many (length hs) (read_bind reader_u64 (\<lambda>raw. read_ok (handle_from_raw raw)))
     \<lparr>reader_buf = buf, reader_pos = p\<rparr>
   = Inr (hs, \<lparr>reader_buf = buf, reader_pos = p + 8 * length hs\<rparr>)"
proof (induction hs arbitrary: p)
  case Nil
  then show ?case by simp
next
  case (Cons h hs)
  have len: "p + 8 \<le> length buf"
    using arg_cong [OF Cons.prems(2), of length] Cons.prems(3) by simp
  have "take 8 (drop p buf) = u64_to_le_bytes (handle_raw h)"
    by (simp add: Cons.prems(2))
  moreover have "drop (p + 8) buf = concat (map (\<lambda>h. u64_to_le_bytes (handle_raw h)) hs) @ rest"
    using arg_cong [OF Cons.prems(2), of "drop 8"] by (simp add: add.commute)
  ultimately show ?case
    using Cons.IH [of "p + 8"] Cons.prems(1) len
    by (simp add: read_bind_def [of "read_bind _ _"] read_bind_def [of "read_many _ _"] read_int_at)
qed

lemma vk_EnumeratePhysicalDevicesResponse_roundtrip:
  "length (vk_EnumeratePhysicalDevicesResponse_devices m) < 2 ^ 32 \<Longrightarrow>
   vk_EnumeratePhysicalDevicesResponse_decode
     (vk_EnumeratePhysicalDevicesResponse_encode m [] @ rest) = Inr m"
  using read_many_handles [of 4 "vk_EnumeratePhysicalDevicesResponse_devices m"
      "vk_EnumeratePhysicalDevicesResponse_encode m [] @ rest" rest]
  by (simp add: wire_defs read_run_new read_int_at usize_max_def fold_append_concat
      unsigned_of_nat take_bit_nat_eq_self read_bind_def [of "read_many _ _"])

text \<open>The decoder on any buffer: it needs the count and eight bytes for each announced handle.\<close>

lemma read_many_handles_any:
  "p + 8 * n \<le> usize_max \<Longrightarrow>
   read_many n (read_bind reader_u64 (\<lambda>raw. read_ok (handle_from_raw raw)))
     \<lparr>reader_buf = buf, reader_pos = p\<rparr>
   = (if n = 0 \<or> p + 8 * n \<le> length buf
      then Inr (map (\<lambda>i. handle_from_raw (u64_from_le_bytes (take 8 (drop (p + 8 * i) buf)))) [0..<n],
                \<lparr>reader_buf = buf, reader_pos = p + 8 * n\<rparr>)
      else Inl UnexpectedEof)"
proof (induction n arbitrary: p)
  case 0
  then show ?case by simp
next
  case (Suc n)
  have idx: "map f [0..<Suc n] = f 0 # map (\<lambda>i. f (Suc i)) [0..<n]" for f :: "nat \<Rightarrow> Handle"
    by (simp add: upt_conv_Cons map_Suc_upt [symmetric] comp_def del: upt_Suc)
  show ?case
    using Suc.IH [of "p + 8"] Suc.prems
    by (simp add: read_bind_def [of "read_bind _ _"] read_bind_def [of "read_many _ _"] read_int_at
        idx del: upt_Suc) (simp add: add.assoc add.commute add.left_commute)
qed

lemma vk_EnumeratePhysicalDevicesResponse_decode_short:
  "length buf < 4 \<or> length buf < 4 + 8 * unat (u32_from_le_bytes (take 4 buf)) \<Longrightarrow>
   vk_EnumeratePhysicalDevicesResponse_decode buf = Inl UnexpectedEof"
proof -
  assume short: "length buf < 4 \<or> length buf < 4 + 8 * unat (u32_from_le_bytes (take 4 buf))"
  have "unat (u32_from_le_bytes (take 4 buf)) < 2 ^ 32"
    using unsigned_less [of "u32_from_le_bytes (take 4 buf)", where ?'a = nat] by simp
  with short show ?thesis
    using read_many_handles_any [of 4 "unat (u32_from_le_bytes (take 4 buf))" buf]
    by (auto simp: wire_defs read_run_new read_int_at usize_max_def
        read_bind_def [of "read_many _ _"])
qed

subsection \<open>\<open>vk::CreateDeviceRequest\<close>\<close>

record vk_CreateDeviceRequest =
  vk_CreateDeviceRequest_physical_device :: Handle

definition vk_CreateDeviceRequest_encode :: "vk_CreateDeviceRequest \<Rightarrow> bytes \<Rightarrow> bytes" where
  [wire_defs]: "vk_CreateDeviceRequest_encode self out =
     out
     @ u64_to_le_bytes (handle_raw (vk_CreateDeviceRequest_physical_device self))"

definition vk_CreateDeviceRequest_decode :: "bytes \<Rightarrow> vk_CreateDeviceRequest proto_result" where
  [wire_defs]: "vk_CreateDeviceRequest_decode buf = read_run
     (read_bind reader_u64 (\<lambda>physical_device.
      read_ok \<lparr>vk_CreateDeviceRequest_physical_device = handle_from_raw physical_device\<rparr>)) buf"

interpretation vk_CreateDeviceRequest_body: wire_body vk_CreateDeviceRequest_encode vk_CreateDeviceRequest_decode 8
  by unfold_locales (simp_all add: vk_CreateDeviceRequest_encode_def vk_CreateDeviceRequest_decode_def body_proof)

subsection \<open>\<open>vk::CreateDeviceResponse\<close>\<close>

record vk_CreateDeviceResponse =
  vk_CreateDeviceResponse_device :: Handle

definition vk_CreateDeviceResponse_encode :: "vk_CreateDeviceResponse \<Rightarrow> bytes \<Rightarrow> bytes" where
  [wire_defs]: "vk_CreateDeviceResponse_encode self out =
     out
     @ u64_to_le_bytes (handle_raw (vk_CreateDeviceResponse_device self))"

definition vk_CreateDeviceResponse_decode :: "bytes \<Rightarrow> vk_CreateDeviceResponse proto_result" where
  [wire_defs]: "vk_CreateDeviceResponse_decode buf = read_run
     (read_bind reader_u64 (\<lambda>device.
      read_ok \<lparr>vk_CreateDeviceResponse_device = handle_from_raw device\<rparr>)) buf"

interpretation vk_CreateDeviceResponse_body: wire_body vk_CreateDeviceResponse_encode vk_CreateDeviceResponse_decode 8
  by unfold_locales (simp_all add: vk_CreateDeviceResponse_encode_def vk_CreateDeviceResponse_decode_def body_proof)

subsection \<open>\<open>vk::GetDeviceQueueRequest\<close>\<close>

record vk_GetDeviceQueueRequest =
  vk_GetDeviceQueueRequest_device :: Handle
  vk_GetDeviceQueueRequest_queue_family_index :: u32
  vk_GetDeviceQueueRequest_queue_index :: u32

definition vk_GetDeviceQueueRequest_encode :: "vk_GetDeviceQueueRequest \<Rightarrow> bytes \<Rightarrow> bytes" where
  [wire_defs]: "vk_GetDeviceQueueRequest_encode self out =
     out
     @ u64_to_le_bytes (handle_raw (vk_GetDeviceQueueRequest_device self))
     @ u32_to_le_bytes (vk_GetDeviceQueueRequest_queue_family_index self)
     @ u32_to_le_bytes (vk_GetDeviceQueueRequest_queue_index self)"

definition vk_GetDeviceQueueRequest_decode :: "bytes \<Rightarrow> vk_GetDeviceQueueRequest proto_result" where
  [wire_defs]: "vk_GetDeviceQueueRequest_decode buf = read_run
     (read_bind reader_u64 (\<lambda>device.
      read_bind reader_u32 (\<lambda>queue_family_index.
      read_bind reader_u32 (\<lambda>queue_index.
      read_ok \<lparr>vk_GetDeviceQueueRequest_device = handle_from_raw device,
               vk_GetDeviceQueueRequest_queue_family_index = queue_family_index,
               vk_GetDeviceQueueRequest_queue_index = queue_index\<rparr>)))) buf"

interpretation vk_GetDeviceQueueRequest_body: wire_body vk_GetDeviceQueueRequest_encode vk_GetDeviceQueueRequest_decode 16
  by unfold_locales (simp_all add: vk_GetDeviceQueueRequest_encode_def vk_GetDeviceQueueRequest_decode_def body_proof)

subsection \<open>\<open>vk::GetDeviceQueueResponse\<close>\<close>

record vk_GetDeviceQueueResponse =
  vk_GetDeviceQueueResponse_queue :: Handle

definition vk_GetDeviceQueueResponse_encode :: "vk_GetDeviceQueueResponse \<Rightarrow> bytes \<Rightarrow> bytes" where
  [wire_defs]: "vk_GetDeviceQueueResponse_encode self out =
     out
     @ u64_to_le_bytes (handle_raw (vk_GetDeviceQueueResponse_queue self))"

definition vk_GetDeviceQueueResponse_decode :: "bytes \<Rightarrow> vk_GetDeviceQueueResponse proto_result" where
  [wire_defs]: "vk_GetDeviceQueueResponse_decode buf = read_run
     (read_bind reader_u64 (\<lambda>queue.
      read_ok \<lparr>vk_GetDeviceQueueResponse_queue = handle_from_raw queue\<rparr>)) buf"

interpretation vk_GetDeviceQueueResponse_body: wire_body vk_GetDeviceQueueResponse_encode vk_GetDeviceQueueResponse_decode 8
  by unfold_locales (simp_all add: vk_GetDeviceQueueResponse_encode_def vk_GetDeviceQueueResponse_decode_def body_proof)

subsection \<open>\<open>vk::AllocateMemoryRequest\<close>\<close>

record vk_AllocateMemoryRequest =
  vk_AllocateMemoryRequest_device :: Handle
  vk_AllocateMemoryRequest_size :: u64

definition vk_AllocateMemoryRequest_encode :: "vk_AllocateMemoryRequest \<Rightarrow> bytes \<Rightarrow> bytes" where
  [wire_defs]: "vk_AllocateMemoryRequest_encode self out =
     out
     @ u64_to_le_bytes (handle_raw (vk_AllocateMemoryRequest_device self))
     @ u64_to_le_bytes (vk_AllocateMemoryRequest_size self)"

definition vk_AllocateMemoryRequest_decode :: "bytes \<Rightarrow> vk_AllocateMemoryRequest proto_result" where
  [wire_defs]: "vk_AllocateMemoryRequest_decode buf = read_run
     (read_bind reader_u64 (\<lambda>device.
      read_bind reader_u64 (\<lambda>size.
      read_ok \<lparr>vk_AllocateMemoryRequest_device = handle_from_raw device,
               vk_AllocateMemoryRequest_size = size\<rparr>))) buf"

interpretation vk_AllocateMemoryRequest_body: wire_body vk_AllocateMemoryRequest_encode vk_AllocateMemoryRequest_decode 16
  by unfold_locales (simp_all add: vk_AllocateMemoryRequest_encode_def vk_AllocateMemoryRequest_decode_def body_proof)

subsection \<open>\<open>vk::AllocateMemoryResponse\<close>\<close>

record vk_AllocateMemoryResponse =
  vk_AllocateMemoryResponse_memory :: Handle

definition vk_AllocateMemoryResponse_encode :: "vk_AllocateMemoryResponse \<Rightarrow> bytes \<Rightarrow> bytes" where
  [wire_defs]: "vk_AllocateMemoryResponse_encode self out =
     out
     @ u64_to_le_bytes (handle_raw (vk_AllocateMemoryResponse_memory self))"

definition vk_AllocateMemoryResponse_decode :: "bytes \<Rightarrow> vk_AllocateMemoryResponse proto_result" where
  [wire_defs]: "vk_AllocateMemoryResponse_decode buf = read_run
     (read_bind reader_u64 (\<lambda>memory.
      read_ok \<lparr>vk_AllocateMemoryResponse_memory = handle_from_raw memory\<rparr>)) buf"

interpretation vk_AllocateMemoryResponse_body: wire_body vk_AllocateMemoryResponse_encode vk_AllocateMemoryResponse_decode 8
  by unfold_locales (simp_all add: vk_AllocateMemoryResponse_encode_def vk_AllocateMemoryResponse_decode_def body_proof)

subsection \<open>\<open>vk::CreateBufferRequest\<close>\<close>

record vk_CreateBufferRequest =
  vk_CreateBufferRequest_device :: Handle
  vk_CreateBufferRequest_size :: u64
  vk_CreateBufferRequest_usage :: u32

definition vk_CreateBufferRequest_encode :: "vk_CreateBufferRequest \<Rightarrow> bytes \<Rightarrow> bytes" where
  [wire_defs]: "vk_CreateBufferRequest_encode self out =
     out
     @ u64_to_le_bytes (handle_raw (vk_CreateBufferRequest_device self))
     @ u64_to_le_bytes (vk_CreateBufferRequest_size self)
     @ u32_to_le_bytes (vk_CreateBufferRequest_usage self)"

definition vk_CreateBufferRequest_decode :: "bytes \<Rightarrow> vk_CreateBufferRequest proto_result" where
  [wire_defs]: "vk_CreateBufferRequest_decode buf = read_run
     (read_bind reader_u64 (\<lambda>device.
      read_bind reader_u64 (\<lambda>size.
      read_bind reader_u32 (\<lambda>usage.
      read_ok \<lparr>vk_CreateBufferRequest_device = handle_from_raw device,
               vk_CreateBufferRequest_size = size,
               vk_CreateBufferRequest_usage = usage\<rparr>)))) buf"

interpretation vk_CreateBufferRequest_body: wire_body vk_CreateBufferRequest_encode vk_CreateBufferRequest_decode 20
  by unfold_locales (simp_all add: vk_CreateBufferRequest_encode_def vk_CreateBufferRequest_decode_def body_proof)

subsection \<open>\<open>vk::CreateBufferResponse\<close>\<close>

record vk_CreateBufferResponse =
  vk_CreateBufferResponse_buffer :: Handle

definition vk_CreateBufferResponse_encode :: "vk_CreateBufferResponse \<Rightarrow> bytes \<Rightarrow> bytes" where
  [wire_defs]: "vk_CreateBufferResponse_encode self out =
     out
     @ u64_to_le_bytes (handle_raw (vk_CreateBufferResponse_buffer self))"

definition vk_CreateBufferResponse_decode :: "bytes \<Rightarrow> vk_CreateBufferResponse proto_result" where
  [wire_defs]: "vk_CreateBufferResponse_decode buf = read_run
     (read_bind reader_u64 (\<lambda>buffer.
      read_ok \<lparr>vk_CreateBufferResponse_buffer = handle_from_raw buffer\<rparr>)) buf"

interpretation vk_CreateBufferResponse_body: wire_body vk_CreateBufferResponse_encode vk_CreateBufferResponse_decode 8
  by unfold_locales (simp_all add: vk_CreateBufferResponse_encode_def vk_CreateBufferResponse_decode_def body_proof)

subsection \<open>\<open>vk::BindBufferMemoryRequest\<close>\<close>

record vk_BindBufferMemoryRequest =
  vk_BindBufferMemoryRequest_buffer :: Handle
  vk_BindBufferMemoryRequest_memory :: Handle
  vk_BindBufferMemoryRequest_offset :: u64

definition vk_BindBufferMemoryRequest_encode :: "vk_BindBufferMemoryRequest \<Rightarrow> bytes \<Rightarrow> bytes" where
  [wire_defs]: "vk_BindBufferMemoryRequest_encode self out =
     out
     @ u64_to_le_bytes (handle_raw (vk_BindBufferMemoryRequest_buffer self))
     @ u64_to_le_bytes (handle_raw (vk_BindBufferMemoryRequest_memory self))
     @ u64_to_le_bytes (vk_BindBufferMemoryRequest_offset self)"

definition vk_BindBufferMemoryRequest_decode :: "bytes \<Rightarrow> vk_BindBufferMemoryRequest proto_result" where
  [wire_defs]: "vk_BindBufferMemoryRequest_decode buf = read_run
     (read_bind reader_u64 (\<lambda>buffer.
      read_bind reader_u64 (\<lambda>memory.
      read_bind reader_u64 (\<lambda>offset.
      read_ok \<lparr>vk_BindBufferMemoryRequest_buffer = handle_from_raw buffer,
               vk_BindBufferMemoryRequest_memory = handle_from_raw memory,
               vk_BindBufferMemoryRequest_offset = offset\<rparr>)))) buf"

interpretation vk_BindBufferMemoryRequest_body: wire_body vk_BindBufferMemoryRequest_encode vk_BindBufferMemoryRequest_decode 24
  by unfold_locales (simp_all add: vk_BindBufferMemoryRequest_encode_def vk_BindBufferMemoryRequest_decode_def body_proof)

subsection \<open>\<open>vk::CreateCommandPoolRequest\<close>\<close>

record vk_CreateCommandPoolRequest =
  vk_CreateCommandPoolRequest_device :: Handle
  vk_CreateCommandPoolRequest_queue_family_index :: u32

definition vk_CreateCommandPoolRequest_encode :: "vk_CreateCommandPoolRequest \<Rightarrow> bytes \<Rightarrow> bytes" where
  [wire_defs]: "vk_CreateCommandPoolRequest_encode self out =
     out
     @ u64_to_le_bytes (handle_raw (vk_CreateCommandPoolRequest_device self))
     @ u32_to_le_bytes (vk_CreateCommandPoolRequest_queue_family_index self)"

definition vk_CreateCommandPoolRequest_decode :: "bytes \<Rightarrow> vk_CreateCommandPoolRequest proto_result" where
  [wire_defs]: "vk_CreateCommandPoolRequest_decode buf = read_run
     (read_bind reader_u64 (\<lambda>device.
      read_bind reader_u32 (\<lambda>queue_family_index.
      read_ok \<lparr>vk_CreateCommandPoolRequest_device = handle_from_raw device,
               vk_CreateCommandPoolRequest_queue_family_index = queue_family_index\<rparr>))) buf"

interpretation vk_CreateCommandPoolRequest_body: wire_body vk_CreateCommandPoolRequest_encode vk_CreateCommandPoolRequest_decode 12
  by unfold_locales (simp_all add: vk_CreateCommandPoolRequest_encode_def vk_CreateCommandPoolRequest_decode_def body_proof)

subsection \<open>\<open>vk::CreateCommandPoolResponse\<close>\<close>

record vk_CreateCommandPoolResponse =
  vk_CreateCommandPoolResponse_pool :: Handle

definition vk_CreateCommandPoolResponse_encode :: "vk_CreateCommandPoolResponse \<Rightarrow> bytes \<Rightarrow> bytes" where
  [wire_defs]: "vk_CreateCommandPoolResponse_encode self out =
     out
     @ u64_to_le_bytes (handle_raw (vk_CreateCommandPoolResponse_pool self))"

definition vk_CreateCommandPoolResponse_decode :: "bytes \<Rightarrow> vk_CreateCommandPoolResponse proto_result" where
  [wire_defs]: "vk_CreateCommandPoolResponse_decode buf = read_run
     (read_bind reader_u64 (\<lambda>pool.
      read_ok \<lparr>vk_CreateCommandPoolResponse_pool = handle_from_raw pool\<rparr>)) buf"

interpretation vk_CreateCommandPoolResponse_body: wire_body vk_CreateCommandPoolResponse_encode vk_CreateCommandPoolResponse_decode 8
  by unfold_locales (simp_all add: vk_CreateCommandPoolResponse_encode_def vk_CreateCommandPoolResponse_decode_def body_proof)

subsection \<open>\<open>vk::AllocateCommandBufferRequest\<close>\<close>

record vk_AllocateCommandBufferRequest =
  vk_AllocateCommandBufferRequest_pool :: Handle

definition vk_AllocateCommandBufferRequest_encode :: "vk_AllocateCommandBufferRequest \<Rightarrow> bytes \<Rightarrow> bytes" where
  [wire_defs]: "vk_AllocateCommandBufferRequest_encode self out =
     out
     @ u64_to_le_bytes (handle_raw (vk_AllocateCommandBufferRequest_pool self))"

definition vk_AllocateCommandBufferRequest_decode :: "bytes \<Rightarrow> vk_AllocateCommandBufferRequest proto_result" where
  [wire_defs]: "vk_AllocateCommandBufferRequest_decode buf = read_run
     (read_bind reader_u64 (\<lambda>pool.
      read_ok \<lparr>vk_AllocateCommandBufferRequest_pool = handle_from_raw pool\<rparr>)) buf"

interpretation vk_AllocateCommandBufferRequest_body: wire_body vk_AllocateCommandBufferRequest_encode vk_AllocateCommandBufferRequest_decode 8
  by unfold_locales (simp_all add: vk_AllocateCommandBufferRequest_encode_def vk_AllocateCommandBufferRequest_decode_def body_proof)

subsection \<open>\<open>vk::AllocateCommandBufferResponse\<close>\<close>

record vk_AllocateCommandBufferResponse =
  vk_AllocateCommandBufferResponse_command_buffer :: Handle

definition vk_AllocateCommandBufferResponse_encode :: "vk_AllocateCommandBufferResponse \<Rightarrow> bytes \<Rightarrow> bytes" where
  [wire_defs]: "vk_AllocateCommandBufferResponse_encode self out =
     out
     @ u64_to_le_bytes (handle_raw (vk_AllocateCommandBufferResponse_command_buffer self))"

definition vk_AllocateCommandBufferResponse_decode :: "bytes \<Rightarrow> vk_AllocateCommandBufferResponse proto_result" where
  [wire_defs]: "vk_AllocateCommandBufferResponse_decode buf = read_run
     (read_bind reader_u64 (\<lambda>command_buffer.
      read_ok \<lparr>vk_AllocateCommandBufferResponse_command_buffer = handle_from_raw command_buffer\<rparr>)) buf"

interpretation vk_AllocateCommandBufferResponse_body: wire_body vk_AllocateCommandBufferResponse_encode vk_AllocateCommandBufferResponse_decode 8
  by unfold_locales (simp_all add: vk_AllocateCommandBufferResponse_encode_def vk_AllocateCommandBufferResponse_decode_def body_proof)

subsection \<open>\<open>vk::QueueSubmitRequest\<close>\<close>

record vk_QueueSubmitRequest =
  vk_QueueSubmitRequest_queue :: Handle
  vk_QueueSubmitRequest_command_buffer :: Handle

definition vk_QueueSubmitRequest_encode :: "vk_QueueSubmitRequest \<Rightarrow> bytes \<Rightarrow> bytes" where
  [wire_defs]: "vk_QueueSubmitRequest_encode self out =
     out
     @ u64_to_le_bytes (handle_raw (vk_QueueSubmitRequest_queue self))
     @ u64_to_le_bytes (handle_raw (vk_QueueSubmitRequest_command_buffer self))"

definition vk_QueueSubmitRequest_decode :: "bytes \<Rightarrow> vk_QueueSubmitRequest proto_result" where
  [wire_defs]: "vk_QueueSubmitRequest_decode buf = read_run
     (read_bind reader_u64 (\<lambda>queue.
      read_bind reader_u64 (\<lambda>command_buffer.
      read_ok \<lparr>vk_QueueSubmitRequest_queue = handle_from_raw queue,
               vk_QueueSubmitRequest_command_buffer = handle_from_raw command_buffer\<rparr>))) buf"

interpretation vk_QueueSubmitRequest_body: wire_body vk_QueueSubmitRequest_encode vk_QueueSubmitRequest_decode 16
  by unfold_locales (simp_all add: vk_QueueSubmitRequest_encode_def vk_QueueSubmitRequest_decode_def body_proof)

subsection \<open>\<open>vk::CmdCopyBufferRequest\<close>\<close>

record vk_CmdCopyBufferRequest =
  vk_CmdCopyBufferRequest_command_buffer :: Handle
  vk_CmdCopyBufferRequest_src :: Handle
  vk_CmdCopyBufferRequest_dst :: Handle
  vk_CmdCopyBufferRequest_size :: u64

definition vk_CmdCopyBufferRequest_encode :: "vk_CmdCopyBufferRequest \<Rightarrow> bytes \<Rightarrow> bytes" where
  [wire_defs]: "vk_CmdCopyBufferRequest_encode self out =
     out
     @ u64_to_le_bytes (handle_raw (vk_CmdCopyBufferRequest_command_buffer self))
     @ u64_to_le_bytes (handle_raw (vk_CmdCopyBufferRequest_src self))
     @ u64_to_le_bytes (handle_raw (vk_CmdCopyBufferRequest_dst self))
     @ u64_to_le_bytes (vk_CmdCopyBufferRequest_size self)"

definition vk_CmdCopyBufferRequest_decode :: "bytes \<Rightarrow> vk_CmdCopyBufferRequest proto_result" where
  [wire_defs]: "vk_CmdCopyBufferRequest_decode buf = read_run
     (read_bind reader_u64 (\<lambda>command_buffer.
      read_bind reader_u64 (\<lambda>src.
      read_bind reader_u64 (\<lambda>dst.
      read_bind reader_u64 (\<lambda>size.
      read_ok \<lparr>vk_CmdCopyBufferRequest_command_buffer = handle_from_raw command_buffer,
               vk_CmdCopyBufferRequest_src = handle_from_raw src,
               vk_CmdCopyBufferRequest_dst = handle_from_raw dst,
               vk_CmdCopyBufferRequest_size = size\<rparr>))))) buf"

interpretation vk_CmdCopyBufferRequest_body: wire_body vk_CmdCopyBufferRequest_encode vk_CmdCopyBufferRequest_decode 32
  by unfold_locales (simp_all add: vk_CmdCopyBufferRequest_encode_def vk_CmdCopyBufferRequest_decode_def body_proof)

subsection \<open>\<open>vk::CmdDrawRequest\<close>\<close>

record vk_CmdDrawRequest =
  vk_CmdDrawRequest_command_buffer :: Handle
  vk_CmdDrawRequest_vertex_count :: u32
  vk_CmdDrawRequest_instance_count :: u32

definition vk_CmdDrawRequest_encode :: "vk_CmdDrawRequest \<Rightarrow> bytes \<Rightarrow> bytes" where
  [wire_defs]: "vk_CmdDrawRequest_encode self out =
     out
     @ u64_to_le_bytes (handle_raw (vk_CmdDrawRequest_command_buffer self))
     @ u32_to_le_bytes (vk_CmdDrawRequest_vertex_count self)
     @ u32_to_le_bytes (vk_CmdDrawRequest_instance_count self)"

definition vk_CmdDrawRequest_decode :: "bytes \<Rightarrow> vk_CmdDrawRequest proto_result" where
  [wire_defs]: "vk_CmdDrawRequest_decode buf = read_run
     (read_bind reader_u64 (\<lambda>command_buffer.
      read_bind reader_u32 (\<lambda>vertex_count.
      read_bind reader_u32 (\<lambda>instance_count.
      read_ok \<lparr>vk_CmdDrawRequest_command_buffer = handle_from_raw command_buffer,
               vk_CmdDrawRequest_vertex_count = vertex_count,
               vk_CmdDrawRequest_instance_count = instance_count\<rparr>)))) buf"

interpretation vk_CmdDrawRequest_body: wire_body vk_CmdDrawRequest_encode vk_CmdDrawRequest_decode 16
  by unfold_locales (simp_all add: vk_CmdDrawRequest_encode_def vk_CmdDrawRequest_decode_def body_proof)

subsection \<open>\<open>vk::DestroyBufferRequest\<close>\<close>

record vk_DestroyBufferRequest =
  vk_DestroyBufferRequest_buffer :: Handle

definition vk_DestroyBufferRequest_encode :: "vk_DestroyBufferRequest \<Rightarrow> bytes \<Rightarrow> bytes" where
  [wire_defs]: "vk_DestroyBufferRequest_encode self out =
     out
     @ u64_to_le_bytes (handle_raw (vk_DestroyBufferRequest_buffer self))"

definition vk_DestroyBufferRequest_decode :: "bytes \<Rightarrow> vk_DestroyBufferRequest proto_result" where
  [wire_defs]: "vk_DestroyBufferRequest_decode buf = read_run
     (read_bind reader_u64 (\<lambda>buffer.
      read_ok \<lparr>vk_DestroyBufferRequest_buffer = handle_from_raw buffer\<rparr>)) buf"

interpretation vk_DestroyBufferRequest_body: wire_body vk_DestroyBufferRequest_encode vk_DestroyBufferRequest_decode 8
  by unfold_locales (simp_all add: vk_DestroyBufferRequest_encode_def vk_DestroyBufferRequest_decode_def body_proof)

subsection \<open>\<open>vk::FreeMemoryRequest\<close>\<close>

record vk_FreeMemoryRequest =
  vk_FreeMemoryRequest_memory :: Handle

definition vk_FreeMemoryRequest_encode :: "vk_FreeMemoryRequest \<Rightarrow> bytes \<Rightarrow> bytes" where
  [wire_defs]: "vk_FreeMemoryRequest_encode self out =
     out
     @ u64_to_le_bytes (handle_raw (vk_FreeMemoryRequest_memory self))"

definition vk_FreeMemoryRequest_decode :: "bytes \<Rightarrow> vk_FreeMemoryRequest proto_result" where
  [wire_defs]: "vk_FreeMemoryRequest_decode buf = read_run
     (read_bind reader_u64 (\<lambda>memory.
      read_ok \<lparr>vk_FreeMemoryRequest_memory = handle_from_raw memory\<rparr>)) buf"

interpretation vk_FreeMemoryRequest_body: wire_body vk_FreeMemoryRequest_encode vk_FreeMemoryRequest_decode 8
  by unfold_locales (simp_all add: vk_FreeMemoryRequest_encode_def vk_FreeMemoryRequest_decode_def body_proof)

subsection \<open>\<open>vk::DestroyCommandPoolRequest\<close>\<close>

record vk_DestroyCommandPoolRequest =
  vk_DestroyCommandPoolRequest_pool :: Handle

definition vk_DestroyCommandPoolRequest_encode :: "vk_DestroyCommandPoolRequest \<Rightarrow> bytes \<Rightarrow> bytes" where
  [wire_defs]: "vk_DestroyCommandPoolRequest_encode self out =
     out
     @ u64_to_le_bytes (handle_raw (vk_DestroyCommandPoolRequest_pool self))"

definition vk_DestroyCommandPoolRequest_decode :: "bytes \<Rightarrow> vk_DestroyCommandPoolRequest proto_result" where
  [wire_defs]: "vk_DestroyCommandPoolRequest_decode buf = read_run
     (read_bind reader_u64 (\<lambda>pool.
      read_ok \<lparr>vk_DestroyCommandPoolRequest_pool = handle_from_raw pool\<rparr>)) buf"

interpretation vk_DestroyCommandPoolRequest_body: wire_body vk_DestroyCommandPoolRequest_encode vk_DestroyCommandPoolRequest_decode 8
  by unfold_locales (simp_all add: vk_DestroyCommandPoolRequest_encode_def vk_DestroyCommandPoolRequest_decode_def body_proof)

end
