(* ===== verification/Gl_Wire.thy ===== *)
theory Gl_Wire
  imports Protocol
begin

section \<open>OpenGL request and response bodies\<close>

text \<open>
  The module \<open>gl\<close> of \<open>crates/graftx-protocol/src/lib.rs\<close>: one record per body,
  with its encoder and decoder, and each of them an interpretation of \<open>wire_body\<close> at the
  body's size in bytes. A handle travels as its raw 64-bit value.
\<close>

subsection \<open>\<open>gl::CreateContextResponse\<close>\<close>

record gl_CreateContextResponse =
  gl_CreateContextResponse_context :: Handle

definition gl_CreateContextResponse_encode :: "gl_CreateContextResponse \<Rightarrow> bytes \<Rightarrow> bytes" where
  [wire_defs]: "gl_CreateContextResponse_encode self out =
     out
     @ u64_to_le_bytes (handle_raw (gl_CreateContextResponse_context self))"

definition gl_CreateContextResponse_decode :: "bytes \<Rightarrow> gl_CreateContextResponse proto_result" where
  [wire_defs]: "gl_CreateContextResponse_decode buf = read_run
     (read_bind reader_u64 (\<lambda>context.
      read_ok \<lparr>gl_CreateContextResponse_context = handle_from_raw context\<rparr>)) buf"

interpretation gl_CreateContextResponse_body: wire_body gl_CreateContextResponse_encode gl_CreateContextResponse_decode 8
  by unfold_locales (simp_all add: gl_CreateContextResponse_encode_def gl_CreateContextResponse_decode_def body_proof)

subsection \<open>\<open>gl::MakeCurrentRequest\<close>\<close>

record gl_MakeCurrentRequest =
  gl_MakeCurrentRequest_context :: Handle

definition gl_MakeCurrentRequest_encode :: "gl_MakeCurrentRequest \<Rightarrow> bytes \<Rightarrow> bytes" where
  [wire_defs]: "gl_MakeCurrentRequest_encode self out =
     out
     @ u64_to_le_bytes (handle_raw (gl_MakeCurrentRequest_context self))"

definition gl_MakeCurrentRequest_decode :: "bytes \<Rightarrow> gl_MakeCurrentRequest proto_result" where
  [wire_defs]: "gl_MakeCurrentRequest_decode buf = read_run
     (read_bind reader_u64 (\<lambda>context.
      read_ok \<lparr>gl_MakeCurrentRequest_context = handle_from_raw context\<rparr>)) buf"

interpretation gl_MakeCurrentRequest_body: wire_body gl_MakeCurrentRequest_encode gl_MakeCurrentRequest_decode 8
  by unfold_locales (simp_all add: gl_MakeCurrentRequest_encode_def gl_MakeCurrentRequest_decode_def body_proof)

subsection \<open>\<open>gl::GenBufferRequest\<close>\<close>

record gl_GenBufferRequest =
  gl_GenBufferRequest_context :: Handle

definition gl_GenBufferRequest_encode :: "gl_GenBufferRequest \<Rightarrow> bytes \<Rightarrow> bytes" where
  [wire_defs]: "gl_GenBufferRequest_encode self out =
     out
     @ u64_to_le_bytes (handle_raw (gl_GenBufferRequest_context self))"

definition gl_GenBufferRequest_decode :: "bytes \<Rightarrow> gl_GenBufferRequest proto_result" where
  [wire_defs]: "gl_GenBufferRequest_decode buf = read_run
     (read_bind reader_u64 (\<lambda>context.
      read_ok \<lparr>gl_GenBufferRequest_context = handle_from_raw context\<rparr>)) buf"

interpretation gl_GenBufferRequest_body: wire_body gl_GenBufferRequest_encode gl_GenBufferRequest_decode 8
  by unfold_locales (simp_all add: gl_GenBufferRequest_encode_def gl_GenBufferRequest_decode_def body_proof)

subsection \<open>\<open>gl::GenBufferResponse\<close>\<close>

record gl_GenBufferResponse =
  gl_GenBufferResponse_buffer :: Handle

definition gl_GenBufferResponse_encode :: "gl_GenBufferResponse \<Rightarrow> bytes \<Rightarrow> bytes" where
  [wire_defs]: "gl_GenBufferResponse_encode self out =
     out
     @ u64_to_le_bytes (handle_raw (gl_GenBufferResponse_buffer self))"

definition gl_GenBufferResponse_decode :: "bytes \<Rightarrow> gl_GenBufferResponse proto_result" where
  [wire_defs]: "gl_GenBufferResponse_decode buf = read_run
     (read_bind reader_u64 (\<lambda>buffer.
      read_ok \<lparr>gl_GenBufferResponse_buffer = handle_from_raw buffer\<rparr>)) buf"

interpretation gl_GenBufferResponse_body: wire_body gl_GenBufferResponse_encode gl_GenBufferResponse_decode 8
  by unfold_locales (simp_all add: gl_GenBufferResponse_encode_def gl_GenBufferResponse_decode_def body_proof)

subsection \<open>\<open>gl::SwapBuffersRequest\<close>\<close>

record gl_SwapBuffersRequest =
  gl_SwapBuffersRequest_context :: Handle

definition gl_SwapBuffersRequest_encode :: "gl_SwapBuffersRequest \<Rightarrow> bytes \<Rightarrow> bytes" where
  [wire_defs]: "gl_SwapBuffersRequest_encode self out =
     out
     @ u64_to_le_bytes (handle_raw (gl_SwapBuffersRequest_context self))"

definition gl_SwapBuffersRequest_decode :: "bytes \<Rightarrow> gl_SwapBuffersRequest proto_result" where
  [wire_defs]: "gl_SwapBuffersRequest_decode buf = read_run
     (read_bind reader_u64 (\<lambda>context.
      read_ok \<lparr>gl_SwapBuffersRequest_context = handle_from_raw context\<rparr>)) buf"

interpretation gl_SwapBuffersRequest_body: wire_body gl_SwapBuffersRequest_encode gl_SwapBuffersRequest_decode 8
  by unfold_locales (simp_all add: gl_SwapBuffersRequest_encode_def gl_SwapBuffersRequest_decode_def body_proof)

subsection \<open>\<open>gl::DeleteBufferRequest\<close>\<close>

record gl_DeleteBufferRequest =
  gl_DeleteBufferRequest_buffer :: Handle

definition gl_DeleteBufferRequest_encode :: "gl_DeleteBufferRequest \<Rightarrow> bytes \<Rightarrow> bytes" where
  [wire_defs]: "gl_DeleteBufferRequest_encode self out =
     out
     @ u64_to_le_bytes (handle_raw (gl_DeleteBufferRequest_buffer self))"

definition gl_DeleteBufferRequest_decode :: "bytes \<Rightarrow> gl_DeleteBufferRequest proto_result" where
  [wire_defs]: "gl_DeleteBufferRequest_decode buf = read_run
     (read_bind reader_u64 (\<lambda>buffer.
      read_ok \<lparr>gl_DeleteBufferRequest_buffer = handle_from_raw buffer\<rparr>)) buf"

interpretation gl_DeleteBufferRequest_body: wire_body gl_DeleteBufferRequest_encode gl_DeleteBufferRequest_decode 8
  by unfold_locales (simp_all add: gl_DeleteBufferRequest_encode_def gl_DeleteBufferRequest_decode_def body_proof)

end
