(* ===== verification/Cuda_Wire.thy ===== *)
theory Cuda_Wire
  imports Protocol
begin

section \<open>CUDA request and response bodies\<close>

text \<open>
  The module \<open>cuda\<close> of \<open>crates/graftx-protocol/src/lib.rs\<close>: one record per body,
  with its encoder and decoder, and each of them an interpretation of \<open>wire_body\<close> at the
  body's size in bytes. A handle travels as its raw 64-bit value.
\<close>

subsection \<open>\<open>cuda::CtxCreateRequest\<close>\<close>

record cuda_CtxCreateRequest =
  cuda_CtxCreateRequest_device_ordinal :: u32

definition cuda_CtxCreateRequest_encode :: "cuda_CtxCreateRequest \<Rightarrow> bytes \<Rightarrow> bytes" where
  [wire_defs]: "cuda_CtxCreateRequest_encode self out =
     out
     @ u32_to_le_bytes (cuda_CtxCreateRequest_device_ordinal self)"

definition cuda_CtxCreateRequest_decode :: "bytes \<Rightarrow> cuda_CtxCreateRequest proto_result" where
  [wire_defs]: "cuda_CtxCreateRequest_decode buf = read_run
     (read_bind reader_u32 (\<lambda>device_ordinal.
      read_ok \<lparr>cuda_CtxCreateRequest_device_ordinal = device_ordinal\<rparr>)) buf"

interpretation cuda_CtxCreateRequest_body: wire_body cuda_CtxCreateRequest_encode cuda_CtxCreateRequest_decode 4
  by unfold_locales (simp_all add: cuda_CtxCreateRequest_encode_def cuda_CtxCreateRequest_decode_def body_proof)

subsection \<open>\<open>cuda::CtxCreateResponse\<close>\<close>

record cuda_CtxCreateResponse =
  cuda_CtxCreateResponse_context :: Handle

definition cuda_CtxCreateResponse_encode :: "cuda_CtxCreateResponse \<Rightarrow> bytes \<Rightarrow> bytes" where
  [wire_defs]: "cuda_CtxCreateResponse_encode self out =
     out
     @ u64_to_le_bytes (handle_raw (cuda_CtxCreateResponse_context self))"

definition cuda_CtxCreateResponse_decode :: "bytes \<Rightarrow> cuda_CtxCreateResponse proto_result" where
  [wire_defs]: "cuda_CtxCreateResponse_decode buf = read_run
     (read_bind reader_u64 (\<lambda>context.
      read_ok \<lparr>cuda_CtxCreateResponse_context = handle_from_raw context\<rparr>)) buf"

interpretation cuda_CtxCreateResponse_body: wire_body cuda_CtxCreateResponse_encode cuda_CtxCreateResponse_decode 8
  by unfold_locales (simp_all add: cuda_CtxCreateResponse_encode_def cuda_CtxCreateResponse_decode_def body_proof)

subsection \<open>\<open>cuda::MemAllocRequest\<close>\<close>

record cuda_MemAllocRequest =
  cuda_MemAllocRequest_context :: Handle
  cuda_MemAllocRequest_size :: u64

definition cuda_MemAllocRequest_encode :: "cuda_MemAllocRequest \<Rightarrow> bytes \<Rightarrow> bytes" where
  [wire_defs]: "cuda_MemAllocRequest_encode self out =
     out
     @ u64_to_le_bytes (handle_raw (cuda_MemAllocRequest_context self))
     @ u64_to_le_bytes (cuda_MemAllocRequest_size self)"

definition cuda_MemAllocRequest_decode :: "bytes \<Rightarrow> cuda_MemAllocRequest proto_result" where
  [wire_defs]: "cuda_MemAllocRequest_decode buf = read_run
     (read_bind reader_u64 (\<lambda>context.
      read_bind reader_u64 (\<lambda>size.
      read_ok \<lparr>cuda_MemAllocRequest_context = handle_from_raw context,
               cuda_MemAllocRequest_size = size\<rparr>))) buf"

interpretation cuda_MemAllocRequest_body: wire_body cuda_MemAllocRequest_encode cuda_MemAllocRequest_decode 16
  by unfold_locales (simp_all add: cuda_MemAllocRequest_encode_def cuda_MemAllocRequest_decode_def body_proof)

subsection \<open>\<open>cuda::MemAllocResponse\<close>\<close>

record cuda_MemAllocResponse =
  cuda_MemAllocResponse_dptr :: Handle

definition cuda_MemAllocResponse_encode :: "cuda_MemAllocResponse \<Rightarrow> bytes \<Rightarrow> bytes" where
  [wire_defs]: "cuda_MemAllocResponse_encode self out =
     out
     @ u64_to_le_bytes (handle_raw (cuda_MemAllocResponse_dptr self))"

definition cuda_MemAllocResponse_decode :: "bytes \<Rightarrow> cuda_MemAllocResponse proto_result" where
  [wire_defs]: "cuda_MemAllocResponse_decode buf = read_run
     (read_bind reader_u64 (\<lambda>dptr.
      read_ok \<lparr>cuda_MemAllocResponse_dptr = handle_from_raw dptr\<rparr>)) buf"

interpretation cuda_MemAllocResponse_body: wire_body cuda_MemAllocResponse_encode cuda_MemAllocResponse_decode 8
  by unfold_locales (simp_all add: cuda_MemAllocResponse_encode_def cuda_MemAllocResponse_decode_def body_proof)

subsection \<open>\<open>cuda::MemFreeRequest\<close>\<close>

record cuda_MemFreeRequest =
  cuda_MemFreeRequest_dptr :: Handle

definition cuda_MemFreeRequest_encode :: "cuda_MemFreeRequest \<Rightarrow> bytes \<Rightarrow> bytes" where
  [wire_defs]: "cuda_MemFreeRequest_encode self out =
     out
     @ u64_to_le_bytes (handle_raw (cuda_MemFreeRequest_dptr self))"

definition cuda_MemFreeRequest_decode :: "bytes \<Rightarrow> cuda_MemFreeRequest proto_result" where
  [wire_defs]: "cuda_MemFreeRequest_decode buf = read_run
     (read_bind reader_u64 (\<lambda>dptr.
      read_ok \<lparr>cuda_MemFreeRequest_dptr = handle_from_raw dptr\<rparr>)) buf"

interpretation cuda_MemFreeRequest_body: wire_body cuda_MemFreeRequest_encode cuda_MemFreeRequest_decode 8
  by unfold_locales (simp_all add: cuda_MemFreeRequest_encode_def cuda_MemFreeRequest_decode_def body_proof)

subsection \<open>\<open>cuda::LaunchKernelRequest\<close>\<close>

record cuda_LaunchKernelRequest =
  cuda_LaunchKernelRequest_function :: Handle
  cuda_LaunchKernelRequest_grid_x :: u32
  cuda_LaunchKernelRequest_grid_y :: u32
  cuda_LaunchKernelRequest_grid_z :: u32
  cuda_LaunchKernelRequest_block_x :: u32
  cuda_LaunchKernelRequest_block_y :: u32
  cuda_LaunchKernelRequest_block_z :: u32

definition cuda_LaunchKernelRequest_encode :: "cuda_LaunchKernelRequest \<Rightarrow> bytes \<Rightarrow> bytes" where
  [wire_defs]: "cuda_LaunchKernelRequest_encode self out =
     out
     @ u64_to_le_bytes (handle_raw (cuda_LaunchKernelRequest_function self))
     @ u32_to_le_bytes (cuda_LaunchKernelRequest_grid_x self)
     @ u32_to_le_bytes (cuda_LaunchKernelRequest_grid_y self)
     @ u32_to_le_bytes (cuda_LaunchKernelRequest_grid_z self)
     @ u32_to_le_bytes (cuda_LaunchKernelRequest_block_x self)
     @ u32_to_le_bytes (cuda_LaunchKernelRequest_block_y self)
     @ u32_to_le_bytes (cuda_LaunchKernelRequest_block_z self)"

definition cuda_LaunchKernelRequest_decode :: "bytes \<Rightarrow> cuda_LaunchKernelRequest proto_result" where
  [wire_defs]: "cuda_LaunchKernelRequest_decode buf = read_run
     (read_bind reader_u64 (\<lambda>function.
      read_bind reader_u32 (\<lambda>grid_x.
      read_bind reader_u32 (\<lambda>grid_y.
      read_bind reader_u32 (\<lambda>grid_z.
      read_bind reader_u32 (\<lambda>block_x.
      read_bind reader_u32 (\<lambda>block_y.
      read_bind reader_u32 (\<lambda>block_z.
      read_ok \<lparr>cuda_LaunchKernelRequest_function = handle_from_raw function,
               cuda_LaunchKernelRequest_grid_x = grid_x,
               cuda_LaunchKernelRequest_grid_y = grid_y,
               cuda_LaunchKernelRequest_grid_z = grid_z,
               cuda_LaunchKernelRequest_block_x = block_x,
               cuda_LaunchKernelRequest_block_y = block_y,
               cuda_LaunchKernelRequest_block_z = block_z\<rparr>)))))))) buf"

interpretation cuda_LaunchKernelRequest_body: wire_body cuda_LaunchKernelRequest_encode cuda_LaunchKernelRequest_decode 32
  by unfold_locales (simp_all add: cuda_LaunchKernelRequest_encode_def cuda_LaunchKernelRequest_decode_def body_proof)

subsection \<open>\<open>cuda::MemcpyHtoDRequest\<close>\<close>

record cuda_MemcpyHtoDRequest =
  cuda_MemcpyHtoDRequest_dst :: Handle
  cuda_MemcpyHtoDRequest_len :: u64

definition cuda_MemcpyHtoDRequest_encode :: "cuda_MemcpyHtoDRequest \<Rightarrow> bytes \<Rightarrow> bytes" where
  [wire_defs]: "cuda_MemcpyHtoDRequest_encode self out =
     out
     @ u64_to_le_bytes (handle_raw (cuda_MemcpyHtoDRequest_dst self))
     @ u64_to_le_bytes (cuda_MemcpyHtoDRequest_len self)"

definition cuda_MemcpyHtoDRequest_decode :: "bytes \<Rightarrow> cuda_MemcpyHtoDRequest proto_result" where
  [wire_defs]: "cuda_MemcpyHtoDRequest_decode buf = read_run
     (read_bind reader_u64 (\<lambda>dst.
      read_bind reader_u64 (\<lambda>len.
      read_ok \<lparr>cuda_MemcpyHtoDRequest_dst = handle_from_raw dst,
               cuda_MemcpyHtoDRequest_len = len\<rparr>))) buf"

interpretation cuda_MemcpyHtoDRequest_body: wire_body cuda_MemcpyHtoDRequest_encode cuda_MemcpyHtoDRequest_decode 16
  by unfold_locales (simp_all add: cuda_MemcpyHtoDRequest_encode_def cuda_MemcpyHtoDRequest_decode_def body_proof)

subsection \<open>\<open>cuda::MemcpyDtoHRequest\<close>\<close>

record cuda_MemcpyDtoHRequest =
  cuda_MemcpyDtoHRequest_src :: Handle
  cuda_MemcpyDtoHRequest_len :: u64

definition cuda_MemcpyDtoHRequest_encode :: "cuda_MemcpyDtoHRequest \<Rightarrow> bytes \<Rightarrow> bytes" where
  [wire_defs]: "cuda_MemcpyDtoHRequest_encode self out =
     out
     @ u64_to_le_bytes (handle_raw (cuda_MemcpyDtoHRequest_src self))
     @ u64_to_le_bytes (cuda_MemcpyDtoHRequest_len self)"

definition cuda_MemcpyDtoHRequest_decode :: "bytes \<Rightarrow> cuda_MemcpyDtoHRequest proto_result" where
  [wire_defs]: "cuda_MemcpyDtoHRequest_decode buf = read_run
     (read_bind reader_u64 (\<lambda>src.
      read_bind reader_u64 (\<lambda>len.
      read_ok \<lparr>cuda_MemcpyDtoHRequest_src = handle_from_raw src,
               cuda_MemcpyDtoHRequest_len = len\<rparr>))) buf"

interpretation cuda_MemcpyDtoHRequest_body: wire_body cuda_MemcpyDtoHRequest_encode cuda_MemcpyDtoHRequest_decode 16
  by unfold_locales (simp_all add: cuda_MemcpyDtoHRequest_encode_def cuda_MemcpyDtoHRequest_decode_def body_proof)

subsection \<open>\<open>cuda::MemcpyDtoHResponse\<close>\<close>

record cuda_MemcpyDtoHResponse =
  cuda_MemcpyDtoHResponse_copied :: u64

definition cuda_MemcpyDtoHResponse_encode :: "cuda_MemcpyDtoHResponse \<Rightarrow> bytes \<Rightarrow> bytes" where
  [wire_defs]: "cuda_MemcpyDtoHResponse_encode self out =
     out
     @ u64_to_le_bytes (cuda_MemcpyDtoHResponse_copied self)"

definition cuda_MemcpyDtoHResponse_decode :: "bytes \<Rightarrow> cuda_MemcpyDtoHResponse proto_result" where
  [wire_defs]: "cuda_MemcpyDtoHResponse_decode buf = read_run
     (read_bind reader_u64 (\<lambda>copied.
      read_ok \<lparr>cuda_MemcpyDtoHResponse_copied = copied\<rparr>)) buf"

interpretation cuda_MemcpyDtoHResponse_body: wire_body cuda_MemcpyDtoHResponse_encode cuda_MemcpyDtoHResponse_decode 8
  by unfold_locales (simp_all add: cuda_MemcpyDtoHResponse_encode_def cuda_MemcpyDtoHResponse_decode_def body_proof)

end
