(* ===== verification/Hip_Wire.thy ===== *)
theory Hip_Wire
  imports Protocol
begin

section \<open>HIP request and response bodies\<close>

text \<open>
  The module \<open>hip\<close> of \<open>crates/graftx-protocol/src/lib.rs\<close>: one record per body,
  with its encoder and decoder, and each of them an interpretation of \<open>wire_body\<close> at the
  body's size in bytes. A handle travels as its raw 64-bit value.
\<close>

subsection \<open>\<open>hip::MallocRequest\<close>\<close>

record hip_MallocRequest =
  hip_MallocRequest_size :: u64

definition hip_MallocRequest_encode :: "hip_MallocRequest \<Rightarrow> bytes \<Rightarrow> bytes" where
  [wire_defs]: "hip_MallocRequest_encode self out =
     out
     @ u64_to_le_bytes (hip_MallocRequest_size self)"

definition hip_MallocRequest_decode :: "bytes \<Rightarrow> hip_MallocRequest proto_result" where
  [wire_defs]: "hip_MallocRequest_decode buf = read_run
     (read_bind reader_u64 (\<lambda>size.
      read_ok \<lparr>hip_MallocRequest_size = size\<rparr>)) buf"

interpretation hip_MallocRequest_body: wire_body hip_MallocRequest_encode hip_MallocRequest_decode 8
  by unfold_locales (simp_all add: hip_MallocRequest_encode_def hip_MallocRequest_decode_def body_proof)

subsection \<open>\<open>hip::MallocResponse\<close>\<close>

record hip_MallocResponse =
  hip_MallocResponse_dptr :: Handle

definition hip_MallocResponse_encode :: "hip_MallocResponse \<Rightarrow> bytes \<Rightarrow> bytes" where
  [wire_defs]: "hip_MallocResponse_encode self out =
     out
     @ u64_to_le_bytes (handle_raw (hip_MallocResponse_dptr self))"

definition hip_MallocResponse_decode :: "bytes \<Rightarrow> hip_MallocResponse proto_result" where
  [wire_defs]: "hip_MallocResponse_decode buf = read_run
     (read_bind reader_u64 (\<lambda>dptr.
      read_ok \<lparr>hip_MallocResponse_dptr = handle_from_raw dptr\<rparr>)) buf"

interpretation hip_MallocResponse_body: wire_body hip_MallocResponse_encode hip_MallocResponse_decode 8
  by unfold_locales (simp_all add: hip_MallocResponse_encode_def hip_MallocResponse_decode_def body_proof)

subsection \<open>\<open>hip::FreeRequest\<close>\<close>

record hip_FreeRequest =
  hip_FreeRequest_dptr :: Handle

definition hip_FreeRequest_encode :: "hip_FreeRequest \<Rightarrow> bytes \<Rightarrow> bytes" where
  [wire_defs]: "hip_FreeRequest_encode self out =
     out
     @ u64_to_le_bytes (handle_raw (hip_FreeRequest_dptr self))"

definition hip_FreeRequest_decode :: "bytes \<Rightarrow> hip_FreeRequest proto_result" where
  [wire_defs]: "hip_FreeRequest_decode buf = read_run
     (read_bind reader_u64 (\<lambda>dptr.
      read_ok \<lparr>hip_FreeRequest_dptr = handle_from_raw dptr\<rparr>)) buf"

interpretation hip_FreeRequest_body: wire_body hip_FreeRequest_encode hip_FreeRequest_decode 8
  by unfold_locales (simp_all add: hip_FreeRequest_encode_def hip_FreeRequest_decode_def body_proof)

subsection \<open>\<open>hip::StreamCreateResponse\<close>\<close>

record hip_StreamCreateResponse =
  hip_StreamCreateResponse_stream :: Handle

definition hip_StreamCreateResponse_encode :: "hip_StreamCreateResponse \<Rightarrow> bytes \<Rightarrow> bytes" where
  [wire_defs]: "hip_StreamCreateResponse_encode self out =
     out
     @ u64_to_le_bytes (handle_raw (hip_StreamCreateResponse_stream self))"

definition hip_StreamCreateResponse_decode :: "bytes \<Rightarrow> hip_StreamCreateResponse proto_result" where
  [wire_defs]: "hip_StreamCreateResponse_decode buf = read_run
     (read_bind reader_u64 (\<lambda>stream.
      read_ok \<lparr>hip_StreamCreateResponse_stream = handle_from_raw stream\<rparr>)) buf"

interpretation hip_StreamCreateResponse_body: wire_body hip_StreamCreateResponse_encode hip_StreamCreateResponse_decode 8
  by unfold_locales (simp_all add: hip_StreamCreateResponse_encode_def hip_StreamCreateResponse_decode_def body_proof)

end
