(* ===== verification/Cl_Wire.thy ===== *)
theory Cl_Wire
  imports Protocol
begin

section \<open>OpenCL request and response bodies\<close>

text \<open>
  The module \<open>cl\<close> of \<open>crates/graftx-protocol/src/lib.rs\<close>: one record per body,
  with its encoder and decoder, and each of them an interpretation of \<open>wire_body\<close> at the
  body's size in bytes. A handle travels as its raw 64-bit value.
\<close>

subsection \<open>\<open>cl::CreateContextResponse\<close>\<close>

record cl_CreateContextResponse =
  cl_CreateContextResponse_context :: Handle

definition cl_CreateContextResponse_encode :: "cl_CreateContextResponse \<Rightarrow> bytes \<Rightarrow> bytes" where
  [wire_defs]: "cl_CreateContextResponse_encode self out =
     out
     @ u64_to_le_bytes (handle_raw (cl_CreateContextResponse_context self))"

definition cl_CreateContextResponse_decode :: "bytes \<Rightarrow> cl_CreateContextResponse proto_result" where
  [wire_defs]: "cl_CreateContextResponse_decode buf = read_run
     (read_bind reader_u64 (\<lambda>context.
      read_ok \<lparr>cl_CreateContextResponse_context = handle_from_raw context\<rparr>)) buf"

interpretation cl_CreateContextResponse_body: wire_body cl_CreateContextResponse_encode cl_CreateContextResponse_decode 8
  by unfold_locales (simp_all add: cl_CreateContextResponse_encode_def cl_CreateContextResponse_decode_def body_proof)

subsection \<open>\<open>cl::CreateBufferRequest\<close>\<close>

record cl_CreateBufferRequest =
  cl_CreateBufferRequest_context :: Handle
  cl_CreateBufferRequest_size :: u64

definition cl_CreateBufferRequest_encode :: "cl_CreateBufferRequest \<Rightarrow> bytes \<Rightarrow> bytes" where
  [wire_defs]: "cl_CreateBufferRequest_encode self out =
     out
     @ u64_to_le_bytes (handle_raw (cl_CreateBufferRequest_context self))
     @ u64_to_le_bytes (cl_CreateBufferRequest_size self)"

definition cl_CreateBufferRequest_decode :: "bytes \<Rightarrow> cl_CreateBufferRequest proto_result" where
  [wire_defs]: "cl_CreateBufferRequest_decode buf = read_run
     (read_bind reader_u64 (\<lambda>context.
      read_bind reader_u64 (\<lambda>size.
      read_ok \<lparr>cl_CreateBufferRequest_context = handle_from_raw context,
               cl_CreateBufferRequest_size = size\<rparr>))) buf"

interpretation cl_CreateBufferRequest_body: wire_body cl_CreateBufferRequest_encode cl_CreateBufferRequest_decode 16
  by unfold_locales (simp_all add: cl_CreateBufferRequest_encode_def cl_CreateBufferRequest_decode_def body_proof)

subsection \<open>\<open>cl::CreateBufferResponse\<close>\<close>

record cl_CreateBufferResponse =
  cl_CreateBufferResponse_mem :: Handle

definition cl_CreateBufferResponse_encode :: "cl_CreateBufferResponse \<Rightarrow> bytes \<Rightarrow> bytes" where
  [wire_defs]: "cl_CreateBufferResponse_encode self out =
     out
     @ u64_to_le_bytes (handle_raw (cl_CreateBufferResponse_mem self))"

definition cl_CreateBufferResponse_decode :: "bytes \<Rightarrow> cl_CreateBufferResponse proto_result" where
  [wire_defs]: "cl_CreateBufferResponse_decode buf = read_run
     (read_bind reader_u64 (\<lambda>mem.
      read_ok \<lparr>cl_CreateBufferResponse_mem = handle_from_raw mem\<rparr>)) buf"

interpretation cl_CreateBufferResponse_body: wire_body cl_CreateBufferResponse_encode cl_CreateBufferResponse_decode 8
  by unfold_locales (simp_all add: cl_CreateBufferResponse_encode_def cl_CreateBufferResponse_decode_def body_proof)

subsection \<open>\<open>cl::ReleaseBufferRequest\<close>\<close>

record cl_ReleaseBufferRequest =
  cl_ReleaseBufferRequest_mem :: Handle

definition cl_ReleaseBufferRequest_encode :: "cl_ReleaseBufferRequest \<Rightarrow> bytes \<Rightarrow> bytes" where
  [wire_defs]: "cl_ReleaseBufferRequest_encode self out =
     out
     @ u64_to_le_bytes (handle_raw (cl_ReleaseBufferRequest_mem self))"

definition cl_ReleaseBufferRequest_decode :: "bytes \<Rightarrow> cl_ReleaseBufferRequest proto_result" where
  [wire_defs]: "cl_ReleaseBufferRequest_decode buf = read_run
     (read_bind reader_u64 (\<lambda>mem.
      read_ok \<lparr>cl_ReleaseBufferRequest_mem = handle_from_raw mem\<rparr>)) buf"

interpretation cl_ReleaseBufferRequest_body: wire_body cl_ReleaseBufferRequest_encode cl_ReleaseBufferRequest_decode 8
  by unfold_locales (simp_all add: cl_ReleaseBufferRequest_encode_def cl_ReleaseBufferRequest_decode_def body_proof)

end
