(* ===== verification/L0_Wire.thy ===== *)
theory L0_Wire
  imports Protocol
begin

section \<open>Level Zero request and response bodies\<close>

text \<open>
  The module \<open>l0\<close> of \<open>crates/graftx-protocol/src/lib.rs\<close>: one record per body,
  with its encoder and decoder, and each of them an interpretation of \<open>wire_body\<close> at the
  body's size in bytes. A handle travels as its raw 64-bit value.
\<close>

subsection \<open>\<open>l0::ContextCreateResponse\<close>\<close>

record l0_ContextCreateResponse =
  l0_ContextCreateResponse_context :: Handle

definition l0_ContextCreateResponse_encode :: "l0_ContextCreateResponse \<Rightarrow> bytes \<Rightarrow> bytes" where
  [wire_defs]: "l0_ContextCreateResponse_encode self out =
     out
     @ u64_to_le_bytes (handle_raw (l0_ContextCreateResponse_context self))"

definition l0_ContextCreateResponse_decode :: "bytes \<Rightarrow> l0_ContextCreateResponse proto_result" where
  [wire_defs]: "l0_ContextCreateResponse_decode buf = read_run
     (read_bind reader_u64 (\<lambda>context.
      read_ok \<lparr>l0_ContextCreateResponse_context = handle_from_raw context\<rparr>)) buf"

interpretation l0_ContextCreateResponse_body: wire_body l0_ContextCreateResponse_encode l0_ContextCreateResponse_decode 8
  by unfold_locales (simp_all add: l0_ContextCreateResponse_encode_def l0_ContextCreateResponse_decode_def body_proof)

subsection \<open>\<open>l0::MemAllocDeviceRequest\<close>\<close>

record l0_MemAllocDeviceRequest =
  l0_MemAllocDeviceRequest_context :: Handle
  l0_MemAllocDeviceRequest_size :: u64

definition l0_MemAllocDeviceRequest_encode :: "l0_MemAllocDeviceRequest \<Rightarrow> bytes \<Rightarrow> bytes" where
  [wire_defs]: "l0_MemAllocDeviceRequest_encode self out =
     out
     @ u64_to_le_bytes (handle_raw (l0_MemAllocDeviceRequest_context self))
     @ u64_to_le_bytes (l0_MemAllocDeviceRequest_size self)"

definition l0_MemAllocDeviceRequest_decode :: "bytes \<Rightarrow> l0_MemAllocDeviceRequest proto_result" where
  [wire_defs]: "l0_MemAllocDeviceRequest_decode buf = read_run
     (read_bind reader_u64 (\<lambda>context.
      read_bind reader_u64 (\<lambda>size.
      read_ok \<lparr>l0_MemAllocDeviceRequest_context = handle_from_raw context,
               l0_MemAllocDeviceRequest_size = size\<rparr>))) buf"

interpretation l0_MemAllocDeviceRequest_body: wire_body l0_MemAllocDeviceRequest_encode l0_MemAllocDeviceRequest_decode 16
  by unfold_locales (simp_all add: l0_MemAllocDeviceRequest_encode_def l0_MemAllocDeviceRequest_decode_def body_proof)

subsection \<open>\<open>l0::MemAllocDeviceResponse\<close>\<close>

record l0_MemAllocDeviceResponse =
  l0_MemAllocDeviceResponse_ptr :: Handle

definition l0_MemAllocDeviceResponse_encode :: "l0_MemAllocDeviceResponse \<Rightarrow> bytes \<Rightarrow> bytes" where
  [wire_defs]: "l0_MemAllocDeviceResponse_encode self out =
     out
     @ u64_to_le_bytes (handle_raw (l0_MemAllocDeviceResponse_ptr self))"

definition l0_MemAllocDeviceResponse_decode :: "bytes \<Rightarrow> l0_MemAllocDeviceResponse proto_result" where
  [wire_defs]: "l0_MemAllocDeviceResponse_decode buf = read_run
     (read_bind reader_u64 (\<lambda>ptr.
      read_ok \<lparr>l0_MemAllocDeviceResponse_ptr = handle_from_raw ptr\<rparr>)) buf"

interpretation l0_MemAllocDeviceResponse_body: wire_body l0_MemAllocDeviceResponse_encode l0_MemAllocDeviceResponse_decode 8
  by unfold_locales (simp_all add: l0_MemAllocDeviceResponse_encode_def l0_MemAllocDeviceResponse_decode_def body_proof)

subsection \<open>\<open>l0::MemFreeRequest\<close>\<close>

record l0_MemFreeRequest =
  l0_MemFreeRequest_ptr :: Handle

definition l0_MemFreeRequest_encode :: "l0_MemFreeRequest \<Rightarrow> bytes \<Rightarrow> bytes" where
  [wire_defs]: "l0_MemFreeRequest_encode self out =
     out
     @ u64_to_le_bytes (handle_raw (l0_MemFreeRequest_ptr self))"

definition l0_MemFreeRequest_decode :: "bytes \<Rightarrow> l0_MemFreeRequest proto_result" where
  [wire_defs]: "l0_MemFreeRequest_decode buf = read_run
     (read_bind reader_u64 (\<lambda>ptr.
      read_ok \<lparr>l0_MemFreeRequest_ptr = handle_from_raw ptr\<rparr>)) buf"

interpretation l0_MemFreeRequest_body: wire_body l0_MemFreeRequest_encode l0_MemFreeRequest_decode 8
  by unfold_locales (simp_all add: l0_MemFreeRequest_encode_def l0_MemFreeRequest_decode_def body_proof)

end
