(* ===== verification/Video_Wire.thy ===== *)
theory Video_Wire
  imports Protocol
begin

section \<open>Video request and response bodies\<close>

text \<open>
  The module \<open>video\<close> of \<open>crates/graftx-protocol/src/lib.rs\<close>: one record per body,
  with its encoder and decoder, and each of them an interpretation of \<open>wire_body\<close> at the
  body's size in bytes. A handle travels as its raw 64-bit value.
\<close>

subsection \<open>\<open>video::CreateDecodeSessionRequest\<close>\<close>

record video_CreateDecodeSessionRequest =
  video_CreateDecodeSessionRequest_codec :: u32
  video_CreateDecodeSessionRequest_width :: u32
  video_CreateDecodeSessionRequest_height :: u32

definition video_CreateDecodeSessionRequest_encode :: "video_CreateDecodeSessionRequest \<Rightarrow> bytes \<Rightarrow> bytes" where
  [wire_defs]: "video_CreateDecodeSessionRequest_encode self out =
     out
     @ u32_to_le_bytes (video_CreateDecodeSessionRequest_codec self)
     @ u32_to_le_bytes (video_CreateDecodeSessionRequest_width self)
     @ u32_to_le_bytes (video_CreateDecodeSessionRequest_height self)"

definition video_CreateDecodeSessionRequest_decode :: "bytes \<Rightarrow> video_CreateDecodeSessionRequest proto_result" where
  [wire_defs]: "video_CreateDecodeSessionRequest_decode buf = read_run
     (read_bind reader_u32 (\<lambda>codec.
      read_bind reader_u32 (\<lambda>width.
      read_bind reader_u32 (\<lambda>height.
      read_ok \<lparr>video_CreateDecodeSessionRequest_codec = codec,
               video_CreateDecodeSessionRequest_width = width,
               video_CreateDecodeSessionRequest_height = height\<rparr>)))) buf"

interpretation video_CreateDecodeSessionRequest_body: wire_body video_CreateDecodeSessionRequest_encode video_CreateDecodeSessionRequest_decode 12
  by unfold_locales (simp_all add: video_CreateDecodeSessionRequest_encode_def video_CreateDecodeSessionRequest_decode_def body_proof)

subsection \<open>\<open>video::CreateDecodeSessionResponse\<close>\<close>

record video_CreateDecodeSessionResponse =
  video_CreateDecodeSessionResponse_session :: Handle

definition video_CreateDecodeSessionResponse_encode :: "video_CreateDecodeSessionResponse \<Rightarrow> bytes \<Rightarrow> bytes" where
  [wire_defs]: "video_CreateDecodeSessionResponse_encode self out =
     out
     @ u64_to_le_bytes (handle_raw (video_CreateDecodeSessionResponse_session self))"

definition video_CreateDecodeSessionResponse_decode :: "bytes \<Rightarrow> video_CreateDecodeSessionResponse proto_result" where
  [wire_defs]: "video_CreateDecodeSessionResponse_decode buf = read_run
     (read_bind reader_u64 (\<lambda>session.
      read_ok \<lparr>video_CreateDecodeSessionResponse_session = handle_from_raw session\<rparr>)) buf"

interpretation video_CreateDecodeSessionResponse_body: wire_body video_CreateDecodeSessionResponse_encode video_CreateDecodeSessionResponse_decode 8
  by unfold_locales (simp_all add: video_CreateDecodeSessionResponse_encode_def video_CreateDecodeSessionResponse_decode_def body_proof)

subsection \<open>\<open>video::DecodeFrameRequest\<close>\<close>

record video_DecodeFrameRequest =
  video_DecodeFrameRequest_session :: Handle
  video_DecodeFrameRequest_bitstream_len :: u32

definition video_DecodeFrameRequest_encode :: "video_DecodeFrameRequest \<Rightarrow> bytes \<Rightarrow> bytes" where
  [wire_defs]: "video_DecodeFrameRequest_encode self out =
     out
     @ u64_to_le_bytes (handle_raw (video_DecodeFrameRequest_session self))
     @ u32_to_le_bytes (video_DecodeFrameRequest_bitstream_len self)"

definition video_DecodeFrameRequest_decode :: "bytes \<Rightarrow> video_DecodeFrameRequest proto_result" where
  [wire_defs]: "video_DecodeFrameRequest_decode buf = read_run
     (read_bind reader_u64 (\<lambda>session.
      read_bind reader_u32 (\<lambda>bitstream_len.
      read_ok \<lparr>video_DecodeFrameRequest_session = handle_from_raw session,
               video_DecodeFrameRequest_bitstream_len = bitstream_len\<rparr>))) buf"

interpretation video_DecodeFrameRequest_body: wire_body video_DecodeFrameRequest_encode video_DecodeFrameRequest_decode 12
  by unfold_locales (simp_all add: video_DecodeFrameRequest_encode_def video_DecodeFrameRequest_decode_def body_proof)

subsection \<open>\<open>video::DecodeFrameResponse\<close>\<close>

record video_DecodeFrameResponse =
  video_DecodeFrameResponse_frame_index :: u32

definition video_DecodeFrameResponse_encode :: "video_DecodeFrameResponse \<Rightarrow> bytes \<Rightarrow> bytes" where
  [wire_defs]: "video_DecodeFrameResponse_encode self out =
     out
     @ u32_to_le_bytes (video_DecodeFrameResponse_frame_index self)"

definition video_DecodeFrameResponse_decode :: "bytes \<Rightarrow> video_DecodeFrameResponse proto_result" where
  [wire_defs]: "video_DecodeFrameResponse_decode buf = read_run
     (read_bind reader_u32 (\<lambda>frame_index.
      read_ok \<lparr>video_DecodeFrameResponse_frame_index = frame_index\<rparr>)) buf"

interpretation video_DecodeFrameResponse_body: wire_body video_DecodeFrameResponse_encode video_DecodeFrameResponse_decode 4
  by unfold_locales (simp_all add: video_DecodeFrameResponse_encode_def video_DecodeFrameResponse_decode_def body_proof)

subsection \<open>\<open>video::DestroySessionRequest\<close>\<close>

record video_DestroySessionRequest =
  video_DestroySessionRequest_session :: Handle

definition video_DestroySessionRequest_encode :: "video_DestroySessionRequest \<Rightarrow> bytes \<Rightarrow> bytes" where
  [wire_defs]: "video_DestroySessionRequest_encode self out =
     out
     @ u64_to_le_bytes (handle_raw (video_DestroySessionRequest_session self))"

definition video_DestroySessionRequest_decode :: "bytes \<Rightarrow> video_DestroySessionRequest proto_result" where
  [wire_defs]: "video_DestroySessionRequest_decode buf = read_run
     (read_bind reader_u64 (\<lambda>session.
      read_ok \<lparr>video_DestroySessionRequest_session = handle_from_raw session\<rparr>)) buf"

interpretation video_DestroySessionRequest_body: wire_body video_DestroySessionRequest_encode video_DestroySessionRequest_decode 8
  by unfold_locales (simp_all add: video_DestroySessionRequest_encode_def video_DestroySessionRequest_decode_def body_proof)

end
