(* ===== verification/Wgpu_Wire.thy ===== *)
theory Wgpu_Wire
  imports Protocol
begin

section \<open>WebGPU request and response bodies\<close>

text \<open>
  The module \<open>wgpu\<close> of \<open>crates/graftx-protocol/src/lib.rs\<close>: one record per body,
  with its encoder and decoder, and each of them an interpretation of \<open>wire_body\<close> at the
  body's size in bytes. A handle travels as its raw 64-bit value.
\<close>

subsection \<open>\<open>wgpu::RequestDeviceResponse\<close>\<close>

record wgpu_RequestDeviceResponse =
  wgpu_RequestDeviceResponse_device :: Handle

definition wgpu_RequestDeviceResponse_encode :: "wgpu_RequestDeviceResponse \<Rightarrow> bytes \<Rightarrow> bytes" where
  [wire_defs]: "wgpu_RequestDeviceResponse_encode self out =
     out
     @ u64_to_le_bytes (handle_raw (wgpu_RequestDeviceResponse_device self))"

definition wgpu_RequestDeviceResponse_decode :: "bytes \<Rightarrow> wgpu_RequestDeviceResponse proto_result" where
  [wire_defs]: "wgpu_RequestDeviceResponse_decode buf = read_run
     (read_bind reader_u64 (\<lambda>device.
      read_ok \<lparr>wgpu_RequestDeviceResponse_device = handle_from_raw device\<rparr>)) buf"

interpretation wgpu_RequestDeviceResponse_body: wire_body wgpu_RequestDeviceResponse_encode wgpu_RequestDeviceResponse_decode 8
  by unfold_locales (simp_all add: wgpu_RequestDeviceResponse_encode_def wgpu_RequestDeviceResponse_decode_def body_proof)

subsection \<open>\<open>wgpu::CreateBufferRequest\<close>\<close>

record wgpu_CreateBufferRequest =
  wgpu_CreateBufferRequest_device :: Handle
  wgpu_CreateBufferRequest_size :: u64
  wgpu_CreateBufferRequest_usage :: u32

definition wgpu_CreateBufferRequest_encode :: "wgpu_CreateBufferRequest \<Rightarrow> bytes \<Rightarrow> bytes" where
  [wire_defs]: "wgpu_CreateBufferRequest_encode self out =
     out
     @ u64_to_le_bytes (handle_raw (wgpu_CreateBufferRequest_device self))
     @ u64_to_le_bytes (wgpu_CreateBufferRequest_size self)
     @ u32_to_le_bytes (wgpu_CreateBufferRequest_usage self)"

definition wgpu_CreateBufferRequest_decode :: "bytes \<Rightarrow> wgpu_CreateBufferRequest proto_result" where
  [wire_defs]: "wgpu_CreateBufferRequest_decode buf = read_run
     (read_bind reader_u64 (\<lambda>device.
      read_bind reader_u64 (\<lambda>size.
      read_bind reader_u32 (\<lambda>usage.
      read_ok \<lparr>wgpu_CreateBufferRequest_device = handle_from_raw device,
               wgpu_CreateBufferRequest_size = size,
               wgpu_CreateBufferRequest_usage = usage\<rparr>)))) buf"

interpretation wgpu_CreateBufferRequest_body: wire_body wgpu_CreateBufferRequest_encode wgpu_CreateBufferRequest_decode 20
  by unfold_locales (simp_all add: wgpu_CreateBufferRequest_encode_def wgpu_CreateBufferRequest_decode_def body_proof)

subsection \<open>\<open>wgpu::CreateBufferResponse\<close>\<close>

record wgpu_CreateBufferResponse =
  wgpu_CreateBufferResponse_buffer :: Handle

definition wgpu_CreateBufferResponse_encode :: "wgpu_CreateBufferResponse \<Rightarrow> bytes \<Rightarrow> bytes" where
  [wire_defs]: "wgpu_CreateBufferResponse_encode self out =
     out
     @ u64_to_le_bytes (handle_raw (wgpu_CreateBufferResponse_buffer self))"

definition wgpu_CreateBufferResponse_decode :: "bytes \<Rightarrow> wgpu_CreateBufferResponse proto_result" where
  [wire_defs]: "wgpu_CreateBufferResponse_decode buf = read_run
     (read_bind reader_u64 (\<lambda>buffer.
      read_ok \<lparr>wgpu_CreateBufferResponse_buffer = handle_from_raw buffer\<rparr>)) buf"

interpretation wgpu_CreateBufferResponse_body: wire_body wgpu_CreateBufferResponse_encode wgpu_CreateBufferResponse_decode 8
  by unfold_locales (simp_all add: wgpu_CreateBufferResponse_encode_def wgpu_CreateBufferResponse_decode_def body_proof)

subsection \<open>\<open>wgpu::DestroyBufferRequest\<close>\<close>

record wgpu_DestroyBufferRequest =
  wgpu_DestroyBufferRequest_buffer :: Handle

definition wgpu_DestroyBufferRequest_encode :: "wgpu_DestroyBufferRequest \<Rightarrow> bytes \<Rightarrow> bytes" where
  [wire_defs]: "wgpu_DestroyBufferRequest_encode self out =
     out
     @ u64_to_le_bytes (handle_raw (wgpu_DestroyBufferRequest_buffer self))"

definition wgpu_DestroyBufferRequest_decode :: "bytes \<Rightarrow> wgpu_DestroyBufferRequest proto_result" where
  [wire_defs]: "wgpu_DestroyBufferRequest_decode buf = read_run
     (read_bind reader_u64 (\<lambda>buffer.
      read_ok \<lparr>wgpu_DestroyBufferRequest_buffer = handle_from_raw buffer\<rparr>)) buf"

interpretation wgpu_DestroyBufferRequest_body: wire_body wgpu_DestroyBufferRequest_encode wgpu_DestroyBufferRequest_decode 8
  by unfold_locales (simp_all add: wgpu_DestroyBufferRequest_encode_def wgpu_DestroyBufferRequest_decode_def body_proof)

end
