(* ===== verification/Optix_Wire.thy ===== *)
theory Optix_Wire
  imports Protocol
begin

section \<open>OptiX request and response bodies\<close>

text \<open>
  The module \<open>optix\<close> of \<open>crates/graftx-protocol/src/lib.rs\<close>: one record per body,
  with its encoder and decoder, and each of them an interpretation of \<open>wire_body\<close> at the
  body's size in bytes. A handle travels as its raw 64-bit value.
\<close>

subsection \<open>\<open>optix::ContextCreateResponse\<close>\<close>

record optix_ContextCreateResponse =
  optix_ContextCreateResponse_context :: Handle

definition optix_ContextCreateResponse_encode :: "optix_ContextCreateResponse \<Rightarrow> bytes \<Rightarrow> bytes" where
  [wire_defs]: "optix_ContextCreateResponse_encode self out =
     out
     @ u64_to_le_bytes (handle_raw (optix_ContextCreateResponse_context self))"

definition optix_ContextCreateResponse_decode :: "bytes \<Rightarrow> optix_ContextCreateResponse proto_result" where
  [wire_defs]: "optix_ContextCreateResponse_decode buf = read_run
     (read_bind reader_u64 (\<lambda>context.
      read_ok \<lparr>optix_ContextCreateResponse_context = handle_from_raw context\<rparr>)) buf"

interpretation optix_ContextCreateResponse_body: wire_body optix_ContextCreateResponse_encode optix_ContextCreateResponse_decode 8
  by unfold_locales (simp_all add: optix_ContextCreateResponse_encode_def optix_ContextCreateResponse_decode_def body_proof)

subsection \<open>\<open>optix::PipelineCreateRequest\<close>\<close>

record optix_PipelineCreateRequest =
  optix_PipelineCreateRequest_context :: Handle

definition optix_PipelineCreateRequest_encode :: "optix_PipelineCreateRequest \<Rightarrow> bytes \<Rightarrow> bytes" where
  [wire_defs]: "optix_PipelineCreateRequest_encode self out =
     out
     @ u64_to_le_bytes (handle_raw (optix_PipelineCreateRequest_context self))"

definition optix_PipelineCreateRequest_decode :: "bytes \<Rightarrow> optix_PipelineCreateRequest proto_result" where
  [wire_defs]: "optix_PipelineCreateRequest_decode buf = read_run
     (read_bind reader_u64 (\<lambda>context.
      read_ok \<lparr>optix_PipelineCreateRequest_context = handle_from_raw context\<rparr>)) buf"

interpretation optix_PipelineCreateRequest_body: wire_body optix_PipelineCreateRequest_encode optix_PipelineCreateRequest_decode 8
  by unfold_locales (simp_all add: optix_PipelineCreateRequest_encode_def optix_PipelineCreateRequest_decode_def body_proof)

subsection \<open>\<open>optix::PipelineCreateResponse\<close>\<close>

record optix_PipelineCreateResponse =
  optix_PipelineCreateResponse_pipeline :: Handle

definition optix_PipelineCreateResponse_encode :: "optix_PipelineCreateResponse \<Rightarrow> bytes \<Rightarrow> bytes" where
  [wire_defs]: "optix_PipelineCreateResponse_encode self out =
     out
     @ u64_to_le_bytes (handle_raw (optix_PipelineCreateResponse_pipeline self))"

definition optix_PipelineCreateResponse_decode :: "bytes \<Rightarrow> optix_PipelineCreateResponse proto_result" where
  [wire_defs]: "optix_PipelineCreateResponse_decode buf = read_run
     (read_bind reader_u64 (\<lambda>pipeline.
      read_ok \<lparr>optix_PipelineCreateResponse_pipeline = handle_from_raw pipeline\<rparr>)) buf"

interpretation optix_PipelineCreateResponse_body: wire_body optix_PipelineCreateResponse_encode optix_PipelineCreateResponse_decode 8
  by unfold_locales (simp_all add: optix_PipelineCreateResponse_encode_def optix_PipelineCreateResponse_decode_def body_proof)

subsection \<open>\<open>optix::DestroyRequest\<close>\<close>

record optix_DestroyRequest =
  optix_DestroyRequest_handle :: Handle

definition optix_DestroyRequest_encode :: "optix_DestroyRequest \<Rightarrow> bytes \<Rightarrow> bytes" where
  [wire_defs]: "optix_DestroyRequest_encode self out =
     out
     @ u64_to_le_bytes (handle_raw (optix_DestroyRequest_handle self))"

definition optix_DestroyRequest_decode :: "bytes \<Rightarrow> optix_DestroyRequest proto_result" where
  [wire_defs]: "optix_DestroyRequest_decode buf = read_run
     (read_bind reader_u64 (\<lambda>handle.
      read_ok \<lparr>optix_DestroyRequest_handle = handle_from_raw handle\<rparr>)) buf"

interpretation optix_DestroyRequest_body: wire_body optix_DestroyRequest_encode optix_DestroyRequest_decode 8
  by unfold_locales (simp_all add: optix_DestroyRequest_encode_def optix_DestroyRequest_decode_def body_proof)

end
