(* ===== verification/Sycl_Wire.thy ===== *)
theory Sycl_Wire
  imports Protocol
begin

section \<open>SYCL request and response bodies\<close>

text \<open>
  The module \<open>sycl\<close> of \<open>crates/graftx-protocol/src/lib.rs\<close>: one record per body,
  with its encoder and decoder, and each of them an interpretation of \<open>wire_body\<close> at the
  body's size in bytes. A handle travels as its raw 64-bit value.
\<close>

subsection \<open>\<open>sycl::QueueCreateResponse\<close>\<close>

record sycl_QueueCreateResponse =
  sycl_QueueCreateResponse_queue :: Handle

definition sycl_QueueCreateResponse_encode :: "sycl_QueueCreateResponse \<Rightarrow> bytes \<Rightarrow> bytes" where
  [wire_defs]: "sycl_QueueCreateResponse_encode self out =
     out
     @ u64_to_le_bytes (handle_raw (sycl_QueueCreateResponse_queue self))"

definition sycl_QueueCreateResponse_decode :: "bytes \<Rightarrow> sycl_QueueCreateResponse proto_result" where
  [wire_defs]: "sycl_QueueCreateResponse_decode buf = read_run
     (read_bind reader_u64 (\<lambda>queue.
      read_ok \<lparr>sycl_QueueCreateResponse_queue = handle_from_raw queue\<rparr>)) buf"

interpretation sycl_QueueCreateResponse_body: wire_body sycl_QueueCreateResponse_encode sycl_QueueCreateResponse_decode 8
  by unfold_locales (simp_all add: sycl_QueueCreateResponse_encode_def sycl_QueueCreateResponse_decode_def body_proof)

subsection \<open>\<open>sycl::MallocDeviceRequest\<close>\<close>

record sycl_MallocDeviceRequest =
  sycl_MallocDeviceRequest_queue :: Handle
  sycl_MallocDeviceRequest_size :: u64

definition sycl_MallocDeviceRequest_encode :: "sycl_MallocDeviceRequest \<Rightarrow> bytes \<Rightarrow> bytes" where
  [wire_defs]: "sycl_MallocDeviceRequest_encode self out =
     out
     @ u64_to_le_bytes (handle_raw (sycl_MallocDeviceRequest_queue self))
     @ u64_to_le_bytes (sycl_MallocDeviceRequest_size self)"

definition sycl_MallocDeviceRequest_decode :: "bytes \<Rightarrow> sycl_MallocDeviceRequest proto_result" where
  [wire_defs]: "sycl_MallocDeviceRequest_decode buf = read_run
     (read_bind reader_u64 (\<lambda>queue.
      read_bind reader_u64 (\<lambda>size.
      read_ok \<lparr>sycl_MallocDeviceRequest_queue = handle_from_raw queue,
               sycl_MallocDeviceRequest_size = size\<rparr>))) buf"

interpretation sycl_MallocDeviceRequest_body: wire_body sycl_MallocDeviceRequest_encode sycl_MallocDeviceRequest_decode 16
  by unfold_locales (simp_all add: sycl_MallocDeviceRequest_encode_def sycl_MallocDeviceRequest_decode_def body_proof)

subsection \<open>\<open>sycl::MallocDeviceResponse\<close>\<close>

record sycl_MallocDeviceResponse =
  sycl_MallocDeviceResponse_ptr :: Handle

definition sycl_MallocDeviceResponse_encode :: "sycl_MallocDeviceResponse \<Rightarrow> bytes \<Rightarrow> bytes" where
  [wire_defs]: "sycl_MallocDeviceResponse_encode self out =
     out
     @ u64_to_le_bytes (handle_raw (sycl_MallocDeviceResponse_ptr self))"

definition sycl_MallocDeviceResponse_decode :: "bytes \<Rightarrow> sycl_MallocDeviceResponse proto_result" where
  [wire_defs]: "sycl_MallocDeviceResponse_decode buf = read_run
     (read_bind reader_u64 (\<lambda>ptr.
      read_ok \<lparr>sycl_MallocDeviceResponse_ptr = handle_from_raw ptr\<rparr>)) buf"

interpretation sycl_MallocDeviceResponse_body: wire_body sycl_MallocDeviceResponse_encode sycl_MallocDeviceResponse_decode 8
  by unfold_locales (simp_all add: sycl_MallocDeviceResponse_encode_def sycl_MallocDeviceResponse_decode_def body_proof)

subsection \<open>\<open>sycl::FreeRequest\<close>\<close>

record sycl_FreeRequest =
  sycl_FreeRequest_ptr :: Handle

definition sycl_FreeRequest_encode :: "sycl_FreeRequest \<Rightarrow> bytes \<Rightarrow> bytes" where
  [wire_defs]: "sycl_FreeRequest_encode self out =
     out
     @ u64_to_le_bytes (handle_raw (sycl_FreeRequest_ptr self))"

definition sycl_FreeRequest_decode :: "bytes \<Rightarrow> sycl_FreeRequest proto_result" where
  [wire_defs]: "sycl_FreeRequest_decode buf = read_run
     (read_bind reader_u64 (\<lambda>ptr.
      read_ok \<lparr>sycl_FreeRequest_ptr = handle_from_raw ptr\<rparr>)) buf"

interpretation sycl_FreeRequest_body: wire_body sycl_FreeRequest_encode sycl_FreeRequest_decode 8
  by unfold_locales (simp_all add: sycl_FreeRequest_encode_def sycl_FreeRequest_decode_def body_proof)

end
