(* ===== verification/Amf_Wire.thy ===== *)
theory Amf_Wire
  imports Protocol
begin

section \<open>AMF request and response bodies\<close>

text \<open>
  The module \<open>amf\<close> of \<open>crates/graftx-protocol/src/lib.rs\<close>: one record per body,
  with its encoder and decoder, and each of them an interpretation of \<open>wire_body\<close> at the
  body's size in bytes. A handle travels as its raw 64-bit value.
\<close>

subsection \<open>\<open>amf::CreateEncoderRequest\<close>\<close>

record amf_CreateEncoderRequest =
  amf_CreateEncoderRequest_codec :: u32
  amf_CreateEncoderRequest_width :: u32
  amf_CreateEncoderRequest_height :: u32

definition amf_CreateEncoderRequest_encode :: "amf_CreateEncoderRequest \<Rightarrow> bytes \<Rightarrow> bytes" where
  [wire_defs]: "amf_CreateEncoderRequest_encode self out =
     out
     @ u32_to_le_bytes (amf_CreateEncoderRequest_codec self)
     @ u32_to_le_bytes (amf_CreateEncoderRequest_width self)
     @ u32_to_le_bytes (amf_CreateEncoderRequest_height self)"

definition amf_CreateEncoderRequest_decode :: "bytes \<Rightarrow> amf_CreateEncoderRequest proto_result" where
  [wire_defs]: "amf_CreateEncoderRequest_decode buf = read_run
     (read_bind reader_u32 (\<lambda>codec.
      read_bind reader_u32 (\<lambda>width.
      read_bind reader_u32 (\<lambda>height.
      read_ok \<lparr>amf_CreateEncoderRequest_codec = codec,
               amf_CreateEncoderRequest_width = width,
               amf_CreateEncoderRequest_height = height\<rparr>)))) buf"

interpretation amf_CreateEncoderRequest_body: wire_body amf_CreateEncoderRequest_encode amf_CreateEncoderRequest_decode 12
  by unfold_locales (simp_all add: amf_CreateEncoderRequest_encode_def amf_CreateEncoderRequest_decode_def body_proof)

subsection \<open>\<open>amf::CreateEncoderResponse\<close>\<close>

record amf_CreateEncoderResponse =
  amf_CreateEncoderResponse_encoder :: Handle

definition amf_CreateEncoderResponse_encode :: "amf_CreateEncoderResponse \<Rightarrow> bytes \<Rightarrow> bytes" where
  [wire_defs]: "amf_CreateEncoderResponse_encode self out =
     out
     @ u64_to_le_bytes (handle_raw (amf_CreateEncoderResponse_encoder self))"

definition amf_CreateEncoderResponse_decode :: "bytes \<Rightarrow> amf_CreateEncoderResponse proto_result" where
  [wire_defs]: "amf_CreateEncoderResponse_decode buf = read_run
     (read_bind reader_u64 (\<lambda>encoder.
      read_ok \<lparr>amf_CreateEncoderResponse_encoder = handle_from_raw encoder\<rparr>)) buf"

interpretation amf_CreateEncoderResponse_body: wire_body amf_CreateEncoderResponse_encode amf_CreateEncoderResponse_decode 8
  by unfold_locales (simp_all add: amf_CreateEncoderResponse_encode_def amf_CreateEncoderResponse_decode_def body_proof)

subsection \<open>\<open>amf::EncodeFrameRequest\<close>\<close>

record amf_EncodeFrameRequest =
  amf_EncodeFrameRequest_encoder :: Handle
  amf_EncodeFrameRequest_frame_len :: u32

definition amf_EncodeFrameRequest_encode :: "amf_EncodeFrameRequest \<Rightarrow> bytes \<Rightarrow> bytes" where
  [wire_defs]: "amf_EncodeFrameRequest_encode self out =
     out
     @ u64_to_le_bytes (handle_raw (amf_EncodeFrameRequest_encoder self))
     @ u32_to_le_bytes (amf_EncodeFrameRequest_frame_len self)"

definition amf_EncodeFrameRequest_decode :: "bytes \<Rightarrow> amf_EncodeFrameRequest proto_result" where
  [wire_defs]: "amf_EncodeFrameRequest_decode buf = read_run
     (read_bind reader_u64 (\<lambda>encoder.
      read_bind reader_u32 (\<lambda>frame_len.
      read_ok \<lparr>amf_EncodeFrameRequest_encoder = handle_from_raw encoder,
               amf_EncodeFrameRequest_frame_len = frame_len\<rparr>))) buf"

interpretation amf_EncodeFrameRequest_body: wire_body amf_EncodeFrameRequest_encode amf_EncodeFrameRequest_decode 12
  by unfold_locales (simp_all add: amf_EncodeFrameRequest_encode_def amf_EncodeFrameRequest_decode_def body_proof)

subsection \<open>\<open>amf::EncodeFrameResponse\<close>\<close>

record amf_EncodeFrameResponse =
  amf_EncodeFrameResponse_packet_len :: u32

definition amf_EncodeFrameResponse_encode :: "amf_EncodeFrameResponse \<Rightarrow> bytes \<Rightarrow> bytes" where
  [wire_defs]: "amf_EncodeFrameResponse_encode self out =
     out
     @ u32_to_le_bytes (amf_EncodeFrameResponse_packet_len self)"

definition amf_EncodeFrameResponse_decode :: "bytes \<Rightarrow> amf_EncodeFrameResponse proto_result" where
  [wire_defs]: "amf_EncodeFrameResponse_decode buf = read_run
     (read_bind reader_u32 (\<lambda>packet_len.
      read_ok \<lparr>amf_EncodeFrameResponse_packet_len = packet_len\<rparr>)) buf"

interpretation amf_EncodeFrameResponse_body: wire_body amf_EncodeFrameResponse_encode amf_EncodeFrameResponse_decode 4
  by unfold_locales (simp_all add: amf_EncodeFrameResponse_encode_def amf_EncodeFrameResponse_decode_def body_proof)

subsection \<open>\<open>amf::DestroyEncoderRequest\<close>\<close>

record amf_DestroyEncoderRequest =
  amf_DestroyEncoderRequest_encoder :: Handle

definition amf_DestroyEncoderRequest_encode :: "amf_DestroyEncoderRequest \<Rightarrow> bytes \<Rightarrow> bytes" where
  [wire_defs]: "amf_DestroyEncoderRequest_encode self out =
     out
     @ u64_to_le_bytes (handle_raw (amf_DestroyEncoderRequest_encoder self))"

definition amf_DestroyEncoderRequest_decode :: "bytes \<Rightarrow> amf_DestroyEncoderRequest proto_result" where
  [wire_defs]: "amf_DestroyEncoderRequest_decode buf = read_run
     (read_bind reader_u64 (\<lambda>encoder.
      read_ok \<lparr>amf_DestroyEncoderRequest_encoder = handle_from_raw encoder\<rparr>)) buf"

interpretation amf_DestroyEncoderRequest_body: wire_body amf_DestroyEncoderRequest_encode amf_DestroyEncoderRequest_decode 8
  by unfold_locales (simp_all add: amf_DestroyEncoderRequest_encode_def amf_DestroyEncoderRequest_decode_def body_proof)

end
