(* ===== verification/Protocol_Spec.thy ===== *)
theory Protocol_Spec
  imports Vk_Wire Gl_Wire Cuda_Wire Hip_Wire Cl_Wire L0_Wire Video_Wire Wgpu_Wire Optix_Wire Sycl_Wire Amf_Wire
begin

section \<open>What the wire protocol promises\<close>

text \<open>
  The properties of \<open>crates/graftx-protocol/src/lib.rs\<close>: the opcode scheme and its table of constants,
  the packing of handles, the frame codec on every buffer, and the contract of every message body.
\<close>

subsection \<open>Opcodes\<close>

text \<open>Every opcode constant of the protocol, in the order of the source.\<close>

definition all_opcodes :: "u32 list" where
  "all_opcodes = [
     core_op_HELLO, core_op_WELCOME, core_op_NOOP, vk_op_CREATE_INSTANCE,
     vk_op_DESTROY_INSTANCE, vk_op_ENUMERATE_PHYSICAL_DEVICES,
     vk_op_GET_PHYSICAL_DEVICE_PROPERTIES, vk_op_CREATE_DEVICE, vk_op_DESTROY_DEVICE,
     vk_op_GET_DEVICE_QUEUE, vk_op_DEVICE_WAIT_IDLE, vk_op_ALLOCATE_MEMORY,
     vk_op_CREATE_BUFFER, vk_op_BIND_BUFFER_MEMORY, vk_op_DESTROY_BUFFER, vk_op_FREE_MEMORY,
     vk_op_CREATE_COMMAND_POOL, vk_op_ALLOCATE_COMMAND_BUFFER, vk_op_QUEUE_SUBMIT,
     vk_op_CMD_COPY_BUFFER, vk_op_CMD_DRAW, vk_op_DESTROY_COMMAND_POOL, gl_op_CREATE_CONTEXT,
     gl_op_MAKE_CURRENT, gl_op_GEN_BUFFER, gl_op_SWAP_BUFFERS, gl_op_DELETE_BUFFER,
     cuda_op_CTX_CREATE, cuda_op_MEM_ALLOC, cuda_op_MEM_FREE, cuda_op_LAUNCH_KERNEL,
     cuda_op_MEMCPY_HTOD, cuda_op_MEMCPY_DTOH, hip_op_MALLOC, hip_op_FREE,
     hip_op_STREAM_CREATE, cl_op_CREATE_CONTEXT, cl_op_CREATE_BUFFER, cl_op_RELEASE_BUFFER,
     l0_op_CONTEXT_CREATE, l0_op_MEM_ALLOC_DEVICE, l0_op_MEM_FREE,
     video_op_CREATE_DECODE_SESSION, video_op_DECODE_FRAME, video_op_DESTROY_SESSION,
     wgpu_op_REQUEST_DEVICE, wgpu_op_CREATE_BUFFER, wgpu_op_DESTROY_BUFFER,
     optix_op_CONTEXT_CREATE, optix_op_PIPELINE_CREATE, optix_op_DESTROY, sycl_op_QUEUE_CREATE,
     sycl_op_MALLOC_DEVICE, sycl_op_FREE, amf_op_CREATE_ENCODER, amf_op_ENCODE_FRAME,
     amf_op_DESTROY_ENCODER]"

text \<open>C7. The namespace byte and the call number split an opcode: building one and taking it apart are
  inverse (a call number beyond 24 bits loses its high byte), and no two opcode constants of the protocol
  coincide, within a namespace or across namespaces.\<close>

theorem protocol_opcodes:
  "opcode_api (opcode api call) = api_id_u8 api \<and>
   opcode_call (opcode api call) = call AND 0x00FFFFFF \<and>
   (opcode_api x = opcode_api y \<and> opcode_call x = opcode_call y \<longleftrightarrow> x = y) \<and>
   distinct all_opcodes \<and> distinct (map api_id_u8 (enum_class.enum :: api_id list)) \<and>
   set (map opcode_api all_opcodes) = set (map api_id_u8 enum_class.enum)"
proof -
  have "set (map opcode_api all_opcodes) = set (map api_id_u8 enum_class.enum)"
    by (auto simp: all_opcodes_def enum_api_id_def op_defs opcode_api_opcode)
  moreover have "distinct all_opcodes"
    by (simp add: all_opcodes_def core_op_values vk_op_values gl_op_values cuda_op_values hip_op_values cl_op_values l0_op_values video_op_values wgpu_op_values optix_op_values sycl_op_values amf_op_values)
  moreover have "distinct (map api_id_u8 (enum_class.enum :: api_id list))"
    by (simp add: enum_api_id_def)
  ultimately show ?thesis
    using opcode_eqI by (auto simp: opcode_api_opcode opcode_call_opcode)
qed

subsection \<open>Handles\<close>

text \<open>A handle's 64 bits are its kind (8), generation (24) and slot (32) and nothing more: every
  handle is rebuilt from its parts, the parts of a built handle are those given (the generation cut to 24
  bits), and the raw value on the wire is faithful.\<close>

theorem protocol_handle_packing:
  "handle_new (handle_kind h) (handle_generation h) (handle_slot h) = h \<and>
   handle_kind (handle_new k g s) = k \<and> handle_slot (handle_new k g s) = s \<and>
   handle_generation (handle_new k g s) = g AND GENERATION_MAX \<and>
   handle_generation h \<le> GENERATION_MAX \<and>
   handle_from_raw (handle_raw h) = h \<and> handle_raw (handle_from_raw r) = r"
  by (simp add: handle_new_parts handle_generation_le)

subsection \<open>Frames\<close>

lemma decode_frame_cases:
  "decode_frame buf =
     (if length buf < HEADER_LEN then Inl UnexpectedEof
      else case frame_kind_from_u16 (u16_from_le_bytes (take 2 (drop 4 buf))) of
             Inl e \<Rightarrow> Inl e
           | Inr kind \<Rightarrow> Inr (\<lparr>fh_version = u16_from_le_bytes (take 2 buf),
                              fh_flags = u16_from_le_bytes (take 2 (drop 2 buf)),
                              fh_kind = kind,
                              fh_opcode = u32_from_le_bytes (take 4 (drop 8 buf)),
                              fh_req_id = u32_from_le_bytes (take 4 (drop 12 buf)),
                              fh_seq = u64_from_le_bytes (take 8 (drop 16 buf)),
                              fh_body_len = u32_from_le_bytes (take 4 (drop 24 buf))\<rparr>, drop HEADER_LEN buf))"
  by (simp add: decode_frame_def frame_header_decode_enough split: sum.splits)

lemma frame_kind_Inl_iff: "frame_kind_from_u16 v = Inl e \<longleftrightarrow> v \<notin> {0, 1, 2} \<and> e = BadKind v"
  by (auto simp: frame_kind_from_u16_def)

lemma reencode_frame:
  assumes "decode_frame buf = Inr (h, body)"
  shows "encode_frame h body = take 6 buf @ [0, 0] @ drop 8 buf"
proof -
  have len: "28 \<le> length buf" and body: "body = drop 28 buf"
    using decode_frame_Inr [OF assms] by (simp_all add: HEADER_LEN_def)
  have zero: "u16_to_le_bytes 0 = [0, 0]"
    by (simp add: u16_to_le_bytes_def numeral_2_eq_2)
  show ?thesis
    using assms len
    by (auto simp: decode_frame_cases HEADER_LEN_def encode_frame_def frame_header_encode_def zero
        frame_kind_from_u16_Inr to_le_bytes_from_le_bytes take_join body
        take_drop_join split: sum.splits dest!: sym [of "u16_from_le_bytes _" "frame_kind_u16 _"])
qed

text \<open>C5. Frames round trip, header and body; and on an arbitrary buffer the decoder has three outcomes:
  short of 28 bytes it is \<open>UnexpectedEof\<close>, with a kind field other than 0, 1, 2 it is \<open>BadKind\<close> of that
  field, and otherwise it yields a header and everything after it. Re-encoding what it yields gives the
  buffer back except for the two reserved bytes, which it ignores.\<close>

theorem protocol_frame_codec:
  "decode_frame (encode_frame h body) = Inr (h, body) \<and>
   (decode_frame buf = Inl e \<longleftrightarrow>
      length buf < HEADER_LEN \<and> e = UnexpectedEof \<or>
      HEADER_LEN \<le> length buf \<and> u16_from_le_bytes (take 2 (drop 4 buf)) \<notin> {0, 1, 2} \<and>
        e = BadKind (u16_from_le_bytes (take 2 (drop 4 buf)))) \<and>
   (decode_frame buf = Inr (h', body') \<longrightarrow>
      encode_frame h' body' = take 6 buf @ [0, 0] @ drop 8 buf)"
proof (intro conjI impI)
  show "decode_frame (encode_frame h body) = Inr (h, body)" by simp
  show "decode_frame buf = Inl e \<longleftrightarrow>
      length buf < HEADER_LEN \<and> e = UnexpectedEof \<or>
      HEADER_LEN \<le> length buf \<and> u16_from_le_bytes (take 2 (drop 4 buf)) \<notin> {0, 1, 2} \<and>
        e = BadKind (u16_from_le_bytes (take 2 (drop 4 buf)))"
    by (cases "length buf < HEADER_LEN")
      (auto simp: decode_frame_cases frame_kind_Inl_iff frame_kind_from_u16_def split: if_splits)
  show "decode_frame buf = Inr (h', body') \<Longrightarrow> encode_frame h' body' = take 6 buf @ [0, 0] @ drop 8 buf"
    by (rule reencode_frame)
qed

lemma protocol_frame_codec_witness:
  "let h = \<lparr>fh_version = 0, fh_flags = 1, fh_kind = Event, fh_opcode = core_op_NOOP, fh_req_id = 5,
            fh_seq = 9, fh_body_len = 1\<rparr>
   in encode_frame h [7] = take 6 (encode_frame h [7]) @ [0, 0] @ drop 8 (encode_frame h [7])"
  unfolding Let_def
  by (rule protocol_frame_codec [THEN conjunct2, THEN conjunct2, rule_format]) simp

subsection \<open>Bodies\<close>

text \<open>C6. Every fixed-size body of the protocol, handshake and per-API, keeps the body contract at its
  documented size: exact width, round trip with anything following, truncation is \<open>UnexpectedEof\<close>, and a
  buffer decodes to a message only if it starts with that message's encoding.\<close>

theorem protocol_bodies:
  "body_contract hello_encode hello_decode 12 \<and>
    body_contract welcome_encode welcome_decode 20 \<and>
    body_contract vk_CreateInstanceRequest_encode vk_CreateInstanceRequest_decode 4 \<and>
    body_contract vk_CreateInstanceResponse_encode vk_CreateInstanceResponse_decode 8 \<and>
    body_contract vk_EnumeratePhysicalDevicesRequest_encode vk_EnumeratePhysicalDevicesRequest_decode 8 \<and>
    body_contract vk_CreateDeviceRequest_encode vk_CreateDeviceRequest_decode 8 \<and>
    body_contract vk_CreateDeviceResponse_encode vk_CreateDeviceResponse_decode 8 \<and>
    body_contract vk_GetDeviceQueueRequest_encode vk_GetDeviceQueueRequest_decode 16 \<and>
    body_contract vk_GetDeviceQueueResponse_encode vk_GetDeviceQueueResponse_decode 8 \<and>
    body_contract vk_AllocateMemoryRequest_encode vk_AllocateMemoryRequest_decode 16 \<and>
    body_contract vk_AllocateMemoryResponse_encode vk_AllocateMemoryResponse_decode 8 \<and>
    body_contract vk_CreateBufferRequest_encode vk_CreateBufferRequest_decode 20 \<and>
    body_contract vk_CreateBufferResponse_encode vk_CreateBufferResponse_decode 8 \<and>
    body_contract vk_BindBufferMemoryRequest_encode vk_BindBufferMemoryRequest_decode 24 \<and>
    body_contract vk_CreateCommandPoolRequest_encode vk_CreateCommandPoolRequest_decode 12 \<and>
    body_contract vk_CreateCommandPoolResponse_encode vk_CreateCommandPoolResponse_decode 8 \<and>
    body_contract vk_AllocateCommandBufferRequest_encode vk_AllocateCommandBufferRequest_decode 8 \<and>
    body_contract vk_AllocateCommandBufferResponse_encode vk_AllocateCommandBufferResponse_decode 8 \<and>
    body_contract vk_QueueSubmitRequest_encode vk_QueueSubmitRequest_decode 16 \<and>
    body_contract vk_CmdCopyBufferRequest_encode vk_CmdCopyBufferRequest_decode 32 \<and>
    body_contract vk_CmdDrawRequest_encode vk_CmdDrawRequest_decode 16 \<and>
    body_contract vk_DestroyBufferRequest_encode vk_DestroyBufferRequest_decode 8 \<and>
    body_contract vk_FreeMemoryRequest_encode vk_FreeMemoryRequest_decode 8 \<and>
    body_contract vk_DestroyCommandPoolRequest_encode vk_DestroyCommandPoolRequest_decode 8 \<and>
    body_contract gl_CreateContextResponse_encode gl_CreateContextResponse_decode 8 \<and>
    body_contract gl_MakeCurrentRequest_encode gl_MakeCurrentRequest_decode 8 \<and>
    body_contract gl_GenBufferRequest_encode gl_GenBufferRequest_decode 8 \<and>
    body_contract gl_GenBufferResponse_encode gl_GenBufferResponse_decode 8 \<and>
    body_contract gl_SwapBuffersRequest_encode gl_SwapBuffersRequest_decode 8 \<and>
    body_contract gl_DeleteBufferRequest_encode gl_DeleteBufferRequest_decode 8 \<and>
    body_contract cuda_CtxCreateRequest_encode cuda_CtxCreateRequest_decode 4 \<and>
    body_contract cuda_CtxCreateResponse_encode cuda_CtxCreateResponse_decode 8 \<and>
    body_contract cuda_MemAllocRequest_encode cuda_MemAllocRequest_decode 16 \<and>
    body_contract cuda_MemAllocResponse_encode cuda_MemAllocResponse_decode 8 \<and>
    body_contract cuda_MemFreeRequest_encode cuda_MemFreeRequest_decode 8 \<and>
    body_contract cuda_LaunchKernelRequest_encode cuda_LaunchKernelRequest_decode 32 \<and>
    body_contract cuda_MemcpyHtoDRequest_encode cuda_MemcpyHtoDRequest_decode 16 \<and>
    body_contract cuda_MemcpyDtoHRequest_encode cuda_MemcpyDtoHRequest_decode 16 \<and>
    body_contract cuda_MemcpyDtoHResponse_encode cuda_MemcpyDtoHResponse_decode 8 \<and>
    body_contract hip_MallocRequest_encode hip_MallocRequest_decode 8 \<and>
    body_contract hip_MallocResponse_encode hip_MallocResponse_decode 8 \<and>
    body_contract hip_FreeRequest_encode hip_FreeRequest_decode 8 \<and>
    body_contract hip_StreamCreateResponse_encode hip_StreamCreateResponse_decode 8 \<and>
    body_contract cl_CreateContextResponse_encode cl_CreateContextResponse_decode 8 \<and>
    body_contract cl_CreateBufferRequest_encode cl_CreateBufferRequest_decode 16 \<and>
    body_contract cl_CreateBufferResponse_encode cl_CreateBufferResponse_decode 8 \<and>
    body_contract cl_ReleaseBufferRequest_encode cl_ReleaseBufferRequest_decode 8 \<and>
    body_contract l0_ContextCreateResponse_encode l0_ContextCreateResponse_decode 8 \<and>
    body_contract l0_MemAllocDeviceRequest_encode l0_MemAllocDeviceRequest_decode 16 \<and>
    body_contract l0_MemAllocDeviceResponse_encode l0_MemAllocDeviceResponse_decode 8 \<and>
    body_contract l0_MemFreeRequest_encode l0_MemFreeRequest_decode 8 \<and>
    body_contract video_CreateDecodeSessionRequest_encode video_CreateDecodeSessionRequest_decode 12 \<and>
    body_contract video_CreateDecodeSessionResponse_encode video_CreateDecodeSessionResponse_decode 8 \<and>
    body_contract video_DecodeFrameRequest_encode video_DecodeFrameRequest_decode 12 \<and>
    body_contract video_DecodeFrameResponse_encode video_DecodeFrameResponse_decode 4 \<and>
    body_contract video_DestroySessionRequest_encode video_DestroySessionRequest_decode 8 \<and>
    body_contract wgpu_RequestDeviceResponse_encode wgpu_RequestDeviceResponse_decode 8 \<and>
    body_contract wgpu_CreateBufferRequest_encode wgpu_CreateBufferRequest_decode 20 \<and>
    body_contract wgpu_CreateBufferResponse_encode wgpu_CreateBufferResponse_decode 8 \<and>
    body_contract wgpu_DestroyBufferRequest_encode wgpu_DestroyBufferRequest_decode 8 \<and>
    body_contract optix_ContextCreateResponse_encode optix_ContextCreateResponse_decode 8 \<and>
    body_contract optix_PipelineCreateRequest_encode optix_PipelineCreateRequest_decode 8 \<and>
    body_contract optix_PipelineCreateResponse_encode optix_PipelineCreateResponse_decode 8 \<and>
    body_contract optix_DestroyRequest_encode optix_DestroyRequest_decode 8 \<and>
    body_contract sycl_QueueCreateResponse_encode sycl_QueueCreateResponse_decode 8 \<and>
    body_contract sycl_MallocDeviceRequest_encode sycl_MallocDeviceRequest_decode 16 \<and>
    body_contract sycl_MallocDeviceResponse_encode sycl_MallocDeviceResponse_decode 8 \<and>
    body_contract sycl_FreeRequest_encode sycl_FreeRequest_decode 8 \<and>
    body_contract amf_CreateEncoderRequest_encode amf_CreateEncoderRequest_decode 12 \<and>
    body_contract amf_CreateEncoderResponse_encode amf_CreateEncoderResponse_decode 8 \<and>
    body_contract amf_EncodeFrameRequest_encode amf_EncodeFrameRequest_decode 12 \<and>
    body_contract amf_EncodeFrameResponse_encode amf_EncodeFrameResponse_decode 4 \<and>
    body_contract amf_DestroyEncoderRequest_encode amf_DestroyEncoderRequest_decode 8"
  by (intro conjI
      hello_body.contract
      welcome_body.contract
      vk_CreateInstanceRequest_body.contract
      vk_CreateInstanceResponse_body.contract
      vk_EnumeratePhysicalDevicesRequest_body.contract
      vk_CreateDeviceRequest_body.contract
      vk_CreateDeviceResponse_body.contract
      vk_GetDeviceQueueRequest_body.contract
      vk_GetDeviceQueueResponse_body.contract
      vk_AllocateMemoryRequest_body.contract
      vk_AllocateMemoryResponse_body.contract
      vk_CreateBufferRequest_body.contract
      vk_CreateBufferResponse_body.contract
      vk_BindBufferMemoryRequest_body.contract
      vk_CreateCommandPoolRequest_body.contract
      vk_CreateCommandPoolResponse_body.contract
      vk_AllocateCommandBufferRequest_body.contract
      vk_AllocateCommandBufferResponse_body.contract
      vk_QueueSubmitRequest_body.contract
      vk_CmdCopyBufferRequest_body.contract
      vk_CmdDrawRequest_body.contract
      vk_DestroyBufferRequest_body.contract
      vk_FreeMemoryRequest_body.contract
      vk_DestroyCommandPoolRequest_body.contract
      gl_CreateContextResponse_body.contract
      gl_MakeCurrentRequest_body.contract
      gl_GenBufferRequest_body.contract
      gl_GenBufferResponse_body.contract
      gl_SwapBuffersRequest_body.contract
      gl_DeleteBufferRequest_body.contract
      cuda_CtxCreateRequest_body.contract
      cuda_CtxCreateResponse_body.contract
      cuda_MemAllocRequest_body.contract
      cuda_MemAllocResponse_body.contract
      cuda_MemFreeRequest_body.contract
      cuda_LaunchKernelRequest_body.contract
      cuda_MemcpyHtoDRequest_body.contract
      cuda_MemcpyDtoHRequest_body.contract
      cuda_MemcpyDtoHResponse_body.contract
      hip_MallocRequest_body.contract
      hip_MallocResponse_body.contract
      hip_FreeRequest_body.contract
      hip_StreamCreateResponse_body.contract
      cl_CreateContextResponse_body.contract
      cl_CreateBufferRequest_body.contract
      cl_CreateBufferResponse_body.contract
      cl_ReleaseBufferRequest_body.contract
      l0_ContextCreateResponse_body.contract
      l0_MemAllocDeviceRequest_body.contract
      l0_MemAllocDeviceResponse_body.contract
      l0_MemFreeRequest_body.contract
      video_CreateDecodeSessionRequest_body.contract
      video_CreateDecodeSessionResponse_body.contract
      video_DecodeFrameRequest_body.contract
      video_DecodeFrameResponse_body.contract
      video_DestroySessionRequest_body.contract
      wgpu_RequestDeviceResponse_body.contract
      wgpu_CreateBufferRequest_body.contract
      wgpu_CreateBufferResponse_body.contract
      wgpu_DestroyBufferRequest_body.contract
      optix_ContextCreateResponse_body.contract
      optix_PipelineCreateRequest_body.contract
      optix_PipelineCreateResponse_body.contract
      optix_DestroyRequest_body.contract
      sycl_QueueCreateResponse_body.contract
      sycl_MallocDeviceRequest_body.contract
      sycl_MallocDeviceResponse_body.contract
      sycl_FreeRequest_body.contract
      amf_CreateEncoderRequest_body.contract
      amf_CreateEncoderResponse_body.contract
      amf_EncodeFrameRequest_body.contract
      amf_EncodeFrameResponse_body.contract
      amf_DestroyEncoderRequest_body.contract)

text \<open>The one body of variable size, the list of physical devices: a list of fewer than \<open>2 ^ 32\<close>
  handles round trips, and a buffer shorter than the count it announces is \<open>UnexpectedEof\<close>, never a
  shorter list.\<close>

theorem protocol_device_list:
  assumes "length (vk_EnumeratePhysicalDevicesResponse_devices m) < 2 ^ 32"
  shows "vk_EnumeratePhysicalDevicesResponse_decode (vk_EnumeratePhysicalDevicesResponse_encode m [] @ rest) = Inr m \<and>
    (length buf < 4 \<or> length buf < 4 + 8 * unat (u32_from_le_bytes (take 4 buf)) \<longrightarrow>
       vk_EnumeratePhysicalDevicesResponse_decode buf = Inl UnexpectedEof)"
  using vk_EnumeratePhysicalDevicesResponse_roundtrip [OF assms]
    vk_EnumeratePhysicalDevicesResponse_decode_short by blast

lemma protocol_device_list_witness:
  "vk_EnumeratePhysicalDevicesResponse_decode
     (vk_EnumeratePhysicalDevicesResponse_encode
        \<lparr>vk_EnumeratePhysicalDevicesResponse_devices = [handle_new 2 0 0, handle_new 2 5 1]\<rparr> [] @ [1])
   = Inr \<lparr>vk_EnumeratePhysicalDevicesResponse_devices = [handle_new 2 0 0, handle_new 2 5 1]\<rparr>"
  using protocol_device_list [of "\<lparr>vk_EnumeratePhysicalDevicesResponse_devices = [handle_new 2 0 0, handle_new 2 5 1]\<rparr>" "[1]"]
  by simp

end
