(* ===== verification/Handles.thy ===== *)
theory Handles
  imports Protocol
begin

section \<open>The generational handle table\<close>

text \<open>
  \<open>crates/graftx-handles/src/lib.rs\<close>: the table every backend keeps its resources in. A slot
  carries a generation, bumped when the slot is freed; a handle resolves only under the generation
  it was issued with, and a slot whose generation is exhausted is retired.

  The definitions follow the methods of \<open>HandleTable\<close>. The vector \<open>free\<close> is a stack whose top is
  the end of the list. Three facts the code leaves implicit are theorems here: \<open>insert\<close> indexes
  \<open>slots\<close> at an index from \<open>free\<close>, which is in range in every table that satisfies \<open>ht_inv\<close>; the
  counter \<open>live\<close> is positive where it is decremented; and \<open>slots.len() as u32\<close> is exact while the
  table has room (\<open>ht_room\<close>), the bound under which fresh handles are fresh.

  The abstract table is a partial map from (slot, generation) to (kind, value). The second half shows
  every operation to be the corresponding operation on that map, then the use-after-free property over
  arbitrary further operations (a step relation), and the interface \<open>object_store\<close> that the backends
  rely on, interpreted on the table.
\<close>

subsection \<open>Data\<close>

definition NULL_HANDLE :: Handle where
  "NULL_HANDLE = handle_from_raw 0"

datatype handle_error =
    SlotOutOfRange u32
  | EmptySlot u32
  | GenerationMismatch u32 u32 u32

record handle_stats =
  stats_live :: nat
  stats_retired :: nat
  stats_capacity :: nat
  stats_kinds :: "u8 list"

record 'v slot =
  slot_generation :: u32
  slot_kind :: u8
  slot_value :: "'v option"
  slot_retired :: bool

record 'v handle_table =
  ht_slots :: "'v slot list"
  ht_free :: "u32 list"
  ht_live :: nat

subsection \<open>Operations\<close>

definition ht_new :: "'v handle_table" where
  "ht_new = \<lparr>ht_slots = [], ht_free = [], ht_live = 0\<rparr>"

text \<open>\<open>slots.get(i)\<close>\<close>

definition slots_get :: "'v slot list \<Rightarrow> nat \<Rightarrow> 'v slot option" where
  "slots_get xs i = (if i < length xs then Some (xs ! i) else None)"

definition ht_insert :: "u8 \<Rightarrow> 'v \<Rightarrow> 'v handle_table \<Rightarrow> Handle \<times> 'v handle_table" where
  "ht_insert kind value t =
     (let t = t\<lparr>ht_live := ht_live t + 1\<rparr> in
      if ht_free t \<noteq> [] then
        let slot_idx = last (ht_free t);
            slot = ht_slots t ! unat slot_idx
        in (handle_new kind (slot_generation slot) slot_idx,
            t\<lparr>ht_free := butlast (ht_free t),
              ht_slots := (ht_slots t)[unat slot_idx := slot\<lparr>slot_value := Some value, slot_kind := kind\<rparr>]\<rparr>)
      else
        let slot_idx = word_of_nat (length (ht_slots t))
        in (handle_new kind 0 slot_idx,
            t\<lparr>ht_slots := ht_slots t @
              [\<lparr>slot_generation = 0, slot_kind = kind, slot_value = Some value, slot_retired = False\<rparr>]\<rparr>))"

definition ht_try_insert ::
    "u8 \<Rightarrow> 'v \<Rightarrow> nat \<Rightarrow> 'v handle_table \<Rightarrow> Handle option \<times> 'v handle_table" where
  "ht_try_insert kind value max_live t =
     (if ht_live t < max_live
      then (let (h, t') = ht_insert kind value t in (Some h, t'))
      else (None, t))"

definition ht_get :: "'v handle_table \<Rightarrow> Handle \<Rightarrow> 'v option" where
  "ht_get t h =
     (case slots_get (ht_slots t) (unat (handle_slot h)) of
        None \<Rightarrow> None
      | Some slot \<Rightarrow>
          (if slot_generation slot \<noteq> handle_generation h then None else slot_value slot))"

text \<open>
  \<open>get_mut\<close> returns a mutable reference: the value, and the table after \<open>v\<close> is written through it.
\<close>

definition ht_get_mut :: "'v handle_table \<Rightarrow> Handle \<Rightarrow> ('v \<times> ('v \<Rightarrow> 'v handle_table)) option" where
  "ht_get_mut t h =
     (case slots_get (ht_slots t) (unat (handle_slot h)) of
        None \<Rightarrow> None
      | Some slot \<Rightarrow>
          (if slot_generation slot \<noteq> handle_generation h then None
           else map_option
             (\<lambda>v. (v, \<lambda>w. t\<lparr>ht_slots := (ht_slots t)[unat (handle_slot h) := slot\<lparr>slot_value := Some w\<rparr>]\<rparr>))
             (slot_value slot)))"

definition ht_remove :: "Handle \<Rightarrow> 'v handle_table \<Rightarrow> 'v option \<times> 'v handle_table" where
  "ht_remove h t =
     (let slot_idx = handle_slot h in
      case slots_get (ht_slots t) (unat slot_idx) of
        None \<Rightarrow> (None, t)
      | Some slot \<Rightarrow>
          if slot_generation slot \<noteq> handle_generation h then (None, t)
          else case slot_value slot of
            None \<Rightarrow> (None, t)
          | Some value \<Rightarrow>
              (Some value,
               let slot = slot\<lparr>slot_value := None\<rparr>; t = t\<lparr>ht_live := ht_live t - 1\<rparr> in
               if GENERATION_MAX \<le> slot_generation slot
               then t\<lparr>ht_slots := (ht_slots t)[unat slot_idx := slot\<lparr>slot_retired := True\<rparr>]\<rparr>
               else t\<lparr>ht_slots := (ht_slots t)
                        [unat slot_idx := slot\<lparr>slot_generation := slot_generation slot + 1\<rparr>],
                      ht_free := ht_free t @ [slot_idx]\<rparr>))"

definition ht_len :: "'v handle_table \<Rightarrow> nat" where
  "ht_len t = ht_live t"

definition ht_is_empty :: "'v handle_table \<Rightarrow> bool" where
  "ht_is_empty t \<longleftrightarrow> ht_live t = 0"

text \<open>\<open>filter_map\<close> over \<open>slots.iter().enumerate()\<close>.\<close>

definition ht_iter :: "'v handle_table \<Rightarrow> (Handle \<times> 'v) list" where
  "ht_iter t = List.map_filter
     (\<lambda>(slot_idx, slot). case slot_value slot of
        None \<Rightarrow> None
      | Some value \<Rightarrow>
          Some (handle_new (slot_kind slot) (slot_generation slot) (word_of_nat slot_idx), value))
     (List.enumerate 0 (ht_slots t))"

definition ht_iter_kind :: "u8 \<Rightarrow> 'v handle_table \<Rightarrow> (Handle \<times> 'v) list" where
  "ht_iter_kind kind t = List.map_filter
     (\<lambda>(slot_idx, slot). if slot_kind slot \<noteq> kind then None else case slot_value slot of
        None \<Rightarrow> None
      | Some value \<Rightarrow>
          Some (handle_new (slot_kind slot) (slot_generation slot) (word_of_nat slot_idx), value))
     (List.enumerate 0 (ht_slots t))"

definition ht_count_by_kind :: "u8 \<Rightarrow> 'v handle_table \<Rightarrow> nat" where
  "ht_count_by_kind kind t =
     length (filter (\<lambda>slot. slot_value slot \<noteq> None \<and> slot_kind slot = kind) (ht_slots t))"

definition ht_is_live :: "'v handle_table \<Rightarrow> Handle \<Rightarrow> bool" where
  "ht_is_live t h \<longleftrightarrow> ht_get t h \<noteq> None"

definition ht_contains :: "'v handle_table \<Rightarrow> Handle \<Rightarrow> bool" where
  "ht_contains t h = ht_is_live t h"

text \<open>\<open>sort_unstable\<close> then \<open>dedup\<close>, which drops consecutive repetitions.\<close>

definition ht_kinds :: "'v handle_table \<Rightarrow> u8 list" where
  "ht_kinds t =
     remdups_adj (sort (map slot_kind (filter (\<lambda>slot. slot_value slot \<noteq> None) (ht_slots t))))"

definition ht_capacity :: "'v handle_table \<Rightarrow> nat" where
  "ht_capacity t = length (ht_slots t)"

definition ht_retired :: "'v handle_table \<Rightarrow> nat" where
  "ht_retired t = length (filter slot_retired (ht_slots t))"

definition ht_stats :: "'v handle_table \<Rightarrow> handle_stats" where
  "ht_stats t = \<lparr>stats_live = ht_len t, stats_retired = ht_retired t,
     stats_capacity = ht_capacity t, stats_kinds = ht_kinds t\<rparr>"

text \<open>The loops of \<open>clear\<close> and \<open>retain\<close> over \<open>slots.iter_mut().enumerate()\<close>.\<close>

fun clear_slots :: "nat \<Rightarrow> 'v slot list \<Rightarrow> u32 list \<Rightarrow> 'v slot list \<times> u32 list" where
  "clear_slots slot_idx [] free = ([], free)"
| "clear_slots slot_idx (slot # slots) free =
     (let (slot', free') =
        (case slot_value slot of
           None \<Rightarrow> (slot, free)
         | Some _ \<Rightarrow>
             let slot = slot\<lparr>slot_value := None\<rparr> in
             if GENERATION_MAX \<le> slot_generation slot then (slot\<lparr>slot_retired := True\<rparr>, free)
             else (slot\<lparr>slot_generation := slot_generation slot + 1\<rparr>, free @ [word_of_nat slot_idx]));
        (slots', free'') = clear_slots (Suc slot_idx) slots free'
      in (slot' # slots', free''))"

definition ht_clear :: "'v handle_table \<Rightarrow> 'v handle_table" where
  "ht_clear t = (let (slots, free) = clear_slots 0 (ht_slots t) (ht_free t) in
     t\<lparr>ht_slots := slots, ht_free := free, ht_live := 0\<rparr>)"

text \<open>
  The predicate of \<open>retain\<close> is an \<open>FnMut\<close>: its captured state, of type \<open>'s\<close>, is threaded through
  the calls. The loop returns the slots, the free list, the count and that state.
\<close>

fun retain_slots ::
    "('s \<Rightarrow> Handle \<Rightarrow> 'v \<Rightarrow> bool \<times> 's) \<Rightarrow> nat \<Rightarrow> 'v slot list \<Rightarrow> u32 list \<Rightarrow> nat \<Rightarrow> 's
     \<Rightarrow> 'v slot list \<times> u32 list \<times> nat \<times> 's" where
  "retain_slots keep slot_idx [] free removed s = ([], free, removed, s)"
| "retain_slots keep slot_idx (slot # slots) free removed s =
     (let (slot', free', removed', s') =
        (case slot_value slot of
           None \<Rightarrow> (slot, free, removed, s)
         | Some value \<Rightarrow>
             let handle = handle_new (slot_kind slot) (slot_generation slot) (word_of_nat slot_idx);
                 (kept, s) = keep s handle value
             in if kept then (slot, free, removed, s)
                else
                  let slot = slot\<lparr>slot_value := None\<rparr>; removed = removed + 1 in
                  if GENERATION_MAX \<le> slot_generation slot
                  then (slot\<lparr>slot_retired := True\<rparr>, free, removed, s)
                  else (slot\<lparr>slot_generation := slot_generation slot + 1\<rparr>,
                        free @ [word_of_nat slot_idx], removed, s));
        (slots', free'', removed'', s'') = retain_slots keep (Suc slot_idx) slots free' removed' s'
      in (slot' # slots', free'', removed'', s''))"

definition ht_retain ::
    "('s \<Rightarrow> Handle \<Rightarrow> 'v \<Rightarrow> bool \<times> 's) \<Rightarrow> 's \<Rightarrow> 'v handle_table \<Rightarrow> nat \<times> 'v handle_table \<times> 's" where
  "ht_retain keep s t =
     (let (slots, free, removed, s') = retain_slots keep 0 (ht_slots t) (ht_free t) 0 s in
      (removed, t\<lparr>ht_slots := slots, ht_free := free, ht_live := ht_live t - removed\<rparr>, s'))"

subsection \<open>The invariant\<close>

definition slot_wf :: "'v slot \<Rightarrow> bool" where
  "slot_wf s \<longleftrightarrow> slot_generation s \<le> GENERATION_MAX \<and>
     (slot_retired s \<longrightarrow> slot_value s = None \<and> slot_generation s = GENERATION_MAX)"

definition slot_vacant :: "'v slot \<Rightarrow> bool" where
  "slot_vacant s \<longleftrightarrow> slot_value s = None \<and> \<not> slot_retired s"

definition vacant_at :: "'v slot list \<Rightarrow> nat set" where
  "vacant_at xs = {i. i < length xs \<and> slot_vacant (xs ! i)}"

definition live_count :: "'v slot list \<Rightarrow> nat" where
  "live_count xs = length (filter (\<lambda>s. slot_value s \<noteq> None) xs)"

text \<open>
  The free list holds exactly the vacant slots, each once; \<open>live\<close> counts the occupied ones; no
  generation exceeds the 24 bits of a handle; a retired slot is empty with its generation exhausted.
\<close>

definition ht_inv :: "'v handle_table \<Rightarrow> bool" where
  "ht_inv t \<longleftrightarrow> distinct (ht_free t) \<and> unat ` set (ht_free t) = vacant_at (ht_slots t) \<and>
     ht_live t = live_count (ht_slots t) \<and> list_all slot_wf (ht_slots t)"

text \<open>The index of every slot fits a handle, and the next insertion keeps it so.\<close>

definition ht_small :: "'v handle_table \<Rightarrow> bool" where
  "ht_small t \<longleftrightarrow> length (ht_slots t) \<le> 2 ^ 32"

definition ht_room :: "'v handle_table \<Rightarrow> bool" where
  "ht_room t \<longleftrightarrow> ht_free t \<noteq> [] \<or> length (ht_slots t) < 2 ^ 32"

lemma live_count_simps [simp]:
  "live_count [] = 0"
  "live_count (x # xs) = (if slot_value x = None then 0 else 1) + live_count xs"
  by (simp_all add: live_count_def)

lemma live_count_update:
  "i < length xs \<Longrightarrow>
   live_count (xs[i := s]) + (if slot_value (xs ! i) = None then 0 else 1)
   = live_count xs + (if slot_value s = None then 0 else 1)"
proof (induction xs arbitrary: i)
  case Nil
  then show ?case by simp
next
  case (Cons x xs)
  show ?case
  proof (cases i)
    case 0
    then show ?thesis by simp
  next
    case (Suc j)
    then show ?thesis using Cons.IH [of j] Cons.prems by simp
  qed
qed

lemma live_count_append [simp]: "live_count (xs @ ys) = live_count xs + live_count ys"
  by (simp add: live_count_def)

lemma live_count_pos: "i < length xs \<Longrightarrow> slot_value (xs ! i) \<noteq> None \<Longrightarrow> 0 < live_count xs"
  by (metis (mono_tags, lifting) live_count_def length_greater_0_conv filter_empty_conv nth_mem)

lemma vacant_at_update:
  "i < length xs \<Longrightarrow>
   vacant_at (xs[i := s]) = (if slot_vacant s then insert i (vacant_at xs) else vacant_at xs - {i})"
  by (auto simp: vacant_at_def nth_list_update)

lemma vacant_at_append:
  "vacant_at (xs @ [s]) = (if slot_vacant s then insert (length xs) (vacant_at xs) else vacant_at xs)"
  by (auto simp: vacant_at_def nth_append less_Suc_eq)

lemma list_all_update: "list_all P xs \<Longrightarrow> P s \<Longrightarrow> list_all P (xs[i := s])"
  using set_update_subset_insert [of xs i s] by (auto simp: list_all_iff)

lemma unat_image_eq_iff: "unat x \<in> unat ` A \<longleftrightarrow> x \<in> A"
  by (rule inj_image_mem_iff) (simp add: inj_on_def unsigned_word_eqI)

lemma ht_inv_new: "ht_inv ht_new"
  by (simp add: ht_inv_def ht_new_def vacant_at_def live_count_def)

text \<open>The index \<open>insert\<close> pops is a vacant slot: the code's \<open>slots[slot_idx]\<close> is in range.\<close>

lemma ht_free_top:
  assumes "ht_inv t" "ht_free t \<noteq> []"
  shows "unat (last (ht_free t)) < length (ht_slots t)"
    and "slot_vacant (ht_slots t ! unat (last (ht_free t)))"
    and "unat ` set (butlast (ht_free t)) = vacant_at (ht_slots t) - {unat (last (ht_free t))}"
proof -
  have top: "unat (last (ht_free t)) \<in> vacant_at (ht_slots t)"
    using assms by (metis ht_inv_def imageI last_in_set)
  then show "unat (last (ht_free t)) < length (ht_slots t)"
    and "slot_vacant (ht_slots t ! unat (last (ht_free t)))"
    by (auto simp: vacant_at_def)
  have "unat (last (ht_free t)) \<notin> unat ` set (butlast (ht_free t))"
    using assms by (simp only: unat_image_eq_iff ht_inv_def distinct_last_notin_butlast not_False_eq_True)
  moreover have "unat ` set (ht_free t) = insert (unat (last (ht_free t))) (unat ` set (butlast (ht_free t)))"
    using last_in_butlast_set [OF assms(2)] by simp
  ultimately show "unat ` set (butlast (ht_free t)) = vacant_at (ht_slots t) - {unat (last (ht_free t))}"
    using assms(1) unfolding ht_inv_def by blast
qed

lemma ht_inv_insert:
  assumes "ht_inv t"
  shows "ht_inv (snd (ht_insert kind v t))"
proof (cases "ht_free t = []")
  case True
  then show ?thesis using assms
    by (simp add: ht_inv_def ht_insert_def vacant_at_append slot_vacant_def slot_wf_def)
next
  case False
  let ?i = "unat (last (ht_free t))" and ?xs = "ht_slots t"
  note top = ht_free_top [OF assms False]
  have wf: "slot_wf (?xs ! ?i)"
    using assms top(1) by (simp add: ht_inv_def list_all_length)
  show ?thesis
    using assms False top wf live_count_update [OF top(1), of "(?xs ! ?i)\<lparr>slot_value := Some v, slot_kind := kind\<rparr>"]
    by (simp add: ht_inv_def ht_insert_def Let_def distinct_butlast vacant_at_update slot_vacant_def
        slot_wf_def list_all_update)
qed

lemma ht_inv_try_insert: "ht_inv t \<Longrightarrow> ht_inv (snd (ht_try_insert kind v max_live t))"
  using ht_inv_insert [of t kind v] by (auto simp: ht_try_insert_def split: prod.splits)

lemma slots_get_Some: "slots_get xs i = Some s \<longleftrightarrow> i < length xs \<and> s = xs ! i"
  by (auto simp: slots_get_def)

lemma ht_get_Some:
  "ht_get t h = Some v \<longleftrightarrow> unat (handle_slot h) < length (ht_slots t) \<and>
     slot_generation (ht_slots t ! unat (handle_slot h)) = handle_generation h \<and>
     slot_value (ht_slots t ! unat (handle_slot h)) = Some v"
  by (auto simp: ht_get_def slots_get_def)

text \<open>How the three freeing loops leave a slot.\<close>

definition slot_freed :: "'v slot \<Rightarrow> 'v slot" where
  "slot_freed s =
     (if GENERATION_MAX \<le> slot_generation s then s\<lparr>slot_value := None, slot_retired := True\<rparr>
      else s\<lparr>slot_value := None, slot_generation := slot_generation s + 1\<rparr>)"

lemma generation_succ:
  "\<not> GENERATION_MAX \<le> g \<Longrightarrow> g < g + 1 \<and> g + 1 \<le> GENERATION_MAX"
  by (simp add: GENERATION_MAX_value word_le_nat_alt word_less_nat_alt unat_word_ariths)

lemma slot_freed_simps [simp]:
  "slot_value (slot_freed s) = None"
  "slot_kind (slot_freed s) = slot_kind s"
  by (simp_all add: slot_freed_def)

lemma slot_freed_wf: "slot_wf s \<Longrightarrow> slot_wf (slot_freed s)"
  by (auto simp: slot_freed_def slot_wf_def generation_succ)

lemma slot_freed_vacant:
  "slot_wf s \<Longrightarrow> slot_value s \<noteq> None \<Longrightarrow> slot_vacant (slot_freed s) \<longleftrightarrow> \<not> GENERATION_MAX \<le> slot_generation s"
  by (auto simp: slot_freed_def slot_vacant_def slot_wf_def)

lemma ht_remove_get: "fst (ht_remove h t) = ht_get t h"
  by (simp add: ht_remove_def ht_get_def Let_def split: option.splits)

lemma ht_remove_None: "ht_get t h = None \<Longrightarrow> ht_remove h t = (None, t)"
  by (auto simp: ht_remove_def ht_get_def Let_def split: option.splits if_splits)

lemma ht_remove_Some:
  "ht_get t h = Some v \<Longrightarrow>
   ht_remove h t = (Some v,
     t\<lparr>ht_live := ht_live t - 1,
       ht_slots := (ht_slots t)[unat (handle_slot h) := slot_freed (ht_slots t ! unat (handle_slot h))],
       ht_free := (if GENERATION_MAX \<le> handle_generation h then ht_free t else ht_free t @ [handle_slot h])\<rparr>)"
  by (simp add: ht_get_Some ht_remove_def Let_def slots_get_def slot_freed_def)

text \<open>\<open>live\<close> is positive wherever \<open>remove\<close> decrements it.\<close>

lemma ht_live_pos: "ht_inv t \<Longrightarrow> ht_get t h \<noteq> None \<Longrightarrow> 0 < ht_live t"
  using live_count_pos [of "unat (handle_slot h)" "ht_slots t"] by (auto simp: ht_get_Some ht_inv_def)

lemma occupied_not_free:
  assumes "ht_inv t" "ht_get t h = Some v"
  shows "handle_slot h \<notin> set (ht_free t)"
proof -
  have "unat (handle_slot h) \<notin> vacant_at (ht_slots t)"
    using assms(2) by (simp add: ht_get_Some vacant_at_def slot_vacant_def)
  then show ?thesis
    using assms(1) unfolding ht_inv_def by blast
qed

lemma ht_inv_remove:
  assumes "ht_inv t"
  shows "ht_inv (snd (ht_remove h t))"
proof (cases "ht_get t h")
  case None
  then show ?thesis using assms by (simp add: ht_remove_None)
next
  case (Some v)
  let ?i = "unat (handle_slot h)" and ?xs = "ht_slots t"
  have i: "?i < length ?xs" "slot_generation (?xs ! ?i) = handle_generation h" "slot_value (?xs ! ?i) = Some v"
    using Some by (simp_all add: ht_get_Some)
  have wf: "slot_wf (?xs ! ?i)"
    using assms i(1) by (simp add: ht_inv_def list_all_length)
  have "?i \<notin> vacant_at ?xs"
    by (simp add: vacant_at_def slot_vacant_def i)
  then show ?thesis
    using assms i wf occupied_not_free [OF assms Some] live_count_update [OF i(1), of "slot_freed (?xs ! ?i)"]
    by (simp add: ht_remove_Some [OF Some] ht_inv_def vacant_at_update slot_freed_vacant list_all_update slot_freed_wf)
qed

lemma ht_get_mut_get: "map_option fst (ht_get_mut t h) = ht_get t h"
  by (simp add: ht_get_mut_def ht_get_def option.map_comp comp_def option.map_ident split: option.splits)

lemma ht_get_mut_Some:
  "ht_get_mut t h = Some (v, wr) \<longleftrightarrow> ht_get t h = Some v \<and>
     wr = (\<lambda>w. t\<lparr>ht_slots := (ht_slots t)[unat (handle_slot h) :=
                (ht_slots t ! unat (handle_slot h))\<lparr>slot_value := Some w\<rparr>]\<rparr>)"
  by (auto simp: ht_get_mut_def ht_get_def slots_get_def split: option.splits if_splits)

lemma ht_get_mut_None: "ht_get_mut t h = None \<longleftrightarrow> ht_get t h = None"
  by (auto simp: ht_get_mut_def ht_get_def split: option.splits if_splits)

lemma ht_inv_get_mut:
  assumes "ht_inv t" "ht_get_mut t h = Some (v, wr)"
  shows "ht_inv (wr w)"
proof -
  let ?i = "unat (handle_slot h)" and ?xs = "ht_slots t"
  have i: "?i < length ?xs" "slot_value (?xs ! ?i) = Some v"
    using assms(2) by (simp_all add: ht_get_mut_Some ht_get_Some)
  have wf: "slot_wf (?xs ! ?i)"
    using assms(1) i(1) by (simp add: ht_inv_def list_all_length)
  have "?i \<notin> vacant_at ?xs"
    by (simp add: vacant_at_def slot_vacant_def i)
  then show ?thesis
    using assms i wf live_count_update [OF i(1), where s = "(?xs ! ?i)\<lparr>slot_value := Some w\<rparr>"]
    by (simp add: ht_get_mut_Some ht_inv_def vacant_at_update slot_vacant_def slot_wf_def list_all_update)
qed

subsection \<open>The loops of \<open>clear\<close> and \<open>retain\<close>\<close>

text \<open>
  \<open>clear\<close> frees what \<open>retain\<close> frees when it keeps nothing. The relation \<open>freed i xs xs' fs n\<close> is the
  loops' specification: from index \<open>i\<close> on, each slot of \<open>xs\<close> is left alone or freed, \<open>fs\<close> are the
  indices pushed on the free list in order, and \<open>n\<close> entries are lost.
\<close>

inductive freed :: "nat \<Rightarrow> 'v slot list \<Rightarrow> 'v slot list \<Rightarrow> nat list \<Rightarrow> nat \<Rightarrow> bool" where
  freed_Nil: "freed i [] [] [] 0"
| freed_Keep: "freed (Suc i) xs xs' fs n \<Longrightarrow> freed i (x # xs) (x # xs') fs n"
| freed_Retire: "freed (Suc i) xs xs' fs n \<Longrightarrow> slot_value x \<noteq> None \<Longrightarrow> GENERATION_MAX \<le> slot_generation x \<Longrightarrow>
    freed i (x # xs) (slot_freed x # xs') fs (Suc n)"
| freed_Free: "freed (Suc i) xs xs' fs n \<Longrightarrow> slot_value x \<noteq> None \<Longrightarrow> \<not> GENERATION_MAX \<le> slot_generation x \<Longrightarrow>
    freed i (x # xs) (slot_freed x # xs') (i # fs) (Suc n)"

lemma clear_slots_retain_slots:
  "retain_slots (\<lambda>s h v. (False, s)) i xs free r s =
     (fst (clear_slots i xs free), snd (clear_slots i xs free), r + live_count xs, s)"
  by (induction xs arbitrary: i free r) (auto simp: Let_def split: option.splits prod.splits)

lemma retain_slots_freed:
  "retain_slots keep i xs free r s = (xs', free', r', s') \<Longrightarrow>
   \<exists>fs n. free' = free @ map word_of_nat fs \<and> r' = r + n \<and> freed i xs xs' fs n"
proof (induction xs arbitrary: i free r s xs')
  case Nil
  then show ?case by (auto intro: freed_Nil)
next
  case (Cons x xs)
  show ?case
  proof (cases "slot_value x")
    case None
    then obtain xs'' where "xs' = x # xs''" "retain_slots keep (Suc i) xs free r s = (xs'', free', r', s')"
      using Cons.prems by (auto split: prod.splits)
    then show ?thesis using Cons.IH by (blast intro: freed_Keep)
  next
    case (Some v)
    obtain kept s1 where keep: "keep s (handle_new (slot_kind x) (slot_generation x) (word_of_nat i)) v = (kept, s1)"
      by fastforce
    consider (keep) "kept" | (retire) "\<not> kept" "GENERATION_MAX \<le> slot_generation x"
      | (free) "\<not> kept" "\<not> GENERATION_MAX \<le> slot_generation x"
      by blast
    then show ?thesis
    proof cases
      case keep
      then obtain xs'' where "xs' = x # xs''" "retain_slots keep (Suc i) xs free r s1 = (xs'', free', r', s')"
        using Cons.prems Some \<open>keep s _ v = _\<close> by (auto simp: Let_def split: prod.splits)
      then show ?thesis using Cons.IH by (blast intro: freed_Keep)
    next
      case retire
      then obtain xs'' where "xs' = slot_freed x # xs''"
          "retain_slots keep (Suc i) xs free (Suc r) s1 = (xs'', free', r', s')"
        using Cons.prems Some \<open>keep s _ v = _\<close> by (auto simp: Let_def slot_freed_def split: prod.splits)
      then obtain fs n where "free' = free @ map word_of_nat fs" "r' = Suc r + n" "freed (Suc i) xs xs'' fs n"
        using Cons.IH by blast
      then show ?thesis using retire Some \<open>xs' = _\<close>
        by (intro exI [of _ fs] exI [of _ "Suc n"]) (simp add: freed_Retire)
    next
      case free
      then obtain xs'' where "xs' = slot_freed x # xs''"
          "retain_slots keep (Suc i) xs (free @ [word_of_nat i]) (Suc r) s1 = (xs'', free', r', s')"
        using Cons.prems Some \<open>keep s _ v = _\<close> by (auto simp: Let_def slot_freed_def split: prod.splits)
      then obtain fs n where "free' = (free @ [word_of_nat i]) @ map word_of_nat fs" "r' = Suc r + n"
          "freed (Suc i) xs xs'' fs n"
        using Cons.IH by blast
      then show ?thesis using free Some \<open>xs' = _\<close>
        by (intro exI [of _ "i # fs"] exI [of _ "Suc n"]) (simp add: freed_Free)
    qed
  qed
qed

lemma freed_length: "freed i xs xs' fs n \<Longrightarrow> length xs' = length xs"
  by (induction rule: freed.induct) simp_all

lemma freed_nth:
  "freed i xs xs' fs n \<Longrightarrow> j < length xs \<Longrightarrow>
   xs' ! j = xs ! j \<or> slot_value (xs ! j) \<noteq> None \<and> xs' ! j = slot_freed (xs ! j)"
  by (induction arbitrary: j rule: freed.induct) (auto simp: nth_Cons split: nat.splits)

lemma freed_wf: "freed i xs xs' fs n \<Longrightarrow> list_all slot_wf xs \<Longrightarrow> list_all slot_wf xs'"
  by (induction rule: freed.induct) (auto simp: slot_freed_wf)

lemma freed_live_count: "freed i xs xs' fs n \<Longrightarrow> live_count xs' + n = live_count xs"
  by (induction rule: freed.induct) auto

lemma freed_range: "freed i xs xs' fs n \<Longrightarrow> set fs \<subseteq> {i..<i + length xs}"
  by (induction rule: freed.induct) auto

lemma freed_distinct: "freed i xs xs' fs n \<Longrightarrow> distinct fs"
proof (induction rule: freed.induct)
  case (freed_Free i xs xs' fs n x)
  then show ?case using freed_range [OF freed_Free.hyps(1)] by auto
qed simp_all

lemma freed_index:
  "freed i xs xs' fs n \<Longrightarrow> list_all slot_wf xs \<Longrightarrow> j < length xs \<Longrightarrow>
   i + j \<in> set fs \<longleftrightarrow> slot_vacant (xs' ! j) \<and> \<not> slot_vacant (xs ! j)"
proof (induction arbitrary: j rule: freed.induct)
  case (freed_Keep i xs xs' fs n x)
  then show ?case using freed_range [OF freed_Keep.hyps(1)] by (cases j) auto
next
  case (freed_Retire i xs xs' fs n x)
  then show ?case using freed_range [OF freed_Retire.hyps(1)]
    by (cases j) (auto simp: slot_freed_vacant)
next
  case (freed_Free i xs xs' fs n x)
  then show ?case using freed_range [OF freed_Free.hyps(1)]
    by (cases j) (auto simp: slot_freed_vacant, simp add: slot_vacant_def)
qed simp

lemma freed_vacant_at:
  assumes "freed 0 xs xs' fs n" "list_all slot_wf xs"
  shows "vacant_at xs' = vacant_at xs \<union> set fs" "vacant_at xs \<inter> set fs = {}"
proof -
  have keep: "slot_vacant (xs' ! j)" if "j < length xs" "slot_vacant (xs ! j)" for j
    using freed_nth [OF assms(1) that(1)] that(2) by (auto simp: slot_vacant_def)
  show "vacant_at xs \<inter> set fs = {}"
    using freed_index [OF assms] by (auto simp: vacant_at_def)
  show "vacant_at xs' = vacant_at xs \<union> set fs"
    using freed_index [OF assms] freed_length [OF assms(1)] freed_range [OF assms(1)] keep
    by (auto simp: vacant_at_def)
qed

lemma unat_of_nat_below: "n < 2 ^ 32 \<Longrightarrow> unat (word_of_nat n :: u32) = n"
  by (simp add: unsigned_of_nat take_bit_nat_eq_self)

lemma ht_inv_freed:
  assumes "ht_inv t" "ht_small t" "freed 0 (ht_slots t) xs' fs n"
  shows "ht_inv (t\<lparr>ht_slots := xs', ht_free := ht_free t @ map word_of_nat fs, ht_live := ht_live t - n\<rparr>)"
    and "n \<le> ht_live t"
proof -
  have wf: "list_all slot_wf (ht_slots t)" and live: "ht_live t = live_count (ht_slots t)"
    using assms(1) by (simp_all add: ht_inv_def)
  have small: "j < 2 ^ 32" if "j \<in> set fs" for j
    using freed_range [OF assms(3)] that assms(2) by (auto simp: ht_small_def)
  have img: "unat ` (word_of_nat :: nat \<Rightarrow> u32) ` set fs = set fs"
    using small by (force simp: image_image unat_of_nat_below)
  have "inj_on (word_of_nat :: nat \<Rightarrow> u32) (set fs)"
    by (rule inj_on_inverseI [where g = unat]) (rule unat_of_nat_below, erule small)
  moreover have "set (ht_free t) \<inter> word_of_nat ` set fs = {}"
  proof -
    have "unat ` set (ht_free t) \<inter> unat ` (word_of_nat :: nat \<Rightarrow> u32) ` set fs = {}"
      using freed_vacant_at(2) [OF assms(3) wf] assms(1) by (simp add: img ht_inv_def)
    then show ?thesis by blast
  qed
  ultimately have "distinct (ht_free t @ map word_of_nat fs)"
    using assms(1) freed_distinct [OF assms(3)] by (simp add: ht_inv_def distinct_map)
  moreover have "unat ` set (ht_free t @ map word_of_nat fs) = vacant_at xs'"
    using freed_vacant_at(1) [OF assms(3) wf] assms(1) img by (simp add: ht_inv_def image_Un)
  ultimately show "ht_inv (t\<lparr>ht_slots := xs', ht_free := ht_free t @ map word_of_nat fs, ht_live := ht_live t - n\<rparr>)"
    using freed_wf [OF assms(3) wf] freed_live_count [OF assms(3)] live
    by (simp add: ht_inv_def)
  show "n \<le> ht_live t"
    using freed_live_count [OF assms(3)] live by simp
qed

lemma ht_retain_freed:
  assumes "ht_retain keep s t = (r, t', s')"
  obtains xs' fs where "freed 0 (ht_slots t) xs' fs r"
    "t' = t\<lparr>ht_slots := xs', ht_free := ht_free t @ map word_of_nat fs, ht_live := ht_live t - r\<rparr>"
  using assms retain_slots_freed [of keep 0 "ht_slots t" "ht_free t" 0 s]
  by (auto simp: ht_retain_def split: prod.splits)

lemma ht_inv_retain:
  "ht_inv t \<Longrightarrow> ht_small t \<Longrightarrow> ht_retain keep s t = (r, t', s') \<Longrightarrow> ht_inv t' \<and> r \<le> ht_live t"
  by (elim ht_retain_freed) (use ht_inv_freed in blast)

text \<open>\<open>clear\<close> is \<open>retain\<close> of nothing; the count it does not keep is every live entry.\<close>

lemma ht_clear_retain:
  "ht_inv t \<Longrightarrow> ht_retain (\<lambda>s h v. (False, s)) s t = (ht_len t, ht_clear t, s)"
  by (simp add: ht_retain_def ht_clear_def clear_slots_retain_slots ht_inv_def ht_len_def split: prod.splits)

lemma ht_inv_clear: "ht_inv t \<Longrightarrow> ht_small t \<Longrightarrow> ht_inv (ht_clear t)"
  using ht_inv_retain [OF _ _ ht_clear_retain] by blast

subsection \<open>The abstract table\<close>

type_synonym hkey = "u32 \<times> u32"

definition handle_key :: "Handle \<Rightarrow> hkey" where
  "handle_key h = (handle_slot h, handle_generation h)"

definition slot_entry :: "'v slot \<Rightarrow> u32 \<Rightarrow> (u8 \<times> 'v) option" where
  "slot_entry x g = (if slot_generation x = g then map_option (Pair (slot_kind x)) (slot_value x) else None)"

definition ht_abs :: "'v handle_table \<Rightarrow> (hkey \<rightharpoonup> u8 \<times> 'v)" where
  "ht_abs t = (\<lambda>(s, g). Option.bind (slots_get (ht_slots t) (unat s)) (\<lambda>x. slot_entry x g))"

lemma unat_eq_unat [simp]: "unat a = unat b \<longleftrightarrow> a = b"
  by (simp add: word_unat_eq_iff)

lemma slots_get_update:
  "slots_get (xs[i := x]) j = (if i < length xs \<and> j = i then Some x else slots_get xs j)"
  by (auto simp: slots_get_def)

lemma slots_get_append:
  "slots_get (xs @ [x]) j = (if j = length xs then Some x else slots_get xs j)"
  by (simp add: slots_get_def nth_append)

lemma slot_entry_Some:
  "slot_entry x g = Some (k, v) \<longleftrightarrow> slot_generation x = g \<and> slot_kind x = k \<and> slot_value x = Some v"
  by (auto simp: slot_entry_def)

lemma slot_entry_empty [simp]:
  "slot_value x = None \<Longrightarrow> slot_entry x g = None"
  "slot_entry (slot_freed x) g = None"
  by (simp_all add: slot_entry_def)

lemma ht_abs_at: "ht_abs t (s, g) = Option.bind (slots_get (ht_slots t) (unat s)) (\<lambda>x. slot_entry x g)"
  by (simp add: ht_abs_def)

lemma ht_abs_Some:
  "ht_abs t (s, g) = Some (k, v) \<longleftrightarrow> unat s < length (ht_slots t) \<and>
     slot_generation (ht_slots t ! unat s) = g \<and> slot_kind (ht_slots t ! unat s) = k \<and>
     slot_value (ht_slots t ! unat s) = Some v"
  by (simp add: ht_abs_at slots_get_def slot_entry_Some)

lemma ht_get_abs: "ht_get t h = map_option snd (ht_abs t (handle_key h))"
  by (simp add: ht_get_def handle_key_def ht_abs_at slot_entry_def option.map_comp comp_def
      option.map_ident split: option.splits Option.bind_splits)

lemma ht_abs_new: "ht_abs ht_new = Map.empty"
  by (simp add: ht_abs_def ht_new_def slots_get_def fun_eq_iff)

lemma ht_small_new [simp]: "ht_small ht_new" "ht_room ht_new"
  by (simp_all add: ht_small_def ht_room_def ht_new_def)

text \<open>
  Changing one slot changes the map under that slot only. \<open>ht_abs_slot_changed\<close> covers the three
  operations that do: the slot held at most the entry of generation \<open>g\<close>, and holds at most that
  entry, now \<open>e\<close>.
\<close>

lemma ht_abs_slot_changed:
  assumes "slots_get (ht_slots t') = (slots_get (ht_slots t))(unat s := Some x')"
    and "\<And>g'. g' \<noteq> g \<Longrightarrow> ht_abs t (s, g') = None"
    and "slot_entry x' g = e" "\<And>g'. g' \<noteq> g \<Longrightarrow> slot_entry x' g' = None"
  shows "ht_abs t' = (ht_abs t)((s, g) := e)"
proof (rule ext)
  fix q :: hkey
  obtain s' g' where q: "q = (s', g')" by (cases q)
  show "ht_abs t' q = ((ht_abs t)((s, g) := e)) q"
  proof (cases "s' = s")
    case True
    then show ?thesis
      using assms(2) [of g'] assms(3) assms(4) [of g']
      by (cases "g' = g") (simp_all add: q ht_abs_at [of t'] assms(1))
  next
    case False
    then show ?thesis by (simp add: q ht_abs_at assms(1))
  qed
qed

lemma ht_abs_other_gen:
  "slots_get (ht_slots t) (unat s) = Some x \<Longrightarrow> slot_generation x \<noteq> g \<or> slot_value x = None \<Longrightarrow> ht_abs t (s, g) = None"
  by (auto simp: ht_abs_at slot_entry_def)

lemma ht_insert_reuse:
  assumes "ht_inv t" "ht_free t \<noteq> []" "ht_insert k v t = (h, t')"
  shows "ht_abs t (handle_key h) = None \<and> ht_abs t' = (ht_abs t)(handle_key h \<mapsto> (k, v)) \<and> handle_kind h = k"
proof -
  let ?s = "last (ht_free t)"
  let ?x = "ht_slots t ! unat ?s"
  let ?x' = "?x\<lparr>slot_value := Some v, slot_kind := k\<rparr>"
  note top = ht_free_top [OF assms(1,2)]
  have "slot_wf ?x"
    using assms(1) top(1) by (simp add: ht_inv_def list_all_length)
  then have "slot_generation ?x AND GENERATION_MAX = slot_generation ?x"
    by (simp add: slot_wf_def and_GENERATION_MAX)
  moreover have h: "h = handle_new k (slot_generation ?x) ?s"
    and slots: "ht_slots t' = (ht_slots t)[unat ?s := ?x']"
    using assms(3,2) by (auto simp: ht_insert_def Let_def)
  ultimately have key: "handle_key h = (?s, slot_generation ?x)"
    by (simp add: handle_key_def)
  have x: "slots_get (ht_slots t) (unat ?s) = Some ?x"
    using top(1) by (simp add: slots_get_def)
  have none: "ht_abs t (?s, g) = None" for g
    using top(2) by (intro ht_abs_other_gen [OF x]) (simp add: slot_vacant_def)
  have "ht_abs t' = (ht_abs t)((?s, slot_generation ?x) := Some (k, v))"
    by (rule ht_abs_slot_changed [where x' = ?x'])
      (use top(1) in \<open>auto simp: none slots slots_get_update slot_entry_def\<close>)
  then show ?thesis unfolding key by (simp add: none h)
qed

lemma ht_insert_push:
  assumes "ht_free t = []" "length (ht_slots t) < 2 ^ 32" "ht_insert k v t = (h, t')"
  shows "ht_abs t (handle_key h) = None \<and> ht_abs t' = (ht_abs t)(handle_key h \<mapsto> (k, v)) \<and> handle_kind h = k"
proof -
  let ?s = "word_of_nat (length (ht_slots t)) :: u32"
  let ?x' = "\<lparr>slot_generation = 0, slot_kind = k, slot_value = Some v, slot_retired = False\<rparr>"
  have h: "h = handle_new k 0 ?s" and slots: "ht_slots t' = ht_slots t @ [?x']"
    using assms(3,1) by (auto simp: ht_insert_def)
  have len: "unat ?s = length (ht_slots t)"
    by (rule unat_of_nat_below [OF assms(2)])
  have key: "handle_key h = (?s, 0)"
    by (simp add: h handle_key_def)
  have none: "ht_abs t (?s, g) = None" for g
    by (simp add: ht_abs_at slots_get_def len)
  have "ht_abs t' = (ht_abs t)((?s, 0) := Some (k, v))"
    by (rule ht_abs_slot_changed [where x' = ?x'])
      (auto simp: none slots slots_get_append len slot_entry_def)
  then show ?thesis unfolding key by (simp add: none h)
qed

lemma ht_insert_abs:
  assumes "ht_inv t" "ht_room t" "ht_insert k v t = (h, t')"
  shows "ht_abs t (handle_key h) = None"
    and "ht_abs t' = (ht_abs t)(handle_key h \<mapsto> (k, v))"
    and "handle_kind h = k"
  using assms ht_insert_reuse [OF assms(1) _ assms(3)] ht_insert_push [OF _ _ assms(3)]
  by (auto simp: ht_room_def)

lemma ht_remove_abs: "ht_abs (snd (ht_remove h t)) = (ht_abs t)(handle_key h := None)"
proof (cases "ht_get t h")
  case None
  then show ?thesis
    by (simp add: ht_remove_None ht_get_abs fun_upd_idem)
next
  case (Some v)
  let ?x = "ht_slots t ! unat (handle_slot h)"
  have at: "unat (handle_slot h) < length (ht_slots t)" "slot_generation ?x = handle_generation h"
    using Some by (simp_all add: ht_get_Some)
  have x: "slots_get (ht_slots t) (unat (handle_slot h)) = Some ?x"
    using at by (simp add: slots_get_def)
  show ?thesis unfolding handle_key_def
    by (rule ht_abs_slot_changed [where x' = "slot_freed ?x"])
      (use at ht_abs_other_gen [OF x] in \<open>auto simp: ht_remove_Some [OF Some] slots_get_update\<close>)
qed

lemma ht_get_mut_abs:
  assumes "ht_get_mut t h = Some (v, wr)"
  shows "ht_abs (wr w) = (ht_abs t)(handle_key h \<mapsto> (fst (the (ht_abs t (handle_key h))), w))"
proof -
  let ?x = "ht_slots t ! unat (handle_slot h)"
  have get: "ht_get t h = Some v" using assms by (simp add: ht_get_mut_Some)
  have at: "unat (handle_slot h) < length (ht_slots t)" "slot_generation ?x = handle_generation h"
    "slot_value ?x = Some v"
    using get by (simp_all add: ht_get_Some)
  have x: "slots_get (ht_slots t) (unat (handle_slot h)) = Some ?x"
    using at by (simp add: slots_get_def)
  have "ht_abs t (handle_slot h, handle_generation h) = Some (slot_kind ?x, v)"
    using at by (simp add: ht_abs_Some)
  then show ?thesis unfolding handle_key_def
    by (intro ht_abs_slot_changed [where x' = "?x\<lparr>slot_value := Some w\<rparr>"])
      (use at assms ht_abs_other_gen [OF x] in \<open>auto simp: ht_get_mut_Some slots_get_update slot_entry_def\<close>)
qed

lemma ht_small_insert: "ht_small t \<Longrightarrow> ht_room t \<Longrightarrow> ht_small (snd (ht_insert k v t))"
  by (auto simp: ht_insert_def ht_small_def ht_room_def Let_def)

lemma ht_length_remove [simp]: "length (ht_slots (snd (ht_remove h t))) = length (ht_slots t)"
  by (cases "ht_get t h") (simp_all add: ht_remove_None ht_remove_Some)

lemma ht_length_get_mut: "ht_get_mut t h = Some (v, wr) \<Longrightarrow> length (ht_slots (wr w)) = length (ht_slots t)"
  by (simp add: ht_get_mut_Some)

lemma ht_length_retain: "ht_retain keep s t = (r, t', s') \<Longrightarrow> length (ht_slots t') = length (ht_slots t)"
  by (erule ht_retain_freed) (simp add: freed_length)

lemma ht_clear_freed:
  obtains xs' fs n where "freed 0 (ht_slots t) xs' fs n"
    "ht_clear t = t\<lparr>ht_slots := xs', ht_free := ht_free t @ map word_of_nat fs, ht_live := 0\<rparr>"
proof -
  obtain xs' free' where c: "clear_slots 0 (ht_slots t) (ht_free t) = (xs', free')"
    by fastforce
  then have "retain_slots (\<lambda>s h v. (False, s)) 0 (ht_slots t) (ht_free t) 0 True = (xs', free', live_count (ht_slots t), True)"
    by (simp add: clear_slots_retain_slots)
  from retain_slots_freed [OF this] obtain fs n
    where "free' = ht_free t @ map word_of_nat fs" "freed 0 (ht_slots t) xs' fs n" by blast
  then show thesis
    using that by (simp add: ht_clear_def c)
qed

lemma ht_length_clear: "length (ht_slots (ht_clear t)) = length (ht_slots t)"
  by (rule ht_clear_freed [of t]) (simp add: freed_length)

text \<open>Entries \<open>retain\<close> drops leave the map; it changes no other.\<close>

lemma ht_retain_abs_le:
  assumes "ht_retain keep s t = (r, t', s')"
  shows "ht_abs t' \<subseteq>\<^sub>m ht_abs t"
proof -
  obtain xs' fs where f: "freed 0 (ht_slots t) xs' fs r" and
    t': "t' = t\<lparr>ht_slots := xs', ht_free := ht_free t @ map word_of_nat fs, ht_live := ht_live t - r\<rparr>"
    using assms by (rule ht_retain_freed)
  show ?thesis
  proof (unfold map_le_def, intro ballI)
    fix q assume "q \<in> dom (ht_abs t')"
    then obtain k v where "ht_abs t' q = Some (k, v)" by auto
    then show "ht_abs t' q = ht_abs t q"
      using freed_nth [OF f, of "unat (fst q)"] freed_length [OF f] ht_abs_Some [of t' "fst q" "snd q" k v]
        ht_abs_Some [of t "fst q" "snd q" k v]
      by (simp add: t') (metis option.distinct(1) slot_freed_simps(1))
  qed
qed

text \<open>With a predicate that keeps no state of its own, \<open>retain\<close> is the restriction of the map.\<close>

lemma retain_slots_pure:
  "retain_slots (\<lambda>s h v. (p h v, s)) i xs free r s = (xs', free', r', s') \<Longrightarrow> j < length xs \<Longrightarrow>
   xs' ! j = (case slot_value (xs ! j) of
     None \<Rightarrow> xs ! j
   | Some v \<Rightarrow> if p (handle_new (slot_kind (xs ! j)) (slot_generation (xs ! j)) (word_of_nat (i + j))) v
                then xs ! j else slot_freed (xs ! j))"
proof (induction xs arbitrary: i free r xs' j)
  case Nil
  then show ?case by simp
next
  case (Cons x xs)
  then obtain x' xs'' free1 r1 where xs': "xs' = x' # xs''"
    and rest: "retain_slots (\<lambda>s h v. (p h v, s)) (Suc i) xs free1 r1 s = (xs'', free', r', s')"
    and x': "x' = (case slot_value x of None \<Rightarrow> x
       | Some v \<Rightarrow> if p (handle_new (slot_kind x) (slot_generation x) (word_of_nat i)) v then x else slot_freed x)"
    by (auto simp: Let_def slot_freed_def split: option.splits prod.splits if_splits)
  show ?case
  proof (cases j)
    case 0
    then show ?thesis by (cases "slot_value x") (simp_all add: xs' x')
  next
    case (Suc m)
    then show ?thesis using Cons.IH [OF rest, of m] Cons.prems(2) by (cases "slot_value (xs ! m)") (simp_all add: xs')
  qed
qed

lemma handle_new_key: "g \<le> GENERATION_MAX \<Longrightarrow> handle_key (handle_new k g s) = (s, g)"
  by (simp add: handle_key_def and_GENERATION_MAX)

lemma ht_retain_pure_slots:
  "ht_retain (\<lambda>s h v. (p h v, s)) s t = (r, t', s') \<Longrightarrow> j < length (ht_slots t) \<Longrightarrow>
   ht_slots t' ! j = (case slot_value (ht_slots t ! j) of
     None \<Rightarrow> ht_slots t ! j
   | Some v \<Rightarrow> if p (handle_new (slot_kind (ht_slots t ! j)) (slot_generation (ht_slots t ! j)) (word_of_nat j)) v
                then ht_slots t ! j else slot_freed (ht_slots t ! j))"
  using retain_slots_pure [where i = 0 and xs = "ht_slots t" and free = "ht_free t" and r = 0 and p = p and s = s]
  by (auto simp: ht_retain_def simp del: add_0 split: prod.splits) (simp_all only: add_0)

lemma ht_retain_abs:
  assumes "ht_retain (\<lambda>s h v. (p h v, s)) s t = (r, t', s')"
  shows "ht_abs t' = (\<lambda>(i, g). case ht_abs t (i, g) of
     Some (k, v) \<Rightarrow> if p (handle_new k g i) v then Some (k, v) else None | None \<Rightarrow> None)"
proof (rule ext, clarify)
  fix i :: u32 and g :: u32
  show "ht_abs t' (i, g) = (case ht_abs t (i, g) of
     Some (k, v) \<Rightarrow> if p (handle_new k g i) v then Some (k, v) else None | None \<Rightarrow> None)"
    using ht_retain_pure_slots [OF assms, of "unat i"] ht_length_retain [OF assms]
    by (auto simp: ht_abs_at slots_get_def slot_entry_def split: option.splits)
qed

lemma ht_clear_abs:
  assumes "ht_inv t"
  shows "ht_abs (ht_clear t) = Map.empty"
  using ht_retain_abs [where p = "\<lambda>_ _. False", OF ht_clear_retain [OF assms, of True]]
  by (simp add: fun_eq_iff split: option.splits)

subsection \<open>Iteration and counting\<close>

lemma in_map_filter: "y \<in> set (List.map_filter f xs) \<longleftrightarrow> (\<exists>x\<in>set xs. f x = Some y)"
  by (force simp: map_filter_def)

lemma ht_iter_in:
  "(h, v) \<in> set (ht_iter t) \<longleftrightarrow> (\<exists>j<length (ht_slots t). slot_value (ht_slots t ! j) = Some v \<and>
     h = handle_new (slot_kind (ht_slots t ! j)) (slot_generation (ht_slots t ! j)) (word_of_nat j))"
proof
  assume "(h, v) \<in> set (ht_iter t)"
  then show "\<exists>j<length (ht_slots t). slot_value (ht_slots t ! j) = Some v \<and>
     h = handle_new (slot_kind (ht_slots t ! j)) (slot_generation (ht_slots t ! j)) (word_of_nat j)"
    by (auto simp: ht_iter_def in_map_filter in_set_enumerate_eq split: option.splits)
next
  assume "\<exists>j<length (ht_slots t). slot_value (ht_slots t ! j) = Some v \<and>
     h = handle_new (slot_kind (ht_slots t ! j)) (slot_generation (ht_slots t ! j)) (word_of_nat j)"
  then obtain j where "j < length (ht_slots t)" "slot_value (ht_slots t ! j) = Some v"
    "h = handle_new (slot_kind (ht_slots t ! j)) (slot_generation (ht_slots t ! j)) (word_of_nat j)"
    by blast
  then show "(h, v) \<in> set (ht_iter t)"
    unfolding ht_iter_def in_map_filter
    by (intro bexI [of _ "(j, ht_slots t ! j)"]) (simp_all add: in_set_enumerate_eq)
qed

text \<open>\<open>iter\<close> yields exactly the entries of the map, under the handles that resolve to them.\<close>

lemma ht_iter_abs:
  assumes "ht_inv t" "ht_small t"
  shows "(h, v) \<in> set (ht_iter t) \<longleftrightarrow> ht_abs t (handle_key h) = Some (handle_kind h, v)"
proof
  assume "(h, v) \<in> set (ht_iter t)"
  then obtain j where j: "j < length (ht_slots t)" "slot_value (ht_slots t ! j) = Some v"
    "h = handle_new (slot_kind (ht_slots t ! j)) (slot_generation (ht_slots t ! j)) (word_of_nat j)"
    by (auto simp: ht_iter_in)
  have "slot_generation (ht_slots t ! j) \<le> GENERATION_MAX"
    using assms(1) j(1) by (auto simp: ht_inv_def list_all_length slot_wf_def)
  moreover have "unat (word_of_nat j :: u32) = j"
    using assms(2) j(1) by (intro unat_of_nat_below) (simp add: ht_small_def)
  ultimately show "ht_abs t (handle_key h) = Some (handle_kind h, v)"
    using j by (simp add: handle_new_key ht_abs_Some)
next
  assume "ht_abs t (handle_key h) = Some (handle_kind h, v)"
  then have "unat (handle_slot h) < length (ht_slots t)"
    "slot_generation (ht_slots t ! unat (handle_slot h)) = handle_generation h"
    "slot_kind (ht_slots t ! unat (handle_slot h)) = handle_kind h"
    "slot_value (ht_slots t ! unat (handle_slot h)) = Some v"
    by (simp_all add: handle_key_def ht_abs_Some)
  then show "(h, v) \<in> set (ht_iter t)"
    unfolding ht_iter_in by (intro exI [of _ "unat (handle_slot h)"]) (simp add: handle_new_parts)
qed

lemma ht_iter_length: "length (ht_iter t) = live_count (ht_slots t)"
proof -
  have "length (List.map_filter (\<lambda>(j, s). case slot_value s of None \<Rightarrow> None
          | Some v \<Rightarrow> Some (handle_new (slot_kind s) (slot_generation s) (word_of_nat j), v))
        (List.enumerate i xs)) = live_count xs" for i and xs :: "'a slot list"
    by (induction xs arbitrary: i) (auto simp: List.map_filter_simps split: option.splits)
  then show ?thesis by (simp add: ht_iter_def)
qed

lemma ht_iter_kind_filter:
  "ht_iter_kind k t = filter (\<lambda>(h, v). handle_kind h = k) (ht_iter t)"
proof -
  have "List.map_filter (\<lambda>(j, s). if slot_kind s \<noteq> k then None else case slot_value s of None \<Rightarrow> None
          | Some v \<Rightarrow> Some (handle_new (slot_kind s) (slot_generation s) (word_of_nat j), v)) (List.enumerate i xs)
      = filter (\<lambda>(h, v). handle_kind h = k) (List.map_filter (\<lambda>(j, s). case slot_value s of None \<Rightarrow> None
          | Some v \<Rightarrow> Some (handle_new (slot_kind s) (slot_generation s) (word_of_nat j), v)) (List.enumerate i xs))"
    for i and xs :: "'a slot list"
    by (induction xs arbitrary: i) (auto simp: List.map_filter_simps split: option.splits)
  then show ?thesis by (simp add: ht_iter_kind_def ht_iter_def)
qed

lemma ht_count_by_kind_iter: "ht_count_by_kind k t = length (ht_iter_kind k t)"
proof -
  have "length (List.map_filter (\<lambda>(j, s). if slot_kind s \<noteq> k then None else case slot_value s of None \<Rightarrow> None
          | Some v \<Rightarrow> Some (handle_new (slot_kind s) (slot_generation s) (word_of_nat j), v)) (List.enumerate i xs))
      = length (filter (\<lambda>s. slot_value s \<noteq> None \<and> slot_kind s = k) xs)"
    for i and xs :: "'a slot list"
    by (induction xs arbitrary: i) (auto simp: List.map_filter_simps split: option.splits)
  then show ?thesis by (simp add: ht_iter_kind_def ht_count_by_kind_def)
qed

lemma ht_kinds_set: "set (ht_kinds t) = (\<lambda>(h, v). handle_kind h) ` set (ht_iter t)"
proof -
  have "set (ht_kinds t) = {slot_kind (ht_slots t ! j) | j. j < length (ht_slots t) \<and> slot_value (ht_slots t ! j) \<noteq> None}"
    by (auto simp: ht_kinds_def in_set_conv_nth)
  also have "\<dots> = (\<lambda>(h, v). handle_kind h) ` set (ht_iter t)"
  proof (rule set_eqI, rule iffI)
    fix k assume "k \<in> {slot_kind (ht_slots t ! j) | j. j < length (ht_slots t) \<and> slot_value (ht_slots t ! j) \<noteq> None}"
    then obtain j v where "j < length (ht_slots t)" "slot_value (ht_slots t ! j) = Some v" "k = slot_kind (ht_slots t ! j)"
      by auto
    then show "k \<in> (\<lambda>(h, v). handle_kind h) ` set (ht_iter t)"
      by (intro image_eqI [where x = "(handle_new k (slot_generation (ht_slots t ! j)) (word_of_nat j), v)"])
        (auto simp: ht_iter_in)
  next
    fix k assume "k \<in> (\<lambda>(h, v). handle_kind h) ` set (ht_iter t)"
    then show "k \<in> {slot_kind (ht_slots t ! j) | j. j < length (ht_slots t) \<and> slot_value (ht_slots t ! j) \<noteq> None}"
      by (auto simp: ht_iter_in) blast
  qed
  finally show ?thesis .
qed

lemma sorted_remdups_adj_distinct: "sorted xs \<Longrightarrow> sorted (remdups_adj xs) \<and> distinct (remdups_adj xs)"
  for xs :: "'a::linorder list"
  by (induction xs rule: remdups_adj.induct) (auto dest: order.antisym)

lemma ht_kinds_sorted: "sorted (ht_kinds t)" "distinct (ht_kinds t)"
  using sorted_remdups_adj_distinct [OF sorted_sort] by (simp_all add: ht_kinds_def)

lemma ht_iter_handles_distinct: 
  assumes "ht_small t"
  shows "distinct (map fst (ht_iter t))"
proof -
  have "distinct (map fst (List.map_filter (\<lambda>(j, s). case slot_value s of None \<Rightarrow> None
          | Some v \<Rightarrow> Some (handle_new (slot_kind s) (slot_generation s) (word_of_nat j), v))
        (List.enumerate i xs))) \<and>
     (\<forall>h\<in>set (map fst (List.map_filter (\<lambda>(j, s). case slot_value s of None \<Rightarrow> None
          | Some v \<Rightarrow> Some (handle_new (slot_kind s) (slot_generation s) (word_of_nat j), v))
        (List.enumerate i xs))). i \<le> unat (handle_slot h))"
    if "i + length xs \<le> 2 ^ 32" for i and xs :: "'a slot list"
    using that
  proof (induction xs arbitrary: i)
    case Nil
    then show ?case by (simp add: List.map_filter_simps)
  next
    case (Cons x xs)
    then have "unat (word_of_nat i :: u32) = i"
      by (intro unat_of_nat_below) simp
    then show ?case
      using Cons.IH [of "Suc i"] Cons.prems
      by (cases "slot_value x") (force simp: List.map_filter_simps)+
  qed
  then show ?thesis
    using assms by (simp add: ht_iter_def ht_small_def)
qed

text \<open>The counter \<open>live\<close> is the size of the map.\<close>

lemma ht_len_card:
  assumes "ht_inv t" "ht_small t"
  shows "ht_len t = card (dom (ht_abs t))"
proof -
  have "bij_betw (handle_key \<circ> fst) (set (ht_iter t)) (dom (ht_abs t))"
  proof (rule bij_betwI')
    fix x y assume "x \<in> set (ht_iter t)" "y \<in> set (ht_iter t)"
    then show "((handle_key \<circ> fst) x = (handle_key \<circ> fst) y) = (x = y)"
      using ht_iter_abs [OF assms, of "fst x" "snd x"] ht_iter_abs [OF assms, of "fst y" "snd y"]
        handle_new_parts [of "fst x"] handle_new_parts [of "fst y"]
      by (auto simp: handle_key_def prod_eq_iff)
  next
    fix x assume "x \<in> set (ht_iter t)"
    then show "(handle_key \<circ> fst) x \<in> dom (ht_abs t)"
      using ht_iter_abs [OF assms, of "fst x" "snd x"] by auto
  next
    fix q assume "q \<in> dom (ht_abs t)"
    then obtain s g k v where q: "q = (s, g)" "ht_abs t (s, g) = Some (k, v)"
      by (cases q) auto
    then have "g \<le> GENERATION_MAX"
      using assms(1) by (auto simp: ht_abs_Some ht_inv_def list_all_length slot_wf_def)
    then have key: "handle_key (handle_new k g s) = q" by (simp add: handle_new_key q)
    then have "(handle_new k g s, v) \<in> set (ht_iter t)"
      using ht_iter_abs [OF assms] q by simp
    then show "\<exists>x\<in>set (ht_iter t). q = (handle_key \<circ> fst) x"
      using key by (metis comp_apply fst_conv)
  qed
  then have "card (dom (ht_abs t)) = card (set (ht_iter t))"
    by (metis bij_betw_same_card)
  also have "\<dots> = length (ht_iter t)"
    using ht_iter_handles_distinct [OF assms(2)] by (simp add: distinct_map distinct_card)
  finally show ?thesis
    using assms(1) by (simp add: ht_len_def ht_inv_def ht_iter_length)
qed

end
