(* ===== verification/Handle_Life.thy ===== *)
theory Handle_Life
  imports Handles
begin

section \<open>Handles over time, and the store interface\<close>

text \<open>
  The steps a \<open>handle_table\<close> can take, what they do to a slot, and what follows for a handle over
  arbitrary further steps (use after free, retirement); the locale \<open>object_store\<close> the backends are
  clients of, interpreted on the table; and the properties of the component.
\<close>

subsection \<open>Use after free\<close>

text \<open>
  Every operation that changes a table, as one step of it. The premise of \<open>step_insert\<close> and
  \<open>step_try_insert\<close> is the room for one more slot index in a handle.
\<close>

inductive ht_step :: "'v handle_table \<Rightarrow> 'v handle_table \<Rightarrow> bool" where
  step_insert: "ht_room t \<Longrightarrow> ht_insert k v t = (h, t') \<Longrightarrow> ht_step t t'"
| step_try_insert: "ht_room t \<Longrightarrow> ht_try_insert k v m t = (r, t') \<Longrightarrow> ht_step t t'"
| step_get_mut: "ht_get_mut t h = Some (v, wr) \<Longrightarrow> ht_step t (wr w)"
| step_remove: "ht_remove h t = (r, t') \<Longrightarrow> ht_step t t'"
| step_clear: "ht_step t (ht_clear t)"
| step_retain: "ht_retain keep (s :: nat) t = (n, t', s') \<Longrightarrow> ht_step t t'"

inductive_cases ht_stepE: "ht_step t t'"

definition ht_wf :: "'v handle_table \<Rightarrow> bool" where
  "ht_wf t \<longleftrightarrow> ht_inv t \<and> ht_small t"

lemma ht_wf_new [simp]: "ht_wf ht_new"
  by (simp add: ht_wf_def ht_inv_new)

lemma ht_wf_insert: "ht_wf t \<Longrightarrow> ht_room t \<Longrightarrow> ht_wf (snd (ht_insert k v t))"
  by (simp add: ht_wf_def ht_inv_insert ht_small_insert)

lemma ht_try_insert_cases:
  "ht_try_insert k v m t = (r, t') \<Longrightarrow> t' = t \<and> r = None \<and> m \<le> ht_len t \<or>
     ht_len t < m \<and> (\<exists>h. r = Some h \<and> ht_insert k v t = (h, t'))"
  by (auto simp: ht_try_insert_def ht_len_def split: if_splits prod.splits)

lemma ht_step_wf: "ht_step t t' \<Longrightarrow> ht_wf t \<Longrightarrow> ht_wf t'"
proof (induction rule: ht_step.induct)
  case (step_insert t k v h t')
  then show ?case using ht_wf_insert [of t k v] by simp
next
  case (step_try_insert t k v m r t')
  then show ?case using ht_wf_insert [of t k v] ht_try_insert_cases by fastforce
next
  case (step_get_mut t h v wr w)
  then show ?case using ht_inv_get_mut [of t h v wr w] by (simp add: ht_wf_def ht_small_def ht_length_get_mut)
next
  case (step_remove h t r t')
  then show ?case using ht_inv_remove [of t h] ht_length_remove [of h t] by (simp add: ht_wf_def ht_small_def)
next
  case (step_clear t)
  then show ?case by (simp add: ht_wf_def ht_inv_clear ht_small_def ht_length_clear)
next
  case (step_retain keep s t n t' s')
  then show ?case using ht_inv_retain by (fastforce simp: ht_wf_def ht_small_def ht_length_retain)
qed

lemma ht_steps_wf: "ht_step\<^sup>*\<^sup>* t t' \<Longrightarrow> ht_wf t \<Longrightarrow> ht_wf t'"
  by (induction rule: rtranclp_induct) (auto intro: ht_step_wf)

text \<open>
  A slot's history only moves forward: its generation never falls, and a retired slot stays as it is.
  \<open>past x g\<close> says that no handle of generation \<open>g\<close> will ever resolve in slot \<open>x\<close> again.
\<close>

definition past :: "'v slot \<Rightarrow> u32 \<Rightarrow> bool" where
  "past x g \<longleftrightarrow> g < slot_generation x \<or> slot_retired x"

definition ht_past :: "'v handle_table \<Rightarrow> hkey \<Rightarrow> bool" where
  "ht_past t q \<longleftrightarrow> (case slots_get (ht_slots t) (unat (fst q)) of None \<Rightarrow> False | Some x \<Rightarrow> past x (snd q))"

lemma past_freed_now: "slot_wf x \<Longrightarrow> slot_generation x = g \<Longrightarrow> past (slot_freed x) g"
  using generation_succ by (auto simp: past_def slot_freed_def)

lemma past_freed: "past x g \<Longrightarrow> past (slot_freed x) g"
  using generation_succ [of "slot_generation x"] by (auto simp: past_def slot_freed_def)

lemma past_entry: "slot_wf x \<Longrightarrow> past x g \<Longrightarrow> slot_entry x g = None"
  by (auto simp: past_def slot_wf_def slot_entry_def)

lemma ht_past_abs: "ht_inv t \<Longrightarrow> ht_past t q \<Longrightarrow> ht_abs t q = None"
  by (cases q) (auto simp: ht_past_def ht_abs_at slots_get_def ht_inv_def list_all_length past_entry split: if_splits)

lemma ht_past_get: "ht_inv t \<Longrightarrow> ht_past t (handle_key h) \<Longrightarrow> ht_get t h = None"
  by (simp add: ht_get_abs ht_past_abs)

lemma ht_past_slots:
  assumes "ht_past t q" "length (ht_slots t) \<le> length (ht_slots t')"
    and "\<And>j. j < length (ht_slots t) \<Longrightarrow> past (ht_slots t ! j) (snd q) \<Longrightarrow> past (ht_slots t' ! j) (snd q)"
  shows "ht_past t' q"
  using assms by (auto simp: ht_past_def slots_get_def split: if_splits)

lemma ht_past_insert:
  assumes "ht_inv t" "ht_past t q"
  shows "ht_past (snd (ht_insert k v t)) q"
  using assms(2)
proof (rule ht_past_slots)
  show "length (ht_slots t) \<le> length (ht_slots (snd (ht_insert k v t)))"
    by (simp add: ht_insert_def Let_def)
  fix j assume "j < length (ht_slots t)" "past (ht_slots t ! j) (snd q)"
  then show "past (ht_slots (snd (ht_insert k v t)) ! j) (snd q)"
    by (auto simp: ht_insert_def Let_def past_def nth_append nth_list_update_any)
qed

lemma ht_past_freed:
  assumes "freed 0 (ht_slots t) xs' fs n" "ht_past t q"
  shows "ht_past (t\<lparr>ht_slots := xs', ht_free := f, ht_live := l\<rparr>) q"
  using assms(2)
  by (rule ht_past_slots) (use freed_length [OF assms(1)] freed_nth [OF assms(1)] past_freed in \<open>fastforce+\<close>)

lemma ht_past_write: "ht_past t q \<Longrightarrow> ht_get_mut t h = Some (v, wr) \<Longrightarrow> ht_past (wr w) q"
  by (erule ht_past_slots) (auto simp: ht_get_mut_Some past_def nth_list_update_any)

lemma ht_past_remove:
  assumes "ht_past t q"
  shows "ht_past (snd (ht_remove h t)) q"
proof (cases "ht_get t h")
  case None
  then show ?thesis using assms by (simp add: ht_remove_None)
next
  case (Some v)
  show ?thesis using assms
    by (rule ht_past_slots) (use past_freed in \<open>auto simp: ht_remove_Some [OF Some] nth_list_update_any\<close>)
qed

lemma ht_step_past: "ht_step t t' \<Longrightarrow> ht_wf t \<Longrightarrow> ht_past t q \<Longrightarrow> ht_past t' q"
proof (induction rule: ht_step.induct)
  case (step_insert t k v h t')
  then show ?case using ht_past_insert [of t q k v] by (simp add: ht_wf_def)
next
  case (step_try_insert t k v m r t')
  then show ?case using ht_past_insert [of t q k v] ht_try_insert_cases [of k v m t r t'] by (auto simp: ht_wf_def)
next
  case (step_get_mut t h v wr w)
  then show ?case by (simp add: ht_past_write)
next
  case (step_remove h t r t')
  then show ?case using ht_past_remove [of t q h] by simp
next
  case (step_clear t)
  show ?case by (rule ht_clear_freed [of t]) (simp add: ht_past_freed step_clear)
next
  case (step_retain keep s t n t' s')
  show ?case by (rule ht_retain_freed [OF step_retain.hyps]) (simp add: ht_past_freed step_retain)
qed

lemma ht_steps_past: "ht_step\<^sup>*\<^sup>* t t' \<Longrightarrow> ht_wf t \<Longrightarrow> ht_past t q \<Longrightarrow> ht_past t' q"
  by (induction rule: rtranclp_induct) (auto intro: ht_step_past ht_steps_wf)

text \<open>Freeing an entry, in whichever way, makes its key a thing of the past.\<close>

lemma ht_get_slot_wf:
  "ht_inv t \<Longrightarrow> ht_get t h = Some v \<Longrightarrow> slot_wf (ht_slots t ! unat (handle_slot h))"
  by (simp add: ht_get_Some ht_inv_def list_all_length)

lemma ht_remove_past:
  assumes "ht_inv t" "ht_get t h = Some v"
  shows "ht_past (snd (ht_remove h t)) (handle_key h)"
  using assms(2) past_freed_now [OF ht_get_slot_wf [OF assms]]
  by (simp add: ht_remove_Some [OF assms(2)] ht_get_Some ht_past_def slots_get_def handle_key_def)

lemma ht_length_insert: "length (ht_slots t) \<le> length (ht_slots (snd (ht_insert k v t)))"
  by (simp add: ht_insert_def Let_def)

lemma ht_insert_keeps:
  assumes "ht_inv t" "j < length (ht_slots t)" "slot_value (ht_slots t ! j) \<noteq> None"
  shows "ht_slots (snd (ht_insert k v t)) ! j = ht_slots t ! j"
  using assms ht_free_top [OF assms(1)]
  by (auto simp: ht_insert_def Let_def nth_append nth_list_update_any slot_vacant_def)

text \<open>What one step can do to an occupied slot: nothing, a write, or freeing it.\<close>

definition slot_after :: "'v slot \<Rightarrow> 'v slot \<Rightarrow> bool" where
  "slot_after x x' \<longleftrightarrow> (\<exists>w. x' = x\<lparr>slot_value := Some w\<rparr>) \<or> x' = slot_freed x"

lemma slot_after_same: "slot_value x \<noteq> None \<Longrightarrow> slot_after x x"
  by (auto simp: slot_after_def intro!: exI [of _ "the (slot_value x)"])

lemma slot_after_freed_list:
  "freed 0 xs xs' fs n \<Longrightarrow> j < length xs \<Longrightarrow> slot_value (xs ! j) \<noteq> None \<Longrightarrow> slot_after (xs ! j) (xs' ! j)"
  using freed_nth [of 0 xs xs' fs n j] slot_after_same [of "xs ! j"] by (auto simp: slot_after_def)

lemma ht_step_occupied:
  "ht_step t t' \<Longrightarrow> ht_inv t \<Longrightarrow> j < length (ht_slots t) \<Longrightarrow> slot_value (ht_slots t ! j) \<noteq> None \<Longrightarrow>
   j < length (ht_slots t') \<and> slot_after (ht_slots t ! j) (ht_slots t' ! j)"
proof (induction rule: ht_step.induct)
  case (step_insert t k v h t')
  then show ?case using ht_insert_keeps [of t j k v] ht_length_insert [of t k v] by (auto simp: slot_after_same)
next
  case (step_try_insert t k v m r t')
  then show ?case using ht_insert_keeps [of t j k v] ht_try_insert_cases [of k v m t r t']
      ht_length_insert [of t k v]
    by (auto simp: slot_after_same)
next
  case (step_get_mut t h v wr w)
  then show ?case by (auto simp: ht_get_mut_Some nth_list_update_any slot_after_same) (auto simp: slot_after_def)
next
  case (step_remove h t r t')
  then show ?case
    by (cases "ht_get t h")
      (auto simp: ht_remove_None ht_remove_Some nth_list_update_any slot_after_same, auto simp: slot_after_def)
next
  case (step_clear t)
  obtain xs' fs n where f: "freed 0 (ht_slots t) xs' fs n"
    "ht_clear t = t\<lparr>ht_slots := xs', ht_free := ht_free t @ map word_of_nat fs, ht_live := 0\<rparr>"
    by (rule ht_clear_freed)
  then show ?case
    using slot_after_freed_list [OF f(1) step_clear(2,3)] freed_length [OF f(1)] step_clear by simp
next
  case (step_retain keep s t n t' s')
  obtain xs' fs where f: "freed 0 (ht_slots t) xs' fs n"
    "t' = t\<lparr>ht_slots := xs', ht_free := ht_free t @ map word_of_nat fs, ht_live := ht_live t - n\<rparr>"
    using step_retain.hyps by (rule ht_retain_freed)
  then show ?case
    using slot_after_freed_list [OF f(1) step_retain.prems(2,3)] freed_length [OF f(1)] step_retain by simp
qed

lemma ht_step_lost_past:
  assumes "ht_step t t'" "ht_inv t" "ht_get t h = Some v" "ht_get t' h = None"
  shows "ht_past t' (handle_key h)"
  using ht_step_occupied [OF assms(1,2), of "unat (handle_slot h)"] assms(3,4) ht_get_slot_wf [OF assms(2,3)]
  by (auto simp: ht_get_Some slot_after_def ht_past_def slots_get_def handle_key_def past_freed_now)
    (auto simp: ht_get_def slots_get_def)

lemma ht_steps_lost_past:
  assumes "ht_step\<^sup>*\<^sup>* t t'" "ht_wf t" "ht_get t h = Some v" "ht_get t' h = None"
  shows "ht_past t' (handle_key h)"
  using assms(1,4)
proof (induction rule: rtranclp_induct)
  case base
  then show ?case using assms(3) by simp
next
  case (step t1 t2)
  have wf: "ht_wf t1" using step.hyps(1) assms(2) by (rule ht_steps_wf)
  show ?case
  proof (cases "ht_get t1 h")
    case None
    then show ?thesis using step.IH step.hyps(2) wf ht_step_past by blast
  next
    case (Some w)
    then show ?thesis using ht_step_lost_past [OF step.hyps(2) _ Some step.prems] wf by (simp add: ht_wf_def)
  qed
qed

text \<open>
  So a handle's life is an interval: once it has resolved and then failed to, it never resolves again,
  whatever is done to the table, and no later insertion issues it a second time.
\<close>

lemma ht_life_interval:
  assumes "ht_wf t" "ht_get t h = Some v" "ht_step\<^sup>*\<^sup>* t t1" "ht_get t1 h = None" "ht_step\<^sup>*\<^sup>* t1 t2"
  shows "ht_get t2 h = None"
proof -
  have "ht_wf t1" using assms(3,1) by (rule ht_steps_wf)
  moreover have "ht_past t1 (handle_key h)" using assms by (intro ht_steps_lost_past [of t]) auto
  ultimately have "ht_past t2 (handle_key h)" "ht_wf t2"
    using assms(5) ht_steps_past ht_steps_wf by blast+
  then show ?thesis by (simp add: ht_past_get ht_wf_def)
qed

subsection \<open>The interface the backends rely on\<close>

text \<open>
  A store of values behind handles, as its clients see it. Two handles address the same entry when
  their slots and generations agree: the \<open>kind\<close> byte takes no part in a lookup. The laws hold of every
  well-formed store, and those on the handle just issued of one with room for it. \<open>holds\<close> carries an
  invariant of the stored values through the operations.
\<close>

locale object_store =
  fixes new :: 't
    and insert :: "u8 \<Rightarrow> 'v \<Rightarrow> 't \<Rightarrow> Handle \<times> 't"
    and get :: "'t \<Rightarrow> Handle \<Rightarrow> 'v option"
    and get_mut :: "'t \<Rightarrow> Handle \<Rightarrow> ('v \<times> ('v \<Rightarrow> 't)) option"
    and remove :: "Handle \<Rightarrow> 't \<Rightarrow> 'v option \<times> 't"
    and wf :: "'t \<Rightarrow> bool"
    and room :: "'t \<Rightarrow> bool"
  assumes wf_new: "wf new"
    and wf_insert: "wf t \<Longrightarrow> wf (snd (insert k v t))"
    and wf_write: "wf t \<Longrightarrow> get_mut t h = Some (v, wr) \<Longrightarrow> wf (wr w)"
    and wf_remove: "wf t \<Longrightarrow> wf (snd (remove h t))"
    and get_new: "get new h = None"
    and get_key: "handle_key h = handle_key h' \<Longrightarrow> get t h = get t h'"
    and insert_fresh: "wf t \<Longrightarrow> room t \<Longrightarrow> get t (fst (insert k v t)) = None"
    and insert_self: "wf t \<Longrightarrow> room t \<Longrightarrow> get (snd (insert k v t)) (fst (insert k v t)) = Some v"
    and insert_keeps: "wf t \<Longrightarrow> get t h = Some w \<Longrightarrow> get (snd (insert k v t)) h = Some w"
    and insert_only: "wf t \<Longrightarrow> get (snd (insert k v t)) h = Some w \<Longrightarrow>
        get t h = Some w \<or> w = v \<and> handle_key h = handle_key (fst (insert k v t))"
    and insert_kind: "handle_kind (fst (insert k v t)) = k"
    and get_mut_get: "map_option fst (get_mut t h) = get t h"
    and get_write: "get_mut t h = Some (v, wr) \<Longrightarrow>
        get (wr w) h' = (if handle_key h' = handle_key h then Some w else get t h')"
    and remove_get: "fst (remove h t) = get t h"
    and remove_absent: "get t h = None \<Longrightarrow> snd (remove h t) = t"
    and get_remove: "get (snd (remove h t)) h' = (if handle_key h' = handle_key h then None else get t h')"
begin

definition holds :: "('v \<Rightarrow> bool) \<Rightarrow> 't \<Rightarrow> bool" where
  "holds P t \<longleftrightarrow> (\<forall>h v. get t h = Some v \<longrightarrow> P v)"

lemma holds_new: "holds P new"
  by (simp add: holds_def get_new)

lemma holds_insert: "wf t \<Longrightarrow> holds P t \<Longrightarrow> P v \<Longrightarrow> holds P (snd (insert k v t))"
  unfolding holds_def using insert_only by blast

lemma holds_write: "holds P t \<Longrightarrow> get_mut t h = Some (v, wr) \<Longrightarrow> P w \<Longrightarrow> holds P (wr w)"
  by (simp add: holds_def get_write)

lemma holds_remove: "holds P t \<Longrightarrow> holds P (snd (remove h t))"
  by (simp add: holds_def get_remove)

lemma holds_mono: "holds P t \<Longrightarrow> (\<And>v. P v \<Longrightarrow> Q v) \<Longrightarrow> holds Q t"
  by (simp add: holds_def)

lemma holds_get: "holds P t \<Longrightarrow> get t h = Some v \<Longrightarrow> P v"
  by (simp add: holds_def)

lemma get_mut_SomeD: "get_mut t h = Some (v, wr) \<Longrightarrow> get t h = Some v"
  using get_mut_get [of t h] by simp

lemma get_mut_NoneD: "get_mut t h = None \<longleftrightarrow> get t h = None"
  using get_mut_get [of t h] by (metis map_option_is_None)

lemma remove_gone: "get (snd (remove h t)) h = None"
  by (simp add: get_remove)

lemma remove_twice: "fst (remove h (snd (remove h t))) = None \<and> snd (remove h (snd (remove h t))) = snd (remove h t)"
  by (simp add: remove_get remove_gone remove_absent)

lemma insert_remove:
  assumes "wf t" "room t" "insert k v t = (h, t1)"
  shows "fst (remove h t1) = Some v" "get (snd (remove h t1)) h' = get t h'"
proof -
  show "fst (remove h t1) = Some v"
    using insert_self [OF assms(1,2), of k v] assms(3) by (simp add: remove_get)
  show "get (snd (remove h t1)) h' = get t h'"
  proof (cases "handle_key h' = handle_key h")
    case True
    then show ?thesis
      using insert_fresh [OF assms(1,2), of k v] get_key [OF True, of t] assms(3) by (simp add: get_remove)
  next
    case False
    then show ?thesis
      using insert_keeps [OF assms(1), of h' _ k v] insert_only [OF assms(1), of k v h'] assms(3)
      by (cases "get t h'"; cases "get t1 h'") (auto simp: get_remove)
  qed
qed

end

lemma ht_insert_slots:
  assumes "ht_inv t" "ht_insert k v t = (h, t')"
  shows "\<exists>x'. slot_value x' = Some v \<and> slot_kind x' = k \<and> handle_key h = (handle_slot h, slot_generation x') \<and>
     (\<exists>i. ht_slots t' ! i = x' \<and> word_of_nat i = handle_slot h \<and>
        (\<forall>j<length (ht_slots t'). j = i \<or> j < length (ht_slots t) \<and> ht_slots t' ! j = ht_slots t ! j))"
proof (cases "ht_free t = []")
  case True
  then show ?thesis using assms(2)
    by (intro exI [of _ "\<lparr>slot_generation = 0, slot_kind = k, slot_value = Some v, slot_retired = False\<rparr>"])
      (auto simp: ht_insert_def handle_key_def nth_append less_Suc_eq intro!: exI [of _ "length (ht_slots t)"])
next
  case False
  let ?s = "last (ht_free t)"
  let ?x = "ht_slots t ! unat ?s"
  note top = ht_free_top [OF assms(1) False]
  have "slot_wf ?x"
    using assms(1) top(1) by (simp add: ht_inv_def list_all_length)
  then have g: "slot_generation ?x AND GENERATION_MAX = slot_generation ?x"
    by (simp add: slot_wf_def and_GENERATION_MAX)
  show ?thesis using assms(2) False top(1)
    by (intro exI [of _ "?x\<lparr>slot_value := Some v, slot_kind := k\<rparr>"])
      (auto simp: ht_insert_def Let_def handle_key_def nth_list_update_any g intro!: exI [of _ "unat ?s"])
qed

lemma ht_insert_only:
  assumes "ht_inv t" "ht_get (snd (ht_insert k v t)) h = Some w"
  shows "ht_get t h = Some w \<or> w = v \<and> handle_key h = handle_key (fst (ht_insert k v t))"
proof -
  obtain h0 t' where ins: "ht_insert k v t = (h0, t')" by fastforce
  obtain x' i where x': "slot_value x' = Some v" "handle_key h0 = (handle_slot h0, slot_generation x')"
    "ht_slots t' ! i = x'" "word_of_nat i = handle_slot h0"
    "\<And>j. j < length (ht_slots t') \<Longrightarrow> j = i \<or> j < length (ht_slots t) \<and> ht_slots t' ! j = ht_slots t ! j"
    using ht_insert_slots [OF assms(1) ins] by blast
  show ?thesis
    using assms(2) x'(5) [of "unat (handle_slot h)"] x'(1-4)
    by (auto simp: ins ht_get_Some handle_key_def)
qed

lemma ht_insert_keeps_get:
  "ht_inv t \<Longrightarrow> ht_get t h = Some w \<Longrightarrow> ht_get (snd (ht_insert k v t)) h = Some w"
  using ht_insert_keeps [of t "unat (handle_slot h)" k v] ht_length_insert [of t k v]
  by (simp add: ht_get_Some)

lemma ht_insert_kind: "handle_kind (fst (ht_insert k v t)) = k"
  by (simp add: ht_insert_def Let_def)

interpretation ht: object_store ht_new ht_insert ht_get ht_get_mut ht_remove ht_inv ht_room
proof
  fix t :: "'a handle_table" and k v h h' w wr
  show "ht_inv ht_new" by (rule ht_inv_new)
  show "ht_inv t \<Longrightarrow> ht_inv (snd (ht_insert k v t))" by (rule ht_inv_insert)
  show "ht_inv t \<Longrightarrow> ht_get_mut t h = Some (v, wr) \<Longrightarrow> ht_inv (wr w)" by (rule ht_inv_get_mut)
  show "ht_inv t \<Longrightarrow> ht_inv (snd (ht_remove h t))" by (rule ht_inv_remove)
  show "ht_get (ht_new :: 'a handle_table) h = None" by (simp add: ht_get_abs ht_abs_new)
  show "handle_key h = handle_key h' \<Longrightarrow> ht_get t h = ht_get t h'" by (simp add: ht_get_abs)
  show "ht_inv t \<Longrightarrow> ht_room t \<Longrightarrow> ht_get t (fst (ht_insert k v t)) = None"
    using ht_insert_abs(1) [of t k v] by (cases "ht_insert k v t") (simp add: ht_get_abs)
  show "ht_inv t \<Longrightarrow> ht_room t \<Longrightarrow> ht_get (snd (ht_insert k v t)) (fst (ht_insert k v t)) = Some v"
    using ht_insert_abs(2) [of t k v] by (cases "ht_insert k v t") (simp add: ht_get_abs)
  show "ht_inv t \<Longrightarrow> ht_get t h = Some w \<Longrightarrow> ht_get (snd (ht_insert k v t)) h = Some w"
    by (rule ht_insert_keeps_get)
  show "ht_inv t \<Longrightarrow> ht_get (snd (ht_insert k v t)) h = Some w \<Longrightarrow>
      ht_get t h = Some w \<or> w = v \<and> handle_key h = handle_key (fst (ht_insert k v t))"
    by (rule ht_insert_only)
  show "handle_kind (fst (ht_insert k v t)) = k" by (rule ht_insert_kind)
  show "map_option fst (ht_get_mut t h) = ht_get t h" by (rule ht_get_mut_get)
  show "ht_get_mut t h = Some (v, wr) \<Longrightarrow>
      ht_get (wr w) h' = (if handle_key h' = handle_key h then Some w else ht_get t h')"
    using ht_get_mut_abs [of t h v wr w] by (simp add: ht_get_abs)
  show "fst (ht_remove h t) = ht_get t h" by (rule ht_remove_get)
  show "ht_get t h = None \<Longrightarrow> snd (ht_remove h t) = t" by (simp add: ht_remove_None)
  show "ht_get (snd (ht_remove h t)) h' = (if handle_key h' = handle_key h then None else ht_get t h')"
    by (simp add: ht_get_abs ht_remove_abs)
qed

subsection \<open>Properties\<close>

definition ht_reachable :: "'v handle_table \<Rightarrow> bool" where
  "ht_reachable t \<longleftrightarrow> ht_step\<^sup>*\<^sup>* ht_new t"

lemma ht_reachable_wf: "ht_reachable t \<Longrightarrow> ht_wf t"
  by (simp add: ht_reachable_def ht_steps_wf)

lemma ht_reachable_step: "ht_reachable t \<Longrightarrow> ht_step t t' \<Longrightarrow> ht_reachable t'"
  by (simp add: ht_reachable_def)

text \<open>A table with one entry, for the witnesses.\<close>

definition one_entry :: "Handle \<times> bool handle_table" where
  "one_entry = ht_insert 7 True ht_new"

lemma one_entry_reachable: "ht_reachable (snd one_entry)"
  by (cases one_entry) (auto simp: one_entry_def ht_reachable_def intro!: r_into_rtranclp step_insert)

lemma one_entry_get: "ht_get (snd one_entry) (fst one_entry) = Some True"
  by (simp add: one_entry_def ht.insert_self ht_inv_new)

text \<open>C2. Use after free: once a handle has been removed, then whatever operations the table goes
  through it resolves to nothing, and no insertion issues its slot and generation again.\<close>

theorem handles_use_after_free:
  assumes "ht_reachable t" "ht_remove h t = (Some v, t1)" "ht_step\<^sup>*\<^sup>* t1 t2"
  shows "ht_get t2 h = None \<and> (ht_room t2 \<longrightarrow> handle_key (fst (ht_insert k w t2)) \<noteq> handle_key h)"
proof -
  have wf: "ht_wf t" using assms(1) by (rule ht_reachable_wf)
  have get: "ht_get t h = Some v" using ht_remove_get [of h t] assms(2) by simp
  have wf1: "ht_wf t1" using ht_step_wf [OF step_remove [OF assms(2)] wf] .
  have past: "ht_past t1 (handle_key h)"
    using ht_remove_past [of t h v] wf get assms(2) by (simp add: ht_wf_def)
  have wf2: "ht_wf t2" using assms(3) wf1 by (rule ht_steps_wf)
  have past2: "ht_past t2 (handle_key h)" using assms(3) wf1 past by (rule ht_steps_past)
  have "ht_past (snd (ht_insert k w t2)) (handle_key h)"
    using wf2 past2 by (simp add: ht_wf_def ht_past_insert)
  then have "ht_get (snd (ht_insert k w t2)) h = None"
    using wf2 by (simp add: ht_past_get ht_inv_insert ht_wf_def)
  moreover have "ht_room t2 \<Longrightarrow> ht_get (snd (ht_insert k w t2)) (fst (ht_insert k w t2)) = Some w"
    using wf2 by (simp add: ht.insert_self ht_wf_def)
  ultimately have "ht_room t2 \<Longrightarrow> handle_key (fst (ht_insert k w t2)) \<noteq> handle_key h"
    using ht.get_key by (metis option.distinct(1))
  then show ?thesis
    using ht_past_get wf2 past2 by (auto simp: ht_wf_def)
qed

lemma handles_use_after_free_witness:
  "ht_get (snd (ht_insert 9 False (snd (ht_remove (fst one_entry) (snd one_entry))))) (fst one_entry) = None"
proof -
  let ?t1 = "snd (ht_remove (fst one_entry) (snd one_entry))"
  let ?t2 = "snd (ht_insert 9 False ?t1)"
  have remove: "ht_remove (fst one_entry) (snd one_entry) = (Some True, ?t1)"
    by (simp add: prod_eq_iff ht_remove_get one_entry_get)
  have room: "ht_room ?t1"
    by (simp add: ht_room_def) (simp add: one_entry_def ht_insert_def ht_new_def)
  have "ht_step\<^sup>*\<^sup>* ?t1 ?t2"
    by (intro r_into_rtranclp step_insert [OF room, of 9 False "fst (ht_insert 9 False ?t1)"]) simp
  then show ?thesis
    using handles_use_after_free [OF one_entry_reachable remove, of ?t2 0 True] by simp
qed

text \<open>C4. Every table the operations can produce keeps the bookkeeping in step with the slots: the free
  list holds each reusable slot once and nothing else, \<open>live\<close> counts the occupied slots, no generation
  passes 24 bits, a retired slot is empty. So the unchecked index of \<open>insert\<close> is in range and neither
  decrement of \<open>live\<close> underflows.\<close>

theorem handles_invariant:
  assumes "ht_reachable t"
  shows "ht_inv t \<and> ht_len t = length (ht_iter t) \<and>
    (ht_free t \<noteq> [] \<longrightarrow> unat (last (ht_free t)) < length (ht_slots t)) \<and>
    (ht_get t h \<noteq> None \<longrightarrow> 0 < ht_live t) \<and>
    (ht_retain keep (s :: nat) t = (r, t', s') \<longrightarrow> r \<le> ht_live t)"
proof -
  have wf: "ht_inv t" "ht_small t" using ht_reachable_wf [OF assms] by (simp_all add: ht_wf_def)
  then have "ht_len t = length (ht_iter t)" by (simp add: ht_len_def ht_iter_length ht_inv_def)
  then show ?thesis
    using wf ht_free_top(1) [OF wf(1)] ht_live_pos [OF wf(1)] ht_inv_retain [OF wf, of keep s] by blast
qed

lemma handles_invariant_witness:
  "0 < ht_live (snd one_entry)"
  using handles_invariant [OF one_entry_reachable, of "fst one_entry"] by (simp add: one_entry_get)

text \<open>C3. The table refines a partial map from (slot, generation) to (kind, value): insertion adds a key
  that was absent, under the requested kind; removal takes one key out; a write through
  \<open>get_mut\<close> changes one value; lookup is lookup and \<open>len\<close> the number of keys.\<close>

theorem handles_refine_map:
  assumes "ht_reachable t" "ht_room t"
  shows "(let (h, t') = ht_insert k v t in
       ht_abs t (handle_key h) = None \<and> ht_abs t' = (ht_abs t)(handle_key h \<mapsto> (k, v)) \<and> handle_kind h = k) \<and>
    (let (r, t') = ht_remove g t in
       r = map_option snd (ht_abs t (handle_key g)) \<and> ht_abs t' = (ht_abs t)(handle_key g := None)) \<and>
    (case ht_get_mut t g of
        None \<Rightarrow> ht_abs t (handle_key g) = None
      | Some (u, wr) \<Rightarrow> (\<exists>j. ht_abs t (handle_key g) = Some (j, u) \<and>
            ht_abs (wr w) = (ht_abs t)(handle_key g \<mapsto> (j, w)))) \<and>
    ht_get t g = map_option snd (ht_abs t (handle_key g)) \<and>
    ht_len t = card (dom (ht_abs t))"
proof (intro conjI)
  have wf: "ht_inv t" "ht_small t" using ht_reachable_wf [OF assms(1)] by (simp_all add: ht_wf_def)
  show "let (h, t') = ht_insert k v t in
       ht_abs t (handle_key h) = None \<and> ht_abs t' = (ht_abs t)(handle_key h \<mapsto> (k, v)) \<and> handle_kind h = k"
    using ht_insert_abs [OF wf(1) assms(2), of k v] by (simp add: Let_def split: prod.splits)
  show "let (r, t') = ht_remove g t in
       r = map_option snd (ht_abs t (handle_key g)) \<and> ht_abs t' = (ht_abs t)(handle_key g := None)"
    using ht_remove_get [of g t] ht_remove_abs [of g t] by (cases "ht_remove g t") (simp add: ht_get_abs)
  show "case ht_get_mut t g of
        None \<Rightarrow> ht_abs t (handle_key g) = None
      | Some (u, wr) \<Rightarrow> (\<exists>j. ht_abs t (handle_key g) = Some (j, u) \<and>
            ht_abs (wr w) = (ht_abs t)(handle_key g \<mapsto> (j, w)))"
  proof (cases "ht_get_mut t g")
    case None
    then have "ht_abs t (handle_key g) = None" by (simp add: ht_get_mut_None ht_get_abs)
    then show ?thesis using None by simp
  next
    case (Some p)
    obtain u wr where p: "p = (u, wr)" by (cases p)
    then obtain j where "ht_abs t (handle_key g) = Some (j, u)"
      using Some by (auto simp: ht_get_mut_Some ht_get_abs)
    then show ?thesis using ht_get_mut_abs [of t g u wr w] Some p by simp
  qed
  show "ht_get t g = map_option snd (ht_abs t (handle_key g))" by (rule ht_get_abs)
  show "ht_len t = card (dom (ht_abs t))" using wf by (rule ht_len_card)
qed

lemma one_entry_room: "ht_room (snd one_entry)"
  by (simp add: ht_room_def one_entry_def ht_insert_def ht_new_def)

lemma handles_refine_map_witness:
  "ht_len (snd one_entry) = card (dom (ht_abs (snd one_entry)))"
  using handles_refine_map [OF one_entry_reachable one_entry_room] by blast

text \<open>\<open>clear\<close> empties the map and \<open>retain\<close> with a pure predicate restricts it to the entries kept,
  returning the number dropped; any predicate, with state of its own, leaves the surviving entries under
  their handles, and neither changes the capacity.\<close>

theorem handles_bulk_free:
  assumes "ht_reachable t"
  shows "ht_abs (ht_clear t) = Map.empty \<and> ht_len (ht_clear t) = 0 \<and> ht_capacity (ht_clear t) = ht_capacity t \<and>
    (\<forall>p r t' s'. ht_retain (\<lambda>s h v. (p h v, s)) (s :: nat) t = (r, t', s') \<longrightarrow>
       (\<forall>i g. ht_abs t' (i, g) =
          (case ht_abs t (i, g) of Some (k, v) \<Rightarrow> if p (handle_new k g i) v then Some (k, v) else None | None \<Rightarrow> None)))
    \<and> (\<forall>keep r t' s'. ht_retain keep s t = (r, t', s') \<longrightarrow>
         ht_abs t' \<subseteq>\<^sub>m ht_abs t \<and> ht_len t' + r = ht_len t \<and> ht_capacity t' = ht_capacity t)"
proof -
  have inv: "ht_inv t" "ht_small t" using ht_reachable_wf [OF assms] by (simp_all add: ht_wf_def)
  have len: "ht_len t' + r = ht_len t" if "ht_retain keep s t = (r, t', s')" for keep r t' s'
    using ht_inv_retain [OF inv that] that by (auto simp: ht_len_def ht_retain_def split: prod.splits)
  have clear: "ht_len (ht_clear t) = 0"
    by (simp add: ht_len_def ht_clear_def split: prod.splits)
  show ?thesis
  proof (intro conjI allI impI)
    show "ht_abs (ht_clear t) = Map.empty" using inv(1) by (rule ht_clear_abs)
    show "ht_len (ht_clear t) = 0" by (rule clear)
    show "ht_capacity (ht_clear t) = ht_capacity t" by (simp add: ht_capacity_def ht_length_clear)
  next
    fix p r t' s' i g assume "ht_retain (\<lambda>s h v. (p h v, s)) s t = (r, t', s')"
    from ht_retain_abs [OF this] show "ht_abs t' (i, g) =
        (case ht_abs t (i, g) of Some (k, v) \<Rightarrow> if p (handle_new k g i) v then Some (k, v) else None | None \<Rightarrow> None)"
      by simp
  next
    fix keep r t' s' assume r: "ht_retain keep s t = (r, t', s')"
    show "ht_abs t' \<subseteq>\<^sub>m ht_abs t" using r by (rule ht_retain_abs_le)
    show "ht_len t' + r = ht_len t" using r by (rule len)
    show "ht_capacity t' = ht_capacity t" using ht_length_retain [OF r] by (simp add: ht_capacity_def)
  qed
qed

lemma handles_bulk_free_witness: "ht_abs (ht_clear (snd one_entry)) = Map.empty"
  using handles_bulk_free [OF one_entry_reachable] by blast

text \<open>The introspection methods agree with the map: \<open>iter\<close> yields every live entry once, under the
  handle that resolves to it, \<open>iter_kind\<close> is its restriction to a kind and \<open>count_by_kind\<close> the length of
  that, and \<open>kinds\<close> lists the live kinds in ascending order without repetition.\<close>

theorem handles_introspection:
  assumes "ht_reachable t"
  shows "((h, v) \<in> set (ht_iter t) \<longleftrightarrow> ht_abs t (handle_key h) = Some (handle_kind h, v)) \<and>
    distinct (map fst (ht_iter t)) \<and>
    ht_iter_kind k t = filter (\<lambda>(h, v). handle_kind h = k) (ht_iter t) \<and>
    ht_count_by_kind k t = length (ht_iter_kind k t) \<and>
    sorted (ht_kinds t) \<and> distinct (ht_kinds t) \<and>
    set (ht_kinds t) = {k. \<exists>q v. ht_abs t q = Some (k, v)}"
proof -
  have wf: "ht_inv t" "ht_small t" using ht_reachable_wf [OF assms] by (simp_all add: ht_wf_def)
  have "set (ht_kinds t) = {k. \<exists>q v. ht_abs t q = Some (k, v)}"
  proof (rule set_eqI, rule iffI)
    fix k assume "k \<in> set (ht_kinds t)"
    then obtain h v where "(h, v) \<in> set (ht_iter t)" "k = handle_kind h" by (auto simp: ht_kinds_set)
    then show "k \<in> {k. \<exists>q v. ht_abs t q = Some (k, v)}" using ht_iter_abs [OF wf] by blast
  next
    fix k assume "k \<in> {k. \<exists>q v. ht_abs t q = Some (k, v)}"
    then obtain s g v where e: "ht_abs t (s, g) = Some (k, v)" by auto
    then have "g \<le> GENERATION_MAX"
      using wf(1) by (auto simp: ht_abs_Some ht_inv_def list_all_length slot_wf_def)
    then have "(handle_new k g s, v) \<in> set (ht_iter t)"
      using e by (simp add: ht_iter_abs [OF wf] handle_new_key)
    then show "k \<in> set (ht_kinds t)" by (force simp: ht_kinds_set)
  qed
  then show ?thesis
    using ht_iter_abs [OF wf] ht_iter_handles_distinct [OF wf(2)]
    by (simp add: ht_iter_kind_filter ht_count_by_kind_iter ht_kinds_sorted)
qed

lemma handles_introspection_witness: "distinct (ht_kinds (snd one_entry))"
  using handles_introspection [OF one_entry_reachable] by blast

text \<open>A retired slot stays retired: nothing resolves in it and \<open>insert\<close> never pops its index.\<close>

definition retired_at :: "'v handle_table \<Rightarrow> u32 \<Rightarrow> bool" where
  "retired_at t s \<longleftrightarrow> unat s < length (ht_slots t) \<and> slot_retired (ht_slots t ! unat s)"

lemma retired_count_update:
  "i < length xs \<Longrightarrow>
   length (filter slot_retired (xs[i := s])) + (if slot_retired (xs ! i) then 1 else 0)
   = length (filter slot_retired xs) + (if slot_retired s then 1 else 0)"
proof (induction xs arbitrary: i)
  case Nil
  then show ?case by simp
next
  case (Cons x xs)
  show ?case
  proof (cases i)
    case 0
    then show ?thesis by simp
  next
    case (Suc j)
    then show ?thesis using Cons.IH [of j] Cons.prems by simp
  qed
qed

lemma retired_not_free:
  assumes "ht_inv t" "retired_at t s"
  shows "s \<notin> set (ht_free t)"
proof -
  have "unat s \<notin> vacant_at (ht_slots t)"
    using assms(2) by (simp add: retired_at_def vacant_at_def slot_vacant_def)
  then show ?thesis using assms(1) unfolding ht_inv_def by blast
qed

lemma retired_at_mono:
  assumes "retired_at t s" "length (ht_slots t) \<le> length (ht_slots t')"
    "\<And>j. j < length (ht_slots t) \<Longrightarrow> slot_retired (ht_slots t ! j) \<Longrightarrow> slot_retired (ht_slots t' ! j)"
  shows "retired_at t' s"
  using assms by (auto simp: retired_at_def)

lemma retired_insert: "retired_at t s \<Longrightarrow> retired_at (snd (ht_insert k v t)) s"
  by (erule retired_at_mono) (auto simp: ht_insert_def Let_def nth_append nth_list_update_any)

lemma retired_freed_list:
  assumes "freed 0 (ht_slots t) xs' fs n" "retired_at t s"
  shows "retired_at (t\<lparr>ht_slots := xs', ht_free := f, ht_live := l\<rparr>) s"
  using assms(2)
proof (rule retired_at_mono)
  fix j assume "j < length (ht_slots t)" "slot_retired (ht_slots t ! j)"
  then show "slot_retired (ht_slots (t\<lparr>ht_slots := xs', ht_free := f, ht_live := l\<rparr>) ! j)"
    using freed_nth [OF assms(1), of j] by (auto simp: slot_freed_def)
qed (simp add: freed_length [OF assms(1)])

lemma ht_step_retired: "ht_step t t' \<Longrightarrow> retired_at t s \<Longrightarrow> retired_at t' s"
proof (induction rule: ht_step.induct)
  case (step_insert t k v h t')
  then show ?case using retired_insert [of t s k v] by simp
next
  case (step_try_insert t k v m r t')
  then show ?case using retired_insert [of t s k v] ht_try_insert_cases [of k v m t r t'] by auto
next
  case (step_get_mut t h v wr w)
  show ?case using step_get_mut.prems
    by (rule retired_at_mono) (use step_get_mut.hyps in \<open>auto simp: ht_get_mut_Some nth_list_update_any\<close>)
next
  case (step_remove h t r t')
  show ?case
  proof (cases "ht_get t h")
    case None
    then show ?thesis using step_remove by (simp add: ht_remove_None)
  next
    case (Some v)
    show ?thesis using step_remove.prems
      by (rule retired_at_mono)
        (use step_remove.hyps in \<open>auto simp: ht_remove_Some [OF Some] nth_list_update_any slot_freed_def\<close>)
  qed
next
  case (step_clear t)
  show ?case by (rule ht_clear_freed [of t]) (simp add: retired_freed_list step_clear)
next
  case (step_retain keep s t n t' s')
  show ?case by (rule ht_retain_freed [OF step_retain.hyps]) (simp add: retired_freed_list step_retain)
qed

lemma ht_steps_retired: "ht_step\<^sup>*\<^sup>* t t' \<Longrightarrow> ht_wf t \<Longrightarrow> retired_at t s \<Longrightarrow> retired_at t' s"
  by (induction rule: rtranclp_induct) (auto intro: ht_step_retired)

lemma retired_not_reused:
  assumes "ht_wf t" "ht_room t" "retired_at t s"
  shows "handle_slot (fst (ht_insert k v t)) \<noteq> s"
proof (cases "ht_free t = []")
  case True
  then have "unat (word_of_nat (length (ht_slots t)) :: u32) = length (ht_slots t)"
    using assms(2) by (intro unat_of_nat_below) (simp add: ht_room_def)
  then show ?thesis using assms(3) True by (auto simp: ht_insert_def retired_at_def)
next
  case False
  then have "last (ht_free t) \<in> set (ht_free t)" by simp
  then show ?thesis
    using retired_not_free [OF _ assms(3)] assms(1) False by (auto simp: ht_insert_def Let_def ht_wf_def)
qed

text \<open>A slot whose generation is exhausted is retired by the removal that frees it: its index never
  enters the free list, and no later insertion, however many, uses it again.\<close>

theorem handles_retirement:
  assumes "ht_reachable t" "ht_get t h = Some v" "handle_generation h = GENERATION_MAX"
    "ht_step\<^sup>*\<^sup>* (snd (ht_remove h t)) t2"
  shows "ht_retired (snd (ht_remove h t)) = Suc (ht_retired t) \<and>
    handle_slot h \<notin> set (ht_free t2) \<and>
    (ht_room t2 \<longrightarrow> handle_slot (fst (ht_insert k w t2)) \<noteq> handle_slot h)"
proof -
  let ?x = "ht_slots t ! unat (handle_slot h)" and ?t1 = "snd (ht_remove h t)"
  have wf: "ht_wf t" using assms(1) by (rule ht_reachable_wf)
  have at: "unat (handle_slot h) < length (ht_slots t)" "slot_generation ?x = GENERATION_MAX" "slot_value ?x = Some v"
    using assms(2,3) by (simp_all add: ht_get_Some)
  have live: "\<not> slot_retired ?x"
    using ht_get_slot_wf [OF _ assms(2)] wf at(3) by (auto simp: ht_wf_def slot_wf_def)
  have freed: "slot_freed ?x = ?x\<lparr>slot_value := None, slot_retired := True\<rparr>"
    by (simp add: slot_freed_def at)
  have r1: "retired_at ?t1 (handle_slot h)"
    using at by (simp add: ht_remove_Some [OF assms(2)] retired_at_def freed)
  have wf1: "ht_wf ?t1" by (rule ht_step_wf [OF step_remove [OF prod.collapse [symmetric]] wf])
  have wf2: "ht_wf t2" using assms(4) wf1 by (rule ht_steps_wf)
  have r2: "retired_at t2 (handle_slot h)" using assms(4) wf1 r1 by (rule ht_steps_retired)
  have "ht_retired ?t1 = Suc (ht_retired t)"
    using retired_count_update [OF at(1), of "slot_freed ?x"] live
    by (simp add: ht_remove_Some [OF assms(2)] ht_retired_def freed)
  then show ?thesis
    using retired_not_free [of t2 "handle_slot h"] retired_not_reused [of t2 "handle_slot h" k w] wf2 r2
    by (auto simp: ht_wf_def)
qed

text \<open>The same table after \<open>2 ^ 24 - 1\<close> reuses of its slot, reached by the steps themselves.\<close>

definition worn :: "u32 \<Rightarrow> bool handle_table" where
  "worn g = \<lparr>ht_slots = [\<lparr>slot_generation = g, slot_kind = 7, slot_value = Some True, slot_retired = False\<rparr>],
     ht_free = [], ht_live = 1\<rparr>"

lemma worn_step:
  assumes "\<not> GENERATION_MAX \<le> g"
  shows "ht_step\<^sup>*\<^sup>* (worn g) (worn (g + 1))"
proof -
  let ?h = "handle_new 7 g 0"
  let ?t = "snd (ht_remove ?h (worn g))"
  have g: "g AND GENERATION_MAX = g" using assms by (intro and_GENERATION_MAX) simp
  have get: "ht_get (worn g) ?h = Some True"
    by (simp add: ht_get_Some worn_def g)
  have t: "?t = \<lparr>ht_slots = [\<lparr>slot_generation = g + 1, slot_kind = 7, slot_value = None, slot_retired = False\<rparr>],
     ht_free = [0], ht_live = 0\<rparr>"
    using assms by (simp add: ht_remove_Some [OF get] g) (simp add: worn_def slot_freed_def)
  have "ht_step (worn g) ?t" by (intro step_remove [of ?h _ "fst (ht_remove ?h (worn g))"]) simp
  moreover have "ht_step ?t (worn (g + 1))"
    unfolding t by (intro step_insert [of _ 7 True "handle_new 7 (g + 1) 0"]) (simp_all add: ht_room_def ht_insert_def worn_def)
  ultimately show ?thesis by (meson converse_rtranclp_into_rtranclp r_into_rtranclp)
qed

lemma worn_steps: "n \<le> 2 ^ 24 - 1 \<Longrightarrow> ht_step\<^sup>*\<^sup>* (worn 0) (worn (word_of_nat n))"
proof (induction n)
  case 0
  then show ?case by simp
next
  case (Suc n)
  have "\<not> GENERATION_MAX \<le> word_of_nat n"
    using Suc.prems by (simp add: GENERATION_MAX_value word_le_nat_alt unat_of_nat_below)
  then have "ht_step\<^sup>*\<^sup>* (worn (word_of_nat n)) (worn (word_of_nat (Suc n)))"
    using worn_step [of "word_of_nat n"] by (simp add: add.commute)
  then show ?case using Suc by (meson Suc_leD rtranclp_trans)
qed

lemma worn_out_reachable: "ht_reachable (worn GENERATION_MAX)"
proof -
  have "ht_step ht_new (worn 0)"
    by (intro step_insert [of _ 7 True "handle_new 7 0 0"]) (simp_all add: ht_insert_def ht_new_def worn_def ht_room_def)
  then show ?thesis
    using worn_steps [of "2 ^ 24 - 1"] by (simp add: ht_reachable_def GENERATION_MAX_value converse_rtranclp_into_rtranclp)
qed

lemma handles_retirement_witness:
  "ht_retired (snd (ht_remove (handle_new 7 GENERATION_MAX 0) (worn GENERATION_MAX))) = Suc (ht_retired (worn GENERATION_MAX))"
proof -
  have "ht_get (worn GENERATION_MAX) (handle_new 7 GENERATION_MAX 0) = Some True"
    by (simp add: ht_get_Some worn_def)
  then show ?thesis
    using handles_retirement [OF worn_out_reachable, of "handle_new 7 GENERATION_MAX 0" True
        "snd (ht_remove (handle_new 7 GENERATION_MAX 0) (worn GENERATION_MAX))" 0 True] by simp
qed

text \<open>The null handle is not reserved: the first insertion, under any kind, makes it resolve.\<close>

theorem handles_null_handle_resolves:
  "ht_get (snd (ht_insert k v ht_new)) NULL_HANDLE = Some v"
proof -
  have "handle_key NULL_HANDLE = handle_key (fst (ht_insert k v ht_new))"
  proof -
    have "handle_key NULL_HANDLE = (0, 0)"
      by (simp add: handle_key_def NULL_HANDLE_def handle_from_raw_def handle_slot_def handle_generation_def)
    moreover have "fst (ht_insert k v ht_new) = handle_new k 0 0"
      by (simp add: ht_insert_def ht_new_def)
    ultimately show ?thesis by (simp add: handle_new_key)
  qed
  then show ?thesis
    using ht.insert_self [OF ht_inv_new ht_small_new(2), of k v] ht.get_key by metis
qed

end
