(* ===== verification/Backend.thy ===== *)
theory Backend
  imports Handle_Life
begin

section \<open>The backend interface\<close>

text \<open>
  The trait \<open>Backend\<close> of \<open>crates/graftx-server/src/backend.rs\<close>: a service for one API namespace that turns
  an opcode and a body into a reply body or a protocol error, changing its own state. \<open>self\<close> is passed and
  returned; a match arm of a backend's \<open>handle\<close> is one definition, an \<open>arm\<close>.

  The locale \<open>backend\<close> states the contract every service keeps, and proves what a session may rely on
  over a whole sequence of requests. \<open>arm_ok\<close> is the part of the contract that is checked arm by arm.
\<close>

type_synonym 'b reply = "bytes proto_result \<times> 'b"

type_synonym 'b arm = "u32 \<Rightarrow> bytes \<Rightarrow> 'b \<Rightarrow> 'b reply"

type_synonym 'b handler = "u32 \<Rightarrow> u32 \<Rightarrow> bytes \<Rightarrow> 'b \<Rightarrow> 'b reply"

named_theorems decode_errors \<open>a failed decode is \<open>UnexpectedEof\<close>\<close>
named_theorems reply_widths \<open>lengths of encoded replies\<close>

text \<open>The longest reply any service sends: a count and one handle.\<close>

definition reply_max :: nat where
  "reply_max = 12"

definition arm_ok :: "('b \<Rightarrow> bool) \<Rightarrow> 'b arm \<Rightarrow> bool" where
  "arm_ok invar f \<longleftrightarrow> (\<forall>opc body b. case f opc body b of
     (Inl e, b') \<Rightarrow> b' = b \<and> (e = UnknownOpcode opc \<or> e = UnexpectedEof)
   | (Inr out, b') \<Rightarrow> length out \<le> reply_max \<and> (invar b \<longrightarrow> invar b'))"

lemma arm_ok_if:
  "arm_ok invar f \<Longrightarrow> arm_ok invar g \<Longrightarrow>
   arm_ok invar (\<lambda>opc body b. if P opc then f opc body b else g opc body b)"
  by (simp add: arm_ok_def)

lemma arm_ok_unknown: "arm_ok invar (\<lambda>opc body b. (Inl (UnknownOpcode opc), b))"
  by (simp add: arm_ok_def)

text \<open>A sequence of requests, each an opcode, a correlation id and a body.\<close>

type_synonym request = "u32 \<times> u32 \<times> bytes"

definition run_requests :: "'b handler \<Rightarrow> request list \<Rightarrow> 'b \<Rightarrow> 'b" where
  "run_requests handle reqs b = fold (\<lambda>(opc, req_id, body) b. snd (handle opc req_id body b)) reqs b"

primrec replies :: "'b handler \<Rightarrow> request list \<Rightarrow> 'b \<Rightarrow> bytes proto_result list" where
  "replies handle [] b = []"
| "replies handle (r # reqs) b =
     (case r of (opc, req_id, body) \<Rightarrow>
       let (res, b') = handle opc req_id body b in res # replies handle reqs b')"

primrec succeeded :: "'b handler \<Rightarrow> request list \<Rightarrow> 'b \<Rightarrow> request list" where
  "succeeded handle [] b = []"
| "succeeded handle (r # reqs) b =
     (case r of (opc, req_id, body) \<Rightarrow>
       let (res, b') = handle opc req_id body b in
       if is_ok res then r # succeeded handle reqs b' else succeeded handle reqs b')"

lemma run_requests_simps [simp]:
  "run_requests handle [] b = b"
  "run_requests handle ((opc, req_id, body) # reqs) b = run_requests handle reqs (snd (handle opc req_id body b))"
  by (simp_all add: run_requests_def)

lemma run_requests_append: "run_requests handle (xs @ ys) b = run_requests handle ys (run_requests handle xs b)"
  by (simp add: run_requests_def)

text \<open>
  What a service promises: its invariant holds after any requests; a request that fails leaves the state as
  it was, with one of two errors, and could as well not have been sent; replies are short; the opcodes \<open>ops\<close>
  of its match arms belong to its namespace and each reaches an arm, every other opcode is refused, whatever
  its namespace; the correlation id plays no part. An arm is told from the last one by the empty body: an arm
  that decodes its body finds it too short, one that does not decode it succeeds.
\<close>

definition service_contract :: "api_id \<Rightarrow> u32 list \<Rightarrow> 'b handler \<Rightarrow> 'b \<Rightarrow> ('b \<Rightarrow> bool) \<Rightarrow> bool" where
  "service_contract api ops handle new invar \<longleftrightarrow>
     (\<forall>reqs. invar (run_requests handle reqs new)) \<and>
     (\<forall>opc req_id body b e b'. handle opc req_id body b = (Inl e, b') \<longrightarrow>
        b' = b \<and> (e = UnknownOpcode opc \<or> e = UnexpectedEof)) \<and>
     (\<forall>reqs b. run_requests handle (succeeded handle reqs b) b = run_requests handle reqs b) \<and>
     (\<forall>opc req_id body b out b'. handle opc req_id body b = (Inr out, b') \<longrightarrow> length out \<le> reply_max) \<and>
     (\<forall>opc\<in>set ops. opcode_api opc = api_id_u8 api) \<and>
     (\<forall>opc\<in>set ops. \<forall>req_id b. fst (handle opc req_id [] b) \<noteq> Inl (UnknownOpcode opc)) \<and>
     (\<forall>opc req_id body b. opc \<notin> set ops \<longrightarrow> handle opc req_id body b = (Inl (UnknownOpcode opc), b)) \<and>
     (\<forall>opc req_id req_id' body b. handle opc req_id body b = handle opc req_id' body b)"

text \<open>An object that was freed cannot be freed again, whatever happens in between.\<close>

definition frees_once :: "'b handler \<Rightarrow> 'b \<Rightarrow> u32 \<Rightarrow> bool" where
  "frees_once handle new opc \<longleftrightarrow>
     (\<forall>before body req_id out b between req_id'.
        handle opc req_id body (run_requests handle before new) = (Inr out, b) \<longrightarrow>
        fst (handle opc req_id' body (run_requests handle between b)) = Inl (UnknownOpcode opc))"

text \<open>
  A call that removes from several tables may succeed on the same body more than once: \<open>frees_at_most n\<close>
  bounds how often, in any run.
\<close>

definition frees_at_most :: "nat \<Rightarrow> 'b handler \<Rightarrow> 'b \<Rightarrow> u32 \<Rightarrow> bool" where
  "frees_at_most n handle new opc \<longleftrightarrow>
     (\<forall>body reqs. length (filter (\<lambda>(opc', _, body'). opc' = opc \<and> body' = body) (succeeded handle reqs new)) \<le> n)"

text \<open>
  The parents an object names were issued: after the requests \<open>reqs\<close>, each parent handle \<open>f\<close> reads off an
  entry of \<open>children\<close> resolved in the table \<open>parents\<close> after some of these requests, if not after all of them.
\<close>

definition issued ::
  "'b handler \<Rightarrow> 'b \<Rightarrow> request list \<Rightarrow> ('w \<Rightarrow> Handle list) \<Rightarrow> ('b \<Rightarrow> 'v handle_table) \<Rightarrow> ('b \<Rightarrow> 'w handle_table) \<Rightarrow> bool"
where
  "issued handle new reqs f parents children \<longleftrightarrow>
     ht.holds (\<lambda>w. \<forall>p\<in>set (f w). \<exists>k\<le>length reqs. ht_get (parents (run_requests handle (take k reqs) new)) p \<noteq> None)
       (children (run_requests handle reqs new))"

locale backend =
  fixes api :: api_id
    and ops :: "u32 list"
    and handle :: "'b handler"
    and new :: 'b
    and invar :: "'b \<Rightarrow> bool"
  assumes invar_new: "invar new"
    and handle_ok: "arm_ok invar (\<lambda>opc body b. handle opc req_id body b)"
    and ops_api: "opc \<in> set ops \<Longrightarrow> opcode_api opc = api_id_u8 api"
    and served: "opc \<in> set ops \<Longrightarrow> fst (handle opc req_id [] b) \<noteq> Inl (UnknownOpcode opc)"
    and unserved: "opc \<notin> set ops \<Longrightarrow> handle opc req_id body b = (Inl (UnknownOpcode opc), b)"
    and req_id_unused: "handle opc req_id body b = handle opc req_id' body b"
begin

lemma foreign: "opcode_api opc \<noteq> api_id_u8 api \<Longrightarrow> handle opc req_id body b = (Inl (UnknownOpcode opc), b)"
  using unserved ops_api by blast

lemma answered_op: "handle opc req_id body b = (Inr out, b') \<Longrightarrow> opc \<in> set ops"
  using unserved [of opc req_id body b] by (cases "opc \<in> set ops") auto

lemma error_unchanged:
  assumes "handle opc req_id body b = (Inl e, b')"
  shows "b' = b" "e = UnknownOpcode opc \<or> e = UnexpectedEof"
  using handle_ok [of req_id] assms unfolding arm_ok_def by (metis (mono_tags, lifting) case_prod_conv sum.case(1))+

lemma reply_bound: "handle opc req_id body b = (Inr out, b') \<Longrightarrow> length out \<le> reply_max"
  using handle_ok [of req_id] unfolding arm_ok_def by (metis (mono_tags, lifting) case_prod_conv sum.case(2))

lemma invar_handle: "invar b \<Longrightarrow> invar (snd (handle opc req_id body b))"
proof (cases "handle opc req_id body b")
  case (Pair r b')
  moreover assume "invar b"
  ultimately show ?thesis
    using handle_ok [of req_id] error_unchanged(1) unfolding arm_ok_def
    by (cases r) (metis snd_conv, metis (mono_tags, lifting) case_prod_conv sum.case(2) snd_conv)
qed

lemma invar_run: "invar b \<Longrightarrow> invar (run_requests handle reqs b)"
  by (induction reqs arbitrary: b) (auto simp: invar_handle)

lemma invar_run_new: "invar (run_requests handle reqs new)"
  by (rule invar_run [OF invar_new])

lemma run_succeeded: "run_requests handle (succeeded handle reqs b) b = run_requests handle reqs b"
proof (induction reqs arbitrary: b)
  case Nil
  then show ?case by simp
next
  case (Cons r reqs)
  obtain opc req_id body where r: "r = (opc, req_id, body)" by (cases r)
  obtain res b' where h: "handle opc req_id body b = (res, b')" by fastforce
  show ?case
  proof (cases res)
    case (Inl e)
    then show ?thesis using error_unchanged(1) [of opc req_id body b e b'] Cons.IH h r by simp
  next
    case (Inr out)
    then show ?thesis using Cons.IH h r by simp
  qed
qed

lemma contract: "service_contract api ops handle new invar"
  unfolding service_contract_def
  by (intro conjI allI ballI impI)
    (rule invar_run invar_new run_succeeded req_id_unused | erule ops_api served error_unchanged reply_bound unserved)+

text \<open>A property of states the requests keep, and so an object kept out of reach by it.\<close>

lemma run_keeps:
  assumes "\<And>opc req_id body b. invar b \<Longrightarrow> P b \<Longrightarrow> P (snd (handle opc req_id body b))" "invar b" "P b"
  shows "P (run_requests handle reqs b)"
  using assms(2,3)
proof (induction reqs arbitrary: b)
  case Nil
  then show ?case by simp
next
  case (Cons r reqs)
  then show ?case using assms(1) by (cases r) (simp add: invar_handle)
qed

lemma frees_onceI:
  assumes freed: "\<And>req_id body b out b1. invar b \<Longrightarrow> handle opc req_id body b = (Inr out, b1) \<Longrightarrow> P body b1"
    and keeps: "\<And>opc' req_id body body' b. invar b \<Longrightarrow> P body b \<Longrightarrow> P body (snd (handle opc' req_id body' b))"
    and refused: "\<And>req_id body b. invar b \<Longrightarrow> P body b \<Longrightarrow> fst (handle opc req_id body b) = Inl (UnknownOpcode opc)"
  shows "frees_once handle new opc"
  unfolding frees_once_def
proof (intro allI impI)
  fix before body req_id out b1 between req_id'
  let ?b = "run_requests handle before new"
  have b: "invar ?b" by (rule invar_run [OF invar_new])
  assume h: "handle opc req_id body ?b = (Inr out, b1)"
  have b1: "invar b1" using invar_handle [OF b, of opc req_id body] h by simp
  have "P body (run_requests handle between b1)"
    by (rule run_keeps [where P = "P body"]) (use keeps b1 freed [OF b h] in auto)
  then show "fst (handle opc req_id' body (run_requests handle between b1)) = Inl (UnknownOpcode opc)"
    using refused invar_run [OF b1] by blast
qed

lemma issuedI:
  assumes new: "children new = ht_new"
    and step: "\<And>Q opc req_id body b. invar b \<Longrightarrow> ht.holds (\<lambda>w. \<forall>p\<in>set (f w). Q p) (children b) \<Longrightarrow>
      (\<And>p. ht_get (parents b) p \<noteq> None \<Longrightarrow> Q p) \<Longrightarrow>
      ht.holds (\<lambda>w. \<forall>p\<in>set (f w). Q p) (children (snd (handle opc req_id body b)))"
  shows "issued handle new reqs f parents children"
proof -
  define Q where "Q reqs p \<longleftrightarrow> (\<exists>k\<le>length reqs. ht_get (parents (run_requests handle (take k reqs) new)) p \<noteq> None)" for reqs p
  have now: "ht_get (parents (run_requests handle reqs new)) p \<noteq> None \<Longrightarrow> Q reqs p" for reqs p
    unfolding Q_def by (intro exI [of _ "length reqs"]) simp
  have later: "Q (reqs @ [r]) p" if Q: "Q reqs p" for reqs r p
  proof -
    obtain k where "k \<le> length reqs" "ht_get (parents (run_requests handle (take k reqs) new)) p \<noteq> None"
      using Q unfolding Q_def by blast
    then show ?thesis unfolding Q_def by (intro exI [of _ k]) simp
  qed
  have "ht.holds (\<lambda>w. \<forall>p\<in>set (f w). Q reqs p) (children (run_requests handle reqs new))" for reqs
  proof (induction reqs rule: rev_induct)
    case Nil
    then show ?case by (simp add: new ht.holds_new)
  next
    case (snoc r reqs)
    obtain opc req_id body where r: "r = (opc, req_id, body)" by (cases r)
    have "ht.holds (\<lambda>w. \<forall>p\<in>set (f w). Q reqs p) (children (run_requests handle (reqs @ [r]) new))"
      unfolding run_requests_append run_requests_simps r
      by (rule step [OF invar_run_new snoc.IH now])
    then show ?case
      by (rule ht.holds_mono) (blast intro: later)
  qed
  then show ?thesis by (simp add: issued_def Q_def)
qed

text \<open>A measure of what is left to free bounds the successes, if no request raises it and each success lowers it.\<close>

lemma frees_at_mostI:
  assumes keeps: "\<And>opc' req_id body' body b. invar b \<Longrightarrow> left body (snd (handle opc' req_id body' b)) \<le> left body b"
    and frees: "\<And>req_id body b out b'. invar b \<Longrightarrow> handle opc req_id body b = (Inr out, b') \<Longrightarrow> left body b' < left body b"
    and start: "\<And>body. left body new \<le> n"
  shows "frees_at_most n handle new opc"
proof -
  have "length (filter (\<lambda>(opc', _, body'). opc' = opc \<and> body' = body) (succeeded handle reqs b)) \<le> left body b"
    if "invar b" for body reqs b
    using that
  proof (induction reqs arbitrary: b)
    case Nil
    then show ?case by simp
  next
    case (Cons r reqs)
    obtain opc' req_id body' where r: "r = (opc', req_id, body')" by (cases r)
    obtain res b' where h: "handle opc' req_id body' b = (res, b')" by fastforce
    have "length (filter (\<lambda>(opc', _, body'). opc' = opc \<and> body' = body) (succeeded handle reqs b')) \<le> left body b'"
      using Cons.IH invar_handle [OF Cons.prems, of opc' req_id body'] h by simp
    moreover have "left body b' \<le> left body b" using keeps [OF Cons.prems, of body opc' req_id body'] h by simp
    moreover have "left body b' < left body b" if "opc' = opc" "body' = body" "is_ok res"
      using frees [OF Cons.prems] h that by (cases res) auto
    ultimately show ?case by (auto simp: r h)
  qed
  then show ?thesis
    unfolding frees_at_most_def using start invar_new by (meson order_trans)
qed

end

subsection \<open>Tables whose entries name entries of another\<close>

text \<open>
  \<open>linked f parents children\<close>: the parent handle \<open>f\<close> reads off a child resolves among the parents.
\<close>

definition linked :: "('w \<Rightarrow> Handle) \<Rightarrow> 'v handle_table \<Rightarrow> 'w handle_table \<Rightarrow> bool" where
  "linked f parents children \<longleftrightarrow>
     (\<forall>h w. ht_get children h = Some w \<longrightarrow> ht_get parents (f w) \<noteq> None)"

lemma linked_holds: "linked f parents children \<longleftrightarrow> ht.holds (\<lambda>w. ht_get parents (f w) \<noteq> None) children"
  by (simp add: linked_def ht.holds_def)

lemma linked_new: "linked f parents ht_new"
  unfolding linked_holds by (rule ht.holds_new)

lemma linked_child:
  "ht_inv c \<Longrightarrow> linked f p c \<Longrightarrow> ht_get p (f w) \<noteq> None \<Longrightarrow> linked f p (snd (ht_insert k w c))"
  unfolding linked_holds by (rule ht.holds_insert)

lemma linked_parent:
  "ht_inv p \<Longrightarrow> linked f p c \<Longrightarrow> linked f (snd (ht_insert k v p)) c"
  unfolding linked_holds by (erule ht.holds_mono) (auto simp: ht.insert_keeps)

lemma linked_remove: "linked f p c \<Longrightarrow> linked f p (snd (ht_remove h c))"
  unfolding linked_holds by (rule ht.holds_remove)

lemma linked_write:
  "linked f p c \<Longrightarrow> ht_get_mut c h = Some (v, wr) \<Longrightarrow> f w = f v \<Longrightarrow> linked f p (wr w)"
  using ht.holds_get [of "\<lambda>w. ht_get p (f w) \<noteq> None" c h v] ht.get_mut_SomeD [of c h v wr]
  by (auto simp: linked_holds intro!: ht.holds_write)

lemma holds_update:
  "ht.holds P t \<Longrightarrow> ht_get_mut t h = Some (v, wr) \<Longrightarrow> (P v \<Longrightarrow> P w) \<Longrightarrow> ht.holds P (wr w)"
  using ht.holds_get [of P t h v] ht.get_mut_SomeD [of t h v wr] by (auto intro: ht.holds_write)

lemma linkedD: "linked f p c \<Longrightarrow> ht_get c h = Some w \<Longrightarrow> ht_get p (f w) \<noteq> None"
  by (simp add: linked_def)

lemma remove_past:
  "ht_inv t \<Longrightarrow> ht_remove h t = (Some v, t') \<Longrightarrow> ht_past t' (handle_key h)"
  using ht_remove_past [of t h v] ht_remove_get [of h t] by simp

lemma past_remove_None: "ht_inv t \<Longrightarrow> ht_past t (handle_key h) \<Longrightarrow> ht_remove h t = (None, t)"
  by (simp add: ht_remove_None ht_past_get)

lemmas past_intros = ht_past_insert ht_past_write ht_past_remove

lemmas store_intros = ht.wf_new ht.wf_insert ht.wf_remove ht.wf_write
  linked_new linked_child linked_parent linked_remove linked_write
  ht.holds_new ht.holds_insert ht.holds_remove

text \<open>What the proof of an arm uses.\<close>

lemma remove_failed: "fst (ht_remove h t) = None \<Longrightarrow> snd (ht_remove h t) = t"
  by (simp add: ht_remove_get ht_remove_None)

lemmas arm_simps = case_prod_beta Let_def reply_max_def remove_failed

lemmas arm_splits = sum.splits option.splits if_splits

end
