(* ===== verification/Vk_Backend.thy ===== *)
theory Vk_Backend
  imports Backend Vk_Wire
begin

section \<open>The Vulkan backend\<close>

text \<open>
  \<open>crates/graftx-server/src/backend.rs\<close>: the state is one handle table per kind of object; each arm of
  the \<open>match\<close> in \<open>VulkanBackend::handle\<close> is one definition.
\<close>

definition KIND_INSTANCE :: u8 where
  "KIND_INSTANCE = 1"

definition KIND_PHYSICAL_DEVICE :: u8 where
  "KIND_PHYSICAL_DEVICE = 2"

definition KIND_DEVICE :: u8 where
  "KIND_DEVICE = 3"

definition KIND_QUEUE :: u8 where
  "KIND_QUEUE = 4"

definition KIND_DEVICE_MEMORY :: u8 where
  "KIND_DEVICE_MEMORY = 5"

definition KIND_BUFFER :: u8 where
  "KIND_BUFFER = 6"

definition KIND_COMMAND_POOL :: u8 where
  "KIND_COMMAND_POOL = 7"

definition KIND_COMMAND_BUFFER :: u8 where
  "KIND_COMMAND_BUFFER = 8"

record InstanceState =
  InstanceState_created :: bool

record PhysDevState =
  PhysDevState_parent :: Handle

record DeviceState =
  DeviceState_physical_device :: Handle

record QueueState =
  QueueState_device :: Handle
  QueueState_family :: u32
  QueueState_index :: u32

record MemoryState =
  MemoryState_device :: Handle
  MemoryState_size :: u64

record BufferState =
  BufferState_device :: Handle
  BufferState_size :: u64
  BufferState_usage :: u32
  BufferState_bound :: "(Handle \<times> u64) option"

record CommandPoolState =
  CommandPoolState_device :: Handle
  CommandPoolState_queue_family_index :: u32

record CommandBufferState =
  CommandBufferState_pool :: Handle
  CommandBufferState_recorded :: u32

record VulkanBackend =
  vk_instances :: "InstanceState handle_table"
  vk_physical_devices :: "PhysDevState handle_table"
  vk_devices :: "DeviceState handle_table"
  vk_queues :: "QueueState handle_table"
  vk_memories :: "MemoryState handle_table"
  vk_buffers :: "BufferState handle_table"
  vk_command_pools :: "CommandPoolState handle_table"
  vk_command_buffers :: "CommandBufferState handle_table"

definition vk_new :: VulkanBackend where
  "vk_new = \<lparr>vk_instances = ht_new, vk_physical_devices = ht_new, vk_devices = ht_new, vk_queues = ht_new, vk_memories = ht_new, vk_buffers = ht_new, vk_command_pools = ht_new, vk_command_buffers = ht_new\<rparr>"

definition vk_api :: api_id where
  "vk_api = Vulkan"

subsection \<open>The arms\<close>

definition vk_create_instance :: "VulkanBackend arm" where
  "vk_create_instance opc body self =
     (case vk_CreateInstanceRequest_decode body of
        Inl e \<Rightarrow> (Inl e, self)
      | Inr req \<Rightarrow>
          (let (instance, instances') =
              ht_insert KIND_INSTANCE \<lparr>InstanceState_created = True\<rparr> (vk_instances self) in
           (Inr (vk_CreateInstanceResponse_encode \<lparr>vk_CreateInstanceResponse_instance = instance\<rparr> []),
            self\<lparr>vk_instances := instances'\<rparr>)))"

definition vk_enumerate_physical_devices :: "VulkanBackend arm" where
  "vk_enumerate_physical_devices opc body self =
     (case vk_EnumeratePhysicalDevicesRequest_decode body of
        Inl e \<Rightarrow> (Inl e, self)
      | Inr req \<Rightarrow>
          (if \<not> (case ht_get (vk_instances self) (vk_EnumeratePhysicalDevicesRequest_instance req) of None \<Rightarrow> False | Some state \<Rightarrow> InstanceState_created state)
           then (Inl (UnknownOpcode opc), self)
           else (let (device, physical_devices') =
                   ht_insert KIND_PHYSICAL_DEVICE \<lparr>PhysDevState_parent = vk_EnumeratePhysicalDevicesRequest_instance req\<rparr> (vk_physical_devices self) in
                (Inr (vk_EnumeratePhysicalDevicesResponse_encode \<lparr>vk_EnumeratePhysicalDevicesResponse_devices = [device]\<rparr> []),
                 self\<lparr>vk_physical_devices := physical_devices'\<rparr>))))"

definition vk_create_device :: "VulkanBackend arm" where
  "vk_create_device opc body self =
     (case vk_CreateDeviceRequest_decode body of
        Inl e \<Rightarrow> (Inl e, self)
      | Inr req \<Rightarrow>
          (if ht_get (vk_physical_devices self) (vk_CreateDeviceRequest_physical_device req) = None
           then (Inl (UnknownOpcode opc), self)
           else (let (device, devices') =
                   ht_insert KIND_DEVICE \<lparr>DeviceState_physical_device = vk_CreateDeviceRequest_physical_device req\<rparr> (vk_devices self) in
                (Inr (vk_CreateDeviceResponse_encode \<lparr>vk_CreateDeviceResponse_device = device\<rparr> []),
                 self\<lparr>vk_devices := devices'\<rparr>))))"

definition vk_get_device_queue :: "VulkanBackend arm" where
  "vk_get_device_queue opc body self =
     (case vk_GetDeviceQueueRequest_decode body of
        Inl e \<Rightarrow> (Inl e, self)
      | Inr req \<Rightarrow>
          (if ht_get (vk_devices self) (vk_GetDeviceQueueRequest_device req) = None
           then (Inl (UnknownOpcode opc), self)
           else (let (queue, queues') =
                   ht_insert KIND_QUEUE \<lparr>QueueState_device = vk_GetDeviceQueueRequest_device req, QueueState_family = vk_GetDeviceQueueRequest_queue_family_index req, QueueState_index = vk_GetDeviceQueueRequest_queue_index req\<rparr> (vk_queues self) in
                (Inr (vk_GetDeviceQueueResponse_encode \<lparr>vk_GetDeviceQueueResponse_queue = queue\<rparr> []),
                 self\<lparr>vk_queues := queues'\<rparr>))))"

definition vk_allocate_memory :: "VulkanBackend arm" where
  "vk_allocate_memory opc body self =
     (case vk_AllocateMemoryRequest_decode body of
        Inl e \<Rightarrow> (Inl e, self)
      | Inr req \<Rightarrow>
          (if ht_get (vk_devices self) (vk_AllocateMemoryRequest_device req) = None
           then (Inl (UnknownOpcode opc), self)
           else (let (memory, memories') =
                   ht_insert KIND_DEVICE_MEMORY \<lparr>MemoryState_device = vk_AllocateMemoryRequest_device req, MemoryState_size = vk_AllocateMemoryRequest_size req\<rparr> (vk_memories self) in
                (Inr (vk_AllocateMemoryResponse_encode \<lparr>vk_AllocateMemoryResponse_memory = memory\<rparr> []),
                 self\<lparr>vk_memories := memories'\<rparr>))))"

definition vk_create_buffer :: "VulkanBackend arm" where
  "vk_create_buffer opc body self =
     (case vk_CreateBufferRequest_decode body of
        Inl e \<Rightarrow> (Inl e, self)
      | Inr req \<Rightarrow>
          (if ht_get (vk_devices self) (vk_CreateBufferRequest_device req) = None
           then (Inl (UnknownOpcode opc), self)
           else (let (buffer, buffers') =
                   ht_insert KIND_BUFFER \<lparr>BufferState_device = vk_CreateBufferRequest_device req, BufferState_size = vk_CreateBufferRequest_size req, BufferState_usage = vk_CreateBufferRequest_usage req, BufferState_bound = None\<rparr> (vk_buffers self) in
                (Inr (vk_CreateBufferResponse_encode \<lparr>vk_CreateBufferResponse_buffer = buffer\<rparr> []),
                 self\<lparr>vk_buffers := buffers'\<rparr>))))"

definition vk_bind_buffer_memory :: "VulkanBackend arm" where
  "vk_bind_buffer_memory opc body self =
     (case vk_BindBufferMemoryRequest_decode body of
        Inl e \<Rightarrow> (Inl e, self)
      | Inr req \<Rightarrow>
          (if ht_get (vk_memories self) (vk_BindBufferMemoryRequest_memory req) = None
           then (Inl (UnknownOpcode opc), self)
           else (case ht_get_mut (vk_buffers self) (vk_BindBufferMemoryRequest_buffer req) of
                  None \<Rightarrow> (Inl (UnknownOpcode opc), self)
                | Some (state, write) \<Rightarrow>
                    if BufferState_bound state \<noteq> None then (Inl (UnknownOpcode opc), self)
                    else (Inr [], self\<lparr>vk_buffers := write (state\<lparr>BufferState_bound :=
                      Some (vk_BindBufferMemoryRequest_memory req, vk_BindBufferMemoryRequest_offset req)\<rparr>)\<rparr>))))"

definition vk_create_command_pool :: "VulkanBackend arm" where
  "vk_create_command_pool opc body self =
     (case vk_CreateCommandPoolRequest_decode body of
        Inl e \<Rightarrow> (Inl e, self)
      | Inr req \<Rightarrow>
          (if ht_get (vk_devices self) (vk_CreateCommandPoolRequest_device req) = None
           then (Inl (UnknownOpcode opc), self)
           else (let (pool, command_pools') =
                   ht_insert KIND_COMMAND_POOL \<lparr>CommandPoolState_device = vk_CreateCommandPoolRequest_device req, CommandPoolState_queue_family_index = vk_CreateCommandPoolRequest_queue_family_index req\<rparr> (vk_command_pools self) in
                (Inr (vk_CreateCommandPoolResponse_encode \<lparr>vk_CreateCommandPoolResponse_pool = pool\<rparr> []),
                 self\<lparr>vk_command_pools := command_pools'\<rparr>))))"

definition vk_allocate_command_buffer :: "VulkanBackend arm" where
  "vk_allocate_command_buffer opc body self =
     (case vk_AllocateCommandBufferRequest_decode body of
        Inl e \<Rightarrow> (Inl e, self)
      | Inr req \<Rightarrow>
          (if ht_get (vk_command_pools self) (vk_AllocateCommandBufferRequest_pool req) = None
           then (Inl (UnknownOpcode opc), self)
           else (let (command_buffer, command_buffers') =
                   ht_insert KIND_COMMAND_BUFFER \<lparr>CommandBufferState_pool = vk_AllocateCommandBufferRequest_pool req, CommandBufferState_recorded = 0\<rparr> (vk_command_buffers self) in
                (Inr (vk_AllocateCommandBufferResponse_encode \<lparr>vk_AllocateCommandBufferResponse_command_buffer = command_buffer\<rparr> []),
                 self\<lparr>vk_command_buffers := command_buffers'\<rparr>))))"

definition vk_queue_submit :: "VulkanBackend arm" where
  "vk_queue_submit opc body self =
     (case vk_QueueSubmitRequest_decode body of
        Inl e \<Rightarrow> (Inl e, self)
      | Inr req \<Rightarrow>
          (if ht_get (vk_queues self) (vk_QueueSubmitRequest_queue req) = None
             \<or> ht_get (vk_command_buffers self) (vk_QueueSubmitRequest_command_buffer req) = None
           then (Inl (UnknownOpcode opc), self)
           else (Inr [], self)))"

definition vk_cmd_copy_buffer :: "VulkanBackend arm" where
  "vk_cmd_copy_buffer opc body self =
     (case vk_CmdCopyBufferRequest_decode body of
        Inl e \<Rightarrow> (Inl e, self)
      | Inr req \<Rightarrow>
          (if ht_get (vk_buffers self) (vk_CmdCopyBufferRequest_src req) = None
             \<or> ht_get (vk_buffers self) (vk_CmdCopyBufferRequest_dst req) = None
           then (Inl (UnknownOpcode opc), self)
           else (case ht_get_mut (vk_command_buffers self) (vk_CmdCopyBufferRequest_command_buffer req) of
             None \<Rightarrow> (Inl (UnknownOpcode opc), self)
           | Some (state, write) \<Rightarrow>
               (Inr [], self\<lparr>vk_command_buffers :=
                  write (state\<lparr>CommandBufferState_recorded := saturating_add (CommandBufferState_recorded state) 1\<rparr>)\<rparr>))))"

definition vk_cmd_draw :: "VulkanBackend arm" where
  "vk_cmd_draw opc body self =
     (case vk_CmdDrawRequest_decode body of
        Inl e \<Rightarrow> (Inl e, self)
      | Inr req \<Rightarrow>
          (case ht_get_mut (vk_command_buffers self) (vk_CmdDrawRequest_command_buffer req) of
             None \<Rightarrow> (Inl (UnknownOpcode opc), self)
           | Some (state, write) \<Rightarrow>
               (Inr [], self\<lparr>vk_command_buffers :=
                  write (state\<lparr>CommandBufferState_recorded := saturating_add (CommandBufferState_recorded state) 1\<rparr>)\<rparr>)))"

definition vk_destroy_buffer :: "VulkanBackend arm" where
  "vk_destroy_buffer opc body self =
     (case vk_DestroyBufferRequest_decode body of
        Inl e \<Rightarrow> (Inl e, self)
      | Inr req \<Rightarrow>
          (case ht_remove (vk_DestroyBufferRequest_buffer req) (vk_buffers self) of
             (None, buffers') \<Rightarrow> (Inl (UnknownOpcode opc), self\<lparr>vk_buffers := buffers'\<rparr>)
           | (Some _, buffers') \<Rightarrow> (Inr [], self\<lparr>vk_buffers := buffers'\<rparr>)))"

definition vk_free_memory :: "VulkanBackend arm" where
  "vk_free_memory opc body self =
     (case vk_FreeMemoryRequest_decode body of
        Inl e \<Rightarrow> (Inl e, self)
      | Inr req \<Rightarrow>
          (case ht_remove (vk_FreeMemoryRequest_memory req) (vk_memories self) of
             (None, memories') \<Rightarrow> (Inl (UnknownOpcode opc), self\<lparr>vk_memories := memories'\<rparr>)
           | (Some _, memories') \<Rightarrow> (Inr [], self\<lparr>vk_memories := memories'\<rparr>)))"

definition vk_destroy_command_pool :: "VulkanBackend arm" where
  "vk_destroy_command_pool opc body self =
     (case vk_DestroyCommandPoolRequest_decode body of
        Inl e \<Rightarrow> (Inl e, self)
      | Inr req \<Rightarrow>
          (case ht_remove (vk_DestroyCommandPoolRequest_pool req) (vk_command_pools self) of
             (None, command_pools') \<Rightarrow> (Inl (UnknownOpcode opc), self\<lparr>vk_command_pools := command_pools'\<rparr>)
           | (Some _, command_pools') \<Rightarrow> (Inr [], self\<lparr>vk_command_pools := command_pools'\<rparr>)))"

definition vk_handle :: "VulkanBackend handler" where
  "vk_handle opc req_id body self =
     (if opcode_api opc \<noteq> api_id_u8 Vulkan then (Inl (UnknownOpcode opc), self)
      else if opc = vk_op_CREATE_INSTANCE then vk_create_instance opc body self
      else if opc = vk_op_ENUMERATE_PHYSICAL_DEVICES then vk_enumerate_physical_devices opc body self
      else if opc = vk_op_CREATE_DEVICE then vk_create_device opc body self
      else if opc = vk_op_GET_DEVICE_QUEUE then vk_get_device_queue opc body self
      else if opc = vk_op_ALLOCATE_MEMORY then vk_allocate_memory opc body self
      else if opc = vk_op_CREATE_BUFFER then vk_create_buffer opc body self
      else if opc = vk_op_BIND_BUFFER_MEMORY then vk_bind_buffer_memory opc body self
      else if opc = vk_op_CREATE_COMMAND_POOL then vk_create_command_pool opc body self
      else if opc = vk_op_ALLOCATE_COMMAND_BUFFER then vk_allocate_command_buffer opc body self
      else if opc = vk_op_QUEUE_SUBMIT then vk_queue_submit opc body self
      else if opc = vk_op_CMD_COPY_BUFFER then vk_cmd_copy_buffer opc body self
      else if opc = vk_op_CMD_DRAW then vk_cmd_draw opc body self
      else if opc = vk_op_DESTROY_BUFFER then vk_destroy_buffer opc body self
      else if opc = vk_op_FREE_MEMORY then vk_free_memory opc body self
      else if opc = vk_op_DESTROY_COMMAND_POOL then vk_destroy_command_pool opc body self
      else (Inl (UnknownOpcode opc), self))"

text \<open>The opcodes with an arm of their own.\<close>

definition vk_ops :: "u32 list" where
  "vk_ops =
     [vk_op_CREATE_INSTANCE, vk_op_ENUMERATE_PHYSICAL_DEVICES, vk_op_CREATE_DEVICE, vk_op_GET_DEVICE_QUEUE,
      vk_op_ALLOCATE_MEMORY, vk_op_CREATE_BUFFER, vk_op_BIND_BUFFER_MEMORY, vk_op_CREATE_COMMAND_POOL,
      vk_op_ALLOCATE_COMMAND_BUFFER, vk_op_QUEUE_SUBMIT, vk_op_CMD_COPY_BUFFER, vk_op_CMD_DRAW,
      vk_op_DESTROY_BUFFER, vk_op_FREE_MEMORY, vk_op_DESTROY_COMMAND_POOL]"

subsection \<open>The contract\<close>

definition vk_invar :: "VulkanBackend \<Rightarrow> bool" where
  "vk_invar b \<longleftrightarrow>
     ht_inv (vk_instances b) \<and> ht_inv (vk_physical_devices b) \<and> ht_inv (vk_devices b) \<and> ht_inv (vk_queues b) \<and>
     ht_inv (vk_memories b) \<and> ht_inv (vk_buffers b) \<and> ht_inv (vk_command_pools b) \<and> ht_inv (vk_command_buffers b) \<and>
     linked PhysDevState_parent (vk_instances b) (vk_physical_devices b) \<and>
     linked DeviceState_physical_device (vk_physical_devices b) (vk_devices b) \<and>
     linked QueueState_device (vk_devices b) (vk_queues b) \<and>
     linked MemoryState_device (vk_devices b) (vk_memories b) \<and>
     linked BufferState_device (vk_devices b) (vk_buffers b) \<and>
     linked CommandPoolState_device (vk_devices b) (vk_command_pools b) \<and>
     ht.holds InstanceState_created (vk_instances b)"

lemmas vk_decode_errors [decode_errors] =
  vk_CreateInstanceRequest_body.decode_error [THEN conjunct1]
  vk_EnumeratePhysicalDevicesRequest_body.decode_error [THEN conjunct1]
  vk_CreateDeviceRequest_body.decode_error [THEN conjunct1]
  vk_GetDeviceQueueRequest_body.decode_error [THEN conjunct1]
  vk_AllocateMemoryRequest_body.decode_error [THEN conjunct1]
  vk_CreateBufferRequest_body.decode_error [THEN conjunct1]
  vk_BindBufferMemoryRequest_body.decode_error [THEN conjunct1]
  vk_CreateCommandPoolRequest_body.decode_error [THEN conjunct1]
  vk_AllocateCommandBufferRequest_body.decode_error [THEN conjunct1]
  vk_QueueSubmitRequest_body.decode_error [THEN conjunct1]
  vk_CmdCopyBufferRequest_body.decode_error [THEN conjunct1]
  vk_CmdDrawRequest_body.decode_error [THEN conjunct1]
  vk_DestroyBufferRequest_body.decode_error [THEN conjunct1]
  vk_FreeMemoryRequest_body.decode_error [THEN conjunct1]
  vk_DestroyCommandPoolRequest_body.decode_error [THEN conjunct1]

lemmas vk_reply_widths [reply_widths] =
  vk_CreateInstanceResponse_body.encode_width
  vk_CreateDeviceResponse_body.encode_width
  vk_GetDeviceQueueResponse_body.encode_width
  vk_AllocateMemoryResponse_body.encode_width
  vk_CreateBufferResponse_body.encode_width
  vk_CreateCommandPoolResponse_body.encode_width
  vk_AllocateCommandBufferResponse_body.encode_width

lemma vk_one_device_width [reply_widths]:
  "length (vk_EnumeratePhysicalDevicesResponse_encode \<lparr>vk_EnumeratePhysicalDevicesResponse_devices = [d]\<rparr> []) = 12"
  by (simp add: vk_EnumeratePhysicalDevicesResponse_encode_def)

lemmas vk_arm_defs =
  vk_create_instance_def
  vk_enumerate_physical_devices_def
  vk_create_device_def
  vk_get_device_queue_def
  vk_allocate_memory_def
  vk_create_buffer_def
  vk_bind_buffer_memory_def
  vk_create_command_pool_def
  vk_allocate_command_buffer_def
  vk_queue_submit_def
  vk_cmd_copy_buffer_def
  vk_cmd_draw_def
  vk_destroy_buffer_def
  vk_free_memory_def
  vk_destroy_command_pool_def

lemma vk_create_instance_ok: "arm_ok vk_invar vk_create_instance"
  unfolding arm_ok_def vk_create_instance_def
  by (auto simp: vk_invar_def arm_simps reply_widths intro: store_intros dest: decode_errors split: arm_splits)

lemma vk_enumerate_physical_devices_ok: "arm_ok vk_invar vk_enumerate_physical_devices"
  unfolding arm_ok_def vk_enumerate_physical_devices_def
  by (auto simp: vk_invar_def arm_simps reply_widths intro: store_intros dest: decode_errors split: arm_splits)

lemma vk_create_device_ok: "arm_ok vk_invar vk_create_device"
  unfolding arm_ok_def vk_create_device_def
  by (auto simp: vk_invar_def arm_simps reply_widths intro: store_intros dest: decode_errors split: arm_splits)

lemma vk_get_device_queue_ok: "arm_ok vk_invar vk_get_device_queue"
  unfolding arm_ok_def vk_get_device_queue_def
  by (auto simp: vk_invar_def arm_simps reply_widths intro: store_intros dest: decode_errors split: arm_splits)

lemma vk_allocate_memory_ok: "arm_ok vk_invar vk_allocate_memory"
  unfolding arm_ok_def vk_allocate_memory_def
  by (auto simp: vk_invar_def arm_simps reply_widths intro: store_intros dest: decode_errors split: arm_splits)

lemma vk_create_buffer_ok: "arm_ok vk_invar vk_create_buffer"
  unfolding arm_ok_def vk_create_buffer_def
  by (auto simp: vk_invar_def arm_simps reply_widths intro: store_intros dest: decode_errors split: arm_splits)

lemma vk_bind_buffer_memory_ok: "arm_ok vk_invar vk_bind_buffer_memory"
  unfolding arm_ok_def vk_bind_buffer_memory_def
  by (auto simp: vk_invar_def arm_simps reply_widths intro: store_intros dest: decode_errors split: arm_splits)

lemma vk_create_command_pool_ok: "arm_ok vk_invar vk_create_command_pool"
  unfolding arm_ok_def vk_create_command_pool_def
  by (auto simp: vk_invar_def arm_simps reply_widths intro: store_intros dest: decode_errors split: arm_splits)

lemma vk_allocate_command_buffer_ok: "arm_ok vk_invar vk_allocate_command_buffer"
  unfolding arm_ok_def vk_allocate_command_buffer_def
  by (auto simp: vk_invar_def arm_simps reply_widths intro: store_intros dest: decode_errors split: arm_splits)

lemma vk_queue_submit_ok: "arm_ok vk_invar vk_queue_submit"
  unfolding arm_ok_def vk_queue_submit_def
  by (auto simp: vk_invar_def arm_simps reply_widths intro: store_intros dest: decode_errors split: arm_splits)

lemma vk_cmd_copy_buffer_ok: "arm_ok vk_invar vk_cmd_copy_buffer"
  unfolding arm_ok_def vk_cmd_copy_buffer_def
  by (auto simp: vk_invar_def arm_simps reply_widths intro: store_intros dest: decode_errors split: arm_splits)

lemma vk_cmd_draw_ok: "arm_ok vk_invar vk_cmd_draw"
  unfolding arm_ok_def vk_cmd_draw_def
  by (auto simp: vk_invar_def arm_simps reply_widths intro: store_intros dest: decode_errors split: arm_splits)

lemma vk_destroy_buffer_ok: "arm_ok vk_invar vk_destroy_buffer"
  unfolding arm_ok_def vk_destroy_buffer_def
  by (auto simp: vk_invar_def arm_simps reply_widths intro: store_intros dest: decode_errors split: arm_splits)

lemma vk_free_memory_ok: "arm_ok vk_invar vk_free_memory"
  unfolding arm_ok_def vk_free_memory_def
  by (auto simp: vk_invar_def arm_simps reply_widths intro: store_intros dest: decode_errors split: arm_splits)

lemma vk_destroy_command_pool_ok: "arm_ok vk_invar vk_destroy_command_pool"
  unfolding arm_ok_def vk_destroy_command_pool_def
  by (auto simp: vk_invar_def arm_simps reply_widths intro: store_intros dest: decode_errors split: arm_splits)

lemma vk_new_ok: "vk_invar vk_new"
  by (simp add: vk_invar_def vk_new_def store_intros)

lemma vk_handle_ok: "arm_ok vk_invar (\<lambda>opc body b. vk_handle opc req_id body b)"
  unfolding vk_handle_def
  by (intro arm_ok_if arm_ok_unknown vk_create_instance_ok vk_enumerate_physical_devices_ok vk_create_device_ok vk_get_device_queue_ok vk_allocate_memory_ok vk_create_buffer_ok vk_bind_buffer_memory_ok vk_create_command_pool_ok vk_allocate_command_buffer_ok vk_queue_submit_ok vk_cmd_copy_buffer_ok vk_cmd_draw_ok vk_destroy_buffer_ok vk_free_memory_ok vk_destroy_command_pool_ok)

lemma vk_dispatch [simp]:
  "vk_handle vk_op_CREATE_INSTANCE req_id body b = vk_create_instance vk_op_CREATE_INSTANCE body b"
  "vk_handle vk_op_ENUMERATE_PHYSICAL_DEVICES req_id body b = vk_enumerate_physical_devices vk_op_ENUMERATE_PHYSICAL_DEVICES body b"
  "vk_handle vk_op_CREATE_DEVICE req_id body b = vk_create_device vk_op_CREATE_DEVICE body b"
  "vk_handle vk_op_GET_DEVICE_QUEUE req_id body b = vk_get_device_queue vk_op_GET_DEVICE_QUEUE body b"
  "vk_handle vk_op_ALLOCATE_MEMORY req_id body b = vk_allocate_memory vk_op_ALLOCATE_MEMORY body b"
  "vk_handle vk_op_CREATE_BUFFER req_id body b = vk_create_buffer vk_op_CREATE_BUFFER body b"
  "vk_handle vk_op_BIND_BUFFER_MEMORY req_id body b = vk_bind_buffer_memory vk_op_BIND_BUFFER_MEMORY body b"
  "vk_handle vk_op_CREATE_COMMAND_POOL req_id body b = vk_create_command_pool vk_op_CREATE_COMMAND_POOL body b"
  "vk_handle vk_op_ALLOCATE_COMMAND_BUFFER req_id body b = vk_allocate_command_buffer vk_op_ALLOCATE_COMMAND_BUFFER body b"
  "vk_handle vk_op_QUEUE_SUBMIT req_id body b = vk_queue_submit vk_op_QUEUE_SUBMIT body b"
  "vk_handle vk_op_CMD_COPY_BUFFER req_id body b = vk_cmd_copy_buffer vk_op_CMD_COPY_BUFFER body b"
  "vk_handle vk_op_CMD_DRAW req_id body b = vk_cmd_draw vk_op_CMD_DRAW body b"
  "vk_handle vk_op_DESTROY_BUFFER req_id body b = vk_destroy_buffer vk_op_DESTROY_BUFFER body b"
  "vk_handle vk_op_FREE_MEMORY req_id body b = vk_free_memory vk_op_FREE_MEMORY body b"
  "vk_handle vk_op_DESTROY_COMMAND_POOL req_id body b = vk_destroy_command_pool vk_op_DESTROY_COMMAND_POOL body b"
  by (simp_all add: vk_handle_def vk_op_values opcode_api_def)

lemma vk_ops_api: "opc \<in> set vk_ops \<Longrightarrow> opcode_api opc = api_id_u8 vk_api"
  by (auto simp: vk_ops_def vk_op_values vk_api_def opcode_api_def)

lemma vk_served: "opc \<in> set vk_ops \<Longrightarrow> fst (vk_handle opc req_id [] b) \<noteq> Inl (UnknownOpcode opc)"
  by (auto simp: vk_ops_def vk_arm_defs wire_eval case_prod_beta Let_def)

interpretation vk: backend vk_api vk_ops vk_handle vk_new vk_invar
proof
  show "vk_invar vk_new" by (rule vk_new_ok)
  show "arm_ok vk_invar (\<lambda>opc body b. vk_handle opc req_id body b)" for req_id by (rule vk_handle_ok)
qed (simp_all add: vk_ops_api vk_served, simp_all add: vk_handle_def vk_ops_def)

lemma vk_buffers_past_arms:
  assumes "vk_invar b" "ht_past (vk_buffers b) q"
  shows
    "ht_past (vk_buffers (snd (vk_create_instance opc body b))) q"
    "ht_past (vk_buffers (snd (vk_enumerate_physical_devices opc body b))) q"
    "ht_past (vk_buffers (snd (vk_create_device opc body b))) q"
    "ht_past (vk_buffers (snd (vk_get_device_queue opc body b))) q"
    "ht_past (vk_buffers (snd (vk_allocate_memory opc body b))) q"
    "ht_past (vk_buffers (snd (vk_create_buffer opc body b))) q"
    "ht_past (vk_buffers (snd (vk_bind_buffer_memory opc body b))) q"
    "ht_past (vk_buffers (snd (vk_create_command_pool opc body b))) q"
    "ht_past (vk_buffers (snd (vk_allocate_command_buffer opc body b))) q"
    "ht_past (vk_buffers (snd (vk_queue_submit opc body b))) q"
    "ht_past (vk_buffers (snd (vk_cmd_copy_buffer opc body b))) q"
    "ht_past (vk_buffers (snd (vk_cmd_draw opc body b))) q"
    "ht_past (vk_buffers (snd (vk_destroy_buffer opc body b))) q"
    "ht_past (vk_buffers (snd (vk_free_memory opc body b))) q"
    "ht_past (vk_buffers (snd (vk_destroy_command_pool opc body b))) q"
  using assms unfolding vk_create_instance_def vk_enumerate_physical_devices_def vk_create_device_def vk_get_device_queue_def vk_allocate_memory_def vk_create_buffer_def vk_bind_buffer_memory_def vk_create_command_pool_def vk_allocate_command_buffer_def vk_queue_submit_def vk_cmd_copy_buffer_def vk_cmd_draw_def vk_destroy_buffer_def vk_free_memory_def vk_destroy_command_pool_def
  by (auto simp: vk_invar_def arm_simps intro: past_intros split: arm_splits)

lemma vk_buffers_past: "vk_invar b \<Longrightarrow> ht_past (vk_buffers b) q \<Longrightarrow> ht_past (vk_buffers (snd (vk_handle opc req_id body b))) q"
  by (simp add: vk_handle_def vk_buffers_past_arms)

lemma vk_destroy_buffer_frees_once: "frees_once vk_handle vk_new vk_op_DESTROY_BUFFER"
proof (rule vk.frees_onceI [where P = "\<lambda>body b. case vk_DestroyBufferRequest_decode body of
    Inl _ \<Rightarrow> False | Inr req \<Rightarrow> ht_past (vk_buffers b) (handle_key (vk_DestroyBufferRequest_buffer req))"], goal_cases)
  case (1 req_id body b out b1)
  then show ?case
    by (auto simp: vk_destroy_buffer_def vk_invar_def split: arm_splits prod.splits dest: remove_past)
next
  case (2 opc' req_id body body' b)
  then show ?case by (auto simp: vk_buffers_past split: sum.splits)
next
  case (3 req_id body b)
  then show ?case by (auto simp: vk_destroy_buffer_def vk_invar_def past_remove_None split: sum.splits)
qed

lemma vk_memories_past_arms:
  assumes "vk_invar b" "ht_past (vk_memories b) q"
  shows
    "ht_past (vk_memories (snd (vk_create_instance opc body b))) q"
    "ht_past (vk_memories (snd (vk_enumerate_physical_devices opc body b))) q"
    "ht_past (vk_memories (snd (vk_create_device opc body b))) q"
    "ht_past (vk_memories (snd (vk_get_device_queue opc body b))) q"
    "ht_past (vk_memories (snd (vk_allocate_memory opc body b))) q"
    "ht_past (vk_memories (snd (vk_create_buffer opc body b))) q"
    "ht_past (vk_memories (snd (vk_bind_buffer_memory opc body b))) q"
    "ht_past (vk_memories (snd (vk_create_command_pool opc body b))) q"
    "ht_past (vk_memories (snd (vk_allocate_command_buffer opc body b))) q"
    "ht_past (vk_memories (snd (vk_queue_submit opc body b))) q"
    "ht_past (vk_memories (snd (vk_cmd_copy_buffer opc body b))) q"
    "ht_past (vk_memories (snd (vk_cmd_draw opc body b))) q"
    "ht_past (vk_memories (snd (vk_destroy_buffer opc body b))) q"
    "ht_past (vk_memories (snd (vk_free_memory opc body b))) q"
    "ht_past (vk_memories (snd (vk_destroy_command_pool opc body b))) q"
  using assms unfolding vk_create_instance_def vk_enumerate_physical_devices_def vk_create_device_def vk_get_device_queue_def vk_allocate_memory_def vk_create_buffer_def vk_bind_buffer_memory_def vk_create_command_pool_def vk_allocate_command_buffer_def vk_queue_submit_def vk_cmd_copy_buffer_def vk_cmd_draw_def vk_destroy_buffer_def vk_free_memory_def vk_destroy_command_pool_def
  by (auto simp: vk_invar_def arm_simps intro: past_intros split: arm_splits)

lemma vk_memories_past: "vk_invar b \<Longrightarrow> ht_past (vk_memories b) q \<Longrightarrow> ht_past (vk_memories (snd (vk_handle opc req_id body b))) q"
  by (simp add: vk_handle_def vk_memories_past_arms)

lemma vk_free_memory_frees_once: "frees_once vk_handle vk_new vk_op_FREE_MEMORY"
proof (rule vk.frees_onceI [where P = "\<lambda>body b. case vk_FreeMemoryRequest_decode body of
    Inl _ \<Rightarrow> False | Inr req \<Rightarrow> ht_past (vk_memories b) (handle_key (vk_FreeMemoryRequest_memory req))"], goal_cases)
  case (1 req_id body b out b1)
  then show ?case
    by (auto simp: vk_free_memory_def vk_invar_def split: arm_splits prod.splits dest: remove_past)
next
  case (2 opc' req_id body body' b)
  then show ?case by (auto simp: vk_memories_past split: sum.splits)
next
  case (3 req_id body b)
  then show ?case by (auto simp: vk_free_memory_def vk_invar_def past_remove_None split: sum.splits)
qed

lemma vk_command_pools_past_arms:
  assumes "vk_invar b" "ht_past (vk_command_pools b) q"
  shows
    "ht_past (vk_command_pools (snd (vk_create_instance opc body b))) q"
    "ht_past (vk_command_pools (snd (vk_enumerate_physical_devices opc body b))) q"
    "ht_past (vk_command_pools (snd (vk_create_device opc body b))) q"
    "ht_past (vk_command_pools (snd (vk_get_device_queue opc body b))) q"
    "ht_past (vk_command_pools (snd (vk_allocate_memory opc body b))) q"
    "ht_past (vk_command_pools (snd (vk_create_buffer opc body b))) q"
    "ht_past (vk_command_pools (snd (vk_bind_buffer_memory opc body b))) q"
    "ht_past (vk_command_pools (snd (vk_create_command_pool opc body b))) q"
    "ht_past (vk_command_pools (snd (vk_allocate_command_buffer opc body b))) q"
    "ht_past (vk_command_pools (snd (vk_queue_submit opc body b))) q"
    "ht_past (vk_command_pools (snd (vk_cmd_copy_buffer opc body b))) q"
    "ht_past (vk_command_pools (snd (vk_cmd_draw opc body b))) q"
    "ht_past (vk_command_pools (snd (vk_destroy_buffer opc body b))) q"
    "ht_past (vk_command_pools (snd (vk_free_memory opc body b))) q"
    "ht_past (vk_command_pools (snd (vk_destroy_command_pool opc body b))) q"
  using assms unfolding vk_create_instance_def vk_enumerate_physical_devices_def vk_create_device_def vk_get_device_queue_def vk_allocate_memory_def vk_create_buffer_def vk_bind_buffer_memory_def vk_create_command_pool_def vk_allocate_command_buffer_def vk_queue_submit_def vk_cmd_copy_buffer_def vk_cmd_draw_def vk_destroy_buffer_def vk_free_memory_def vk_destroy_command_pool_def
  by (auto simp: vk_invar_def arm_simps intro: past_intros split: arm_splits)

lemma vk_command_pools_past: "vk_invar b \<Longrightarrow> ht_past (vk_command_pools b) q \<Longrightarrow> ht_past (vk_command_pools (snd (vk_handle opc req_id body b))) q"
  by (simp add: vk_handle_def vk_command_pools_past_arms)

lemma vk_destroy_command_pool_frees_once: "frees_once vk_handle vk_new vk_op_DESTROY_COMMAND_POOL"
proof (rule vk.frees_onceI [where P = "\<lambda>body b. case vk_DestroyCommandPoolRequest_decode body of
    Inl _ \<Rightarrow> False | Inr req \<Rightarrow> ht_past (vk_command_pools b) (handle_key (vk_DestroyCommandPoolRequest_pool req))"], goal_cases)
  case (1 req_id body b out b1)
  then show ?case
    by (auto simp: vk_destroy_command_pool_def vk_invar_def split: arm_splits prod.splits dest: remove_past)
next
  case (2 opc' req_id body body' b)
  then show ?case by (auto simp: vk_command_pools_past split: sum.splits)
next
  case (3 req_id body b)
  then show ?case by (auto simp: vk_destroy_command_pool_def vk_invar_def past_remove_None split: sum.splits)
qed

end
