(* ===== verification/Gl_Backend.thy ===== *)
theory Gl_Backend
  imports Backend Gl_Wire
begin

section \<open>The OpenGL backend\<close>

text \<open>
  \<open>crates/graftx-server/src/gl_backend.rs\<close>: the state is one handle table per kind of object; each arm of
  the \<open>match\<close> in \<open>GlBackend::handle\<close> is one definition.
\<close>

definition KIND_GL_CONTEXT :: u8 where
  "KIND_GL_CONTEXT = 10"

definition KIND_GL_BUFFER :: u8 where
  "KIND_GL_BUFFER = 11"

record CtxState =
  CtxState_created :: bool

record BufState =
  BufState_context :: Handle

record GlBackend =
  gl_contexts :: "CtxState handle_table"
  gl_buffers :: "BufState handle_table"

definition gl_new :: GlBackend where
  "gl_new = \<lparr>gl_contexts = ht_new, gl_buffers = ht_new\<rparr>"

definition gl_api :: api_id where
  "gl_api = OpenGl"

subsection \<open>The arms\<close>

definition gl_create_context :: "GlBackend arm" where
  "gl_create_context opc body self =
     (let (context, contexts') =
         ht_insert KIND_GL_CONTEXT \<lparr>CtxState_created = True\<rparr> (gl_contexts self) in
      (Inr (gl_CreateContextResponse_encode \<lparr>gl_CreateContextResponse_context = context\<rparr> []),
       self\<lparr>gl_contexts := contexts'\<rparr>))"

definition gl_make_current :: "GlBackend arm" where
  "gl_make_current opc body self =
     (case gl_MakeCurrentRequest_decode body of
        Inl e \<Rightarrow> (Inl e, self)
      | Inr req \<Rightarrow>
          (if \<not> (case ht_get (gl_contexts self) (gl_MakeCurrentRequest_context req) of None \<Rightarrow> False | Some state \<Rightarrow> CtxState_created state)
           then (Inl (UnknownOpcode opc), self)
           else (Inr [], self)))"

definition gl_gen_buffer :: "GlBackend arm" where
  "gl_gen_buffer opc body self =
     (case gl_GenBufferRequest_decode body of
        Inl e \<Rightarrow> (Inl e, self)
      | Inr req \<Rightarrow>
          (if \<not> (case ht_get (gl_contexts self) (gl_GenBufferRequest_context req) of None \<Rightarrow> False | Some state \<Rightarrow> CtxState_created state)
           then (Inl (UnknownOpcode opc), self)
           else (let (buffer, buffers') =
                   ht_insert KIND_GL_BUFFER \<lparr>BufState_context = gl_GenBufferRequest_context req\<rparr> (gl_buffers self) in
                (Inr (gl_GenBufferResponse_encode \<lparr>gl_GenBufferResponse_buffer = buffer\<rparr> []),
                 self\<lparr>gl_buffers := buffers'\<rparr>))))"

definition gl_swap_buffers :: "GlBackend arm" where
  "gl_swap_buffers opc body self =
     (case gl_SwapBuffersRequest_decode body of
        Inl e \<Rightarrow> (Inl e, self)
      | Inr req \<Rightarrow>
          (if \<not> (case ht_get (gl_contexts self) (gl_SwapBuffersRequest_context req) of None \<Rightarrow> False | Some state \<Rightarrow> CtxState_created state)
           then (Inl (UnknownOpcode opc), self)
           else (Inr [], self)))"

definition gl_delete_buffer :: "GlBackend arm" where
  "gl_delete_buffer opc body self =
     (case gl_DeleteBufferRequest_decode body of
        Inl e \<Rightarrow> (Inl e, self)
      | Inr req \<Rightarrow>
          (case ht_remove (gl_DeleteBufferRequest_buffer req) (gl_buffers self) of
             (None, buffers') \<Rightarrow> (Inl (UnknownOpcode opc), self\<lparr>gl_buffers := buffers'\<rparr>)
           | (Some _, buffers') \<Rightarrow> (Inr [], self\<lparr>gl_buffers := buffers'\<rparr>)))"

definition gl_handle :: "GlBackend handler" where
  "gl_handle opc req_id body self =
     (if opcode_api opc \<noteq> api_id_u8 OpenGl then (Inl (UnknownOpcode opc), self)
      else if opc = gl_op_CREATE_CONTEXT then gl_create_context opc body self
      else if opc = gl_op_MAKE_CURRENT then gl_make_current opc body self
      else if opc = gl_op_GEN_BUFFER then gl_gen_buffer opc body self
      else if opc = gl_op_SWAP_BUFFERS then gl_swap_buffers opc body self
      else if opc = gl_op_DELETE_BUFFER then gl_delete_buffer opc body self
      else (Inl (UnknownOpcode opc), self))"

text \<open>The opcodes with an arm of their own.\<close>

definition gl_ops :: "u32 list" where
  "gl_ops =
     [gl_op_CREATE_CONTEXT, gl_op_MAKE_CURRENT, gl_op_GEN_BUFFER, gl_op_SWAP_BUFFERS, gl_op_DELETE_BUFFER]"

subsection \<open>The contract\<close>

definition gl_invar :: "GlBackend \<Rightarrow> bool" where
  "gl_invar b \<longleftrightarrow>
     ht_inv (gl_contexts b) \<and> ht_inv (gl_buffers b) \<and>
     linked BufState_context (gl_contexts b) (gl_buffers b) \<and>
     ht.holds CtxState_created (gl_contexts b)"

lemmas gl_decode_errors [decode_errors] =
  gl_MakeCurrentRequest_body.decode_error [THEN conjunct1]
  gl_GenBufferRequest_body.decode_error [THEN conjunct1]
  gl_SwapBuffersRequest_body.decode_error [THEN conjunct1]
  gl_DeleteBufferRequest_body.decode_error [THEN conjunct1]

lemmas gl_reply_widths [reply_widths] =
  gl_CreateContextResponse_body.encode_width
  gl_GenBufferResponse_body.encode_width

lemmas gl_arm_defs =
  gl_create_context_def
  gl_make_current_def
  gl_gen_buffer_def
  gl_swap_buffers_def
  gl_delete_buffer_def

lemma gl_create_context_ok: "arm_ok gl_invar gl_create_context"
  unfolding arm_ok_def gl_create_context_def
  by (auto simp: gl_invar_def arm_simps reply_widths intro: store_intros dest: decode_errors split: arm_splits)

lemma gl_make_current_ok: "arm_ok gl_invar gl_make_current"
  unfolding arm_ok_def gl_make_current_def
  by (auto simp: gl_invar_def arm_simps reply_widths intro: store_intros dest: decode_errors split: arm_splits)

lemma gl_gen_buffer_ok: "arm_ok gl_invar gl_gen_buffer"
  unfolding arm_ok_def gl_gen_buffer_def
  by (auto simp: gl_invar_def arm_simps reply_widths intro: store_intros dest: decode_errors split: arm_splits)

lemma gl_swap_buffers_ok: "arm_ok gl_invar gl_swap_buffers"
  unfolding arm_ok_def gl_swap_buffers_def
  by (auto simp: gl_invar_def arm_simps reply_widths intro: store_intros dest: decode_errors split: arm_splits)

lemma gl_delete_buffer_ok: "arm_ok gl_invar gl_delete_buffer"
  unfolding arm_ok_def gl_delete_buffer_def
  by (auto simp: gl_invar_def arm_simps reply_widths intro: store_intros dest: decode_errors split: arm_splits)

lemma gl_new_ok: "gl_invar gl_new"
  by (simp add: gl_invar_def gl_new_def store_intros)

lemma gl_handle_ok: "arm_ok gl_invar (\<lambda>opc body b. gl_handle opc req_id body b)"
  unfolding gl_handle_def
  by (intro arm_ok_if arm_ok_unknown gl_create_context_ok gl_make_current_ok gl_gen_buffer_ok gl_swap_buffers_ok gl_delete_buffer_ok)

lemma gl_dispatch [simp]:
  "gl_handle gl_op_CREATE_CONTEXT req_id body b = gl_create_context gl_op_CREATE_CONTEXT body b"
  "gl_handle gl_op_MAKE_CURRENT req_id body b = gl_make_current gl_op_MAKE_CURRENT body b"
  "gl_handle gl_op_GEN_BUFFER req_id body b = gl_gen_buffer gl_op_GEN_BUFFER body b"
  "gl_handle gl_op_SWAP_BUFFERS req_id body b = gl_swap_buffers gl_op_SWAP_BUFFERS body b"
  "gl_handle gl_op_DELETE_BUFFER req_id body b = gl_delete_buffer gl_op_DELETE_BUFFER body b"
  by (simp_all add: gl_handle_def gl_op_values opcode_api_def)

lemma gl_ops_api: "opc \<in> set gl_ops \<Longrightarrow> opcode_api opc = api_id_u8 gl_api"
  by (auto simp: gl_ops_def gl_op_values gl_api_def opcode_api_def)

lemma gl_served: "opc \<in> set gl_ops \<Longrightarrow> fst (gl_handle opc req_id [] b) \<noteq> Inl (UnknownOpcode opc)"
  by (auto simp: gl_ops_def gl_arm_defs wire_eval case_prod_beta Let_def)

interpretation gl: backend gl_api gl_ops gl_handle gl_new gl_invar
proof
  show "gl_invar gl_new" by (rule gl_new_ok)
  show "arm_ok gl_invar (\<lambda>opc body b. gl_handle opc req_id body b)" for req_id by (rule gl_handle_ok)
qed (simp_all add: gl_ops_api gl_served, simp_all add: gl_handle_def gl_ops_def)

lemma gl_buffers_past_arms:
  assumes "gl_invar b" "ht_past (gl_buffers b) q"
  shows
    "ht_past (gl_buffers (snd (gl_create_context opc body b))) q"
    "ht_past (gl_buffers (snd (gl_make_current opc body b))) q"
    "ht_past (gl_buffers (snd (gl_gen_buffer opc body b))) q"
    "ht_past (gl_buffers (snd (gl_swap_buffers opc body b))) q"
    "ht_past (gl_buffers (snd (gl_delete_buffer opc body b))) q"
  using assms unfolding gl_create_context_def gl_make_current_def gl_gen_buffer_def gl_swap_buffers_def gl_delete_buffer_def
  by (auto simp: gl_invar_def arm_simps intro: past_intros split: arm_splits)

lemma gl_buffers_past: "gl_invar b \<Longrightarrow> ht_past (gl_buffers b) q \<Longrightarrow> ht_past (gl_buffers (snd (gl_handle opc req_id body b))) q"
  by (simp add: gl_handle_def gl_buffers_past_arms)

lemma gl_delete_buffer_frees_once: "frees_once gl_handle gl_new gl_op_DELETE_BUFFER"
proof (rule gl.frees_onceI [where P = "\<lambda>body b. case gl_DeleteBufferRequest_decode body of
    Inl _ \<Rightarrow> False | Inr req \<Rightarrow> ht_past (gl_buffers b) (handle_key (gl_DeleteBufferRequest_buffer req))"], goal_cases)
  case (1 req_id body b out b1)
  then show ?case
    by (auto simp: gl_delete_buffer_def gl_invar_def split: arm_splits prod.splits dest: remove_past)
next
  case (2 opc' req_id body body' b)
  then show ?case by (auto simp: gl_buffers_past split: sum.splits)
next
  case (3 req_id body b)
  then show ?case by (auto simp: gl_delete_buffer_def gl_invar_def past_remove_None split: sum.splits)
qed

end
