(* ===== verification/Cuda_Backend.thy ===== *)
theory Cuda_Backend
  imports Backend Cuda_Wire
begin

section \<open>The CUDA backend\<close>

text \<open>
  \<open>crates/graftx-server/src/cuda_backend.rs\<close>: the state is one handle table per kind of object; each arm of
  the \<open>match\<close> in \<open>CudaBackend::handle\<close> is one definition.
\<close>

definition KIND_CUDA_CONTEXT :: u8 where
  "KIND_CUDA_CONTEXT = 20"

definition KIND_CUDA_DEVICE_PTR :: u8 where
  "KIND_CUDA_DEVICE_PTR = 21"

record CudaCtxState =
  CudaCtxState_device_ordinal :: u32

record CudaMemState =
  CudaMemState_context :: Handle
  CudaMemState_size :: u64

record CudaBackend =
  cuda_contexts :: "CudaCtxState handle_table"
  cuda_allocations :: "CudaMemState handle_table"

definition cuda_new :: CudaBackend where
  "cuda_new = \<lparr>cuda_contexts = ht_new, cuda_allocations = ht_new\<rparr>"

definition cuda_api :: api_id where
  "cuda_api = Cuda"

subsection \<open>The arms\<close>

definition cuda_ctx_create :: "CudaBackend arm" where
  "cuda_ctx_create opc body self =
     (case cuda_CtxCreateRequest_decode body of
        Inl e \<Rightarrow> (Inl e, self)
      | Inr req \<Rightarrow>
          (let (context, contexts') =
              ht_insert KIND_CUDA_CONTEXT \<lparr>CudaCtxState_device_ordinal = cuda_CtxCreateRequest_device_ordinal req\<rparr> (cuda_contexts self) in
           (Inr (cuda_CtxCreateResponse_encode \<lparr>cuda_CtxCreateResponse_context = context\<rparr> []),
            self\<lparr>cuda_contexts := contexts'\<rparr>)))"

definition cuda_mem_alloc :: "CudaBackend arm" where
  "cuda_mem_alloc opc body self =
     (case cuda_MemAllocRequest_decode body of
        Inl e \<Rightarrow> (Inl e, self)
      | Inr req \<Rightarrow>
          (if ht_get (cuda_contexts self) (cuda_MemAllocRequest_context req) = None
           then (Inl (UnknownOpcode opc), self)
           else (let (dptr, allocations') =
                   ht_insert KIND_CUDA_DEVICE_PTR \<lparr>CudaMemState_context = cuda_MemAllocRequest_context req, CudaMemState_size = cuda_MemAllocRequest_size req\<rparr> (cuda_allocations self) in
                (Inr (cuda_MemAllocResponse_encode \<lparr>cuda_MemAllocResponse_dptr = dptr\<rparr> []),
                 self\<lparr>cuda_allocations := allocations'\<rparr>))))"

definition cuda_mem_free :: "CudaBackend arm" where
  "cuda_mem_free opc body self =
     (case cuda_MemFreeRequest_decode body of
        Inl e \<Rightarrow> (Inl e, self)
      | Inr req \<Rightarrow>
          (case ht_remove (cuda_MemFreeRequest_dptr req) (cuda_allocations self) of
             (None, allocations') \<Rightarrow> (Inl (UnknownOpcode opc), self\<lparr>cuda_allocations := allocations'\<rparr>)
           | (Some _, allocations') \<Rightarrow> (Inr [], self\<lparr>cuda_allocations := allocations'\<rparr>)))"

definition cuda_handle :: "CudaBackend handler" where
  "cuda_handle opc req_id body self =
     (if opcode_api opc \<noteq> api_id_u8 Cuda then (Inl (UnknownOpcode opc), self)
      else if opc = cuda_op_CTX_CREATE then cuda_ctx_create opc body self
      else if opc = cuda_op_MEM_ALLOC then cuda_mem_alloc opc body self
      else if opc = cuda_op_MEM_FREE then cuda_mem_free opc body self
      else (Inl (UnknownOpcode opc), self))"

text \<open>The opcodes with an arm of their own.\<close>

definition cuda_ops :: "u32 list" where
  "cuda_ops =
     [cuda_op_CTX_CREATE, cuda_op_MEM_ALLOC, cuda_op_MEM_FREE]"

subsection \<open>The contract\<close>

definition cuda_invar :: "CudaBackend \<Rightarrow> bool" where
  "cuda_invar b \<longleftrightarrow>
     ht_inv (cuda_contexts b) \<and> ht_inv (cuda_allocations b) \<and>
     linked CudaMemState_context (cuda_contexts b) (cuda_allocations b)"

lemmas cuda_decode_errors [decode_errors] =
  cuda_CtxCreateRequest_body.decode_error [THEN conjunct1]
  cuda_MemAllocRequest_body.decode_error [THEN conjunct1]
  cuda_MemFreeRequest_body.decode_error [THEN conjunct1]
  cuda_LaunchKernelRequest_body.decode_error [THEN conjunct1]
  cuda_MemcpyHtoDRequest_body.decode_error [THEN conjunct1]
  cuda_MemcpyDtoHRequest_body.decode_error [THEN conjunct1]

lemmas cuda_reply_widths [reply_widths] =
  cuda_CtxCreateResponse_body.encode_width
  cuda_MemAllocResponse_body.encode_width
  cuda_MemcpyDtoHResponse_body.encode_width

lemmas cuda_arm_defs =
  cuda_ctx_create_def
  cuda_mem_alloc_def
  cuda_mem_free_def

lemma cuda_ctx_create_ok: "arm_ok cuda_invar cuda_ctx_create"
  unfolding arm_ok_def cuda_ctx_create_def
  by (auto simp: cuda_invar_def arm_simps reply_widths intro: store_intros dest: decode_errors split: arm_splits)

lemma cuda_mem_alloc_ok: "arm_ok cuda_invar cuda_mem_alloc"
  unfolding arm_ok_def cuda_mem_alloc_def
  by (auto simp: cuda_invar_def arm_simps reply_widths intro: store_intros dest: decode_errors split: arm_splits)

lemma cuda_mem_free_ok: "arm_ok cuda_invar cuda_mem_free"
  unfolding arm_ok_def cuda_mem_free_def
  by (auto simp: cuda_invar_def arm_simps reply_widths intro: store_intros dest: decode_errors split: arm_splits)

lemma cuda_new_ok: "cuda_invar cuda_new"
  by (simp add: cuda_invar_def cuda_new_def store_intros)

lemma cuda_handle_ok: "arm_ok cuda_invar (\<lambda>opc body b. cuda_handle opc req_id body b)"
  unfolding cuda_handle_def
  by (intro arm_ok_if arm_ok_unknown cuda_ctx_create_ok cuda_mem_alloc_ok cuda_mem_free_ok)

lemma cuda_dispatch [simp]:
  "cuda_handle cuda_op_CTX_CREATE req_id body b = cuda_ctx_create cuda_op_CTX_CREATE body b"
  "cuda_handle cuda_op_MEM_ALLOC req_id body b = cuda_mem_alloc cuda_op_MEM_ALLOC body b"
  "cuda_handle cuda_op_MEM_FREE req_id body b = cuda_mem_free cuda_op_MEM_FREE body b"
  by (simp_all add: cuda_handle_def cuda_op_values opcode_api_def)

lemma cuda_ops_api: "opc \<in> set cuda_ops \<Longrightarrow> opcode_api opc = api_id_u8 cuda_api"
  by (auto simp: cuda_ops_def cuda_op_values cuda_api_def opcode_api_def)

lemma cuda_served: "opc \<in> set cuda_ops \<Longrightarrow> fst (cuda_handle opc req_id [] b) \<noteq> Inl (UnknownOpcode opc)"
  by (auto simp: cuda_ops_def cuda_arm_defs wire_eval case_prod_beta Let_def)

interpretation cuda: backend cuda_api cuda_ops cuda_handle cuda_new cuda_invar
proof
  show "cuda_invar cuda_new" by (rule cuda_new_ok)
  show "arm_ok cuda_invar (\<lambda>opc body b. cuda_handle opc req_id body b)" for req_id by (rule cuda_handle_ok)
qed (simp_all add: cuda_ops_api cuda_served, simp_all add: cuda_handle_def cuda_ops_def)

lemma cuda_allocations_past_arms:
  assumes "cuda_invar b" "ht_past (cuda_allocations b) q"
  shows
    "ht_past (cuda_allocations (snd (cuda_ctx_create opc body b))) q"
    "ht_past (cuda_allocations (snd (cuda_mem_alloc opc body b))) q"
    "ht_past (cuda_allocations (snd (cuda_mem_free opc body b))) q"
  using assms unfolding cuda_ctx_create_def cuda_mem_alloc_def cuda_mem_free_def
  by (auto simp: cuda_invar_def arm_simps intro: past_intros split: arm_splits)

lemma cuda_allocations_past: "cuda_invar b \<Longrightarrow> ht_past (cuda_allocations b) q \<Longrightarrow> ht_past (cuda_allocations (snd (cuda_handle opc req_id body b))) q"
  by (simp add: cuda_handle_def cuda_allocations_past_arms)

lemma cuda_mem_free_frees_once: "frees_once cuda_handle cuda_new cuda_op_MEM_FREE"
proof (rule cuda.frees_onceI [where P = "\<lambda>body b. case cuda_MemFreeRequest_decode body of
    Inl _ \<Rightarrow> False | Inr req \<Rightarrow> ht_past (cuda_allocations b) (handle_key (cuda_MemFreeRequest_dptr req))"], goal_cases)
  case (1 req_id body b out b1)
  then show ?case
    by (auto simp: cuda_mem_free_def cuda_invar_def split: arm_splits prod.splits dest: remove_past)
next
  case (2 opc' req_id body body' b)
  then show ?case by (auto simp: cuda_allocations_past split: sum.splits)
next
  case (3 req_id body b)
  then show ?case by (auto simp: cuda_mem_free_def cuda_invar_def past_remove_None split: sum.splits)
qed

end
