(* ===== verification/Hip_Backend.thy ===== *)
theory Hip_Backend
  imports Backend Hip_Wire
begin

section \<open>The HIP backend\<close>

text \<open>
  \<open>crates/graftx-server/src/hip_backend.rs\<close>: the state is one handle table per kind of object; each arm of
  the \<open>match\<close> in \<open>HipBackend::handle\<close> is one definition.
\<close>

definition KIND_HIP_DEVICE_PTR :: u8 where
  "KIND_HIP_DEVICE_PTR = 30"

definition KIND_HIP_STREAM :: u8 where
  "KIND_HIP_STREAM = 31"

record HipMemState =
  HipMemState_size :: u64

datatype HipStreamState = HipStreamState

record HipBackend =
  hip_allocations :: "HipMemState handle_table"
  hip_streams :: "HipStreamState handle_table"

definition hip_new :: HipBackend where
  "hip_new = \<lparr>hip_allocations = ht_new, hip_streams = ht_new\<rparr>"

definition hip_api :: api_id where
  "hip_api = Hip"

subsection \<open>The arms\<close>

definition hip_malloc :: "HipBackend arm" where
  "hip_malloc opc body self =
     (case hip_MallocRequest_decode body of
        Inl e \<Rightarrow> (Inl e, self)
      | Inr req \<Rightarrow>
          (let (dptr, allocations') =
              ht_insert KIND_HIP_DEVICE_PTR \<lparr>HipMemState_size = hip_MallocRequest_size req\<rparr> (hip_allocations self) in
           (Inr (hip_MallocResponse_encode \<lparr>hip_MallocResponse_dptr = dptr\<rparr> []),
            self\<lparr>hip_allocations := allocations'\<rparr>)))"

definition hip_free :: "HipBackend arm" where
  "hip_free opc body self =
     (case hip_FreeRequest_decode body of
        Inl e \<Rightarrow> (Inl e, self)
      | Inr req \<Rightarrow>
          (case ht_remove (hip_FreeRequest_dptr req) (hip_allocations self) of
             (None, allocations') \<Rightarrow> (Inl (UnknownOpcode opc), self\<lparr>hip_allocations := allocations'\<rparr>)
           | (Some _, allocations') \<Rightarrow> (Inr [], self\<lparr>hip_allocations := allocations'\<rparr>)))"

definition hip_stream_create :: "HipBackend arm" where
  "hip_stream_create opc body self =
     (let (stream, streams') =
         ht_insert KIND_HIP_STREAM HipStreamState (hip_streams self) in
      (Inr (hip_StreamCreateResponse_encode \<lparr>hip_StreamCreateResponse_stream = stream\<rparr> []),
       self\<lparr>hip_streams := streams'\<rparr>))"

definition hip_handle :: "HipBackend handler" where
  "hip_handle opc req_id body self =
     (if opcode_api opc \<noteq> api_id_u8 Hip then (Inl (UnknownOpcode opc), self)
      else if opc = hip_op_MALLOC then hip_malloc opc body self
      else if opc = hip_op_FREE then hip_free opc body self
      else if opc = hip_op_STREAM_CREATE then hip_stream_create opc body self
      else (Inl (UnknownOpcode opc), self))"

text \<open>The opcodes with an arm of their own.\<close>

definition hip_ops :: "u32 list" where
  "hip_ops =
     [hip_op_MALLOC, hip_op_FREE, hip_op_STREAM_CREATE]"

subsection \<open>The contract\<close>

definition hip_invar :: "HipBackend \<Rightarrow> bool" where
  "hip_invar b \<longleftrightarrow>
     ht_inv (hip_allocations b) \<and> ht_inv (hip_streams b)"

lemmas hip_decode_errors [decode_errors] =
  hip_MallocRequest_body.decode_error [THEN conjunct1]
  hip_FreeRequest_body.decode_error [THEN conjunct1]

lemmas hip_reply_widths [reply_widths] =
  hip_MallocResponse_body.encode_width
  hip_StreamCreateResponse_body.encode_width

lemmas hip_arm_defs =
  hip_malloc_def
  hip_free_def
  hip_stream_create_def

lemma hip_malloc_ok: "arm_ok hip_invar hip_malloc"
  unfolding arm_ok_def hip_malloc_def
  by (auto simp: hip_invar_def arm_simps reply_widths intro: store_intros dest: decode_errors split: arm_splits)

lemma hip_free_ok: "arm_ok hip_invar hip_free"
  unfolding arm_ok_def hip_free_def
  by (auto simp: hip_invar_def arm_simps reply_widths intro: store_intros dest: decode_errors split: arm_splits)

lemma hip_stream_create_ok: "arm_ok hip_invar hip_stream_create"
  unfolding arm_ok_def hip_stream_create_def
  by (auto simp: hip_invar_def arm_simps reply_widths intro: store_intros dest: decode_errors split: arm_splits)

lemma hip_new_ok: "hip_invar hip_new"
  by (simp add: hip_invar_def hip_new_def store_intros)

lemma hip_handle_ok: "arm_ok hip_invar (\<lambda>opc body b. hip_handle opc req_id body b)"
  unfolding hip_handle_def
  by (intro arm_ok_if arm_ok_unknown hip_malloc_ok hip_free_ok hip_stream_create_ok)

lemma hip_dispatch [simp]:
  "hip_handle hip_op_MALLOC req_id body b = hip_malloc hip_op_MALLOC body b"
  "hip_handle hip_op_FREE req_id body b = hip_free hip_op_FREE body b"
  "hip_handle hip_op_STREAM_CREATE req_id body b = hip_stream_create hip_op_STREAM_CREATE body b"
  by (simp_all add: hip_handle_def hip_op_values opcode_api_def)

lemma hip_ops_api: "opc \<in> set hip_ops \<Longrightarrow> opcode_api opc = api_id_u8 hip_api"
  by (auto simp: hip_ops_def hip_op_values hip_api_def opcode_api_def)

lemma hip_served: "opc \<in> set hip_ops \<Longrightarrow> fst (hip_handle opc req_id [] b) \<noteq> Inl (UnknownOpcode opc)"
  by (auto simp: hip_ops_def hip_arm_defs wire_eval case_prod_beta Let_def)

interpretation hip: backend hip_api hip_ops hip_handle hip_new hip_invar
proof
  show "hip_invar hip_new" by (rule hip_new_ok)
  show "arm_ok hip_invar (\<lambda>opc body b. hip_handle opc req_id body b)" for req_id by (rule hip_handle_ok)
qed (simp_all add: hip_ops_api hip_served, simp_all add: hip_handle_def hip_ops_def)

lemma hip_allocations_past_arms:
  assumes "hip_invar b" "ht_past (hip_allocations b) q"
  shows
    "ht_past (hip_allocations (snd (hip_malloc opc body b))) q"
    "ht_past (hip_allocations (snd (hip_free opc body b))) q"
    "ht_past (hip_allocations (snd (hip_stream_create opc body b))) q"
  using assms unfolding hip_malloc_def hip_free_def hip_stream_create_def
  by (auto simp: hip_invar_def arm_simps intro: past_intros split: arm_splits)

lemma hip_allocations_past: "hip_invar b \<Longrightarrow> ht_past (hip_allocations b) q \<Longrightarrow> ht_past (hip_allocations (snd (hip_handle opc req_id body b))) q"
  by (simp add: hip_handle_def hip_allocations_past_arms)

lemma hip_free_frees_once: "frees_once hip_handle hip_new hip_op_FREE"
proof (rule hip.frees_onceI [where P = "\<lambda>body b. case hip_FreeRequest_decode body of
    Inl _ \<Rightarrow> False | Inr req \<Rightarrow> ht_past (hip_allocations b) (handle_key (hip_FreeRequest_dptr req))"], goal_cases)
  case (1 req_id body b out b1)
  then show ?case
    by (auto simp: hip_free_def hip_invar_def split: arm_splits prod.splits dest: remove_past)
next
  case (2 opc' req_id body body' b)
  then show ?case by (auto simp: hip_allocations_past split: sum.splits)
next
  case (3 req_id body b)
  then show ?case by (auto simp: hip_free_def hip_invar_def past_remove_None split: sum.splits)
qed

end
