(* ===== verification/Cl_Backend.thy ===== *)
theory Cl_Backend
  imports Backend Cl_Wire
begin

section \<open>The OpenCL backend\<close>

text \<open>
  \<open>crates/graftx-server/src/cl_backend.rs\<close>: the state is one handle table per kind of object; each arm of
  the \<open>match\<close> in \<open>ClBackend::handle\<close> is one definition.
\<close>

definition KIND_CL_CONTEXT :: u8 where
  "KIND_CL_CONTEXT = 40"

definition KIND_CL_MEM :: u8 where
  "KIND_CL_MEM = 41"

record ClCtxState =
  ClCtxState_created :: bool

record ClBufState =
  ClBufState_context :: Handle
  ClBufState_size :: u64

record ClBackend =
  cl_contexts :: "ClCtxState handle_table"
  cl_buffers :: "ClBufState handle_table"

definition cl_new :: ClBackend where
  "cl_new = \<lparr>cl_contexts = ht_new, cl_buffers = ht_new\<rparr>"

definition cl_api :: api_id where
  "cl_api = OpenCl"

subsection \<open>The arms\<close>

definition cl_create_context :: "ClBackend arm" where
  "cl_create_context opc body self =
     (let (context, contexts') =
         ht_insert KIND_CL_CONTEXT \<lparr>ClCtxState_created = True\<rparr> (cl_contexts self) in
      (Inr (cl_CreateContextResponse_encode \<lparr>cl_CreateContextResponse_context = context\<rparr> []),
       self\<lparr>cl_contexts := contexts'\<rparr>))"

definition cl_create_buffer :: "ClBackend arm" where
  "cl_create_buffer opc body self =
     (case cl_CreateBufferRequest_decode body of
        Inl e \<Rightarrow> (Inl e, self)
      | Inr req \<Rightarrow>
          (if ht_get (cl_contexts self) (cl_CreateBufferRequest_context req) = None
           then (Inl (UnknownOpcode opc), self)
           else (let (mem, buffers') =
                   ht_insert KIND_CL_MEM \<lparr>ClBufState_context = cl_CreateBufferRequest_context req, ClBufState_size = cl_CreateBufferRequest_size req\<rparr> (cl_buffers self) in
                (Inr (cl_CreateBufferResponse_encode \<lparr>cl_CreateBufferResponse_mem = mem\<rparr> []),
                 self\<lparr>cl_buffers := buffers'\<rparr>))))"

definition cl_release_buffer :: "ClBackend arm" where
  "cl_release_buffer opc body self =
     (case cl_ReleaseBufferRequest_decode body of
        Inl e \<Rightarrow> (Inl e, self)
      | Inr req \<Rightarrow>
          (case ht_remove (cl_ReleaseBufferRequest_mem req) (cl_buffers self) of
             (None, buffers') \<Rightarrow> (Inl (UnknownOpcode opc), self\<lparr>cl_buffers := buffers'\<rparr>)
           | (Some _, buffers') \<Rightarrow> (Inr [], self\<lparr>cl_buffers := buffers'\<rparr>)))"

definition cl_handle :: "ClBackend handler" where
  "cl_handle opc req_id body self =
     (if opcode_api opc \<noteq> api_id_u8 OpenCl then (Inl (UnknownOpcode opc), self)
      else if opc = cl_op_CREATE_CONTEXT then cl_create_context opc body self
      else if opc = cl_op_CREATE_BUFFER then cl_create_buffer opc body self
      else if opc = cl_op_RELEASE_BUFFER then cl_release_buffer opc body self
      else (Inl (UnknownOpcode opc), self))"

text \<open>The opcodes with an arm of their own.\<close>

definition cl_ops :: "u32 list" where
  "cl_ops =
     [cl_op_CREATE_CONTEXT, cl_op_CREATE_BUFFER, cl_op_RELEASE_BUFFER]"

subsection \<open>The contract\<close>

definition cl_invar :: "ClBackend \<Rightarrow> bool" where
  "cl_invar b \<longleftrightarrow>
     ht_inv (cl_contexts b) \<and> ht_inv (cl_buffers b) \<and>
     linked ClBufState_context (cl_contexts b) (cl_buffers b) \<and>
     ht.holds ClCtxState_created (cl_contexts b)"

lemmas cl_decode_errors [decode_errors] =
  cl_CreateBufferRequest_body.decode_error [THEN conjunct1]
  cl_ReleaseBufferRequest_body.decode_error [THEN conjunct1]

lemmas cl_reply_widths [reply_widths] =
  cl_CreateContextResponse_body.encode_width
  cl_CreateBufferResponse_body.encode_width

lemmas cl_arm_defs =
  cl_create_context_def
  cl_create_buffer_def
  cl_release_buffer_def

lemma cl_create_context_ok: "arm_ok cl_invar cl_create_context"
  unfolding arm_ok_def cl_create_context_def
  by (auto simp: cl_invar_def arm_simps reply_widths intro: store_intros dest: decode_errors split: arm_splits)

lemma cl_create_buffer_ok: "arm_ok cl_invar cl_create_buffer"
  unfolding arm_ok_def cl_create_buffer_def
  by (auto simp: cl_invar_def arm_simps reply_widths intro: store_intros dest: decode_errors split: arm_splits)

lemma cl_release_buffer_ok: "arm_ok cl_invar cl_release_buffer"
  unfolding arm_ok_def cl_release_buffer_def
  by (auto simp: cl_invar_def arm_simps reply_widths intro: store_intros dest: decode_errors split: arm_splits)

lemma cl_new_ok: "cl_invar cl_new"
  by (simp add: cl_invar_def cl_new_def store_intros)

lemma cl_handle_ok: "arm_ok cl_invar (\<lambda>opc body b. cl_handle opc req_id body b)"
  unfolding cl_handle_def
  by (intro arm_ok_if arm_ok_unknown cl_create_context_ok cl_create_buffer_ok cl_release_buffer_ok)

lemma cl_dispatch [simp]:
  "cl_handle cl_op_CREATE_CONTEXT req_id body b = cl_create_context cl_op_CREATE_CONTEXT body b"
  "cl_handle cl_op_CREATE_BUFFER req_id body b = cl_create_buffer cl_op_CREATE_BUFFER body b"
  "cl_handle cl_op_RELEASE_BUFFER req_id body b = cl_release_buffer cl_op_RELEASE_BUFFER body b"
  by (simp_all add: cl_handle_def cl_op_values opcode_api_def)

lemma cl_ops_api: "opc \<in> set cl_ops \<Longrightarrow> opcode_api opc = api_id_u8 cl_api"
  by (auto simp: cl_ops_def cl_op_values cl_api_def opcode_api_def)

lemma cl_served: "opc \<in> set cl_ops \<Longrightarrow> fst (cl_handle opc req_id [] b) \<noteq> Inl (UnknownOpcode opc)"
  by (auto simp: cl_ops_def cl_arm_defs wire_eval case_prod_beta Let_def)

interpretation cl: backend cl_api cl_ops cl_handle cl_new cl_invar
proof
  show "cl_invar cl_new" by (rule cl_new_ok)
  show "arm_ok cl_invar (\<lambda>opc body b. cl_handle opc req_id body b)" for req_id by (rule cl_handle_ok)
qed (simp_all add: cl_ops_api cl_served, simp_all add: cl_handle_def cl_ops_def)

lemma cl_buffers_past_arms:
  assumes "cl_invar b" "ht_past (cl_buffers b) q"
  shows
    "ht_past (cl_buffers (snd (cl_create_context opc body b))) q"
    "ht_past (cl_buffers (snd (cl_create_buffer opc body b))) q"
    "ht_past (cl_buffers (snd (cl_release_buffer opc body b))) q"
  using assms unfolding cl_create_context_def cl_create_buffer_def cl_release_buffer_def
  by (auto simp: cl_invar_def arm_simps intro: past_intros split: arm_splits)

lemma cl_buffers_past: "cl_invar b \<Longrightarrow> ht_past (cl_buffers b) q \<Longrightarrow> ht_past (cl_buffers (snd (cl_handle opc req_id body b))) q"
  by (simp add: cl_handle_def cl_buffers_past_arms)

lemma cl_release_buffer_frees_once: "frees_once cl_handle cl_new cl_op_RELEASE_BUFFER"
proof (rule cl.frees_onceI [where P = "\<lambda>body b. case cl_ReleaseBufferRequest_decode body of
    Inl _ \<Rightarrow> False | Inr req \<Rightarrow> ht_past (cl_buffers b) (handle_key (cl_ReleaseBufferRequest_mem req))"], goal_cases)
  case (1 req_id body b out b1)
  then show ?case
    by (auto simp: cl_release_buffer_def cl_invar_def split: arm_splits prod.splits dest: remove_past)
next
  case (2 opc' req_id body body' b)
  then show ?case by (auto simp: cl_buffers_past split: sum.splits)
next
  case (3 req_id body b)
  then show ?case by (auto simp: cl_release_buffer_def cl_invar_def past_remove_None split: sum.splits)
qed

end
