(* ===== verification/L0_Backend.thy ===== *)
theory L0_Backend
  imports Backend L0_Wire
begin

section \<open>The Level Zero backend\<close>

text \<open>
  \<open>crates/graftx-server/src/l0_backend.rs\<close>: the state is one handle table per kind of object; each arm of
  the \<open>match\<close> in \<open>L0Backend::handle\<close> is one definition.
\<close>

definition KIND_L0_CONTEXT :: u8 where
  "KIND_L0_CONTEXT = 50"

definition KIND_L0_DEVICE_MEM :: u8 where
  "KIND_L0_DEVICE_MEM = 51"

record L0CtxState =
  L0CtxState_created :: bool

record L0MemState =
  L0MemState_context :: Handle
  L0MemState_size :: u64

record L0Backend =
  l0_contexts :: "L0CtxState handle_table"
  l0_mems :: "L0MemState handle_table"

definition l0_new :: L0Backend where
  "l0_new = \<lparr>l0_contexts = ht_new, l0_mems = ht_new\<rparr>"

definition l0_api :: api_id where
  "l0_api = LevelZero"

subsection \<open>The arms\<close>

definition l0_context_create :: "L0Backend arm" where
  "l0_context_create opc body self =
     (let (context, contexts') =
         ht_insert KIND_L0_CONTEXT \<lparr>L0CtxState_created = True\<rparr> (l0_contexts self) in
      (Inr (l0_ContextCreateResponse_encode \<lparr>l0_ContextCreateResponse_context = context\<rparr> []),
       self\<lparr>l0_contexts := contexts'\<rparr>))"

definition l0_mem_alloc_device :: "L0Backend arm" where
  "l0_mem_alloc_device opc body self =
     (case l0_MemAllocDeviceRequest_decode body of
        Inl e \<Rightarrow> (Inl e, self)
      | Inr req \<Rightarrow>
          (if ht_get (l0_contexts self) (l0_MemAllocDeviceRequest_context req) = None
           then (Inl (UnknownOpcode opc), self)
           else (let (ptr, mems') =
                   ht_insert KIND_L0_DEVICE_MEM \<lparr>L0MemState_context = l0_MemAllocDeviceRequest_context req, L0MemState_size = l0_MemAllocDeviceRequest_size req\<rparr> (l0_mems self) in
                (Inr (l0_MemAllocDeviceResponse_encode \<lparr>l0_MemAllocDeviceResponse_ptr = ptr\<rparr> []),
                 self\<lparr>l0_mems := mems'\<rparr>))))"

definition l0_mem_free :: "L0Backend arm" where
  "l0_mem_free opc body self =
     (case l0_MemFreeRequest_decode body of
        Inl e \<Rightarrow> (Inl e, self)
      | Inr req \<Rightarrow>
          (case ht_remove (l0_MemFreeRequest_ptr req) (l0_mems self) of
             (None, mems') \<Rightarrow> (Inl (UnknownOpcode opc), self\<lparr>l0_mems := mems'\<rparr>)
           | (Some _, mems') \<Rightarrow> (Inr [], self\<lparr>l0_mems := mems'\<rparr>)))"

definition l0_handle :: "L0Backend handler" where
  "l0_handle opc req_id body self =
     (if opcode_api opc \<noteq> api_id_u8 LevelZero then (Inl (UnknownOpcode opc), self)
      else if opc = l0_op_CONTEXT_CREATE then l0_context_create opc body self
      else if opc = l0_op_MEM_ALLOC_DEVICE then l0_mem_alloc_device opc body self
      else if opc = l0_op_MEM_FREE then l0_mem_free opc body self
      else (Inl (UnknownOpcode opc), self))"

text \<open>The opcodes with an arm of their own.\<close>

definition l0_ops :: "u32 list" where
  "l0_ops =
     [l0_op_CONTEXT_CREATE, l0_op_MEM_ALLOC_DEVICE, l0_op_MEM_FREE]"

subsection \<open>The contract\<close>

definition l0_invar :: "L0Backend \<Rightarrow> bool" where
  "l0_invar b \<longleftrightarrow>
     ht_inv (l0_contexts b) \<and> ht_inv (l0_mems b) \<and>
     linked L0MemState_context (l0_contexts b) (l0_mems b) \<and>
     ht.holds L0CtxState_created (l0_contexts b)"

lemmas l0_decode_errors [decode_errors] =
  l0_MemAllocDeviceRequest_body.decode_error [THEN conjunct1]
  l0_MemFreeRequest_body.decode_error [THEN conjunct1]

lemmas l0_reply_widths [reply_widths] =
  l0_ContextCreateResponse_body.encode_width
  l0_MemAllocDeviceResponse_body.encode_width

lemmas l0_arm_defs =
  l0_context_create_def
  l0_mem_alloc_device_def
  l0_mem_free_def

lemma l0_context_create_ok: "arm_ok l0_invar l0_context_create"
  unfolding arm_ok_def l0_context_create_def
  by (auto simp: l0_invar_def arm_simps reply_widths intro: store_intros dest: decode_errors split: arm_splits)

lemma l0_mem_alloc_device_ok: "arm_ok l0_invar l0_mem_alloc_device"
  unfolding arm_ok_def l0_mem_alloc_device_def
  by (auto simp: l0_invar_def arm_simps reply_widths intro: store_intros dest: decode_errors split: arm_splits)

lemma l0_mem_free_ok: "arm_ok l0_invar l0_mem_free"
  unfolding arm_ok_def l0_mem_free_def
  by (auto simp: l0_invar_def arm_simps reply_widths intro: store_intros dest: decode_errors split: arm_splits)

lemma l0_new_ok: "l0_invar l0_new"
  by (simp add: l0_invar_def l0_new_def store_intros)

lemma l0_handle_ok: "arm_ok l0_invar (\<lambda>opc body b. l0_handle opc req_id body b)"
  unfolding l0_handle_def
  by (intro arm_ok_if arm_ok_unknown l0_context_create_ok l0_mem_alloc_device_ok l0_mem_free_ok)

lemma l0_dispatch [simp]:
  "l0_handle l0_op_CONTEXT_CREATE req_id body b = l0_context_create l0_op_CONTEXT_CREATE body b"
  "l0_handle l0_op_MEM_ALLOC_DEVICE req_id body b = l0_mem_alloc_device l0_op_MEM_ALLOC_DEVICE body b"
  "l0_handle l0_op_MEM_FREE req_id body b = l0_mem_free l0_op_MEM_FREE body b"
  by (simp_all add: l0_handle_def l0_op_values opcode_api_def)

lemma l0_ops_api: "opc \<in> set l0_ops \<Longrightarrow> opcode_api opc = api_id_u8 l0_api"
  by (auto simp: l0_ops_def l0_op_values l0_api_def opcode_api_def)

lemma l0_served: "opc \<in> set l0_ops \<Longrightarrow> fst (l0_handle opc req_id [] b) \<noteq> Inl (UnknownOpcode opc)"
  by (auto simp: l0_ops_def l0_arm_defs wire_eval case_prod_beta Let_def)

interpretation l0: backend l0_api l0_ops l0_handle l0_new l0_invar
proof
  show "l0_invar l0_new" by (rule l0_new_ok)
  show "arm_ok l0_invar (\<lambda>opc body b. l0_handle opc req_id body b)" for req_id by (rule l0_handle_ok)
qed (simp_all add: l0_ops_api l0_served, simp_all add: l0_handle_def l0_ops_def)

lemma l0_mems_past_arms:
  assumes "l0_invar b" "ht_past (l0_mems b) q"
  shows
    "ht_past (l0_mems (snd (l0_context_create opc body b))) q"
    "ht_past (l0_mems (snd (l0_mem_alloc_device opc body b))) q"
    "ht_past (l0_mems (snd (l0_mem_free opc body b))) q"
  using assms unfolding l0_context_create_def l0_mem_alloc_device_def l0_mem_free_def
  by (auto simp: l0_invar_def arm_simps intro: past_intros split: arm_splits)

lemma l0_mems_past: "l0_invar b \<Longrightarrow> ht_past (l0_mems b) q \<Longrightarrow> ht_past (l0_mems (snd (l0_handle opc req_id body b))) q"
  by (simp add: l0_handle_def l0_mems_past_arms)

lemma l0_mem_free_frees_once: "frees_once l0_handle l0_new l0_op_MEM_FREE"
proof (rule l0.frees_onceI [where P = "\<lambda>body b. case l0_MemFreeRequest_decode body of
    Inl _ \<Rightarrow> False | Inr req \<Rightarrow> ht_past (l0_mems b) (handle_key (l0_MemFreeRequest_ptr req))"], goal_cases)
  case (1 req_id body b out b1)
  then show ?case
    by (auto simp: l0_mem_free_def l0_invar_def split: arm_splits prod.splits dest: remove_past)
next
  case (2 opc' req_id body body' b)
  then show ?case by (auto simp: l0_mems_past split: sum.splits)
next
  case (3 req_id body b)
  then show ?case by (auto simp: l0_mem_free_def l0_invar_def past_remove_None split: sum.splits)
qed

end
