(* ===== verification/Video_Backend.thy ===== *)
theory Video_Backend
  imports Backend Video_Wire
begin

section \<open>The video backend\<close>

text \<open>
  \<open>crates/graftx-server/src/video_backend.rs\<close>: the state is one handle table per kind of object; each arm of
  the \<open>match\<close> in \<open>VideoBackend::handle\<close> is one definition.
\<close>

definition KIND_VIDEO_SESSION :: u8 where
  "KIND_VIDEO_SESSION = 60"

record VideoSessionState =
  VideoSessionState_codec :: u32
  VideoSessionState_width :: u32
  VideoSessionState_height :: u32
  VideoSessionState_frames :: u32

record VideoBackend =
  video_sessions :: "VideoSessionState handle_table"

definition video_new :: VideoBackend where
  "video_new = \<lparr>video_sessions = ht_new\<rparr>"

definition video_api :: api_id where
  "video_api = Video"

subsection \<open>The arms\<close>

definition video_create_decode_session :: "VideoBackend arm" where
  "video_create_decode_session opc body self =
     (case video_CreateDecodeSessionRequest_decode body of
        Inl e \<Rightarrow> (Inl e, self)
      | Inr req \<Rightarrow>
          (let (session, sessions') =
              ht_insert KIND_VIDEO_SESSION 
               \<lparr>VideoSessionState_codec = video_CreateDecodeSessionRequest_codec req, VideoSessionState_width = video_CreateDecodeSessionRequest_width req, VideoSessionState_height = video_CreateDecodeSessionRequest_height req, VideoSessionState_frames = 0\<rparr>
               (video_sessions self) in
           (Inr (video_CreateDecodeSessionResponse_encode \<lparr>video_CreateDecodeSessionResponse_session = session\<rparr> []),
            self\<lparr>video_sessions := sessions'\<rparr>)))"

definition video_decode_frame :: "VideoBackend arm" where
  "video_decode_frame opc body self =
     (case video_DecodeFrameRequest_decode body of
        Inl e \<Rightarrow> (Inl e, self)
      | Inr req \<Rightarrow>
          (case ht_get_mut (video_sessions self) (video_DecodeFrameRequest_session req) of
             None \<Rightarrow> (Inl (UnknownOpcode opc), self)
           | Some (state, write) \<Rightarrow>
               let frame_index = VideoSessionState_frames state in
               (Inr (video_DecodeFrameResponse_encode \<lparr>video_DecodeFrameResponse_frame_index = frame_index\<rparr> []),
                self\<lparr>video_sessions := write (state\<lparr>VideoSessionState_frames := saturating_add (VideoSessionState_frames state) 1\<rparr>)\<rparr>)))"

definition video_destroy_session :: "VideoBackend arm" where
  "video_destroy_session opc body self =
     (case video_DestroySessionRequest_decode body of
        Inl e \<Rightarrow> (Inl e, self)
      | Inr req \<Rightarrow>
          (case ht_remove (video_DestroySessionRequest_session req) (video_sessions self) of
             (None, sessions') \<Rightarrow> (Inl (UnknownOpcode opc), self\<lparr>video_sessions := sessions'\<rparr>)
           | (Some _, sessions') \<Rightarrow> (Inr [], self\<lparr>video_sessions := sessions'\<rparr>)))"

definition video_handle :: "VideoBackend handler" where
  "video_handle opc req_id body self =
     (if opcode_api opc \<noteq> api_id_u8 Video then (Inl (UnknownOpcode opc), self)
      else if opc = video_op_CREATE_DECODE_SESSION then video_create_decode_session opc body self
      else if opc = video_op_DECODE_FRAME then video_decode_frame opc body self
      else if opc = video_op_DESTROY_SESSION then video_destroy_session opc body self
      else (Inl (UnknownOpcode opc), self))"

text \<open>The opcodes with an arm of their own.\<close>

definition video_ops :: "u32 list" where
  "video_ops =
     [video_op_CREATE_DECODE_SESSION, video_op_DECODE_FRAME, video_op_DESTROY_SESSION]"

subsection \<open>The contract\<close>

definition video_invar :: "VideoBackend \<Rightarrow> bool" where
  "video_invar b \<longleftrightarrow>
     ht_inv (video_sessions b)"

lemmas video_decode_errors [decode_errors] =
  video_CreateDecodeSessionRequest_body.decode_error [THEN conjunct1]
  video_DecodeFrameRequest_body.decode_error [THEN conjunct1]
  video_DestroySessionRequest_body.decode_error [THEN conjunct1]

lemmas video_reply_widths [reply_widths] =
  video_CreateDecodeSessionResponse_body.encode_width
  video_DecodeFrameResponse_body.encode_width

lemmas video_arm_defs =
  video_create_decode_session_def
  video_decode_frame_def
  video_destroy_session_def

lemma video_create_decode_session_ok: "arm_ok video_invar video_create_decode_session"
  unfolding arm_ok_def video_create_decode_session_def
  by (auto simp: video_invar_def arm_simps reply_widths intro: store_intros dest: decode_errors split: arm_splits)

lemma video_decode_frame_ok: "arm_ok video_invar video_decode_frame"
  unfolding arm_ok_def video_decode_frame_def
  by (auto simp: video_invar_def arm_simps reply_widths intro: store_intros dest: decode_errors split: arm_splits)

lemma video_destroy_session_ok: "arm_ok video_invar video_destroy_session"
  unfolding arm_ok_def video_destroy_session_def
  by (auto simp: video_invar_def arm_simps reply_widths intro: store_intros dest: decode_errors split: arm_splits)

lemma video_new_ok: "video_invar video_new"
  by (simp add: video_invar_def video_new_def store_intros)

lemma video_handle_ok: "arm_ok video_invar (\<lambda>opc body b. video_handle opc req_id body b)"
  unfolding video_handle_def
  by (intro arm_ok_if arm_ok_unknown video_create_decode_session_ok video_decode_frame_ok video_destroy_session_ok)

lemma video_dispatch [simp]:
  "video_handle video_op_CREATE_DECODE_SESSION req_id body b = video_create_decode_session video_op_CREATE_DECODE_SESSION body b"
  "video_handle video_op_DECODE_FRAME req_id body b = video_decode_frame video_op_DECODE_FRAME body b"
  "video_handle video_op_DESTROY_SESSION req_id body b = video_destroy_session video_op_DESTROY_SESSION body b"
  by (simp_all add: video_handle_def video_op_values opcode_api_def)

lemma video_ops_api: "opc \<in> set video_ops \<Longrightarrow> opcode_api opc = api_id_u8 video_api"
  by (auto simp: video_ops_def video_op_values video_api_def opcode_api_def)

lemma video_served: "opc \<in> set video_ops \<Longrightarrow> fst (video_handle opc req_id [] b) \<noteq> Inl (UnknownOpcode opc)"
  by (auto simp: video_ops_def video_arm_defs wire_eval case_prod_beta Let_def)

interpretation video: backend video_api video_ops video_handle video_new video_invar
proof
  show "video_invar video_new" by (rule video_new_ok)
  show "arm_ok video_invar (\<lambda>opc body b. video_handle opc req_id body b)" for req_id by (rule video_handle_ok)
qed (simp_all add: video_ops_api video_served, simp_all add: video_handle_def video_ops_def)

lemma video_sessions_past_arms:
  assumes "video_invar b" "ht_past (video_sessions b) q"
  shows
    "ht_past (video_sessions (snd (video_create_decode_session opc body b))) q"
    "ht_past (video_sessions (snd (video_decode_frame opc body b))) q"
    "ht_past (video_sessions (snd (video_destroy_session opc body b))) q"
  using assms unfolding video_create_decode_session_def video_decode_frame_def video_destroy_session_def
  by (auto simp: video_invar_def arm_simps intro: past_intros split: arm_splits)

lemma video_sessions_past: "video_invar b \<Longrightarrow> ht_past (video_sessions b) q \<Longrightarrow> ht_past (video_sessions (snd (video_handle opc req_id body b))) q"
  by (simp add: video_handle_def video_sessions_past_arms)

lemma video_destroy_session_frees_once: "frees_once video_handle video_new video_op_DESTROY_SESSION"
proof (rule video.frees_onceI [where P = "\<lambda>body b. case video_DestroySessionRequest_decode body of
    Inl _ \<Rightarrow> False | Inr req \<Rightarrow> ht_past (video_sessions b) (handle_key (video_DestroySessionRequest_session req))"], goal_cases)
  case (1 req_id body b out b1)
  then show ?case
    by (auto simp: video_destroy_session_def video_invar_def split: arm_splits prod.splits dest: remove_past)
next
  case (2 opc' req_id body body' b)
  then show ?case by (auto simp: video_sessions_past split: sum.splits)
next
  case (3 req_id body b)
  then show ?case by (auto simp: video_destroy_session_def video_invar_def past_remove_None split: sum.splits)
qed

end
