(* ===== verification/Wgpu_Backend.thy ===== *)
theory Wgpu_Backend
  imports Backend Wgpu_Wire
begin

section \<open>The WebGPU backend\<close>

text \<open>
  \<open>crates/graftx-server/src/wgpu_backend.rs\<close>: the state is one handle table per kind of object; each arm of
  the \<open>match\<close> in \<open>WebGpuBackend::handle\<close> is one definition.
\<close>

definition KIND_WGPU_DEVICE :: u8 where
  "KIND_WGPU_DEVICE = 70"

definition KIND_WGPU_BUFFER :: u8 where
  "KIND_WGPU_BUFFER = 71"

datatype WgpuDevState = WgpuDevState

record WgpuBufState =
  WgpuBufState_device :: Handle
  WgpuBufState_size :: u64
  WgpuBufState_usage :: u32

record WebGpuBackend =
  wgpu_devices :: "WgpuDevState handle_table"
  wgpu_buffers :: "WgpuBufState handle_table"

definition wgpu_new :: WebGpuBackend where
  "wgpu_new = \<lparr>wgpu_devices = ht_new, wgpu_buffers = ht_new\<rparr>"

definition wgpu_api :: api_id where
  "wgpu_api = WebGpu"

subsection \<open>The arms\<close>

definition wgpu_request_device :: "WebGpuBackend arm" where
  "wgpu_request_device opc body self =
     (let (device, devices') =
         ht_insert KIND_WGPU_DEVICE WgpuDevState (wgpu_devices self) in
      (Inr (wgpu_RequestDeviceResponse_encode \<lparr>wgpu_RequestDeviceResponse_device = device\<rparr> []),
       self\<lparr>wgpu_devices := devices'\<rparr>))"

definition wgpu_create_buffer :: "WebGpuBackend arm" where
  "wgpu_create_buffer opc body self =
     (case wgpu_CreateBufferRequest_decode body of
        Inl e \<Rightarrow> (Inl e, self)
      | Inr req \<Rightarrow>
          (if ht_get (wgpu_devices self) (wgpu_CreateBufferRequest_device req) = None
           then (Inl (UnknownOpcode opc), self)
           else (let (buffer, buffers') =
                   ht_insert KIND_WGPU_BUFFER \<lparr>WgpuBufState_device = wgpu_CreateBufferRequest_device req, WgpuBufState_size = wgpu_CreateBufferRequest_size req, WgpuBufState_usage = wgpu_CreateBufferRequest_usage req\<rparr> (wgpu_buffers self) in
                (Inr (wgpu_CreateBufferResponse_encode \<lparr>wgpu_CreateBufferResponse_buffer = buffer\<rparr> []),
                 self\<lparr>wgpu_buffers := buffers'\<rparr>))))"

definition wgpu_destroy_buffer :: "WebGpuBackend arm" where
  "wgpu_destroy_buffer opc body self =
     (case wgpu_DestroyBufferRequest_decode body of
        Inl e \<Rightarrow> (Inl e, self)
      | Inr req \<Rightarrow>
          (case ht_remove (wgpu_DestroyBufferRequest_buffer req) (wgpu_buffers self) of
             (None, buffers') \<Rightarrow> (Inl (UnknownOpcode opc), self\<lparr>wgpu_buffers := buffers'\<rparr>)
           | (Some _, buffers') \<Rightarrow> (Inr [], self\<lparr>wgpu_buffers := buffers'\<rparr>)))"

definition wgpu_handle :: "WebGpuBackend handler" where
  "wgpu_handle opc req_id body self =
     (if opcode_api opc \<noteq> api_id_u8 WebGpu then (Inl (UnknownOpcode opc), self)
      else if opc = wgpu_op_REQUEST_DEVICE then wgpu_request_device opc body self
      else if opc = wgpu_op_CREATE_BUFFER then wgpu_create_buffer opc body self
      else if opc = wgpu_op_DESTROY_BUFFER then wgpu_destroy_buffer opc body self
      else (Inl (UnknownOpcode opc), self))"

text \<open>The opcodes with an arm of their own.\<close>

definition wgpu_ops :: "u32 list" where
  "wgpu_ops =
     [wgpu_op_REQUEST_DEVICE, wgpu_op_CREATE_BUFFER, wgpu_op_DESTROY_BUFFER]"

subsection \<open>The contract\<close>

definition wgpu_invar :: "WebGpuBackend \<Rightarrow> bool" where
  "wgpu_invar b \<longleftrightarrow>
     ht_inv (wgpu_devices b) \<and> ht_inv (wgpu_buffers b) \<and>
     linked WgpuBufState_device (wgpu_devices b) (wgpu_buffers b)"

lemmas wgpu_decode_errors [decode_errors] =
  wgpu_CreateBufferRequest_body.decode_error [THEN conjunct1]
  wgpu_DestroyBufferRequest_body.decode_error [THEN conjunct1]

lemmas wgpu_reply_widths [reply_widths] =
  wgpu_RequestDeviceResponse_body.encode_width
  wgpu_CreateBufferResponse_body.encode_width

lemmas wgpu_arm_defs =
  wgpu_request_device_def
  wgpu_create_buffer_def
  wgpu_destroy_buffer_def

lemma wgpu_request_device_ok: "arm_ok wgpu_invar wgpu_request_device"
  unfolding arm_ok_def wgpu_request_device_def
  by (auto simp: wgpu_invar_def arm_simps reply_widths intro: store_intros dest: decode_errors split: arm_splits)

lemma wgpu_create_buffer_ok: "arm_ok wgpu_invar wgpu_create_buffer"
  unfolding arm_ok_def wgpu_create_buffer_def
  by (auto simp: wgpu_invar_def arm_simps reply_widths intro: store_intros dest: decode_errors split: arm_splits)

lemma wgpu_destroy_buffer_ok: "arm_ok wgpu_invar wgpu_destroy_buffer"
  unfolding arm_ok_def wgpu_destroy_buffer_def
  by (auto simp: wgpu_invar_def arm_simps reply_widths intro: store_intros dest: decode_errors split: arm_splits)

lemma wgpu_new_ok: "wgpu_invar wgpu_new"
  by (simp add: wgpu_invar_def wgpu_new_def store_intros)

lemma wgpu_handle_ok: "arm_ok wgpu_invar (\<lambda>opc body b. wgpu_handle opc req_id body b)"
  unfolding wgpu_handle_def
  by (intro arm_ok_if arm_ok_unknown wgpu_request_device_ok wgpu_create_buffer_ok wgpu_destroy_buffer_ok)

lemma wgpu_dispatch [simp]:
  "wgpu_handle wgpu_op_REQUEST_DEVICE req_id body b = wgpu_request_device wgpu_op_REQUEST_DEVICE body b"
  "wgpu_handle wgpu_op_CREATE_BUFFER req_id body b = wgpu_create_buffer wgpu_op_CREATE_BUFFER body b"
  "wgpu_handle wgpu_op_DESTROY_BUFFER req_id body b = wgpu_destroy_buffer wgpu_op_DESTROY_BUFFER body b"
  by (simp_all add: wgpu_handle_def wgpu_op_values opcode_api_def)

lemma wgpu_ops_api: "opc \<in> set wgpu_ops \<Longrightarrow> opcode_api opc = api_id_u8 wgpu_api"
  by (auto simp: wgpu_ops_def wgpu_op_values wgpu_api_def opcode_api_def)

lemma wgpu_served: "opc \<in> set wgpu_ops \<Longrightarrow> fst (wgpu_handle opc req_id [] b) \<noteq> Inl (UnknownOpcode opc)"
  by (auto simp: wgpu_ops_def wgpu_arm_defs wire_eval case_prod_beta Let_def)

interpretation wgpu: backend wgpu_api wgpu_ops wgpu_handle wgpu_new wgpu_invar
proof
  show "wgpu_invar wgpu_new" by (rule wgpu_new_ok)
  show "arm_ok wgpu_invar (\<lambda>opc body b. wgpu_handle opc req_id body b)" for req_id by (rule wgpu_handle_ok)
qed (simp_all add: wgpu_ops_api wgpu_served, simp_all add: wgpu_handle_def wgpu_ops_def)

lemma wgpu_buffers_past_arms:
  assumes "wgpu_invar b" "ht_past (wgpu_buffers b) q"
  shows
    "ht_past (wgpu_buffers (snd (wgpu_request_device opc body b))) q"
    "ht_past (wgpu_buffers (snd (wgpu_create_buffer opc body b))) q"
    "ht_past (wgpu_buffers (snd (wgpu_destroy_buffer opc body b))) q"
  using assms unfolding wgpu_request_device_def wgpu_create_buffer_def wgpu_destroy_buffer_def
  by (auto simp: wgpu_invar_def arm_simps intro: past_intros split: arm_splits)

lemma wgpu_buffers_past: "wgpu_invar b \<Longrightarrow> ht_past (wgpu_buffers b) q \<Longrightarrow> ht_past (wgpu_buffers (snd (wgpu_handle opc req_id body b))) q"
  by (simp add: wgpu_handle_def wgpu_buffers_past_arms)

lemma wgpu_destroy_buffer_frees_once: "frees_once wgpu_handle wgpu_new wgpu_op_DESTROY_BUFFER"
proof (rule wgpu.frees_onceI [where P = "\<lambda>body b. case wgpu_DestroyBufferRequest_decode body of
    Inl _ \<Rightarrow> False | Inr req \<Rightarrow> ht_past (wgpu_buffers b) (handle_key (wgpu_DestroyBufferRequest_buffer req))"], goal_cases)
  case (1 req_id body b out b1)
  then show ?case
    by (auto simp: wgpu_destroy_buffer_def wgpu_invar_def split: arm_splits prod.splits dest: remove_past)
next
  case (2 opc' req_id body body' b)
  then show ?case by (auto simp: wgpu_buffers_past split: sum.splits)
next
  case (3 req_id body b)
  then show ?case by (auto simp: wgpu_destroy_buffer_def wgpu_invar_def past_remove_None split: sum.splits)
qed

end
