(* ===== verification/Optix_Backend.thy ===== *)
theory Optix_Backend
  imports Backend Optix_Wire
begin

section \<open>The OptiX backend\<close>

text \<open>
  \<open>crates/graftx-server/src/optix_backend.rs\<close>: the state is one handle table per kind of object; each arm of
  the \<open>match\<close> in \<open>OptixBackend::handle\<close> is one definition.
\<close>

definition KIND_OPTIX_CONTEXT :: u8 where
  "KIND_OPTIX_CONTEXT = 80"

definition KIND_OPTIX_PIPELINE :: u8 where
  "KIND_OPTIX_PIPELINE = 81"

record OptixCtxState =
  OptixCtxState_created :: bool

record OptixPipelineState =
  OptixPipelineState_context :: Handle

record OptixBackend =
  optix_contexts :: "OptixCtxState handle_table"
  optix_pipelines :: "OptixPipelineState handle_table"

definition optix_new :: OptixBackend where
  "optix_new = \<lparr>optix_contexts = ht_new, optix_pipelines = ht_new\<rparr>"

definition optix_api :: api_id where
  "optix_api = OptiX"

subsection \<open>The arms\<close>

definition optix_context_create :: "OptixBackend arm" where
  "optix_context_create opc body self =
     (let (context, contexts') =
         ht_insert KIND_OPTIX_CONTEXT \<lparr>OptixCtxState_created = True\<rparr> (optix_contexts self) in
      (Inr (optix_ContextCreateResponse_encode \<lparr>optix_ContextCreateResponse_context = context\<rparr> []),
       self\<lparr>optix_contexts := contexts'\<rparr>))"

definition optix_pipeline_create :: "OptixBackend arm" where
  "optix_pipeline_create opc body self =
     (case optix_PipelineCreateRequest_decode body of
        Inl e \<Rightarrow> (Inl e, self)
      | Inr req \<Rightarrow>
          (if ht_get (optix_contexts self) (optix_PipelineCreateRequest_context req) = None
           then (Inl (UnknownOpcode opc), self)
           else (let (pipeline, pipelines') =
                   ht_insert KIND_OPTIX_PIPELINE \<lparr>OptixPipelineState_context = optix_PipelineCreateRequest_context req\<rparr> (optix_pipelines self) in
                (Inr (optix_PipelineCreateResponse_encode \<lparr>optix_PipelineCreateResponse_pipeline = pipeline\<rparr> []),
                 self\<lparr>optix_pipelines := pipelines'\<rparr>))))"

definition optix_destroy :: "OptixBackend arm" where
  "optix_destroy opc body self =
     (case optix_DestroyRequest_decode body of
        Inl e \<Rightarrow> (Inl e, self)
      | Inr req \<Rightarrow>
          (case ht_remove (optix_DestroyRequest_handle req) (optix_pipelines self) of
             (Some _, pipelines') \<Rightarrow> (Inr [], self\<lparr>optix_pipelines := pipelines'\<rparr>)
           | (None, pipelines') \<Rightarrow>
               let self = self\<lparr>optix_pipelines := pipelines'\<rparr> in
               (case ht_remove (optix_DestroyRequest_handle req) (optix_contexts self) of
                  (Some _, contexts') \<Rightarrow> (Inr [], self\<lparr>optix_contexts := contexts'\<rparr>)
                | (None, contexts') \<Rightarrow> (Inl (UnknownOpcode opc), self\<lparr>optix_contexts := contexts'\<rparr>))))"

definition optix_handle :: "OptixBackend handler" where
  "optix_handle opc req_id body self =
     (if opcode_api opc \<noteq> api_id_u8 OptiX then (Inl (UnknownOpcode opc), self)
      else if opc = optix_op_CONTEXT_CREATE then optix_context_create opc body self
      else if opc = optix_op_PIPELINE_CREATE then optix_pipeline_create opc body self
      else if opc = optix_op_DESTROY then optix_destroy opc body self
      else (Inl (UnknownOpcode opc), self))"

text \<open>The opcodes with an arm of their own.\<close>

definition optix_ops :: "u32 list" where
  "optix_ops =
     [optix_op_CONTEXT_CREATE, optix_op_PIPELINE_CREATE, optix_op_DESTROY]"

subsection \<open>The contract\<close>

definition optix_invar :: "OptixBackend \<Rightarrow> bool" where
  "optix_invar b \<longleftrightarrow>
     ht_inv (optix_contexts b) \<and> ht_inv (optix_pipelines b) \<and>
     ht.holds OptixCtxState_created (optix_contexts b)"

lemmas optix_decode_errors [decode_errors] =
  optix_PipelineCreateRequest_body.decode_error [THEN conjunct1]
  optix_DestroyRequest_body.decode_error [THEN conjunct1]

lemmas optix_reply_widths [reply_widths] =
  optix_ContextCreateResponse_body.encode_width
  optix_PipelineCreateResponse_body.encode_width

lemmas optix_arm_defs =
  optix_context_create_def
  optix_pipeline_create_def
  optix_destroy_def

lemma optix_context_create_ok: "arm_ok optix_invar optix_context_create"
  unfolding arm_ok_def optix_context_create_def
  by (auto simp: optix_invar_def arm_simps reply_widths intro: store_intros dest: decode_errors split: arm_splits)

lemma optix_pipeline_create_ok: "arm_ok optix_invar optix_pipeline_create"
  unfolding arm_ok_def optix_pipeline_create_def
  by (auto simp: optix_invar_def arm_simps reply_widths intro: store_intros dest: decode_errors split: arm_splits)

lemma optix_destroy_ok: "arm_ok optix_invar optix_destroy"
  unfolding arm_ok_def optix_destroy_def
  by (auto simp: optix_invar_def arm_simps reply_widths intro: store_intros dest: decode_errors split: arm_splits)

lemma optix_new_ok: "optix_invar optix_new"
  by (simp add: optix_invar_def optix_new_def store_intros)

lemma optix_handle_ok: "arm_ok optix_invar (\<lambda>opc body b. optix_handle opc req_id body b)"
  unfolding optix_handle_def
  by (intro arm_ok_if arm_ok_unknown optix_context_create_ok optix_pipeline_create_ok optix_destroy_ok)

lemma optix_dispatch [simp]:
  "optix_handle optix_op_CONTEXT_CREATE req_id body b = optix_context_create optix_op_CONTEXT_CREATE body b"
  "optix_handle optix_op_PIPELINE_CREATE req_id body b = optix_pipeline_create optix_op_PIPELINE_CREATE body b"
  "optix_handle optix_op_DESTROY req_id body b = optix_destroy optix_op_DESTROY body b"
  by (simp_all add: optix_handle_def optix_op_values opcode_api_def)

lemma optix_ops_api: "opc \<in> set optix_ops \<Longrightarrow> opcode_api opc = api_id_u8 optix_api"
  by (auto simp: optix_ops_def optix_op_values optix_api_def opcode_api_def)

lemma optix_served: "opc \<in> set optix_ops \<Longrightarrow> fst (optix_handle opc req_id [] b) \<noteq> Inl (UnknownOpcode opc)"
  by (auto simp: optix_ops_def optix_arm_defs wire_eval case_prod_beta Let_def)

interpretation optix: backend optix_api optix_ops optix_handle optix_new optix_invar
proof
  show "optix_invar optix_new" by (rule optix_new_ok)
  show "arm_ok optix_invar (\<lambda>opc body b. optix_handle opc req_id body b)" for req_id by (rule optix_handle_ok)
qed (simp_all add: optix_ops_api optix_served, simp_all add: optix_handle_def optix_ops_def)

end
