(* ===== verification/Sycl_Backend.thy ===== *)
theory Sycl_Backend
  imports Backend Sycl_Wire
begin

section \<open>The SYCL backend\<close>

text \<open>
  \<open>crates/graftx-server/src/sycl_backend.rs\<close>: the state is one handle table per kind of object; each arm of
  the \<open>match\<close> in \<open>SyclBackend::handle\<close> is one definition.
\<close>

definition KIND_SYCL_QUEUE :: u8 where
  "KIND_SYCL_QUEUE = 90"

definition KIND_SYCL_DEVICE_PTR :: u8 where
  "KIND_SYCL_DEVICE_PTR = 91"

record SyclQueueState =
  SyclQueueState_created :: bool

record SyclPtrState =
  SyclPtrState_queue :: Handle
  SyclPtrState_size :: u64

record SyclBackend =
  sycl_queues :: "SyclQueueState handle_table"
  sycl_ptrs :: "SyclPtrState handle_table"

definition sycl_new :: SyclBackend where
  "sycl_new = \<lparr>sycl_queues = ht_new, sycl_ptrs = ht_new\<rparr>"

definition sycl_api :: api_id where
  "sycl_api = Sycl"

subsection \<open>The arms\<close>

definition sycl_queue_create :: "SyclBackend arm" where
  "sycl_queue_create opc body self =
     (let (queue, queues') =
         ht_insert KIND_SYCL_QUEUE \<lparr>SyclQueueState_created = True\<rparr> (sycl_queues self) in
      (Inr (sycl_QueueCreateResponse_encode \<lparr>sycl_QueueCreateResponse_queue = queue\<rparr> []),
       self\<lparr>sycl_queues := queues'\<rparr>))"

definition sycl_malloc_device :: "SyclBackend arm" where
  "sycl_malloc_device opc body self =
     (case sycl_MallocDeviceRequest_decode body of
        Inl e \<Rightarrow> (Inl e, self)
      | Inr req \<Rightarrow>
          (if ht_get (sycl_queues self) (sycl_MallocDeviceRequest_queue req) = None
           then (Inl (UnknownOpcode opc), self)
           else (let (ptr, ptrs') =
                   ht_insert KIND_SYCL_DEVICE_PTR \<lparr>SyclPtrState_queue = sycl_MallocDeviceRequest_queue req, SyclPtrState_size = sycl_MallocDeviceRequest_size req\<rparr> (sycl_ptrs self) in
                (Inr (sycl_MallocDeviceResponse_encode \<lparr>sycl_MallocDeviceResponse_ptr = ptr\<rparr> []),
                 self\<lparr>sycl_ptrs := ptrs'\<rparr>))))"

definition sycl_free :: "SyclBackend arm" where
  "sycl_free opc body self =
     (case sycl_FreeRequest_decode body of
        Inl e \<Rightarrow> (Inl e, self)
      | Inr req \<Rightarrow>
          (case ht_remove (sycl_FreeRequest_ptr req) (sycl_ptrs self) of
             (None, ptrs') \<Rightarrow> (Inl (UnknownOpcode opc), self\<lparr>sycl_ptrs := ptrs'\<rparr>)
           | (Some _, ptrs') \<Rightarrow> (Inr [], self\<lparr>sycl_ptrs := ptrs'\<rparr>)))"

definition sycl_handle :: "SyclBackend handler" where
  "sycl_handle opc req_id body self =
     (if opcode_api opc \<noteq> api_id_u8 Sycl then (Inl (UnknownOpcode opc), self)
      else if opc = sycl_op_QUEUE_CREATE then sycl_queue_create opc body self
      else if opc = sycl_op_MALLOC_DEVICE then sycl_malloc_device opc body self
      else if opc = sycl_op_FREE then sycl_free opc body self
      else (Inl (UnknownOpcode opc), self))"

text \<open>The opcodes with an arm of their own.\<close>

definition sycl_ops :: "u32 list" where
  "sycl_ops =
     [sycl_op_QUEUE_CREATE, sycl_op_MALLOC_DEVICE, sycl_op_FREE]"

subsection \<open>The contract\<close>

definition sycl_invar :: "SyclBackend \<Rightarrow> bool" where
  "sycl_invar b \<longleftrightarrow>
     ht_inv (sycl_queues b) \<and> ht_inv (sycl_ptrs b) \<and>
     linked SyclPtrState_queue (sycl_queues b) (sycl_ptrs b) \<and>
     ht.holds SyclQueueState_created (sycl_queues b)"

lemmas sycl_decode_errors [decode_errors] =
  sycl_MallocDeviceRequest_body.decode_error [THEN conjunct1]
  sycl_FreeRequest_body.decode_error [THEN conjunct1]

lemmas sycl_reply_widths [reply_widths] =
  sycl_QueueCreateResponse_body.encode_width
  sycl_MallocDeviceResponse_body.encode_width

lemmas sycl_arm_defs =
  sycl_queue_create_def
  sycl_malloc_device_def
  sycl_free_def

lemma sycl_queue_create_ok: "arm_ok sycl_invar sycl_queue_create"
  unfolding arm_ok_def sycl_queue_create_def
  by (auto simp: sycl_invar_def arm_simps reply_widths intro: store_intros dest: decode_errors split: arm_splits)

lemma sycl_malloc_device_ok: "arm_ok sycl_invar sycl_malloc_device"
  unfolding arm_ok_def sycl_malloc_device_def
  by (auto simp: sycl_invar_def arm_simps reply_widths intro: store_intros dest: decode_errors split: arm_splits)

lemma sycl_free_ok: "arm_ok sycl_invar sycl_free"
  unfolding arm_ok_def sycl_free_def
  by (auto simp: sycl_invar_def arm_simps reply_widths intro: store_intros dest: decode_errors split: arm_splits)

lemma sycl_new_ok: "sycl_invar sycl_new"
  by (simp add: sycl_invar_def sycl_new_def store_intros)

lemma sycl_handle_ok: "arm_ok sycl_invar (\<lambda>opc body b. sycl_handle opc req_id body b)"
  unfolding sycl_handle_def
  by (intro arm_ok_if arm_ok_unknown sycl_queue_create_ok sycl_malloc_device_ok sycl_free_ok)

lemma sycl_dispatch [simp]:
  "sycl_handle sycl_op_QUEUE_CREATE req_id body b = sycl_queue_create sycl_op_QUEUE_CREATE body b"
  "sycl_handle sycl_op_MALLOC_DEVICE req_id body b = sycl_malloc_device sycl_op_MALLOC_DEVICE body b"
  "sycl_handle sycl_op_FREE req_id body b = sycl_free sycl_op_FREE body b"
  by (simp_all add: sycl_handle_def sycl_op_values opcode_api_def)

lemma sycl_ops_api: "opc \<in> set sycl_ops \<Longrightarrow> opcode_api opc = api_id_u8 sycl_api"
  by (auto simp: sycl_ops_def sycl_op_values sycl_api_def opcode_api_def)

lemma sycl_served: "opc \<in> set sycl_ops \<Longrightarrow> fst (sycl_handle opc req_id [] b) \<noteq> Inl (UnknownOpcode opc)"
  by (auto simp: sycl_ops_def sycl_arm_defs wire_eval case_prod_beta Let_def)

interpretation sycl: backend sycl_api sycl_ops sycl_handle sycl_new sycl_invar
proof
  show "sycl_invar sycl_new" by (rule sycl_new_ok)
  show "arm_ok sycl_invar (\<lambda>opc body b. sycl_handle opc req_id body b)" for req_id by (rule sycl_handle_ok)
qed (simp_all add: sycl_ops_api sycl_served, simp_all add: sycl_handle_def sycl_ops_def)

lemma sycl_ptrs_past_arms:
  assumes "sycl_invar b" "ht_past (sycl_ptrs b) q"
  shows
    "ht_past (sycl_ptrs (snd (sycl_queue_create opc body b))) q"
    "ht_past (sycl_ptrs (snd (sycl_malloc_device opc body b))) q"
    "ht_past (sycl_ptrs (snd (sycl_free opc body b))) q"
  using assms unfolding sycl_queue_create_def sycl_malloc_device_def sycl_free_def
  by (auto simp: sycl_invar_def arm_simps intro: past_intros split: arm_splits)

lemma sycl_ptrs_past: "sycl_invar b \<Longrightarrow> ht_past (sycl_ptrs b) q \<Longrightarrow> ht_past (sycl_ptrs (snd (sycl_handle opc req_id body b))) q"
  by (simp add: sycl_handle_def sycl_ptrs_past_arms)

lemma sycl_free_frees_once: "frees_once sycl_handle sycl_new sycl_op_FREE"
proof (rule sycl.frees_onceI [where P = "\<lambda>body b. case sycl_FreeRequest_decode body of
    Inl _ \<Rightarrow> False | Inr req \<Rightarrow> ht_past (sycl_ptrs b) (handle_key (sycl_FreeRequest_ptr req))"], goal_cases)
  case (1 req_id body b out b1)
  then show ?case
    by (auto simp: sycl_free_def sycl_invar_def split: arm_splits prod.splits dest: remove_past)
next
  case (2 opc' req_id body body' b)
  then show ?case by (auto simp: sycl_ptrs_past split: sum.splits)
next
  case (3 req_id body b)
  then show ?case by (auto simp: sycl_free_def sycl_invar_def past_remove_None split: sum.splits)
qed

end
