(* ===== verification/Amf_Backend.thy ===== *)
theory Amf_Backend
  imports Backend Amf_Wire
begin

section \<open>The AMF backend\<close>

text \<open>
  \<open>crates/graftx-server/src/amf_backend.rs\<close>: the state is one handle table per kind of object; each arm of
  the \<open>match\<close> in \<open>AmfBackend::handle\<close> is one definition.
\<close>

definition KIND_AMF_ENCODER :: u8 where
  "KIND_AMF_ENCODER = 100"

record AmfEncoderState =
  AmfEncoderState_codec :: u32
  AmfEncoderState_width :: u32
  AmfEncoderState_height :: u32
  AmfEncoderState_frames :: u32

record AmfBackend =
  amf_encoders :: "AmfEncoderState handle_table"

definition amf_new :: AmfBackend where
  "amf_new = \<lparr>amf_encoders = ht_new\<rparr>"

definition amf_api :: api_id where
  "amf_api = Amf"

subsection \<open>The arms\<close>

definition amf_create_encoder :: "AmfBackend arm" where
  "amf_create_encoder opc body self =
     (case amf_CreateEncoderRequest_decode body of
        Inl e \<Rightarrow> (Inl e, self)
      | Inr req \<Rightarrow>
          (let (encoder, encoders') =
              ht_insert KIND_AMF_ENCODER 
               \<lparr>AmfEncoderState_codec = amf_CreateEncoderRequest_codec req, AmfEncoderState_width = amf_CreateEncoderRequest_width req, AmfEncoderState_height = amf_CreateEncoderRequest_height req, AmfEncoderState_frames = 0\<rparr>
               (amf_encoders self) in
           (Inr (amf_CreateEncoderResponse_encode \<lparr>amf_CreateEncoderResponse_encoder = encoder\<rparr> []),
            self\<lparr>amf_encoders := encoders'\<rparr>)))"

definition amf_encode_frame :: "AmfBackend arm" where
  "amf_encode_frame opc body self =
     (case amf_EncodeFrameRequest_decode body of
        Inl e \<Rightarrow> (Inl e, self)
      | Inr req \<Rightarrow>
          (case ht_get_mut (amf_encoders self) (amf_EncodeFrameRequest_encoder req) of
             None \<Rightarrow> (Inl (UnknownOpcode opc), self)
           | Some (state, write) \<Rightarrow>
               (Inr (amf_EncodeFrameResponse_encode
                  \<lparr>amf_EncodeFrameResponse_packet_len = amf_EncodeFrameRequest_frame_len req\<rparr> []),
                self\<lparr>amf_encoders := write (state\<lparr>AmfEncoderState_frames := saturating_add (AmfEncoderState_frames state) 1\<rparr>)\<rparr>)))"

definition amf_destroy_encoder :: "AmfBackend arm" where
  "amf_destroy_encoder opc body self =
     (case amf_DestroyEncoderRequest_decode body of
        Inl e \<Rightarrow> (Inl e, self)
      | Inr req \<Rightarrow>
          (case ht_remove (amf_DestroyEncoderRequest_encoder req) (amf_encoders self) of
             (None, encoders') \<Rightarrow> (Inl (UnknownOpcode opc), self\<lparr>amf_encoders := encoders'\<rparr>)
           | (Some _, encoders') \<Rightarrow> (Inr [], self\<lparr>amf_encoders := encoders'\<rparr>)))"

definition amf_handle :: "AmfBackend handler" where
  "amf_handle opc req_id body self =
     (if opcode_api opc \<noteq> api_id_u8 Amf then (Inl (UnknownOpcode opc), self)
      else if opc = amf_op_CREATE_ENCODER then amf_create_encoder opc body self
      else if opc = amf_op_ENCODE_FRAME then amf_encode_frame opc body self
      else if opc = amf_op_DESTROY_ENCODER then amf_destroy_encoder opc body self
      else (Inl (UnknownOpcode opc), self))"

text \<open>The opcodes with an arm of their own.\<close>

definition amf_ops :: "u32 list" where
  "amf_ops =
     [amf_op_CREATE_ENCODER, amf_op_ENCODE_FRAME, amf_op_DESTROY_ENCODER]"

subsection \<open>The contract\<close>

definition amf_invar :: "AmfBackend \<Rightarrow> bool" where
  "amf_invar b \<longleftrightarrow>
     ht_inv (amf_encoders b)"

lemmas amf_decode_errors [decode_errors] =
  amf_CreateEncoderRequest_body.decode_error [THEN conjunct1]
  amf_EncodeFrameRequest_body.decode_error [THEN conjunct1]
  amf_DestroyEncoderRequest_body.decode_error [THEN conjunct1]

lemmas amf_reply_widths [reply_widths] =
  amf_CreateEncoderResponse_body.encode_width
  amf_EncodeFrameResponse_body.encode_width

lemmas amf_arm_defs =
  amf_create_encoder_def
  amf_encode_frame_def
  amf_destroy_encoder_def

lemma amf_create_encoder_ok: "arm_ok amf_invar amf_create_encoder"
  unfolding arm_ok_def amf_create_encoder_def
  by (auto simp: amf_invar_def arm_simps reply_widths intro: store_intros dest: decode_errors split: arm_splits)

lemma amf_encode_frame_ok: "arm_ok amf_invar amf_encode_frame"
  unfolding arm_ok_def amf_encode_frame_def
  by (auto simp: amf_invar_def arm_simps reply_widths intro: store_intros dest: decode_errors split: arm_splits)

lemma amf_destroy_encoder_ok: "arm_ok amf_invar amf_destroy_encoder"
  unfolding arm_ok_def amf_destroy_encoder_def
  by (auto simp: amf_invar_def arm_simps reply_widths intro: store_intros dest: decode_errors split: arm_splits)

lemma amf_new_ok: "amf_invar amf_new"
  by (simp add: amf_invar_def amf_new_def store_intros)

lemma amf_handle_ok: "arm_ok amf_invar (\<lambda>opc body b. amf_handle opc req_id body b)"
  unfolding amf_handle_def
  by (intro arm_ok_if arm_ok_unknown amf_create_encoder_ok amf_encode_frame_ok amf_destroy_encoder_ok)

lemma amf_dispatch [simp]:
  "amf_handle amf_op_CREATE_ENCODER req_id body b = amf_create_encoder amf_op_CREATE_ENCODER body b"
  "amf_handle amf_op_ENCODE_FRAME req_id body b = amf_encode_frame amf_op_ENCODE_FRAME body b"
  "amf_handle amf_op_DESTROY_ENCODER req_id body b = amf_destroy_encoder amf_op_DESTROY_ENCODER body b"
  by (simp_all add: amf_handle_def amf_op_values opcode_api_def)

lemma amf_ops_api: "opc \<in> set amf_ops \<Longrightarrow> opcode_api opc = api_id_u8 amf_api"
  by (auto simp: amf_ops_def amf_op_values amf_api_def opcode_api_def)

lemma amf_served: "opc \<in> set amf_ops \<Longrightarrow> fst (amf_handle opc req_id [] b) \<noteq> Inl (UnknownOpcode opc)"
  by (auto simp: amf_ops_def amf_arm_defs wire_eval case_prod_beta Let_def)

interpretation amf: backend amf_api amf_ops amf_handle amf_new amf_invar
proof
  show "amf_invar amf_new" by (rule amf_new_ok)
  show "arm_ok amf_invar (\<lambda>opc body b. amf_handle opc req_id body b)" for req_id by (rule amf_handle_ok)
qed (simp_all add: amf_ops_api amf_served, simp_all add: amf_handle_def amf_ops_def)

lemma amf_encoders_past_arms:
  assumes "amf_invar b" "ht_past (amf_encoders b) q"
  shows
    "ht_past (amf_encoders (snd (amf_create_encoder opc body b))) q"
    "ht_past (amf_encoders (snd (amf_encode_frame opc body b))) q"
    "ht_past (amf_encoders (snd (amf_destroy_encoder opc body b))) q"
  using assms unfolding amf_create_encoder_def amf_encode_frame_def amf_destroy_encoder_def
  by (auto simp: amf_invar_def arm_simps intro: past_intros split: arm_splits)

lemma amf_encoders_past: "amf_invar b \<Longrightarrow> ht_past (amf_encoders b) q \<Longrightarrow> ht_past (amf_encoders (snd (amf_handle opc req_id body b))) q"
  by (simp add: amf_handle_def amf_encoders_past_arms)

lemma amf_destroy_encoder_frees_once: "frees_once amf_handle amf_new amf_op_DESTROY_ENCODER"
proof (rule amf.frees_onceI [where P = "\<lambda>body b. case amf_DestroyEncoderRequest_decode body of
    Inl _ \<Rightarrow> False | Inr req \<Rightarrow> ht_past (amf_encoders b) (handle_key (amf_DestroyEncoderRequest_encoder req))"], goal_cases)
  case (1 req_id body b out b1)
  then show ?case
    by (auto simp: amf_destroy_encoder_def amf_invar_def split: arm_splits prod.splits dest: remove_past)
next
  case (2 opc' req_id body body' b)
  then show ?case by (auto simp: amf_encoders_past split: sum.splits)
next
  case (3 req_id body b)
  then show ?case by (auto simp: amf_destroy_encoder_def amf_invar_def past_remove_None split: sum.splits)
qed

end
