(* ===== verification/Backend_Spec.thy ===== *)
theory Backend_Spec
  imports Vk_Backend Gl_Backend Cuda_Backend Hip_Backend Cl_Backend L0_Backend Video_Backend
    Wgpu_Backend Optix_Backend Sycl_Backend Amf_Backend
begin

section \<open>What the backends promise\<close>

text \<open>
  The properties of the eleven services of \<open>crates/graftx-server/src/*_backend.rs\<close>, over arbitrary
  sequences of requests.
\<close>

text \<open>C8. Each of the eleven services keeps the service contract: its invariant holds after any requests, a
  failed request changes nothing and answers with one of two errors, exactly the opcodes of its match arms,
  all of its namespace, reach an arm and every other one is refused, replies are at most 12 bytes, the
  correlation id plays no part.\<close>

theorem backends_contract:
  "service_contract vk_api vk_ops vk_handle vk_new vk_invar \<and>
    service_contract gl_api gl_ops gl_handle gl_new gl_invar \<and>
    service_contract cuda_api cuda_ops cuda_handle cuda_new cuda_invar \<and>
    service_contract hip_api hip_ops hip_handle hip_new hip_invar \<and>
    service_contract cl_api cl_ops cl_handle cl_new cl_invar \<and>
    service_contract l0_api l0_ops l0_handle l0_new l0_invar \<and>
    service_contract video_api video_ops video_handle video_new video_invar \<and>
    service_contract wgpu_api wgpu_ops wgpu_handle wgpu_new wgpu_invar \<and>
    service_contract optix_api optix_ops optix_handle optix_new optix_invar \<and>
    service_contract sycl_api sycl_ops sycl_handle sycl_new sycl_invar \<and>
    service_contract amf_api amf_ops amf_handle amf_new amf_invar"
  by (intro conjI vk.contract gl.contract cuda.contract hip.contract cl.contract l0.contract video.contract wgpu.contract optix.contract sycl.contract amf.contract)

subsection \<open>Parents that can be destroyed\<close>

text \<open>
  A command pool can be destroyed under its command buffers, a memory under the buffers bound to it, an OptiX
  context under its pipelines. Their handles stay in the objects; each was a handle of a live parent when the
  object took it.
\<close>

definition bound_memory :: "BufferState \<Rightarrow> Handle list" where
  "bound_memory s = (case BufferState_bound s of None \<Rightarrow> [] | Some (m, _) \<Rightarrow> [m])"

lemma vk_pools_arms:
  assumes "vk_invar b" "ht.holds (\<lambda>w. Q (CommandBufferState_pool w)) (vk_command_buffers b)"
    "\<And>p. ht_get (vk_command_pools b) p \<noteq> None \<Longrightarrow> Q p"
  shows
    "ht.holds (\<lambda>w. Q (CommandBufferState_pool w)) (vk_command_buffers (snd (vk_create_instance opc body b)))"
    "ht.holds (\<lambda>w. Q (CommandBufferState_pool w)) (vk_command_buffers (snd (vk_enumerate_physical_devices opc body b)))"
    "ht.holds (\<lambda>w. Q (CommandBufferState_pool w)) (vk_command_buffers (snd (vk_create_device opc body b)))"
    "ht.holds (\<lambda>w. Q (CommandBufferState_pool w)) (vk_command_buffers (snd (vk_get_device_queue opc body b)))"
    "ht.holds (\<lambda>w. Q (CommandBufferState_pool w)) (vk_command_buffers (snd (vk_allocate_memory opc body b)))"
    "ht.holds (\<lambda>w. Q (CommandBufferState_pool w)) (vk_command_buffers (snd (vk_create_buffer opc body b)))"
    "ht.holds (\<lambda>w. Q (CommandBufferState_pool w)) (vk_command_buffers (snd (vk_bind_buffer_memory opc body b)))"
    "ht.holds (\<lambda>w. Q (CommandBufferState_pool w)) (vk_command_buffers (snd (vk_create_command_pool opc body b)))"
    "ht.holds (\<lambda>w. Q (CommandBufferState_pool w)) (vk_command_buffers (snd (vk_allocate_command_buffer opc body b)))"
    "ht.holds (\<lambda>w. Q (CommandBufferState_pool w)) (vk_command_buffers (snd (vk_queue_submit opc body b)))"
    "ht.holds (\<lambda>w. Q (CommandBufferState_pool w)) (vk_command_buffers (snd (vk_cmd_copy_buffer opc body b)))"
    "ht.holds (\<lambda>w. Q (CommandBufferState_pool w)) (vk_command_buffers (snd (vk_cmd_draw opc body b)))"
    "ht.holds (\<lambda>w. Q (CommandBufferState_pool w)) (vk_command_buffers (snd (vk_destroy_buffer opc body b)))"
    "ht.holds (\<lambda>w. Q (CommandBufferState_pool w)) (vk_command_buffers (snd (vk_free_memory opc body b)))"
    "ht.holds (\<lambda>w. Q (CommandBufferState_pool w)) (vk_command_buffers (snd (vk_destroy_command_pool opc body b)))"
  using assms unfolding vk_arm_defs
  by (auto simp: vk_invar_def arm_simps intro!: ht.holds_insert elim: holds_update split: arm_splits)

lemma vk_pools_step:
  assumes "vk_invar b" "ht.holds (\<lambda>w. \<forall>p\<in>set [CommandBufferState_pool w]. Q p) (vk_command_buffers b)" "\<And>p. ht_get (vk_command_pools b) p \<noteq> None \<Longrightarrow> Q p"
  shows "ht.holds (\<lambda>w. \<forall>p\<in>set [CommandBufferState_pool w]. Q p) (vk_command_buffers (snd (vk_handle opc req_id body b)))"
proof -
  have parents: "ht.holds (\<lambda>w. Q (CommandBufferState_pool w)) (vk_command_buffers b)" using assms(2) by simp
  then show ?thesis by (simp add: vk_handle_def vk_pools_arms [OF assms(1) parents assms(3)])
qed

lemma vk_pools_issued: "issued vk_handle vk_new reqs (\<lambda>s. [CommandBufferState_pool s]) vk_command_pools vk_command_buffers"
  by (rule vk.issuedI) (simp add: vk_new_def, rule vk_pools_step)

lemma vk_memories_arms:
  assumes "vk_invar b" "ht.holds (\<lambda>w. \<forall>p\<in>set (bound_memory w). Q p) (vk_buffers b)"
    "\<And>p. ht_get (vk_memories b) p \<noteq> None \<Longrightarrow> Q p"
  shows
    "ht.holds (\<lambda>w. \<forall>p\<in>set (bound_memory w). Q p) (vk_buffers (snd (vk_create_instance opc body b)))"
    "ht.holds (\<lambda>w. \<forall>p\<in>set (bound_memory w). Q p) (vk_buffers (snd (vk_enumerate_physical_devices opc body b)))"
    "ht.holds (\<lambda>w. \<forall>p\<in>set (bound_memory w). Q p) (vk_buffers (snd (vk_create_device opc body b)))"
    "ht.holds (\<lambda>w. \<forall>p\<in>set (bound_memory w). Q p) (vk_buffers (snd (vk_get_device_queue opc body b)))"
    "ht.holds (\<lambda>w. \<forall>p\<in>set (bound_memory w). Q p) (vk_buffers (snd (vk_allocate_memory opc body b)))"
    "ht.holds (\<lambda>w. \<forall>p\<in>set (bound_memory w). Q p) (vk_buffers (snd (vk_create_buffer opc body b)))"
    "ht.holds (\<lambda>w. \<forall>p\<in>set (bound_memory w). Q p) (vk_buffers (snd (vk_bind_buffer_memory opc body b)))"
    "ht.holds (\<lambda>w. \<forall>p\<in>set (bound_memory w). Q p) (vk_buffers (snd (vk_create_command_pool opc body b)))"
    "ht.holds (\<lambda>w. \<forall>p\<in>set (bound_memory w). Q p) (vk_buffers (snd (vk_allocate_command_buffer opc body b)))"
    "ht.holds (\<lambda>w. \<forall>p\<in>set (bound_memory w). Q p) (vk_buffers (snd (vk_queue_submit opc body b)))"
    "ht.holds (\<lambda>w. \<forall>p\<in>set (bound_memory w). Q p) (vk_buffers (snd (vk_cmd_copy_buffer opc body b)))"
    "ht.holds (\<lambda>w. \<forall>p\<in>set (bound_memory w). Q p) (vk_buffers (snd (vk_cmd_draw opc body b)))"
    "ht.holds (\<lambda>w. \<forall>p\<in>set (bound_memory w). Q p) (vk_buffers (snd (vk_destroy_buffer opc body b)))"
    "ht.holds (\<lambda>w. \<forall>p\<in>set (bound_memory w). Q p) (vk_buffers (snd (vk_free_memory opc body b)))"
    "ht.holds (\<lambda>w. \<forall>p\<in>set (bound_memory w). Q p) (vk_buffers (snd (vk_destroy_command_pool opc body b)))"
  using assms unfolding vk_arm_defs
  by (auto simp: vk_invar_def arm_simps bound_memory_def intro!: ht.holds_insert ht.holds_remove intro: ht.holds_write split: arm_splits)

lemma vk_memories_step:
  assumes "vk_invar b" "ht.holds (\<lambda>w. \<forall>p\<in>set (bound_memory w). Q p) (vk_buffers b)" "\<And>p. ht_get (vk_memories b) p \<noteq> None \<Longrightarrow> Q p"
  shows "ht.holds (\<lambda>w. \<forall>p\<in>set (bound_memory w). Q p) (vk_buffers (snd (vk_handle opc req_id body b)))"
  using assms(2) by (simp add: vk_handle_def vk_memories_arms [OF assms])

lemma vk_memories_issued: "issued vk_handle vk_new reqs bound_memory vk_memories vk_buffers"
  by (rule vk.issuedI) (simp add: vk_new_def, rule vk_memories_step)

lemma optix_contexts_arms:
  assumes "optix_invar b" "ht.holds (\<lambda>w. Q (OptixPipelineState_context w)) (optix_pipelines b)"
    "\<And>p. ht_get (optix_contexts b) p \<noteq> None \<Longrightarrow> Q p"
  shows
    "ht.holds (\<lambda>w. Q (OptixPipelineState_context w)) (optix_pipelines (snd (optix_context_create opc body b)))"
    "ht.holds (\<lambda>w. Q (OptixPipelineState_context w)) (optix_pipelines (snd (optix_pipeline_create opc body b)))"
    "ht.holds (\<lambda>w. Q (OptixPipelineState_context w)) (optix_pipelines (snd (optix_destroy opc body b)))"
  using assms unfolding optix_arm_defs
  by (auto simp: optix_invar_def arm_simps intro!: ht.holds_insert ht.holds_remove split: arm_splits)

lemma optix_contexts_step:
  assumes "optix_invar b" "ht.holds (\<lambda>w. \<forall>p\<in>set [OptixPipelineState_context w]. Q p) (optix_pipelines b)" "\<And>p. ht_get (optix_contexts b) p \<noteq> None \<Longrightarrow> Q p"
  shows "ht.holds (\<lambda>w. \<forall>p\<in>set [OptixPipelineState_context w]. Q p) (optix_pipelines (snd (optix_handle opc req_id body b)))"
proof -
  have parents: "ht.holds (\<lambda>w. Q (OptixPipelineState_context w)) (optix_pipelines b)" using assms(2) by simp
  then show ?thesis by (simp add: optix_handle_def optix_contexts_arms [OF assms(1) parents assms(3)])
qed

lemma optix_contexts_issued:
  "issued optix_handle optix_new reqs (\<lambda>s. [OptixPipelineState_context s]) optix_contexts optix_pipelines"
  by (rule optix.issuedI) (simp add: optix_new_def, rule optix_contexts_step)

text \<open>C9. No object names a parent its service never had. After any requests, the parent recorded by every
  Vulkan physical device, device, queue, memory, buffer and command pool, every OpenGL, OpenCL and WebGPU
  buffer, and every CUDA, Level Zero and SYCL allocation resolves in the table of the parents; there is no
  call that destroys these parents. The parents that can be destroyed first, the pool of a Vulkan command
  buffer, the memory a Vulkan buffer is bound to and the context of an OptiX pipeline, resolved after some
  of the requests. Resolving compares slot and generation, not the kind byte.\<close>

theorem backends_no_orphans:
  "(let b = run_requests vk_handle reqs vk_new in
      linked PhysDevState_parent (vk_instances b) (vk_physical_devices b) \<and>
      linked DeviceState_physical_device (vk_physical_devices b) (vk_devices b) \<and>
      linked QueueState_device (vk_devices b) (vk_queues b) \<and>
      linked MemoryState_device (vk_devices b) (vk_memories b) \<and>
      linked BufferState_device (vk_devices b) (vk_buffers b) \<and>
      linked CommandPoolState_device (vk_devices b) (vk_command_pools b)) \<and>
   issued vk_handle vk_new reqs (\<lambda>s. [CommandBufferState_pool s]) vk_command_pools vk_command_buffers \<and>
   issued vk_handle vk_new reqs bound_memory vk_memories vk_buffers \<and>
   issued optix_handle optix_new reqs (\<lambda>s. [OptixPipelineState_context s]) optix_contexts optix_pipelines \<and>
   (let b = run_requests gl_handle reqs gl_new in
      linked BufState_context (gl_contexts b) (gl_buffers b)) \<and>
   (let b = run_requests cuda_handle reqs cuda_new in
      linked CudaMemState_context (cuda_contexts b) (cuda_allocations b)) \<and>
   (let b = run_requests cl_handle reqs cl_new in
      linked ClBufState_context (cl_contexts b) (cl_buffers b)) \<and>
   (let b = run_requests l0_handle reqs l0_new in
      linked L0MemState_context (l0_contexts b) (l0_mems b)) \<and>
   (let b = run_requests wgpu_handle reqs wgpu_new in
      linked WgpuBufState_device (wgpu_devices b) (wgpu_buffers b)) \<and>
   (let b = run_requests sycl_handle reqs sycl_new in
      linked SyclPtrState_queue (sycl_queues b) (sycl_ptrs b))"
  using vk.invar_run_new [of reqs] gl.invar_run_new [of reqs] cuda.invar_run_new [of reqs] cl.invar_run_new [of reqs] l0.invar_run_new [of reqs] wgpu.invar_run_new [of reqs] sycl.invar_run_new [of reqs]
    vk_pools_issued vk_memories_issued optix_contexts_issued
  by (simp add: Let_def vk_invar_def gl_invar_def cuda_invar_def cl_invar_def l0_invar_def wgpu_invar_def sycl_invar_def)

subsection \<open>OptiX: one destroy call for two families\<close>

text \<open>\<open>DESTROY\<close> tries the pipelines first and a lookup ignores the kind byte, so destroying a context
  whose slot and generation also name a live pipeline frees the pipeline and leaves the context.\<close>

theorem optix_destroy_confuses_families:
  assumes "ht_get (optix_pipelines b) c = Some p" "ht_get (optix_contexts b) c = Some x"
  shows "fst (optix_handle optix_op_DESTROY req_id (optix_DestroyRequest_encode \<lparr>optix_DestroyRequest_handle = c\<rparr> []) b) = Inr [] \<and>
    (let b' = snd (optix_handle optix_op_DESTROY req_id (optix_DestroyRequest_encode \<lparr>optix_DestroyRequest_handle = c\<rparr> []) b) in
       ht_get (optix_pipelines b') c = None \<and> ht_get (optix_contexts b') c = Some x)"
proof -
  obtain t where t: "ht_remove c (optix_pipelines b) = (Some p, t)"
    using ht_remove_get [of c "optix_pipelines b"] assms(1) by (cases "ht_remove c (optix_pipelines b)") simp
  then have "ht_get t c = None"
    using ht.remove_gone [of c "optix_pipelines b"] by simp
  then show ?thesis
    using assms(2) by (simp add: optix_destroy_def optix_DestroyRequest_body.decode_roundtrip t)
qed

text \<open>The first object of a table.\<close>

definition first_of :: "u8 \<Rightarrow> Handle" where
  "first_of kind = handle_new kind 0 0"

definition optix_setup :: "request list" where
  "optix_setup = [(optix_op_CONTEXT_CREATE, 1, []),
     (optix_op_PIPELINE_CREATE, 2, optix_PipelineCreateRequest_encode
        \<lparr>optix_PipelineCreateRequest_context = first_of KIND_OPTIX_CONTEXT\<rparr> [])]"

lemma optix_setup_state:
  "ht_get (optix_pipelines (run_requests optix_handle optix_setup optix_new)) (first_of KIND_OPTIX_CONTEXT) =
     Some \<lparr>OptixPipelineState_context = first_of KIND_OPTIX_CONTEXT\<rparr>"
  "ht_get (optix_contexts (run_requests optix_handle optix_setup optix_new)) (first_of KIND_OPTIX_CONTEXT) =
     Some \<lparr>OptixCtxState_created = True\<rparr>"
  by (simp_all add: optix_setup_def optix_new_def optix_arm_defs ht_insert_def ht_get_def slots_get_def ht_new_def first_of_def
      optix_PipelineCreateRequest_body.decode_roundtrip)

lemma optix_destroy_confuses_families_witness:
  "fst (optix_handle optix_op_DESTROY 3
     (optix_DestroyRequest_encode \<lparr>optix_DestroyRequest_handle = first_of KIND_OPTIX_CONTEXT\<rparr> [])
     (run_requests optix_handle optix_setup optix_new)) = Inr []"
  using optix_destroy_confuses_families [OF optix_setup_state] by blast

lemma optix_destroy_not_once: "\<not> frees_once optix_handle optix_new optix_op_DESTROY"
proof
  let ?c = "first_of KIND_OPTIX_CONTEXT"
  let ?body = "optix_DestroyRequest_encode \<lparr>optix_DestroyRequest_handle = ?c\<rparr> []"
  obtain b where b: "optix_handle optix_op_DESTROY 3 ?body (run_requests optix_handle optix_setup optix_new) = (Inr [], b)"
    "ht_get (optix_pipelines b) ?c = None" "ht_get (optix_contexts b) ?c \<noteq> None"
    using optix_destroy_confuses_families [OF optix_setup_state, of 3] by (metis (no_types, lifting) option.distinct(1) prod.collapse)
  assume "frees_once optix_handle optix_new optix_op_DESTROY"
  then have "fst (optix_handle optix_op_DESTROY 4 ?body (run_requests optix_handle [] b)) = Inl (UnknownOpcode optix_op_DESTROY)"
    unfolding frees_once_def using b(1) by blast
  moreover have "fst (ht_remove ?c (optix_pipelines b)) = None" "fst (ht_remove ?c (optix_contexts b)) \<noteq> None"
    using b(2,3) by (simp_all add: ht_remove_get)
  ultimately show False
    by (auto simp: optix_destroy_def optix_DestroyRequest_body.decode_roundtrip Let_def split: prod.splits option.splits)
qed

text \<open>A \<open>DESTROY\<close> of OptiX removes a pipeline or a context: what the handle in a body can still free.\<close>

definition optix_left :: "bytes \<Rightarrow> OptixBackend \<Rightarrow> nat" where
  "optix_left body b = (case optix_DestroyRequest_decode body of Inl _ \<Rightarrow> 0 | Inr req \<Rightarrow>
     (if ht_past (optix_pipelines b) (handle_key (optix_DestroyRequest_handle req)) then 0 else 1) +
     (if ht_past (optix_contexts b) (handle_key (optix_DestroyRequest_handle req)) then 0 else 1))"

lemma optix_past_arms:
  assumes "optix_invar b"
  shows
    "ht_past (optix_pipelines b) q \<Longrightarrow> ht_past (optix_pipelines (snd (optix_handle opc req_id body b))) q"
    "ht_past (optix_contexts b) q \<Longrightarrow> ht_past (optix_contexts (snd (optix_handle opc req_id body b))) q"
  using assms unfolding optix_handle_def optix_arm_defs
  by (auto simp: optix_invar_def arm_simps intro: past_intros split: arm_splits)

lemma optix_destroy_frees_twice: "frees_at_most 2 optix_handle optix_new optix_op_DESTROY"
proof (rule optix.frees_at_mostI [where left = optix_left], goal_cases)
  case (1 opc' req_id body' body b)
  then show ?case using optix_past_arms [OF 1] by (auto simp: optix_left_def split: sum.splits)
next
  case (2 req_id body b out b')
  then show ?case
    by (auto simp: optix_left_def optix_destroy_def optix_invar_def past_remove_None Let_def
        split: arm_splits prod.splits dest: remove_past [rotated])
next
  case (3 body)
  then show ?case by (simp add: optix_left_def split: sum.splits)
qed

text \<open>C10. Freeing is final: for every destroy or free opcode with an arm except the one of OptiX, after it has
  succeeded on a handle the same call on the same handle fails with \<open>UnknownOpcode\<close>, whatever requests come
  between and however the slot is reused. The \<open>DESTROY\<close> of OptiX, which tries two tables, succeeds on the
  same handle at most twice in any run, and is not always final.\<close>

theorem backends_free_once:
  "frees_once vk_handle vk_new vk_op_DESTROY_BUFFER \<and>
    frees_once vk_handle vk_new vk_op_FREE_MEMORY \<and>
    frees_once vk_handle vk_new vk_op_DESTROY_COMMAND_POOL \<and>
    frees_once gl_handle gl_new gl_op_DELETE_BUFFER \<and>
    frees_once cuda_handle cuda_new cuda_op_MEM_FREE \<and>
    frees_once hip_handle hip_new hip_op_FREE \<and>
    frees_once cl_handle cl_new cl_op_RELEASE_BUFFER \<and>
    frees_once l0_handle l0_new l0_op_MEM_FREE \<and>
    frees_once video_handle video_new video_op_DESTROY_SESSION \<and>
    frees_once wgpu_handle wgpu_new wgpu_op_DESTROY_BUFFER \<and>
    frees_once sycl_handle sycl_new sycl_op_FREE \<and>
    frees_once amf_handle amf_new amf_op_DESTROY_ENCODER \<and>
    frees_at_most 2 optix_handle optix_new optix_op_DESTROY \<and>
    \<not> frees_once optix_handle optix_new optix_op_DESTROY"
  by (intro conjI vk_destroy_buffer_frees_once
      vk_free_memory_frees_once
      vk_destroy_command_pool_frees_once
      gl_delete_buffer_frees_once
      cuda_mem_free_frees_once
      hip_free_frees_once
      cl_release_buffer_frees_once
      l0_mem_free_frees_once
      video_destroy_session_frees_once
      wgpu_destroy_buffer_frees_once
      sycl_free_frees_once
      amf_destroy_encoder_frees_once
      optix_destroy_frees_twice
      optix_destroy_not_once)

subsection \<open>Vulkan: buffers and command buffers\<close>

text \<open>The buffer \<open>h\<close> is bound to \<open>m\<close>, or gone for good.\<close>

definition bound_to :: "Handle \<Rightarrow> Handle \<times> u64 \<Rightarrow> BufferState handle_table \<Rightarrow> bool" where
  "bound_to h m t \<longleftrightarrow>
     (\<exists>s. ht_get t h = Some s \<and> BufferState_bound s = Some m) \<or> ht_past t (handle_key h)"

lemma bound_to_insert: "ht_inv t \<Longrightarrow> bound_to h m t \<Longrightarrow> bound_to h m (snd (ht_insert k s t))"
  by (auto simp: bound_to_def ht.insert_keeps ht_past_insert)

lemma bound_to_remove:
  assumes "ht_inv t" "bound_to h m t"
  shows "bound_to h m (snd (ht_remove g t))"
proof (cases "ht_past t (handle_key h)")
  case True
  then show ?thesis by (simp add: bound_to_def ht_past_remove)
next
  case False
  then obtain s where s: "ht_get t h = Some s" "BufferState_bound s = Some m"
    using assms(2) by (auto simp: bound_to_def)
  show ?thesis
  proof (cases "handle_key h = handle_key g")
    case True
    then have "ht_get t g = Some s" using s(1) ht.get_key by metis
    then show ?thesis using ht_remove_past [OF assms(1), of g s] True by (simp add: bound_to_def)
  next
    case False
    then show ?thesis using s by (simp add: bound_to_def ht.get_remove)
  qed
qed

lemma bound_to_bind:
  assumes "bound_to h m t" "ht_get_mut t g = Some (s, wr)" "\<forall>x y. BufferState_bound s \<noteq> Some (x, y)"
  shows "bound_to h m (wr s')"
proof (cases "ht_past t (handle_key h)")
  case True
  then show ?thesis using ht_past_write [OF _ assms(2)] by (simp add: bound_to_def)
next
  case False
  then obtain s0 where s0: "ht_get t h = Some s0" "BufferState_bound s0 = Some m"
    using assms(1) by (auto simp: bound_to_def)
  moreover have "ht_get t g = Some s" using assms(2) by (rule ht.get_mut_SomeD)
  ultimately have "handle_key h \<noteq> handle_key g"
    using assms(3) ht.get_key [of h g t] by (cases m) auto
  then show ?thesis using ht.get_write [OF assms(2), of s' h] s0 by (simp add: bound_to_def)
qed

lemma vk_arms_bound_to:
  assumes "vk_invar b" "bound_to h m (vk_buffers b)"
  shows
    "bound_to h m (vk_buffers (snd (vk_create_instance opc body b)))"
    "bound_to h m (vk_buffers (snd (vk_enumerate_physical_devices opc body b)))"
    "bound_to h m (vk_buffers (snd (vk_create_device opc body b)))"
    "bound_to h m (vk_buffers (snd (vk_get_device_queue opc body b)))"
    "bound_to h m (vk_buffers (snd (vk_allocate_memory opc body b)))"
    "bound_to h m (vk_buffers (snd (vk_create_buffer opc body b)))"
    "bound_to h m (vk_buffers (snd (vk_bind_buffer_memory opc body b)))"
    "bound_to h m (vk_buffers (snd (vk_create_command_pool opc body b)))"
    "bound_to h m (vk_buffers (snd (vk_allocate_command_buffer opc body b)))"
    "bound_to h m (vk_buffers (snd (vk_queue_submit opc body b)))"
    "bound_to h m (vk_buffers (snd (vk_cmd_copy_buffer opc body b)))"
    "bound_to h m (vk_buffers (snd (vk_cmd_draw opc body b)))"
    "bound_to h m (vk_buffers (snd (vk_destroy_buffer opc body b)))"
    "bound_to h m (vk_buffers (snd (vk_free_memory opc body b)))"
    "bound_to h m (vk_buffers (snd (vk_destroy_command_pool opc body b)))"
  using assms unfolding vk_arm_defs
  by (auto simp: vk_invar_def arm_simps intro: bound_to_insert bound_to_remove bound_to_bind split: arm_splits)

lemma vk_bound_to:
  "vk_invar b \<Longrightarrow> bound_to h m (vk_buffers b) \<Longrightarrow> bound_to h m (vk_buffers (snd (vk_handle opc req_id body b)))"
  by (simp add: vk_handle_def vk_arms_bound_to)

text \<open>C11. Binding memory to a Vulkan buffer is for good: once bound, and until it is destroyed, the buffer
  keeps that memory and offset under any requests, later bind requests and the freeing of the memory
  included.\<close>

theorem vulkan_binding_permanent:
  assumes "ht_get (vk_buffers (run_requests vk_handle before vk_new)) h = Some s" "BufferState_bound s = Some m"
    "ht_get (vk_buffers (run_requests vk_handle (before @ reqs) vk_new)) h = Some s'"
  shows "BufferState_bound s' = Some m"
proof -
  let ?b = "run_requests vk_handle before vk_new"
  have "bound_to h m (vk_buffers (run_requests vk_handle reqs ?b))"
    by (rule vk.run_keeps [where P = "\<lambda>b. bound_to h m (vk_buffers b)"])
      (use vk_bound_to vk.invar_run_new assms(1,2) in \<open>auto simp: bound_to_def\<close>)
  moreover have "ht_inv (vk_buffers (run_requests vk_handle (before @ reqs) vk_new))"
    using vk.invar_run_new [of "before @ reqs"] by (simp add: vk_invar_def)
  ultimately show ?thesis using assms(3) ht_past_get by (fastforce simp: bound_to_def run_requests_append)
qed

text \<open>Which requests record a command into the command buffer \<open>h\<close>.\<close>

definition records_into :: "Handle \<Rightarrow> request \<Rightarrow> bool" where
  "records_into h r = (case r of (opc, _, body) \<Rightarrow>
     (opc = vk_op_CMD_DRAW \<and> (case vk_CmdDrawRequest_decode body of
        Inl _ \<Rightarrow> False | Inr req \<Rightarrow> handle_key (vk_CmdDrawRequest_command_buffer req) = handle_key h)) \<or>
     (opc = vk_op_CMD_COPY_BUFFER \<and> (case vk_CmdCopyBufferRequest_decode body of
        Inl _ \<Rightarrow> False | Inr req \<Rightarrow> handle_key (vk_CmdCopyBufferRequest_command_buffer req) = handle_key h)))"

definition bump :: "CommandBufferState \<Rightarrow> CommandBufferState" where
  "bump s = s\<lparr>CommandBufferState_recorded := saturating_add (CommandBufferState_recorded s) 1\<rparr>"

lemma vk_other_arms_cmd:
  assumes "vk_invar b" "ht_get (vk_command_buffers b) h = Some s"
  shows
    "ht_get (vk_command_buffers (snd (vk_create_instance opc body b))) h = Some s"
    "ht_get (vk_command_buffers (snd (vk_enumerate_physical_devices opc body b))) h = Some s"
    "ht_get (vk_command_buffers (snd (vk_create_device opc body b))) h = Some s"
    "ht_get (vk_command_buffers (snd (vk_get_device_queue opc body b))) h = Some s"
    "ht_get (vk_command_buffers (snd (vk_allocate_memory opc body b))) h = Some s"
    "ht_get (vk_command_buffers (snd (vk_create_buffer opc body b))) h = Some s"
    "ht_get (vk_command_buffers (snd (vk_bind_buffer_memory opc body b))) h = Some s"
    "ht_get (vk_command_buffers (snd (vk_create_command_pool opc body b))) h = Some s"
    "ht_get (vk_command_buffers (snd (vk_allocate_command_buffer opc body b))) h = Some s"
    "ht_get (vk_command_buffers (snd (vk_queue_submit opc body b))) h = Some s"
    "ht_get (vk_command_buffers (snd (vk_destroy_buffer opc body b))) h = Some s"
    "ht_get (vk_command_buffers (snd (vk_free_memory opc body b))) h = Some s"
    "ht_get (vk_command_buffers (snd (vk_destroy_command_pool opc body b))) h = Some s"
  using assms unfolding vk_arm_defs
  by (auto simp: vk_invar_def arm_simps ht.insert_keeps split: arm_splits)

lemma write_bump:
  assumes "ht_get t h = Some s" "ht_get_mut t g = Some (s', wr)"
  shows "ht_get (wr (bump s')) h = Some (if handle_key g = handle_key h then bump s else s)"
  using ht.get_write [OF assms(2), of "bump s'" h] ht.get_mut_SomeD [OF assms(2)] assms(1) ht.get_key [of h g t]
  by auto

lemma vk_cmd_arms:
  assumes "ht_get (vk_command_buffers b) h = Some s"
  shows "ht_get (vk_command_buffers (snd (vk_cmd_draw vk_op_CMD_DRAW body b))) h = Some
      (if is_ok (fst (vk_cmd_draw vk_op_CMD_DRAW body b)) \<and> records_into h (vk_op_CMD_DRAW, req_id, body) then bump s else s)"
    "ht_get (vk_command_buffers (snd (vk_cmd_copy_buffer vk_op_CMD_COPY_BUFFER body b))) h = Some
      (if is_ok (fst (vk_cmd_copy_buffer vk_op_CMD_COPY_BUFFER body b)) \<and>
          records_into h (vk_op_CMD_COPY_BUFFER, req_id, body) then bump s else s)"
  using assms write_bump [of "vk_command_buffers b" h s, unfolded bump_def]
  by (auto simp: vk_cmd_draw_def vk_cmd_copy_buffer_def records_into_def vk_op_values bump_def split: arm_splits)

lemma vk_cmd_step:
  assumes "vk_invar b" "ht_get (vk_command_buffers b) h = Some s"
  shows "ht_get (vk_command_buffers (snd (vk_handle opc req_id body b))) h = Some
      (if is_ok (fst (vk_handle opc req_id body b)) \<and> records_into h (opc, req_id, body) then bump s else s)"
proof (cases "opc = vk_op_CMD_DRAW \<or> opc = vk_op_CMD_COPY_BUFFER")
  case True
  then show ?thesis using vk_cmd_arms [OF assms(2), where body = body and req_id = req_id] by (elim disjE) simp_all
next
  case False
  then show ?thesis
    using assms by (auto simp: vk_handle_def vk_other_arms_cmd records_into_def)
qed

lemma bump_sat:
  "unat (CommandBufferState_recorded (bump s)) = min (unat (CommandBufferState_recorded s) + 1) (2 ^ 32 - 1)"
  by (simp add: bump_def unat_saturating_add)

lemma vk_cmd_run:
  "vk_invar b \<Longrightarrow> ht_get (vk_command_buffers b) h = Some s \<Longrightarrow>
   \<exists>s'. ht_get (vk_command_buffers (run_requests vk_handle reqs b)) h = Some s' \<and>
     CommandBufferState_pool s' = CommandBufferState_pool s \<and>
     unat (CommandBufferState_recorded s') =
       min (unat (CommandBufferState_recorded s) + length (filter (records_into h) (succeeded vk_handle reqs b))) (2 ^ 32 - 1)"
proof (induction reqs arbitrary: b s)
  case Nil
  have "unat (CommandBufferState_recorded s) < 2 ^ 32"
    using unsigned_less [of "CommandBufferState_recorded s", where ?'a = nat] by simp
  then show ?case using Nil by simp
next
  case (Cons r reqs)
  obtain opc req_id body where r: "r = (opc, req_id, body)" by (cases r)
  obtain res b' where h: "vk_handle opc req_id body b = (res, b')" by fastforce
  let ?s = "if is_ok res \<and> records_into h r then bump s else s"
  have "ht_get (vk_command_buffers b') h = Some ?s"
    using vk_cmd_step [OF Cons.prems, of opc req_id body] by (simp add: h r)
  moreover have "vk_invar b'"
    using vk.invar_handle [OF Cons.prems(1), of opc req_id body] by (simp add: h)
  ultimately obtain s' where s': "ht_get (vk_command_buffers (run_requests vk_handle reqs b')) h = Some s'"
    "CommandBufferState_pool s' = CommandBufferState_pool ?s"
    "unat (CommandBufferState_recorded s') =
       min (unat (CommandBufferState_recorded ?s) + length (filter (records_into h) (succeeded vk_handle reqs b'))) (2 ^ 32 - 1)"
    using Cons.IH by blast
  show ?case
    using s' by (auto simp: r h bump_def unat_saturating_add min_def split: if_splits)
qed

text \<open>C34. The recorded count of a Vulkan command buffer is exact up to saturation: after any requests it is
  the number of draw and copy commands that succeeded on that buffer, capped at \<open>2 ^ 32 - 1\<close>, and no
  request takes the buffer away or moves it to another pool.\<close>

theorem vulkan_recorded_count:
  assumes "ht_get (vk_command_buffers (run_requests vk_handle before vk_new)) h = Some s"
  shows "\<exists>s'. ht_get (vk_command_buffers (run_requests vk_handle (before @ reqs) vk_new)) h = Some s' \<and>
     CommandBufferState_pool s' = CommandBufferState_pool s \<and>
     unat (CommandBufferState_recorded s') =
       min (unat (CommandBufferState_recorded s) +
            length (filter (records_into h) (succeeded vk_handle reqs (run_requests vk_handle before vk_new)))) (2 ^ 32 - 1)"
  using vk_cmd_run [OF vk.invar_run_new assms] by (simp add: run_requests_append)

text \<open>
  A scene for the witnesses: an instance, its physical device, a device, memory, a buffer bound to it, a
  command pool and a command buffer with one draw. Each object is the first of its table (\<open>first_of\<close>).
\<close>

definition vk_setup :: "request list" where
  "vk_setup =
     [(vk_op_CREATE_INSTANCE, 1, vk_CreateInstanceRequest_encode \<lparr>vk_CreateInstanceRequest_app_api_version = 0\<rparr> []),
      (vk_op_ENUMERATE_PHYSICAL_DEVICES, 2, vk_EnumeratePhysicalDevicesRequest_encode
         \<lparr>vk_EnumeratePhysicalDevicesRequest_instance = first_of KIND_INSTANCE\<rparr> []),
      (vk_op_CREATE_DEVICE, 3, vk_CreateDeviceRequest_encode
         \<lparr>vk_CreateDeviceRequest_physical_device = first_of KIND_PHYSICAL_DEVICE\<rparr> []),
      (vk_op_ALLOCATE_MEMORY, 4, vk_AllocateMemoryRequest_encode
         \<lparr>vk_AllocateMemoryRequest_device = first_of KIND_DEVICE, vk_AllocateMemoryRequest_size = 64\<rparr> []),
      (vk_op_CREATE_BUFFER, 5, vk_CreateBufferRequest_encode
         \<lparr>vk_CreateBufferRequest_device = first_of KIND_DEVICE, vk_CreateBufferRequest_size = 16,
          vk_CreateBufferRequest_usage = 1\<rparr> []),
      (vk_op_BIND_BUFFER_MEMORY, 6, vk_BindBufferMemoryRequest_encode
         \<lparr>vk_BindBufferMemoryRequest_buffer = first_of KIND_BUFFER,
          vk_BindBufferMemoryRequest_memory = first_of KIND_DEVICE_MEMORY, vk_BindBufferMemoryRequest_offset = 8\<rparr> []),
      (vk_op_CREATE_COMMAND_POOL, 7, vk_CreateCommandPoolRequest_encode
         \<lparr>vk_CreateCommandPoolRequest_device = first_of KIND_DEVICE, vk_CreateCommandPoolRequest_queue_family_index = 0\<rparr> []),
      (vk_op_ALLOCATE_COMMAND_BUFFER, 8, vk_AllocateCommandBufferRequest_encode
         \<lparr>vk_AllocateCommandBufferRequest_pool = first_of KIND_COMMAND_POOL\<rparr> [])]"

lemmas vk_eval = ht_insert_def ht_get_def ht_get_mut_def slots_get_def ht_new_def first_of_def
  vk_CreateInstanceRequest_body.decode_roundtrip vk_EnumeratePhysicalDevicesRequest_body.decode_roundtrip
  vk_CreateDeviceRequest_body.decode_roundtrip vk_AllocateMemoryRequest_body.decode_roundtrip
  vk_CreateBufferRequest_body.decode_roundtrip vk_BindBufferMemoryRequest_body.decode_roundtrip
  vk_CreateCommandPoolRequest_body.decode_roundtrip vk_AllocateCommandBufferRequest_body.decode_roundtrip
  vk_CmdDrawRequest_body.decode_roundtrip vk_FreeMemoryRequest_body.decode_roundtrip

lemma vk_setup_buffer:
  "ht_get (vk_buffers (run_requests vk_handle vk_setup vk_new)) (first_of KIND_BUFFER) = Some
     \<lparr>BufferState_device = first_of KIND_DEVICE, BufferState_size = 16, BufferState_usage = 1,
      BufferState_bound = Some (first_of KIND_DEVICE_MEMORY, 8)\<rparr>"
  by (simp add: vk_setup_def vk_new_def vk_arm_defs vk_eval)

definition vk_free_bound_memory :: request where
  "vk_free_bound_memory = (vk_op_FREE_MEMORY, 9,
     vk_FreeMemoryRequest_encode \<lparr>vk_FreeMemoryRequest_memory = first_of KIND_DEVICE_MEMORY\<rparr> [])"

lemma vk_setup_buffer_freed:
  "ht_get (vk_buffers (run_requests vk_handle (vk_setup @ [vk_free_bound_memory]) vk_new)) (first_of KIND_BUFFER) = Some
     \<lparr>BufferState_device = first_of KIND_DEVICE, BufferState_size = 16, BufferState_usage = 1,
      BufferState_bound = Some (first_of KIND_DEVICE_MEMORY, 8)\<rparr>"
  by (simp add: vk_setup_def vk_free_bound_memory_def vk_new_def vk_arm_defs vk_eval ht_remove_def)

lemma vulkan_binding_permanent_witness:
  "\<exists>s'. ht_get (vk_buffers (run_requests vk_handle (vk_setup @ [vk_free_bound_memory]) vk_new)) (first_of KIND_BUFFER) = Some s'
     \<and> BufferState_bound s' = Some (first_of KIND_DEVICE_MEMORY, 8)"
  using vulkan_binding_permanent [OF vk_setup_buffer _ vk_setup_buffer_freed] vk_setup_buffer_freed by fastforce

definition vk_draw :: request where
  "vk_draw = (vk_op_CMD_DRAW, 9, vk_CmdDrawRequest_encode \<lparr>vk_CmdDrawRequest_command_buffer = first_of KIND_COMMAND_BUFFER,
     vk_CmdDrawRequest_vertex_count = 3, vk_CmdDrawRequest_instance_count = 1\<rparr> [])"

lemma vk_setup_commands:
  "ht_get (vk_command_buffers (run_requests vk_handle vk_setup vk_new)) (first_of KIND_COMMAND_BUFFER) =
     Some \<lparr>CommandBufferState_pool = first_of KIND_COMMAND_POOL, CommandBufferState_recorded = 0\<rparr>"
  by (simp add: vk_setup_def vk_new_def vk_arm_defs vk_eval)

lemma vk_draws_counted:
  "length (filter (records_into (first_of KIND_COMMAND_BUFFER))
     (succeeded vk_handle [vk_draw, vk_draw] (run_requests vk_handle vk_setup vk_new))) = 2"
  by (simp add: vk_setup_def vk_draw_def vk_new_def vk_arm_defs vk_eval records_into_def)

lemma vulkan_recorded_count_witness:
  "\<exists>s'. ht_get (vk_command_buffers (run_requests vk_handle (vk_setup @ [vk_draw, vk_draw]) vk_new)) (first_of KIND_COMMAND_BUFFER) = Some s'
     \<and> CommandBufferState_pool s' = first_of KIND_COMMAND_POOL \<and> unat (CommandBufferState_recorded s') = 2"
  using vulkan_recorded_count [OF vk_setup_commands, of "[vk_draw, vk_draw]"] vk_draws_counted by auto

subsection \<open>Video: frame indices\<close>

lemma video_decode_step:
  assumes "ht_get (video_sessions b) h = Some s" "video_DecodeFrameRequest_decode body = Inr req"
    "handle_key (video_DecodeFrameRequest_session req) = handle_key h"
  shows "fst (video_handle video_op_DECODE_FRAME req_id body b) =
      Inr (video_DecodeFrameResponse_encode \<lparr>video_DecodeFrameResponse_frame_index = VideoSessionState_frames s\<rparr> [])"
    "ht_get (video_sessions (snd (video_handle video_op_DECODE_FRAME req_id body b))) h =
      Some (s\<lparr>VideoSessionState_frames := saturating_add (VideoSessionState_frames s) 1\<rparr>)"
proof -
  have "ht_get (video_sessions b) (video_DecodeFrameRequest_session req) = Some s"
    using assms(1,3) ht.get_key by metis
  then have "\<exists>wr. ht_get_mut (video_sessions b) (video_DecodeFrameRequest_session req) = Some (s, wr)"
    by (simp add: ht_get_mut_Some)
  then obtain wr where wr: "ht_get_mut (video_sessions b) (video_DecodeFrameRequest_session req) = Some (s, wr)"
    by blast
  show "fst (video_handle video_op_DECODE_FRAME req_id body b) =
      Inr (video_DecodeFrameResponse_encode \<lparr>video_DecodeFrameResponse_frame_index = VideoSessionState_frames s\<rparr> [])"
    by (simp add: video_decode_frame_def assms(2) wr Let_def)
  show "ht_get (video_sessions (snd (video_handle video_op_DECODE_FRAME req_id body b))) h =
      Some (s\<lparr>VideoSessionState_frames := saturating_add (VideoSessionState_frames s) 1\<rparr>)"
    using ht.get_write [OF wr, of "s\<lparr>VideoSessionState_frames := saturating_add (VideoSessionState_frames s) 1\<rparr>" h]
    by (simp add: video_decode_frame_def assms(2,3) wr Let_def)
qed

definition decodes_in :: "Handle \<Rightarrow> request \<Rightarrow> bool" where
  "decodes_in h r = (case r of (opc, _, body) \<Rightarrow> opc = video_op_DECODE_FRAME \<and>
     (case video_DecodeFrameRequest_decode body of
        Inl _ \<Rightarrow> False | Inr req \<Rightarrow> handle_key (video_DecodeFrameRequest_session req) = handle_key h))"

lemma saturating_add_below:
  "unat a + 1 < 2 ^ LENGTH('a) \<Longrightarrow> saturating_add a 1 = a + 1" for a :: "'a::len word"
  by (simp add: saturating_add_def)

text \<open>A video session numbers its frames: consecutive decode requests on it answer with consecutive
  indices from its current count on, as long as the 32-bit counter has room.\<close>

theorem video_frame_indices:
  assumes "ht_get (video_sessions b) h = Some s" "list_all (decodes_in h) reqs"
    "unat (VideoSessionState_frames s) + length reqs < 2 ^ 32"
  shows "replies video_handle reqs b =
    map (\<lambda>i. Inr (video_DecodeFrameResponse_encode
       \<lparr>video_DecodeFrameResponse_frame_index = VideoSessionState_frames s + word_of_nat i\<rparr> [])) [0..<length reqs]"
  using assms
proof (induction reqs arbitrary: b s)
  case Nil
  then show ?case by simp
next
  case (Cons r reqs)
  obtain opc req_id body where r: "r = (opc, req_id, body)" by (cases r)
  then obtain req where op: "opc = video_op_DECODE_FRAME" and req: "video_DecodeFrameRequest_decode body = Inr req"
    and key: "handle_key (video_DecodeFrameRequest_session req) = handle_key h"
    using Cons.prems(2) by (auto simp: decodes_in_def split: sum.splits)
  note step = video_decode_step [OF Cons.prems(1) req key, of req_id]
  have up: "saturating_add (VideoSessionState_frames s) 1 = VideoSessionState_frames s + 1"
    using Cons.prems(3) by (intro saturating_add_below) simp
  have "unat (VideoSessionState_frames s + 1) = unat (VideoSessionState_frames s) + 1"
    using Cons.prems(3) by (simp add: unat_word_ariths)
  then have rest: "replies video_handle reqs (snd (video_handle video_op_DECODE_FRAME req_id body b)) =
      map (\<lambda>i. Inr (video_DecodeFrameResponse_encode
        \<lparr>video_DecodeFrameResponse_frame_index = VideoSessionState_frames s + 1 + word_of_nat i\<rparr> [])) [0..<length reqs]"
    using Cons.IH [OF step(2)] Cons.prems(2,3) by (simp add: up)
  have "[0..<length (r # reqs)] = 0 # map Suc [0..<length reqs]"
    by (simp add: upt_conv_Cons map_Suc_upt del: upt_Suc)
  then show ?case
    using step(1) rest by (simp add: r op case_prod_beta Let_def comp_def add.assoc)
qed

definition video_frame :: request where
  "video_frame = (video_op_DECODE_FRAME, 4, video_DecodeFrameRequest_encode
     \<lparr>video_DecodeFrameRequest_session = first_of KIND_VIDEO_SESSION, video_DecodeFrameRequest_bitstream_len = 9\<rparr> [])"

definition video_open :: request where
  "video_open = (video_op_CREATE_DECODE_SESSION, 1, video_CreateDecodeSessionRequest_encode
     \<lparr>video_CreateDecodeSessionRequest_codec = 1, video_CreateDecodeSessionRequest_width = 2,
      video_CreateDecodeSessionRequest_height = 3\<rparr> [])"

lemma video_open_session:
  "ht_get (video_sessions (run_requests video_handle [video_open] video_new)) (first_of KIND_VIDEO_SESSION) = Some
     \<lparr>VideoSessionState_codec = 1, VideoSessionState_width = 2, VideoSessionState_height = 3, VideoSessionState_frames = 0\<rparr>"
  by (simp add: video_open_def video_new_def video_arm_defs ht_insert_def ht_get_def slots_get_def ht_new_def first_of_def
      video_CreateDecodeSessionRequest_body.decode_roundtrip)

lemma video_frame_indices_witness:
  "length (replies video_handle [video_frame, video_frame] (run_requests video_handle [video_open] video_new)) = 2"
proof -
  have "list_all (decodes_in (first_of KIND_VIDEO_SESSION)) [video_frame, video_frame]"
    by (simp add: video_frame_def decodes_in_def video_DecodeFrameRequest_body.decode_roundtrip)
  from video_frame_indices [OF video_open_session this] show ?thesis
    by simp
qed

end
