(* ===== verification/Session.thy ===== *)
theory Session
  imports Backend_Spec
begin

section \<open>The server session\<close>

text \<open>
  \<open>crates/graftx-server/src/session.rs\<close>: one client's session. A boxed backend is one of the eleven
  services of the crate (\<open>boxed\<close>, the sum the trait object stands for), kept in a map keyed by the namespace
  byte. \<open>session_handle\<close> returns the reply frame or the protocol error together with the session after it.
\<close>

datatype boxed =
    BoxVulkanBackend VulkanBackend
  | BoxGlBackend GlBackend
  | BoxCudaBackend CudaBackend
  | BoxHipBackend HipBackend
  | BoxClBackend ClBackend
  | BoxL0Backend L0Backend
  | BoxVideoBackend VideoBackend
  | BoxWebGpuBackend WebGpuBackend
  | BoxOptixBackend OptixBackend
  | BoxSyclBackend SyclBackend
  | BoxAmfBackend AmfBackend

fun boxed_api :: "boxed \<Rightarrow> api_id" where
  "boxed_api (BoxVulkanBackend b) = vk_api"
| "boxed_api (BoxGlBackend b) = gl_api"
| "boxed_api (BoxCudaBackend b) = cuda_api"
| "boxed_api (BoxHipBackend b) = hip_api"
| "boxed_api (BoxClBackend b) = cl_api"
| "boxed_api (BoxL0Backend b) = l0_api"
| "boxed_api (BoxVideoBackend b) = video_api"
| "boxed_api (BoxWebGpuBackend b) = wgpu_api"
| "boxed_api (BoxOptixBackend b) = optix_api"
| "boxed_api (BoxSyclBackend b) = sycl_api"
| "boxed_api (BoxAmfBackend b) = amf_api"

fun boxed_handle :: "boxed handler" where
  "boxed_handle opc req_id body (BoxVulkanBackend b) = apsnd BoxVulkanBackend (vk_handle opc req_id body b)"
| "boxed_handle opc req_id body (BoxGlBackend b) = apsnd BoxGlBackend (gl_handle opc req_id body b)"
| "boxed_handle opc req_id body (BoxCudaBackend b) = apsnd BoxCudaBackend (cuda_handle opc req_id body b)"
| "boxed_handle opc req_id body (BoxHipBackend b) = apsnd BoxHipBackend (hip_handle opc req_id body b)"
| "boxed_handle opc req_id body (BoxClBackend b) = apsnd BoxClBackend (cl_handle opc req_id body b)"
| "boxed_handle opc req_id body (BoxL0Backend b) = apsnd BoxL0Backend (l0_handle opc req_id body b)"
| "boxed_handle opc req_id body (BoxVideoBackend b) = apsnd BoxVideoBackend (video_handle opc req_id body b)"
| "boxed_handle opc req_id body (BoxWebGpuBackend b) = apsnd BoxWebGpuBackend (wgpu_handle opc req_id body b)"
| "boxed_handle opc req_id body (BoxOptixBackend b) = apsnd BoxOptixBackend (optix_handle opc req_id body b)"
| "boxed_handle opc req_id body (BoxSyclBackend b) = apsnd BoxSyclBackend (sycl_handle opc req_id body b)"
| "boxed_handle opc req_id body (BoxAmfBackend b) = apsnd BoxAmfBackend (amf_handle opc req_id body b)"

fun boxed_invar :: "boxed \<Rightarrow> bool" where
  "boxed_invar (BoxVulkanBackend b) = vk_invar b"
| "boxed_invar (BoxGlBackend b) = gl_invar b"
| "boxed_invar (BoxCudaBackend b) = cuda_invar b"
| "boxed_invar (BoxHipBackend b) = hip_invar b"
| "boxed_invar (BoxClBackend b) = cl_invar b"
| "boxed_invar (BoxL0Backend b) = l0_invar b"
| "boxed_invar (BoxVideoBackend b) = video_invar b"
| "boxed_invar (BoxWebGpuBackend b) = wgpu_invar b"
| "boxed_invar (BoxOptixBackend b) = optix_invar b"
| "boxed_invar (BoxSyclBackend b) = sycl_invar b"
| "boxed_invar (BoxAmfBackend b) = amf_invar b"

record session =
  session_id :: u64
  max_frame_body :: u32
  handshook :: bool
  next_seq :: u64
  backends :: "u8 \<rightharpoonup> boxed"

definition session_new :: "u64 \<Rightarrow> session" where
  "session_new sid = \<lparr>session_id = sid, max_frame_body = DEFAULT_MAX_FRAME_BODY, handshook = False,
     next_seq = 1, backends = Map.empty\<rparr>"

definition session_register :: "boxed \<Rightarrow> session \<Rightarrow> session" where
  "session_register b self = self\<lparr>backends := (backends self)(api_id_u8 (boxed_api b) \<mapsto> b)\<rparr>"

text \<open>The counter wraps at \<open>2 ^ 64\<close> as a release build does (a debug build stops there).\<close>

definition session_next_seq :: "session \<Rightarrow> u64 \<times> session" where
  "session_next_seq self = (let s = next_seq self in (s, self\<lparr>next_seq := next_seq self + 1\<rparr>))"

definition session_reply :: "u32 \<Rightarrow> u32 \<Rightarrow> bytes \<Rightarrow> session \<Rightarrow> bytes \<times> session" where
  "session_reply opc req_id body self =
     (let (seq, self) = session_next_seq self;
          header = \<lparr>fh_version = PROTOCOL_MAJOR, fh_flags = 0, fh_kind = Response, fh_opcode = opc,
                    fh_req_id = req_id, fh_seq = seq, fh_body_len = word_of_nat (length body)\<rparr>
      in (encode_frame header body, self))"

text \<open>The arm of \<open>handle\<close> for \<open>HELLO\<close>, and the one that routes to a backend.\<close>

definition session_hello :: "u32 \<Rightarrow> bytes \<Rightarrow> session \<Rightarrow> bytes proto_result \<times> session" where
  "session_hello req_id body self =
     (case hello_decode body of
        Inl e \<Rightarrow> (Inl e, self)
      | Inr hello \<Rightarrow>
          if hello_proto_major hello \<noteq> PROTOCOL_MAJOR
          then (Inl (BadVersion (hello_proto_major hello) (hello_proto_minor hello)), self)
          else
            let self = self\<lparr>max_frame_body := min (hello_max_frame_body hello) DEFAULT_MAX_FRAME_BODY,
                            handshook := True\<rparr>;
                wb = welcome_encode \<lparr>welcome_proto_major = PROTOCOL_MAJOR, welcome_proto_minor = PROTOCOL_MINOR,
                       welcome_features = 0, welcome_max_frame_body = max_frame_body self,
                       welcome_session_id = session_id self\<rparr> [];
                (frame, self) = session_reply core_op_WELCOME req_id wb self
            in (Inr frame, self))"

definition session_route :: "u32 \<Rightarrow> u32 \<Rightarrow> bytes \<Rightarrow> session \<Rightarrow> bytes proto_result \<times> session" where
  "session_route opc req_id body self =
     (let api = opcode_api opc in
      case backends self api of
        None \<Rightarrow> (Inl (UnknownOpcode opc), self)
      | Some b \<Rightarrow>
          let (res, b) = boxed_handle opc req_id body b;
              self = self\<lparr>backends := (backends self)(api \<mapsto> b)\<rparr>
          in case res of
               Inl e \<Rightarrow> (Inl e, self)
             | Inr resp \<Rightarrow> let (frame, self) = session_reply opc req_id resp self in (Inr frame, self))"

definition session_handle :: "bytes \<Rightarrow> session \<Rightarrow> bytes proto_result \<times> session" where
  "session_handle frame self =
     (case decode_frame frame of
        Inl e \<Rightarrow> (Inl e, self)
      | Inr (h, body) \<Rightarrow>
          if max_frame_body self < fh_body_len h then (Inl (FrameTooLarge (fh_body_len h)), self)
          else if unat (fh_body_len h) \<noteq> length body
          then (Inl (BodyLenMismatch (fh_body_len h) (length body)), self)
          else if fh_opcode h = core_op_HELLO then session_hello (fh_req_id h) body self
          else if fh_opcode h = core_op_NOOP
          then (let (frame, self) = session_reply core_op_NOOP (fh_req_id h) [] self in (Inr frame, self))
          else session_route (fh_opcode h) (fh_req_id h) body self)"

definition session_is_handshook :: "session \<Rightarrow> bool" where
  "session_is_handshook self = handshook self"

subsection \<open>A boxed backend keeps the service contract\<close>

lemma apsnd_eq: "apsnd c p = (r, b') \<longleftrightarrow> (\<exists>b0. p = (r, b0) \<and> b' = c b0)"
  by (cases p) auto

lemma boxed_error_unchanged:
  assumes "boxed_handle opc req_id body b = (Inl e, b')"
  shows "b' = b \<and> (e = UnknownOpcode opc \<or> e = UnexpectedEof)"
proof (cases b)
  case (BoxVulkanBackend x)
  then show ?thesis using assms vk.error_unchanged [of opc req_id body x e] by (auto simp: apsnd_eq)
next
  case (BoxGlBackend x)
  then show ?thesis using assms gl.error_unchanged [of opc req_id body x e] by (auto simp: apsnd_eq)
next
  case (BoxCudaBackend x)
  then show ?thesis using assms cuda.error_unchanged [of opc req_id body x e] by (auto simp: apsnd_eq)
next
  case (BoxHipBackend x)
  then show ?thesis using assms hip.error_unchanged [of opc req_id body x e] by (auto simp: apsnd_eq)
next
  case (BoxClBackend x)
  then show ?thesis using assms cl.error_unchanged [of opc req_id body x e] by (auto simp: apsnd_eq)
next
  case (BoxL0Backend x)
  then show ?thesis using assms l0.error_unchanged [of opc req_id body x e] by (auto simp: apsnd_eq)
next
  case (BoxVideoBackend x)
  then show ?thesis using assms video.error_unchanged [of opc req_id body x e] by (auto simp: apsnd_eq)
next
  case (BoxWebGpuBackend x)
  then show ?thesis using assms wgpu.error_unchanged [of opc req_id body x e] by (auto simp: apsnd_eq)
next
  case (BoxOptixBackend x)
  then show ?thesis using assms optix.error_unchanged [of opc req_id body x e] by (auto simp: apsnd_eq)
next
  case (BoxSyclBackend x)
  then show ?thesis using assms sycl.error_unchanged [of opc req_id body x e] by (auto simp: apsnd_eq)
next
  case (BoxAmfBackend x)
  then show ?thesis using assms amf.error_unchanged [of opc req_id body x e] by (auto simp: apsnd_eq)
qed

lemma boxed_reply_bound:
  assumes "boxed_handle opc req_id body b = (Inr out, b')"
  shows "length out \<le> reply_max"
proof (cases b)
  case (BoxVulkanBackend x)
  then show ?thesis using assms vk.reply_bound [of opc req_id body x out] by (auto simp: apsnd_eq)
next
  case (BoxGlBackend x)
  then show ?thesis using assms gl.reply_bound [of opc req_id body x out] by (auto simp: apsnd_eq)
next
  case (BoxCudaBackend x)
  then show ?thesis using assms cuda.reply_bound [of opc req_id body x out] by (auto simp: apsnd_eq)
next
  case (BoxHipBackend x)
  then show ?thesis using assms hip.reply_bound [of opc req_id body x out] by (auto simp: apsnd_eq)
next
  case (BoxClBackend x)
  then show ?thesis using assms cl.reply_bound [of opc req_id body x out] by (auto simp: apsnd_eq)
next
  case (BoxL0Backend x)
  then show ?thesis using assms l0.reply_bound [of opc req_id body x out] by (auto simp: apsnd_eq)
next
  case (BoxVideoBackend x)
  then show ?thesis using assms video.reply_bound [of opc req_id body x out] by (auto simp: apsnd_eq)
next
  case (BoxWebGpuBackend x)
  then show ?thesis using assms wgpu.reply_bound [of opc req_id body x out] by (auto simp: apsnd_eq)
next
  case (BoxOptixBackend x)
  then show ?thesis using assms optix.reply_bound [of opc req_id body x out] by (auto simp: apsnd_eq)
next
  case (BoxSyclBackend x)
  then show ?thesis using assms sycl.reply_bound [of opc req_id body x out] by (auto simp: apsnd_eq)
next
  case (BoxAmfBackend x)
  then show ?thesis using assms amf.reply_bound [of opc req_id body x out] by (auto simp: apsnd_eq)
qed

lemma boxed_invar_handle: "boxed_invar b \<Longrightarrow> boxed_invar (snd (boxed_handle opc req_id body b))"
  by (cases b) (simp_all add: vk.invar_handle gl.invar_handle cuda.invar_handle hip.invar_handle cl.invar_handle l0.invar_handle video.invar_handle wgpu.invar_handle optix.invar_handle sycl.invar_handle amf.invar_handle)

lemma boxed_api_handle: "boxed_api (snd (boxed_handle opc req_id body b)) = boxed_api b"
  by (cases b) simp_all

end
