(* ===== verification/Session_Spec.thy ===== *)
theory Session_Spec
  imports Session
begin

section \<open>What a session promises\<close>

text \<open>
  The properties of \<open>Session\<close>: what a reply frame carries, when and how a frame is refused, how the sequence
  counter and the negotiated limit move, and that a session is a set of independent services, each seeing
  exactly the requests of its namespace.
\<close>

subsection \<open>One frame\<close>

definition reply_opcode :: "u32 \<Rightarrow> u32" where
  "reply_opcode opc = (if opc = core_op_HELLO then core_op_WELCOME else opc)"

definition reply_header :: "session \<Rightarrow> FrameHeader \<Rightarrow> bytes \<Rightarrow> FrameHeader" where
  "reply_header self h out =
     \<lparr>fh_version = PROTOCOL_MAJOR, fh_flags = 0, fh_kind = Response, fh_opcode = reply_opcode (fh_opcode h),
      fh_req_id = fh_req_id h, fh_seq = next_seq self, fh_body_len = word_of_nat (length out)\<rparr>"

lemma session_reply_eq:
  "session_reply opc req_id out self =
     (encode_frame \<lparr>fh_version = PROTOCOL_MAJOR, fh_flags = 0, fh_kind = Response, fh_opcode = opc,
        fh_req_id = req_id, fh_seq = next_seq self, fh_body_len = word_of_nat (length out)\<rparr> out,
      self\<lparr>next_seq := next_seq self + 1\<rparr>)"
  by (simp add: session_reply_def session_next_seq_def Let_def)

lemma core_ops_distinct [simp]: "core_op_NOOP \<noteq> core_op_HELLO" "core_op_HELLO \<noteq> core_op_NOOP"
  by (simp_all add: core_op_values)

lemma session_hello_Inl:
  "session_hello req_id body self = (Inl e, self') \<Longrightarrow> self' = self \<and>
     (length body < 12 \<and> e = UnexpectedEof \<or>
      (\<exists>hello. hello_decode body = Inr hello \<and> hello_proto_major hello \<noteq> PROTOCOL_MAJOR \<and>
         e = BadVersion (hello_proto_major hello) (hello_proto_minor hello)))"
  using hello_body.decode_error [of body]
  by (auto simp: session_hello_def session_reply_eq Let_def split: sum.splits if_splits)

lemma session_hello_Inr:
  assumes "session_hello req_id body self = (Inr reply, self')"
  obtains hello where "hello_decode body = Inr hello" "hello_proto_major hello = PROTOCOL_MAJOR"
    "self' = self\<lparr>max_frame_body := min (hello_max_frame_body hello) DEFAULT_MAX_FRAME_BODY, handshook := True,
        next_seq := next_seq self + 1\<rparr>"
    "reply = encode_frame \<lparr>fh_version = PROTOCOL_MAJOR, fh_flags = 0, fh_kind = Response, fh_opcode = core_op_WELCOME,
        fh_req_id = req_id, fh_seq = next_seq self, fh_body_len = 20\<rparr>
       (welcome_encode \<lparr>welcome_proto_major = PROTOCOL_MAJOR, welcome_proto_minor = PROTOCOL_MINOR, welcome_features = 0,
          welcome_max_frame_body = min (hello_max_frame_body hello) DEFAULT_MAX_FRAME_BODY,
          welcome_session_id = session_id self\<rparr> [])"
  using assms
  by (auto simp: session_hello_def session_reply_eq Let_def welcome_body.encode_width split: sum.splits if_splits)

lemma session_route_Inl:
  assumes "session_route opc req_id body self = (Inl e, self')"
  shows "self' = self \<and> (e = UnknownOpcode opc \<or> e = UnexpectedEof)"
proof (cases "backends self (opcode_api opc)")
  case None
  then show ?thesis using assms by (simp add: session_route_def)
next
  case (Some b)
  obtain res b' where h: "boxed_handle opc req_id body b = (res, b')" by fastforce
  then obtain e0 where "res = Inl e0"
    using assms Some by (cases res) (auto simp: session_route_def session_reply_eq Let_def)
  then show ?thesis
    using assms Some h boxed_error_unchanged [of opc req_id body b e0 b']
    by (auto simp: session_route_def Let_def fun_upd_idem)
qed

lemma session_route_Inr:
  assumes "session_route opc req_id body self = (Inr reply, self')"
  obtains b b' out where "backends self (opcode_api opc) = Some b" "boxed_handle opc req_id body b = (Inr out, b')"
    "self' = self\<lparr>backends := (backends self)(opcode_api opc \<mapsto> b'), next_seq := next_seq self + 1\<rparr>"
    "reply = encode_frame \<lparr>fh_version = PROTOCOL_MAJOR, fh_flags = 0, fh_kind = Response, fh_opcode = opc,
        fh_req_id = req_id, fh_seq = next_seq self, fh_body_len = word_of_nat (length out)\<rparr> out"
proof (cases "backends self (opcode_api opc)")
  case None
  then show ?thesis using assms by (simp add: session_route_def)
next
  case (Some b)
  obtain res b' where h: "boxed_handle opc req_id body b = (res, b')" by fastforce
  then obtain out where "res = Inr out"
    using assms Some by (cases res) (auto simp: session_route_def Let_def)
  then show ?thesis
    using assms Some h that by (auto simp: session_route_def session_reply_eq Let_def)
qed

text \<open>A frame whose framing passes.\<close>

definition accepts :: "session \<Rightarrow> bytes \<Rightarrow> (FrameHeader \<times> bytes) option" where
  "accepts self frame =
     (case decode_frame frame of
        Inl _ \<Rightarrow> None
      | Inr (h, body) \<Rightarrow>
          if fh_body_len h \<le> max_frame_body self \<and> unat (fh_body_len h) = length body then Some (h, body) else None)"

lemma session_handle_accepted:
  "accepts self frame = Some (h, body) \<Longrightarrow>
   session_handle frame self =
     (if fh_opcode h = core_op_HELLO then session_hello (fh_req_id h) body self
      else if fh_opcode h = core_op_NOOP
      then (Inr (fst (session_reply core_op_NOOP (fh_req_id h) [] self)), snd (session_reply core_op_NOOP (fh_req_id h) [] self))
      else session_route (fh_opcode h) (fh_req_id h) body self)"
  by (auto simp: accepts_def session_handle_def case_prod_beta Let_def split: sum.splits if_splits)

lemma session_handle_refused:
  "accepts self frame = None \<Longrightarrow> \<exists>e. session_handle frame self = (Inl e, self) \<and>
     (decode_frame frame = Inl e \<or> (\<exists>h body. decode_frame frame = Inr (h, body) \<and>
        (max_frame_body self < fh_body_len h \<and> e = FrameTooLarge (fh_body_len h) \<or>
         fh_body_len h \<le> max_frame_body self \<and> unat (fh_body_len h) \<noteq> length body \<and>
           e = BodyLenMismatch (fh_body_len h) (length body))))"
  by (auto simp: accepts_def session_handle_def not_le split: sum.splits if_splits)

lemma small_length: "n \<le> 20 \<Longrightarrow> unat (word_of_nat n :: u32) = n"
  by (rule unat_of_nat_below) simp

lemma session_reply_facts:
  assumes "session_handle frame self = (Inr reply, self')"
  shows "\<exists>h body out. accepts self frame = Some (h, body) \<and>
    decode_frame reply = Inr (reply_header self h out, out) \<and> length out \<le> 20 \<and>
    unat (fh_body_len (reply_header self h out)) = length out \<and>
    next_seq self' = next_seq self + 1 \<and> session_id self' = session_id self"
proof (cases "accepts self frame")
  case None
  then show ?thesis using session_handle_refused assms by fastforce
next
  case (Some p)
  obtain h body where p: "p = (h, body)" by (cases p)
  consider (hello) "fh_opcode h = core_op_HELLO" | (noop) "fh_opcode h = core_op_NOOP"
    | (route) "fh_opcode h \<noteq> core_op_HELLO" "fh_opcode h \<noteq> core_op_NOOP" by blast
  then show ?thesis
  proof cases
    case hello
    then have "session_hello (fh_req_id h) body self = (Inr reply, self')"
      using assms session_handle_accepted Some p by simp
    then show ?thesis
      by (rule session_hello_Inr)
        (use Some p hello in \<open>auto simp: reply_header_def reply_opcode_def welcome_body.encode_width\<close>)
  next
    case noop
    then have "reply = fst (session_reply core_op_NOOP (fh_req_id h) [] self)"
      "self' = snd (session_reply core_op_NOOP (fh_req_id h) [] self)"
      using assms session_handle_accepted Some p by auto
    then show ?thesis
      using Some p noop by (auto simp: reply_header_def reply_opcode_def session_reply_eq)
  next
    case route
    then have "session_route (fh_opcode h) (fh_req_id h) body self = (Inr reply, self')"
      using assms session_handle_accepted Some p by simp
    then obtain b b' out where out: "boxed_handle (fh_opcode h) (fh_req_id h) body b = (Inr out, b')"
      "self' = self\<lparr>backends := (backends self)(opcode_api (fh_opcode h) \<mapsto> b'), next_seq := next_seq self + 1\<rparr>"
      "reply = encode_frame \<lparr>fh_version = PROTOCOL_MAJOR, fh_flags = 0, fh_kind = Response, fh_opcode = fh_opcode h,
          fh_req_id = fh_req_id h, fh_seq = next_seq self, fh_body_len = word_of_nat (length out)\<rparr> out"
      by (rule session_route_Inr)
    have "length out \<le> 20" using boxed_reply_bound [OF out(1)] by (simp add: reply_max_def)
    then show ?thesis
      using Some p route out by (auto simp: reply_header_def reply_opcode_def small_length)
  qed
qed

lemma session_reply_frame_bound:
  "session_handle frame self = (Inr reply, self') \<Longrightarrow> \<exists>h out. decode_frame reply = Inr (h, out) \<and> length out \<le> 20"
  using session_reply_facts by blast

lemma session_reply_frame_decodes:
  "session_handle frame self = (Inr reply, self') \<Longrightarrow> \<exists>h body. decode_frame frame = Inr (h, body)"
  using session_reply_facts by (fastforce simp: accepts_def split: sum.splits)

text \<open>C12. What a reply is: if a frame is answered, its header decoded, its declared length was within the
  negotiated limit and equal to the body's; the answer is one well-formed Response frame with the request's
  correlation id, its opcode (\<open>WELCOME\<close> for \<open>HELLO\<close>), the session's next sequence number and a body of at
  most 20 bytes whose length the header states; the counter moves by one and the session id stays.\<close>

theorem session_reply_frame:
  assumes "session_handle frame self = (Inr reply, self')"
  shows "\<exists>h body out. accepts self frame = Some (h, body) \<and>
    decode_frame reply = Inr (reply_header self h out, out) \<and> length out \<le> 20 \<and>
    unat (fh_body_len (reply_header self h out)) = length out \<and>
    next_seq self' = next_seq self + 1 \<and> session_id self' = session_id self"
  using assms by (rule session_reply_facts)

lemma session_error_facts:
  assumes "session_handle frame self = (Inl e, self')"
  shows "self' = self \<and>
    (decode_frame frame = Inl e \<or> (\<exists>h body. decode_frame frame = Inr (h, body) \<and>
       (max_frame_body self < fh_body_len h \<and> e = FrameTooLarge (fh_body_len h) \<or>
        fh_body_len h \<le> max_frame_body self \<and>
          (unat (fh_body_len h) \<noteq> length body \<and> e = BodyLenMismatch (fh_body_len h) (length body) \<or>
           unat (fh_body_len h) = length body \<and>
             (fh_opcode h = core_op_HELLO \<and>
                (length body < 12 \<and> e = UnexpectedEof \<or>
                 (\<exists>hello. hello_decode body = Inr hello \<and> hello_proto_major hello \<noteq> PROTOCOL_MAJOR \<and>
                    e = BadVersion (hello_proto_major hello) (hello_proto_minor hello))) \<or>
              fh_opcode h \<notin> {core_op_HELLO, core_op_NOOP} \<and> e \<in> {UnknownOpcode (fh_opcode h), UnexpectedEof})))))"
proof (cases "accepts self frame")
  case None
  then show ?thesis using session_handle_refused [OF None] assms by fastforce
next
  case (Some p)
  obtain h body where p: "p = (h, body)" by (cases p)
  have acc: "decode_frame frame = Inr (h, body)" "fh_body_len h \<le> max_frame_body self" "unat (fh_body_len h) = length body"
    using Some p by (auto simp: accepts_def split: sum.splits if_splits)
  show ?thesis
  proof (cases "fh_opcode h = core_op_HELLO")
    case True
    then have "session_hello (fh_req_id h) body self = (Inl e, self')"
      using assms session_handle_accepted Some p by simp
    from session_hello_Inl [OF this] show ?thesis using acc True by simp
  next
    case False
    then have "fh_opcode h \<noteq> core_op_NOOP" "session_route (fh_opcode h) (fh_req_id h) body self = (Inl e, self')"
      using assms session_handle_accepted [OF Some [unfolded p]] by (auto split: if_splits)
    with session_route_Inl [OF this(2)] show ?thesis using acc False by simp
  qed
qed

text \<open>C13. What a refusal is: a frame that is not answered leaves the whole session as it was, counter and
  services included, and the error says why: undecodable header, declared length over the limit, declared
  length not the body's, a short or wrong-version \<open>HELLO\<close>, or the refusal of the service (none registered,
  unknown or truncated request).\<close>

theorem session_error_unchanged:
  assumes "session_handle frame self = (Inl e, self')"
  shows "self' = self \<and>
    (decode_frame frame = Inl e \<or> (\<exists>h body. decode_frame frame = Inr (h, body) \<and>
       (max_frame_body self < fh_body_len h \<and> e = FrameTooLarge (fh_body_len h) \<or>
        fh_body_len h \<le> max_frame_body self \<and>
          (unat (fh_body_len h) \<noteq> length body \<and> e = BodyLenMismatch (fh_body_len h) (length body) \<or>
           unat (fh_body_len h) = length body \<and>
             (fh_opcode h = core_op_HELLO \<and>
                (length body < 12 \<and> e = UnexpectedEof \<or>
                 (\<exists>hello. hello_decode body = Inr hello \<and> hello_proto_major hello \<noteq> PROTOCOL_MAJOR \<and>
                    e = BadVersion (hello_proto_major hello) (hello_proto_minor hello))) \<or>
              fh_opcode h \<notin> {core_op_HELLO, core_op_NOOP} \<and> e \<in> {UnknownOpcode (fh_opcode h), UnexpectedEof})))))"
  using assms by (rule session_error_facts)

text \<open>A request frame as a client builds it, for the witnesses.\<close>

definition request_frame :: "u32 \<Rightarrow> u32 \<Rightarrow> bytes \<Rightarrow> bytes" where
  "request_frame opc req_id body = encode_frame
     \<lparr>fh_version = PROTOCOL_MAJOR, fh_flags = 0, fh_kind = Request, fh_opcode = opc, fh_req_id = req_id,
      fh_seq = 1, fh_body_len = word_of_nat (length body)\<rparr> body"

lemma noop_answered:
  "session_handle (request_frame core_op_NOOP 5 []) (session_new 7) =
     (Inr (fst (session_reply core_op_NOOP 5 [] (session_new 7))), snd (session_reply core_op_NOOP 5 [] (session_new 7)))"
  by (simp add: session_handle_def request_frame_def session_new_def Let_def case_prod_beta)

lemma session_reply_frame_witness:
  "next_seq (snd (session_reply core_op_NOOP 5 [] (session_new 7))) = 2"
  using session_reply_frame [OF noop_answered] by (auto simp: session_new_def)

lemma unregistered_refused:
  "session_handle (request_frame vk_op_CREATE_INSTANCE 5 []) (session_new 7) =
     (Inl (UnknownOpcode vk_op_CREATE_INSTANCE), session_new 7)"
  by (simp add: session_handle_def request_frame_def session_new_def session_route_def Let_def
      core_op_values vk_op_values)

lemma session_error_unchanged_witness:
  "snd (session_handle (request_frame vk_op_CREATE_INSTANCE 5 []) (session_new 7)) = session_new 7"
  using session_error_unchanged [OF unregistered_refused] by (simp add: unregistered_refused)

subsection \<open>Many frames\<close>

primrec session_run :: "bytes list \<Rightarrow> session \<Rightarrow> session" where
  "session_run [] self = self"
| "session_run (f # fs) self = session_run fs (snd (session_handle f self))"

primrec session_answers :: "bytes list \<Rightarrow> session \<Rightarrow> bytes list" where
  "session_answers [] self = []"
| "session_answers (f # fs) self =
     (case session_handle f self of
        (Inl _, self') \<Rightarrow> session_answers fs self'
      | (Inr reply, self') \<Rightarrow> reply # session_answers fs self')"

definition frame_seq :: "bytes \<Rightarrow> u64" where
  "frame_seq frame = (case decode_frame frame of Inl _ \<Rightarrow> 0 | Inr (h, _) \<Rightarrow> fh_seq h)"

lemma session_answers_seq:
  "map frame_seq (session_answers fs self) =
     map (\<lambda>i. next_seq self + word_of_nat i) [0..<length (session_answers fs self)]"
proof (induction fs arbitrary: self)
  case Nil
  then show ?case by simp
next
  case (Cons f fs)
  obtain r self' where h: "session_handle f self = (r, self')" by fastforce
  show ?case
  proof (cases r)
    case (Inl e)
    then show ?thesis using Cons.IH session_error_facts [of f self e self'] h by simp
  next
    case (Inr reply)
    then have next': "next_seq self' = next_seq self + 1" and seq: "frame_seq reply = next_seq self"
      using session_reply_facts [of f self reply self'] h by (auto simp: frame_seq_def reply_header_def)
    have upt: "[0..<Suc n] = 0 # map Suc [0..<n]" for n
      by (simp add: upt_conv_Cons map_Suc_upt del: upt_Suc)
    have "map frame_seq (session_answers fs self') =
        map (\<lambda>i. next_seq self + 1 + word_of_nat i) [0..<length (session_answers fs self')]"
      using Cons.IH [of self'] next' by simp
    then show ?thesis
      by (simp add: h Inr seq upt comp_def add.assoc del: upt_Suc)
  qed
qed

text \<open>C14. Sequence numbers: the answers to any frames carry consecutive numbers from the session's counter
  on, with no gap for the frames refused in between, and so, from a fresh session and below \<open>2 ^ 64\<close>
  answers, strictly increasing ones from 1.\<close>

theorem session_sequence:
  assumes "next_seq self = 1" "length (session_answers fs self) < 2 ^ 64 - 1"
  shows "map frame_seq (session_answers fs self) = map word_of_nat [1..<Suc (length (session_answers fs self))] \<and>
    sorted_wrt (<) (map frame_seq (session_answers fs self))"
proof -
  let ?n = "length (session_answers fs self)"
  have "map (\<lambda>i. next_seq self + word_of_nat i) [0..<?n] = map (word_of_nat :: nat \<Rightarrow> u64) (map Suc [0..<?n])"
    by (simp add: assms(1))
  then have eq: "map frame_seq (session_answers fs self) = map word_of_nat [1..<Suc ?n]"
    by (simp add: session_answers_seq map_Suc_upt del: upt_Suc)
  have "sorted_wrt (<) (map (word_of_nat :: nat \<Rightarrow> u64) [1..<Suc ?n])"
  proof (unfold sorted_wrt_map, rule sorted_wrt_mono_rel [OF _ sorted_wrt_upt])
    fix i j assume "i \<in> set [1..<Suc ?n]" "j \<in> set [1..<Suc ?n]" "i < j"
    then have "i < 2 ^ 64" "j < 2 ^ 64" using assms(2) by auto
    then show "(word_of_nat i :: u64) < word_of_nat j"
      using \<open>i < j\<close> by (simp add: word_less_nat_alt unsigned_of_nat take_bit_nat_eq_self)
  qed
  then show ?thesis by (simp add: eq)
qed

lemma session_sequence_witness:
  "map frame_seq (session_answers [request_frame core_op_NOOP 5 [], [], request_frame core_op_NOOP 6 []] (session_new 7)) = [1, 2]"
proof -
  have two: "length (session_answers [request_frame core_op_NOOP 5 [], [], request_frame core_op_NOOP 6 []] (session_new 7)) = 2"
    by (simp add: session_handle_def request_frame_def session_new_def Let_def case_prod_beta session_reply_eq
        decode_frame_def [of "[]"] HEADER_LEN_def)
  moreover have "next_seq (session_new 7) = 1" by (simp add: session_new_def)
  moreover have "map word_of_nat [1..<Suc 2] = [1, 2 :: u64]" by (simp add: upt_rec)
  ultimately show ?thesis
    using session_sequence [of "session_new 7" "[request_frame core_op_NOOP 5 [], [], request_frame core_op_NOOP 6 []]"]
    by (simp del: session_answers.simps)
qed

subsection \<open>Reachable sessions\<close>

inductive session_reach :: "session \<Rightarrow> bool" where
  reach_new: "session_reach (session_new sid)"
| reach_register: "session_reach self \<Longrightarrow> boxed_invar b \<Longrightarrow> session_reach (session_register b self)"
| reach_handle: "session_reach self \<Longrightarrow> session_reach (snd (session_handle frame self))"

definition session_invar :: "session \<Rightarrow> bool" where
  "session_invar self \<longleftrightarrow> max_frame_body self \<le> DEFAULT_MAX_FRAME_BODY \<and>
     (\<forall>api b. backends self api = Some b \<longrightarrow> api_id_u8 (boxed_api b) = api \<and> boxed_invar b)"

text \<open>What one frame does to the session's fields.\<close>

lemma session_handle_fields:
  assumes "session_handle frame self = (r, self')"
  shows "self' = self \<or>
    (\<exists>h body hello. accepts self frame = Some (h, body) \<and> fh_opcode h = core_op_HELLO \<and> hello_decode body = Inr hello \<and>
       self' = self\<lparr>max_frame_body := min (hello_max_frame_body hello) DEFAULT_MAX_FRAME_BODY, handshook := True,
                    next_seq := next_seq self + 1\<rparr>) \<or>
    self' = self\<lparr>next_seq := next_seq self + 1\<rparr> \<or>
    (\<exists>h body b. accepts self frame = Some (h, body) \<and> fh_opcode h \<notin> {core_op_HELLO, core_op_NOOP} \<and>
       backends self (opcode_api (fh_opcode h)) = Some b \<and>
       self' = self\<lparr>backends := (backends self)(opcode_api (fh_opcode h) \<mapsto>
                      snd (boxed_handle (fh_opcode h) (fh_req_id h) body b)), next_seq := next_seq self + 1\<rparr>)"
proof (cases r)
  case (Inl e)
  then show ?thesis using session_error_facts [of frame self e self'] assms by simp
next
  case (Inr reply)
  then obtain h body where acc: "accepts self frame = Some (h, body)"
    using session_reply_facts [of frame self reply self'] assms by blast
  note eq = session_handle_accepted [OF acc]
  consider (hello) "fh_opcode h = core_op_HELLO" | (noop) "fh_opcode h = core_op_NOOP"
    | (route) "fh_opcode h \<notin> {core_op_HELLO, core_op_NOOP}" by blast
  then show ?thesis
  proof cases
    case hello
    then have "session_hello (fh_req_id h) body self = (Inr reply, self')" using assms eq Inr by simp
    then show ?thesis by (rule session_hello_Inr) (use acc hello in blast)
  next
    case noop
    then show ?thesis using assms eq by (simp add: session_reply_eq)
  next
    case route
    then have "session_route (fh_opcode h) (fh_req_id h) body self = (Inr reply, self')" using assms eq Inr by simp
    then obtain b b' out where "backends self (opcode_api (fh_opcode h)) = Some b"
      "boxed_handle (fh_opcode h) (fh_req_id h) body b = (Inr out, b')"
      "self' = self\<lparr>backends := (backends self)(opcode_api (fh_opcode h) \<mapsto> b'), next_seq := next_seq self + 1\<rparr>"
      by (rule session_route_Inr)
    then show ?thesis using acc route by auto
  qed
qed

lemma session_invar_handle:
  assumes "session_invar self"
  shows "session_invar (snd (session_handle frame self))"
proof -
  obtain r self' where h: "session_handle frame self = (r, self')" by fastforce
  show ?thesis
    using session_handle_fields [OF h] assms
    by (auto simp: h session_invar_def boxed_api_handle boxed_invar_handle split: if_splits)
qed

lemma handshook_handle: "handshook self \<Longrightarrow> handshook (snd (session_handle frame self))"
  using session_handle_fields [of frame self "fst (session_handle frame self)" "snd (session_handle frame self)"]
  by auto

lemma default_until_hello:
  assumes "handshook self \<or> max_frame_body self = DEFAULT_MAX_FRAME_BODY"
  shows "handshook (snd (session_handle frame self)) \<or> max_frame_body (snd (session_handle frame self)) = DEFAULT_MAX_FRAME_BODY"
  using session_handle_fields [of frame self "fst (session_handle frame self)" "snd (session_handle frame self)"] assms
  by auto

text \<open>C15. In every session that registrations and frames can produce, the limit on a frame's body never
  exceeds the protocol's default and is the default until the handshake; each service is filed under its own
  namespace and in a state its invariant holds of. A handshake, once done, stays done.\<close>

theorem session_reachable_invariant:
  assumes "session_reach self"
  shows "session_invar self \<and> (handshook self \<or> max_frame_body self = DEFAULT_MAX_FRAME_BODY) \<and>
    (handshook self \<longrightarrow> handshook (session_run fs self))"
proof -
  have "session_invar self \<and> (handshook self \<or> max_frame_body self = DEFAULT_MAX_FRAME_BODY)"
    using assms
  proof (induction rule: session_reach.induct)
    case (reach_new sid)
    then show ?case by (simp add: session_new_def session_invar_def)
  next
    case (reach_register self b)
    then show ?case by (auto simp: session_register_def session_invar_def)
  next
    case (reach_handle self frame)
    then show ?case using session_invar_handle default_until_hello by blast
  qed
  moreover have "handshook self \<Longrightarrow> handshook (session_run fs self)"
    by (induction fs arbitrary: self) (auto simp: handshook_handle)
  ultimately show ?thesis by blast
qed

lemma session_reachable_invariant_witness:
  "session_invar (session_register (BoxVulkanBackend vk_new) (session_new 1))"
  using session_reachable_invariant [OF reach_register [OF reach_new [of 1], of "BoxVulkanBackend vk_new"]]
  by (simp add: vk.invar_new)

subsection \<open>A session is a set of independent services\<close>

text \<open>The requests a session routes, each with its namespace byte, in order.\<close>

primrec routed :: "bytes list \<Rightarrow> session \<Rightarrow> (u8 \<times> request) list" where
  "routed [] self = []"
| "routed (f # fs) self =
     (case accepts self f of
        None \<Rightarrow> []
      | Some (h, body) \<Rightarrow>
          if fh_opcode h \<in> {core_op_HELLO, core_op_NOOP} then []
          else [(opcode_api (fh_opcode h), fh_opcode h, fh_req_id h, body)])
     @ routed fs (snd (session_handle f self))"

definition requests_for :: "u8 \<Rightarrow> (u8 \<times> request) list \<Rightarrow> request list" where
  "requests_for api rs = map snd (filter (\<lambda>r. fst r = api) rs)"

lemma requests_for_append: "requests_for api (xs @ ys) = requests_for api xs @ requests_for api ys"
  by (simp add: requests_for_def)

lemma map_run_none [simp]: "map_option (run_requests handle []) x = x"
  by (cases x) simp_all

lemma session_handle_backends:
  "backends (snd (session_handle f self)) api =
     map_option (run_requests boxed_handle (requests_for api (routed [f] self))) (backends self api)"
proof (cases "accepts self f")
  case None
  then show ?thesis
    using session_handle_refused [OF None] by (auto simp: requests_for_def)
next
  case (Some p)
  obtain h body where p: "p = (h, body)" by (cases p)
  note eq = session_handle_accepted [OF Some [unfolded p]]
  consider (hello) "fh_opcode h = core_op_HELLO" | (noop) "fh_opcode h = core_op_NOOP"
    | (route) "fh_opcode h \<notin> {core_op_HELLO, core_op_NOOP}" by blast
  then show ?thesis
  proof cases
    case hello
    have "backends (snd (session_hello (fh_req_id h) body self)) = backends self"
      by (auto simp: session_hello_def session_reply_eq Let_def split: sum.splits)
    then show ?thesis using eq hello Some p by (simp add: requests_for_def)
  next
    case noop
    then show ?thesis using eq Some p by (simp add: requests_for_def session_reply_eq)
  next
    case route
    have "backends (snd (session_route (fh_opcode h) (fh_req_id h) body self)) =
      (case backends self (opcode_api (fh_opcode h)) of None \<Rightarrow> backends self
       | Some b \<Rightarrow> (backends self)(opcode_api (fh_opcode h) \<mapsto> snd (boxed_handle (fh_opcode h) (fh_req_id h) body b)))"
      by (auto simp: session_route_def session_reply_eq Let_def case_prod_beta split: option.splits sum.splits)
    then show ?thesis
      using eq route Some p by (auto simp: requests_for_def option.map_ident split: option.splits)
  qed
qed

lemma session_run_backends:
  "backends (session_run fs self) api =
     map_option (run_requests boxed_handle (requests_for api (routed fs self))) (backends self api)"
proof (induction fs arbitrary: self)
  case Nil
  then show ?case by (simp add: requests_for_def option.map_ident)
next
  case (Cons f fs)
  show ?case
    using Cons.IH [of "snd (session_handle f self)"] session_handle_backends [of f self api]
    by (simp add: requests_for_append option.map_comp comp_def run_requests_append)
qed

lemma run_boxed:
  "run_requests boxed_handle reqs (BoxVulkanBackend vk_b) = BoxVulkanBackend (run_requests vk_handle reqs vk_b)"
  "run_requests boxed_handle reqs (BoxGlBackend gl_b) = BoxGlBackend (run_requests gl_handle reqs gl_b)"
  "run_requests boxed_handle reqs (BoxCudaBackend cuda_b) = BoxCudaBackend (run_requests cuda_handle reqs cuda_b)"
  "run_requests boxed_handle reqs (BoxHipBackend hip_b) = BoxHipBackend (run_requests hip_handle reqs hip_b)"
  "run_requests boxed_handle reqs (BoxClBackend cl_b) = BoxClBackend (run_requests cl_handle reqs cl_b)"
  "run_requests boxed_handle reqs (BoxL0Backend l0_b) = BoxL0Backend (run_requests l0_handle reqs l0_b)"
  "run_requests boxed_handle reqs (BoxVideoBackend video_b) = BoxVideoBackend (run_requests video_handle reqs video_b)"
  "run_requests boxed_handle reqs (BoxWebGpuBackend wgpu_b) = BoxWebGpuBackend (run_requests wgpu_handle reqs wgpu_b)"
  "run_requests boxed_handle reqs (BoxOptixBackend optix_b) = BoxOptixBackend (run_requests optix_handle reqs optix_b)"
  "run_requests boxed_handle reqs (BoxSyclBackend sycl_b) = BoxSyclBackend (run_requests sycl_handle reqs sycl_b)"
  "run_requests boxed_handle reqs (BoxAmfBackend amf_b) = BoxAmfBackend (run_requests amf_handle reqs amf_b)"
  by (induction reqs arbitrary: vk_b gl_b cuda_b hip_b cl_b l0_b video_b wgpu_b optix_b sycl_b amf_b) auto

text \<open>C16. A session is its services side by side: after any frames, the service of each namespace is in the
  state it would have reached alone, given just the requests of that namespace in their order; no frame
  touches another namespace's service, adds one or removes one. In particular the Vulkan service of a session
  is the Vulkan machine of its own requests.\<close>

theorem session_services_independent:
  "backends (session_run fs self) api =
     map_option (run_requests boxed_handle (requests_for api (routed fs self))) (backends self api) \<and>
   backends (session_run fs (session_register (BoxVulkanBackend v) self)) (api_id_u8 Vulkan) =
     Some (BoxVulkanBackend (run_requests vk_handle
       (requests_for (api_id_u8 Vulkan) (routed fs (session_register (BoxVulkanBackend v) self))) v))"
  using session_run_backends [of fs self api]
    session_run_backends [of fs "session_register (BoxVulkanBackend v) self" "api_id_u8 Vulkan"]
  by (simp add: run_boxed session_register_def vk_api_def)

text \<open>The session does not wait for the handshake: with a Vulkan service registered, a client that never
  sent \<open>HELLO\<close> gets an instance.\<close>

theorem session_serves_before_handshake:
  "let self = session_register (BoxVulkanBackend vk_new) (session_new sid);
       (r, self') = session_handle (request_frame vk_op_CREATE_INSTANCE req_id
          (vk_CreateInstanceRequest_encode \<lparr>vk_CreateInstanceRequest_app_api_version = v\<rparr> [])) self
   in is_ok r \<and> \<not> session_is_handshook self'"
proof -
  have "opcode_api vk_op_CREATE_INSTANCE = 1" "vk_op_CREATE_INSTANCE \<noteq> core_op_HELLO" "vk_op_CREATE_INSTANCE \<noteq> core_op_NOOP"
    by (simp_all add: vk_op_values core_op_values opcode_api_def)
  moreover have "(4 :: u32) \<le> DEFAULT_MAX_FRAME_BODY"
    by (simp add: DEFAULT_MAX_FRAME_BODY_def)
  ultimately show ?thesis
    by (simp add: session_handle_def request_frame_def session_register_def session_new_def session_route_def
        session_reply_eq Let_def vk_api_def vk_create_instance_def vk_CreateInstanceRequest_body.decode_roundtrip
        vk_CreateInstanceRequest_body.encode_width session_is_handshook_def case_prod_beta not_less)
qed

end
