(* ===== verification/Text_Format.thy ===== *)
theory Text_Format
  imports Prelude
begin

section \<open>Text\<close>

text \<open>
  What the program uses of the standard library's text handling, on strings as lists of UTF-8 bytes: formatting of
  integers in decimal and in hexadecimal with a width, splitting into lines, searching for a substring, and parsing
  a number.
\<close>

definition newline :: string where
  "newline = [CHR 0x0A]"

text \<open>Formatting of an integer with \<open>{}\<close>: its decimal digits.\<close>

fun digits :: "nat \<Rightarrow> string" where
  "digits n = (if n < 10 then [char_of (48 + n)] else digits (n div 10) @ [char_of (48 + n mod 10)])"

declare digits.simps [simp del]

text \<open>With \<open>{:X}\<close>: its hexadecimal digits; \<open>{:0wX}\<close> pads them with zeros to the width \<open>w\<close>.\<close>

definition hex_digit :: "nat \<Rightarrow> char" where
  "hex_digit d = (if d < 10 then char_of (48 + d) else char_of (55 + d))"

fun hex_digits :: "nat \<Rightarrow> string" where
  "hex_digits n = (if n < 16 then [hex_digit n] else hex_digits (n div 16) @ [hex_digit (n mod 16)])"

declare hex_digits.simps [simp del]

text \<open>With \<open>{:x}\<close>: the same in lower case.\<close>

definition hex_lower :: "nat \<Rightarrow> string" where
  "hex_lower n = map (\<lambda>c. if (65 :: nat) \<le> of_char c then char_of (of_char c + (32 :: nat)) else c) (hex_digits n)"

definition pad0 :: "nat \<Rightarrow> string \<Rightarrow> string" where
  "pad0 w s = replicate (w - length s) CHR ''0'' @ s"

definition hex_pad :: "nat \<Rightarrow> nat \<Rightarrow> string" where
  "hex_pad w n = pad0 w (hex_digits n)"

text \<open>\<open>str::lines\<close>: the pieces between line feeds, without a carriage return at their end; a line feed at the end of
  the text starts no further line.\<close>

fun split_lf :: "string \<Rightarrow> string \<Rightarrow> string list" where
  "split_lf line [] = (if line = [] then [] else [line])"
| "split_lf line (c # cs) = (if c = CHR 0x0A then (line @ [c]) # split_lf [] cs else split_lf (line @ [c]) cs)"

definition strip_eol :: "string \<Rightarrow> string" where
  "strip_eol line =
     (if line \<noteq> [] \<and> last line = CHR 0x0A
      then (let line = butlast line in if line \<noteq> [] \<and> last line = CHR 0x0D then butlast line else line)
      else line)"

definition str_lines :: "string \<Rightarrow> string list" where
  "str_lines s = map strip_eol (split_lf [] s)"

text \<open>\<open>starts_with\<close>, \<open>contains\<close>, and \<open>find\<close> of a character.\<close>

fun starts_with :: "string \<Rightarrow> string \<Rightarrow> bool" where
  "starts_with s [] = True"
| "starts_with [] (p # ps) = False"
| "starts_with (c # cs) (p # ps) = (c = p \<and> starts_with cs ps)"

fun str_contains :: "string \<Rightarrow> string \<Rightarrow> bool" where
  "str_contains [] p = (p = [])"
| "str_contains (c # cs) p = (starts_with (c # cs) p \<or> str_contains cs p)"

lemma starts_with_iff: "starts_with s p \<longleftrightarrow> (\<exists>r. s = p @ r)"
  by (induction s p rule: starts_with.induct) auto

lemma str_contains_iff: "str_contains s p \<longleftrightarrow> (\<exists>a b. s = a @ p @ b)"
proof (induction s)
  case (Cons c cs)
  show ?case
  proof
    assume "str_contains (c # cs) p"
    then consider r where "c # cs = [] @ p @ r" | a b where "c # cs = (c # a) @ p @ b"
      using Cons.IH by (auto simp: starts_with_iff)
    then show "\<exists>a b. c # cs = a @ p @ b" by cases blast+
  next
    assume "\<exists>a b. c # cs = a @ p @ b"
    then obtain a b where ab: "c # cs = a @ p @ b" by blast
    show "str_contains (c # cs) p"
    proof (cases a)
      case Nil
      then have "starts_with (c # cs) p" using ab starts_with_iff [of "c # cs" p] by auto
      then show ?thesis unfolding str_contains.simps by blast
    next
      case (Cons d ds)
      then have "str_contains cs p" using ab \<open>str_contains cs p \<longleftrightarrow> (\<exists>a b. cs = a @ p @ b)\<close> by auto
      then show ?thesis unfolding str_contains.simps by blast
    qed
  qed
qed simp

text \<open>\<open>find\<close> of a character, with what is before and after its first occurrence, and of a string, with what is after.\<close>

fun find_char :: "char \<Rightarrow> string \<Rightarrow> (string \<times> string) option" where
  "find_char c [] = None"
| "find_char c (x # xs) =
     (if x = c then Some ([], xs)
      else case find_char c xs of Some (before, after) \<Rightarrow> Some (x # before, after) | None \<Rightarrow> None)"

lemma find_char_SomeD: "find_char c s = Some (before, after) \<Longrightarrow> s = before @ c # after \<and> c \<notin> set before"
  by (induction s arbitrary: before) (auto split: if_splits option.splits)

lemma find_char_split [simp]: "c \<notin> set a \<Longrightarrow> find_char c (a @ c # b) = Some (a, b)"
  by (induction a) auto

fun find_str :: "string \<Rightarrow> string \<Rightarrow> string option" where
  "find_str p [] = (if p = [] then Some [] else None)"
| "find_str p (c # cs) = (if starts_with (c # cs) p then Some (drop (length p) (c # cs)) else find_str p cs)"

lemma find_str_SomeD: "find_str p s = Some after \<Longrightarrow> \<exists>before. s = before @ p @ after"
proof (induction s)
  case (Cons c cs)
  show ?case
  proof (cases "starts_with (c # cs) p")
    case True
    then obtain r where "c # cs = p @ r" unfolding starts_with_iff by blast
    moreover have "after = drop (length p) (c # cs)" using Cons.prems True by simp
    ultimately have "c # cs = [] @ p @ after" by simp
    then show ?thesis by blast
  next
    case False
    then obtain before where "cs = before @ p @ after" using Cons by auto
    then show ?thesis by (intro exI [of _ "c # before"]) simp
  qed
qed (auto split: if_splits)

subsection \<open>Numbers are read back from their digits\<close>

text \<open>\<open>is_ascii_digit\<close> and \<open>parse::<u32>\<close> of a nonempty run of digits.\<close>

definition is_ascii_digit :: "char \<Rightarrow> bool" where
  "is_ascii_digit c \<longleftrightarrow> (48 :: nat) \<le> of_char c \<and> (of_char c :: nat) \<le> 57"

definition dec_value :: "string \<Rightarrow> nat" where
  "dec_value s = fold (\<lambda>c n. n * 10 + (of_char c - 48)) s 0"

definition parse_u32 :: "string \<Rightarrow> u32 option" where
  "parse_u32 s = (let n = dec_value s in if n < 2 ^ 32 then Some (word_of_nat n) else None)"

text \<open>\<open>parse::<usize>\<close>: an optional plus sign and at least one digit.\<close>

definition parse_usize :: "string \<Rightarrow> nat option" where
  "parse_usize s =
     (let ds = (case s of c # cs \<Rightarrow> if c = CHR ''+'' then cs else s | [] \<Rightarrow> s)
      in if ds \<noteq> [] \<and> list_all is_ascii_digit ds \<and> dec_value ds \<le> usize_max then Some (dec_value ds) else None)"

definition digit_value :: "char \<Rightarrow> nat" where
  "digit_value c = (let n = of_char c in if n < 58 then n - 48 else n - 55)"

lemma digit_value_hex [simp]: "d < 16 \<Longrightarrow> digit_value (hex_digit d) = d"
  by (auto simp: digit_value_def hex_digit_def Let_def of_char_of)

definition hex_value :: "string \<Rightarrow> nat" where
  "hex_value s = fold (\<lambda>c n. n * 16 + digit_value c) s 0"

lemma hex_value_snoc [simp]: "hex_value (s @ [c]) = hex_value s * 16 + digit_value c"
  by (simp add: hex_value_def)

lemma hex_value_digits [simp]: "hex_value (hex_digits n) = n"
proof (induction n rule: hex_digits.induct)
  case (1 n)
  then show ?case by (subst hex_digits.simps) (auto simp: hex_value_def)
qed

lemma hex_value_zeros [simp]: "hex_value (replicate k CHR ''0'' @ s) = hex_value s"
  by (induction k) (simp_all add: hex_value_def digit_value_def Let_def)

lemma hex_value_pad [simp]: "hex_value (hex_pad w n) = n"
  by (simp add: hex_pad_def pad0_def)

lemma hex_pad_inj: "hex_pad w m = hex_pad w n \<Longrightarrow> m = n"
  by (metis hex_value_pad)

lemma hex_digits_nonspace: "c \<in> set (hex_digits n) \<Longrightarrow> of_char c \<ge> (48 :: nat) \<and> of_char c < (71 :: nat)"
proof (induction n rule: hex_digits.induct)
  case (1 n)
  have small: "of_char (hex_digit d) \<ge> (48 :: nat) \<and> of_char (hex_digit d) < (71 :: nat)" if "d < 16" for d
    using that by (auto simp: hex_digit_def of_char_of)
  show ?case
    using 1 small [of n] small [of "n mod 16"] by (subst (asm) hex_digits.simps) (auto split: if_splits)
qed

subsection \<open>What a program prints\<close>

text \<open>The dash of the messages is the UTF-8 sequence \<open>E2 80 94\<close>.\<close>

definition dash :: string where
  "dash = [CHR 0xE2, CHR 0x80, CHR 0x94]"

definition quoted :: "string \<Rightarrow> string" where
  "quoted s = [CHR 0x60] @ s @ [CHR 0x60]"

text \<open>What running a program comes to: its exit code and what it wrote to standard output and standard error.\<close>

record outcome =
  exit_code :: nat
  stdout :: string
  stderr :: string

definition exits :: "nat \<Rightarrow> string \<Rightarrow> string \<Rightarrow> outcome" where
  "exits code printed errors = \<lparr>exit_code = code, stdout = printed, stderr = errors\<rparr>"

end
