(* ===== verification/Obs.thy ===== *)
theory Obs
  imports Text_Format "HOL-Library.List_Lexorder" "HOL-Library.Char_ord" "HOL-Library.Multiset"
begin

section \<open>Observability\<close>

text \<open>
  \<open>crates/graftx-obs/src\<close>: \<open>CallStats\<close> (\<open>lib.rs\<close>), the latency histogram (\<open>hist.rs\<close>), the registry
  (\<open>registry.rs\<close>) and the call guard (\<open>guard.rs\<close>). Counters saturate.

  A \<open>HashMap\<close> is an association list with distinct keys: its entries in the order an iteration happens to
  yield them, which the library does not specify. What must not depend on that order (\<open>total\<close>, the sorted
  reports) is proved not to. The mutex serialises the operations, so each is a function of the registry; a
  poisoned lock is recovered by the code, so it has no branch of its own. A \<open>Duration\<close> enters only through
  \<open>as_micros\<close>, a natural number. Spans and the \<open>tracing\<close> subscriber are outside the
  model; the timer is in \<open>Metrics\<close>, the process-wide registry in \<open>Mains\<close>.
\<close>

subsection \<open>Call statistics\<close>

record call_stats =
  cs_calls :: u64
  cs_bytes_out :: u64
  cs_bytes_in :: u64

definition call_stats_default :: call_stats where
  "call_stats_default = \<lparr>cs_calls = 0, cs_bytes_out = 0, cs_bytes_in = 0\<rparr>"

definition call_stats_record :: "u64 \<Rightarrow> u64 \<Rightarrow> call_stats \<Rightarrow> call_stats" where
  "call_stats_record bytes_out bytes_in self = self
     \<lparr>cs_calls := saturating_add (cs_calls self) 1,
      cs_bytes_out := saturating_add (cs_bytes_out self) bytes_out,
      cs_bytes_in := saturating_add (cs_bytes_in self) bytes_in\<rparr>"

definition call_stats_merge :: "call_stats \<Rightarrow> call_stats \<Rightarrow> call_stats" where
  "call_stats_merge other self = self
     \<lparr>cs_calls := saturating_add (cs_calls self) (cs_calls other),
      cs_bytes_out := saturating_add (cs_bytes_out self) (cs_bytes_out other),
      cs_bytes_in := saturating_add (cs_bytes_in self) (cs_bytes_in other)\<rparr>"

lemma merge_default [simp]:
  "call_stats_merge s call_stats_default = s"
  "call_stats_merge call_stats_default s = s"
  by (simp_all add: call_stats_merge_def call_stats_default_def)

lemma merge_commute: "call_stats_merge a b = call_stats_merge b a"
  by (simp add: call_stats_merge_def saturating_add_commute)

lemma merge_assoc: "call_stats_merge a (call_stats_merge b c) = call_stats_merge (call_stats_merge a b) c"
  by (simp add: call_stats_merge_def saturating_add_ac)

lemma merge_left_commute: "call_stats_merge a (call_stats_merge b c) = call_stats_merge b (call_stats_merge a c)"
  by (metis merge_assoc merge_commute)

lemma record_merge:
  "call_stats_record out inp s = call_stats_merge \<lparr>cs_calls = 1, cs_bytes_out = out, cs_bytes_in = inp\<rparr> s"
  by (simp add: call_stats_record_def call_stats_merge_def)

subsection \<open>Latency histogram\<close>

definition BUCKETS :: nat where
  "BUCKETS = 12"

definition UPPER_BOUNDS_US :: "nat list" where
  "UPPER_BOUNDS_US = [1, 2, 4, 8, 16, 32, 64, 128, 256, 512, 1024]"

record latency_hist =
  lh_counts :: "u64 list"

definition hist_new :: latency_hist where
  "hist_new = \<lparr>lh_counts = replicate BUCKETS 0\<rparr>"

text \<open>The loop of \<open>bucket_index\<close> over the bounds with their positions.\<close>

fun bucket_loop :: "nat \<Rightarrow> nat \<Rightarrow> nat list \<Rightarrow> nat" where
  "bucket_loop micros i [] = BUCKETS - 1"
| "bucket_loop micros i (bound # bounds) = (if micros < bound then i else bucket_loop micros (Suc i) bounds)"

definition bucket_index :: "nat \<Rightarrow> nat" where
  "bucket_index micros = bucket_loop micros 0 UPPER_BOUNDS_US"

definition hist_record :: "nat \<Rightarrow> latency_hist \<Rightarrow> latency_hist" where
  "hist_record micros self =
     (let index = bucket_index micros in
      self\<lparr>lh_counts := (lh_counts self)[index := saturating_add (lh_counts self ! index) 1]\<rparr>)"

definition hist_count :: "latency_hist \<Rightarrow> u64" where
  "hist_count self = foldl (\<lambda>acc c. saturating_add acc c) 0 (lh_counts self)"

definition bucket_counts :: "latency_hist \<Rightarrow> u64 list" where
  "bucket_counts self = lh_counts self"

subsection \<open>The registry\<close>

record obs_registry =
  reg_inner :: "(string \<times> call_stats) list"
  reg_latency :: "(string \<times> latency_hist) list"

definition registry_new :: obs_registry where
  "registry_new = \<lparr>reg_inner = [], reg_latency = []\<rparr>"

text \<open>\<open>map.entry(key).or_default()\<close> followed by an update in place.\<close>

fun entry_update :: "'v \<Rightarrow> ('v \<Rightarrow> 'v) \<Rightarrow> 'k \<Rightarrow> ('k \<times> 'v) list \<Rightarrow> ('k \<times> 'v) list" where
  "entry_update d f k [] = [(k, f d)]"
| "entry_update d f k ((k', v) # es) = (if k' = k then (k', f v) # es else (k', v) # entry_update d f k es)"

definition registry_record :: "string \<Rightarrow> u64 \<Rightarrow> u64 \<Rightarrow> obs_registry \<Rightarrow> obs_registry" where
  "registry_record api bytes_out bytes_in self =
     self\<lparr>reg_inner := entry_update call_stats_default (call_stats_record bytes_out bytes_in) api (reg_inner self)\<rparr>"

definition registry_record_frame :: "string \<Rightarrow> bytes \<Rightarrow> bytes \<Rightarrow> obs_registry \<Rightarrow> obs_registry" where
  "registry_record_frame api request_frame reply_frame self =
     registry_record api (word_of_nat (length request_frame)) (word_of_nat (length reply_frame)) self"

definition registry_record_latency :: "string \<Rightarrow> nat \<Rightarrow> obs_registry \<Rightarrow> obs_registry" where
  "registry_record_latency api micros self =
     self\<lparr>reg_latency := entry_update hist_new (hist_record micros) api (reg_latency self)\<rparr>"

definition registry_snapshot :: "obs_registry \<Rightarrow> (string \<rightharpoonup> call_stats)" where
  "registry_snapshot self = map_of (reg_inner self)"

definition registry_snapshot_sorted :: "obs_registry \<Rightarrow> (string \<times> call_stats) list" where
  "registry_snapshot_sorted self = sort_key fst (reg_inner self)"

definition registry_reset :: "obs_registry \<Rightarrow> obs_registry" where
  "registry_reset self = self\<lparr>reg_inner := []\<rparr>"

definition registry_total :: "obs_registry \<Rightarrow> call_stats" where
  "registry_total self = fold (\<lambda>(_, stats) total. call_stats_merge stats total) (reg_inner self) call_stats_default"

subsection \<open>Reports\<close>

definition show_u64 :: "u64 \<Rightarrow> string" where
  "show_u64 w = digits (unat w)"

definition push_json_escaped :: "string \<Rightarrow> string \<Rightarrow> string" where
  "push_json_escaped out s = fold (\<lambda>ch out.
     if ch = CHR 0x22 then out @ [CHR 0x5C, CHR 0x22]
     else if ch = CHR 0x5C then out @ [CHR 0x5C, CHR 0x5C]
     else out @ [ch]) s out"

definition registry_report :: "obs_registry \<Rightarrow> string" where
  "registry_report self =
     (let rows = registry_snapshot_sorted self;
          total = fold (\<lambda>(_, stats) total. call_stats_merge stats total) rows call_stats_default;
          row = (\<lambda>name stats. ''| '' @ name @ '' | '' @ show_u64 (cs_calls stats) @ '' | ''
                   @ show_u64 (cs_bytes_out stats) @ '' | '' @ show_u64 (cs_bytes_in stats) @ '' |'' @ newline);
          out = ''| API | Calls | Bytes Out | Bytes In |'' @ newline @ ''| --- | --- | --- | --- |'' @ newline;
          out = fold (\<lambda>(api, stats) out. out @ row api stats) rows out
      in out @ row ''TOTAL'' total)"

text \<open>A JSON field name in quotes.\<close>

definition quoted :: "string \<Rightarrow> string" where
  "quoted s = [CHR 0x22] @ s @ [CHR 0x22]"

definition json_stats :: "call_stats \<Rightarrow> string" where
  "json_stats stats = ''{'' @ quoted ''calls'' @ '':'' @ show_u64 (cs_calls stats)
     @ '','' @ quoted ''bytes_out'' @ '':'' @ show_u64 (cs_bytes_out stats)
     @ '','' @ quoted ''bytes_in'' @ '':'' @ show_u64 (cs_bytes_in stats) @ ''}''"

definition registry_to_json :: "obs_registry \<Rightarrow> string" where
  "registry_to_json self =
     (let rows = registry_snapshot_sorted self;
          total = fold (\<lambda>(_, stats) total. call_stats_merge stats total) rows call_stats_default;
          out = ''{'' @ quoted ''apis'' @ '':{'';
          out = fold (\<lambda>(i, (api, stats)) out.
                   push_json_escaped ((if 0 < i then out @ '','' else out) @ [CHR 0x22]) api
                   @ [CHR 0x22] @ '':'' @ json_stats stats)
                (List.enumerate 0 rows) out
      in out @ ''},'' @ quoted ''total'' @ '':'' @ json_stats total @ ''}'')"

definition hist_report :: "latency_hist \<Rightarrow> string" where
  "hist_report self =
     fold (\<lambda>(i, count) out.
        if count = 0 then out
        else if i < length UPPER_BOUNDS_US
        then out @ ''| <'' @ digits (UPPER_BOUNDS_US ! i) @ ''us | '' @ show_u64 count @ '' |'' @ newline
        else out @ ''| >='' @ digits (UPPER_BOUNDS_US ! (length UPPER_BOUNDS_US - 1)) @ ''us | '' @ show_u64 count @ '' |'' @ newline)
       (List.enumerate 0 (lh_counts self))
       (''| bucket | count |'' @ newline @ ''| --- | --- |'' @ newline)"

definition registry_latency_report :: "obs_registry \<Rightarrow> string" where
  "registry_latency_report self =
     fold (\<lambda>(api, hist) out. out @ ''### '' @ api @ newline @ hist_report hist) (sort_key fst (reg_latency self)) []"

subsection \<open>The call guard\<close>

text \<open>
  The guard's own state and what dropping it does to the registry it borrows; its span is outside the model.
\<close>

record call_guard =
  guard_api :: string
  guard_bytes_out :: u64
  guard_bytes_in :: u64

definition guard_begin :: "string \<Rightarrow> call_guard" where
  "guard_begin api = \<lparr>guard_api = api, guard_bytes_out = 0, guard_bytes_in = 0\<rparr>"

definition guard_set_bytes :: "u64 \<Rightarrow> u64 \<Rightarrow> call_guard \<Rightarrow> call_guard" where
  "guard_set_bytes bytes_out bytes_in self = self\<lparr>guard_bytes_out := bytes_out, guard_bytes_in := bytes_in\<rparr>"

definition guard_drop :: "call_guard \<Rightarrow> obs_registry \<Rightarrow> obs_registry" where
  "guard_drop self registry = registry_record (guard_api self) (guard_bytes_out self) (guard_bytes_in self) registry"

subsection \<open>What the counters hold\<close>

type_synonym call = "string \<times> u64 \<times> u64"

definition registry_run :: "call list \<Rightarrow> obs_registry \<Rightarrow> obs_registry" where
  "registry_run calls r = fold (\<lambda>(api, out, inp). registry_record api out inp) calls r"

text \<open>The exact sums, cut to 64 bits.\<close>

definition stats_of :: "call list \<Rightarrow> call_stats" where
  "stats_of calls = \<lparr>cs_calls = clamp (length calls),
     cs_bytes_out = clamp (\<Sum>(_, out, _)\<leftarrow>calls. unat out),
     cs_bytes_in = clamp (\<Sum>(_, _, inp)\<leftarrow>calls. unat inp)\<rparr>"

lemma stats_of_Nil: "stats_of [] = call_stats_default"
  by (simp add: stats_of_def call_stats_default_def)

lemma stats_of_snoc: "stats_of (calls @ [(api, out, inp)]) = call_stats_record out inp (stats_of calls)"
  by (simp add: stats_of_def call_stats_record_def clamp_add clamp_Suc)

lemma map_of_entry_update:
  "map_of (entry_update d f k es) k' =
     (if k' = k then Some (f (case map_of es k of None \<Rightarrow> d | Some v \<Rightarrow> v)) else map_of es k')"
  by (induction es rule: entry_update.induct [of _ d f k]) auto

lemma entry_update_keys: "distinct (map fst es) \<Longrightarrow> distinct (map fst (entry_update d f k es))"
proof -
  have "set (map fst (entry_update d f k es)) = insert k (set (map fst es))" for es
    by (induction d f k es rule: entry_update.induct) auto
  then show "distinct (map fst es) \<Longrightarrow> distinct (map fst (entry_update d f k es))"
    by (induction d f k es rule: entry_update.induct) auto
qed

lemma registry_run_snapshot:
  "registry_snapshot (registry_run calls registry_new) api =
     (let mine = filter (\<lambda>c. fst c = api) calls in if mine = [] then None else Some (stats_of mine))"
proof (induction calls rule: rev_induct)
  case Nil
  then show ?case by (simp add: registry_run_def registry_snapshot_def registry_new_def)
next
  case (snoc c calls)
  obtain api' out inp where c: "c = (api', out, inp)" by (cases c)
  have "registry_snapshot (registry_run (calls @ [c]) registry_new) api =
      (if api = api' then Some (call_stats_record out inp
         (case registry_snapshot (registry_run calls registry_new) api of None \<Rightarrow> call_stats_default | Some v \<Rightarrow> v))
       else registry_snapshot (registry_run calls registry_new) api)"
    by (simp add: registry_run_def c registry_record_def registry_snapshot_def map_of_entry_update)
  then show ?case
    using snoc.IH stats_of_snoc [of "filter (\<lambda>c. fst c = api) calls" api' out inp]
      stats_of_snoc [of "[]" api' out inp] by (auto simp: c Let_def stats_of_Nil)
qed

lemma fold_merge: "fold (\<lambda>(_, s) t. call_stats_merge s t) es t =
    call_stats_merge (fold (\<lambda>(_, s) t. call_stats_merge s t) es call_stats_default) t"
proof (induction es arbitrary: t)
  case Nil
  then show ?case by simp
next
  case (Cons e es)
  show ?case
    using Cons.IH [of "call_stats_merge (snd e) t"] Cons.IH [of "snd e"]
    by (simp add: case_prod_beta merge_assoc)
qed

lemma total_entry_update:
  "fold (\<lambda>(_, s) t. call_stats_merge s t) (entry_update call_stats_default (call_stats_record out inp) k es) t =
     call_stats_record out inp (fold (\<lambda>(_, s) t. call_stats_merge s t) es t)"
proof (induction es arbitrary: t)
  case Nil
  then show ?case by (simp add: record_merge merge_assoc)
next
  case (Cons e es)
  obtain k' s where e: "e = (k', s)" by (cases e)
  show ?case
  proof (cases "k' = k")
    case True
    then show ?thesis
      using fold_merge [of es "call_stats_merge (call_stats_record out inp s) t"] fold_merge [of es "call_stats_merge s t"]
      by (simp add: e record_merge merge_assoc [symmetric] merge_left_commute)
  next
    case False
    then show ?thesis using Cons.IH by (simp add: e)
  qed
qed

lemma registry_run_total: "registry_total (registry_run calls registry_new) = stats_of calls"
proof (induction calls rule: rev_induct)
  case Nil
  then show ?case by (simp add: registry_run_def registry_total_def registry_new_def stats_of_Nil)
next
  case (snoc c calls)
  obtain api out inp where c: "c = (api, out, inp)" by (cases c)
  show ?case
    using snoc.IH total_entry_update [of out inp api "reg_inner (registry_run calls registry_new)" call_stats_default]
    by (simp add: c stats_of_snoc registry_total_def) (simp add: registry_run_def registry_record_def)
qed

lemma total_order_free: "mset es = mset es' \<Longrightarrow>
   fold (\<lambda>(_, s) t. call_stats_merge s t) es t = fold (\<lambda>(_, s) t. call_stats_merge s t) es' t"
  by (rule fold_permuted_eq [where P = "\<lambda>_. True"]) (auto simp: merge_left_commute)

end
