(* ===== verification/Obs_Spec.thy ===== *)
theory Obs_Spec
  imports Obs
begin

section \<open>What the observability crate promises\<close>

text \<open>
  The registry's counters are the exact sums of what was recorded, cut at 64 bits, whatever the order a hash
  map yields its entries in; the histogram's buckets are the powers of two and lose nothing; escaped text can
  be read back.
\<close>

lemma reg_inner_distinct: "distinct (map fst (reg_inner (registry_run calls registry_new)))"
proof (induction calls rule: rev_induct)
  case Nil
  then show ?case by (simp add: registry_run_def registry_new_def)
next
  case (snoc c calls)
  then show ?case
    by (cases c) (simp add: registry_run_def registry_record_def entry_update_keys)
qed

lemma sorted_order_free:
  "mset es = mset es' \<Longrightarrow> distinct (map fst es') \<Longrightarrow> sort_key fst es = sort_key fst es'"
  by (rule sort_key_inj_key_eq) (auto simp: distinct_map dest: mset_eq_setD)

text \<open>C18. The registry is exact: after any calls, the entry of an API is the number of its calls and the sums
  of its bytes, each cut at \<open>2 ^ 64 - 1\<close>, and there is an entry only for an API that was called; the total is
  the same over all calls; and neither the total nor the sorted snapshot depends on the order in which the hash
  map holds its entries.\<close>

theorem obs_registry_exact:
  "let r = registry_run calls registry_new in
     registry_snapshot r api =
       (let mine = filter (\<lambda>c. fst c = api) calls in if mine = [] then None else Some (stats_of mine)) \<and>
     registry_total r = stats_of calls \<and>
     (\<forall>es. mset es = mset (reg_inner r) \<longrightarrow>
        registry_total (r\<lparr>reg_inner := es\<rparr>) = registry_total r \<and>
        registry_snapshot_sorted (r\<lparr>reg_inner := es\<rparr>) = registry_snapshot_sorted r) \<and>
     sorted (map fst (registry_snapshot_sorted r)) \<and> distinct (map fst (registry_snapshot_sorted r))"
proof -
  let ?r = "registry_run calls registry_new"
  have sorted: "sorted (map fst (registry_snapshot_sorted ?r))" "distinct (map fst (registry_snapshot_sorted ?r))"
    using reg_inner_distinct [of calls] by (simp_all add: registry_snapshot_sorted_def distinct_map)
  have order: "registry_total (?r\<lparr>reg_inner := es\<rparr>) = registry_total ?r \<and>
      registry_snapshot_sorted (?r\<lparr>reg_inner := es\<rparr>) = registry_snapshot_sorted ?r"
    if "mset es = mset (reg_inner ?r)" for es
    using total_order_free [OF that] sorted_order_free [OF that reg_inner_distinct]
    by (simp add: registry_total_def registry_snapshot_sorted_def)
  show ?thesis
    using registry_run_snapshot [of calls api] registry_run_total [of calls] order sorted by (simp add: Let_def)
qed

lemma obs_registry_exact_witness:
  "registry_total ((registry_run [(''gl'', 3, 4), (''vk'', 1, 2)] registry_new)
     \<lparr>reg_inner := rev (reg_inner (registry_run [(''gl'', 3, 4), (''vk'', 1, 2)] registry_new))\<rparr>) =
   registry_total (registry_run [(''gl'', 3, 4), (''vk'', 1, 2)] registry_new)"
  using obs_registry_exact [of "[(''gl'', 3, 4), (''vk'', 1, 2)]" "''gl''"] by (simp add: Let_def)

subsection \<open>The histogram\<close>

lemma bucket_index_bounds:
  "bucket_index m < BUCKETS"
  "bucket_index m < BUCKETS - 1 \<Longrightarrow> m < 2 ^ bucket_index m"
  "0 < bucket_index m \<Longrightarrow> 2 ^ (bucket_index m - 1) \<le> m"
  by (auto simp: bucket_index_def UPPER_BOUNDS_US_def BUCKETS_def split: if_splits)

definition hist_run :: "nat list \<Rightarrow> latency_hist" where
  "hist_run ms = fold hist_record ms hist_new"

lemma length_hist_run: "length (lh_counts (hist_run ms)) = BUCKETS"
  by (induction ms rule: rev_induct) (simp_all add: hist_run_def hist_new_def hist_record_def Let_def)

lemma hist_run_nth:
  "i < BUCKETS \<Longrightarrow> lh_counts (hist_run ms) ! i = clamp (length (filter (\<lambda>m. bucket_index m = i) ms))"
proof (induction ms rule: rev_induct)
  case Nil
  then show ?case by (simp add: hist_run_def hist_new_def)
next
  case (snoc m ms)
  have "lh_counts (hist_run (ms @ [m])) =
      (lh_counts (hist_run ms))[bucket_index m := saturating_add (lh_counts (hist_run ms) ! bucket_index m) 1]"
    by (simp add: hist_run_def hist_record_def Let_def)
  then show ?case
    using snoc length_hist_run [of ms] by (auto simp: nth_list_update_any clamp_Suc)
qed

lemma sum_bounded_buckets:
  "(\<Sum>i<n. length (filter (\<lambda>m. f m = i) ms)) = length (filter (\<lambda>m. f m < n) ms)" for n :: nat
proof (induction ms)
  case Nil
  then show ?case by simp
next
  case (Cons m ms)
  have "(\<Sum>i<n. length (filter (\<lambda>m. f m = i) (m # ms))) =
      (\<Sum>i<n. (if f m = i then 1 else 0) + length (filter (\<lambda>m. f m = i) ms))"
    by (rule sum.cong) auto
  also have "\<dots> = (if f m < n then 1 else 0) + (\<Sum>i<n. length (filter (\<lambda>m. f m = i) ms))"
    by (simp add: sum.distrib sum.delta)
  finally show ?case using Cons.IH by simp
qed

lemma foldl_sat_clamp:
  "foldl saturating_add (clamp a) (map (clamp \<circ> f) xs) = clamp (a + sum_list (map f xs))"
  by (induction xs arbitrary: a) (simp_all add: clamp_add [symmetric] add.assoc)

text \<open>C19. The histogram files a duration of \<open>m\<close> microseconds under the power of two it is below, the last
  bucket taking all from 1024 on; after any durations each bucket holds the number filed in it and
  \<open>count\<close> the number of all, cut at 64 bits.\<close>

theorem obs_histogram_exact:
  "bucket_index m < BUCKETS \<and>
   (bucket_index m < BUCKETS - 1 \<longrightarrow> m < 2 ^ bucket_index m) \<and>
   (0 < bucket_index m \<longrightarrow> 2 ^ (bucket_index m - 1) \<le> m) \<and>
   bucket_counts (hist_run ms) = map (\<lambda>i. clamp (length (filter (\<lambda>m. bucket_index m = i) ms))) [0..<BUCKETS] \<and>
   hist_count (hist_run ms) = clamp (length ms)"
proof -
  have counts: "lh_counts (hist_run ms) = map (\<lambda>i. clamp (length (filter (\<lambda>m. bucket_index m = i) ms))) [0..<BUCKETS]"
    by (rule nth_equalityI) (simp_all add: length_hist_run hist_run_nth)
  have "sum_list (map (\<lambda>i. length (filter (\<lambda>m. bucket_index m = i) ms)) [0..<BUCKETS]) = length ms"
    using sum_bounded_buckets [of bucket_index ms BUCKETS] bucket_index_bounds(1)
    by (simp add: interv_sum_list_conv_sum_set_nat atLeast0LessThan)
  then have "hist_count (hist_run ms) = clamp (length ms)"
    using foldl_sat_clamp [of 0 "\<lambda>i. length (filter (\<lambda>m. bucket_index m = i) ms)" "[0..<BUCKETS]"]
    by (simp add: hist_count_def counts comp_def)
  then show ?thesis
    using bucket_index_bounds counts by (auto simp: bucket_counts_def)
qed

lemma obs_histogram_exact_witness: "(1000 :: nat) < 2 ^ bucket_index 1000 \<and> bucket_index 1000 = 10"
  using obs_histogram_exact [of 1000 "[]"] by (simp add: bucket_index_def UPPER_BOUNDS_US_def BUCKETS_def)

subsection \<open>Escaping\<close>

text \<open>Reading a JSON string body up to its closing quote: the text and what follows the quote.\<close>

fun json_unescape :: "string \<Rightarrow> (string \<times> string) option" where
  "json_unescape [] = None"
| "json_unescape (c # cs) =
     (if c = CHR 0x22 then Some ([], cs)
      else if c = CHR 0x5C then
        (case cs of
           [] \<Rightarrow> None
         | d # ds \<Rightarrow> (if d = CHR 0x22 \<or> d = CHR 0x5C then map_option (apfst (Cons d)) (json_unescape ds) else None))
      else map_option (apfst (Cons c)) (json_unescape cs))"

lemma push_json_escaped_append: "push_json_escaped out s = out @ push_json_escaped [] s"
proof (induction s rule: rev_induct)
  case Nil
  then show ?case by (simp add: push_json_escaped_def)
next
  case (snoc c s)
  then show ?case by (simp add: push_json_escaped_def)
qed

lemma push_json_escaped_Cons:
  "push_json_escaped [] (c # s) =
     (if c = CHR 0x22 then [CHR 0x5C, CHR 0x22] else if c = CHR 0x5C then [CHR 0x5C, CHR 0x5C] else [c])
     @ push_json_escaped [] s"
  using push_json_escaped_append [of "if c = CHR 0x22 then [CHR 0x5C, CHR 0x22]
      else if c = CHR 0x5C then [CHR 0x5C, CHR 0x5C] else [c]" s]
  by (simp add: push_json_escaped_def split: if_splits)

text \<open>The JSON escaping loses nothing and cannot be broken out of: the escaped name followed by a quote
  and anything else reads back as exactly the name, with the rest untouched.\<close>

theorem obs_json_escape:
  "json_unescape (push_json_escaped [] s @ CHR 0x22 # rest) = Some (s, rest)"
  by (induction s) (simp_all add: push_json_escaped_Cons, simp add: push_json_escaped_def)

end
