(* ===== verification/Transport.thy ===== *)
theory Transport
  imports Wire
begin

section \<open>Transports\<close>

text \<open>
  \<open>crates/graftx-transport/src\<close>: the trait \<open>Transport\<close> as a pair of operations on the transport's state, and
  its implementations: \<open>VecTransport\<close>, \<open>NullTransport\<close>, \<open>CountingTransport\<close> over another transport,
  \<open>StreamTransport\<close> over a byte stream, and the \<open>Loopback\<close> pair.

  An \<open>io::Error\<close> is its kind; the message strings are left out. The byte stream of \<open>StreamTransport\<close> is any
  \<open>Read + Write\<close>: a record of operations (\<open>stream_ops\<close>), of which the locale \<open>byte_stream\<close> states what the
  documentation of \<open>read_exact\<close> and \<open>write_all\<close> promises on a stream whose pending input and written bytes
  are known; \<open>pipe\<close> is an in-memory stream that keeps it. The channels of \<open>Loopback\<close> are queues with a flag
  for each endpoint that is still alive.

  The locale \<open>framed\<close> is what a user of a transport with a finite script relies on: frames come in the order
  they are pending, then the end of the stream; frames sent are appended to what was sent.
\<close>

datatype io_error = IoUnexpectedEof | IoBrokenPipe | IoInvalidData | IoInvalidInput | IoOther

type_synonym 'a io_result = "io_error + 'a"

record 't transport =
  t_send :: "bytes \<Rightarrow> 't \<Rightarrow> unit io_result \<times> 't"
  t_recv :: "'t \<Rightarrow> bytes io_result \<times> 't"

definition roundtrip :: "'t transport \<Rightarrow> bytes \<Rightarrow> 't \<Rightarrow> bytes io_result \<times> 't" where
  "roundtrip T frame t =
     (case t_send T frame t of
        (Inl e, t) \<Rightarrow> (Inl e, t)
      | (Inr _, t) \<Rightarrow> t_recv T t)"

subsection \<open>\<open>VecTransport\<close>\<close>

record vec_transport =
  vec_outbox :: "bytes list"
  vec_inbox :: "bytes list"

definition vec_new :: vec_transport where
  "vec_new = \<lparr>vec_outbox = [], vec_inbox = []\<rparr>"

definition vec_push_inbox :: "bytes \<Rightarrow> vec_transport \<Rightarrow> vec_transport" where
  "vec_push_inbox frame self = self\<lparr>vec_inbox := vec_inbox self @ [frame]\<rparr>"

definition vec_send :: "bytes \<Rightarrow> vec_transport \<Rightarrow> unit io_result \<times> vec_transport" where
  "vec_send frame self = (Inr (), self\<lparr>vec_outbox := vec_outbox self @ [frame]\<rparr>)"

definition vec_recv :: "vec_transport \<Rightarrow> bytes io_result \<times> vec_transport" where
  "vec_recv self = (case vec_inbox self of
       [] \<Rightarrow> (Inl IoUnexpectedEof, self)
     | frame # rest \<Rightarrow> (Inr frame, self\<lparr>vec_inbox := rest\<rparr>))"

definition vec_ops :: "vec_transport transport" where
  "vec_ops = \<lparr>t_send = vec_send, t_recv = vec_recv\<rparr>"

subsection \<open>\<open>NullTransport\<close>\<close>

datatype null_transport = NullTransport

definition null_send :: "bytes \<Rightarrow> null_transport \<Rightarrow> unit io_result \<times> null_transport" where
  "null_send frame self = (Inr (), self)"

definition null_recv :: "null_transport \<Rightarrow> bytes io_result \<times> null_transport" where
  "null_recv self = (Inl IoUnexpectedEof, self)"

definition null_ops :: "null_transport transport" where
  "null_ops = \<lparr>t_send = null_send, t_recv = null_recv\<rparr>"

subsection \<open>\<open>CountingTransport\<close>\<close>

record 't counting_transport =
  ct_inner :: 't
  ct_bytes_sent :: u64
  ct_bytes_recv :: u64
  ct_frames_sent :: u64
  ct_frames_recv :: u64

definition counting_new :: "'t \<Rightarrow> 't counting_transport" where
  "counting_new inner = \<lparr>ct_inner = inner, ct_bytes_sent = 0, ct_bytes_recv = 0, ct_frames_sent = 0, ct_frames_recv = 0\<rparr>"

definition counting_send ::
    "'t transport \<Rightarrow> bytes \<Rightarrow> 't counting_transport \<Rightarrow> unit io_result \<times> 't counting_transport" where
  "counting_send T frame self =
     (case t_send T frame (ct_inner self) of
        (Inl e, inner) \<Rightarrow> (Inl e, self\<lparr>ct_inner := inner\<rparr>)
      | (Inr _, inner) \<Rightarrow>
          (Inr (), self\<lparr>ct_inner := inner,
             ct_bytes_sent := saturating_add (ct_bytes_sent self) (word_of_nat (length frame)),
             ct_frames_sent := saturating_add (ct_frames_sent self) 1\<rparr>))"

definition counting_recv :: "'t transport \<Rightarrow> 't counting_transport \<Rightarrow> bytes io_result \<times> 't counting_transport" where
  "counting_recv T self =
     (case t_recv T (ct_inner self) of
        (Inl e, inner) \<Rightarrow> (Inl e, self\<lparr>ct_inner := inner\<rparr>)
      | (Inr frame, inner) \<Rightarrow>
          (Inr frame, self\<lparr>ct_inner := inner,
             ct_bytes_recv := saturating_add (ct_bytes_recv self) (word_of_nat (length frame)),
             ct_frames_recv := saturating_add (ct_frames_recv self) 1\<rparr>))"

definition counting_ops :: "'t transport \<Rightarrow> 't counting_transport transport" where
  "counting_ops T = \<lparr>t_send = counting_send T, t_recv = counting_recv T\<rparr>"

subsection \<open>\<open>StreamTransport\<close>\<close>

definition MAX_FRAME :: u32 where
  "MAX_FRAME = 64 * 1024 * 1024"

record 's stream_ops =
  s_read_exact :: "nat \<Rightarrow> 's \<Rightarrow> bytes io_result \<times> 's"
  s_write_all :: "bytes \<Rightarrow> 's \<Rightarrow> unit io_result \<times> 's"
  s_flush :: "'s \<Rightarrow> unit io_result \<times> 's"

record 's stream_transport =
  st_inner :: 's
  st_max_frame :: u32

definition stream_with_max_frame :: "'s \<Rightarrow> u32 \<Rightarrow> 's stream_transport" where
  "stream_with_max_frame inner max_frame = \<lparr>st_inner = inner, st_max_frame = max_frame\<rparr>"

definition stream_new :: "'s \<Rightarrow> 's stream_transport" where
  "stream_new inner = stream_with_max_frame inner MAX_FRAME"

definition stream_send ::
    "'s stream_ops \<Rightarrow> bytes \<Rightarrow> 's stream_transport \<Rightarrow> unit io_result \<times> 's stream_transport" where
  "stream_send S frame self =
     (if 2 ^ 32 \<le> length frame then (Inl IoInvalidInput, self)
      else case s_write_all S (u32_to_le_bytes (word_of_nat (length frame))) (st_inner self) of
        (Inl e, inner) \<Rightarrow> (Inl e, self\<lparr>st_inner := inner\<rparr>)
      | (Inr _, inner) \<Rightarrow>
          (case s_write_all S frame inner of
             (Inl e, inner) \<Rightarrow> (Inl e, self\<lparr>st_inner := inner\<rparr>)
           | (Inr _, inner) \<Rightarrow>
               (case s_flush S inner of (r, inner) \<Rightarrow> (r, self\<lparr>st_inner := inner\<rparr>))))"

definition stream_recv :: "'s stream_ops \<Rightarrow> 's stream_transport \<Rightarrow> bytes io_result \<times> 's stream_transport" where
  "stream_recv S self =
     (case s_read_exact S 4 (st_inner self) of
        (Inl err, inner) \<Rightarrow>
          (if err = IoUnexpectedEof then (Inl IoUnexpectedEof, self\<lparr>st_inner := inner\<rparr>)
           else (Inl err, self\<lparr>st_inner := inner\<rparr>))
      | (Inr header, inner) \<Rightarrow>
          (let len = u32_from_le_bytes header in
           if st_max_frame self < len then (Inl IoInvalidData, self\<lparr>st_inner := inner\<rparr>)
           else case s_read_exact S (unat len) inner of
                  (Inl err, inner) \<Rightarrow> (Inl err, self\<lparr>st_inner := inner\<rparr>)
                | (Inr frame, inner) \<Rightarrow> (Inr frame, self\<lparr>st_inner := inner\<rparr>)))"

definition stream_transport_ops :: "'s stream_ops \<Rightarrow> 's stream_transport transport" where
  "stream_transport_ops S = \<lparr>t_send = stream_send S, t_recv = stream_recv S\<rparr>"

subsection \<open>\<open>Loopback\<close>\<close>

text \<open>
  Both endpoints and their two channels. A \<open>recv\<close> on an empty channel blocks while the peer lives, which is the
  result \<open>None\<close>; a channel delivers what was sent before the peer went away. An endpoint that is dropped
  drops its receiver and its sender.
\<close>

datatype endpoint = EndA | EndB

fun peer :: "endpoint \<Rightarrow> endpoint" where
  "peer EndA = EndB"
| "peer EndB = EndA"

record loopback =
  lb_queue :: "endpoint \<Rightarrow> bytes list"
  lb_alive :: "endpoint \<Rightarrow> bool"

definition loopback_new :: loopback where
  "loopback_new = \<lparr>lb_queue = (\<lambda>_. []), lb_alive = (\<lambda>_. True)\<rparr>"

definition loopback_send :: "endpoint \<Rightarrow> bytes \<Rightarrow> loopback \<Rightarrow> unit io_result \<times> loopback" where
  "loopback_send e frame net =
     (if lb_alive net (peer e)
      then (Inr (), net\<lparr>lb_queue := (lb_queue net)(peer e := lb_queue net (peer e) @ [frame])\<rparr>)
      else (Inl IoBrokenPipe, net))"

definition loopback_recv :: "endpoint \<Rightarrow> loopback \<Rightarrow> (bytes io_result \<times> loopback) option" where
  "loopback_recv e net =
     (case lb_queue net e of
        frame # rest \<Rightarrow> Some (Inr frame, net\<lparr>lb_queue := (lb_queue net)(e := rest)\<rparr>)
      | [] \<Rightarrow> if lb_alive net (peer e) then None else Some (Inl IoUnexpectedEof, net))"

definition loopback_drop :: "endpoint \<Rightarrow> loopback \<Rightarrow> loopback" where
  "loopback_drop e net = net\<lparr>lb_alive := (lb_alive net)(e := False)\<rparr>"

subsection \<open>The interface of a scripted transport\<close>

locale framed =
  fixes T :: "'t transport"
    and pending :: "'t \<Rightarrow> bytes list"
    and sent :: "'t \<Rightarrow> bytes list"
    and wf :: "'t \<Rightarrow> bool"
    and sendable :: "bytes \<Rightarrow> bool"
  assumes recv_end: "wf t \<Longrightarrow> pending t = [] \<Longrightarrow>
        fst (t_recv T t) = Inl IoUnexpectedEof \<and> sent (snd (t_recv T t)) = sent t"
    and recv_frame: "wf t \<Longrightarrow> pending t = f # fs \<Longrightarrow>
        fst (t_recv T t) = Inr f \<and> pending (snd (t_recv T t)) = fs \<and> sent (snd (t_recv T t)) = sent t
        \<and> wf (snd (t_recv T t))"
    and send_frame: "wf t \<Longrightarrow> sendable f \<Longrightarrow>
        fst (t_send T f t) = Inr () \<and> pending (snd (t_send T f t)) = pending t
        \<and> sent (snd (t_send T f t)) = sent t @ [f] \<and> wf (snd (t_send T f t))"
begin

lemma roundtrip_pending:
  "wf t \<Longrightarrow> sendable f \<Longrightarrow> pending t = g # gs \<Longrightarrow>
   fst (roundtrip T f t) = Inr g \<and> pending (snd (roundtrip T f t)) = gs \<and> sent (snd (roundtrip T f t)) = sent t @ [f]
   \<and> wf (snd (roundtrip T f t))"
  using send_frame [of t f] recv_frame [of "snd (t_send T f t)" g gs]
  by (cases "t_send T f t") (auto simp: roundtrip_def)

lemma roundtrip_end:
  "wf t \<Longrightarrow> sendable f \<Longrightarrow> pending t = [] \<Longrightarrow>
   fst (roundtrip T f t) = Inl IoUnexpectedEof \<and> sent (snd (roundtrip T f t)) = sent t @ [f]"
  using send_frame [of t f] recv_end [of "snd (t_send T f t)"]
  by (cases "t_send T f t") (auto simp: roundtrip_def)

end

interpretation vec: framed vec_ops vec_inbox vec_outbox "\<lambda>_. True" "\<lambda>_. True"
  by unfold_locales (simp_all add: vec_ops_def vec_recv_def vec_send_def)

text \<open>Counting over a scripted transport is one; the counters take no part.\<close>

context framed begin

lemma counting_framed:
  "framed (counting_ops T) (\<lambda>t. pending (ct_inner t)) (\<lambda>t. sent (ct_inner t)) (\<lambda>t. wf (ct_inner t)) sendable"
proof (unfold_locales, goal_cases)
  case (1 t)
  then show ?case using recv_end [of "ct_inner t"]
    by (auto simp: counting_ops_def counting_recv_def split: prod.splits sum.splits)
next
  case (2 t f fs)
  then show ?case using recv_frame [of "ct_inner t" f fs]
    by (auto simp: counting_ops_def counting_recv_def split: prod.splits sum.splits)
next
  case (3 t f)
  then show ?case using send_frame [of "ct_inner t" f]
    by (auto simp: counting_ops_def counting_send_def split: prod.splits sum.splits)
qed

end

interpretation counting_vec: framed "counting_ops vec_ops" "\<lambda>t. vec_inbox (ct_inner t)" "\<lambda>t. vec_outbox (ct_inner t)"
  "\<lambda>_. True" "\<lambda>_. True"
  by (rule vec.counting_framed)

subsection \<open>Byte streams\<close>

text \<open>
  What \<open>StreamTransport\<close> relies on: \<open>read_exact\<close> fills its buffer from the front of the pending input, or
  fails with \<open>UnexpectedEof\<close> when the input ends first; \<open>write_all\<close> appends to what is written.
\<close>

locale byte_stream =
  fixes S :: "'s stream_ops"
    and input :: "'s \<Rightarrow> bytes"
    and written :: "'s \<Rightarrow> bytes"
  assumes read_enough: "n \<le> length (input s) \<Longrightarrow>
        fst (s_read_exact S n s) = Inr (take n (input s)) \<and> input (snd (s_read_exact S n s)) = drop n (input s)
        \<and> written (snd (s_read_exact S n s)) = written s"
    and read_short: "length (input s) < n \<Longrightarrow>
        fst (s_read_exact S n s) = Inl IoUnexpectedEof \<and> written (snd (s_read_exact S n s)) = written s"
    and write_all: "fst (s_write_all S bs s) = Inr () \<and> input (snd (s_write_all S bs s)) = input s
        \<and> written (snd (s_write_all S bs s)) = written s @ bs"
    and flush: "fst (s_flush S s) = Inr () \<and> input (snd (s_flush S s)) = input s \<and> written (snd (s_flush S s)) = written s"

text \<open>A frame on the stream, and the frames at the front of a byte sequence under a length cap.\<close>

definition frame_bytes :: "bytes \<Rightarrow> bytes" where
  "frame_bytes f = u32_to_le_bytes (word_of_nat (length f)) @ f"

function unframe :: "nat \<Rightarrow> bytes \<Rightarrow> bytes list" where
  "unframe cap bs =
     (if length bs < 4 then []
      else let n = unat (u32_from_le_bytes (take 4 bs)); rest = drop 4 bs in
        if cap < n \<or> length rest < n then [] else take n rest # unframe cap (drop n rest))"
  by pat_completeness auto
termination
  by (relation "measure (\<lambda>(cap, bs). length bs)") (auto simp: Let_def)

declare unframe.simps [simp del]

lemma unframe_Nil [simp]: "unframe cap [] = []"
  by (simp add: unframe.simps)

lemma frame_length: "length f < 2 ^ 32 \<Longrightarrow> unat (u32_from_le_bytes (u32_to_le_bytes (word_of_nat (length f)))) = length f"
  by (simp add: unsigned_of_nat take_bit_nat_eq_self)

lemma unframe_frame: "length f \<le> cap \<Longrightarrow> length f < 2 ^ 32 \<Longrightarrow> unframe cap (frame_bytes f @ bs) = f # unframe cap bs"
  by (subst unframe.simps) (simp add: frame_bytes_def frame_length del: from_le_bytes_to_le_bytes)

lemma unframe_frames:
  "list_all (\<lambda>f. length f \<le> cap \<and> length f < 2 ^ 32) fs \<Longrightarrow> unframe cap (concat (map frame_bytes fs)) = fs"
  by (induction fs) (simp_all add: unframe_frame)

text \<open>Any byte sequence is frames under the cap and then a tail that starts with none.\<close>

definition unframed_tail :: "nat \<Rightarrow> bytes \<Rightarrow> bytes" where
  "unframed_tail cap bs = drop (length (concat (map frame_bytes (unframe cap bs)))) bs"

lemma unframe_split:
  "bs = concat (map frame_bytes (unframe cap bs)) @ unframed_tail cap bs \<and>
   unframe cap (unframed_tail cap bs) = [] \<and> list_all (\<lambda>f. length f \<le> cap) (unframe cap bs)"
proof (induction cap bs rule: unframe.induct)
  case (1 cap bs)
  let ?n = "unat (u32_from_le_bytes (take 4 bs))"
  let ?f = "take ?n (drop 4 bs)" and ?rest = "drop ?n (drop 4 bs)"
  show ?case
  proof (cases "length bs < 4 \<or> cap < ?n \<or> length (drop 4 bs) < ?n")
    case True
    then have "unframe cap bs = []" by (subst unframe.simps) (auto simp: Let_def)
    then show ?thesis by (simp add: unframed_tail_def)
  next
    case False
    then have un: "unframe cap bs = ?f # unframe cap ?rest"
      by (subst unframe.simps) (simp add: Let_def)
    have len: "length ?f = ?n" using False by simp
    have "u32_to_le_bytes (word_of_nat (length ?f)) = take 4 bs"
      using False by (simp only: len) (simp add: to_le_bytes_from_le_bytes)
    then have head: "bs = frame_bytes ?f @ ?rest"
      unfolding frame_bytes_def by (metis append.assoc append_take_drop_id)
    have step: "unframed_tail cap bs = unframed_tail cap rest"
      if "unframe cap bs = f # unframe cap rest" "bs = frame_bytes f @ rest" for f rest
      using that by (simp add: unframed_tail_def)
    note tail = step [OF un head]
    have IH: "?rest = concat (map frame_bytes (unframe cap ?rest)) @ unframed_tail cap ?rest \<and>
        unframe cap (unframed_tail cap ?rest) = [] \<and> list_all (\<lambda>f. length f \<le> cap) (unframe cap ?rest)"
      by (rule 1) (use False in auto)
    have "length ?f \<le> cap" using len False by simp
    moreover have "bs = frame_bytes ?f @ concat (map frame_bytes (unframe cap ?rest)) @ unframed_tail cap ?rest"
      using head IH by presburger
    ultimately show ?thesis
      unfolding un tail list.map concat.simps append_assoc list.pred_inject(2) using IH by blast
  qed
qed

text \<open>A byte sequence that is whole frames under the cap.\<close>

definition whole_frames :: "nat \<Rightarrow> bytes \<Rightarrow> bool" where
  "whole_frames cap bs \<longleftrightarrow> list_all (\<lambda>f. length f \<le> cap \<and> length f < 2 ^ 32) (unframe cap bs) \<and>
     concat (map frame_bytes (unframe cap bs)) = bs"

lemma whole_frames_Nil [simp]: "whole_frames cap []"
  by (simp add: whole_frames_def)

lemma whole_frames_concat:
  "list_all (\<lambda>f. length f \<le> cap \<and> length f < 2 ^ 32) fs \<Longrightarrow> whole_frames cap (concat (map frame_bytes fs))"
  by (simp add: whole_frames_def unframe_frames)

lemma whole_frames_snoc:
  assumes "whole_frames cap bs" "length f \<le> cap" "length f < 2 ^ 32"
  shows "whole_frames cap (bs @ frame_bytes f) \<and> unframe cap (bs @ frame_bytes f) = unframe cap bs @ [f]"
proof -
  let ?fs = "unframe cap bs @ [f]"
  have all: "list_all (\<lambda>f. length f \<le> cap \<and> length f < 2 ^ 32) ?fs"
    using assms by (simp add: whole_frames_def)
  have "concat (map frame_bytes ?fs) = bs @ frame_bytes f"
    using assms(1) by (simp add: whole_frames_def)
  then show ?thesis
    using whole_frames_concat [OF all] unframe_frames [OF all] by simp
qed

lemma whole_frames_Cons:
  assumes "whole_frames cap bs" "unframe cap bs = f # fs"
  shows "bs = frame_bytes f @ concat (map frame_bytes fs)" "length f \<le> cap" "length f < 2 ^ 32"
    "whole_frames cap (concat (map frame_bytes fs))" "unframe cap (concat (map frame_bytes fs)) = fs"
  using assms whole_frames_concat [of cap fs] unframe_frames [of cap fs] by (auto simp: whole_frames_def)

lemma whole_frames_end: "whole_frames cap bs \<Longrightarrow> unframe cap bs = [] \<Longrightarrow> bs = []"
  by (auto simp: whole_frames_def)

definition send_cap :: nat where
  "send_cap = 2 ^ 32 - 1"

context byte_stream begin

lemma stream_send_ok:
  assumes "length f < 2 ^ 32" "stream_send S f t = (r, t')"
  shows "r = Inr ()" "input (st_inner t') = input (st_inner t)"
    "written (st_inner t') = written (st_inner t) @ frame_bytes f" "st_max_frame t' = st_max_frame t"
proof -
  let ?h = "u32_to_le_bytes (word_of_nat (length f))"
  obtain r1 s1 where w1: "s_write_all S ?h (st_inner t) = (r1, s1)" by fastforce
  obtain r2 s2 where w2: "s_write_all S f s1 = (r2, s2)" by fastforce
  obtain r3 s3 where w3: "s_flush S s2 = (r3, s3)" by fastforce
  have "r1 = Inr ()" "r2 = Inr ()" "r3 = Inr ()" "input s3 = input (st_inner t)"
    "written s3 = written (st_inner t) @ frame_bytes f"
    using write_all [of ?h "st_inner t"] write_all [of f s1] flush [of s2] w1 w2 w3 by (simp_all add: frame_bytes_def)
  moreover from this have "(r, t') = (Inr (), t\<lparr>st_inner := s3\<rparr>)"
    using assms w1 w2 w3 by (simp add: stream_send_def)
  ultimately show "r = Inr ()" "input (st_inner t') = input (st_inner t)"
    "written (st_inner t') = written (st_inner t) @ frame_bytes f" "st_max_frame t' = st_max_frame t"
    by simp_all
qed

lemma stream_recv_frame:
  assumes "input (st_inner t) = frame_bytes f @ bs" "length f \<le> unat (st_max_frame t)" "stream_recv S t = (r, t')"
  shows "r = Inr f" "input (st_inner t') = bs" "written (st_inner t') = written (st_inner t)"
    "st_max_frame t' = st_max_frame t"
proof -
  have small: "length f < 2 ^ 32"
    using assms(2) unsigned_less [of "st_max_frame t", where ?'a = nat] by simp
  obtain h s1 where r1: "s_read_exact S 4 (st_inner t) = (h, s1)" by fastforce
  then have h: "h = Inr (u32_to_le_bytes (word_of_nat (length f)))" "input s1 = f @ bs" "written s1 = written (st_inner t)"
    using read_enough [of 4 "st_inner t"] assms(1) by (simp_all add: frame_bytes_def)
  have len: "unat (word_of_nat (length f) :: u32) = length f"
    using small by (simp add: unsigned_of_nat take_bit_nat_eq_self)
  then have fits: "\<not> st_max_frame t < word_of_nat (length f)"
    using assms(2) by (simp add: word_less_nat_alt)
  obtain b s2 where r2: "s_read_exact S (length f) s1 = (b, s2)" by fastforce
  then have b: "b = Inr f" "input s2 = bs" "written s2 = written s1"
    using read_enough [of "length f" s1] h(2) by simp_all
  have "stream_recv S t = (Inr f, t\<lparr>st_inner := s2\<rparr>)"
    by (simp add: stream_recv_def r1 h(1) fits len r2 b(1) Let_def)
  then show "r = Inr f" "input (st_inner t') = bs" "written (st_inner t') = written (st_inner t)"
    "st_max_frame t' = st_max_frame t"
    using assms(3) b h by auto
qed

lemma stream_recv_end:
  "input (st_inner t) = [] \<Longrightarrow> stream_recv S t = (r, t') \<Longrightarrow>
   r = Inl IoUnexpectedEof \<and> written (st_inner t') = written (st_inner t)"
  using read_short [of "st_inner t" 4] by (auto simp: stream_recv_def split: prod.splits sum.splits)

text \<open>A declared length over the cap is refused on the header alone.\<close>

lemma stream_recv_oversize:
  assumes "4 \<le> length (input (st_inner t))" "st_max_frame t < u32_from_le_bytes (take 4 (input (st_inner t)))"
    "stream_recv S t = (r, t')"
  shows "r = Inl IoInvalidData \<and> input (st_inner t') = drop 4 (input (st_inner t))"
  using read_enough [OF assms(1)] assms(2,3)
  by (auto simp: stream_recv_def Let_def split: prod.splits sum.splits)

text \<open>Whatever the stream holds, a frame that is received is within the cap and was there in full.\<close>

lemma stream_recv_sound:
  assumes "stream_recv S t = (Inr f, t')"
  shows "length f \<le> unat (st_max_frame t)" "input (st_inner t) = frame_bytes f @ input (st_inner t')"
proof -
  let ?in = "input (st_inner t)"
  have four: "4 \<le> length ?in"
  proof (rule ccontr)
    assume "\<not> 4 \<le> length ?in"
    then show False using read_short [of "st_inner t" 4] assms by (auto simp: stream_recv_def split: prod.splits sum.splits)
  qed
  obtain h s1 where r1: "s_read_exact S 4 (st_inner t) = (h, s1)" by fastforce
  have h: "h = Inr (take 4 ?in)" "input s1 = drop 4 ?in"
    using read_enough [OF four] r1 by simp_all
  let ?n = "u32_from_le_bytes (take 4 ?in)"
  have cap: "\<not> st_max_frame t < ?n"
    using assms r1 h by (auto simp: stream_recv_def Let_def)
  obtain b s2 where r2: "s_read_exact S (unat ?n) s1 = (b, s2)" by fastforce
  have t': "b = Inr f" "t' = t\<lparr>st_inner := s2\<rparr>"
    using assms r1 h cap r2 by (auto simp: stream_recv_def Let_def split: sum.splits)
  have enough: "unat ?n \<le> length (input s1)"
  proof (rule ccontr)
    assume "\<not> unat ?n \<le> length (input s1)"
    then show False using read_short [of s1 "unat ?n"] r2 t' by simp
  qed
  then have f: "f = take (unat ?n) (drop 4 ?in)" "input s2 = drop (unat ?n) (drop 4 ?in)"
    using read_enough [OF enough] r2 t' h by simp_all
  have len: "length f = unat ?n" using f enough h by simp
  show "length f \<le> unat (st_max_frame t)" using cap len by (simp add: word_less_nat_alt)
  have head: "u32_to_le_bytes (word_of_nat (length f)) = take 4 ?in"
    using four by (simp add: len to_le_bytes_from_le_bytes)
  have body: "f @ input s2 = drop 4 ?in"
    unfolding f by (rule append_take_drop_id)
  have "frame_bytes f @ input s2 = take 4 ?in @ drop 4 ?in"
    by (simp only: frame_bytes_def head append_assoc body)
  then show "?in = frame_bytes f @ input (st_inner t')"
    using t'(2) by simp
qed

lemma stream_framed:
  "framed (stream_transport_ops S)
     (\<lambda>t. unframe (unat (st_max_frame t)) (input (st_inner t)))
     (\<lambda>t. unframe send_cap (written (st_inner t)))
     (\<lambda>t. whole_frames (unat (st_max_frame t)) (input (st_inner t)) \<and> whole_frames send_cap (written (st_inner t)))
     (\<lambda>f. length f < 2 ^ 32)"
proof (unfold_locales, goal_cases)
  case (1 t)
  obtain r t' where r: "stream_recv S t = (r, t')" by fastforce
  have "input (st_inner t) = []" using 1 whole_frames_end by blast
  then show ?case using stream_recv_end [OF _ r] by (simp add: stream_transport_ops_def r)
next
  case (2 t f fs)
  obtain r t' where r: "stream_recv S t = (r, t')" by fastforce
  have w: "input (st_inner t) = frame_bytes f @ concat (map frame_bytes fs)" "length f \<le> unat (st_max_frame t)"
    "whole_frames (unat (st_max_frame t)) (concat (map frame_bytes fs))"
    "unframe (unat (st_max_frame t)) (concat (map frame_bytes fs)) = fs"
    using whole_frames_Cons [of "unat (st_max_frame t)" "input (st_inner t)" f fs] 2 by auto
  show ?case
    using stream_recv_frame [OF w(1,2) r] w 2 by (simp add: stream_transport_ops_def r)
next
  case (3 t f)
  obtain r t' where r: "stream_send S f t = (r, t')" by fastforce
  show ?case
    using stream_send_ok [OF 3(2) r] 3 whole_frames_snoc [of send_cap "written (st_inner t)" f]
    by (simp add: stream_transport_ops_def r send_cap_def)
qed

end

text \<open>An in-memory stream.\<close>

record pipe =
  pipe_input :: bytes
  pipe_output :: bytes

definition pipe_ops :: "pipe stream_ops" where
  "pipe_ops = \<lparr>
     s_read_exact = (\<lambda>n s. if n \<le> length (pipe_input s)
        then (Inr (take n (pipe_input s)), s\<lparr>pipe_input := drop n (pipe_input s)\<rparr>)
        else (Inl IoUnexpectedEof, s\<lparr>pipe_input := []\<rparr>)),
     s_write_all = (\<lambda>bs s. (Inr (), s\<lparr>pipe_output := pipe_output s @ bs\<rparr>)),
     s_flush = (\<lambda>s. (Inr (), s))\<rparr>"

interpretation pipe: byte_stream pipe_ops pipe_input pipe_output
  by unfold_locales (simp_all add: pipe_ops_def)

interpretation pipe_stream: framed "stream_transport_ops pipe_ops"
  "\<lambda>t. unframe (unat (st_max_frame t)) (pipe_input (st_inner t))"
  "\<lambda>t. unframe send_cap (pipe_output (st_inner t))"
  "\<lambda>t. whole_frames (unat (st_max_frame t)) (pipe_input (st_inner t)) \<and> whole_frames send_cap (pipe_output (st_inner t))"
  "\<lambda>f. length f < 2 ^ 32"
  by (rule pipe.stream_framed)

end
