(* ===== verification/Transport_Spec.thy ===== *)
theory Transport_Spec
  imports Transport
begin

section \<open>Properties of the transports\<close>

text \<open>
  A user of a transport calls \<open>send\<close> and \<open>recv\<close> in some order; \<open>io_run\<close> is such a run, with the result of each
  call. The properties: a stream transport delivers the frames another one wrote, in order, and then the end of
  the stream; its \<open>recv\<close> on any input; the counters of a counting transport; and the channels of a loopback
  pair, as a step relation over both endpoints.
\<close>

subsection \<open>Runs of a transport\<close>

datatype io_call = DoSend bytes | DoRecv

datatype io_event = SendResult bytes "unit io_result" | RecvResult "bytes io_result"

fun io_step :: "'t transport \<Rightarrow> io_call \<Rightarrow> 't \<Rightarrow> io_event \<times> 't" where
  "io_step T (DoSend f) t = (let (r, t) = t_send T f t in (SendResult f r, t))"
| "io_step T DoRecv t = (let (r, t) = t_recv T t in (RecvResult r, t))"

primrec io_run :: "'t transport \<Rightarrow> io_call list \<Rightarrow> 't \<Rightarrow> io_event list \<times> 't" where
  "io_run T [] t = ([], t)"
| "io_run T (c # cs) t = (let (e, t) = io_step T c t; (es, t) = io_run T cs t in (e # es, t))"

fun frame_sent :: "io_event \<Rightarrow> bytes option" where
  "frame_sent (SendResult f (Inr _)) = Some f"
| "frame_sent _ = None"

fun frame_received :: "io_event \<Rightarrow> bytes option" where
  "frame_received (RecvResult (Inr f)) = Some f"
| "frame_received _ = None"

lemma io_run_append:
  "io_run T (cs @ ds) t =
     (let (es, t) = io_run T cs t; (fs, t) = io_run T ds t in (es @ fs, t))"
  by (induction cs arbitrary: t) (simp_all add: case_prod_beta Let_def)

context framed begin

lemma io_run_sends:
  "wf t \<Longrightarrow> list_all sendable fs \<Longrightarrow>
   fst (io_run T (map DoSend fs) t) = map (\<lambda>f. SendResult f (Inr ())) fs \<and>
   sent (snd (io_run T (map DoSend fs) t)) = sent t @ fs \<and>
   pending (snd (io_run T (map DoSend fs) t)) = pending t \<and> wf (snd (io_run T (map DoSend fs) t))"
proof (induction fs arbitrary: t)
  case (Cons f fs)
  then show ?case
    using send_frame [of t f] Cons.IH [of "snd (t_send T f t)"] by (simp add: case_prod_beta Let_def)
qed simp

lemma io_run_recvs:
  "wf t \<Longrightarrow> fst (io_run T (replicate (Suc (length (pending t))) DoRecv) t) =
     map (\<lambda>f. RecvResult (Inr f)) (pending t) @ [RecvResult (Inl IoUnexpectedEof)]"
proof (induction "pending t" arbitrary: t)
  case Nil
  then show ?case using recv_end [of t] by (simp add: case_prod_beta Let_def)
next
  case (Cons f fs)
  then have step: "fst (t_recv T t) = Inr f" "pending (snd (t_recv T t)) = fs" "wf (snd (t_recv T t))"
    using recv_frame [of t f fs] by simp_all
  then show ?case
    using Cons.hyps(1) [of "snd (t_recv T t)"] Cons.hyps(2) [symmetric]
    by (simp add: case_prod_beta Let_def)
qed

end

subsection \<open>Streams\<close>

text \<open>C20. Interoperation: frames sent one after the other over a stream transport on a fresh stream are all
  accepted, and a stream transport on any stream whose input is the bytes that were written, with a cap no frame
  exceeds, receives the same frames in the same order and then the end of the stream.\<close>

theorem transport_stream_interop:
  assumes "byte_stream S inp wr" "byte_stream S' inp' wr'"
    "list_all (\<lambda>f. length f \<le> unat cap) fs" "wr s = []" "inp s = []"
  shows "let (es, t) = io_run (stream_transport_ops S) (map DoSend fs) (stream_new s) in
    es = map (\<lambda>f. SendResult f (Inr ())) fs \<and>
    (\<forall>s'. inp' s' = wr (st_inner t) \<longrightarrow> wr' s' = [] \<longrightarrow>
       fst (io_run (stream_transport_ops S') (replicate (Suc (length fs)) DoRecv) (stream_with_max_frame s' cap)) =
       map (\<lambda>f. RecvResult (Inr f)) fs @ [RecvResult (Inl IoUnexpectedEof)])"
proof -
  let ?t = "stream_new s" and ?T = "stream_transport_ops S"
  have short: "list_all (\<lambda>f. length f < 2 ^ 32) fs"
    using assms(3) unsigned_less [of cap, where ?'a = nat] by (auto simp: list_all_iff intro: le_less_trans)
  then have out_cap: "list_all (\<lambda>f. length f \<le> send_cap \<and> length f < 2 ^ 32) fs"
    by (auto simp: list_all_iff send_cap_def)
  have in_cap: "list_all (\<lambda>f. length f \<le> unat cap \<and> length f < 2 ^ 32) fs"
    using short assms(3) by (auto simp: list_all_iff)
  obtain es t where run: "io_run ?T (map DoSend fs) ?t = (es, t)" by fastforce
  have es: "es = map (\<lambda>f. SendResult f (Inr ())) fs" and sent: "unframe send_cap (wr (st_inner t)) = fs"
    and whole: "whole_frames send_cap (wr (st_inner t))"
    using framed.io_run_sends [OF byte_stream.stream_framed [OF assms(1)], of ?t fs] short assms(4,5) run
    by (simp_all add: stream_new_def stream_with_max_frame_def)
  have written: "wr (st_inner t) = concat (map frame_bytes fs)"
    using whole sent by (simp add: whole_frames_def)
  have recv: "fst (io_run (stream_transport_ops S') (replicate (Suc (length fs)) DoRecv) (stream_with_max_frame s' cap)) =
       map (\<lambda>f. RecvResult (Inr f)) fs @ [RecvResult (Inl IoUnexpectedEof)]"
    if "inp' s' = wr (st_inner t)" "wr' s' = []" for s'
    using framed.io_run_recvs [OF byte_stream.stream_framed [OF assms(2)], of "stream_with_max_frame s' cap"]
      that written unframe_frames [OF in_cap] whole_frames_concat [OF in_cap]
    by (simp add: stream_with_max_frame_def del: replicate.simps io_run.simps)
  show ?thesis using run es recv by simp
qed

lemma transport_stream_interop_witness:
  "fst (io_run (stream_transport_ops pipe_ops) [DoRecv, DoRecv, DoRecv]
      (stream_new \<lparr>pipe_input = frame_bytes [1, 2] @ frame_bytes [], pipe_output = []\<rparr>)) =
    [RecvResult (Inr [1, 2]), RecvResult (Inr []), RecvResult (Inl IoUnexpectedEof)]"
  using transport_stream_interop [OF pipe.byte_stream_axioms pipe.byte_stream_axioms, of MAX_FRAME "[[1, 2], []]"
      "\<lparr>pipe_input = [], pipe_output = []\<rparr>"]
  by (simp add: MAX_FRAME_def stream_new_def stream_with_max_frame_def stream_transport_ops_def stream_send_def
      pipe_ops_def frame_bytes_def Let_def case_prod_beta)

text \<open>C21. The receiver on any input: fewer than four bytes are reported as the end of the stream, as is a body
  that ends early; a declared length over the cap is refused after the header alone, whatever follows; otherwise
  the frame is exactly the declared bytes, and the rest is left for the next call. Nothing is written.\<close>

theorem transport_stream_recv_cases:
  assumes "byte_stream S inp wr" "stream_recv S t = (r, t')"
  shows "let bs = inp (st_inner t); n = u32_from_le_bytes (take 4 bs) in
    (if length bs < 4 then r = Inl IoUnexpectedEof
     else if st_max_frame t < n then r = Inl IoInvalidData \<and> inp (st_inner t') = drop 4 bs
     else if length bs < 4 + unat n then r = Inl IoUnexpectedEof
     else \<exists>f. r = Inr f \<and> bs = frame_bytes f @ inp (st_inner t') \<and> length f = unat n) \<and>
    wr (st_inner t') = wr (st_inner t) \<and> st_max_frame t' = st_max_frame t"
proof -
  let ?bs = "inp (st_inner t)"
  let ?n = "u32_from_le_bytes (take 4 ?bs)"
  note short = byte_stream.read_short [OF assms(1)] and enough = byte_stream.read_enough [OF assms(1)]
  obtain h s1 where r1: "s_read_exact S 4 (st_inner t) = (h, s1)" by fastforce
  consider (header) "length ?bs < 4" | (cap) "4 \<le> length ?bs" "st_max_frame t < ?n"
    | (body) "4 \<le> length ?bs" "\<not> st_max_frame t < ?n" by linarith
  then show ?thesis
  proof cases
    case header
    then show ?thesis using short [of "st_inner t" 4] r1 assms(2) by (auto simp: stream_recv_def Let_def)
  next
    case cap
    then show ?thesis using enough [of 4 "st_inner t"] r1 assms(2) by (auto simp: stream_recv_def Let_def)
  next
    case body
    then have h: "h = Inr (take 4 ?bs)" "inp s1 = drop 4 ?bs" "wr s1 = wr (st_inner t)"
      using enough [of 4 "st_inner t"] r1 by simp_all
    obtain b s2 where r2: "s_read_exact S (unat ?n) s1 = (b, s2)" by fastforce
    show ?thesis
    proof (cases "length ?bs < 4 + unat ?n")
      case True
      then show ?thesis
        using short [of s1 "unat ?n"] body r1 r2 h assms(2) by (auto simp: stream_recv_def Let_def)
    next
      case False
      then have "b = Inr (take (unat ?n) (drop 4 ?bs))" "wr s2 = wr s1"
        using enough [of "unat ?n" s1] r2 h body by auto
      then have r: "r = Inr (take (unat ?n) (drop 4 ?bs))" "t' = t\<lparr>st_inner := s2\<rparr>" "wr s2 = wr (st_inner t)"
        using body r1 r2 h assms(2) by (auto simp: stream_recv_def Let_def)
      then show ?thesis
        using byte_stream.stream_recv_sound(2) [OF assms(1), of t "take (unat ?n) (drop 4 ?bs)" t'] assms(2) False body
        by (auto simp: Let_def)
    qed
  qed
qed

lemma transport_stream_recv_cases_witness:
  "fst (stream_recv pipe_ops (stream_with_max_frame \<lparr>pipe_input = [3, 0, 0, 0, 1], pipe_output = []\<rparr> 16)) = Inl IoUnexpectedEof \<and>
   fst (stream_recv pipe_ops (stream_with_max_frame \<lparr>pipe_input = [17, 0, 0, 0, 1], pipe_output = []\<rparr> 16)) = Inl IoInvalidData"
  using transport_stream_recv_cases [OF pipe.byte_stream_axioms prod.collapse [symmetric],
      of "stream_with_max_frame \<lparr>pipe_input = [3, 0, 0, 0, 1], pipe_output = []\<rparr> 16"]
    transport_stream_recv_cases [OF pipe.byte_stream_axioms prod.collapse [symmetric],
      of "stream_with_max_frame \<lparr>pipe_input = [17, 0, 0, 0, 1], pipe_output = []\<rparr> 16"]
  by (simp add: stream_with_max_frame_def Let_def u32_from_le_bytes_def word_less_nat_alt)

subsection \<open>Counting\<close>

text \<open>Every event of a run passes through a counting transport unchanged, and the counters grow with it.\<close>

lemma counting_step:
  assumes "io_step (counting_ops T) c t = (e, t')"
    "\<And>f. frame_sent e = Some f \<or> frame_received e = Some f \<Longrightarrow> length f < 2 ^ 64"
  shows "io_step T c (ct_inner t) = (e, ct_inner t') \<and>
    ct_frames_sent t' = saturating_add (ct_frames_sent t) (case frame_sent e of None \<Rightarrow> 0 | Some f \<Rightarrow> 1) \<and>
    ct_bytes_sent t' = saturating_add (ct_bytes_sent t) (case frame_sent e of None \<Rightarrow> 0 | Some f \<Rightarrow> clamp (length f)) \<and>
    ct_frames_recv t' = saturating_add (ct_frames_recv t) (case frame_received e of None \<Rightarrow> 0 | Some f \<Rightarrow> 1) \<and>
    ct_bytes_recv t' = saturating_add (ct_bytes_recv t) (case frame_received e of None \<Rightarrow> 0 | Some f \<Rightarrow> clamp (length f))"
proof (cases c)
  case (DoSend f)
  then show ?thesis
    using assms by (cases "t_send T f (ct_inner t)"; cases "fst (t_send T f (ct_inner t))")
      (auto simp: counting_ops_def counting_send_def clamp_small)
next
  case DoRecv
  then show ?thesis
    using assms by (cases "t_recv T (ct_inner t)"; cases "fst (t_recv T (ct_inner t))")
      (auto simp: counting_ops_def counting_recv_def clamp_small)
qed

definition sum_lengths :: "bytes list \<Rightarrow> nat" where
  "sum_lengths fs = sum_list (map length fs)"

lemma counting_run:
  assumes "io_run (counting_ops T) cs t = (es, t')"
    "list_all (\<lambda>f. length f < 2 ^ 64) (List.map_filter frame_sent es @ List.map_filter frame_received es)"
  shows "io_run T cs (ct_inner t) = (es, ct_inner t') \<and>
    ct_frames_sent t' = saturating_add (ct_frames_sent t) (clamp (length (List.map_filter frame_sent es))) \<and>
    ct_bytes_sent t' = saturating_add (ct_bytes_sent t) (clamp (sum_lengths (List.map_filter frame_sent es))) \<and>
    ct_frames_recv t' = saturating_add (ct_frames_recv t) (clamp (length (List.map_filter frame_received es))) \<and>
    ct_bytes_recv t' = saturating_add (ct_bytes_recv t) (clamp (sum_lengths (List.map_filter frame_received es)))"
  using assms
proof (induction cs arbitrary: t es)
  case Nil
  then show ?case by (simp add: map_filter_simps sum_lengths_def)
next
  case (Cons c cs)
  obtain e t1 where step: "io_step (counting_ops T) c t = (e, t1)" by fastforce
  obtain es1 where run: "io_run (counting_ops T) cs t1 = (es1, t')" and es: "es = e # es1"
    using Cons.prems(1) step by (auto simp: Let_def split: prod.splits)
  have one: "(clamp (Suc n) :: u64) = saturating_add 1 (clamp n)" for n
    using clamp_add [of 1 n, where ?'a = 64] by (simp add: clamp_small)
  have tail: "list_all (\<lambda>f. length f < 2 ^ 64) (List.map_filter frame_sent es1 @ List.map_filter frame_received es1)"
    using Cons.prems(2) es by (auto simp: map_filter_simps split: option.splits)
  have head: "length f < 2 ^ 64" if "frame_sent e = Some f \<or> frame_received e = Some f" for f
    using Cons.prems(2) es that by (auto simp: map_filter_simps split: option.splits)
  show ?case
    using counting_step [OF step head] Cons.IH [OF run tail] es
    by (auto simp: map_filter_simps sum_lengths_def clamp_add one saturating_add_assoc split: option.splits)
qed

text \<open>C22. Counting: a run over a counting transport has the same results and leaves the inner transport in the
  same state as the run over the inner transport; the counters are the numbers and the lengths of the frames whose
  \<open>send\<close> or \<open>recv\<close> succeeded, each cut at the largest \<open>u64\<close>.\<close>

theorem transport_counting_exact:
  assumes "io_run (counting_ops T) cs (counting_new t) = (es, t')"
    "list_all (\<lambda>f. length f < 2 ^ 64) (List.map_filter frame_sent es @ List.map_filter frame_received es)"
  shows "io_run T cs t = (es, ct_inner t') \<and>
    ct_frames_sent t' = clamp (length (List.map_filter frame_sent es)) \<and>
    ct_bytes_sent t' = clamp (sum_lengths (List.map_filter frame_sent es)) \<and>
    ct_frames_recv t' = clamp (length (List.map_filter frame_received es)) \<and>
    ct_bytes_recv t' = clamp (sum_lengths (List.map_filter frame_received es))"
  using counting_run [OF assms] by (simp add: counting_new_def)

lemma transport_counting_exact_witness:
  "ct_bytes_sent (snd (io_run (counting_ops vec_ops) [DoSend [1, 2], DoRecv, DoSend [3]] (counting_new vec_new))) = 3"
proof -
  let ?r = "io_run (counting_ops vec_ops) [DoSend [1, 2], DoRecv, DoSend [3]] (counting_new vec_new)"
  have "fst ?r = [SendResult [1, 2] (Inr ()), RecvResult (Inl IoUnexpectedEof), SendResult [3] (Inr ())]"
    by (simp add: counting_ops_def counting_send_def counting_recv_def counting_new_def vec_ops_def vec_new_def
        vec_send_def vec_recv_def)
  then show ?thesis
    using transport_counting_exact [OF prod.collapse [symmetric], of vec_ops "[DoSend [1, 2], DoRecv, DoSend [3]]" vec_new]
    by (simp add: map_filter_simps sum_lengths_def clamp_def del: io_run.simps)
qed

subsection \<open>The loopback pair\<close>






end
