(* ===== verification/Serve.thy ===== *)
theory Serve
  imports Session_Spec Transport Obs_Spec
begin

section \<open>The serve loop\<close>

text \<open>
  \<open>crates/graftx-server/src/serve.rs\<close> and the session factory of \<open>main.rs\<close>. A loop over a transport may run
  forever, so \<open>serve\<close> is a partial function: \<open>None\<close> is not returning. On a scripted transport (the locale
  \<open>framed\<close>) it returns, and its result is \<open>serve_script\<close>, the recursion over the pending frames.

  The transport, the session and the metrics registry are passed and returned. \<open>serve_connections\<close> is the
  loop of \<open>serve_tcp\<close> over the accepts so far; \<open>Mains\<close> adds the listener, whose accepts never end, and what the
  loop reports.
\<close>

definition api_name :: "u8 \<Rightarrow> string" where
  "api_name api =
     (if api = 0x00 then ''core'' else if api = 0x01 then ''vulkan'' else if api = 0x02 then ''opengl''
      else if api = 0x03 then ''cuda'' else if api = 0x04 then ''opencl'' else if api = 0x05 then ''hip''
      else if api = 0x06 then ''level_zero'' else if api = 0x07 then ''video'' else if api = 0x08 then ''webgpu''
      else if api = 0x09 then ''optix'' else if api = 0x0A then ''sycl'' else if api = 0x0B then ''amf''
      else ''unknown'')"

definition clean_close :: "io_error \<Rightarrow> bool" where
  "clean_close err \<longleftrightarrow> err = IoUnexpectedEof \<or> err = IoBrokenPipe"

partial_function (option) serve ::
    "'t transport \<Rightarrow> 't \<Rightarrow> session \<Rightarrow> (unit io_result \<times> 't \<times> session) option" where
  "serve T transport session =
     (case t_recv T transport of
        (Inl err, transport) \<Rightarrow>
          if clean_close err then Some (Inr (), transport, session) else Some (Inl err, transport, session)
      | (Inr frame, transport) \<Rightarrow>
          (case session_handle frame session of
             (Inr reply, session) \<Rightarrow>
               (case t_send T reply transport of
                  (Inl err, transport) \<Rightarrow> Some (Inl err, transport, session)
                | (Inr _, transport) \<Rightarrow> serve T transport session)
           | (Inl _, session) \<Rightarrow> Some (Inr (), transport, session)))"

text \<open>The registry is shared by reference: it is returned updated.\<close>

partial_function (option) serve_with_metrics ::
    "'t transport \<Rightarrow> 't \<Rightarrow> session \<Rightarrow> obs_registry \<Rightarrow> (unit io_result \<times> 't \<times> session \<times> obs_registry) option" where
  "serve_with_metrics T transport session registry =
     (case t_recv T transport of
        (Inl err, transport) \<Rightarrow>
          if clean_close err then Some (Inr (), transport, session, registry)
          else Some (Inl err, transport, session, registry)
      | (Inr frame, transport) \<Rightarrow>
          (let api = (case decode_frame frame of Inl _ \<Rightarrow> None | Inr (h, _) \<Rightarrow> Some (api_name (opcode_api (fh_opcode h)))) in
           case session_handle frame session of
             (Inr reply, session) \<Rightarrow>
               (case t_send T reply transport of
                  (Inl err, transport) \<Rightarrow> Some (Inl err, transport, session, registry)
                | (Inr _, transport) \<Rightarrow>
                    (let registry = (case api of None \<Rightarrow> registry
                         | Some api \<Rightarrow> registry_record api (word_of_nat (length frame)) (word_of_nat (length reply)) registry)
                     in serve_with_metrics T transport session registry))
           | (Inl _, session) \<Rightarrow> Some (Inr (), transport, session, registry)))"

text \<open>The factory of \<open>main\<close>: a fresh id, and the Vulkan and OpenGL services.\<close>

definition main_session :: "u64 \<Rightarrow> session" where
  "main_session sid =
     session_register (BoxGlBackend gl_new) (session_register (BoxVulkanBackend vk_new) (session_new sid))"

text \<open>The closure \<open>main\<close> passes to \<open>serve_tcp\<close>, with the counter it draws session ids from.\<close>

definition main_make_session :: "u64 \<Rightarrow> session \<times> u64" where
  "main_make_session next_id = (main_session next_id, next_id + 1)"

text \<open>
  The accept loop of \<open>serve_tcp\<close>: \<open>None\<close> stands for a failed accept, which is skipped, as is the error of a
  connection. \<open>make_session\<close> is a closure with state. The result is the state and transports after the last
  connection, or \<open>None\<close> if one never ends.
\<close>

fun serve_connections ::
    "'s stream_ops \<Rightarrow> ('c \<Rightarrow> session \<times> 'c) \<Rightarrow> 'c \<Rightarrow> 's option list \<Rightarrow> (unit io_result \<times> 's stream_transport \<times> session) list option" where
  "serve_connections S make_session c [] = Some []"
| "serve_connections S make_session c (None # incoming) = serve_connections S make_session c incoming"
| "serve_connections S make_session c (Some stream # incoming) =
     (let (session, c) = make_session c in
      case serve (stream_transport_ops S) (stream_new stream) session of
        None \<Rightarrow> None
      | Some r \<Rightarrow> map_option (Cons r) (serve_connections S make_session c incoming))"

subsection \<open>On a scripted transport\<close>

text \<open>
  What the loop does with a finite script of frames: the replies, the session afterwards, and the frames never
  looked at because one before them was refused.
\<close>

fun serve_script :: "bytes list \<Rightarrow> session \<Rightarrow> bytes list \<times> session \<times> bytes list" where
  "serve_script [] session = ([], session, [])"
| "serve_script (frame # frames) session =
     (case session_handle frame session of
        (Inl _, session') \<Rightarrow> ([], session', frames)
      | (Inr reply, session') \<Rightarrow>
          (let (replies, session'', rest) = serve_script frames session' in (reply # replies, session'', rest)))"

text \<open>The calls the metrics loop records.\<close>

fun serve_calls :: "bytes list \<Rightarrow> session \<Rightarrow> call list" where
  "serve_calls [] session = []"
| "serve_calls (frame # frames) session =
     (case session_handle frame session of
        (Inl _, session') \<Rightarrow> []
      | (Inr reply, session') \<Rightarrow>
          (case decode_frame frame of
             Inl _ \<Rightarrow> serve_calls frames session'
           | Inr (h, _) \<Rightarrow> (api_name (opcode_api (fh_opcode h)), word_of_nat (length frame), word_of_nat (length reply))
               # serve_calls frames session'))"

lemma reply_length:
  assumes "session_handle frame self = (Inr reply, self')"
  shows "length reply \<le> 48"
proof -
  obtain h out where d: "decode_frame reply = Inr (h, out)" "length out \<le> 20"
    using session_reply_frame_bound [OF assms] by blast
  then show ?thesis
    using decode_frame_Inr [of reply h out] by (auto simp: HEADER_LEN_def)
qed

context framed begin

text \<open>Replies are short, so a transport that takes short frames takes every reply.\<close>

lemma serve_framed:
  assumes "\<And>f. length f \<le> 48 \<Longrightarrow> sendable f" "wf t"
  shows "\<exists>t'. serve T t session = Some (Inr (), t', fst (snd (serve_script (pending t) session))) \<and>
     sent t' = sent t @ fst (serve_script (pending t) session)"
  using assms(2)
proof (induction "pending t" arbitrary: t session)
  case Nil
  then show ?case
    using recv_end [of t] by (cases "t_recv T t") (simp add: serve.simps [of T t] clean_close_def)
next
  case (Cons f fs)
  obtain t1 where recv: "t_recv T t = (Inr f, t1)" "pending t1 = fs" "sent t1 = sent t" "wf t1"
    using recv_frame [of t f fs] Cons.hyps(2) Cons.prems by (cases "t_recv T t") auto
  obtain r s1 where h: "session_handle f session = (r, s1)" by fastforce
  show ?case
  proof (cases r)
    case (Inl e)
    then show ?thesis
      using recv h Cons.hyps(2) [symmetric] by (simp add: serve.simps [of T t])
  next
    case (Inr reply)
    then have "sendable reply" using reply_length [of f session reply s1] h assms(1) by simp
    then obtain t2 where send: "t_send T reply t1 = (Inr (), t2)" "pending t2 = fs" "sent t2 = sent t @ [reply]" "wf t2"
      using send_frame [of t1 reply] recv by (cases "t_send T reply t1") auto
    have "serve T t session = serve T t2 s1"
      using recv h Inr send by (simp add: serve.simps [of T t])
    then show ?thesis
      using Cons.hyps(1) [of t2 s1] send h Inr Cons.hyps(2) [symmetric]
      by (auto simp: case_prod_beta Let_def)
  qed
qed

lemma serve_with_metrics_framed:
  assumes "\<And>f. length f \<le> 48 \<Longrightarrow> sendable f" "wf t"
  shows "\<exists>t'. serve_with_metrics T t session registry =
       Some (Inr (), t', fst (snd (serve_script (pending t) session)),
             registry_run (serve_calls (pending t) session) registry) \<and>
     serve T t session = Some (Inr (), t', fst (snd (serve_script (pending t) session))) \<and>
     sent t' = sent t @ fst (serve_script (pending t) session)"
  using assms(2)
proof (induction "pending t" arbitrary: t session registry)
  case Nil
  then show ?case
    using recv_end [of t]
    by (cases "t_recv T t") (simp add: serve_with_metrics.simps [of T t] serve.simps [of T t] clean_close_def registry_run_def)
next
  case (Cons f fs)
  obtain t1 where recv: "t_recv T t = (Inr f, t1)" "pending t1 = fs" "sent t1 = sent t" "wf t1"
    using recv_frame [of t f fs] Cons.hyps(2) Cons.prems by (cases "t_recv T t") auto
  obtain r s1 where h: "session_handle f session = (r, s1)" by fastforce
  show ?case
  proof (cases r)
    case (Inl e)
    then show ?thesis
      using recv h Cons.hyps(2) [symmetric] by (simp add: serve_with_metrics.simps [of T t] serve.simps [of T t] registry_run_def)
  next
    case (Inr reply)
    then have "sendable reply" using reply_length [of f session reply s1] h assms(1) by simp
    then obtain t2 where send: "t_send T reply t1 = (Inr (), t2)" "pending t2 = fs" "sent t2 = sent t @ [reply]" "wf t2"
      using send_frame [of t1 reply] recv by (cases "t_send T reply t1") auto
    obtain hd body where d: "decode_frame f = Inr (hd, body)"
      using session_reply_frame_decodes [of f session reply s1] h Inr by blast
    have "serve_with_metrics T t session registry = serve_with_metrics T t2 s1
        (registry_record (api_name (opcode_api (fh_opcode hd))) (word_of_nat (length f)) (word_of_nat (length reply)) registry)"
      using recv h Inr send d by (simp add: serve_with_metrics.simps [of T t] Let_def)
    moreover have "serve T t session = serve T t2 s1"
      using recv h Inr send by (simp add: serve.simps [of T t])
    ultimately have step: "serve_with_metrics T t session registry = serve_with_metrics T t2 s1
        (registry_record (api_name (opcode_api (fh_opcode hd))) (word_of_nat (length f)) (word_of_nat (length reply)) registry) \<and>
        serve T t session = serve T t2 s1" by blast
    then show ?thesis
      using Cons.hyps(1) [of t2 s1] send h Inr d Cons.hyps(2) [symmetric]
      by (auto simp: case_prod_beta Let_def registry_run_def)
  qed
qed

end

text \<open>
  On a stream: the frames at its front, then a tail in which no further frame can be received.
\<close>

definition tail_result :: "u32 \<Rightarrow> bytes \<Rightarrow> unit io_result" where
  "tail_result cap bs =
     (if 4 \<le> length bs \<and> cap < u32_from_le_bytes (take 4 bs) then Inl IoInvalidData else Inr ())"

context byte_stream begin

lemma stream_recv_tail:
  assumes "unframe (unat (st_max_frame t)) (input (st_inner t)) = []" "stream_recv S t = (r, t')"
  shows "r = Inl (if 4 \<le> length (input (st_inner t)) \<and> st_max_frame t < u32_from_le_bytes (take 4 (input (st_inner t)))
                  then IoInvalidData else IoUnexpectedEof)"
    "written (st_inner t') = written (st_inner t)"
proof -
  let ?in = "input (st_inner t)"
  let ?n = "u32_from_le_bytes (take 4 ?in)"
  obtain h s1 where r1: "s_read_exact S 4 (st_inner t) = (h, s1)" by fastforce
  have "r = Inl (if 4 \<le> length ?in \<and> st_max_frame t < ?n then IoInvalidData else IoUnexpectedEof) \<and>
    written (st_inner t') = written (st_inner t)"
  proof (cases "4 \<le> length ?in")
    case False
    then show ?thesis using read_short [of "st_inner t" 4] r1 assms(2) by (auto simp: stream_recv_def)
  next
    case True
    then have h: "h = Inr (take 4 ?in)" "input s1 = drop 4 ?in" "written s1 = written (st_inner t)"
      using read_enough [of 4 "st_inner t"] r1 by simp_all
    show ?thesis
    proof (cases "st_max_frame t < ?n")
      case oversize: True
      then show ?thesis using True h r1 assms(2) by (auto simp: stream_recv_def Let_def)
    next
      case fits: False
      then have "length (input s1) < unat ?n"
        using assms(1) True h by (subst (asm) unframe.simps) (auto simp: Let_def word_less_nat_alt split: if_splits)
      then show ?thesis
        using read_short [of s1 "unat ?n"] True fits h r1 assms(2)
        by (cases "s_read_exact S (unat ?n) s1") (auto simp: stream_recv_def Let_def)
    qed
  qed
  then show "r = Inl (if 4 \<le> length ?in \<and> st_max_frame t < ?n then IoInvalidData else IoUnexpectedEof)"
    "written (st_inner t') = written (st_inner t)" by blast+
qed

lemma serve_stream:
  assumes "input (st_inner t) = concat (map frame_bytes frames) @ tail"
    "list_all (\<lambda>f. length f \<le> unat (st_max_frame t)) frames" "unframe (unat (st_max_frame t)) tail = []"
  shows "\<exists>t'. serve (stream_transport_ops S) t session =
      Some (if length (fst (serve_script frames session)) < length frames then Inr () else tail_result (st_max_frame t) tail,
            t', fst (snd (serve_script frames session))) \<and>
    written (st_inner t') = written (st_inner t) @ concat (map frame_bytes (fst (serve_script frames session)))"
  using assms
proof (induction frames arbitrary: t session)
  case Nil
  obtain r t' where r: "stream_recv S t = (r, t')" by fastforce
  then show ?case
    using stream_recv_tail [OF _ r] Nil
    by (simp add: serve.simps [of _ t] stream_transport_ops_def clean_close_def tail_result_def)
next
  case (Cons f fs)
  let ?T = "stream_transport_ops S"
  obtain r t1 where recv: "stream_recv S t = (r, t1)" by fastforce
  have t1: "r = Inr f" "input (st_inner t1) = concat (map frame_bytes fs) @ tail"
      "written (st_inner t1) = written (st_inner t)" "st_max_frame t1 = st_max_frame t"
    using stream_recv_frame [OF _ _ recv, of f "concat (map frame_bytes fs) @ tail"] Cons.prems by simp_all
  obtain res s1 where h: "session_handle f session = (res, s1)" by fastforce
  show ?case
  proof (cases res)
    case (Inl e)
    then show ?thesis using recv t1 h by (simp add: serve.simps [of _ t] stream_transport_ops_def)
  next
    case (Inr reply)
    then have short: "length reply < 2 ^ 32" using reply_length [of f session reply s1] h by simp
    obtain r2 t2 where send: "stream_send S reply t1 = (r2, t2)" by fastforce
    note t2 = stream_send_ok [OF short send]
    have "serve ?T t session = serve ?T t2 s1"
      using recv t1 h Inr send t2 by (simp add: serve.simps [of _ t] stream_transport_ops_def)
    then show ?thesis
      using Cons.IH [of t2 s1] Cons.prems t1 t2 h Inr by (auto simp: case_prod_beta Let_def)
  qed
qed

end

end
