(* ===== verification/Serve_Spec.thy ===== *)
theory Serve_Spec
  imports Serve Transport_Spec
begin

section \<open>Properties of the serve loop\<close>

text \<open>
  The loops return on every transport whose input ends, answer the frames in order up to the first one the
  session refuses, and the metrics they keep are those of the answered frames. \<open>serve_script\<close> is the recursion
  over the frames that the loops implement. On any transport at all, the two loops agree, and \<open>serve_run\<close> says what
  they do.
\<close>

lemma serve_script_prefix:
  "let (replies, session', rest) = serve_script frames session; n = length replies in
     n \<le> length frames \<and> replies = session_answers (take n frames) session \<and>
     session' = session_run (take n frames) session \<and> rest = drop (Suc n) frames \<and>
     list_all (\<lambda>r. length r \<le> 48) replies \<and>
     (n < length frames \<longrightarrow> \<not> is_ok (fst (session_handle (frames ! n) session')))"
proof (induction frames arbitrary: session)
  case (Cons f fs)
  obtain r s1 where h: "session_handle f session = (r, s1)" by fastforce
  then show ?case
    using Cons.IH [of s1] session_error_facts [of f session] reply_length [of f session]
    by (cases r) (auto simp: case_prod_beta Let_def)
qed simp

lemma connection_served:
  assumes "byte_stream S inp wr" "wr s = []"
  shows "let frames = unframe (unat MAX_FRAME) (inp s); replies = fst (serve_script frames session) in
    \<exists>t'. serve (stream_transport_ops S) (stream_new s) session =
        Some (if length replies < length frames then Inr () else tail_result MAX_FRAME (unframed_tail (unat MAX_FRAME) (inp s)),
              t', fst (snd (serve_script frames session))) \<and>
      wr (st_inner t') = concat (map frame_bytes replies) \<and> unframe send_cap (wr (st_inner t')) = replies"
proof -
  let ?frames = "unframe (unat MAX_FRAME) (inp s)"
  have short: "list_all (\<lambda>f. length f \<le> send_cap \<and> length f < 2 ^ 32) (fst (serve_script ?frames session))"
    using serve_script_prefix [of ?frames session]
    by (auto simp: case_prod_beta Let_def list_all_iff send_cap_def)
  show ?thesis
    using byte_stream.serve_stream [OF assms(1), of "stream_new s" ?frames "unframed_tail (unat MAX_FRAME) (inp s)" session]
      assms(2) unframe_split [of "inp s" "unat MAX_FRAME"] unframe_frames [OF short]
    by (auto simp: stream_new_def stream_with_max_frame_def Let_def)
qed

text \<open>The streams of the accepts that did not fail.\<close>

fun accepted :: "'s option list \<Rightarrow> 's list" where
  "accepted [] = []"
| "accepted (None # incoming) = accepted incoming"
| "accepted (Some s # incoming) = s # accepted incoming"

lemma connections_served:
  assumes "byte_stream S inp wr" "list_all (\<lambda>s. wr s = []) (accepted incoming)"
  shows "\<exists>rs. serve_connections S main_make_session next_id incoming = Some rs \<and>
    length rs = length (accepted incoming) \<and>
    (\<forall>i < length (accepted incoming).
       Some (rs ! i) = serve (stream_transport_ops S) (stream_new (accepted incoming ! i)) (main_session (next_id + word_of_nat i)) \<and>
       wr (st_inner (fst (snd (rs ! i)))) = concat (map frame_bytes (fst (serve_script
         (unframe (unat MAX_FRAME) (inp (accepted incoming ! i))) (main_session (next_id + word_of_nat i))))))"
  using assms(2)
proof (induction incoming arbitrary: next_id)
  case Nil
  then show ?case by simp
next
  case (Cons c incoming)
  show ?case
  proof (cases c)
    case None
    then show ?thesis using Cons.IH [of next_id] Cons.prems by simp
  next
    case (Some s)
    obtain r where r: "serve (stream_transport_ops S) (stream_new s) (main_session next_id) = Some r"
      "wr (st_inner (fst (snd r))) =
         concat (map frame_bytes (fst (serve_script (unframe (unat MAX_FRAME) (inp s)) (main_session next_id))))"
      using connection_served [OF assms(1), of s "main_session next_id"] Cons.prems Some
      by (auto simp: Let_def)
    obtain rs where rs: "serve_connections S main_make_session (next_id + 1) incoming = Some rs"
      "length rs = length (accepted incoming)"
      "\<And>i. i < length (accepted incoming) \<Longrightarrow>
       Some (rs ! i) = serve (stream_transport_ops S) (stream_new (accepted incoming ! i)) (main_session (next_id + 1 + word_of_nat i)) \<and>
       wr (st_inner (fst (snd (rs ! i)))) = concat (map frame_bytes (fst (serve_script
         (unframe (unat MAX_FRAME) (inp (accepted incoming ! i))) (main_session (next_id + 1 + word_of_nat i)))))"
      using Cons.IH [of "next_id + 1"] Cons.prems Some by auto
    have shift: "next_id + 1 + word_of_nat i = next_id + word_of_nat (Suc i)" for i by (simp add: add.assoc)
    have "serve_connections S main_make_session next_id (c # incoming) = Some (r # rs)"
      using r rs(1) Some by (simp add: main_make_session_def)
    then show ?thesis
      using r rs(2,3) Some by (auto simp: less_Suc_eq_0_disj shift simp del: of_nat_Suc)
  qed
qed

text \<open>A recorded call is of a frame and its answer.\<close>

fun call_of :: "bytes \<times> bytes \<Rightarrow> call \<Rightarrow> bool" where
  "call_of (frame, reply) (api, out, inn) \<longleftrightarrow> (\<exists>h body. decode_frame frame = Inr (h, body) \<and>
     api = api_name (opcode_api (fh_opcode h)) \<and> out = word_of_nat (length frame) \<and> inn = word_of_nat (length reply))"

lemma call_of_unique: "list_all2 call_of xs calls \<Longrightarrow> list_all2 call_of xs calls' \<Longrightarrow> calls = calls'"
proof (induction arbitrary: calls' rule: list_all2_induct)
  case (Cons x xs c calls)
  then obtain c' cs where "calls' = c' # cs" "call_of x c'" "list_all2 call_of xs cs" by (auto simp: list_all2_Cons1)
  then show ?case using Cons by (cases x; cases c; cases c') auto
qed simp

lemma serve_calls_answers:
  "list_all2 call_of (zip (take (length (fst (serve_script frames session))) frames) (fst (serve_script frames session)))
     (serve_calls frames session)"
proof (induction frames arbitrary: session)
  case (Cons f fs)
  obtain r s1 where h: "session_handle f session = (r, s1)" by fastforce
  show ?case
  proof (cases r)
    case (Inr reply)
    then obtain hd body where "decode_frame f = Inr (hd, body)"
      using session_reply_frame_decodes [of f session reply s1] h by blast
    then show ?thesis using Cons.IH [of s1] h Inr by (simp add: case_prod_beta Let_def)
  qed (simp add: h)
qed simp

text \<open>The loop over a transport with queued frames: it returns, having answered the longest run of frames from
  the front that the session accepts, in order; the session is as after handling that run, and the frame after it,
  if there is one, is one the session refuses.\<close>

theorem serve_answers_prefix:
  "let (replies, session', rest) = serve_script (vec_inbox t) session; n = length replies in
     (\<exists>t'. serve vec_ops t session = Some (Inr (), t', session') \<and> vec_outbox t' = vec_outbox t @ replies) \<and>
     n \<le> length (vec_inbox t) \<and> replies = session_answers (take n (vec_inbox t)) session \<and>
     session' = session_run (take n (vec_inbox t)) session \<and>
     (n = length (vec_inbox t) \<or> \<not> is_ok (fst (session_handle (vec_inbox t ! n) session')))"
  using vec.serve_framed [of t session] serve_script_prefix [of "vec_inbox t" session]
  by (auto simp: case_prod_beta Let_def)

text \<open>C24. A connection over a byte stream, whatever bytes it brings: the loop returns; what it wrote is the answers
  to the frames the input starts with, as frames, in order. It reports success when a frame was refused and when
  the input ends after a frame or inside one, in the header or in the body, and an error only for a declared length
  over the cap.\<close>

theorem serve_stream_connection:
  assumes "byte_stream S inp wr" "wr s = []"
  shows "let frames = unframe (unat MAX_FRAME) (inp s); tail = unframed_tail (unat MAX_FRAME) (inp s);
      (replies, session', rest) = serve_script frames session in
    \<exists>t'. serve (stream_transport_ops S) (stream_new s) session =
        Some (if length replies < length frames then Inr () else tail_result MAX_FRAME tail, t', session') \<and>
      wr (st_inner t') = concat (map frame_bytes replies) \<and> unframe send_cap (wr (st_inner t')) = replies"
  using connection_served [OF assms] by (simp add: case_prod_beta Let_def)

lemma noop_script:
  "serve_script [request_frame core_op_NOOP 5 []] (session_new 7) =
     ([fst (session_reply core_op_NOOP 5 [] (session_new 7))], snd (session_reply core_op_NOOP 5 [] (session_new 7)), [])"
  by (simp add: noop_answered)

lemma noop_stream:
  "unframe (unat MAX_FRAME) (frame_bytes (request_frame core_op_NOOP 5 []) @ [9, 9]) = [request_frame core_op_NOOP 5 []]"
  by (simp add: unframe_frame request_frame_def encode_frame_def HEADER_LEN_def MAX_FRAME_def unframe.simps [of _ "[9, 9]"])

lemma serve_stream_connection_witness:
  "\<exists>t'. serve (stream_transport_ops pipe_ops)
      (stream_new \<lparr>pipe_input = frame_bytes (request_frame core_op_NOOP 5 []) @ [9, 9], pipe_output = []\<rparr>) (session_new 7) =
      Some (Inr (), t', snd (session_reply core_op_NOOP 5 [] (session_new 7)))"
  using serve_stream_connection [OF pipe.byte_stream_axioms,
      of "\<lparr>pipe_input = frame_bytes (request_frame core_op_NOOP 5 []) @ [9, 9], pipe_output = []\<rparr>" "session_new 7"]
  by (auto simp: noop_stream noop_script unframed_tail_def tail_result_def simp del: serve_script.simps)

text \<open>The metrics loop over queued frames: it returns what \<open>serve\<close> returns, and its registry has one more call for
  every answered frame.\<close>

theorem serve_metrics_queued:
  "let (replies, session', rest) = serve_script (vec_inbox t) session; calls = serve_calls (vec_inbox t) session in
     (\<exists>t'. serve_with_metrics vec_ops t session registry = Some (Inr (), t', session', registry_run calls registry) \<and>
        serve vec_ops t session = Some (Inr (), t', session')) \<and>
     list_all2 call_of (zip (take (length replies) (vec_inbox t)) replies) calls"
  using vec.serve_with_metrics_framed [of t session registry] serve_calls_answers [of "vec_inbox t" session]
  by (auto simp: case_prod_beta Let_def)

subsection \<open>On any transport\<close>

text \<open>
  A run of the loop that ends: the exchanges whose reply was sent, then why it stopped. The transport is
  arbitrary, so a receive and a send may fail at any point and with any error.
\<close>

inductive serve_run ::
    "'t transport \<Rightarrow> 't \<Rightarrow> session \<Rightarrow> (bytes \<times> bytes) list \<Rightarrow> unit io_result \<Rightarrow> 't \<Rightarrow> session \<Rightarrow> bool"
  for T :: "'t transport" where
  peer_closed: "t_recv T t = (Inl err, t') \<Longrightarrow> err \<in> {IoUnexpectedEof, IoBrokenPipe} \<Longrightarrow> serve_run T t s [] (Inr ()) t' s"
| recv_failed: "t_recv T t = (Inl err, t') \<Longrightarrow> err \<notin> {IoUnexpectedEof, IoBrokenPipe} \<Longrightarrow> serve_run T t s [] (Inl err) t' s"
| refused: "t_recv T t = (Inr frame, t') \<Longrightarrow> session_handle frame s = (Inl e, s') \<Longrightarrow> serve_run T t s [] (Inr ()) t' s'"
| send_failed: "t_recv T t = (Inr frame, t1) \<Longrightarrow> session_handle frame s = (Inr reply, s') \<Longrightarrow>
    t_send T reply t1 = (Inl err, t') \<Longrightarrow> serve_run T t s [] (Inl err) t' s'"
| answered: "t_recv T t = (Inr frame, t1) \<Longrightarrow> session_handle frame s = (Inr reply, s1) \<Longrightarrow>
    t_send T reply t1 = (Inr u, t2) \<Longrightarrow> serve_run T t2 s1 xs res t' s' \<Longrightarrow>
    serve_run T t s ((frame, reply) # xs) res t' s'"

text \<open>Both loops follow every such run; the registry of the second has the calls of its exchanges.\<close>

lemma serve_run_serve: "serve_run T t s xs res t' s' \<Longrightarrow> serve T t s = Some (res, t', s')"
  by (induction rule: serve_run.induct) (simp_all add: serve.simps [of T] clean_close_def)

lemma serve_run_metrics:
  "serve_run T t s xs res t' s' \<Longrightarrow>
   \<exists>calls. list_all2 call_of xs calls \<and>
     serve_with_metrics T t s registry = Some (res, t', s', registry_run calls registry)"
proof (induction arbitrary: registry rule: serve_run.induct)
  case (answered t frame t1 s reply s1 u t2 xs res t' s')
  obtain h body where d: "decode_frame frame = Inr (h, body)"
    using session_reply_frame_decodes [OF answered.hyps(2)] by blast
  let ?c = "(api_name (opcode_api (fh_opcode h)), word_of_nat (length frame), word_of_nat (length reply))"
  obtain calls where calls: "list_all2 call_of xs calls"
    "serve_with_metrics T t2 s1 (registry_run [?c] registry) =
       Some (res, t', s', registry_run calls (registry_run [?c] registry))"
    using answered.IH by blast
  have "serve_with_metrics T t s registry = serve_with_metrics T t2 s1 (registry_run [?c] registry)"
    using answered.hyps d by (simp add: serve_with_metrics.simps [of T t] registry_run_def)
  then show ?case
    using calls d by (intro exI [of _ "?c # calls"]) (simp add: registry_run_def)
qed (simp_all add: serve_with_metrics.simps [of T] clean_close_def registry_run_def)

text \<open>Conversely, a loop that returns has made such a run.\<close>

lemma serve_returns:
  assumes "serve T t s = Some r"
  shows "\<exists>xs. serve_run T t s xs (fst r) (fst (snd r)) (snd (snd r))"
proof (rule serve.raw_induct [where P = "\<lambda>T t s r. \<exists>xs. serve_run T t s xs (fst r) (fst (snd r)) (snd (snd r))", OF _ assms])
  fix f :: "'a transport \<Rightarrow> 'a \<Rightarrow> session \<Rightarrow> (unit io_result \<times> 'a \<times> session) option" and T t s r
  assume IH: "\<And>T t s r. f T t s = Some r \<Longrightarrow> \<exists>xs. serve_run T t s xs (fst r) (fst (snd r)) (snd (snd r))"
    and eq: "(case t_recv T t of
        (Inl err, transport) \<Rightarrow>
          if clean_close err then Some (Inr (), transport, s) else Some (Inl err, transport, s)
      | (Inr frame, transport) \<Rightarrow>
          (case session_handle frame s of
             (Inl _, session) \<Rightarrow> Some (Inr (), transport, session)
           | (Inr reply, session) \<Rightarrow>
               (case t_send T reply transport of
                  (Inl err, transport) \<Rightarrow> Some (Inl err, transport, session)
                | (Inr _, transport) \<Rightarrow> f T transport session))) = Some r"
  show "\<exists>xs. serve_run T t s xs (fst r) (fst (snd r)) (snd (snd r))"
  proof (cases "t_recv T t")
    case (Pair q t1)
    show ?thesis
    proof (cases q)
      case (Inl err)
      then show ?thesis
        using eq Pair serve_run.peer_closed [of T t err t1 s] serve_run.recv_failed [of T t err t1 s]
        by (auto simp: clean_close_def split: if_splits)
    next
      case (Inr frame)
      note recv = Pair [unfolded Inr]
      obtain a s1 where h: "session_handle frame s = (a, s1)" by fastforce
      show ?thesis
      proof (cases a)
        case (Inl e)
        then show ?thesis using eq recv h serve_run.refused [of T t frame t1 s e s1] by auto
      next
        case (Inr reply)
        note h = h [unfolded Inr]
        obtain c t2 where send: "t_send T reply t1 = (c, t2)" by fastforce
        show ?thesis
        proof (cases c)
          case (Inl err)
          then show ?thesis using eq recv h send serve_run.send_failed [OF recv h, of err t2] by auto
        next
          case (Inr u)
          obtain xs where "serve_run T t2 s1 xs (fst r) (fst (snd r)) (snd (snd r))"
            using eq recv h send Inr IH [of T t2 s1 r] by auto
          then show ?thesis using serve_run.answered [OF recv h send [unfolded Inr]] by blast
        qed
      qed
    qed
  qed
qed

text \<open>The metrics loop returns only if \<open>serve\<close> does.\<close>

lemma serve_with_metrics_returns:
  assumes "serve_with_metrics T t s registry = Some r"
  shows "serve T t s \<noteq> None"
proof (rule serve_with_metrics.raw_induct [where P = "\<lambda>T t s registry r. serve T t s \<noteq> None", OF _ assms])
  fix f :: "'a transport \<Rightarrow> 'a \<Rightarrow> session \<Rightarrow> obs_registry \<Rightarrow> (unit io_result \<times> 'a \<times> session \<times> obs_registry) option"
    and T t s registry r
  assume IH: "\<And>T t s registry r. f T t s registry = Some r \<Longrightarrow> serve T t s \<noteq> None"
    and eq: "(case t_recv T t of
        (Inl err, transport) \<Rightarrow>
          if clean_close err then Some (Inr (), transport, s, registry) else Some (Inl err, transport, s, registry)
      | (Inr frame, transport) \<Rightarrow>
          (let api = (case decode_frame frame of Inl _ \<Rightarrow> None | Inr (h, _) \<Rightarrow> Some (api_name (opcode_api (fh_opcode h)))) in
           case session_handle frame s of
             (Inl _, session) \<Rightarrow> Some (Inr (), transport, session, registry)
           | (Inr reply, session) \<Rightarrow>
               (case t_send T reply transport of
                  (Inl err, transport) \<Rightarrow> Some (Inl err, transport, session, registry)
                | (Inr _, transport) \<Rightarrow>
                    (let registry = (case api of None \<Rightarrow> registry
                         | Some api \<Rightarrow> registry_record api (word_of_nat (length frame)) (word_of_nat (length reply)) registry)
                     in f T transport session registry)))) = Some r"
  show "serve T t s \<noteq> None"
    using eq IH by (subst serve.simps) (auto simp: Let_def split: prod.splits sum.splits if_splits)
qed

text \<open>C28. The metrics loop over any transport, whatever its receives and sends return: it returns exactly when \<open>serve\<close>
  does, with the same result, transport and session, errors included; and when it returns, its registry has one
  more call for every exchange of the run, in order, filed under the name of the frame's namespace with the lengths
  of the frame and of its reply. An exchange is a frame the session answered and whose reply was sent; a frame whose
  reply could not be sent is not recorded.\<close>

theorem serve_metrics_exact:
  "map_option (\<lambda>(res, t', s', _). (res, t', s')) (serve_with_metrics T t s registry) = serve T t s \<and>
   (\<forall>res t' s' registry'. serve_with_metrics T t s registry = Some (res, t', s', registry') \<longleftrightarrow>
      (\<exists>xs calls. serve_run T t s xs res t' s' \<and> list_all2 call_of xs calls \<and> registry' = registry_run calls registry))"
proof (cases "serve T t s")
  case None
  then show ?thesis
    using serve_with_metrics_returns [of T t s registry] serve_run_serve [of T t s]
    by (cases "serve_with_metrics T t s registry") auto
next
  case (Some r)
  obtain xs where xs: "serve_run T t s xs (fst r) (fst (snd r)) (snd (snd r))"
    using serve_returns [OF Some] by blast
  have "serve_with_metrics T t s registry = Some (res, t', s', registry') \<longleftrightarrow>
      (\<exists>xs calls. serve_run T t s xs res t' s' \<and> list_all2 call_of xs calls \<and> registry' = registry_run calls registry)"
    for res t' s' registry'
  proof
    assume "serve_with_metrics T t s registry = Some (res, t', s', registry')"
    then show "\<exists>xs calls. serve_run T t s xs res t' s' \<and> list_all2 call_of xs calls \<and> registry' = registry_run calls registry"
      using serve_run_metrics [OF xs, of registry] xs by auto
  next
    assume "\<exists>xs calls. serve_run T t s xs res t' s' \<and> list_all2 call_of xs calls \<and> registry' = registry_run calls registry"
    then show "serve_with_metrics T t s registry = Some (res, t', s', registry')"
      using serve_run_metrics [of T t s] call_of_unique by metis
  qed
  moreover have "map_option (\<lambda>(res, t', s', _). (res, t', s')) (serve_with_metrics T t s registry) = serve T t s"
    using serve_run_metrics [OF xs, of registry] Some by auto
  ultimately show ?thesis by blast
qed

end
