(* ===== verification/Trace.thy ===== *)
theory Trace
  imports Protocol Transport_Spec
begin

section \<open>Frame traces\<close>

text \<open>
  \<open>crates/graftx-trace/src/lib.rs\<close>: a \<open>FrameTrace\<close> is the list of recorded frames, a \<open>RecordingTransport\<close>
  wraps a transport and records each frame whose \<open>send\<close> or \<open>recv\<close> succeeded, and \<open>replay\<close> sends the request
  frames of a trace over another transport, stopping at the first error.
\<close>

record frame_trace =
  ft_frames :: "bytes list"

definition trace_new :: frame_trace where
  "trace_new = \<lparr>ft_frames = []\<rparr>"

definition trace_record :: "bytes \<Rightarrow> frame_trace \<Rightarrow> frame_trace" where
  "trace_record frame self = self\<lparr>ft_frames := ft_frames self @ [frame]\<rparr>"

definition trace_len :: "frame_trace \<Rightarrow> nat" where
  "trace_len self = length (ft_frames self)"

definition trace_is_empty :: "frame_trace \<Rightarrow> bool" where
  "trace_is_empty self \<longleftrightarrow> ft_frames self = []"

definition trace_iter :: "frame_trace \<Rightarrow> bytes list" where
  "trace_iter self = ft_frames self"

record 't recording_transport =
  rt_inner :: 't
  rt_trace :: frame_trace

definition recording_new :: "'t \<Rightarrow> 't recording_transport" where
  "recording_new inner = \<lparr>rt_inner = inner, rt_trace = trace_new\<rparr>"

definition recording_into_trace :: "'t recording_transport \<Rightarrow> frame_trace" where
  "recording_into_trace self = rt_trace self"

definition recording_into_parts :: "'t recording_transport \<Rightarrow> 't \<times> frame_trace" where
  "recording_into_parts self = (rt_inner self, rt_trace self)"

definition recording_send ::
    "'t transport \<Rightarrow> bytes \<Rightarrow> 't recording_transport \<Rightarrow> unit io_result \<times> 't recording_transport" where
  "recording_send T frame self =
     (case t_send T frame (rt_inner self) of
        (Inl e, inner) \<Rightarrow> (Inl e, self\<lparr>rt_inner := inner\<rparr>)
      | (Inr _, inner) \<Rightarrow> (Inr (), self\<lparr>rt_inner := inner, rt_trace := trace_record frame (rt_trace self)\<rparr>))"

definition recording_recv :: "'t transport \<Rightarrow> 't recording_transport \<Rightarrow> bytes io_result \<times> 't recording_transport" where
  "recording_recv T self =
     (case t_recv T (rt_inner self) of
        (Inl e, inner) \<Rightarrow> (Inl e, self\<lparr>rt_inner := inner\<rparr>)
      | (Inr frame, inner) \<Rightarrow> (Inr frame, self\<lparr>rt_inner := inner, rt_trace := trace_record frame (rt_trace self)\<rparr>))"

definition recording_ops :: "'t transport \<Rightarrow> 't recording_transport transport" where
  "recording_ops T = \<lparr>t_send = recording_send T, t_recv = recording_recv T\<rparr>"

definition is_request :: "bytes \<Rightarrow> bool" where
  "is_request frame = (case decode_frame frame of Inl _ \<Rightarrow> False | Inr (header, _) \<Rightarrow> fh_kind header = Request)"

text \<open>The loop of \<open>replay\<close> over the recorded frames.\<close>

fun replay_frames :: "'t transport \<Rightarrow> bytes list \<Rightarrow> 't \<Rightarrow> unit io_result \<times> 't" where
  "replay_frames T [] t = (Inr (), t)"
| "replay_frames T (frame # frames) t =
     (if is_request frame
      then (case t_send T frame t of
              (Inl e, t) \<Rightarrow> (Inl e, t)
            | (Inr _, t) \<Rightarrow> replay_frames T frames t)
      else replay_frames T frames t)"

definition replay :: "'t transport \<Rightarrow> frame_trace \<Rightarrow> 't \<Rightarrow> unit io_result \<times> 't" where
  "replay T trace t = replay_frames T (trace_iter trace) t"

subsection \<open>Recording\<close>

fun frame_passed :: "io_event \<Rightarrow> bytes option" where
  "frame_passed (SendResult f (Inr _)) = Some f"
| "frame_passed (RecvResult (Inr f)) = Some f"
| "frame_passed _ = None"

lemma recording_step:
  "io_step (recording_ops T) c t = (e, t') \<Longrightarrow>
   io_step T c (rt_inner t) = (e, rt_inner t') \<and>
   ft_frames (rt_trace t') = ft_frames (rt_trace t) @ (case frame_passed e of None \<Rightarrow> [] | Some f \<Rightarrow> [f])"
  by (cases c; cases "t_recv T (rt_inner t)"; cases "fst (t_recv T (rt_inner t))")
    (auto simp: recording_ops_def recording_send_def recording_recv_def trace_record_def Let_def
      split: prod.splits sum.splits)

lemma recording_run:
  "io_run (recording_ops T) cs t = (es, t') \<Longrightarrow>
   io_run T cs (rt_inner t) = (es, rt_inner t') \<and>
   ft_frames (rt_trace t') = ft_frames (rt_trace t) @ List.map_filter frame_passed es"
proof (induction cs arbitrary: t es)
  case Nil
  then show ?case by (simp add: map_filter_simps)
next
  case (Cons c cs)
  obtain e t1 where step: "io_step (recording_ops T) c t = (e, t1)" by fastforce
  obtain es1 where run: "io_run (recording_ops T) cs t1 = (es1, t')" and es: "es = e # es1"
    using Cons.prems(1) step by (auto simp: Let_def split: prod.splits)
  show ?case
    using recording_step [OF step] Cons.IH [OF run] es by (auto simp: map_filter_simps split: option.splits)
qed

subsection \<open>Replaying\<close>

text \<open>\<open>replay\<close> sends the request frames one after the other, up to the first error.\<close>

lemma replay_frames_requests: "replay_frames T fs t = replay_frames T (filter is_request fs) t"
  by (induction fs arbitrary: t) (auto split: prod.splits sum.splits)

lemma replay_frames_Cons:
  "is_request f \<Longrightarrow> replay_frames T (f # fs) t =
     (case t_send T f t of (Inl e, t) \<Rightarrow> (Inl e, t) | (Inr _, t) \<Rightarrow> replay_frames T fs t)"
  by simp

context framed begin

lemma replay_framed:
  "wf t \<Longrightarrow> list_all sendable (filter is_request fs) \<Longrightarrow>
   fst (replay_frames T fs t) = Inr () \<and> sent (snd (replay_frames T fs t)) = sent t @ filter is_request fs"
proof (induction fs arbitrary: t)
  case (Cons f fs)
  show ?case
  proof (cases "is_request f")
    case True
    then have send: "fst (t_send T f t) = Inr ()" "sent (snd (t_send T f t)) = sent t @ [f]" "wf (snd (t_send T f t))"
      using send_frame [of t f] Cons.prems by simp_all
    then show ?thesis
      using Cons.IH [of "snd (t_send T f t)"] Cons.prems True by (simp add: case_prod_beta)
  qed (use Cons in simp)
qed simp

end

end
