(* ===== verification/Trace_Spec.thy ===== *)
theory Trace_Spec
  imports Trace Serve_Spec
begin

section \<open>Properties of recording and replaying\<close>

text \<open>
  Recording does not change what a run over the transport does; replaying sends the requests up to the first error;
  and the trace of a client's conversation with a session, replayed to a session in the same state, gets the same
  answers.
\<close>

text \<open>C29. Recording is transparent and complete: a run over a recording transport has the results of the run over the
  inner transport and leaves it in the same state, and the trace is the frames whose \<open>send\<close> or \<open>recv\<close> succeeded,
  in the order of the calls, whatever the failures in between.\<close>

theorem trace_recording_transparent:
  "let (es, t') = io_run (recording_ops T) cs (recording_new t); frames = List.map_filter frame_passed es in
     io_run T cs t = (es, fst (recording_into_parts t')) \<and>
     trace_iter (recording_into_trace t') = frames \<and> snd (recording_into_parts t') = recording_into_trace t' \<and>
     trace_len (recording_into_trace t') = length frames \<and> (trace_is_empty (recording_into_trace t') \<longleftrightarrow> frames = [])"
proof -
  obtain es t' where run: "io_run (recording_ops T) cs (recording_new t) = (es, t')" by fastforce
  show ?thesis
    using recording_run [OF run] unfolding run
    by (simp add: Let_def recording_new_def trace_new_def recording_into_parts_def recording_into_trace_def trace_iter_def
        trace_len_def trace_is_empty_def)
qed

lemma trace_recording_transparent_witness:
  "trace_iter (recording_into_trace (snd (io_run (recording_ops vec_ops) [DoSend [1], DoRecv, DoSend [2]] (recording_new vec_new))))
    = [[1], [2]]"
proof -
  let ?r = "io_run (recording_ops vec_ops) [DoSend [1], DoRecv, DoSend [2]] (recording_new vec_new)"
  have "fst ?r = [SendResult [1] (Inr ()), RecvResult (Inl IoUnexpectedEof), SendResult [2] (Inr ())]"
    by (simp add: recording_ops_def recording_send_def recording_recv_def recording_new_def vec_ops_def vec_new_def
        vec_send_def vec_recv_def)
  then show ?thesis
    using trace_recording_transparent [of vec_ops "[DoSend [1], DoRecv, DoSend [2]]" vec_new]
    by (simp add: case_prod_beta Let_def map_filter_simps del: io_run.simps)
qed

lemma replay_prefix:
  "list_all is_request fs \<Longrightarrow> \<exists>n \<le> length fs.
     fst (io_run T (map DoSend (take n fs)) t) = map (\<lambda>f. SendResult f (Inr ())) (take n fs) \<and>
     (let t' = snd (io_run T (map DoSend (take n fs)) t) in
        if n = length fs then replay_frames T fs t = (Inr (), t')
        else \<exists>e t''. t_send T (fs ! n) t' = (Inl e, t'') \<and> replay_frames T fs t = (Inl e, t''))"
proof (induction fs arbitrary: t)
  case (Cons f fs)
  obtain r t1 where send: "t_send T f t = (r, t1)" by fastforce
  show ?case
  proof (cases r)
    case (Inl e)
    then show ?thesis using send Cons.prems by (intro exI [of _ 0]) simp
  next
    case (Inr u)
    obtain n where "n \<le> length fs"
      "fst (io_run T (map DoSend (take n fs)) t1) = map (\<lambda>f. SendResult f (Inr ())) (take n fs)"
      "let t' = snd (io_run T (map DoSend (take n fs)) t1) in
        if n = length fs then replay_frames T fs t1 = (Inr (), t')
        else \<exists>e t''. t_send T (fs ! n) t' = (Inl e, t'') \<and> replay_frames T fs t1 = (Inl e, t'')"
      using Cons.IH [of t1] Cons.prems by auto
    then show ?thesis using send Inr Cons.prems by (intro exI [of _ "Suc n"]) (simp add: case_prod_beta Let_def)
  qed
qed simp

text \<open>Replaying over any transport sends, in the order of the trace, exactly its request frames up to the first
  one whose \<open>send\<close> fails, and returns that error; if none fails it has sent them all and succeeds. It never calls
  \<open>recv\<close>.\<close>

theorem trace_replay_sends_requests:
  "let reqs = filter is_request (trace_iter trace) in
   \<exists>n \<le> length reqs.
     fst (io_run T (map DoSend (take n reqs)) t) = map (\<lambda>f. SendResult f (Inr ())) (take n reqs) \<and>
     (let t' = snd (io_run T (map DoSend (take n reqs)) t) in
        if n = length reqs then replay T trace t = (Inr (), t')
        else \<exists>e t''. t_send T (reqs ! n) t' = (Inl e, t'') \<and> replay T trace t = (Inl e, t''))"
proof -
  have all: "list_all is_request (filter is_request (trace_iter trace))" by (simp add: list_all_iff)
  have "replay T trace t = replay_frames T (filter is_request (trace_iter trace)) t"
    unfolding replay_def by (rule replay_frames_requests)
  then show ?thesis
    using replay_prefix [OF all, of T t] by (simp only: Let_def)
qed

lemma trace_replay_sends_requests_witness:
  "fst (replay null_ops \<lparr>ft_frames = [[1]]\<rparr> NullTransport) = Inr ()"
  using trace_replay_sends_requests [of "\<lparr>ft_frames = [[1]]\<rparr>" null_ops NullTransport]
  by (simp add: trace_iter_def is_request_def decode_frame_def HEADER_LEN_def Let_def)

subsection \<open>Reproducing a conversation\<close>

text \<open>A client that sends each frame and waits for its answer.\<close>

definition converse :: "bytes list \<Rightarrow> io_call list" where
  "converse fs = concat (map (\<lambda>f. [DoSend f, DoRecv]) fs)"

lemma converse_vec:
  "length fs = length rs \<Longrightarrow>
   io_run vec_ops (converse fs) \<lparr>vec_outbox = out, vec_inbox = rs\<rparr> =
     (concat (map (\<lambda>(f, r). [SendResult f (Inr ()), RecvResult (Inr r)]) (zip fs rs)), \<lparr>vec_outbox = out @ fs, vec_inbox = []\<rparr>)"
  by (induction fs rs arbitrary: out rule: list_induct2)
    (simp_all add: converse_def vec_ops_def vec_send_def vec_recv_def)

lemma answers_not_requests: "\<not> is_request r" if "r \<in> set (session_answers fs session)"
  using that
proof (induction fs arbitrary: session)
  case (Cons f fs)
  obtain res s1 where h: "session_handle f session = (res, s1)" by fastforce
  show ?case
  proof (cases res)
    case (Inr reply)
    then show ?thesis
      using Cons.IH [of s1] Cons.prems h session_reply_facts [of f session reply s1]
      by (auto simp: is_request_def reply_header_def)
  qed (use Cons h in simp)
qed simp

text \<open>C30. A recorded conversation can be replayed: record a client that sends request frames to a session and
  receives their answers; replaying the trace sends the very same requests, and a session in the state the first one
  was in answers them with the very same bytes and ends in the same state.\<close>

theorem trace_replay_reproduces:
  assumes "list_all is_request fs" "serve_script fs session = (answers, session', [])" "length answers = length fs"
  shows "let (es, t) = io_run (recording_ops vec_ops) (converse fs) (recording_new \<lparr>vec_outbox = [], vec_inbox = answers\<rparr>);
      (r, u) = replay vec_ops (recording_into_trace t) vec_new in
    r = Inr () \<and> vec_outbox u = fs \<and>
    (\<exists>t'. serve vec_ops \<lparr>vec_outbox = [], vec_inbox = vec_outbox u\<rparr> session = Some (Inr (), t', session') \<and>
       vec_outbox t' = answers)"
proof -
  obtain es t where run: "io_run (recording_ops vec_ops) (converse fs)
      (recording_new \<lparr>vec_outbox = [], vec_inbox = answers\<rparr>) = (es, t)" by fastforce
  have es: "es = concat (map (\<lambda>(f, r). [SendResult f (Inr ()), RecvResult (Inr r)]) (zip fs answers))"
    and trace: "trace_iter (rt_trace t) = List.map_filter frame_passed es"
    using recording_run [OF run] converse_vec [of fs answers "[]"] assms(3)
    by (simp_all add: recording_new_def trace_new_def trace_iter_def)
  have "answers = session_answers fs session"
    using serve_script_prefix [of fs session] assms(2,3) by simp
  then have "list_all (\<lambda>r. \<not> is_request r) answers"
    using answers_not_requests by (auto simp: list_all_iff)
  then have "filter is_request (List.map_filter frame_passed es) = fs"
    unfolding es using assms(1) assms(3) [symmetric]
    by (induction rule: list_induct2 [OF assms(3) [symmetric]]) (simp_all add: map_filter_simps)
  then have "fst (replay vec_ops (rt_trace t) vec_new) = Inr ()" "vec_outbox (snd (replay vec_ops (rt_trace t) vec_new)) = fs"
    using vec.replay_framed [of "trace_iter (rt_trace t)" vec_new] trace
    by (simp_all add: replay_def vec_new_def list_all_iff)
  then show ?thesis
    using vec.serve_framed [of "\<lparr>vec_outbox = [], vec_inbox = fs\<rparr>" session] assms(2) run
    by (simp add: recording_into_trace_def case_prod_beta)
qed

lemma trace_replay_reproduces_witness:
  "vec_outbox (snd (replay vec_ops (recording_into_trace (snd (io_run (recording_ops vec_ops)
      (converse [request_frame core_op_NOOP 5 []]) (recording_new \<lparr>vec_outbox = [],
        vec_inbox = [fst (session_reply core_op_NOOP 5 [] (session_new 7))]\<rparr>)))) vec_new)) = [request_frame core_op_NOOP 5 []]"
proof -
  have "is_request (request_frame core_op_NOOP 5 [])"
    by (simp add: is_request_def request_frame_def)
  then show ?thesis
    using trace_replay_reproduces [OF _ noop_script] by (simp add: case_prod_beta Let_def)
qed

end
