(* ===== verification/Client.thy ===== *)
theory Client
  imports Protocol Transport_Spec
begin

section \<open>The client session layer\<close>

text \<open>
  \<open>crates/graftx-client/src/lib.rs\<close>: the errors of a call, the handshake and the no-op. Every shim of the crate
  sends one request frame, waits for one frame, and checks the opcode and the kind of its header; that common part
  is \<open>client_exchange\<close>, with the opcode that is sent and the one that is expected, and \<open>client_call\<close> where they
  are the same. What a shim does with the body of the reply is its own definition, in the theories \<open>*_Client\<close>.

  The transport is passed and returned; \<open>?\<close> on a transport or a protocol error is \<open>ClientTransport\<close> or
  \<open>ClientProtocol\<close> of it.
\<close>

datatype client_error =
    ClientTransport io_error
  | ClientProtocol protocol_error
  | ClientUnexpectedReply u32 FrameKind

type_synonym 'a client_result = "client_error + 'a"

definition from_protocol :: "'a proto_result \<Rightarrow> 'a client_result" where
  "from_protocol r = (case r of Inl e \<Rightarrow> Inl (ClientProtocol e) | Inr a \<Rightarrow> Inr a)"

lemma from_protocol_simps [simp]:
  "from_protocol (Inl e) = Inl (ClientProtocol e)"
  "from_protocol (Inr a) = Inr a"
  by (simp_all add: from_protocol_def)

definition client_protocol_version :: "u16 \<times> u16" where
  "client_protocol_version = (PROTOCOL_MAJOR, PROTOCOL_MINOR)"

definition request_header :: "u32 \<Rightarrow> u32 \<Rightarrow> u64 \<Rightarrow> bytes \<Rightarrow> FrameHeader" where
  "request_header opc req_id seq body =
     \<lparr>fh_version = PROTOCOL_MAJOR, fh_flags = 0, fh_kind = Request, fh_opcode = opc, fh_req_id = req_id,
      fh_seq = seq, fh_body_len = word_of_nat (length body)\<rparr>"

definition check_reply :: "u32 \<Rightarrow> bytes \<Rightarrow> bytes client_result" where
  "check_reply opc reply =
     (case decode_frame reply of
        Inl e \<Rightarrow> Inl (ClientProtocol e)
      | Inr (h, b) \<Rightarrow>
          if fh_opcode h \<noteq> opc \<or> fh_kind h \<noteq> Response then Inl (ClientUnexpectedReply (fh_opcode h) (fh_kind h))
          else Inr b)"

definition client_exchange ::
    "'t transport \<Rightarrow> u32 \<Rightarrow> u32 \<Rightarrow> bytes \<Rightarrow> u32 \<Rightarrow> u64 \<Rightarrow> 't \<Rightarrow> bytes client_result \<times> 't" where
  "client_exchange T opc expected body req_id seq t =
     (case t_send T (encode_frame (request_header opc req_id seq body) body) t of
        (Inl e, t) \<Rightarrow> (Inl (ClientTransport e), t)
      | (Inr _, t) \<Rightarrow>
          (case t_recv T t of
             (Inl e, t) \<Rightarrow> (Inl (ClientTransport e), t)
           | (Inr reply, t) \<Rightarrow> (check_reply expected reply, t)))"

definition client_call :: "'t transport \<Rightarrow> u32 \<Rightarrow> bytes \<Rightarrow> u32 \<Rightarrow> u64 \<Rightarrow> 't \<Rightarrow> bytes client_result \<times> 't" where
  "client_call T opc = client_exchange T opc opc"

text \<open>The shims that return a handle check its kind.\<close>

definition expect_kind :: "u8 \<Rightarrow> Handle \<Rightarrow> Handle client_result" where
  "expect_kind kind h =
     (if handle_kind h \<noteq> kind then Inl (ClientProtocol (BadKind (ucast (handle_kind h)))) else Inr h)"

fun expect_kinds :: "u8 \<Rightarrow> Handle list \<Rightarrow> unit client_result" where
  "expect_kinds kind [] = Inr ()"
| "expect_kinds kind (h # hs) =
     (if handle_kind h \<noteq> kind then Inl (ClientProtocol (BadKind (ucast (handle_kind h)))) else expect_kinds kind hs)"

lemma expect_kind_same [simp]: "handle_kind h = kind \<Longrightarrow> expect_kind kind h = Inr h"
  by (simp add: expect_kind_def)

subsection \<open>Handshake and no-op\<close>

definition client_handshake :: "'t transport \<Rightarrow> 't \<Rightarrow> Welcome client_result \<times> 't" where
  "client_handshake T t =
     (let hello = \<lparr>hello_proto_major = PROTOCOL_MAJOR, hello_proto_minor = PROTOCOL_MINOR, hello_features = 0,
                   hello_max_frame_body = DEFAULT_MAX_FRAME_BODY\<rparr>;
          body = hello_encode hello [] in
      case client_exchange T core_op_HELLO core_op_WELCOME body 1 1 t of
        (Inl e, t) \<Rightarrow> (Inl e, t)
      | (Inr b, t) \<Rightarrow> (from_protocol (welcome_decode b), t))"

definition client_noop :: "'t transport \<Rightarrow> u32 \<Rightarrow> u64 \<Rightarrow> 't \<Rightarrow> unit client_result \<times> 't" where
  "client_noop T req_id seq t =
     (case client_call T core_op_NOOP [] req_id seq t of
        (Inl e, t) \<Rightarrow> (Inl e, t)
      | (Inr _, t) \<Rightarrow> (Inr (), t))"

subsection \<open>On a scripted transport\<close>

lemma check_reply_Inr:
  "check_reply opc reply = Inr b \<longleftrightarrow>
     (\<exists>h. decode_frame reply = Inr (h, b) \<and> fh_opcode h = opc \<and> fh_kind h = Response)"
  by (auto simp: check_reply_def split: sum.splits prod.splits if_splits)

lemma check_reply_frame [simp]:
  "check_reply opc (encode_frame h b) =
     (if fh_opcode h = opc \<and> fh_kind h = Response then Inr b else Inl (ClientUnexpectedReply (fh_opcode h) (fh_kind h)))"
  by (simp add: check_reply_def)

context framed begin

lemma exchange_framed:
  assumes "wf t" "sendable (encode_frame (request_header opc req_id seq body) body)"
  shows "sent (snd (client_exchange T opc expected body req_id seq t)) =
      sent t @ [encode_frame (request_header opc req_id seq body) body] \<and>
    fst (client_exchange T opc expected body req_id seq t) =
      (case pending t of [] \<Rightarrow> Inl (ClientTransport IoUnexpectedEof) | reply # rest \<Rightarrow> check_reply expected reply) \<and>
    (pending t \<noteq> [] \<longrightarrow> pending (snd (client_exchange T opc expected body req_id seq t)) = tl (pending t))"
proof -
  let ?f = "encode_frame (request_header opc req_id seq body) body"
  obtain t1 where send: "t_send T ?f t = (Inr (), t1)" "pending t1 = pending t" "sent t1 = sent t @ [?f]" "wf t1"
    using send_frame [OF assms] by (cases "t_send T ?f t") auto
  show ?thesis
  proof (cases "pending t")
    case Nil
    then show ?thesis using recv_end [of t1] send by (auto simp: client_exchange_def split: prod.splits sum.splits)
  next
    case (Cons r rs)
    then show ?thesis using recv_frame [of t1 r rs] send by (auto simp: client_exchange_def split: prod.splits sum.splits)
  qed
qed

end

end
