(* ===== verification/Client_Link.thy ===== *)
theory Client_Link
  imports Client Serve_Spec
begin

section \<open>A client linked to a server\<close>

text \<open>
  A client and a server over a loopback pair, the client at one end, and at the other the loop \<open>serve\<close> in a thread
  of its own. The client's calls are synchronous, so the server has work only while the client waits: a turn of the
  server's loop (\<open>server_turn\<close>: receive, handle, answer, or leave the loop and drop its end) is run when the client
  calls \<open>recv\<close> and nothing is there. \<open>None\<close> is a client that waits for ever; \<open>link_recv\<close> turns it into the error
  \<open>IoOther\<close>, which no call of the client meets.

  \<open>call_served\<close> is the contract between a shim of the client and the arm of the server that answers it.
\<close>

record link =
  link_net :: loopback
  link_session :: session

definition link_new :: "session \<Rightarrow> link" where
  "link_new session = \<lparr>link_net = loopback_new, link_session = session\<rparr>"

definition server_turn :: "link \<Rightarrow> link option" where
  "server_turn l =
     (if \<not> lb_alive (link_net l) EndB then None
      else case loopback_recv EndB (link_net l) of
        None \<Rightarrow> None
      | Some (Inl _, net) \<Rightarrow> Some (l\<lparr>link_net := loopback_drop EndB net\<rparr>)
      | Some (Inr frame, net) \<Rightarrow>
          (case session_handle frame (link_session l) of
             (Inl _, session) \<Rightarrow> Some (l\<lparr>link_net := loopback_drop EndB net, link_session := session\<rparr>)
           | (Inr reply, session) \<Rightarrow>
               (case loopback_send EndB reply net of
                  (Inl _, net) \<Rightarrow> Some (l\<lparr>link_net := loopback_drop EndB net, link_session := session\<rparr>)
                | (Inr _, net) \<Rightarrow> Some (l\<lparr>link_net := net, link_session := session\<rparr>))))"

definition link_send :: "bytes \<Rightarrow> link \<Rightarrow> unit io_result \<times> link" where
  "link_send frame l = (let (r, net) = loopback_send EndA frame (link_net l) in (r, l\<lparr>link_net := net\<rparr>))"

definition link_recv :: "link \<Rightarrow> bytes io_result \<times> link" where
  "link_recv l =
     (case loopback_recv EndA (link_net l) of
        Some (r, net) \<Rightarrow> (r, l\<lparr>link_net := net\<rparr>)
      | None \<Rightarrow>
          (case server_turn l of
             None \<Rightarrow> (Inl IoOther, l)
           | Some l \<Rightarrow>
               (case loopback_recv EndA (link_net l) of
                  Some (r, net) \<Rightarrow> (r, l\<lparr>link_net := net\<rparr>)
                | None \<Rightarrow> (Inl IoOther, l))))"

definition link_ops :: "link transport" where
  "link_ops = \<lparr>t_send = link_send, t_recv = link_recv\<rparr>"

text \<open>Nothing is on its way, and both ends are there.\<close>

definition link_idle :: "link \<Rightarrow> bool" where
  "link_idle l \<longleftrightarrow> lb_alive (link_net l) EndA \<and> lb_alive (link_net l) EndB \<and>
     lb_queue (link_net l) EndA = [] \<and> lb_queue (link_net l) EndB = []"

lemma link_idle_new [simp]: "link_idle (link_new session)"
  by (simp add: link_idle_def link_new_def loopback_new_def)

text \<open>One exchange on an idle link is one call of \<open>session_handle\<close>.\<close>

lemma exchange_answered:
  assumes "link_idle l" "session_handle (encode_frame (request_header opc req_id seq body) body) (link_session l) = (Inr reply, s)"
  shows "\<exists>l'. client_exchange link_ops opc expected body req_id seq l = (check_reply expected reply, l') \<and>
    link_idle l' \<and> link_session l' = s"
  using assms
  by (simp add: client_exchange_def link_ops_def link_send_def link_recv_def loopback_send_def loopback_recv_def
      server_turn_def link_idle_def)

lemma exchange_refused:
  assumes "link_idle l" "session_handle (encode_frame (request_header opc req_id seq body) body) (link_session l) = (Inl e, s)"
  shows "\<exists>l'. client_exchange link_ops opc expected body req_id seq l = (Inl (ClientTransport IoUnexpectedEof), l') \<and>
    \<not> lb_alive (link_net l') EndB \<and> lb_queue (link_net l') EndA = [] \<and> link_session l' = s"
  using assms
  by (simp add: client_exchange_def link_ops_def link_send_def link_recv_def loopback_send_def loopback_recv_def
      loopback_drop_def server_turn_def link_idle_def)

text \<open>Once the server has gone, every exchange fails at once.\<close>

lemma exchange_gone:
  assumes "\<not> lb_alive (link_net l) EndB"
  shows "client_exchange link_ops opc expected body req_id seq l = (Inl (ClientTransport IoBrokenPipe), l)"
  using assms by (simp add: client_exchange_def link_ops_def link_send_def loopback_send_def)

subsection \<open>A shim and the arm that serves it\<close>

definition link_ready :: "link \<Rightarrow> bool" where
  "link_ready l \<longleftrightarrow> link_idle l \<and> max_frame_body (link_session l) = DEFAULT_MAX_FRAME_BODY \<and>
     session_invar (link_session l)"

type_synonym 'a shim = "u32 \<Rightarrow> u64 \<Rightarrow> link \<Rightarrow> 'a client_result \<times> link"

definition call_served :: "u32 \<Rightarrow> bytes \<Rightarrow> ('a \<Rightarrow> bytes) \<Rightarrow> 'a shim \<Rightarrow> bool" where
  "call_served opc body enc shim \<longleftrightarrow>
     (\<forall>l req_id seq. link_ready l \<longrightarrow>
        (case map_option (boxed_handle opc req_id body) (backends (link_session l) (opcode_api opc)) of
           Some (Inr out, b) \<Rightarrow> \<exists>a l'. out = enc a \<and> shim req_id seq l = (Inr a, l') \<and> link_ready l' \<and>
             link_session l' = (link_session l)\<lparr>backends := (backends (link_session l))(opcode_api opc \<mapsto> b),
                                               next_seq := next_seq (link_session l) + 1\<rparr>
         | _ \<Rightarrow> \<exists>l'. shim req_id seq l = (Inl (ClientTransport IoUnexpectedEof), l') \<and>
             \<not> lb_alive (link_net l') EndB \<and> link_session l' = link_session l))"

lemma request_fits:
  assumes "max_frame_body s = DEFAULT_MAX_FRAME_BODY" "length body \<le> unat DEFAULT_MAX_FRAME_BODY"
  shows "accepts s (encode_frame (request_header opc req_id seq body) body) = Some (request_header opc req_id seq body, body)"
proof -
  have "unat (word_of_nat (length body) :: u32) = length body"
    by (rule unat_of_nat_below) (use assms in \<open>simp add: DEFAULT_MAX_FRAME_BODY_def\<close>)
  then show ?thesis
    using assms by (simp add: accepts_def request_header_def word_le_nat_alt)
qed

lemma request_accepted:
  assumes "max_frame_body s = DEFAULT_MAX_FRAME_BODY" "length body \<le> 64"
  shows "accepts s (encode_frame (request_header opc req_id seq body) body) = Some (request_header opc req_id seq body, body)"
  using assms by (intro request_fits) (simp_all add: DEFAULT_MAX_FRAME_BODY_def)

lemma request_routed:
  assumes "max_frame_body s = DEFAULT_MAX_FRAME_BODY" "length body \<le> 64" "opc \<noteq> core_op_HELLO" "opc \<noteq> core_op_NOOP"
  shows "session_handle (encode_frame (request_header opc req_id seq body) body) s = session_route opc req_id body s"
  using session_handle_accepted [OF request_accepted [OF assms(1,2)]] assms(3,4) by (simp add: request_header_def)

lemmas api_defs = vk_api_def gl_api_def cuda_api_def hip_api_def cl_api_def l0_api_def video_api_def wgpu_api_def
  optix_api_def sycl_api_def amf_api_def

lemma boxed_of_api [simp]:
  "api_id_u8 (boxed_api b) = api_id_u8 a \<longleftrightarrow> boxed_api b = a"
  by (cases "boxed_api b"; cases a) simp_all

text \<open>
  To show a shim served: it is a call followed by a function of the reply's body, and every body the arm answers
  with is one that function reads back.
\<close>

lemma call_servedI:
  fixes shim :: "'a shim"
  assumes shim: "\<And>req_id seq l. shim req_id seq l =
      (case client_call link_ops opc body req_id seq l of (Inl e, t) \<Rightarrow> (Inl e, t) | (Inr b, t) \<Rightarrow> (f b, t))"
    and api: "opcode_api opc = api_id_u8 api"
    and core: "opc \<noteq> core_op_HELLO" "opc \<noteq> core_op_NOOP"
    and small: "length body \<le> 64"
    and reads: "\<And>b req_id out b'. boxed_api b = api \<Longrightarrow>
        boxed_handle opc req_id body b = (Inr out, b') \<Longrightarrow> \<exists>a. out = enc a \<and> f out = Inr a"
  shows "call_served opc body enc shim"
  unfolding call_served_def
proof (intro allI impI)
  fix l :: link and req_id seq
  let ?s = "link_session l"
  let ?frame = "encode_frame (request_header opc req_id seq body) body"
  assume ready: "link_ready l"
  then have idle: "link_idle l" by (simp add: link_ready_def)
  have handle: "session_handle ?frame ?s = session_route opc req_id body ?s"
    using ready core small by (intro request_routed) (simp_all add: link_ready_def)
  have refused: "\<exists>l'. shim req_id seq l = (Inl (ClientTransport IoUnexpectedEof), l') \<and>
      \<not> lb_alive (link_net l') EndB \<and> link_session l' = ?s" if "session_handle ?frame ?s = (Inl e, s)" for e s
    using exchange_refused [OF idle that, of opc] session_error_facts [OF that] by (auto simp: shim client_call_def)
  show "case map_option (boxed_handle opc req_id body) (backends ?s (opcode_api opc)) of
      Some (Inr out, b) \<Rightarrow> \<exists>a l'. out = enc a \<and> shim req_id seq l = (Inr a, l') \<and> link_ready l' \<and>
        link_session l' = ?s\<lparr>backends := (backends ?s)(opcode_api opc \<mapsto> b), next_seq := next_seq ?s + 1\<rparr>
    | _ \<Rightarrow> \<exists>l'. shim req_id seq l = (Inl (ClientTransport IoUnexpectedEof), l') \<and>
        \<not> lb_alive (link_net l') EndB \<and> link_session l' = ?s"
  proof (cases "backends ?s (opcode_api opc)")
    case None
    then show ?thesis using refused handle by (simp add: session_route_def)
  next
    case (Some b)
    obtain res b' where h: "boxed_handle opc req_id body b = (res, b')" by fastforce
    show ?thesis
    proof (cases res)
      case (Inl e)
      then show ?thesis using refused handle Some h by (simp add: session_route_def)
    next
      case (Inr out)
      let ?s' = "?s\<lparr>backends := (backends ?s)(opcode_api opc \<mapsto> b'), next_seq := next_seq ?s + 1\<rparr>"
      obtain reply where r: "session_handle ?frame ?s = (Inr reply, ?s')" "check_reply opc reply = Inr out"
        using handle Some h Inr by (simp add: session_route_def session_reply_eq Let_def)
      have "api_id_u8 (boxed_api b) = opcode_api opc"
        using ready Some by (auto simp: link_ready_def session_invar_def)
      then have "boxed_api b = api" using api by simp
      then obtain a where a: "out = enc a" "f out = Inr a"
        using reads [of b req_id out b'] h Inr by blast
      obtain l' where l': "client_exchange link_ops opc opc body req_id seq l = (check_reply opc reply, l')" "link_idle l'"
        "link_session l' = ?s'"
        using exchange_answered [OF idle r(1), of opc] by blast
      have "session_invar ?s'"
        using session_invar_handle [of ?s ?frame] ready r(1) by (simp add: link_ready_def)
      then have "link_ready l'" using ready l' by (simp add: link_ready_def)
      then show ?thesis using l' r a Some h Inr by (auto simp: shim client_call_def)
    qed
  qed
qed

text \<open>The encodings of the answers: a handle, an acknowledgement without a body.\<close>

definition no_body :: "unit \<Rightarrow> bytes" where
  "no_body u = []"

text \<open>What the proof that a shim is served uses, besides the definitions and codecs of its call.\<close>

lemmas served_simps = arm_simps ht_insert_kind no_body_def

end
