(* ===== verification/Vk_Client.thy ===== *)
theory Vk_Client
  imports Client_Link
begin

section \<open>The Vulkan shims\<close>

text \<open>
  \<open>crates/graftx-client/src/vk.rs\<close>: the object kinds the client checks, one definition per entry point, and for
  each entry point the lemma that the Vulkan service answers it with a body it reads back.
\<close>

definition client_vk_KIND_INSTANCE :: u8 where
  "client_vk_KIND_INSTANCE = 1"

definition client_vk_KIND_PHYSICAL_DEVICE :: u8 where
  "client_vk_KIND_PHYSICAL_DEVICE = 2"

definition client_vk_KIND_DEVICE :: u8 where
  "client_vk_KIND_DEVICE = 3"

definition client_vk_KIND_QUEUE :: u8 where
  "client_vk_KIND_QUEUE = 4"

definition client_vk_KIND_DEVICE_MEMORY :: u8 where
  "client_vk_KIND_DEVICE_MEMORY = 5"

definition client_vk_KIND_BUFFER :: u8 where
  "client_vk_KIND_BUFFER = 6"

definition client_vk_KIND_COMMAND_POOL :: u8 where
  "client_vk_KIND_COMMAND_POOL = 7"

definition client_vk_KIND_COMMAND_BUFFER :: u8 where
  "client_vk_KIND_COMMAND_BUFFER = 8"

definition client_vk_create_instance ::
    "'t transport \<Rightarrow> u32 \<Rightarrow> u32 \<Rightarrow> u64 \<Rightarrow> 't \<Rightarrow> Handle client_result \<times> 't" where
  "client_vk_create_instance T app_api_version req_id seq t =
     (case client_call T vk_op_CREATE_INSTANCE
         (vk_CreateInstanceRequest_encode \<lparr>vk_CreateInstanceRequest_app_api_version = app_api_version\<rparr> []) req_id seq t of
        (Inl e, t) \<Rightarrow> (Inl e, t)
      | (Inr b, t) \<Rightarrow>
          (res_bind (from_protocol (vk_CreateInstanceResponse_decode b))
             (\<lambda>resp. expect_kind client_vk_KIND_INSTANCE (vk_CreateInstanceResponse_instance resp)), t))"

definition client_vk_enumerate_physical_devices ::
    "'t transport \<Rightarrow> Handle \<Rightarrow> u32 \<Rightarrow> u64 \<Rightarrow> 't \<Rightarrow> Handle list client_result \<times> 't" where
  "client_vk_enumerate_physical_devices T instance req_id seq t =
     (case client_call T vk_op_ENUMERATE_PHYSICAL_DEVICES
         (vk_EnumeratePhysicalDevicesRequest_encode \<lparr>vk_EnumeratePhysicalDevicesRequest_instance = instance\<rparr> []) req_id seq t of
        (Inl e, t) \<Rightarrow> (Inl e, t)
      | (Inr b, t) \<Rightarrow>
          (res_bind (from_protocol (vk_EnumeratePhysicalDevicesResponse_decode b))
             (\<lambda>resp. res_bind (expect_kinds client_vk_KIND_PHYSICAL_DEVICE (vk_EnumeratePhysicalDevicesResponse_devices resp)) (\<lambda>_. Inr (vk_EnumeratePhysicalDevicesResponse_devices resp))), t))"

definition client_vk_create_device ::
    "'t transport \<Rightarrow> Handle \<Rightarrow> u32 \<Rightarrow> u64 \<Rightarrow> 't \<Rightarrow> Handle client_result \<times> 't" where
  "client_vk_create_device T physical_device req_id seq t =
     (case client_call T vk_op_CREATE_DEVICE
         (vk_CreateDeviceRequest_encode \<lparr>vk_CreateDeviceRequest_physical_device = physical_device\<rparr> []) req_id seq t of
        (Inl e, t) \<Rightarrow> (Inl e, t)
      | (Inr b, t) \<Rightarrow>
          (res_bind (from_protocol (vk_CreateDeviceResponse_decode b))
             (\<lambda>resp. expect_kind client_vk_KIND_DEVICE (vk_CreateDeviceResponse_device resp)), t))"

definition client_vk_get_device_queue ::
    "'t transport \<Rightarrow> Handle \<Rightarrow> u32 \<Rightarrow> u32 \<Rightarrow> u32 \<Rightarrow> u64 \<Rightarrow> 't \<Rightarrow> Handle client_result \<times> 't" where
  "client_vk_get_device_queue T device queue_family_index queue_index req_id seq t =
     (case client_call T vk_op_GET_DEVICE_QUEUE
         (vk_GetDeviceQueueRequest_encode \<lparr>vk_GetDeviceQueueRequest_device = device, vk_GetDeviceQueueRequest_queue_family_index = queue_family_index, vk_GetDeviceQueueRequest_queue_index = queue_index\<rparr> []) req_id seq t of
        (Inl e, t) \<Rightarrow> (Inl e, t)
      | (Inr b, t) \<Rightarrow>
          (res_bind (from_protocol (vk_GetDeviceQueueResponse_decode b))
             (\<lambda>resp. expect_kind client_vk_KIND_QUEUE (vk_GetDeviceQueueResponse_queue resp)), t))"

definition client_vk_allocate_memory ::
    "'t transport \<Rightarrow> Handle \<Rightarrow> u64 \<Rightarrow> u32 \<Rightarrow> u64 \<Rightarrow> 't \<Rightarrow> Handle client_result \<times> 't" where
  "client_vk_allocate_memory T device size' req_id seq t =
     (case client_call T vk_op_ALLOCATE_MEMORY
         (vk_AllocateMemoryRequest_encode \<lparr>vk_AllocateMemoryRequest_device = device, vk_AllocateMemoryRequest_size = size'\<rparr> []) req_id seq t of
        (Inl e, t) \<Rightarrow> (Inl e, t)
      | (Inr b, t) \<Rightarrow>
          (res_bind (from_protocol (vk_AllocateMemoryResponse_decode b))
             (\<lambda>resp. expect_kind client_vk_KIND_DEVICE_MEMORY (vk_AllocateMemoryResponse_memory resp)), t))"

definition client_vk_create_buffer ::
    "'t transport \<Rightarrow> Handle \<Rightarrow> u64 \<Rightarrow> u32 \<Rightarrow> u32 \<Rightarrow> u64 \<Rightarrow> 't \<Rightarrow> Handle client_result \<times> 't" where
  "client_vk_create_buffer T device size' usage req_id seq t =
     (case client_call T vk_op_CREATE_BUFFER
         (vk_CreateBufferRequest_encode \<lparr>vk_CreateBufferRequest_device = device, vk_CreateBufferRequest_size = size', vk_CreateBufferRequest_usage = usage\<rparr> []) req_id seq t of
        (Inl e, t) \<Rightarrow> (Inl e, t)
      | (Inr b, t) \<Rightarrow>
          (res_bind (from_protocol (vk_CreateBufferResponse_decode b))
             (\<lambda>resp. expect_kind client_vk_KIND_BUFFER (vk_CreateBufferResponse_buffer resp)), t))"

definition client_vk_bind_buffer_memory ::
    "'t transport \<Rightarrow> Handle \<Rightarrow> Handle \<Rightarrow> u64 \<Rightarrow> u32 \<Rightarrow> u64 \<Rightarrow> 't \<Rightarrow> unit client_result \<times> 't" where
  "client_vk_bind_buffer_memory T buffer memory offset req_id seq t =
     (case client_call T vk_op_BIND_BUFFER_MEMORY
         (vk_BindBufferMemoryRequest_encode \<lparr>vk_BindBufferMemoryRequest_buffer = buffer, vk_BindBufferMemoryRequest_memory = memory, vk_BindBufferMemoryRequest_offset = offset\<rparr> []) req_id seq t of
        (Inl e, t) \<Rightarrow> (Inl e, t)
      | (Inr b, t) \<Rightarrow>
          (Inr (), t))"

definition client_vk_create_command_pool ::
    "'t transport \<Rightarrow> Handle \<Rightarrow> u32 \<Rightarrow> u32 \<Rightarrow> u64 \<Rightarrow> 't \<Rightarrow> Handle client_result \<times> 't" where
  "client_vk_create_command_pool T device queue_family_index req_id seq t =
     (case client_call T vk_op_CREATE_COMMAND_POOL
         (vk_CreateCommandPoolRequest_encode \<lparr>vk_CreateCommandPoolRequest_device = device, vk_CreateCommandPoolRequest_queue_family_index = queue_family_index\<rparr> []) req_id seq t of
        (Inl e, t) \<Rightarrow> (Inl e, t)
      | (Inr b, t) \<Rightarrow>
          (res_bind (from_protocol (vk_CreateCommandPoolResponse_decode b))
             (\<lambda>resp. expect_kind client_vk_KIND_COMMAND_POOL (vk_CreateCommandPoolResponse_pool resp)), t))"

definition client_vk_allocate_command_buffer ::
    "'t transport \<Rightarrow> Handle \<Rightarrow> u32 \<Rightarrow> u64 \<Rightarrow> 't \<Rightarrow> Handle client_result \<times> 't" where
  "client_vk_allocate_command_buffer T pool req_id seq t =
     (case client_call T vk_op_ALLOCATE_COMMAND_BUFFER
         (vk_AllocateCommandBufferRequest_encode \<lparr>vk_AllocateCommandBufferRequest_pool = pool\<rparr> []) req_id seq t of
        (Inl e, t) \<Rightarrow> (Inl e, t)
      | (Inr b, t) \<Rightarrow>
          (res_bind (from_protocol (vk_AllocateCommandBufferResponse_decode b))
             (\<lambda>resp. expect_kind client_vk_KIND_COMMAND_BUFFER (vk_AllocateCommandBufferResponse_command_buffer resp)), t))"

definition client_vk_queue_submit ::
    "'t transport \<Rightarrow> Handle \<Rightarrow> Handle \<Rightarrow> u32 \<Rightarrow> u64 \<Rightarrow> 't \<Rightarrow> unit client_result \<times> 't" where
  "client_vk_queue_submit T queue command_buffer req_id seq t =
     (case client_call T vk_op_QUEUE_SUBMIT
         (vk_QueueSubmitRequest_encode \<lparr>vk_QueueSubmitRequest_queue = queue, vk_QueueSubmitRequest_command_buffer = command_buffer\<rparr> []) req_id seq t of
        (Inl e, t) \<Rightarrow> (Inl e, t)
      | (Inr b, t) \<Rightarrow>
          (Inr (), t))"

definition client_vk_cmd_copy_buffer ::
    "'t transport \<Rightarrow> Handle \<Rightarrow> Handle \<Rightarrow> Handle \<Rightarrow> u64 \<Rightarrow> u32 \<Rightarrow> u64 \<Rightarrow> 't \<Rightarrow> unit client_result \<times> 't" where
  "client_vk_cmd_copy_buffer T command_buffer src dst size' req_id seq t =
     (case client_call T vk_op_CMD_COPY_BUFFER
         (vk_CmdCopyBufferRequest_encode \<lparr>vk_CmdCopyBufferRequest_command_buffer = command_buffer, vk_CmdCopyBufferRequest_src = src, vk_CmdCopyBufferRequest_dst = dst, vk_CmdCopyBufferRequest_size = size'\<rparr> []) req_id seq t of
        (Inl e, t) \<Rightarrow> (Inl e, t)
      | (Inr b, t) \<Rightarrow>
          (Inr (), t))"

definition client_vk_cmd_draw ::
    "'t transport \<Rightarrow> Handle \<Rightarrow> u32 \<Rightarrow> u32 \<Rightarrow> u32 \<Rightarrow> u64 \<Rightarrow> 't \<Rightarrow> unit client_result \<times> 't" where
  "client_vk_cmd_draw T command_buffer vertex_count instance_count req_id seq t =
     (case client_call T vk_op_CMD_DRAW
         (vk_CmdDrawRequest_encode \<lparr>vk_CmdDrawRequest_command_buffer = command_buffer, vk_CmdDrawRequest_vertex_count = vertex_count, vk_CmdDrawRequest_instance_count = instance_count\<rparr> []) req_id seq t of
        (Inl e, t) \<Rightarrow> (Inl e, t)
      | (Inr b, t) \<Rightarrow>
          (Inr (), t))"

definition client_vk_destroy_buffer ::
    "'t transport \<Rightarrow> Handle \<Rightarrow> u32 \<Rightarrow> u64 \<Rightarrow> 't \<Rightarrow> unit client_result \<times> 't" where
  "client_vk_destroy_buffer T buffer req_id seq t =
     (case client_call T vk_op_DESTROY_BUFFER
         (vk_DestroyBufferRequest_encode \<lparr>vk_DestroyBufferRequest_buffer = buffer\<rparr> []) req_id seq t of
        (Inl e, t) \<Rightarrow> (Inl e, t)
      | (Inr b, t) \<Rightarrow>
          (Inr (), t))"

definition client_vk_free_memory ::
    "'t transport \<Rightarrow> Handle \<Rightarrow> u32 \<Rightarrow> u64 \<Rightarrow> 't \<Rightarrow> unit client_result \<times> 't" where
  "client_vk_free_memory T memory req_id seq t =
     (case client_call T vk_op_FREE_MEMORY
         (vk_FreeMemoryRequest_encode \<lparr>vk_FreeMemoryRequest_memory = memory\<rparr> []) req_id seq t of
        (Inl e, t) \<Rightarrow> (Inl e, t)
      | (Inr b, t) \<Rightarrow>
          (Inr (), t))"

definition client_vk_destroy_command_pool ::
    "'t transport \<Rightarrow> Handle \<Rightarrow> u32 \<Rightarrow> u64 \<Rightarrow> 't \<Rightarrow> unit client_result \<times> 't" where
  "client_vk_destroy_command_pool T pool req_id seq t =
     (case client_call T vk_op_DESTROY_COMMAND_POOL
         (vk_DestroyCommandPoolRequest_encode \<lparr>vk_DestroyCommandPoolRequest_pool = pool\<rparr> []) req_id seq t of
        (Inl e, t) \<Rightarrow> (Inl e, t)
      | (Inr b, t) \<Rightarrow>
          (Inr (), t))"

text \<open>The kinds are those of the server.\<close>

lemmas vk_kind_defs =
  client_vk_KIND_INSTANCE_def KIND_INSTANCE_def
  client_vk_KIND_PHYSICAL_DEVICE_def KIND_PHYSICAL_DEVICE_def
  client_vk_KIND_DEVICE_def KIND_DEVICE_def
  client_vk_KIND_QUEUE_def KIND_QUEUE_def
  client_vk_KIND_DEVICE_MEMORY_def KIND_DEVICE_MEMORY_def
  client_vk_KIND_BUFFER_def KIND_BUFFER_def
  client_vk_KIND_COMMAND_POOL_def KIND_COMMAND_POOL_def
  client_vk_KIND_COMMAND_BUFFER_def KIND_COMMAND_BUFFER_def

lemma vk_boxed:
  "boxed_api b = Vulkan \<longleftrightarrow> (\<exists>v. b = BoxVulkanBackend v)"
  by (cases b) (simp_all add: api_defs)

lemma vk_ops_routed:
  "opcode_api vk_op_CREATE_INSTANCE = api_id_u8 Vulkan"
  "opcode_api vk_op_ENUMERATE_PHYSICAL_DEVICES = api_id_u8 Vulkan"
  "opcode_api vk_op_CREATE_DEVICE = api_id_u8 Vulkan"
  "opcode_api vk_op_GET_DEVICE_QUEUE = api_id_u8 Vulkan"
  "opcode_api vk_op_ALLOCATE_MEMORY = api_id_u8 Vulkan"
  "opcode_api vk_op_CREATE_BUFFER = api_id_u8 Vulkan"
  "opcode_api vk_op_BIND_BUFFER_MEMORY = api_id_u8 Vulkan"
  "opcode_api vk_op_CREATE_COMMAND_POOL = api_id_u8 Vulkan"
  "opcode_api vk_op_ALLOCATE_COMMAND_BUFFER = api_id_u8 Vulkan"
  "opcode_api vk_op_QUEUE_SUBMIT = api_id_u8 Vulkan"
  "opcode_api vk_op_CMD_COPY_BUFFER = api_id_u8 Vulkan"
  "opcode_api vk_op_CMD_DRAW = api_id_u8 Vulkan"
  "opcode_api vk_op_DESTROY_BUFFER = api_id_u8 Vulkan"
  "opcode_api vk_op_FREE_MEMORY = api_id_u8 Vulkan"
  "opcode_api vk_op_DESTROY_COMMAND_POOL = api_id_u8 Vulkan"
  by (simp_all add: vk_op_values opcode_api_def)

lemma vk_ops_not_core:
  "vk_op_CREATE_INSTANCE \<noteq> core_op_HELLO" "vk_op_CREATE_INSTANCE \<noteq> core_op_NOOP"
  "vk_op_ENUMERATE_PHYSICAL_DEVICES \<noteq> core_op_HELLO" "vk_op_ENUMERATE_PHYSICAL_DEVICES \<noteq> core_op_NOOP"
  "vk_op_CREATE_DEVICE \<noteq> core_op_HELLO" "vk_op_CREATE_DEVICE \<noteq> core_op_NOOP"
  "vk_op_GET_DEVICE_QUEUE \<noteq> core_op_HELLO" "vk_op_GET_DEVICE_QUEUE \<noteq> core_op_NOOP"
  "vk_op_ALLOCATE_MEMORY \<noteq> core_op_HELLO" "vk_op_ALLOCATE_MEMORY \<noteq> core_op_NOOP"
  "vk_op_CREATE_BUFFER \<noteq> core_op_HELLO" "vk_op_CREATE_BUFFER \<noteq> core_op_NOOP"
  "vk_op_BIND_BUFFER_MEMORY \<noteq> core_op_HELLO" "vk_op_BIND_BUFFER_MEMORY \<noteq> core_op_NOOP"
  "vk_op_CREATE_COMMAND_POOL \<noteq> core_op_HELLO" "vk_op_CREATE_COMMAND_POOL \<noteq> core_op_NOOP"
  "vk_op_ALLOCATE_COMMAND_BUFFER \<noteq> core_op_HELLO" "vk_op_ALLOCATE_COMMAND_BUFFER \<noteq> core_op_NOOP"
  "vk_op_QUEUE_SUBMIT \<noteq> core_op_HELLO" "vk_op_QUEUE_SUBMIT \<noteq> core_op_NOOP"
  "vk_op_CMD_COPY_BUFFER \<noteq> core_op_HELLO" "vk_op_CMD_COPY_BUFFER \<noteq> core_op_NOOP"
  "vk_op_CMD_DRAW \<noteq> core_op_HELLO" "vk_op_CMD_DRAW \<noteq> core_op_NOOP"
  "vk_op_DESTROY_BUFFER \<noteq> core_op_HELLO" "vk_op_DESTROY_BUFFER \<noteq> core_op_NOOP"
  "vk_op_FREE_MEMORY \<noteq> core_op_HELLO" "vk_op_FREE_MEMORY \<noteq> core_op_NOOP"
  "vk_op_DESTROY_COMMAND_POOL \<noteq> core_op_HELLO" "vk_op_DESTROY_COMMAND_POOL \<noteq> core_op_NOOP"
  by (simp_all add: vk_op_values core_op_values)

lemma client_vk_create_instance_served:
  "call_served vk_op_CREATE_INSTANCE
     (vk_CreateInstanceRequest_encode \<lparr>vk_CreateInstanceRequest_app_api_version = app_api_version\<rparr> [])
     (\<lambda>h. vk_CreateInstanceResponse_encode \<lparr>vk_CreateInstanceResponse_instance = h\<rparr> []) (client_vk_create_instance link_ops app_api_version)"
  by (rule call_servedI [OF client_vk_create_instance_def vk_ops_routed(1) vk_ops_not_core(1,2)])
    (auto simp: vk_boxed vk_create_instance_def served_simps vk_kind_defs vk_CreateInstanceRequest_body.encode_width vk_CreateInstanceRequest_body.decode_roundtrip vk_CreateInstanceResponse_body.decode_roundtrip
      split: arm_splits)

lemma client_vk_enumerate_physical_devices_served:
  "call_served vk_op_ENUMERATE_PHYSICAL_DEVICES
     (vk_EnumeratePhysicalDevicesRequest_encode \<lparr>vk_EnumeratePhysicalDevicesRequest_instance = instance\<rparr> [])
     (\<lambda>hs. vk_EnumeratePhysicalDevicesResponse_encode \<lparr>vk_EnumeratePhysicalDevicesResponse_devices = hs\<rparr> []) (client_vk_enumerate_physical_devices link_ops instance)"
  by (rule call_servedI [OF client_vk_enumerate_physical_devices_def vk_ops_routed(2) vk_ops_not_core(3,4)])
    (auto simp: vk_boxed vk_enumerate_physical_devices_def served_simps vk_kind_defs vk_EnumeratePhysicalDevicesRequest_body.encode_width vk_EnumeratePhysicalDevicesRequest_body.decode_roundtrip vk_EnumeratePhysicalDevicesResponse_roundtrip [where rest = "[]", simplified]
      split: arm_splits)

lemma client_vk_create_device_served:
  "call_served vk_op_CREATE_DEVICE
     (vk_CreateDeviceRequest_encode \<lparr>vk_CreateDeviceRequest_physical_device = physical_device\<rparr> [])
     (\<lambda>h. vk_CreateDeviceResponse_encode \<lparr>vk_CreateDeviceResponse_device = h\<rparr> []) (client_vk_create_device link_ops physical_device)"
  by (rule call_servedI [OF client_vk_create_device_def vk_ops_routed(3) vk_ops_not_core(5,6)])
    (auto simp: vk_boxed vk_create_device_def served_simps vk_kind_defs vk_CreateDeviceRequest_body.encode_width vk_CreateDeviceRequest_body.decode_roundtrip vk_CreateDeviceResponse_body.decode_roundtrip
      split: arm_splits)

lemma client_vk_get_device_queue_served:
  "call_served vk_op_GET_DEVICE_QUEUE
     (vk_GetDeviceQueueRequest_encode \<lparr>vk_GetDeviceQueueRequest_device = device, vk_GetDeviceQueueRequest_queue_family_index = queue_family_index, vk_GetDeviceQueueRequest_queue_index = queue_index\<rparr> [])
     (\<lambda>h. vk_GetDeviceQueueResponse_encode \<lparr>vk_GetDeviceQueueResponse_queue = h\<rparr> []) (client_vk_get_device_queue link_ops device queue_family_index queue_index)"
  by (rule call_servedI [OF client_vk_get_device_queue_def vk_ops_routed(4) vk_ops_not_core(7,8)])
    (auto simp: vk_boxed vk_get_device_queue_def served_simps vk_kind_defs vk_GetDeviceQueueRequest_body.encode_width vk_GetDeviceQueueRequest_body.decode_roundtrip vk_GetDeviceQueueResponse_body.decode_roundtrip
      split: arm_splits)

lemma client_vk_allocate_memory_served:
  "call_served vk_op_ALLOCATE_MEMORY
     (vk_AllocateMemoryRequest_encode \<lparr>vk_AllocateMemoryRequest_device = device, vk_AllocateMemoryRequest_size = size'\<rparr> [])
     (\<lambda>h. vk_AllocateMemoryResponse_encode \<lparr>vk_AllocateMemoryResponse_memory = h\<rparr> []) (client_vk_allocate_memory link_ops device size')"
  by (rule call_servedI [OF client_vk_allocate_memory_def vk_ops_routed(5) vk_ops_not_core(9,10)])
    (auto simp: vk_boxed vk_allocate_memory_def served_simps vk_kind_defs vk_AllocateMemoryRequest_body.encode_width vk_AllocateMemoryRequest_body.decode_roundtrip vk_AllocateMemoryResponse_body.decode_roundtrip
      split: arm_splits)

lemma client_vk_create_buffer_served:
  "call_served vk_op_CREATE_BUFFER
     (vk_CreateBufferRequest_encode \<lparr>vk_CreateBufferRequest_device = device, vk_CreateBufferRequest_size = size', vk_CreateBufferRequest_usage = usage\<rparr> [])
     (\<lambda>h. vk_CreateBufferResponse_encode \<lparr>vk_CreateBufferResponse_buffer = h\<rparr> []) (client_vk_create_buffer link_ops device size' usage)"
  by (rule call_servedI [OF client_vk_create_buffer_def vk_ops_routed(6) vk_ops_not_core(11,12)])
    (auto simp: vk_boxed vk_create_buffer_def served_simps vk_kind_defs vk_CreateBufferRequest_body.encode_width vk_CreateBufferRequest_body.decode_roundtrip vk_CreateBufferResponse_body.decode_roundtrip
      split: arm_splits)

lemma client_vk_bind_buffer_memory_served:
  "call_served vk_op_BIND_BUFFER_MEMORY
     (vk_BindBufferMemoryRequest_encode \<lparr>vk_BindBufferMemoryRequest_buffer = buffer, vk_BindBufferMemoryRequest_memory = memory, vk_BindBufferMemoryRequest_offset = offset\<rparr> [])
     no_body (client_vk_bind_buffer_memory link_ops buffer memory offset)"
  by (rule call_servedI [OF client_vk_bind_buffer_memory_def vk_ops_routed(7) vk_ops_not_core(13,14)])
    (auto simp: vk_boxed vk_bind_buffer_memory_def served_simps vk_kind_defs vk_BindBufferMemoryRequest_body.encode_width vk_BindBufferMemoryRequest_body.decode_roundtrip
      split: arm_splits)

lemma client_vk_create_command_pool_served:
  "call_served vk_op_CREATE_COMMAND_POOL
     (vk_CreateCommandPoolRequest_encode \<lparr>vk_CreateCommandPoolRequest_device = device, vk_CreateCommandPoolRequest_queue_family_index = queue_family_index\<rparr> [])
     (\<lambda>h. vk_CreateCommandPoolResponse_encode \<lparr>vk_CreateCommandPoolResponse_pool = h\<rparr> []) (client_vk_create_command_pool link_ops device queue_family_index)"
  by (rule call_servedI [OF client_vk_create_command_pool_def vk_ops_routed(8) vk_ops_not_core(15,16)])
    (auto simp: vk_boxed vk_create_command_pool_def served_simps vk_kind_defs vk_CreateCommandPoolRequest_body.encode_width vk_CreateCommandPoolRequest_body.decode_roundtrip vk_CreateCommandPoolResponse_body.decode_roundtrip
      split: arm_splits)

lemma client_vk_allocate_command_buffer_served:
  "call_served vk_op_ALLOCATE_COMMAND_BUFFER
     (vk_AllocateCommandBufferRequest_encode \<lparr>vk_AllocateCommandBufferRequest_pool = pool\<rparr> [])
     (\<lambda>h. vk_AllocateCommandBufferResponse_encode \<lparr>vk_AllocateCommandBufferResponse_command_buffer = h\<rparr> []) (client_vk_allocate_command_buffer link_ops pool)"
  by (rule call_servedI [OF client_vk_allocate_command_buffer_def vk_ops_routed(9) vk_ops_not_core(17,18)])
    (auto simp: vk_boxed vk_allocate_command_buffer_def served_simps vk_kind_defs vk_AllocateCommandBufferRequest_body.encode_width vk_AllocateCommandBufferRequest_body.decode_roundtrip vk_AllocateCommandBufferResponse_body.decode_roundtrip
      split: arm_splits)

lemma client_vk_queue_submit_served:
  "call_served vk_op_QUEUE_SUBMIT
     (vk_QueueSubmitRequest_encode \<lparr>vk_QueueSubmitRequest_queue = queue, vk_QueueSubmitRequest_command_buffer = command_buffer\<rparr> [])
     no_body (client_vk_queue_submit link_ops queue command_buffer)"
  by (rule call_servedI [OF client_vk_queue_submit_def vk_ops_routed(10) vk_ops_not_core(19,20)])
    (auto simp: vk_boxed vk_queue_submit_def served_simps vk_kind_defs vk_QueueSubmitRequest_body.encode_width vk_QueueSubmitRequest_body.decode_roundtrip
      split: arm_splits)

lemma client_vk_cmd_copy_buffer_served:
  "call_served vk_op_CMD_COPY_BUFFER
     (vk_CmdCopyBufferRequest_encode \<lparr>vk_CmdCopyBufferRequest_command_buffer = command_buffer, vk_CmdCopyBufferRequest_src = src, vk_CmdCopyBufferRequest_dst = dst, vk_CmdCopyBufferRequest_size = size'\<rparr> [])
     no_body (client_vk_cmd_copy_buffer link_ops command_buffer src dst size')"
  by (rule call_servedI [OF client_vk_cmd_copy_buffer_def vk_ops_routed(11) vk_ops_not_core(21,22)])
    (auto simp: vk_boxed vk_cmd_copy_buffer_def served_simps vk_kind_defs vk_CmdCopyBufferRequest_body.encode_width vk_CmdCopyBufferRequest_body.decode_roundtrip
      split: arm_splits)

lemma client_vk_cmd_draw_served:
  "call_served vk_op_CMD_DRAW
     (vk_CmdDrawRequest_encode \<lparr>vk_CmdDrawRequest_command_buffer = command_buffer, vk_CmdDrawRequest_vertex_count = vertex_count, vk_CmdDrawRequest_instance_count = instance_count\<rparr> [])
     no_body (client_vk_cmd_draw link_ops command_buffer vertex_count instance_count)"
  by (rule call_servedI [OF client_vk_cmd_draw_def vk_ops_routed(12) vk_ops_not_core(23,24)])
    (auto simp: vk_boxed vk_cmd_draw_def served_simps vk_kind_defs vk_CmdDrawRequest_body.encode_width vk_CmdDrawRequest_body.decode_roundtrip
      split: arm_splits)

lemma client_vk_destroy_buffer_served:
  "call_served vk_op_DESTROY_BUFFER
     (vk_DestroyBufferRequest_encode \<lparr>vk_DestroyBufferRequest_buffer = buffer\<rparr> [])
     no_body (client_vk_destroy_buffer link_ops buffer)"
  by (rule call_servedI [OF client_vk_destroy_buffer_def vk_ops_routed(13) vk_ops_not_core(25,26)])
    (auto simp: vk_boxed vk_destroy_buffer_def served_simps vk_kind_defs vk_DestroyBufferRequest_body.encode_width vk_DestroyBufferRequest_body.decode_roundtrip
      split: arm_splits)

lemma client_vk_free_memory_served:
  "call_served vk_op_FREE_MEMORY
     (vk_FreeMemoryRequest_encode \<lparr>vk_FreeMemoryRequest_memory = memory\<rparr> [])
     no_body (client_vk_free_memory link_ops memory)"
  by (rule call_servedI [OF client_vk_free_memory_def vk_ops_routed(14) vk_ops_not_core(27,28)])
    (auto simp: vk_boxed vk_free_memory_def served_simps vk_kind_defs vk_FreeMemoryRequest_body.encode_width vk_FreeMemoryRequest_body.decode_roundtrip
      split: arm_splits)

lemma client_vk_destroy_command_pool_served:
  "call_served vk_op_DESTROY_COMMAND_POOL
     (vk_DestroyCommandPoolRequest_encode \<lparr>vk_DestroyCommandPoolRequest_pool = pool\<rparr> [])
     no_body (client_vk_destroy_command_pool link_ops pool)"
  by (rule call_servedI [OF client_vk_destroy_command_pool_def vk_ops_routed(15) vk_ops_not_core(29,30)])
    (auto simp: vk_boxed vk_destroy_command_pool_def served_simps vk_kind_defs vk_DestroyCommandPoolRequest_body.encode_width vk_DestroyCommandPoolRequest_body.decode_roundtrip
      split: arm_splits)

end
