(* ===== verification/Client_Session.thy ===== *)
theory Client_Session
  imports Vk_Client
begin

section \<open>The session wrapper of the client\<close>

text \<open>
  \<open>crates/graftx-client/src/client.rs\<close>: \<open>Client\<close> owns the transport, the id the server gave the session, and the
  counters for request ids and sequence numbers, which saturate. Each method draws a pair of ids and calls the shim.
  \<open>connect\<close> consumes the transport: when the handshake fails there is no client.
\<close>

record 't client =
  client_transport :: 't
  client_next_req_id :: u32
  client_next_seq :: u64
  client_session_id :: u64

definition connect :: "'t transport \<Rightarrow> 't \<Rightarrow> 't client client_result" where
  "connect T transport =
     (case client_handshake T transport of
        (Inl e, transport) \<Rightarrow> Inl e
      | (Inr welcome, transport) \<Rightarrow>
          Inr \<lparr>client_transport = transport, client_next_req_id = 2, client_next_seq = 2,
               client_session_id = welcome_session_id welcome\<rparr>)"

definition next_ids :: "'t client \<Rightarrow> (u32 \<times> u64) \<times> 't client" where
  "next_ids self =
     ((client_next_req_id self, client_next_seq self),
      self\<lparr>client_next_req_id := saturating_add (client_next_req_id self) 1,
           client_next_seq := saturating_add (client_next_seq self) 1\<rparr>)"

definition Client_noop :: "'t transport \<Rightarrow> 't client \<Rightarrow> unit client_result \<times> 't client" where
  "Client_noop T self =
     (let ((req_id, seq), self) = next_ids self;
          (r, t) = client_noop T req_id seq (client_transport self)
      in (r, self\<lparr>client_transport := t\<rparr>))"

definition Client_vk_create_instance :: "'t transport \<Rightarrow> u32 \<Rightarrow> 't client \<Rightarrow> Handle client_result \<times> 't client" where
  "Client_vk_create_instance T app_api_version self =
     (let ((req_id, seq), self) = next_ids self;
          (r, t) = client_vk_create_instance T app_api_version req_id seq (client_transport self)
      in (r, self\<lparr>client_transport := t\<rparr>))"

definition Client_vk_enumerate_physical_devices ::
    "'t transport \<Rightarrow> Handle \<Rightarrow> 't client \<Rightarrow> Handle list client_result \<times> 't client" where
  "Client_vk_enumerate_physical_devices T instance self =
     (let ((req_id, seq), self) = next_ids self;
          (r, t) = client_vk_enumerate_physical_devices T instance req_id seq (client_transport self)
      in (r, self\<lparr>client_transport := t\<rparr>))"

subsection \<open>The ids a client hands out\<close>

primrec draw_ids :: "nat \<Rightarrow> 't client \<Rightarrow> (u32 \<times> u64) list" where
  "draw_ids 0 self = []"
| "draw_ids (Suc n) self = (let (ids, self) = next_ids self in ids # draw_ids n self)"

lemma draw_ids_clamp:
  assumes "client_next_req_id self = clamp k" "client_next_seq self = clamp k"
  shows "draw_ids n self = map (\<lambda>i. (clamp i, clamp i)) [k..<k + n]"
  using assms
proof (induction n arbitrary: k self)
  case (Suc n)
  have "[k..<k + Suc n] = k # [Suc k..<Suc k + n]" by (simp add: upt_conv_Cons)
  then show ?case using Suc.IH [of _ "Suc k"] Suc.prems by (simp add: next_ids_def clamp_Suc [symmetric] del: upt_Suc)
qed simp

subsection \<open>Connecting over a link\<close>

text \<open>The body of the frame the handshake sends, and what the server makes of it.\<close>

definition client_hello :: bytes where
  "client_hello = hello_encode \<lparr>hello_proto_major = PROTOCOL_MAJOR, hello_proto_minor = PROTOCOL_MINOR,
     hello_features = 0, hello_max_frame_body = DEFAULT_MAX_FRAME_BODY\<rparr> []"

lemma length_client_hello: "length client_hello = 12"
  by (simp add: client_hello_def hello_body.encode_width)

lemma connect_exchange:
  "connect T t =
     (case client_exchange T core_op_HELLO core_op_WELCOME client_hello 1 1 t of
        (Inl e, _) \<Rightarrow> Inl e
      | (Inr b, t) \<Rightarrow>
          (case welcome_decode b of
             Inl e \<Rightarrow> Inl (ClientProtocol e)
           | Inr w \<Rightarrow> Inr \<lparr>client_transport = t, client_next_req_id = 2, client_next_seq = 2,
               client_session_id = welcome_session_id w\<rparr>))"
  by (auto simp: connect_def client_handshake_def client_hello_def Let_def from_protocol_def split: sum.splits prod.splits)

lemma hello_handled:
  assumes "max_frame_body s = DEFAULT_MAX_FRAME_BODY"
  obtains reply w where
    "session_handle (encode_frame (request_header core_op_HELLO 1 1 client_hello) client_hello) s =
       (Inr reply, s\<lparr>handshook := True, next_seq := next_seq s + 1\<rparr>)"
    "check_reply core_op_WELCOME reply = Inr (welcome_encode w [])" "welcome_session_id w = session_id s"
    "length reply = 48"
proof -
  let ?frame = "encode_frame (request_header core_op_HELLO 1 1 client_hello) client_hello"
  have acc: "accepts s ?frame = Some (request_header core_op_HELLO 1 1 client_hello, client_hello)"
    by (rule request_accepted [OF assms]) (simp add: length_client_hello)
  have same: "s\<lparr>max_frame_body := DEFAULT_MAX_FRAME_BODY, handshook := True, next_seq := n\<rparr> = s\<lparr>handshook := True, next_seq := n\<rparr>"
    for n using assms by (cases s) simp
  let ?w = "\<lparr>welcome_proto_major = PROTOCOL_MAJOR, welcome_proto_minor = PROTOCOL_MINOR, welcome_features = 0,
      welcome_max_frame_body = DEFAULT_MAX_FRAME_BODY, welcome_session_id = session_id s\<rparr>"
  let ?reply = "encode_frame \<lparr>fh_version = PROTOCOL_MAJOR, fh_flags = 0, fh_kind = Response, fh_opcode = core_op_WELCOME,
      fh_req_id = 1, fh_seq = next_seq s, fh_body_len = 20\<rparr> (welcome_encode ?w [])"
  have "session_handle ?frame s = session_hello 1 client_hello s"
    using session_handle_accepted [OF acc] by (simp add: request_header_def)
  also have "\<dots> = (Inr ?reply, s\<lparr>handshook := True, next_seq := next_seq s + 1\<rparr>)"
    by (simp add: session_hello_def client_hello_def hello_body.decode_roundtrip session_reply_eq Let_def same
        welcome_body.encode_width)
  finally show ?thesis
    by (rule that [where w = ?w]) (simp_all add: welcome_body.encode_width HEADER_LEN_def)
qed

lemma hello_answered:
  assumes "link_idle l" "max_frame_body (link_session l) = DEFAULT_MAX_FRAME_BODY"
  shows "\<exists>l'. connect link_ops l = Inr \<lparr>client_transport = l', client_next_req_id = 2, client_next_seq = 2,
        client_session_id = session_id (link_session l)\<rparr> \<and> link_idle l' \<and>
    link_session l' = (link_session l)\<lparr>handshook := True, next_seq := next_seq (link_session l) + 1\<rparr>"
proof -
  obtain reply w where reply: "session_handle (encode_frame (request_header core_op_HELLO 1 1 client_hello) client_hello)
      (link_session l) = (Inr reply, (link_session l)\<lparr>handshook := True, next_seq := next_seq (link_session l) + 1\<rparr>)"
    "check_reply core_op_WELCOME reply = Inr (welcome_encode w [])" "welcome_session_id w = session_id (link_session l)"
    using hello_handled [OF assms(2)] by metis
  show ?thesis
    using exchange_answered [OF assms(1) reply(1), of core_op_WELCOME] reply
    by (auto simp: connect_exchange welcome_body.decode_roundtrip)
qed

end
