(* ===== verification/Gl_Client.thy ===== *)
theory Gl_Client
  imports Client_Link
begin

section \<open>The OpenGL shims\<close>

text \<open>
  \<open>crates/graftx-client/src/gl.rs\<close>: the object kinds the client checks, one definition per entry point, and for
  each entry point the lemma that the OpenGL service answers it with a body it reads back.
\<close>

definition client_gl_KIND_GL_CONTEXT :: u8 where
  "client_gl_KIND_GL_CONTEXT = 10"

definition client_gl_KIND_GL_BUFFER :: u8 where
  "client_gl_KIND_GL_BUFFER = 11"

definition client_gl_create_context ::
    "'t transport \<Rightarrow> u32 \<Rightarrow> u64 \<Rightarrow> 't \<Rightarrow> Handle client_result \<times> 't" where
  "client_gl_create_context T req_id seq t =
     (case client_call T gl_op_CREATE_CONTEXT
         [] req_id seq t of
        (Inl e, t) \<Rightarrow> (Inl e, t)
      | (Inr b, t) \<Rightarrow>
          (res_bind (from_protocol (gl_CreateContextResponse_decode b))
             (\<lambda>resp. expect_kind client_gl_KIND_GL_CONTEXT (gl_CreateContextResponse_context resp)), t))"

definition client_gl_make_current ::
    "'t transport \<Rightarrow> Handle \<Rightarrow> u32 \<Rightarrow> u64 \<Rightarrow> 't \<Rightarrow> unit client_result \<times> 't" where
  "client_gl_make_current T context req_id seq t =
     (case client_call T gl_op_MAKE_CURRENT
         (gl_MakeCurrentRequest_encode \<lparr>gl_MakeCurrentRequest_context = context\<rparr> []) req_id seq t of
        (Inl e, t) \<Rightarrow> (Inl e, t)
      | (Inr b, t) \<Rightarrow>
          (Inr (), t))"

definition client_gl_gen_buffer ::
    "'t transport \<Rightarrow> Handle \<Rightarrow> u32 \<Rightarrow> u64 \<Rightarrow> 't \<Rightarrow> Handle client_result \<times> 't" where
  "client_gl_gen_buffer T context req_id seq t =
     (case client_call T gl_op_GEN_BUFFER
         (gl_GenBufferRequest_encode \<lparr>gl_GenBufferRequest_context = context\<rparr> []) req_id seq t of
        (Inl e, t) \<Rightarrow> (Inl e, t)
      | (Inr b, t) \<Rightarrow>
          (res_bind (from_protocol (gl_GenBufferResponse_decode b))
             (\<lambda>resp. expect_kind client_gl_KIND_GL_BUFFER (gl_GenBufferResponse_buffer resp)), t))"

definition client_gl_swap_buffers ::
    "'t transport \<Rightarrow> Handle \<Rightarrow> u32 \<Rightarrow> u64 \<Rightarrow> 't \<Rightarrow> unit client_result \<times> 't" where
  "client_gl_swap_buffers T context req_id seq t =
     (case client_call T gl_op_SWAP_BUFFERS
         (gl_SwapBuffersRequest_encode \<lparr>gl_SwapBuffersRequest_context = context\<rparr> []) req_id seq t of
        (Inl e, t) \<Rightarrow> (Inl e, t)
      | (Inr b, t) \<Rightarrow>
          (Inr (), t))"

definition client_gl_delete_buffer ::
    "'t transport \<Rightarrow> Handle \<Rightarrow> u32 \<Rightarrow> u64 \<Rightarrow> 't \<Rightarrow> unit client_result \<times> 't" where
  "client_gl_delete_buffer T buffer req_id seq t =
     (case client_call T gl_op_DELETE_BUFFER
         (gl_DeleteBufferRequest_encode \<lparr>gl_DeleteBufferRequest_buffer = buffer\<rparr> []) req_id seq t of
        (Inl e, t) \<Rightarrow> (Inl e, t)
      | (Inr b, t) \<Rightarrow>
          (Inr (), t))"

text \<open>The kinds are those of the server.\<close>

lemmas gl_kind_defs =
  client_gl_KIND_GL_CONTEXT_def KIND_GL_CONTEXT_def
  client_gl_KIND_GL_BUFFER_def KIND_GL_BUFFER_def

lemma gl_boxed:
  "boxed_api b = OpenGl \<longleftrightarrow> (\<exists>v. b = BoxGlBackend v)"
  by (cases b) (simp_all add: api_defs)

lemma gl_ops_routed:
  "opcode_api gl_op_CREATE_CONTEXT = api_id_u8 OpenGl"
  "opcode_api gl_op_MAKE_CURRENT = api_id_u8 OpenGl"
  "opcode_api gl_op_GEN_BUFFER = api_id_u8 OpenGl"
  "opcode_api gl_op_SWAP_BUFFERS = api_id_u8 OpenGl"
  "opcode_api gl_op_DELETE_BUFFER = api_id_u8 OpenGl"
  by (simp_all add: gl_op_values opcode_api_def)

lemma gl_ops_not_core:
  "gl_op_CREATE_CONTEXT \<noteq> core_op_HELLO" "gl_op_CREATE_CONTEXT \<noteq> core_op_NOOP"
  "gl_op_MAKE_CURRENT \<noteq> core_op_HELLO" "gl_op_MAKE_CURRENT \<noteq> core_op_NOOP"
  "gl_op_GEN_BUFFER \<noteq> core_op_HELLO" "gl_op_GEN_BUFFER \<noteq> core_op_NOOP"
  "gl_op_SWAP_BUFFERS \<noteq> core_op_HELLO" "gl_op_SWAP_BUFFERS \<noteq> core_op_NOOP"
  "gl_op_DELETE_BUFFER \<noteq> core_op_HELLO" "gl_op_DELETE_BUFFER \<noteq> core_op_NOOP"
  by (simp_all add: gl_op_values core_op_values)

lemma client_gl_create_context_served:
  "call_served gl_op_CREATE_CONTEXT
     []
     (\<lambda>h. gl_CreateContextResponse_encode \<lparr>gl_CreateContextResponse_context = h\<rparr> []) (client_gl_create_context link_ops)"
  by (rule call_servedI [OF client_gl_create_context_def gl_ops_routed(1) gl_ops_not_core(1,2)])
    (auto simp: gl_boxed gl_create_context_def served_simps gl_kind_defs gl_CreateContextResponse_body.decode_roundtrip
      split: arm_splits)

lemma client_gl_make_current_served:
  "call_served gl_op_MAKE_CURRENT
     (gl_MakeCurrentRequest_encode \<lparr>gl_MakeCurrentRequest_context = context\<rparr> [])
     no_body (client_gl_make_current link_ops context)"
  by (rule call_servedI [OF client_gl_make_current_def gl_ops_routed(2) gl_ops_not_core(3,4)])
    (auto simp: gl_boxed gl_make_current_def served_simps gl_kind_defs gl_MakeCurrentRequest_body.encode_width gl_MakeCurrentRequest_body.decode_roundtrip
      split: arm_splits)

lemma client_gl_gen_buffer_served:
  "call_served gl_op_GEN_BUFFER
     (gl_GenBufferRequest_encode \<lparr>gl_GenBufferRequest_context = context\<rparr> [])
     (\<lambda>h. gl_GenBufferResponse_encode \<lparr>gl_GenBufferResponse_buffer = h\<rparr> []) (client_gl_gen_buffer link_ops context)"
  by (rule call_servedI [OF client_gl_gen_buffer_def gl_ops_routed(3) gl_ops_not_core(5,6)])
    (auto simp: gl_boxed gl_gen_buffer_def served_simps gl_kind_defs gl_GenBufferRequest_body.encode_width gl_GenBufferRequest_body.decode_roundtrip gl_GenBufferResponse_body.decode_roundtrip
      split: arm_splits)

lemma client_gl_swap_buffers_served:
  "call_served gl_op_SWAP_BUFFERS
     (gl_SwapBuffersRequest_encode \<lparr>gl_SwapBuffersRequest_context = context\<rparr> [])
     no_body (client_gl_swap_buffers link_ops context)"
  by (rule call_servedI [OF client_gl_swap_buffers_def gl_ops_routed(4) gl_ops_not_core(7,8)])
    (auto simp: gl_boxed gl_swap_buffers_def served_simps gl_kind_defs gl_SwapBuffersRequest_body.encode_width gl_SwapBuffersRequest_body.decode_roundtrip
      split: arm_splits)

lemma client_gl_delete_buffer_served:
  "call_served gl_op_DELETE_BUFFER
     (gl_DeleteBufferRequest_encode \<lparr>gl_DeleteBufferRequest_buffer = buffer\<rparr> [])
     no_body (client_gl_delete_buffer link_ops buffer)"
  by (rule call_servedI [OF client_gl_delete_buffer_def gl_ops_routed(5) gl_ops_not_core(9,10)])
    (auto simp: gl_boxed gl_delete_buffer_def served_simps gl_kind_defs gl_DeleteBufferRequest_body.encode_width gl_DeleteBufferRequest_body.decode_roundtrip
      split: arm_splits)

end
