(* ===== verification/Cuda_Client.thy ===== *)
theory Cuda_Client
  imports Client_Link
begin

section \<open>The CUDA shims\<close>

text \<open>
  \<open>crates/graftx-client/src/cuda.rs\<close>: the object kinds the client checks, one definition per entry point, and for
  each entry point the lemma that the CUDA service answers it with a body it reads back.
\<close>

definition client_cuda_KIND_CUDA_CONTEXT :: u8 where
  "client_cuda_KIND_CUDA_CONTEXT = 20"

definition client_cuda_KIND_CUDA_DEVICE_PTR :: u8 where
  "client_cuda_KIND_CUDA_DEVICE_PTR = 21"

definition client_cuda_ctx_create ::
    "'t transport \<Rightarrow> u32 \<Rightarrow> u32 \<Rightarrow> u64 \<Rightarrow> 't \<Rightarrow> Handle client_result \<times> 't" where
  "client_cuda_ctx_create T device_ordinal req_id seq t =
     (case client_call T cuda_op_CTX_CREATE
         (cuda_CtxCreateRequest_encode \<lparr>cuda_CtxCreateRequest_device_ordinal = device_ordinal\<rparr> []) req_id seq t of
        (Inl e, t) \<Rightarrow> (Inl e, t)
      | (Inr b, t) \<Rightarrow>
          (res_bind (from_protocol (cuda_CtxCreateResponse_decode b))
             (\<lambda>resp. expect_kind client_cuda_KIND_CUDA_CONTEXT (cuda_CtxCreateResponse_context resp)), t))"

definition client_cuda_mem_alloc ::
    "'t transport \<Rightarrow> Handle \<Rightarrow> u64 \<Rightarrow> u32 \<Rightarrow> u64 \<Rightarrow> 't \<Rightarrow> Handle client_result \<times> 't" where
  "client_cuda_mem_alloc T context size' req_id seq t =
     (case client_call T cuda_op_MEM_ALLOC
         (cuda_MemAllocRequest_encode \<lparr>cuda_MemAllocRequest_context = context, cuda_MemAllocRequest_size = size'\<rparr> []) req_id seq t of
        (Inl e, t) \<Rightarrow> (Inl e, t)
      | (Inr b, t) \<Rightarrow>
          (res_bind (from_protocol (cuda_MemAllocResponse_decode b))
             (\<lambda>resp. expect_kind client_cuda_KIND_CUDA_DEVICE_PTR (cuda_MemAllocResponse_dptr resp)), t))"

definition client_cuda_mem_free ::
    "'t transport \<Rightarrow> Handle \<Rightarrow> u32 \<Rightarrow> u64 \<Rightarrow> 't \<Rightarrow> unit client_result \<times> 't" where
  "client_cuda_mem_free T dptr req_id seq t =
     (case client_call T cuda_op_MEM_FREE
         (cuda_MemFreeRequest_encode \<lparr>cuda_MemFreeRequest_dptr = dptr\<rparr> []) req_id seq t of
        (Inl e, t) \<Rightarrow> (Inl e, t)
      | (Inr b, t) \<Rightarrow>
          (Inr (), t))"

text \<open>The kinds are those of the server.\<close>

lemmas cuda_kind_defs =
  client_cuda_KIND_CUDA_CONTEXT_def KIND_CUDA_CONTEXT_def
  client_cuda_KIND_CUDA_DEVICE_PTR_def KIND_CUDA_DEVICE_PTR_def

lemma cuda_boxed:
  "boxed_api b = Cuda \<longleftrightarrow> (\<exists>v. b = BoxCudaBackend v)"
  by (cases b) (simp_all add: api_defs)

lemma cuda_ops_routed:
  "opcode_api cuda_op_CTX_CREATE = api_id_u8 Cuda"
  "opcode_api cuda_op_MEM_ALLOC = api_id_u8 Cuda"
  "opcode_api cuda_op_MEM_FREE = api_id_u8 Cuda"
  by (simp_all add: cuda_op_values opcode_api_def)

lemma cuda_ops_not_core:
  "cuda_op_CTX_CREATE \<noteq> core_op_HELLO" "cuda_op_CTX_CREATE \<noteq> core_op_NOOP"
  "cuda_op_MEM_ALLOC \<noteq> core_op_HELLO" "cuda_op_MEM_ALLOC \<noteq> core_op_NOOP"
  "cuda_op_MEM_FREE \<noteq> core_op_HELLO" "cuda_op_MEM_FREE \<noteq> core_op_NOOP"
  by (simp_all add: cuda_op_values core_op_values)

lemma client_cuda_ctx_create_served:
  "call_served cuda_op_CTX_CREATE
     (cuda_CtxCreateRequest_encode \<lparr>cuda_CtxCreateRequest_device_ordinal = device_ordinal\<rparr> [])
     (\<lambda>h. cuda_CtxCreateResponse_encode \<lparr>cuda_CtxCreateResponse_context = h\<rparr> []) (client_cuda_ctx_create link_ops device_ordinal)"
  by (rule call_servedI [OF client_cuda_ctx_create_def cuda_ops_routed(1) cuda_ops_not_core(1,2)])
    (auto simp: cuda_boxed cuda_ctx_create_def served_simps cuda_kind_defs cuda_CtxCreateRequest_body.encode_width cuda_CtxCreateRequest_body.decode_roundtrip cuda_CtxCreateResponse_body.decode_roundtrip
      split: arm_splits)

lemma client_cuda_mem_alloc_served:
  "call_served cuda_op_MEM_ALLOC
     (cuda_MemAllocRequest_encode \<lparr>cuda_MemAllocRequest_context = context, cuda_MemAllocRequest_size = size'\<rparr> [])
     (\<lambda>h. cuda_MemAllocResponse_encode \<lparr>cuda_MemAllocResponse_dptr = h\<rparr> []) (client_cuda_mem_alloc link_ops context size')"
  by (rule call_servedI [OF client_cuda_mem_alloc_def cuda_ops_routed(2) cuda_ops_not_core(3,4)])
    (auto simp: cuda_boxed cuda_mem_alloc_def served_simps cuda_kind_defs cuda_MemAllocRequest_body.encode_width cuda_MemAllocRequest_body.decode_roundtrip cuda_MemAllocResponse_body.decode_roundtrip
      split: arm_splits)

lemma client_cuda_mem_free_served:
  "call_served cuda_op_MEM_FREE
     (cuda_MemFreeRequest_encode \<lparr>cuda_MemFreeRequest_dptr = dptr\<rparr> [])
     no_body (client_cuda_mem_free link_ops dptr)"
  by (rule call_servedI [OF client_cuda_mem_free_def cuda_ops_routed(3) cuda_ops_not_core(5,6)])
    (auto simp: cuda_boxed cuda_mem_free_def served_simps cuda_kind_defs cuda_MemFreeRequest_body.encode_width cuda_MemFreeRequest_body.decode_roundtrip
      split: arm_splits)

end
