(* ===== verification/Hip_Client.thy ===== *)
theory Hip_Client
  imports Client_Link
begin

section \<open>The HIP shims\<close>

text \<open>
  \<open>crates/graftx-client/src/hip.rs\<close>: the object kinds the client checks, one definition per entry point, and for
  each entry point the lemma that the HIP service answers it with a body it reads back.
\<close>

definition client_hip_KIND_HIP_DEVICE_PTR :: u8 where
  "client_hip_KIND_HIP_DEVICE_PTR = 30"

definition client_hip_KIND_HIP_STREAM :: u8 where
  "client_hip_KIND_HIP_STREAM = 31"

definition client_hip_malloc ::
    "'t transport \<Rightarrow> u64 \<Rightarrow> u32 \<Rightarrow> u64 \<Rightarrow> 't \<Rightarrow> Handle client_result \<times> 't" where
  "client_hip_malloc T size' req_id seq t =
     (case client_call T hip_op_MALLOC
         (hip_MallocRequest_encode \<lparr>hip_MallocRequest_size = size'\<rparr> []) req_id seq t of
        (Inl e, t) \<Rightarrow> (Inl e, t)
      | (Inr b, t) \<Rightarrow>
          (res_bind (from_protocol (hip_MallocResponse_decode b))
             (\<lambda>resp. expect_kind client_hip_KIND_HIP_DEVICE_PTR (hip_MallocResponse_dptr resp)), t))"

definition client_hip_free ::
    "'t transport \<Rightarrow> Handle \<Rightarrow> u32 \<Rightarrow> u64 \<Rightarrow> 't \<Rightarrow> unit client_result \<times> 't" where
  "client_hip_free T dptr req_id seq t =
     (case client_call T hip_op_FREE
         (hip_FreeRequest_encode \<lparr>hip_FreeRequest_dptr = dptr\<rparr> []) req_id seq t of
        (Inl e, t) \<Rightarrow> (Inl e, t)
      | (Inr b, t) \<Rightarrow>
          (Inr (), t))"

definition client_hip_stream_create ::
    "'t transport \<Rightarrow> u32 \<Rightarrow> u64 \<Rightarrow> 't \<Rightarrow> Handle client_result \<times> 't" where
  "client_hip_stream_create T req_id seq t =
     (case client_call T hip_op_STREAM_CREATE
         [] req_id seq t of
        (Inl e, t) \<Rightarrow> (Inl e, t)
      | (Inr b, t) \<Rightarrow>
          (res_bind (from_protocol (hip_StreamCreateResponse_decode b))
             (\<lambda>resp. expect_kind client_hip_KIND_HIP_STREAM (hip_StreamCreateResponse_stream resp)), t))"

text \<open>The kinds are those of the server.\<close>

lemmas hip_kind_defs =
  client_hip_KIND_HIP_DEVICE_PTR_def KIND_HIP_DEVICE_PTR_def
  client_hip_KIND_HIP_STREAM_def KIND_HIP_STREAM_def

lemma hip_boxed:
  "boxed_api b = Hip \<longleftrightarrow> (\<exists>v. b = BoxHipBackend v)"
  by (cases b) (simp_all add: api_defs)

lemma hip_ops_routed:
  "opcode_api hip_op_MALLOC = api_id_u8 Hip"
  "opcode_api hip_op_FREE = api_id_u8 Hip"
  "opcode_api hip_op_STREAM_CREATE = api_id_u8 Hip"
  by (simp_all add: hip_op_values opcode_api_def)

lemma hip_ops_not_core:
  "hip_op_MALLOC \<noteq> core_op_HELLO" "hip_op_MALLOC \<noteq> core_op_NOOP"
  "hip_op_FREE \<noteq> core_op_HELLO" "hip_op_FREE \<noteq> core_op_NOOP"
  "hip_op_STREAM_CREATE \<noteq> core_op_HELLO" "hip_op_STREAM_CREATE \<noteq> core_op_NOOP"
  by (simp_all add: hip_op_values core_op_values)

lemma client_hip_malloc_served:
  "call_served hip_op_MALLOC
     (hip_MallocRequest_encode \<lparr>hip_MallocRequest_size = size'\<rparr> [])
     (\<lambda>h. hip_MallocResponse_encode \<lparr>hip_MallocResponse_dptr = h\<rparr> []) (client_hip_malloc link_ops size')"
  by (rule call_servedI [OF client_hip_malloc_def hip_ops_routed(1) hip_ops_not_core(1,2)])
    (auto simp: hip_boxed hip_malloc_def served_simps hip_kind_defs hip_MallocRequest_body.encode_width hip_MallocRequest_body.decode_roundtrip hip_MallocResponse_body.decode_roundtrip
      split: arm_splits)

lemma client_hip_free_served:
  "call_served hip_op_FREE
     (hip_FreeRequest_encode \<lparr>hip_FreeRequest_dptr = dptr\<rparr> [])
     no_body (client_hip_free link_ops dptr)"
  by (rule call_servedI [OF client_hip_free_def hip_ops_routed(2) hip_ops_not_core(3,4)])
    (auto simp: hip_boxed hip_free_def served_simps hip_kind_defs hip_FreeRequest_body.encode_width hip_FreeRequest_body.decode_roundtrip
      split: arm_splits)

lemma client_hip_stream_create_served:
  "call_served hip_op_STREAM_CREATE
     []
     (\<lambda>h. hip_StreamCreateResponse_encode \<lparr>hip_StreamCreateResponse_stream = h\<rparr> []) (client_hip_stream_create link_ops)"
  by (rule call_servedI [OF client_hip_stream_create_def hip_ops_routed(3) hip_ops_not_core(5,6)])
    (auto simp: hip_boxed hip_stream_create_def served_simps hip_kind_defs hip_StreamCreateResponse_body.decode_roundtrip
      split: arm_splits)

end
