(* ===== verification/Cl_Client.thy ===== *)
theory Cl_Client
  imports Client_Link
begin

section \<open>The OpenCL shims\<close>

text \<open>
  \<open>crates/graftx-client/src/cl.rs\<close>: the object kinds the client checks, one definition per entry point, and for
  each entry point the lemma that the OpenCL service answers it with a body it reads back.
\<close>

definition client_cl_KIND_CL_CONTEXT :: u8 where
  "client_cl_KIND_CL_CONTEXT = 40"

definition client_cl_KIND_CL_MEM :: u8 where
  "client_cl_KIND_CL_MEM = 41"

definition client_cl_create_context ::
    "'t transport \<Rightarrow> u32 \<Rightarrow> u64 \<Rightarrow> 't \<Rightarrow> Handle client_result \<times> 't" where
  "client_cl_create_context T req_id seq t =
     (case client_call T cl_op_CREATE_CONTEXT
         [] req_id seq t of
        (Inl e, t) \<Rightarrow> (Inl e, t)
      | (Inr b, t) \<Rightarrow>
          (res_bind (from_protocol (cl_CreateContextResponse_decode b))
             (\<lambda>resp. expect_kind client_cl_KIND_CL_CONTEXT (cl_CreateContextResponse_context resp)), t))"

definition client_cl_create_buffer ::
    "'t transport \<Rightarrow> Handle \<Rightarrow> u64 \<Rightarrow> u32 \<Rightarrow> u64 \<Rightarrow> 't \<Rightarrow> Handle client_result \<times> 't" where
  "client_cl_create_buffer T context size' req_id seq t =
     (case client_call T cl_op_CREATE_BUFFER
         (cl_CreateBufferRequest_encode \<lparr>cl_CreateBufferRequest_context = context, cl_CreateBufferRequest_size = size'\<rparr> []) req_id seq t of
        (Inl e, t) \<Rightarrow> (Inl e, t)
      | (Inr b, t) \<Rightarrow>
          (res_bind (from_protocol (cl_CreateBufferResponse_decode b))
             (\<lambda>resp. expect_kind client_cl_KIND_CL_MEM (cl_CreateBufferResponse_mem resp)), t))"

definition client_cl_release_buffer ::
    "'t transport \<Rightarrow> Handle \<Rightarrow> u32 \<Rightarrow> u64 \<Rightarrow> 't \<Rightarrow> unit client_result \<times> 't" where
  "client_cl_release_buffer T mem req_id seq t =
     (case client_call T cl_op_RELEASE_BUFFER
         (cl_ReleaseBufferRequest_encode \<lparr>cl_ReleaseBufferRequest_mem = mem\<rparr> []) req_id seq t of
        (Inl e, t) \<Rightarrow> (Inl e, t)
      | (Inr b, t) \<Rightarrow>
          (Inr (), t))"

text \<open>The kinds are those of the server.\<close>

lemmas cl_kind_defs =
  client_cl_KIND_CL_CONTEXT_def KIND_CL_CONTEXT_def
  client_cl_KIND_CL_MEM_def KIND_CL_MEM_def

lemma cl_boxed:
  "boxed_api b = OpenCl \<longleftrightarrow> (\<exists>v. b = BoxClBackend v)"
  by (cases b) (simp_all add: api_defs)

lemma cl_ops_routed:
  "opcode_api cl_op_CREATE_CONTEXT = api_id_u8 OpenCl"
  "opcode_api cl_op_CREATE_BUFFER = api_id_u8 OpenCl"
  "opcode_api cl_op_RELEASE_BUFFER = api_id_u8 OpenCl"
  by (simp_all add: cl_op_values opcode_api_def)

lemma cl_ops_not_core:
  "cl_op_CREATE_CONTEXT \<noteq> core_op_HELLO" "cl_op_CREATE_CONTEXT \<noteq> core_op_NOOP"
  "cl_op_CREATE_BUFFER \<noteq> core_op_HELLO" "cl_op_CREATE_BUFFER \<noteq> core_op_NOOP"
  "cl_op_RELEASE_BUFFER \<noteq> core_op_HELLO" "cl_op_RELEASE_BUFFER \<noteq> core_op_NOOP"
  by (simp_all add: cl_op_values core_op_values)

lemma client_cl_create_context_served:
  "call_served cl_op_CREATE_CONTEXT
     []
     (\<lambda>h. cl_CreateContextResponse_encode \<lparr>cl_CreateContextResponse_context = h\<rparr> []) (client_cl_create_context link_ops)"
  by (rule call_servedI [OF client_cl_create_context_def cl_ops_routed(1) cl_ops_not_core(1,2)])
    (auto simp: cl_boxed cl_create_context_def served_simps cl_kind_defs cl_CreateContextResponse_body.decode_roundtrip
      split: arm_splits)

lemma client_cl_create_buffer_served:
  "call_served cl_op_CREATE_BUFFER
     (cl_CreateBufferRequest_encode \<lparr>cl_CreateBufferRequest_context = context, cl_CreateBufferRequest_size = size'\<rparr> [])
     (\<lambda>h. cl_CreateBufferResponse_encode \<lparr>cl_CreateBufferResponse_mem = h\<rparr> []) (client_cl_create_buffer link_ops context size')"
  by (rule call_servedI [OF client_cl_create_buffer_def cl_ops_routed(2) cl_ops_not_core(3,4)])
    (auto simp: cl_boxed cl_create_buffer_def served_simps cl_kind_defs cl_CreateBufferRequest_body.encode_width cl_CreateBufferRequest_body.decode_roundtrip cl_CreateBufferResponse_body.decode_roundtrip
      split: arm_splits)

lemma client_cl_release_buffer_served:
  "call_served cl_op_RELEASE_BUFFER
     (cl_ReleaseBufferRequest_encode \<lparr>cl_ReleaseBufferRequest_mem = mem\<rparr> [])
     no_body (client_cl_release_buffer link_ops mem)"
  by (rule call_servedI [OF client_cl_release_buffer_def cl_ops_routed(3) cl_ops_not_core(5,6)])
    (auto simp: cl_boxed cl_release_buffer_def served_simps cl_kind_defs cl_ReleaseBufferRequest_body.encode_width cl_ReleaseBufferRequest_body.decode_roundtrip
      split: arm_splits)

end
