(* ===== verification/L0_Client.thy ===== *)
theory L0_Client
  imports Client_Link
begin

section \<open>The Level Zero shims\<close>

text \<open>
  \<open>crates/graftx-client/src/l0.rs\<close>: the object kinds the client checks, one definition per entry point, and for
  each entry point the lemma that the Level Zero service answers it with a body it reads back.
\<close>

definition client_l0_KIND_CONTEXT :: u8 where
  "client_l0_KIND_CONTEXT = 50"

definition client_l0_KIND_DEVICE_MEM :: u8 where
  "client_l0_KIND_DEVICE_MEM = 51"

definition client_l0_context_create ::
    "'t transport \<Rightarrow> u32 \<Rightarrow> u64 \<Rightarrow> 't \<Rightarrow> Handle client_result \<times> 't" where
  "client_l0_context_create T req_id seq t =
     (case client_call T l0_op_CONTEXT_CREATE
         [] req_id seq t of
        (Inl e, t) \<Rightarrow> (Inl e, t)
      | (Inr b, t) \<Rightarrow>
          (res_bind (from_protocol (l0_ContextCreateResponse_decode b))
             (\<lambda>resp. expect_kind client_l0_KIND_CONTEXT (l0_ContextCreateResponse_context resp)), t))"

definition client_l0_mem_alloc_device ::
    "'t transport \<Rightarrow> Handle \<Rightarrow> u64 \<Rightarrow> u32 \<Rightarrow> u64 \<Rightarrow> 't \<Rightarrow> Handle client_result \<times> 't" where
  "client_l0_mem_alloc_device T context size' req_id seq t =
     (case client_call T l0_op_MEM_ALLOC_DEVICE
         (l0_MemAllocDeviceRequest_encode \<lparr>l0_MemAllocDeviceRequest_context = context, l0_MemAllocDeviceRequest_size = size'\<rparr> []) req_id seq t of
        (Inl e, t) \<Rightarrow> (Inl e, t)
      | (Inr b, t) \<Rightarrow>
          (res_bind (from_protocol (l0_MemAllocDeviceResponse_decode b))
             (\<lambda>resp. expect_kind client_l0_KIND_DEVICE_MEM (l0_MemAllocDeviceResponse_ptr resp)), t))"

definition client_l0_mem_free ::
    "'t transport \<Rightarrow> Handle \<Rightarrow> u32 \<Rightarrow> u64 \<Rightarrow> 't \<Rightarrow> unit client_result \<times> 't" where
  "client_l0_mem_free T ptr req_id seq t =
     (case client_call T l0_op_MEM_FREE
         (l0_MemFreeRequest_encode \<lparr>l0_MemFreeRequest_ptr = ptr\<rparr> []) req_id seq t of
        (Inl e, t) \<Rightarrow> (Inl e, t)
      | (Inr b, t) \<Rightarrow>
          (Inr (), t))"

text \<open>The kinds are those of the server.\<close>

lemmas l0_kind_defs =
  client_l0_KIND_CONTEXT_def KIND_L0_CONTEXT_def
  client_l0_KIND_DEVICE_MEM_def KIND_L0_DEVICE_MEM_def

lemma l0_boxed:
  "boxed_api b = LevelZero \<longleftrightarrow> (\<exists>v. b = BoxL0Backend v)"
  by (cases b) (simp_all add: api_defs)

lemma l0_ops_routed:
  "opcode_api l0_op_CONTEXT_CREATE = api_id_u8 LevelZero"
  "opcode_api l0_op_MEM_ALLOC_DEVICE = api_id_u8 LevelZero"
  "opcode_api l0_op_MEM_FREE = api_id_u8 LevelZero"
  by (simp_all add: l0_op_values opcode_api_def)

lemma l0_ops_not_core:
  "l0_op_CONTEXT_CREATE \<noteq> core_op_HELLO" "l0_op_CONTEXT_CREATE \<noteq> core_op_NOOP"
  "l0_op_MEM_ALLOC_DEVICE \<noteq> core_op_HELLO" "l0_op_MEM_ALLOC_DEVICE \<noteq> core_op_NOOP"
  "l0_op_MEM_FREE \<noteq> core_op_HELLO" "l0_op_MEM_FREE \<noteq> core_op_NOOP"
  by (simp_all add: l0_op_values core_op_values)

lemma client_l0_context_create_served:
  "call_served l0_op_CONTEXT_CREATE
     []
     (\<lambda>h. l0_ContextCreateResponse_encode \<lparr>l0_ContextCreateResponse_context = h\<rparr> []) (client_l0_context_create link_ops)"
  by (rule call_servedI [OF client_l0_context_create_def l0_ops_routed(1) l0_ops_not_core(1,2)])
    (auto simp: l0_boxed l0_context_create_def served_simps l0_kind_defs l0_ContextCreateResponse_body.decode_roundtrip
      split: arm_splits)

lemma client_l0_mem_alloc_device_served:
  "call_served l0_op_MEM_ALLOC_DEVICE
     (l0_MemAllocDeviceRequest_encode \<lparr>l0_MemAllocDeviceRequest_context = context, l0_MemAllocDeviceRequest_size = size'\<rparr> [])
     (\<lambda>h. l0_MemAllocDeviceResponse_encode \<lparr>l0_MemAllocDeviceResponse_ptr = h\<rparr> []) (client_l0_mem_alloc_device link_ops context size')"
  by (rule call_servedI [OF client_l0_mem_alloc_device_def l0_ops_routed(2) l0_ops_not_core(3,4)])
    (auto simp: l0_boxed l0_mem_alloc_device_def served_simps l0_kind_defs l0_MemAllocDeviceRequest_body.encode_width l0_MemAllocDeviceRequest_body.decode_roundtrip l0_MemAllocDeviceResponse_body.decode_roundtrip
      split: arm_splits)

lemma client_l0_mem_free_served:
  "call_served l0_op_MEM_FREE
     (l0_MemFreeRequest_encode \<lparr>l0_MemFreeRequest_ptr = ptr\<rparr> [])
     no_body (client_l0_mem_free link_ops ptr)"
  by (rule call_servedI [OF client_l0_mem_free_def l0_ops_routed(3) l0_ops_not_core(5,6)])
    (auto simp: l0_boxed l0_mem_free_def served_simps l0_kind_defs l0_MemFreeRequest_body.encode_width l0_MemFreeRequest_body.decode_roundtrip
      split: arm_splits)

end
