(* ===== verification/Video_Client.thy ===== *)
theory Video_Client
  imports Client_Link
begin

section \<open>The video decode shims\<close>

text \<open>
  \<open>crates/graftx-client/src/video.rs\<close>: the object kinds the client checks, one definition per entry point, and for
  each entry point the lemma that the video decode service answers it with a body it reads back.
\<close>

definition client_video_KIND_VIDEO_SESSION :: u8 where
  "client_video_KIND_VIDEO_SESSION = 60"

definition client_video_create_decode_session ::
    "'t transport \<Rightarrow> u32 \<Rightarrow> u32 \<Rightarrow> u32 \<Rightarrow> u32 \<Rightarrow> u64 \<Rightarrow> 't \<Rightarrow> Handle client_result \<times> 't" where
  "client_video_create_decode_session T codec width height req_id seq t =
     (case client_call T video_op_CREATE_DECODE_SESSION
         (video_CreateDecodeSessionRequest_encode \<lparr>video_CreateDecodeSessionRequest_codec = codec, video_CreateDecodeSessionRequest_width = width, video_CreateDecodeSessionRequest_height = height\<rparr> []) req_id seq t of
        (Inl e, t) \<Rightarrow> (Inl e, t)
      | (Inr b, t) \<Rightarrow>
          (res_bind (from_protocol (video_CreateDecodeSessionResponse_decode b))
             (\<lambda>resp. expect_kind client_video_KIND_VIDEO_SESSION (video_CreateDecodeSessionResponse_session resp)), t))"

definition client_video_decode_frame ::
    "'t transport \<Rightarrow> Handle \<Rightarrow> u32 \<Rightarrow> u32 \<Rightarrow> u64 \<Rightarrow> 't \<Rightarrow> u32 client_result \<times> 't" where
  "client_video_decode_frame T session bitstream_len req_id seq t =
     (case client_call T video_op_DECODE_FRAME
         (video_DecodeFrameRequest_encode \<lparr>video_DecodeFrameRequest_session = session, video_DecodeFrameRequest_bitstream_len = bitstream_len\<rparr> []) req_id seq t of
        (Inl e, t) \<Rightarrow> (Inl e, t)
      | (Inr b, t) \<Rightarrow>
          (res_bind (from_protocol (video_DecodeFrameResponse_decode b))
             (\<lambda>resp. Inr (video_DecodeFrameResponse_frame_index resp)), t))"

definition client_video_destroy_session ::
    "'t transport \<Rightarrow> Handle \<Rightarrow> u32 \<Rightarrow> u64 \<Rightarrow> 't \<Rightarrow> unit client_result \<times> 't" where
  "client_video_destroy_session T session req_id seq t =
     (case client_call T video_op_DESTROY_SESSION
         (video_DestroySessionRequest_encode \<lparr>video_DestroySessionRequest_session = session\<rparr> []) req_id seq t of
        (Inl e, t) \<Rightarrow> (Inl e, t)
      | (Inr b, t) \<Rightarrow>
          (Inr (), t))"

text \<open>The kinds are those of the server.\<close>

lemmas video_kind_defs =
  client_video_KIND_VIDEO_SESSION_def KIND_VIDEO_SESSION_def

lemma video_boxed:
  "boxed_api b = Video \<longleftrightarrow> (\<exists>v. b = BoxVideoBackend v)"
  by (cases b) (simp_all add: api_defs)

lemma video_ops_routed:
  "opcode_api video_op_CREATE_DECODE_SESSION = api_id_u8 Video"
  "opcode_api video_op_DECODE_FRAME = api_id_u8 Video"
  "opcode_api video_op_DESTROY_SESSION = api_id_u8 Video"
  by (simp_all add: video_op_values opcode_api_def)

lemma video_ops_not_core:
  "video_op_CREATE_DECODE_SESSION \<noteq> core_op_HELLO" "video_op_CREATE_DECODE_SESSION \<noteq> core_op_NOOP"
  "video_op_DECODE_FRAME \<noteq> core_op_HELLO" "video_op_DECODE_FRAME \<noteq> core_op_NOOP"
  "video_op_DESTROY_SESSION \<noteq> core_op_HELLO" "video_op_DESTROY_SESSION \<noteq> core_op_NOOP"
  by (simp_all add: video_op_values core_op_values)

lemma client_video_create_decode_session_served:
  "call_served video_op_CREATE_DECODE_SESSION
     (video_CreateDecodeSessionRequest_encode \<lparr>video_CreateDecodeSessionRequest_codec = codec, video_CreateDecodeSessionRequest_width = width, video_CreateDecodeSessionRequest_height = height\<rparr> [])
     (\<lambda>h. video_CreateDecodeSessionResponse_encode \<lparr>video_CreateDecodeSessionResponse_session = h\<rparr> []) (client_video_create_decode_session link_ops codec width height)"
  by (rule call_servedI [OF client_video_create_decode_session_def video_ops_routed(1) video_ops_not_core(1,2)])
    (auto simp: video_boxed video_create_decode_session_def served_simps video_kind_defs video_CreateDecodeSessionRequest_body.encode_width video_CreateDecodeSessionRequest_body.decode_roundtrip video_CreateDecodeSessionResponse_body.decode_roundtrip
      split: arm_splits)

lemma client_video_decode_frame_served:
  "call_served video_op_DECODE_FRAME
     (video_DecodeFrameRequest_encode \<lparr>video_DecodeFrameRequest_session = session, video_DecodeFrameRequest_bitstream_len = bitstream_len\<rparr> [])
     (\<lambda>x. video_DecodeFrameResponse_encode \<lparr>video_DecodeFrameResponse_frame_index = x\<rparr> []) (client_video_decode_frame link_ops session bitstream_len)"
  by (rule call_servedI [OF client_video_decode_frame_def video_ops_routed(2) video_ops_not_core(3,4)])
    (auto simp: video_boxed video_decode_frame_def served_simps video_kind_defs video_DecodeFrameRequest_body.encode_width video_DecodeFrameRequest_body.decode_roundtrip video_DecodeFrameResponse_body.decode_roundtrip
      split: arm_splits)

lemma client_video_destroy_session_served:
  "call_served video_op_DESTROY_SESSION
     (video_DestroySessionRequest_encode \<lparr>video_DestroySessionRequest_session = session\<rparr> [])
     no_body (client_video_destroy_session link_ops session)"
  by (rule call_servedI [OF client_video_destroy_session_def video_ops_routed(3) video_ops_not_core(5,6)])
    (auto simp: video_boxed video_destroy_session_def served_simps video_kind_defs video_DestroySessionRequest_body.encode_width video_DestroySessionRequest_body.decode_roundtrip
      split: arm_splits)

end
