(* ===== verification/Wgpu_Client.thy ===== *)
theory Wgpu_Client
  imports Client_Link
begin

section \<open>The WebGPU shims\<close>

text \<open>
  \<open>crates/graftx-client/src/wgpu.rs\<close>: the object kinds the client checks, one definition per entry point, and for
  each entry point the lemma that the WebGPU service answers it with a body it reads back.
\<close>

definition client_wgpu_KIND_WGPU_DEVICE :: u8 where
  "client_wgpu_KIND_WGPU_DEVICE = 70"

definition client_wgpu_KIND_WGPU_BUFFER :: u8 where
  "client_wgpu_KIND_WGPU_BUFFER = 71"

definition client_wgpu_request_device ::
    "'t transport \<Rightarrow> u32 \<Rightarrow> u64 \<Rightarrow> 't \<Rightarrow> Handle client_result \<times> 't" where
  "client_wgpu_request_device T req_id seq t =
     (case client_call T wgpu_op_REQUEST_DEVICE
         [] req_id seq t of
        (Inl e, t) \<Rightarrow> (Inl e, t)
      | (Inr b, t) \<Rightarrow>
          (res_bind (from_protocol (wgpu_RequestDeviceResponse_decode b))
             (\<lambda>resp. expect_kind client_wgpu_KIND_WGPU_DEVICE (wgpu_RequestDeviceResponse_device resp)), t))"

definition client_wgpu_create_buffer ::
    "'t transport \<Rightarrow> Handle \<Rightarrow> u64 \<Rightarrow> u32 \<Rightarrow> u32 \<Rightarrow> u64 \<Rightarrow> 't \<Rightarrow> Handle client_result \<times> 't" where
  "client_wgpu_create_buffer T device size' usage req_id seq t =
     (case client_call T wgpu_op_CREATE_BUFFER
         (wgpu_CreateBufferRequest_encode \<lparr>wgpu_CreateBufferRequest_device = device, wgpu_CreateBufferRequest_size = size', wgpu_CreateBufferRequest_usage = usage\<rparr> []) req_id seq t of
        (Inl e, t) \<Rightarrow> (Inl e, t)
      | (Inr b, t) \<Rightarrow>
          (res_bind (from_protocol (wgpu_CreateBufferResponse_decode b))
             (\<lambda>resp. expect_kind client_wgpu_KIND_WGPU_BUFFER (wgpu_CreateBufferResponse_buffer resp)), t))"

definition client_wgpu_destroy_buffer ::
    "'t transport \<Rightarrow> Handle \<Rightarrow> u32 \<Rightarrow> u64 \<Rightarrow> 't \<Rightarrow> unit client_result \<times> 't" where
  "client_wgpu_destroy_buffer T buffer req_id seq t =
     (case client_call T wgpu_op_DESTROY_BUFFER
         (wgpu_DestroyBufferRequest_encode \<lparr>wgpu_DestroyBufferRequest_buffer = buffer\<rparr> []) req_id seq t of
        (Inl e, t) \<Rightarrow> (Inl e, t)
      | (Inr b, t) \<Rightarrow>
          (Inr (), t))"

text \<open>The kinds are those of the server.\<close>

lemmas wgpu_kind_defs =
  client_wgpu_KIND_WGPU_DEVICE_def KIND_WGPU_DEVICE_def
  client_wgpu_KIND_WGPU_BUFFER_def KIND_WGPU_BUFFER_def

lemma wgpu_boxed:
  "boxed_api b = WebGpu \<longleftrightarrow> (\<exists>v. b = BoxWebGpuBackend v)"
  by (cases b) (simp_all add: api_defs)

lemma wgpu_ops_routed:
  "opcode_api wgpu_op_REQUEST_DEVICE = api_id_u8 WebGpu"
  "opcode_api wgpu_op_CREATE_BUFFER = api_id_u8 WebGpu"
  "opcode_api wgpu_op_DESTROY_BUFFER = api_id_u8 WebGpu"
  by (simp_all add: wgpu_op_values opcode_api_def)

lemma wgpu_ops_not_core:
  "wgpu_op_REQUEST_DEVICE \<noteq> core_op_HELLO" "wgpu_op_REQUEST_DEVICE \<noteq> core_op_NOOP"
  "wgpu_op_CREATE_BUFFER \<noteq> core_op_HELLO" "wgpu_op_CREATE_BUFFER \<noteq> core_op_NOOP"
  "wgpu_op_DESTROY_BUFFER \<noteq> core_op_HELLO" "wgpu_op_DESTROY_BUFFER \<noteq> core_op_NOOP"
  by (simp_all add: wgpu_op_values core_op_values)

lemma client_wgpu_request_device_served:
  "call_served wgpu_op_REQUEST_DEVICE
     []
     (\<lambda>h. wgpu_RequestDeviceResponse_encode \<lparr>wgpu_RequestDeviceResponse_device = h\<rparr> []) (client_wgpu_request_device link_ops)"
  by (rule call_servedI [OF client_wgpu_request_device_def wgpu_ops_routed(1) wgpu_ops_not_core(1,2)])
    (auto simp: wgpu_boxed wgpu_request_device_def served_simps wgpu_kind_defs wgpu_RequestDeviceResponse_body.decode_roundtrip
      split: arm_splits)

lemma client_wgpu_create_buffer_served:
  "call_served wgpu_op_CREATE_BUFFER
     (wgpu_CreateBufferRequest_encode \<lparr>wgpu_CreateBufferRequest_device = device, wgpu_CreateBufferRequest_size = size', wgpu_CreateBufferRequest_usage = usage\<rparr> [])
     (\<lambda>h. wgpu_CreateBufferResponse_encode \<lparr>wgpu_CreateBufferResponse_buffer = h\<rparr> []) (client_wgpu_create_buffer link_ops device size' usage)"
  by (rule call_servedI [OF client_wgpu_create_buffer_def wgpu_ops_routed(2) wgpu_ops_not_core(3,4)])
    (auto simp: wgpu_boxed wgpu_create_buffer_def served_simps wgpu_kind_defs wgpu_CreateBufferRequest_body.encode_width wgpu_CreateBufferRequest_body.decode_roundtrip wgpu_CreateBufferResponse_body.decode_roundtrip
      split: arm_splits)

lemma client_wgpu_destroy_buffer_served:
  "call_served wgpu_op_DESTROY_BUFFER
     (wgpu_DestroyBufferRequest_encode \<lparr>wgpu_DestroyBufferRequest_buffer = buffer\<rparr> [])
     no_body (client_wgpu_destroy_buffer link_ops buffer)"
  by (rule call_servedI [OF client_wgpu_destroy_buffer_def wgpu_ops_routed(3) wgpu_ops_not_core(5,6)])
    (auto simp: wgpu_boxed wgpu_destroy_buffer_def served_simps wgpu_kind_defs wgpu_DestroyBufferRequest_body.encode_width wgpu_DestroyBufferRequest_body.decode_roundtrip
      split: arm_splits)

end
