(* ===== verification/Optix_Client.thy ===== *)
theory Optix_Client
  imports Client_Link
begin

section \<open>The OptiX shims\<close>

text \<open>
  \<open>crates/graftx-client/src/optix.rs\<close>: the object kinds the client checks, one definition per entry point, and for
  each entry point the lemma that the OptiX service answers it with a body it reads back.
\<close>

definition client_optix_KIND_OPTIX_CONTEXT :: u8 where
  "client_optix_KIND_OPTIX_CONTEXT = 80"

definition client_optix_KIND_OPTIX_PIPELINE :: u8 where
  "client_optix_KIND_OPTIX_PIPELINE = 81"

definition client_optix_context_create ::
    "'t transport \<Rightarrow> u32 \<Rightarrow> u64 \<Rightarrow> 't \<Rightarrow> Handle client_result \<times> 't" where
  "client_optix_context_create T req_id seq t =
     (case client_call T optix_op_CONTEXT_CREATE
         [] req_id seq t of
        (Inl e, t) \<Rightarrow> (Inl e, t)
      | (Inr b, t) \<Rightarrow>
          (res_bind (from_protocol (optix_ContextCreateResponse_decode b))
             (\<lambda>resp. expect_kind client_optix_KIND_OPTIX_CONTEXT (optix_ContextCreateResponse_context resp)), t))"

definition client_optix_pipeline_create ::
    "'t transport \<Rightarrow> Handle \<Rightarrow> u32 \<Rightarrow> u64 \<Rightarrow> 't \<Rightarrow> Handle client_result \<times> 't" where
  "client_optix_pipeline_create T context req_id seq t =
     (case client_call T optix_op_PIPELINE_CREATE
         (optix_PipelineCreateRequest_encode \<lparr>optix_PipelineCreateRequest_context = context\<rparr> []) req_id seq t of
        (Inl e, t) \<Rightarrow> (Inl e, t)
      | (Inr b, t) \<Rightarrow>
          (res_bind (from_protocol (optix_PipelineCreateResponse_decode b))
             (\<lambda>resp. expect_kind client_optix_KIND_OPTIX_PIPELINE (optix_PipelineCreateResponse_pipeline resp)), t))"

definition client_optix_destroy ::
    "'t transport \<Rightarrow> Handle \<Rightarrow> u32 \<Rightarrow> u64 \<Rightarrow> 't \<Rightarrow> unit client_result \<times> 't" where
  "client_optix_destroy T handle req_id seq t =
     (case client_call T optix_op_DESTROY
         (optix_DestroyRequest_encode \<lparr>optix_DestroyRequest_handle = handle\<rparr> []) req_id seq t of
        (Inl e, t) \<Rightarrow> (Inl e, t)
      | (Inr b, t) \<Rightarrow>
          (Inr (), t))"

text \<open>The kinds are those of the server.\<close>

lemmas optix_kind_defs =
  client_optix_KIND_OPTIX_CONTEXT_def KIND_OPTIX_CONTEXT_def
  client_optix_KIND_OPTIX_PIPELINE_def KIND_OPTIX_PIPELINE_def

lemma optix_boxed:
  "boxed_api b = OptiX \<longleftrightarrow> (\<exists>v. b = BoxOptixBackend v)"
  by (cases b) (simp_all add: api_defs)

lemma optix_ops_routed:
  "opcode_api optix_op_CONTEXT_CREATE = api_id_u8 OptiX"
  "opcode_api optix_op_PIPELINE_CREATE = api_id_u8 OptiX"
  "opcode_api optix_op_DESTROY = api_id_u8 OptiX"
  by (simp_all add: optix_op_values opcode_api_def)

lemma optix_ops_not_core:
  "optix_op_CONTEXT_CREATE \<noteq> core_op_HELLO" "optix_op_CONTEXT_CREATE \<noteq> core_op_NOOP"
  "optix_op_PIPELINE_CREATE \<noteq> core_op_HELLO" "optix_op_PIPELINE_CREATE \<noteq> core_op_NOOP"
  "optix_op_DESTROY \<noteq> core_op_HELLO" "optix_op_DESTROY \<noteq> core_op_NOOP"
  by (simp_all add: optix_op_values core_op_values)

lemma client_optix_context_create_served:
  "call_served optix_op_CONTEXT_CREATE
     []
     (\<lambda>h. optix_ContextCreateResponse_encode \<lparr>optix_ContextCreateResponse_context = h\<rparr> []) (client_optix_context_create link_ops)"
  by (rule call_servedI [OF client_optix_context_create_def optix_ops_routed(1) optix_ops_not_core(1,2)])
    (auto simp: optix_boxed optix_context_create_def served_simps optix_kind_defs optix_ContextCreateResponse_body.decode_roundtrip
      split: arm_splits)

lemma client_optix_pipeline_create_served:
  "call_served optix_op_PIPELINE_CREATE
     (optix_PipelineCreateRequest_encode \<lparr>optix_PipelineCreateRequest_context = context\<rparr> [])
     (\<lambda>h. optix_PipelineCreateResponse_encode \<lparr>optix_PipelineCreateResponse_pipeline = h\<rparr> []) (client_optix_pipeline_create link_ops context)"
  by (rule call_servedI [OF client_optix_pipeline_create_def optix_ops_routed(2) optix_ops_not_core(3,4)])
    (auto simp: optix_boxed optix_pipeline_create_def served_simps optix_kind_defs optix_PipelineCreateRequest_body.encode_width optix_PipelineCreateRequest_body.decode_roundtrip optix_PipelineCreateResponse_body.decode_roundtrip
      split: arm_splits)

lemma client_optix_destroy_served:
  "call_served optix_op_DESTROY
     (optix_DestroyRequest_encode \<lparr>optix_DestroyRequest_handle = handle\<rparr> [])
     no_body (client_optix_destroy link_ops handle)"
  by (rule call_servedI [OF client_optix_destroy_def optix_ops_routed(3) optix_ops_not_core(5,6)])
    (auto simp: optix_boxed optix_destroy_def served_simps optix_kind_defs optix_DestroyRequest_body.encode_width optix_DestroyRequest_body.decode_roundtrip
      split: arm_splits)

end
