(* ===== verification/Sycl_Client.thy ===== *)
theory Sycl_Client
  imports Client_Link
begin

section \<open>The SYCL shims\<close>

text \<open>
  \<open>crates/graftx-client/src/sycl.rs\<close>: the object kinds the client checks, one definition per entry point, and for
  each entry point the lemma that the SYCL service answers it with a body it reads back.
\<close>

definition client_sycl_KIND_SYCL_QUEUE :: u8 where
  "client_sycl_KIND_SYCL_QUEUE = 90"

definition client_sycl_KIND_SYCL_DEVICE_PTR :: u8 where
  "client_sycl_KIND_SYCL_DEVICE_PTR = 91"

definition client_sycl_queue_create ::
    "'t transport \<Rightarrow> u32 \<Rightarrow> u64 \<Rightarrow> 't \<Rightarrow> Handle client_result \<times> 't" where
  "client_sycl_queue_create T req_id seq t =
     (case client_call T sycl_op_QUEUE_CREATE
         [] req_id seq t of
        (Inl e, t) \<Rightarrow> (Inl e, t)
      | (Inr b, t) \<Rightarrow>
          (res_bind (from_protocol (sycl_QueueCreateResponse_decode b))
             (\<lambda>resp. expect_kind client_sycl_KIND_SYCL_QUEUE (sycl_QueueCreateResponse_queue resp)), t))"

definition client_sycl_malloc_device ::
    "'t transport \<Rightarrow> Handle \<Rightarrow> u64 \<Rightarrow> u32 \<Rightarrow> u64 \<Rightarrow> 't \<Rightarrow> Handle client_result \<times> 't" where
  "client_sycl_malloc_device T queue size' req_id seq t =
     (case client_call T sycl_op_MALLOC_DEVICE
         (sycl_MallocDeviceRequest_encode \<lparr>sycl_MallocDeviceRequest_queue = queue, sycl_MallocDeviceRequest_size = size'\<rparr> []) req_id seq t of
        (Inl e, t) \<Rightarrow> (Inl e, t)
      | (Inr b, t) \<Rightarrow>
          (res_bind (from_protocol (sycl_MallocDeviceResponse_decode b))
             (\<lambda>resp. expect_kind client_sycl_KIND_SYCL_DEVICE_PTR (sycl_MallocDeviceResponse_ptr resp)), t))"

definition client_sycl_free ::
    "'t transport \<Rightarrow> Handle \<Rightarrow> u32 \<Rightarrow> u64 \<Rightarrow> 't \<Rightarrow> unit client_result \<times> 't" where
  "client_sycl_free T ptr req_id seq t =
     (case client_call T sycl_op_FREE
         (sycl_FreeRequest_encode \<lparr>sycl_FreeRequest_ptr = ptr\<rparr> []) req_id seq t of
        (Inl e, t) \<Rightarrow> (Inl e, t)
      | (Inr b, t) \<Rightarrow>
          (Inr (), t))"

text \<open>The kinds are those of the server.\<close>

lemmas sycl_kind_defs =
  client_sycl_KIND_SYCL_QUEUE_def KIND_SYCL_QUEUE_def
  client_sycl_KIND_SYCL_DEVICE_PTR_def KIND_SYCL_DEVICE_PTR_def

lemma sycl_boxed:
  "boxed_api b = Sycl \<longleftrightarrow> (\<exists>v. b = BoxSyclBackend v)"
  by (cases b) (simp_all add: api_defs)

lemma sycl_ops_routed:
  "opcode_api sycl_op_QUEUE_CREATE = api_id_u8 Sycl"
  "opcode_api sycl_op_MALLOC_DEVICE = api_id_u8 Sycl"
  "opcode_api sycl_op_FREE = api_id_u8 Sycl"
  by (simp_all add: sycl_op_values opcode_api_def)

lemma sycl_ops_not_core:
  "sycl_op_QUEUE_CREATE \<noteq> core_op_HELLO" "sycl_op_QUEUE_CREATE \<noteq> core_op_NOOP"
  "sycl_op_MALLOC_DEVICE \<noteq> core_op_HELLO" "sycl_op_MALLOC_DEVICE \<noteq> core_op_NOOP"
  "sycl_op_FREE \<noteq> core_op_HELLO" "sycl_op_FREE \<noteq> core_op_NOOP"
  by (simp_all add: sycl_op_values core_op_values)

lemma client_sycl_queue_create_served:
  "call_served sycl_op_QUEUE_CREATE
     []
     (\<lambda>h. sycl_QueueCreateResponse_encode \<lparr>sycl_QueueCreateResponse_queue = h\<rparr> []) (client_sycl_queue_create link_ops)"
  by (rule call_servedI [OF client_sycl_queue_create_def sycl_ops_routed(1) sycl_ops_not_core(1,2)])
    (auto simp: sycl_boxed sycl_queue_create_def served_simps sycl_kind_defs sycl_QueueCreateResponse_body.decode_roundtrip
      split: arm_splits)

lemma client_sycl_malloc_device_served:
  "call_served sycl_op_MALLOC_DEVICE
     (sycl_MallocDeviceRequest_encode \<lparr>sycl_MallocDeviceRequest_queue = queue, sycl_MallocDeviceRequest_size = size'\<rparr> [])
     (\<lambda>h. sycl_MallocDeviceResponse_encode \<lparr>sycl_MallocDeviceResponse_ptr = h\<rparr> []) (client_sycl_malloc_device link_ops queue size')"
  by (rule call_servedI [OF client_sycl_malloc_device_def sycl_ops_routed(2) sycl_ops_not_core(3,4)])
    (auto simp: sycl_boxed sycl_malloc_device_def served_simps sycl_kind_defs sycl_MallocDeviceRequest_body.encode_width sycl_MallocDeviceRequest_body.decode_roundtrip sycl_MallocDeviceResponse_body.decode_roundtrip
      split: arm_splits)

lemma client_sycl_free_served:
  "call_served sycl_op_FREE
     (sycl_FreeRequest_encode \<lparr>sycl_FreeRequest_ptr = ptr\<rparr> [])
     no_body (client_sycl_free link_ops ptr)"
  by (rule call_servedI [OF client_sycl_free_def sycl_ops_routed(3) sycl_ops_not_core(5,6)])
    (auto simp: sycl_boxed sycl_free_def served_simps sycl_kind_defs sycl_FreeRequest_body.encode_width sycl_FreeRequest_body.decode_roundtrip
      split: arm_splits)

end
