(* ===== verification/Amf_Client.thy ===== *)
theory Amf_Client
  imports Client_Link
begin

section \<open>The AMF shims\<close>

text \<open>
  \<open>crates/graftx-client/src/amf.rs\<close>: the object kinds the client checks, one definition per entry point, and for
  each entry point the lemma that the AMF service answers it with a body it reads back.
\<close>

definition client_amf_KIND_AMF_ENCODER :: u8 where
  "client_amf_KIND_AMF_ENCODER = 100"

definition client_amf_create_encoder ::
    "'t transport \<Rightarrow> u32 \<Rightarrow> u32 \<Rightarrow> u32 \<Rightarrow> u32 \<Rightarrow> u64 \<Rightarrow> 't \<Rightarrow> Handle client_result \<times> 't" where
  "client_amf_create_encoder T codec width height req_id seq t =
     (case client_call T amf_op_CREATE_ENCODER
         (amf_CreateEncoderRequest_encode \<lparr>amf_CreateEncoderRequest_codec = codec, amf_CreateEncoderRequest_width = width, amf_CreateEncoderRequest_height = height\<rparr> []) req_id seq t of
        (Inl e, t) \<Rightarrow> (Inl e, t)
      | (Inr b, t) \<Rightarrow>
          (res_bind (from_protocol (amf_CreateEncoderResponse_decode b))
             (\<lambda>resp. expect_kind client_amf_KIND_AMF_ENCODER (amf_CreateEncoderResponse_encoder resp)), t))"

definition client_amf_encode_frame ::
    "'t transport \<Rightarrow> Handle \<Rightarrow> u32 \<Rightarrow> u32 \<Rightarrow> u64 \<Rightarrow> 't \<Rightarrow> u32 client_result \<times> 't" where
  "client_amf_encode_frame T encoder frame_len req_id seq t =
     (case client_call T amf_op_ENCODE_FRAME
         (amf_EncodeFrameRequest_encode \<lparr>amf_EncodeFrameRequest_encoder = encoder, amf_EncodeFrameRequest_frame_len = frame_len\<rparr> []) req_id seq t of
        (Inl e, t) \<Rightarrow> (Inl e, t)
      | (Inr b, t) \<Rightarrow>
          (res_bind (from_protocol (amf_EncodeFrameResponse_decode b))
             (\<lambda>resp. Inr (amf_EncodeFrameResponse_packet_len resp)), t))"

definition client_amf_destroy_encoder ::
    "'t transport \<Rightarrow> Handle \<Rightarrow> u32 \<Rightarrow> u64 \<Rightarrow> 't \<Rightarrow> unit client_result \<times> 't" where
  "client_amf_destroy_encoder T encoder req_id seq t =
     (case client_call T amf_op_DESTROY_ENCODER
         (amf_DestroyEncoderRequest_encode \<lparr>amf_DestroyEncoderRequest_encoder = encoder\<rparr> []) req_id seq t of
        (Inl e, t) \<Rightarrow> (Inl e, t)
      | (Inr b, t) \<Rightarrow>
          (Inr (), t))"

text \<open>The kinds are those of the server.\<close>

lemmas amf_kind_defs =
  client_amf_KIND_AMF_ENCODER_def KIND_AMF_ENCODER_def

lemma amf_boxed:
  "boxed_api b = Amf \<longleftrightarrow> (\<exists>v. b = BoxAmfBackend v)"
  by (cases b) (simp_all add: api_defs)

lemma amf_ops_routed:
  "opcode_api amf_op_CREATE_ENCODER = api_id_u8 Amf"
  "opcode_api amf_op_ENCODE_FRAME = api_id_u8 Amf"
  "opcode_api amf_op_DESTROY_ENCODER = api_id_u8 Amf"
  by (simp_all add: amf_op_values opcode_api_def)

lemma amf_ops_not_core:
  "amf_op_CREATE_ENCODER \<noteq> core_op_HELLO" "amf_op_CREATE_ENCODER \<noteq> core_op_NOOP"
  "amf_op_ENCODE_FRAME \<noteq> core_op_HELLO" "amf_op_ENCODE_FRAME \<noteq> core_op_NOOP"
  "amf_op_DESTROY_ENCODER \<noteq> core_op_HELLO" "amf_op_DESTROY_ENCODER \<noteq> core_op_NOOP"
  by (simp_all add: amf_op_values core_op_values)

lemma client_amf_create_encoder_served:
  "call_served amf_op_CREATE_ENCODER
     (amf_CreateEncoderRequest_encode \<lparr>amf_CreateEncoderRequest_codec = codec, amf_CreateEncoderRequest_width = width, amf_CreateEncoderRequest_height = height\<rparr> [])
     (\<lambda>h. amf_CreateEncoderResponse_encode \<lparr>amf_CreateEncoderResponse_encoder = h\<rparr> []) (client_amf_create_encoder link_ops codec width height)"
  by (rule call_servedI [OF client_amf_create_encoder_def amf_ops_routed(1) amf_ops_not_core(1,2)])
    (auto simp: amf_boxed amf_create_encoder_def served_simps amf_kind_defs amf_CreateEncoderRequest_body.encode_width amf_CreateEncoderRequest_body.decode_roundtrip amf_CreateEncoderResponse_body.decode_roundtrip
      split: arm_splits)

lemma client_amf_encode_frame_served:
  "call_served amf_op_ENCODE_FRAME
     (amf_EncodeFrameRequest_encode \<lparr>amf_EncodeFrameRequest_encoder = encoder, amf_EncodeFrameRequest_frame_len = frame_len\<rparr> [])
     (\<lambda>x. amf_EncodeFrameResponse_encode \<lparr>amf_EncodeFrameResponse_packet_len = x\<rparr> []) (client_amf_encode_frame link_ops encoder frame_len)"
  by (rule call_servedI [OF client_amf_encode_frame_def amf_ops_routed(2) amf_ops_not_core(3,4)])
    (auto simp: amf_boxed amf_encode_frame_def served_simps amf_kind_defs amf_EncodeFrameRequest_body.encode_width amf_EncodeFrameRequest_body.decode_roundtrip amf_EncodeFrameResponse_body.decode_roundtrip
      split: arm_splits)

lemma client_amf_destroy_encoder_served:
  "call_served amf_op_DESTROY_ENCODER
     (amf_DestroyEncoderRequest_encode \<lparr>amf_DestroyEncoderRequest_encoder = encoder\<rparr> [])
     no_body (client_amf_destroy_encoder link_ops encoder)"
  by (rule call_servedI [OF client_amf_destroy_encoder_def amf_ops_routed(3) amf_ops_not_core(5,6)])
    (auto simp: amf_boxed amf_destroy_encoder_def served_simps amf_kind_defs amf_DestroyEncoderRequest_body.encode_width amf_DestroyEncoderRequest_body.decode_roundtrip
      split: arm_splits)

end
