(* ===== verification/Client_Spec.thy ===== *)
theory Client_Spec
  imports Client_Session Gl_Client Cuda_Client Hip_Client Cl_Client L0_Client Video_Client Wgpu_Client Optix_Client
    Sycl_Client Amf_Client
begin

section \<open>The client against the server\<close>

text \<open>
  The properties that span the client and the server. The client's checks of a reply are those of its header's
  opcode and kind and of its body; the ids it hands out are consecutive until they saturate. Against the server of
  this repository every one of the forty-seven shims gets exactly the answer of the arm that serves it, and no call
  of the client ever meets a reply it does not expect.
\<close>

subsection \<open>What a call checks\<close>

text \<open>A call sends exactly one frame, the request with the given ids, and its result depends on nothing but the
  one frame it receives: the end of the stream is a transport error, a frame that does not decode a protocol error,
  a header with another opcode or kind an unexpected reply, and otherwise the body is handed on. The version, the
  flags, the request id, the sequence number and the declared length of the reply play no part.\<close>

theorem client_reply_checks:
  "let (r, t') = client_call vec_ops opc body req_id seq t in
     vec_outbox t' = vec_outbox t @ [encode_frame (request_header opc req_id seq body) body] \<and>
     (case vec_inbox t of
        [] \<Rightarrow> r = Inl (ClientTransport IoUnexpectedEof)
      | reply # rest \<Rightarrow> vec_inbox t' = rest \<and>
          (case decode_frame reply of
             Inl e \<Rightarrow> r = Inl (ClientProtocol e)
           | Inr (h, b) \<Rightarrow>
               r = (if fh_opcode h = opc \<and> fh_kind h = Response then Inr b
                    else Inl (ClientUnexpectedReply (fh_opcode h) (fh_kind h))) \<and>
               (\<forall>version flags id s n. check_reply opc (encode_frame
                  (h\<lparr>fh_version := version, fh_flags := flags, fh_req_id := id, fh_seq := s, fh_body_len := n\<rparr>) b) = r)))"
proof -
  obtain r t' where call: "client_call vec_ops opc body req_id seq t = (r, t')" by fastforce
  then show ?thesis
    using vec.exchange_framed [where t = t and opc = opc and expected = opc and req_id = req_id and seq = seq and body = body]
    by (auto simp: client_call_def check_reply_def split: list.splits sum.splits)
qed

text \<open>C40. The ids of a connected client: the \<open>n\<close>-th call carries request id and sequence number \<open>n + 2\<close>, cut at the
  largest values of their types; so the request ids of the first \<open>2 ^ 32 - 2\<close> calls are all different, and no wrap
  ever brings an earlier id back.\<close>

theorem client_ids_distinct:
  assumes "connect T t = Inr c"
  shows "draw_ids n c = map (\<lambda>i. (clamp i, clamp i)) [2..<n + 2] \<and>
    (n \<le> 2 ^ 32 - 2 \<longrightarrow> distinct (map fst (draw_ids n c))) \<and>
    sorted (map (unat \<circ> fst) (draw_ids n c)) \<and> list_all (\<lambda>ids. 2 \<le> unat (fst ids) \<and> 2 \<le> unat (snd ids)) (draw_ids n c)"
proof -
  have two: "(clamp 2 :: u32) = 2" "(clamp 2 :: u64) = 2" by (simp_all add: clamp_def)
  have c: "client_next_req_id c = clamp 2" "client_next_seq c = clamp 2"
    using assms two by (auto simp: connect_def split: prod.splits sum.splits)
  have ids: "draw_ids n c = map (\<lambda>i. (clamp i, clamp i)) [2..<n + 2]"
    using draw_ids_clamp [OF c, of n] by (simp add: add.commute)
  have "inj_on (\<lambda>i. clamp i :: u32) (set [2..<n + 2])" if "n \<le> 2 ^ 32 - 2"
  proof (rule inj_onI)
    fix i j assume "i \<in> set [2..<n + 2]" "j \<in> set [2..<n + 2]" and eq: "(clamp i :: u32) = clamp j"
    then have "i < 2 ^ 32" "j < 2 ^ 32" using that by auto
    then show "i = j" using arg_cong [OF eq, of unat] by (simp add: unat_clamp)
  qed
  then have "n \<le> 2 ^ 32 - 2 \<longrightarrow> distinct (map fst (draw_ids n c))"
    by (simp add: ids comp_def distinct_map)
  moreover have "sorted (map (unat \<circ> fst) (draw_ids n c))"
    unfolding ids map_map sorted_map by (rule sorted_wrt_mono_rel [OF _ sorted_upt]) (simp add: unat_clamp)
  moreover have "list_all (\<lambda>ids. 2 \<le> unat (fst ids) \<and> 2 \<le> unat (snd ids)) (draw_ids n c)"
    by (auto simp: ids list_all_iff unat_clamp)
  ultimately show ?thesis using ids by blast
qed

lemma client_ids_distinct_witness:
  "distinct (map fst (draw_ids 3 \<lparr>client_transport = (), client_next_req_id = 2, client_next_seq = 2, client_session_id = 9\<rparr>))"
proof -
  let ?w = "\<lparr>welcome_proto_major = PROTOCOL_MAJOR, welcome_proto_minor = PROTOCOL_MINOR, welcome_features = 0,
      welcome_max_frame_body = DEFAULT_MAX_FRAME_BODY, welcome_session_id = 9\<rparr>"
  let ?reply = "encode_frame \<lparr>fh_version = PROTOCOL_MAJOR, fh_flags = 0, fh_kind = Response, fh_opcode = core_op_WELCOME,
      fh_req_id = 1, fh_seq = 1, fh_body_len = 20\<rparr> (welcome_encode ?w [])"
  let ?T = "\<lparr>t_send = \<lambda>f t. (Inr (), t), t_recv = \<lambda>t. (Inr ?reply, t)\<rparr> :: unit transport"
  have "connect ?T () = Inr \<lparr>client_transport = (), client_next_req_id = 2, client_next_seq = 2, client_session_id = 9\<rparr>"
    by (simp add: connect_def client_handshake_def client_exchange_def welcome_body.decode_roundtrip)
  from client_ids_distinct [OF this, of 3] show ?thesis by (simp add: clamp_def)
qed

subsection \<open>The server's answers\<close>

text \<open>C31. The Vulkan shims against the server: on a link that is ready, a shim returns exactly the value the
  service's arm encoded in its answer, and the server's session has moved by that one request; if the service
  refuses the request, or none is registered, the shim returns the transport error of a closed connection, the server
  is gone and its session unchanged. In particular no shim ever reports a protocol error or an unexpected reply.\<close>

theorem client_vulkan_served:
  "(\<forall>app_api_version. call_served vk_op_CREATE_INSTANCE
      (vk_CreateInstanceRequest_encode \<lparr>vk_CreateInstanceRequest_app_api_version = app_api_version\<rparr> [])
      (\<lambda>h. vk_CreateInstanceResponse_encode \<lparr>vk_CreateInstanceResponse_instance = h\<rparr> [])
      (client_vk_create_instance link_ops app_api_version)) \<and>
   (\<forall>instance. call_served vk_op_ENUMERATE_PHYSICAL_DEVICES
      (vk_EnumeratePhysicalDevicesRequest_encode \<lparr>vk_EnumeratePhysicalDevicesRequest_instance = instance\<rparr> [])
      (\<lambda>hs. vk_EnumeratePhysicalDevicesResponse_encode \<lparr>vk_EnumeratePhysicalDevicesResponse_devices = hs\<rparr> [])
      (client_vk_enumerate_physical_devices link_ops instance)) \<and>
   (\<forall>physical_device. call_served vk_op_CREATE_DEVICE
      (vk_CreateDeviceRequest_encode \<lparr>vk_CreateDeviceRequest_physical_device = physical_device\<rparr> [])
      (\<lambda>h. vk_CreateDeviceResponse_encode \<lparr>vk_CreateDeviceResponse_device = h\<rparr> [])
      (client_vk_create_device link_ops physical_device)) \<and>
   (\<forall>device queue_family_index queue_index. call_served vk_op_GET_DEVICE_QUEUE
      (vk_GetDeviceQueueRequest_encode \<lparr>vk_GetDeviceQueueRequest_device = device, vk_GetDeviceQueueRequest_queue_family_index = queue_family_index, vk_GetDeviceQueueRequest_queue_index = queue_index\<rparr> [])
      (\<lambda>h. vk_GetDeviceQueueResponse_encode \<lparr>vk_GetDeviceQueueResponse_queue = h\<rparr> [])
      (client_vk_get_device_queue link_ops device queue_family_index queue_index)) \<and>
   (\<forall>device size'. call_served vk_op_ALLOCATE_MEMORY
      (vk_AllocateMemoryRequest_encode \<lparr>vk_AllocateMemoryRequest_device = device, vk_AllocateMemoryRequest_size = size'\<rparr> [])
      (\<lambda>h. vk_AllocateMemoryResponse_encode \<lparr>vk_AllocateMemoryResponse_memory = h\<rparr> [])
      (client_vk_allocate_memory link_ops device size')) \<and>
   (\<forall>device size' usage. call_served vk_op_CREATE_BUFFER
      (vk_CreateBufferRequest_encode \<lparr>vk_CreateBufferRequest_device = device, vk_CreateBufferRequest_size = size', vk_CreateBufferRequest_usage = usage\<rparr> [])
      (\<lambda>h. vk_CreateBufferResponse_encode \<lparr>vk_CreateBufferResponse_buffer = h\<rparr> [])
      (client_vk_create_buffer link_ops device size' usage)) \<and>
   (\<forall>buffer memory offset. call_served vk_op_BIND_BUFFER_MEMORY
      (vk_BindBufferMemoryRequest_encode \<lparr>vk_BindBufferMemoryRequest_buffer = buffer, vk_BindBufferMemoryRequest_memory = memory, vk_BindBufferMemoryRequest_offset = offset\<rparr> [])
      no_body (client_vk_bind_buffer_memory link_ops buffer memory offset)) \<and>
   (\<forall>device queue_family_index. call_served vk_op_CREATE_COMMAND_POOL
      (vk_CreateCommandPoolRequest_encode \<lparr>vk_CreateCommandPoolRequest_device = device, vk_CreateCommandPoolRequest_queue_family_index = queue_family_index\<rparr> [])
      (\<lambda>h. vk_CreateCommandPoolResponse_encode \<lparr>vk_CreateCommandPoolResponse_pool = h\<rparr> [])
      (client_vk_create_command_pool link_ops device queue_family_index)) \<and>
   (\<forall>pool. call_served vk_op_ALLOCATE_COMMAND_BUFFER
      (vk_AllocateCommandBufferRequest_encode \<lparr>vk_AllocateCommandBufferRequest_pool = pool\<rparr> [])
      (\<lambda>h. vk_AllocateCommandBufferResponse_encode \<lparr>vk_AllocateCommandBufferResponse_command_buffer = h\<rparr> [])
      (client_vk_allocate_command_buffer link_ops pool)) \<and>
   (\<forall>queue command_buffer. call_served vk_op_QUEUE_SUBMIT
      (vk_QueueSubmitRequest_encode \<lparr>vk_QueueSubmitRequest_queue = queue, vk_QueueSubmitRequest_command_buffer = command_buffer\<rparr> [])
      no_body (client_vk_queue_submit link_ops queue command_buffer)) \<and>
   (\<forall>command_buffer src dst size'. call_served vk_op_CMD_COPY_BUFFER
      (vk_CmdCopyBufferRequest_encode \<lparr>vk_CmdCopyBufferRequest_command_buffer = command_buffer, vk_CmdCopyBufferRequest_src = src, vk_CmdCopyBufferRequest_dst = dst, vk_CmdCopyBufferRequest_size = size'\<rparr> [])
      no_body (client_vk_cmd_copy_buffer link_ops command_buffer src dst size')) \<and>
   (\<forall>command_buffer vertex_count instance_count. call_served vk_op_CMD_DRAW
      (vk_CmdDrawRequest_encode \<lparr>vk_CmdDrawRequest_command_buffer = command_buffer, vk_CmdDrawRequest_vertex_count = vertex_count, vk_CmdDrawRequest_instance_count = instance_count\<rparr> [])
      no_body (client_vk_cmd_draw link_ops command_buffer vertex_count instance_count)) \<and>
   (\<forall>buffer. call_served vk_op_DESTROY_BUFFER
      (vk_DestroyBufferRequest_encode \<lparr>vk_DestroyBufferRequest_buffer = buffer\<rparr> [])
      no_body (client_vk_destroy_buffer link_ops buffer)) \<and>
   (\<forall>memory. call_served vk_op_FREE_MEMORY
      (vk_FreeMemoryRequest_encode \<lparr>vk_FreeMemoryRequest_memory = memory\<rparr> [])
      no_body (client_vk_free_memory link_ops memory)) \<and>
   (\<forall>pool. call_served vk_op_DESTROY_COMMAND_POOL
      (vk_DestroyCommandPoolRequest_encode \<lparr>vk_DestroyCommandPoolRequest_pool = pool\<rparr> [])
      no_body (client_vk_destroy_command_pool link_ops pool))"
  by (intro conjI allI)
    (rule client_vk_create_instance_served client_vk_enumerate_physical_devices_served client_vk_create_device_served client_vk_get_device_queue_served client_vk_allocate_memory_served client_vk_create_buffer_served client_vk_bind_buffer_memory_served client_vk_create_command_pool_served client_vk_allocate_command_buffer_served client_vk_queue_submit_served client_vk_cmd_copy_buffer_served client_vk_cmd_draw_served client_vk_destroy_buffer_served client_vk_free_memory_served client_vk_destroy_command_pool_served)+

text \<open>C32. The same of the shims of the ten other services.\<close>

theorem client_services_served:
  "call_served gl_op_CREATE_CONTEXT
      []
      (\<lambda>h. gl_CreateContextResponse_encode \<lparr>gl_CreateContextResponse_context = h\<rparr> [])
      (client_gl_create_context link_ops) \<and>
   (\<forall>context. call_served gl_op_MAKE_CURRENT
      (gl_MakeCurrentRequest_encode \<lparr>gl_MakeCurrentRequest_context = context\<rparr> [])
      no_body (client_gl_make_current link_ops context)) \<and>
   (\<forall>context. call_served gl_op_GEN_BUFFER
      (gl_GenBufferRequest_encode \<lparr>gl_GenBufferRequest_context = context\<rparr> [])
      (\<lambda>h. gl_GenBufferResponse_encode \<lparr>gl_GenBufferResponse_buffer = h\<rparr> [])
      (client_gl_gen_buffer link_ops context)) \<and>
   (\<forall>context. call_served gl_op_SWAP_BUFFERS
      (gl_SwapBuffersRequest_encode \<lparr>gl_SwapBuffersRequest_context = context\<rparr> [])
      no_body (client_gl_swap_buffers link_ops context)) \<and>
   (\<forall>buffer. call_served gl_op_DELETE_BUFFER
      (gl_DeleteBufferRequest_encode \<lparr>gl_DeleteBufferRequest_buffer = buffer\<rparr> [])
      no_body (client_gl_delete_buffer link_ops buffer)) \<and>
   (\<forall>device_ordinal. call_served cuda_op_CTX_CREATE
      (cuda_CtxCreateRequest_encode \<lparr>cuda_CtxCreateRequest_device_ordinal = device_ordinal\<rparr> [])
      (\<lambda>h. cuda_CtxCreateResponse_encode \<lparr>cuda_CtxCreateResponse_context = h\<rparr> [])
      (client_cuda_ctx_create link_ops device_ordinal)) \<and>
   (\<forall>context size'. call_served cuda_op_MEM_ALLOC
      (cuda_MemAllocRequest_encode \<lparr>cuda_MemAllocRequest_context = context, cuda_MemAllocRequest_size = size'\<rparr> [])
      (\<lambda>h. cuda_MemAllocResponse_encode \<lparr>cuda_MemAllocResponse_dptr = h\<rparr> [])
      (client_cuda_mem_alloc link_ops context size')) \<and>
   (\<forall>dptr. call_served cuda_op_MEM_FREE
      (cuda_MemFreeRequest_encode \<lparr>cuda_MemFreeRequest_dptr = dptr\<rparr> [])
      no_body (client_cuda_mem_free link_ops dptr)) \<and>
   (\<forall>size'. call_served hip_op_MALLOC
      (hip_MallocRequest_encode \<lparr>hip_MallocRequest_size = size'\<rparr> [])
      (\<lambda>h. hip_MallocResponse_encode \<lparr>hip_MallocResponse_dptr = h\<rparr> [])
      (client_hip_malloc link_ops size')) \<and>
   (\<forall>dptr. call_served hip_op_FREE
      (hip_FreeRequest_encode \<lparr>hip_FreeRequest_dptr = dptr\<rparr> [])
      no_body (client_hip_free link_ops dptr)) \<and>
   call_served hip_op_STREAM_CREATE
      []
      (\<lambda>h. hip_StreamCreateResponse_encode \<lparr>hip_StreamCreateResponse_stream = h\<rparr> [])
      (client_hip_stream_create link_ops) \<and>
   call_served cl_op_CREATE_CONTEXT
      []
      (\<lambda>h. cl_CreateContextResponse_encode \<lparr>cl_CreateContextResponse_context = h\<rparr> [])
      (client_cl_create_context link_ops) \<and>
   (\<forall>context size'. call_served cl_op_CREATE_BUFFER
      (cl_CreateBufferRequest_encode \<lparr>cl_CreateBufferRequest_context = context, cl_CreateBufferRequest_size = size'\<rparr> [])
      (\<lambda>h. cl_CreateBufferResponse_encode \<lparr>cl_CreateBufferResponse_mem = h\<rparr> [])
      (client_cl_create_buffer link_ops context size')) \<and>
   (\<forall>mem. call_served cl_op_RELEASE_BUFFER
      (cl_ReleaseBufferRequest_encode \<lparr>cl_ReleaseBufferRequest_mem = mem\<rparr> [])
      no_body (client_cl_release_buffer link_ops mem)) \<and>
   call_served l0_op_CONTEXT_CREATE
      []
      (\<lambda>h. l0_ContextCreateResponse_encode \<lparr>l0_ContextCreateResponse_context = h\<rparr> [])
      (client_l0_context_create link_ops) \<and>
   (\<forall>context size'. call_served l0_op_MEM_ALLOC_DEVICE
      (l0_MemAllocDeviceRequest_encode \<lparr>l0_MemAllocDeviceRequest_context = context, l0_MemAllocDeviceRequest_size = size'\<rparr> [])
      (\<lambda>h. l0_MemAllocDeviceResponse_encode \<lparr>l0_MemAllocDeviceResponse_ptr = h\<rparr> [])
      (client_l0_mem_alloc_device link_ops context size')) \<and>
   (\<forall>ptr. call_served l0_op_MEM_FREE
      (l0_MemFreeRequest_encode \<lparr>l0_MemFreeRequest_ptr = ptr\<rparr> [])
      no_body (client_l0_mem_free link_ops ptr)) \<and>
   (\<forall>codec width height. call_served video_op_CREATE_DECODE_SESSION
      (video_CreateDecodeSessionRequest_encode \<lparr>video_CreateDecodeSessionRequest_codec = codec, video_CreateDecodeSessionRequest_width = width, video_CreateDecodeSessionRequest_height = height\<rparr> [])
      (\<lambda>h. video_CreateDecodeSessionResponse_encode \<lparr>video_CreateDecodeSessionResponse_session = h\<rparr> [])
      (client_video_create_decode_session link_ops codec width height)) \<and>
   (\<forall>session bitstream_len. call_served video_op_DECODE_FRAME
      (video_DecodeFrameRequest_encode \<lparr>video_DecodeFrameRequest_session = session, video_DecodeFrameRequest_bitstream_len = bitstream_len\<rparr> [])
      (\<lambda>x. video_DecodeFrameResponse_encode \<lparr>video_DecodeFrameResponse_frame_index = x\<rparr> [])
      (client_video_decode_frame link_ops session bitstream_len)) \<and>
   (\<forall>session. call_served video_op_DESTROY_SESSION
      (video_DestroySessionRequest_encode \<lparr>video_DestroySessionRequest_session = session\<rparr> [])
      no_body (client_video_destroy_session link_ops session)) \<and>
   call_served wgpu_op_REQUEST_DEVICE
      []
      (\<lambda>h. wgpu_RequestDeviceResponse_encode \<lparr>wgpu_RequestDeviceResponse_device = h\<rparr> [])
      (client_wgpu_request_device link_ops) \<and>
   (\<forall>device size' usage. call_served wgpu_op_CREATE_BUFFER
      (wgpu_CreateBufferRequest_encode \<lparr>wgpu_CreateBufferRequest_device = device, wgpu_CreateBufferRequest_size = size', wgpu_CreateBufferRequest_usage = usage\<rparr> [])
      (\<lambda>h. wgpu_CreateBufferResponse_encode \<lparr>wgpu_CreateBufferResponse_buffer = h\<rparr> [])
      (client_wgpu_create_buffer link_ops device size' usage)) \<and>
   (\<forall>buffer. call_served wgpu_op_DESTROY_BUFFER
      (wgpu_DestroyBufferRequest_encode \<lparr>wgpu_DestroyBufferRequest_buffer = buffer\<rparr> [])
      no_body (client_wgpu_destroy_buffer link_ops buffer)) \<and>
   call_served optix_op_CONTEXT_CREATE
      []
      (\<lambda>h. optix_ContextCreateResponse_encode \<lparr>optix_ContextCreateResponse_context = h\<rparr> [])
      (client_optix_context_create link_ops) \<and>
   (\<forall>context. call_served optix_op_PIPELINE_CREATE
      (optix_PipelineCreateRequest_encode \<lparr>optix_PipelineCreateRequest_context = context\<rparr> [])
      (\<lambda>h. optix_PipelineCreateResponse_encode \<lparr>optix_PipelineCreateResponse_pipeline = h\<rparr> [])
      (client_optix_pipeline_create link_ops context)) \<and>
   (\<forall>handle. call_served optix_op_DESTROY
      (optix_DestroyRequest_encode \<lparr>optix_DestroyRequest_handle = handle\<rparr> [])
      no_body (client_optix_destroy link_ops handle)) \<and>
   call_served sycl_op_QUEUE_CREATE
      []
      (\<lambda>h. sycl_QueueCreateResponse_encode \<lparr>sycl_QueueCreateResponse_queue = h\<rparr> [])
      (client_sycl_queue_create link_ops) \<and>
   (\<forall>queue size'. call_served sycl_op_MALLOC_DEVICE
      (sycl_MallocDeviceRequest_encode \<lparr>sycl_MallocDeviceRequest_queue = queue, sycl_MallocDeviceRequest_size = size'\<rparr> [])
      (\<lambda>h. sycl_MallocDeviceResponse_encode \<lparr>sycl_MallocDeviceResponse_ptr = h\<rparr> [])
      (client_sycl_malloc_device link_ops queue size')) \<and>
   (\<forall>ptr. call_served sycl_op_FREE
      (sycl_FreeRequest_encode \<lparr>sycl_FreeRequest_ptr = ptr\<rparr> [])
      no_body (client_sycl_free link_ops ptr)) \<and>
   (\<forall>codec width height. call_served amf_op_CREATE_ENCODER
      (amf_CreateEncoderRequest_encode \<lparr>amf_CreateEncoderRequest_codec = codec, amf_CreateEncoderRequest_width = width, amf_CreateEncoderRequest_height = height\<rparr> [])
      (\<lambda>h. amf_CreateEncoderResponse_encode \<lparr>amf_CreateEncoderResponse_encoder = h\<rparr> [])
      (client_amf_create_encoder link_ops codec width height)) \<and>
   (\<forall>encoder frame_len. call_served amf_op_ENCODE_FRAME
      (amf_EncodeFrameRequest_encode \<lparr>amf_EncodeFrameRequest_encoder = encoder, amf_EncodeFrameRequest_frame_len = frame_len\<rparr> [])
      (\<lambda>x. amf_EncodeFrameResponse_encode \<lparr>amf_EncodeFrameResponse_packet_len = x\<rparr> [])
      (client_amf_encode_frame link_ops encoder frame_len)) \<and>
   (\<forall>encoder. call_served amf_op_DESTROY_ENCODER
      (amf_DestroyEncoderRequest_encode \<lparr>amf_DestroyEncoderRequest_encoder = encoder\<rparr> [])
      no_body (client_amf_destroy_encoder link_ops encoder))"
  by (intro conjI allI)
    (rule client_gl_create_context_served client_gl_make_current_served client_gl_gen_buffer_served client_gl_swap_buffers_served client_gl_delete_buffer_served
    client_cuda_ctx_create_served client_cuda_mem_alloc_served client_cuda_mem_free_served
    client_hip_malloc_served client_hip_free_served client_hip_stream_create_served
    client_cl_create_context_served client_cl_create_buffer_served client_cl_release_buffer_served
    client_l0_context_create_served client_l0_mem_alloc_device_served client_l0_mem_free_served
    client_video_create_decode_session_served client_video_decode_frame_served client_video_destroy_session_served
    client_wgpu_request_device_served client_wgpu_create_buffer_served client_wgpu_destroy_buffer_served
    client_optix_context_create_served client_optix_pipeline_create_served client_optix_destroy_served
    client_sycl_queue_create_served client_sycl_malloc_device_served client_sycl_free_served
    client_amf_create_encoder_served client_amf_encode_frame_served client_amf_destroy_encoder_served)+

subsection \<open>Bringing up a session\<close>

lemma link_session_new: "link_session (link_new session) = session"
  by (simp add: link_new_def)

lemma ready_main: "link_idle l \<Longrightarrow> link_session l = main_session sid \<Longrightarrow> link_ready l"
  by (simp add: link_ready_def main_session_def session_register_def session_new_def session_invar_def
      api_defs vk_new_ok gl_new_ok)

lemma call_servedD:
  assumes "call_served opc body enc shim" "link_ready l" "backends (link_session l) (opcode_api opc) = Some b"
    "boxed_handle opc req_id body b = (Inr (enc a), b')" "\<And>x. enc x = enc a \<Longrightarrow> x = a"
  shows "\<exists>l'. shim req_id seq l = (Inr a, l') \<and> link_ready l' \<and>
    link_session l' = (link_session l)\<lparr>backends := (backends (link_session l))(opcode_api opc \<mapsto> b'),
                                      next_seq := next_seq (link_session l) + 1\<rparr>"
  using assms(1) [unfolded call_served_def, rule_format, OF assms(2), of req_id seq] assms(3-5) by auto

text \<open>The first two steps of every Vulkan program, on the server's side.\<close>

definition instance_table :: "InstanceState handle_table" where
  "instance_table = snd (ht_insert KIND_INSTANCE \<lparr>InstanceState_created = True\<rparr> ht_new)"

definition first_instance :: Handle where
  "first_instance = fst (ht_insert KIND_INSTANCE \<lparr>InstanceState_created = True\<rparr> ht_new)"

definition device_table :: "PhysDevState handle_table" where
  "device_table = snd (ht_insert KIND_PHYSICAL_DEVICE \<lparr>PhysDevState_parent = first_instance\<rparr> ht_new)"

definition first_device :: Handle where
  "first_device = fst (ht_insert KIND_PHYSICAL_DEVICE \<lparr>PhysDevState_parent = first_instance\<rparr> ht_new)"

lemma ht_room_new: "ht_room ht_new"
  by (simp add: ht_room_def ht_new_def)

lemma first_objects:
  "ht_get instance_table first_instance = Some \<lparr>InstanceState_created = True\<rparr>" "handle_kind first_instance = KIND_INSTANCE"
  "ht_get device_table first_device = Some \<lparr>PhysDevState_parent = first_instance\<rparr>"
  "handle_kind first_device = KIND_PHYSICAL_DEVICE"
  using ht.insert_self [OF ht.wf_new] ht_room_new
  by (simp_all add: instance_table_def first_instance_def device_table_def first_device_def ht_insert_kind)

lemma create_instance_first:
  "boxed_handle vk_op_CREATE_INSTANCE req_id
      (vk_CreateInstanceRequest_encode \<lparr>vk_CreateInstanceRequest_app_api_version = v\<rparr> []) (BoxVulkanBackend vk_new) =
   (Inr (vk_CreateInstanceResponse_encode \<lparr>vk_CreateInstanceResponse_instance = first_instance\<rparr> []),
    BoxVulkanBackend (vk_new\<lparr>vk_instances := instance_table\<rparr>))"
  by (simp add: vk_create_instance_def vk_CreateInstanceRequest_body.decode_roundtrip first_instance_def instance_table_def
      vk_new_def case_prod_beta)

lemma enumerate_first:
  "boxed_handle vk_op_ENUMERATE_PHYSICAL_DEVICES req_id
      (vk_EnumeratePhysicalDevicesRequest_encode \<lparr>vk_EnumeratePhysicalDevicesRequest_instance = first_instance\<rparr> [])
      (BoxVulkanBackend (vk_new\<lparr>vk_instances := instance_table\<rparr>)) =
   (Inr (vk_EnumeratePhysicalDevicesResponse_encode \<lparr>vk_EnumeratePhysicalDevicesResponse_devices = [first_device]\<rparr> []),
    BoxVulkanBackend (vk_new\<lparr>vk_instances := instance_table, vk_physical_devices := device_table\<rparr>))"
  by (simp add: vk_enumerate_physical_devices_def vk_EnumeratePhysicalDevicesRequest_body.decode_roundtrip first_objects
      first_device_def device_table_def vk_new_def case_prod_beta)

lemma create_instance_inj:
  "vk_CreateInstanceResponse_encode \<lparr>vk_CreateInstanceResponse_instance = x\<rparr> [] =
   vk_CreateInstanceResponse_encode \<lparr>vk_CreateInstanceResponse_instance = y\<rparr> [] \<Longrightarrow> x = y"
  by (drule vk_CreateInstanceResponse_body.encode_inj) simp

lemma one_device_inj:
  assumes "vk_EnumeratePhysicalDevicesResponse_encode \<lparr>vk_EnumeratePhysicalDevicesResponse_devices = hs\<rparr> [] =
    vk_EnumeratePhysicalDevicesResponse_encode \<lparr>vk_EnumeratePhysicalDevicesResponse_devices = [d]\<rparr> []"
  shows "hs = [d]"
proof -
  let ?enc = "\<lambda>hs. vk_EnumeratePhysicalDevicesResponse_encode \<lparr>vk_EnumeratePhysicalDevicesResponse_devices = hs\<rparr> []"
  have len: "length (?enc xs) = 4 + 8 * length xs" for xs
    by (simp add: wire_defs fold_append_concat length_concat comp_def sum_list_triv)
  have single: "length hs = 1" using arg_cong [OF assms, of length] len [of hs] len [of "[d]"] by simp
  have reads: "vk_EnumeratePhysicalDevicesResponse_decode (?enc xs) = Inr \<lparr>vk_EnumeratePhysicalDevicesResponse_devices = xs\<rparr>"
    if "length xs = 1" for xs
    using vk_EnumeratePhysicalDevicesResponse_roundtrip [where rest = "[]" and
        m = "\<lparr>vk_EnumeratePhysicalDevicesResponse_devices = xs\<rparr>"] that by simp
  have "(Inr \<lparr>vk_EnumeratePhysicalDevicesResponse_devices = hs\<rparr> :: vk_EnumeratePhysicalDevicesResponse proto_result) =
      Inr \<lparr>vk_EnumeratePhysicalDevicesResponse_devices = [d]\<rparr>"
    unfolding reads [OF single, symmetric] assms by (rule reads) simp
  then show ?thesis by simp
qed

text \<open>End to end: over a loopback pair to a fresh session of the server's \<open>main\<close>, the client connects and gets the
  session's id; \<open>vkCreateInstance\<close> returns a handle of the instance kind, and \<open>vkEnumeratePhysicalDevices\<close> on it
  returns one handle of the device kind; the server's session is past its handshake, has answered three frames, and
  its tables resolve the two handles, the device to that instance. Every step returns.\<close>

theorem client_vulkan_bringup:
  "\<exists>c c1 c2 h d. connect link_ops (link_new (main_session sid)) = Inr c \<and> client_session_id c = sid \<and>
     Client_vk_create_instance link_ops v c = (Inr h, c1) \<and>
     Client_vk_enumerate_physical_devices link_ops h c1 = (Inr [d], c2) \<and>
     handle_kind h = KIND_INSTANCE \<and> handle_kind d = KIND_PHYSICAL_DEVICE \<and>
     (let s = link_session (client_transport c2) in
        session_is_handshook s \<and> next_seq s = 4 \<and>
        (\<exists>b. backends s (api_id_u8 Vulkan) = Some (BoxVulkanBackend b) \<and>
           ht_get (vk_instances b) h = Some \<lparr>InstanceState_created = True\<rparr> \<and>
           ht_get (vk_physical_devices b) d = Some \<lparr>PhysDevState_parent = h\<rparr>))"
proof -
  let ?m = "main_session sid"
  have main: "max_frame_body ?m = DEFAULT_MAX_FRAME_BODY" "session_id ?m = sid" "next_seq ?m = 1"
    "backends ?m (api_id_u8 Vulkan) = Some (BoxVulkanBackend vk_new)"
    by (simp_all add: main_session_def session_register_def session_new_def api_defs)
  obtain l0 where l0: "connect link_ops (link_new ?m) =
      Inr \<lparr>client_transport = l0, client_next_req_id = 2, client_next_seq = 2, client_session_id = sid\<rparr>"
    "link_idle l0" "link_session l0 = ?m\<lparr>handshook := True, next_seq := 2\<rparr>"
    using hello_answered [OF link_idle_new, of ?m] main by (auto simp: link_session_new)
  have ready0: "link_ready l0"
    using l0 ready_main [OF link_idle_new link_session_new, of sid] by (simp add: link_ready_def link_session_new session_invar_def)
  have b0: "backends (link_session l0) (opcode_api vk_op_CREATE_INSTANCE) = Some (BoxVulkanBackend vk_new)"
    using l0(3) main(4) by (simp add: vk_ops_routed)
  obtain l1 where l1: "client_vk_create_instance link_ops v 2 2 l0 = (Inr first_instance, l1)" "link_ready l1"
    "link_session l1 = (link_session l0)\<lparr>backends := (backends (link_session l0))(api_id_u8 Vulkan \<mapsto>
       BoxVulkanBackend (vk_new\<lparr>vk_instances := instance_table\<rparr>)), next_seq := next_seq (link_session l0) + 1\<rparr>"
    using call_servedD [OF client_vk_create_instance_served ready0 b0 create_instance_first create_instance_inj, where req_id = 2 and seq = 2]
    by (auto simp: vk_ops_routed)
  have b1: "backends (link_session l1) (opcode_api vk_op_ENUMERATE_PHYSICAL_DEVICES) =
      Some (BoxVulkanBackend (vk_new\<lparr>vk_instances := instance_table\<rparr>))"
    using l1(3) by (simp add: vk_ops_routed)
  obtain l2 where l2: "client_vk_enumerate_physical_devices link_ops first_instance 3 3 l1 = (Inr [first_device], l2)"
    "link_session l2 = (link_session l1)\<lparr>backends := (backends (link_session l1))(api_id_u8 Vulkan \<mapsto>
       BoxVulkanBackend (vk_new\<lparr>vk_instances := instance_table, vk_physical_devices := device_table\<rparr>)),
       next_seq := next_seq (link_session l1) + 1\<rparr>"
    using call_servedD [OF client_vk_enumerate_physical_devices_served l1(2) b1 enumerate_first one_device_inj, where req_id = 3 and seq = 3]
    by (auto simp: vk_ops_routed)
  have ids: "saturating_add 2 1 = (3 :: u32)" "saturating_add 2 1 = (3 :: u64)"
    "saturating_add 3 1 = (4 :: u32)" "saturating_add 3 1 = (4 :: u64)"
    by (simp_all add: saturating_add_def)
  let ?c = "\<lambda>l n. \<lparr>client_transport = l, client_next_req_id = n, client_next_seq = ucast n, client_session_id = sid\<rparr>"
  have "Client_vk_create_instance link_ops v (?c l0 2) = (Inr first_instance, ?c l1 3)"
    "Client_vk_enumerate_physical_devices link_ops first_instance (?c l1 3) = (Inr [first_device], ?c l2 4)"
    using l1(1) l2(1) by (simp_all add: Client_vk_create_instance_def Client_vk_enumerate_physical_devices_def next_ids_def ids)
  moreover have "next_seq (link_session l2) = 4" "session_is_handshook (link_session l2)"
    using l0(3) l1(3) l2(2) by (simp_all add: session_is_handshook_def)
  moreover have "backends (link_session l2) (api_id_u8 Vulkan) =
      Some (BoxVulkanBackend (vk_new\<lparr>vk_instances := instance_table, vk_physical_devices := device_table\<rparr>))"
    using l2(2) by simp
  ultimately show ?thesis using l0(1) first_objects 
    by (intro exI [of _ "?c l0 2"] exI [of _ "?c l1 3"] exI [of _ "?c l2 4"] exI [of _ first_instance] exI [of _ first_device])
      (simp add: session_is_handshook_def)
qed

end
