(* ===== verification/Rpc_Types.thy ===== *)
theory Rpc_Types
  imports Client_Spec
begin

section \<open>The types of the calls\<close>

text \<open>
  Every opcode that is answered has a type: the request body it takes and the reply body it answers with. The tables name the message
  of \<open>crates/graftx-protocol/src/lib.rs\<close> and, where the reply is a handle, the kind of object it names. What follows is
  that the dispatch of every service keeps to its table, and so every answer of a session is of its opcode's type.
\<close>

subsection \<open>Types of bodies\<close>

text \<open>A request need only be read: decoders leave what follows the message. A reply is the encoding of a message.\<close>

definition reads :: "(bytes \<Rightarrow> 'm proto_result) \<Rightarrow> bytes \<Rightarrow> bool" where
  "reads decode body = (case decode body of Inl _ \<Rightarrow> False | Inr _ \<Rightarrow> True)"

definition carries :: "(bytes \<Rightarrow> 'm proto_result) \<Rightarrow> ('m \<Rightarrow> bytes \<Rightarrow> bytes) \<Rightarrow> ('m \<Rightarrow> bool) \<Rightarrow> bytes \<Rightarrow> bool" where
  "carries decode encode ok body = (case decode body of Inl _ \<Rightarrow> False | Inr m \<Rightarrow> ok m \<and> encode m [] = body)"

definition of_kind :: "u8 \<Rightarrow> Handle \<Rightarrow> bool" where
  "of_kind k h \<longleftrightarrow> handle_kind h = k"

definition any_body :: "bytes \<Rightarrow> bool" where
  "any_body body = True"

definition no_reply :: "bytes \<Rightarrow> bool" where
  "no_reply body = (body = [])"

record rpc =
  rpc_opcode :: u32
  rpc_request :: "bytes \<Rightarrow> bool"
  rpc_response :: "bytes \<Rightarrow> bool"

definition rpc_typed :: "rpc list \<Rightarrow> u32 \<Rightarrow> bytes \<Rightarrow> bytes \<Rightarrow> bool" where
  "rpc_typed rs opc body out = list_ex (\<lambda>r. rpc_opcode r = opc \<and> rpc_request r body \<and> rpc_response r out) rs"

subsection \<open>The tables\<close>

definition vk_rpcs :: "rpc list" where
  "vk_rpcs = [
    \<lparr>rpc_opcode = vk_op_CREATE_INSTANCE, rpc_request = reads vk_CreateInstanceRequest_decode,
       rpc_response = carries vk_CreateInstanceResponse_decode vk_CreateInstanceResponse_encode
          (\<lambda>m. of_kind KIND_INSTANCE (vk_CreateInstanceResponse_instance m))\<rparr>,
    \<lparr>rpc_opcode = vk_op_ENUMERATE_PHYSICAL_DEVICES, rpc_request = reads vk_EnumeratePhysicalDevicesRequest_decode,
       rpc_response = carries vk_EnumeratePhysicalDevicesResponse_decode vk_EnumeratePhysicalDevicesResponse_encode
          (\<lambda>m. list_all (of_kind KIND_PHYSICAL_DEVICE) (vk_EnumeratePhysicalDevicesResponse_devices m))\<rparr>,
    \<lparr>rpc_opcode = vk_op_CREATE_DEVICE, rpc_request = reads vk_CreateDeviceRequest_decode,
       rpc_response = carries vk_CreateDeviceResponse_decode vk_CreateDeviceResponse_encode
          (\<lambda>m. of_kind KIND_DEVICE (vk_CreateDeviceResponse_device m))\<rparr>,
    \<lparr>rpc_opcode = vk_op_GET_DEVICE_QUEUE, rpc_request = reads vk_GetDeviceQueueRequest_decode,
       rpc_response = carries vk_GetDeviceQueueResponse_decode vk_GetDeviceQueueResponse_encode
          (\<lambda>m. of_kind KIND_QUEUE (vk_GetDeviceQueueResponse_queue m))\<rparr>,
    \<lparr>rpc_opcode = vk_op_ALLOCATE_MEMORY, rpc_request = reads vk_AllocateMemoryRequest_decode,
       rpc_response = carries vk_AllocateMemoryResponse_decode vk_AllocateMemoryResponse_encode
          (\<lambda>m. of_kind KIND_DEVICE_MEMORY (vk_AllocateMemoryResponse_memory m))\<rparr>,
    \<lparr>rpc_opcode = vk_op_CREATE_BUFFER, rpc_request = reads vk_CreateBufferRequest_decode,
       rpc_response = carries vk_CreateBufferResponse_decode vk_CreateBufferResponse_encode
          (\<lambda>m. of_kind KIND_BUFFER (vk_CreateBufferResponse_buffer m))\<rparr>,
    \<lparr>rpc_opcode = vk_op_BIND_BUFFER_MEMORY, rpc_request = reads vk_BindBufferMemoryRequest_decode,
       rpc_response = no_reply\<rparr>,
    \<lparr>rpc_opcode = vk_op_CREATE_COMMAND_POOL, rpc_request = reads vk_CreateCommandPoolRequest_decode,
       rpc_response = carries vk_CreateCommandPoolResponse_decode vk_CreateCommandPoolResponse_encode
          (\<lambda>m. of_kind KIND_COMMAND_POOL (vk_CreateCommandPoolResponse_pool m))\<rparr>,
    \<lparr>rpc_opcode = vk_op_ALLOCATE_COMMAND_BUFFER, rpc_request = reads vk_AllocateCommandBufferRequest_decode,
       rpc_response = carries vk_AllocateCommandBufferResponse_decode vk_AllocateCommandBufferResponse_encode
          (\<lambda>m. of_kind KIND_COMMAND_BUFFER (vk_AllocateCommandBufferResponse_command_buffer m))\<rparr>,
    \<lparr>rpc_opcode = vk_op_QUEUE_SUBMIT, rpc_request = reads vk_QueueSubmitRequest_decode,
       rpc_response = no_reply\<rparr>,
    \<lparr>rpc_opcode = vk_op_CMD_COPY_BUFFER, rpc_request = reads vk_CmdCopyBufferRequest_decode,
       rpc_response = no_reply\<rparr>,
    \<lparr>rpc_opcode = vk_op_CMD_DRAW, rpc_request = reads vk_CmdDrawRequest_decode,
       rpc_response = no_reply\<rparr>,
    \<lparr>rpc_opcode = vk_op_DESTROY_BUFFER, rpc_request = reads vk_DestroyBufferRequest_decode,
       rpc_response = no_reply\<rparr>,
    \<lparr>rpc_opcode = vk_op_FREE_MEMORY, rpc_request = reads vk_FreeMemoryRequest_decode,
       rpc_response = no_reply\<rparr>,
    \<lparr>rpc_opcode = vk_op_DESTROY_COMMAND_POOL, rpc_request = reads vk_DestroyCommandPoolRequest_decode,
       rpc_response = no_reply\<rparr>]"

definition gl_rpcs :: "rpc list" where
  "gl_rpcs = [
    \<lparr>rpc_opcode = gl_op_CREATE_CONTEXT, rpc_request = any_body,
       rpc_response = carries gl_CreateContextResponse_decode gl_CreateContextResponse_encode
          (\<lambda>m. of_kind KIND_GL_CONTEXT (gl_CreateContextResponse_context m))\<rparr>,
    \<lparr>rpc_opcode = gl_op_MAKE_CURRENT, rpc_request = reads gl_MakeCurrentRequest_decode,
       rpc_response = no_reply\<rparr>,
    \<lparr>rpc_opcode = gl_op_GEN_BUFFER, rpc_request = reads gl_GenBufferRequest_decode,
       rpc_response = carries gl_GenBufferResponse_decode gl_GenBufferResponse_encode
          (\<lambda>m. of_kind KIND_GL_BUFFER (gl_GenBufferResponse_buffer m))\<rparr>,
    \<lparr>rpc_opcode = gl_op_SWAP_BUFFERS, rpc_request = reads gl_SwapBuffersRequest_decode,
       rpc_response = no_reply\<rparr>,
    \<lparr>rpc_opcode = gl_op_DELETE_BUFFER, rpc_request = reads gl_DeleteBufferRequest_decode,
       rpc_response = no_reply\<rparr>]"

definition cuda_rpcs :: "rpc list" where
  "cuda_rpcs = [
    \<lparr>rpc_opcode = cuda_op_CTX_CREATE, rpc_request = reads cuda_CtxCreateRequest_decode,
       rpc_response = carries cuda_CtxCreateResponse_decode cuda_CtxCreateResponse_encode
          (\<lambda>m. of_kind KIND_CUDA_CONTEXT (cuda_CtxCreateResponse_context m))\<rparr>,
    \<lparr>rpc_opcode = cuda_op_MEM_ALLOC, rpc_request = reads cuda_MemAllocRequest_decode,
       rpc_response = carries cuda_MemAllocResponse_decode cuda_MemAllocResponse_encode
          (\<lambda>m. of_kind KIND_CUDA_DEVICE_PTR (cuda_MemAllocResponse_dptr m))\<rparr>,
    \<lparr>rpc_opcode = cuda_op_MEM_FREE, rpc_request = reads cuda_MemFreeRequest_decode,
       rpc_response = no_reply\<rparr>]"

definition hip_rpcs :: "rpc list" where
  "hip_rpcs = [
    \<lparr>rpc_opcode = hip_op_MALLOC, rpc_request = reads hip_MallocRequest_decode,
       rpc_response = carries hip_MallocResponse_decode hip_MallocResponse_encode
          (\<lambda>m. of_kind KIND_HIP_DEVICE_PTR (hip_MallocResponse_dptr m))\<rparr>,
    \<lparr>rpc_opcode = hip_op_FREE, rpc_request = reads hip_FreeRequest_decode,
       rpc_response = no_reply\<rparr>,
    \<lparr>rpc_opcode = hip_op_STREAM_CREATE, rpc_request = any_body,
       rpc_response = carries hip_StreamCreateResponse_decode hip_StreamCreateResponse_encode
          (\<lambda>m. of_kind KIND_HIP_STREAM (hip_StreamCreateResponse_stream m))\<rparr>]"

definition cl_rpcs :: "rpc list" where
  "cl_rpcs = [
    \<lparr>rpc_opcode = cl_op_CREATE_CONTEXT, rpc_request = any_body,
       rpc_response = carries cl_CreateContextResponse_decode cl_CreateContextResponse_encode
          (\<lambda>m. of_kind KIND_CL_CONTEXT (cl_CreateContextResponse_context m))\<rparr>,
    \<lparr>rpc_opcode = cl_op_CREATE_BUFFER, rpc_request = reads cl_CreateBufferRequest_decode,
       rpc_response = carries cl_CreateBufferResponse_decode cl_CreateBufferResponse_encode
          (\<lambda>m. of_kind KIND_CL_MEM (cl_CreateBufferResponse_mem m))\<rparr>,
    \<lparr>rpc_opcode = cl_op_RELEASE_BUFFER, rpc_request = reads cl_ReleaseBufferRequest_decode,
       rpc_response = no_reply\<rparr>]"

definition l0_rpcs :: "rpc list" where
  "l0_rpcs = [
    \<lparr>rpc_opcode = l0_op_CONTEXT_CREATE, rpc_request = any_body,
       rpc_response = carries l0_ContextCreateResponse_decode l0_ContextCreateResponse_encode
          (\<lambda>m. of_kind KIND_L0_CONTEXT (l0_ContextCreateResponse_context m))\<rparr>,
    \<lparr>rpc_opcode = l0_op_MEM_ALLOC_DEVICE, rpc_request = reads l0_MemAllocDeviceRequest_decode,
       rpc_response = carries l0_MemAllocDeviceResponse_decode l0_MemAllocDeviceResponse_encode
          (\<lambda>m. of_kind KIND_L0_DEVICE_MEM (l0_MemAllocDeviceResponse_ptr m))\<rparr>,
    \<lparr>rpc_opcode = l0_op_MEM_FREE, rpc_request = reads l0_MemFreeRequest_decode,
       rpc_response = no_reply\<rparr>]"

definition video_rpcs :: "rpc list" where
  "video_rpcs = [
    \<lparr>rpc_opcode = video_op_CREATE_DECODE_SESSION, rpc_request = reads video_CreateDecodeSessionRequest_decode,
       rpc_response = carries video_CreateDecodeSessionResponse_decode video_CreateDecodeSessionResponse_encode
          (\<lambda>m. of_kind KIND_VIDEO_SESSION (video_CreateDecodeSessionResponse_session m))\<rparr>,
    \<lparr>rpc_opcode = video_op_DECODE_FRAME, rpc_request = reads video_DecodeFrameRequest_decode,
       rpc_response = carries video_DecodeFrameResponse_decode video_DecodeFrameResponse_encode
          (\<lambda>m. True)\<rparr>,
    \<lparr>rpc_opcode = video_op_DESTROY_SESSION, rpc_request = reads video_DestroySessionRequest_decode,
       rpc_response = no_reply\<rparr>]"

definition wgpu_rpcs :: "rpc list" where
  "wgpu_rpcs = [
    \<lparr>rpc_opcode = wgpu_op_REQUEST_DEVICE, rpc_request = any_body,
       rpc_response = carries wgpu_RequestDeviceResponse_decode wgpu_RequestDeviceResponse_encode
          (\<lambda>m. of_kind KIND_WGPU_DEVICE (wgpu_RequestDeviceResponse_device m))\<rparr>,
    \<lparr>rpc_opcode = wgpu_op_CREATE_BUFFER, rpc_request = reads wgpu_CreateBufferRequest_decode,
       rpc_response = carries wgpu_CreateBufferResponse_decode wgpu_CreateBufferResponse_encode
          (\<lambda>m. of_kind KIND_WGPU_BUFFER (wgpu_CreateBufferResponse_buffer m))\<rparr>,
    \<lparr>rpc_opcode = wgpu_op_DESTROY_BUFFER, rpc_request = reads wgpu_DestroyBufferRequest_decode,
       rpc_response = no_reply\<rparr>]"

definition optix_rpcs :: "rpc list" where
  "optix_rpcs = [
    \<lparr>rpc_opcode = optix_op_CONTEXT_CREATE, rpc_request = any_body,
       rpc_response = carries optix_ContextCreateResponse_decode optix_ContextCreateResponse_encode
          (\<lambda>m. of_kind KIND_OPTIX_CONTEXT (optix_ContextCreateResponse_context m))\<rparr>,
    \<lparr>rpc_opcode = optix_op_PIPELINE_CREATE, rpc_request = reads optix_PipelineCreateRequest_decode,
       rpc_response = carries optix_PipelineCreateResponse_decode optix_PipelineCreateResponse_encode
          (\<lambda>m. of_kind KIND_OPTIX_PIPELINE (optix_PipelineCreateResponse_pipeline m))\<rparr>,
    \<lparr>rpc_opcode = optix_op_DESTROY, rpc_request = reads optix_DestroyRequest_decode,
       rpc_response = no_reply\<rparr>]"

definition sycl_rpcs :: "rpc list" where
  "sycl_rpcs = [
    \<lparr>rpc_opcode = sycl_op_QUEUE_CREATE, rpc_request = any_body,
       rpc_response = carries sycl_QueueCreateResponse_decode sycl_QueueCreateResponse_encode
          (\<lambda>m. of_kind KIND_SYCL_QUEUE (sycl_QueueCreateResponse_queue m))\<rparr>,
    \<lparr>rpc_opcode = sycl_op_MALLOC_DEVICE, rpc_request = reads sycl_MallocDeviceRequest_decode,
       rpc_response = carries sycl_MallocDeviceResponse_decode sycl_MallocDeviceResponse_encode
          (\<lambda>m. of_kind KIND_SYCL_DEVICE_PTR (sycl_MallocDeviceResponse_ptr m))\<rparr>,
    \<lparr>rpc_opcode = sycl_op_FREE, rpc_request = reads sycl_FreeRequest_decode,
       rpc_response = no_reply\<rparr>]"

definition amf_rpcs :: "rpc list" where
  "amf_rpcs = [
    \<lparr>rpc_opcode = amf_op_CREATE_ENCODER, rpc_request = reads amf_CreateEncoderRequest_decode,
       rpc_response = carries amf_CreateEncoderResponse_decode amf_CreateEncoderResponse_encode
          (\<lambda>m. of_kind KIND_AMF_ENCODER (amf_CreateEncoderResponse_encoder m))\<rparr>,
    \<lparr>rpc_opcode = amf_op_ENCODE_FRAME, rpc_request = reads amf_EncodeFrameRequest_decode,
       rpc_response = carries amf_EncodeFrameResponse_decode amf_EncodeFrameResponse_encode
          (\<lambda>m. True)\<rparr>,
    \<lparr>rpc_opcode = amf_op_DESTROY_ENCODER, rpc_request = reads amf_DestroyEncoderRequest_decode,
       rpc_response = no_reply\<rparr>]"

text \<open>The two calls a session answers itself; the first is answered under an opcode of its own.\<close>

definition core_rpcs :: "rpc list" where
  "core_rpcs = [
    \<lparr>rpc_opcode = core_op_HELLO, rpc_request = reads hello_decode,
       rpc_response = carries welcome_decode welcome_encode
          (\<lambda>m. welcome_proto_major m = PROTOCOL_MAJOR \<and> welcome_max_frame_body m \<le> DEFAULT_MAX_FRAME_BODY)\<rparr>,
    \<lparr>rpc_opcode = core_op_NOOP, rpc_request = any_body, rpc_response = no_reply\<rparr>]"

definition rpcs :: "rpc list" where
  "rpcs = core_rpcs @ vk_rpcs @ gl_rpcs @ cuda_rpcs @ hip_rpcs @ cl_rpcs @ l0_rpcs @ video_rpcs @ wgpu_rpcs @ optix_rpcs @ sycl_rpcs @ amf_rpcs"

subsection \<open>Typed arms\<close>

definition typed_at :: "rpc list \<Rightarrow> u32 \<Rightarrow> 'b arm \<Rightarrow> bool" where
  "typed_at rs opc f \<longleftrightarrow> (\<forall>body b out b'. f opc body b = (Inr out, b') \<longrightarrow> rpc_typed rs opc body out)"

definition typed_arm :: "rpc list \<Rightarrow> 'b arm \<Rightarrow> bool" where
  "typed_arm rs f \<longleftrightarrow> (\<forall>opc. typed_at rs opc f)"

lemma typed_nth:
  assumes "i < length rs" "rpc_opcode (rs ! i) = opc"
    "\<And>body b out b'. f opc body b = (Inr out, b') \<Longrightarrow> rpc_request (rs ! i) body \<and> rpc_response (rs ! i) out"
  shows "typed_at rs opc f"
  using assms nth_mem [OF assms(1)] unfolding typed_at_def rpc_typed_def list_ex_iff by blast

lemma typed_unknown: "typed_arm rs (\<lambda>opc body b. (Inl (UnknownOpcode opc), b))"
  by (simp add: typed_arm_def typed_at_def)

lemma typed_if: "typed_at rs c f \<Longrightarrow> typed_arm rs g \<Longrightarrow>
   typed_arm rs (\<lambda>opc body b. if opc = c then f opc body b else g opc body b)"
  by (simp add: typed_arm_def typed_at_def)

lemma typed_foreign: "typed_arm rs g \<Longrightarrow>
   typed_arm rs (\<lambda>opc body b. if opcode_api opc \<noteq> a then (Inl (UnknownOpcode opc), b) else g opc body b)"
  by (simp add: typed_arm_def typed_at_def)

lemmas typing_simps = reads_def carries_def of_kind_def any_body_def no_reply_def arm_simps ht_insert_kind

subsection \<open>The services keep to their tables\<close>

subsubsection \<open>The Vulkan service\<close>

lemmas vk_replies =
  vk_AllocateCommandBufferResponse_body.decode_roundtrip vk_AllocateMemoryResponse_body.decode_roundtrip vk_CreateBufferResponse_body.decode_roundtrip vk_CreateCommandPoolResponse_body.decode_roundtrip vk_CreateDeviceResponse_body.decode_roundtrip vk_CreateInstanceResponse_body.decode_roundtrip vk_EnumeratePhysicalDevicesResponse_roundtrip [where rest = "[]", simplified] vk_GetDeviceQueueResponse_body.decode_roundtrip

lemma vk_create_instance_typed: "typed_at vk_rpcs vk_op_CREATE_INSTANCE vk_create_instance"
  by (rule typed_nth [of 0]) (auto simp: vk_rpcs_def vk_create_instance_def typing_simps vk_replies split: arm_splits)

lemma vk_enumerate_physical_devices_typed: "typed_at vk_rpcs vk_op_ENUMERATE_PHYSICAL_DEVICES vk_enumerate_physical_devices"
  by (rule typed_nth [of 1]) (auto simp: vk_rpcs_def vk_enumerate_physical_devices_def typing_simps vk_replies split: arm_splits)

lemma vk_create_device_typed: "typed_at vk_rpcs vk_op_CREATE_DEVICE vk_create_device"
  by (rule typed_nth [of 2]) (auto simp: vk_rpcs_def vk_create_device_def typing_simps vk_replies split: arm_splits)

lemma vk_get_device_queue_typed: "typed_at vk_rpcs vk_op_GET_DEVICE_QUEUE vk_get_device_queue"
  by (rule typed_nth [of 3]) (auto simp: vk_rpcs_def vk_get_device_queue_def typing_simps vk_replies split: arm_splits)

lemma vk_allocate_memory_typed: "typed_at vk_rpcs vk_op_ALLOCATE_MEMORY vk_allocate_memory"
  by (rule typed_nth [of 4]) (auto simp: vk_rpcs_def vk_allocate_memory_def typing_simps vk_replies split: arm_splits)

lemma vk_create_buffer_typed: "typed_at vk_rpcs vk_op_CREATE_BUFFER vk_create_buffer"
  by (rule typed_nth [of 5]) (auto simp: vk_rpcs_def vk_create_buffer_def typing_simps vk_replies split: arm_splits)

lemma vk_bind_buffer_memory_typed: "typed_at vk_rpcs vk_op_BIND_BUFFER_MEMORY vk_bind_buffer_memory"
  by (rule typed_nth [of 6]) (auto simp: vk_rpcs_def vk_bind_buffer_memory_def typing_simps vk_replies split: arm_splits)

lemma vk_create_command_pool_typed: "typed_at vk_rpcs vk_op_CREATE_COMMAND_POOL vk_create_command_pool"
  by (rule typed_nth [of 7]) (auto simp: vk_rpcs_def vk_create_command_pool_def typing_simps vk_replies split: arm_splits)

lemma vk_allocate_command_buffer_typed: "typed_at vk_rpcs vk_op_ALLOCATE_COMMAND_BUFFER vk_allocate_command_buffer"
  by (rule typed_nth [of 8]) (auto simp: vk_rpcs_def vk_allocate_command_buffer_def typing_simps vk_replies split: arm_splits)

lemma vk_queue_submit_typed: "typed_at vk_rpcs vk_op_QUEUE_SUBMIT vk_queue_submit"
  by (rule typed_nth [of 9]) (auto simp: vk_rpcs_def vk_queue_submit_def typing_simps vk_replies split: arm_splits)

lemma vk_cmd_copy_buffer_typed: "typed_at vk_rpcs vk_op_CMD_COPY_BUFFER vk_cmd_copy_buffer"
  by (rule typed_nth [of 10]) (auto simp: vk_rpcs_def vk_cmd_copy_buffer_def typing_simps vk_replies split: arm_splits)

lemma vk_cmd_draw_typed: "typed_at vk_rpcs vk_op_CMD_DRAW vk_cmd_draw"
  by (rule typed_nth [of 11]) (auto simp: vk_rpcs_def vk_cmd_draw_def typing_simps vk_replies split: arm_splits)

lemma vk_destroy_buffer_typed: "typed_at vk_rpcs vk_op_DESTROY_BUFFER vk_destroy_buffer"
  by (rule typed_nth [of 12]) (auto simp: vk_rpcs_def vk_destroy_buffer_def typing_simps vk_replies split: arm_splits)

lemma vk_free_memory_typed: "typed_at vk_rpcs vk_op_FREE_MEMORY vk_free_memory"
  by (rule typed_nth [of 13]) (auto simp: vk_rpcs_def vk_free_memory_def typing_simps vk_replies split: arm_splits)

lemma vk_destroy_command_pool_typed: "typed_at vk_rpcs vk_op_DESTROY_COMMAND_POOL vk_destroy_command_pool"
  by (rule typed_nth [of 14]) (auto simp: vk_rpcs_def vk_destroy_command_pool_def typing_simps vk_replies split: arm_splits)

lemma vk_handle_typed: "typed_arm vk_rpcs (\<lambda>opc body b. vk_handle opc req_id body b)"
  unfolding vk_handle_def
  by (intro typed_foreign typed_if typed_unknown vk_create_instance_typed vk_enumerate_physical_devices_typed vk_create_device_typed vk_get_device_queue_typed vk_allocate_memory_typed vk_create_buffer_typed vk_bind_buffer_memory_typed vk_create_command_pool_typed vk_allocate_command_buffer_typed vk_queue_submit_typed vk_cmd_copy_buffer_typed vk_cmd_draw_typed vk_destroy_buffer_typed vk_free_memory_typed vk_destroy_command_pool_typed)

subsubsection \<open>The OpenGL service\<close>

lemmas gl_replies =
  gl_CreateContextResponse_body.decode_roundtrip gl_GenBufferResponse_body.decode_roundtrip

lemma gl_create_context_typed: "typed_at gl_rpcs gl_op_CREATE_CONTEXT gl_create_context"
  by (rule typed_nth [of 0]) (auto simp: gl_rpcs_def gl_create_context_def typing_simps gl_replies split: arm_splits)

lemma gl_make_current_typed: "typed_at gl_rpcs gl_op_MAKE_CURRENT gl_make_current"
  by (rule typed_nth [of 1]) (auto simp: gl_rpcs_def gl_make_current_def typing_simps gl_replies split: arm_splits)

lemma gl_gen_buffer_typed: "typed_at gl_rpcs gl_op_GEN_BUFFER gl_gen_buffer"
  by (rule typed_nth [of 2]) (auto simp: gl_rpcs_def gl_gen_buffer_def typing_simps gl_replies split: arm_splits)

lemma gl_swap_buffers_typed: "typed_at gl_rpcs gl_op_SWAP_BUFFERS gl_swap_buffers"
  by (rule typed_nth [of 3]) (auto simp: gl_rpcs_def gl_swap_buffers_def typing_simps gl_replies split: arm_splits)

lemma gl_delete_buffer_typed: "typed_at gl_rpcs gl_op_DELETE_BUFFER gl_delete_buffer"
  by (rule typed_nth [of 4]) (auto simp: gl_rpcs_def gl_delete_buffer_def typing_simps gl_replies split: arm_splits)

lemma gl_handle_typed: "typed_arm gl_rpcs (\<lambda>opc body b. gl_handle opc req_id body b)"
  unfolding gl_handle_def
  by (intro typed_foreign typed_if typed_unknown gl_create_context_typed gl_make_current_typed gl_gen_buffer_typed gl_swap_buffers_typed gl_delete_buffer_typed)

subsubsection \<open>The CUDA service\<close>

lemmas cuda_replies =
  cuda_CtxCreateResponse_body.decode_roundtrip cuda_MemAllocResponse_body.decode_roundtrip

lemma cuda_ctx_create_typed: "typed_at cuda_rpcs cuda_op_CTX_CREATE cuda_ctx_create"
  by (rule typed_nth [of 0]) (auto simp: cuda_rpcs_def cuda_ctx_create_def typing_simps cuda_replies split: arm_splits)

lemma cuda_mem_alloc_typed: "typed_at cuda_rpcs cuda_op_MEM_ALLOC cuda_mem_alloc"
  by (rule typed_nth [of 1]) (auto simp: cuda_rpcs_def cuda_mem_alloc_def typing_simps cuda_replies split: arm_splits)

lemma cuda_mem_free_typed: "typed_at cuda_rpcs cuda_op_MEM_FREE cuda_mem_free"
  by (rule typed_nth [of 2]) (auto simp: cuda_rpcs_def cuda_mem_free_def typing_simps cuda_replies split: arm_splits)

lemma cuda_handle_typed: "typed_arm cuda_rpcs (\<lambda>opc body b. cuda_handle opc req_id body b)"
  unfolding cuda_handle_def
  by (intro typed_foreign typed_if typed_unknown cuda_ctx_create_typed cuda_mem_alloc_typed cuda_mem_free_typed)

subsubsection \<open>The HIP service\<close>

lemmas hip_replies =
  hip_MallocResponse_body.decode_roundtrip hip_StreamCreateResponse_body.decode_roundtrip

lemma hip_malloc_typed: "typed_at hip_rpcs hip_op_MALLOC hip_malloc"
  by (rule typed_nth [of 0]) (auto simp: hip_rpcs_def hip_malloc_def typing_simps hip_replies split: arm_splits)

lemma hip_free_typed: "typed_at hip_rpcs hip_op_FREE hip_free"
  by (rule typed_nth [of 1]) (auto simp: hip_rpcs_def hip_free_def typing_simps hip_replies split: arm_splits)

lemma hip_stream_create_typed: "typed_at hip_rpcs hip_op_STREAM_CREATE hip_stream_create"
  by (rule typed_nth [of 2]) (auto simp: hip_rpcs_def hip_stream_create_def typing_simps hip_replies split: arm_splits)

lemma hip_handle_typed: "typed_arm hip_rpcs (\<lambda>opc body b. hip_handle opc req_id body b)"
  unfolding hip_handle_def
  by (intro typed_foreign typed_if typed_unknown hip_malloc_typed hip_free_typed hip_stream_create_typed)

subsubsection \<open>The OpenCL service\<close>

lemmas cl_replies =
  cl_CreateBufferResponse_body.decode_roundtrip cl_CreateContextResponse_body.decode_roundtrip

lemma cl_create_context_typed: "typed_at cl_rpcs cl_op_CREATE_CONTEXT cl_create_context"
  by (rule typed_nth [of 0]) (auto simp: cl_rpcs_def cl_create_context_def typing_simps cl_replies split: arm_splits)

lemma cl_create_buffer_typed: "typed_at cl_rpcs cl_op_CREATE_BUFFER cl_create_buffer"
  by (rule typed_nth [of 1]) (auto simp: cl_rpcs_def cl_create_buffer_def typing_simps cl_replies split: arm_splits)

lemma cl_release_buffer_typed: "typed_at cl_rpcs cl_op_RELEASE_BUFFER cl_release_buffer"
  by (rule typed_nth [of 2]) (auto simp: cl_rpcs_def cl_release_buffer_def typing_simps cl_replies split: arm_splits)

lemma cl_handle_typed: "typed_arm cl_rpcs (\<lambda>opc body b. cl_handle opc req_id body b)"
  unfolding cl_handle_def
  by (intro typed_foreign typed_if typed_unknown cl_create_context_typed cl_create_buffer_typed cl_release_buffer_typed)

subsubsection \<open>The Level Zero service\<close>

lemmas l0_replies =
  l0_ContextCreateResponse_body.decode_roundtrip l0_MemAllocDeviceResponse_body.decode_roundtrip

lemma l0_context_create_typed: "typed_at l0_rpcs l0_op_CONTEXT_CREATE l0_context_create"
  by (rule typed_nth [of 0]) (auto simp: l0_rpcs_def l0_context_create_def typing_simps l0_replies split: arm_splits)

lemma l0_mem_alloc_device_typed: "typed_at l0_rpcs l0_op_MEM_ALLOC_DEVICE l0_mem_alloc_device"
  by (rule typed_nth [of 1]) (auto simp: l0_rpcs_def l0_mem_alloc_device_def typing_simps l0_replies split: arm_splits)

lemma l0_mem_free_typed: "typed_at l0_rpcs l0_op_MEM_FREE l0_mem_free"
  by (rule typed_nth [of 2]) (auto simp: l0_rpcs_def l0_mem_free_def typing_simps l0_replies split: arm_splits)

lemma l0_handle_typed: "typed_arm l0_rpcs (\<lambda>opc body b. l0_handle opc req_id body b)"
  unfolding l0_handle_def
  by (intro typed_foreign typed_if typed_unknown l0_context_create_typed l0_mem_alloc_device_typed l0_mem_free_typed)

subsubsection \<open>The video service\<close>

lemmas video_replies =
  video_CreateDecodeSessionResponse_body.decode_roundtrip video_DecodeFrameResponse_body.decode_roundtrip

lemma video_create_decode_session_typed: "typed_at video_rpcs video_op_CREATE_DECODE_SESSION video_create_decode_session"
  by (rule typed_nth [of 0]) (auto simp: video_rpcs_def video_create_decode_session_def typing_simps video_replies split: arm_splits)

lemma video_decode_frame_typed: "typed_at video_rpcs video_op_DECODE_FRAME video_decode_frame"
  by (rule typed_nth [of 1]) (auto simp: video_rpcs_def video_decode_frame_def typing_simps video_replies split: arm_splits)

lemma video_destroy_session_typed: "typed_at video_rpcs video_op_DESTROY_SESSION video_destroy_session"
  by (rule typed_nth [of 2]) (auto simp: video_rpcs_def video_destroy_session_def typing_simps video_replies split: arm_splits)

lemma video_handle_typed: "typed_arm video_rpcs (\<lambda>opc body b. video_handle opc req_id body b)"
  unfolding video_handle_def
  by (intro typed_foreign typed_if typed_unknown video_create_decode_session_typed video_decode_frame_typed video_destroy_session_typed)

subsubsection \<open>The WebGPU service\<close>

lemmas wgpu_replies =
  wgpu_CreateBufferResponse_body.decode_roundtrip wgpu_RequestDeviceResponse_body.decode_roundtrip

lemma wgpu_request_device_typed: "typed_at wgpu_rpcs wgpu_op_REQUEST_DEVICE wgpu_request_device"
  by (rule typed_nth [of 0]) (auto simp: wgpu_rpcs_def wgpu_request_device_def typing_simps wgpu_replies split: arm_splits)

lemma wgpu_create_buffer_typed: "typed_at wgpu_rpcs wgpu_op_CREATE_BUFFER wgpu_create_buffer"
  by (rule typed_nth [of 1]) (auto simp: wgpu_rpcs_def wgpu_create_buffer_def typing_simps wgpu_replies split: arm_splits)

lemma wgpu_destroy_buffer_typed: "typed_at wgpu_rpcs wgpu_op_DESTROY_BUFFER wgpu_destroy_buffer"
  by (rule typed_nth [of 2]) (auto simp: wgpu_rpcs_def wgpu_destroy_buffer_def typing_simps wgpu_replies split: arm_splits)

lemma wgpu_handle_typed: "typed_arm wgpu_rpcs (\<lambda>opc body b. wgpu_handle opc req_id body b)"
  unfolding wgpu_handle_def
  by (intro typed_foreign typed_if typed_unknown wgpu_request_device_typed wgpu_create_buffer_typed wgpu_destroy_buffer_typed)

subsubsection \<open>The OptiX service\<close>

lemmas optix_replies =
  optix_ContextCreateResponse_body.decode_roundtrip optix_PipelineCreateResponse_body.decode_roundtrip

lemma optix_context_create_typed: "typed_at optix_rpcs optix_op_CONTEXT_CREATE optix_context_create"
  by (rule typed_nth [of 0]) (auto simp: optix_rpcs_def optix_context_create_def typing_simps optix_replies split: arm_splits)

lemma optix_pipeline_create_typed: "typed_at optix_rpcs optix_op_PIPELINE_CREATE optix_pipeline_create"
  by (rule typed_nth [of 1]) (auto simp: optix_rpcs_def optix_pipeline_create_def typing_simps optix_replies split: arm_splits)

lemma optix_destroy_typed: "typed_at optix_rpcs optix_op_DESTROY optix_destroy"
  by (rule typed_nth [of 2]) (auto simp: optix_rpcs_def optix_destroy_def typing_simps optix_replies split: arm_splits)

lemma optix_handle_typed: "typed_arm optix_rpcs (\<lambda>opc body b. optix_handle opc req_id body b)"
  unfolding optix_handle_def
  by (intro typed_foreign typed_if typed_unknown optix_context_create_typed optix_pipeline_create_typed optix_destroy_typed)

subsubsection \<open>The SYCL service\<close>

lemmas sycl_replies =
  sycl_MallocDeviceResponse_body.decode_roundtrip sycl_QueueCreateResponse_body.decode_roundtrip

lemma sycl_queue_create_typed: "typed_at sycl_rpcs sycl_op_QUEUE_CREATE sycl_queue_create"
  by (rule typed_nth [of 0]) (auto simp: sycl_rpcs_def sycl_queue_create_def typing_simps sycl_replies split: arm_splits)

lemma sycl_malloc_device_typed: "typed_at sycl_rpcs sycl_op_MALLOC_DEVICE sycl_malloc_device"
  by (rule typed_nth [of 1]) (auto simp: sycl_rpcs_def sycl_malloc_device_def typing_simps sycl_replies split: arm_splits)

lemma sycl_free_typed: "typed_at sycl_rpcs sycl_op_FREE sycl_free"
  by (rule typed_nth [of 2]) (auto simp: sycl_rpcs_def sycl_free_def typing_simps sycl_replies split: arm_splits)

lemma sycl_handle_typed: "typed_arm sycl_rpcs (\<lambda>opc body b. sycl_handle opc req_id body b)"
  unfolding sycl_handle_def
  by (intro typed_foreign typed_if typed_unknown sycl_queue_create_typed sycl_malloc_device_typed sycl_free_typed)

subsubsection \<open>The AMF service\<close>

lemmas amf_replies =
  amf_CreateEncoderResponse_body.decode_roundtrip amf_EncodeFrameResponse_body.decode_roundtrip

lemma amf_create_encoder_typed: "typed_at amf_rpcs amf_op_CREATE_ENCODER amf_create_encoder"
  by (rule typed_nth [of 0]) (auto simp: amf_rpcs_def amf_create_encoder_def typing_simps amf_replies split: arm_splits)

lemma amf_encode_frame_typed: "typed_at amf_rpcs amf_op_ENCODE_FRAME amf_encode_frame"
  by (rule typed_nth [of 1]) (auto simp: amf_rpcs_def amf_encode_frame_def typing_simps amf_replies split: arm_splits)

lemma amf_destroy_encoder_typed: "typed_at amf_rpcs amf_op_DESTROY_ENCODER amf_destroy_encoder"
  by (rule typed_nth [of 2]) (auto simp: amf_rpcs_def amf_destroy_encoder_def typing_simps amf_replies split: arm_splits)

lemma amf_handle_typed: "typed_arm amf_rpcs (\<lambda>opc body b. amf_handle opc req_id body b)"
  unfolding amf_handle_def
  by (intro typed_foreign typed_if typed_unknown amf_create_encoder_typed amf_encode_frame_typed amf_destroy_encoder_typed)

subsection \<open>The answers of a session\<close>

lemma rpc_typed_append: "rpc_typed (rs @ rs') opc body out \<longleftrightarrow> rpc_typed rs opc body out \<or> rpc_typed rs' opc body out"
  by (simp add: rpc_typed_def)

lemmas typed_handlers =
  vk_handle_typed [unfolded typed_arm_def typed_at_def, rule_format]
  gl_handle_typed [unfolded typed_arm_def typed_at_def, rule_format]
  cuda_handle_typed [unfolded typed_arm_def typed_at_def, rule_format]
  hip_handle_typed [unfolded typed_arm_def typed_at_def, rule_format]
  cl_handle_typed [unfolded typed_arm_def typed_at_def, rule_format]
  l0_handle_typed [unfolded typed_arm_def typed_at_def, rule_format]
  video_handle_typed [unfolded typed_arm_def typed_at_def, rule_format]
  wgpu_handle_typed [unfolded typed_arm_def typed_at_def, rule_format]
  optix_handle_typed [unfolded typed_arm_def typed_at_def, rule_format]
  sycl_handle_typed [unfolded typed_arm_def typed_at_def, rule_format]
  amf_handle_typed [unfolded typed_arm_def typed_at_def, rule_format]

lemma boxed_typed:
  assumes "boxed_handle opc req_id body b = (Inr out, b')"
  shows "rpc_typed rpcs opc body out"
  using assms by (cases b) (auto simp: rpcs_def rpc_typed_append apsnd_eq dest: typed_handlers)

text \<open>The typed opcodes: those a session answers itself and those with an arm in a service.\<close>

definition answered_ops :: "u32 list" where
  "answered_ops = [core_op_HELLO, core_op_NOOP] @ vk_ops @ gl_ops @ cuda_ops @ hip_ops @ cl_ops @ l0_ops @ video_ops @
     wgpu_ops @ optix_ops @ sycl_ops @ amf_ops"

lemmas service_rpcs_defs = core_rpcs_def vk_rpcs_def gl_rpcs_def cuda_rpcs_def hip_rpcs_def cl_rpcs_def l0_rpcs_def
  video_rpcs_def wgpu_rpcs_def optix_rpcs_def sycl_rpcs_def amf_rpcs_def

lemmas service_ops_defs = vk_ops_def gl_ops_def cuda_ops_def hip_ops_def cl_ops_def l0_ops_def video_ops_def
  wgpu_ops_def optix_ops_def sycl_ops_def amf_ops_def

lemmas all_op_values = core_op_values vk_op_values gl_op_values cuda_op_values hip_op_values cl_op_values l0_op_values
  video_op_values wgpu_op_values optix_op_values sycl_op_values amf_op_values

lemma rpcs_opcodes: "map rpc_opcode rpcs = answered_ops"
  by (simp add: rpcs_def service_rpcs_defs answered_ops_def service_ops_defs)

lemma answered_ops_distinct: "distinct answered_ops"
  by (simp add: answered_ops_def service_ops_defs) (simp add: all_op_values)

lemma unanswered_ops:
  "list_all (\<lambda>opc. opc \<notin> set answered_ops) [core_op_WELCOME, vk_op_DESTROY_INSTANCE, vk_op_GET_PHYSICAL_DEVICE_PROPERTIES,
     vk_op_DESTROY_DEVICE, vk_op_DEVICE_WAIT_IDLE, cuda_op_LAUNCH_KERNEL, cuda_op_MEMCPY_HTOD, cuda_op_MEMCPY_DTOH]"
  by (simp add: answered_ops_def service_ops_defs) (simp add: all_op_values)

lemma rpc_typed_unique:
  assumes "rpc_typed rpcs opc body out"
  shows "\<exists>!r. r \<in> set rpcs \<and> rpc_opcode r = opc"
proof -
  have "distinct (map rpc_opcode rpcs)"
    by (simp only: rpcs_opcodes answered_ops_distinct)
  then have "inj_on rpc_opcode (set rpcs)" by (simp add: distinct_map)
  moreover obtain r where "r \<in> set rpcs" "rpc_opcode r = opc"
    using assms by (auto simp: rpc_typed_def list_ex_iff)
  ultimately show ?thesis by (auto dest: inj_onD)
qed

lemma session_typed:
  assumes "accepts s frame = Some (h, body)" "session_handle frame s = (Inr reply, s')" "decode_frame reply = Inr (rh, out)"
  shows "rpc_typed rpcs (fh_opcode h) body out"
proof -
  note handled = session_handle_accepted [OF assms(1), unfolded assms(2)]
  consider (hello) "fh_opcode h = core_op_HELLO" | (noop) "fh_opcode h = core_op_NOOP"
    | (route) "fh_opcode h \<noteq> core_op_HELLO" "fh_opcode h \<noteq> core_op_NOOP" by blast
  then show ?thesis
  proof cases
    case hello
    then show ?thesis
      using handled assms(3)
      by (auto elim!: session_hello_Inr [OF sym] simp: rpcs_def core_rpcs_def rpc_typed_def reads_def carries_def
          welcome_body.decode_roundtrip)
  next
    case noop
    then show ?thesis
      using handled assms(3) by (auto simp: session_reply_eq rpcs_def core_rpcs_def rpc_typed_def any_body_def no_reply_def)
  next
    case route
    then have "session_route (fh_opcode h) (fh_req_id h) body s = (Inr reply, s')"
      using handled by simp
    then show ?thesis by (rule session_route_Inr) (use assms(3) boxed_typed in auto)
  qed
qed

text \<open>C17. Every answer of a session has the type of its opcode: the request was read as the opcode's request message, and the
  reply is the response frame to it, whose body is the encoding of the opcode's response message, with handles of the
  right kind. The opcodes with a type are \<open>HELLO\<close>, \<open>NOOP\<close> and those with an arm in a service; each has one type only, and
  no other opcode is answered, in particular none of the eight constants of the protocol that are left: \<open>WELCOME\<close>, four
  of Vulkan and three of CUDA.\<close>

theorem session_answers_typed:
  assumes "session_handle frame s = (Inr reply, s')"
  shows "map rpc_opcode rpcs = answered_ops \<and> distinct answered_ops \<and>
    (\<exists>h body out. decode_frame frame = Inr (h, body) \<and> decode_frame reply = Inr (reply_header s h out, out) \<and>
      (\<exists>!r. r \<in> set rpcs \<and> rpc_opcode r = fh_opcode h) \<and> rpc_typed rpcs (fh_opcode h) body out \<and>
      fh_opcode h \<in> set answered_ops \<and>
      fh_opcode h \<notin> {core_op_WELCOME, vk_op_DESTROY_INSTANCE, vk_op_GET_PHYSICAL_DEVICE_PROPERTIES, vk_op_DESTROY_DEVICE,
        vk_op_DEVICE_WAIT_IDLE, cuda_op_LAUNCH_KERNEL, cuda_op_MEMCPY_HTOD, cuda_op_MEMCPY_DTOH})"
proof -
  obtain h body out where *: "accepts s frame = Some (h, body)" "decode_frame reply = Inr (reply_header s h out, out)"
    using session_reply_facts [OF assms] by blast
  have decoded: "decode_frame frame = Inr (h, body)"
    using *(1) by (auto simp: accepts_def split: sum.splits if_splits)
  note typed = session_typed [OF *(1) assms *(2)] rpc_typed_unique [OF session_typed [OF *(1) assms *(2)]]
  then have "fh_opcode h \<in> set (map rpc_opcode rpcs)" by (auto intro: rev_image_eqI)
  then have "fh_opcode h \<in> set answered_ops" unfolding rpcs_opcodes .
  moreover from this have "fh_opcode h \<notin> {core_op_WELCOME, vk_op_DESTROY_INSTANCE, vk_op_GET_PHYSICAL_DEVICE_PROPERTIES,
      vk_op_DESTROY_DEVICE, vk_op_DEVICE_WAIT_IDLE, cuda_op_LAUNCH_KERNEL, cuda_op_MEMCPY_HTOD, cuda_op_MEMCPY_DTOH}"
    using unanswered_ops by auto
  ultimately show ?thesis
    using decoded *(2) typed rpcs_opcodes answered_ops_distinct by blast
qed

theorem session_answers_typed_witness:
  "\<exists>w. rpc_typed rpcs core_op_HELLO client_hello (welcome_encode w []) \<and> welcome_session_id w = 7"
proof -
  have max: "max_frame_body (session_new 7) = DEFAULT_MAX_FRAME_BODY" by (simp add: session_new_def)
  obtain reply w where h: "session_handle (encode_frame (request_header core_op_HELLO 1 1 client_hello) client_hello) (session_new 7) =
      (Inr reply, (session_new 7)\<lparr>handshook := True, next_seq := next_seq (session_new 7) + 1\<rparr>)"
    "check_reply core_op_WELCOME reply = Inr (welcome_encode w [])" "welcome_session_id w = session_id (session_new 7)"
    by (rule hello_handled [OF max])
  obtain out where "rpc_typed rpcs core_op_HELLO client_hello out"
    "decode_frame reply = Inr (reply_header (session_new 7) (request_header core_op_HELLO 1 1 client_hello) out, out)"
    using session_answers_typed [OF h(1)] by (auto simp: request_header_def)
  then show ?thesis using h(2,3) by (auto simp: check_reply_def session_new_def split: if_splits)
qed

end
