(* ===== verification/Program.thy ===== *)
theory Program
  imports Client_Spec
begin

section \<open>Client calls as programs\<close>

text \<open>
  Every function of the client that talks to the server has the same shape: it sends a frame, waits for one frame, and
  goes on with what it makes of it, or stops at the first error of the transport. \<open>prog\<close> is that shape without a
  transport. A client function over a transport is \<open>run_prog\<close> of its program, and \<open>talk\<close> is what the program comes to
  when a server answers every frame in turn. The two agree on the scheduled link, and \<open>talk\<close> is what the models of
  threads and of sockets are compared with.
\<close>

datatype 'a prog = Done "'a client_result" | Exchange bytes "bytes \<Rightarrow> 'a prog"

primrec prog_bind :: "'a prog \<Rightarrow> ('a \<Rightarrow> 'b prog) \<Rightarrow> 'b prog" where
  "prog_bind (Done r) f = (case r of Inl e \<Rightarrow> Done (Inl e) | Inr a \<Rightarrow> f a)"
| "prog_bind (Exchange frame k) f = Exchange frame (\<lambda>reply. prog_bind (k reply) f)"

primrec run_prog :: "'t transport \<Rightarrow> 'a prog \<Rightarrow> 't \<Rightarrow> 'a client_result \<times> 't" where
  "run_prog T (Done r) t = (r, t)"
| "run_prog T (Exchange frame k) t =
     (case t_send T frame t of
        (Inl e, t) \<Rightarrow> (Inl (ClientTransport e), t)
      | (Inr _, t) \<Rightarrow>
          (case t_recv T t of
             (Inl e, t) \<Rightarrow> (Inl (ClientTransport e), t)
           | (Inr reply, t) \<Rightarrow> run_prog T (k reply) t))"

lemma run_prog_bind:
  "run_prog T (prog_bind p f) t =
     (case run_prog T p t of (Inl e, t) \<Rightarrow> (Inl e, t) | (Inr a, t) \<Rightarrow> run_prog T (f a) t)"
  by (induction p arbitrary: t) (simp_all split: sum.splits prod.splits)

subsection \<open>A server that answers\<close>

text \<open>What a server does with a frame, and with its state after it sent the reply. The session alone is the service of
  \<open>serve\<close>; that of \<open>serve_with_metrics\<close> records the call once its reply is sent.\<close>

record 's service =
  sv_handle :: "bytes \<Rightarrow> 's \<Rightarrow> bytes proto_result \<times> 's"
  sv_sent :: "bytes \<Rightarrow> bytes \<Rightarrow> 's \<Rightarrow> 's"

primrec talk :: "'s service \<Rightarrow> 'a prog \<Rightarrow> 's \<Rightarrow> 'a client_result \<times> 's" where
  "talk V (Done r) s = (r, s)"
| "talk V (Exchange frame k) s =
     (case sv_handle V frame s of
        (Inl _, s) \<Rightarrow> (Inl (ClientTransport IoUnexpectedEof), s)
      | (Inr reply, s) \<Rightarrow> talk V (k reply) (sv_sent V frame reply s))"

lemma talk_bind:
  "talk V (prog_bind p f) s = (case talk V p s of (Inl e, s) \<Rightarrow> (Inl e, s) | (Inr a, s) \<Rightarrow> talk V (f a) s)"
  by (induction p arbitrary: s) (simp_all split: sum.splits prod.splits)

definition plain_service :: "session service" where
  "plain_service = \<lparr>sv_handle = session_handle, sv_sent = (\<lambda>frame reply s. s)\<rparr>"

definition frame_api :: "bytes \<Rightarrow> string option" where
  "frame_api frame = (case decode_frame frame of Inl _ \<Rightarrow> None | Inr (h, _) \<Rightarrow> Some (api_name (opcode_api (fh_opcode h))))"

definition metered_service :: "(session \<times> obs_registry) service" where
  "metered_service =
     \<lparr>sv_handle = (\<lambda>frame (session, registry). case session_handle frame session of (r, session) \<Rightarrow> (r, (session, registry))),
      sv_sent = (\<lambda>frame reply (session, registry). (session,
        case frame_api frame of None \<Rightarrow> registry
        | Some api \<Rightarrow> registry_record api (word_of_nat (length frame)) (word_of_nat (length reply)) registry))\<rparr>"

subsection \<open>On the link\<close>

lemma link_exchange:
  assumes "link_idle l"
  shows "case session_handle frame (link_session l) of
      (Inl _, s) \<Rightarrow> \<exists>l'. run_prog link_ops (Exchange frame k) l = (Inl (ClientTransport IoUnexpectedEof), l') \<and> link_session l' = s
    | (Inr reply, s) \<Rightarrow> \<exists>l'. run_prog link_ops (Exchange frame k) l = run_prog link_ops (k reply) l' \<and> link_idle l' \<and> link_session l' = s"
  using assms
  by (auto simp: link_ops_def link_send_def link_recv_def loopback_send_def loopback_recv_def loopback_drop_def
      server_turn_def link_idle_def split: sum.splits prod.splits)

lemma run_prog_link:
  assumes "link_idle l"
  shows "fst (run_prog link_ops p l) = fst (talk plain_service p (link_session l)) \<and>
    link_session (snd (run_prog link_ops p l)) = snd (talk plain_service p (link_session l))"
  using assms
proof (induction p arbitrary: l)
  case (Exchange frame k)
  obtain r s where h: "session_handle frame (link_session l) = (r, s)" by fastforce
  show ?case
  proof (cases r)
    case (Inl e)
    then show ?thesis using link_exchange [OF Exchange.prems, of frame k] h by (auto simp: plain_service_def)
  next
    case (Inr reply)
    then obtain l' where "run_prog link_ops (Exchange frame k) l = run_prog link_ops (k reply) l'" "link_idle l'" "link_session l' = s"
      using link_exchange [OF Exchange.prems, of frame k] h by auto
    then show ?thesis using Exchange.IH [of "k reply" l'] h Inr by (simp add: plain_service_def)
  qed
qed simp

subsection \<open>The programs of the client\<close>

definition exchange_prog :: "u32 \<Rightarrow> u32 \<Rightarrow> bytes \<Rightarrow> u32 \<Rightarrow> u64 \<Rightarrow> (bytes \<Rightarrow> 'a client_result) \<Rightarrow> 'a prog" where
  "exchange_prog opc expected body req_id seq f =
     Exchange (encode_frame (request_header opc req_id seq body) body) (\<lambda>reply. Done (res_bind (check_reply expected reply) f))"

lemma client_call_prog:
  "(case client_call T opc body req_id seq t of (Inl e, t) \<Rightarrow> (Inl e, t) | (Inr b, t) \<Rightarrow> (f b, t)) =
   run_prog T (exchange_prog opc opc body req_id seq f) t"
  by (auto simp: client_call_def client_exchange_def exchange_prog_def split: sum.splits prod.splits)

text \<open>The ids are drawn before a call whatever comes of it, so a \<open>Client\<close> is a pair of counters to its program.\<close>

definition connect_prog :: "u64 prog" where
  "connect_prog = exchange_prog core_op_HELLO core_op_WELCOME client_hello 1 1
     (\<lambda>b. case welcome_decode b of Inl e \<Rightarrow> Inl (ClientProtocol e) | Inr w \<Rightarrow> Inr (welcome_session_id w))"

definition create_instance_prog :: "u32 \<Rightarrow> u32 \<Rightarrow> u64 \<Rightarrow> Handle prog" where
  "create_instance_prog v req_id seq = exchange_prog vk_op_CREATE_INSTANCE vk_op_CREATE_INSTANCE
     (vk_CreateInstanceRequest_encode \<lparr>vk_CreateInstanceRequest_app_api_version = v\<rparr> []) req_id seq
     (\<lambda>b. res_bind (from_protocol (vk_CreateInstanceResponse_decode b))
        (\<lambda>resp. expect_kind client_vk_KIND_INSTANCE (vk_CreateInstanceResponse_instance resp)))"

definition enumerate_prog :: "Handle \<Rightarrow> u32 \<Rightarrow> u64 \<Rightarrow> Handle list prog" where
  "enumerate_prog instance req_id seq = exchange_prog vk_op_ENUMERATE_PHYSICAL_DEVICES vk_op_ENUMERATE_PHYSICAL_DEVICES
     (vk_EnumeratePhysicalDevicesRequest_encode \<lparr>vk_EnumeratePhysicalDevicesRequest_instance = instance\<rparr> []) req_id seq
     (\<lambda>b. res_bind (from_protocol (vk_EnumeratePhysicalDevicesResponse_decode b))
        (\<lambda>resp. res_bind (expect_kinds client_vk_KIND_PHYSICAL_DEVICE (vk_EnumeratePhysicalDevicesResponse_devices resp))
          (\<lambda>_. Inr (vk_EnumeratePhysicalDevicesResponse_devices resp))))"

lemma create_instance_run: "client_vk_create_instance T v req_id seq t = run_prog T (create_instance_prog v req_id seq) t"
  by (simp only: client_vk_create_instance_def create_instance_prog_def client_call_prog)

lemma enumerate_run: "client_vk_enumerate_physical_devices T h req_id seq t = run_prog T (enumerate_prog h req_id seq) t"
  by (simp only: client_vk_enumerate_physical_devices_def enumerate_prog_def client_call_prog)

lemma connect_run:
  "connect T t = (case run_prog T connect_prog t of
     (Inl e, _) \<Rightarrow> Inl e
   | (Inr sid, t) \<Rightarrow> Inr \<lparr>client_transport = t, client_next_req_id = 2, client_next_seq = 2, client_session_id = sid\<rparr>)"
  by (auto simp: connect_exchange client_exchange_def connect_prog_def exchange_prog_def split: sum.splits prod.splits)

lemma handshake_run: "snd (client_handshake T t) = snd (run_prog T connect_prog t)"
  by (auto simp: client_handshake_def Let_def client_hello_def [symmetric] client_exchange_def connect_prog_def
      exchange_prog_def split: sum.splits prod.splits)

end
