(* ===== verification/Threads.thy ===== *)
theory Threads
  imports Program
begin

section \<open>A client thread and a server thread\<close>

text \<open>
  The two ends of a loopback pair in two threads: at one a client program, at the other the loop of \<open>serve\<close> or
  \<open>serve_with_metrics\<close>. The scheduler interleaves their steps in any way; a step is one operation on a channel, or a
  drop. A \<open>Loopback\<close> is dropped field by field, first the sender and then the receiver, and the other thread may run in
  between. The handling of a frame touches nothing shared and belongs to the step that received it.
\<close>

subsection \<open>Channels\<close>

text \<open>A channel of the standard library: what was sent and not received, and whether its two ends are there.\<close>

record chan =
  ch_queue :: "bytes list"
  ch_tx :: bool
  ch_rx :: bool

definition chan_new :: chan where
  "chan_new = \<lparr>ch_queue = [], ch_tx = True, ch_rx = True\<rparr>"

definition chan_send :: "bytes \<Rightarrow> chan \<Rightarrow> unit io_result \<times> chan" where
  "chan_send frame ch =
     (if ch_rx ch then (Inr (), ch\<lparr>ch_queue := ch_queue ch @ [frame]\<rparr>) else (Inl IoBrokenPipe, ch))"

text \<open>\<open>None\<close> is a receive that has to wait.\<close>

definition chan_recv :: "chan \<Rightarrow> (bytes io_result \<times> chan) option" where
  "chan_recv ch =
     (case ch_queue ch of
        frame # rest \<Rightarrow> Some (Inr frame, ch\<lparr>ch_queue := rest\<rparr>)
      | [] \<Rightarrow> if ch_tx ch then None else Some (Inl IoUnexpectedEof, ch))"

subsection \<open>The threads\<close>

datatype 'a client_thread =
    Running "'a prog"
  | Awaiting "bytes \<Rightarrow> 'a prog"
  | Finished "'a client_result"
  | Closing "'a client_result"
  | Gone "'a client_result"

datatype 's server_thread =
    Listening 's
  | Answering bytes bytes 's
  | Leaving "unit io_result" 's
  | HalfClosed "unit io_result" 's
  | Left "unit io_result" 's

datatype ('a, 's) threads = Threads "'a client_thread" "'s server_thread" chan chan

inductive thread_step :: "'s service \<Rightarrow> ('a, 's) threads \<Rightarrow> ('a, 's) threads \<Rightarrow> bool" for V where
  client_sends: "chan_send frame up = (Inr u, up') \<Longrightarrow>
    thread_step V (Threads (Running (Exchange frame k)) sv up down) (Threads (Awaiting k) sv up' down)"
| client_send_fails: "chan_send frame up = (Inl e, up') \<Longrightarrow>
    thread_step V (Threads (Running (Exchange frame k)) sv up down) (Threads (Finished (Inl (ClientTransport e))) sv up' down)"
| client_receives: "chan_recv down = Some (Inr reply, down') \<Longrightarrow>
    thread_step V (Threads (Awaiting k) sv up down) (Threads (Running (k reply)) sv up down')"
| client_recv_fails: "chan_recv down = Some (Inl e, down') \<Longrightarrow>
    thread_step V (Threads (Awaiting k) sv up down) (Threads (Finished (Inl (ClientTransport e))) sv up down')"
| client_ends:
    "thread_step V (Threads (Running (Done r)) sv up down) (Threads (Finished r) sv up down)"
| client_drops_tx:
    "thread_step V (Threads (Finished r) sv up down) (Threads (Closing r) sv (up\<lparr>ch_tx := False\<rparr>) down)"
| client_drops_rx:
    "thread_step V (Threads (Closing r) sv up down) (Threads (Gone r) sv up (down\<lparr>ch_rx := False\<rparr>))"
| server_accepts: "chan_recv up = Some (Inr frame, up') \<Longrightarrow> sv_handle V frame s = (Inr reply, s') \<Longrightarrow>
    thread_step V (Threads cl (Listening s) up down) (Threads cl (Answering frame reply s') up' down)"
| server_refuses: "chan_recv up = Some (Inr frame, up') \<Longrightarrow> sv_handle V frame s = (Inl e, s') \<Longrightarrow>
    thread_step V (Threads cl (Listening s) up down) (Threads cl (Leaving (Inr ()) s') up' down)"
| server_recv_fails: "chan_recv up = Some (Inl err, up') \<Longrightarrow>
    thread_step V (Threads cl (Listening s) up down)
      (Threads cl (Leaving (if clean_close err then Inr () else Inl err) s) up' down)"
| server_sends: "chan_send reply down = (Inr u, down') \<Longrightarrow>
    thread_step V (Threads cl (Answering frame reply s) up down) (Threads cl (Listening (sv_sent V frame reply s)) up down')"
| server_send_fails: "chan_send reply down = (Inl err, down') \<Longrightarrow>
    thread_step V (Threads cl (Answering frame reply s) up down) (Threads cl (Leaving (Inl err) s) up down')"
| server_drops_tx:
    "thread_step V (Threads cl (Leaving r s) up down) (Threads cl (HalfClosed r s) up (down\<lparr>ch_tx := False\<rparr>))"
| server_drops_rx:
    "thread_step V (Threads cl (HalfClosed r s) up down) (Threads cl (Left r s) (up\<lparr>ch_rx := False\<rparr>) down)"

definition threads_start :: "'a prog \<Rightarrow> 's \<Rightarrow> ('a, 's) threads" where
  "threads_start p s = Threads (Running p) (Listening s) chan_new chan_new"

subsection \<open>The phases of a conversation\<close>

text \<open>How many steps there are from a program and a state to the end: four for an exchange, seven for one that is
  refused, and six to end.\<close>

primrec steps_left :: "'s service \<Rightarrow> 'a prog \<Rightarrow> 's \<Rightarrow> nat" where
  "steps_left V (Done r) s = 6"
| "steps_left V (Exchange frame k) s =
     (case sv_handle V frame s of
        (Inl _, s) \<Rightarrow> 7
      | (Inr reply, s) \<Rightarrow> 4 + steps_left V (k reply) (sv_sent V frame reply s))"

fun client_over :: "'a client_thread \<Rightarrow> ('a client_result \<times> nat) option" where
  "client_over (Finished r) = Some (r, 2)"
| "client_over (Closing r) = Some (r, 1)"
| "client_over (Gone r) = Some (r, 0)"
| "client_over _ = None"

fun server_over :: "'s server_thread \<Rightarrow> (unit io_result \<times> 's \<times> nat) option" where
  "server_over (Leaving r s) = Some (r, s, 2)"
| "server_over (HalfClosed r s) = Some (r, s, 1)"
| "server_over (Left r s) = Some (r, s, 0)"
| "server_over _ = None"

text \<open>The shapes the two threads and the queues between them go through, with the outcome that is already settled and
  the number of steps that are left.\<close>

inductive phase :: "'s service \<Rightarrow> 'a client_result \<times> 's \<Rightarrow> nat \<Rightarrow> 'a client_thread \<Rightarrow> 's server_thread \<Rightarrow>
    bytes list \<Rightarrow> bytes list \<Rightarrow> bool" for V where
  idle: "phase V (talk V p s) (steps_left V p s) (Running p) (Listening s) [] []"
| asked: "sv_handle V f s = (Inr reply, s') \<Longrightarrow> phase V (talk V (k reply) (sv_sent V f reply s'))
    (Suc (Suc (Suc (steps_left V (k reply) (sv_sent V f reply s'))))) (Awaiting k) (Listening s) [f] []"
| asked_badly: "sv_handle V f s = (Inl e, s') \<Longrightarrow>
    phase V (Inl (ClientTransport IoUnexpectedEof), s') 6 (Awaiting k) (Listening s) [f] []"
| answering: "phase V (talk V (k reply) (sv_sent V f reply s)) (Suc (Suc (steps_left V (k reply) (sv_sent V f reply s))))
    (Awaiting k) (Answering f reply s) [] []"
| answered: "phase V (talk V (k reply) s) (Suc (steps_left V (k reply) s)) (Awaiting k) (Listening s) [] [reply]"
| refused: "server_over sv = Some (Inr (), s, n) \<Longrightarrow>
    phase V (Inl (ClientTransport IoUnexpectedEof), s) (3 + n) (Awaiting k) sv [] []"
| ending: "client_over cl = Some (r, m) \<Longrightarrow> phase V (r, s) (m + 3) cl (Listening s) [] []"
| ended: "client_over cl = Some (r, m) \<Longrightarrow> server_over sv = Some (Inr (), s, n) \<Longrightarrow> phase V (r, s) (m + n) cl sv [] []"

text \<open>The ends of the channels that are there.\<close>

definition ends_right :: "'a client_thread \<Rightarrow> 's server_thread \<Rightarrow> chan \<Rightarrow> chan \<Rightarrow> bool" where
  "ends_right cl sv up down \<longleftrightarrow>
     ch_tx up = (case cl of Closing _ \<Rightarrow> False | Gone _ \<Rightarrow> False | _ \<Rightarrow> True) \<and>
     ch_rx down = (case cl of Gone _ \<Rightarrow> False | _ \<Rightarrow> True) \<and>
     ch_tx down = (case sv of HalfClosed _ _ \<Rightarrow> False | Left _ _ \<Rightarrow> False | _ \<Rightarrow> True) \<and>
     ch_rx up = (case sv of Left _ _ \<Rightarrow> False | _ \<Rightarrow> True)"

fun in_phase :: "'s service \<Rightarrow> 'a client_result \<times> 's \<Rightarrow> nat \<Rightarrow> ('a, 's) threads \<Rightarrow> bool" where
  "in_phase V out n (Threads cl sv up down) \<longleftrightarrow>
     phase V out n cl sv (ch_queue up) (ch_queue down) \<and> ends_right cl sv up down"

inductive_cases phase_cases:
  "phase V out n (Running p) sv q q'"
  "phase V out n (Awaiting k) sv q q'"
  "phase V out n (Finished r) sv q q'"
  "phase V out n (Closing r) sv q q'"
  "phase V out n (Gone r) sv q q'"

inductive_cases server_phase_cases:
  "phase V out n cl (Listening s) q q'"
  "phase V out n cl (Answering f reply s) q q'"
  "phase V out n cl (Leaving r s) q q'"
  "phase V out n cl (HalfClosed r s) q q'"

lemma in_phase_start: "in_phase V (talk V p s) (steps_left V p s) (threads_start p s)"
  by (simp add: threads_start_def chan_new_def ends_right_def phase.idle)

lemma endingI: "client_over cl = Some (r, m) \<Longrightarrow> n = m + 3 \<Longrightarrow> phase V (r, s) n cl (Listening s) [] []"
  by (simp add: phase.ending)

lemma endedI:
  "client_over cl = Some (r, m) \<Longrightarrow> server_over sv = Some (Inr (), s, k) \<Longrightarrow> n = m + k \<Longrightarrow> phase V (r, s) n cl sv [] []"
  by (simp add: phase.ended)

lemma refusedI: "server_over sv = Some (Inr (), s, k) \<Longrightarrow> n = 3 + k \<Longrightarrow>
    phase V (Inl (ClientTransport IoUnexpectedEof), s) n (Awaiting f) sv [] []"
  by (simp add: phase.refused)

lemma client_ending:
  "phase V (r, s) 5 (Finished r) (Listening s) [] []"
  "phase V (r, s) 4 (Closing r) (Listening s) [] []"
  "phase V (r, s) 3 (Gone r) (Listening s) [] []"
  by (simp_all add: endingI)

lemma client_ended:
  assumes "server_over sv = Some (Inr (), s, n)"
  shows "phase V (r, s) (Suc (Suc n)) (Finished r) sv [] []"
    and "phase V (r, s) (Suc n) (Closing r) sv [] []"
    and "phase V (r, s) n (Gone r) sv [] []"
  using assms by (simp_all add: endedI)

lemma server_ended:
  assumes "client_over cl = Some (r, n)"
  shows "phase V (r, s) (Suc (Suc n)) cl (Leaving (Inr ()) s) [] []"
    and "phase V (r, s) (Suc n) cl (HalfClosed (Inr ()) s) [] []"
    and "phase V (r, s) n cl (Left (Inr ()) s) [] []"
  using assms by (simp_all add: endedI)

lemma server_refused:
  "phase V (Inl (ClientTransport IoUnexpectedEof), s) 5 (Awaiting k) (Leaving (Inr ()) s) [] []"
  "phase V (Inl (ClientTransport IoUnexpectedEof), s) 4 (Awaiting k) (HalfClosed (Inr ()) s) [] []"
  "phase V (Inl (ClientTransport IoUnexpectedEof), s) 3 (Awaiting k) (Left (Inr ()) s) [] []"
  by (simp_all add: refusedI)

lemmas phase_ends = client_ending client_ended server_ended server_refused

lemma phase_count: "phase V out (Suc (Suc (Suc n))) cl sv q q' \<Longrightarrow> phase V out (3 + n) cl sv q q'"
  by (simp add: eval_nat_numeral)

lemmas channel_defs = chan_send_def chan_recv_def ends_right_def clean_close_def

lemma in_phase_step:
  assumes "thread_step V x y" "in_phase V out n x"
  shows "\<exists>m. n = Suc m \<and> in_phase V out m y"
  using assms
proof cases
  case (client_sends frame up u up' k sv down)
  then show ?thesis
    using assms(2) by (auto simp: channel_defs split: if_splits prod.splits sum.splits elim!: phase_cases
      intro!: phase.asked_badly phase.asked [THEN phase_count])
next
  case (client_send_fails frame up e up' k sv down)
  then show ?thesis
    using assms(2) by (auto simp: channel_defs split: if_splits elim!: phase_cases)
next
  case (client_receives down reply down' k sv up)
  then show ?thesis
    using assms(2) by (auto simp: channel_defs split: if_splits list.splits elim!: phase_cases intro!: phase.idle)
next
  case (client_recv_fails down e down' k sv up)
  then show ?thesis
    using assms(2) by (auto simp: channel_defs split: if_splits list.splits elim!: phase_cases intro: phase_ends)
next
  case (client_ends r sv up down)
  then show ?thesis
    using assms(2) by (auto simp: channel_defs elim!: phase_cases intro: phase_ends)
next
  case (client_drops_tx r sv up down)
  then show ?thesis
    using assms(2) by (auto simp: channel_defs elim!: phase_cases intro: phase.asked phase.asked_badly phase.idle phase_ends)
next
  case (client_drops_rx r sv up down)
  then show ?thesis
    using assms(2) by (auto simp: channel_defs elim!: phase_cases intro: phase.asked phase.asked_badly phase.idle phase_ends)
next
  case (server_accepts up frame up' s reply s' cl down)
  then show ?thesis
    using assms(2) by (auto simp: channel_defs split: if_splits list.splits elim!: server_phase_cases intro: phase.answering phase.answered phase.idle phase_ends)
next
  case (server_refuses up frame up' s e s' cl down)
  then show ?thesis
    using assms(2) by (auto simp: channel_defs split: if_splits list.splits elim!: server_phase_cases intro: phase.answering phase.answered phase.idle phase_ends)
next
  case (server_recv_fails up err up' cl s down)
  then show ?thesis
    using assms(2) by (auto simp: channel_defs split: if_splits list.splits elim!: server_phase_cases intro: phase.answering phase.answered phase.idle phase_ends)
next
  case (server_sends reply down u down' cl frame s up)
  then show ?thesis
    using assms(2) by (auto simp: channel_defs split: if_splits elim!: server_phase_cases intro: phase.answering phase.answered phase.idle phase_ends)
next
  case (server_send_fails reply down err down' cl frame s up)
  then show ?thesis
    using assms(2) by (auto simp: channel_defs split: if_splits elim!: server_phase_cases intro: phase.answering phase.answered phase.idle phase_ends)
next
  case (server_drops_tx cl r s up down)
  then show ?thesis
    using assms(2) by (auto simp: channel_defs elim!: server_phase_cases intro: phase.answering phase.answered phase.idle phase_ends)
next
  case (server_drops_rx cl r s up down)
  then show ?thesis
    using assms(2) by (auto simp: channel_defs elim!: server_phase_cases intro: phase.answering phase.answered phase.idle phase_ends)
qed

subsection \<open>Every schedule\<close>

text \<open>In every phase some thread can take a step, unless both are done.\<close>

definition threads_done :: "'a client_result \<times> 's \<Rightarrow> ('a, 's) threads \<Rightarrow> bool" where
  "threads_done out y \<longleftrightarrow> (\<exists>up down. y = Threads (Gone (fst out)) (Left (Inr ()) (snd out)) up down)"

lemma client_over_cases:
  assumes "client_over cl = Some (r, m)"
  obtains "cl = Finished r" "m = 2" | "cl = Closing r" "m = 1" | "cl = Gone r" "m = 0"
  using assms by (cases cl) auto

lemma server_over_cases:
  assumes "server_over sv = Some (r, s, n)"
  obtains "sv = Leaving r s" "n = 2" | "sv = HalfClosed r s" "n = 1" | "sv = Left r s" "n = 0"
  using assms by (cases sv) auto

lemma client_over_gone: "client_over cl = Some (r, 0) \<longleftrightarrow> cl = Gone r"
  by (cases cl) auto

lemma server_over_left: "server_over sv = Some (r, s, 0) \<longleftrightarrow> sv = Left r s"
  by (cases sv) auto

lemma thread_progress:
  assumes "in_phase V out (Suc n) x"
  shows "\<exists>y. thread_step V x y"
proof -
  obtain cl sv up down where x: "x = Threads cl sv up down" by (cases x)
  have ph: "phase V out (Suc n) cl sv (ch_queue up) (ch_queue down)" and ends: "ends_right cl sv up down"
    using assms by (simp_all add: x)
  have send: "\<exists>ch'. chan_send f ch = (Inr (), ch')" if "ch_rx ch" for f ch
    using that by (simp add: chan_send_def)
  have recv: "\<exists>ch'. chan_recv ch = Some (Inr f, ch')" if "ch_queue ch = f # fs" for f fs ch
    using that by (simp add: chan_recv_def)
  have eof: "chan_recv ch = Some (Inl IoUnexpectedEof, ch)" if "ch_queue ch = []" "\<not> ch_tx ch" for ch
    using that by (simp add: chan_recv_def)
  from ph show ?thesis
  proof cases
    case (idle p s)
    show ?thesis
    proof (cases p)
      case (Done r)
      then show ?thesis using idle by (auto simp: x intro: client_ends)
    next
      case (Exchange f k)
      have "ch_rx up" using ends idle by (simp add: ends_right_def)
      then obtain up' where "chan_send f up = (Inr (), up')" using send by blast
      then show ?thesis using idle Exchange by (auto simp: x intro: client_sends)
    qed
  next
    case (asked f s reply s' k)
    then show ?thesis using recv [of up f "[]"] by (auto simp: x intro: server_accepts)
  next
    case (asked_badly f s e s' k)
    then show ?thesis using recv [of up f "[]"] by (auto simp: x intro: server_refuses)
  next
    case (answering k reply f s)
    then show ?thesis using send [of down reply] ends by (auto simp: x ends_right_def intro: server_sends)
  next
    case (answered k reply s)
    then show ?thesis using recv [of down reply "[]"] by (auto simp: x intro: client_receives)
  next
    case (refused s m k)
    then show ?thesis
      using eof [of down] ends
      by (auto simp: x ends_right_def elim!: server_over_cases intro: server_drops_tx server_drops_rx client_recv_fails)
  next
    case (ending r m s)
    then show ?thesis
      using eof [of up] ends
      by (auto simp: x ends_right_def elim!: client_over_cases intro: client_drops_tx client_drops_rx server_recv_fails)
  next
    case (ended r m s k)
    then show ?thesis
      by (auto simp: x elim!: client_over_cases server_over_cases
        intro: client_drops_tx client_drops_rx server_drops_tx server_drops_rx)
  qed
qed

lemma steps_left_pos [simp]: "0 < steps_left V p s"
  by (cases p) (simp_all split: sum.splits prod.splits)

lemma threads_done_phase:
  assumes "in_phase V out 0 x"
  shows "threads_done out x"
proof -
  obtain cl sv up down where x: "x = Threads cl sv up down" by (cases x)
  have "phase V out 0 cl sv (ch_queue up) (ch_queue down)" using assms by (simp add: x)
  then show ?thesis
  proof cases
    case (idle p s)
    then show ?thesis using steps_left_pos [of V p s] by linarith
  next
    case (ended r m s n)
    then show ?thesis by (simp add: x threads_done_def client_over_gone server_over_left)
  qed simp_all
qed

lemma threads_done_stuck: "threads_done out y \<Longrightarrow> \<not> thread_step V y z"
  by (auto simp: threads_done_def elim: thread_step.cases)

lemma in_phase_steps:
  "(thread_step V ^^ n) x y \<Longrightarrow> in_phase V out m x \<Longrightarrow> n \<le> m \<and> in_phase V out (m - n) y"
proof (induction n arbitrary: x m)
  case (Suc n)
  obtain z where z: "thread_step V x z" "(thread_step V ^^ n) z y"
    using relpowp_Suc_D2 [OF Suc.prems(1)] by blast
  obtain m' where m': "m = Suc m'" "in_phase V out m' z"
    using in_phase_step [OF z(1) Suc.prems(2)] by blast
  then show ?case using Suc.IH [OF z(2) m'(2)] by simp
qed simp

text \<open>So a run of any schedule has the number of steps that was left at its start, if it is complete, and fewer if not.\<close>

lemma any_schedule:
  assumes "(thread_step V ^^ n) (threads_start p s) y"
  shows "n \<le> steps_left V p s"
    and "n = steps_left V p s \<longleftrightarrow> threads_done (talk V p s) y"
    and "n < steps_left V p s \<longleftrightarrow> (\<exists>z. thread_step V y z)"
proof -
  have y: "n \<le> steps_left V p s" "in_phase V (talk V p s) (steps_left V p s - n) y"
    using in_phase_steps [OF assms in_phase_start] by simp_all
  show "n \<le> steps_left V p s" by (rule y)
  have "(n = steps_left V p s \<longleftrightarrow> threads_done (talk V p s) y) \<and> (n < steps_left V p s \<longleftrightarrow> (\<exists>z. thread_step V y z))"
  proof (cases "n = steps_left V p s")
    case True
    then have "threads_done (talk V p s) y" using threads_done_phase y(2) by simp
    then show ?thesis using True by (auto dest: threads_done_stuck)
  next
    case False
    then obtain m where "steps_left V p s - n = Suc m" using y(1) by (metis diff_is_0_eq le_antisym not0_implies_Suc)
    then have "\<exists>z. thread_step V y z" using thread_progress y(2) by metis
    then show ?thesis using False y(1) by (auto dest: threads_done_stuck)
  qed
  then show "n = steps_left V p s \<longleftrightarrow> threads_done (talk V p s) y" "n < steps_left V p s \<longleftrightarrow> (\<exists>z. thread_step V y z)"
    by simp_all
qed

text \<open>And every run can be completed.\<close>

lemma some_schedule:
  assumes "n \<le> steps_left V p s"
  obtains y where "(thread_step V ^^ n) (threads_start p s) y"
  using assms
proof (induction n arbitrary: thesis)
  case (Suc n)
  obtain y where y: "(thread_step V ^^ n) (threads_start p s) y" using Suc.IH Suc.prems(2) by auto
  then obtain z where "thread_step V y z" using any_schedule(3) [OF y] Suc.prems(2) by auto
  then show ?case using y Suc.prems(1) by auto
qed simp

subsection \<open>The serve loop in a thread\<close>

lemma connect_talk:
  assumes "max_frame_body s = DEFAULT_MAX_FRAME_BODY"
  shows "talk plain_service connect_prog s = (Inr (session_id s), s\<lparr>handshook := True, next_seq := next_seq s + 1\<rparr>)"
    and "steps_left plain_service connect_prog s = 10"
proof -
  obtain reply w where h: "session_handle (encode_frame (request_header core_op_HELLO 1 1 client_hello) client_hello) s =
      (Inr reply, s\<lparr>handshook := True, next_seq := next_seq s + 1\<rparr>)"
    "check_reply core_op_WELCOME reply = Inr (welcome_encode w [])" "welcome_session_id w = session_id s"
    using hello_handled [OF assms] by metis
  show "talk plain_service connect_prog s = (Inr (session_id s), s\<lparr>handshook := True, next_seq := next_seq s + 1\<rparr>)"
    "steps_left plain_service connect_prog s = 10"
    by (simp_all add: connect_prog_def exchange_prog_def plain_service_def h welcome_body.decode_roundtrip)
qed

text \<open>C26. A client program and the serve loop run in two threads over a loopback pair. In every interleaving of their steps the
  conversation ends, neither thread ever waits for the other for good, the server leaves its loop without an error, and the
  client's result and the server's session are those of the program on the scheduled link.\<close>

theorem threads_any_schedule:
  assumes "(thread_step plain_service ^^ n) (threads_start p session) y"
  shows "if n < steps_left plain_service p session then \<exists>z. thread_step plain_service y z
    else n = steps_left plain_service p session \<and>
      (let (r, l) = run_prog link_ops p (link_new session) in
       \<exists>up down. y = Threads (Gone r) (Left (Inr ()) (link_session l)) up down \<and> (\<forall>z. \<not> thread_step plain_service y z))"
proof -
  have link: "link_idle (link_new session)" "link_session (link_new session) = session"
    by (simp_all add: link_new_def loopback_new_def link_idle_def)
  note run = run_prog_link [OF link(1), of p, unfolded link(2)]
  show ?thesis
    using any_schedule [OF assms] run
    by (auto simp: threads_done_def case_prod_beta dest: threads_done_stuck)
qed

text \<open>Connecting to a fresh server takes ten steps in any order.\<close>

theorem threads_any_schedule_witness:
  "let s = session_new 7; s' = s\<lparr>handshook := True, next_seq := next_seq s + 1\<rparr> in
   \<exists>up down. (thread_step plain_service ^^ 10) (threads_start connect_prog s) (Threads (Gone (Inr 7)) (Left (Inr ()) s') up down)"
proof -
  let ?s = "session_new 7" and ?l = "link_new (session_new 7)"
  have max: "max_frame_body ?s = DEFAULT_MAX_FRAME_BODY" by (simp add: session_new_def)
  have steps: "steps_left plain_service connect_prog ?s = 10"
    by (rule connect_talk [OF max])
  have idle: "link_idle ?l" and "link_session ?l = ?s"
    by (simp_all add: link_new_def loopback_new_def link_idle_def)
  then have run: "fst (run_prog link_ops connect_prog ?l) = Inr 7"
    "link_session (snd (run_prog link_ops connect_prog ?l)) = ?s\<lparr>handshook := True, next_seq := next_seq ?s + 1\<rparr>"
    by (simp_all add: run_prog_link connect_talk [OF max]) (simp add: session_new_def)
  obtain y where y: "(thread_step plain_service ^^ 10) (threads_start connect_prog ?s) y"
    using some_schedule [of 10 plain_service connect_prog ?s] steps by auto
  have "\<exists>up down. y = Threads (Gone (Inr 7)) (Left (Inr ()) (?s\<lparr>handshook := True, next_seq := next_seq ?s + 1\<rparr>)) up down"
    using threads_any_schedule [OF y] steps run by (simp add: case_prod_beta)
  then show ?thesis using y by (auto simp: Let_def)
qed

end
