(* ===== verification/Tcp.thy ===== *)
theory Tcp
  imports Threads
begin

section \<open>A client and a server over a socket\<close>

text \<open>
  \<open>StreamTransport\<close> over a connected pair of byte streams, as \<open>serve_tcp\<close> and the command line tool use it. Below
  \<open>read_exact\<close> and \<open>write_all\<close> a socket moves bytes in pieces: a \<open>write\<close> takes some of the bytes offered, at least one
  and no more than the buffer has room for, and a \<open>read\<close> delivers some of those that have arrived, no more than were asked
  for. Which pieces, and which side moves next, is the schedule. The buffers hold \<open>room\<close> bytes in each direction.

  A side that closes its end lets the other read what was sent before and then the end of the stream; a write to an end
  that was closed fails with some error.
\<close>

subsection \<open>Receiving in pieces\<close>

text \<open>How far a \<open>recv\<close> that has read \<open>acc\<close> is: the bytes its current \<open>read_exact\<close> lacks, or its result.\<close>

datatype recv_state = Need nat | Got bytes | Refuse

definition recv_state :: "u32 \<Rightarrow> bytes \<Rightarrow> recv_state" where
  "recv_state max_frame acc =
     (if length acc < 4 then Need (4 - length acc)
      else let len = u32_from_le_bytes (take 4 acc) in
        if max_frame < len then Refuse
        else if length acc < 4 + unat len then Need (4 + unat len - length acc)
        else Got (take (unat len) (drop 4 acc)))"

definition sendable :: "u32 \<Rightarrow> bytes \<Rightarrow> bool" where
  "sendable max_frame f \<longleftrightarrow> length f < 2 ^ 32 \<and> length f \<le> unat max_frame"

lemma frame_bytes_take4: "take 4 (frame_bytes f) = u32_to_le_bytes (word_of_nat (length f))"
  by (simp add: frame_bytes_def)

lemma length_frame_bytes [simp]: "length (frame_bytes f) = 4 + length f"
  by (simp add: frame_bytes_def)

lemma frame_bytes_not_Nil [simp]: "frame_bytes f \<noteq> []"
  by (metis length_frame_bytes add_is_0 list.size(3) zero_neq_numeral)

lemma recv_state_frame:
  assumes "sendable c f"
  shows "recv_state c (frame_bytes f) = Got f"
  using assms frame_length [of f]
  by (simp add: recv_state_def sendable_def frame_bytes_take4 word_less_nat_alt Let_def del: from_le_bytes_to_le_bytes)
    (simp add: frame_bytes_def)

lemma recv_state_prefix:
  assumes "sendable c f" "acc @ lack = frame_bytes f" "lack \<noteq> []"
  obtains n where "recv_state c acc = Need n" "0 < n" "n \<le> length lack"
proof (cases "length acc < 4")
  case True
  then show ?thesis
    using that [of "4 - length acc"] arg_cong [OF assms(2), of length] by (simp add: recv_state_def)
next
  case False
  then have "take 4 acc = u32_to_le_bytes (word_of_nat (length f))"
    using frame_bytes_take4 [of f] assms(2) [symmetric] by simp
  moreover have "length acc + length lack = 4 + length f"
    using arg_cong [OF assms(2), of length] by simp
  then have "length acc < 4 + length f" "4 + length f - length acc = length lack"
    using assms(3) by (simp_all flip: length_greater_0_conv)
  ultimately show ?thesis
    using that [of "length lack"] False assms(1,3) frame_length [of f]
    by (simp add: recv_state_def Let_def sendable_def word_less_nat_alt del: from_le_bytes_to_le_bytes)
qed

text \<open>The same \<open>recv\<close> on the whole input: \<open>stream_recv\<close> of the transport.\<close>

context byte_stream begin

lemma recv_state_stream:
  fixes t :: "'s stream_transport"
  assumes input: "input (st_inner t) = acc @ rest"
  shows "recv_state (st_max_frame t) acc = Got f \<Longrightarrow> length acc = 4 + length f \<Longrightarrow>
      fst (stream_recv S t) = Inr f \<and> input (st_inner (snd (stream_recv S t))) = rest"
    and "recv_state (st_max_frame t) acc = Refuse \<Longrightarrow> fst (stream_recv S t) = Inl IoInvalidData"
    and "recv_state (st_max_frame t) acc = Need n \<Longrightarrow> rest = [] \<Longrightarrow> fst (stream_recv S t) = Inl IoUnexpectedEof"
proof -
  let ?len = "u32_from_le_bytes (take 4 acc)"
  obtain r s1 where r: "s_read_exact S 4 (st_inner t) = (r, s1)" by fastforce
  obtain r' s2 where r': "s_read_exact S (unat ?len) s1 = (r', s2)" by fastforce
  have head: "r = Inr (take 4 acc) \<and> input s1 = drop 4 acc @ rest" if "4 \<le> length acc"
    using read_enough [of 4 "st_inner t"] r input that by simp
  have short: "r = Inl IoUnexpectedEof" if "length acc < 4" "rest = []"
    using read_short [of "st_inner t" 4] r input that by simp
  show "fst (stream_recv S t) = Inr f \<and> input (st_inner (snd (stream_recv S t))) = rest"
    if got: "recv_state (st_max_frame t) acc = Got f" and len: "length acc = 4 + length f"
  proof -
    have f: "\<not> st_max_frame t < ?len" "f = take (unat ?len) (drop 4 acc)" "unat ?len \<le> length (drop 4 acc)"
      using got by (auto simp: recv_state_def Let_def split: if_splits)
    have "length f = unat ?len" using arg_cong [OF f(2), of length] f(3) by simp
    then have "length (drop 4 acc) = unat ?len" using len by simp
    then have "drop 4 acc = f" "unat ?len = length f" using f(2) by (metis take_all order_refl)+
    then have "r' = Inr f \<and> input s2 = rest"
      using read_enough [of "length f" s1] r' head len by simp
    then show ?thesis using f(1) r r' head len by (simp add: stream_recv_def Let_def)
  qed
  show "fst (stream_recv S t) = Inl IoInvalidData" if "recv_state (st_max_frame t) acc = Refuse"
    using that r head by (auto simp: stream_recv_def recv_state_def Let_def split: if_splits)
  show "fst (stream_recv S t) = Inl IoUnexpectedEof" if need: "recv_state (st_max_frame t) acc = Need n" and "rest = []"
  proof (cases "length acc < 4")
    case True
    then show ?thesis using r short that by (simp add: stream_recv_def)
  next
    case False
    then have big: "\<not> st_max_frame t < ?len" "length (drop 4 acc) < unat ?len"
      using need by (auto simp: recv_state_def Let_def split: if_splits)
    then have "r' = Inl IoUnexpectedEof"
      using read_short [of s1 "unat ?len"] r' head False that by simp
    then show ?thesis using big(1) r r' head False by (simp add: stream_recv_def Let_def)
  qed
qed

end

subsection \<open>The two sides\<close>

datatype 'a sock_client =
    SockRun "'a prog"
  | SockWrite bytes "bytes \<Rightarrow> 'a prog"
  | SockRead bytes "bytes \<Rightarrow> 'a prog"
  | SockGone "'a client_result"

datatype 's sock_server =
    ServRead bytes 's
  | ServWrite bytes bytes bytes 's
  | ServGone "unit io_result" 's

datatype ('a, 's) sockets = Sockets "'a sock_client" "'s sock_server" bytes bytes

definition client_has :: "bytes \<Rightarrow> (bytes \<Rightarrow> 'a prog) \<Rightarrow> 'a sock_client" where
  "client_has acc k =
     (case recv_state MAX_FRAME acc of
        Need _ \<Rightarrow> SockRead acc k
      | Got reply \<Rightarrow> SockRun (k reply)
      | Refuse \<Rightarrow> SockRun (Done (Inl (ClientTransport IoInvalidData))))"

definition server_has :: "'s service \<Rightarrow> bytes \<Rightarrow> 's \<Rightarrow> 's sock_server" where
  "server_has V acc s =
     (case recv_state MAX_FRAME acc of
        Need _ \<Rightarrow> ServRead acc s
      | Refuse \<Rightarrow> ServGone (Inl IoInvalidData) s
      | Got frame \<Rightarrow>
          (case sv_handle V frame s of
             (Inl _, s) \<Rightarrow> ServGone (Inr ()) s
           | (Inr reply, s) \<Rightarrow>
               if 2 ^ 32 \<le> length reply then ServGone (Inl IoInvalidInput) s
               else ServWrite (frame_bytes reply) frame reply s))"

inductive sock_step :: "'s service \<Rightarrow> nat \<Rightarrow> ('a, 's) sockets \<Rightarrow> ('a, 's) sockets \<Rightarrow> bool" for V room where
  client_asks: "length frame < 2 ^ 32 \<Longrightarrow>
    sock_step V room (Sockets (SockRun (Exchange frame k)) sv up down) (Sockets (SockWrite (frame_bytes frame) k) sv up down)"
| client_oversized: "2 ^ 32 \<le> length frame \<Longrightarrow>
    sock_step V room (Sockets (SockRun (Exchange frame k)) sv up down)
      (Sockets (SockRun (Done (Inl (ClientTransport IoInvalidInput)))) sv up down)"
| client_writes: "chunk \<noteq> [] \<Longrightarrow> length up + length chunk \<le> room \<Longrightarrow> (\<forall>r s. sv \<noteq> ServGone r s) \<Longrightarrow>
    sock_step V room (Sockets (SockWrite (chunk @ rest) k) sv up down)
      (Sockets (if rest = [] then SockRead [] k else SockWrite rest k) sv (up @ chunk) down)"
| client_write_fails:
    "sock_step V room (Sockets (SockWrite bs k) (ServGone r s) up down)
      (Sockets (SockRun (Done (Inl (ClientTransport e)))) (ServGone r s) up down)"
| client_reads: "recv_state MAX_FRAME acc = Need n \<Longrightarrow> chunk \<noteq> [] \<Longrightarrow> length chunk \<le> n \<Longrightarrow>
    sock_step V room (Sockets (SockRead acc k) sv up (chunk @ down)) (Sockets (client_has (acc @ chunk) k) sv up down)"
| client_eof:
    "sock_step V room (Sockets (SockRead acc k) (ServGone r s) up [])
      (Sockets (SockRun (Done (Inl (ClientTransport IoUnexpectedEof)))) (ServGone r s) up [])"
| client_closes:
    "sock_step V room (Sockets (SockRun (Done r)) sv up down) (Sockets (SockGone r) sv up down)"
| server_reads: "recv_state MAX_FRAME acc = Need n \<Longrightarrow> chunk \<noteq> [] \<Longrightarrow> length chunk \<le> n \<Longrightarrow>
    sock_step V room (Sockets cl (ServRead acc s) (chunk @ up) down) (Sockets cl (server_has V (acc @ chunk) s) up down)"
| server_eof:
    "sock_step V room (Sockets (SockGone r) (ServRead acc s) [] down)
      (Sockets (SockGone r) (ServGone (if clean_close IoUnexpectedEof then Inr () else Inl IoUnexpectedEof) s) [] down)"
| server_writes: "chunk \<noteq> [] \<Longrightarrow> length down + length chunk \<le> room \<Longrightarrow> (\<forall>r. cl \<noteq> SockGone r) \<Longrightarrow>
    sock_step V room (Sockets cl (ServWrite (chunk @ rest) frame reply s) up down)
      (Sockets cl (if rest = [] then ServRead [] (sv_sent V frame reply s) else ServWrite rest frame reply s) up (down @ chunk))"
| server_write_fails:
    "sock_step V room (Sockets (SockGone r) (ServWrite bs frame reply s) up down)
      (Sockets (SockGone r) (ServGone (Inl e) s) up down)"

definition sockets_start :: "'a prog \<Rightarrow> 's \<Rightarrow> ('a, 's) sockets" where
  "sockets_start p s = Sockets (SockRun p) (ServRead [] s) [] []"

subsection \<open>The phases of a conversation\<close>

text \<open>That every frame of the conversation is within the cap of the side that receives it.\<close>

primrec fits :: "'s service \<Rightarrow> 'a prog \<Rightarrow> 's \<Rightarrow> bool" where
  "fits V (Done r) s = True"
| "fits V (Exchange frame k) s \<longleftrightarrow> sendable MAX_FRAME frame \<and>
     (case sv_handle V frame s of
        (Inl _, s) \<Rightarrow> True
      | (Inr reply, s) \<Rightarrow> sendable MAX_FRAME reply \<and> fits V (k reply) (sv_sent V frame reply s))"

text \<open>A bound of the number of steps: a byte is written once and read once, and a few steps more.\<close>

primrec work :: "'s service \<Rightarrow> 'a prog \<Rightarrow> 's \<Rightarrow> nat" where
  "work V (Done r) s = 2"
| "work V (Exchange frame k) s = 1 + 2 * length (frame_bytes frame) +
     (case sv_handle V frame s of
        (Inl _, s) \<Rightarrow> 2
      | (Inr reply, s) \<Rightarrow> 2 * length (frame_bytes reply) + work V (k reply) (sv_sent V frame reply s))"

definition reply_work :: "'s service \<Rightarrow> bytes \<Rightarrow> (bytes \<Rightarrow> 'a prog) \<Rightarrow> 's \<Rightarrow> nat" where
  "reply_work V frame k s =
     (case sv_handle V frame s of
        (Inl _, s) \<Rightarrow> 2
      | (Inr reply, s) \<Rightarrow> 2 * length (frame_bytes reply) + work V (k reply) (sv_sent V frame reply s))"

inductive sock_phase :: "'s service \<Rightarrow> 'a client_result \<times> 's \<Rightarrow> nat \<Rightarrow> ('a, 's) sockets \<Rightarrow> bool" for V where
  idle: "fits V p s \<Longrightarrow> sock_phase V (talk V p s) (work V p s) (Sockets (SockRun p) (ServRead [] s) [] [])"
| asking: "fits V (Exchange f k) s \<Longrightarrow> acc @ up @ rest = frame_bytes f \<Longrightarrow> rest \<noteq> [] \<Longrightarrow>
    sock_phase V (talk V (Exchange f k) s) (2 * length rest + length up + reply_work V f k s)
      (Sockets (SockWrite rest k) (ServRead acc s) up [])"
| asked: "fits V (Exchange f k) s \<Longrightarrow> acc @ up = frame_bytes f \<Longrightarrow> up \<noteq> [] \<Longrightarrow>
    sock_phase V (talk V (Exchange f k) s) (length up + reply_work V f k s) (Sockets (SockRead [] k) (ServRead acc s) up [])"
| answering: "sendable MAX_FRAME reply \<Longrightarrow> fits V (k reply) (sv_sent V f reply s) \<Longrightarrow> acc @ down @ rest = frame_bytes reply \<Longrightarrow>
    rest \<noteq> [] \<Longrightarrow> sock_phase V (talk V (k reply) (sv_sent V f reply s))
      (2 * length rest + length down + work V (k reply) (sv_sent V f reply s))
      (Sockets (SockRead acc k) (ServWrite rest f reply s) [] down)"
| answered: "sendable MAX_FRAME reply \<Longrightarrow> fits V (k reply) s \<Longrightarrow> acc @ down = frame_bytes reply \<Longrightarrow> down \<noteq> [] \<Longrightarrow>
    sock_phase V (talk V (k reply) s) (length down + work V (k reply) s) (Sockets (SockRead acc k) (ServRead [] s) [] down)"
| refused: "sock_phase V (Inl (ClientTransport IoUnexpectedEof), s) 2 (Sockets (SockRead [] k) (ServGone (Inr ()) s) [] [])"
| informed: "sock_phase V (r, s) 1 (Sockets (SockRun (Done r)) (ServGone (Inr ()) s) [] [])"
| closed: "sock_phase V (r, s) 1 (Sockets (SockGone r) (ServRead [] s) [] [])"
| over: "sock_phase V (r, s) 0 (Sockets (SockGone r) (ServGone (Inr ()) s) [] [])"

lemma fits_sendable: "fits V (Exchange f k) s \<Longrightarrow> sendable MAX_FRAME f"
  by simp

lemma work_exchange: "work V (Exchange f k) s = 1 + 2 * length (frame_bytes f) + reply_work V f k s"
  by (simp add: reply_work_def)

lemma client_has_frame:
  assumes "sendable MAX_FRAME reply" "acc @ lack = frame_bytes reply"
  shows "client_has acc k = (if lack = [] then SockRun (k reply) else SockRead acc k)"
proof (cases "lack = []")
  case True
  then show ?thesis using assms recv_state_frame [OF assms(1)] by (simp add: client_has_def)
next
  case False
  then show ?thesis by (rule recv_state_prefix [OF assms]) (simp add: client_has_def False)
qed

lemma server_has_lacks:
  assumes "sendable MAX_FRAME frame" "acc @ lack = frame_bytes frame" "lack \<noteq> []"
  shows "server_has V acc s = ServRead acc s"
  by (rule recv_state_prefix [OF assms]) (simp add: server_has_def)

lemma sock_phase_less: "sock_phase V out m y \<Longrightarrow> m < n \<Longrightarrow> \<exists>m<n. sock_phase V out m y"
  by blast

text \<open>When the last byte of the request arrives.\<close>

lemma server_gets:
  assumes "fits V (Exchange frame k) s"
  shows "\<exists>m < Suc (reply_work V frame k s). sock_phase V (talk V (Exchange frame k) s) m
    (Sockets (SockRead [] k) (server_has V (frame_bytes frame) s) [] [])"
proof -
  obtain r s' where h: "sv_handle V frame s = (r, s')" by fastforce
  have got: "recv_state MAX_FRAME (frame_bytes frame) = Got frame"
    by (rule recv_state_frame [OF fits_sendable [OF assms]])
  show ?thesis
  proof (cases r)
    case (Inl e)
    then show ?thesis
      using sock_phase_less [OF refused, of "Suc 2" V s' k] by (simp add: server_has_def got h reply_work_def)
  next
    case (Inr reply)
    then have "sendable MAX_FRAME reply" "fits V (k reply) (sv_sent V frame reply s')" using assms h by simp_all
    from sock_phase_less [OF answering [where acc = "[]" and down = "[]" and k = k and reply = reply and f = frame and V = V and s = s', OF this]] show ?thesis
      using Inr h \<open>sendable MAX_FRAME reply\<close> by (simp add: server_has_def got reply_work_def sendable_def)
  qed
qed

lemma sock_phase_step:
  assumes "sock_step V room x y" "sock_phase V out m x"
  shows "\<exists>m'<m. sock_phase V out m' y"
  using assms(1)
proof cases
  case (client_asks frame k sv up down)
  from assms(2) [unfolded client_asks(1)] show ?thesis
  proof cases
    case (idle s)
    from sock_phase_less [OF asking [where acc = "[]" and up = "[]", OF idle(6)]] show ?thesis
      using idle client_asks(2) by (simp add: work_exchange del: talk.simps fits.simps work.simps)
  qed
next
  case (client_oversized frame k sv up down)
  from assms(2) [unfolded client_oversized(1)] show ?thesis
    by cases (use client_oversized in \<open>simp add: sendable_def\<close>)
next
  case (client_writes chunk up sv rest k down)
  from assms(2) [unfolded client_writes(1)] show ?thesis
  proof cases
    case (asking f s acc)
    then show ?thesis
      using client_writes(2,3) sock_phase_less [OF sock_phase.asking [of V f k s acc "up @ chunk" rest]]
        sock_phase_less [OF sock_phase.asked [of V f k s acc "up @ chunk"]]
      by (auto simp del: talk.simps fits.simps)
  qed
next
  case (client_write_fails bs k r s up down e)
  from assms(2) [unfolded client_write_fails(1)] show ?thesis by cases
next
  case (client_reads acc n chunk k sv up down)
  from assms(2) [unfolded client_reads(1)] show ?thesis
  proof cases
    case (answering reply f s rest)
    then show ?thesis
      using client_reads(2,4) sock_phase_less [OF sock_phase.answering [of reply V k f s "acc @ chunk" down rest]]
        client_has_frame [of reply "acc @ chunk" "down @ rest" k]
      by simp
  next
    case (answered reply s)
    then show ?thesis
      using client_reads(2,4) sock_phase_less [OF sock_phase.answered [of reply V k s "acc @ chunk" down]]
        client_has_frame [of reply "acc @ chunk" down k] sock_phase_less [OF sock_phase.idle [of V "k reply" s]]
      by auto
  qed (use client_reads(4) in simp_all)
next
  case (client_eof acc k r s up)
  from assms(2) [unfolded client_eof(1)] show ?thesis
    by cases (use client_eof in \<open>auto intro!: sock_phase_less [OF informed]\<close>)
next
  case (client_closes r sv up down)
  from assms(2) [unfolded client_closes(1)] show ?thesis
  proof cases
    case (idle s)
    then show ?thesis using client_closes sock_phase_less [OF sock_phase.closed, of 2 V r s] by auto
  next
    case (informed s)
    then show ?thesis using client_closes sock_phase_less [OF sock_phase.over, of 1 V r s] by auto
  qed
next
  case (server_reads acc n chunk cl s up down)
  from assms(2) [unfolded server_reads(1)] show ?thesis
  proof cases
    case (asking f k rest)
    then show ?thesis
      using server_reads(2,4) sock_phase_less [OF sock_phase.asking [of V f k s "acc @ chunk" up rest]]
        server_has_lacks [OF fits_sendable, of V f k s "acc @ chunk" "up @ rest" V s]
      by (simp del: talk.simps fits.simps)
  next
    case (asked f k)
    show ?thesis
    proof (cases "up = []")
      case True
      obtain m1 where m1: "m1 < Suc (reply_work V f k s)" "sock_phase V (talk V (Exchange f k) s) m1
          (Sockets (SockRead [] k) (server_has V (frame_bytes f) s) [] [])"
        using server_gets [OF asked(5)] by blast
      have "Suc (reply_work V f k s) \<le> m" using asked(2) server_reads(4) by (simp add: Suc_le_eq)
      then have "m1 < m" using m1(1) by simp
      then show ?thesis
        using sock_phase_less [OF m1(2)] asked True server_reads(2) by (simp del: talk.simps fits.simps)
    next
      case False
      then show ?thesis
        using asked server_reads(2,4) sock_phase_less [OF sock_phase.asked [of V f k s "acc @ chunk" up]]
          server_has_lacks [OF fits_sendable, of V f k s "acc @ chunk" up V s]
        by (simp del: talk.simps fits.simps)
    qed
  qed (use server_reads(4) in simp_all)
next
  case (server_eof r acc s down)
  from assms(2) [unfolded server_eof(1)] show ?thesis
    by cases (use server_eof in \<open>auto intro!: sock_phase.over simp: clean_close_def\<close>)
next
  case (server_writes chunk down cl rest frame reply s up)
  from assms(2) [unfolded server_writes(1)] show ?thesis
  proof cases
    case (answering k acc)
    then show ?thesis
      using server_writes(2,3) sock_phase_less [OF sock_phase.answering [of reply V k frame s acc "down @ chunk" rest]]
        sock_phase_less [OF sock_phase.answered [of reply V k "sv_sent V frame reply s" acc "down @ chunk"]]
      by auto
  qed
next
  case (server_write_fails r bs frame reply s up down e)
  from assms(2) [unfolded server_write_fails(1)] show ?thesis by cases
qed

subsection \<open>Every schedule\<close>

lemma sock_phase_run:
  "(sock_step V room ^^ n) x y \<Longrightarrow> sock_phase V out m x \<Longrightarrow> \<exists>m'. n + m' \<le> m \<and> sock_phase V out m' y"
proof (induction n arbitrary: x m)
  case (Suc n)
  obtain z where z: "sock_step V room x z" "(sock_step V room ^^ n) z y"
    using relpowp_Suc_D2 [OF Suc.prems(1)] by blast
  obtain m1 where m1: "m1 < m" "sock_phase V out m1 z"
    using sock_phase_step [OF z(1) Suc.prems(2)] by blast
  then obtain m' where "n + m' \<le> m1" "sock_phase V out m' y" using Suc.IH [OF z(2)] by blast
  then show ?case using m1(1) by (intro exI [of _ m']) simp
qed auto

text \<open>With room for one byte, some side can move.\<close>

lemma sock_writes:
  assumes "bs \<noteq> []" "0 < room"
  obtains chunk rest where "bs = chunk @ rest" "chunk \<noteq> []" "length chunk \<le> room"
  using that [of "[hd bs]" "tl bs"] assms by simp

lemma sock_progress:
  assumes "sock_phase V out m y" "0 < room"
  shows "(\<exists>z. sock_step V room y z) \<or> y = Sockets (SockGone (fst out)) (ServGone (Inr ()) (snd out)) [] []"
  using assms(1)
proof cases
  case (idle p s)
  show ?thesis
  proof (cases p)
    case (Done r)
    then show ?thesis using idle by (auto intro: client_closes)
  next
    case (Exchange f k)
    then have "length f < 2 ^ 32" using idle fits_sendable [of V f k s] by (simp add: sendable_def)
    then show ?thesis using idle(3) Exchange client_asks [of f V room k] by blast
  qed
next
  case (asking f k s acc up rest)
  show ?thesis
  proof (cases "up = []")
    case True
    then show ?thesis
      using asking client_writes [of "[hd rest]" up room "ServRead acc s" V "tl rest" k "[]"] assms(2) by auto
  next
    case False
    obtain n where "recv_state MAX_FRAME acc = Need n" "0 < n"
      by (rule recv_state_prefix [OF fits_sendable [OF asking(4)] asking(5)]) (simp add: asking(6))
    then show ?thesis
      using asking server_reads [of acc n "[hd up]" V room _ s "tl up"] False by auto
  qed
next
  case (asked f k s acc up)
  obtain n where "recv_state MAX_FRAME acc = Need n" "0 < n"
    by (rule recv_state_prefix [OF fits_sendable [OF asked(4)] asked(5,6)])
  then show ?thesis using asked server_reads [of acc n "[hd up]" V room _ s "tl up"] by auto
next
  case (answering reply k f s acc down rest)
  show ?thesis
  proof (cases "down = []")
    case True
    then show ?thesis
      using answering server_writes [of "[hd rest]" down room "SockRead acc k" V "tl rest" f reply s "[]"] assms(2) by auto
  next
    case False
    obtain n where "recv_state MAX_FRAME acc = Need n" "0 < n"
      by (rule recv_state_prefix [OF answering(4,6)]) (simp add: answering(7))
    then show ?thesis
      using answering client_reads [of acc n "[hd down]" V room k _ "[]" "tl down"] False by auto
  qed
next
  case (answered reply k s acc down)
  obtain n where "recv_state MAX_FRAME acc = Need n" "0 < n"
    by (rule recv_state_prefix [OF answered(4,6,7)])
  then show ?thesis using answered client_reads [of acc n "[hd down]" V room k _ "[]" "tl down"] by auto
next
  case (refused s k)
  then show ?thesis by (auto intro: client_eof)
next
  case (informed r s)
  then show ?thesis by (auto intro: client_closes)
next
  case (closed r s)
  then show ?thesis by (auto intro: server_eof)
qed simp

lemma sock_over_stuck: "sock_step V room (Sockets (SockGone r) (ServGone q s) up down) z \<Longrightarrow> False"
  by (auto elim: sock_step.cases)

lemma any_fragmentation:
  assumes "fits V p s" "0 < room" "(sock_step V room ^^ n) (sockets_start p s) y"
  shows "n \<le> work V p s \<and>
    ((\<exists>z. sock_step V room y z) \<noteq> (y = Sockets (SockGone (fst (talk V p s))) (ServGone (Inr ()) (snd (talk V p s))) [] []))"
proof -
  obtain m where m: "n + m \<le> work V p s" "sock_phase V (talk V p s) m y"
    using sock_phase_run [OF assms(3) [unfolded sockets_start_def] idle [OF assms(1)]] by blast
  then show ?thesis using sock_progress [OF m(2) assms(2)] by (auto dest: sock_over_stuck)
qed

text \<open>And every run can be completed.\<close>

lemma some_fragmentation:
  assumes "sock_phase V out m x" "0 < room"
  shows "\<exists>n. (sock_step V room ^^ n) x (Sockets (SockGone (fst out)) (ServGone (Inr ()) (snd out)) [] [])"
  using assms(1)
proof (induction m arbitrary: x rule: less_induct)
  case (less m)
  show ?case
  proof (cases "x = Sockets (SockGone (fst out)) (ServGone (Inr ()) (snd out)) [] []")
    case True
    then show ?thesis by (metis relpowp_0_I)
  next
    case False
    then obtain y where y: "sock_step V room x y" using sock_progress [OF less.prems assms(2)] by blast
    then obtain m' where "m' < m" "sock_phase V out m' y" using sock_phase_step [OF y less.prems] by blast
    then show ?thesis using less.IH y by (metis relpowp_Suc_I2)
  qed
qed

subsection \<open>The frames of the client are small\<close>

primrec small_prog :: "'a prog \<Rightarrow> bool" where
  "small_prog (Done r) = True"
| "small_prog (Exchange frame k) \<longleftrightarrow> length frame \<le> 92 \<and> (\<forall>reply. small_prog (k reply))"

lemma small_bind: "small_prog p \<Longrightarrow> (\<And>a. small_prog (f a)) \<Longrightarrow> small_prog (prog_bind p f)"
  by (induction p) (simp_all split: sum.split)

lemma small_exchange: "length body \<le> 64 \<Longrightarrow> small_prog (exchange_prog opc expected body req_id seq f)"
  by (simp add: exchange_prog_def HEADER_LEN_def)

lemma small_sendable: "length f \<le> 92 \<Longrightarrow> sendable MAX_FRAME f"
  by (simp add: sendable_def MAX_FRAME_def)

lemma reply_small:
  assumes "session_handle frame s = (Inr reply, s')"
  shows "length reply \<le> 92"
proof -
  obtain h out where "decode_frame reply = Inr (h, out)" "length out \<le> 20"
    using session_reply_frame_bound [OF assms] by blast
  then show ?thesis using decode_frame_Inr [of reply h out] by (simp add: HEADER_LEN_def)
qed

lemma small_fits: "small_prog p \<Longrightarrow> fits plain_service p s"
proof (induction p arbitrary: s)
  case (Exchange frame k)
  then show ?case
    by (auto simp: plain_service_def small_sendable dest: reply_small split: sum.splits prod.splits)
qed simp

lemma small_connect: "small_prog connect_prog"
  unfolding connect_prog_def by (rule small_exchange) (simp add: length_client_hello)

subsection \<open>The serve loop on a socket\<close>

text \<open>C27. A client program and the serve loop at the two ends of a socket with room for at least one byte, both with the length-
  prefixed framing of \<open>StreamTransport\<close>. However the bytes are cut into writes and reads, and whichever side moves next, the
  conversation ends within a bounded number of steps, neither side ever waits for the other for good, no byte is left over,
  the server leaves its loop without an error, and the client's result and the server's session are those of the program on
  the scheduled link. The frames have to fit the cap of the side that receives them.\<close>

theorem sockets_any_fragmentation:
  assumes "fits plain_service p session" "0 < room" "(sock_step plain_service room ^^ n) (sockets_start p session) y"
  shows "n \<le> work plain_service p session \<and>
    (let (r, l) = run_prog link_ops p (link_new session) in
     (\<exists>z. sock_step plain_service room y z) \<noteq> (y = Sockets (SockGone r) (ServGone (Inr ()) (link_session l)) [] []))"
proof -
  have link: "link_idle (link_new session)" "link_session (link_new session) = session"
    by (simp_all add: link_new_def loopback_new_def link_idle_def)
  show ?thesis
    using any_fragmentation [OF assms] run_prog_link [OF link(1), of p, unfolded link(2)] by (simp add: case_prod_beta)
qed

text \<open>Connecting to a fresh server, through buffers of a single byte.\<close>

theorem sockets_any_fragmentation_witness:
  "let s = session_new 7; s' = s\<lparr>handshook := True, next_seq := next_seq s + 1\<rparr> in
   \<exists>n \<le> 195. (sock_step plain_service 1 ^^ n) (sockets_start connect_prog s)
     (Sockets (SockGone (Inr 7)) (ServGone (Inr ()) s') [] [])"
proof -
  let ?s = "session_new 7"
  let ?s' = "?s\<lparr>handshook := True, next_seq := next_seq ?s + 1\<rparr>"
  have max: "max_frame_body ?s = DEFAULT_MAX_FRAME_BODY" and sid: "session_id ?s = 7" by (simp_all add: session_new_def)
  have fits: "fits plain_service connect_prog ?s" by (rule small_fits [OF small_connect])
  obtain n where n: "(sock_step plain_service 1 ^^ n) (sockets_start connect_prog ?s)
      (Sockets (SockGone (Inr 7)) (ServGone (Inr ()) ?s') [] [])"
    using some_fragmentation [OF idle [OF fits], of 1] by (auto simp: connect_talk [OF max] sid sockets_start_def)
  have "n \<le> work plain_service connect_prog ?s"
    using sockets_any_fragmentation [OF fits _ n] by simp
  moreover have "work plain_service connect_prog ?s = 195"
    by (rule hello_handled [OF max])
      (simp add: connect_prog_def exchange_prog_def plain_service_def welcome_body.decode_roundtrip length_client_hello HEADER_LEN_def)
  ultimately show ?thesis using n by (auto simp: Let_def)
qed

end
