(* ===== verification/Forwarding.thy ===== *)
theory Forwarding
  imports Tcp
begin

section \<open>Forwarding is transparent\<close>

text \<open>
  What the whole stack is for: a program that calls GPU services through a connection gets what it would get if it called
  the services directly. A client program is here a sequence of calls (\<open>remote\<close>), each an opcode and a body, which goes
  on with the body of the reply. \<open>remote_prog\<close> is the program as the client runs it, with headers, ids, frames and the
  check of the reply; \<open>direct\<close> has no client, no session and no transport, only the match arms of the services.
\<close>

datatype 'a remote = Return "'a client_result" | Invoke u32 bytes "bytes \<Rightarrow> 'a remote"

primrec remote_prog :: "'a remote \<Rightarrow> u32 \<Rightarrow> u64 \<Rightarrow> 'a prog" where
  "remote_prog (Return r) req_id seq = Done r"
| "remote_prog (Invoke opc body k) req_id seq =
     Exchange (encode_frame (request_header opc req_id seq body) body)
       (\<lambda>reply. case check_reply opc reply of
          Inl e \<Rightarrow> Done (Inl e)
        | Inr out \<Rightarrow> remote_prog (k out) (saturating_add req_id 1) (saturating_add seq 1))"

text \<open>A refusal ends the program; the client only sees that the connection was closed.\<close>

primrec direct :: "'a remote \<Rightarrow> (u8 \<rightharpoonup> boxed) \<Rightarrow> 'a client_result \<times> (u8 \<rightharpoonup> boxed)" where
  "direct (Return r) services = (r, services)"
| "direct (Invoke opc body k) services =
     (case services (opcode_api opc) of
        None \<Rightarrow> (Inl (ClientTransport IoUnexpectedEof), services)
      | Some b \<Rightarrow>
          (case boxed_handle opc 0 body b of
             (Inl _, b') \<Rightarrow> (Inl (ClientTransport IoUnexpectedEof), services)
           | (Inr out, b') \<Rightarrow> direct (k out) (services(opcode_api opc \<mapsto> b'))))"

text \<open>The calls a program may make: service opcodes, with bodies below the default limit.\<close>

primrec forwardable :: "'a remote \<Rightarrow> bool" where
  "forwardable (Return r) = True"
| "forwardable (Invoke opc body k) \<longleftrightarrow> opc \<noteq> core_op_HELLO \<and> opc \<noteq> core_op_NOOP \<and>
     length body \<le> unat DEFAULT_MAX_FRAME_BODY \<and> (\<forall>out. forwardable (k out))"

text \<open>Every entry point of the client is one such call.\<close>

lemma remote_call:
  "(case client_call T opc body req_id seq t of (Inl e, t) \<Rightarrow> (Inl e, t) | (Inr b, t) \<Rightarrow> (f b, t)) =
   run_prog T (remote_prog (Invoke opc body (\<lambda>b. Return (f b))) req_id seq) t"
  unfolding client_call_prog
  by (auto simp: exchange_prog_def split: sum.splits prod.splits)

subsection \<open>One call\<close>

lemma boxed_req_id: "boxed_handle opc req_id body b = boxed_handle opc 0 body b"
proof (cases b)
  case (BoxVulkanBackend x)
  then show ?thesis using vk.req_id_unused [of opc req_id body x 0] by simp
next
  case (BoxGlBackend x)
  then show ?thesis using gl.req_id_unused [of opc req_id body x 0] by simp
next
  case (BoxCudaBackend x)
  then show ?thesis using cuda.req_id_unused [of opc req_id body x 0] by simp
next
  case (BoxHipBackend x)
  then show ?thesis using hip.req_id_unused [of opc req_id body x 0] by simp
next
  case (BoxClBackend x)
  then show ?thesis using cl.req_id_unused [of opc req_id body x 0] by simp
next
  case (BoxL0Backend x)
  then show ?thesis using l0.req_id_unused [of opc req_id body x 0] by simp
next
  case (BoxVideoBackend x)
  then show ?thesis using video.req_id_unused [of opc req_id body x 0] by simp
next
  case (BoxWebGpuBackend x)
  then show ?thesis using wgpu.req_id_unused [of opc req_id body x 0] by simp
next
  case (BoxOptixBackend x)
  then show ?thesis using optix.req_id_unused [of opc req_id body x 0] by simp
next
  case (BoxSyclBackend x)
  then show ?thesis using sycl.req_id_unused [of opc req_id body x 0] by simp
next
  case (BoxAmfBackend x)
  then show ?thesis using amf.req_id_unused [of opc req_id body x 0] by simp
qed

text \<open>A frame of the client at a session: the arm's answer, or the session as it was.\<close>

lemma session_invoked:
  assumes "max_frame_body s = DEFAULT_MAX_FRAME_BODY" "length body \<le> unat DEFAULT_MAX_FRAME_BODY"
    "opc \<noteq> core_op_HELLO" "opc \<noteq> core_op_NOOP"
    "session_handle (encode_frame (request_header opc req_id seq body) body) s = (r, s')"
  shows "max_frame_body s' = DEFAULT_MAX_FRAME_BODY \<and>
    (case map_option (boxed_handle opc 0 body) (backends s (opcode_api opc)) of
       Some (Inr out, b') \<Rightarrow> backends s' = (backends s)(opcode_api opc \<mapsto> b') \<and>
         (\<exists>reply. r = Inr reply \<and> check_reply opc reply = Inr out)
     | _ \<Rightarrow> s' = s \<and> (\<exists>e. r = Inl e))"
proof -
  have route: "session_route opc req_id body s = (r, s')"
    using session_handle_accepted [OF request_fits [OF assms(1,2)]] assms(3-5) by (simp add: request_header_def)
  show ?thesis
  proof (cases r)
    case (Inl e)
    then have "s' = s" using session_route_Inl route by blast
    moreover have "case map_option (boxed_handle opc 0 body) (backends s (opcode_api opc)) of Some (Inr out, b') \<Rightarrow> False | _ \<Rightarrow> True"
      using route Inl
      by (auto simp: session_route_def session_reply_eq boxed_req_id [of opc req_id] Let_def split: option.splits sum.splits prod.splits)
    ultimately show ?thesis using Inl assms(1) by (auto split: option.splits sum.splits)
  next
    case (Inr reply)
    then obtain b b' out where "backends s (opcode_api opc) = Some b" "boxed_handle opc req_id body b = (Inr out, b')"
      "s' = s\<lparr>backends := (backends s)(opcode_api opc \<mapsto> b'), next_seq := next_seq s + 1\<rparr>"
      "reply = encode_frame \<lparr>fh_version = PROTOCOL_MAJOR, fh_flags = 0, fh_kind = Response, fh_opcode = opc,
          fh_req_id = req_id, fh_seq = next_seq s, fh_body_len = word_of_nat (length out)\<rparr> out"
      using route by (auto elim: session_route_Inr)
    then show ?thesis using Inr assms(1) by (simp add: boxed_req_id [of opc req_id])
  qed
qed

subsection \<open>A program of calls\<close>

lemma talk_remote:
  assumes "forwardable p" "max_frame_body s = DEFAULT_MAX_FRAME_BODY"
  shows "direct p (backends s) = (let (r, s') = talk plain_service (remote_prog p req_id seq) s in (r, backends s'))"
  using assms
proof (induction p arbitrary: s req_id seq)
  case (Invoke opc body k)
  let ?frame = "encode_frame (request_header opc req_id seq body) body"
  obtain r s' where h: "session_handle ?frame s = (r, s')" by fastforce
  have ok: "opc \<noteq> core_op_HELLO" "opc \<noteq> core_op_NOOP" "length body \<le> unat DEFAULT_MAX_FRAME_BODY" "\<And>out. forwardable (k out)"
    using Invoke.prems(1) by simp_all
  note step = session_invoked [OF Invoke.prems(2) ok(3,1,2) h]
  show ?case
  proof (cases "map_option (boxed_handle opc 0 body) (backends s (opcode_api opc))")
    case None
    then show ?thesis using step h by (auto simp: plain_service_def)
  next
    case (Some q)
    then obtain b res b' where b: "backends s (opcode_api opc) = Some b" "boxed_handle opc 0 body b = (res, b')" by fastforce
    show ?thesis
    proof (cases res)
      case (Inl e)
      then show ?thesis using step h b by (auto simp: plain_service_def)
    next
      case (Inr out)
      then obtain reply where reply: "r = Inr reply" "check_reply opc reply = Inr out" and
        s': "backends s' = (backends s)(opcode_api opc \<mapsto> b')" "max_frame_body s' = DEFAULT_MAX_FRAME_BODY"
        using step b by auto
      have "direct (Invoke opc body k) (backends s) = direct (k out) (backends s')"
        using b Inr by (simp only: direct.simps option.case prod.case sum.case s'(1))
      also have "\<dots> = (let (r, s') = talk plain_service (remote_prog (k out) (saturating_add req_id 1) (saturating_add seq 1)) s'
          in (r, backends s'))"
        by (rule Invoke.IH) (use ok(4) s'(2) in simp_all)
      finally show ?thesis using h reply by (simp add: plain_service_def)
    qed
  qed
qed simp

lemma remote_fits: "forwardable p \<Longrightarrow> fits plain_service (remote_prog p req_id seq) s"
proof (induction p arbitrary: s req_id seq)
  case (Invoke opc body k)
  have "length body \<le> 2 ^ 20" using Invoke.prems by (simp add: DEFAULT_MAX_FRAME_BODY_def)
  then have "sendable MAX_FRAME (encode_frame (request_header opc req_id seq body) body)"
    by (simp add: sendable_def MAX_FRAME_def HEADER_LEN_def)
  then show ?case
    using Invoke
    by (auto simp: plain_service_def intro: small_sendable reply_small split: sum.splits prod.splits)
qed simp

lemma fits_bind:
  "fits V p s \<Longrightarrow> (\<And>a s'. talk V p s = (Inr a, s') \<Longrightarrow> fits V (f a) s') \<Longrightarrow> fits V (prog_bind p f) s"
proof (induction p arbitrary: s)
  case (Done r)
  then show ?case by (cases r) auto
next
  case (Exchange frame k)
  show ?case
    using Exchange.prems Exchange.IH [OF rangeI] by (auto split: sum.splits prod.splits)
qed

text \<open>A connection: the handshake, and then the calls with the ids a connected \<open>Client\<close> draws.\<close>

definition connected :: "'a remote \<Rightarrow> 'a prog" where
  "connected p = prog_bind connect_prog (\<lambda>sid. remote_prog p 2 2)"

lemma connected_talk:
  assumes "forwardable p" "max_frame_body s = DEFAULT_MAX_FRAME_BODY"
  shows "direct p (backends s) = (let (r, s') = talk plain_service (connected p) s in (r, backends s'))"
    and "fits plain_service (connected p) s"
proof -
  let ?s = "s\<lparr>handshook := True, next_seq := next_seq s + 1\<rparr>"
  show "direct p (backends s) = (let (r, s') = talk plain_service (connected p) s in (r, backends s'))"
    using talk_remote [OF assms(1), of ?s 2 2] assms(2) by (simp add: connected_def talk_bind connect_talk [OF assms(2)])
  show "fits plain_service (connected p) s"
    unfolding connected_def
    by (rule fits_bind [OF small_fits [OF small_connect]]) (rule remote_fits [OF assms(1)])
qed

subsection \<open>Calls in sequence\<close>

text \<open>An entry point of the client followed by the rest of a program, as \<open>?\<close> chains them.\<close>

definition and_then :: "u32 \<Rightarrow> bytes \<Rightarrow> (bytes \<Rightarrow> 'a client_result) \<Rightarrow> ('a \<Rightarrow> 'b remote) \<Rightarrow> 'b remote" where
  "and_then opc body f g = Invoke opc body (\<lambda>out. case f out of Inl e \<Rightarrow> Return (Inl e) | Inr a \<Rightarrow> g a)"

lemma and_then_run:
  "run_prog T (remote_prog (and_then opc body f g) req_id seq) t =
     (case run_prog T (exchange_prog opc opc body req_id seq f) t of
        (Inl e, t) \<Rightarrow> (Inl e, t)
      | (Inr a, t) \<Rightarrow> run_prog T (remote_prog (g a) (saturating_add req_id 1) (saturating_add seq 1)) t)"
  by (auto simp: and_then_def exchange_prog_def split: sum.splits prod.splits)

lemma and_then_forwardable:
  "opc \<noteq> core_op_HELLO \<Longrightarrow> opc \<noteq> core_op_NOOP \<Longrightarrow> length body \<le> 64 \<Longrightarrow> (\<And>a. forwardable (g a)) \<Longrightarrow>
   forwardable (and_then opc body f g)"
  by (simp add: and_then_def DEFAULT_MAX_FRAME_BODY_def split: sum.split)

text \<open>For instance \<open>Client::connect\<close>, \<open>vk_create_instance\<close> and \<open>vk_enumerate_physical_devices\<close> on the instance.\<close>

definition bring_up :: "u32 \<Rightarrow> Handle list remote" where
  "bring_up v =
     and_then vk_op_CREATE_INSTANCE
       (vk_CreateInstanceRequest_encode \<lparr>vk_CreateInstanceRequest_app_api_version = v\<rparr> [])
       (\<lambda>b. res_bind (from_protocol (vk_CreateInstanceResponse_decode b))
          (\<lambda>resp. expect_kind client_vk_KIND_INSTANCE (vk_CreateInstanceResponse_instance resp)))
       (\<lambda>instance. and_then vk_op_ENUMERATE_PHYSICAL_DEVICES
          (vk_EnumeratePhysicalDevicesRequest_encode \<lparr>vk_EnumeratePhysicalDevicesRequest_instance = instance\<rparr> [])
          (\<lambda>b. res_bind (from_protocol (vk_EnumeratePhysicalDevicesResponse_decode b))
             (\<lambda>resp. res_bind (expect_kinds client_vk_KIND_PHYSICAL_DEVICE (vk_EnumeratePhysicalDevicesResponse_devices resp))
               (\<lambda>_. Inr (vk_EnumeratePhysicalDevicesResponse_devices resp))))
          (\<lambda>devices. Return (Inr devices)))"

lemma bring_up_client:
  "run_prog T (connected (bring_up v)) t =
     (case connect T t of
        Inl e \<Rightarrow> (Inl e, snd (client_handshake T t))
      | Inr client \<Rightarrow>
          (case Client_vk_create_instance T v client of
             (Inl e, client) \<Rightarrow> (Inl e, client_transport client)
           | (Inr instance, client) \<Rightarrow>
               (case Client_vk_enumerate_physical_devices T instance client of
                  (r, client) \<Rightarrow> (r, client_transport client))))"
  by (simp add: connected_def run_prog_bind connect_run handshake_run Client_vk_create_instance_def
      Client_vk_enumerate_physical_devices_def next_ids_def create_instance_run enumerate_run create_instance_prog_def
      enumerate_prog_def bring_up_def and_then_run split: sum.split prod.split)

lemma bring_up_forwardable: "forwardable (bring_up v)"
  unfolding bring_up_def
  by (intro and_then_forwardable)
    (simp_all add: vk_ops_not_core vk_CreateInstanceRequest_body.encode_width vk_EnumeratePhysicalDevicesRequest_body.encode_width)

lemma and_then_direct:
  "services (opcode_api opc) = Some b \<Longrightarrow> boxed_handle opc 0 body b = (Inr out, b') \<Longrightarrow> f out = Inr a \<Longrightarrow>
   direct (and_then opc body f g) services = direct (g a) (services(opcode_api opc \<mapsto> b'))"
  by (simp add: and_then_def)

lemma bring_up_direct:
  assumes "services (api_id_u8 Vulkan) = Some (BoxVulkanBackend vk_new)"
  shows "direct (bring_up v) services = (Inr [first_device], services(api_id_u8 Vulkan \<mapsto>
    BoxVulkanBackend (vk_new\<lparr>vk_instances := instance_table, vk_physical_devices := device_table\<rparr>)))"
proof -
  have "opcode_api vk_op_CREATE_INSTANCE = api_id_u8 Vulkan" "opcode_api vk_op_ENUMERATE_PHYSICAL_DEVICES = api_id_u8 Vulkan"
    by (rule vk_ops_routed)+
  note api = this
  show ?thesis
    unfolding bring_up_def
    apply (subst and_then_direct [OF _ create_instance_first])
      apply (simp add: api assms del: api_id_u8.simps)
     apply (simp add: vk_CreateInstanceResponse_body.decode_roundtrip expect_kind_def first_objects vk_kind_defs)
    apply (subst and_then_direct [OF _ enumerate_first])
      apply (simp add: api)
     apply (simp add: vk_EnumeratePhysicalDevicesResponse_roundtrip [where rest = "[]", simplified] first_objects vk_kind_defs)
    apply (simp add: api)
    done
qed

subsection \<open>Transparency\<close>

text \<open>C1. Forwarding is transparent. A client connects to the server's loop and makes any sequence of service calls, where each
  call may depend on the answers before it. Over a socket, however the bytes are cut into reads and writes and whichever
  side moves next, and over a loopback pair, in every interleaving of the two threads, the run is finite, it can always go on
  until both sides have ended, the client's result is the one of calling the services directly, and the server's services
  end in the states that the direct calls leave them in.\<close>

theorem forwarding_transparent:
  assumes "forwardable p" "max_frame_body session = DEFAULT_MAX_FRAME_BODY" "0 < room"
  shows "\<exists>session'. let (r, services) = direct p (backends session) in
    backends session' = services \<and>
    (\<forall>n y. (sock_step plain_service room ^^ n) (sockets_start (connected p) session) y \<longrightarrow>
       n \<le> work plain_service (connected p) session \<and>
       ((\<exists>z. sock_step plain_service room y z) \<noteq> (y = Sockets (SockGone r) (ServGone (Inr ()) session') [] []))) \<and>
    (\<forall>n y. (thread_step plain_service ^^ n) (threads_start (connected p) session) y \<longrightarrow>
       n \<le> steps_left plain_service (connected p) session \<and>
       ((\<exists>z. thread_step plain_service y z) \<noteq> (\<exists>up down. y = Threads (Gone r) (Left (Inr ()) session') up down)))"
proof -
  obtain r session' where talk: "talk plain_service (connected p) session = (r, session')" by fastforce
  have "direct p (backends session) = (r, backends session')"
    using connected_talk(1) [OF assms(1,2)] by (simp add: talk)
  moreover have "n \<le> work plain_service (connected p) session \<and>
      ((\<exists>z. sock_step plain_service room y z) \<noteq> (y = Sockets (SockGone r) (ServGone (Inr ()) session') [] []))"
    if "(sock_step plain_service room ^^ n) (sockets_start (connected p) session) y" for n y
    using any_fragmentation [OF connected_talk(2) [OF assms(1,2)] assms(3) that] by (simp add: talk)
  moreover have "n \<le> steps_left plain_service (connected p) session \<and>
      ((\<exists>z. thread_step plain_service y z) \<noteq> (\<exists>up down. y = Threads (Gone r) (Left (Inr ()) session') up down))"
    if "(thread_step plain_service ^^ n) (threads_start (connected p) session) y" for n y
    using any_schedule [OF that] by (auto simp: talk threads_done_def)
  ultimately show ?thesis by (intro exI [of _ session']) (simp only: Let_def prod.case, blast)
qed

text \<open>The bring-up of a device through buffers of one byte finds the first device of a fresh server.\<close>

theorem forwarding_transparent_witness:
  "\<exists>n session'. (sock_step plain_service 1 ^^ n) (sockets_start (connected (bring_up 0x00403000)) (main_session 1))
       (Sockets (SockGone (Inr [first_device])) (ServGone (Inr ()) session') [] []) \<and>
     backends session' (api_id_u8 Vulkan) =
       Some (BoxVulkanBackend (vk_new\<lparr>vk_instances := instance_table, vk_physical_devices := device_table\<rparr>))"
proof -
  let ?s = "main_session 1"
  have main: "max_frame_body ?s = DEFAULT_MAX_FRAME_BODY" "backends ?s (api_id_u8 Vulkan) = Some (BoxVulkanBackend vk_new)"
    by (simp_all add: main_session_def session_register_def session_new_def api_defs)
  obtain session' where all: "backends session' = (backends ?s)(api_id_u8 Vulkan \<mapsto>
       BoxVulkanBackend (vk_new\<lparr>vk_instances := instance_table, vk_physical_devices := device_table\<rparr>))"
    "\<forall>n y. (sock_step plain_service 1 ^^ n) (sockets_start (connected (bring_up 0x00403000)) ?s) y \<longrightarrow>
       n \<le> work plain_service (connected (bring_up 0x00403000)) ?s \<and>
       ((\<exists>z. sock_step plain_service 1 y z) \<noteq> (y = Sockets (SockGone (Inr [first_device])) (ServGone (Inr ()) session') [] []))"
    using forwarding_transparent [OF bring_up_forwardable main(1) zero_less_one, of "0x00403000",
        unfolded bring_up_direct [where services = "backends ?s", OF main(2)] Let_def prod.case]
    by (elim exE conjE) blast
  obtain n y where "(sock_step plain_service 1 ^^ n) (sockets_start (connected (bring_up 0x00403000)) ?s) y"
    "\<not> (\<exists>z. sock_step plain_service 1 y z)"
    using some_fragmentation [OF idle [OF connected_talk(2) [OF bring_up_forwardable main(1)]], of 1] sock_over_stuck
    by (metis sockets_start_def zero_less_one)
  then have "(sock_step plain_service 1 ^^ n) (sockets_start (connected (bring_up 0x00403000)) ?s)
      (Sockets (SockGone (Inr [first_device])) (ServGone (Inr ()) session') [] [])"
    using all(2) by blast
  then show ?thesis using all(1) by (intro exI [of _ n] exI [of _ session'] conjI) simp_all
qed

end
