(* ===== verification/Load_Test.thy ===== *)
theory Load_Test
  imports Client_Session Obs
begin

section \<open>The load generator\<close>

text \<open>
  \<open>crates/graftx-loadtest/src/main.rs\<close>: a client over a loopback pair, with \<open>serve_with_metrics\<close> in a thread at the
  other end. As on the plain link, the server takes a turn of its loop (\<open>metered_turn\<close>) while the client waits for a
  reply; \<open>m_served\<close> is what the loop returned, once it did. After the client has been dropped the server runs on
  until it returns. The clock and what is printed are in \<open>Metrics\<close> and \<open>Mains\<close>,
  the two threads in \<open>Load_Threads\<close>.
\<close>

definition DEFAULT_OPS :: nat where
  "DEFAULT_OPS = 10000"

definition SESSION_ID :: u64 where
  "SESSION_ID = 0x6C6F6164"

definition APP_API_VERSION :: u32 where
  "APP_API_VERSION = 0x00403000"

record metered =
  m_link :: link
  m_registry :: obs_registry
  m_served :: "unit io_result option"

text \<open>Leaving the loop drops the server's end.\<close>

definition server_leaves :: "unit io_result \<Rightarrow> loopback \<Rightarrow> session \<Rightarrow> metered \<Rightarrow> metered" where
  "server_leaves r net session m =
     m\<lparr>m_link := \<lparr>link_net = loopback_drop EndB net, link_session = session\<rparr>, m_served := Some r\<rparr>"

definition metered_turn :: "metered \<Rightarrow> metered option" where
  "metered_turn m =
     (let session = link_session (m_link m) in
      if m_served m \<noteq> None then None
      else case loopback_recv EndB (link_net (m_link m)) of
        None \<Rightarrow> None
      | Some (Inl err, net) \<Rightarrow> Some (server_leaves (if clean_close err then Inr () else Inl err) net session m)
      | Some (Inr frame, net) \<Rightarrow>
          (let api = (case decode_frame frame of Inl _ \<Rightarrow> None | Inr (h, _) \<Rightarrow> Some (api_name (opcode_api (fh_opcode h)))) in
           case session_handle frame session of
             (Inl _, session) \<Rightarrow> Some (server_leaves (Inr ()) net session m)
           | (Inr reply, session) \<Rightarrow>
               (case loopback_send EndB reply net of
                  (Inl err, net) \<Rightarrow> Some (server_leaves (Inl err) net session m)
                | (Inr _, net) \<Rightarrow>
                    Some (m\<lparr>m_link := \<lparr>link_net = net, link_session = session\<rparr>,
                            m_registry := (case api of None \<Rightarrow> m_registry m
                              | Some api \<Rightarrow> registry_record api (word_of_nat (length frame)) (word_of_nat (length reply)) (m_registry m))\<rparr>))))"

definition metered_send :: "bytes \<Rightarrow> metered \<Rightarrow> unit io_result \<times> metered" where
  "metered_send frame m = (let (r, l) = link_send frame (m_link m) in (r, m\<lparr>m_link := l\<rparr>))"

definition metered_receive :: "metered \<Rightarrow> (bytes io_result \<times> metered) option" where
  "metered_receive m = map_option (\<lambda>(r, net). (r, m\<lparr>m_link := (m_link m)\<lparr>link_net := net\<rparr>\<rparr>))
     (loopback_recv EndA (link_net (m_link m)))"

definition metered_recv :: "metered \<Rightarrow> bytes io_result \<times> metered" where
  "metered_recv m =
     (case metered_receive m of
        Some r \<Rightarrow> r
      | None \<Rightarrow>
          (case metered_turn m of
             None \<Rightarrow> (Inl IoOther, m)
           | Some m \<Rightarrow> (case metered_receive m of Some r \<Rightarrow> r | None \<Rightarrow> (Inl IoOther, m))))"

definition metered_ops :: "metered transport" where
  "metered_ops = \<lparr>t_send = metered_send, t_recv = metered_recv\<rparr>"

subsection \<open>The client\<close>

primrec load_rounds :: "'t transport \<Rightarrow> nat \<Rightarrow> 't client \<Rightarrow> unit client_result \<times> 't client" where
  "load_rounds T 0 client = (Inr (), client)"
| "load_rounds T (Suc n) client =
     (case Client_vk_create_instance T APP_API_VERSION client of
        (Inl e, client) \<Rightarrow> (Inl e, client)
      | (Inr instance, client) \<Rightarrow>
          (case Client_vk_enumerate_physical_devices T instance client of
             (Inl e, client) \<Rightarrow> (Inl e, client)
           | (Inr _, client) \<Rightarrow> load_rounds T n client))"

text \<open>With the transport the client ends with, for its drop; \<open>connect\<close> drops it itself when the handshake fails.\<close>

definition run_client :: "'t transport \<Rightarrow> nat \<Rightarrow> 't \<Rightarrow> unit client_result \<times> 't" where
  "run_client T n client_end =
     (case connect T client_end of
        Inl e \<Rightarrow> (Inl e, snd (client_handshake T client_end))
      | Inr client \<Rightarrow> (let (r, client) = load_rounds T n client in (r, client_transport client)))"

subsection \<open>The run\<close>

fun server_joins :: "nat \<Rightarrow> metered \<Rightarrow> metered" where
  "server_joins 0 m = m"
| "server_joins (Suc k) m = (case metered_turn m of None \<Rightarrow> m | Some m \<Rightarrow> server_joins k m)"

text \<open>After the drop the server has at most the frames in its queue to handle, and the end of the stream.\<close>

definition drop_client :: "metered \<Rightarrow> metered" where
  "drop_client m = m\<lparr>m_link := (m_link m)\<lparr>link_net := loopback_drop EndA (link_net (m_link m))\<rparr>\<rparr>"

definition drive :: "nat \<Rightarrow> obs_registry \<Rightarrow> unit client_result \<times> obs_registry" where
  "drive n registry =
     (let session = session_register (BoxVulkanBackend vk_new) (session_new SESSION_ID);
          (r, m) = run_client metered_ops n \<lparr>m_link = link_new session, m_registry = registry, m_served = None\<rparr>;
          m = drop_client m;
          m = server_joins (length (lb_queue (link_net (m_link m)) EndB) + 1) m
      in (case r of
            Inl e \<Rightarrow> Inl e
          | Inr _ \<Rightarrow>
              (case m_served m of
                 Some (Inr _) \<Rightarrow> Inr ()
               | Some (Inl err) \<Rightarrow> Inl (ClientTransport err)
               | None \<Rightarrow> Inl (ClientTransport IoOther)),
          m_registry m))"

definition run_load :: "nat \<Rightarrow> call_stats" where
  "run_load n =
     (case drive n registry_new of
        (Inr _, registry) \<Rightarrow> registry_total registry
      | (Inl _, _) \<Rightarrow> call_stats_default)"

definition parse_ops :: "string option \<Rightarrow> nat \<times> bool" where
  "parse_ops arg =
     (case arg of
        Some raw \<Rightarrow> (case parse_usize raw of Some n \<Rightarrow> (n, False) | None \<Rightarrow> (DEFAULT_OPS, True))
      | None \<Rightarrow> (DEFAULT_OPS, False))"

end
