(* ===== verification/Load_Spec.thy ===== *)
theory Load_Spec
  imports Load_Test Obs_Spec
begin

section \<open>Properties of the load generator\<close>

text \<open>
  The composition of client, server, handle tables and registry over any number of rounds: every call returns, and the
  registry holds exactly the calls of the run with the bytes of their frames.
\<close>

definition metered_ready :: "metered \<Rightarrow> bool" where
  "metered_ready m \<longleftrightarrow> link_idle (m_link m) \<and> m_served m = None \<and>
     max_frame_body (link_session (m_link m)) = DEFAULT_MAX_FRAME_BODY"

definition metered_answer :: "u32 \<Rightarrow> bytes \<Rightarrow> bytes \<Rightarrow> session \<Rightarrow> metered \<Rightarrow> metered \<Rightarrow> bool" where
  "metered_answer opc body reply s m m' \<longleftrightarrow> metered_ready m' \<and> link_session (m_link m') = s \<and>
     m_registry m' = registry_record (api_name (opcode_api opc)) (word_of_nat (28 + length body))
       (word_of_nat (length reply)) (m_registry m)"

lemma metered_exchange:
  assumes "metered_ready m" "max_frame_body s = DEFAULT_MAX_FRAME_BODY"
    "session_handle (encode_frame (request_header opc req_id seq body) body) (link_session (m_link m)) = (Inr reply, s)"
  shows "\<exists>m'. client_exchange metered_ops opc expected body req_id seq m = (check_reply expected reply, m') \<and>
    metered_answer opc body reply s m m'"
  using assms
  by (simp add: client_exchange_def metered_ops_def metered_send_def metered_recv_def metered_receive_def link_send_def
      loopback_send_def loopback_recv_def metered_turn_def link_idle_def metered_ready_def metered_answer_def)
    (simp add: request_header_def HEADER_LEN_def)

subsection \<open>Connecting\<close>

lemma load_connect:
  assumes "metered_ready m"
  obtains m' where
    "connect metered_ops m = Inr \<lparr>client_transport = m', client_next_req_id = 2, client_next_seq = 2,
       client_session_id = session_id (link_session (m_link m))\<rparr>"
    "metered_ready m'" "backends (link_session (m_link m')) = backends (link_session (m_link m))"
    "m_registry m' = registry_record ''core'' 40 48 (m_registry m)"
proof -
  let ?s = "link_session (m_link m)"
  have max: "max_frame_body ?s = DEFAULT_MAX_FRAME_BODY" using assms by (simp add: metered_ready_def)
  obtain reply w where h: "session_handle (encode_frame (request_header core_op_HELLO 1 1 client_hello) client_hello) ?s =
      (Inr reply, ?s\<lparr>handshook := True, next_seq := next_seq ?s + 1\<rparr>)"
    "check_reply core_op_WELCOME reply = Inr (welcome_encode w [])" "welcome_session_id w = session_id ?s" "length reply = 48"
    using hello_handled [OF max] by metis
  have kept: "max_frame_body (?s\<lparr>handshook := True, next_seq := next_seq ?s + 1\<rparr>) = DEFAULT_MAX_FRAME_BODY" using max by simp
  obtain m' where m': "client_exchange metered_ops core_op_HELLO core_op_WELCOME client_hello 1 1 m = (check_reply core_op_WELCOME reply, m')"
    "metered_answer core_op_HELLO client_hello reply (?s\<lparr>handshook := True, next_seq := next_seq ?s + 1\<rparr>) m m'"
    using metered_exchange [OF assms kept h(1), of core_op_WELCOME] by blast
  show ?thesis
    by (rule that [of m'])
      (use m' h in \<open>simp_all add: connect_exchange welcome_body.decode_roundtrip metered_answer_def length_client_hello
        core_op_values opcode_api_def api_name_def\<close>)
qed

subsection \<open>A Vulkan call\<close>

lemma load_call:
  assumes "metered_ready m" "backends (link_session (m_link m)) (api_id_u8 Vulkan) = Some b"
    "opcode_api opc = api_id_u8 Vulkan" "opc \<noteq> core_op_HELLO" "opc \<noteq> core_op_NOOP" "length body \<le> 64"
    "boxed_handle opc req_id body b = (Inr out, b')"
  obtains m' where
    "client_call metered_ops opc body req_id seq m = (Inr out, m')" "metered_ready m'"
    "backends (link_session (m_link m')) = (backends (link_session (m_link m)))(api_id_u8 Vulkan \<mapsto> b')"
    "m_registry m' = registry_record ''vulkan'' (word_of_nat (28 + length body)) (word_of_nat (28 + length out)) (m_registry m)"
proof -
  let ?s = "link_session (m_link m)"
  let ?s' = "?s\<lparr>backends := (backends ?s)(api_id_u8 Vulkan \<mapsto> b'), next_seq := next_seq ?s + 1\<rparr>"
  have max: "max_frame_body ?s = DEFAULT_MAX_FRAME_BODY" using assms(1) by (simp add: metered_ready_def)
  obtain reply where h: "session_handle (encode_frame (request_header opc req_id seq body) body) ?s = (Inr reply, ?s')"
    "check_reply opc reply = Inr out" "length reply = 28 + length out"
    using request_routed [OF max assms(6,4,5), of req_id seq] assms
    by (simp add: session_route_def session_reply_eq Let_def HEADER_LEN_def)
  have kept: "max_frame_body ?s' = DEFAULT_MAX_FRAME_BODY" using max by simp
  obtain m' where "client_exchange metered_ops opc opc body req_id seq m = (check_reply opc reply, m')"
    "metered_answer opc body reply ?s' m m'"
    using metered_exchange [OF assms(1) kept h(1), of opc] by blast
  then show ?thesis
    by (intro that [of m']) (simp_all add: h client_call_def metered_answer_def assms(3) api_name_def)
qed

subsection \<open>The rounds\<close>

definition load_tables :: "nat \<Rightarrow> VulkanBackend \<Rightarrow> bool" where
  "load_tables i b \<longleftrightarrow> ht_inv (vk_instances b) \<and> ht_inv (vk_physical_devices b) \<and>
     length (ht_slots (vk_instances b)) \<le> i \<and> length (ht_slots (vk_physical_devices b)) \<le> i"

definition load_state :: "nat \<Rightarrow> metered \<Rightarrow> bool" where
  "load_state i m \<longleftrightarrow> metered_ready m \<and>
     (\<exists>b. backends (link_session (m_link m)) (api_id_u8 Vulkan) = Some (BoxVulkanBackend b) \<and> load_tables i b)"

lemma insert_grows: "length (ht_slots t) \<le> i \<Longrightarrow> length (ht_slots (snd (ht_insert k v t))) \<le> Suc i"
  by (simp add: ht_insert_def Let_def)

lemma load_create_instance:
  assumes "metered_ready m" "backends (link_session (m_link m)) (api_id_u8 Vulkan) = Some (BoxVulkanBackend b)"
  obtains m' where
    "client_vk_create_instance metered_ops v req_id seq m =
       (Inr (fst (ht_insert KIND_INSTANCE \<lparr>InstanceState_created = True\<rparr> (vk_instances b))), m')" "metered_ready m'"
    "backends (link_session (m_link m')) = (backends (link_session (m_link m)))(api_id_u8 Vulkan \<mapsto>
       BoxVulkanBackend (b\<lparr>vk_instances := snd (ht_insert KIND_INSTANCE \<lparr>InstanceState_created = True\<rparr> (vk_instances b))\<rparr>))"
    "m_registry m' = registry_record ''vulkan'' 32 36 (m_registry m)"
proof -
  let ?body = "vk_CreateInstanceRequest_encode \<lparr>vk_CreateInstanceRequest_app_api_version = v\<rparr> []"
  let ?i = "ht_insert KIND_INSTANCE \<lparr>InstanceState_created = True\<rparr> (vk_instances b)"
  have small: "length ?body \<le> 64" by (simp add: vk_CreateInstanceRequest_body.encode_width)
  have arm: "boxed_handle vk_op_CREATE_INSTANCE req_id ?body (BoxVulkanBackend b) =
      (Inr (vk_CreateInstanceResponse_encode \<lparr>vk_CreateInstanceResponse_instance = fst ?i\<rparr> []),
       BoxVulkanBackend (b\<lparr>vk_instances := snd ?i\<rparr>))"
    by (simp add: vk_create_instance_def vk_CreateInstanceRequest_body.decode_roundtrip case_prod_beta)
  show ?thesis
    by (rule load_call [OF assms vk_ops_routed(1) vk_ops_not_core(1,2) small arm, where seq = seq], rule that)
      (simp_all add: client_vk_create_instance_def vk_CreateInstanceResponse_body.decode_roundtrip expect_kind_def
        ht_insert_kind vk_kind_defs vk_CreateInstanceRequest_body.encode_width vk_CreateInstanceResponse_body.encode_width)
qed

lemma load_enumerate:
  assumes "metered_ready m" "backends (link_session (m_link m)) (api_id_u8 Vulkan) = Some (BoxVulkanBackend b)"
    "ht_get (vk_instances b) h = Some \<lparr>InstanceState_created = True\<rparr>"
  obtains m' where
    "client_vk_enumerate_physical_devices metered_ops h req_id seq m =
       (Inr [fst (ht_insert KIND_PHYSICAL_DEVICE \<lparr>PhysDevState_parent = h\<rparr> (vk_physical_devices b))], m')" "metered_ready m'"
    "backends (link_session (m_link m')) = (backends (link_session (m_link m)))(api_id_u8 Vulkan \<mapsto>
       BoxVulkanBackend (b\<lparr>vk_physical_devices := snd (ht_insert KIND_PHYSICAL_DEVICE \<lparr>PhysDevState_parent = h\<rparr> (vk_physical_devices b))\<rparr>))"
    "m_registry m' = registry_record ''vulkan'' 36 40 (m_registry m)"
proof -
  let ?body = "vk_EnumeratePhysicalDevicesRequest_encode \<lparr>vk_EnumeratePhysicalDevicesRequest_instance = h\<rparr> []"
  let ?i = "ht_insert KIND_PHYSICAL_DEVICE \<lparr>PhysDevState_parent = h\<rparr> (vk_physical_devices b)"
  let ?out = "vk_EnumeratePhysicalDevicesResponse_encode \<lparr>vk_EnumeratePhysicalDevicesResponse_devices = [fst ?i]\<rparr> []"
  have small: "length ?body \<le> 64" by (simp add: vk_EnumeratePhysicalDevicesRequest_body.encode_width)
  have arm: "boxed_handle vk_op_ENUMERATE_PHYSICAL_DEVICES req_id ?body (BoxVulkanBackend b) =
      (Inr ?out, BoxVulkanBackend (b\<lparr>vk_physical_devices := snd ?i\<rparr>))"
    by (simp add: vk_enumerate_physical_devices_def vk_EnumeratePhysicalDevicesRequest_body.decode_roundtrip assms(3) case_prod_beta)
  have out: "length (vk_EnumeratePhysicalDevicesResponse_encode \<lparr>vk_EnumeratePhysicalDevicesResponse_devices = [d]\<rparr> []) = 12"
    for d by (simp add: wire_defs)
  show ?thesis
    by (rule load_call [OF assms(1,2) vk_ops_routed(2) vk_ops_not_core(3,4) small arm, where seq = seq], rule that)
      (simp_all add: client_vk_enumerate_physical_devices_def vk_EnumeratePhysicalDevicesResponse_roundtrip [where rest = "[]", simplified]
        ht_insert_kind vk_kind_defs vk_EnumeratePhysicalDevicesRequest_body.encode_width out)
qed

text \<open>A round adds one instance and one device, and two calls to the registry.\<close>

definition round_calls :: "(string \<times> u64 \<times> u64) list" where
  "round_calls = [(''vulkan'', 32, 36), (''vulkan'', 36, 40)]"

lemma load_round:
  assumes "load_state i (client_transport c)" "i < 2 ^ 32"
  obtains c' where "load_rounds metered_ops (Suc n) c = load_rounds metered_ops n c'"
    "load_state (Suc i) (client_transport c')"
    "m_registry (client_transport c') = registry_run round_calls (m_registry (client_transport c))"
proof -
  let ?m = "client_transport c"
  obtain b where ready: "metered_ready ?m" and b: "backends (link_session (m_link ?m)) (api_id_u8 Vulkan) = Some (BoxVulkanBackend b)"
    and inv: "ht_inv (vk_instances b)" "ht_inv (vk_physical_devices b)"
    and len: "length (ht_slots (vk_instances b)) \<le> i" "length (ht_slots (vk_physical_devices b)) \<le> i"
    using assms(1) by (auto simp: load_state_def load_tables_def)
  let ?I = "ht_insert KIND_INSTANCE \<lparr>InstanceState_created = True\<rparr> (vk_instances b)"
  let ?b1 = "b\<lparr>vk_instances := snd ?I\<rparr>"
  let ?D = "ht_insert KIND_PHYSICAL_DEVICE \<lparr>PhysDevState_parent = fst ?I\<rparr> (vk_physical_devices ?b1)"
  let ?b2 = "?b1\<lparr>vk_physical_devices := snd ?D\<rparr>"
  have room: "ht_room (vk_instances b)" using len assms(2) by (simp add: ht_room_def)
  obtain m1 where m1: "client_vk_create_instance metered_ops APP_API_VERSION (client_next_req_id c) (client_next_seq c) ?m = (Inr (fst ?I), m1)"
    "metered_ready m1" "backends (link_session (m_link m1)) (api_id_u8 Vulkan) = Some (BoxVulkanBackend ?b1)"
    "m_registry m1 = registry_record ''vulkan'' 32 36 (m_registry ?m)"
    by (rule load_create_instance [OF ready b, where v = APP_API_VERSION and req_id = "client_next_req_id c" and seq = "client_next_seq c"]) simp
  have live: "ht_get (vk_instances ?b1) (fst ?I) = Some \<lparr>InstanceState_created = True\<rparr>"
    using ht.insert_self [OF inv(1) room] by simp
  define c1 where "c1 = (snd (next_ids c))\<lparr>client_transport := m1\<rparr>"
  obtain m2 d where m2: "client_vk_enumerate_physical_devices metered_ops (fst ?I) (client_next_req_id c1) (client_next_seq c1) m1 = (Inr [d], m2)"
    "metered_ready m2" "backends (link_session (m_link m2)) (api_id_u8 Vulkan) = Some (BoxVulkanBackend ?b2)"
    "m_registry m2 = registry_record ''vulkan'' 36 40 (m_registry m1)"
    by (rule load_enumerate [OF m1(2,3) live, where req_id = "client_next_req_id c1" and seq = "client_next_seq c1"]) simp
  define c2 where "c2 = (snd (next_ids c1))\<lparr>client_transport := m2\<rparr>"
  have "Client_vk_create_instance metered_ops APP_API_VERSION c = (Inr (fst ?I), c1)"
    using m1(1) by (simp add: Client_vk_create_instance_def next_ids_def c1_def)
  moreover have "Client_vk_enumerate_physical_devices metered_ops (fst ?I) c1 = (Inr [d], c2)"
    using m2(1) by (simp add: Client_vk_enumerate_physical_devices_def next_ids_def c1_def c2_def)
  ultimately have rounds: "load_rounds metered_ops (Suc n) c = load_rounds metered_ops n c2" by simp
  have state: "load_state (Suc i) (client_transport c2)"
    using m2(2,3) inv len by (simp add: c2_def load_state_def load_tables_def ht_inv_insert insert_grows)
  have "m_registry (client_transport c2) = registry_run round_calls (m_registry ?m)"
    by (simp add: c2_def m1(4) m2(4) registry_run_def round_calls_def)
  from that [OF rounds state this] show ?thesis .
qed

lemma load_rounds_run:
  assumes "load_state i (client_transport c)" "i + n \<le> 2 ^ 32"
  obtains c' where "load_rounds metered_ops n c = (Inr (), c')" "metered_ready (client_transport c')"
    "m_registry (client_transport c') = registry_run (concat (replicate n round_calls)) (m_registry (client_transport c))"
  using assms
proof (induction n arbitrary: c i thesis)
  case 0
  then show ?case by (simp add: load_state_def registry_run_def)
next
  case (Suc n)
  obtain c1 where c1: "load_rounds metered_ops (Suc n) c = load_rounds metered_ops n c1"
    "load_state (Suc i) (client_transport c1)"
    "m_registry (client_transport c1) = registry_run round_calls (m_registry (client_transport c))"
    using load_round [OF Suc.prems(2)] Suc.prems(3) by auto
  obtain c' where "load_rounds metered_ops n c1 = (Inr (), c')" "metered_ready (client_transport c')"
    "m_registry (client_transport c') = registry_run (concat (replicate n round_calls)) (m_registry (client_transport c1))"
    using Suc.IH [OF _ c1(2)] Suc.prems(3) by auto
  then show ?case
    using Suc.prems(1) [of c'] c1 by (simp add: registry_run_def)
qed

subsection \<open>The whole run\<close>

text \<open>After the client has been dropped, the server's next turn finds the end of the stream and returns.\<close>

lemma server_returns:
  assumes "metered_ready m"
  shows "server_joins (Suc 0) (drop_client m) =
    server_leaves (Inr ()) (loopback_drop EndA (link_net (m_link m))) (link_session (m_link m)) (drop_client m)"
    "lb_queue (link_net (m_link (drop_client m))) EndB = []"
  using assms
  by (simp_all add: metered_turn_def drop_client_def metered_ready_def link_idle_def loopback_recv_def loopback_drop_def
      clean_close_def)

definition load_calls :: "nat \<Rightarrow> (string \<times> u64 \<times> u64) list" where
  "load_calls n = (''core'', 40, 48) # concat (replicate n round_calls)"

definition load_start :: "obs_registry \<Rightarrow> metered" where
  "load_start registry = \<lparr>m_link = link_new (session_register (BoxVulkanBackend vk_new) (session_new SESSION_ID)),
     m_registry = registry, m_served = None\<rparr>"

lemma load_start_ready: "metered_ready (load_start registry)"
  by (simp add: metered_ready_def load_start_def link_new_def loopback_new_def link_idle_def session_register_def session_new_def)

lemma run_client_run:
  assumes "n \<le> 2 ^ 32"
  obtains m where "run_client metered_ops n (load_start registry) = (Inr (), m)" "metered_ready m"
    "m_registry m = registry_run (load_calls n) registry"
proof -
  let ?s = "session_register (BoxVulkanBackend vk_new) (session_new SESSION_ID)"
  obtain m0 where m0: "connect metered_ops (load_start registry) = Inr \<lparr>client_transport = m0, client_next_req_id = 2,
       client_next_seq = 2, client_session_id = session_id ?s\<rparr>" "metered_ready m0"
    "backends (link_session (m_link m0)) = backends ?s" "m_registry m0 = registry_record ''core'' 40 48 registry"
    using load_connect [OF load_start_ready] by (auto simp: link_new_def load_start_def)
  let ?c = "\<lparr>client_transport = m0, client_next_req_id = 2, client_next_seq = 2, client_session_id = session_id ?s\<rparr>"
  have "load_state 0 (client_transport ?c)"
    using m0(2,3) by (simp add: load_state_def load_tables_def session_register_def api_defs vk_new_def ht_inv_new) (simp add: ht_new_def)
  then obtain c' where c': "load_rounds metered_ops n ?c = (Inr (), c')" "metered_ready (client_transport c')"
    "m_registry (client_transport c') = registry_run (concat (replicate n round_calls)) (m_registry m0)"
    using load_rounds_run [of 0 ?c n] assms by auto
  show ?thesis
    by (rule that [of "client_transport c'"])
      (use m0(1,4) c' in \<open>simp_all add: run_client_def load_calls_def registry_run_def\<close>)
qed

lemma drive_run:
  assumes "n \<le> 2 ^ 32"
  shows "drive n registry = (Inr (), registry_run (load_calls n) registry)"
proof -
  obtain m where m: "run_client metered_ops n (load_start registry) = (Inr (), m)" "metered_ready m"
    "m_registry m = registry_run (load_calls n) registry"
    using run_client_run [OF assms] .
  then have "drive n registry = (Inr (), m_registry (server_joins (Suc 0) (drop_client m)))"
    by (simp add: drive_def Let_def load_start_def server_returns [OF m(2)] del: server_joins.simps) (simp add: server_leaves_def)
  also have "\<dots> = (Inr (), registry_run (load_calls n) registry)"
    unfolding server_returns(1) [OF m(2)] by (simp add: server_leaves_def drop_client_def m(3))
  finally show ?thesis .
qed

subsection \<open>What the registry holds\<close>

lemma load_calls_vulkan: "filter (\<lambda>c. fst c = ''vulkan'') (load_calls n) = concat (replicate n round_calls)"
  "filter (\<lambda>c. fst c = ''core'') (load_calls n) = [(''core'', 40, 48)]"
proof -
  have "filter (\<lambda>c. fst c = ''vulkan'') (concat (replicate n round_calls)) = concat (replicate n round_calls)"
    "filter (\<lambda>c. fst c = ''core'') (concat (replicate n round_calls)) = []"
    by (induction n) (simp_all add: round_calls_def)
  then show "filter (\<lambda>c. fst c = ''vulkan'') (load_calls n) = concat (replicate n round_calls)"
    "filter (\<lambda>c. fst c = ''core'') (load_calls n) = [(''core'', 40, 48)]"
    by (simp_all add: load_calls_def)
qed

lemma load_calls_others: "api \<notin> {''core'', ''vulkan''} \<Longrightarrow> filter (\<lambda>c. fst c = api) (load_calls n) = []"
  by (auto simp: load_calls_def filter_empty_conv round_calls_def split: if_splits)

lemma stats_of_rounds:
  "stats_of (concat (replicate n round_calls)) = \<lparr>cs_calls = clamp (2 * n), cs_bytes_out = clamp (68 * n), cs_bytes_in = clamp (76 * n)\<rparr>"
  "stats_of (load_calls n) = \<lparr>cs_calls = clamp (2 * n + 1), cs_bytes_out = clamp (68 * n + 40), cs_bytes_in = clamp (76 * n + 48)\<rparr>"
proof -
  have "length (concat (replicate n round_calls)) = 2 * n"
    "(\<Sum>(_, out, _)\<leftarrow>concat (replicate n round_calls). unat out) = 68 * n"
    "(\<Sum>(_, _, inp)\<leftarrow>concat (replicate n round_calls). unat inp) = 76 * n"
    by (induction n) (simp_all add: round_calls_def)
  moreover have "unat (40 :: u64) = 40" "unat (48 :: u64) = 48" by simp_all
  ultimately show "stats_of (concat (replicate n round_calls)) =
      \<lparr>cs_calls = clamp (2 * n), cs_bytes_out = clamp (68 * n), cs_bytes_in = clamp (76 * n)\<rparr>"
    "stats_of (load_calls n) = \<lparr>cs_calls = clamp (2 * n + 1), cs_bytes_out = clamp (68 * n + 40), cs_bytes_in = clamp (76 * n + 48)\<rparr>"
    by (simp_all only: stats_of_def load_calls_def list.map sum_list.Cons list.size prod.case)
      (simp_all add: add.commute)
qed

lemma load_exact:
  assumes "n \<le> 2 ^ 32"
  shows "\<exists>registry. drive n registry_new = (Inr (), registry) \<and>
      registry_snapshot registry ''core'' = Some \<lparr>cs_calls = 1, cs_bytes_out = 40, cs_bytes_in = 48\<rparr> \<and>
      registry_snapshot registry ''vulkan'' = (if n = 0 then None else Some
        \<lparr>cs_calls = word_of_nat (2 * n), cs_bytes_out = word_of_nat (68 * n), cs_bytes_in = word_of_nat (76 * n)\<rparr>) \<and>
      (\<forall>api. api \<noteq> ''core'' \<and> api \<noteq> ''vulkan'' \<longrightarrow> registry_snapshot registry api = None) \<and>
      run_load n = \<lparr>cs_calls = word_of_nat (2 * n + 1), cs_bytes_out = word_of_nat (68 * n + 40),
        cs_bytes_in = word_of_nat (76 * n + 48)\<rparr>"
proof -
  let ?r = "registry_run (load_calls n) registry_new"
  have fits: "clamp (k * n + d) = (word_of_nat (k * n + d) :: u64)" if "k \<le> 76" "d \<le> 48" for k d
    by (rule clamp_small) (use mult_le_mono [OF that(1) assms] that(2) in simp)
  have fits0: "clamp (k * n) = (word_of_nat (k * n) :: u64)" if "k \<le> 76" for k
    using fits [OF that, of 0] by simp
  have rounds: "concat (replicate n round_calls) = [] \<longleftrightarrow> n = 0"
    by (cases n) (simp_all add: round_calls_def)
  have "run_load n = stats_of (load_calls n)"
    by (simp add: run_load_def drive_run [OF assms] registry_run_total)
  also have "\<dots> = \<lparr>cs_calls = word_of_nat (2 * n + 1), cs_bytes_out = word_of_nat (68 * n + 40),
      cs_bytes_in = word_of_nat (76 * n + 48)\<rparr>"
    unfolding stats_of_rounds by (subst (1 2 3) fits) simp_all
  finally have total: "run_load n = \<lparr>cs_calls = word_of_nat (2 * n + 1), cs_bytes_out = word_of_nat (68 * n + 40),
      cs_bytes_in = word_of_nat (76 * n + 48)\<rparr>" .
  have "stats_of [(''core'', 40, 48)] = \<lparr>cs_calls = 1, cs_bytes_out = 40, cs_bytes_in = 48\<rparr>"
    by (simp add: stats_of_def clamp_1) (simp add: clamp_def)
  then have core: "registry_snapshot ?r ''core'' = Some \<lparr>cs_calls = 1, cs_bytes_out = 40, cs_bytes_in = 48\<rparr>"
    by (simp add: registry_run_snapshot load_calls_vulkan)
  have "stats_of (concat (replicate n round_calls)) =
      \<lparr>cs_calls = word_of_nat (2 * n), cs_bytes_out = word_of_nat (68 * n), cs_bytes_in = word_of_nat (76 * n)\<rparr>"
    unfolding stats_of_rounds by (subst (1 2 3) fits0) simp_all
  then have vulkan: "registry_snapshot ?r ''vulkan'' = (if n = 0 then None else Some
      \<lparr>cs_calls = word_of_nat (2 * n), cs_bytes_out = word_of_nat (68 * n), cs_bytes_in = word_of_nat (76 * n)\<rparr>)"
    by (simp only: registry_run_snapshot load_calls_vulkan rounds Let_def)
  have others: "\<forall>api. api \<noteq> ''core'' \<and> api \<noteq> ''vulkan'' \<longrightarrow> registry_snapshot ?r api = None"
    by (simp add: registry_run_snapshot load_calls_others)
  show ?thesis
    by (rule exI [of _ ?r]) (intro conjI drive_run [OF assms] core vulkan others total)
qed

end
