(* ===== verification/Load_Threads.thy ===== *)
theory Load_Threads
  imports Threads Load_Spec
begin

section \<open>The load generator in two threads\<close>

text \<open>
  \<open>drive\<close> runs the client on the calling thread and \<open>serve_with_metrics\<close> on another, and joins it. The client's rounds
  as a program, the scheduled metered link as \<open>talk\<close>, and with both the statistics of the run in every schedule.
\<close>

subsection \<open>The client's rounds\<close>

primrec load_rounds_prog :: "nat \<Rightarrow> u32 \<Rightarrow> u64 \<Rightarrow> unit prog" where
  "load_rounds_prog 0 req_id seq = Done (Inr ())"
| "load_rounds_prog (Suc n) req_id seq =
     prog_bind (create_instance_prog APP_API_VERSION req_id seq) (\<lambda>instance.
     prog_bind (enumerate_prog instance (saturating_add req_id 1) (saturating_add seq 1)) (\<lambda>_.
     load_rounds_prog n (saturating_add (saturating_add req_id 1) 1) (saturating_add (saturating_add seq 1) 1)))"

definition load_prog :: "nat \<Rightarrow> unit prog" where
  "load_prog n = prog_bind connect_prog (\<lambda>_. load_rounds_prog n 2 2)"

lemma load_rounds_prog:
  "map_prod id client_transport (load_rounds T n c) =
   run_prog T (load_rounds_prog n (client_next_req_id c) (client_next_seq c)) (client_transport c)"
  by (induction n arbitrary: c)
    (simp_all add: Client_vk_create_instance_def Client_vk_enumerate_physical_devices_def next_ids_def create_instance_run
      enumerate_run run_prog_bind split: sum.splits prod.splits)

lemma run_client_prog: "run_client T n t = run_prog T (load_prog n) t"
  using load_rounds_prog [of T n]
  by (auto simp: run_client_def connect_run handshake_run load_prog_def run_prog_bind map_prod_def case_prod_beta Let_def
      split: sum.splits prod.splits)

subsection \<open>The metered link\<close>

lemma metered_exchanged:
  assumes "link_idle (m_link m)" "m_served m = None"
  shows "case session_handle frame (link_session (m_link m)) of
      (Inl _, s) \<Rightarrow> \<exists>m'. run_prog metered_ops (Exchange frame k) m = (Inl (ClientTransport IoUnexpectedEof), m') \<and>
        link_session (m_link m') = s \<and> m_registry m' = m_registry m
    | (Inr reply, s) \<Rightarrow> \<exists>m'. run_prog metered_ops (Exchange frame k) m = run_prog metered_ops (k reply) m' \<and>
        link_idle (m_link m') \<and> m_served m' = None \<and>
        (link_session (m_link m'), m_registry m') = sv_sent metered_service frame reply (s, m_registry m)"
  using assms
  by (auto simp: metered_ops_def metered_send_def metered_recv_def metered_receive_def link_send_def loopback_send_def
      loopback_recv_def loopback_drop_def metered_turn_def server_leaves_def link_idle_def metered_service_def frame_api_def
      split: sum.splits prod.splits option.splits)

lemma run_prog_metered:
  assumes "link_idle (m_link m)" "m_served m = None"
  shows "talk metered_service p (link_session (m_link m), m_registry m) =
    (let (r, m) = run_prog metered_ops p m in (r, (link_session (m_link m), m_registry m)))"
  using assms
proof (induction p arbitrary: m)
  case (Exchange frame k)
  obtain r s where h: "session_handle frame (link_session (m_link m)) = (r, s)" by fastforce
  note step = metered_exchanged [OF Exchange.prems, of frame k, unfolded h prod.case]
  show ?case
  proof (cases r)
    case (Inl e)
    then show ?thesis using step h by (auto simp: metered_service_def)
  next
    case (Inr reply)
    then obtain m' where "run_prog metered_ops (Exchange frame k) m = run_prog metered_ops (k reply) m'"
      "link_idle (m_link m')" "m_served m' = None"
      "(link_session (m_link m'), m_registry m') = sv_sent metered_service frame reply (s, m_registry m)"
      using step by auto
    then show ?thesis using Exchange.IH [of "k reply" m'] h Inr by (simp add: metered_service_def)
  qed
qed simp

subsection \<open>How many steps a run has\<close>

lemma steps_left_bind:
  "talk V p s = (Inr a, s') \<Longrightarrow> steps_left V (prog_bind p f) s + 6 = steps_left V p s + steps_left V (f a) s'"
proof (induction p arbitrary: s)
  case (Exchange frame k)
  obtain reply s1 where "sv_handle V frame s = (Inr reply, s1)" "talk V (k reply) (sv_sent V frame reply s1) = (Inr a, s')"
    using Exchange.prems by (auto split: sum.splits prod.splits)
  then show ?case using Exchange.IH [of "k reply" "sv_sent V frame reply s1"] by simp
qed simp

lemma steps_left_exchange:
  "talk V (exchange_prog opc expected body req_id seq f) s = (Inr a, s') \<Longrightarrow>
   steps_left V (exchange_prog opc expected body req_id seq f) s = 10"
  by (auto simp: exchange_prog_def split: sum.splits prod.splits)

lemma load_rounds_steps:
  "talk V (load_rounds_prog n req_id seq) s = (Inr (), s') \<Longrightarrow> steps_left V (load_rounds_prog n req_id seq) s = 8 * n + 6"
proof (induction n arbitrary: req_id seq s)
  case (Suc n)
  let ?create = "create_instance_prog APP_API_VERSION req_id seq"
  let ?enumerate = "\<lambda>h. enumerate_prog h (saturating_add req_id 1) (saturating_add seq 1)"
  let ?rest = "load_rounds_prog n (saturating_add (saturating_add req_id 1) 1) (saturating_add (saturating_add seq 1) 1)"
  obtain h s1 where h: "talk V ?create s = (Inr h, s1)"
    and more: "talk V (prog_bind (?enumerate h) (\<lambda>_. ?rest)) s1 = (Inr (), s')"
    using Suc.prems by (auto simp: talk_bind split: sum.splits prod.splits)
  obtain d s2 where d: "talk V (?enumerate h) s1 = (Inr d, s2)" and rest: "talk V ?rest s2 = (Inr (), s')"
    using more by (auto simp: talk_bind split: sum.splits prod.splits)
  show ?case
    using steps_left_bind [OF h, of "\<lambda>h. prog_bind (?enumerate h) (\<lambda>_. ?rest)"] steps_left_bind [OF d, of "\<lambda>_. ?rest"]
      Suc.IH [OF rest] h d
    by (simp add: create_instance_prog_def enumerate_prog_def steps_left_exchange)
qed simp

lemma load_steps:
  assumes "talk V (load_prog n) s = (Inr (), s')"
  shows "steps_left V (load_prog n) s = 8 * n + 10"
proof -
  obtain sid s1 where c: "talk V connect_prog s = (Inr sid, s1)" and rest: "talk V (load_rounds_prog n 2 2) s1 = (Inr (), s')"
    using assms by (auto simp: load_prog_def talk_bind split: sum.splits prod.splits)
  show ?thesis
    using steps_left_bind [OF c, of "\<lambda>_. load_rounds_prog n 2 2"] load_rounds_steps [OF rest] c
    by (simp add: load_prog_def connect_prog_def steps_left_exchange)
qed

subsection \<open>The run\<close>

definition load_session :: session where
  "load_session = session_register (BoxVulkanBackend vk_new) (session_new SESSION_ID)"

definition load_threads :: "nat \<Rightarrow> (unit, session \<times> obs_registry) threads" where
  "load_threads n = threads_start (load_prog n) (load_session, registry_new)"

lemma load_talk:
  assumes "n \<le> 2 ^ 32"
  obtains s where
    "talk metered_service (load_prog n) (load_session, registry_new) =
       (Inr (), (s, snd (drive n registry_new)))"
proof -
  let ?m = "load_start registry_new"
  obtain m where m: "run_client metered_ops n ?m = (Inr (), m)" "m_registry m = registry_run (load_calls n) registry_new"
    using run_client_run [OF assms] .
  have "link_idle (m_link ?m)" "m_served ?m = None"
    using load_start_ready by (simp_all add: metered_ready_def)
  from run_prog_metered [OF this, of "load_prog n"] show ?thesis
    using that m by (simp add: run_client_prog drive_run [OF assms] load_start_def link_new_def load_session_def)
qed

text \<open>C33. The load run of any number of rounds up to \<open>2 ^ 32\<close>, in any interleaving of the client's thread and the server's: it
  never gets stuck and ends after eight steps per round and ten more, the handshake and every call return, and the server
  leaves its loop cleanly once the client is gone. The statistics it reports are exact: one core call, two Vulkan calls per
  round, and the bytes of the request and reply frames, with no entry for any other API.\<close>

theorem loadtest_exact:
  assumes "n \<le> 2 ^ 32" "(thread_step metered_service ^^ k) (load_threads n) y"
  shows "\<exists>registry. drive n registry_new = (Inr (), registry) \<and>
      (if k < 8 * n + 10 then \<exists>z. thread_step metered_service y z
       else k = 8 * n + 10 \<and> (\<exists>s up down. y = Threads (Gone (Inr ())) (Left (Inr ()) (s, registry)) up down)) \<and>
      registry_snapshot registry ''core'' = Some \<lparr>cs_calls = 1, cs_bytes_out = 40, cs_bytes_in = 48\<rparr> \<and>
      registry_snapshot registry ''vulkan'' = (if n = 0 then None else Some
        \<lparr>cs_calls = word_of_nat (2 * n), cs_bytes_out = word_of_nat (68 * n), cs_bytes_in = word_of_nat (76 * n)\<rparr>) \<and>
      (\<forall>api. api \<noteq> ''core'' \<and> api \<noteq> ''vulkan'' \<longrightarrow> registry_snapshot registry api = None) \<and>
      run_load n = \<lparr>cs_calls = word_of_nat (2 * n + 1), cs_bytes_out = word_of_nat (68 * n + 40),
        cs_bytes_in = word_of_nat (76 * n + 48)\<rparr>"
proof -
  obtain s where talk: "talk metered_service (load_prog n)
      (load_session, registry_new) = (Inr (), (s, snd (drive n registry_new)))"
    using load_talk [OF assms(1)] .
  note run = any_schedule [OF assms(2) [unfolded load_threads_def], unfolded load_steps [OF talk] talk]
  have "if k < 8 * n + 10 then \<exists>z. thread_step metered_service y z
       else k = 8 * n + 10 \<and> (\<exists>s up down. y = Threads (Gone (Inr ())) (Left (Inr ()) (s, snd (drive n registry_new))) up down)"
  proof (cases "k < 8 * n + 10")
    case True
    then show ?thesis using run(3) by simp
  next
    case False
    then have "k = 8 * n + 10" using run(1) by simp
    then show ?thesis using run(2) by (auto simp: threads_done_def)
  qed
  moreover obtain registry where "drive n registry_new = (Inr (), registry)" using drive_run [OF assms(1)] by blast
  ultimately show ?thesis using load_exact [OF assms(1)] by auto
qed

theorem loadtest_exact_witness:
  "\<exists>y. (thread_step metered_service ^^ 34) (load_threads 3) y \<and>
     (\<exists>s registry up down. y = Threads (Gone (Inr ())) (Left (Inr ()) (s, registry)) up down \<and>
        registry_snapshot registry ''core'' = Some \<lparr>cs_calls = 1, cs_bytes_out = 40, cs_bytes_in = 48\<rparr>)"
proof -
  obtain s where talk: "talk metered_service (load_prog 3)
      (load_session, registry_new) = (Inr (), (s, snd (drive 3 registry_new)))"
    using load_talk [of 3] by auto
  obtain y where y: "(thread_step metered_service ^^ 34) (load_threads 3) y"
    using some_schedule [of 34 metered_service "load_prog 3"
      "(load_session, registry_new)"] load_steps [OF talk]
    by (auto simp: load_threads_def)
  obtain s registry up down where "y = Threads (Gone (Inr ())) (Left (Inr ()) (s, registry)) up down"
    "registry_snapshot registry ''core'' = Some \<lparr>cs_calls = 1, cs_bytes_out = 40, cs_bytes_in = 48\<rparr>"
    using loadtest_exact [OF _ y] by auto
  then show ?thesis using y by blast
qed

end
