(* ===== verification/Harness.thy ===== *)
theory Harness
  imports Protocol Vk_Wire Gl_Wire Cuda_Wire Hip_Wire Cl_Wire L0_Wire Video_Wire Wgpu_Wire Optix_Wire Sycl_Wire Amf_Wire Text_Format
begin

section \<open>The fuzzer and the codec benchmark\<close>

text \<open>
  \<open>crates/graftx-fuzz/src/main.rs\<close>: the pseudo-random buffers and the decoders they are fed to. The source drops the
  results of the decoders; here \<open>exercise\<close> keeps whether each of them accepted the buffer.
  \<open>crates/graftx-bench/src/main.rs\<close>: the round trip that is timed and its loop; \<open>Metrics\<close> and \<open>Mains\<close> add the clock.
\<close>

subsection \<open>The fuzzer\<close>

definition DEFAULT_ITERS :: nat where
  "DEFAULT_ITERS = 100000"

definition MAX_BUF_LEN :: nat where
  "MAX_BUF_LEN = 64"

record Lcg =
  lcg_state :: u64

definition lcg_new :: "u64 \<Rightarrow> Lcg" where
  "lcg_new seed = \<lparr>lcg_state = seed\<rparr>"

definition next_u64 :: "Lcg \<Rightarrow> u64 \<times> Lcg" where
  "next_u64 self =
     (let state = lcg_state self * 6364136223846793005 + 1442695040888963407 in (state, self\<lparr>lcg_state := state\<rparr>))"

definition next_below :: "nat \<Rightarrow> Lcg \<Rightarrow> nat \<times> Lcg" where
  "next_below bound self = (let (x, self) = next_u64 self in (unat (x mod word_of_nat bound), self))"

function fill_loop :: "nat \<Rightarrow> Lcg \<Rightarrow> bytes \<Rightarrow> bytes \<times> Lcg" where
  "fill_loop len rng buf =
     (if length buf < len then
        (let (x, rng) = next_u64 rng;
             word = u64_to_le_bytes x;
             n = min (len - length buf) (length word)
         in fill_loop len rng (buf @ take n word))
      else (buf, rng))"
  by pat_completeness auto
termination
  by (relation "measure (\<lambda>(len, _, buf). len - length buf)") auto

declare fill_loop.simps [simp del]

definition fill_buf :: "Lcg \<Rightarrow> bytes \<times> Lcg" where
  "fill_buf rng = (let (len, rng) = next_below (MAX_BUF_LEN + 1) rng in fill_loop len rng [])"

definition accepts_input :: "'a proto_result \<Rightarrow> bool" where
  "accepts_input r = (case r of Inl _ \<Rightarrow> False | Inr _ \<Rightarrow> True)"

definition exercise :: "bytes \<Rightarrow> bool list" where
  "exercise buf =
    [accepts_input (decode_frame buf), accepts_input (hello_decode buf),
     accepts_input (welcome_decode buf), accepts_input (vk_CreateInstanceRequest_decode buf),
     accepts_input (vk_CreateInstanceResponse_decode buf), accepts_input (vk_EnumeratePhysicalDevicesRequest_decode buf),
     accepts_input (vk_EnumeratePhysicalDevicesResponse_decode buf), accepts_input (vk_CreateDeviceRequest_decode buf),
     accepts_input (vk_CreateDeviceResponse_decode buf), accepts_input (vk_GetDeviceQueueRequest_decode buf),
     accepts_input (vk_GetDeviceQueueResponse_decode buf), accepts_input (vk_AllocateMemoryRequest_decode buf),
     accepts_input (vk_AllocateMemoryResponse_decode buf), accepts_input (vk_CreateBufferRequest_decode buf),
     accepts_input (vk_CreateBufferResponse_decode buf), accepts_input (vk_BindBufferMemoryRequest_decode buf),
     accepts_input (vk_CreateCommandPoolRequest_decode buf), accepts_input (vk_CreateCommandPoolResponse_decode buf),
     accepts_input (vk_AllocateCommandBufferRequest_decode buf), accepts_input (vk_AllocateCommandBufferResponse_decode buf),
     accepts_input (vk_QueueSubmitRequest_decode buf), accepts_input (vk_CmdCopyBufferRequest_decode buf),
     accepts_input (vk_CmdDrawRequest_decode buf), accepts_input (vk_DestroyBufferRequest_decode buf),
     accepts_input (vk_FreeMemoryRequest_decode buf), accepts_input (vk_DestroyCommandPoolRequest_decode buf),
     accepts_input (gl_CreateContextResponse_decode buf), accepts_input (gl_MakeCurrentRequest_decode buf),
     accepts_input (gl_GenBufferRequest_decode buf), accepts_input (gl_GenBufferResponse_decode buf),
     accepts_input (cuda_CtxCreateRequest_decode buf), accepts_input (cuda_CtxCreateResponse_decode buf),
     accepts_input (cuda_MemAllocRequest_decode buf), accepts_input (cuda_MemAllocResponse_decode buf),
     accepts_input (cuda_MemFreeRequest_decode buf), accepts_input (hip_MallocRequest_decode buf),
     accepts_input (hip_MallocResponse_decode buf), accepts_input (hip_FreeRequest_decode buf),
     accepts_input (hip_StreamCreateResponse_decode buf), accepts_input (cl_CreateContextResponse_decode buf),
     accepts_input (cl_CreateBufferRequest_decode buf), accepts_input (cl_CreateBufferResponse_decode buf),
     accepts_input (cl_ReleaseBufferRequest_decode buf), accepts_input (l0_ContextCreateResponse_decode buf),
     accepts_input (l0_MemAllocDeviceRequest_decode buf), accepts_input (l0_MemAllocDeviceResponse_decode buf),
     accepts_input (l0_MemFreeRequest_decode buf), accepts_input (video_CreateDecodeSessionRequest_decode buf),
     accepts_input (video_CreateDecodeSessionResponse_decode buf), accepts_input (video_DecodeFrameRequest_decode buf),
     accepts_input (video_DecodeFrameResponse_decode buf), accepts_input (video_DestroySessionRequest_decode buf),
     accepts_input (wgpu_RequestDeviceResponse_decode buf), accepts_input (wgpu_CreateBufferRequest_decode buf),
     accepts_input (wgpu_CreateBufferResponse_decode buf), accepts_input (wgpu_DestroyBufferRequest_decode buf),
     accepts_input (optix_ContextCreateResponse_decode buf), accepts_input (optix_PipelineCreateRequest_decode buf),
     accepts_input (optix_PipelineCreateResponse_decode buf), accepts_input (optix_DestroyRequest_decode buf),
     accepts_input (sycl_QueueCreateResponse_decode buf), accepts_input (sycl_MallocDeviceRequest_decode buf),
     accepts_input (sycl_MallocDeviceResponse_decode buf), accepts_input (sycl_FreeRequest_decode buf),
     accepts_input (amf_CreateEncoderRequest_decode buf), accepts_input (amf_CreateEncoderResponse_decode buf),
     accepts_input (amf_EncodeFrameRequest_decode buf), accepts_input (amf_EncodeFrameResponse_decode buf),
     accepts_input (amf_DestroyEncoderRequest_decode buf)]"

text \<open>The loop of \<open>fuzz_iter\<close>, with the buffers it exercised and what came of them.\<close>

primrec fuzz_loop :: "nat \<Rightarrow> Lcg \<Rightarrow> (bytes \<times> bool list) list" where
  "fuzz_loop 0 rng = []"
| "fuzz_loop (Suc n) rng = (let (buf, rng) = fill_buf rng in (buf, exercise buf) # fuzz_loop n rng)"

definition fuzz_iter :: "u64 \<Rightarrow> nat \<Rightarrow> nat \<times> (bytes \<times> bool list) list" where
  "fuzz_iter seed n = (n, fuzz_loop n (lcg_new seed))"

definition parse_iters :: "string option \<Rightarrow> nat option" where
  "parse_iters arg = (case arg of Some s \<Rightarrow> parse_usize s | None \<Rightarrow> Some DEFAULT_ITERS)"

text \<open>Every buffer has the length that was drawn, at most \<open>MAX_BUF_LEN\<close>.\<close>

lemma fill_loop_length: "length buf \<le> len \<Longrightarrow> length (fst (fill_loop len rng buf)) = len"
proof (induction len rng buf rule: fill_loop.induct)
  case (1 len rng buf)
  obtain x rng' where x: "next_u64 rng = (x, rng')" by fastforce
  let ?buf = "buf @ take (min (len - length buf) 8) (u64_to_le_bytes x)"
  have "length (fst (fill_loop len rng' ?buf)) = len" if "length buf < len"
    using 1(1) [OF that x [symmetric] refl refl] that by simp
  then show ?case
    using 1(2) x by (subst fill_loop.simps) (simp add: Let_def)
qed

lemma fill_buf_length: "length (fst (fill_buf rng)) \<le> MAX_BUF_LEN"
proof -
  obtain x rng' where x: "next_u64 rng = (x, rng')" by fastforce
  have "unat (x mod 65) < 65" by (simp add: unat_mod)
  then show ?thesis
    using fill_loop_length [of "[]" "unat (x mod 65)" rng']
    by (simp add: fill_buf_def next_below_def MAX_BUF_LEN_def x)
qed

lemma fuzz_iter_inputs:
  "length (snd (fuzz_iter seed n)) = fst (fuzz_iter seed n) \<and> list_all (\<lambda>(buf, _). length buf \<le> MAX_BUF_LEN) (snd (fuzz_iter seed n))"
proof -
  have "length (fuzz_loop n rng) = n \<and> list_all (\<lambda>(buf, _). length buf \<le> MAX_BUF_LEN) (fuzz_loop n rng)" for rng
  proof (induction n arbitrary: rng)
    case (Suc n)
    then show ?case using fill_buf_length [of rng] by (simp add: case_prod_unfold Let_def)
  qed simp
  then show ?thesis by (simp add: fuzz_iter_def)
qed

subsection \<open>The benchmark\<close>

definition DEFAULT_ITERATIONS :: nat where
  "DEFAULT_ITERATIONS = 100000"

definition representative_frame :: vk_CreateInstanceRequest where
  "representative_frame = \<lparr>vk_CreateInstanceRequest_app_api_version = 0x00403000\<rparr>"

definition round_trip :: "vk_CreateInstanceRequest \<Rightarrow> vk_CreateInstanceRequest proto_result" where
  "round_trip frame = (let buf = vk_CreateInstanceRequest_encode frame [] in vk_CreateInstanceRequest_decode buf)"

primrec bench_loop :: "nat \<Rightarrow> vk_CreateInstanceRequest \<Rightarrow> unit proto_result" where
  "bench_loop 0 frame = Inr ()"
| "bench_loop (Suc n) frame = (case round_trip frame of Inl e \<Rightarrow> Inl e | Inr decoded \<Rightarrow> bench_loop n frame)"

definition parse_iterations :: "string option \<Rightarrow> nat \<times> bool" where
  "parse_iterations arg =
     (case arg of
        Some raw \<Rightarrow> (case parse_usize raw of Some n \<Rightarrow> (n, False) | None \<Rightarrow> (DEFAULT_ITERATIONS, True))
      | None \<Rightarrow> (DEFAULT_ITERATIONS, False))"

lemma round_trip_same: "round_trip frame = Inr frame"
  by (simp add: round_trip_def vk_CreateInstanceRequest_body.decode_roundtrip)

lemma bench_loop_succeeds: "bench_loop n frame = Inr ()"
  by (induction n) (simp_all add: round_trip_same)

end
