(* ===== verification/Metrics.thy ===== *)
theory Metrics
  imports Complex_Main Harness Load_Test
begin

section \<open>Clocks and rates\<close>

text \<open>
  \<open>crates/graftx-obs/src/timer.rs\<close>, and what \<open>graftx-bench\<close> and \<open>graftx-loadtest\<close> compute from it. The clock is a
  parameter: a reading in nanoseconds and the clock afterwards. An \<open>f64\<close> is a finite number, given by the rational it
  stands for, an infinity or not a number; dividing by zero gives one of the latter two. The metrics divide counts below
  \<open>2 ^ 128\<close>, so their finite values stay among the normal numbers, where a conversion, a product or a quotient is the
  exact value rounded to 53 significant bits, a tie to the even neighbour; a zero is the positive one.
\<close>

subsection \<open>Timers\<close>

type_synonym 'c clock = "'c \<Rightarrow> nat \<times> 'c"

record Timer =
  timer_start :: nat

definition timer_start_now :: "'c clock \<Rightarrow> 'c \<Rightarrow> Timer \<times> 'c" where
  "timer_start_now clock c = (let (t, c) = clock c in (\<lparr>timer_start = t\<rparr>, c))"

definition timer_elapsed :: "'c clock \<Rightarrow> Timer \<Rightarrow> 'c \<Rightarrow> nat \<times> 'c" where
  "timer_elapsed clock self c = (let (t, c) = clock c in (t - timer_start self, c))"

definition time_call :: "'c clock \<Rightarrow> (unit \<Rightarrow> 'a) \<Rightarrow> 'c \<Rightarrow> ('a \<times> nat) \<times> 'c" where
  "time_call clock f c =
     (let (timer, c) = timer_start_now clock c;
          v = f ();
          (d, c) = timer_elapsed clock timer c
      in ((v, d), c))"

subsection \<open>Binary floating point\<close>

fun bit_count :: "nat \<Rightarrow> nat" where
  "bit_count n = (if n = 0 then 0 else Suc (bit_count (n div 2)))"

declare bit_count.simps [simp del]

text \<open>The exponent of the leading bit of a positive number.\<close>

definition leading_exp :: "rat \<Rightarrow> int" where
  "leading_exp q =
     (let (n, d) = quotient_of q; e = int (bit_count (nat n)) - int (bit_count (nat d))
      in if 2 powi e \<le> q then e else e - 1)"

definition round_even :: "rat \<Rightarrow> int" where
  "round_even x =
     (let k = \<lfloor>x\<rfloor>; r = x - of_int k
      in if r < 1 / 2 then k else if 1 / 2 < r then k + 1 else if even k then k else k + 1)"

definition round_f64 :: "rat \<Rightarrow> rat" where
  "round_f64 q = (if q = 0 then 0 else let u = 2 powi (leading_exp \<bar>q\<bar> - 52) in of_int (round_even (q / u)) * u)"

text \<open>The argument of \<open>Infinite\<close> tells the negative infinity.\<close>

datatype f64 = Finite rat | Infinite bool | NotANumber

definition f64_of_nat :: "nat \<Rightarrow> f64" where
  "f64_of_nat n = Finite (round_f64 (of_nat n))"

fun f64_mul :: "f64 \<Rightarrow> f64 \<Rightarrow> f64" where
  "f64_mul (Finite x) (Finite y) = Finite (round_f64 (x * y))"
| "f64_mul (Finite x) (Infinite t) = (if x = 0 then NotANumber else Infinite ((x < 0) \<noteq> t))"
| "f64_mul (Infinite s) (Finite y) = (if y = 0 then NotANumber else Infinite (s \<noteq> (y < 0)))"
| "f64_mul (Infinite s) (Infinite t) = Infinite (s \<noteq> t)"
| "f64_mul _ _ = NotANumber"

fun f64_div :: "f64 \<Rightarrow> f64 \<Rightarrow> f64" where
  "f64_div (Finite x) (Finite y) =
     (if y \<noteq> 0 then Finite (round_f64 (x / y)) else if x = 0 then NotANumber else Infinite (x < 0))"
| "f64_div (Finite x) (Infinite t) = Finite 0"
| "f64_div (Infinite s) (Finite y) = Infinite (s \<noteq> (y < 0))"
| "f64_div _ _ = NotANumber"

subsection \<open>The metrics\<close>

definition NANOS_PER_SEC :: f64 where
  "NANOS_PER_SEC = Finite 1000000000"

record BenchReport =
  bench_iterations :: nat
  bench_elapsed_nanos :: nat

definition nanos_per_op :: "BenchReport \<Rightarrow> f64" where
  "nanos_per_op self =
     (if bench_iterations self = 0 then Finite 0
      else f64_div (f64_of_nat (bench_elapsed_nanos self)) (f64_of_nat (bench_iterations self)))"

definition frames_per_sec :: "BenchReport \<Rightarrow> f64" where
  "frames_per_sec self =
     (if bench_elapsed_nanos self = 0 then Finite 0
      else f64_div (f64_mul (f64_of_nat (bench_iterations self)) NANOS_PER_SEC) (f64_of_nat (bench_elapsed_nanos self)))"

record LoadReport =
  load_registry :: obs_registry
  load_total :: call_stats
  load_elapsed :: nat

definition ops_per_sec :: "LoadReport \<Rightarrow> f64" where
  "ops_per_sec self =
     (let nanos = load_elapsed self in
      if nanos = 0 then Finite 0
      else f64_div (f64_mul (f64_of_nat (unat (cs_calls (load_total self)))) NANOS_PER_SEC) (f64_of_nat nanos))"

subsection \<open>How exact they are\<close>

lemma bit_count_bounds: "0 < n \<Longrightarrow> 2 ^ (bit_count n - 1) \<le> n \<and> n < 2 ^ bit_count n \<and> 0 < bit_count n"
proof (induction n rule: bit_count.induct)
  case (1 n)
  show ?case
  proof (cases "n div 2 = 0")
    case True
    then have "n = 1" using 1(2) by linarith
    then show ?thesis by (simp add: bit_count.simps)
  next
    case False
    then have "2 ^ (bit_count (n div 2) - 1) \<le> n div 2 \<and> n div 2 < 2 ^ bit_count (n div 2) \<and> 0 < bit_count (n div 2)"
      using 1 by simp
    moreover then obtain k where "bit_count (n div 2) = Suc k" by (metis gr0_implies_Suc)
    ultimately have "2 ^ k \<le> n div 2" "n div 2 < 2 ^ Suc k" "bit_count n = Suc (Suc k)"
      using 1(2) by (simp_all add: bit_count.simps [of n])
    then show ?thesis by simp linarith
  qed
qed

lemma leading_exp_bounds:
  assumes "0 < q"
  shows "2 powi leading_exp q \<le> q" "q < 2 powi (leading_exp q + 1)"
proof -
  obtain n d where q: "quotient_of q = (n, d)" by fastforce
  then have d: "0 < d" and qd: "q = of_int n / of_int d"
    by (simp_all add: quotient_of_denom_pos quotient_of_div)
  then have n: "0 < n" using assms by (simp add: zero_less_divide_iff)
  let ?b = "bit_count (nat n)" and ?c = "bit_count (nat d)"
  have nb: "2 ^ (?b - 1) \<le> nat n" "nat n < 2 ^ ?b" "0 < ?b" and dc: "2 ^ (?c - 1) \<le> nat d" "nat d < 2 ^ ?c" "0 < ?c"
    using bit_count_bounds [of "nat n"] bit_count_bounds [of "nat d"] n d by simp_all
  have below: "(2 :: rat) ^ k \<le> of_int m" if "2 ^ k \<le> nat m" "0 < m" for k m
  proof -
    have "(2 :: int) ^ k \<le> m" using that by (simp add: le_nat_iff)
    then have "(of_int (2 ^ k) :: rat) \<le> of_int m" by (simp only: of_int_le_iff)
    then show ?thesis by simp
  qed
  have above: "of_int m < (2 :: rat) ^ k" if "nat m < 2 ^ k" "0 < m" for k m
  proof -
    have "m < (2 :: int) ^ k" using that by (simp add: nat_less_iff)
    then have "(of_int m :: rat) < of_int (2 ^ k)" by (simp only: of_int_less_iff)
    then show ?thesis by simp
  qed
  have n': "(2 :: rat) ^ (?b - 1) \<le> of_int n" "of_int n < (2 :: rat) ^ ?b"
    using below [OF nb(1) n] above [OF nb(2) n] .
  have d': "(2 :: rat) ^ (?c - 1) \<le> of_int d" "of_int d < (2 :: rat) ^ ?c"
    using below [OF dc(1) d] above [OF dc(2) d] .
  have "2 powi (int ?b - int ?c - 1) \<le> q" "q < 2 powi (int ?b - int ?c + 1)"
  proof -
    obtain b c where b: "?b = Suc b" and c: "?c = Suc c"
      using nb(3) dc(3) by (metis gr0_implies_Suc)
    have pow: "2 powi (int i - int j) = (2 :: rat) ^ i / 2 ^ j" for i j
      by (simp add: power_int_diff)
    have low: "2 powi (int ?b - int ?c - 1) = (2 :: rat) ^ b / 2 ^ ?c"
      using pow [of b "?c"] b by simp
    have high: "2 powi (int ?b - int ?c + 1) = (2 :: rat) ^ ?b / 2 ^ c"
      using pow [of "?b" c] c by simp
    have "(2 :: rat) ^ b / 2 ^ ?c \<le> of_int n / of_int d"
      using n' d' d b n by (intro frac_le) simp_all
    moreover have "of_int n / of_int d < (2 :: rat) ^ ?b / 2 ^ c"
      using n' d' d c n by (intro frac_less) simp_all
    ultimately show "2 powi (int ?b - int ?c - 1) \<le> q" "q < 2 powi (int ?b - int ?c + 1)"
      by (simp_all add: low high qd)
  qed
  then show "2 powi leading_exp q \<le> q" "q < 2 powi (leading_exp q + 1)"
    by (auto simp: leading_exp_def q Let_def)
qed

lemma round_even_near: "\<bar>of_int (round_even x) - x\<bar> \<le> 1 / 2"
proof -
  have "of_int \<lfloor>x\<rfloor> \<le> x" "x < of_int \<lfloor>x\<rfloor> + 1" by linarith+
  then show ?thesis by (auto simp: round_even_def Let_def abs_le_iff)
qed

text \<open>Rounding changes a number by at most one part in \<open>2 ^ 53\<close>; \<open>near k y x\<close> allows \<open>k\<close> parts.\<close>

definition ulp :: rat where
  "ulp = 1 / 2 ^ 53"

definition near :: "rat \<Rightarrow> rat \<Rightarrow> rat \<Rightarrow> bool" where
  "near k y x \<longleftrightarrow> x * (1 - k * ulp) \<le> y \<and> y \<le> x * (1 + k * ulp)"

lemma ulp_small: "0 < ulp" "ulp \<le> 1 / 64"
  by (simp_all add: ulp_def)

lemma near_abs: "near k y x \<longleftrightarrow> \<bar>y - x\<bar> \<le> x * k * ulp"
  by (auto simp: near_def abs_le_iff algebra_simps)

lemma round_f64_near:
  assumes "0 \<le> q"
  shows "near 1 (round_f64 q) q"
proof (cases "q = 0")
  case True
  then show ?thesis by (simp add: near_abs round_f64_def)
next
  case False
  then have pos: "0 < q" using assms by simp
  let ?u = "2 powi (leading_exp q - 52) :: rat"
  have u: "0 < ?u" by simp
  have "round_f64 q - q = (of_int (round_even (q / ?u)) - q / ?u) * ?u"
    using u pos by (simp add: round_f64_def Let_def field_simps)
  then have "\<bar>round_f64 q - q\<bar> = \<bar>of_int (round_even (q / ?u)) - q / ?u\<bar> * ?u"
    by (simp add: abs_mult)
  also have "\<dots> \<le> 1 / 2 * ?u"
    using round_even_near [of "q / ?u"] u by (intro mult_right_mono) simp_all
  also have "\<dots> = 2 powi leading_exp q / 2 ^ 53"
    by (simp add: power_int_diff)
  also have "\<dots> \<le> q / 2 ^ 53"
    using leading_exp_bounds(1) [OF pos] by (simp add: divide_right_mono)
  finally show ?thesis by (simp add: near_abs ulp_def)
qed

text \<open>Errors add up, with a little to spare.\<close>

lemma near_scale: "near k y x \<Longrightarrow> 0 \<le> c \<Longrightarrow> near k (y * c) (x * c)"
  using mult_right_mono [of "x * (1 - k * ulp)" y c] mult_right_mono [of y "x * (1 + k * ulp)" c]
  by (simp add: near_def mult.assoc mult.commute mult.left_commute)

lemma near_nonneg:
  assumes "near k y x" "0 \<le> x" "0 \<le> k" "k \<le> 8"
  shows "0 \<le> y"
proof -
  have "k * ulp \<le> 8 * (1 / 64)" using assms ulp_small by (intro mult_mono) simp_all
  then have "0 \<le> x * (1 - k * ulp)" using assms(2) by simp
  then show ?thesis using assms(1) by (simp add: near_def)
qed

lemma ulp_product:
  assumes "0 \<le> j" "j \<le> 8" "0 \<le> k" "k \<le> 8"
  shows "0 \<le> j * k * ulp * ulp" "j * k * ulp * ulp \<le> ulp" "k * ulp \<le> 1 / 8"
proof -
  have "j * k \<le> 8 * 8" using assms by (intro mult_mono) simp_all
  then have "j * k * ulp \<le> 64 * (1 / 64)" using assms ulp_small by (intro mult_mono) simp_all
  then have "j * k * ulp * ulp \<le> 1 * ulp" using ulp_small by (intro mult_right_mono) simp_all
  then show "j * k * ulp * ulp \<le> ulp" by simp
  show "0 \<le> j * k * ulp * ulp" using assms ulp_small by simp
  have "k * ulp \<le> 8 * (1 / 64)" using assms ulp_small by (intro mult_mono) simp_all
  then show "k * ulp \<le> 1 / 8" by simp
qed

lemma near_trans:
  assumes "near j a x" "near k b a" "0 \<le> x" "0 \<le> j" "j \<le> 8" "0 \<le> k" "k \<le> 8"
  shows "near (j + k + 1) b x"
proof -
  note small = ulp_product [OF assms(4-7)] ulp_small
  have "x * (1 - j * ulp) * (1 - k * ulp) \<le> a * (1 - k * ulp)" "a * (1 + k * ulp) \<le> x * (1 + j * ulp) * (1 + k * ulp)"
    using assms small by (intro mult_right_mono; simp add: near_def)+
  then have b: "x * ((1 - j * ulp) * (1 - k * ulp)) \<le> b" "b \<le> x * ((1 + j * ulp) * (1 + k * ulp))"
    using assms(2) by (simp_all add: near_def mult.assoc)
  have "(1 - j * ulp) * (1 - k * ulp) = 1 - (j + k) * ulp + j * k * ulp * ulp"
    "(1 + j * ulp) * (1 + k * ulp) = 1 + (j + k) * ulp + j * k * ulp * ulp"
    by (simp_all add: algebra_simps)
  then have "1 - (j + k + 1) * ulp \<le> (1 - j * ulp) * (1 - k * ulp)" "(1 + j * ulp) * (1 + k * ulp) \<le> 1 + (j + k + 1) * ulp"
    using small by (simp_all add: algebra_simps)
  then have "x * (1 - (j + k + 1) * ulp) \<le> x * ((1 - j * ulp) * (1 - k * ulp))"
    "x * ((1 + j * ulp) * (1 + k * ulp)) \<le> x * (1 + (j + k + 1) * ulp)"
    using assms(3) by (simp_all add: mult_left_mono)
  then show ?thesis using b by (simp add: near_def)
qed

text \<open>Dividing by an approximation is dividing by the number and then approximating.\<close>

lemma near_inverse:
  assumes "near 1 b y" "0 < y"
  shows "0 < b" "near 2 (1 / b) (1 / y)"
proof -
  have b: "y * (1 - ulp) \<le> b" "b \<le> y * (1 + ulp)" using assms by (simp_all add: near_def)
  have "0 < y * (1 - ulp)" using assms(2) ulp_small by simp
  then show pos: "0 < b" using b(1) by simp
  have "b * (1 - 2 * ulp) \<le> y * (1 + ulp) * (1 - 2 * ulp)"
    using b(2) ulp_small by (intro mult_right_mono) simp_all
  also have "\<dots> = y * ((1 + ulp) * (1 - 2 * ulp))" by (simp add: mult.assoc)
  also have "\<dots> \<le> y * 1" using assms(2) ulp_small by (intro mult_left_mono) (simp_all add: algebra_simps)
  finally have low: "b * (1 - 2 * ulp) \<le> y" by simp
  have "ulp * ulp \<le> ulp * (1 / 64)" using ulp_small by (intro mult_left_mono) simp_all
  then have "1 \<le> (1 - ulp) * (1 + 2 * ulp)" using ulp_small by (simp add: algebra_simps)
  then have "y * 1 \<le> y * ((1 - ulp) * (1 + 2 * ulp))" using assms(2) by (intro mult_left_mono) simp_all
  also have "\<dots> \<le> b * (1 + 2 * ulp)"
    using mult_right_mono [OF b(1), of "1 + 2 * ulp"] ulp_small by (simp add: mult.assoc)
  finally have "y \<le> b * (1 + 2 * ulp)" by simp
  then show "near 2 (1 / b) (1 / y)" using low pos assms(2) by (simp add: near_def field_simps)
qed

lemma near_divide:
  assumes "near j p x" "near 1 b y" "0 \<le> x" "0 < y" "0 \<le> j" "j \<le> 8"
  shows "near (j + 3) (p / b) (x / y)"
proof -
  note b = near_inverse [OF assms(2,4)]
  have p: "0 \<le> p" using near_nonneg [OF assms(1,3,5,6)] .
  have "near j (p * (1 / y)) (x * (1 / y))" using assms(1,4) by (intro near_scale) simp_all
  moreover have "near 2 (p * (1 / b)) (p * (1 / y))"
    using near_scale [OF b(2) p] by (simp add: mult.commute)
  ultimately show ?thesis using near_trans [of j "p * (1 / y)" "x * (1 / y)" 2 "p * (1 / b)"] assms by (simp add: add.commute)
qed

text \<open>The three expressions of the metrics, for a divisor that is not zero: a finite number near the exact quotient.\<close>

lemma f64_rate:
  assumes "0 < d"
  shows "\<exists>q. f64_div (f64_mul (f64_of_nat n) NANOS_PER_SEC) (f64_of_nat d) = Finite q \<and> near 8 q (of_nat n * 1000000000 / of_nat d)"
    and "\<exists>q. f64_div (f64_of_nat n) (f64_of_nat d) = Finite q \<and> near 6 q (of_nat n / of_nat d)"
proof -
  let ?n = "round_f64 (of_nat n)" and ?d = "round_f64 (of_nat d)"
  let ?p = "round_f64 (?n * 1000000000)"
  have n: "near 1 ?n (of_nat n)" and d: "near 1 ?d (of_nat d)"
    by (simp_all add: round_f64_near)
  have n0: "0 \<le> ?n" and d0: "0 < ?d" using near_nonneg [OF n] near_inverse(1) [OF d] assms by simp_all
  have mul: "near 1 ?p (?n * 1000000000)"
    by (rule round_f64_near) (simp add: n0)
  have prod: "near 3 ?p (of_nat n * 1000000000)"
    using near_trans [OF near_scale [OF n] mul] by simp
  have quot: "near 6 (?p / ?d) (of_nat n * 1000000000 / of_nat d)"
    using near_divide [OF prod d] assms by simp
  have p0: "0 \<le> ?p" using near_nonneg [OF prod] by simp
  have "near 8 (round_f64 (?p / ?d)) (of_nat n * 1000000000 / of_nat d)"
    using near_trans [OF quot round_f64_near] p0 d0 by simp
  then show "\<exists>q. f64_div (f64_mul (f64_of_nat n) NANOS_PER_SEC) (f64_of_nat d) = Finite q \<and> near 8 q (of_nat n * 1000000000 / of_nat d)"
    using d0 by (simp add: f64_of_nat_def NANOS_PER_SEC_def)
  have quot: "near 4 (?n / ?d) (of_nat n / of_nat d)"
    using near_divide [OF n d] assms by simp
  have "near 6 (round_f64 (?n / ?d)) (of_nat n / of_nat d)"
    using near_trans [OF quot round_f64_near] n0 d0 by simp
  then show "\<exists>q. f64_div (f64_of_nat n) (f64_of_nat d) = Finite q \<and> near 6 q (of_nat n / of_nat d)"
    using d0 by (simp add: f64_of_nat_def)
qed

text \<open>C35. The reported rates are finite numbers, as exact as three or four roundings allow: operations and round trips per
  second are within eight parts in \<open>2 ^ 53\<close> of the exact quotient, the cost of a round trip within six. A run that took no
  time has the rate zero, and the cost is zero when nothing ran, where the division alone would give an infinity or not a
  number.\<close>

theorem metrics_accurate:
  "(let exact = 1000000000 * of_nat (bench_iterations b) / of_nat (bench_elapsed_nanos b) in
      if bench_elapsed_nanos b = 0 then frames_per_sec b = Finite 0
      else \<exists>q. frames_per_sec b = Finite q \<and> \<bar>q - exact\<bar> \<le> exact * 8 / 2 ^ 53) \<and>
   (let exact = of_nat (bench_elapsed_nanos b) / of_nat (bench_iterations b) in
      if bench_iterations b = 0 then nanos_per_op b = Finite 0
      else \<exists>q. nanos_per_op b = Finite q \<and> \<bar>q - exact\<bar> \<le> exact * 6 / 2 ^ 53) \<and>
   (let exact = 1000000000 * of_nat (unat (cs_calls (load_total l))) / of_nat (load_elapsed l) in
      if load_elapsed l = 0 then ops_per_sec l = Finite 0
      else \<exists>q. ops_per_sec l = Finite q \<and> \<bar>q - exact\<bar> \<le> exact * 8 / 2 ^ 53)"
proof -
  have rate: "\<exists>q. f64_div (f64_mul (f64_of_nat n) NANOS_PER_SEC) (f64_of_nat d) = Finite q \<and>
      \<bar>q - 1000000000 * of_nat n / of_nat d\<bar> \<le> 1000000000 * of_nat n / of_nat d * 8 / 2 ^ 53" if "d \<noteq> 0" for n d
    using f64_rate(1) [of d n] that by (simp add: near_abs ulp_def mult.commute)
  have cost: "\<exists>q. f64_div (f64_of_nat n) (f64_of_nat d) = Finite q \<and>
      \<bar>q - of_nat n / of_nat d\<bar> \<le> of_nat n / of_nat d * 6 / 2 ^ 53" if "d \<noteq> 0" for n d
    using f64_rate(2) [of d n] that by (simp add: near_abs ulp_def)
  have by_zero: "if d = 0 then P else Q" if "d = 0 \<Longrightarrow> P" "d \<noteq> 0 \<Longrightarrow> Q" for d :: nat and P Q
    using that by simp
  show ?thesis
    unfolding Let_def
    by (intro conjI by_zero; simp only: frames_per_sec_def nanos_per_op_def ops_per_sec_def Let_def if_True if_False simp_thms)
      (assumption | rule rate cost | rule refl)+
qed

end
