(* ===== verification/Cli.thy ===== *)
theory Cli
  imports Client_Session Text_Format
begin

section \<open>The command line tool\<close>

text \<open>
  \<open>crates/graftx-cli/src/main.rs\<close>. Connecting to an address gives a transport or the message of the error
  (\<open>cli_dial\<close>), the text of a client error is \<open>cli_show_error\<close>, and a write to standard output, given what was written
  before, gives what is written then and the message of the error, if it fails (\<open>cli_emit\<close>): parameters of the model.
\<close>

definition cli_EXIT_SUCCESS :: nat where
  "cli_EXIT_SUCCESS = 0"

definition cli_EXIT_USAGE :: nat where
  "cli_EXIT_USAGE = 2"

definition EXIT_CONNECT :: nat where
  "EXIT_CONNECT = 1"

definition NOOP_REQ_ID :: u32 where
  "NOOP_REQ_ID = 2"

definition NOOP_SEQ :: u64 where
  "NOOP_SEQ = 2"

definition API_IDS :: "(u8 \<times> string) list" where
  "API_IDS = [(0x00, ''Core''), (0x01, ''Vulkan''), (0x02, ''OpenGl''), (0x03, ''Cuda''), (0x04, ''OpenCl''), (0x05, ''Hip''),
     (0x06, ''LevelZero''), (0x07, ''Video''), (0x08, ''WebGpu''), (0x09, ''OptiX''), (0x0A, ''Sycl''), (0x0B, ''Amf'')]"

text \<open>The version in the package's manifest.\<close>

definition CARGO_PKG_VERSION :: string where
  "CARGO_PKG_VERSION = ''0.0.0''"

record 't cli_env =
  cli_dial :: "string \<Rightarrow> string + 't"
  cli_show_error :: "client_error \<Rightarrow> string"
  cli_emit :: "string \<Rightarrow> string \<Rightarrow> string \<times> string option"

subsection \<open>Output\<close>

text \<open>Lines written with \<open>?\<close>, which stops at the first error, and lines whose errors are dropped.\<close>

fun write_lines :: "(string \<Rightarrow> string \<Rightarrow> string \<times> string option) \<Rightarrow> string list \<Rightarrow> string \<Rightarrow> string \<times> string option" where
  "write_lines emit [] out = (out, None)"
| "write_lines emit (l # ls) out =
     (case emit out (l @ newline) of
        (out, Some e) \<Rightarrow> (out, Some e)
      | (out, None) \<Rightarrow> write_lines emit ls out)"

definition print_lines :: "(string \<Rightarrow> string \<Rightarrow> string \<times> string option) \<Rightarrow> string list \<Rightarrow> string" where
  "print_lines emit lines = fold (\<lambda>l out. fst (emit out (l @ newline))) lines []"

definition welcome_lines :: "string \<Rightarrow> Welcome \<Rightarrow> string list" where
  "welcome_lines addr welcome =
     [''connected to '' @ addr,
      ''  protocol:       '' @ digits (unat (welcome_proto_major welcome)) @ ''.'' @ digits (unat (welcome_proto_minor welcome)),
      ''  session id:     '' @ digits (unat (welcome_session_id welcome)),
      ''  features:       0x'' @ pad0 8 (hex_lower (unat (welcome_features welcome))),
      ''  max frame body: '' @ digits (unat (welcome_max_frame_body welcome)) @ '' bytes'']"

definition api_lines :: "string list" where
  "api_lines = [''| ApiId | API |'', ''| ----- | --- |''] @
     map (\<lambda>(id, name). ''| 0x'' @ pad0 2 (hex_lower (unat id)) @ '' | '' @ name @ '' |'') API_IDS"

definition version_text :: string where
  "version_text = (let (major, minor) = client_protocol_version in digits (unat major) @ ''.'' @ digits (unat minor))"

fun join_names :: "string \<Rightarrow> string list \<Rightarrow> string" where
  "join_names sep [] = []"
| "join_names sep [n] = n"
| "join_names sep (n # ns) = n @ sep @ join_names sep ns"

definition info_lines :: "string list" where
  "info_lines = [''graftx-cli '' @ CARGO_PKG_VERSION, ''protocol '' @ version_text,
     ''apis: '' @ join_names '', '' (map snd API_IDS)]"

definition cli_usage :: "string list" where
  "cli_usage =
     [''graftx '' @ dash @ '' GraftX demo client (protocol '' @ version_text @ '')'',
      [],
      ''USAGE:'',
      ''    graftx connect <addr>    connect, handshake, print the Welcome'',
      ''    graftx noop <addr>       connect, handshake, run one no-op, print ok'',
      ''    graftx apis              print the API namespace table'',
      ''    graftx info              print cli/protocol version and the API list'',
      ''    graftx help              show this message'']"

subsection \<open>Subcommands\<close>

definition cli_connect :: "'t transport \<Rightarrow> 't cli_env \<Rightarrow> string \<Rightarrow> outcome" where
  "cli_connect T env addr =
     (case cli_dial env addr of
        Inl err \<Rightarrow> exits EXIT_CONNECT [] (''graftx: connect to '' @ addr @ '' failed: '' @ err @ newline)
      | Inr transport \<Rightarrow>
          (case fst (client_handshake T transport) of
             Inl err \<Rightarrow>
               exits EXIT_CONNECT [] (''graftx: handshake with '' @ addr @ '' failed: '' @ cli_show_error env err @ newline)
           | Inr welcome \<Rightarrow>
               (case write_lines (cli_emit env) (welcome_lines addr welcome) [] of
                  (out, Some err) \<Rightarrow> exits EXIT_CONNECT out (''graftx: writing output failed: '' @ err @ newline)
                | (out, None) \<Rightarrow> exits cli_EXIT_SUCCESS out [])))"

definition cli_noop :: "'t transport \<Rightarrow> 't cli_env \<Rightarrow> string \<Rightarrow> outcome" where
  "cli_noop T env addr =
     (case cli_dial env addr of
        Inl err \<Rightarrow> exits EXIT_CONNECT [] (''graftx: connect to '' @ addr @ '' failed: '' @ err @ newline)
      | Inr transport \<Rightarrow>
          (case client_handshake T transport of
             (Inl err, _) \<Rightarrow>
               exits EXIT_CONNECT [] (''graftx: handshake with '' @ addr @ '' failed: '' @ cli_show_error env err @ newline)
           | (Inr _, transport) \<Rightarrow>
               (case fst (client_noop T NOOP_REQ_ID NOOP_SEQ transport) of
                  Inl err \<Rightarrow> exits EXIT_CONNECT [] (''graftx: noop to '' @ addr @ '' failed: '' @ cli_show_error env err @ newline)
                | Inr _ \<Rightarrow>
                    (case write_lines (cli_emit env) [''ok''] [] of
                       (out, Some err) \<Rightarrow> exits EXIT_CONNECT out (''graftx: writing output failed: '' @ err @ newline)
                     | (out, None) \<Rightarrow> exits cli_EXIT_SUCCESS out []))))"

definition needs_addr :: "string \<Rightarrow> string" where
  "needs_addr command = ''graftx: '' @ command @ '' requires an <addr> (e.g. 127.0.0.1:7000)'' @ newline"

definition cli_run :: "'t transport \<Rightarrow> 't cli_env \<Rightarrow> string list \<Rightarrow> outcome" where
  "cli_run T env args =
     (case args of
        [] \<Rightarrow> exits cli_EXIT_SUCCESS (print_lines (cli_emit env) cli_usage) []
      | command # rest \<Rightarrow>
          if command \<in> {''help'', ''-h'', ''--help''} then exits cli_EXIT_SUCCESS (print_lines (cli_emit env) cli_usage) []
          else if command = ''connect'' then
            (case rest of addr # _ \<Rightarrow> cli_connect T env addr | [] \<Rightarrow> exits cli_EXIT_USAGE [] (needs_addr ''connect''))
          else if command = ''noop'' then
            (case rest of addr # _ \<Rightarrow> cli_noop T env addr | [] \<Rightarrow> exits cli_EXIT_USAGE [] (needs_addr ''noop''))
          else if command = ''apis'' then exits cli_EXIT_SUCCESS (print_lines (cli_emit env) api_lines) []
          else if command = ''info'' then exits cli_EXIT_SUCCESS (print_lines (cli_emit env) info_lines) []
          else exits cli_EXIT_USAGE [] (''graftx: unknown subcommand '' @ quoted command @ newline @
            concat (map (\<lambda>l. l @ newline) cli_usage)))"

subsection \<open>Against a server\<close>

text \<open>With a standard output that takes everything.\<close>

definition emit_all :: "string \<Rightarrow> string \<Rightarrow> string \<times> string option" where
  "emit_all out s = (out @ s, None)"

lemma write_lines_all: "write_lines emit_all ls out = (out @ concat (map (\<lambda>l. l @ newline) ls), None)"
  by (induction ls arbitrary: out) (simp_all add: emit_all_def)

lemma noop_call_answered:
  assumes "link_idle l" "max_frame_body (link_session l) = DEFAULT_MAX_FRAME_BODY"
  shows "fst (client_noop link_ops req_id seq l) = Inr ()"
proof -
  have acc: "accepts (link_session l) (encode_frame (request_header core_op_NOOP req_id seq []) []) =
      Some (request_header core_op_NOOP req_id seq [], [])"
    by (rule request_accepted [OF assms(2)]) simp
  then obtain reply s where h: "session_handle (encode_frame (request_header core_op_NOOP req_id seq []) []) (link_session l) = (Inr reply, s)"
    "check_reply core_op_NOOP reply = Inr []"
    using session_handle_accepted [OF acc] by (simp add: request_header_def session_reply_eq Let_def core_op_values)
  show ?thesis
    using exchange_answered [OF assms(1) h(1), of core_op_NOOP] h(2) by (auto simp: client_noop_def client_call_def)
qed

text \<open>\<open>graftx noop\<close> and \<open>graftx connect\<close> against a session with the default limit succeed, and print what the server
  sent.\<close>

lemma cli_served:
  assumes "cli_dial env addr = Inr (link_new session)" "cli_emit env = emit_all"
    "max_frame_body session = DEFAULT_MAX_FRAME_BODY"
  shows "cli_run link_ops env [''noop'', addr] = exits 0 (''ok'' @ newline) []"
    "\<exists>w. welcome_session_id w = session_id session \<and>
       cli_run link_ops env [''connect'', addr] = exits 0 (concat (map (\<lambda>l. l @ newline) (welcome_lines addr w))) []"
proof -
  let ?l = "link_new session"
  have max: "max_frame_body (link_session ?l) = DEFAULT_MAX_FRAME_BODY" using assms(3) by (simp add: link_new_def)
  obtain reply w where h: "session_handle (encode_frame (request_header core_op_HELLO 1 1 client_hello) client_hello)
      (link_session ?l) = (Inr reply, (link_session ?l)\<lparr>handshook := True, next_seq := next_seq (link_session ?l) + 1\<rparr>)"
    "check_reply core_op_WELCOME reply = Inr (welcome_encode w [])" "welcome_session_id w = session_id (link_session ?l)"
    using hello_handled [OF max] by metis
  obtain l' where l': "client_handshake link_ops ?l = (Inr w, l')" "link_idle l'"
    "link_session l' = (link_session ?l)\<lparr>handshook := True, next_seq := next_seq (link_session ?l) + 1\<rparr>"
    using exchange_answered [OF link_idle_new h(1), of core_op_WELCOME] h(2)
    by (auto simp: client_handshake_def client_hello_def [symmetric] welcome_body.decode_roundtrip)
  have "fst (client_noop link_ops NOOP_REQ_ID NOOP_SEQ l') = Inr ()"
    by (rule noop_call_answered [OF l'(2)]) (simp add: l'(3) max)
  then show "cli_run link_ops env [''noop'', addr] = exits 0 (''ok'' @ newline) []"
    using assms l'(1) by (simp add: cli_run_def cli_noop_def emit_all_def cli_EXIT_SUCCESS_def)
  show "\<exists>w. welcome_session_id w = session_id session \<and>
       cli_run link_ops env [''connect'', addr] = exits 0 (concat (map (\<lambda>l. l @ newline) (welcome_lines addr w))) []"
    using assms l'(1) h(3) by (intro exI [of _ w]) (simp add: cli_run_def cli_connect_def write_lines_all cli_EXIT_SUCCESS_def link_new_def)
qed

end
