(* ===== verification/Mains.thy ===== *)
theory Mains
  imports Metrics Load_Spec Cli "HOL-Library.Stream"
begin

section \<open>The programs around the core\<close>

text \<open>
  \<open>main\<close> of \<open>graftx-server\<close>, \<open>graftx-bench\<close>, \<open>graftx-loadtest\<close> and \<open>graftx-fuzz\<close>, \<open>serve_tcp\<close> with its listener, and
  the process-wide registry. Parameters are the network (\<open>tcp_env\<close>: what binding an address gives, and the endless
  stream of what the listener accepts), the texts of errors, the clock, and the decimal text of an \<open>f64\<close> with a number of places.
\<close>

subsection \<open>The process-wide registry\<close>

text \<open>The cell of \<open>GLOBAL\<close> is empty until the first access.\<close>

definition obs_global :: "obs_registry option \<Rightarrow> obs_registry \<times> obs_registry option" where
  "obs_global cell = (case cell of None \<Rightarrow> (registry_new, Some registry_new) | Some registry \<Rightarrow> (registry, cell))"

definition obs_record :: "string \<Rightarrow> u64 \<Rightarrow> u64 \<Rightarrow> obs_registry option \<Rightarrow> obs_registry option" where
  "obs_record api bytes_out bytes_in cell =
     (let (registry, cell) = obs_global cell in Some (registry_record api bytes_out bytes_in registry))"

lemma obs_record_lazy:
  "fst (obs_global (fold (\<lambda>(api, out, inp). obs_record api out inp) calls None)) = registry_run calls registry_new"
proof -
  have "fst (obs_global (fold (\<lambda>(api, out, inp). obs_record api out inp) calls cell)) =
      registry_run calls (fst (obs_global cell))" for cell
    by (induction calls arbitrary: cell)
      (auto simp: registry_run_def obs_record_def obs_global_def case_prod_beta split: option.split)
  then show ?thesis by (simp add: obs_global_def)
qed

subsection \<open>The server\<close>

record 's tcp_env =
  tcp_listen :: "string \<Rightarrow> 's io_result stream io_result"
  tcp_show :: "io_error \<Rightarrow> string"
  tcp_debug :: "io_error \<Rightarrow> string"

text \<open>
  The loop over the accepts so far, with what it writes to standard error: an accept that failed is reported and
  passed over, a connection is served by a new session and its error reported. The result is \<open>None\<close> when a connection
  never ends.
\<close>

fun accept_loop ::
    "(io_error \<Rightarrow> string) \<Rightarrow> 's stream_ops \<Rightarrow> ('c \<Rightarrow> session \<times> 'c) \<Rightarrow> 'c \<Rightarrow> 's io_result list \<Rightarrow>
     ((unit io_result \<times> 's stream_transport \<times> session) list \<times> string) option" where
  "accept_loop show_error S make_session c [] = Some ([], [])"
| "accept_loop show_error S make_session c (Inl err # incoming) =
     map_option (map_prod id (\<lambda>errors. ''graftx-server: accept failed: '' @ show_error err @ newline @ errors))
       (accept_loop show_error S make_session c incoming)"
| "accept_loop show_error S make_session c (Inr stream # incoming) =
     (let transport = stream_new stream; (session, c) = make_session c in
      case serve (stream_transport_ops S) transport session of
        None \<Rightarrow> None
      | Some (r, transport, session) \<Rightarrow>
          map_option (map_prod (Cons (r, transport, session))
              (\<lambda>errors. (case r of Inl err \<Rightarrow> ''graftx-server: connection serve error: '' @ show_error err @ newline | Inr _ \<Rightarrow> []) @ errors))
            (accept_loop show_error S make_session c incoming))"

text \<open>
  \<open>incoming\<close> never ends, so the loop does not return once the address is bound: \<open>serve_tcp\<close> is what it has come to
  after \<open>n\<close> accepts, or the error of binding the address.
\<close>

definition serve_tcp ::
    "'s tcp_env \<Rightarrow> 's stream_ops \<Rightarrow> string \<Rightarrow> ('c \<Rightarrow> session \<times> 'c) \<Rightarrow> 'c \<Rightarrow> nat \<Rightarrow>
     ((unit io_result \<times> 's stream_transport \<times> session) list \<times> string) option io_result" where
  "serve_tcp env S addr make_session c n =
     (case tcp_listen env addr of
        Inl e \<Rightarrow> Inl e
      | Inr incoming \<Rightarrow> Inr (accept_loop (tcp_show env) S make_session c (stake n incoming)))"

definition server_usage :: string where
  "server_usage =
     ''graftx-server '' @ CARGO_PKG_VERSION @ '' '' @ dash @ '' protocol v'' @ digits (unat PROTOCOL_MAJOR) @ ''.'' @
       digits (unat PROTOCOL_MINOR) @ newline @
     ''usage: graftx-server serve <addr>   (e.g. graftx-server serve 127.0.0.1:7000)'' @ newline"

text \<open>The process has ended, or it is serving and has written so much to its two outputs.\<close>

datatype server_state = Ended outcome | Serving string string

text \<open>After \<open>n\<close> accepts; \<open>None\<close> is a server caught in a connection that never ends.\<close>

definition server_main :: "'s tcp_env \<Rightarrow> 's stream_ops \<Rightarrow> string list \<Rightarrow> nat \<Rightarrow> server_state option" where
  "server_main env S args n =
     (case args of
        command # addr # _ \<Rightarrow>
          if command = ''serve'' then
            (let listening = ''graftx-server: listening on '' @ addr @ newline in
             case serve_tcp env S addr main_make_session 1 n of
               Inl e \<Rightarrow> Some (Ended (exits 1 listening (''Error: '' @ tcp_debug env e @ newline)))
             | Inr None \<Rightarrow> None
             | Inr (Some (_, errors)) \<Rightarrow> Some (Serving listening errors))
          else Some (Ended (exits 0 server_usage []))
      | _ \<Rightarrow> Some (Ended (exits 0 server_usage [])))"

lemma map_option_fst: "map_option fst (map_option (map_prod f g) x) = map_option f (map_option fst x)"
  by (cases x) auto

definition accepted_of :: "'s io_result \<Rightarrow> 's option" where
  "accepted_of r = (case r of Inl _ \<Rightarrow> None | Inr stream \<Rightarrow> Some stream)"

lemma accept_loop_connections:
  "map_option fst (accept_loop show_error S make_session c incoming) = serve_connections S make_session c (map accepted_of incoming)"
proof (induction incoming arbitrary: c)
  case (Cons r incoming)
  then show ?case
    by (cases r)
      (simp_all add: accepted_of_def map_option_fst Let_def case_prod_beta option.map_id0 split: option.split)
qed simp

text \<open>
  What the operator should see, from the accepts and the bytes each connection brings: a line for an accept that
  failed; for a connection, a line if all its frames were answered and the rest declares a frame over the cap,
  and nothing otherwise.
\<close>

definition connection_report :: "(io_error \<Rightarrow> string) \<Rightarrow> session \<Rightarrow> bytes \<Rightarrow> string" where
  "connection_report show_error session bs =
     (let frames = unframe (unat MAX_FRAME) bs; tail = unframed_tail (unat MAX_FRAME) bs in
      if length (fst (serve_script frames session)) = length frames \<and> 4 \<le> length tail \<and> MAX_FRAME < u32_from_le_bytes (take 4 tail)
      then ''graftx-server: connection serve error: '' @ show_error IoInvalidData @ newline else [])"

fun accept_report :: "(io_error \<Rightarrow> string) \<Rightarrow> ('s \<Rightarrow> bytes) \<Rightarrow> u64 \<Rightarrow> 's io_result list \<Rightarrow> string" where
  "accept_report show_error inp next_id [] = []"
| "accept_report show_error inp next_id (Inl err # attempts) =
     ''graftx-server: accept failed: '' @ show_error err @ newline @ accept_report show_error inp next_id attempts"
| "accept_report show_error inp next_id (Inr s # attempts) =
     connection_report show_error (main_session next_id) (inp s) @ accept_report show_error inp (next_id + 1) attempts"

lemma serve_script_length: "length (fst (serve_script frames session)) \<le> length frames"
  using serve_script_prefix [of frames session] by (auto simp: case_prod_beta Let_def)

lemma accept_loop_report:
  assumes "byte_stream S inp wr" "list_all (\<lambda>s. wr s = []) (accepted (map accepted_of attempts))"
  shows "map_option snd (accept_loop show_error S main_make_session next_id attempts) =
    Some (accept_report show_error inp next_id attempts)"
  using assms(2)
proof (induction attempts arbitrary: next_id)
  case (Cons r attempts)
  show ?case
  proof (cases r)
    case (Inl err)
    then show ?thesis using Cons by (auto simp: accepted_of_def)
  next
    case (Inr s)
    let ?frames = "unframe (unat MAX_FRAME) (inp s)"
    obtain t' session' where "serve (stream_transport_ops S) (stream_new s) (main_session next_id) =
        Some (if length (fst (serve_script ?frames (main_session next_id))) < length ?frames then Inr ()
          else tail_result MAX_FRAME (unframed_tail (unat MAX_FRAME) (inp s)), t', session')"
      using connection_served [OF assms(1), of s "main_session next_id"] Cons.prems Inr
      by (auto simp: Let_def accepted_of_def)
    then show ?thesis
      using Cons.IH [of "next_id + 1"] Cons.prems serve_script_length [of ?frames "main_session next_id"] Inr
      by (auto simp: accepted_of_def main_make_session_def connection_report_def tail_result_def Let_def)
  qed
qed simp

text \<open>C25. The server listening on an address. If the address cannot be bound, it ends with the error. Otherwise it never
  ends: after any number of accepts it is serving, whatever bytes the connections brought before they ended, and its
  standard error has a line for every accept that failed and for every connection whose loop ended with an error, in
  order, and nothing else; the \<open>i\<close>-th connection is answered by a fresh session with the id \<open>i + 1\<close> and the Vulkan and
  OpenGL services, as if it were the only one.\<close>

theorem server_main_isolates:
  assumes "byte_stream S inp wr"
  shows "case tcp_listen env addr of
      Inl e \<Rightarrow> server_main env S (''serve'' # addr # args) n =
        Some (Ended (exits 1 (''graftx-server: listening on '' @ addr @ newline) (''Error: '' @ tcp_debug env e @ newline)))
    | Inr incoming \<Rightarrow> let attempts = stake n incoming; streams = accepted (map accepted_of attempts);
          errors = accept_report (tcp_show env) inp 1 attempts in
        list_all (\<lambda>s. wr s = []) streams \<longrightarrow>
        server_main env S (''serve'' # addr # args) n = Some (Serving (''graftx-server: listening on '' @ addr @ newline) errors) \<and>
        (\<exists>rs. serve_tcp env S addr main_make_session (1 :: u64) n = Inr (Some (rs, errors)) \<and> length rs = length streams \<and>
           (\<forall>i < length streams. Some (rs ! i) = serve (stream_transport_ops S) (stream_new (streams ! i)) (main_session (1 + word_of_nat i)) \<and>
              wr (st_inner (fst (snd (rs ! i)))) = concat (map frame_bytes (fst (serve_script
                (unframe (unat MAX_FRAME) (inp (streams ! i))) (main_session (1 + word_of_nat i)))))))"
proof (cases "tcp_listen env addr")
  case (Inl e)
  then show ?thesis by (simp add: server_main_def serve_tcp_def)
next
  case (Inr incoming)
  let ?attempts = "stake n incoming"
  let ?streams = "accepted (map accepted_of ?attempts)"
  let ?errors = "accept_report (tcp_show env) inp 1 ?attempts"
  let ?good = "\<lambda>rs. length rs = length ?streams \<and>
    (\<forall>i < length ?streams. Some (rs ! i) = serve (stream_transport_ops S) (stream_new (?streams ! i)) (main_session (1 + word_of_nat i)) \<and>
       wr (st_inner (fst (snd (rs ! i)))) = concat (map frame_bytes (fst (serve_script
         (unframe (unat MAX_FRAME) (inp (?streams ! i))) (main_session (1 + word_of_nat i))))))"
  have "server_main env S (''serve'' # addr # args) n = Some (Serving (''graftx-server: listening on '' @ addr @ newline) ?errors) \<and>
      (\<exists>rs. serve_tcp env S addr main_make_session (1 :: u64) n = Inr (Some (rs, ?errors)) \<and> ?good rs)"
    if new: "list_all (\<lambda>s. wr s = []) ?streams"
  proof -
    obtain rs where rs: "serve_connections S main_make_session (1 :: u64) (map accepted_of ?attempts) = Some rs" "?good rs"
      using connections_served [OF assms new, of 1] by auto
    have "accept_loop (tcp_show env) S main_make_session (1 :: u64) ?attempts = Some (rs, ?errors)"
      using accept_loop_connections [of "tcp_show env" S main_make_session "1 :: u64" ?attempts] rs(1)
        accept_loop_report [OF assms new, of "tcp_show env" 1] by auto
    then show ?thesis
      using rs(2) by (simp add: serve_tcp_def server_main_def Inr)
  qed
  then show ?thesis unfolding Inr sum.case Let_def by (intro impI)
qed

text \<open>Every second accept fails, the others bring a connection with two bytes; observed after three.\<close>

definition flaky_env :: "pipe tcp_env" where
  "flaky_env = \<lparr>tcp_listen = \<lambda>addr. Inr (cycle [Inl IoOther, Inr \<lparr>pipe_input = [1, 2], pipe_output = []\<rparr>]),
     tcp_show = \<lambda>e. ''other'', tcp_debug = \<lambda>e. ''other''\<rparr>"

theorem server_main_isolates_witness:
  "server_main flaky_env pipe_ops [''serve'', ''a''] 3 = Some (Serving (''graftx-server: listening on a'' @ newline)
     (''graftx-server: accept failed: other'' @ newline @ ''graftx-server: accept failed: other'' @ newline))"
proof -
  have attempts: "stake 3 (cycle [Inl IoOther, Inr \<lparr>pipe_input = [1, 2], pipe_output = []\<rparr>]) =
      [Inl IoOther, Inr \<lparr>pipe_input = [1, 2], pipe_output = []\<rparr>, Inl IoOther :: pipe io_result]"
    by (simp add: numeral_3_eq_3)
  have "unframe (unat MAX_FRAME) [1, 2] = []" "unframed_tail (unat MAX_FRAME) [1, 2] = [1, 2]"
    by (simp_all add: unframe.simps [of _ "[1, 2]"] unframed_tail_def)
  then show ?thesis
    using server_main_isolates [OF pipe.byte_stream_axioms, of flaky_env "''a''" "[]" 3]
    by (simp add: flaky_env_def attempts accepted_of_def connection_report_def Let_def)
qed

subsection \<open>The benchmark\<close>

definition bench_timed :: "'c clock \<Rightarrow> nat \<Rightarrow> 'c \<Rightarrow> BenchReport proto_result \<times> 'c" where
  "bench_timed clock iterations c =
     (let (timer, c) = timer_start_now clock c in
      case bench_loop iterations representative_frame of
        Inl err \<Rightarrow> (Inl err, c)
      | Inr _ \<Rightarrow>
          (let (elapsed, c) = timer_elapsed clock timer c in
           (Inr \<lparr>bench_iterations = iterations, bench_elapsed_nanos = elapsed\<rparr>, c)))"

definition bench_main ::
    "(nat \<Rightarrow> f64 \<Rightarrow> string) \<Rightarrow> (protocol_error \<Rightarrow> string) \<Rightarrow> 'c clock \<Rightarrow> string option \<Rightarrow> 'c \<Rightarrow> outcome" where
  "bench_main fixed show_error clock arg c =
     (let (iterations, fell_back) = parse_iterations arg;
          warning = (if fell_back
            then ''graftx-bench: could not parse iteration count; using default '' @ digits DEFAULT_ITERATIONS @ newline else [])
      in case fst (bench_timed clock iterations c) of
           Inr report \<Rightarrow>
             exits 0
               (''graftx-bench: '' @ digits (bench_iterations report) @ '' round-trips in '' @
                  fixed 3 (f64_div (f64_of_nat (bench_elapsed_nanos report)) (Finite 1000000)) @ '' ms'' @ newline @
                ''  '' @ fixed 2 (frames_per_sec report) @ '' frames/sec'' @ newline @
                ''  '' @ fixed 2 (nanos_per_op report) @ '' ns/op'' @ newline)
               warning
         | Inl err \<Rightarrow> exits 1 [] (warning @ ''graftx-bench: codec round-trip failed: '' @ show_error err @ newline))"

subsection \<open>The load generator\<close>

text \<open>\<open>drive\<close> reads the clock before the client starts and after it ended.\<close>

definition drive_timed :: "'c clock \<Rightarrow> nat \<Rightarrow> obs_registry \<Rightarrow> 'c \<Rightarrow> nat client_result \<times> obs_registry \<times> 'c" where
  "drive_timed clock n registry c =
     (let (timer, c) = timer_start_now clock c;
          (r, registry) = drive n registry;
          (elapsed, c) = timer_elapsed clock timer c
      in (case r of Inl e \<Rightarrow> Inl e | Inr _ \<Rightarrow> Inr elapsed, registry, c))"

definition load_main ::
    "(nat \<Rightarrow> f64 \<Rightarrow> string) \<Rightarrow> (client_error \<Rightarrow> string) \<Rightarrow> 'c clock \<Rightarrow> string option \<Rightarrow> 'c \<Rightarrow> outcome" where
  "load_main fixed show_error clock arg c =
     (let (ops, fell_back) = parse_ops arg;
          warning = (if fell_back
            then ''graftx-loadtest: could not parse op count; using default '' @ digits DEFAULT_OPS @ newline else [])
      in case drive_timed clock ops registry_new c of
           (Inl err, registry, c) \<Rightarrow> exits 1 [] (warning @ ''graftx-loadtest: load run failed: '' @ show_error err @ newline)
         | (Inr elapsed, registry, c) \<Rightarrow>
             (let report = \<lparr>load_registry = registry, load_total = registry_total registry, load_elapsed = elapsed\<rparr> in
              exits 0
                (registry_report (load_registry report) @
                 ''graftx-loadtest: '' @ digits (unat (cs_calls (load_total report))) @ '' ops ('' @ digits ops @
                   '' iterations) in '' @ fixed 3 (f64_div (f64_of_nat (load_elapsed report)) (Finite 1000000)) @ '' ms'' @ newline @
                 ''  '' @ fixed 2 (ops_per_sec report) @ '' ops/sec'' @ newline)
                warning))"

subsection \<open>The fuzzer\<close>

definition SEED :: u64 where
  "SEED = 0x9E3779B97F4A7C15"

definition fuzz_main :: "string list \<Rightarrow> outcome" where
  "fuzz_main args =
     (case parse_iters (case args of [] \<Rightarrow> None | arg # _ \<Rightarrow> Some arg) of
        None \<Rightarrow> exits 1 [] (''usage: graftx-fuzz [iterations]'' @ newline)
      | Some iters \<Rightarrow>
          (let processed = fst (fuzz_iter SEED iters) in
           exits 0 (''graftx-fuzz: exercised '' @ digits processed @ '' inputs (seed 0x'' @ pad0 16 (hex_lower (unat SEED)) @
             '') with no panic'' @ newline) []))"

subsection \<open>What the tools come to\<close>

text \<open>The benchmark succeeds on any argument, the fuzzer unless its argument is no number; a load run of up to \<open>2 ^ 32\<close>
  rounds succeeds and reports one call for the handshake and two for every round.\<close>

lemma bench_main_succeeds:
  "exit_code (bench_main fixed show_error clock arg c) = 0 \<and>
   stderr (bench_main fixed show_error clock arg c) =
     (if snd (parse_iterations arg) then ''graftx-bench: could not parse iteration count; using default '' @ digits DEFAULT_ITERATIONS @ newline else [])"
  by (simp add: bench_main_def bench_timed_def bench_loop_succeeds Let_def case_prod_beta exits_def)

lemma fuzz_main_succeeds:
  "exit_code (fuzz_main args) = (if args = [] \<or> parse_usize (hd args) \<noteq> None then 0 else 1)"
  by (auto simp: fuzz_main_def parse_iters_def exits_def Let_def split: list.split option.split)

lemma load_main_succeeds:
  assumes "fst (parse_ops arg) \<le> 2 ^ 32"
  shows "exit_code (load_main fixed show_error clock arg c) = 0 \<and>
    (\<exists>rest. stdout (load_main fixed show_error clock arg c) = registry_report (snd (drive (fst (parse_ops arg)) registry_new)) @
       ''graftx-loadtest: '' @ digits (2 * fst (parse_ops arg) + 1) @ '' ops ('' @ digits (fst (parse_ops arg)) @ rest)"
proof -
  let ?n = "fst (parse_ops arg)"
  have drive: "drive ?n registry_new = (Inr (), registry_run (load_calls ?n) registry_new)"
    by (rule drive_run [OF assms])
  have "cs_calls (registry_total (registry_run (load_calls ?n) registry_new)) = word_of_nat (2 * ?n + 1)"
    using load_exact [OF assms] by (simp add: run_load_def drive)
  moreover have "unat (word_of_nat k :: u64) = k" if "k < 2 ^ 64" for k
    using that by (simp add: unsigned_of_nat take_bit_nat_eq_self)
  then have "unat (word_of_nat (2 * ?n + 1) :: u64) = 2 * ?n + 1"
    using assms by (simp del: of_nat_add of_nat_Suc of_nat_mult)
  ultimately show ?thesis
    by (simp add: load_main_def drive_timed_def drive Let_def case_prod_beta exits_def)
qed

end
