(* ===== verification/Xtask_Opcodes.thy ===== *)
theory Xtask_Opcodes
  imports Protocol Text_Format "HOL-Library.Product_Lexorder" "HOL-Library.Multiset"
begin

section \<open>The opcode table of the task runner\<close>

text \<open>
  \<open>crates/graftx-xtask/src/opcodes.rs\<close>: the table \<open>OPCODES\<close>, which repeats the opcode constants of the protocol
  crate, its Markdown renderings, and the lockfile that is to freeze it. A renderer appends to a string; the loops
  over the entries are folds. Reading a file gives its text or the message of the error, a parameter of the checks.
\<close>

record opcode_entry =
  oe_api_name :: string
  oe_api_id :: u8
  oe_name :: string
  oe_call_id :: u32

definition entry :: "string \<Rightarrow> u8 \<Rightarrow> string \<Rightarrow> u32 \<Rightarrow> opcode_entry" where
  "entry api_name api_id name call_id =
     \<lparr>oe_api_name = api_name, oe_api_id = api_id, oe_name = name, oe_call_id = call_id\<rparr>"

definition entry_opcode :: "opcode_entry \<Rightarrow> u32" where
  "entry_opcode self = push_bit 24 (ucast (oe_api_id self)) OR (oe_call_id self AND 0x00FFFFFF)"

definition core_vulkan_rows :: "opcode_entry list" where
  "core_vulkan_rows = [
    entry ''Core'' 0x00 ''HELLO'' 0x000001,
    entry ''Core'' 0x00 ''WELCOME'' 0x000002,
    entry ''Core'' 0x00 ''NOOP'' 0x000003,
    entry ''Vulkan'' 0x01 ''CREATE_INSTANCE'' 0x0001,
    entry ''Vulkan'' 0x01 ''DESTROY_INSTANCE'' 0x0002,
    entry ''Vulkan'' 0x01 ''ENUMERATE_PHYSICAL_DEVICES'' 0x0003,
    entry ''Vulkan'' 0x01 ''GET_PHYSICAL_DEVICE_PROPERTIES'' 0x0004,
    entry ''Vulkan'' 0x01 ''CREATE_DEVICE'' 0x0005,
    entry ''Vulkan'' 0x01 ''DESTROY_DEVICE'' 0x0006,
    entry ''Vulkan'' 0x01 ''GET_DEVICE_QUEUE'' 0x0007,
    entry ''Vulkan'' 0x01 ''DEVICE_WAIT_IDLE'' 0x0008,
    entry ''Vulkan'' 0x01 ''ALLOCATE_MEMORY'' 0x0010,
    entry ''Vulkan'' 0x01 ''CREATE_BUFFER'' 0x0011,
    entry ''Vulkan'' 0x01 ''BIND_BUFFER_MEMORY'' 0x0012]"

definition other_rows :: "opcode_entry list" where
  "other_rows = [
    entry ''OpenGl'' 0x02 ''CREATE_CONTEXT'' 0x0001,
    entry ''OpenGl'' 0x02 ''MAKE_CURRENT'' 0x0002,
    entry ''OpenGl'' 0x02 ''GEN_BUFFER'' 0x0003,
    entry ''Cuda'' 0x03 ''CTX_CREATE'' 0x0001,
    entry ''Cuda'' 0x03 ''MEM_ALLOC'' 0x0002,
    entry ''Cuda'' 0x03 ''MEM_FREE'' 0x0003,
    entry ''OpenCl'' 0x04 ''CREATE_CONTEXT'' 0x0001,
    entry ''OpenCl'' 0x04 ''CREATE_BUFFER'' 0x0002,
    entry ''OpenCl'' 0x04 ''RELEASE_BUFFER'' 0x0003,
    entry ''Hip'' 0x05 ''MALLOC'' 0x0001,
    entry ''Hip'' 0x05 ''FREE'' 0x0002,
    entry ''Hip'' 0x05 ''STREAM_CREATE'' 0x0003,
    entry ''LevelZero'' 0x06 ''CONTEXT_CREATE'' 0x0001,
    entry ''LevelZero'' 0x06 ''MEM_ALLOC_DEVICE'' 0x0002,
    entry ''LevelZero'' 0x06 ''MEM_FREE'' 0x0003,
    entry ''Video'' 0x07 ''CREATE_DECODE_SESSION'' 0x0001,
    entry ''Video'' 0x07 ''DECODE_FRAME'' 0x0002,
    entry ''Video'' 0x07 ''DESTROY_SESSION'' 0x0003,
    entry ''WebGpu'' 0x08 ''REQUEST_DEVICE'' 0x0001,
    entry ''WebGpu'' 0x08 ''CREATE_BUFFER'' 0x0002,
    entry ''WebGpu'' 0x08 ''DESTROY_BUFFER'' 0x0003,
    entry ''OptiX'' 0x09 ''CONTEXT_CREATE'' 0x0001,
    entry ''OptiX'' 0x09 ''PIPELINE_CREATE'' 0x0002,
    entry ''OptiX'' 0x09 ''DESTROY'' 0x0003,
    entry ''Sycl'' 0x0A ''QUEUE_CREATE'' 0x0001,
    entry ''Sycl'' 0x0A ''MALLOC_DEVICE'' 0x0002,
    entry ''Sycl'' 0x0A ''FREE'' 0x0003,
    entry ''Amf'' 0x0B ''CREATE_ENCODER'' 0x0001,
    entry ''Amf'' 0x0B ''ENCODE_FRAME'' 0x0002,
    entry ''Amf'' 0x0B ''DESTROY_ENCODER'' 0x0003]"

definition OPCODES :: "opcode_entry list" where
  "OPCODES = core_vulkan_rows @ other_rows"

definition format_opcode :: "opcode_entry \<Rightarrow> string" where
  "format_opcode self =
     (let call = entry_opcode self AND 0x00FFFFFF
      in ''0x'' @ hex_pad 2 (unat (oe_api_id self)) @ ''_'' @ hex_pad 6 (unat call))"

definition render_opcode_table :: "opcode_entry list \<Rightarrow> string" where
  "render_opcode_table entries =
     fold (\<lambda>e out. out @ ''| '' @ format_opcode e @ '' | '' @ oe_api_name e @ '' | '' @ oe_name e @ '' |'' @ newline) entries
       (''| Opcode | API | Name |'' @ newline @ ''| --- | --- | --- |'' @ newline)"

definition DOC_HEADER :: string where
  "DOC_HEADER =
     ''# GraftX opcode table'' @ newline @ newline @
     ''Generated by '' @ [CHR 0x60] @ ''cargo xtask opcodes-md'' @ [CHR 0x60] @
     ''. Do not edit by hand; regenerate it with'' @ newline @
     [CHR 0x60] @ ''cargo xtask opcodes-md --write'' @ [CHR 0x60] @ '' and gate drift in CI with '' @
     [CHR 0x60] @ ''cargo xtask opcodes-md --check'' @ [CHR 0x60] @ ''.''"

definition render_doc :: "opcode_entry list \<Rightarrow> string" where
  "render_doc entries = DOC_HEADER @ newline @ newline @ render_opcode_table entries"

subsection \<open>Roll-ups\<close>

text \<open>The loop that counts the entries of each API in the order of first appearance, and the one that collects the
  APIs.\<close>

fun count_entry :: "u8 \<Rightarrow> string \<Rightarrow> (u8 \<times> string \<times> nat) list \<Rightarrow> (u8 \<times> string \<times> nat) list" where
  "count_entry api_id api_name [] = [(api_id, api_name, 1)]"
| "count_entry api_id api_name ((i, name, n) # apis) =
     (if i = api_id \<and> name = api_name then (i, name, n + 1) # apis
      else (i, name, n) # count_entry api_id api_name apis)"

definition api_counts :: "opcode_entry list \<Rightarrow> (u8 \<times> string \<times> nat) list" where
  "api_counts entries = fold (\<lambda>e. count_entry (oe_api_id e) (oe_api_name e)) entries []"

definition seen_apis :: "opcode_entry list \<Rightarrow> (u8 \<times> string) list" where
  "seen_apis entries = fold (\<lambda>e seen.
     let key = (oe_api_id e, oe_api_name e) in if key \<in> set seen then seen else seen @ [key]) entries []"

definition render_coverage :: "opcode_entry list \<Rightarrow> string" where
  "render_coverage entries =
     (let apis = sort_key (\<lambda>(i, _, _). i) (api_counts entries);
          (out, total) = fold (\<lambda>(_, name, n) (out, total). (out @ ''| '' @ name @ '' | '' @ digits n @ '' |'' @ newline, total + n))
            apis (''| API | Opcodes |'' @ newline @ ''| --- | --- |'' @ newline, 0)
      in out @ ''| TOTAL | '' @ digits total @ '' |'' @ newline)"

definition render_stats :: "opcode_entry list \<Rightarrow> string" where
  "render_stats entries =
     (let total = length entries; distinct_apis = length (seen_apis entries)
      in ''# Opcode stats'' @ newline @ newline @
         ''- Total opcodes: '' @ digits total @ newline @
         ''- Distinct APIs: '' @ digits distinct_apis @ newline @ newline @ render_coverage entries)"

definition render_apis :: "opcode_entry list \<Rightarrow> string" where
  "render_apis entries =
     fold (\<lambda>(i, name) out. out @ ''| 0x'' @ hex_pad 2 (unat i) @ '' | '' @ name @ '' |'' @ newline)
       (sort_key (\<lambda>(i, _). i) (seen_apis entries))
       (''| ApiId | API |'' @ newline @ ''| --- | --- |'' @ newline)"

definition render_summary :: "opcode_entry list \<Rightarrow> string" where
  "render_summary entries =
     (let total = length entries; distinct_apis = length (seen_apis entries)
      in ''Opcode summary: '' @ digits total @ '' opcode(s) across '' @ digits distinct_apis @ '' API(s)'' @ newline @ newline @
         render_apis entries @ newline @ render_coverage entries)"

subsection \<open>The lockfile\<close>

text \<open>The dash in the header is the UTF-8 sequence \<open>E2 80 94\<close>.\<close>

definition LOCK_HEADER :: string where
  "LOCK_HEADER =
     ''# GraftX opcode lock '' @ [CHR 0xE2, CHR 0x80, CHR 0x94] @ '' generated by '' @ [CHR 0x60] @
     ''cargo xtask opcodes-lock --write'' @ [CHR 0x60] @ ''.'' @ newline @
     ''# One line per opcode: '' @ [CHR 0x60] @ ''0x<api>_<call> <API> <NAME>'' @ [CHR 0x60] @
     '', sorted by (api_id, call_id).'' @ newline @
     ''# Do not edit by hand; renumbering an opcode here will fail '' @ [CHR 0x60] @ ''opcodes-lock --check'' @ [CHR 0x60] @ ''.''"

definition lock_key :: "opcode_entry \<Rightarrow> u8 \<times> u32" where
  "lock_key e = (oe_api_id e, entry_opcode e AND 0x00FFFFFF)"

definition render_lock :: "opcode_entry list \<Rightarrow> string" where
  "render_lock entries =
     fold (\<lambda>e out. out @ format_opcode e @ '' '' @ oe_api_name e @ '' '' @ oe_name e @ newline) (sort_key lock_key entries)
       (LOCK_HEADER @ newline)"

datatype lock_status = UpToDate | Stale (on_disk: string) (expected: string) | Unreadable (error: string)

definition is_up_to_date :: "lock_status \<Rightarrow> bool" where
  "is_up_to_date self = (case self of UpToDate \<Rightarrow> True | _ \<Rightarrow> False)"

definition check_text :: "string + string \<Rightarrow> string \<Rightarrow> lock_status" where
  "check_text read expect =
     (case read of
        Inr disk \<Rightarrow> if disk = expect then UpToDate else Stale disk expect
      | Inl e \<Rightarrow> Unreadable e)"

definition check_lock :: "string + string \<Rightarrow> opcode_entry list \<Rightarrow> lock_status" where
  "check_lock read entries = check_text read (render_lock entries)"

definition check_doc :: "string + string \<Rightarrow> opcode_entry list \<Rightarrow> lock_status" where
  "check_doc read entries = check_text read (render_doc entries)"

end
