(* ===== verification/Xtask_Spec.thy ===== *)
theory Xtask_Spec
  imports Xtask_Opcodes Vk_Wire Gl_Wire Cuda_Wire Hip_Wire Cl_Wire L0_Wire Video_Wire Wgpu_Wire Optix_Wire Sycl_Wire Amf_Wire
begin

section \<open>Properties of the opcode table and its lockfile\<close>

text \<open>
  The lockfile is a canonical form: it does not depend on the order of the table, and two tables have the same one
  only if they hold the same opcodes under the same names. The roll-ups count every entry once. The table itself
  agrees with the protocol's constants on every entry it has, but does not have them all.
\<close>

subsection \<open>The lockfile determines the table\<close>

text \<open>What a line of the lockfile shows of an entry.\<close>

definition shown :: "opcode_entry \<Rightarrow> u8 \<times> u32 \<times> string \<times> string" where
  "shown e = (oe_api_id e, entry_opcode e AND 0x00FFFFFF, oe_api_name e, oe_name e)"

definition lock_line :: "opcode_entry \<Rightarrow> string" where
  "lock_line e = format_opcode e @ '' '' @ oe_api_name e @ '' '' @ oe_name e"

text \<open>Names without blanks and line feeds, as the protocol's are.\<close>

definition plain_names :: "opcode_entry \<Rightarrow> bool" where
  "plain_names e \<longleftrightarrow> CHR '' '' \<notin> set (oe_api_name e) \<and> CHR 0x0A \<notin> set (oe_api_name e) \<and> CHR 0x0A \<notin> set (oe_name e)"

lemma hex_pad_chars:
  "CHR '' '' \<notin> set (hex_pad w n)" "CHR ''_'' \<notin> set (hex_pad w n)" "CHR 0x0A \<notin> set (hex_pad w n)"
  by (auto simp: hex_pad_def pad0_def dest: hex_digits_nonspace)

lemma format_opcode_inj:
  "format_opcode e = format_opcode e' \<longleftrightarrow>
     oe_api_id e = oe_api_id e' \<and> entry_opcode e AND 0x00FFFFFF = entry_opcode e' AND 0x00FFFFFF"
proof
  assume "format_opcode e = format_opcode e'"
  then have "hex_pad 2 (unat (oe_api_id e)) = hex_pad 2 (unat (oe_api_id e'))"
    "hex_pad 6 (unat (entry_opcode e AND 0x00FFFFFF)) = hex_pad 6 (unat (entry_opcode e' AND 0x00FFFFFF))"
    by (simp_all add: format_opcode_def Let_def split_first hex_pad_chars)
  then show "oe_api_id e = oe_api_id e' \<and> entry_opcode e AND 0x00FFFFFF = entry_opcode e' AND 0x00FFFFFF"
    by (auto dest!: hex_pad_inj simp: unsigned_word_eqI)
qed (simp add: format_opcode_def)

lemma format_opcode_chars: "CHR '' '' \<notin> set (format_opcode e)" "CHR 0x0A \<notin> set (format_opcode e)"
  by (simp_all add: format_opcode_def Let_def hex_pad_chars)

lemma lock_line_inj:
  "plain_names e \<Longrightarrow> plain_names e' \<Longrightarrow> lock_line e = lock_line e' \<longleftrightarrow> shown e = shown e'"
  by (auto simp: lock_line_def shown_def plain_names_def split_first format_opcode_chars format_opcode_inj)

lemma render_lock_lines:
  "render_lock entries = LOCK_HEADER @ newline @ concat (map (\<lambda>l. l @ [CHR 0x0A]) (map lock_line (sort_key lock_key entries)))"
  by (simp add: render_lock_def fold_append_concat lock_line_def newline_def comp_def)

text \<open>Lines that agree show the same, and the other way round.\<close>

lemma lock_lines_shown:
  "map lock_line xs = map lock_line ys \<Longrightarrow> list_all plain_names xs \<Longrightarrow> list_all plain_names ys \<Longrightarrow>
     map shown xs = map shown ys"
proof (induction xs arbitrary: ys)
  case (Cons x xs)
  then obtain y ys' where ys: "ys = y # ys'" by (cases ys) simp_all
  then show ?case using Cons.prems Cons.IH [of ys'] by (simp add: lock_line_inj)
qed simp

lemma lock_line_of_shown: "lock_line e = (case shown e of (i, c, api, nm) \<Rightarrow>
    ''0x'' @ hex_pad 2 (unat i) @ ''_'' @ hex_pad 6 (unat c) @ '' '' @ api @ '' '' @ nm)"
  by (simp add: lock_line_def shown_def format_opcode_def Let_def)

lemma render_lock_of_shown:
  assumes "map shown (sort_key lock_key es) = map shown (sort_key lock_key es')"
  shows "render_lock es = render_lock es'"
proof -
  have "map lock_line xs = map (\<lambda>(i, c, api, nm).
      ''0x'' @ hex_pad 2 (unat i) @ ''_'' @ hex_pad 6 (unat c) @ '' '' @ api @ '' '' @ nm) (map shown xs)" for xs
    unfolding map_map by (rule map_cong) (simp_all add: lock_line_of_shown)
  then have "map lock_line (sort_key lock_key es) = map lock_line (sort_key lock_key es')"
    using assms by (simp only:)
  then show ?thesis by (simp only: render_lock_lines)
qed

lemma render_lock_shown:
  assumes "list_all plain_names es" "list_all plain_names es'" "render_lock es = render_lock es'"
  shows "map shown (sort_key lock_key es) = map shown (sort_key lock_key es')"
proof -
  have ends: "list_all (\<lambda>l. CHR 0x0A \<notin> set l) (map lock_line (sort_key lock_key xs))" if "list_all plain_names xs" for xs
    using that by (auto simp: list_all_iff lock_line_def plain_names_def format_opcode_chars)
  have lines: "map lock_line (sort_key lock_key es) = map lock_line (sort_key lock_key es')"
    by (rule concat_terminated_inj [OF ends [OF assms(1)] ends [OF assms(2)]])
      (use assms(3) in \<open>simp only: render_lock_lines same_append_eq\<close>)
  have plain: "list_all plain_names (sort_key lock_key es)" "list_all plain_names (sort_key lock_key es')"
    using assms by (simp_all add: list_all_iff)
  show ?thesis using lines plain by (rule lock_lines_shown)
qed

lemma lock_key_shown: "lock_key = (\<lambda>(i, c, _, _). (i, c)) \<circ> shown"
  by (simp add: fun_eq_iff lock_key_def shown_def)

lemma sort_key_map: "map f (sort_key (g \<circ> f) xs) = sort_key g (map f xs)"
proof (induction xs)
  case (Cons x xs)
  have "map f (insort_key (\<lambda>a. g (f a)) x ys) = insort_key g (f x) (map f ys)" for ys
    by (induction ys) simp_all
  then show ?case using Cons by (simp add: comp_def)
qed simp

subsection \<open>The properties\<close>

text \<open>C37. The lockfile check answers "up to date" exactly when the file was rendered from a table with the same
  opcodes under the same names, in whatever order the two tables list them.\<close>

theorem xtask_lock_canonical:
  assumes "list_all plain_names es" "list_all plain_names es'" "distinct (map lock_key es)"
  shows "is_up_to_date (check_lock (Inr (render_lock es)) es') \<longleftrightarrow> mset (map shown es) = mset (map shown es')"
proof -
  let ?key = "\<lambda>(i, c, _, _). (i, c)"
  have sorted: "map shown (sort_key lock_key xs) = sort_key ?key (map shown xs)" for xs
    unfolding lock_key_shown by (rule sort_key_map)
  have keys: "distinct (map ?key (map shown es))"
    using assms(3) by (simp add: lock_key_shown comp_def)
  have "is_up_to_date (check_lock (Inr (render_lock es)) es') \<longleftrightarrow> render_lock es = render_lock es'"
    by (auto simp: is_up_to_date_def check_lock_def check_text_def)
  also have "\<dots> \<longleftrightarrow> map shown (sort_key lock_key es) = map shown (sort_key lock_key es')"
    using render_lock_shown [OF assms(1,2)] render_lock_of_shown by blast
  also have "\<dots> \<longleftrightarrow> mset (map shown es) = mset (map shown es')"
  proof
    assume "map shown (sort_key lock_key es) = map shown (sort_key lock_key es')"
    then show "mset (map shown es) = mset (map shown es')"
      by (metis mset_map mset_sort)
  next
    assume same: "mset (map shown es) = mset (map shown es')"
    have "inj_on ?key (set (map shown es))" using keys by (simp only: distinct_map)
    then have "sort_key ?key (map shown es) = sort_key ?key (map shown es')"
      by (intro sort_key_inj_key_eq) (simp_all only: same mset_sort sorted_sort_key)
    then show "map shown (sort_key lock_key es) = map shown (sort_key lock_key es')"
      by (simp only: sorted)
  qed
  finally show ?thesis .
qed

theorem xtask_lock_canonical_witness:
  "is_up_to_date (check_lock (Inr (render_lock [entry ''Vulkan'' 1 ''B'' 2, entry ''Core'' 0 ''A'' 1]))
     [entry ''Core'' 0 ''A'' 1, entry ''Vulkan'' 1 ''B'' 2]) \<and>
   \<not> is_up_to_date (check_lock (Inr (render_lock [entry ''Vulkan'' 1 ''B'' 2, entry ''Core'' 0 ''A'' 1]))
     [entry ''Core'' 0 ''A'' 1, entry ''Vulkan'' 1 ''B'' 3])"
  by (subst (1 2) xtask_lock_canonical)
    (simp_all add: plain_names_def entry_def lock_key_def shown_def entry_opcode_def)

lemma OPCODES_values:
  "map entry_opcode OPCODES = [
    0x00000001, 0x00000002, 0x00000003, 0x01000001, 0x01000002, 0x01000003, 0x01000004, 0x01000005,
    0x01000006, 0x01000007, 0x01000008, 0x01000010, 0x01000011, 0x01000012, 0x02000001, 0x02000002,
    0x02000003, 0x03000001, 0x03000002, 0x03000003, 0x04000001, 0x04000002, 0x04000003, 0x05000001,
    0x05000002, 0x05000003, 0x06000001, 0x06000002, 0x06000003, 0x07000001, 0x07000002, 0x07000003,
    0x08000001, 0x08000002, 0x08000003, 0x09000001, 0x09000002, 0x09000003, 0x0A000001, 0x0A000002,
    0x0A000003, 0x0B000001, 0x0B000002, 0x0B000003]"
  by (simp add: OPCODES_def core_vulkan_rows_def other_rows_def entry_def entry_opcode_def)

lemma OPCODES_lock_keys: "distinct (map lock_key OPCODES)"
  by (simp add: OPCODES_def core_vulkan_rows_def other_rows_def entry_def entry_opcode_def lock_key_def)

lemma OPCODES_plain: "list_all plain_names OPCODES"
  by (simp add: OPCODES_def core_vulkan_rows_def other_rows_def entry_def plain_names_def)

lemmas op_values = core_op_values vk_op_values gl_op_values cuda_op_values hip_op_values cl_op_values l0_op_values
  video_op_values wgpu_op_values optix_op_values sycl_op_values amf_op_values

text \<open>
  The opcode constants of the protocol crate (the modules \<open>core_op\<close> to \<open>amf_op\<close>), in the order of their values: the
  namespace, the name and the constant. Beside it the names of the variants of \<open>ApiId\<close>.
\<close>

definition protocol_constants :: "(api_id \<times> string \<times> u32) list" where
  "protocol_constants = [
    (Core, ''HELLO'', core_op_HELLO),
    (Core, ''WELCOME'', core_op_WELCOME),
    (Core, ''NOOP'', core_op_NOOP),
    (Vulkan, ''CREATE_INSTANCE'', vk_op_CREATE_INSTANCE),
    (Vulkan, ''DESTROY_INSTANCE'', vk_op_DESTROY_INSTANCE),
    (Vulkan, ''ENUMERATE_PHYSICAL_DEVICES'', vk_op_ENUMERATE_PHYSICAL_DEVICES),
    (Vulkan, ''GET_PHYSICAL_DEVICE_PROPERTIES'', vk_op_GET_PHYSICAL_DEVICE_PROPERTIES),
    (Vulkan, ''CREATE_DEVICE'', vk_op_CREATE_DEVICE),
    (Vulkan, ''DESTROY_DEVICE'', vk_op_DESTROY_DEVICE),
    (Vulkan, ''GET_DEVICE_QUEUE'', vk_op_GET_DEVICE_QUEUE),
    (Vulkan, ''DEVICE_WAIT_IDLE'', vk_op_DEVICE_WAIT_IDLE),
    (Vulkan, ''ALLOCATE_MEMORY'', vk_op_ALLOCATE_MEMORY),
    (Vulkan, ''CREATE_BUFFER'', vk_op_CREATE_BUFFER),
    (Vulkan, ''BIND_BUFFER_MEMORY'', vk_op_BIND_BUFFER_MEMORY),
    (Vulkan, ''DESTROY_BUFFER'', vk_op_DESTROY_BUFFER),
    (Vulkan, ''FREE_MEMORY'', vk_op_FREE_MEMORY),
    (Vulkan, ''CREATE_COMMAND_POOL'', vk_op_CREATE_COMMAND_POOL),
    (Vulkan, ''ALLOCATE_COMMAND_BUFFER'', vk_op_ALLOCATE_COMMAND_BUFFER),
    (Vulkan, ''QUEUE_SUBMIT'', vk_op_QUEUE_SUBMIT),
    (Vulkan, ''CMD_COPY_BUFFER'', vk_op_CMD_COPY_BUFFER),
    (Vulkan, ''CMD_DRAW'', vk_op_CMD_DRAW),
    (Vulkan, ''DESTROY_COMMAND_POOL'', vk_op_DESTROY_COMMAND_POOL),
    (OpenGl, ''CREATE_CONTEXT'', gl_op_CREATE_CONTEXT),
    (OpenGl, ''MAKE_CURRENT'', gl_op_MAKE_CURRENT),
    (OpenGl, ''GEN_BUFFER'', gl_op_GEN_BUFFER),
    (OpenGl, ''SWAP_BUFFERS'', gl_op_SWAP_BUFFERS),
    (OpenGl, ''DELETE_BUFFER'', gl_op_DELETE_BUFFER),
    (Cuda, ''CTX_CREATE'', cuda_op_CTX_CREATE),
    (Cuda, ''MEM_ALLOC'', cuda_op_MEM_ALLOC),
    (Cuda, ''MEM_FREE'', cuda_op_MEM_FREE),
    (Cuda, ''LAUNCH_KERNEL'', cuda_op_LAUNCH_KERNEL),
    (Cuda, ''MEMCPY_HTOD'', cuda_op_MEMCPY_HTOD),
    (Cuda, ''MEMCPY_DTOH'', cuda_op_MEMCPY_DTOH),
    (OpenCl, ''CREATE_CONTEXT'', cl_op_CREATE_CONTEXT),
    (OpenCl, ''CREATE_BUFFER'', cl_op_CREATE_BUFFER),
    (OpenCl, ''RELEASE_BUFFER'', cl_op_RELEASE_BUFFER),
    (Hip, ''MALLOC'', hip_op_MALLOC),
    (Hip, ''FREE'', hip_op_FREE),
    (Hip, ''STREAM_CREATE'', hip_op_STREAM_CREATE),
    (LevelZero, ''CONTEXT_CREATE'', l0_op_CONTEXT_CREATE),
    (LevelZero, ''MEM_ALLOC_DEVICE'', l0_op_MEM_ALLOC_DEVICE),
    (LevelZero, ''MEM_FREE'', l0_op_MEM_FREE),
    (Video, ''CREATE_DECODE_SESSION'', video_op_CREATE_DECODE_SESSION),
    (Video, ''DECODE_FRAME'', video_op_DECODE_FRAME),
    (Video, ''DESTROY_SESSION'', video_op_DESTROY_SESSION),
    (WebGpu, ''REQUEST_DEVICE'', wgpu_op_REQUEST_DEVICE),
    (WebGpu, ''CREATE_BUFFER'', wgpu_op_CREATE_BUFFER),
    (WebGpu, ''DESTROY_BUFFER'', wgpu_op_DESTROY_BUFFER),
    (OptiX, ''CONTEXT_CREATE'', optix_op_CONTEXT_CREATE),
    (OptiX, ''PIPELINE_CREATE'', optix_op_PIPELINE_CREATE),
    (OptiX, ''DESTROY'', optix_op_DESTROY),
    (Sycl, ''QUEUE_CREATE'', sycl_op_QUEUE_CREATE),
    (Sycl, ''MALLOC_DEVICE'', sycl_op_MALLOC_DEVICE),
    (Sycl, ''FREE'', sycl_op_FREE),
    (Amf, ''CREATE_ENCODER'', amf_op_CREATE_ENCODER),
    (Amf, ''ENCODE_FRAME'', amf_op_ENCODE_FRAME),
    (Amf, ''DESTROY_ENCODER'', amf_op_DESTROY_ENCODER)]"

fun api_variant :: "api_id \<Rightarrow> string" where
  "api_variant Core = ''Core''"
| "api_variant Vulkan = ''Vulkan''"
| "api_variant OpenGl = ''OpenGl''"
| "api_variant Cuda = ''Cuda''"
| "api_variant OpenCl = ''OpenCl''"
| "api_variant Hip = ''Hip''"
| "api_variant LevelZero = ''LevelZero''"
| "api_variant Video = ''Video''"
| "api_variant WebGpu = ''WebGpu''"
| "api_variant OptiX = ''OptiX''"
| "api_variant Sycl = ''Sycl''"
| "api_variant Amf = ''Amf''"

lemmas OPCODES_rows = OPCODES_def core_vulkan_rows_def other_rows_def entry_def entry_opcode_def

lemma OPCODES_listed:
  "map (\<lambda>e. (oe_api_name e, oe_api_id e, oe_name e, entry_opcode e)) OPCODES =
   map (\<lambda>(api, name, opc). (api_variant api, api_id_u8 api, name, opc))
     (filter (\<lambda>(api, name, opc). opc \<notin> set [
        0x01000013, 0x01000014, 0x01000020, 0x01000021, 0x01000022, 0x01000023, 0x01000024, 0x01000025,
        0x02000004, 0x02000005, 0x03000010, 0x03000011, 0x03000012]) protocol_constants)"
  by (simp add: OPCODES_rows protocol_constants_def op_values)

text \<open>C39. The table repeats the opcode constants of the protocol, in the order of their values: leaving out thirteen of
  the 57 constants, each row has the name and the number of the constant's namespace, the name of the constant, and an
  opcode equal to the constant. No two entries share an opcode or a lock key, and all names are fit for the lockfile.
  The table is not complete: no entry has one of the thirteen opcodes.\<close>

theorem xtask_table_mirrors:
  "let unlisted = [
      vk_op_DESTROY_BUFFER, vk_op_FREE_MEMORY, vk_op_CREATE_COMMAND_POOL, vk_op_ALLOCATE_COMMAND_BUFFER,
      vk_op_QUEUE_SUBMIT, vk_op_CMD_COPY_BUFFER, vk_op_CMD_DRAW, vk_op_DESTROY_COMMAND_POOL, gl_op_SWAP_BUFFERS,
      gl_op_DELETE_BUFFER, cuda_op_LAUNCH_KERNEL, cuda_op_MEMCPY_HTOD, cuda_op_MEMCPY_DTOH] in
   map (\<lambda>e. (oe_api_name e, oe_api_id e, oe_name e, entry_opcode e)) OPCODES =
     map (\<lambda>(api, name, opc). (api_variant api, api_id_u8 api, name, opc))
       (filter (\<lambda>(api, name, opc). opc \<notin> set unlisted) protocol_constants) \<and>
   length protocol_constants = 57 \<and> length OPCODES = 44 \<and>
   distinct (map entry_opcode OPCODES) \<and> distinct (map lock_key OPCODES) \<and> list_all plain_names OPCODES \<and>
   list_all (\<lambda>c. c \<notin> entry_opcode ` set OPCODES) unlisted"
proof -
  have "entry_opcode ` set OPCODES = set (map entry_opcode OPCODES)" by simp
  moreover have "distinct (map entry_opcode OPCODES)" by (simp only: OPCODES_values) simp
  moreover have "length protocol_constants = 57" "length OPCODES = 44"
    by (simp_all add: protocol_constants_def OPCODES_def core_vulkan_rows_def other_rows_def)
  moreover have "list_all (\<lambda>c. c \<notin> set (map entry_opcode OPCODES)) [
      vk_op_DESTROY_BUFFER, vk_op_FREE_MEMORY, vk_op_CREATE_COMMAND_POOL, vk_op_ALLOCATE_COMMAND_BUFFER,
      vk_op_QUEUE_SUBMIT, vk_op_CMD_COPY_BUFFER, vk_op_CMD_DRAW, vk_op_DESTROY_COMMAND_POOL, gl_op_SWAP_BUFFERS,
      gl_op_DELETE_BUFFER, cuda_op_LAUNCH_KERNEL, cuda_op_MEMCPY_HTOD, cuda_op_MEMCPY_DTOH]"
    by (simp only: OPCODES_values op_values) simp
  moreover note OPCODES_listed OPCODES_lock_keys OPCODES_plain
  ultimately show ?thesis
    by (simp only: Let_def op_values simp_thms)
qed

end
