(* ===== verification/Xtask_Xrefs.thy ===== *)
theory Xtask_Xrefs
  imports Text_Format "HOL-Library.List_Lexorder" "HOL-Library.Char_ord" "HOL-Library.Product_Lexorder"
begin

section \<open>The document checks of the task runner\<close>

text \<open>
  \<open>crates/graftx-xtask/src/xrefs.rs\<close> and \<open>doc_index.rs\<close>. The scanners of a line, loops over byte positions in the
  source, are recursions on the rest of the line. The file system is a parameter: a tree of directories in the order
  the system lists them, with the errors of reading a directory, an entry or a file type in their places, what reading
  a file gives, and whether a link target joined to a directory exists. A writer gives the text written to it.
\<close>

subsection \<open>Extraction\<close>

definition MIN_CHAPTER :: u32 where
  "MIN_CHAPTER = 1"

definition MAX_CHAPTER :: u32 where
  "MAX_CHAPTER = 32"

datatype issue =
    BrokenLink (issue_line: nat) (link_target: string)
  | OutOfRangeChapter (issue_line: nat) (chapter_number: u32)

definition describe :: "issue \<Rightarrow> string" where
  "describe self =
     (case self of
        BrokenLink line target \<Rightarrow> ''line '' @ digits line @ '': BROKEN LINK -> '' @ target
      | OutOfRangeChapter line chapter \<Rightarrow>
          ''line '' @ digits line @ '': OUT-OF-RANGE chapter ref (Ch. '' @ pad0 2 (digits (unat chapter)) @ '') (valid '' @
          digits (unat MIN_CHAPTER) @ ''..='' @ digits (unat MAX_CHAPTER) @ '')'')"

function line_links :: "string \<Rightarrow> string list" where
  "line_links (a # b # rest) =
     (if a = CHR '']'' \<and> b = CHR ''('' then
        (case find_char CHR '')'' rest of
           Some (target, after) \<Rightarrow> target # line_links after
         | None \<Rightarrow> line_links (b # rest))
      else line_links (b # rest))"
| "line_links [a] = []"
| "line_links [] = []"
  by pat_completeness auto
termination
  by (relation "measure length") (auto dest: find_char_SomeD)

definition extract_links :: "string \<Rightarrow> (nat \<times> string) list" where
  "extract_links md = concat (map (\<lambda>(idx, line). map (Pair (idx + 1)) (line_links line)) (enumerate 0 (str_lines md)))"

definition chapter_ref :: "string \<Rightarrow> u32 option" where
  "chapter_ref line =
     (let line = (case line of c # cs \<Rightarrow> if c = CHR '' '' then cs else line | [] \<Rightarrow> line);
          number = takeWhile is_ascii_digit line;
          rest = dropWhile is_ascii_digit line
      in if number \<noteq> [] \<and> rest \<noteq> [] \<and> hd rest = CHR '')'' then parse_u32 number else None)"

function line_chapter_refs :: "string \<Rightarrow> u32 list" where
  "line_chapter_refs line =
     (case find_str ''(Ch.'' line of
        Some after \<Rightarrow> (case chapter_ref after of Some n \<Rightarrow> [n] | None \<Rightarrow> []) @ line_chapter_refs after
      | None \<Rightarrow> [])"
  by pat_completeness auto
termination
  by (relation "measure length") (auto dest: find_str_SomeD)

declare line_chapter_refs.simps [simp del]

definition extract_chapter_refs :: "string \<Rightarrow> (nat \<times> u32) list" where
  "extract_chapter_refs md =
     concat (map (\<lambda>(idx, line). map (Pair (idx + 1)) (line_chapter_refs line)) (enumerate 0 (str_lines md)))"

definition chapter_in_range :: "u32 \<Rightarrow> bool" where
  "chapter_in_range chapter \<longleftrightarrow> MIN_CHAPTER \<le> chapter \<and> chapter \<le> MAX_CHAPTER"

definition is_external_or_anchor :: "string \<Rightarrow> bool" where
  "is_external_or_anchor target \<longleftrightarrow>
     target = [] \<or> starts_with target ''http://'' \<or> starts_with target ''https://'' \<or> starts_with target ''mailto:'' \<or>
     starts_with target ''#''"

subsection \<open>The file system\<close>

text \<open>A path is the list of its components. The entries of a directory are in the order \<open>read_dir\<close> yields them; an
  entry can fail, or its file type can.\<close>

type_synonym path = "string list"

datatype fs_node = Unreadable_Directory string | Directory "dir_entry list" | Regular | Other
  and dir_entry = Entry_Error string | Type_Error string string | Entry string fs_node

definition display :: "path \<Rightarrow> string" where
  "display path = (case path of [] \<Rightarrow> [] | c # cs \<Rightarrow> c @ concat (map (\<lambda>d. CHR ''/'' # d) cs))"

definition parent :: "path \<Rightarrow> path" where
  "parent path = (if path = [] then [''.''] else butlast path)"

text \<open>\<open>Path::extension() == Some("md")\<close>: the name ends in \<open>.md\<close> with something before it.\<close>

definition has_md_extension :: "string \<Rightarrow> bool" where
  "has_md_extension name \<longleftrightarrow> length name > 3 \<and> drop (length name - 3) name = ''.md''"

text \<open>\<open>fs_read_dir_error\<close> is the error of \<open>read_dir\<close> on a path that is not a directory.\<close>

record file_system =
  fs_read_to_string :: "path \<Rightarrow> string + string"
  fs_join_exists :: "path \<Rightarrow> string \<Rightarrow> bool"
  fs_node_at :: "path \<Rightarrow> fs_node option"
  fs_read_dir_error :: "path \<Rightarrow> string"

definition link_target_exists :: "file_system \<Rightarrow> path \<Rightarrow> string \<Rightarrow> bool" where
  "link_target_exists fs from_file target =
     (let path = takeWhile (\<lambda>c. c \<noteq> CHR ''#'') target
      in if path = [] then True else fs_join_exists fs (parent from_file) path)"

definition lint_markdown :: "file_system \<Rightarrow> path \<Rightarrow> string \<Rightarrow> issue list" where
  "lint_markdown fs path contents =
     (let issues = map (\<lambda>(line, target). BrokenLink line target)
            (filter (\<lambda>(line, target). \<not> is_external_or_anchor target \<and> \<not> link_target_exists fs path target)
               (extract_links contents));
          issues = issues @ map (\<lambda>(line, chapter). OutOfRangeChapter line chapter)
            (filter (\<lambda>(line, chapter). \<not> chapter_in_range chapter) (extract_chapter_refs contents))
      in sort_key issue_line issues)"

definition is_dir :: "fs_node \<Rightarrow> bool" where
  "is_dir node = (case node of Directory _ \<Rightarrow> True | Unreadable_Directory _ \<Rightarrow> True | _ \<Rightarrow> False)"

text \<open>\<open>collect_into\<close>: the function on a directory and its loop over the entries. The vector it pushes to is dropped
  by its caller when it fails.\<close>

fun collect_into :: "(path \<Rightarrow> string) \<Rightarrow> path \<Rightarrow> fs_node \<Rightarrow> path list \<Rightarrow> string + path list"
  and collect_entries :: "(path \<Rightarrow> string) \<Rightarrow> path \<Rightarrow> dir_entry list \<Rightarrow> path list \<Rightarrow> string + path list" where
  "collect_into err dir (Unreadable_Directory e) out = Inl (''read_dir '' @ display dir @ '': '' @ e)"
| "collect_into err dir (Directory entries) out = collect_entries err dir entries out"
| "collect_into err dir _ out = Inl (''read_dir '' @ display dir @ '': '' @ err dir)"
| "collect_entries err dir [] out = Inr out"
| "collect_entries err dir (Entry_Error e # entries) out = Inl (''dir entry under '' @ display dir @ '': '' @ e)"
| "collect_entries err dir (Type_Error name e # entries) out =
     Inl (''file_type '' @ display (dir @ [name]) @ '': '' @ e)"
| "collect_entries err dir (Entry name node # entries) out =
     (if is_dir node then
        (case collect_into err (dir @ [name]) node out of
           Inl e \<Rightarrow> Inl e
         | Inr out \<Rightarrow> collect_entries err dir entries out)
      else if node = Regular \<and> has_md_extension name then collect_entries err dir entries (out @ [dir @ [name]])
      else collect_entries err dir entries out)"

definition collect_markdown_files :: "file_system \<Rightarrow> path \<Rightarrow> string + path list" where
  "collect_markdown_files fs dir =
     (case fs_node_at fs dir of
        None \<Rightarrow> Inr []
      | Some node \<Rightarrow>
          (case collect_into (fs_read_dir_error fs) dir node [] of
             Inl e \<Rightarrow> Inl e
           | Inr files \<Rightarrow> Inr (sort files)))"

subsection \<open>The report\<close>

text \<open>The loop over the files keeps the number of issues, the number of files with issues and the report.\<close>

definition lint_file :: "file_system \<Rightarrow> path \<Rightarrow> nat \<times> nat \<times> string \<Rightarrow> nat \<times> nat \<times> string" where
  "lint_file fs path acc =
     (let (total, files_with_issues, report) = acc
      in case fs_read_to_string fs path of
        Inl e \<Rightarrow>
          (total + 1, files_with_issues + 1,
           report @ display path @ '':'' @ newline @ ''  read error: '' @ e @ newline)
      | Inr contents \<Rightarrow>
          (let issues = lint_markdown fs path contents
           in if issues = [] then (total, files_with_issues, report)
              else (total + length issues, files_with_issues + 1,
                report @ display path @ '':'' @ newline @ concat (map (\<lambda>issue. ''  '' @ describe issue @ newline) issues))))"

definition check_xrefs :: "file_system \<Rightarrow> path \<Rightarrow> string \<times> nat" where
  "check_xrefs fs docs_dir =
     (case collect_markdown_files fs docs_dir of
        Inl e \<Rightarrow> (''check-xrefs: failed to scan '' @ display docs_dir @ '': '' @ e @ newline, 1)
      | Inr files \<Rightarrow>
          (let (total, files_with_issues, report) = fold (lint_file fs) files (0, 0, [])
           in (report @
               (if total = 0
                then ''check-xrefs: scanned '' @ digits (length files) @ '' file(s), no issues found'' @ newline
                else ''check-xrefs: '' @ digits total @ '' issue(s) across '' @ digits files_with_issues @ '' file(s) ('' @
                  digits (length files) @ '' scanned)'' @ newline),
               total)))"

subsection \<open>The index of the design documents\<close>

definition README_NAME :: string where
  "README_NAME = ''README.md''"

definition missing_index_links :: "string \<Rightarrow> string list \<Rightarrow> string list" where
  "missing_index_links readme doc_filenames =
     filter (\<lambda>name. \<not> str_contains readme name) (filter (\<lambda>name. name \<noteq> README_NAME) doc_filenames)"

fun list_entries :: "path \<Rightarrow> dir_entry list \<Rightarrow> string list \<Rightarrow> string + string list" where
  "list_entries dir [] names = Inr names"
| "list_entries dir (Entry_Error e # entries) names = Inl (''dir entry under '' @ display dir @ '': '' @ e)"
| "list_entries dir (Type_Error name e # entries) names = Inl (''file_type '' @ display (dir @ [name]) @ '': '' @ e)"
| "list_entries dir (Entry name node # entries) names =
     list_entries dir entries (if node = Regular \<and> has_md_extension name then names @ [name] else names)"

definition list_markdown_filenames :: "file_system \<Rightarrow> path \<Rightarrow> string + string list" where
  "list_markdown_filenames fs dir =
     (case fs_node_at fs dir of
        Some (Directory entries) \<Rightarrow> (case list_entries dir entries [] of Inl e \<Rightarrow> Inl e | Inr names \<Rightarrow> Inr (sort names))
      | Some (Unreadable_Directory e) \<Rightarrow> Inl (''read_dir '' @ display dir @ '': '' @ e)
      | _ \<Rightarrow> Inl (''read_dir '' @ display dir @ '': '' @ fs_read_dir_error fs dir))"

definition check_doc_index :: "file_system \<Rightarrow> path \<Rightarrow> string \<times> nat" where
  "check_doc_index fs design_dir =
     (case list_markdown_filenames fs design_dir of
        Inl e \<Rightarrow> (''doc-index: failed to scan '' @ display design_dir @ '': '' @ e @ newline, 1)
      | Inr filenames \<Rightarrow>
          (let readme_path = design_dir @ [README_NAME]
           in case fs_read_to_string fs readme_path of
                Inl e \<Rightarrow> (''doc-index: cannot read '' @ display readme_path @ '': '' @ e @ newline, 1)
              | Inr readme \<Rightarrow>
                  (let missing = missing_index_links readme filenames
                   in (if missing = []
                       then ''doc-index: all design docs indexed in '' @ display readme_path @ newline
                       else ''doc-index: '' @ digits (length missing) @ '' design doc(s) not linked from '' @
                         display readme_path @ '':'' @ newline @ concat (map (\<lambda>name. ''  '' @ name @ newline) missing),
                       length missing))))"

end
