(* ===== verification/Xtask_Main.thy ===== *)
theory Xtask_Main
  imports Xtask_Opcodes Xtask_Xrefs
begin

section \<open>The task runner\<close>

text \<open>
  \<open>crates/graftx-xtask/src/main.rs\<close>: the dispatch on the subcommand, the lockfile and document subcommands, the
  aggregate check and the difference report. A subcommand takes the file system, with what writing a file does to it
  as the parameter \<open>write_file\<close> (the error, if any, and the file system afterwards), and gives its exit code, what it
  wrote to standard output and standard error, and the file system.
\<close>

definition EXIT_SUCCESS :: nat where
  "EXIT_SUCCESS = 0"

definition EXIT_FAILURE :: nat where
  "EXIT_FAILURE = 1"

definition EXIT_USAGE :: nat where
  "EXIT_USAGE = 2"

definition DOCS_DIR :: path where
  "DOCS_DIR = [''docs'']"

definition OPCODES_LOCK :: path where
  "OPCODES_LOCK = [''docs'', ''design'', ''opcodes.lock'']"

definition OPCODES_MD :: path where
  "OPCODES_MD = [''docs'', ''design'', ''OPCODES.md'']"

definition DESIGN_DIR :: path where
  "DESIGN_DIR = [''docs'', ''design'']"

type_synonym file_writer = "path \<Rightarrow> string \<Rightarrow> file_system \<Rightarrow> string option \<times> file_system"

subsection \<open>The lockfile and the document\<close>

datatype lock_mode = Write | Check

definition parse_lock_mode :: "string list \<Rightarrow> string + lock_mode" where
  "parse_lock_mode args =
     (case args of
        [] \<Rightarrow> Inr Check
      | other # _ \<Rightarrow>
          if other = ''--check'' then Inr Check
          else if other = ''--write'' then Inr Write
          else Inl (''unknown flag '' @ quoted other @ '' (expected --write or --check)''))"

fun first_difference :: "nat \<Rightarrow> string list \<Rightarrow> string list \<Rightarrow> (nat \<times> string \<times> string) option" where
  "first_difference idx (have_line # have') (want_line # want') =
     (if have_line \<noteq> want_line then Some (idx, have_line, want_line) else first_difference (idx + 1) have' want')"
| "first_difference idx _ _ = None"

definition report_first_difference :: "string \<Rightarrow> string \<Rightarrow> string" where
  "report_first_difference disk want =
     (case first_difference 0 (str_lines disk) (str_lines want) of
        Some (idx, have_line, want_line) \<Rightarrow>
          ''  first difference at line '' @ digits (idx + 1) @ '':'' @ newline @
          ''    on disk:   '' @ have_line @ newline @
          ''    expected:  '' @ want_line @ newline
      | None \<Rightarrow>
          (let have_count = length (str_lines disk); want_count = length (str_lines want)
           in if have_count \<noteq> want_count
              then ''  line count differs: '' @ digits have_count @ '' on disk vs '' @ digits want_count @ '' expected'' @ newline
              else []))"

definition opcodes_lock :: "file_writer \<Rightarrow> string list \<Rightarrow> path \<Rightarrow> file_system \<Rightarrow> outcome \<times> file_system" where
  "opcodes_lock write_file args lock_path fs =
     (case parse_lock_mode args of
        Inl e \<Rightarrow> (exits EXIT_USAGE [] (''opcodes-lock: '' @ e @ newline), fs)
      | Inr Write \<Rightarrow>
          (let rendered = render_lock OPCODES
           in case write_file lock_path rendered fs of
                (None, fs) \<Rightarrow>
                  (let lines = length (filter (\<lambda>l. \<not> starts_with l ''#'') (str_lines rendered))
                   in (exits EXIT_SUCCESS (''opcodes-lock: wrote '' @ display lock_path @ '' ('' @ digits lines @ '' opcode(s))'' @ newline) [], fs))
              | (Some e, fs) \<Rightarrow>
                  (exits EXIT_FAILURE [] (''opcodes-lock: failed to write '' @ display lock_path @ '': '' @ e @ newline), fs))
      | Inr Check \<Rightarrow>
          (case check_lock (fs_read_to_string fs lock_path) OPCODES of
             UpToDate \<Rightarrow> (exits EXIT_SUCCESS (''opcodes-lock: '' @ display lock_path @ '' is up to date'' @ newline) [], fs)
           | Stale disk want \<Rightarrow>
               (exits EXIT_FAILURE [] (''opcodes-lock: '' @ display lock_path @ '' is out of date '' @ dash @ '' run '' @
                  quoted ''cargo xtask opcodes-lock --write'' @ newline @ report_first_difference disk want), fs)
           | Unreadable e \<Rightarrow>
               (exits EXIT_FAILURE [] (''opcodes-lock: cannot read '' @ display lock_path @ '': '' @ e @ '' '' @ dash @ '' run '' @
                  quoted ''cargo xtask opcodes-lock --write'' @ newline), fs)))"

definition opcodes_md :: "file_writer \<Rightarrow> string list \<Rightarrow> path \<Rightarrow> file_system \<Rightarrow> outcome \<times> file_system" where
  "opcodes_md write_file args doc_path fs =
     (case parse_lock_mode args of
        Inl e \<Rightarrow> (exits EXIT_USAGE [] (''opcodes-md: '' @ e @ newline), fs)
      | Inr Write \<Rightarrow>
          (let rendered = render_doc OPCODES
           in case write_file doc_path rendered fs of
                (None, fs) \<Rightarrow>
                  (exits EXIT_SUCCESS (''opcodes-md: wrote '' @ display doc_path @ '' ('' @ digits (length OPCODES) @ '' opcode(s))'' @ newline) [], fs)
              | (Some e, fs) \<Rightarrow>
                  (exits EXIT_FAILURE [] (''opcodes-md: failed to write '' @ display doc_path @ '': '' @ e @ newline), fs))
      | Inr Check \<Rightarrow>
          (case check_doc (fs_read_to_string fs doc_path) OPCODES of
             UpToDate \<Rightarrow> (exits EXIT_SUCCESS (''opcodes-md: '' @ display doc_path @ '' is up to date'' @ newline) [], fs)
           | Stale disk want \<Rightarrow>
               (exits EXIT_FAILURE [] (''opcodes-md: '' @ display doc_path @ '' is out of date '' @ dash @ '' run '' @
                  quoted ''cargo xtask opcodes-md --write'' @ newline @ report_first_difference disk want), fs)
           | Unreadable e \<Rightarrow>
               (exits EXIT_FAILURE [] (''opcodes-md: cannot read '' @ display doc_path @ '': '' @ e @ '' '' @ dash @ '' run '' @
                  quoted ''cargo xtask opcodes-md --write'' @ newline), fs)))"

subsection \<open>The aggregate check\<close>

record verify_outcome =
  xref_issues :: nat
  lock_up_to_date :: bool

definition passed :: "verify_outcome \<Rightarrow> bool" where
  "passed self \<longleftrightarrow> xref_issues self = 0 \<and> lock_up_to_date self"

definition verify_exit_code :: "verify_outcome \<Rightarrow> nat" where
  "verify_exit_code self = (if passed self then EXIT_SUCCESS else EXIT_FAILURE)"

definition verify :: "path \<Rightarrow> path \<Rightarrow> file_system \<Rightarrow> string \<times> nat" where
  "verify docs_dir lock_path fs =
     (let (out, issues) = check_xrefs fs docs_dir;
          up_to_date = is_up_to_date (check_lock (fs_read_to_string fs lock_path) OPCODES);
          outcome = \<lparr>xref_issues = issues, lock_up_to_date = up_to_date\<rparr>
      in (out @
          ''verify: xrefs: '' @ digits (xref_issues outcome) @ '' issue(s)'' @ newline @
          ''verify: opcodes-lock: '' @ (if lock_up_to_date outcome then ''up-to-date'' else ''STALE'') @ newline @
          ''verify: '' @ (if passed outcome then ''OK (all checks passed)'' else ''FAILED'') @ newline,
          verify_exit_code outcome))"

definition usage :: string where
  "usage =
     ''graftx-xtask '' @ dash @ '' GraftX in-repo task runner'' @ newline @
     newline @
     ''Usage:'' @ newline @
     ''    cargo xtask <subcommand>'' @ newline @
     newline @
     ''Subcommands:'' @ newline @
     ''    gen-opcodes    Generate the opcode-table source from graftx-protocol'' @ newline @
     ''    coverage       Summarize opcode coverage per API as a Markdown roll-up'' @ newline @
     ''    stats          Print opcode totals, distinct API count, and per-API roll-up'' @ newline @
     ''    apis           List the distinct API ids and names as a Markdown table'' @ newline @
     ''    summary        Print a combined headline plus the apis and coverage tables'' @ newline @
     ''    opcodes-lock   Freeze (--write) or verify (--check, default) the opcode lock'' @ newline @
     ''    opcodes-md     Write (--write) or verify (--check, default) docs/design/OPCODES.md'' @ newline @
     ''    check-xrefs    Validate cross-references between the docs and the protocol'' @ newline @
     ''    doc-index      Check every docs/design/*.md is linked from its README index'' @ newline @
     ''    verify         Run check-xrefs and opcodes-lock --check together (CI gate)'' @ newline @
     ''    help           Show this message'' @ newline"

subsection \<open>The dispatch\<close>

definition run :: "file_writer \<Rightarrow> string list \<Rightarrow> file_system \<Rightarrow> outcome \<times> file_system" where
  "run write_file args fs =
     (let command = (case args of [] \<Rightarrow> ''help'' | a # _ \<Rightarrow> a)
      in if command = ''gen-opcodes'' then (exits EXIT_SUCCESS (render_opcode_table OPCODES) [], fs)
         else if command = ''coverage'' then (exits EXIT_SUCCESS (render_coverage OPCODES) [], fs)
         else if command = ''stats'' then (exits EXIT_SUCCESS (render_stats OPCODES) [], fs)
         else if command = ''apis'' then (exits EXIT_SUCCESS (render_apis OPCODES) [], fs)
         else if command = ''summary'' then (exits EXIT_SUCCESS (render_summary OPCODES) [], fs)
         else if command = ''opcodes-lock'' then opcodes_lock write_file (tl args) OPCODES_LOCK fs
         else if command = ''opcodes-md'' then opcodes_md write_file (tl args) OPCODES_MD fs
         else if command = ''verify'' then
           (let (out, code) = verify DOCS_DIR OPCODES_LOCK fs in (exits code out [], fs))
         else if command = ''check-xrefs'' then
           (let (out, issues) = check_xrefs fs DOCS_DIR
            in (exits (if issues = 0 then EXIT_SUCCESS else EXIT_FAILURE) out [], fs))
         else if command = ''doc-index'' then
           (let (out, missing) = check_doc_index fs DESIGN_DIR
            in (exits (if missing = 0 then EXIT_SUCCESS else EXIT_FAILURE) out [], fs))
         else if command \<in> {''help'', ''-h'', ''--help''} then (exits EXIT_SUCCESS usage [], fs)
         else (exits EXIT_USAGE [] (''graftx-xtask: unknown subcommand '' @ quoted command @ newline @ usage), fs))"

end
