(* ===== verification/Xtask_Docs_Spec.thy ===== *)
theory Xtask_Docs_Spec
  imports Xtask_Main
begin

section \<open>Properties of the document checks\<close>

text \<open>
  The link scanner finds exactly the links of a document, the directory walk finds exactly the Markdown files of the
  tree, and so the aggregate check succeeds exactly on clean documents with an up-to-date lockfile. What a
  \<open>--write\<close> wrote, the following \<open>--check\<close> accepts, and no other subcommand writes.
\<close>

subsection \<open>Links\<close>

text \<open>
  A reading of a line as texts and links in turn, and a last text. A text has no \<open>](\<close>, a target no closing
  parenthesis, and after a \<open>](\<close> in the last text there is no closing parenthesis: it opens no link.
\<close>

definition link_line :: "(string \<times> string) list \<Rightarrow> string \<Rightarrow> string" where
  "link_line links tail = concat (map (\<lambda>(label, target). label @ '']('' @ target @ '')'') links) @ tail"

definition link_reading :: "string \<Rightarrow> (string \<times> string) list \<times> string \<Rightarrow> bool" where
  "link_reading line = (\<lambda>(links, tail). line = link_line links tail \<and>
     (\<forall>(label, target)\<in>set links. (\<nexists>p q. label = p @ '']('' @ q) \<and> CHR '')'' \<notin> set target) \<and>
     (\<forall>p q. tail = p @ '']('' @ q \<longrightarrow> CHR '')'' \<notin> set q))"

lemma link_line_simps [simp]:
  "link_line [] tail = tail"
  "link_line ((label, target) # links) tail = label @ '']('' @ target @ '')'' @ link_line links tail"
  by (simp_all add: link_line_def)

lemma link_reading_Nil: "link_reading line ([], tail) \<longleftrightarrow> line = tail \<and> (\<forall>p q. tail = p @ '']('' @ q \<longrightarrow> CHR '')'' \<notin> set q)"
  by (simp add: link_reading_def)

lemma link_reading_Cons:
  "link_reading line ((label, target) # links, tail) \<longleftrightarrow>
   (\<exists>rest. line = label @ '']('' @ target @ '')'' @ rest \<and> (\<nexists>p q. label = p @ '']('' @ q) \<and> CHR '')'' \<notin> set target \<and>
      link_reading rest (links, tail))"
  by (auto simp: link_reading_def)

text \<open>A line has one reading: each text ends at the first \<open>](\<close>, each target at the first closing parenthesis.\<close>

lemma first_open_unique:
  assumes "l @ '']('' @ r = l' @ '']('' @ r'" "\<nexists>p q. l = p @ '']('' @ q" "\<nexists>p q. l' = p @ '']('' @ q"
  shows "l = l' \<and> r = r'"
  using assms
proof (induction l arbitrary: l')
  case Nil
  then show ?case
  proof (cases l')
    case l': (Cons c cs)
    then show ?thesis using Nil by (cases cs) (auto dest: spec [of _ "[]"])
  qed simp
next
  case (Cons a l)
  show ?case
  proof (cases l')
    case Nil
    then show ?thesis using Cons.prems by (cases l) (auto dest: spec [of _ "[]"])
  next
    case l': (Cons c cs)
    have "\<nexists>p q. l = p @ '']('' @ q" "\<nexists>p q. cs = p @ '']('' @ q"
      using Cons.prems(2,3) l' by (metis append_Cons)+
    then show ?thesis using Cons.IH [of cs] Cons.prems(1) l' by simp
  qed
qed

lemma first_close_unique:
  "t @ c # r = t' @ c # r' \<Longrightarrow> c \<notin> set t \<Longrightarrow> c \<notin> set t' \<Longrightarrow> t = t' \<and> r = r'"
  by (auto simp: append_eq_append_conv2 append_eq_Cons_conv Cons_eq_append_conv)

lemma link_reading_unique:
  "link_reading line (links, tail) \<Longrightarrow> link_reading line (links', tail') \<Longrightarrow> links = links' \<and> tail = tail'"
proof (induction links arbitrary: line links')
  case Nil
  then show ?case
    by (cases links') (fastforce simp: link_reading_Nil link_reading_Cons)+
next
  case (Cons x links)
  obtain label target where x: "x = (label, target)" by (cases x)
  obtain rest where line: "line = label @ '']('' @ target @ '')'' @ rest" "\<nexists>p q. label = p @ '']('' @ q" "CHR '')'' \<notin> set target"
    "link_reading rest (links, tail)" using Cons.prems(1) by (auto simp: x link_reading_Cons)
  show ?case
  proof (cases links')
    case Nil
    then show ?thesis using Cons.prems(2) line(1) by (fastforce simp: link_reading_Nil)
  next
    case (Cons y ys)
    obtain label' target' where y: "y = (label', target')" by (cases y)
    obtain rest' where line': "line = label' @ '']('' @ target' @ '')'' @ rest'" "\<nexists>p q. label' = p @ '']('' @ q" "CHR '')'' \<notin> set target'"
      "link_reading rest' (ys, tail')" using Cons.prems(2) Cons by (auto simp: y link_reading_Cons)
    have "label = label' \<and> target @ '')'' @ rest = target' @ '')'' @ rest'"
      using first_open_unique [OF _ line(2) line'(2)] line(1) line'(1) by metis
    then show ?thesis
      using first_close_unique [of target "CHR '')''" rest target' rest'] line(3,4) line'(3,4) Cons.IH x y Cons by simp
  qed
qed

text \<open>The scanner finds it.\<close>

lemma no_open_Cons:
  assumes "\<nexists>p q. l = p @ '']('' @ q" "a = CHR '']'' \<Longrightarrow> l = [] \<or> hd l \<noteq> CHR ''(''"
  shows "\<nexists>p q. a # l = p @ '']('' @ q"
proof (intro notI, elim exE)
  fix p q assume "a # l = p @ '']('' @ q"
  then show False using assms by (cases p) auto
qed

lemma link_reading_skip:
  assumes "link_reading (b # rest) (links, tail)" "a = CHR '']'' \<Longrightarrow> b = CHR ''('' \<Longrightarrow> CHR '')'' \<notin> set rest"
  shows "\<exists>links' tail'. link_reading (a # b # rest) (links', tail') \<and> map snd links' = map snd links"
proof (cases links)
  case Nil
  have "CHR '')'' \<notin> set q" if "a # b # rest = p @ '']('' @ q" for p q
  proof (cases p)
    case Nil
    then show ?thesis using that assms(2) by simp
  next
    case (Cons c p')
    then have "b # rest = p' @ '']('' @ q" using that by simp
    then show ?thesis using assms(1) unfolding \<open>links = []\<close> link_reading_Nil by blast
  qed
  then have "link_reading (a # b # rest) ([], a # b # rest)" by (simp add: link_reading_Nil)
  then show ?thesis using Nil by auto
next
  case (Cons x ls)
  obtain label target where x: "x = (label, target)" by (cases x)
  obtain rest' where line: "b # rest = label @ '']('' @ target @ '')'' @ rest'" "\<nexists>p q. label = p @ '']('' @ q" "CHR '')'' \<notin> set target"
    "link_reading rest' (ls, tail)" using assms(1) by (auto simp: x Cons link_reading_Cons)
  have "label = [] \<or> hd label \<noteq> CHR ''(''" if "a = CHR '']''"
    using that line(1) assms(2) by (cases label) auto
  with line(2) have "\<nexists>p q. a # label = p @ '']('' @ q" by (rule no_open_Cons)
  then have "link_reading (a # b # rest) ((a # label, target) # ls, tail)"
    using line by (simp add: link_reading_Cons)
  then show ?thesis using Cons x by (metis list.simps(9) snd_conv)
qed

lemma find_char_None: "find_char c s = None \<Longrightarrow> c \<notin> set s"
  by (induction s) (auto split: if_splits option.splits)

lemma line_links_reading: "\<exists>links tail. link_reading line (links, tail) \<and> line_links line = map snd links"
proof (induction line rule: line_links.induct)
  case (1 a b rest)
  let ?open = "a = CHR '']'' \<and> b = CHR ''(''"
  show ?case
  proof (cases "?open \<and> find_char CHR '')'' rest \<noteq> None")
    case True
    then obtain target after where f: "find_char CHR '')'' rest = Some (target, after)" by auto
    then obtain links tail where "link_reading after (links, tail)" "line_links after = map snd links"
      using 1(2) [OF _ f refl] True by auto
    moreover have "rest = target @ CHR '')'' # after" "CHR '')'' \<notin> set target" using find_char_SomeD [OF f] by auto
    ultimately have "link_reading (a # b # rest) (([], target) # links, tail)"
      "line_links (a # b # rest) = map snd (([], target) # links)"
      using True f by (auto simp: link_reading_Cons)
    then show ?thesis by blast
  next
    case False
    then obtain links tail where r: "link_reading (b # rest) (links, tail)" "line_links (b # rest) = map snd links"
      using 1 by blast
    moreover have "line_links (a # b # rest) = line_links (b # rest)" using False by (cases "find_char CHR '')'' rest") auto
    moreover have "CHR '')'' \<notin> set rest" if "?open" using that False find_char_None by blast
    ultimately show ?thesis using link_reading_skip [OF r(1), of a] by auto
  qed
next
  case (2 a)
  then show ?case by (intro exI [of _ "[]"] exI [of _ "[a]"]) (auto simp: link_reading_Nil Cons_eq_append_conv)
next
  case 3
  then show ?case by (intro exI [of _ "[]"]) (simp add: link_reading_Nil)
qed

text \<open>The reading of a line, and with it of a document.\<close>

lemma line_reading:
  obtains r where "\<And>r'. link_reading line r' \<longleftrightarrow> r' = r" "line_links line = map snd (fst r)"
proof -
  obtain links tail where "link_reading line (links, tail)" "line_links line = map snd links"
    using line_links_reading by blast
  then show ?thesis
    using link_reading_unique that [of "(links, tail)"] by (metis fst_conv surj_pair)
qed

lemma lines_reading:
  "\<exists>readings. (\<forall>rs. list_all2 link_reading lines rs \<longleftrightarrow> rs = readings) \<and>
     map (\<lambda>(idx, line). map (Pair (idx + 1)) (line_links line)) (enumerate n lines) =
     map (\<lambda>(idx, links, tail). map (\<lambda>(label, target). (idx + 1, target)) links) (enumerate n readings)"
proof (induction lines arbitrary: n)
  case Nil
  then show ?case by (intro exI [of _ "[]"]) simp
next
  case (Cons line lines)
  obtain readings where rs: "\<And>rs. list_all2 link_reading lines rs \<longleftrightarrow> rs = readings"
    "map (\<lambda>(idx, line). map (Pair (idx + 1)) (line_links line)) (enumerate (Suc n) lines) =
     map (\<lambda>(idx, links, tail). map (\<lambda>(label, target). (idx + 1, target)) links) (enumerate (Suc n) readings)"
    using Cons.IH [of "Suc n"] by blast
  obtain r where r: "\<And>r'. link_reading line r' \<longleftrightarrow> r' = r" "line_links line = map snd (fst r)"
    using line_reading [of line] by metis
  obtain links tail where "r = (links, tail)" by (cases r)
  with r have "list_all2 link_reading (line # lines) rs \<longleftrightarrow> rs = r # readings"
    "map (Pair (n + 1)) (line_links line) = map (\<lambda>(label, target). (n + 1, target)) links" for rs
    using rs(1) by (auto simp: list_all2_Cons1 comp_def case_prod_beta)
  then show ?case
    using rs(2) \<open>r = (links, tail)\<close> by (intro exI [of _ "r # readings"]) simp
qed

subsection \<open>Lines\<close>

lemma split_lf_line:
  "CHR 0x0A \<notin> set line \<Longrightarrow> split_lf acc (line @ CHR 0x0A # rest) = (acc @ line @ [CHR 0x0A]) # split_lf [] rest"
  by (induction line arbitrary: acc) auto

lemma strip_eol_line:
  "line = [] \<or> last line \<noteq> CHR 0x0D \<Longrightarrow> strip_eol (line @ [CHR 0x0A]) = line"
  by (auto simp: strip_eol_def Let_def)

lemma str_lines_terminated:
  assumes "list_all (\<lambda>l. CHR 0x0A \<notin> set l \<and> (l = [] \<or> last l \<noteq> CHR 0x0D)) ls"
  shows "str_lines (concat (map (\<lambda>l. l @ newline) ls)) = ls"
proof -
  have "split_lf [] (concat (map (\<lambda>l. l @ newline) ls)) = map (\<lambda>l. l @ [CHR 0x0A]) ls"
    using assms by (induction ls) (simp_all add: newline_def split_lf_line)
  then show ?thesis
    using assms by (auto simp: str_lines_def list_all_iff strip_eol_line intro!: map_idI)
qed

text \<open>C38. The link scanner on any document: every line of it has exactly one reading as texts and links in turn, where a
  link is a \<open>](\<close> that a closing parenthesis follows, its target reaches up to the first one, and the scan goes on after
  it; the scanner returns exactly the targets of these links, in order, each with the number of its line.\<close>

theorem xtask_links_extracted:
  "\<exists>readings. (\<forall>rs. list_all2 link_reading (str_lines md) rs \<longleftrightarrow> rs = readings) \<and>
     extract_links md = concat (map (\<lambda>(idx, links, tail). map (\<lambda>(label, target). (idx + 1, target)) links) (enumerate 0 readings))"
  using lines_reading [of "str_lines md" 0] unfolding extract_links_def by metis

subsection \<open>The walk over the documents\<close>

text \<open>The Markdown files below a directory, and the trees that can be read to their leaves.\<close>

inductive markdown_at :: "path \<Rightarrow> fs_node \<Rightarrow> path \<Rightarrow> bool" where
  here: "Entry name Regular \<in> set entries \<Longrightarrow> has_md_extension name \<Longrightarrow> markdown_at dir (Directory entries) (dir @ [name])"
| below: "Entry name sub \<in> set entries \<Longrightarrow> markdown_at (dir @ [name]) sub p \<Longrightarrow> markdown_at dir (Directory entries) p"

inductive_simps markdown_at_Directory: "markdown_at dir (Directory entries) p"
inductive_simps markdown_at_leaf: "markdown_at dir Regular p" "markdown_at dir Other p" "markdown_at dir (Unreadable_Directory e) p"

fun tree_readable :: "fs_node \<Rightarrow> bool" and entry_readable :: "dir_entry \<Rightarrow> bool" where
  "tree_readable (Unreadable_Directory e) = False"
| "tree_readable (Directory entries) = list_all entry_readable entries"
| "tree_readable _ = True"
| "entry_readable (Entry_Error e) = False"
| "entry_readable (Type_Error name e) = False"
| "entry_readable (Entry name node) = tree_readable node"

lemma is_dir_simps [simp]:
  "is_dir (Directory es)" "is_dir (Unreadable_Directory e)" "\<not> is_dir Regular" "\<not> is_dir Other"
  by (simp_all add: is_dir_def)

lemma markdown_at_Nil: "\<not> markdown_at dir (Directory []) p"
  by (simp add: markdown_at_Directory)

lemma markdown_at_Entry:
  "markdown_at dir (Directory (Entry name node # entries)) p \<longleftrightarrow>
     node = Regular \<and> has_md_extension name \<and> p = dir @ [name] \<or> markdown_at (dir @ [name]) node p \<or>
     markdown_at dir (Directory entries) p"
  by (auto simp: markdown_at_Directory)

lemma walk_correct:
  "is_dir node \<Longrightarrow> (case collect_into err dir node out of
     Inl e \<Rightarrow> \<not> tree_readable node
   | Inr files \<Rightarrow> tree_readable node \<and> set files = set out \<union> {p. markdown_at dir node p})"
  "case collect_entries err dir entries out of
     Inl e \<Rightarrow> \<not> list_all entry_readable entries
   | Inr files \<Rightarrow> list_all entry_readable entries \<and> set files = set out \<union> {p. markdown_at dir (Directory entries) p}"
proof (induction err dir node out and err dir entries out rule: collect_into_collect_entries.induct)
  case (7 err dir name node entries out)
  show ?case
  proof (cases "is_dir node")
    case True
    then have "node \<noteq> Regular" by auto
    with True 7 show ?thesis
      by (auto simp: markdown_at_Entry split: sum.splits)
  next
    case False
    then have "tree_readable node" "\<not> markdown_at (dir @ [name]) node p" for p
      by (cases node; simp add: markdown_at_leaf)+
    with False 7 show ?thesis
      by (auto simp: markdown_at_Entry split: sum.splits)
  qed
qed (auto simp: markdown_at_Nil markdown_at_leaf split: sum.splits)

text \<open>A file is clean if it can be read, its links that are not external exist, and its chapter references are in
  range; the documents are clean if the tree can be read and all its Markdown files are clean.\<close>

definition clean_file :: "file_system \<Rightarrow> path \<Rightarrow> bool" where
  "clean_file fs p \<longleftrightarrow> (\<exists>contents. fs_read_to_string fs p = Inr contents \<and>
     (\<forall>(line, target) \<in> set (extract_links contents). is_external_or_anchor target \<or> link_target_exists fs p target) \<and>
     (\<forall>(line, n) \<in> set (extract_chapter_refs contents). 1 \<le> n \<and> n \<le> 32))"

definition clean_docs :: "file_system \<Rightarrow> path \<Rightarrow> bool" where
  "clean_docs fs dir \<longleftrightarrow> (case fs_node_at fs dir of
     None \<Rightarrow> True
   | Some node \<Rightarrow> is_dir node \<and> tree_readable node \<and> (\<forall>p. markdown_at dir node p \<longrightarrow> clean_file fs p))"

lemma lint_markdown_Nil:
  "lint_markdown fs p contents = [] \<longleftrightarrow>
     (\<forall>(line, target) \<in> set (extract_links contents). is_external_or_anchor target \<or> link_target_exists fs p target) \<and>
     (\<forall>(line, n) \<in> set (extract_chapter_refs contents). 1 \<le> n \<and> n \<le> 32)"
proof -
  have "sort_key issue_line xs = [] \<longleftrightarrow> xs = []" for xs
    by (metis length_0_conv length_sort)
  then show ?thesis
    by (auto simp: lint_markdown_def Let_def filter_empty_conv chapter_in_range_def MIN_CHAPTER_def MAX_CHAPTER_def)
qed

lemma clean_file_lint:
  "clean_file fs p \<longleftrightarrow> (case fs_read_to_string fs p of Inl _ \<Rightarrow> False | Inr contents \<Rightarrow> lint_markdown fs p contents = [])"
  by (auto simp: clean_file_def lint_markdown_Nil split: sum.splits)

lemma lint_file_total:
  "fst (lint_file fs p acc) = fst acc + (case fs_read_to_string fs p of Inl _ \<Rightarrow> 1 | Inr contents \<Rightarrow> length (lint_markdown fs p contents))"
  by (auto simp: lint_file_def Let_def split: sum.splits prod.splits)

lemma lint_files_total:
  "fst (fold (lint_file fs) files acc) = 0 \<longleftrightarrow> fst acc = 0 \<and> list_all (clean_file fs) files"
  by (induction files arbitrary: acc) (auto simp: lint_file_total clean_file_lint split: sum.splits)

lemma check_xrefs_clean: "snd (check_xrefs fs dir) = 0 \<longleftrightarrow> clean_docs fs dir"
proof (cases "fs_node_at fs dir")
  case None
  then show ?thesis by (simp add: check_xrefs_def collect_markdown_files_def clean_docs_def)
next
  case (Some node)
  show ?thesis
  proof (cases "is_dir node")
    case False
    then show ?thesis
      using Some by (cases node) (simp_all add: check_xrefs_def collect_markdown_files_def clean_docs_def)
  next
    case True
    note walk = walk_correct(1) [OF True, where err = "fs_read_dir_error fs" and dir = dir and out = "[]"]
    show ?thesis
    proof (cases "collect_into (fs_read_dir_error fs) dir node []")
      case (Inl e)
      then show ?thesis
        using walk by (simp add: check_xrefs_def collect_markdown_files_def clean_docs_def Some)
    next
      case (Inr files)
      then have files: "tree_readable node" "set files = {p. markdown_at dir node p}" using walk by simp_all
      have "snd (check_xrefs fs dir) = fst (fold (lint_file fs) (sort files) (0, 0, []))"
        by (simp add: check_xrefs_def collect_markdown_files_def Some Inr case_prod_unfold Let_def)
      also have "\<dots> = 0 \<longleftrightarrow> (\<forall>p. markdown_at dir node p \<longrightarrow> clean_file fs p)"
        using files by (simp add: lint_files_total list_all_iff)
      finally show ?thesis using True files by (simp add: clean_docs_def Some)
    qed
  qed
qed

text \<open>C36. The aggregate check is a sound and complete gate: \<open>verify\<close> exits with success exactly if the lockfile is the
  rendered table and every Markdown file below the documents directory, however deep, can be read and has only links
  that exist and chapters in range; it exits with failure otherwise, and changes no file.\<close>

theorem xtask_verify_gate:
  "exit_code (fst (run write_file [''verify''] fs)) =
     (if clean_docs fs DOCS_DIR \<and> fs_read_to_string fs OPCODES_LOCK = Inr (render_lock OPCODES) then 0 else 1) \<and>
   snd (run write_file [''verify''] fs) = fs"
proof -
  have "is_up_to_date (check_lock r es) \<longleftrightarrow> r = Inr (render_lock es)" for r es
    by (auto simp: is_up_to_date_def check_lock_def check_text_def split: sum.splits)
  then show ?thesis
    by (simp add: run_def verify_def exits_def passed_def verify_exit_code_def EXIT_SUCCESS_def EXIT_FAILURE_def
        case_prod_unfold Let_def check_xrefs_clean)
qed

subsection \<open>Writing and checking\<close>

text \<open>What the documentation of writing a file promises: after a success, reading gives what was written.\<close>

definition writes_take_effect :: "file_writer \<Rightarrow> bool" where
  "writes_take_effect write_file \<longleftrightarrow>
     (\<forall>path contents fs. fst (write_file path contents fs) = None \<longrightarrow>
        fs_read_to_string (snd (write_file path contents fs)) path = Inr contents)"

lemma writes_take_effectD:
  "writes_take_effect write_file \<Longrightarrow> write_file path contents fs = (None, fs') \<Longrightarrow> fs_read_to_string fs' path = Inr contents"
  unfolding writes_take_effect_def by (metis fst_conv snd_conv)

lemma opcodes_lock_write_check:
  assumes "writes_take_effect write_file" "exit_code (fst (opcodes_lock write_file [''--write''] path fs)) = 0"
  shows "exit_code (fst (opcodes_lock write_file [] path (snd (opcodes_lock write_file [''--write''] path fs)))) = 0"
proof -
  obtain e fs' where w: "write_file path (render_lock OPCODES) fs = (e, fs')" by force
  have "e = None"
    using assms(2) by (cases e) (simp_all add: opcodes_lock_def parse_lock_mode_def exits_def w EXIT_FAILURE_def)
  then have "fs_read_to_string fs' path = Inr (render_lock OPCODES)"
    using w by (intro writes_take_effectD [OF assms(1)]) simp
  then show ?thesis
    by (simp add: opcodes_lock_def parse_lock_mode_def exits_def w \<open>e = None\<close> Let_def check_lock_def check_text_def EXIT_SUCCESS_def)
qed

lemma opcodes_md_write_check:
  assumes "writes_take_effect write_file" "exit_code (fst (opcodes_md write_file [''--write''] path fs)) = 0"
  shows "exit_code (fst (opcodes_md write_file [] path (snd (opcodes_md write_file [''--write''] path fs)))) = 0"
proof -
  obtain e fs' where w: "write_file path (render_doc OPCODES) fs = (e, fs')" by force
  have "e = None"
    using assms(2) by (cases e) (simp_all add: opcodes_md_def parse_lock_mode_def exits_def w EXIT_FAILURE_def)
  then have "fs_read_to_string fs' path = Inr (render_doc OPCODES)"
    using w by (intro writes_take_effectD [OF assms(1)]) simp
  then show ?thesis
    by (simp add: opcodes_md_def parse_lock_mode_def exits_def w \<open>e = None\<close> Let_def check_doc_def check_text_def EXIT_SUCCESS_def)
qed

text \<open>No subcommand but those two with \<open>--write\<close> touches the file system.\<close>

lemma run_writes_only:
  assumes "snd (run write_file args fs) \<noteq> fs"
  shows "\<exists>rest. args = ''opcodes-lock'' # ''--write'' # rest \<or> args = ''opcodes-md'' # ''--write'' # rest"
proof -
  have quiet: "snd (opcodes_lock write_file flags p fs) = fs" "snd (opcodes_md write_file flags p fs) = fs"
    if "\<And>rest. flags \<noteq> ''--write'' # rest" for flags p
    using that by (auto simp: opcodes_lock_def opcodes_md_def parse_lock_mode_def
      split: sum.splits list.splits lock_mode.splits lock_status.splits)
  obtain a flags where args: "args = a # flags"
    using assms by (cases args) (simp_all add: run_def)
  then have "a = ''opcodes-lock'' \<and> snd (opcodes_lock write_file flags OPCODES_LOCK fs) \<noteq> fs \<or>
      a = ''opcodes-md'' \<and> snd (opcodes_md write_file flags OPCODES_MD fs) \<noteq> fs"
    using assms by (auto simp: run_def Let_def case_prod_unfold split: if_splits)
  then show ?thesis using quiet args by blast
qed

end
