(* ===== verification/Testing.thy ===== *)
theory Testing
  imports Handles Vk_Wire Gl_Wire Cuda_Wire Hip_Wire Cl_Wire L0_Wire Video_Wire Wgpu_Wire Optix_Wire Sycl_Wire
    Amf_Wire Text_Format "HOL-Library.Monad_Syntax" "HOL-Library.Product_Lexorder"
    "HOL-Library.List_Lexorder" "HOL-Library.Char_ord"
begin

section \<open>Unit tests as definitions\<close>

text \<open>
  The crates carry unit tests, functions that call the code and assert what it returns. The
  \<open>*_Tests\<close> theories translate them, statement by statement, to definitions over the model, and
  prove each to pass: the model does on the inputs of the tests what the authors of the code require
  of it.

  A test is a computation in the option monad. A failed assertion, an \<open>expect\<close> of an error, an index
  out of range, anything that would panic, is \<open>None\<close>; the test passes if it is \<open>Some ()\<close>. A variable
  that is mutated is rebound by \<open>let\<close>; a helper function that takes \<open>&mut\<close> returns the new value
  beside its result.
\<close>

named_theorems test_defs \<open>definitions of the tests and their helper functions\<close>
named_theorems test_simps \<open>equations the tests are evaluated with\<close>

type_synonym test = "unit option"

definition assert :: "bool \<Rightarrow> test" where
  "assert b = (if b then Some () else None)"

definition assert_eq :: "'a \<Rightarrow> 'a \<Rightarrow> test" where
  "assert_eq a b = assert (a = b)"

definition assert_ne :: "'a \<Rightarrow> 'a \<Rightarrow> test" where
  "assert_ne a b = assert (a \<noteq> b)"

text \<open>\<open>expect\<close> and \<open>expect_err\<close> on a \<open>Result\<close>, and the index operator.\<close>

definition ok :: "'e + 'a \<Rightarrow> 'a option" where
  "ok r = (case r of Inl _ \<Rightarrow> None | Inr a \<Rightarrow> Some a)"

definition err_of :: "'e + 'a \<Rightarrow> 'e option" where
  "err_of r = (case r of Inl e \<Rightarrow> Some e | Inr _ \<Rightarrow> None)"

definition index :: "'a list \<Rightarrow> nat \<Rightarrow> 'a option" where
  "index xs i = (if i < length xs then Some (xs ! i) else None)"

text \<open>\<open>next\<close> of an iterator.\<close>

fun list_next :: "'a list \<Rightarrow> 'a option \<times> 'a list" where
  "list_next [] = (None, [])"
| "list_next (x # xs) = (Some x, xs)"

text \<open>Loops: a \<open>for\<close> without state, one that threads it, a closure that may panic, a \<open>while\<close>.\<close>

fun for_each :: "'a list \<Rightarrow> ('a \<Rightarrow> test) \<Rightarrow> test" where
  "for_each [] f = Some ()"
| "for_each (x # xs) f = do { f x; for_each xs f }"

fun for_state :: "'a list \<Rightarrow> ('a \<Rightarrow> 's \<Rightarrow> 's option) \<Rightarrow> 's \<Rightarrow> 's option" where
  "for_state [] f s = Some s"
| "for_state (x # xs) f s = do { s \<leftarrow> f x s; for_state xs f s }"

fun traverse :: "('a \<Rightarrow> 'b option) \<Rightarrow> 'a list \<Rightarrow> 'b list option" where
  "traverse f [] = Some []"
| "traverse f (x # xs) = do { y \<leftarrow> f x; ys \<leftarrow> traverse f xs; Some (y # ys) }"

partial_function (option) while_some :: "('s \<Rightarrow> bool) \<Rightarrow> ('s \<Rightarrow> 's option) \<Rightarrow> 's \<Rightarrow> 's option" where
  "while_some b c s = (if b s then do { s \<leftarrow> c s; while_some b c s } else Some s)"

lemma assert_simps [test_simps]:
  "assert True = Some ()"
  "assert_eq a a = Some ()"
  "assert_eq a b = assert (a = b)"
  "assert_ne a b = assert (a \<noteq> b)"
  by (simp_all add: assert_def assert_eq_def assert_ne_def)

lemma result_simps [test_simps]:
  "ok (Inr a) = Some a"
  "ok (Inl e) = None"
  "err_of (Inl e) = Some e"
  "err_of (Inr a) = None"
  by (simp_all add: ok_def err_of_def)

lemma index_simps [test_simps]:
  "index [] i = None"
  "index (x # xs) 0 = Some x"
  "index (x # xs) (Suc i) = index xs i"
  "index (x # xs) (numeral n) = index xs (pred_numeral n)"
  by (simp_all add: index_def numeral_eq_Suc)

lemma list_simps [test_simps]:
  "replicate (numeral n) x = x # replicate (pred_numeral n) x"
  "(x # xs)[numeral n := y] = x # xs[pred_numeral n := y]"
  by (simp_all add: numeral_eq_Suc)

text \<open>A loop whose states are \<open>f 0, f 1, \<dots>\<close>, the condition failing first at \<open>n\<close>.\<close>

lemma while_some_steps:
  assumes "\<And>i. i < n \<Longrightarrow> b (f i) \<and> c (f i) = Some (f (Suc i))"
    and "\<not> b (f n)"
    and "k \<le> n"
  shows "while_some b c (f k) = Some (f n)"
  using assms(3)
proof (induction "n - k" arbitrary: k)
  case 0
  then show ?case using assms(2) by (simp add: while_some.simps)
next
  case (Suc m)
  then have "k < n" by simp
  then show ?case using Suc.hyps assms(1) [of k] by (simp add: while_some.simps [of b c "f k"])
qed

text \<open>Evaluation goes statement by statement: nothing is rewritten before the statement before it has
  a value.\<close>

lemma bind_weak_cong: "m = m' \<Longrightarrow> Option.bind m f = Option.bind m' f"
  by simp

lemma while_weak_cong: "s = s' \<Longrightarrow> while_some b c s = while_some b c s'"
  by simp

lemma for_weak_cong: "xs = xs' \<Longrightarrow> for_each xs f = for_each xs' f"
  by simp

lemmas test_congs = let_weak_cong bind_weak_cong while_weak_cong for_weak_cong option.case_cong_weak
  sum.case_cong_weak prod.case_cong_weak

text \<open>The handle table on concrete slots.\<close>

lemma handle_new_eq_iff:
  "handle_new k g s = handle_new k' g' s' \<longleftrightarrow>
     k = k' \<and> g AND GENERATION_MAX = g' AND GENERATION_MAX \<and> s = s'"
  by (metis handle_generation_new handle_kind_new handle_new_parts handle_slot_new)

lemma handle_raw_eq_iff: "handle_raw h = handle_raw h' \<longleftrightarrow> h = h'"
  by (auto intro: Handle.expand)

lemma NULL_HANDLE_new: "NULL_HANDLE = handle_new 0 0 0"
  by (rule Handle.expand) (simp add: NULL_HANDLE_def handle_from_raw_def handle_defs)

lemma handle_raw_zero [test_simps]: "handle_raw (handle_new 0 0 0) = 0"
  by (simp add: handle_defs)

lemma generation_le [test_simps]:
  "\<not> (0xFFFFFF :: u32) \<le> 0"
  "\<not> (0xFFFFFF :: u32) \<le> 1"
  by (simp_all add: word_le_nat_alt)

lemmas table_eval [test_simps] = Let_def ht_new_def ht_insert_def ht_try_insert_def ht_get_def ht_get_mut_def
  ht_remove_def slots_get_def ht_len_def ht_is_empty_def ht_stats_def ht_kinds_def ht_capacity_def
  ht_retired_def ht_iter_def ht_iter_kind_def ht_count_by_kind_def ht_is_live_def ht_contains_def
  ht_clear_def ht_retain_def GENERATION_MAX_value handle_new_eq_iff handle_raw_eq_iff NULL_HANDLE_new

text \<open>The codecs that are not interpretations of \<open>wire_body\<close>: the header, the frame, the device list.\<close>

lemma frame_eval [wire_eval]:
  "frame_header_decode (frame_header_encode h []) = Inr h"
  "length (frame_header_encode h []) = HEADER_LEN"
  "length buf < HEADER_LEN \<Longrightarrow> decode_frame buf = Inl UnexpectedEof"
  using frame_header_decode_encode [of h "[]"] by (simp_all add: decode_frame_def)

lemma device_list_eval [wire_eval]:
  "length hs < 2 ^ 32 \<Longrightarrow>
   vk_EnumeratePhysicalDevicesResponse_decode
     (vk_EnumeratePhysicalDevicesResponse_encode \<lparr>vk_EnumeratePhysicalDevicesResponse_devices = hs\<rparr> [])
   = Inr \<lparr>vk_EnumeratePhysicalDevicesResponse_devices = hs\<rparr>"
  using vk_EnumeratePhysicalDevicesResponse_roundtrip
    [of "\<lparr>vk_EnumeratePhysicalDevicesResponse_devices = hs\<rparr>" "[]"] by simp

lemma length_fold_handles:
  "length (fold (\<lambda>device out. out @ u64_to_le_bytes (handle_raw device)) hs out) = length out + 8 * length hs"
  by (induction hs arbitrary: out) simp_all

lemma device_list_length [wire_eval]:
  "length (vk_EnumeratePhysicalDevicesResponse_encode \<lparr>vk_EnumeratePhysicalDevicesResponse_devices = hs\<rparr> [])
   = 4 + 8 * length hs"
  by (simp add: vk_EnumeratePhysicalDevicesResponse_encode_def length_fold_handles)

lemma device_list_short [wire_eval]:
  "length rest < 8 * unat count \<Longrightarrow>
   vk_EnumeratePhysicalDevicesResponse_decode (u32_to_le_bytes count @ rest) = Inl UnexpectedEof"
  by (rule vk_EnumeratePhysicalDevicesResponse_decode_short) simp

lemma unat_max [test_simps]:
  "unat (- 1 :: u64) = 0xFFFFFFFFFFFFFFFF"
  "unat (- 1 :: u32) = 0xFFFFFFFF"
  by (simp_all add: unsigned_minus_1_eq_mask mask_eq_exp_minus_1)

lemma word_le_one [test_simps]:
  "(numeral n :: u32) \<le> 1 \<longleftrightarrow> unat (numeral n :: u32) \<le> 1"
  "(numeral n :: u32) < 1 \<longleftrightarrow> unat (numeral n :: u32) < 1"
  by (simp_all add: word_le_nat_alt word_less_nat_alt)

lemmas protocol_eval [test_simps] = saturating_add_def op_values opcode_def opcode_api_def opcode_call_def HEADER_LEN_def
  KIND_BITS_def GENERATION_BITS_def SLOT_BITS_def PROTOCOL_MAJOR_def PROTOCOL_MINOR_def
  DEFAULT_MAX_FRAME_BODY_def

section \<open>Evaluating texts\<close>

text \<open>What the tests do with strings: \<open>find\<close>, which returns the position, and \<open>ends_with\<close>.\<close>

fun str_find :: "string \<Rightarrow> string \<Rightarrow> nat option" where
  "str_find [] p = (if p = [] then Some 0 else None)"
| "str_find (c # cs) p = (if starts_with (c # cs) p then Some 0 else map_option Suc (str_find cs p))"

definition ends_with :: "string \<Rightarrow> string \<Rightarrow> bool" where
  "ends_with s p = starts_with (rev s) (rev p)"

text \<open>A byte string literal.\<close>

definition bytes_of :: "string \<Rightarrow> bytes" where
  "bytes_of s = map of_char s"

lemma digits_small [test_simps]:
  "digits 0 = ''0''"
  "digits 1 = ''1''"
  "digits 2 = ''2''"
  "digits 3 = ''3''"
  "digits 4 = ''4''"
  "digits 5 = ''5''"
  "digits 6 = ''6''"
  "digits 7 = ''7''"
  "digits 8 = ''8''"
  "digits 9 = ''9''"
  by code_simp+

lemma digits_eval [test_simps]:
  "10 \<le> n \<Longrightarrow> digits n = digits (n div 10) @ digits (n mod 10)"
  by (simp add: digits.simps [of n] digits.simps [of "n mod 10"])

lemma digits_Suc [test_simps]:
  "digits (Suc 0) = ''1''"
  "digits (Suc (Suc 0)) = ''2''"
  "digits (Suc (Suc (Suc 0))) = ''3''"
  using digits_small(2-4) by (simp_all only: numeral_2_eq_2 numeral_3_eq_3 One_nat_def)

lemma hex_digits_small [test_simps]:
  "hex_digits 0 = ''0''"
  "hex_digits 1 = ''1''"
  "hex_digits 2 = ''2''"
  "hex_digits 3 = ''3''"
  "hex_digits 4 = ''4''"
  "hex_digits 5 = ''5''"
  "hex_digits 6 = ''6''"
  "hex_digits 7 = ''7''"
  "hex_digits 8 = ''8''"
  "hex_digits 9 = ''9''"
  "hex_digits 10 = ''A''"
  "hex_digits 11 = ''B''"
  "hex_digits 12 = ''C''"
  "hex_digits 13 = ''D''"
  "hex_digits 14 = ''E''"
  "hex_digits 15 = ''F''"
  by code_simp+

lemma hex_digits_eval [test_simps]:
  "hex_digits (Suc 0) = ''1''"
  "16 \<le> n \<Longrightarrow> hex_digits n = hex_digits (n div 16) @ hex_digits (n mod 16)"
  using hex_digits_small(2) by (simp_all add: hex_digits.simps [of n] hex_digits.simps [of "n mod 16"])

text \<open>
  Searching a long text is evaluated by copies of the functions whose arguments the simplifier leaves
  alone, being values already, and whose steps test before they recurse.
\<close>

definition starts_eval :: "string \<Rightarrow> string \<Rightarrow> bool" where
  "starts_eval = starts_with"

definition contains_eval :: "string \<Rightarrow> string \<Rightarrow> bool" where
  "contains_eval = str_contains"

definition find_eval :: "nat \<Rightarrow> string \<Rightarrow> string \<Rightarrow> nat option" where
  "find_eval n s p = map_option ((+) n) (str_find s p)"

lemma search_eval [test_simps]:
  "starts_with s p = starts_eval s p"
  "str_contains s p = contains_eval s p"
  "str_find s p = find_eval 0 s p"
  by (cases "str_find s p"; simp add: starts_eval_def contains_eval_def find_eval_def)+

lemma search_steps [test_simps]:
  "starts_eval s [] = True"
  "starts_eval [] (d # p) = False"
  "starts_eval (c # s) (d # p) = (if c = d then starts_eval s p else False)"
  "contains_eval [] p = (p = [])"
  "contains_eval (c # s) p = (if starts_eval (c # s) p then True else contains_eval s p)"
  "find_eval n [] p = (if p = [] then Some n else None)"
  "find_eval n (c # s) p = (if starts_eval (c # s) p then Some n else find_eval (n + 1) s p)"
  by (simp_all add: starts_eval_def contains_eval_def find_eval_def option.map_comp comp_def plus_1_eq_Suc fun_eq_iff cong: map_option_cong)

lemma search_congs:
  "starts_eval s p = starts_eval s p"
  "contains_eval s p = contains_eval s p"
  "n = n' \<Longrightarrow> find_eval n s p = find_eval n' s p"
  by simp_all

lemmas text_congs = test_congs search_congs

lemmas text_dels = starts_with.simps str_contains.simps str_find.simps

lemmas text_eval [test_simps] = newline_def bytes_of_def dash_def

subsection \<open>Texts as lists of lines\<close>

text \<open>A search walks over the lines without joining them.\<close>

definition unlines :: "string list \<Rightarrow> string" where
  "unlines ls = concat (map (\<lambda>l. l @ newline) ls)"

lemma unlines_simps: "unlines [] = []" "unlines (l # ls) = l @ newline @ unlines ls"
  by (simp_all add: unlines_def)

lemma unlines_append: "unlines (ls @ ms) = unlines ls @ unlines ms"
  by (simp add: unlines_def)

lemma unlines_eval [test_simps]:
  "starts_eval (unlines []) p = (p = [])"
  "starts_eval (unlines ls) [] = True"
  "starts_eval (unlines ((c # l) # ls)) (d # p) = (if c = d then starts_eval (unlines (l # ls)) p else False)"
  "starts_eval (unlines ([] # ls)) (d # p) = (if d = CHR 0x0A then starts_eval (unlines ls) p else False)"
  "contains_eval (unlines []) p = (p = [])"
  "contains_eval (unlines ((c # l) # ls)) p =
     (if starts_eval (unlines ((c # l) # ls)) p then True else contains_eval (unlines (l # ls)) p)"
  "contains_eval (unlines ([] # ls)) p =
     (if starts_eval (unlines ([] # ls)) p then True else contains_eval (unlines ls) p)"
  "find_eval n (unlines []) p = (if p = [] then Some n else None)"
  "find_eval n (unlines ((c # l) # ls)) p =
     (if starts_eval (unlines ((c # l) # ls)) p then Some n else find_eval (n + 1) (unlines (l # ls)) p)"
  "find_eval n (unlines ([] # ls)) p =
     (if starts_eval (unlines ([] # ls)) p then Some n else find_eval (n + 1) (unlines ls) p)"
  by (cases p; simp add: unlines_simps newline_def search_steps; blast)+

lemma unlines_eq [test_simps]:
  "(unlines [] = s) = (s = [])"
  "(unlines (l # ls) = s) = (l @ newline @ unlines ls = s)"
  "(c # s = unlines (l # ls)) = (c # s = l @ newline @ unlines ls)"
  by (auto simp: unlines_simps)

lemma ends_with_unlines [test_simps]: "ls \<noteq> [] \<Longrightarrow> ends_with (unlines ls) [CHR 0x0A]"
proof -
  assume "ls \<noteq> []"
  then obtain ms l where "ls = ms @ [l]" by (metis append_butlast_last_id)
  then show ?thesis by (simp add: ends_with_def unlines_append unlines_simps newline_def)
qed

end
