(* ===== verification/Data_Tests.thy ===== *)
theory Data_Tests
  imports Testing
begin

section \<open>The unit tests of the handle table and the wire protocol\<close>

text \<open>
  The modules \<open>tests\<close> of \<open>crates/graftx-handles/src/lib.rs\<close> and \<open>crates/graftx-protocol/src/lib.rs\<close>: handle
  tables; opcodes, handles, the frame header, and the bodies of every API.
\<close>

subsection \<open>The handle table\<close>

definition handles_test_KIND :: u8 where
  [test_defs]: "handles_test_KIND = 0x42"

definition handles_test_KIND_A :: u8 where
  [test_defs]: "handles_test_KIND_A = 0x11"

definition handles_test_KIND_B :: u8 where
  [test_defs]: "handles_test_KIND_B = 0x22"

definition handles_test_insert_get_roundtrip :: test where
  [test_defs]: "handles_test_insert_get_roundtrip = do {
     let table = (ht_new :: u32 handle_table);
     let (h, table) = ht_insert handles_test_KIND 1234 table;
     assert_eq (handle_kind h) handles_test_KIND;
     assert_eq (handle_slot h) 0;
     assert_eq (handle_generation h) 0;
     assert_eq (ht_get table h) (Some 1234);
     assert_eq (map_option fst (ht_get_mut table h)) (Some 1234)
   }"

definition handles_test_get_mut_mutates_in_place :: test where
  [test_defs]: "handles_test_get_mut_mutates_in_place = do {
     let table = (ht_new :: u32 handle_table);
     let (h, table) = ht_insert handles_test_KIND 1 table;
     let table = (case ht_get_mut table h of None \<Rightarrow> table | Some (_,
       write) \<Rightarrow> write 99);
     assert_eq (ht_get table h) (Some 99)
   }"

definition handles_test_remove_then_get_returns_none :: test where
  [test_defs]: "handles_test_remove_then_get_returns_none = do {
     let table = (ht_new :: string handle_table);
     let (h, table) = ht_insert handles_test_KIND ''value'' table;
     let (r, table) = ht_remove h table;
     assert_eq r (Some ''value'');
     assert_eq (ht_get table h) None;
     assert_eq (map_option fst (ht_get_mut table h)) None;
     let (r, table) = ht_remove h table;
     assert_eq r None
   }"

definition handles_test_stale_handle_after_reuse_returns_none :: test where
  [test_defs]: "handles_test_stale_handle_after_reuse_returns_none = do {
     let table = (ht_new :: u32 handle_table);
     let (old, table) = ht_insert handles_test_KIND 10 table;
     let (r, table) = ht_remove old table;
     assert_eq r (Some 10);
     let (fresh, table) = ht_insert handles_test_KIND 20 table;
     assert_eq (handle_slot fresh) (handle_slot old);
     assert_ne (handle_generation fresh) (handle_generation old);
     assert_eq (ht_get table old) None;
     assert_eq (map_option fst (ht_get_mut table old)) None;
     let (r, table) = ht_remove old table;
     assert_eq r None;
     assert_eq (ht_get table fresh) (Some 20)
   }"

definition handles_test_slot_reuse_increments_generation :: test where
  [test_defs]: "handles_test_slot_reuse_increments_generation = do {
     let table = (ht_new :: u32 handle_table);
     let (h0, table) = ht_insert handles_test_KIND 0 table;
     assert_eq (handle_generation h0) 0;
     let (r, table) = ht_remove h0 table;
     assert_eq r (Some 0);
     let (h1, table) = ht_insert handles_test_KIND 1 table;
     assert_eq (handle_slot h1) (handle_slot h0);
     assert_eq (handle_generation h1) 1;
     let (r, table) = ht_remove h1 table;
     assert_eq r (Some 1);
     let (h2, table) = ht_insert handles_test_KIND 2 table;
     assert_eq (handle_slot h2) (handle_slot h0);
     assert_eq (handle_generation h2) 2
   }"

definition handles_test_len_tracks_live_count :: test where
  [test_defs]: "handles_test_len_tracks_live_count = do {
     let table = (ht_new :: u32 handle_table);
     assert (ht_is_empty table);
     assert_eq (ht_len table) 0;
     let (a, table) = ht_insert handles_test_KIND 1 table;
     let (b, table) = ht_insert handles_test_KIND 2 table;
     let (c, table) = ht_insert handles_test_KIND 3 table;
     assert_eq (ht_len table) 3;
     assert (\<not> (ht_is_empty table));
     let (r, table) = ht_remove b table;
     assert_eq r (Some 2);
     assert_eq (ht_len table) 2;
     let (r, table) = ht_remove b table;
     assert_eq r None;
     assert_eq (ht_len table) 2;
     let (d, table) = ht_insert handles_test_KIND 4 table;
     assert_eq (ht_len table) 3;
     assert_eq (handle_slot d) (handle_slot b);
     let (r, table) = ht_remove a table;
     assert_eq r (Some 1);
     let (r, table) = ht_remove c table;
     assert_eq r (Some 3);
     let (r, table) = ht_remove d table;
     assert_eq r (Some 4);
     assert (ht_is_empty table)
   }"

definition handles_test_distinct_slots_for_concurrent_live_entries :: test where
  [test_defs]: "handles_test_distinct_slots_for_concurrent_live_entries = do {
     let table = (ht_new :: u32 handle_table);
     let (a, table) = ht_insert handles_test_KIND 1 table;
     let (b, table) = ht_insert handles_test_KIND 2 table;
     assert_ne (handle_slot a) (handle_slot b);
     assert_eq (ht_get table a) (Some 1);
     assert_eq (ht_get table b) (Some 2)
   }"

definition handles_test_exhausted_slot_is_retired_not_reused :: test where
  [test_defs]: "handles_test_exhausted_slot_is_retired_not_reused = do {
     let table = (ht_new :: u32 handle_table);
     let (last, table) = ht_insert handles_test_KIND 0 table;
     (table, last) \<leftarrow> while_some (\<lambda>(table,
       last). handle_generation last < GENERATION_MAX) (\<lambda>(table, last). do {
       let (r, table) = ht_remove last table;
       assert_eq r (Some 0);
       let (h, table) = ht_insert handles_test_KIND 0 table;
       let last = h;
       assert_eq (handle_slot last) 0;
       Some (table, last)
     }) (table, last);
     assert_eq (handle_generation last) GENERATION_MAX;
     let (r, table) = ht_remove last table;
     assert_eq r (Some 0);
     assert (ht_free table = []);
     x \<leftarrow> index (ht_slots table) 0;
     assert (slot_retired x);
     let (next, table) = ht_insert handles_test_KIND 7 table;
     assert_eq (handle_slot next) 1;
     assert_eq (handle_generation next) 0;
     assert_eq (ht_get table next) (Some 7);
     assert_eq (ht_get table last) None
   }"

definition handles_test_iter_yields_only_live_slots_with_roundtripping_handles :: test where
  [test_defs]: "handles_test_iter_yields_only_live_slots_with_roundtripping_handles = do {
     let table = (ht_new :: u32 handle_table);
     let (a, table) = ht_insert handles_test_KIND_A 1 table;
     let (b, table) = ht_insert handles_test_KIND_B 2 table;
     let (c, table) = ht_insert handles_test_KIND_A 3 table;
     seen \<leftarrow> traverse (\<lambda>(h, v). do {
       assert_eq (ht_get table h) (Some v);
       Some (handle_raw h, v)
     }) (ht_iter table);
     let seen = sort seen;
     let expected = [(handle_raw a, 1), (handle_raw b, 2), (handle_raw c, 3)];
     let expected = sort expected;
     assert_eq seen expected
   }"

definition handles_test_iter_and_count_by_kind_reflect_removal :: test where
  [test_defs]: "handles_test_iter_and_count_by_kind_reflect_removal = do {
     let table = (ht_new :: u32 handle_table);
     let (a, table) = ht_insert handles_test_KIND_A 1 table;
     let (b, table) = ht_insert handles_test_KIND_B 2 table;
     let (c, table) = ht_insert handles_test_KIND_A 3 table;
     assert_eq (length (ht_iter table)) 3;
     assert_eq (ht_count_by_kind handles_test_KIND_A table) 2;
     assert_eq (ht_count_by_kind handles_test_KIND_B table) 1;
     let (r, table) = ht_remove a table;
     assert_eq r (Some 1);
     assert_eq (length (ht_iter table)) 2;
     assert_eq (ht_count_by_kind handles_test_KIND_A table) 1;
     assert_eq (ht_count_by_kind handles_test_KIND_B table) 1;
     assert (list_all (\<lambda>(h, _). h \<noteq> a) (ht_iter table));
     let (r, table) = ht_remove b table;
     assert_eq r (Some 2);
     assert_eq (length (ht_iter table)) 1;
     assert_eq (ht_count_by_kind handles_test_KIND_A table) 1;
     assert_eq (ht_count_by_kind handles_test_KIND_B table) 0
   }"

definition handles_test_count_by_kind_ignores_absent_kind_and_empty_table :: test where
  [test_defs]: "handles_test_count_by_kind_ignores_absent_kind_and_empty_table = do {
     let table = (ht_new :: u32 handle_table);
     assert_eq (ht_count_by_kind handles_test_KIND_A table) 0;
     assert_eq (length (ht_iter table)) 0;
     let (h, table) = ht_insert handles_test_KIND_A 7 table;
     assert_eq (ht_count_by_kind handles_test_KIND_B table) 0;
     assert_eq (ht_count_by_kind handles_test_KIND_A table) 1
   }"

definition handles_test_iter_kind_yields_only_matching_live_entries_with_roundtripping_handles :: test where
  [test_defs]: "handles_test_iter_kind_yields_only_matching_live_entries_with_roundtripping_handles = do {
     let table = (ht_new :: u32 handle_table);
     let (a, table) = ht_insert handles_test_KIND_A 1 table;
     let (b, table) = ht_insert handles_test_KIND_B 2 table;
     let (c, table) = ht_insert handles_test_KIND_A 3 table;
     seen_a \<leftarrow> traverse (\<lambda>(h, v). do {
       assert_eq (handle_kind h) handles_test_KIND_A;
       assert_eq (ht_get table h) (Some v);
       Some (handle_raw h, v)
     }) (ht_iter_kind handles_test_KIND_A table);
     let seen_a = sort seen_a;
     let expected_a = [(handle_raw a, 1), (handle_raw c, 3)];
     let expected_a = sort expected_a;
     assert_eq seen_a expected_a;
     let seen_b = map (\<lambda>(h, v). (handle_raw h, v)) (ht_iter_kind handles_test_KIND_B table);
     assert_eq seen_b [(handle_raw b, 2)]
   }"

definition handles_test_iter_kind_is_empty_for_absent_kind_and_empty_table :: test where
  [test_defs]: "handles_test_iter_kind_is_empty_for_absent_kind_and_empty_table = do {
     let table = (ht_new :: u32 handle_table);
     assert_eq (length (ht_iter_kind handles_test_KIND_A table)) 0;
     let (h, table) = ht_insert handles_test_KIND_A 7 table;
     assert_eq (length (ht_iter_kind handles_test_KIND_B table)) 0;
     assert_eq (length (ht_iter_kind handles_test_KIND_A table)) 1
   }"

definition handles_test_iter_kind_reflects_removal :: test where
  [test_defs]: "handles_test_iter_kind_reflects_removal = do {
     let table = (ht_new :: u32 handle_table);
     let (a, table) = ht_insert handles_test_KIND_A 1 table;
     let (b, table) = ht_insert handles_test_KIND_B 2 table;
     let (c, table) = ht_insert handles_test_KIND_A 3 table;
     assert_eq (length (ht_iter_kind handles_test_KIND_A table)) 2;
     assert_eq (length (ht_iter_kind handles_test_KIND_B table)) 1;
     let (r, table) = ht_remove a table;
     assert_eq r (Some 1);
     assert_eq (length (ht_iter_kind handles_test_KIND_A table)) 1;
     assert (list_all (\<lambda>(h, _). h \<noteq> a) (ht_iter_kind handles_test_KIND_A table));
     assert_eq (length (ht_iter_kind handles_test_KIND_B table)) 1;
     let (r, table) = ht_remove b table;
     assert_eq r (Some 2);
     assert_eq (length (ht_iter_kind handles_test_KIND_B table)) 0;
     assert_eq (length (ht_iter_kind handles_test_KIND_A table)) 1
   }"

definition handles_test_iter_kind_reports_reused_slot_under_new_kind_only :: test where
  [test_defs]: "handles_test_iter_kind_reports_reused_slot_under_new_kind_only = do {
     let table = (ht_new :: u32 handle_table);
     let (a, table) = ht_insert handles_test_KIND_A 1 table;
     let (r, table) = ht_remove a table;
     assert_eq r (Some 1);
     let (b, table) = ht_insert handles_test_KIND_B 2 table;
     assert_eq (handle_slot b) (handle_slot a);
     assert_eq (length (ht_iter_kind handles_test_KIND_A table)) 0;
     let live_b = map (\<lambda>(h, v). (handle_kind h, v))
       (ht_iter_kind handles_test_KIND_B table);
     assert_eq live_b [(handles_test_KIND_B, 2)]
   }"

definition handles_test_is_live_tracks_handle_validity :: test where
  [test_defs]: "handles_test_is_live_tracks_handle_validity = do {
     let table = (ht_new :: u32 handle_table);
     let (h, table) = ht_insert handles_test_KIND 1 table;
     assert (ht_is_live table h);
     let (r, table) = ht_remove h table;
     assert_eq r (Some 1);
     assert (\<not> (ht_is_live table h));
     let (fresh, table) = ht_insert handles_test_KIND 2 table;
     assert_eq (handle_slot fresh) (handle_slot h);
     assert_ne (handle_generation fresh) (handle_generation h);
     assert (\<not> (ht_is_live table h));
     assert (ht_is_live table fresh)
   }"

definition handles_test_contains_matches_is_live_across_insert_remove_and_stale :: test where
  [test_defs]: "handles_test_contains_matches_is_live_across_insert_remove_and_stale = do {
     let table = (ht_new :: u32 handle_table);
     let (h, table) = ht_insert handles_test_KIND 1 table;
     assert (ht_contains table h);
     assert_eq (ht_contains table h) (ht_is_live table h);
     let (r, table) = ht_remove h table;
     assert_eq r (Some 1);
     assert (\<not> (ht_contains table h));
     assert_eq (ht_contains table h) (ht_is_live table h);
     let (fresh, table) = ht_insert handles_test_KIND 2 table;
     assert_eq (handle_slot fresh) (handle_slot h);
     assert_ne (handle_generation fresh) (handle_generation h);
     assert (\<not> (ht_contains table h));
     assert (ht_contains table fresh);
     assert_eq (ht_contains table h) (ht_is_live table h);
     assert_eq (ht_contains table fresh) (ht_is_live table fresh)
   }"

definition handles_test_contains_rejects_out_of_range_and_retired_handles :: test where
  [test_defs]: "handles_test_contains_rejects_out_of_range_and_retired_handles = do {
     let table = (ht_new :: u32 handle_table);
     let dangling = handle_new handles_test_KIND 0 7;
     assert (\<not> (ht_contains table dangling));
     assert_eq (ht_contains table dangling) (ht_is_live table dangling);
     let (last, table) = ht_insert handles_test_KIND 0 table;
     (table, last) \<leftarrow> while_some (\<lambda>(table,
       last). handle_generation last < GENERATION_MAX) (\<lambda>(table, last). do {
       let (r, table) = ht_remove last table;
       assert_eq r (Some 0);
       let (h, table) = ht_insert handles_test_KIND 0 table;
       let last = h;
       assert_eq (handle_slot last) 0;
       Some (table, last)
     }) (table, last);
     let (r, table) = ht_remove last table;
     assert_eq r (Some 0);
     assert_eq (ht_retired table) 1;
     assert (\<not> (ht_contains table last));
     assert_eq (ht_contains table last) (ht_is_live table last)
   }"

definition handles_test_null_handle_is_not_contained_in_fresh_or_populated_table :: test where
  [test_defs]: "handles_test_null_handle_is_not_contained_in_fresh_or_populated_table = do {
     let table = (ht_new :: u32 handle_table);
     assert_eq (handle_raw NULL_HANDLE) 0;
     assert_eq (handle_kind NULL_HANDLE) 0;
     assert_eq (handle_generation NULL_HANDLE) 0;
     assert_eq (handle_slot NULL_HANDLE) 0;
     assert (\<not> (ht_contains table NULL_HANDLE));
     let (first, table) = ht_insert handles_test_KIND_A 1 table;
     assert_eq (handle_slot first) 0;
     assert_eq (handle_generation first) 0;
     let (r, table) = ht_remove first table;
     assert_eq r (Some 1);
     let (a, table) = ht_insert handles_test_KIND_A 10 table;
     let (b, table) = ht_insert handles_test_KIND_B 20 table;
     assert_eq (handle_slot a) 0;
     assert_eq (handle_generation a) 1;
     assert (ht_contains table a);
     assert (\<not> (ht_contains table NULL_HANDLE));
     let (r, table) = ht_remove a table;
     assert_eq r (Some 10);
     let (r, table) = ht_remove b table;
     assert_eq r (Some 20);
     assert (ht_is_empty table);
     assert (\<not> (ht_contains table NULL_HANDLE))
   }"

definition handles_test_null_handle_collides_only_with_live_slot_zero_generation_zero :: test where
  [test_defs]: "handles_test_null_handle_collides_only_with_live_slot_zero_generation_zero = do {
     let table = (ht_new :: u32 handle_table);
     let (first, table) = ht_insert handles_test_KIND_A 1 table;
     assert_eq (handle_raw first) (handle_raw (handle_new handles_test_KIND_A 0 0));
     assert_ne (handle_kind first) (handle_kind NULL_HANDLE);
     assert (ht_contains table NULL_HANDLE);
     assert_eq (ht_contains table NULL_HANDLE) (ht_is_live table NULL_HANDLE);
     let (r, table) = ht_remove first table;
     assert_eq r (Some 1);
     assert (\<not> (ht_contains table NULL_HANDLE))
   }"

definition handles_test_kinds_returns_distinct_sorted_live_kinds :: test where
  [test_defs]: "handles_test_kinds_returns_distinct_sorted_live_kinds = do {
     let table = (ht_new :: u32 handle_table);
     assert (ht_kinds table = []);
     let (a, table) = ht_insert handles_test_KIND_A 1 table;
     let (b1, table) = ht_insert handles_test_KIND_B 2 table;
     let (b2, table) = ht_insert handles_test_KIND_B 3 table;
     assert_eq (ht_kinds table) [handles_test_KIND_A, handles_test_KIND_B];
     let (r, table) = ht_remove a table;
     assert_eq r (Some 1);
     assert_eq (ht_kinds table) [handles_test_KIND_B];
     let (r, table) = ht_remove b1 table;
     assert_eq r (Some 2);
     assert_eq (ht_kinds table) [handles_test_KIND_B];
     let (r, table) = ht_remove b2 table;
     assert_eq r (Some 3);
     assert (ht_kinds table = [])
   }"

definition handles_test_reused_slot_reports_new_kind_in_iter_and_counts :: test where
  [test_defs]: "handles_test_reused_slot_reports_new_kind_in_iter_and_counts = do {
     let table = (ht_new :: u32 handle_table);
     let (a, table) = ht_insert handles_test_KIND_A 1 table;
     let (r, table) = ht_remove a table;
     assert_eq r (Some 1);
     let (b, table) = ht_insert handles_test_KIND_B 2 table;
     assert_eq (handle_slot b) (handle_slot a);
     assert_eq (ht_count_by_kind handles_test_KIND_A table) 0;
     assert_eq (ht_count_by_kind handles_test_KIND_B table) 1;
     let live = map (\<lambda>(h, v). (handle_kind h, v)) (ht_iter table);
     assert_eq live [(handles_test_KIND_B, 2)]
   }"

definition handles_test_capacity_grows_with_distinct_inserts_and_outpaces_len :: test where
  [test_defs]: "handles_test_capacity_grows_with_distinct_inserts_and_outpaces_len = do {
     let table = (ht_new :: u32 handle_table);
     assert_eq (ht_capacity table) 0;
     let (a, table) = ht_insert handles_test_KIND 1 table;
     assert_eq (ht_capacity table) 1;
     let (b, table) = ht_insert handles_test_KIND 2 table;
     assert_eq (ht_capacity table) 2;
     assert_eq (ht_capacity table) (ht_len table);
     let (r, table) = ht_remove a table;
     assert_eq r (Some 1);
     assert_eq (ht_capacity table) 2;
     assert_eq (ht_len table) 1;
     let (c, table) = ht_insert handles_test_KIND 3 table;
     assert_eq (ht_capacity table) 2;
     assert (ht_len table \<le> ht_capacity table)
   }"

definition handles_test_retired_starts_zero_and_counts_exhausted_slots :: test where
  [test_defs]: "handles_test_retired_starts_zero_and_counts_exhausted_slots = do {
     let table = (ht_new :: u32 handle_table);
     assert_eq (ht_retired table) 0;
     let (h, table) = ht_insert handles_test_KIND 1 table;
     let (r, table) = ht_remove h table;
     assert_eq r (Some 1);
     assert_eq (ht_retired table) 0;
     let (last, table) = ht_insert handles_test_KIND 0 table;
     (table, last) \<leftarrow> while_some (\<lambda>(table,
       last). handle_generation last < GENERATION_MAX) (\<lambda>(table, last). do {
       let (r, table) = ht_remove last table;
       assert_eq r (Some 0);
       let (h1, table) = ht_insert handles_test_KIND 0 table;
       let last = h1;
       Some (table, last)
     }) (table, last);
     assert_eq (ht_retired table) 0;
     let (r, table) = ht_remove last table;
     assert_eq r (Some 0);
     assert_eq (ht_retired table) 1
   }"

definition handles_test_clear_empties_table_invalidates_handles_and_allows_reuse :: test where
  [test_defs]: "handles_test_clear_empties_table_invalidates_handles_and_allows_reuse = do {
     let table = (ht_new :: u32 handle_table);
     let (a, table) = ht_insert handles_test_KIND_A 1 table;
     let (b, table) = ht_insert handles_test_KIND_B 2 table;
     let (c, table) = ht_insert handles_test_KIND_A 3 table;
     assert_eq (ht_len table) 3;
     let cap_before = ht_capacity table;
     let table = ht_clear table;
     assert_eq (ht_len table) 0;
     assert (ht_is_empty table);
     assert_eq (length (ht_iter table)) 0;
     assert_eq (ht_count_by_kind handles_test_KIND_A table) 0;
     assert_eq (ht_count_by_kind handles_test_KIND_B table) 0;
     assert_eq (ht_capacity table) cap_before;
     assert_eq (ht_get table a) None;
     assert_eq (ht_get table b) None;
     assert_eq (ht_get table c) None;
     assert_eq (map_option fst (ht_get_mut table a)) None;
     let (r, table) = ht_remove a table;
     assert_eq r None;
     let (d, table) = ht_insert handles_test_KIND_A 10 table;
     let (e, table) = ht_insert handles_test_KIND_B 20 table;
     assert_eq (ht_len table) 2;
     assert_eq (ht_get table d) (Some 10);
     assert_eq (ht_get table e) (Some 20);
     for_each [a, b, c] (\<lambda>old. do {
       assert_ne (handle_raw d) (handle_raw old);
       assert_ne (handle_raw e) (handle_raw old);
       assert_eq (ht_get table old) None
     })
   }"

definition handles_test_try_insert_succeeds_until_quota_then_returns_none :: test where
  [test_defs]: "handles_test_try_insert_succeeds_until_quota_then_returns_none = do {
     let table = (ht_new :: u32 handle_table);
     let (a, table) = ht_try_insert handles_test_KIND 1 2 table;
     assert (a \<noteq> None);
     assert_eq (ht_len table) 1;
     let (b, table) = ht_try_insert handles_test_KIND 2 2 table;
     assert (b \<noteq> None);
     assert_eq (ht_len table) 2;
     let (h, table) = ht_try_insert handles_test_KIND 3 2 table;
     assert_eq h None;
     assert_eq (ht_len table) 2;
     let (h, table) = ht_try_insert handles_test_KIND 4 2 table;
     assert_eq h None;
     assert_eq (ht_len table) 2;
     x \<leftarrow> a;
     assert_eq (ht_get table x) (Some 1);
     x \<leftarrow> b;
     assert_eq (ht_get table x) (Some 2)
   }"

definition handles_test_try_insert_succeeds_again_after_remove_frees_quota :: test where
  [test_defs]: "handles_test_try_insert_succeeds_again_after_remove_frees_quota = do {
     let table = (ht_new :: u32 handle_table);
     let (h, table) = ht_try_insert handles_test_KIND 1 1 table;
     a \<leftarrow> h;
     let (h, table) = ht_try_insert handles_test_KIND 2 1 table;
     assert_eq h None;
     let (r, table) = ht_remove a table;
     assert_eq r (Some 1);
     assert_eq (ht_len table) 0;
     let (h, table) = ht_try_insert handles_test_KIND 2 1 table;
     b \<leftarrow> h;
     assert_eq (ht_len table) 1;
     assert_eq (ht_get table b) (Some 2)
   }"

definition handles_test_try_insert_with_zero_quota_always_returns_none :: test where
  [test_defs]: "handles_test_try_insert_with_zero_quota_always_returns_none = do {
     let table = (ht_new :: u32 handle_table);
     let (h, table) = ht_try_insert handles_test_KIND 1 0 table;
     assert_eq h None;
     let (h, table) = ht_try_insert handles_test_KIND 2 0 table;
     assert_eq h None;
     assert_eq (ht_len table) 0;
     assert_eq (ht_capacity table) 0;
     assert (ht_is_empty table)
   }"

definition handles_test_stats_matches_individual_getters_on_populated_table :: test where
  [test_defs]: "handles_test_stats_matches_individual_getters_on_populated_table = do {
     let table = (ht_new :: u32 handle_table);
     let (a, table) = ht_insert handles_test_KIND_A 1 table;
     let (b, table) = ht_insert handles_test_KIND_B 2 table;
     let (c, table) = ht_insert handles_test_KIND_A 3 table;
     let (r, table) = ht_remove a table;
     assert_eq r (Some 1);
     let stats = ht_stats table;
     assert_eq (stats_live stats) (ht_len table);
     assert_eq (stats_retired stats) (ht_retired table);
     assert_eq (stats_capacity stats) (ht_capacity table);
     assert_eq (stats_kinds stats) (ht_kinds table);
     assert_eq stats \<lparr>stats_live = 2, stats_retired = 0, stats_capacity = 3,
       stats_kinds = [handles_test_KIND_A, handles_test_KIND_B]\<rparr>
   }"

definition handles_test_stats_on_empty_table_is_all_zero_with_no_kinds :: test where
  [test_defs]: "handles_test_stats_on_empty_table_is_all_zero_with_no_kinds = do {
     let table = (ht_new :: u32 handle_table);
     assert_eq (ht_stats table) \<lparr>stats_live = 0, stats_retired = 0, stats_capacity = 0,
       stats_kinds = []\<rparr>
   }"

definition handles_test_stats_tracks_insert_and_remove :: test where
  [test_defs]: "handles_test_stats_tracks_insert_and_remove = do {
     let table = (ht_new :: u32 handle_table);
     assert_eq (stats_live (ht_stats table)) 0;
     let (a, table) = ht_insert handles_test_KIND_A 1 table;
     let (b, table) = ht_insert handles_test_KIND_B 2 table;
     assert_eq (ht_stats table) \<lparr>stats_live = 2, stats_retired = 0, stats_capacity = 2,
       stats_kinds = [handles_test_KIND_A, handles_test_KIND_B]\<rparr>;
     let (r, table) = ht_remove a table;
     assert_eq r (Some 1);
     assert_eq (ht_stats table) \<lparr>stats_live = 1, stats_retired = 0, stats_capacity = 2,
       stats_kinds = [handles_test_KIND_B]\<rparr>;
     let (c, table) = ht_insert handles_test_KIND_A 3 table;
     let (r, table) = ht_remove b table;
     assert_eq r (Some 2);
     assert_eq (ht_stats table) \<lparr>stats_live = 1, stats_retired = 0, stats_capacity = 2,
       stats_kinds = [handles_test_KIND_A]\<rparr>
   }"

definition handles_test_stats_reports_retired_slots :: test where
  [test_defs]: "handles_test_stats_reports_retired_slots = do {
     let table = (ht_new :: u32 handle_table);
     let (last, table) = ht_insert handles_test_KIND 0 table;
     (table, last) \<leftarrow> while_some (\<lambda>(table,
       last). handle_generation last < GENERATION_MAX) (\<lambda>(table, last). do {
       let (r, table) = ht_remove last table;
       assert_eq r (Some 0);
       let (h, table) = ht_insert handles_test_KIND 0 table;
       let last = h;
       Some (table, last)
     }) (table, last);
     assert_eq (stats_retired (ht_stats table)) 0;
     let (r, table) = ht_remove last table;
     assert_eq r (Some 0);
     let stats = ht_stats table;
     assert_eq (stats_retired stats) 1;
     assert_eq (stats_retired stats) (ht_retired table);
     assert_eq (stats_live stats) 0;
     assert (stats_kinds stats = [])
   }"

definition handles_test_clear_on_empty_table_is_a_noop :: test where
  [test_defs]: "handles_test_clear_on_empty_table_is_a_noop = do {
     let table = (ht_new :: u32 handle_table);
     let table = ht_clear table;
     assert_eq (ht_len table) 0;
     assert_eq (ht_capacity table) 0;
     assert_eq (ht_retired table) 0;
     let (h, table) = ht_insert handles_test_KIND 1 table;
     let (r, table) = ht_remove h table;
     assert_eq r (Some 1);
     let table = ht_clear table;
     assert_eq (ht_len table) 0;
     let (h2, table) = ht_insert handles_test_KIND 2 table;
     assert_eq (ht_get table h2) (Some 2)
   }"

definition handles_test_retain_keeps_subset_and_frees_the_rest :: test where
  [test_defs]: "handles_test_retain_keeps_subset_and_frees_the_rest = do {
     let table = (ht_new :: u32 handle_table);
     let (a, table) = ht_insert handles_test_KIND 1 table;
     let (b, table) = ht_insert handles_test_KIND 2 table;
     let (c, table) = ht_insert handles_test_KIND 3 table;
     let (d, table) = ht_insert handles_test_KIND 4 table;
     assert_eq (ht_len table) 4;
     let (removed, table, _) = ht_retain (\<lambda>s h v. ((v mod 2) = 0, s)) () table;
     assert_eq removed 2;
     assert_eq (ht_len table) 2;
     let kept = map (\<lambda>(h, v). v) (ht_iter table);
     let kept = sort kept;
     assert_eq kept [2, 4];
     assert_eq (ht_get table a) None;
     assert_eq (ht_get table c) None;
     assert_eq (ht_get table b) (Some 2);
     assert_eq (ht_get table d) (Some 4);
     let (r, table) = ht_remove a table;
     assert_eq r None;
     assert_eq (ht_len table) 2
   }"

definition handles_test_retain_keeping_all_is_a_noop :: test where
  [test_defs]: "handles_test_retain_keeping_all_is_a_noop = do {
     let table = (ht_new :: u32 handle_table);
     let (a, table) = ht_insert handles_test_KIND 10 table;
     let (b, table) = ht_insert handles_test_KIND 20 table;
     let (c, table) = ht_insert handles_test_KIND 30 table;
     let cap_before = ht_capacity table;
     let (removed, table, _) = ht_retain (\<lambda>s h v. (True, s)) () table;
     assert_eq removed 0;
     assert_eq (ht_len table) 3;
     assert_eq (ht_capacity table) cap_before;
     assert_eq (ht_get table a) (Some 10);
     assert_eq (ht_get table b) (Some 20);
     assert_eq (ht_get table c) (Some 30);
     assert_eq (length (ht_iter table)) 3
   }"

definition handles_test_retain_keeping_none_empties_the_table :: test where
  [test_defs]: "handles_test_retain_keeping_none_empties_the_table = do {
     let table = (ht_new :: u32 handle_table);
     let (a, table) = ht_insert handles_test_KIND_A 1 table;
     let (b, table) = ht_insert handles_test_KIND_B 2 table;
     let (c, table) = ht_insert handles_test_KIND_A 3 table;
     let cap_before = ht_capacity table;
     let (removed, table, _) = ht_retain (\<lambda>s h v. (False, s)) () table;
     assert_eq removed 3;
     assert (ht_is_empty table);
     assert_eq (ht_len table) 0;
     assert_eq (length (ht_iter table)) 0;
     assert (ht_kinds table = []);
     assert_eq (ht_capacity table) cap_before;
     assert_eq (ht_get table a) None;
     assert_eq (ht_get table b) None;
     assert_eq (ht_get table c) None;
     let (d, table) = ht_insert handles_test_KIND_A 99 table;
     assert_eq (ht_len table) 1;
     assert_eq (ht_get table d) (Some 99)
   }"

definition handles_test_retain_on_empty_table_removes_nothing :: test where
  [test_defs]: "handles_test_retain_on_empty_table_removes_nothing = do {
     let table = (ht_new :: u32 handle_table);
     let (removed, table, visited) = ht_retain (\<lambda>visited h v. (True, True)) False table;
     assert (\<not> visited);
     assert_eq removed 0;
     assert_eq (ht_len table) 0;
     assert_eq (ht_capacity table) 0
   }"

definition handles_test_retain_skips_empty_slots_and_receives_matching_handles :: test where
  [test_defs]: "handles_test_retain_skips_empty_slots_and_receives_matching_handles = do {
     let table = (ht_new :: u32 handle_table);
     let (a, table) = ht_insert handles_test_KIND_A 1 table;
     let (b, table) = ht_insert handles_test_KIND_B 2 table;
     let (c, table) = ht_insert handles_test_KIND_A 3 table;
     let (r, table) = ht_remove b table;
     assert_eq r (Some 2);
     let visited = [];
     let (removed, table, visited) =
       ht_retain (\<lambda>visited h v. (True, visited @ [(handle_raw h, v)])) visited table;
     assert_eq removed 0;
     let visited = sort visited;
     let expected = [(handle_raw a, 1), (handle_raw c, 3)];
     let expected = sort expected;
     assert_eq visited expected;
     assert_eq (ht_get table b) None;
     assert_eq (ht_get table a) (Some 1);
     assert_eq (ht_get table c) (Some 3)
   }"

definition handles_test_retain_frees_slots_for_reuse_with_bumped_generation :: test where
  [test_defs]: "handles_test_retain_frees_slots_for_reuse_with_bumped_generation = do {
     let table = (ht_new :: u32 handle_table);
     let (a, table) = ht_insert handles_test_KIND 1 table;
     let (keep, table) = ht_insert handles_test_KIND 2 table;
     let (removed, table, _) = ht_retain (\<lambda>s h v. (v \<noteq> 1, s)) () table;
     assert_eq removed 1;
     assert_eq (ht_get table a) None;
     let (fresh, table) = ht_insert handles_test_KIND 3 table;
     assert_eq (handle_slot fresh) (handle_slot a);
     assert_ne (handle_generation fresh) (handle_generation a);
     assert_eq (ht_get table a) None;
     assert_eq (ht_get table fresh) (Some 3)
   }"

definition handles_test_retain_retires_slot_whose_generation_is_exhausted :: test where
  [test_defs]: "handles_test_retain_retires_slot_whose_generation_is_exhausted = do {
     let table = (ht_new :: u32 handle_table);
     let (last, table) = ht_insert handles_test_KIND 0 table;
     (table, last) \<leftarrow> while_some (\<lambda>(table,
       last). handle_generation last < GENERATION_MAX) (\<lambda>(table, last). do {
       let (r, table) = ht_remove last table;
       assert_eq r (Some 0);
       let (h, table) = ht_insert handles_test_KIND 0 table;
       let last = h;
       assert_eq (handle_slot last) 0;
       Some (table, last)
     }) (table, last);
     assert_eq (handle_generation last) GENERATION_MAX;
     assert_eq (ht_retired table) 0;
     let (removed, table, _) = ht_retain (\<lambda>s h v. (False, s)) () table;
     assert_eq removed 1;
     assert_eq (ht_retired table) 1;
     assert (ht_is_empty table);
     let (next, table) = ht_insert handles_test_KIND 7 table;
     assert_eq (handle_slot next) 1;
     assert_eq (ht_get table next) (Some 7);
     assert_eq (ht_get table last) None
   }"

text \<open>
  Five tests drive slot 0 through all its generations. The states of that loop are numbered by the
  generation; \<open>while_some_steps\<close> carries it from any of them to the last one.
\<close>

definition generation_state :: "nat \<Rightarrow> u32 handle_table \<times> Handle" where
  "generation_state i =
     (\<lparr>ht_slots = [\<lparr>slot_generation = word_of_nat i, slot_kind = 0x42, slot_value = Some 0,
        slot_retired = False\<rparr>], ht_free = [], ht_live = 1\<rparr>,
      handle_new 0x42 (word_of_nat i) 0)"

lemma generation_of_nat:
  assumes "i < 2 ^ 24"
  shows "word_of_nat i AND GENERATION_MAX = (word_of_nat i :: u32)"
    and "GENERATION_MAX \<le> (word_of_nat i :: u32) \<longleftrightarrow> 2 ^ 24 - 1 \<le> i"
    and "(word_of_nat i :: u32) < GENERATION_MAX \<longleftrightarrow> i < 2 ^ 24 - 1"
proof -
  have i: "unat (word_of_nat i :: u32) = i"
    using assms by (simp add: unat_of_nat)
  show "word_of_nat i AND GENERATION_MAX = (word_of_nat i :: u32)"
    by (rule and_GENERATION_MAX) (use assms i in \<open>simp add: GENERATION_MAX_value word_le_nat_alt\<close>)
  show "GENERATION_MAX \<le> (word_of_nat i :: u32) \<longleftrightarrow> 2 ^ 24 - 1 \<le> i"
    and "(word_of_nat i :: u32) < GENERATION_MAX \<longleftrightarrow> i < 2 ^ 24 - 1"
    using i by (simp_all add: GENERATION_MAX_value word_le_nat_alt word_less_nat_alt)
qed

lemma exhaust:
  assumes "\<And>i. i < 2 ^ 24 - 1 \<Longrightarrow> c (generation_state i) = Some (generation_state (Suc i))"
    and "k < 2 ^ 24"
  shows "while_some (\<lambda>(table, last). handle_generation last < GENERATION_MAX) c (generation_state k)
    = Some (generation_state (2 ^ 24 - 1))"
proof (rule while_some_steps)
  show "(case generation_state i of (t, h) \<Rightarrow> handle_generation h < GENERATION_MAX) \<and>
      c (generation_state i) = Some (generation_state (Suc i))" if "i < 2 ^ 24 - 1" for i
    using that assms(1) [OF that] generation_of_nat [of i] by (simp add: generation_state_def)
  show "\<not> (case generation_state (2 ^ 24 - 1) of (t, h) \<Rightarrow> handle_generation h < GENERATION_MAX)"
    using generation_of_nat [of "2 ^ 24 - 1"] by (simp add: generation_state_def)
  show "k \<le> 2 ^ 24 - 1"
    using assms(2) by simp
qed

lemmas generation_step = test_defs ht_remove_def ht_insert_def slots_get_def generation_state_def generation_of_nat
  assert_simps Let_def add.commute

lemma exhaust_loop:
  assumes "k < 2 ^ 24"
  shows "while_some (\<lambda>(table, last). handle_generation last < GENERATION_MAX) (\<lambda>(table, last). do {
       let (r, table) = ht_remove last table;
       assert_eq r (Some 0);
       let (h, table) = ht_insert handles_test_KIND 0 table;
       let last = h;
       Some (table, last)
     }) (generation_state k) = Some (generation_state (2 ^ 24 - 1))"
  by (rule exhaust [OF _ assms]) (simp add: generation_step)

lemma exhaust_loop_slot:
  assumes "k < 2 ^ 24"
  shows "while_some (\<lambda>(table, last). handle_generation last < GENERATION_MAX) (\<lambda>(table, last). do {
       let (r, table) = ht_remove last table;
       assert_eq r (Some 0);
       let (h, table) = ht_insert handles_test_KIND 0 table;
       let last = h;
       assert_eq (handle_slot last) 0;
       Some (table, last)
     }) (generation_state k) = Some (generation_state (2 ^ 24 - 1))"
  by (rule exhaust [OF _ assms]) (simp add: generation_step)

lemma generation_ends: "word_of_nat 0 = (0 :: u32)" "word_of_nat 1 = (1 :: u32)" "word_of_nat (2 ^ 24 - 1) = (0xFFFFFF :: u32)"
    "(0 :: nat) < 2 ^ 24" "(1 :: nat) < 2 ^ 24"
  by simp_all

lemmas exhaust_loops [test_simps] =
  exhaust_loop [OF generation_ends(4), unfolded generation_state_def generation_ends, unfolded One_nat_def]
  exhaust_loop [OF generation_ends(5), unfolded generation_state_def generation_ends, unfolded One_nat_def]
  exhaust_loop_slot [OF generation_ends(4), unfolded generation_state_def generation_ends, unfolded One_nat_def]

lemma handles_test_insert_get_roundtrip_passes: "handles_test_insert_get_roundtrip = Some ()"
  by (simp add: test_defs test_simps wire_eval cong: test_congs)

lemma handles_test_get_mut_mutates_in_place_passes: "handles_test_get_mut_mutates_in_place = Some ()"
  by (simp add: test_defs test_simps wire_eval cong: test_congs)

lemma handles_test_remove_then_get_returns_none_passes: "handles_test_remove_then_get_returns_none = Some ()"
  by (simp add: test_defs test_simps wire_eval cong: test_congs)

lemma handles_test_stale_handle_after_reuse_returns_none_passes: "handles_test_stale_handle_after_reuse_returns_none = Some ()"
  by (simp add: test_defs test_simps wire_eval cong: test_congs)

lemma handles_test_slot_reuse_increments_generation_passes: "handles_test_slot_reuse_increments_generation = Some ()"
  by (simp add: test_defs test_simps wire_eval cong: test_congs)

lemma handles_test_len_tracks_live_count_passes: "handles_test_len_tracks_live_count = Some ()"
  by (simp add: test_defs test_simps wire_eval cong: test_congs)

lemma handles_test_distinct_slots_for_concurrent_live_entries_passes: "handles_test_distinct_slots_for_concurrent_live_entries = Some ()"
  by (simp add: test_defs test_simps wire_eval cong: test_congs)

lemma handles_test_exhausted_slot_is_retired_not_reused_passes: "handles_test_exhausted_slot_is_retired_not_reused = Some ()"
  by (simp add: test_defs test_simps wire_eval cong: test_congs)

lemma handles_test_iter_yields_only_live_slots_with_roundtripping_handles_passes: "handles_test_iter_yields_only_live_slots_with_roundtripping_handles = Some ()"
  by (simp add: test_defs test_simps wire_eval cong: test_congs)

lemma handles_test_iter_and_count_by_kind_reflect_removal_passes: "handles_test_iter_and_count_by_kind_reflect_removal = Some ()"
  by (simp add: test_defs test_simps wire_eval cong: test_congs)

lemma handles_test_count_by_kind_ignores_absent_kind_and_empty_table_passes: "handles_test_count_by_kind_ignores_absent_kind_and_empty_table = Some ()"
  by (simp add: test_defs test_simps wire_eval cong: test_congs)

lemma handles_test_iter_kind_yields_only_matching_live_entries_with_roundtripping_handles_passes: "handles_test_iter_kind_yields_only_matching_live_entries_with_roundtripping_handles = Some ()"
  by (simp add: test_defs test_simps wire_eval cong: test_congs)

lemma handles_test_iter_kind_is_empty_for_absent_kind_and_empty_table_passes: "handles_test_iter_kind_is_empty_for_absent_kind_and_empty_table = Some ()"
  by (simp add: test_defs test_simps wire_eval cong: test_congs)

lemma handles_test_iter_kind_reflects_removal_passes: "handles_test_iter_kind_reflects_removal = Some ()"
  by (simp add: test_defs test_simps wire_eval cong: test_congs)

lemma handles_test_iter_kind_reports_reused_slot_under_new_kind_only_passes: "handles_test_iter_kind_reports_reused_slot_under_new_kind_only = Some ()"
  by (simp add: test_defs test_simps wire_eval cong: test_congs)

lemma handles_test_is_live_tracks_handle_validity_passes: "handles_test_is_live_tracks_handle_validity = Some ()"
  by (simp add: test_defs test_simps wire_eval cong: test_congs)

lemma handles_test_contains_matches_is_live_across_insert_remove_and_stale_passes: "handles_test_contains_matches_is_live_across_insert_remove_and_stale = Some ()"
  by (simp add: test_defs test_simps wire_eval cong: test_congs)

lemma handles_test_contains_rejects_out_of_range_and_retired_handles_passes: "handles_test_contains_rejects_out_of_range_and_retired_handles = Some ()"
  by (simp add: test_defs test_simps wire_eval cong: test_congs)

lemma handles_test_null_handle_is_not_contained_in_fresh_or_populated_table_passes: "handles_test_null_handle_is_not_contained_in_fresh_or_populated_table = Some ()"
  by (simp add: test_defs test_simps wire_eval cong: test_congs)

lemma handles_test_null_handle_collides_only_with_live_slot_zero_generation_zero_passes: "handles_test_null_handle_collides_only_with_live_slot_zero_generation_zero = Some ()"
  by (simp add: test_defs test_simps wire_eval cong: test_congs)

lemma handles_test_kinds_returns_distinct_sorted_live_kinds_passes: "handles_test_kinds_returns_distinct_sorted_live_kinds = Some ()"
  by (simp add: test_defs test_simps wire_eval cong: test_congs)

lemma handles_test_reused_slot_reports_new_kind_in_iter_and_counts_passes: "handles_test_reused_slot_reports_new_kind_in_iter_and_counts = Some ()"
  by (simp add: test_defs test_simps wire_eval cong: test_congs)

lemma handles_test_capacity_grows_with_distinct_inserts_and_outpaces_len_passes: "handles_test_capacity_grows_with_distinct_inserts_and_outpaces_len = Some ()"
  by (simp add: test_defs test_simps wire_eval cong: test_congs)

lemma handles_test_retired_starts_zero_and_counts_exhausted_slots_passes: "handles_test_retired_starts_zero_and_counts_exhausted_slots = Some ()"
  by (simp add: test_defs test_simps wire_eval cong: test_congs)

lemma handles_test_clear_empties_table_invalidates_handles_and_allows_reuse_passes: "handles_test_clear_empties_table_invalidates_handles_and_allows_reuse = Some ()"
  by (simp add: test_defs test_simps wire_eval cong: test_congs)

lemma handles_test_try_insert_succeeds_until_quota_then_returns_none_passes: "handles_test_try_insert_succeeds_until_quota_then_returns_none = Some ()"
  by (simp add: test_defs test_simps wire_eval cong: test_congs)

lemma handles_test_try_insert_succeeds_again_after_remove_frees_quota_passes: "handles_test_try_insert_succeeds_again_after_remove_frees_quota = Some ()"
  by (simp add: test_defs test_simps wire_eval cong: test_congs)

lemma handles_test_try_insert_with_zero_quota_always_returns_none_passes: "handles_test_try_insert_with_zero_quota_always_returns_none = Some ()"
  by (simp add: test_defs test_simps wire_eval cong: test_congs)

lemma handles_test_stats_matches_individual_getters_on_populated_table_passes: "handles_test_stats_matches_individual_getters_on_populated_table = Some ()"
  by (simp add: test_defs test_simps wire_eval cong: test_congs)

lemma handles_test_stats_on_empty_table_is_all_zero_with_no_kinds_passes: "handles_test_stats_on_empty_table_is_all_zero_with_no_kinds = Some ()"
  by (simp add: test_defs test_simps wire_eval cong: test_congs)

lemma handles_test_stats_tracks_insert_and_remove_passes: "handles_test_stats_tracks_insert_and_remove = Some ()"
  by (simp add: test_defs test_simps wire_eval cong: test_congs)

lemma handles_test_stats_reports_retired_slots_passes: "handles_test_stats_reports_retired_slots = Some ()"
  by (simp add: test_defs test_simps wire_eval cong: test_congs)

lemma handles_test_clear_on_empty_table_is_a_noop_passes: "handles_test_clear_on_empty_table_is_a_noop = Some ()"
  by (simp add: test_defs test_simps wire_eval cong: test_congs)

lemma handles_test_retain_keeps_subset_and_frees_the_rest_passes: "handles_test_retain_keeps_subset_and_frees_the_rest = Some ()"
  by (simp add: test_defs test_simps wire_eval cong: test_congs)

lemma handles_test_retain_keeping_all_is_a_noop_passes: "handles_test_retain_keeping_all_is_a_noop = Some ()"
  by (simp add: test_defs test_simps wire_eval cong: test_congs)

lemma handles_test_retain_keeping_none_empties_the_table_passes: "handles_test_retain_keeping_none_empties_the_table = Some ()"
  by (simp add: test_defs test_simps wire_eval cong: test_congs)

lemma handles_test_retain_on_empty_table_removes_nothing_passes: "handles_test_retain_on_empty_table_removes_nothing = Some ()"
  by (simp add: test_defs test_simps wire_eval cong: test_congs)

lemma handles_test_retain_skips_empty_slots_and_receives_matching_handles_passes: "handles_test_retain_skips_empty_slots_and_receives_matching_handles = Some ()"
  by (simp add: test_defs test_simps wire_eval cong: test_congs)

lemma handles_test_retain_frees_slots_for_reuse_with_bumped_generation_passes: "handles_test_retain_frees_slots_for_reuse_with_bumped_generation = Some ()"
  by (simp add: test_defs test_simps wire_eval cong: test_congs)

lemma handles_test_retain_retires_slot_whose_generation_is_exhausted_passes: "handles_test_retain_retires_slot_whose_generation_is_exhausted = Some ()"
  by (simp add: test_defs test_simps wire_eval cong: test_congs)

definition handles_unit_tests :: "test list" where
  "handles_unit_tests = [
    handles_test_insert_get_roundtrip, handles_test_get_mut_mutates_in_place,
    handles_test_remove_then_get_returns_none, handles_test_stale_handle_after_reuse_returns_none,
    handles_test_slot_reuse_increments_generation, handles_test_len_tracks_live_count,
    handles_test_distinct_slots_for_concurrent_live_entries,
    handles_test_exhausted_slot_is_retired_not_reused,
    handles_test_iter_yields_only_live_slots_with_roundtripping_handles,
    handles_test_iter_and_count_by_kind_reflect_removal,
    handles_test_count_by_kind_ignores_absent_kind_and_empty_table,
    handles_test_iter_kind_yields_only_matching_live_entries_with_roundtripping_handles,
    handles_test_iter_kind_is_empty_for_absent_kind_and_empty_table,
    handles_test_iter_kind_reflects_removal,
    handles_test_iter_kind_reports_reused_slot_under_new_kind_only,
    handles_test_is_live_tracks_handle_validity,
    handles_test_contains_matches_is_live_across_insert_remove_and_stale,
    handles_test_contains_rejects_out_of_range_and_retired_handles,
    handles_test_null_handle_is_not_contained_in_fresh_or_populated_table,
    handles_test_null_handle_collides_only_with_live_slot_zero_generation_zero,
    handles_test_kinds_returns_distinct_sorted_live_kinds,
    handles_test_reused_slot_reports_new_kind_in_iter_and_counts,
    handles_test_capacity_grows_with_distinct_inserts_and_outpaces_len,
    handles_test_retired_starts_zero_and_counts_exhausted_slots,
    handles_test_clear_empties_table_invalidates_handles_and_allows_reuse,
    handles_test_try_insert_succeeds_until_quota_then_returns_none,
    handles_test_try_insert_succeeds_again_after_remove_frees_quota,
    handles_test_try_insert_with_zero_quota_always_returns_none,
    handles_test_stats_matches_individual_getters_on_populated_table,
    handles_test_stats_on_empty_table_is_all_zero_with_no_kinds,
    handles_test_stats_tracks_insert_and_remove, handles_test_stats_reports_retired_slots,
    handles_test_clear_on_empty_table_is_a_noop,
    handles_test_retain_keeps_subset_and_frees_the_rest, handles_test_retain_keeping_all_is_a_noop,
    handles_test_retain_keeping_none_empties_the_table,
    handles_test_retain_on_empty_table_removes_nothing,
    handles_test_retain_skips_empty_slots_and_receives_matching_handles,
    handles_test_retain_frees_slots_for_reuse_with_bumped_generation,
    handles_test_retain_retires_slot_whose_generation_is_exhausted]"

lemma handles_unit_tests_pass: "list_all (\<lambda>t. t = Some ()) handles_unit_tests"
  by (simp add: handles_unit_tests_def
      handles_test_insert_get_roundtrip_passes handles_test_get_mut_mutates_in_place_passes
      handles_test_remove_then_get_returns_none_passes
      handles_test_stale_handle_after_reuse_returns_none_passes
      handles_test_slot_reuse_increments_generation_passes handles_test_len_tracks_live_count_passes
      handles_test_distinct_slots_for_concurrent_live_entries_passes
      handles_test_exhausted_slot_is_retired_not_reused_passes
      handles_test_iter_yields_only_live_slots_with_roundtripping_handles_passes
      handles_test_iter_and_count_by_kind_reflect_removal_passes
      handles_test_count_by_kind_ignores_absent_kind_and_empty_table_passes
      handles_test_iter_kind_yields_only_matching_live_entries_with_roundtripping_handles_passes
      handles_test_iter_kind_is_empty_for_absent_kind_and_empty_table_passes
      handles_test_iter_kind_reflects_removal_passes
      handles_test_iter_kind_reports_reused_slot_under_new_kind_only_passes
      handles_test_is_live_tracks_handle_validity_passes
      handles_test_contains_matches_is_live_across_insert_remove_and_stale_passes
      handles_test_contains_rejects_out_of_range_and_retired_handles_passes
      handles_test_null_handle_is_not_contained_in_fresh_or_populated_table_passes
      handles_test_null_handle_collides_only_with_live_slot_zero_generation_zero_passes
      handles_test_kinds_returns_distinct_sorted_live_kinds_passes
      handles_test_reused_slot_reports_new_kind_in_iter_and_counts_passes
      handles_test_capacity_grows_with_distinct_inserts_and_outpaces_len_passes
      handles_test_retired_starts_zero_and_counts_exhausted_slots_passes
      handles_test_clear_empties_table_invalidates_handles_and_allows_reuse_passes
      handles_test_try_insert_succeeds_until_quota_then_returns_none_passes
      handles_test_try_insert_succeeds_again_after_remove_frees_quota_passes
      handles_test_try_insert_with_zero_quota_always_returns_none_passes
      handles_test_stats_matches_individual_getters_on_populated_table_passes
      handles_test_stats_on_empty_table_is_all_zero_with_no_kinds_passes
      handles_test_stats_tracks_insert_and_remove_passes
      handles_test_stats_reports_retired_slots_passes
      handles_test_clear_on_empty_table_is_a_noop_passes
      handles_test_retain_keeps_subset_and_frees_the_rest_passes
      handles_test_retain_keeping_all_is_a_noop_passes
      handles_test_retain_keeping_none_empties_the_table_passes
      handles_test_retain_on_empty_table_removes_nothing_passes
      handles_test_retain_skips_empty_slots_and_receives_matching_handles_passes
      handles_test_retain_frees_slots_for_reuse_with_bumped_generation_passes
      handles_test_retain_retires_slot_whose_generation_is_exhausted_passes)

subsection \<open>The wire protocol\<close>

definition protocol_test_opcode_pack_unpack :: test where
  [test_defs]: "protocol_test_opcode_pack_unpack = do {
     let op = opcode Vulkan 0x0042;
     assert_eq op 0x01000042;
     assert_eq (opcode_api op) (api_id_u8 Vulkan);
     assert_eq (opcode_call op) 0x0042
   }"

definition protocol_test_core_opcodes_are_in_core_namespace :: test where
  [test_defs]: "protocol_test_core_opcodes_are_in_core_namespace = do {
     assert_eq (opcode_api core_op_HELLO) (api_id_u8 Core);
     assert_eq (opcode_api core_op_NOOP) (api_id_u8 Core)
   }"

definition protocol_test_vk_opcodes_are_in_vulkan_namespace :: test where
  [test_defs]: "protocol_test_vk_opcodes_are_in_vulkan_namespace = do {
     assert_eq (opcode_api vk_op_CREATE_INSTANCE) (api_id_u8 Vulkan);
     assert_ne vk_op_CREATE_INSTANCE vk_op_DESTROY_INSTANCE
   }"

definition protocol_test_gl_opcodes_are_in_opengl_namespace :: test where
  [test_defs]: "protocol_test_gl_opcodes_are_in_opengl_namespace = do {
     assert_eq (opcode_api gl_op_CREATE_CONTEXT) (api_id_u8 OpenGl);
     assert_eq (opcode_api gl_op_MAKE_CURRENT) (api_id_u8 OpenGl);
     assert_eq (opcode_api gl_op_GEN_BUFFER) (api_id_u8 OpenGl);
     assert_eq (opcode_api gl_op_SWAP_BUFFERS) (api_id_u8 OpenGl);
     assert_eq (opcode_api gl_op_DELETE_BUFFER) (api_id_u8 OpenGl);
     assert_ne gl_op_CREATE_CONTEXT gl_op_MAKE_CURRENT;
     assert_ne gl_op_MAKE_CURRENT gl_op_GEN_BUFFER;
     assert_ne gl_op_GEN_BUFFER gl_op_SWAP_BUFFERS;
     assert_ne gl_op_SWAP_BUFFERS gl_op_DELETE_BUFFER
   }"

definition protocol_test_frame_header_roundtrip :: test where
  [test_defs]: "protocol_test_frame_header_roundtrip = do {
     let h = \<lparr>fh_version = PROTOCOL_MAJOR, fh_flags = 0, fh_kind = Request,
       fh_opcode = core_op_NOOP, fh_req_id = 7, fh_seq = 99, fh_body_len = 0\<rparr>;
     let buf = [];
     let buf = frame_header_encode h buf;
     assert_eq (length buf) HEADER_LEN;
     got \<leftarrow> ok (frame_header_decode buf);
     assert_eq got h
   }"

definition protocol_test_hello_welcome_roundtrip :: test where
  [test_defs]: "protocol_test_hello_welcome_roundtrip = do {
     let hello = \<lparr>hello_proto_major = 0, hello_proto_minor = 0, hello_features = 0,
       hello_max_frame_body = DEFAULT_MAX_FRAME_BODY\<rparr>;
     let b = [];
     let b = hello_encode hello b;
     x \<leftarrow> ok (hello_decode b);
     assert_eq x hello;
     let welcome = \<lparr>welcome_proto_major = 0, welcome_proto_minor = 0, welcome_features = 0,
       welcome_max_frame_body = DEFAULT_MAX_FRAME_BODY, welcome_session_id = 0xDEADBEEF\<rparr>;
     let b = [];
     let b = welcome_encode welcome b;
     x \<leftarrow> ok (welcome_decode b);
     assert_eq x welcome
   }"

definition protocol_test_decode_frame_rejects_short_buffer :: test where
  [test_defs]: "protocol_test_decode_frame_rejects_short_buffer = do {
     assert_eq (decode_frame (replicate 4 (0 :: u8))) (Inl UnexpectedEof)
   }"

definition protocol_test_handle_roundtrip :: test where
  [test_defs]: "protocol_test_handle_roundtrip = do {
     let cases = [((0 :: u8), (0 :: u32), (0 :: u32)), (1, 1, 1), (0x7F,
       0x00ABCDEF AND GENERATION_MAX, 0x12345678), (0xFF, GENERATION_MAX, (- 1 :: u32)), (0xFF, 0,
       0), (0, GENERATION_MAX, 0), (0, 0, (- 1 :: u32))];
     for_each cases (\<lambda>(kind, generation, slot). do {
       let h = handle_new kind generation slot;
       assert_eq (handle_kind h) kind;
       assert_eq (handle_generation h) generation;
       assert_eq (handle_slot h) slot;
       assert_eq (handle_from_raw (handle_raw h)) h
     })
   }"

definition protocol_test_handle_generation_masked_to_24_bits :: test where
  [test_defs]: "protocol_test_handle_generation_masked_to_24_bits = do {
     let h = handle_new 0xAB 0xFFFFFFFF 0x99999999;
     assert_eq (handle_generation h) GENERATION_MAX;
     assert_eq (handle_kind h) 0xAB;
     assert_eq (handle_slot h) 0x99999999;
     let h = handle_new 0x12 (GENERATION_MAX + 1) 0x00000001;
     assert_eq (handle_generation h) 0;
     assert_eq (handle_kind h) 0x12;
     assert_eq (handle_slot h) 1
   }"

definition protocol_test_handle_field_constants :: test where
  [test_defs]: "protocol_test_handle_field_constants = do {
     assert_eq KIND_BITS 8;
     assert_eq GENERATION_BITS 24;
     assert_eq SLOT_BITS 32;
     assert_eq ((KIND_BITS + GENERATION_BITS) + SLOT_BITS) 64;
     assert_eq GENERATION_MAX (push_bit 24 1 - 1)
   }"

definition protocol_test_vk_create_instance_roundtrip :: test where
  [test_defs]: "protocol_test_vk_create_instance_roundtrip = do {
     let req = \<lparr>vk_CreateInstanceRequest_app_api_version = 0x00403000\<rparr>;
     let b = [];
     let b = vk_CreateInstanceRequest_encode req b;
     assert_eq (length b) 4;
     x \<leftarrow> ok (vk_CreateInstanceRequest_decode b);
     assert_eq x req;
     let resp = \<lparr>vk_CreateInstanceResponse_instance = handle_new 1 5 42\<rparr>;
     let b = [];
     let b = vk_CreateInstanceResponse_encode resp b;
     assert_eq (length b) 8;
     x \<leftarrow> ok (vk_CreateInstanceResponse_decode b);
     assert_eq x resp
   }"

definition protocol_test_vk_enumerate_physical_devices_request_roundtrip :: test where
  [test_defs]: "protocol_test_vk_enumerate_physical_devices_request_roundtrip = do {
     let req = \<lparr>vk_EnumeratePhysicalDevicesRequest_instance = handle_new 1 3 7\<rparr>;
     let b = [];
     let b = vk_EnumeratePhysicalDevicesRequest_encode req b;
     assert_eq (length b) 8;
     x \<leftarrow> ok (vk_EnumeratePhysicalDevicesRequest_decode b);
     assert_eq x req
   }"

definition protocol_test_vk_enumerate_physical_devices_response_empty :: test where
  [test_defs]: "protocol_test_vk_enumerate_physical_devices_response_empty = do {
     let resp = \<lparr>vk_EnumeratePhysicalDevicesResponse_devices = []\<rparr>;
     let b = [];
     let b = vk_EnumeratePhysicalDevicesResponse_encode resp b;
     assert_eq (length b) 4;
     x \<leftarrow> ok (vk_EnumeratePhysicalDevicesResponse_decode b);
     assert_eq x resp
   }"

definition protocol_test_vk_enumerate_physical_devices_response_three :: test where
  [test_defs]: "protocol_test_vk_enumerate_physical_devices_response_three = do {
     let resp = \<lparr>vk_EnumeratePhysicalDevicesResponse_devices = [handle_new 2 0 0,
       handle_new 2 1 1, handle_new 2 GENERATION_MAX (- 1 :: u32)]\<rparr>;
     let b = [];
     let b = vk_EnumeratePhysicalDevicesResponse_encode resp b;
     assert_eq (length b) (4 + (3 * 8));
     x \<leftarrow> ok (vk_EnumeratePhysicalDevicesResponse_decode b);
     assert_eq x resp
   }"

definition protocol_test_vk_bodies_reject_short_buffers :: test where
  [test_defs]: "protocol_test_vk_bodies_reject_short_buffers = do {
     assert_eq (vk_CreateInstanceRequest_decode (replicate 3 (0 :: u8))) (Inl UnexpectedEof);
     assert_eq (vk_CreateInstanceResponse_decode (replicate 7 (0 :: u8))) (Inl UnexpectedEof);
     assert_eq (vk_EnumeratePhysicalDevicesRequest_decode (replicate 7 (0 :: u8)))
       (Inl UnexpectedEof);
     let truncated = [];
     let truncated = truncated @ (u32_to_le_bytes (2 :: u32));
     let truncated = truncated @ (u64_to_le_bytes (0 :: u64));
     assert_eq (vk_EnumeratePhysicalDevicesResponse_decode truncated) (Inl UnexpectedEof)
   }"

definition protocol_test_vk_create_device_roundtrip :: test where
  [test_defs]: "protocol_test_vk_create_device_roundtrip = do {
     let req = \<lparr>vk_CreateDeviceRequest_physical_device = handle_new 2 1 9\<rparr>;
     let b = [];
     let b = vk_CreateDeviceRequest_encode req b;
     assert_eq (length b) 8;
     x \<leftarrow> ok (vk_CreateDeviceRequest_decode b);
     assert_eq x req;
     let resp = \<lparr>vk_CreateDeviceResponse_device = handle_new 3 7 11\<rparr>;
     let b = [];
     let b = vk_CreateDeviceResponse_encode resp b;
     assert_eq (length b) 8;
     x \<leftarrow> ok (vk_CreateDeviceResponse_decode b);
     assert_eq x resp
   }"

definition protocol_test_vk_get_device_queue_roundtrip :: test where
  [test_defs]: "protocol_test_vk_get_device_queue_roundtrip = do {
     let req = \<lparr>vk_GetDeviceQueueRequest_device = handle_new 3 2 4,
       vk_GetDeviceQueueRequest_queue_family_index = 1, vk_GetDeviceQueueRequest_queue_index =
       (- 1 :: u32)\<rparr>;
     let b = [];
     let b = vk_GetDeviceQueueRequest_encode req b;
     assert_eq (length b) 16;
     x \<leftarrow> ok (vk_GetDeviceQueueRequest_decode b);
     assert_eq x req;
     let resp = \<lparr>vk_GetDeviceQueueResponse_queue = handle_new 4 GENERATION_MAX 0\<rparr>;
     let b = [];
     let b = vk_GetDeviceQueueResponse_encode resp b;
     assert_eq (length b) 8;
     x \<leftarrow> ok (vk_GetDeviceQueueResponse_decode b);
     assert_eq x resp
   }"

definition protocol_test_vk_device_queue_bodies_reject_short_buffers :: test where
  [test_defs]: "protocol_test_vk_device_queue_bodies_reject_short_buffers = do {
     assert_eq (vk_CreateDeviceRequest_decode (replicate 7 (0 :: u8))) (Inl UnexpectedEof);
     assert_eq (vk_CreateDeviceResponse_decode (replicate 7 (0 :: u8))) (Inl UnexpectedEof);
     assert_eq (vk_GetDeviceQueueRequest_decode (replicate 15 (0 :: u8))) (Inl UnexpectedEof);
     assert_eq (vk_GetDeviceQueueResponse_decode (replicate 7 (0 :: u8))) (Inl UnexpectedEof)
   }"

definition protocol_test_gl_create_context_response_roundtrip :: test where
  [test_defs]: "protocol_test_gl_create_context_response_roundtrip = do {
     let resp = \<lparr>gl_CreateContextResponse_context = handle_new 10 5 42\<rparr>;
     let b = [];
     let b = gl_CreateContextResponse_encode resp b;
     assert_eq (length b) 8;
     x \<leftarrow> ok (gl_CreateContextResponse_decode b);
     assert_eq x resp
   }"

definition protocol_test_gl_make_current_request_roundtrip :: test where
  [test_defs]: "protocol_test_gl_make_current_request_roundtrip = do {
     let req = \<lparr>gl_MakeCurrentRequest_context = handle_new 10 3 7\<rparr>;
     let b = [];
     let b = gl_MakeCurrentRequest_encode req b;
     assert_eq (length b) 8;
     x \<leftarrow> ok (gl_MakeCurrentRequest_decode b);
     assert_eq x req
   }"

definition protocol_test_gl_gen_buffer_roundtrip :: test where
  [test_defs]: "protocol_test_gl_gen_buffer_roundtrip = do {
     let req = \<lparr>gl_GenBufferRequest_context = handle_new 10 2 4\<rparr>;
     let b = [];
     let b = gl_GenBufferRequest_encode req b;
     assert_eq (length b) 8;
     x \<leftarrow> ok (gl_GenBufferRequest_decode b);
     assert_eq x req;
     let resp = \<lparr>gl_GenBufferResponse_buffer = handle_new 11 GENERATION_MAX
       (- 1 :: u32)\<rparr>;
     let b = [];
     let b = gl_GenBufferResponse_encode resp b;
     assert_eq (length b) 8;
     x \<leftarrow> ok (gl_GenBufferResponse_decode b);
     assert_eq x resp
   }"

definition protocol_test_gl_swap_buffers_request_roundtrip :: test where
  [test_defs]: "protocol_test_gl_swap_buffers_request_roundtrip = do {
     let req = \<lparr>gl_SwapBuffersRequest_context = handle_new 12 6 9\<rparr>;
     let b = [];
     let b = gl_SwapBuffersRequest_encode req b;
     assert_eq (length b) 8;
     x \<leftarrow> ok (gl_SwapBuffersRequest_decode b);
     assert_eq x req
   }"

definition protocol_test_gl_delete_buffer_request_roundtrip :: test where
  [test_defs]: "protocol_test_gl_delete_buffer_request_roundtrip = do {
     let req = \<lparr>gl_DeleteBufferRequest_buffer = handle_new 13 GENERATION_MAX
       (- 1 :: u32)\<rparr>;
     let b = [];
     let b = gl_DeleteBufferRequest_encode req b;
     assert_eq (length b) 8;
     x \<leftarrow> ok (gl_DeleteBufferRequest_decode b);
     assert_eq x req
   }"

definition protocol_test_gl_bodies_reject_short_buffers :: test where
  [test_defs]: "protocol_test_gl_bodies_reject_short_buffers = do {
     assert_eq (gl_CreateContextResponse_decode (replicate 7 (0 :: u8))) (Inl UnexpectedEof);
     assert_eq (gl_MakeCurrentRequest_decode (replicate 7 (0 :: u8))) (Inl UnexpectedEof);
     assert_eq (gl_GenBufferRequest_decode (replicate 7 (0 :: u8))) (Inl UnexpectedEof);
     assert_eq (gl_GenBufferResponse_decode (replicate 7 (0 :: u8))) (Inl UnexpectedEof);
     assert_eq (gl_SwapBuffersRequest_decode (replicate 7 (0 :: u8))) (Inl UnexpectedEof);
     assert_eq (gl_DeleteBufferRequest_decode (replicate 7 (0 :: u8))) (Inl UnexpectedEof)
   }"

definition protocol_test_vk_opcodes_memory_buffer_in_vulkan_namespace :: test where
  [test_defs]: "protocol_test_vk_opcodes_memory_buffer_in_vulkan_namespace = do {
     assert_eq (opcode_api vk_op_ALLOCATE_MEMORY) (api_id_u8 Vulkan);
     assert_eq (opcode_api vk_op_CREATE_BUFFER) (api_id_u8 Vulkan);
     assert_eq (opcode_api vk_op_BIND_BUFFER_MEMORY) (api_id_u8 Vulkan);
     assert_eq (opcode_call vk_op_ALLOCATE_MEMORY) 0x0010;
     assert_eq (opcode_call vk_op_CREATE_BUFFER) 0x0011;
     assert_eq (opcode_call vk_op_BIND_BUFFER_MEMORY) 0x0012
   }"

definition protocol_test_vk_allocate_memory_roundtrip :: test where
  [test_defs]: "protocol_test_vk_allocate_memory_roundtrip = do {
     let req = \<lparr>vk_AllocateMemoryRequest_device = handle_new 3 2 4,
       vk_AllocateMemoryRequest_size = 0x123456789ABCDEF0\<rparr>;
     let b = [];
     let b = vk_AllocateMemoryRequest_encode req b;
     assert_eq (length b) 16;
     x \<leftarrow> ok (vk_AllocateMemoryRequest_decode b);
     assert_eq x req;
     let resp = \<lparr>vk_AllocateMemoryResponse_memory = handle_new 5 7 11\<rparr>;
     let b = [];
     let b = vk_AllocateMemoryResponse_encode resp b;
     assert_eq (length b) 8;
     x \<leftarrow> ok (vk_AllocateMemoryResponse_decode b);
     assert_eq x resp
   }"

definition protocol_test_vk_create_buffer_roundtrip :: test where
  [test_defs]: "protocol_test_vk_create_buffer_roundtrip = do {
     let req = \<lparr>vk_CreateBufferRequest_device = handle_new 3 1 9,
       vk_CreateBufferRequest_size = (- 1 :: u64),
       vk_CreateBufferRequest_usage = 0xDEADBEEF\<rparr>;
     let b = [];
     let b = vk_CreateBufferRequest_encode req b;
     assert_eq (length b) 20;
     x \<leftarrow> ok (vk_CreateBufferRequest_decode b);
     assert_eq x req;
     let resp = \<lparr>vk_CreateBufferResponse_buffer = handle_new 6 GENERATION_MAX
       (- 1 :: u32)\<rparr>;
     let b = [];
     let b = vk_CreateBufferResponse_encode resp b;
     assert_eq (length b) 8;
     x \<leftarrow> ok (vk_CreateBufferResponse_decode b);
     assert_eq x resp
   }"

definition protocol_test_vk_bind_buffer_memory_roundtrip :: test where
  [test_defs]: "protocol_test_vk_bind_buffer_memory_roundtrip = do {
     let req = \<lparr>vk_BindBufferMemoryRequest_buffer = handle_new 6 3 2,
       vk_BindBufferMemoryRequest_memory = handle_new 5 4 8,
       vk_BindBufferMemoryRequest_offset = 0x0FEDCBA987654321\<rparr>;
     let b = [];
     let b = vk_BindBufferMemoryRequest_encode req b;
     assert_eq (length b) 24;
     x \<leftarrow> ok (vk_BindBufferMemoryRequest_decode b);
     assert_eq x req
   }"

definition protocol_test_vk_memory_buffer_bodies_reject_short_buffers :: test where
  [test_defs]: "protocol_test_vk_memory_buffer_bodies_reject_short_buffers = do {
     assert_eq (vk_AllocateMemoryRequest_decode (replicate 15 (0 :: u8))) (Inl UnexpectedEof);
     assert_eq (vk_AllocateMemoryResponse_decode (replicate 7 (0 :: u8))) (Inl UnexpectedEof);
     assert_eq (vk_CreateBufferRequest_decode (replicate 19 (0 :: u8))) (Inl UnexpectedEof);
     assert_eq (vk_CreateBufferResponse_decode (replicate 7 (0 :: u8))) (Inl UnexpectedEof);
     assert_eq (vk_BindBufferMemoryRequest_decode (replicate 23 (0 :: u8))) (Inl UnexpectedEof)
   }"

definition protocol_test_vk_opcodes_command_buffer_in_vulkan_namespace :: test where
  [test_defs]: "protocol_test_vk_opcodes_command_buffer_in_vulkan_namespace = do {
     assert_eq (opcode_api vk_op_CREATE_COMMAND_POOL) (api_id_u8 Vulkan);
     assert_eq (opcode_api vk_op_ALLOCATE_COMMAND_BUFFER) (api_id_u8 Vulkan);
     assert_eq (opcode_api vk_op_QUEUE_SUBMIT) (api_id_u8 Vulkan);
     assert_eq (opcode_call vk_op_CREATE_COMMAND_POOL) 0x0020;
     assert_eq (opcode_call vk_op_ALLOCATE_COMMAND_BUFFER) 0x0021;
     assert_eq (opcode_call vk_op_QUEUE_SUBMIT) 0x0022;
     assert_ne vk_op_CREATE_COMMAND_POOL vk_op_ALLOCATE_COMMAND_BUFFER;
     assert_ne vk_op_ALLOCATE_COMMAND_BUFFER vk_op_QUEUE_SUBMIT
   }"

definition protocol_test_vk_create_command_pool_roundtrip :: test where
  [test_defs]: "protocol_test_vk_create_command_pool_roundtrip = do {
     let req = \<lparr>vk_CreateCommandPoolRequest_device = handle_new 3 2 4,
       vk_CreateCommandPoolRequest_queue_family_index = (- 1 :: u32)\<rparr>;
     let b = [];
     let b = vk_CreateCommandPoolRequest_encode req b;
     assert_eq (length b) 12;
     x \<leftarrow> ok (vk_CreateCommandPoolRequest_decode b);
     assert_eq x req;
     let resp = \<lparr>vk_CreateCommandPoolResponse_pool = handle_new 7 GENERATION_MAX
       (- 1 :: u32)\<rparr>;
     let b = [];
     let b = vk_CreateCommandPoolResponse_encode resp b;
     assert_eq (length b) 8;
     x \<leftarrow> ok (vk_CreateCommandPoolResponse_decode b);
     assert_eq x resp
   }"

definition protocol_test_vk_allocate_command_buffer_roundtrip :: test where
  [test_defs]: "protocol_test_vk_allocate_command_buffer_roundtrip = do {
     let req = \<lparr>vk_AllocateCommandBufferRequest_pool = handle_new 7 3 9\<rparr>;
     let b = [];
     let b = vk_AllocateCommandBufferRequest_encode req b;
     assert_eq (length b) 8;
     x \<leftarrow> ok (vk_AllocateCommandBufferRequest_decode b);
     assert_eq x req;
     let resp = \<lparr>vk_AllocateCommandBufferResponse_command_buffer = handle_new 8
       GENERATION_MAX (- 1 :: u32)\<rparr>;
     let b = [];
     let b = vk_AllocateCommandBufferResponse_encode resp b;
     assert_eq (length b) 8;
     x \<leftarrow> ok (vk_AllocateCommandBufferResponse_decode b);
     assert_eq x resp
   }"

definition protocol_test_vk_queue_submit_roundtrip :: test where
  [test_defs]: "protocol_test_vk_queue_submit_roundtrip = do {
     let req = \<lparr>vk_QueueSubmitRequest_queue = handle_new 4 1 2,
       vk_QueueSubmitRequest_command_buffer = handle_new 8 6 5\<rparr>;
     let b = [];
     let b = vk_QueueSubmitRequest_encode req b;
     assert_eq (length b) 16;
     x \<leftarrow> ok (vk_QueueSubmitRequest_decode b);
     assert_eq x req
   }"

definition protocol_test_vk_command_buffer_bodies_reject_short_buffers :: test where
  [test_defs]: "protocol_test_vk_command_buffer_bodies_reject_short_buffers = do {
     assert_eq (vk_CreateCommandPoolRequest_decode (replicate 11 (0 :: u8))) (Inl UnexpectedEof);
     assert_eq (vk_CreateCommandPoolResponse_decode (replicate 7 (0 :: u8))) (Inl UnexpectedEof);
     assert_eq (vk_AllocateCommandBufferRequest_decode (replicate 7 (0 :: u8))) (Inl UnexpectedEof);
     assert_eq (vk_AllocateCommandBufferResponse_decode (replicate 7 (0 :: u8)))
       (Inl UnexpectedEof);
     assert_eq (vk_QueueSubmitRequest_decode (replicate 15 (0 :: u8))) (Inl UnexpectedEof)
   }"

definition protocol_test_vk_opcodes_draw_copy_in_vulkan_namespace :: test where
  [test_defs]: "protocol_test_vk_opcodes_draw_copy_in_vulkan_namespace = do {
     assert_eq (opcode_api vk_op_CMD_COPY_BUFFER) (api_id_u8 Vulkan);
     assert_eq (opcode_api vk_op_CMD_DRAW) (api_id_u8 Vulkan);
     assert_eq (opcode_call vk_op_CMD_COPY_BUFFER) 0x0023;
     assert_eq (opcode_call vk_op_CMD_DRAW) 0x0024;
     assert_ne vk_op_CMD_COPY_BUFFER vk_op_CMD_DRAW;
     assert_ne vk_op_QUEUE_SUBMIT vk_op_CMD_COPY_BUFFER
   }"

definition protocol_test_vk_cmd_copy_buffer_roundtrip :: test where
  [test_defs]: "protocol_test_vk_cmd_copy_buffer_roundtrip = do {
     let req = \<lparr>vk_CmdCopyBufferRequest_command_buffer = handle_new 8 1 2,
       vk_CmdCopyBufferRequest_src = handle_new 6 3 4,
       vk_CmdCopyBufferRequest_dst = handle_new 6 5 6, vk_CmdCopyBufferRequest_size =
       (- 1 :: u64)\<rparr>;
     let b = [];
     let b = vk_CmdCopyBufferRequest_encode req b;
     assert_eq (length b) 32;
     x \<leftarrow> ok (vk_CmdCopyBufferRequest_decode b);
     assert_eq x req
   }"

definition protocol_test_vk_cmd_draw_roundtrip :: test where
  [test_defs]: "protocol_test_vk_cmd_draw_roundtrip = do {
     let req = \<lparr>vk_CmdDrawRequest_command_buffer = handle_new 8 7 9,
       vk_CmdDrawRequest_vertex_count = (- 1 :: u32), vk_CmdDrawRequest_instance_count = 1\<rparr>;
     let b = [];
     let b = vk_CmdDrawRequest_encode req b;
     assert_eq (length b) 16;
     x \<leftarrow> ok (vk_CmdDrawRequest_decode b);
     assert_eq x req
   }"

definition protocol_test_vk_draw_copy_bodies_reject_short_buffers :: test where
  [test_defs]: "protocol_test_vk_draw_copy_bodies_reject_short_buffers = do {
     assert_eq (vk_CmdCopyBufferRequest_decode (replicate 31 (0 :: u8))) (Inl UnexpectedEof);
     assert_eq (vk_CmdDrawRequest_decode (replicate 15 (0 :: u8))) (Inl UnexpectedEof)
   }"

definition protocol_test_vk_opcodes_destroy_free_in_vulkan_namespace :: test where
  [test_defs]: "protocol_test_vk_opcodes_destroy_free_in_vulkan_namespace = do {
     assert_eq (opcode_api vk_op_DESTROY_BUFFER) (api_id_u8 Vulkan);
     assert_eq (opcode_api vk_op_FREE_MEMORY) (api_id_u8 Vulkan);
     assert_eq (opcode_api vk_op_DESTROY_COMMAND_POOL) (api_id_u8 Vulkan);
     assert_eq (opcode_call vk_op_DESTROY_BUFFER) 0x0013;
     assert_eq (opcode_call vk_op_FREE_MEMORY) 0x0014;
     assert_eq (opcode_call vk_op_DESTROY_COMMAND_POOL) 0x0025;
     assert_ne vk_op_DESTROY_BUFFER vk_op_FREE_MEMORY;
     assert_ne vk_op_FREE_MEMORY vk_op_DESTROY_COMMAND_POOL;
     assert_ne vk_op_DESTROY_COMMAND_POOL vk_op_CMD_DRAW
   }"

definition protocol_test_vk_destroy_buffer_roundtrip :: test where
  [test_defs]: "protocol_test_vk_destroy_buffer_roundtrip = do {
     let req = \<lparr>vk_DestroyBufferRequest_buffer = handle_new 6 GENERATION_MAX
       (- 1 :: u32)\<rparr>;
     let b = [];
     let b = vk_DestroyBufferRequest_encode req b;
     assert_eq (length b) 8;
     x \<leftarrow> ok (vk_DestroyBufferRequest_decode b);
     assert_eq x req
   }"

definition protocol_test_vk_free_memory_roundtrip :: test where
  [test_defs]: "protocol_test_vk_free_memory_roundtrip = do {
     let req = \<lparr>vk_FreeMemoryRequest_memory = handle_new 5 4 8\<rparr>;
     let b = [];
     let b = vk_FreeMemoryRequest_encode req b;
     assert_eq (length b) 8;
     x \<leftarrow> ok (vk_FreeMemoryRequest_decode b);
     assert_eq x req
   }"

definition protocol_test_vk_destroy_command_pool_roundtrip :: test where
  [test_defs]: "protocol_test_vk_destroy_command_pool_roundtrip = do {
     let req = \<lparr>vk_DestroyCommandPoolRequest_pool = handle_new 7 3 9\<rparr>;
     let b = [];
     let b = vk_DestroyCommandPoolRequest_encode req b;
     assert_eq (length b) 8;
     x \<leftarrow> ok (vk_DestroyCommandPoolRequest_decode b);
     assert_eq x req
   }"

definition protocol_test_vk_destroy_free_bodies_reject_short_buffers :: test where
  [test_defs]: "protocol_test_vk_destroy_free_bodies_reject_short_buffers = do {
     assert_eq (vk_DestroyBufferRequest_decode (replicate 7 (0 :: u8))) (Inl UnexpectedEof);
     assert_eq (vk_FreeMemoryRequest_decode (replicate 7 (0 :: u8))) (Inl UnexpectedEof);
     assert_eq (vk_DestroyCommandPoolRequest_decode (replicate 7 (0 :: u8))) (Inl UnexpectedEof)
   }"

definition protocol_test_cuda_opcodes_are_in_cuda_namespace :: test where
  [test_defs]: "protocol_test_cuda_opcodes_are_in_cuda_namespace = do {
     assert_eq (opcode_api cuda_op_CTX_CREATE) (api_id_u8 Cuda);
     assert_eq (opcode_api cuda_op_MEM_ALLOC) (api_id_u8 Cuda);
     assert_eq (opcode_api cuda_op_MEM_FREE) (api_id_u8 Cuda);
     assert_eq (opcode_api cuda_op_LAUNCH_KERNEL) (api_id_u8 Cuda);
     assert_eq (opcode_api cuda_op_MEMCPY_HTOD) (api_id_u8 Cuda);
     assert_eq (opcode_api cuda_op_MEMCPY_DTOH) (api_id_u8 Cuda);
     assert_eq (opcode_call cuda_op_CTX_CREATE) 0x0001;
     assert_eq (opcode_call cuda_op_MEM_ALLOC) 0x0002;
     assert_eq (opcode_call cuda_op_MEM_FREE) 0x0003;
     assert_eq (opcode_call cuda_op_LAUNCH_KERNEL) 0x0010;
     assert_eq (opcode_call cuda_op_MEMCPY_HTOD) 0x0011;
     assert_eq (opcode_call cuda_op_MEMCPY_DTOH) 0x0012;
     assert_ne cuda_op_CTX_CREATE cuda_op_MEM_ALLOC;
     assert_ne cuda_op_MEM_ALLOC cuda_op_MEM_FREE;
     assert_ne cuda_op_LAUNCH_KERNEL cuda_op_MEMCPY_HTOD;
     assert_ne cuda_op_MEMCPY_HTOD cuda_op_MEMCPY_DTOH
   }"

definition protocol_test_cuda_ctx_create_roundtrip :: test where
  [test_defs]: "protocol_test_cuda_ctx_create_roundtrip = do {
     let req = \<lparr>cuda_CtxCreateRequest_device_ordinal = 0xDEADBEEF\<rparr>;
     let b = [];
     let b = cuda_CtxCreateRequest_encode req b;
     assert_eq (length b) 4;
     x \<leftarrow> ok (cuda_CtxCreateRequest_decode b);
     assert_eq x req;
     let resp = \<lparr>cuda_CtxCreateResponse_context = handle_new 7 5 42\<rparr>;
     let b = [];
     let b = cuda_CtxCreateResponse_encode resp b;
     assert_eq (length b) 8;
     x \<leftarrow> ok (cuda_CtxCreateResponse_decode b);
     assert_eq x resp
   }"

definition protocol_test_cuda_mem_alloc_roundtrip :: test where
  [test_defs]: "protocol_test_cuda_mem_alloc_roundtrip = do {
     let req = \<lparr>cuda_MemAllocRequest_context = handle_new 7 2 4,
       cuda_MemAllocRequest_size = 0x123456789ABCDEF0\<rparr>;
     let b = [];
     let b = cuda_MemAllocRequest_encode req b;
     assert_eq (length b) 16;
     x \<leftarrow> ok (cuda_MemAllocRequest_decode b);
     assert_eq x req;
     let resp = \<lparr>cuda_MemAllocResponse_dptr = handle_new 8 GENERATION_MAX
       (- 1 :: u32)\<rparr>;
     let b = [];
     let b = cuda_MemAllocResponse_encode resp b;
     assert_eq (length b) 8;
     x \<leftarrow> ok (cuda_MemAllocResponse_decode b);
     assert_eq x resp
   }"

definition protocol_test_cuda_mem_free_roundtrip :: test where
  [test_defs]: "protocol_test_cuda_mem_free_roundtrip = do {
     let req = \<lparr>cuda_MemFreeRequest_dptr = handle_new 8 3 11\<rparr>;
     let b = [];
     let b = cuda_MemFreeRequest_encode req b;
     assert_eq (length b) 8;
     x \<leftarrow> ok (cuda_MemFreeRequest_decode b);
     assert_eq x req
   }"

definition protocol_test_cuda_launch_kernel_roundtrip :: test where
  [test_defs]: "protocol_test_cuda_launch_kernel_roundtrip = do {
     let req = \<lparr>cuda_LaunchKernelRequest_function = handle_new 9 6 21,
       cuda_LaunchKernelRequest_grid_x = 0x11112222, cuda_LaunchKernelRequest_grid_y = 0x33334444,
       cuda_LaunchKernelRequest_grid_z = 0x55556666, cuda_LaunchKernelRequest_block_x = 0x77778888,
       cuda_LaunchKernelRequest_block_y = 0x9999AAAA,
       cuda_LaunchKernelRequest_block_z = 0xBBBBCCCC\<rparr>;
     let b = [];
     let b = cuda_LaunchKernelRequest_encode req b;
     assert_eq (length b) (8 + (6 * 4));
     x \<leftarrow> ok (cuda_LaunchKernelRequest_decode b);
     assert_eq x req
   }"

definition protocol_test_cuda_memcpy_htod_roundtrip :: test where
  [test_defs]: "protocol_test_cuda_memcpy_htod_roundtrip = do {
     let req = \<lparr>cuda_MemcpyHtoDRequest_dst = handle_new 8 4 13,
       cuda_MemcpyHtoDRequest_len = 0x0123456789ABCDEF\<rparr>;
     let b = [];
     let b = cuda_MemcpyHtoDRequest_encode req b;
     assert_eq (length b) 16;
     x \<leftarrow> ok (cuda_MemcpyHtoDRequest_decode b);
     assert_eq x req
   }"

definition protocol_test_cuda_memcpy_dtoh_roundtrip :: test where
  [test_defs]: "protocol_test_cuda_memcpy_dtoh_roundtrip = do {
     let req = \<lparr>cuda_MemcpyDtoHRequest_src = handle_new 8 1 99,
       cuda_MemcpyDtoHRequest_len = 0xFEDCBA9876543210\<rparr>;
     let b = [];
     let b = cuda_MemcpyDtoHRequest_encode req b;
     assert_eq (length b) 16;
     x \<leftarrow> ok (cuda_MemcpyDtoHRequest_decode b);
     assert_eq x req;
     let resp = \<lparr>cuda_MemcpyDtoHResponse_copied = 0x00000000DEADBEEF\<rparr>;
     let b = [];
     let b = cuda_MemcpyDtoHResponse_encode resp b;
     assert_eq (length b) 8;
     x \<leftarrow> ok (cuda_MemcpyDtoHResponse_decode b);
     assert_eq x resp
   }"

definition protocol_test_cuda_bodies_reject_short_buffers :: test where
  [test_defs]: "protocol_test_cuda_bodies_reject_short_buffers = do {
     assert_eq (cuda_CtxCreateRequest_decode (replicate 3 (0 :: u8))) (Inl UnexpectedEof);
     assert_eq (cuda_CtxCreateResponse_decode (replicate 7 (0 :: u8))) (Inl UnexpectedEof);
     assert_eq (cuda_MemAllocRequest_decode (replicate 15 (0 :: u8))) (Inl UnexpectedEof);
     assert_eq (cuda_MemAllocResponse_decode (replicate 7 (0 :: u8))) (Inl UnexpectedEof);
     assert_eq (cuda_MemFreeRequest_decode (replicate 7 (0 :: u8))) (Inl UnexpectedEof);
     assert_eq (cuda_LaunchKernelRequest_decode (replicate 31 (0 :: u8))) (Inl UnexpectedEof);
     assert_eq (cuda_MemcpyHtoDRequest_decode (replicate 15 (0 :: u8))) (Inl UnexpectedEof);
     assert_eq (cuda_MemcpyDtoHRequest_decode (replicate 15 (0 :: u8))) (Inl UnexpectedEof);
     assert_eq (cuda_MemcpyDtoHResponse_decode (replicate 7 (0 :: u8))) (Inl UnexpectedEof)
   }"

definition protocol_test_hip_opcodes_are_in_hip_namespace :: test where
  [test_defs]: "protocol_test_hip_opcodes_are_in_hip_namespace = do {
     assert_eq (opcode_api hip_op_MALLOC) (api_id_u8 Hip);
     assert_eq (opcode_api hip_op_FREE) (api_id_u8 Hip);
     assert_eq (opcode_api hip_op_STREAM_CREATE) (api_id_u8 Hip);
     assert_eq (opcode_call hip_op_MALLOC) 0x0001;
     assert_eq (opcode_call hip_op_FREE) 0x0002;
     assert_eq (opcode_call hip_op_STREAM_CREATE) 0x0003;
     assert_ne hip_op_MALLOC hip_op_FREE;
     assert_ne hip_op_FREE hip_op_STREAM_CREATE
   }"

definition protocol_test_hip_malloc_roundtrip :: test where
  [test_defs]: "protocol_test_hip_malloc_roundtrip = do {
     let req = \<lparr>hip_MallocRequest_size = 0x123456789ABCDEF0\<rparr>;
     let b = [];
     let b = hip_MallocRequest_encode req b;
     assert_eq (length b) 8;
     x \<leftarrow> ok (hip_MallocRequest_decode b);
     assert_eq x req;
     let resp = \<lparr>hip_MallocResponse_dptr = handle_new 8 GENERATION_MAX (- 1 :: u32)\<rparr>;
     let b = [];
     let b = hip_MallocResponse_encode resp b;
     assert_eq (length b) 8;
     x \<leftarrow> ok (hip_MallocResponse_decode b);
     assert_eq x resp
   }"

definition protocol_test_hip_free_roundtrip :: test where
  [test_defs]: "protocol_test_hip_free_roundtrip = do {
     let req = \<lparr>hip_FreeRequest_dptr = handle_new 8 3 11\<rparr>;
     let b = [];
     let b = hip_FreeRequest_encode req b;
     assert_eq (length b) 8;
     x \<leftarrow> ok (hip_FreeRequest_decode b);
     assert_eq x req
   }"

definition protocol_test_hip_stream_create_roundtrip :: test where
  [test_defs]: "protocol_test_hip_stream_create_roundtrip = do {
     let resp = \<lparr>hip_StreamCreateResponse_stream = handle_new 9 5 42\<rparr>;
     let b = [];
     let b = hip_StreamCreateResponse_encode resp b;
     assert_eq (length b) 8;
     x \<leftarrow> ok (hip_StreamCreateResponse_decode b);
     assert_eq x resp
   }"

definition protocol_test_hip_bodies_reject_short_buffers :: test where
  [test_defs]: "protocol_test_hip_bodies_reject_short_buffers = do {
     assert_eq (hip_MallocRequest_decode (replicate 7 (0 :: u8))) (Inl UnexpectedEof);
     assert_eq (hip_MallocResponse_decode (replicate 7 (0 :: u8))) (Inl UnexpectedEof);
     assert_eq (hip_FreeRequest_decode (replicate 7 (0 :: u8))) (Inl UnexpectedEof);
     assert_eq (hip_StreamCreateResponse_decode (replicate 7 (0 :: u8))) (Inl UnexpectedEof)
   }"

definition protocol_test_cl_opcodes_are_in_opencl_namespace :: test where
  [test_defs]: "protocol_test_cl_opcodes_are_in_opencl_namespace = do {
     assert_eq (opcode_api cl_op_CREATE_CONTEXT) (api_id_u8 OpenCl);
     assert_eq (opcode_api cl_op_CREATE_BUFFER) (api_id_u8 OpenCl);
     assert_eq (opcode_api cl_op_RELEASE_BUFFER) (api_id_u8 OpenCl);
     assert_eq (opcode_call cl_op_CREATE_CONTEXT) 0x0001;
     assert_eq (opcode_call cl_op_CREATE_BUFFER) 0x0002;
     assert_eq (opcode_call cl_op_RELEASE_BUFFER) 0x0003;
     assert_ne cl_op_CREATE_CONTEXT cl_op_CREATE_BUFFER;
     assert_ne cl_op_CREATE_BUFFER cl_op_RELEASE_BUFFER
   }"

definition protocol_test_cl_create_context_response_roundtrip :: test where
  [test_defs]: "protocol_test_cl_create_context_response_roundtrip = do {
     let resp = \<lparr>cl_CreateContextResponse_context = handle_new 12 5 42\<rparr>;
     let b = [];
     let b = cl_CreateContextResponse_encode resp b;
     assert_eq (length b) 8;
     x \<leftarrow> ok (cl_CreateContextResponse_decode b);
     assert_eq x resp
   }"

definition protocol_test_cl_create_buffer_roundtrip :: test where
  [test_defs]: "protocol_test_cl_create_buffer_roundtrip = do {
     let req = \<lparr>cl_CreateBufferRequest_context = handle_new 12 2 4,
       cl_CreateBufferRequest_size = 0x123456789ABCDEF0\<rparr>;
     let b = [];
     let b = cl_CreateBufferRequest_encode req b;
     assert_eq (length b) 16;
     x \<leftarrow> ok (cl_CreateBufferRequest_decode b);
     assert_eq x req;
     let resp = \<lparr>cl_CreateBufferResponse_mem = handle_new 13 GENERATION_MAX
       (- 1 :: u32)\<rparr>;
     let b = [];
     let b = cl_CreateBufferResponse_encode resp b;
     assert_eq (length b) 8;
     x \<leftarrow> ok (cl_CreateBufferResponse_decode b);
     assert_eq x resp
   }"

definition protocol_test_cl_release_buffer_roundtrip :: test where
  [test_defs]: "protocol_test_cl_release_buffer_roundtrip = do {
     let req = \<lparr>cl_ReleaseBufferRequest_mem = handle_new 13 3 11\<rparr>;
     let b = [];
     let b = cl_ReleaseBufferRequest_encode req b;
     assert_eq (length b) 8;
     x \<leftarrow> ok (cl_ReleaseBufferRequest_decode b);
     assert_eq x req
   }"

definition protocol_test_cl_bodies_reject_short_buffers :: test where
  [test_defs]: "protocol_test_cl_bodies_reject_short_buffers = do {
     assert_eq (cl_CreateContextResponse_decode (replicate 7 (0 :: u8))) (Inl UnexpectedEof);
     assert_eq (cl_CreateBufferRequest_decode (replicate 15 (0 :: u8))) (Inl UnexpectedEof);
     assert_eq (cl_CreateBufferResponse_decode (replicate 7 (0 :: u8))) (Inl UnexpectedEof);
     assert_eq (cl_ReleaseBufferRequest_decode (replicate 7 (0 :: u8))) (Inl UnexpectedEof)
   }"

definition protocol_test_l0_opcodes_are_in_level_zero_namespace :: test where
  [test_defs]: "protocol_test_l0_opcodes_are_in_level_zero_namespace = do {
     assert_eq (opcode_api l0_op_CONTEXT_CREATE) (api_id_u8 LevelZero);
     assert_eq (opcode_api l0_op_MEM_ALLOC_DEVICE) (api_id_u8 LevelZero);
     assert_eq (opcode_api l0_op_MEM_FREE) (api_id_u8 LevelZero);
     assert_eq (opcode_call l0_op_CONTEXT_CREATE) 0x0001;
     assert_eq (opcode_call l0_op_MEM_ALLOC_DEVICE) 0x0002;
     assert_eq (opcode_call l0_op_MEM_FREE) 0x0003;
     assert_ne l0_op_CONTEXT_CREATE l0_op_MEM_ALLOC_DEVICE;
     assert_ne l0_op_MEM_ALLOC_DEVICE l0_op_MEM_FREE
   }"

definition protocol_test_l0_context_create_response_roundtrip :: test where
  [test_defs]: "protocol_test_l0_context_create_response_roundtrip = do {
     let resp = \<lparr>l0_ContextCreateResponse_context = handle_new 14 5 42\<rparr>;
     let b = [];
     let b = l0_ContextCreateResponse_encode resp b;
     assert_eq (length b) 8;
     x \<leftarrow> ok (l0_ContextCreateResponse_decode b);
     assert_eq x resp
   }"

definition protocol_test_l0_mem_alloc_device_roundtrip :: test where
  [test_defs]: "protocol_test_l0_mem_alloc_device_roundtrip = do {
     let req = \<lparr>l0_MemAllocDeviceRequest_context = handle_new 14 2 4,
       l0_MemAllocDeviceRequest_size = 0x123456789ABCDEF0\<rparr>;
     let b = [];
     let b = l0_MemAllocDeviceRequest_encode req b;
     assert_eq (length b) 16;
     x \<leftarrow> ok (l0_MemAllocDeviceRequest_decode b);
     assert_eq x req;
     let resp = \<lparr>l0_MemAllocDeviceResponse_ptr = handle_new 15 GENERATION_MAX
       (- 1 :: u32)\<rparr>;
     let b = [];
     let b = l0_MemAllocDeviceResponse_encode resp b;
     assert_eq (length b) 8;
     x \<leftarrow> ok (l0_MemAllocDeviceResponse_decode b);
     assert_eq x resp
   }"

definition protocol_test_l0_mem_free_roundtrip :: test where
  [test_defs]: "protocol_test_l0_mem_free_roundtrip = do {
     let req = \<lparr>l0_MemFreeRequest_ptr = handle_new 15 3 11\<rparr>;
     let b = [];
     let b = l0_MemFreeRequest_encode req b;
     assert_eq (length b) 8;
     x \<leftarrow> ok (l0_MemFreeRequest_decode b);
     assert_eq x req
   }"

definition protocol_test_l0_bodies_reject_short_buffers :: test where
  [test_defs]: "protocol_test_l0_bodies_reject_short_buffers = do {
     assert_eq (l0_ContextCreateResponse_decode (replicate 7 (0 :: u8))) (Inl UnexpectedEof);
     assert_eq (l0_MemAllocDeviceRequest_decode (replicate 15 (0 :: u8))) (Inl UnexpectedEof);
     assert_eq (l0_MemAllocDeviceResponse_decode (replicate 7 (0 :: u8))) (Inl UnexpectedEof);
     assert_eq (l0_MemFreeRequest_decode (replicate 7 (0 :: u8))) (Inl UnexpectedEof)
   }"

definition protocol_test_full_frame_roundtrip :: test where
  [test_defs]: "protocol_test_full_frame_roundtrip = do {
     let body = [(1 :: u8), 2, 3, 4];
     let h = \<lparr>fh_version = 0, fh_flags = 0, fh_kind = Response, fh_opcode = core_op_NOOP,
       fh_req_id = 1, fh_seq = 1, fh_body_len = (word_of_nat (length body) :: u32)\<rparr>;
     let frame = encode_frame h body;
     (gh, gb) \<leftarrow> ok (decode_frame frame);
     assert_eq gh h;
     assert_eq gb body
   }"

definition protocol_test_video_opcodes_are_in_video_namespace :: test where
  [test_defs]: "protocol_test_video_opcodes_are_in_video_namespace = do {
     assert_eq (opcode_api video_op_CREATE_DECODE_SESSION) (api_id_u8 Video);
     assert_eq (opcode_api video_op_DECODE_FRAME) (api_id_u8 Video);
     assert_eq (opcode_api video_op_DESTROY_SESSION) (api_id_u8 Video);
     assert_eq (opcode_call video_op_CREATE_DECODE_SESSION) 0x0001;
     assert_eq (opcode_call video_op_DECODE_FRAME) 0x0002;
     assert_eq (opcode_call video_op_DESTROY_SESSION) 0x0003;
     assert_ne video_op_CREATE_DECODE_SESSION video_op_DECODE_FRAME;
     assert_ne video_op_DECODE_FRAME video_op_DESTROY_SESSION
   }"

definition protocol_test_video_create_decode_session_roundtrip :: test where
  [test_defs]: "protocol_test_video_create_decode_session_roundtrip = do {
     let req = \<lparr>video_CreateDecodeSessionRequest_codec = 0xDEADBEEF,
       video_CreateDecodeSessionRequest_width = 1920,
       video_CreateDecodeSessionRequest_height = 1080\<rparr>;
     let b = [];
     let b = video_CreateDecodeSessionRequest_encode req b;
     assert_eq (length b) 12;
     x \<leftarrow> ok (video_CreateDecodeSessionRequest_decode b);
     assert_eq x req;
     let resp = \<lparr>video_CreateDecodeSessionResponse_session = handle_new 16 5 42\<rparr>;
     let b = [];
     let b = video_CreateDecodeSessionResponse_encode resp b;
     assert_eq (length b) 8;
     x \<leftarrow> ok (video_CreateDecodeSessionResponse_decode b);
     assert_eq x resp
   }"

definition protocol_test_video_decode_frame_roundtrip :: test where
  [test_defs]: "protocol_test_video_decode_frame_roundtrip = do {
     let req = \<lparr>video_DecodeFrameRequest_session = handle_new 16 2 4,
       video_DecodeFrameRequest_bitstream_len = (- 1 :: u32)\<rparr>;
     let b = [];
     let b = video_DecodeFrameRequest_encode req b;
     assert_eq (length b) 12;
     x \<leftarrow> ok (video_DecodeFrameRequest_decode b);
     assert_eq x req;
     let resp = \<lparr>video_DecodeFrameResponse_frame_index = 0x12345678\<rparr>;
     let b = [];
     let b = video_DecodeFrameResponse_encode resp b;
     assert_eq (length b) 4;
     x \<leftarrow> ok (video_DecodeFrameResponse_decode b);
     assert_eq x resp
   }"

definition protocol_test_video_destroy_session_roundtrip :: test where
  [test_defs]: "protocol_test_video_destroy_session_roundtrip = do {
     let req = \<lparr>video_DestroySessionRequest_session = handle_new 16 3 11\<rparr>;
     let b = [];
     let b = video_DestroySessionRequest_encode req b;
     assert_eq (length b) 8;
     x \<leftarrow> ok (video_DestroySessionRequest_decode b);
     assert_eq x req
   }"

definition protocol_test_video_bodies_reject_short_buffers :: test where
  [test_defs]: "protocol_test_video_bodies_reject_short_buffers = do {
     assert_eq (video_CreateDecodeSessionRequest_decode (replicate 11 (0 :: u8)))
       (Inl UnexpectedEof);
     assert_eq (video_CreateDecodeSessionResponse_decode (replicate 7 (0 :: u8)))
       (Inl UnexpectedEof);
     assert_eq (video_DecodeFrameRequest_decode (replicate 11 (0 :: u8))) (Inl UnexpectedEof);
     assert_eq (video_DecodeFrameResponse_decode (replicate 3 (0 :: u8))) (Inl UnexpectedEof);
     assert_eq (video_DestroySessionRequest_decode (replicate 7 (0 :: u8))) (Inl UnexpectedEof)
   }"

definition protocol_test_webgpu_api_id_value :: test where
  [test_defs]: "protocol_test_webgpu_api_id_value = do {
     assert_eq (api_id_u8 WebGpu) 0x08
   }"

definition protocol_test_wgpu_opcodes_are_in_webgpu_namespace :: test where
  [test_defs]: "protocol_test_wgpu_opcodes_are_in_webgpu_namespace = do {
     assert_eq (opcode_api wgpu_op_REQUEST_DEVICE) (api_id_u8 WebGpu);
     assert_eq (opcode_api wgpu_op_CREATE_BUFFER) (api_id_u8 WebGpu);
     assert_eq (opcode_api wgpu_op_DESTROY_BUFFER) (api_id_u8 WebGpu);
     assert_eq (opcode_call wgpu_op_REQUEST_DEVICE) 0x0001;
     assert_eq (opcode_call wgpu_op_CREATE_BUFFER) 0x0002;
     assert_eq (opcode_call wgpu_op_DESTROY_BUFFER) 0x0003;
     assert_ne wgpu_op_REQUEST_DEVICE wgpu_op_CREATE_BUFFER;
     assert_ne wgpu_op_CREATE_BUFFER wgpu_op_DESTROY_BUFFER
   }"

definition protocol_test_wgpu_request_device_response_roundtrip :: test where
  [test_defs]: "protocol_test_wgpu_request_device_response_roundtrip = do {
     let resp = \<lparr>wgpu_RequestDeviceResponse_device = handle_new 17 5 42\<rparr>;
     let b = [];
     let b = wgpu_RequestDeviceResponse_encode resp b;
     assert_eq (length b) 8;
     x \<leftarrow> ok (wgpu_RequestDeviceResponse_decode b);
     assert_eq x resp
   }"

definition protocol_test_wgpu_create_buffer_roundtrip :: test where
  [test_defs]: "protocol_test_wgpu_create_buffer_roundtrip = do {
     let req = \<lparr>wgpu_CreateBufferRequest_device = handle_new 17 1 9,
       wgpu_CreateBufferRequest_size = (- 1 :: u64),
       wgpu_CreateBufferRequest_usage = 0xDEADBEEF\<rparr>;
     let b = [];
     let b = wgpu_CreateBufferRequest_encode req b;
     assert_eq (length b) 20;
     x \<leftarrow> ok (wgpu_CreateBufferRequest_decode b);
     assert_eq x req;
     let resp = \<lparr>wgpu_CreateBufferResponse_buffer = handle_new 18 GENERATION_MAX
       (- 1 :: u32)\<rparr>;
     let b = [];
     let b = wgpu_CreateBufferResponse_encode resp b;
     assert_eq (length b) 8;
     x \<leftarrow> ok (wgpu_CreateBufferResponse_decode b);
     assert_eq x resp
   }"

definition protocol_test_wgpu_destroy_buffer_roundtrip :: test where
  [test_defs]: "protocol_test_wgpu_destroy_buffer_roundtrip = do {
     let req = \<lparr>wgpu_DestroyBufferRequest_buffer = handle_new 18 3 11\<rparr>;
     let b = [];
     let b = wgpu_DestroyBufferRequest_encode req b;
     assert_eq (length b) 8;
     x \<leftarrow> ok (wgpu_DestroyBufferRequest_decode b);
     assert_eq x req
   }"

definition protocol_test_wgpu_bodies_reject_short_buffers :: test where
  [test_defs]: "protocol_test_wgpu_bodies_reject_short_buffers = do {
     assert_eq (wgpu_RequestDeviceResponse_decode (replicate 7 (0 :: u8))) (Inl UnexpectedEof);
     assert_eq (wgpu_CreateBufferRequest_decode (replicate 19 (0 :: u8))) (Inl UnexpectedEof);
     assert_eq (wgpu_CreateBufferResponse_decode (replicate 7 (0 :: u8))) (Inl UnexpectedEof);
     assert_eq (wgpu_DestroyBufferRequest_decode (replicate 7 (0 :: u8))) (Inl UnexpectedEof)
   }"

definition protocol_test_optix_api_id_value :: test where
  [test_defs]: "protocol_test_optix_api_id_value = do {
     assert_eq (api_id_u8 OptiX) 0x09
   }"

definition protocol_test_optix_opcodes_are_in_optix_namespace :: test where
  [test_defs]: "protocol_test_optix_opcodes_are_in_optix_namespace = do {
     assert_eq (opcode_api optix_op_CONTEXT_CREATE) (api_id_u8 OptiX);
     assert_eq (opcode_api optix_op_PIPELINE_CREATE) (api_id_u8 OptiX);
     assert_eq (opcode_api optix_op_DESTROY) (api_id_u8 OptiX);
     assert_eq (opcode_api optix_op_CONTEXT_CREATE) 0x09;
     assert_eq (opcode_call optix_op_CONTEXT_CREATE) 0x0001;
     assert_eq (opcode_call optix_op_PIPELINE_CREATE) 0x0002;
     assert_eq (opcode_call optix_op_DESTROY) 0x0003;
     assert_ne optix_op_CONTEXT_CREATE optix_op_PIPELINE_CREATE;
     assert_ne optix_op_PIPELINE_CREATE optix_op_DESTROY
   }"

definition protocol_test_optix_context_create_response_roundtrip :: test where
  [test_defs]: "protocol_test_optix_context_create_response_roundtrip = do {
     let resp = \<lparr>optix_ContextCreateResponse_context = handle_new 19 5 42\<rparr>;
     let b = [];
     let b = optix_ContextCreateResponse_encode resp b;
     assert_eq (length b) 8;
     x \<leftarrow> ok (optix_ContextCreateResponse_decode b);
     assert_eq x resp
   }"

definition protocol_test_optix_pipeline_create_roundtrip :: test where
  [test_defs]: "protocol_test_optix_pipeline_create_roundtrip = do {
     let req = \<lparr>optix_PipelineCreateRequest_context = handle_new 19 2 4\<rparr>;
     let b = [];
     let b = optix_PipelineCreateRequest_encode req b;
     assert_eq (length b) 8;
     x \<leftarrow> ok (optix_PipelineCreateRequest_decode b);
     assert_eq x req;
     let resp = \<lparr>optix_PipelineCreateResponse_pipeline = handle_new 20 GENERATION_MAX
       (- 1 :: u32)\<rparr>;
     let b = [];
     let b = optix_PipelineCreateResponse_encode resp b;
     assert_eq (length b) 8;
     x \<leftarrow> ok (optix_PipelineCreateResponse_decode b);
     assert_eq x resp
   }"

definition protocol_test_optix_destroy_roundtrip :: test where
  [test_defs]: "protocol_test_optix_destroy_roundtrip = do {
     let req = \<lparr>optix_DestroyRequest_handle = handle_new 19 3 11\<rparr>;
     let b = [];
     let b = optix_DestroyRequest_encode req b;
     assert_eq (length b) 8;
     x \<leftarrow> ok (optix_DestroyRequest_decode b);
     assert_eq x req
   }"

definition protocol_test_optix_bodies_reject_short_buffers :: test where
  [test_defs]: "protocol_test_optix_bodies_reject_short_buffers = do {
     assert_eq (optix_ContextCreateResponse_decode (replicate 7 (0 :: u8))) (Inl UnexpectedEof);
     assert_eq (optix_PipelineCreateRequest_decode (replicate 7 (0 :: u8))) (Inl UnexpectedEof);
     assert_eq (optix_PipelineCreateResponse_decode (replicate 7 (0 :: u8))) (Inl UnexpectedEof);
     assert_eq (optix_DestroyRequest_decode (replicate 7 (0 :: u8))) (Inl UnexpectedEof)
   }"

definition protocol_test_sycl_api_id_value :: test where
  [test_defs]: "protocol_test_sycl_api_id_value = do {
     assert_eq (api_id_u8 Sycl) 0x0A
   }"

definition protocol_test_sycl_opcodes_are_in_sycl_namespace :: test where
  [test_defs]: "protocol_test_sycl_opcodes_are_in_sycl_namespace = do {
     assert_eq (opcode_api sycl_op_QUEUE_CREATE) (api_id_u8 Sycl);
     assert_eq (opcode_api sycl_op_MALLOC_DEVICE) (api_id_u8 Sycl);
     assert_eq (opcode_api sycl_op_FREE) (api_id_u8 Sycl);
     assert_eq (opcode_api sycl_op_QUEUE_CREATE) 0x0A;
     assert_eq (opcode_call sycl_op_QUEUE_CREATE) 0x0001;
     assert_eq (opcode_call sycl_op_MALLOC_DEVICE) 0x0002;
     assert_eq (opcode_call sycl_op_FREE) 0x0003;
     assert_ne sycl_op_QUEUE_CREATE sycl_op_MALLOC_DEVICE;
     assert_ne sycl_op_MALLOC_DEVICE sycl_op_FREE
   }"

definition protocol_test_sycl_queue_create_response_roundtrip :: test where
  [test_defs]: "protocol_test_sycl_queue_create_response_roundtrip = do {
     let resp = \<lparr>sycl_QueueCreateResponse_queue = handle_new 21 5 42\<rparr>;
     let b = [];
     let b = sycl_QueueCreateResponse_encode resp b;
     assert_eq (length b) 8;
     x \<leftarrow> ok (sycl_QueueCreateResponse_decode b);
     assert_eq x resp
   }"

definition protocol_test_sycl_malloc_device_roundtrip :: test where
  [test_defs]: "protocol_test_sycl_malloc_device_roundtrip = do {
     let req = \<lparr>sycl_MallocDeviceRequest_queue = handle_new 21 2 4,
       sycl_MallocDeviceRequest_size = 0x123456789ABCDEF0\<rparr>;
     let b = [];
     let b = sycl_MallocDeviceRequest_encode req b;
     assert_eq (length b) 16;
     x \<leftarrow> ok (sycl_MallocDeviceRequest_decode b);
     assert_eq x req;
     let resp = \<lparr>sycl_MallocDeviceResponse_ptr = handle_new 22 GENERATION_MAX
       (- 1 :: u32)\<rparr>;
     let b = [];
     let b = sycl_MallocDeviceResponse_encode resp b;
     assert_eq (length b) 8;
     x \<leftarrow> ok (sycl_MallocDeviceResponse_decode b);
     assert_eq x resp
   }"

definition protocol_test_sycl_free_roundtrip :: test where
  [test_defs]: "protocol_test_sycl_free_roundtrip = do {
     let req = \<lparr>sycl_FreeRequest_ptr = handle_new 22 3 11\<rparr>;
     let b = [];
     let b = sycl_FreeRequest_encode req b;
     assert_eq (length b) 8;
     x \<leftarrow> ok (sycl_FreeRequest_decode b);
     assert_eq x req
   }"

definition protocol_test_sycl_bodies_reject_short_buffers :: test where
  [test_defs]: "protocol_test_sycl_bodies_reject_short_buffers = do {
     assert_eq (sycl_QueueCreateResponse_decode (replicate 7 (0 :: u8))) (Inl UnexpectedEof);
     assert_eq (sycl_MallocDeviceRequest_decode (replicate 15 (0 :: u8))) (Inl UnexpectedEof);
     assert_eq (sycl_MallocDeviceResponse_decode (replicate 7 (0 :: u8))) (Inl UnexpectedEof);
     assert_eq (sycl_FreeRequest_decode (replicate 7 (0 :: u8))) (Inl UnexpectedEof)
   }"

definition protocol_test_amf_api_id_value :: test where
  [test_defs]: "protocol_test_amf_api_id_value = do {
     assert_eq (api_id_u8 Amf) 0x0B
   }"

definition protocol_test_amf_opcodes_are_in_amf_namespace :: test where
  [test_defs]: "protocol_test_amf_opcodes_are_in_amf_namespace = do {
     assert_eq (opcode_api amf_op_CREATE_ENCODER) (api_id_u8 Amf);
     assert_eq (opcode_api amf_op_ENCODE_FRAME) (api_id_u8 Amf);
     assert_eq (opcode_api amf_op_DESTROY_ENCODER) (api_id_u8 Amf);
     assert_eq (opcode_api amf_op_CREATE_ENCODER) 0x0B;
     assert_eq (opcode_call amf_op_CREATE_ENCODER) 0x0001;
     assert_eq (opcode_call amf_op_ENCODE_FRAME) 0x0002;
     assert_eq (opcode_call amf_op_DESTROY_ENCODER) 0x0003;
     assert_ne amf_op_CREATE_ENCODER amf_op_ENCODE_FRAME;
     assert_ne amf_op_ENCODE_FRAME amf_op_DESTROY_ENCODER
   }"

definition protocol_test_amf_create_encoder_roundtrip :: test where
  [test_defs]: "protocol_test_amf_create_encoder_roundtrip = do {
     let req = \<lparr>amf_CreateEncoderRequest_codec = 0xDEADBEEF,
       amf_CreateEncoderRequest_width = 1920, amf_CreateEncoderRequest_height = 1080\<rparr>;
     let b = [];
     let b = amf_CreateEncoderRequest_encode req b;
     assert_eq (length b) 12;
     x \<leftarrow> ok (amf_CreateEncoderRequest_decode b);
     assert_eq x req;
     let resp = \<lparr>amf_CreateEncoderResponse_encoder = handle_new 23 5 42\<rparr>;
     let b = [];
     let b = amf_CreateEncoderResponse_encode resp b;
     assert_eq (length b) 8;
     x \<leftarrow> ok (amf_CreateEncoderResponse_decode b);
     assert_eq x resp
   }"

definition protocol_test_amf_encode_frame_roundtrip :: test where
  [test_defs]: "protocol_test_amf_encode_frame_roundtrip = do {
     let req = \<lparr>amf_EncodeFrameRequest_encoder = handle_new 23 2 4,
       amf_EncodeFrameRequest_frame_len = (- 1 :: u32)\<rparr>;
     let b = [];
     let b = amf_EncodeFrameRequest_encode req b;
     assert_eq (length b) 12;
     x \<leftarrow> ok (amf_EncodeFrameRequest_decode b);
     assert_eq x req;
     let resp = \<lparr>amf_EncodeFrameResponse_packet_len = 0x12345678\<rparr>;
     let b = [];
     let b = amf_EncodeFrameResponse_encode resp b;
     assert_eq (length b) 4;
     x \<leftarrow> ok (amf_EncodeFrameResponse_decode b);
     assert_eq x resp
   }"

definition protocol_test_amf_destroy_encoder_roundtrip :: test where
  [test_defs]: "protocol_test_amf_destroy_encoder_roundtrip = do {
     let req = \<lparr>amf_DestroyEncoderRequest_encoder = handle_new 23 3 11\<rparr>;
     let b = [];
     let b = amf_DestroyEncoderRequest_encode req b;
     assert_eq (length b) 8;
     x \<leftarrow> ok (amf_DestroyEncoderRequest_decode b);
     assert_eq x req
   }"

definition protocol_test_amf_bodies_reject_short_buffers :: test where
  [test_defs]: "protocol_test_amf_bodies_reject_short_buffers = do {
     assert_eq (amf_CreateEncoderRequest_decode (replicate 11 (0 :: u8))) (Inl UnexpectedEof);
     assert_eq (amf_CreateEncoderResponse_decode (replicate 7 (0 :: u8))) (Inl UnexpectedEof);
     assert_eq (amf_EncodeFrameRequest_decode (replicate 11 (0 :: u8))) (Inl UnexpectedEof);
     assert_eq (amf_EncodeFrameResponse_decode (replicate 3 (0 :: u8))) (Inl UnexpectedEof);
     assert_eq (amf_DestroyEncoderRequest_decode (replicate 7 (0 :: u8))) (Inl UnexpectedEof)
   }"

lemma protocol_test_opcode_pack_unpack_passes: "protocol_test_opcode_pack_unpack = Some ()"
  by (simp add: test_defs test_simps wire_eval cong: test_congs)

lemma protocol_test_core_opcodes_are_in_core_namespace_passes: "protocol_test_core_opcodes_are_in_core_namespace = Some ()"
  by (simp add: test_defs test_simps wire_eval cong: test_congs)

lemma protocol_test_vk_opcodes_are_in_vulkan_namespace_passes: "protocol_test_vk_opcodes_are_in_vulkan_namespace = Some ()"
  by (simp add: test_defs test_simps wire_eval cong: test_congs)

lemma protocol_test_gl_opcodes_are_in_opengl_namespace_passes: "protocol_test_gl_opcodes_are_in_opengl_namespace = Some ()"
  by (simp add: test_defs test_simps wire_eval cong: test_congs)

lemma protocol_test_frame_header_roundtrip_passes: "protocol_test_frame_header_roundtrip = Some ()"
  by (simp add: test_defs test_simps wire_eval cong: test_congs)

lemma protocol_test_hello_welcome_roundtrip_passes: "protocol_test_hello_welcome_roundtrip = Some ()"
  by (simp add: test_defs test_simps wire_eval cong: test_congs)

lemma protocol_test_decode_frame_rejects_short_buffer_passes: "protocol_test_decode_frame_rejects_short_buffer = Some ()"
  by (simp add: test_defs test_simps wire_eval cong: test_congs)

lemma protocol_test_handle_roundtrip_passes: "protocol_test_handle_roundtrip = Some ()"
  by (simp add: test_defs test_simps wire_eval cong: test_congs)

lemma protocol_test_handle_generation_masked_to_24_bits_passes: "protocol_test_handle_generation_masked_to_24_bits = Some ()"
  by (simp add: test_defs test_simps wire_eval cong: test_congs)

lemma protocol_test_handle_field_constants_passes: "protocol_test_handle_field_constants = Some ()"
  by (simp add: test_defs test_simps wire_eval cong: test_congs)

lemma protocol_test_vk_create_instance_roundtrip_passes: "protocol_test_vk_create_instance_roundtrip = Some ()"
  by (simp add: test_defs test_simps wire_eval cong: test_congs)

lemma protocol_test_vk_enumerate_physical_devices_request_roundtrip_passes: "protocol_test_vk_enumerate_physical_devices_request_roundtrip = Some ()"
  by (simp add: test_defs test_simps wire_eval cong: test_congs)

lemma protocol_test_vk_enumerate_physical_devices_response_empty_passes: "protocol_test_vk_enumerate_physical_devices_response_empty = Some ()"
  by (simp add: test_defs test_simps wire_eval cong: test_congs)

lemma protocol_test_vk_enumerate_physical_devices_response_three_passes: "protocol_test_vk_enumerate_physical_devices_response_three = Some ()"
  by (simp add: test_defs test_simps wire_eval cong: test_congs)

lemma protocol_test_vk_bodies_reject_short_buffers_passes: "protocol_test_vk_bodies_reject_short_buffers = Some ()"
  by (simp add: test_defs test_simps wire_eval cong: test_congs)

lemma protocol_test_vk_create_device_roundtrip_passes: "protocol_test_vk_create_device_roundtrip = Some ()"
  by (simp add: test_defs test_simps wire_eval cong: test_congs)

lemma protocol_test_vk_get_device_queue_roundtrip_passes: "protocol_test_vk_get_device_queue_roundtrip = Some ()"
  by (simp add: test_defs test_simps wire_eval cong: test_congs)

lemma protocol_test_vk_device_queue_bodies_reject_short_buffers_passes: "protocol_test_vk_device_queue_bodies_reject_short_buffers = Some ()"
  by (simp add: test_defs test_simps wire_eval cong: test_congs)

lemma protocol_test_gl_create_context_response_roundtrip_passes: "protocol_test_gl_create_context_response_roundtrip = Some ()"
  by (simp add: test_defs test_simps wire_eval cong: test_congs)

lemma protocol_test_gl_make_current_request_roundtrip_passes: "protocol_test_gl_make_current_request_roundtrip = Some ()"
  by (simp add: test_defs test_simps wire_eval cong: test_congs)

lemma protocol_test_gl_gen_buffer_roundtrip_passes: "protocol_test_gl_gen_buffer_roundtrip = Some ()"
  by (simp add: test_defs test_simps wire_eval cong: test_congs)

lemma protocol_test_gl_swap_buffers_request_roundtrip_passes: "protocol_test_gl_swap_buffers_request_roundtrip = Some ()"
  by (simp add: test_defs test_simps wire_eval cong: test_congs)

lemma protocol_test_gl_delete_buffer_request_roundtrip_passes: "protocol_test_gl_delete_buffer_request_roundtrip = Some ()"
  by (simp add: test_defs test_simps wire_eval cong: test_congs)

lemma protocol_test_gl_bodies_reject_short_buffers_passes: "protocol_test_gl_bodies_reject_short_buffers = Some ()"
  by (simp add: test_defs test_simps wire_eval cong: test_congs)

lemma protocol_test_vk_opcodes_memory_buffer_in_vulkan_namespace_passes: "protocol_test_vk_opcodes_memory_buffer_in_vulkan_namespace = Some ()"
  by (simp add: test_defs test_simps wire_eval cong: test_congs)

lemma protocol_test_vk_allocate_memory_roundtrip_passes: "protocol_test_vk_allocate_memory_roundtrip = Some ()"
  by (simp add: test_defs test_simps wire_eval cong: test_congs)

lemma protocol_test_vk_create_buffer_roundtrip_passes: "protocol_test_vk_create_buffer_roundtrip = Some ()"
  by (simp add: test_defs test_simps wire_eval cong: test_congs)

lemma protocol_test_vk_bind_buffer_memory_roundtrip_passes: "protocol_test_vk_bind_buffer_memory_roundtrip = Some ()"
  by (simp add: test_defs test_simps wire_eval cong: test_congs)

lemma protocol_test_vk_memory_buffer_bodies_reject_short_buffers_passes: "protocol_test_vk_memory_buffer_bodies_reject_short_buffers = Some ()"
  by (simp add: test_defs test_simps wire_eval cong: test_congs)

lemma protocol_test_vk_opcodes_command_buffer_in_vulkan_namespace_passes: "protocol_test_vk_opcodes_command_buffer_in_vulkan_namespace = Some ()"
  by (simp add: test_defs test_simps wire_eval cong: test_congs)

lemma protocol_test_vk_create_command_pool_roundtrip_passes: "protocol_test_vk_create_command_pool_roundtrip = Some ()"
  by (simp add: test_defs test_simps wire_eval cong: test_congs)

lemma protocol_test_vk_allocate_command_buffer_roundtrip_passes: "protocol_test_vk_allocate_command_buffer_roundtrip = Some ()"
  by (simp add: test_defs test_simps wire_eval cong: test_congs)

lemma protocol_test_vk_queue_submit_roundtrip_passes: "protocol_test_vk_queue_submit_roundtrip = Some ()"
  by (simp add: test_defs test_simps wire_eval cong: test_congs)

lemma protocol_test_vk_command_buffer_bodies_reject_short_buffers_passes: "protocol_test_vk_command_buffer_bodies_reject_short_buffers = Some ()"
  by (simp add: test_defs test_simps wire_eval cong: test_congs)

lemma protocol_test_vk_opcodes_draw_copy_in_vulkan_namespace_passes: "protocol_test_vk_opcodes_draw_copy_in_vulkan_namespace = Some ()"
  by (simp add: test_defs test_simps wire_eval cong: test_congs)

lemma protocol_test_vk_cmd_copy_buffer_roundtrip_passes: "protocol_test_vk_cmd_copy_buffer_roundtrip = Some ()"
  by (simp add: test_defs test_simps wire_eval cong: test_congs)

lemma protocol_test_vk_cmd_draw_roundtrip_passes: "protocol_test_vk_cmd_draw_roundtrip = Some ()"
  by (simp add: test_defs test_simps wire_eval cong: test_congs)

lemma protocol_test_vk_draw_copy_bodies_reject_short_buffers_passes: "protocol_test_vk_draw_copy_bodies_reject_short_buffers = Some ()"
  by (simp add: test_defs test_simps wire_eval cong: test_congs)

lemma protocol_test_vk_opcodes_destroy_free_in_vulkan_namespace_passes: "protocol_test_vk_opcodes_destroy_free_in_vulkan_namespace = Some ()"
  by (simp add: test_defs test_simps wire_eval cong: test_congs)

lemma protocol_test_vk_destroy_buffer_roundtrip_passes: "protocol_test_vk_destroy_buffer_roundtrip = Some ()"
  by (simp add: test_defs test_simps wire_eval cong: test_congs)

lemma protocol_test_vk_free_memory_roundtrip_passes: "protocol_test_vk_free_memory_roundtrip = Some ()"
  by (simp add: test_defs test_simps wire_eval cong: test_congs)

lemma protocol_test_vk_destroy_command_pool_roundtrip_passes: "protocol_test_vk_destroy_command_pool_roundtrip = Some ()"
  by (simp add: test_defs test_simps wire_eval cong: test_congs)

lemma protocol_test_vk_destroy_free_bodies_reject_short_buffers_passes: "protocol_test_vk_destroy_free_bodies_reject_short_buffers = Some ()"
  by (simp add: test_defs test_simps wire_eval cong: test_congs)

lemma protocol_test_cuda_opcodes_are_in_cuda_namespace_passes: "protocol_test_cuda_opcodes_are_in_cuda_namespace = Some ()"
  by (simp add: test_defs test_simps wire_eval cong: test_congs)

lemma protocol_test_cuda_ctx_create_roundtrip_passes: "protocol_test_cuda_ctx_create_roundtrip = Some ()"
  by (simp add: test_defs test_simps wire_eval cong: test_congs)

lemma protocol_test_cuda_mem_alloc_roundtrip_passes: "protocol_test_cuda_mem_alloc_roundtrip = Some ()"
  by (simp add: test_defs test_simps wire_eval cong: test_congs)

lemma protocol_test_cuda_mem_free_roundtrip_passes: "protocol_test_cuda_mem_free_roundtrip = Some ()"
  by (simp add: test_defs test_simps wire_eval cong: test_congs)

lemma protocol_test_cuda_launch_kernel_roundtrip_passes: "protocol_test_cuda_launch_kernel_roundtrip = Some ()"
  by (simp add: test_defs test_simps wire_eval cong: test_congs)

lemma protocol_test_cuda_memcpy_htod_roundtrip_passes: "protocol_test_cuda_memcpy_htod_roundtrip = Some ()"
  by (simp add: test_defs test_simps wire_eval cong: test_congs)

lemma protocol_test_cuda_memcpy_dtoh_roundtrip_passes: "protocol_test_cuda_memcpy_dtoh_roundtrip = Some ()"
  by (simp add: test_defs test_simps wire_eval cong: test_congs)

lemma protocol_test_cuda_bodies_reject_short_buffers_passes: "protocol_test_cuda_bodies_reject_short_buffers = Some ()"
  by (simp add: test_defs test_simps wire_eval cong: test_congs)

lemma protocol_test_hip_opcodes_are_in_hip_namespace_passes: "protocol_test_hip_opcodes_are_in_hip_namespace = Some ()"
  by (simp add: test_defs test_simps wire_eval cong: test_congs)

lemma protocol_test_hip_malloc_roundtrip_passes: "protocol_test_hip_malloc_roundtrip = Some ()"
  by (simp add: test_defs test_simps wire_eval cong: test_congs)

lemma protocol_test_hip_free_roundtrip_passes: "protocol_test_hip_free_roundtrip = Some ()"
  by (simp add: test_defs test_simps wire_eval cong: test_congs)

lemma protocol_test_hip_stream_create_roundtrip_passes: "protocol_test_hip_stream_create_roundtrip = Some ()"
  by (simp add: test_defs test_simps wire_eval cong: test_congs)

lemma protocol_test_hip_bodies_reject_short_buffers_passes: "protocol_test_hip_bodies_reject_short_buffers = Some ()"
  by (simp add: test_defs test_simps wire_eval cong: test_congs)

lemma protocol_test_cl_opcodes_are_in_opencl_namespace_passes: "protocol_test_cl_opcodes_are_in_opencl_namespace = Some ()"
  by (simp add: test_defs test_simps wire_eval cong: test_congs)

lemma protocol_test_cl_create_context_response_roundtrip_passes: "protocol_test_cl_create_context_response_roundtrip = Some ()"
  by (simp add: test_defs test_simps wire_eval cong: test_congs)

lemma protocol_test_cl_create_buffer_roundtrip_passes: "protocol_test_cl_create_buffer_roundtrip = Some ()"
  by (simp add: test_defs test_simps wire_eval cong: test_congs)

lemma protocol_test_cl_release_buffer_roundtrip_passes: "protocol_test_cl_release_buffer_roundtrip = Some ()"
  by (simp add: test_defs test_simps wire_eval cong: test_congs)

lemma protocol_test_cl_bodies_reject_short_buffers_passes: "protocol_test_cl_bodies_reject_short_buffers = Some ()"
  by (simp add: test_defs test_simps wire_eval cong: test_congs)

lemma protocol_test_l0_opcodes_are_in_level_zero_namespace_passes: "protocol_test_l0_opcodes_are_in_level_zero_namespace = Some ()"
  by (simp add: test_defs test_simps wire_eval cong: test_congs)

lemma protocol_test_l0_context_create_response_roundtrip_passes: "protocol_test_l0_context_create_response_roundtrip = Some ()"
  by (simp add: test_defs test_simps wire_eval cong: test_congs)

lemma protocol_test_l0_mem_alloc_device_roundtrip_passes: "protocol_test_l0_mem_alloc_device_roundtrip = Some ()"
  by (simp add: test_defs test_simps wire_eval cong: test_congs)

lemma protocol_test_l0_mem_free_roundtrip_passes: "protocol_test_l0_mem_free_roundtrip = Some ()"
  by (simp add: test_defs test_simps wire_eval cong: test_congs)

lemma protocol_test_l0_bodies_reject_short_buffers_passes: "protocol_test_l0_bodies_reject_short_buffers = Some ()"
  by (simp add: test_defs test_simps wire_eval cong: test_congs)

lemma protocol_test_full_frame_roundtrip_passes: "protocol_test_full_frame_roundtrip = Some ()"
  by (simp add: test_defs test_simps wire_eval cong: test_congs)

lemma protocol_test_video_opcodes_are_in_video_namespace_passes: "protocol_test_video_opcodes_are_in_video_namespace = Some ()"
  by (simp add: test_defs test_simps wire_eval cong: test_congs)

lemma protocol_test_video_create_decode_session_roundtrip_passes: "protocol_test_video_create_decode_session_roundtrip = Some ()"
  by (simp add: test_defs test_simps wire_eval cong: test_congs)

lemma protocol_test_video_decode_frame_roundtrip_passes: "protocol_test_video_decode_frame_roundtrip = Some ()"
  by (simp add: test_defs test_simps wire_eval cong: test_congs)

lemma protocol_test_video_destroy_session_roundtrip_passes: "protocol_test_video_destroy_session_roundtrip = Some ()"
  by (simp add: test_defs test_simps wire_eval cong: test_congs)

lemma protocol_test_video_bodies_reject_short_buffers_passes: "protocol_test_video_bodies_reject_short_buffers = Some ()"
  by (simp add: test_defs test_simps wire_eval cong: test_congs)

lemma protocol_test_webgpu_api_id_value_passes: "protocol_test_webgpu_api_id_value = Some ()"
  by (simp add: test_defs test_simps wire_eval cong: test_congs)

lemma protocol_test_wgpu_opcodes_are_in_webgpu_namespace_passes: "protocol_test_wgpu_opcodes_are_in_webgpu_namespace = Some ()"
  by (simp add: test_defs test_simps wire_eval cong: test_congs)

lemma protocol_test_wgpu_request_device_response_roundtrip_passes: "protocol_test_wgpu_request_device_response_roundtrip = Some ()"
  by (simp add: test_defs test_simps wire_eval cong: test_congs)

lemma protocol_test_wgpu_create_buffer_roundtrip_passes: "protocol_test_wgpu_create_buffer_roundtrip = Some ()"
  by (simp add: test_defs test_simps wire_eval cong: test_congs)

lemma protocol_test_wgpu_destroy_buffer_roundtrip_passes: "protocol_test_wgpu_destroy_buffer_roundtrip = Some ()"
  by (simp add: test_defs test_simps wire_eval cong: test_congs)

lemma protocol_test_wgpu_bodies_reject_short_buffers_passes: "protocol_test_wgpu_bodies_reject_short_buffers = Some ()"
  by (simp add: test_defs test_simps wire_eval cong: test_congs)

lemma protocol_test_optix_api_id_value_passes: "protocol_test_optix_api_id_value = Some ()"
  by (simp add: test_defs test_simps wire_eval cong: test_congs)

lemma protocol_test_optix_opcodes_are_in_optix_namespace_passes: "protocol_test_optix_opcodes_are_in_optix_namespace = Some ()"
  by (simp add: test_defs test_simps wire_eval cong: test_congs)

lemma protocol_test_optix_context_create_response_roundtrip_passes: "protocol_test_optix_context_create_response_roundtrip = Some ()"
  by (simp add: test_defs test_simps wire_eval cong: test_congs)

lemma protocol_test_optix_pipeline_create_roundtrip_passes: "protocol_test_optix_pipeline_create_roundtrip = Some ()"
  by (simp add: test_defs test_simps wire_eval cong: test_congs)

lemma protocol_test_optix_destroy_roundtrip_passes: "protocol_test_optix_destroy_roundtrip = Some ()"
  by (simp add: test_defs test_simps wire_eval cong: test_congs)

lemma protocol_test_optix_bodies_reject_short_buffers_passes: "protocol_test_optix_bodies_reject_short_buffers = Some ()"
  by (simp add: test_defs test_simps wire_eval cong: test_congs)

lemma protocol_test_sycl_api_id_value_passes: "protocol_test_sycl_api_id_value = Some ()"
  by (simp add: test_defs test_simps wire_eval cong: test_congs)

lemma protocol_test_sycl_opcodes_are_in_sycl_namespace_passes: "protocol_test_sycl_opcodes_are_in_sycl_namespace = Some ()"
  by (simp add: test_defs test_simps wire_eval cong: test_congs)

lemma protocol_test_sycl_queue_create_response_roundtrip_passes: "protocol_test_sycl_queue_create_response_roundtrip = Some ()"
  by (simp add: test_defs test_simps wire_eval cong: test_congs)

lemma protocol_test_sycl_malloc_device_roundtrip_passes: "protocol_test_sycl_malloc_device_roundtrip = Some ()"
  by (simp add: test_defs test_simps wire_eval cong: test_congs)

lemma protocol_test_sycl_free_roundtrip_passes: "protocol_test_sycl_free_roundtrip = Some ()"
  by (simp add: test_defs test_simps wire_eval cong: test_congs)

lemma protocol_test_sycl_bodies_reject_short_buffers_passes: "protocol_test_sycl_bodies_reject_short_buffers = Some ()"
  by (simp add: test_defs test_simps wire_eval cong: test_congs)

lemma protocol_test_amf_api_id_value_passes: "protocol_test_amf_api_id_value = Some ()"
  by (simp add: test_defs test_simps wire_eval cong: test_congs)

lemma protocol_test_amf_opcodes_are_in_amf_namespace_passes: "protocol_test_amf_opcodes_are_in_amf_namespace = Some ()"
  by (simp add: test_defs test_simps wire_eval cong: test_congs)

lemma protocol_test_amf_create_encoder_roundtrip_passes: "protocol_test_amf_create_encoder_roundtrip = Some ()"
  by (simp add: test_defs test_simps wire_eval cong: test_congs)

lemma protocol_test_amf_encode_frame_roundtrip_passes: "protocol_test_amf_encode_frame_roundtrip = Some ()"
  by (simp add: test_defs test_simps wire_eval cong: test_congs)

lemma protocol_test_amf_destroy_encoder_roundtrip_passes: "protocol_test_amf_destroy_encoder_roundtrip = Some ()"
  by (simp add: test_defs test_simps wire_eval cong: test_congs)

lemma protocol_test_amf_bodies_reject_short_buffers_passes: "protocol_test_amf_bodies_reject_short_buffers = Some ()"
  by (simp add: test_defs test_simps wire_eval cong: test_congs)

definition protocol_unit_tests :: "test list" where
  "protocol_unit_tests = [
    protocol_test_opcode_pack_unpack, protocol_test_core_opcodes_are_in_core_namespace,
    protocol_test_vk_opcodes_are_in_vulkan_namespace,
    protocol_test_gl_opcodes_are_in_opengl_namespace, protocol_test_frame_header_roundtrip,
    protocol_test_hello_welcome_roundtrip, protocol_test_decode_frame_rejects_short_buffer,
    protocol_test_handle_roundtrip, protocol_test_handle_generation_masked_to_24_bits,
    protocol_test_handle_field_constants, protocol_test_vk_create_instance_roundtrip,
    protocol_test_vk_enumerate_physical_devices_request_roundtrip,
    protocol_test_vk_enumerate_physical_devices_response_empty,
    protocol_test_vk_enumerate_physical_devices_response_three,
    protocol_test_vk_bodies_reject_short_buffers, protocol_test_vk_create_device_roundtrip,
    protocol_test_vk_get_device_queue_roundtrip,
    protocol_test_vk_device_queue_bodies_reject_short_buffers,
    protocol_test_gl_create_context_response_roundtrip,
    protocol_test_gl_make_current_request_roundtrip, protocol_test_gl_gen_buffer_roundtrip,
    protocol_test_gl_swap_buffers_request_roundtrip,
    protocol_test_gl_delete_buffer_request_roundtrip, protocol_test_gl_bodies_reject_short_buffers,
    protocol_test_vk_opcodes_memory_buffer_in_vulkan_namespace,
    protocol_test_vk_allocate_memory_roundtrip, protocol_test_vk_create_buffer_roundtrip,
    protocol_test_vk_bind_buffer_memory_roundtrip,
    protocol_test_vk_memory_buffer_bodies_reject_short_buffers,
    protocol_test_vk_opcodes_command_buffer_in_vulkan_namespace,
    protocol_test_vk_create_command_pool_roundtrip,
    protocol_test_vk_allocate_command_buffer_roundtrip, protocol_test_vk_queue_submit_roundtrip,
    protocol_test_vk_command_buffer_bodies_reject_short_buffers,
    protocol_test_vk_opcodes_draw_copy_in_vulkan_namespace,
    protocol_test_vk_cmd_copy_buffer_roundtrip, protocol_test_vk_cmd_draw_roundtrip,
    protocol_test_vk_draw_copy_bodies_reject_short_buffers,
    protocol_test_vk_opcodes_destroy_free_in_vulkan_namespace,
    protocol_test_vk_destroy_buffer_roundtrip, protocol_test_vk_free_memory_roundtrip,
    protocol_test_vk_destroy_command_pool_roundtrip,
    protocol_test_vk_destroy_free_bodies_reject_short_buffers,
    protocol_test_cuda_opcodes_are_in_cuda_namespace, protocol_test_cuda_ctx_create_roundtrip,
    protocol_test_cuda_mem_alloc_roundtrip, protocol_test_cuda_mem_free_roundtrip,
    protocol_test_cuda_launch_kernel_roundtrip, protocol_test_cuda_memcpy_htod_roundtrip,
    protocol_test_cuda_memcpy_dtoh_roundtrip, protocol_test_cuda_bodies_reject_short_buffers,
    protocol_test_hip_opcodes_are_in_hip_namespace, protocol_test_hip_malloc_roundtrip,
    protocol_test_hip_free_roundtrip, protocol_test_hip_stream_create_roundtrip,
    protocol_test_hip_bodies_reject_short_buffers, protocol_test_cl_opcodes_are_in_opencl_namespace,
    protocol_test_cl_create_context_response_roundtrip, protocol_test_cl_create_buffer_roundtrip,
    protocol_test_cl_release_buffer_roundtrip, protocol_test_cl_bodies_reject_short_buffers,
    protocol_test_l0_opcodes_are_in_level_zero_namespace,
    protocol_test_l0_context_create_response_roundtrip, protocol_test_l0_mem_alloc_device_roundtrip,
    protocol_test_l0_mem_free_roundtrip, protocol_test_l0_bodies_reject_short_buffers,
    protocol_test_full_frame_roundtrip, protocol_test_video_opcodes_are_in_video_namespace,
    protocol_test_video_create_decode_session_roundtrip, protocol_test_video_decode_frame_roundtrip,
    protocol_test_video_destroy_session_roundtrip, protocol_test_video_bodies_reject_short_buffers,
    protocol_test_webgpu_api_id_value, protocol_test_wgpu_opcodes_are_in_webgpu_namespace,
    protocol_test_wgpu_request_device_response_roundtrip,
    protocol_test_wgpu_create_buffer_roundtrip, protocol_test_wgpu_destroy_buffer_roundtrip,
    protocol_test_wgpu_bodies_reject_short_buffers, protocol_test_optix_api_id_value,
    protocol_test_optix_opcodes_are_in_optix_namespace,
    protocol_test_optix_context_create_response_roundtrip,
    protocol_test_optix_pipeline_create_roundtrip, protocol_test_optix_destroy_roundtrip,
    protocol_test_optix_bodies_reject_short_buffers, protocol_test_sycl_api_id_value,
    protocol_test_sycl_opcodes_are_in_sycl_namespace,
    protocol_test_sycl_queue_create_response_roundtrip, protocol_test_sycl_malloc_device_roundtrip,
    protocol_test_sycl_free_roundtrip, protocol_test_sycl_bodies_reject_short_buffers,
    protocol_test_amf_api_id_value, protocol_test_amf_opcodes_are_in_amf_namespace,
    protocol_test_amf_create_encoder_roundtrip, protocol_test_amf_encode_frame_roundtrip,
    protocol_test_amf_destroy_encoder_roundtrip, protocol_test_amf_bodies_reject_short_buffers]"

lemma protocol_unit_tests_pass: "list_all (\<lambda>t. t = Some ()) protocol_unit_tests"
  by (simp add: protocol_unit_tests_def
      protocol_test_opcode_pack_unpack_passes
      protocol_test_core_opcodes_are_in_core_namespace_passes
      protocol_test_vk_opcodes_are_in_vulkan_namespace_passes
      protocol_test_gl_opcodes_are_in_opengl_namespace_passes
      protocol_test_frame_header_roundtrip_passes protocol_test_hello_welcome_roundtrip_passes
      protocol_test_decode_frame_rejects_short_buffer_passes protocol_test_handle_roundtrip_passes
      protocol_test_handle_generation_masked_to_24_bits_passes
      protocol_test_handle_field_constants_passes protocol_test_vk_create_instance_roundtrip_passes
      protocol_test_vk_enumerate_physical_devices_request_roundtrip_passes
      protocol_test_vk_enumerate_physical_devices_response_empty_passes
      protocol_test_vk_enumerate_physical_devices_response_three_passes
      protocol_test_vk_bodies_reject_short_buffers_passes
      protocol_test_vk_create_device_roundtrip_passes
      protocol_test_vk_get_device_queue_roundtrip_passes
      protocol_test_vk_device_queue_bodies_reject_short_buffers_passes
      protocol_test_gl_create_context_response_roundtrip_passes
      protocol_test_gl_make_current_request_roundtrip_passes
      protocol_test_gl_gen_buffer_roundtrip_passes
      protocol_test_gl_swap_buffers_request_roundtrip_passes
      protocol_test_gl_delete_buffer_request_roundtrip_passes
      protocol_test_gl_bodies_reject_short_buffers_passes
      protocol_test_vk_opcodes_memory_buffer_in_vulkan_namespace_passes
      protocol_test_vk_allocate_memory_roundtrip_passes
      protocol_test_vk_create_buffer_roundtrip_passes
      protocol_test_vk_bind_buffer_memory_roundtrip_passes
      protocol_test_vk_memory_buffer_bodies_reject_short_buffers_passes
      protocol_test_vk_opcodes_command_buffer_in_vulkan_namespace_passes
      protocol_test_vk_create_command_pool_roundtrip_passes
      protocol_test_vk_allocate_command_buffer_roundtrip_passes
      protocol_test_vk_queue_submit_roundtrip_passes
      protocol_test_vk_command_buffer_bodies_reject_short_buffers_passes
      protocol_test_vk_opcodes_draw_copy_in_vulkan_namespace_passes
      protocol_test_vk_cmd_copy_buffer_roundtrip_passes protocol_test_vk_cmd_draw_roundtrip_passes
      protocol_test_vk_draw_copy_bodies_reject_short_buffers_passes
      protocol_test_vk_opcodes_destroy_free_in_vulkan_namespace_passes
      protocol_test_vk_destroy_buffer_roundtrip_passes protocol_test_vk_free_memory_roundtrip_passes
      protocol_test_vk_destroy_command_pool_roundtrip_passes
      protocol_test_vk_destroy_free_bodies_reject_short_buffers_passes
      protocol_test_cuda_opcodes_are_in_cuda_namespace_passes
      protocol_test_cuda_ctx_create_roundtrip_passes protocol_test_cuda_mem_alloc_roundtrip_passes
      protocol_test_cuda_mem_free_roundtrip_passes protocol_test_cuda_launch_kernel_roundtrip_passes
      protocol_test_cuda_memcpy_htod_roundtrip_passes
      protocol_test_cuda_memcpy_dtoh_roundtrip_passes
      protocol_test_cuda_bodies_reject_short_buffers_passes
      protocol_test_hip_opcodes_are_in_hip_namespace_passes
      protocol_test_hip_malloc_roundtrip_passes protocol_test_hip_free_roundtrip_passes
      protocol_test_hip_stream_create_roundtrip_passes
      protocol_test_hip_bodies_reject_short_buffers_passes
      protocol_test_cl_opcodes_are_in_opencl_namespace_passes
      protocol_test_cl_create_context_response_roundtrip_passes
      protocol_test_cl_create_buffer_roundtrip_passes
      protocol_test_cl_release_buffer_roundtrip_passes
      protocol_test_cl_bodies_reject_short_buffers_passes
      protocol_test_l0_opcodes_are_in_level_zero_namespace_passes
      protocol_test_l0_context_create_response_roundtrip_passes
      protocol_test_l0_mem_alloc_device_roundtrip_passes protocol_test_l0_mem_free_roundtrip_passes
      protocol_test_l0_bodies_reject_short_buffers_passes protocol_test_full_frame_roundtrip_passes
      protocol_test_video_opcodes_are_in_video_namespace_passes
      protocol_test_video_create_decode_session_roundtrip_passes
      protocol_test_video_decode_frame_roundtrip_passes
      protocol_test_video_destroy_session_roundtrip_passes
      protocol_test_video_bodies_reject_short_buffers_passes
      protocol_test_webgpu_api_id_value_passes
      protocol_test_wgpu_opcodes_are_in_webgpu_namespace_passes
      protocol_test_wgpu_request_device_response_roundtrip_passes
      protocol_test_wgpu_create_buffer_roundtrip_passes
      protocol_test_wgpu_destroy_buffer_roundtrip_passes
      protocol_test_wgpu_bodies_reject_short_buffers_passes protocol_test_optix_api_id_value_passes
      protocol_test_optix_opcodes_are_in_optix_namespace_passes
      protocol_test_optix_context_create_response_roundtrip_passes
      protocol_test_optix_pipeline_create_roundtrip_passes
      protocol_test_optix_destroy_roundtrip_passes
      protocol_test_optix_bodies_reject_short_buffers_passes protocol_test_sycl_api_id_value_passes
      protocol_test_sycl_opcodes_are_in_sycl_namespace_passes
      protocol_test_sycl_queue_create_response_roundtrip_passes
      protocol_test_sycl_malloc_device_roundtrip_passes protocol_test_sycl_free_roundtrip_passes
      protocol_test_sycl_bodies_reject_short_buffers_passes protocol_test_amf_api_id_value_passes
      protocol_test_amf_opcodes_are_in_amf_namespace_passes
      protocol_test_amf_create_encoder_roundtrip_passes
      protocol_test_amf_encode_frame_roundtrip_passes
      protocol_test_amf_destroy_encoder_roundtrip_passes
      protocol_test_amf_bodies_reject_short_buffers_passes)

end
