(* ===== verification/Backend_Tests.thy ===== *)
theory Backend_Tests
  imports Testing Vk_Backend Gl_Backend Cuda_Backend Hip_Backend Cl_Backend L0_Backend Video_Backend Wgpu_Backend Optix_Backend Sycl_Backend Amf_Backend
begin

section \<open>The unit tests of the backends\<close>

text \<open>
  The modules \<open>tests\<close> of the backends of the eleven APIs, \<open>crates/graftx-server/src/backend.rs\<close> and
  \<open>*_backend.rs\<close>.
\<close>

subsection \<open>Vulkan\<close>

definition vk_test_create_instance_body :: "u32 \<Rightarrow> bytes" where
  [test_defs]: "vk_test_create_instance_body app_api_version =
    (let body = [] in
     let body = vk_CreateInstanceRequest_encode \<lparr>vk_CreateInstanceRequest_app_api_version =
       app_api_version\<rparr> body in
     body)"

definition vk_test_enumerate_body :: "Handle \<Rightarrow> bytes" where
  [test_defs]: "vk_test_enumerate_body instance =
    (let body = [] in
     let body = vk_EnumeratePhysicalDevicesRequest_encode
       \<lparr>vk_EnumeratePhysicalDevicesRequest_instance = instance\<rparr> body in
     body)"

definition vk_test_create_device_body :: "Handle \<Rightarrow> bytes" where
  [test_defs]: "vk_test_create_device_body physical_device =
    (let body = [] in
     let body = vk_CreateDeviceRequest_encode \<lparr>vk_CreateDeviceRequest_physical_device =
       physical_device\<rparr> body in
     body)"

definition vk_test_get_device_queue_body :: "Handle \<Rightarrow> u32 \<Rightarrow> u32 \<Rightarrow> bytes" where
  [test_defs]: "vk_test_get_device_queue_body device queue_family_index queue_index =
    (let body = [] in
     let body = vk_GetDeviceQueueRequest_encode \<lparr>vk_GetDeviceQueueRequest_device = device,
       vk_GetDeviceQueueRequest_queue_family_index = queue_family_index,
       vk_GetDeviceQueueRequest_queue_index = queue_index\<rparr> body in
     body)"

definition vk_test_allocate_memory_body :: "Handle \<Rightarrow> u64 \<Rightarrow> bytes" where
  [test_defs]: "vk_test_allocate_memory_body device sz =
    (let body = [] in
     let body = vk_AllocateMemoryRequest_encode \<lparr>vk_AllocateMemoryRequest_device = device,
       vk_AllocateMemoryRequest_size = sz\<rparr> body in
     body)"

definition vk_test_create_buffer_body :: "Handle \<Rightarrow> u64 \<Rightarrow> u32 \<Rightarrow> bytes" where
  [test_defs]: "vk_test_create_buffer_body device sz usage =
    (let body = [] in
     let body = vk_CreateBufferRequest_encode \<lparr>vk_CreateBufferRequest_device = device,
       vk_CreateBufferRequest_size = sz, vk_CreateBufferRequest_usage = usage\<rparr> body in
     body)"

definition vk_test_bind_buffer_memory_body :: "Handle \<Rightarrow> Handle \<Rightarrow> u64 \<Rightarrow> bytes" where
  [test_defs]: "vk_test_bind_buffer_memory_body buffer memory offset =
    (let body = [] in
     let body = vk_BindBufferMemoryRequest_encode
       \<lparr>vk_BindBufferMemoryRequest_buffer = buffer,
       vk_BindBufferMemoryRequest_memory = memory,
       vk_BindBufferMemoryRequest_offset = offset\<rparr> body in
     body)"

definition vk_test_create_command_pool_body :: "Handle \<Rightarrow> u32 \<Rightarrow> bytes" where
  [test_defs]: "vk_test_create_command_pool_body device queue_family_index =
    (let body = [] in
     let body = vk_CreateCommandPoolRequest_encode
       \<lparr>vk_CreateCommandPoolRequest_device = device,
       vk_CreateCommandPoolRequest_queue_family_index = queue_family_index\<rparr> body in
     body)"

definition vk_test_allocate_command_buffer_body :: "Handle \<Rightarrow> bytes" where
  [test_defs]: "vk_test_allocate_command_buffer_body pool =
    (let body = [] in
     let body = vk_AllocateCommandBufferRequest_encode
       \<lparr>vk_AllocateCommandBufferRequest_pool = pool\<rparr> body in
     body)"

definition vk_test_queue_submit_body :: "Handle \<Rightarrow> Handle \<Rightarrow> bytes" where
  [test_defs]: "vk_test_queue_submit_body queue command_buffer =
    (let body = [] in
     let body = vk_QueueSubmitRequest_encode \<lparr>vk_QueueSubmitRequest_queue = queue,
       vk_QueueSubmitRequest_command_buffer = command_buffer\<rparr> body in
     body)"

definition vk_test_cmd_copy_buffer_body :: "Handle \<Rightarrow> Handle \<Rightarrow> Handle \<Rightarrow> u64 \<Rightarrow> bytes" where
  [test_defs]: "vk_test_cmd_copy_buffer_body command_buffer src dst sz =
    (let body = [] in
     let body = vk_CmdCopyBufferRequest_encode \<lparr>vk_CmdCopyBufferRequest_command_buffer =
       command_buffer, vk_CmdCopyBufferRequest_src = src, vk_CmdCopyBufferRequest_dst = dst,
       vk_CmdCopyBufferRequest_size = sz\<rparr> body in
     body)"

definition vk_test_destroy_buffer_body :: "Handle \<Rightarrow> bytes" where
  [test_defs]: "vk_test_destroy_buffer_body buffer =
    (let body = [] in
     let body = vk_DestroyBufferRequest_encode \<lparr>vk_DestroyBufferRequest_buffer =
       buffer\<rparr> body in
     body)"

definition vk_test_free_memory_body :: "Handle \<Rightarrow> bytes" where
  [test_defs]: "vk_test_free_memory_body memory =
    (let body = [] in
     let body = vk_FreeMemoryRequest_encode \<lparr>vk_FreeMemoryRequest_memory = memory\<rparr>
       body in
     body)"

definition vk_test_destroy_command_pool_body :: "Handle \<Rightarrow> bytes" where
  [test_defs]: "vk_test_destroy_command_pool_body pool =
    (let body = [] in
     let body = vk_DestroyCommandPoolRequest_encode
       \<lparr>vk_DestroyCommandPoolRequest_pool = pool\<rparr> body in
     body)"

definition vk_test_cmd_draw_body :: "Handle \<Rightarrow> u32 \<Rightarrow> u32 \<Rightarrow> bytes" where
  [test_defs]: "vk_test_cmd_draw_body command_buffer vertex_count instance_count =
    (let body = [] in
     let body = vk_CmdDrawRequest_encode \<lparr>vk_CmdDrawRequest_command_buffer = command_buffer,
       vk_CmdDrawRequest_vertex_count = vertex_count,
       vk_CmdDrawRequest_instance_count = instance_count\<rparr> body in
     body)"

definition vk_test_enumerate_one :: "VulkanBackend \<Rightarrow> (Handle \<times> VulkanBackend) option" where
  [test_defs]: "vk_test_enumerate_one bk = do {
     let (r, bk) = vk_handle vk_op_CREATE_INSTANCE 1 (vk_test_create_instance_body 0) bk;
     create_resp \<leftarrow> ok r;
     x \<leftarrow> ok (vk_CreateInstanceResponse_decode create_resp);
     let instance = vk_CreateInstanceResponse_instance x;
     let (r, bk) = vk_handle vk_op_ENUMERATE_PHYSICAL_DEVICES 2
       (vk_test_enumerate_body instance) bk;
     enum_resp \<leftarrow> ok r;
     x \<leftarrow> ok (vk_EnumeratePhysicalDevicesResponse_decode enum_resp);
     x1 \<leftarrow> index (vk_EnumeratePhysicalDevicesResponse_devices x) 0;
     Some (x1, bk)
   }"

definition vk_test_create_device_one :: "VulkanBackend \<Rightarrow> (Handle \<times> VulkanBackend) option" where
  [test_defs]: "vk_test_create_device_one bk = do {
     (physical_device, bk) \<leftarrow> vk_test_enumerate_one bk;
     let (r, bk) = vk_handle vk_op_CREATE_DEVICE 3 (vk_test_create_device_body physical_device) bk;
     create_resp \<leftarrow> ok r;
     x2 \<leftarrow> ok (vk_CreateDeviceResponse_decode create_resp);
     Some (vk_CreateDeviceResponse_device x2, bk)
   }"

definition vk_test_create_queue_one :: "VulkanBackend \<Rightarrow> ((Handle \<times> Handle) \<times> VulkanBackend) option" where
  [test_defs]: "vk_test_create_queue_one bk = do {
     (device, bk) \<leftarrow> vk_test_create_device_one bk;
     let (r, bk) = vk_handle vk_op_GET_DEVICE_QUEUE 4 (vk_test_get_device_queue_body device 0 0) bk;
     queue_resp \<leftarrow> ok r;
     x3 \<leftarrow> ok (vk_GetDeviceQueueResponse_decode queue_resp);
     let queue = vk_GetDeviceQueueResponse_queue x3;
     Some ((device, queue), bk)
   }"

definition vk_test_create_command_pool_one :: "VulkanBackend \<Rightarrow> ((Handle \<times> Handle) \<times> VulkanBackend) option" where
  [test_defs]: "vk_test_create_command_pool_one bk = do {
     (device, bk) \<leftarrow> vk_test_create_device_one bk;
     let (r, bk) = vk_handle vk_op_CREATE_COMMAND_POOL 7
       (vk_test_create_command_pool_body device 0) bk;
     pool_resp \<leftarrow> ok r;
     x3 \<leftarrow> ok (vk_CreateCommandPoolResponse_decode pool_resp);
     let pool = vk_CreateCommandPoolResponse_pool x3;
     Some ((device, pool), bk)
   }"

definition vk_test_allocate_command_buffer_one :: "VulkanBackend \<Rightarrow> ((Handle \<times> Handle) \<times> VulkanBackend) option" where
  [test_defs]: "vk_test_allocate_command_buffer_one bk = do {
     ((device, pool), bk) \<leftarrow> vk_test_create_command_pool_one bk;
     let (r, bk) = vk_handle vk_op_ALLOCATE_COMMAND_BUFFER 8
       (vk_test_allocate_command_buffer_body pool) bk;
     buf_resp \<leftarrow> ok r;
     x3 \<leftarrow> ok (vk_AllocateCommandBufferResponse_decode buf_resp);
     let command_buffer = vk_AllocateCommandBufferResponse_command_buffer x3;
     Some ((device, command_buffer), bk)
   }"

definition vk_test_create_buffer_one :: "VulkanBackend \<Rightarrow> Handle \<Rightarrow> (Handle \<times> VulkanBackend) option" where
  [test_defs]: "vk_test_create_buffer_one bk device = do {
     let (r, bk) = vk_handle vk_op_CREATE_BUFFER 6 (vk_test_create_buffer_body device 1024 0x20) bk;
     buf_resp \<leftarrow> ok r;
     x3 \<leftarrow> ok (vk_CreateBufferResponse_decode buf_resp);
     Some (vk_CreateBufferResponse_buffer x3, bk)
   }"

definition vk_test_create_instance_returns_decodable_handle :: test where
  [test_defs]: "vk_test_create_instance_returns_decodable_handle = do {
     let bk = vk_new;
     let body = vk_test_create_instance_body 0x00403000;
     let (r, bk) = vk_handle vk_op_CREATE_INSTANCE 1 body bk;
     resp \<leftarrow> ok r;
     decoded \<leftarrow> ok (vk_CreateInstanceResponse_decode resp);
     assert_eq (handle_kind (vk_CreateInstanceResponse_instance decoded)) KIND_INSTANCE;
     assert (ht_get (vk_instances bk) (vk_CreateInstanceResponse_instance decoded) \<noteq> None)
   }"

definition vk_test_enumerate_after_create_returns_one_device :: test where
  [test_defs]: "vk_test_enumerate_after_create_returns_one_device = do {
     let bk = vk_new;
     let create_body = vk_test_create_instance_body 0;
     let (r, bk) = vk_handle vk_op_CREATE_INSTANCE 1 create_body bk;
     create_resp \<leftarrow> ok r;
     x4 \<leftarrow> ok (vk_CreateInstanceResponse_decode create_resp);
     let instance = vk_CreateInstanceResponse_instance x4;
     let enum_body = vk_test_enumerate_body instance;
     let (r, bk) = vk_handle vk_op_ENUMERATE_PHYSICAL_DEVICES 2 enum_body bk;
     enum_resp \<leftarrow> ok r;
     decoded \<leftarrow> ok (vk_EnumeratePhysicalDevicesResponse_decode enum_resp);
     assert_eq (length (vk_EnumeratePhysicalDevicesResponse_devices decoded)) 1;
     device \<leftarrow> index (vk_EnumeratePhysicalDevicesResponse_devices decoded) 0;
     assert_eq (handle_kind device) KIND_PHYSICAL_DEVICE;
     assert (ht_get (vk_physical_devices bk) device \<noteq> None)
   }"

definition vk_test_enumerate_with_bogus_instance_errors :: test where
  [test_defs]: "vk_test_enumerate_with_bogus_instance_errors = do {
     let bk = vk_new;
     let bogus = handle_new KIND_INSTANCE 0 999;
     let body = vk_test_enumerate_body bogus;
     let (r, bk) = vk_handle vk_op_ENUMERATE_PHYSICAL_DEVICES 1 body bk;
     err \<leftarrow> err_of r;
     assert (case err of UnknownOpcode _ \<Rightarrow> True | _ \<Rightarrow> False)
   }"

definition vk_test_out_of_namespace_opcode_errors :: test where
  [test_defs]: "vk_test_out_of_namespace_opcode_errors = do {
     let bk = vk_new;
     let (r, bk) = vk_handle 0 1 [] bk;
     err \<leftarrow> err_of r;
     assert (case err of UnknownOpcode c \<Rightarrow> c = 0 | _ \<Rightarrow> False)
   }"

definition vk_test_parent_link_is_recorded :: test where
  [test_defs]: "vk_test_parent_link_is_recorded = do {
     let bk = vk_new;
     let create_body = vk_test_create_instance_body 0;
     let (r, bk) = vk_handle vk_op_CREATE_INSTANCE 1 create_body bk;
     create_resp \<leftarrow> ok r;
     x4 \<leftarrow> ok (vk_CreateInstanceResponse_decode create_resp);
     let instance = vk_CreateInstanceResponse_instance x4;
     let enum_body = vk_test_enumerate_body instance;
     let (r, bk) = vk_handle vk_op_ENUMERATE_PHYSICAL_DEVICES 2 enum_body bk;
     enum_resp \<leftarrow> ok r;
     x4 \<leftarrow> ok (vk_EnumeratePhysicalDevicesResponse_decode enum_resp);
     device \<leftarrow> index (vk_EnumeratePhysicalDevicesResponse_devices x4) 0;
     state \<leftarrow> ht_get (vk_physical_devices bk) device;
     assert_eq (handle_raw (PhysDevState_parent state)) (handle_raw instance)
   }"

definition vk_test_create_device_after_enumerate_returns_device_handle :: test where
  [test_defs]: "vk_test_create_device_after_enumerate_returns_device_handle = do {
     let bk = vk_new;
     (physical_device, bk) \<leftarrow> vk_test_enumerate_one bk;
     let (r, bk) = vk_handle vk_op_CREATE_DEVICE 3 (vk_test_create_device_body physical_device) bk;
     resp \<leftarrow> ok r;
     decoded \<leftarrow> ok (vk_CreateDeviceResponse_decode resp);
     assert_eq (handle_kind (vk_CreateDeviceResponse_device decoded)) KIND_DEVICE;
     assert (ht_get (vk_devices bk) (vk_CreateDeviceResponse_device decoded) \<noteq> None);
     state \<leftarrow> ht_get (vk_devices bk) (vk_CreateDeviceResponse_device decoded);
     assert_eq (handle_raw (DeviceState_physical_device state)) (handle_raw physical_device)
   }"

definition vk_test_create_device_with_bogus_physical_device_errors :: test where
  [test_defs]: "vk_test_create_device_with_bogus_physical_device_errors = do {
     let bk = vk_new;
     let bogus = handle_new KIND_PHYSICAL_DEVICE 0 999;
     let (r, bk) = vk_handle vk_op_CREATE_DEVICE 1 (vk_test_create_device_body bogus) bk;
     err \<leftarrow> err_of r;
     assert (case err of UnknownOpcode _ \<Rightarrow> True | _ \<Rightarrow> False)
   }"

definition vk_test_get_device_queue_after_create_device_returns_queue_handle :: test where
  [test_defs]: "vk_test_get_device_queue_after_create_device_returns_queue_handle = do {
     let bk = vk_new;
     (physical_device, bk) \<leftarrow> vk_test_enumerate_one bk;
     let (r, bk) = vk_handle vk_op_CREATE_DEVICE 3 (vk_test_create_device_body physical_device) bk;
     create_resp \<leftarrow> ok r;
     x4 \<leftarrow> ok (vk_CreateDeviceResponse_decode create_resp);
     let device = vk_CreateDeviceResponse_device x4;
     let (r, bk) = vk_handle vk_op_GET_DEVICE_QUEUE 4 (vk_test_get_device_queue_body device 7 2) bk;
     resp \<leftarrow> ok r;
     decoded \<leftarrow> ok (vk_GetDeviceQueueResponse_decode resp);
     assert_eq (handle_kind (vk_GetDeviceQueueResponse_queue decoded)) KIND_QUEUE;
     state \<leftarrow> ht_get (vk_queues bk) (vk_GetDeviceQueueResponse_queue decoded);
     assert_eq (handle_raw (QueueState_device state)) (handle_raw device);
     assert_eq (QueueState_family state) 7;
     assert_eq (QueueState_index state) 2
   }"

definition vk_test_get_device_queue_with_bogus_device_errors :: test where
  [test_defs]: "vk_test_get_device_queue_with_bogus_device_errors = do {
     let bk = vk_new;
     let bogus = handle_new KIND_DEVICE 0 999;
     let (r, bk) = vk_handle vk_op_GET_DEVICE_QUEUE 1 (vk_test_get_device_queue_body bogus 0 0) bk;
     err \<leftarrow> err_of r;
     assert (case err of UnknownOpcode _ \<Rightarrow> True | _ \<Rightarrow> False)
   }"

definition vk_test_allocate_memory_after_create_device_returns_memory_handle :: test where
  [test_defs]: "vk_test_allocate_memory_after_create_device_returns_memory_handle = do {
     let bk = vk_new;
     (device, bk) \<leftarrow> vk_test_create_device_one bk;
     let (r, bk) = vk_handle vk_op_ALLOCATE_MEMORY 5 (vk_test_allocate_memory_body device 4096) bk;
     resp \<leftarrow> ok r;
     decoded \<leftarrow> ok (vk_AllocateMemoryResponse_decode resp);
     assert_eq (handle_kind (vk_AllocateMemoryResponse_memory decoded)) KIND_DEVICE_MEMORY;
     state \<leftarrow> ht_get (vk_memories bk) (vk_AllocateMemoryResponse_memory decoded);
     assert_eq (handle_raw (MemoryState_device state)) (handle_raw device);
     assert_eq (MemoryState_size state) 4096
   }"

definition vk_test_allocate_memory_with_bogus_device_errors :: test where
  [test_defs]: "vk_test_allocate_memory_with_bogus_device_errors = do {
     let bk = vk_new;
     let bogus = handle_new KIND_DEVICE 0 999;
     let (r, bk) = vk_handle vk_op_ALLOCATE_MEMORY 1 (vk_test_allocate_memory_body bogus 4096) bk;
     err \<leftarrow> err_of r;
     assert (case err of UnknownOpcode _ \<Rightarrow> True | _ \<Rightarrow> False)
   }"

definition vk_test_create_buffer_after_create_device_returns_buffer_handle :: test where
  [test_defs]: "vk_test_create_buffer_after_create_device_returns_buffer_handle = do {
     let bk = vk_new;
     (device, bk) \<leftarrow> vk_test_create_device_one bk;
     let (r, bk) = vk_handle vk_op_CREATE_BUFFER 6 (vk_test_create_buffer_body device 1024 0x20) bk;
     resp \<leftarrow> ok r;
     decoded \<leftarrow> ok (vk_CreateBufferResponse_decode resp);
     assert_eq (handle_kind (vk_CreateBufferResponse_buffer decoded)) KIND_BUFFER;
     state \<leftarrow> ht_get (vk_buffers bk) (vk_CreateBufferResponse_buffer decoded);
     assert_eq (handle_raw (BufferState_device state)) (handle_raw device);
     assert_eq (BufferState_size state) 1024;
     assert_eq (BufferState_usage state) 0x20;
     assert (BufferState_bound state = None)
   }"

definition vk_test_create_buffer_with_bogus_device_errors :: test where
  [test_defs]: "vk_test_create_buffer_with_bogus_device_errors = do {
     let bk = vk_new;
     let bogus = handle_new KIND_DEVICE 0 999;
     let (r, bk) = vk_handle vk_op_CREATE_BUFFER 1 (vk_test_create_buffer_body bogus 1024 0) bk;
     err \<leftarrow> err_of r;
     assert (case err of UnknownOpcode _ \<Rightarrow> True | _ \<Rightarrow> False)
   }"

definition vk_test_bind_buffer_memory_succeeds_and_records_binding :: test where
  [test_defs]: "vk_test_bind_buffer_memory_succeeds_and_records_binding = do {
     let bk = vk_new;
     (device, bk) \<leftarrow> vk_test_create_device_one bk;
     let (r, bk) = vk_handle vk_op_ALLOCATE_MEMORY 5 (vk_test_allocate_memory_body device 4096) bk;
     mem_resp \<leftarrow> ok r;
     x4 \<leftarrow> ok (vk_AllocateMemoryResponse_decode mem_resp);
     let memory = vk_AllocateMemoryResponse_memory x4;
     let (r, bk) = vk_handle vk_op_CREATE_BUFFER 6 (vk_test_create_buffer_body device 1024 0x20) bk;
     buf_resp \<leftarrow> ok r;
     x4 \<leftarrow> ok (vk_CreateBufferResponse_decode buf_resp);
     let buffer = vk_CreateBufferResponse_buffer x4;
     let (r, bk) = vk_handle vk_op_BIND_BUFFER_MEMORY 7
       (vk_test_bind_buffer_memory_body buffer memory 256) bk;
     ack \<leftarrow> ok r;
     assert (ack = []);
     state \<leftarrow> ht_get (vk_buffers bk) buffer;
     (bound_memory, offset) \<leftarrow> BufferState_bound state;
     assert_eq (handle_raw bound_memory) (handle_raw memory);
     assert_eq offset 256
   }"

definition vk_test_bind_buffer_memory_with_bogus_buffer_errors :: test where
  [test_defs]: "vk_test_bind_buffer_memory_with_bogus_buffer_errors = do {
     let bk = vk_new;
     (device, bk) \<leftarrow> vk_test_create_device_one bk;
     let (r, bk) = vk_handle vk_op_ALLOCATE_MEMORY 5 (vk_test_allocate_memory_body device 4096) bk;
     mem_resp \<leftarrow> ok r;
     x4 \<leftarrow> ok (vk_AllocateMemoryResponse_decode mem_resp);
     let memory = vk_AllocateMemoryResponse_memory x4;
     let bogus_buffer = handle_new KIND_BUFFER 0 999;
     let (r, bk) = vk_handle vk_op_BIND_BUFFER_MEMORY 7
       (vk_test_bind_buffer_memory_body bogus_buffer memory 0) bk;
     err \<leftarrow> err_of r;
     assert (case err of UnknownOpcode _ \<Rightarrow> True | _ \<Rightarrow> False)
   }"

definition vk_test_bind_buffer_memory_with_bogus_memory_errors :: test where
  [test_defs]: "vk_test_bind_buffer_memory_with_bogus_memory_errors = do {
     let bk = vk_new;
     (device, bk) \<leftarrow> vk_test_create_device_one bk;
     let (r, bk) = vk_handle vk_op_CREATE_BUFFER 6 (vk_test_create_buffer_body device 1024 0) bk;
     buf_resp \<leftarrow> ok r;
     x4 \<leftarrow> ok (vk_CreateBufferResponse_decode buf_resp);
     let buffer = vk_CreateBufferResponse_buffer x4;
     let bogus_memory = handle_new KIND_DEVICE_MEMORY 0 999;
     let (r, bk) = vk_handle vk_op_BIND_BUFFER_MEMORY 7
       (vk_test_bind_buffer_memory_body buffer bogus_memory 0) bk;
     err \<leftarrow> err_of r;
     assert (case err of UnknownOpcode _ \<Rightarrow> True | _ \<Rightarrow> False);
     state \<leftarrow> ht_get (vk_buffers bk) buffer;
     assert (BufferState_bound state = None)
   }"

definition vk_test_re_bind_buffer_memory_errors :: test where
  [test_defs]: "vk_test_re_bind_buffer_memory_errors = do {
     let bk = vk_new;
     (device, bk) \<leftarrow> vk_test_create_device_one bk;
     let (r, bk) = vk_handle vk_op_ALLOCATE_MEMORY 5 (vk_test_allocate_memory_body device 4096) bk;
     mem_resp \<leftarrow> ok r;
     x4 \<leftarrow> ok (vk_AllocateMemoryResponse_decode mem_resp);
     let memory = vk_AllocateMemoryResponse_memory x4;
     let (r, bk) = vk_handle vk_op_CREATE_BUFFER 6 (vk_test_create_buffer_body device 1024 0) bk;
     buf_resp \<leftarrow> ok r;
     x4 \<leftarrow> ok (vk_CreateBufferResponse_decode buf_resp);
     let buffer = vk_CreateBufferResponse_buffer x4;
     let (r, bk) = vk_handle vk_op_BIND_BUFFER_MEMORY 7
       (vk_test_bind_buffer_memory_body buffer memory 0) bk;
     x4 \<leftarrow> ok r;
     let (r, bk) = vk_handle vk_op_BIND_BUFFER_MEMORY 8
       (vk_test_bind_buffer_memory_body buffer memory 512) bk;
     err \<leftarrow> err_of r;
     assert (case err of UnknownOpcode _ \<Rightarrow> True | _ \<Rightarrow> False);
     state \<leftarrow> ht_get (vk_buffers bk) buffer;
     (_, offset) \<leftarrow> BufferState_bound state;
     assert_eq offset 0
   }"

definition vk_test_create_command_pool_after_create_device_returns_pool_handle :: test where
  [test_defs]: "vk_test_create_command_pool_after_create_device_returns_pool_handle = do {
     let bk = vk_new;
     (device, bk) \<leftarrow> vk_test_create_device_one bk;
     let (r, bk) = vk_handle vk_op_CREATE_COMMAND_POOL 7
       (vk_test_create_command_pool_body device 3) bk;
     resp \<leftarrow> ok r;
     decoded \<leftarrow> ok (vk_CreateCommandPoolResponse_decode resp);
     assert_eq (handle_kind (vk_CreateCommandPoolResponse_pool decoded)) KIND_COMMAND_POOL;
     state \<leftarrow> ht_get (vk_command_pools bk) (vk_CreateCommandPoolResponse_pool decoded);
     assert_eq (handle_raw (CommandPoolState_device state)) (handle_raw device);
     assert_eq (CommandPoolState_queue_family_index state) 3
   }"

definition vk_test_create_command_pool_with_bogus_device_errors :: test where
  [test_defs]: "vk_test_create_command_pool_with_bogus_device_errors = do {
     let bk = vk_new;
     let bogus = handle_new KIND_DEVICE 0 999;
     let (r, bk) = vk_handle vk_op_CREATE_COMMAND_POOL 1
       (vk_test_create_command_pool_body bogus 0) bk;
     err \<leftarrow> err_of r;
     assert (case err of UnknownOpcode _ \<Rightarrow> True | _ \<Rightarrow> False)
   }"

definition vk_test_allocate_command_buffer_after_create_pool_returns_buffer_handle :: test where
  [test_defs]: "vk_test_allocate_command_buffer_after_create_pool_returns_buffer_handle = do {
     let bk = vk_new;
     ((device, pool), bk) \<leftarrow> vk_test_create_command_pool_one bk;
     let (r, bk) = vk_handle vk_op_ALLOCATE_COMMAND_BUFFER 8
       (vk_test_allocate_command_buffer_body pool) bk;
     resp \<leftarrow> ok r;
     decoded \<leftarrow> ok (vk_AllocateCommandBufferResponse_decode resp);
     assert_eq (handle_kind (vk_AllocateCommandBufferResponse_command_buffer decoded))
       KIND_COMMAND_BUFFER;
     state \<leftarrow> ht_get (vk_command_buffers bk)
       (vk_AllocateCommandBufferResponse_command_buffer decoded);
     assert_eq (handle_raw (CommandBufferState_pool state)) (handle_raw pool)
   }"

definition vk_test_allocate_command_buffer_with_bogus_pool_errors :: test where
  [test_defs]: "vk_test_allocate_command_buffer_with_bogus_pool_errors = do {
     let bk = vk_new;
     let bogus = handle_new KIND_COMMAND_POOL 0 999;
     let (r, bk) = vk_handle vk_op_ALLOCATE_COMMAND_BUFFER 1
       (vk_test_allocate_command_buffer_body bogus) bk;
     err \<leftarrow> err_of r;
     assert (case err of UnknownOpcode _ \<Rightarrow> True | _ \<Rightarrow> False)
   }"

definition vk_test_queue_submit_validates_queue_and_command_buffer :: test where
  [test_defs]: "vk_test_queue_submit_validates_queue_and_command_buffer = do {
     let bk = vk_new;
     ((device, queue), bk) \<leftarrow> vk_test_create_queue_one bk;
     let (r, bk) = vk_handle vk_op_CREATE_COMMAND_POOL 7
       (vk_test_create_command_pool_body device 0) bk;
     pool_resp \<leftarrow> ok r;
     x4 \<leftarrow> ok (vk_CreateCommandPoolResponse_decode pool_resp);
     let pool = vk_CreateCommandPoolResponse_pool x4;
     let (r, bk) = vk_handle vk_op_ALLOCATE_COMMAND_BUFFER 8
       (vk_test_allocate_command_buffer_body pool) bk;
     buf_resp \<leftarrow> ok r;
     x4 \<leftarrow> ok (vk_AllocateCommandBufferResponse_decode buf_resp);
     let command_buffer = vk_AllocateCommandBufferResponse_command_buffer x4;
     let (r, bk) = vk_handle vk_op_QUEUE_SUBMIT 9
       (vk_test_queue_submit_body queue command_buffer) bk;
     ack \<leftarrow> ok r;
     assert (ack = [])
   }"

definition vk_test_queue_submit_with_bogus_queue_errors :: test where
  [test_defs]: "vk_test_queue_submit_with_bogus_queue_errors = do {
     let bk = vk_new;
     ((device, pool), bk) \<leftarrow> vk_test_create_command_pool_one bk;
     let (r, bk) = vk_handle vk_op_ALLOCATE_COMMAND_BUFFER 8
       (vk_test_allocate_command_buffer_body pool) bk;
     buf_resp \<leftarrow> ok r;
     x4 \<leftarrow> ok (vk_AllocateCommandBufferResponse_decode buf_resp);
     let command_buffer = vk_AllocateCommandBufferResponse_command_buffer x4;
     let bogus_queue = handle_new KIND_QUEUE 0 999;
     let (r, bk) = vk_handle vk_op_QUEUE_SUBMIT 9
       (vk_test_queue_submit_body bogus_queue command_buffer) bk;
     err \<leftarrow> err_of r;
     assert (case err of UnknownOpcode _ \<Rightarrow> True | _ \<Rightarrow> False)
   }"

definition vk_test_queue_submit_with_bogus_command_buffer_errors :: test where
  [test_defs]: "vk_test_queue_submit_with_bogus_command_buffer_errors = do {
     let bk = vk_new;
     ((device, queue), bk) \<leftarrow> vk_test_create_queue_one bk;
     let bogus_buffer = handle_new KIND_COMMAND_BUFFER 0 999;
     let (r, bk) = vk_handle vk_op_QUEUE_SUBMIT 9 (vk_test_queue_submit_body queue bogus_buffer) bk;
     err \<leftarrow> err_of r;
     assert (case err of UnknownOpcode _ \<Rightarrow> True | _ \<Rightarrow> False)
   }"

definition vk_test_cmd_copy_buffer_records_and_bumps_count :: test where
  [test_defs]: "vk_test_cmd_copy_buffer_records_and_bumps_count = do {
     let bk = vk_new;
     ((device, command_buffer), bk) \<leftarrow> vk_test_allocate_command_buffer_one bk;
     (src, bk) \<leftarrow> vk_test_create_buffer_one bk device;
     (dst, bk) \<leftarrow> vk_test_create_buffer_one bk device;
     let (r, bk) = vk_handle vk_op_CMD_COPY_BUFFER 10
       (vk_test_cmd_copy_buffer_body command_buffer src dst 512) bk;
     ack \<leftarrow> ok r;
     assert (ack = []);
     state \<leftarrow> ht_get (vk_command_buffers bk) command_buffer;
     assert_eq (CommandBufferState_recorded state) 1;
     let (r, bk) = vk_handle vk_op_CMD_COPY_BUFFER 11
       (vk_test_cmd_copy_buffer_body command_buffer src dst 256) bk;
     x4 \<leftarrow> ok r;
     state \<leftarrow> ht_get (vk_command_buffers bk) command_buffer;
     assert_eq (CommandBufferState_recorded state) 2
   }"

definition vk_test_cmd_copy_buffer_with_bogus_command_buffer_errors :: test where
  [test_defs]: "vk_test_cmd_copy_buffer_with_bogus_command_buffer_errors = do {
     let bk = vk_new;
     (device, bk) \<leftarrow> vk_test_create_device_one bk;
     (src, bk) \<leftarrow> vk_test_create_buffer_one bk device;
     (dst, bk) \<leftarrow> vk_test_create_buffer_one bk device;
     let bogus = handle_new KIND_COMMAND_BUFFER 0 999;
     let (r, bk) = vk_handle vk_op_CMD_COPY_BUFFER 10
       (vk_test_cmd_copy_buffer_body bogus src dst 512) bk;
     err \<leftarrow> err_of r;
     assert (case err of UnknownOpcode _ \<Rightarrow> True | _ \<Rightarrow> False)
   }"

definition vk_test_cmd_copy_buffer_with_bogus_src_errors :: test where
  [test_defs]: "vk_test_cmd_copy_buffer_with_bogus_src_errors = do {
     let bk = vk_new;
     ((device, command_buffer), bk) \<leftarrow> vk_test_allocate_command_buffer_one bk;
     (dst, bk) \<leftarrow> vk_test_create_buffer_one bk device;
     let bogus_src = handle_new KIND_BUFFER 0 999;
     let (r, bk) = vk_handle vk_op_CMD_COPY_BUFFER 10
       (vk_test_cmd_copy_buffer_body command_buffer bogus_src dst 512) bk;
     err \<leftarrow> err_of r;
     assert (case err of UnknownOpcode _ \<Rightarrow> True | _ \<Rightarrow> False);
     state \<leftarrow> ht_get (vk_command_buffers bk) command_buffer;
     assert_eq (CommandBufferState_recorded state) 0
   }"

definition vk_test_cmd_copy_buffer_with_bogus_dst_errors :: test where
  [test_defs]: "vk_test_cmd_copy_buffer_with_bogus_dst_errors = do {
     let bk = vk_new;
     ((device, command_buffer), bk) \<leftarrow> vk_test_allocate_command_buffer_one bk;
     (src, bk) \<leftarrow> vk_test_create_buffer_one bk device;
     let bogus_dst = handle_new KIND_BUFFER 0 999;
     let (r, bk) = vk_handle vk_op_CMD_COPY_BUFFER 10
       (vk_test_cmd_copy_buffer_body command_buffer src bogus_dst 512) bk;
     err \<leftarrow> err_of r;
     assert (case err of UnknownOpcode _ \<Rightarrow> True | _ \<Rightarrow> False);
     state \<leftarrow> ht_get (vk_command_buffers bk) command_buffer;
     assert_eq (CommandBufferState_recorded state) 0
   }"

definition vk_test_cmd_draw_records_and_bumps_count :: test where
  [test_defs]: "vk_test_cmd_draw_records_and_bumps_count = do {
     let bk = vk_new;
     ((device, command_buffer), bk) \<leftarrow> vk_test_allocate_command_buffer_one bk;
     let (r, bk) = vk_handle vk_op_CMD_DRAW 12 (vk_test_cmd_draw_body command_buffer 3 1) bk;
     ack \<leftarrow> ok r;
     assert (ack = []);
     state \<leftarrow> ht_get (vk_command_buffers bk) command_buffer;
     assert_eq (CommandBufferState_recorded state) 1;
     let (r, bk) = vk_handle vk_op_CMD_DRAW 13 (vk_test_cmd_draw_body command_buffer 6 2) bk;
     x4 \<leftarrow> ok r;
     state \<leftarrow> ht_get (vk_command_buffers bk) command_buffer;
     assert_eq (CommandBufferState_recorded state) 2
   }"

definition vk_test_cmd_draw_then_copy_share_recorded_count :: test where
  [test_defs]: "vk_test_cmd_draw_then_copy_share_recorded_count = do {
     let bk = vk_new;
     ((device, command_buffer), bk) \<leftarrow> vk_test_allocate_command_buffer_one bk;
     (src, bk) \<leftarrow> vk_test_create_buffer_one bk device;
     (dst, bk) \<leftarrow> vk_test_create_buffer_one bk device;
     let (r, bk) = vk_handle vk_op_CMD_DRAW 12 (vk_test_cmd_draw_body command_buffer 3 1) bk;
     x4 \<leftarrow> ok r;
     let (r, bk) = vk_handle vk_op_CMD_COPY_BUFFER 13
       (vk_test_cmd_copy_buffer_body command_buffer src dst 512) bk;
     x4 \<leftarrow> ok r;
     state \<leftarrow> ht_get (vk_command_buffers bk) command_buffer;
     assert_eq (CommandBufferState_recorded state) 2
   }"

definition vk_test_cmd_draw_with_bogus_command_buffer_errors :: test where
  [test_defs]: "vk_test_cmd_draw_with_bogus_command_buffer_errors = do {
     let bk = vk_new;
     let bogus = handle_new KIND_COMMAND_BUFFER 0 999;
     let (r, bk) = vk_handle vk_op_CMD_DRAW 12 (vk_test_cmd_draw_body bogus 3 1) bk;
     err \<leftarrow> err_of r;
     assert (case err of UnknownOpcode _ \<Rightarrow> True | _ \<Rightarrow> False)
   }"

definition vk_test_destroy_buffer_removes_and_acks :: test where
  [test_defs]: "vk_test_destroy_buffer_removes_and_acks = do {
     let bk = vk_new;
     (device, bk) \<leftarrow> vk_test_create_device_one bk;
     (buffer, bk) \<leftarrow> vk_test_create_buffer_one bk device;
     let (r, bk) = vk_handle vk_op_DESTROY_BUFFER 14 (vk_test_destroy_buffer_body buffer) bk;
     ack \<leftarrow> ok r;
     assert (ack = []);
     assert (ht_get (vk_buffers bk) buffer = None)
   }"

definition vk_test_destroy_buffer_with_bogus_handle_errors :: test where
  [test_defs]: "vk_test_destroy_buffer_with_bogus_handle_errors = do {
     let bk = vk_new;
     let bogus = handle_new KIND_BUFFER 0 999;
     let (r, bk) = vk_handle vk_op_DESTROY_BUFFER 14 (vk_test_destroy_buffer_body bogus) bk;
     err \<leftarrow> err_of r;
     assert (case err of UnknownOpcode _ \<Rightarrow> True | _ \<Rightarrow> False)
   }"

definition vk_test_destroy_buffer_twice_errors_on_second :: test where
  [test_defs]: "vk_test_destroy_buffer_twice_errors_on_second = do {
     let bk = vk_new;
     (device, bk) \<leftarrow> vk_test_create_device_one bk;
     (buffer, bk) \<leftarrow> vk_test_create_buffer_one bk device;
     let (r, bk) = vk_handle vk_op_DESTROY_BUFFER 14 (vk_test_destroy_buffer_body buffer) bk;
     x4 \<leftarrow> ok r;
     let (r, bk) = vk_handle vk_op_DESTROY_BUFFER 15 (vk_test_destroy_buffer_body buffer) bk;
     err \<leftarrow> err_of r;
     assert (case err of UnknownOpcode _ \<Rightarrow> True | _ \<Rightarrow> False)
   }"

definition vk_test_free_memory_removes_and_acks :: test where
  [test_defs]: "vk_test_free_memory_removes_and_acks = do {
     let bk = vk_new;
     (device, bk) \<leftarrow> vk_test_create_device_one bk;
     let (r, bk) = vk_handle vk_op_ALLOCATE_MEMORY 5 (vk_test_allocate_memory_body device 4096) bk;
     mem_resp \<leftarrow> ok r;
     x4 \<leftarrow> ok (vk_AllocateMemoryResponse_decode mem_resp);
     let memory = vk_AllocateMemoryResponse_memory x4;
     let (r, bk) = vk_handle vk_op_FREE_MEMORY 16 (vk_test_free_memory_body memory) bk;
     ack \<leftarrow> ok r;
     assert (ack = []);
     assert (ht_get (vk_memories bk) memory = None)
   }"

definition vk_test_free_memory_with_bogus_handle_errors :: test where
  [test_defs]: "vk_test_free_memory_with_bogus_handle_errors = do {
     let bk = vk_new;
     let bogus = handle_new KIND_DEVICE_MEMORY 0 999;
     let (r, bk) = vk_handle vk_op_FREE_MEMORY 16 (vk_test_free_memory_body bogus) bk;
     err \<leftarrow> err_of r;
     assert (case err of UnknownOpcode _ \<Rightarrow> True | _ \<Rightarrow> False)
   }"

definition vk_test_destroy_command_pool_removes_and_acks :: test where
  [test_defs]: "vk_test_destroy_command_pool_removes_and_acks = do {
     let bk = vk_new;
     ((device, pool), bk) \<leftarrow> vk_test_create_command_pool_one bk;
     let (r, bk) = vk_handle vk_op_DESTROY_COMMAND_POOL 17
       (vk_test_destroy_command_pool_body pool) bk;
     ack \<leftarrow> ok r;
     assert (ack = []);
     assert (ht_get (vk_command_pools bk) pool = None)
   }"

definition vk_test_destroy_command_pool_with_bogus_handle_errors :: test where
  [test_defs]: "vk_test_destroy_command_pool_with_bogus_handle_errors = do {
     let bk = vk_new;
     let bogus = handle_new KIND_COMMAND_POOL 0 999;
     let (r, bk) = vk_handle vk_op_DESTROY_COMMAND_POOL 17
       (vk_test_destroy_command_pool_body bogus) bk;
     err \<leftarrow> err_of r;
     assert (case err of UnknownOpcode _ \<Rightarrow> True | _ \<Rightarrow> False)
   }"

lemmas vk_test_eval [test_simps] = vk_handle_def vk_arm_defs vk_new_def

lemma vk_test_create_instance_returns_decodable_handle_passes: "vk_test_create_instance_returns_decodable_handle = Some ()"
  by (simp add: test_defs test_simps wire_eval cong: test_congs)

lemma vk_test_enumerate_after_create_returns_one_device_passes: "vk_test_enumerate_after_create_returns_one_device = Some ()"
  by (simp add: test_defs test_simps wire_eval cong: test_congs)

lemma vk_test_enumerate_with_bogus_instance_errors_passes: "vk_test_enumerate_with_bogus_instance_errors = Some ()"
  by (simp add: test_defs test_simps wire_eval cong: test_congs)

lemma vk_test_out_of_namespace_opcode_errors_passes: "vk_test_out_of_namespace_opcode_errors = Some ()"
  by (simp add: test_defs test_simps wire_eval cong: test_congs)

lemma vk_test_parent_link_is_recorded_passes: "vk_test_parent_link_is_recorded = Some ()"
  by (simp add: test_defs test_simps wire_eval cong: test_congs)

lemma vk_test_create_device_after_enumerate_returns_device_handle_passes: "vk_test_create_device_after_enumerate_returns_device_handle = Some ()"
  by (simp add: test_defs test_simps wire_eval cong: test_congs)

lemma vk_test_create_device_with_bogus_physical_device_errors_passes: "vk_test_create_device_with_bogus_physical_device_errors = Some ()"
  by (simp add: test_defs test_simps wire_eval cong: test_congs)

lemma vk_test_get_device_queue_after_create_device_returns_queue_handle_passes: "vk_test_get_device_queue_after_create_device_returns_queue_handle = Some ()"
  by (simp add: test_defs test_simps wire_eval cong: test_congs)

lemma vk_test_get_device_queue_with_bogus_device_errors_passes: "vk_test_get_device_queue_with_bogus_device_errors = Some ()"
  by (simp add: test_defs test_simps wire_eval cong: test_congs)

lemma vk_test_allocate_memory_after_create_device_returns_memory_handle_passes: "vk_test_allocate_memory_after_create_device_returns_memory_handle = Some ()"
  by (simp add: test_defs test_simps wire_eval cong: test_congs)

lemma vk_test_allocate_memory_with_bogus_device_errors_passes: "vk_test_allocate_memory_with_bogus_device_errors = Some ()"
  by (simp add: test_defs test_simps wire_eval cong: test_congs)

lemma vk_test_create_buffer_after_create_device_returns_buffer_handle_passes: "vk_test_create_buffer_after_create_device_returns_buffer_handle = Some ()"
  by (simp add: test_defs test_simps wire_eval cong: test_congs)

lemma vk_test_create_buffer_with_bogus_device_errors_passes: "vk_test_create_buffer_with_bogus_device_errors = Some ()"
  by (simp add: test_defs test_simps wire_eval cong: test_congs)

lemma vk_test_bind_buffer_memory_succeeds_and_records_binding_passes: "vk_test_bind_buffer_memory_succeeds_and_records_binding = Some ()"
  by (simp add: test_defs test_simps wire_eval cong: test_congs)

lemma vk_test_bind_buffer_memory_with_bogus_buffer_errors_passes: "vk_test_bind_buffer_memory_with_bogus_buffer_errors = Some ()"
  by (simp add: test_defs test_simps wire_eval cong: test_congs)

lemma vk_test_bind_buffer_memory_with_bogus_memory_errors_passes: "vk_test_bind_buffer_memory_with_bogus_memory_errors = Some ()"
  by (simp add: test_defs test_simps wire_eval cong: test_congs)

lemma vk_test_re_bind_buffer_memory_errors_passes: "vk_test_re_bind_buffer_memory_errors = Some ()"
  by (simp add: test_defs test_simps wire_eval cong: test_congs)

lemma vk_test_create_command_pool_after_create_device_returns_pool_handle_passes: "vk_test_create_command_pool_after_create_device_returns_pool_handle = Some ()"
  by (simp add: test_defs test_simps wire_eval cong: test_congs)

lemma vk_test_create_command_pool_with_bogus_device_errors_passes: "vk_test_create_command_pool_with_bogus_device_errors = Some ()"
  by (simp add: test_defs test_simps wire_eval cong: test_congs)

lemma vk_test_allocate_command_buffer_after_create_pool_returns_buffer_handle_passes: "vk_test_allocate_command_buffer_after_create_pool_returns_buffer_handle = Some ()"
  by (simp add: test_defs test_simps wire_eval cong: test_congs)

lemma vk_test_allocate_command_buffer_with_bogus_pool_errors_passes: "vk_test_allocate_command_buffer_with_bogus_pool_errors = Some ()"
  by (simp add: test_defs test_simps wire_eval cong: test_congs)

lemma vk_test_queue_submit_validates_queue_and_command_buffer_passes: "vk_test_queue_submit_validates_queue_and_command_buffer = Some ()"
  by (simp add: test_defs test_simps wire_eval cong: test_congs)

lemma vk_test_queue_submit_with_bogus_queue_errors_passes: "vk_test_queue_submit_with_bogus_queue_errors = Some ()"
  by (simp add: test_defs test_simps wire_eval cong: test_congs)

lemma vk_test_queue_submit_with_bogus_command_buffer_errors_passes: "vk_test_queue_submit_with_bogus_command_buffer_errors = Some ()"
  by (simp add: test_defs test_simps wire_eval cong: test_congs)

lemma vk_test_cmd_copy_buffer_records_and_bumps_count_passes: "vk_test_cmd_copy_buffer_records_and_bumps_count = Some ()"
  by (simp add: test_defs test_simps wire_eval cong: test_congs)

lemma vk_test_cmd_copy_buffer_with_bogus_command_buffer_errors_passes: "vk_test_cmd_copy_buffer_with_bogus_command_buffer_errors = Some ()"
  by (simp add: test_defs test_simps wire_eval cong: test_congs)

lemma vk_test_cmd_copy_buffer_with_bogus_src_errors_passes: "vk_test_cmd_copy_buffer_with_bogus_src_errors = Some ()"
  by (simp add: test_defs test_simps wire_eval cong: test_congs)

lemma vk_test_cmd_copy_buffer_with_bogus_dst_errors_passes: "vk_test_cmd_copy_buffer_with_bogus_dst_errors = Some ()"
  by (simp add: test_defs test_simps wire_eval cong: test_congs)

lemma vk_test_cmd_draw_records_and_bumps_count_passes: "vk_test_cmd_draw_records_and_bumps_count = Some ()"
  by (simp add: test_defs test_simps wire_eval cong: test_congs)

lemma vk_test_cmd_draw_then_copy_share_recorded_count_passes: "vk_test_cmd_draw_then_copy_share_recorded_count = Some ()"
  by (simp add: test_defs test_simps wire_eval cong: test_congs)

lemma vk_test_cmd_draw_with_bogus_command_buffer_errors_passes: "vk_test_cmd_draw_with_bogus_command_buffer_errors = Some ()"
  by (simp add: test_defs test_simps wire_eval cong: test_congs)

lemma vk_test_destroy_buffer_removes_and_acks_passes: "vk_test_destroy_buffer_removes_and_acks = Some ()"
  by (simp add: test_defs test_simps wire_eval cong: test_congs)

lemma vk_test_destroy_buffer_with_bogus_handle_errors_passes: "vk_test_destroy_buffer_with_bogus_handle_errors = Some ()"
  by (simp add: test_defs test_simps wire_eval cong: test_congs)

lemma vk_test_destroy_buffer_twice_errors_on_second_passes: "vk_test_destroy_buffer_twice_errors_on_second = Some ()"
  by (simp add: test_defs test_simps wire_eval cong: test_congs)

lemma vk_test_free_memory_removes_and_acks_passes: "vk_test_free_memory_removes_and_acks = Some ()"
  by (simp add: test_defs test_simps wire_eval cong: test_congs)

lemma vk_test_free_memory_with_bogus_handle_errors_passes: "vk_test_free_memory_with_bogus_handle_errors = Some ()"
  by (simp add: test_defs test_simps wire_eval cong: test_congs)

lemma vk_test_destroy_command_pool_removes_and_acks_passes: "vk_test_destroy_command_pool_removes_and_acks = Some ()"
  by (simp add: test_defs test_simps wire_eval cong: test_congs)

lemma vk_test_destroy_command_pool_with_bogus_handle_errors_passes: "vk_test_destroy_command_pool_with_bogus_handle_errors = Some ()"
  by (simp add: test_defs test_simps wire_eval cong: test_congs)

definition vk_unit_tests :: "test list" where
  "vk_unit_tests = [
    vk_test_create_instance_returns_decodable_handle,
    vk_test_enumerate_after_create_returns_one_device, vk_test_enumerate_with_bogus_instance_errors,
    vk_test_out_of_namespace_opcode_errors, vk_test_parent_link_is_recorded,
    vk_test_create_device_after_enumerate_returns_device_handle,
    vk_test_create_device_with_bogus_physical_device_errors,
    vk_test_get_device_queue_after_create_device_returns_queue_handle,
    vk_test_get_device_queue_with_bogus_device_errors,
    vk_test_allocate_memory_after_create_device_returns_memory_handle,
    vk_test_allocate_memory_with_bogus_device_errors,
    vk_test_create_buffer_after_create_device_returns_buffer_handle,
    vk_test_create_buffer_with_bogus_device_errors,
    vk_test_bind_buffer_memory_succeeds_and_records_binding,
    vk_test_bind_buffer_memory_with_bogus_buffer_errors,
    vk_test_bind_buffer_memory_with_bogus_memory_errors, vk_test_re_bind_buffer_memory_errors,
    vk_test_create_command_pool_after_create_device_returns_pool_handle,
    vk_test_create_command_pool_with_bogus_device_errors,
    vk_test_allocate_command_buffer_after_create_pool_returns_buffer_handle,
    vk_test_allocate_command_buffer_with_bogus_pool_errors,
    vk_test_queue_submit_validates_queue_and_command_buffer,
    vk_test_queue_submit_with_bogus_queue_errors,
    vk_test_queue_submit_with_bogus_command_buffer_errors,
    vk_test_cmd_copy_buffer_records_and_bumps_count,
    vk_test_cmd_copy_buffer_with_bogus_command_buffer_errors,
    vk_test_cmd_copy_buffer_with_bogus_src_errors, vk_test_cmd_copy_buffer_with_bogus_dst_errors,
    vk_test_cmd_draw_records_and_bumps_count, vk_test_cmd_draw_then_copy_share_recorded_count,
    vk_test_cmd_draw_with_bogus_command_buffer_errors, vk_test_destroy_buffer_removes_and_acks,
    vk_test_destroy_buffer_with_bogus_handle_errors, vk_test_destroy_buffer_twice_errors_on_second,
    vk_test_free_memory_removes_and_acks, vk_test_free_memory_with_bogus_handle_errors,
    vk_test_destroy_command_pool_removes_and_acks,
    vk_test_destroy_command_pool_with_bogus_handle_errors]"

lemma vk_unit_tests_pass: "list_all (\<lambda>t. t = Some ()) vk_unit_tests"
  by (simp add: vk_unit_tests_def
      vk_test_create_instance_returns_decodable_handle_passes
      vk_test_enumerate_after_create_returns_one_device_passes
      vk_test_enumerate_with_bogus_instance_errors_passes
      vk_test_out_of_namespace_opcode_errors_passes vk_test_parent_link_is_recorded_passes
      vk_test_create_device_after_enumerate_returns_device_handle_passes
      vk_test_create_device_with_bogus_physical_device_errors_passes
      vk_test_get_device_queue_after_create_device_returns_queue_handle_passes
      vk_test_get_device_queue_with_bogus_device_errors_passes
      vk_test_allocate_memory_after_create_device_returns_memory_handle_passes
      vk_test_allocate_memory_with_bogus_device_errors_passes
      vk_test_create_buffer_after_create_device_returns_buffer_handle_passes
      vk_test_create_buffer_with_bogus_device_errors_passes
      vk_test_bind_buffer_memory_succeeds_and_records_binding_passes
      vk_test_bind_buffer_memory_with_bogus_buffer_errors_passes
      vk_test_bind_buffer_memory_with_bogus_memory_errors_passes
      vk_test_re_bind_buffer_memory_errors_passes
      vk_test_create_command_pool_after_create_device_returns_pool_handle_passes
      vk_test_create_command_pool_with_bogus_device_errors_passes
      vk_test_allocate_command_buffer_after_create_pool_returns_buffer_handle_passes
      vk_test_allocate_command_buffer_with_bogus_pool_errors_passes
      vk_test_queue_submit_validates_queue_and_command_buffer_passes
      vk_test_queue_submit_with_bogus_queue_errors_passes
      vk_test_queue_submit_with_bogus_command_buffer_errors_passes
      vk_test_cmd_copy_buffer_records_and_bumps_count_passes
      vk_test_cmd_copy_buffer_with_bogus_command_buffer_errors_passes
      vk_test_cmd_copy_buffer_with_bogus_src_errors_passes
      vk_test_cmd_copy_buffer_with_bogus_dst_errors_passes
      vk_test_cmd_draw_records_and_bumps_count_passes
      vk_test_cmd_draw_then_copy_share_recorded_count_passes
      vk_test_cmd_draw_with_bogus_command_buffer_errors_passes
      vk_test_destroy_buffer_removes_and_acks_passes
      vk_test_destroy_buffer_with_bogus_handle_errors_passes
      vk_test_destroy_buffer_twice_errors_on_second_passes
      vk_test_free_memory_removes_and_acks_passes
      vk_test_free_memory_with_bogus_handle_errors_passes
      vk_test_destroy_command_pool_removes_and_acks_passes
      vk_test_destroy_command_pool_with_bogus_handle_errors_passes)

subsection \<open>OpenGL\<close>

definition gl_test_make_current_body :: "Handle \<Rightarrow> bytes" where
  [test_defs]: "gl_test_make_current_body context =
    (let body = [] in
     let body = gl_MakeCurrentRequest_encode \<lparr>gl_MakeCurrentRequest_context = context\<rparr>
       body in
     body)"

definition gl_test_gen_buffer_body :: "Handle \<Rightarrow> bytes" where
  [test_defs]: "gl_test_gen_buffer_body context =
    (let body = [] in
     let body = gl_GenBufferRequest_encode \<lparr>gl_GenBufferRequest_context = context\<rparr>
       body in
     body)"

definition gl_test_swap_buffers_body :: "Handle \<Rightarrow> bytes" where
  [test_defs]: "gl_test_swap_buffers_body context =
    (let body = [] in
     let body = gl_SwapBuffersRequest_encode \<lparr>gl_SwapBuffersRequest_context = context\<rparr>
       body in
     body)"

definition gl_test_delete_buffer_body :: "Handle \<Rightarrow> bytes" where
  [test_defs]: "gl_test_delete_buffer_body buffer =
    (let body = [] in
     let body = gl_DeleteBufferRequest_encode \<lparr>gl_DeleteBufferRequest_buffer = buffer\<rparr>
       body in
     body)"

definition gl_test_gen_buffer_one :: "GlBackend \<Rightarrow> Handle \<Rightarrow> (Handle \<times> GlBackend) option" where
  [test_defs]: "gl_test_gen_buffer_one bk context = do {
     let (r, bk) = gl_handle gl_op_GEN_BUFFER 3 (gl_test_gen_buffer_body context) bk;
     resp \<leftarrow> ok r;
     x \<leftarrow> ok (gl_GenBufferResponse_decode resp);
     Some (gl_GenBufferResponse_buffer x, bk)
   }"

definition gl_test_create_context :: "GlBackend \<Rightarrow> (Handle \<times> GlBackend) option" where
  [test_defs]: "gl_test_create_context bk = do {
     let (r, bk) = gl_handle gl_op_CREATE_CONTEXT 1 [] bk;
     resp \<leftarrow> ok r;
     x1 \<leftarrow> ok (gl_CreateContextResponse_decode resp);
     Some (gl_CreateContextResponse_context x1, bk)
   }"

definition gl_test_create_context_returns_kind_ten :: test where
  [test_defs]: "gl_test_create_context_returns_kind_ten = do {
     let bk = gl_new;
     let (r, bk) = gl_handle gl_op_CREATE_CONTEXT 1 [] bk;
     resp \<leftarrow> ok r;
     decoded \<leftarrow> ok (gl_CreateContextResponse_decode resp);
     assert_eq (handle_kind (gl_CreateContextResponse_context decoded)) KIND_GL_CONTEXT;
     assert (ht_get (gl_contexts bk) (gl_CreateContextResponse_context decoded) \<noteq> None)
   }"

definition gl_test_make_current_after_create_returns_empty_ack :: test where
  [test_defs]: "gl_test_make_current_after_create_returns_empty_ack = do {
     let bk = gl_new;
     (context, bk) \<leftarrow> gl_test_create_context bk;
     let (r, bk) = gl_handle gl_op_MAKE_CURRENT 2 (gl_test_make_current_body context) bk;
     resp \<leftarrow> ok r;
     assert (resp = [])
   }"

definition gl_test_gen_buffer_after_create_returns_kind_eleven :: test where
  [test_defs]: "gl_test_gen_buffer_after_create_returns_kind_eleven = do {
     let bk = gl_new;
     (context, bk) \<leftarrow> gl_test_create_context bk;
     let (r, bk) = gl_handle gl_op_GEN_BUFFER 3 (gl_test_gen_buffer_body context) bk;
     resp \<leftarrow> ok r;
     decoded \<leftarrow> ok (gl_GenBufferResponse_decode resp);
     assert_eq (handle_kind (gl_GenBufferResponse_buffer decoded)) KIND_GL_BUFFER;
     state \<leftarrow> ht_get (gl_buffers bk) (gl_GenBufferResponse_buffer decoded);
     assert_eq (handle_raw (BufState_context state)) (handle_raw context)
   }"

definition gl_test_make_current_with_bogus_context_errors :: test where
  [test_defs]: "gl_test_make_current_with_bogus_context_errors = do {
     let bk = gl_new;
     let bogus = handle_new KIND_GL_CONTEXT 0 999;
     let (r, bk) = gl_handle gl_op_MAKE_CURRENT 1 (gl_test_make_current_body bogus) bk;
     err \<leftarrow> err_of r;
     assert (case err of UnknownOpcode _ \<Rightarrow> True | _ \<Rightarrow> False)
   }"

definition gl_test_gen_buffer_with_bogus_context_errors :: test where
  [test_defs]: "gl_test_gen_buffer_with_bogus_context_errors = do {
     let bk = gl_new;
     let bogus = handle_new KIND_GL_CONTEXT 0 999;
     let (r, bk) = gl_handle gl_op_GEN_BUFFER 1 (gl_test_gen_buffer_body bogus) bk;
     err \<leftarrow> err_of r;
     assert (case err of UnknownOpcode _ \<Rightarrow> True | _ \<Rightarrow> False)
   }"

definition gl_test_out_of_namespace_opcode_errors :: test where
  [test_defs]: "gl_test_out_of_namespace_opcode_errors = do {
     let bk = gl_new;
     let (r, bk) = gl_handle 0 1 [] bk;
     err \<leftarrow> err_of r;
     assert (case err of UnknownOpcode c \<Rightarrow> c = 0 | _ \<Rightarrow> False)
   }"

definition gl_test_swap_buffers_after_create_returns_empty_ack :: test where
  [test_defs]: "gl_test_swap_buffers_after_create_returns_empty_ack = do {
     let bk = gl_new;
     (context, bk) \<leftarrow> gl_test_create_context bk;
     let (r, bk) = gl_handle gl_op_SWAP_BUFFERS 4 (gl_test_swap_buffers_body context) bk;
     resp \<leftarrow> ok r;
     assert (resp = [])
   }"

definition gl_test_swap_buffers_with_bogus_context_errors :: test where
  [test_defs]: "gl_test_swap_buffers_with_bogus_context_errors = do {
     let bk = gl_new;
     let bogus = handle_new KIND_GL_CONTEXT 0 999;
     let (r, bk) = gl_handle gl_op_SWAP_BUFFERS 4 (gl_test_swap_buffers_body bogus) bk;
     err \<leftarrow> err_of r;
     assert (case err of UnknownOpcode _ \<Rightarrow> True | _ \<Rightarrow> False)
   }"

definition gl_test_delete_buffer_removes_and_acks :: test where
  [test_defs]: "gl_test_delete_buffer_removes_and_acks = do {
     let bk = gl_new;
     (context, bk) \<leftarrow> gl_test_create_context bk;
     (buffer, bk) \<leftarrow> gl_test_gen_buffer_one bk context;
     let (r, bk) = gl_handle gl_op_DELETE_BUFFER 5 (gl_test_delete_buffer_body buffer) bk;
     resp \<leftarrow> ok r;
     assert (resp = []);
     assert (ht_get (gl_buffers bk) buffer = None)
   }"

definition gl_test_delete_buffer_with_bogus_handle_errors :: test where
  [test_defs]: "gl_test_delete_buffer_with_bogus_handle_errors = do {
     let bk = gl_new;
     let bogus = handle_new KIND_GL_BUFFER 0 999;
     let (r, bk) = gl_handle gl_op_DELETE_BUFFER 5 (gl_test_delete_buffer_body bogus) bk;
     err \<leftarrow> err_of r;
     assert (case err of UnknownOpcode _ \<Rightarrow> True | _ \<Rightarrow> False)
   }"

definition gl_test_delete_buffer_twice_errors_on_second :: test where
  [test_defs]: "gl_test_delete_buffer_twice_errors_on_second = do {
     let bk = gl_new;
     (context, bk) \<leftarrow> gl_test_create_context bk;
     (buffer, bk) \<leftarrow> gl_test_gen_buffer_one bk context;
     let (r, bk) = gl_handle gl_op_DELETE_BUFFER 5 (gl_test_delete_buffer_body buffer) bk;
     x2 \<leftarrow> ok r;
     let (r, bk) = gl_handle gl_op_DELETE_BUFFER 6 (gl_test_delete_buffer_body buffer) bk;
     err \<leftarrow> err_of r;
     assert (case err of UnknownOpcode _ \<Rightarrow> True | _ \<Rightarrow> False)
   }"

lemmas gl_test_eval [test_simps] = gl_handle_def gl_arm_defs gl_new_def

lemma gl_test_create_context_returns_kind_ten_passes: "gl_test_create_context_returns_kind_ten = Some ()"
  by (simp add: test_defs test_simps wire_eval cong: test_congs)

lemma gl_test_make_current_after_create_returns_empty_ack_passes: "gl_test_make_current_after_create_returns_empty_ack = Some ()"
  by (simp add: test_defs test_simps wire_eval cong: test_congs)

lemma gl_test_gen_buffer_after_create_returns_kind_eleven_passes: "gl_test_gen_buffer_after_create_returns_kind_eleven = Some ()"
  by (simp add: test_defs test_simps wire_eval cong: test_congs)

lemma gl_test_make_current_with_bogus_context_errors_passes: "gl_test_make_current_with_bogus_context_errors = Some ()"
  by (simp add: test_defs test_simps wire_eval cong: test_congs)

lemma gl_test_gen_buffer_with_bogus_context_errors_passes: "gl_test_gen_buffer_with_bogus_context_errors = Some ()"
  by (simp add: test_defs test_simps wire_eval cong: test_congs)

lemma gl_test_out_of_namespace_opcode_errors_passes: "gl_test_out_of_namespace_opcode_errors = Some ()"
  by (simp add: test_defs test_simps wire_eval cong: test_congs)

lemma gl_test_swap_buffers_after_create_returns_empty_ack_passes: "gl_test_swap_buffers_after_create_returns_empty_ack = Some ()"
  by (simp add: test_defs test_simps wire_eval cong: test_congs)

lemma gl_test_swap_buffers_with_bogus_context_errors_passes: "gl_test_swap_buffers_with_bogus_context_errors = Some ()"
  by (simp add: test_defs test_simps wire_eval cong: test_congs)

lemma gl_test_delete_buffer_removes_and_acks_passes: "gl_test_delete_buffer_removes_and_acks = Some ()"
  by (simp add: test_defs test_simps wire_eval cong: test_congs)

lemma gl_test_delete_buffer_with_bogus_handle_errors_passes: "gl_test_delete_buffer_with_bogus_handle_errors = Some ()"
  by (simp add: test_defs test_simps wire_eval cong: test_congs)

lemma gl_test_delete_buffer_twice_errors_on_second_passes: "gl_test_delete_buffer_twice_errors_on_second = Some ()"
  by (simp add: test_defs test_simps wire_eval cong: test_congs)

definition gl_unit_tests :: "test list" where
  "gl_unit_tests = [
    gl_test_create_context_returns_kind_ten, gl_test_make_current_after_create_returns_empty_ack,
    gl_test_gen_buffer_after_create_returns_kind_eleven,
    gl_test_make_current_with_bogus_context_errors, gl_test_gen_buffer_with_bogus_context_errors,
    gl_test_out_of_namespace_opcode_errors, gl_test_swap_buffers_after_create_returns_empty_ack,
    gl_test_swap_buffers_with_bogus_context_errors, gl_test_delete_buffer_removes_and_acks,
    gl_test_delete_buffer_with_bogus_handle_errors, gl_test_delete_buffer_twice_errors_on_second]"

lemma gl_unit_tests_pass: "list_all (\<lambda>t. t = Some ()) gl_unit_tests"
  by (simp add: gl_unit_tests_def
      gl_test_create_context_returns_kind_ten_passes
      gl_test_make_current_after_create_returns_empty_ack_passes
      gl_test_gen_buffer_after_create_returns_kind_eleven_passes
      gl_test_make_current_with_bogus_context_errors_passes
      gl_test_gen_buffer_with_bogus_context_errors_passes
      gl_test_out_of_namespace_opcode_errors_passes
      gl_test_swap_buffers_after_create_returns_empty_ack_passes
      gl_test_swap_buffers_with_bogus_context_errors_passes
      gl_test_delete_buffer_removes_and_acks_passes
      gl_test_delete_buffer_with_bogus_handle_errors_passes
      gl_test_delete_buffer_twice_errors_on_second_passes)

subsection \<open>CUDA\<close>

definition cuda_test_ctx_create_body :: "u32 \<Rightarrow> bytes" where
  [test_defs]: "cuda_test_ctx_create_body device_ordinal =
    (let body = [] in
     let body = cuda_CtxCreateRequest_encode \<lparr>cuda_CtxCreateRequest_device_ordinal =
       device_ordinal\<rparr> body in
     body)"

definition cuda_test_mem_alloc_body :: "Handle \<Rightarrow> u64 \<Rightarrow> bytes" where
  [test_defs]: "cuda_test_mem_alloc_body context sz =
    (let body = [] in
     let body = cuda_MemAllocRequest_encode \<lparr>cuda_MemAllocRequest_context = context,
       cuda_MemAllocRequest_size = sz\<rparr> body in
     body)"

definition cuda_test_mem_free_body :: "Handle \<Rightarrow> bytes" where
  [test_defs]: "cuda_test_mem_free_body dptr =
    (let body = [] in
     let body = cuda_MemFreeRequest_encode \<lparr>cuda_MemFreeRequest_dptr = dptr\<rparr> body in
     body)"

definition cuda_test_create_context :: "CudaBackend \<Rightarrow> (Handle \<times> CudaBackend) option" where
  [test_defs]: "cuda_test_create_context bk = do {
     let (r, bk) = cuda_handle cuda_op_CTX_CREATE 1 (cuda_test_ctx_create_body 0) bk;
     resp \<leftarrow> ok r;
     x \<leftarrow> ok (cuda_CtxCreateResponse_decode resp);
     Some (cuda_CtxCreateResponse_context x, bk)
   }"

definition cuda_test_alloc_one :: "CudaBackend \<Rightarrow> (Handle \<times> CudaBackend) option" where
  [test_defs]: "cuda_test_alloc_one bk = do {
     (context, bk) \<leftarrow> cuda_test_create_context bk;
     let (r, bk) = cuda_handle cuda_op_MEM_ALLOC 2 (cuda_test_mem_alloc_body context 4096) bk;
     resp \<leftarrow> ok r;
     x1 \<leftarrow> ok (cuda_MemAllocResponse_decode resp);
     Some (cuda_MemAllocResponse_dptr x1, bk)
   }"

definition cuda_test_ctx_create_returns_kind_twenty :: test where
  [test_defs]: "cuda_test_ctx_create_returns_kind_twenty = do {
     let bk = cuda_new;
     let (r, bk) = cuda_handle cuda_op_CTX_CREATE 1 (cuda_test_ctx_create_body 3) bk;
     resp \<leftarrow> ok r;
     decoded \<leftarrow> ok (cuda_CtxCreateResponse_decode resp);
     assert_eq (handle_kind (cuda_CtxCreateResponse_context decoded)) KIND_CUDA_CONTEXT;
     state \<leftarrow> ht_get (cuda_contexts bk) (cuda_CtxCreateResponse_context decoded);
     assert_eq (CudaCtxState_device_ordinal state) 3
   }"

definition cuda_test_mem_alloc_after_ctx_returns_kind_twenty_one :: test where
  [test_defs]: "cuda_test_mem_alloc_after_ctx_returns_kind_twenty_one = do {
     let bk = cuda_new;
     (context, bk) \<leftarrow> cuda_test_create_context bk;
     let (r, bk) = cuda_handle cuda_op_MEM_ALLOC 2 (cuda_test_mem_alloc_body context 1024) bk;
     resp \<leftarrow> ok r;
     decoded \<leftarrow> ok (cuda_MemAllocResponse_decode resp);
     assert_eq (handle_kind (cuda_MemAllocResponse_dptr decoded)) KIND_CUDA_DEVICE_PTR;
     state \<leftarrow> ht_get (cuda_allocations bk) (cuda_MemAllocResponse_dptr decoded);
     assert_eq (handle_raw (CudaMemState_context state)) (handle_raw context);
     assert_eq (CudaMemState_size state) 1024
   }"

definition cuda_test_mem_alloc_with_bogus_context_errors :: test where
  [test_defs]: "cuda_test_mem_alloc_with_bogus_context_errors = do {
     let bk = cuda_new;
     let bogus = handle_new KIND_CUDA_CONTEXT 0 999;
     let (r, bk) = cuda_handle cuda_op_MEM_ALLOC 1 (cuda_test_mem_alloc_body bogus 1024) bk;
     err \<leftarrow> err_of r;
     assert (case err of UnknownOpcode _ \<Rightarrow> True | _ \<Rightarrow> False)
   }"

definition cuda_test_mem_free_of_live_dptr_succeeds :: test where
  [test_defs]: "cuda_test_mem_free_of_live_dptr_succeeds = do {
     let bk = cuda_new;
     (dptr, bk) \<leftarrow> cuda_test_alloc_one bk;
     let (r, bk) = cuda_handle cuda_op_MEM_FREE 3 (cuda_test_mem_free_body dptr) bk;
     resp \<leftarrow> ok r;
     assert (resp = []);
     assert (ht_get (cuda_allocations bk) dptr = None)
   }"

definition cuda_test_mem_free_of_bogus_dptr_errors :: test where
  [test_defs]: "cuda_test_mem_free_of_bogus_dptr_errors = do {
     let bk = cuda_new;
     let bogus = handle_new KIND_CUDA_DEVICE_PTR 0 999;
     let (r, bk) = cuda_handle cuda_op_MEM_FREE 1 (cuda_test_mem_free_body bogus) bk;
     err \<leftarrow> err_of r;
     assert (case err of UnknownOpcode _ \<Rightarrow> True | _ \<Rightarrow> False)
   }"

definition cuda_test_mem_free_of_already_freed_dptr_errors :: test where
  [test_defs]: "cuda_test_mem_free_of_already_freed_dptr_errors = do {
     let bk = cuda_new;
     (dptr, bk) \<leftarrow> cuda_test_alloc_one bk;
     let (r, bk) = cuda_handle cuda_op_MEM_FREE 3 (cuda_test_mem_free_body dptr) bk;
     x2 \<leftarrow> ok r;
     let (r, bk) = cuda_handle cuda_op_MEM_FREE 4 (cuda_test_mem_free_body dptr) bk;
     err \<leftarrow> err_of r;
     assert (case err of UnknownOpcode _ \<Rightarrow> True | _ \<Rightarrow> False)
   }"

definition cuda_test_out_of_namespace_opcode_errors :: test where
  [test_defs]: "cuda_test_out_of_namespace_opcode_errors = do {
     let bk = cuda_new;
     let (r, bk) = cuda_handle 0 1 [] bk;
     err \<leftarrow> err_of r;
     assert (case err of UnknownOpcode c \<Rightarrow> c = 0 | _ \<Rightarrow> False)
   }"

lemmas cuda_test_eval [test_simps] = cuda_handle_def cuda_arm_defs cuda_new_def

lemma cuda_test_ctx_create_returns_kind_twenty_passes: "cuda_test_ctx_create_returns_kind_twenty = Some ()"
  by (simp add: test_defs test_simps wire_eval cong: test_congs)

lemma cuda_test_mem_alloc_after_ctx_returns_kind_twenty_one_passes: "cuda_test_mem_alloc_after_ctx_returns_kind_twenty_one = Some ()"
  by (simp add: test_defs test_simps wire_eval cong: test_congs)

lemma cuda_test_mem_alloc_with_bogus_context_errors_passes: "cuda_test_mem_alloc_with_bogus_context_errors = Some ()"
  by (simp add: test_defs test_simps wire_eval cong: test_congs)

lemma cuda_test_mem_free_of_live_dptr_succeeds_passes: "cuda_test_mem_free_of_live_dptr_succeeds = Some ()"
  by (simp add: test_defs test_simps wire_eval cong: test_congs)

lemma cuda_test_mem_free_of_bogus_dptr_errors_passes: "cuda_test_mem_free_of_bogus_dptr_errors = Some ()"
  by (simp add: test_defs test_simps wire_eval cong: test_congs)

lemma cuda_test_mem_free_of_already_freed_dptr_errors_passes: "cuda_test_mem_free_of_already_freed_dptr_errors = Some ()"
  by (simp add: test_defs test_simps wire_eval cong: test_congs)

lemma cuda_test_out_of_namespace_opcode_errors_passes: "cuda_test_out_of_namespace_opcode_errors = Some ()"
  by (simp add: test_defs test_simps wire_eval cong: test_congs)

definition cuda_unit_tests :: "test list" where
  "cuda_unit_tests = [
    cuda_test_ctx_create_returns_kind_twenty, cuda_test_mem_alloc_after_ctx_returns_kind_twenty_one,
    cuda_test_mem_alloc_with_bogus_context_errors, cuda_test_mem_free_of_live_dptr_succeeds,
    cuda_test_mem_free_of_bogus_dptr_errors, cuda_test_mem_free_of_already_freed_dptr_errors,
    cuda_test_out_of_namespace_opcode_errors]"

lemma cuda_unit_tests_pass: "list_all (\<lambda>t. t = Some ()) cuda_unit_tests"
  by (simp add: cuda_unit_tests_def
      cuda_test_ctx_create_returns_kind_twenty_passes
      cuda_test_mem_alloc_after_ctx_returns_kind_twenty_one_passes
      cuda_test_mem_alloc_with_bogus_context_errors_passes
      cuda_test_mem_free_of_live_dptr_succeeds_passes cuda_test_mem_free_of_bogus_dptr_errors_passes
      cuda_test_mem_free_of_already_freed_dptr_errors_passes
      cuda_test_out_of_namespace_opcode_errors_passes)

subsection \<open>HIP\<close>

definition hip_test_malloc_body :: "u64 \<Rightarrow> bytes" where
  [test_defs]: "hip_test_malloc_body sz =
    (let body = [] in
     let body = hip_MallocRequest_encode \<lparr>hip_MallocRequest_size = sz\<rparr> body in
     body)"

definition hip_test_free_body :: "Handle \<Rightarrow> bytes" where
  [test_defs]: "hip_test_free_body dptr =
    (let body = [] in
     let body = hip_FreeRequest_encode \<lparr>hip_FreeRequest_dptr = dptr\<rparr> body in
     body)"

definition hip_test_alloc_one :: "HipBackend \<Rightarrow> (Handle \<times> HipBackend) option" where
  [test_defs]: "hip_test_alloc_one bk = do {
     let (r, bk) = hip_handle hip_op_MALLOC 1 (hip_test_malloc_body 4096) bk;
     resp \<leftarrow> ok r;
     x \<leftarrow> ok (hip_MallocResponse_decode resp);
     Some (hip_MallocResponse_dptr x, bk)
   }"

definition hip_test_malloc_returns_kind_thirty :: test where
  [test_defs]: "hip_test_malloc_returns_kind_thirty = do {
     let bk = hip_new;
     let (r, bk) = hip_handle hip_op_MALLOC 1 (hip_test_malloc_body 1024) bk;
     resp \<leftarrow> ok r;
     decoded \<leftarrow> ok (hip_MallocResponse_decode resp);
     assert_eq (handle_kind (hip_MallocResponse_dptr decoded)) KIND_HIP_DEVICE_PTR;
     state \<leftarrow> ht_get (hip_allocations bk) (hip_MallocResponse_dptr decoded);
     assert_eq (HipMemState_size state) 1024
   }"

definition hip_test_free_of_live_dptr_succeeds :: test where
  [test_defs]: "hip_test_free_of_live_dptr_succeeds = do {
     let bk = hip_new;
     (dptr, bk) \<leftarrow> hip_test_alloc_one bk;
     let (r, bk) = hip_handle hip_op_FREE 2 (hip_test_free_body dptr) bk;
     resp \<leftarrow> ok r;
     assert (resp = []);
     assert (ht_get (hip_allocations bk) dptr = None)
   }"

definition hip_test_free_of_bogus_dptr_errors :: test where
  [test_defs]: "hip_test_free_of_bogus_dptr_errors = do {
     let bk = hip_new;
     let bogus = handle_new KIND_HIP_DEVICE_PTR 0 999;
     let (r, bk) = hip_handle hip_op_FREE 1 (hip_test_free_body bogus) bk;
     err \<leftarrow> err_of r;
     assert (case err of UnknownOpcode _ \<Rightarrow> True | _ \<Rightarrow> False)
   }"

definition hip_test_free_of_already_freed_dptr_errors :: test where
  [test_defs]: "hip_test_free_of_already_freed_dptr_errors = do {
     let bk = hip_new;
     (dptr, bk) \<leftarrow> hip_test_alloc_one bk;
     let (r, bk) = hip_handle hip_op_FREE 2 (hip_test_free_body dptr) bk;
     x1 \<leftarrow> ok r;
     let (r, bk) = hip_handle hip_op_FREE 3 (hip_test_free_body dptr) bk;
     err \<leftarrow> err_of r;
     assert (case err of UnknownOpcode _ \<Rightarrow> True | _ \<Rightarrow> False)
   }"

definition hip_test_stream_create_returns_kind_thirty_one :: test where
  [test_defs]: "hip_test_stream_create_returns_kind_thirty_one = do {
     let bk = hip_new;
     let (r, bk) = hip_handle hip_op_STREAM_CREATE 1 [] bk;
     resp \<leftarrow> ok r;
     decoded \<leftarrow> ok (hip_StreamCreateResponse_decode resp);
     assert_eq (handle_kind (hip_StreamCreateResponse_stream decoded)) KIND_HIP_STREAM;
     assert (ht_get (hip_streams bk) (hip_StreamCreateResponse_stream decoded) \<noteq> None)
   }"

definition hip_test_out_of_namespace_opcode_errors :: test where
  [test_defs]: "hip_test_out_of_namespace_opcode_errors = do {
     let bk = hip_new;
     let (r, bk) = hip_handle 0 1 [] bk;
     err \<leftarrow> err_of r;
     assert (case err of UnknownOpcode c \<Rightarrow> c = 0 | _ \<Rightarrow> False)
   }"

lemmas hip_test_eval [test_simps] = hip_handle_def hip_arm_defs hip_new_def

lemma hip_test_malloc_returns_kind_thirty_passes: "hip_test_malloc_returns_kind_thirty = Some ()"
  by (simp add: test_defs test_simps wire_eval cong: test_congs)

lemma hip_test_free_of_live_dptr_succeeds_passes: "hip_test_free_of_live_dptr_succeeds = Some ()"
  by (simp add: test_defs test_simps wire_eval cong: test_congs)

lemma hip_test_free_of_bogus_dptr_errors_passes: "hip_test_free_of_bogus_dptr_errors = Some ()"
  by (simp add: test_defs test_simps wire_eval cong: test_congs)

lemma hip_test_free_of_already_freed_dptr_errors_passes: "hip_test_free_of_already_freed_dptr_errors = Some ()"
  by (simp add: test_defs test_simps wire_eval cong: test_congs)

lemma hip_test_stream_create_returns_kind_thirty_one_passes: "hip_test_stream_create_returns_kind_thirty_one = Some ()"
  by (simp add: test_defs test_simps wire_eval cong: test_congs)

lemma hip_test_out_of_namespace_opcode_errors_passes: "hip_test_out_of_namespace_opcode_errors = Some ()"
  by (simp add: test_defs test_simps wire_eval cong: test_congs)

definition hip_unit_tests :: "test list" where
  "hip_unit_tests = [
    hip_test_malloc_returns_kind_thirty, hip_test_free_of_live_dptr_succeeds,
    hip_test_free_of_bogus_dptr_errors, hip_test_free_of_already_freed_dptr_errors,
    hip_test_stream_create_returns_kind_thirty_one, hip_test_out_of_namespace_opcode_errors]"

lemma hip_unit_tests_pass: "list_all (\<lambda>t. t = Some ()) hip_unit_tests"
  by (simp add: hip_unit_tests_def
      hip_test_malloc_returns_kind_thirty_passes hip_test_free_of_live_dptr_succeeds_passes
      hip_test_free_of_bogus_dptr_errors_passes hip_test_free_of_already_freed_dptr_errors_passes
      hip_test_stream_create_returns_kind_thirty_one_passes
      hip_test_out_of_namespace_opcode_errors_passes)

subsection \<open>OpenCL\<close>

definition cl_test_create_buffer_body :: "Handle \<Rightarrow> u64 \<Rightarrow> bytes" where
  [test_defs]: "cl_test_create_buffer_body context sz =
    (let body = [] in
     let body = cl_CreateBufferRequest_encode \<lparr>cl_CreateBufferRequest_context = context,
       cl_CreateBufferRequest_size = sz\<rparr> body in
     body)"

definition cl_test_release_buffer_body :: "Handle \<Rightarrow> bytes" where
  [test_defs]: "cl_test_release_buffer_body mem =
    (let body = [] in
     let body = cl_ReleaseBufferRequest_encode \<lparr>cl_ReleaseBufferRequest_mem = mem\<rparr>
       body in
     body)"

definition cl_test_create_context :: "ClBackend \<Rightarrow> (Handle \<times> ClBackend) option" where
  [test_defs]: "cl_test_create_context bk = do {
     let (r, bk) = cl_handle cl_op_CREATE_CONTEXT 1 [] bk;
     resp \<leftarrow> ok r;
     x \<leftarrow> ok (cl_CreateContextResponse_decode resp);
     Some (cl_CreateContextResponse_context x, bk)
   }"

definition cl_test_create_buffer_one :: "ClBackend \<Rightarrow> (Handle \<times> ClBackend) option" where
  [test_defs]: "cl_test_create_buffer_one bk = do {
     (context, bk) \<leftarrow> cl_test_create_context bk;
     let (r, bk) = cl_handle cl_op_CREATE_BUFFER 2 (cl_test_create_buffer_body context 4096) bk;
     resp \<leftarrow> ok r;
     x1 \<leftarrow> ok (cl_CreateBufferResponse_decode resp);
     Some (cl_CreateBufferResponse_mem x1, bk)
   }"

definition cl_test_create_context_returns_kind_forty :: test where
  [test_defs]: "cl_test_create_context_returns_kind_forty = do {
     let bk = cl_new;
     let (r, bk) = cl_handle cl_op_CREATE_CONTEXT 1 [] bk;
     resp \<leftarrow> ok r;
     decoded \<leftarrow> ok (cl_CreateContextResponse_decode resp);
     assert_eq (handle_kind (cl_CreateContextResponse_context decoded)) KIND_CL_CONTEXT;
     assert (ht_get (cl_contexts bk) (cl_CreateContextResponse_context decoded) \<noteq> None)
   }"

definition cl_test_create_buffer_after_context_returns_kind_forty_one :: test where
  [test_defs]: "cl_test_create_buffer_after_context_returns_kind_forty_one = do {
     let bk = cl_new;
     (context, bk) \<leftarrow> cl_test_create_context bk;
     let (r, bk) = cl_handle cl_op_CREATE_BUFFER 2 (cl_test_create_buffer_body context 1024) bk;
     resp \<leftarrow> ok r;
     decoded \<leftarrow> ok (cl_CreateBufferResponse_decode resp);
     assert_eq (handle_kind (cl_CreateBufferResponse_mem decoded)) KIND_CL_MEM;
     state \<leftarrow> ht_get (cl_buffers bk) (cl_CreateBufferResponse_mem decoded);
     assert_eq (handle_raw (ClBufState_context state)) (handle_raw context);
     assert_eq (ClBufState_size state) 1024
   }"

definition cl_test_create_buffer_with_bogus_context_errors :: test where
  [test_defs]: "cl_test_create_buffer_with_bogus_context_errors = do {
     let bk = cl_new;
     let bogus = handle_new KIND_CL_CONTEXT 0 999;
     let (r, bk) = cl_handle cl_op_CREATE_BUFFER 1 (cl_test_create_buffer_body bogus 1024) bk;
     err \<leftarrow> err_of r;
     assert (case err of UnknownOpcode _ \<Rightarrow> True | _ \<Rightarrow> False)
   }"

definition cl_test_release_buffer_of_live_mem_succeeds :: test where
  [test_defs]: "cl_test_release_buffer_of_live_mem_succeeds = do {
     let bk = cl_new;
     (mem, bk) \<leftarrow> cl_test_create_buffer_one bk;
     let (r, bk) = cl_handle cl_op_RELEASE_BUFFER 3 (cl_test_release_buffer_body mem) bk;
     resp \<leftarrow> ok r;
     assert (resp = []);
     assert (ht_get (cl_buffers bk) mem = None)
   }"

definition cl_test_release_buffer_of_bogus_mem_errors :: test where
  [test_defs]: "cl_test_release_buffer_of_bogus_mem_errors = do {
     let bk = cl_new;
     let bogus = handle_new KIND_CL_MEM 0 999;
     let (r, bk) = cl_handle cl_op_RELEASE_BUFFER 1 (cl_test_release_buffer_body bogus) bk;
     err \<leftarrow> err_of r;
     assert (case err of UnknownOpcode _ \<Rightarrow> True | _ \<Rightarrow> False)
   }"

definition cl_test_release_buffer_of_already_released_mem_errors :: test where
  [test_defs]: "cl_test_release_buffer_of_already_released_mem_errors = do {
     let bk = cl_new;
     (mem, bk) \<leftarrow> cl_test_create_buffer_one bk;
     let (r, bk) = cl_handle cl_op_RELEASE_BUFFER 3 (cl_test_release_buffer_body mem) bk;
     x2 \<leftarrow> ok r;
     let (r, bk) = cl_handle cl_op_RELEASE_BUFFER 4 (cl_test_release_buffer_body mem) bk;
     err \<leftarrow> err_of r;
     assert (case err of UnknownOpcode _ \<Rightarrow> True | _ \<Rightarrow> False)
   }"

definition cl_test_out_of_namespace_opcode_errors :: test where
  [test_defs]: "cl_test_out_of_namespace_opcode_errors = do {
     let bk = cl_new;
     let (r, bk) = cl_handle 0 1 [] bk;
     err \<leftarrow> err_of r;
     assert (case err of UnknownOpcode c \<Rightarrow> c = 0 | _ \<Rightarrow> False)
   }"

lemmas cl_test_eval [test_simps] = cl_handle_def cl_arm_defs cl_new_def

lemma cl_test_create_context_returns_kind_forty_passes: "cl_test_create_context_returns_kind_forty = Some ()"
  by (simp add: test_defs test_simps wire_eval cong: test_congs)

lemma cl_test_create_buffer_after_context_returns_kind_forty_one_passes: "cl_test_create_buffer_after_context_returns_kind_forty_one = Some ()"
  by (simp add: test_defs test_simps wire_eval cong: test_congs)

lemma cl_test_create_buffer_with_bogus_context_errors_passes: "cl_test_create_buffer_with_bogus_context_errors = Some ()"
  by (simp add: test_defs test_simps wire_eval cong: test_congs)

lemma cl_test_release_buffer_of_live_mem_succeeds_passes: "cl_test_release_buffer_of_live_mem_succeeds = Some ()"
  by (simp add: test_defs test_simps wire_eval cong: test_congs)

lemma cl_test_release_buffer_of_bogus_mem_errors_passes: "cl_test_release_buffer_of_bogus_mem_errors = Some ()"
  by (simp add: test_defs test_simps wire_eval cong: test_congs)

lemma cl_test_release_buffer_of_already_released_mem_errors_passes: "cl_test_release_buffer_of_already_released_mem_errors = Some ()"
  by (simp add: test_defs test_simps wire_eval cong: test_congs)

lemma cl_test_out_of_namespace_opcode_errors_passes: "cl_test_out_of_namespace_opcode_errors = Some ()"
  by (simp add: test_defs test_simps wire_eval cong: test_congs)

definition cl_unit_tests :: "test list" where
  "cl_unit_tests = [
    cl_test_create_context_returns_kind_forty,
    cl_test_create_buffer_after_context_returns_kind_forty_one,
    cl_test_create_buffer_with_bogus_context_errors, cl_test_release_buffer_of_live_mem_succeeds,
    cl_test_release_buffer_of_bogus_mem_errors,
    cl_test_release_buffer_of_already_released_mem_errors, cl_test_out_of_namespace_opcode_errors]"

lemma cl_unit_tests_pass: "list_all (\<lambda>t. t = Some ()) cl_unit_tests"
  by (simp add: cl_unit_tests_def
      cl_test_create_context_returns_kind_forty_passes
      cl_test_create_buffer_after_context_returns_kind_forty_one_passes
      cl_test_create_buffer_with_bogus_context_errors_passes
      cl_test_release_buffer_of_live_mem_succeeds_passes
      cl_test_release_buffer_of_bogus_mem_errors_passes
      cl_test_release_buffer_of_already_released_mem_errors_passes
      cl_test_out_of_namespace_opcode_errors_passes)

subsection \<open>Level Zero\<close>

definition l0_test_mem_alloc_body :: "Handle \<Rightarrow> u64 \<Rightarrow> bytes" where
  [test_defs]: "l0_test_mem_alloc_body context sz =
    (let body = [] in
     let body = l0_MemAllocDeviceRequest_encode \<lparr>l0_MemAllocDeviceRequest_context = context,
       l0_MemAllocDeviceRequest_size = sz\<rparr> body in
     body)"

definition l0_test_mem_free_body :: "Handle \<Rightarrow> bytes" where
  [test_defs]: "l0_test_mem_free_body ptr =
    (let body = [] in
     let body = l0_MemFreeRequest_encode \<lparr>l0_MemFreeRequest_ptr = ptr\<rparr> body in
     body)"

definition l0_test_create_context :: "L0Backend \<Rightarrow> (Handle \<times> L0Backend) option" where
  [test_defs]: "l0_test_create_context bk = do {
     let (r, bk) = l0_handle l0_op_CONTEXT_CREATE 1 [] bk;
     resp \<leftarrow> ok r;
     x \<leftarrow> ok (l0_ContextCreateResponse_decode resp);
     Some (l0_ContextCreateResponse_context x, bk)
   }"

definition l0_test_alloc_one :: "L0Backend \<Rightarrow> (Handle \<times> L0Backend) option" where
  [test_defs]: "l0_test_alloc_one bk = do {
     (context, bk) \<leftarrow> l0_test_create_context bk;
     let (r, bk) = l0_handle l0_op_MEM_ALLOC_DEVICE 2 (l0_test_mem_alloc_body context 4096) bk;
     resp \<leftarrow> ok r;
     x1 \<leftarrow> ok (l0_MemAllocDeviceResponse_decode resp);
     Some (l0_MemAllocDeviceResponse_ptr x1, bk)
   }"

definition l0_test_context_create_returns_kind_fifty :: test where
  [test_defs]: "l0_test_context_create_returns_kind_fifty = do {
     let bk = l0_new;
     let (r, bk) = l0_handle l0_op_CONTEXT_CREATE 1 [] bk;
     resp \<leftarrow> ok r;
     decoded \<leftarrow> ok (l0_ContextCreateResponse_decode resp);
     assert_eq (handle_kind (l0_ContextCreateResponse_context decoded)) KIND_L0_CONTEXT;
     assert (ht_get (l0_contexts bk) (l0_ContextCreateResponse_context decoded) \<noteq> None)
   }"

definition l0_test_mem_alloc_after_context_returns_kind_fifty_one :: test where
  [test_defs]: "l0_test_mem_alloc_after_context_returns_kind_fifty_one = do {
     let bk = l0_new;
     (context, bk) \<leftarrow> l0_test_create_context bk;
     let (r, bk) = l0_handle l0_op_MEM_ALLOC_DEVICE 2 (l0_test_mem_alloc_body context 1024) bk;
     resp \<leftarrow> ok r;
     decoded \<leftarrow> ok (l0_MemAllocDeviceResponse_decode resp);
     assert_eq (handle_kind (l0_MemAllocDeviceResponse_ptr decoded)) KIND_L0_DEVICE_MEM;
     state \<leftarrow> ht_get (l0_mems bk) (l0_MemAllocDeviceResponse_ptr decoded);
     assert_eq (handle_raw (L0MemState_context state)) (handle_raw context);
     assert_eq (L0MemState_size state) 1024
   }"

definition l0_test_mem_alloc_with_bogus_context_errors :: test where
  [test_defs]: "l0_test_mem_alloc_with_bogus_context_errors = do {
     let bk = l0_new;
     let bogus = handle_new KIND_L0_CONTEXT 0 999;
     let (r, bk) = l0_handle l0_op_MEM_ALLOC_DEVICE 1 (l0_test_mem_alloc_body bogus 1024) bk;
     err \<leftarrow> err_of r;
     assert (case err of UnknownOpcode _ \<Rightarrow> True | _ \<Rightarrow> False)
   }"

definition l0_test_mem_free_of_live_ptr_succeeds :: test where
  [test_defs]: "l0_test_mem_free_of_live_ptr_succeeds = do {
     let bk = l0_new;
     (ptr, bk) \<leftarrow> l0_test_alloc_one bk;
     let (r, bk) = l0_handle l0_op_MEM_FREE 3 (l0_test_mem_free_body ptr) bk;
     resp \<leftarrow> ok r;
     assert (resp = []);
     assert (ht_get (l0_mems bk) ptr = None)
   }"

definition l0_test_mem_free_of_bogus_ptr_errors :: test where
  [test_defs]: "l0_test_mem_free_of_bogus_ptr_errors = do {
     let bk = l0_new;
     let bogus = handle_new KIND_L0_DEVICE_MEM 0 999;
     let (r, bk) = l0_handle l0_op_MEM_FREE 1 (l0_test_mem_free_body bogus) bk;
     err \<leftarrow> err_of r;
     assert (case err of UnknownOpcode _ \<Rightarrow> True | _ \<Rightarrow> False)
   }"

definition l0_test_mem_free_of_already_freed_ptr_errors :: test where
  [test_defs]: "l0_test_mem_free_of_already_freed_ptr_errors = do {
     let bk = l0_new;
     (ptr, bk) \<leftarrow> l0_test_alloc_one bk;
     let (r, bk) = l0_handle l0_op_MEM_FREE 3 (l0_test_mem_free_body ptr) bk;
     x2 \<leftarrow> ok r;
     let (r, bk) = l0_handle l0_op_MEM_FREE 4 (l0_test_mem_free_body ptr) bk;
     err \<leftarrow> err_of r;
     assert (case err of UnknownOpcode _ \<Rightarrow> True | _ \<Rightarrow> False)
   }"

definition l0_test_out_of_namespace_opcode_errors :: test where
  [test_defs]: "l0_test_out_of_namespace_opcode_errors = do {
     let bk = l0_new;
     let (r, bk) = l0_handle 0 1 [] bk;
     err \<leftarrow> err_of r;
     assert (case err of UnknownOpcode c \<Rightarrow> c = 0 | _ \<Rightarrow> False)
   }"

lemmas l0_test_eval [test_simps] = l0_handle_def l0_arm_defs l0_new_def

lemma l0_test_context_create_returns_kind_fifty_passes: "l0_test_context_create_returns_kind_fifty = Some ()"
  by (simp add: test_defs test_simps wire_eval cong: test_congs)

lemma l0_test_mem_alloc_after_context_returns_kind_fifty_one_passes: "l0_test_mem_alloc_after_context_returns_kind_fifty_one = Some ()"
  by (simp add: test_defs test_simps wire_eval cong: test_congs)

lemma l0_test_mem_alloc_with_bogus_context_errors_passes: "l0_test_mem_alloc_with_bogus_context_errors = Some ()"
  by (simp add: test_defs test_simps wire_eval cong: test_congs)

lemma l0_test_mem_free_of_live_ptr_succeeds_passes: "l0_test_mem_free_of_live_ptr_succeeds = Some ()"
  by (simp add: test_defs test_simps wire_eval cong: test_congs)

lemma l0_test_mem_free_of_bogus_ptr_errors_passes: "l0_test_mem_free_of_bogus_ptr_errors = Some ()"
  by (simp add: test_defs test_simps wire_eval cong: test_congs)

lemma l0_test_mem_free_of_already_freed_ptr_errors_passes: "l0_test_mem_free_of_already_freed_ptr_errors = Some ()"
  by (simp add: test_defs test_simps wire_eval cong: test_congs)

lemma l0_test_out_of_namespace_opcode_errors_passes: "l0_test_out_of_namespace_opcode_errors = Some ()"
  by (simp add: test_defs test_simps wire_eval cong: test_congs)

definition l0_unit_tests :: "test list" where
  "l0_unit_tests = [
    l0_test_context_create_returns_kind_fifty,
    l0_test_mem_alloc_after_context_returns_kind_fifty_one,
    l0_test_mem_alloc_with_bogus_context_errors, l0_test_mem_free_of_live_ptr_succeeds,
    l0_test_mem_free_of_bogus_ptr_errors, l0_test_mem_free_of_already_freed_ptr_errors,
    l0_test_out_of_namespace_opcode_errors]"

lemma l0_unit_tests_pass: "list_all (\<lambda>t. t = Some ()) l0_unit_tests"
  by (simp add: l0_unit_tests_def
      l0_test_context_create_returns_kind_fifty_passes
      l0_test_mem_alloc_after_context_returns_kind_fifty_one_passes
      l0_test_mem_alloc_with_bogus_context_errors_passes
      l0_test_mem_free_of_live_ptr_succeeds_passes l0_test_mem_free_of_bogus_ptr_errors_passes
      l0_test_mem_free_of_already_freed_ptr_errors_passes
      l0_test_out_of_namespace_opcode_errors_passes)

subsection \<open>Video\<close>

definition video_test_create_session_body :: "u32 \<Rightarrow> u32 \<Rightarrow> u32 \<Rightarrow> bytes" where
  [test_defs]: "video_test_create_session_body codec width height =
    (let body = [] in
     let body = video_CreateDecodeSessionRequest_encode
       \<lparr>video_CreateDecodeSessionRequest_codec = codec,
       video_CreateDecodeSessionRequest_width = width,
       video_CreateDecodeSessionRequest_height = height\<rparr> body in
     body)"

definition video_test_decode_frame_body :: "Handle \<Rightarrow> u32 \<Rightarrow> bytes" where
  [test_defs]: "video_test_decode_frame_body session bitstream_len =
    (let body = [] in
     let body = video_DecodeFrameRequest_encode \<lparr>video_DecodeFrameRequest_session = session,
       video_DecodeFrameRequest_bitstream_len = bitstream_len\<rparr> body in
     body)"

definition video_test_destroy_session_body :: "Handle \<Rightarrow> bytes" where
  [test_defs]: "video_test_destroy_session_body session =
    (let body = [] in
     let body = video_DestroySessionRequest_encode
       \<lparr>video_DestroySessionRequest_session = session\<rparr> body in
     body)"

definition video_test_create_session :: "VideoBackend \<Rightarrow> (Handle \<times> VideoBackend) option" where
  [test_defs]: "video_test_create_session bk = do {
     let (r, bk) = video_handle video_op_CREATE_DECODE_SESSION 1
       (video_test_create_session_body 7 1920 1080) bk;
     resp \<leftarrow> ok r;
     x \<leftarrow> ok (video_CreateDecodeSessionResponse_decode resp);
     Some (video_CreateDecodeSessionResponse_session x, bk)
   }"

definition video_test_create_decode_session_returns_kind_sixty :: test where
  [test_defs]: "video_test_create_decode_session_returns_kind_sixty = do {
     let bk = video_new;
     let (r, bk) = video_handle video_op_CREATE_DECODE_SESSION 1
       (video_test_create_session_body 7 640 480) bk;
     resp \<leftarrow> ok r;
     decoded \<leftarrow> ok (video_CreateDecodeSessionResponse_decode resp);
     assert_eq (handle_kind (video_CreateDecodeSessionResponse_session decoded)) KIND_VIDEO_SESSION;
     assert (ht_get (video_sessions bk) (video_CreateDecodeSessionResponse_session decoded)
       \<noteq> None)
   }"

definition video_test_decode_frame_returns_incrementing_indices :: test where
  [test_defs]: "video_test_decode_frame_returns_incrementing_indices = do {
     let bk = video_new;
     (session, bk) \<leftarrow> video_test_create_session bk;
     let (r, bk) = video_handle video_op_DECODE_FRAME 2
       (video_test_decode_frame_body session 256) bk;
     first \<leftarrow> ok r;
     x1 \<leftarrow> ok (video_DecodeFrameResponse_decode first);
     let first_index = video_DecodeFrameResponse_frame_index x1;
     assert_eq first_index 0;
     let (r, bk) = video_handle video_op_DECODE_FRAME 3
       (video_test_decode_frame_body session 256) bk;
     second \<leftarrow> ok r;
     x1 \<leftarrow> ok (video_DecodeFrameResponse_decode second);
     let second_index = video_DecodeFrameResponse_frame_index x1;
     assert_eq second_index 1
   }"

definition video_test_decode_frame_with_bogus_session_errors :: test where
  [test_defs]: "video_test_decode_frame_with_bogus_session_errors = do {
     let bk = video_new;
     let bogus = handle_new KIND_VIDEO_SESSION 0 999;
     let (r, bk) = video_handle video_op_DECODE_FRAME 1 (video_test_decode_frame_body bogus 128) bk;
     err \<leftarrow> err_of r;
     assert (case err of UnknownOpcode _ \<Rightarrow> True | _ \<Rightarrow> False)
   }"

definition video_test_destroy_session_of_live_session_succeeds :: test where
  [test_defs]: "video_test_destroy_session_of_live_session_succeeds = do {
     let bk = video_new;
     (session, bk) \<leftarrow> video_test_create_session bk;
     let (r, bk) = video_handle video_op_DESTROY_SESSION 4
       (video_test_destroy_session_body session) bk;
     resp \<leftarrow> ok r;
     assert (resp = []);
     assert (ht_get (video_sessions bk) session = None)
   }"

definition video_test_destroy_session_of_bogus_session_errors :: test where
  [test_defs]: "video_test_destroy_session_of_bogus_session_errors = do {
     let bk = video_new;
     let bogus = handle_new KIND_VIDEO_SESSION 0 999;
     let (r, bk) = video_handle video_op_DESTROY_SESSION 1
       (video_test_destroy_session_body bogus) bk;
     err \<leftarrow> err_of r;
     assert (case err of UnknownOpcode _ \<Rightarrow> True | _ \<Rightarrow> False)
   }"

definition video_test_out_of_namespace_opcode_errors :: test where
  [test_defs]: "video_test_out_of_namespace_opcode_errors = do {
     let bk = video_new;
     let (r, bk) = video_handle 0 1 [] bk;
     err \<leftarrow> err_of r;
     assert (case err of UnknownOpcode c \<Rightarrow> c = 0 | _ \<Rightarrow> False)
   }"

lemmas video_test_eval [test_simps] = video_handle_def video_arm_defs video_new_def

lemma video_test_create_decode_session_returns_kind_sixty_passes: "video_test_create_decode_session_returns_kind_sixty = Some ()"
  by (simp add: test_defs test_simps wire_eval cong: test_congs)

lemma video_test_decode_frame_returns_incrementing_indices_passes: "video_test_decode_frame_returns_incrementing_indices = Some ()"
  by (simp add: test_defs test_simps wire_eval cong: test_congs)

lemma video_test_decode_frame_with_bogus_session_errors_passes: "video_test_decode_frame_with_bogus_session_errors = Some ()"
  by (simp add: test_defs test_simps wire_eval cong: test_congs)

lemma video_test_destroy_session_of_live_session_succeeds_passes: "video_test_destroy_session_of_live_session_succeeds = Some ()"
  by (simp add: test_defs test_simps wire_eval cong: test_congs)

lemma video_test_destroy_session_of_bogus_session_errors_passes: "video_test_destroy_session_of_bogus_session_errors = Some ()"
  by (simp add: test_defs test_simps wire_eval cong: test_congs)

lemma video_test_out_of_namespace_opcode_errors_passes: "video_test_out_of_namespace_opcode_errors = Some ()"
  by (simp add: test_defs test_simps wire_eval cong: test_congs)

definition video_unit_tests :: "test list" where
  "video_unit_tests = [
    video_test_create_decode_session_returns_kind_sixty,
    video_test_decode_frame_returns_incrementing_indices,
    video_test_decode_frame_with_bogus_session_errors,
    video_test_destroy_session_of_live_session_succeeds,
    video_test_destroy_session_of_bogus_session_errors, video_test_out_of_namespace_opcode_errors]"

lemma video_unit_tests_pass: "list_all (\<lambda>t. t = Some ()) video_unit_tests"
  by (simp add: video_unit_tests_def
      video_test_create_decode_session_returns_kind_sixty_passes
      video_test_decode_frame_returns_incrementing_indices_passes
      video_test_decode_frame_with_bogus_session_errors_passes
      video_test_destroy_session_of_live_session_succeeds_passes
      video_test_destroy_session_of_bogus_session_errors_passes
      video_test_out_of_namespace_opcode_errors_passes)

subsection \<open>WebGPU\<close>

definition wgpu_test_create_buffer_body :: "Handle \<Rightarrow> u64 \<Rightarrow> u32 \<Rightarrow> bytes" where
  [test_defs]: "wgpu_test_create_buffer_body device sz usage =
    (let body = [] in
     let body = wgpu_CreateBufferRequest_encode \<lparr>wgpu_CreateBufferRequest_device = device,
       wgpu_CreateBufferRequest_size = sz, wgpu_CreateBufferRequest_usage = usage\<rparr> body in
     body)"

definition wgpu_test_destroy_buffer_body :: "Handle \<Rightarrow> bytes" where
  [test_defs]: "wgpu_test_destroy_buffer_body buffer =
    (let body = [] in
     let body = wgpu_DestroyBufferRequest_encode
       \<lparr>wgpu_DestroyBufferRequest_buffer = buffer\<rparr> body in
     body)"

definition wgpu_test_request_device :: "WebGpuBackend \<Rightarrow> (Handle \<times> WebGpuBackend) option" where
  [test_defs]: "wgpu_test_request_device bk = do {
     let (r, bk) = wgpu_handle wgpu_op_REQUEST_DEVICE 1 [] bk;
     resp \<leftarrow> ok r;
     x \<leftarrow> ok (wgpu_RequestDeviceResponse_decode resp);
     Some (wgpu_RequestDeviceResponse_device x, bk)
   }"

definition wgpu_test_create_one_buffer :: "WebGpuBackend \<Rightarrow> (Handle \<times> WebGpuBackend) option" where
  [test_defs]: "wgpu_test_create_one_buffer bk = do {
     (device, bk) \<leftarrow> wgpu_test_request_device bk;
     let (r, bk) = wgpu_handle wgpu_op_CREATE_BUFFER 2
       (wgpu_test_create_buffer_body device 4096 0) bk;
     resp \<leftarrow> ok r;
     x1 \<leftarrow> ok (wgpu_CreateBufferResponse_decode resp);
     Some (wgpu_CreateBufferResponse_buffer x1, bk)
   }"

definition wgpu_test_request_device_returns_kind_seventy :: test where
  [test_defs]: "wgpu_test_request_device_returns_kind_seventy = do {
     let bk = wgpu_new;
     let (r, bk) = wgpu_handle wgpu_op_REQUEST_DEVICE 1 [] bk;
     resp \<leftarrow> ok r;
     decoded \<leftarrow> ok (wgpu_RequestDeviceResponse_decode resp);
     assert_eq (handle_kind (wgpu_RequestDeviceResponse_device decoded)) KIND_WGPU_DEVICE;
     assert (ht_get (wgpu_devices bk) (wgpu_RequestDeviceResponse_device decoded) \<noteq> None)
   }"

definition wgpu_test_create_buffer_after_device_returns_kind_seventy_one :: test where
  [test_defs]: "wgpu_test_create_buffer_after_device_returns_kind_seventy_one = do {
     let bk = wgpu_new;
     (device, bk) \<leftarrow> wgpu_test_request_device bk;
     let (r, bk) = wgpu_handle wgpu_op_CREATE_BUFFER 2
       (wgpu_test_create_buffer_body device 1024 8) bk;
     resp \<leftarrow> ok r;
     decoded \<leftarrow> ok (wgpu_CreateBufferResponse_decode resp);
     assert_eq (handle_kind (wgpu_CreateBufferResponse_buffer decoded)) KIND_WGPU_BUFFER;
     state \<leftarrow> ht_get (wgpu_buffers bk) (wgpu_CreateBufferResponse_buffer decoded);
     assert_eq (handle_raw (WgpuBufState_device state)) (handle_raw device);
     assert_eq (WgpuBufState_size state) 1024;
     assert_eq (WgpuBufState_usage state) 8
   }"

definition wgpu_test_create_buffer_with_bogus_device_errors :: test where
  [test_defs]: "wgpu_test_create_buffer_with_bogus_device_errors = do {
     let bk = wgpu_new;
     let bogus = handle_new KIND_WGPU_DEVICE 0 999;
     let (r, bk) = wgpu_handle wgpu_op_CREATE_BUFFER 1
       (wgpu_test_create_buffer_body bogus 1024 0) bk;
     err \<leftarrow> err_of r;
     assert (case err of UnknownOpcode _ \<Rightarrow> True | _ \<Rightarrow> False)
   }"

definition wgpu_test_destroy_buffer_of_live_buffer_succeeds :: test where
  [test_defs]: "wgpu_test_destroy_buffer_of_live_buffer_succeeds = do {
     let bk = wgpu_new;
     (buffer, bk) \<leftarrow> wgpu_test_create_one_buffer bk;
     let (r, bk) = wgpu_handle wgpu_op_DESTROY_BUFFER 3 (wgpu_test_destroy_buffer_body buffer) bk;
     resp \<leftarrow> ok r;
     assert (resp = []);
     assert (ht_get (wgpu_buffers bk) buffer = None)
   }"

definition wgpu_test_destroy_buffer_of_bogus_buffer_errors :: test where
  [test_defs]: "wgpu_test_destroy_buffer_of_bogus_buffer_errors = do {
     let bk = wgpu_new;
     let bogus = handle_new KIND_WGPU_BUFFER 0 999;
     let (r, bk) = wgpu_handle wgpu_op_DESTROY_BUFFER 1 (wgpu_test_destroy_buffer_body bogus) bk;
     err \<leftarrow> err_of r;
     assert (case err of UnknownOpcode _ \<Rightarrow> True | _ \<Rightarrow> False)
   }"

definition wgpu_test_destroy_buffer_of_already_destroyed_buffer_errors :: test where
  [test_defs]: "wgpu_test_destroy_buffer_of_already_destroyed_buffer_errors = do {
     let bk = wgpu_new;
     (buffer, bk) \<leftarrow> wgpu_test_create_one_buffer bk;
     let (r, bk) = wgpu_handle wgpu_op_DESTROY_BUFFER 3 (wgpu_test_destroy_buffer_body buffer) bk;
     x2 \<leftarrow> ok r;
     let (r, bk) = wgpu_handle wgpu_op_DESTROY_BUFFER 4 (wgpu_test_destroy_buffer_body buffer) bk;
     err \<leftarrow> err_of r;
     assert (case err of UnknownOpcode _ \<Rightarrow> True | _ \<Rightarrow> False)
   }"

definition wgpu_test_out_of_namespace_opcode_errors :: test where
  [test_defs]: "wgpu_test_out_of_namespace_opcode_errors = do {
     let bk = wgpu_new;
     let (r, bk) = wgpu_handle 0 1 [] bk;
     err \<leftarrow> err_of r;
     assert (case err of UnknownOpcode c \<Rightarrow> c = 0 | _ \<Rightarrow> False)
   }"

lemmas wgpu_test_eval [test_simps] = wgpu_handle_def wgpu_arm_defs wgpu_new_def

lemma wgpu_test_request_device_returns_kind_seventy_passes: "wgpu_test_request_device_returns_kind_seventy = Some ()"
  by (simp add: test_defs test_simps wire_eval cong: test_congs)

lemma wgpu_test_create_buffer_after_device_returns_kind_seventy_one_passes: "wgpu_test_create_buffer_after_device_returns_kind_seventy_one = Some ()"
  by (simp add: test_defs test_simps wire_eval cong: test_congs)

lemma wgpu_test_create_buffer_with_bogus_device_errors_passes: "wgpu_test_create_buffer_with_bogus_device_errors = Some ()"
  by (simp add: test_defs test_simps wire_eval cong: test_congs)

lemma wgpu_test_destroy_buffer_of_live_buffer_succeeds_passes: "wgpu_test_destroy_buffer_of_live_buffer_succeeds = Some ()"
  by (simp add: test_defs test_simps wire_eval cong: test_congs)

lemma wgpu_test_destroy_buffer_of_bogus_buffer_errors_passes: "wgpu_test_destroy_buffer_of_bogus_buffer_errors = Some ()"
  by (simp add: test_defs test_simps wire_eval cong: test_congs)

lemma wgpu_test_destroy_buffer_of_already_destroyed_buffer_errors_passes: "wgpu_test_destroy_buffer_of_already_destroyed_buffer_errors = Some ()"
  by (simp add: test_defs test_simps wire_eval cong: test_congs)

lemma wgpu_test_out_of_namespace_opcode_errors_passes: "wgpu_test_out_of_namespace_opcode_errors = Some ()"
  by (simp add: test_defs test_simps wire_eval cong: test_congs)

definition wgpu_unit_tests :: "test list" where
  "wgpu_unit_tests = [
    wgpu_test_request_device_returns_kind_seventy,
    wgpu_test_create_buffer_after_device_returns_kind_seventy_one,
    wgpu_test_create_buffer_with_bogus_device_errors,
    wgpu_test_destroy_buffer_of_live_buffer_succeeds,
    wgpu_test_destroy_buffer_of_bogus_buffer_errors,
    wgpu_test_destroy_buffer_of_already_destroyed_buffer_errors,
    wgpu_test_out_of_namespace_opcode_errors]"

lemma wgpu_unit_tests_pass: "list_all (\<lambda>t. t = Some ()) wgpu_unit_tests"
  by (simp add: wgpu_unit_tests_def
      wgpu_test_request_device_returns_kind_seventy_passes
      wgpu_test_create_buffer_after_device_returns_kind_seventy_one_passes
      wgpu_test_create_buffer_with_bogus_device_errors_passes
      wgpu_test_destroy_buffer_of_live_buffer_succeeds_passes
      wgpu_test_destroy_buffer_of_bogus_buffer_errors_passes
      wgpu_test_destroy_buffer_of_already_destroyed_buffer_errors_passes
      wgpu_test_out_of_namespace_opcode_errors_passes)

subsection \<open>OptiX\<close>

definition optix_test_pipeline_body :: "Handle \<Rightarrow> bytes" where
  [test_defs]: "optix_test_pipeline_body context =
    (let body = [] in
     let body = optix_PipelineCreateRequest_encode
       \<lparr>optix_PipelineCreateRequest_context = context\<rparr> body in
     body)"

definition optix_test_destroy_body :: "Handle \<Rightarrow> bytes" where
  [test_defs]: "optix_test_destroy_body handle =
    (let body = [] in
     let body = optix_DestroyRequest_encode \<lparr>optix_DestroyRequest_handle = handle\<rparr>
       body in
     body)"

definition optix_test_create_context :: "OptixBackend \<Rightarrow> (Handle \<times> OptixBackend) option" where
  [test_defs]: "optix_test_create_context bk = do {
     let (r, bk) = optix_handle optix_op_CONTEXT_CREATE 1 [] bk;
     resp \<leftarrow> ok r;
     x \<leftarrow> ok (optix_ContextCreateResponse_decode resp);
     Some (optix_ContextCreateResponse_context x, bk)
   }"

definition optix_test_create_pipeline :: "OptixBackend \<Rightarrow> (Handle \<times> OptixBackend) option" where
  [test_defs]: "optix_test_create_pipeline bk = do {
     (context, bk) \<leftarrow> optix_test_create_context bk;
     let (r, bk) = optix_handle optix_op_PIPELINE_CREATE 2 (optix_test_pipeline_body context) bk;
     resp \<leftarrow> ok r;
     x1 \<leftarrow> ok (optix_PipelineCreateResponse_decode resp);
     Some (optix_PipelineCreateResponse_pipeline x1, bk)
   }"

definition optix_test_context_create_returns_kind_eighty :: test where
  [test_defs]: "optix_test_context_create_returns_kind_eighty = do {
     let bk = optix_new;
     let (r, bk) = optix_handle optix_op_CONTEXT_CREATE 1 [] bk;
     resp \<leftarrow> ok r;
     decoded \<leftarrow> ok (optix_ContextCreateResponse_decode resp);
     assert_eq (handle_kind (optix_ContextCreateResponse_context decoded)) KIND_OPTIX_CONTEXT;
     assert (ht_get (optix_contexts bk) (optix_ContextCreateResponse_context decoded) \<noteq> None)
   }"

definition optix_test_pipeline_create_after_context_returns_kind_eighty_one :: test where
  [test_defs]: "optix_test_pipeline_create_after_context_returns_kind_eighty_one = do {
     let bk = optix_new;
     (context, bk) \<leftarrow> optix_test_create_context bk;
     let (r, bk) = optix_handle optix_op_PIPELINE_CREATE 2 (optix_test_pipeline_body context) bk;
     resp \<leftarrow> ok r;
     decoded \<leftarrow> ok (optix_PipelineCreateResponse_decode resp);
     assert_eq (handle_kind (optix_PipelineCreateResponse_pipeline decoded)) KIND_OPTIX_PIPELINE;
     state \<leftarrow> ht_get (optix_pipelines bk) (optix_PipelineCreateResponse_pipeline decoded);
     assert_eq (handle_raw (OptixPipelineState_context state)) (handle_raw context)
   }"

definition optix_test_pipeline_create_with_bogus_context_errors :: test where
  [test_defs]: "optix_test_pipeline_create_with_bogus_context_errors = do {
     let bk = optix_new;
     let bogus = handle_new KIND_OPTIX_CONTEXT 0 999;
     let (r, bk) = optix_handle optix_op_PIPELINE_CREATE 1 (optix_test_pipeline_body bogus) bk;
     err \<leftarrow> err_of r;
     assert (case err of UnknownOpcode _ \<Rightarrow> True | _ \<Rightarrow> False)
   }"

definition optix_test_destroy_of_live_context_succeeds :: test where
  [test_defs]: "optix_test_destroy_of_live_context_succeeds = do {
     let bk = optix_new;
     (context, bk) \<leftarrow> optix_test_create_context bk;
     let (r, bk) = optix_handle optix_op_DESTROY 2 (optix_test_destroy_body context) bk;
     resp \<leftarrow> ok r;
     assert (resp = []);
     assert (ht_get (optix_contexts bk) context = None)
   }"

definition optix_test_destroy_of_live_pipeline_succeeds :: test where
  [test_defs]: "optix_test_destroy_of_live_pipeline_succeeds = do {
     let bk = optix_new;
     (pipeline, bk) \<leftarrow> optix_test_create_pipeline bk;
     let (r, bk) = optix_handle optix_op_DESTROY 3 (optix_test_destroy_body pipeline) bk;
     resp \<leftarrow> ok r;
     assert (resp = []);
     assert (ht_get (optix_pipelines bk) pipeline = None)
   }"

definition optix_test_destroy_of_bogus_handle_errors :: test where
  [test_defs]: "optix_test_destroy_of_bogus_handle_errors = do {
     let bk = optix_new;
     let bogus = handle_new KIND_OPTIX_CONTEXT 0 999;
     let (r, bk) = optix_handle optix_op_DESTROY 1 (optix_test_destroy_body bogus) bk;
     err \<leftarrow> err_of r;
     assert (case err of UnknownOpcode _ \<Rightarrow> True | _ \<Rightarrow> False)
   }"

definition optix_test_destroy_of_already_destroyed_handle_errors :: test where
  [test_defs]: "optix_test_destroy_of_already_destroyed_handle_errors = do {
     let bk = optix_new;
     (context, bk) \<leftarrow> optix_test_create_context bk;
     let (r, bk) = optix_handle optix_op_DESTROY 2 (optix_test_destroy_body context) bk;
     x2 \<leftarrow> ok r;
     let (r, bk) = optix_handle optix_op_DESTROY 3 (optix_test_destroy_body context) bk;
     err \<leftarrow> err_of r;
     assert (case err of UnknownOpcode _ \<Rightarrow> True | _ \<Rightarrow> False)
   }"

definition optix_test_out_of_namespace_opcode_errors :: test where
  [test_defs]: "optix_test_out_of_namespace_opcode_errors = do {
     let bk = optix_new;
     let (r, bk) = optix_handle 0 1 [] bk;
     err \<leftarrow> err_of r;
     assert (case err of UnknownOpcode c \<Rightarrow> c = 0 | _ \<Rightarrow> False)
   }"

lemmas optix_test_eval [test_simps] = optix_handle_def optix_arm_defs optix_new_def

lemma optix_test_context_create_returns_kind_eighty_passes: "optix_test_context_create_returns_kind_eighty = Some ()"
  by (simp add: test_defs test_simps wire_eval cong: test_congs)

lemma optix_test_pipeline_create_after_context_returns_kind_eighty_one_passes: "optix_test_pipeline_create_after_context_returns_kind_eighty_one = Some ()"
  by (simp add: test_defs test_simps wire_eval cong: test_congs)

lemma optix_test_pipeline_create_with_bogus_context_errors_passes: "optix_test_pipeline_create_with_bogus_context_errors = Some ()"
  by (simp add: test_defs test_simps wire_eval cong: test_congs)

lemma optix_test_destroy_of_live_context_succeeds_passes: "optix_test_destroy_of_live_context_succeeds = Some ()"
  by (simp add: test_defs test_simps wire_eval cong: test_congs)

lemma optix_test_destroy_of_live_pipeline_succeeds_passes: "optix_test_destroy_of_live_pipeline_succeeds = Some ()"
  by (simp add: test_defs test_simps wire_eval cong: test_congs)

lemma optix_test_destroy_of_bogus_handle_errors_passes: "optix_test_destroy_of_bogus_handle_errors = Some ()"
  by (simp add: test_defs test_simps wire_eval cong: test_congs)

lemma optix_test_destroy_of_already_destroyed_handle_errors_passes: "optix_test_destroy_of_already_destroyed_handle_errors = Some ()"
  by (simp add: test_defs test_simps wire_eval cong: test_congs)

lemma optix_test_out_of_namespace_opcode_errors_passes: "optix_test_out_of_namespace_opcode_errors = Some ()"
  by (simp add: test_defs test_simps wire_eval cong: test_congs)

definition optix_unit_tests :: "test list" where
  "optix_unit_tests = [
    optix_test_context_create_returns_kind_eighty,
    optix_test_pipeline_create_after_context_returns_kind_eighty_one,
    optix_test_pipeline_create_with_bogus_context_errors,
    optix_test_destroy_of_live_context_succeeds, optix_test_destroy_of_live_pipeline_succeeds,
    optix_test_destroy_of_bogus_handle_errors,
    optix_test_destroy_of_already_destroyed_handle_errors,
    optix_test_out_of_namespace_opcode_errors]"

lemma optix_unit_tests_pass: "list_all (\<lambda>t. t = Some ()) optix_unit_tests"
  by (simp add: optix_unit_tests_def
      optix_test_context_create_returns_kind_eighty_passes
      optix_test_pipeline_create_after_context_returns_kind_eighty_one_passes
      optix_test_pipeline_create_with_bogus_context_errors_passes
      optix_test_destroy_of_live_context_succeeds_passes
      optix_test_destroy_of_live_pipeline_succeeds_passes
      optix_test_destroy_of_bogus_handle_errors_passes
      optix_test_destroy_of_already_destroyed_handle_errors_passes
      optix_test_out_of_namespace_opcode_errors_passes)

subsection \<open>SYCL\<close>

definition sycl_test_malloc_body :: "Handle \<Rightarrow> u64 \<Rightarrow> bytes" where
  [test_defs]: "sycl_test_malloc_body queue sz =
    (let body = [] in
     let body = sycl_MallocDeviceRequest_encode \<lparr>sycl_MallocDeviceRequest_queue = queue,
       sycl_MallocDeviceRequest_size = sz\<rparr> body in
     body)"

definition sycl_test_free_body :: "Handle \<Rightarrow> bytes" where
  [test_defs]: "sycl_test_free_body ptr =
    (let body = [] in
     let body = sycl_FreeRequest_encode \<lparr>sycl_FreeRequest_ptr = ptr\<rparr> body in
     body)"

definition sycl_test_create_queue :: "SyclBackend \<Rightarrow> (Handle \<times> SyclBackend) option" where
  [test_defs]: "sycl_test_create_queue bk = do {
     let (r, bk) = sycl_handle sycl_op_QUEUE_CREATE 1 [] bk;
     resp \<leftarrow> ok r;
     x \<leftarrow> ok (sycl_QueueCreateResponse_decode resp);
     Some (sycl_QueueCreateResponse_queue x, bk)
   }"

definition sycl_test_alloc_one :: "SyclBackend \<Rightarrow> (Handle \<times> SyclBackend) option" where
  [test_defs]: "sycl_test_alloc_one bk = do {
     (queue, bk) \<leftarrow> sycl_test_create_queue bk;
     let (r, bk) = sycl_handle sycl_op_MALLOC_DEVICE 2 (sycl_test_malloc_body queue 4096) bk;
     resp \<leftarrow> ok r;
     x1 \<leftarrow> ok (sycl_MallocDeviceResponse_decode resp);
     Some (sycl_MallocDeviceResponse_ptr x1, bk)
   }"

definition sycl_test_queue_create_returns_kind_ninety :: test where
  [test_defs]: "sycl_test_queue_create_returns_kind_ninety = do {
     let bk = sycl_new;
     let (r, bk) = sycl_handle sycl_op_QUEUE_CREATE 1 [] bk;
     resp \<leftarrow> ok r;
     decoded \<leftarrow> ok (sycl_QueueCreateResponse_decode resp);
     assert_eq (handle_kind (sycl_QueueCreateResponse_queue decoded)) KIND_SYCL_QUEUE;
     assert (ht_get (sycl_queues bk) (sycl_QueueCreateResponse_queue decoded) \<noteq> None)
   }"

definition sycl_test_malloc_after_queue_returns_kind_ninety_one :: test where
  [test_defs]: "sycl_test_malloc_after_queue_returns_kind_ninety_one = do {
     let bk = sycl_new;
     (queue, bk) \<leftarrow> sycl_test_create_queue bk;
     let (r, bk) = sycl_handle sycl_op_MALLOC_DEVICE 2 (sycl_test_malloc_body queue 1024) bk;
     resp \<leftarrow> ok r;
     decoded \<leftarrow> ok (sycl_MallocDeviceResponse_decode resp);
     assert_eq (handle_kind (sycl_MallocDeviceResponse_ptr decoded)) KIND_SYCL_DEVICE_PTR;
     state \<leftarrow> ht_get (sycl_ptrs bk) (sycl_MallocDeviceResponse_ptr decoded);
     assert_eq (handle_raw (SyclPtrState_queue state)) (handle_raw queue);
     assert_eq (SyclPtrState_size state) 1024
   }"

definition sycl_test_malloc_with_bogus_queue_errors :: test where
  [test_defs]: "sycl_test_malloc_with_bogus_queue_errors = do {
     let bk = sycl_new;
     let bogus = handle_new KIND_SYCL_QUEUE 0 999;
     let (r, bk) = sycl_handle sycl_op_MALLOC_DEVICE 1 (sycl_test_malloc_body bogus 1024) bk;
     err \<leftarrow> err_of r;
     assert (case err of UnknownOpcode _ \<Rightarrow> True | _ \<Rightarrow> False)
   }"

definition sycl_test_free_of_live_ptr_succeeds :: test where
  [test_defs]: "sycl_test_free_of_live_ptr_succeeds = do {
     let bk = sycl_new;
     (ptr, bk) \<leftarrow> sycl_test_alloc_one bk;
     let (r, bk) = sycl_handle sycl_op_FREE 3 (sycl_test_free_body ptr) bk;
     resp \<leftarrow> ok r;
     assert (resp = []);
     assert (ht_get (sycl_ptrs bk) ptr = None)
   }"

definition sycl_test_free_of_bogus_ptr_errors :: test where
  [test_defs]: "sycl_test_free_of_bogus_ptr_errors = do {
     let bk = sycl_new;
     let bogus = handle_new KIND_SYCL_DEVICE_PTR 0 999;
     let (r, bk) = sycl_handle sycl_op_FREE 1 (sycl_test_free_body bogus) bk;
     err \<leftarrow> err_of r;
     assert (case err of UnknownOpcode _ \<Rightarrow> True | _ \<Rightarrow> False)
   }"

definition sycl_test_free_of_already_freed_ptr_errors :: test where
  [test_defs]: "sycl_test_free_of_already_freed_ptr_errors = do {
     let bk = sycl_new;
     (ptr, bk) \<leftarrow> sycl_test_alloc_one bk;
     let (r, bk) = sycl_handle sycl_op_FREE 3 (sycl_test_free_body ptr) bk;
     x2 \<leftarrow> ok r;
     let (r, bk) = sycl_handle sycl_op_FREE 4 (sycl_test_free_body ptr) bk;
     err \<leftarrow> err_of r;
     assert (case err of UnknownOpcode _ \<Rightarrow> True | _ \<Rightarrow> False)
   }"

definition sycl_test_out_of_namespace_opcode_errors :: test where
  [test_defs]: "sycl_test_out_of_namespace_opcode_errors = do {
     let bk = sycl_new;
     let (r, bk) = sycl_handle 0 1 [] bk;
     err \<leftarrow> err_of r;
     assert (case err of UnknownOpcode c \<Rightarrow> c = 0 | _ \<Rightarrow> False)
   }"

lemmas sycl_test_eval [test_simps] = sycl_handle_def sycl_arm_defs sycl_new_def

lemma sycl_test_queue_create_returns_kind_ninety_passes: "sycl_test_queue_create_returns_kind_ninety = Some ()"
  by (simp add: test_defs test_simps wire_eval cong: test_congs)

lemma sycl_test_malloc_after_queue_returns_kind_ninety_one_passes: "sycl_test_malloc_after_queue_returns_kind_ninety_one = Some ()"
  by (simp add: test_defs test_simps wire_eval cong: test_congs)

lemma sycl_test_malloc_with_bogus_queue_errors_passes: "sycl_test_malloc_with_bogus_queue_errors = Some ()"
  by (simp add: test_defs test_simps wire_eval cong: test_congs)

lemma sycl_test_free_of_live_ptr_succeeds_passes: "sycl_test_free_of_live_ptr_succeeds = Some ()"
  by (simp add: test_defs test_simps wire_eval cong: test_congs)

lemma sycl_test_free_of_bogus_ptr_errors_passes: "sycl_test_free_of_bogus_ptr_errors = Some ()"
  by (simp add: test_defs test_simps wire_eval cong: test_congs)

lemma sycl_test_free_of_already_freed_ptr_errors_passes: "sycl_test_free_of_already_freed_ptr_errors = Some ()"
  by (simp add: test_defs test_simps wire_eval cong: test_congs)

lemma sycl_test_out_of_namespace_opcode_errors_passes: "sycl_test_out_of_namespace_opcode_errors = Some ()"
  by (simp add: test_defs test_simps wire_eval cong: test_congs)

definition sycl_unit_tests :: "test list" where
  "sycl_unit_tests = [
    sycl_test_queue_create_returns_kind_ninety,
    sycl_test_malloc_after_queue_returns_kind_ninety_one, sycl_test_malloc_with_bogus_queue_errors,
    sycl_test_free_of_live_ptr_succeeds, sycl_test_free_of_bogus_ptr_errors,
    sycl_test_free_of_already_freed_ptr_errors, sycl_test_out_of_namespace_opcode_errors]"

lemma sycl_unit_tests_pass: "list_all (\<lambda>t. t = Some ()) sycl_unit_tests"
  by (simp add: sycl_unit_tests_def
      sycl_test_queue_create_returns_kind_ninety_passes
      sycl_test_malloc_after_queue_returns_kind_ninety_one_passes
      sycl_test_malloc_with_bogus_queue_errors_passes sycl_test_free_of_live_ptr_succeeds_passes
      sycl_test_free_of_bogus_ptr_errors_passes sycl_test_free_of_already_freed_ptr_errors_passes
      sycl_test_out_of_namespace_opcode_errors_passes)

subsection \<open>AMF\<close>

definition amf_test_create_encoder_body :: "u32 \<Rightarrow> u32 \<Rightarrow> u32 \<Rightarrow> bytes" where
  [test_defs]: "amf_test_create_encoder_body codec width height =
    (let body = [] in
     let body = amf_CreateEncoderRequest_encode \<lparr>amf_CreateEncoderRequest_codec = codec,
       amf_CreateEncoderRequest_width = width, amf_CreateEncoderRequest_height = height\<rparr> body
       in
     body)"

definition amf_test_encode_frame_body :: "Handle \<Rightarrow> u32 \<Rightarrow> bytes" where
  [test_defs]: "amf_test_encode_frame_body encoder frame_len =
    (let body = [] in
     let body = amf_EncodeFrameRequest_encode \<lparr>amf_EncodeFrameRequest_encoder = encoder,
       amf_EncodeFrameRequest_frame_len = frame_len\<rparr> body in
     body)"

definition amf_test_destroy_encoder_body :: "Handle \<Rightarrow> bytes" where
  [test_defs]: "amf_test_destroy_encoder_body encoder =
    (let body = [] in
     let body = amf_DestroyEncoderRequest_encode
       \<lparr>amf_DestroyEncoderRequest_encoder = encoder\<rparr> body in
     body)"

definition amf_test_create_encoder :: "AmfBackend \<Rightarrow> (Handle \<times> AmfBackend) option" where
  [test_defs]: "amf_test_create_encoder bk = do {
     let (r, bk) = amf_handle amf_op_CREATE_ENCODER 1 (amf_test_create_encoder_body 1 1920 1080) bk;
     resp \<leftarrow> ok r;
     x \<leftarrow> ok (amf_CreateEncoderResponse_decode resp);
     Some (amf_CreateEncoderResponse_encoder x, bk)
   }"

definition amf_test_create_encoder_returns_kind_one_hundred :: test where
  [test_defs]: "amf_test_create_encoder_returns_kind_one_hundred = do {
     let bk = amf_new;
     let (r, bk) = amf_handle amf_op_CREATE_ENCODER 1 (amf_test_create_encoder_body 2 1280 720) bk;
     resp \<leftarrow> ok r;
     decoded \<leftarrow> ok (amf_CreateEncoderResponse_decode resp);
     assert_eq (handle_kind (amf_CreateEncoderResponse_encoder decoded)) KIND_AMF_ENCODER;
     state \<leftarrow> ht_get (amf_encoders bk) (amf_CreateEncoderResponse_encoder decoded);
     assert_eq (AmfEncoderState_codec state) 2;
     assert_eq (AmfEncoderState_width state) 1280;
     assert_eq (AmfEncoderState_height state) 720;
     assert_eq (AmfEncoderState_frames state) 0
   }"

definition amf_test_encode_frame_echoes_frame_len_and_bumps_counter :: test where
  [test_defs]: "amf_test_encode_frame_echoes_frame_len_and_bumps_counter = do {
     let bk = amf_new;
     (encoder, bk) \<leftarrow> amf_test_create_encoder bk;
     let (r, bk) = amf_handle amf_op_ENCODE_FRAME 2 (amf_test_encode_frame_body encoder 4096) bk;
     resp \<leftarrow> ok r;
     decoded \<leftarrow> ok (amf_EncodeFrameResponse_decode resp);
     assert_eq (amf_EncodeFrameResponse_packet_len decoded) 4096;
     let (r, bk) = amf_handle amf_op_ENCODE_FRAME 3 (amf_test_encode_frame_body encoder 8192) bk;
     resp \<leftarrow> ok r;
     decoded \<leftarrow> ok (amf_EncodeFrameResponse_decode resp);
     assert_eq (amf_EncodeFrameResponse_packet_len decoded) 8192;
     state \<leftarrow> ht_get (amf_encoders bk) encoder;
     assert_eq (AmfEncoderState_frames state) 2
   }"

definition amf_test_encode_frame_with_bogus_encoder_errors :: test where
  [test_defs]: "amf_test_encode_frame_with_bogus_encoder_errors = do {
     let bk = amf_new;
     let bogus = handle_new KIND_AMF_ENCODER 0 999;
     let (r, bk) = amf_handle amf_op_ENCODE_FRAME 1 (amf_test_encode_frame_body bogus 4096) bk;
     err \<leftarrow> err_of r;
     assert (case err of UnknownOpcode _ \<Rightarrow> True | _ \<Rightarrow> False)
   }"

definition amf_test_destroy_of_live_encoder_succeeds :: test where
  [test_defs]: "amf_test_destroy_of_live_encoder_succeeds = do {
     let bk = amf_new;
     (encoder, bk) \<leftarrow> amf_test_create_encoder bk;
     let (r, bk) = amf_handle amf_op_DESTROY_ENCODER 2 (amf_test_destroy_encoder_body encoder) bk;
     resp \<leftarrow> ok r;
     assert (resp = []);
     assert (ht_get (amf_encoders bk) encoder = None)
   }"

definition amf_test_destroy_of_bogus_encoder_errors :: test where
  [test_defs]: "amf_test_destroy_of_bogus_encoder_errors = do {
     let bk = amf_new;
     let bogus = handle_new KIND_AMF_ENCODER 0 999;
     let (r, bk) = amf_handle amf_op_DESTROY_ENCODER 1 (amf_test_destroy_encoder_body bogus) bk;
     err \<leftarrow> err_of r;
     assert (case err of UnknownOpcode _ \<Rightarrow> True | _ \<Rightarrow> False)
   }"

definition amf_test_destroy_of_already_destroyed_encoder_errors :: test where
  [test_defs]: "amf_test_destroy_of_already_destroyed_encoder_errors = do {
     let bk = amf_new;
     (encoder, bk) \<leftarrow> amf_test_create_encoder bk;
     let (r, bk) = amf_handle amf_op_DESTROY_ENCODER 2 (amf_test_destroy_encoder_body encoder) bk;
     x1 \<leftarrow> ok r;
     let (r, bk) = amf_handle amf_op_DESTROY_ENCODER 3 (amf_test_destroy_encoder_body encoder) bk;
     err \<leftarrow> err_of r;
     assert (case err of UnknownOpcode _ \<Rightarrow> True | _ \<Rightarrow> False)
   }"

definition amf_test_out_of_namespace_opcode_errors :: test where
  [test_defs]: "amf_test_out_of_namespace_opcode_errors = do {
     let bk = amf_new;
     let (r, bk) = amf_handle 0 1 [] bk;
     err \<leftarrow> err_of r;
     assert (case err of UnknownOpcode c \<Rightarrow> c = 0 | _ \<Rightarrow> False)
   }"

lemmas amf_test_eval [test_simps] = amf_handle_def amf_arm_defs amf_new_def

lemma amf_test_create_encoder_returns_kind_one_hundred_passes: "amf_test_create_encoder_returns_kind_one_hundred = Some ()"
  by (simp add: test_defs test_simps wire_eval cong: test_congs)

lemma amf_test_encode_frame_echoes_frame_len_and_bumps_counter_passes: "amf_test_encode_frame_echoes_frame_len_and_bumps_counter = Some ()"
  by (simp add: test_defs test_simps wire_eval cong: test_congs)

lemma amf_test_encode_frame_with_bogus_encoder_errors_passes: "amf_test_encode_frame_with_bogus_encoder_errors = Some ()"
  by (simp add: test_defs test_simps wire_eval cong: test_congs)

lemma amf_test_destroy_of_live_encoder_succeeds_passes: "amf_test_destroy_of_live_encoder_succeeds = Some ()"
  by (simp add: test_defs test_simps wire_eval cong: test_congs)

lemma amf_test_destroy_of_bogus_encoder_errors_passes: "amf_test_destroy_of_bogus_encoder_errors = Some ()"
  by (simp add: test_defs test_simps wire_eval cong: test_congs)

lemma amf_test_destroy_of_already_destroyed_encoder_errors_passes: "amf_test_destroy_of_already_destroyed_encoder_errors = Some ()"
  by (simp add: test_defs test_simps wire_eval cong: test_congs)

lemma amf_test_out_of_namespace_opcode_errors_passes: "amf_test_out_of_namespace_opcode_errors = Some ()"
  by (simp add: test_defs test_simps wire_eval cong: test_congs)

definition amf_unit_tests :: "test list" where
  "amf_unit_tests = [
    amf_test_create_encoder_returns_kind_one_hundred,
    amf_test_encode_frame_echoes_frame_len_and_bumps_counter,
    amf_test_encode_frame_with_bogus_encoder_errors, amf_test_destroy_of_live_encoder_succeeds,
    amf_test_destroy_of_bogus_encoder_errors, amf_test_destroy_of_already_destroyed_encoder_errors,
    amf_test_out_of_namespace_opcode_errors]"

lemma amf_unit_tests_pass: "list_all (\<lambda>t. t = Some ()) amf_unit_tests"
  by (simp add: amf_unit_tests_def
      amf_test_create_encoder_returns_kind_one_hundred_passes
      amf_test_encode_frame_echoes_frame_len_and_bumps_counter_passes
      amf_test_encode_frame_with_bogus_encoder_errors_passes
      amf_test_destroy_of_live_encoder_succeeds_passes
      amf_test_destroy_of_bogus_encoder_errors_passes
      amf_test_destroy_of_already_destroyed_encoder_errors_passes
      amf_test_out_of_namespace_opcode_errors_passes)

end
