(* ===== verification/Path_Tests.thy ===== *)
theory Path_Tests
  imports Testing Trace Load_Spec Harness Mains
begin

section \<open>The unit tests along the path of a call\<close>

text \<open>
  The modules \<open>tests\<close> of the transports, the trace, the session, the serve loop, the \<open>Client\<close> wrapper, the timer,
  the load generator, the benchmark and the fuzzer.

  A test that starts a server in a thread runs on the link of \<open>Load_Test\<close>, where the server takes its turn while the
  client waits; \<open>Threads\<close> shows that every other schedule ends in the same. The test of \<open>serve\<close> that only looks at the
  thread's result has no counterpart, as that link is the one of \<open>serve_with_metrics\<close>. Time is a clock that ticks.
\<close>

text \<open>
  An endpoint of a loopback pair as a transport. A receive that would wait for ever is an error of a
  kind that no test expects. The state is the pair, so a wrapper of one endpoint also holds the other.
\<close>

definition end_ops :: "endpoint \<Rightarrow> loopback transport" where
  [test_defs]: "end_ops e = \<lparr>t_send = loopback_send e,
     t_recv = \<lambda>net. case loopback_recv e net of Some r \<Rightarrow> r | None \<Rightarrow> (Inl IoOther, net)\<rparr>"

text \<open>\<open>Cursor::new\<close> over a buffer.\<close>

definition cursor :: "bytes \<Rightarrow> pipe" where
  [test_defs]: "cursor buf = \<lparr>pipe_input = buf, pipe_output = []\<rparr>"

text \<open>A clock that advances by one at every reading.\<close>

definition tick :: "nat clock" where
  [test_defs]: "tick c = (c, Suc c)"

text \<open>
  A thread at the other end that answers frame by frame: the steps it has left and the answers on their way. The
  client waits for each answer, so a step runs when its frame is sent; a failed assertion in it fails the send.
\<close>

definition responder_ops :: "((bytes \<Rightarrow> bytes option) list \<times> bytes list) transport" where
  [test_defs]: "responder_ops = \<lparr>
     t_send = \<lambda>frame (steps, replies). case steps of
         [] \<Rightarrow> (Inl IoBrokenPipe, [], replies)
       | f # steps \<Rightarrow> (case f frame of
             None \<Rightarrow> (Inl IoOther, steps, replies)
           | Some reply \<Rightarrow> (Inr (), steps, replies @ [reply])),
     t_recv = \<lambda>(steps, replies). case replies of
         [] \<Rightarrow> (Inl IoUnexpectedEof, steps, replies)
       | reply # replies \<Rightarrow> (Inr reply, steps, replies)\<rparr>"

subsection \<open>The loopback pair\<close>

definition loopback_test_loopback_delivers_each_direction :: test where
  [test_defs]: "loopback_test_loopback_delivers_each_direction = do {
     let net = loopback_new;
     let (r, net) = loopback_send EndA (bytes_of ''ping'') net;
     ok r;
     (r, net) \<leftarrow> loopback_recv EndB net;
     x \<leftarrow> ok r;
     assert_eq x (bytes_of ''ping'');
     let (r, net) = loopback_send EndB (bytes_of ''pong'') net;
     ok r;
     (r, net) \<leftarrow> loopback_recv EndA net;
     x \<leftarrow> ok r;
     assert_eq x (bytes_of ''pong'')
   }"

definition loopback_test_recv_errors_when_peer_dropped :: test where
  [test_defs]: "loopback_test_recv_errors_when_peer_dropped = do {
     let net = loopback_drop EndB loopback_new;
     (r, net) \<leftarrow> loopback_recv EndA net;
     assert (\<not> is_ok r)
   }"

definition loopback_test_boxed_transport_round_trips_over_loopback :: test where
  [test_defs]: "loopback_test_boxed_transport_round_trips_over_loopback = do {
     let net = loopback_new;
     let (r, net) = loopback_send EndA (bytes_of ''ping'') net;
     ok r;
     (r, net) \<leftarrow> loopback_recv EndB net;
     x \<leftarrow> ok r;
     assert_eq x (bytes_of ''ping'');
     let (r, net) = loopback_send EndB (bytes_of ''pong'') net;
     ok r;
     (r, net) \<leftarrow> loopback_recv EndA net;
     x \<leftarrow> ok r;
     assert_eq x (bytes_of ''pong'')
   }"

definition loopback_test_roundtrip_returns_echoed_frame :: test where
  [test_defs]: "loopback_test_roundtrip_returns_echoed_frame = do {
     let echo = Some;
     let (r, _) = roundtrip responder_ops (bytes_of ''request'') ([echo], []);
     reply \<leftarrow> ok r;
     assert_eq reply (bytes_of ''request'')
   }"

lemma is_ok_eval [test_simps]: "is_ok (Inr a)" "\<not> is_ok (Inl e)"
  by (simp_all add: is_ok_def)

lemmas transport_eval [test_simps] = roundtrip_def loopback_new_def loopback_send_def loopback_recv_def loopback_drop_def
  null_send_def null_recv_def vec_new_def vec_send_def vec_recv_def vec_push_inbox_def counting_new_def
  counting_send_def counting_recv_def stream_new_def stream_with_max_frame_def stream_send_def stream_recv_def
  pipe_ops_def MAX_FRAME_def from_le_to_le recording_new_def recording_send_def recording_recv_def
  recording_into_trace_def recording_into_parts_def trace_new_def trace_record_def trace_len_def
  trace_is_empty_def trace_iter_def replay_def is_request_def

lemma loopback_test_loopback_delivers_each_direction_passes: "loopback_test_loopback_delivers_each_direction = Some ()"
  by (simp add: test_defs test_simps wire_eval cong: test_congs)

lemma loopback_test_recv_errors_when_peer_dropped_passes: "loopback_test_recv_errors_when_peer_dropped = Some ()"
  by (simp add: test_defs test_simps wire_eval cong: test_congs)

lemma loopback_test_boxed_transport_round_trips_over_loopback_passes: "loopback_test_boxed_transport_round_trips_over_loopback = Some ()"
  by (simp add: test_defs test_simps wire_eval cong: test_congs)

lemma loopback_test_roundtrip_returns_echoed_frame_passes: "loopback_test_roundtrip_returns_echoed_frame = Some ()"
  by (simp add: test_defs test_simps wire_eval cong: test_congs)

definition loopback_unit_tests :: "test list" where
  "loopback_unit_tests = [
    loopback_test_loopback_delivers_each_direction, loopback_test_recv_errors_when_peer_dropped,
    loopback_test_boxed_transport_round_trips_over_loopback,
    loopback_test_roundtrip_returns_echoed_frame]"

lemma loopback_unit_tests_pass: "list_all (\<lambda>t. t = Some ()) loopback_unit_tests"
  by (simp add: loopback_unit_tests_def
      loopback_test_loopback_delivers_each_direction_passes
      loopback_test_recv_errors_when_peer_dropped_passes
      loopback_test_boxed_transport_round_trips_over_loopback_passes
      loopback_test_roundtrip_returns_echoed_frame_passes)

subsection \<open>The null transport\<close>

definition null_test_send_succeeds_for_every_frame :: test where
  [test_defs]: "null_test_send_succeeds_for_every_frame = do {
     let transport = NullTransport;
     let frames = [[], bytes_of ''first frame'', replicate 256 0xCD];
     transport \<leftarrow> for_state frames (\<lambda>frame transport. do {
       let (r, transport) = null_send frame transport;
       ok r;
       Some transport
     }) transport;
     Some ()
   }"

definition null_test_recv_reports_unexpected_eof :: test where
  [test_defs]: "null_test_recv_reports_unexpected_eof = do {
     let transport = NullTransport;
     let (r, transport) = null_recv transport;
     err \<leftarrow> err_of r;
     assert_eq err IoUnexpectedEof
   }"

lemma null_test_send_succeeds_for_every_frame_passes: "null_test_send_succeeds_for_every_frame = Some ()"
  by (simp add: test_defs test_simps wire_eval cong: test_congs del: list_simps)

lemma null_test_recv_reports_unexpected_eof_passes: "null_test_recv_reports_unexpected_eof = Some ()"
  by (simp add: test_defs test_simps wire_eval cong: test_congs)

definition null_unit_tests :: "test list" where
  "null_unit_tests = [
    null_test_send_succeeds_for_every_frame, null_test_recv_reports_unexpected_eof]"

lemma null_unit_tests_pass: "list_all (\<lambda>t. t = Some ()) null_unit_tests"
  by (simp add: null_unit_tests_def
      null_test_send_succeeds_for_every_frame_passes null_test_recv_reports_unexpected_eof_passes)

subsection \<open>The vector transport\<close>

definition vec_test_push_inbox_then_recv_returns_in_order :: test where
  [test_defs]: "vec_test_push_inbox_then_recv_returns_in_order = do {
     let transport = vec_new;
     let transport = vec_push_inbox (bytes_of ''first'') transport;
     let transport = vec_push_inbox (bytes_of ''second'') transport;
     let (r, transport) = vec_recv transport;
     x \<leftarrow> ok r;
     assert_eq x (bytes_of ''first'');
     let (r, transport) = vec_recv transport;
     x \<leftarrow> ok r;
     assert_eq x (bytes_of ''second'')
   }"

definition vec_test_recv_reports_unexpected_eof_when_empty :: test where
  [test_defs]: "vec_test_recv_reports_unexpected_eof_when_empty = do {
     let transport = vec_new;
     let (r, transport) = vec_recv transport;
     err \<leftarrow> err_of r;
     assert_eq err IoUnexpectedEof
   }"

definition vec_test_recv_drains_inbox_then_errors :: test where
  [test_defs]: "vec_test_recv_drains_inbox_then_errors = do {
     let transport = vec_new;
     let transport = vec_push_inbox (bytes_of ''only'') transport;
     let (r, transport) = vec_recv transport;
     x \<leftarrow> ok r;
     assert_eq x (bytes_of ''only'');
     let (r, transport) = vec_recv transport;
     err \<leftarrow> err_of r;
     assert_eq err IoUnexpectedEof
   }"

definition vec_test_send_records_frames_into_outbox :: test where
  [test_defs]: "vec_test_send_records_frames_into_outbox = do {
     let transport = vec_new;
     let (r, transport) = vec_send (bytes_of ''ping'') transport;
     ok r;
     let (r, transport) = vec_send (bytes_of ''second frame'') transport;
     ok r;
     assert_eq (vec_outbox transport) [bytes_of ''ping'', bytes_of ''second frame'']
   }"

definition vec_test_new_starts_with_empty_queues :: test where
  [test_defs]: "vec_test_new_starts_with_empty_queues = do {
     let transport = vec_new;
     assert (vec_outbox transport = [])
   }"

definition vec_test_send_and_recv_queues_are_independent :: test where
  [test_defs]: "vec_test_send_and_recv_queues_are_independent = do {
     let transport = vec_new;
     let (r, transport) = vec_send (bytes_of ''sent'') transport;
     ok r;
     let (r, transport) = vec_recv transport;
     err \<leftarrow> err_of r;
     assert_eq err IoUnexpectedEof;
     assert_eq (vec_outbox transport) [bytes_of ''sent'']
   }"

lemma vec_test_push_inbox_then_recv_returns_in_order_passes: "vec_test_push_inbox_then_recv_returns_in_order = Some ()"
  by (simp add: test_defs test_simps wire_eval cong: test_congs)

lemma vec_test_recv_reports_unexpected_eof_when_empty_passes: "vec_test_recv_reports_unexpected_eof_when_empty = Some ()"
  by (simp add: test_defs test_simps wire_eval cong: test_congs)

lemma vec_test_recv_drains_inbox_then_errors_passes: "vec_test_recv_drains_inbox_then_errors = Some ()"
  by (simp add: test_defs test_simps wire_eval cong: test_congs)

lemma vec_test_send_records_frames_into_outbox_passes: "vec_test_send_records_frames_into_outbox = Some ()"
  by (simp add: test_defs test_simps wire_eval cong: test_congs)

lemma vec_test_new_starts_with_empty_queues_passes: "vec_test_new_starts_with_empty_queues = Some ()"
  by (simp add: test_defs test_simps wire_eval cong: test_congs)

lemma vec_test_send_and_recv_queues_are_independent_passes: "vec_test_send_and_recv_queues_are_independent = Some ()"
  by (simp add: test_defs test_simps wire_eval cong: test_congs)

definition vec_unit_tests :: "test list" where
  "vec_unit_tests = [
    vec_test_push_inbox_then_recv_returns_in_order, vec_test_recv_reports_unexpected_eof_when_empty,
    vec_test_recv_drains_inbox_then_errors, vec_test_send_records_frames_into_outbox,
    vec_test_new_starts_with_empty_queues, vec_test_send_and_recv_queues_are_independent]"

lemma vec_unit_tests_pass: "list_all (\<lambda>t. t = Some ()) vec_unit_tests"
  by (simp add: vec_unit_tests_def
      vec_test_push_inbox_then_recv_returns_in_order_passes
      vec_test_recv_reports_unexpected_eof_when_empty_passes
      vec_test_recv_drains_inbox_then_errors_passes vec_test_send_records_frames_into_outbox_passes
      vec_test_new_starts_with_empty_queues_passes
      vec_test_send_and_recv_queues_are_independent_passes)

subsection \<open>The counting transport\<close>

definition counting_test_counts_bytes_and_frames_through_loopback :: test where
  [test_defs]: "counting_test_counts_bytes_and_frames_through_loopback = do {
     let net = loopback_new;
     let sender = counting_new net;
     let frames = [bytes_of ''ping'', bytes_of ''second frame'', replicate 100 0xAB];
     let total_bytes = word_of_nat (sum_list (map length frames));
     sender \<leftarrow> for_state frames (\<lambda>frame sender. do {
       let (r, sender) = counting_send (end_ops EndA) frame sender;
       ok r;
       Some sender
     }) sender;
     let receiver = counting_new (ct_inner sender);
     receiver \<leftarrow> for_state frames (\<lambda>expect receiver. do {
       let (r, receiver) = counting_recv (end_ops EndB) receiver;
       x \<leftarrow> ok r;
       assert_eq x expect;
       Some receiver
     }) receiver;
     assert_eq (ct_bytes_sent sender) total_bytes;
     assert_eq (ct_frames_sent sender) (word_of_nat (length frames));
     assert_eq (ct_bytes_recv sender) 0;
     assert_eq (ct_frames_recv sender) 0;
     assert_eq (ct_bytes_recv receiver) total_bytes;
     assert_eq (ct_frames_recv receiver) (word_of_nat (length frames));
     assert_eq (ct_bytes_sent receiver) 0;
     assert_eq (ct_frames_sent receiver) 0
   }"

definition counting_test_failed_send_leaves_counters_untouched :: test where
  [test_defs]: "counting_test_failed_send_leaves_counters_untouched = do {
     let net = loopback_drop EndB loopback_new;
     let sender = counting_new net;
     let (r, sender) = counting_send (end_ops EndA) (bytes_of ''unreachable'') sender;
     assert (\<not> is_ok r);
     assert_eq (ct_bytes_sent sender) 0;
     assert_eq (ct_frames_sent sender) 0
   }"

definition counting_test_into_inner_recovers_wrapped_transport :: test where
  [test_defs]: "counting_test_into_inner_recovers_wrapped_transport = do {
     let net = loopback_new;
     let sender = counting_new net;
     let (r, sender) = counting_send (end_ops EndA) (bytes_of ''hi'') sender;
     ok r;
     let net = ct_inner sender;
     let (r, net) = loopback_send EndA (bytes_of ''direct'') net;
     ok r;
     (r, net) \<leftarrow> loopback_recv EndB net;
     x \<leftarrow> ok r;
     assert_eq x (bytes_of ''hi'');
     (r, net) \<leftarrow> loopback_recv EndB net;
     x \<leftarrow> ok r;
     assert_eq x (bytes_of ''direct'')
   }"

lemma counting_test_counts_bytes_and_frames_through_loopback_passes: "counting_test_counts_bytes_and_frames_through_loopback = Some ()"
  by (simp add: test_defs test_simps wire_eval cong: test_congs del: list_simps)

lemma counting_test_failed_send_leaves_counters_untouched_passes: "counting_test_failed_send_leaves_counters_untouched = Some ()"
  by (simp add: test_defs test_simps wire_eval cong: test_congs) 

lemma counting_test_into_inner_recovers_wrapped_transport_passes: "counting_test_into_inner_recovers_wrapped_transport = Some ()"
  by (simp add: test_defs test_simps wire_eval cong: test_congs) 

definition counting_unit_tests :: "test list" where
  "counting_unit_tests = [
    counting_test_counts_bytes_and_frames_through_loopback,
    counting_test_failed_send_leaves_counters_untouched,
    counting_test_into_inner_recovers_wrapped_transport]"

lemma counting_unit_tests_pass: "list_all (\<lambda>t. t = Some ()) counting_unit_tests"
  by (simp add: counting_unit_tests_def
      counting_test_counts_bytes_and_frames_through_loopback_passes
      counting_test_failed_send_leaves_counters_untouched_passes
      counting_test_into_inner_recovers_wrapped_transport_passes)

subsection \<open>The stream transport\<close>

definition stream_test_round_trips_frames_in_order :: test where
  [test_defs]: "stream_test_round_trips_frames_in_order = do {
     let frames = [[], bytes_of ''first'', bytes_of ''second frame'', replicate 1000 0xFF];
     let writer = stream_new (cursor []);
     writer \<leftarrow> for_state frames (\<lambda>frame writer. do {
       let (r, writer) = stream_send pipe_ops frame writer;
       ok r;
       Some writer
     }) writer;
     let buf = pipe_output (st_inner writer);
     let reader = stream_new (cursor buf);
     reader \<leftarrow> for_state frames (\<lambda>expect reader. do {
       let (r, reader) = stream_recv pipe_ops reader;
       x \<leftarrow> ok r;
       assert_eq x expect;
       Some reader
     }) reader;
     Some ()
   }"

definition stream_test_rejects_oversized_declared_length :: test where
  [test_defs]: "stream_test_rejects_oversized_declared_length = do {
     let bytes = u32_to_le_bytes (MAX_FRAME + 1);
     let bytes = bytes @ bytes_of ''unused'';
     let reader = stream_new (cursor (bytes));
     let (r, reader) = stream_recv pipe_ops reader;
     err \<leftarrow> err_of r;
     assert_eq err IoInvalidData
   }"

definition stream_test_truncated_body_errors :: test where
  [test_defs]: "stream_test_truncated_body_errors = do {
     let bytes = u32_to_le_bytes 8;
     let bytes = bytes @ bytes_of ''abc'';
     let reader = stream_new (cursor (bytes));
     let (r, reader) = stream_recv pipe_ops reader;
     err \<leftarrow> err_of r;
     assert_eq err IoUnexpectedEof
   }"

definition stream_test_clean_eof_on_header_reports_unexpected_eof :: test where
  [test_defs]: "stream_test_clean_eof_on_header_reports_unexpected_eof = do {
     let reader = stream_new (cursor ([]));
     let (r, reader) = stream_recv pipe_ops reader;
     err \<leftarrow> err_of r;
     assert_eq err IoUnexpectedEof
   }"

definition stream_test_default_new_uses_max_frame :: test where
  [test_defs]: "stream_test_default_new_uses_max_frame = do {
     let at_limit = u32_to_le_bytes MAX_FRAME;
     let reader = stream_new (cursor (at_limit));
     let (r, reader) = stream_recv pipe_ops reader;
     err \<leftarrow> err_of r;
     assert_eq err IoUnexpectedEof;
     let over_limit = u32_to_le_bytes (MAX_FRAME + 1);
     let reader = stream_new (cursor (over_limit));
     let (r, reader) = stream_recv pipe_ops reader;
     err \<leftarrow> err_of r;
     assert_eq err IoInvalidData
   }"

definition stream_test_with_max_frame_rejects_larger_declared_length :: test where
  [test_defs]: "stream_test_with_max_frame_rejects_larger_declared_length = do {
     let bytes = u32_to_le_bytes 9;
     let bytes = bytes @ bytes_of ''unused body'';
     let reader = stream_with_max_frame (cursor bytes) 8;
     let (r, reader) = stream_recv pipe_ops reader;
     err \<leftarrow> err_of r;
     assert_eq err IoInvalidData
   }"

definition stream_test_with_max_frame_round_trips_within_limit :: test where
  [test_defs]: "stream_test_with_max_frame_round_trips_within_limit = do {
     let frame = bytes_of ''within'';
     let writer = stream_with_max_frame (cursor []) 8;
     let (r, writer) = stream_send pipe_ops frame writer;
     ok r;
     let buf = pipe_output (st_inner writer);
     let reader = stream_with_max_frame (cursor buf) 8;
     let (r, reader) = stream_recv pipe_ops reader;
     x \<leftarrow> ok r;
     assert_eq x frame
   }"

definition stream_test_into_inner_returns_stream :: test where
  [test_defs]: "stream_test_into_inner_returns_stream = do {
     let transport = stream_new (cursor [1, 2, 3]);
     let crs = st_inner transport;
     assert_eq (pipe_input crs) [1, 2, 3]
   }"

lemma stream_test_round_trips_frames_in_order_passes: "stream_test_round_trips_frames_in_order = Some ()"
  by (simp add: test_defs test_simps wire_eval cong: test_congs del: list_simps)

lemma stream_test_rejects_oversized_declared_length_passes: "stream_test_rejects_oversized_declared_length = Some ()"
  by (simp add: test_defs test_simps wire_eval cong: test_congs)

lemma stream_test_truncated_body_errors_passes: "stream_test_truncated_body_errors = Some ()"
  by (simp add: test_defs test_simps wire_eval cong: test_congs)

lemma stream_test_clean_eof_on_header_reports_unexpected_eof_passes: "stream_test_clean_eof_on_header_reports_unexpected_eof = Some ()"
  by (simp add: test_defs test_simps wire_eval cong: test_congs)

lemma stream_test_default_new_uses_max_frame_passes: "stream_test_default_new_uses_max_frame = Some ()"
  by (simp add: test_defs test_simps wire_eval cong: test_congs)

lemma stream_test_with_max_frame_rejects_larger_declared_length_passes: "stream_test_with_max_frame_rejects_larger_declared_length = Some ()"
  by (simp add: test_defs test_simps wire_eval cong: test_congs)

lemma stream_test_with_max_frame_round_trips_within_limit_passes: "stream_test_with_max_frame_round_trips_within_limit = Some ()"
  by (simp add: test_defs test_simps wire_eval cong: test_congs)

lemma stream_test_into_inner_returns_stream_passes: "stream_test_into_inner_returns_stream = Some ()"
  by (simp add: test_defs test_simps wire_eval cong: test_congs)

definition stream_unit_tests :: "test list" where
  "stream_unit_tests = [
    stream_test_round_trips_frames_in_order, stream_test_rejects_oversized_declared_length,
    stream_test_truncated_body_errors, stream_test_clean_eof_on_header_reports_unexpected_eof,
    stream_test_default_new_uses_max_frame,
    stream_test_with_max_frame_rejects_larger_declared_length,
    stream_test_with_max_frame_round_trips_within_limit, stream_test_into_inner_returns_stream]"

lemma stream_unit_tests_pass: "list_all (\<lambda>t. t = Some ()) stream_unit_tests"
  by (simp add: stream_unit_tests_def
      stream_test_round_trips_frames_in_order_passes
      stream_test_rejects_oversized_declared_length_passes stream_test_truncated_body_errors_passes
      stream_test_clean_eof_on_header_reports_unexpected_eof_passes
      stream_test_default_new_uses_max_frame_passes
      stream_test_with_max_frame_rejects_larger_declared_length_passes
      stream_test_with_max_frame_round_trips_within_limit_passes
      stream_test_into_inner_returns_stream_passes)

subsection \<open>Frame traces\<close>

definition trace_test_frame :: "FrameKind \<Rightarrow> u32 \<Rightarrow> bytes" where
  [test_defs]: "trace_test_frame knd req_id = (
     let header = \<lparr>fh_version = PROTOCOL_MAJOR, fh_flags = 0, fh_kind = knd, fh_opcode = 0x01000001,
       fh_req_id = req_id, fh_seq = ucast req_id, fh_body_len = 0\<rparr> in
     encode_frame header [])"

definition trace_test_new_trace_is_empty :: test where
  [test_defs]: "trace_test_new_trace_is_empty = do {
     let trace = trace_new;
     assert (trace_is_empty trace);
     assert_eq (trace_len trace) 0;
     assert_eq (length (trace_iter trace)) 0
   }"

definition trace_test_record_appends_in_order :: test where
  [test_defs]: "trace_test_record_appends_in_order = do {
     let trace = trace_new;
     let trace = trace_record (bytes_of ''first'') trace;
     let trace = trace_record (bytes_of ''second'') trace;
     let trace = trace_record (bytes_of ''third'') trace;
     assert_eq (trace_len trace) 3;
     assert (\<not> trace_is_empty trace);
     let collected = trace_iter trace;
     assert_eq collected [bytes_of ''first'', bytes_of ''second'', bytes_of ''third'']
   }"

definition trace_test_recording_transport_captures_both_directions :: test where
  [test_defs]: "trace_test_recording_transport_captures_both_directions = do {
     let rec = recording_new loopback_new;
     let (r, rec) = recording_send (end_ops EndA) (bytes_of ''req-1'') rec;
     ok r;
     let (r, rec) = recording_send (end_ops EndA) (bytes_of ''req-2'') rec;
     ok r;
     let (r, net) = loopback_send EndB (bytes_of ''resp-1'') (rt_inner rec);
     ok r;
     let rec = rec\<lparr>rt_inner := net\<rparr>;
     let (r, rec) = recording_recv (end_ops EndA) rec;
     x \<leftarrow> ok r;
     assert_eq x (bytes_of ''resp-1'');
     (r, net) \<leftarrow> loopback_recv EndB (rt_inner rec);
     x \<leftarrow> ok r;
     assert_eq x (bytes_of ''req-1'');
     let rec = rec\<lparr>rt_inner := net\<rparr>;
     (r, net) \<leftarrow> loopback_recv EndB (rt_inner rec);
     x \<leftarrow> ok r;
     assert_eq x (bytes_of ''req-2'');
     let rec = rec\<lparr>rt_inner := net\<rparr>;
     let captured = trace_iter (rt_trace rec);
     assert_eq captured [bytes_of ''req-1'', bytes_of ''req-2'', bytes_of ''resp-1'']
   }"

definition trace_test_failed_send_leaves_trace_untouched :: test where
  [test_defs]: "trace_test_failed_send_leaves_trace_untouched = do {
     let rec = recording_new (loopback_drop EndB loopback_new);
     let (r, rec) = recording_send (end_ops EndA) (bytes_of ''unreachable'') rec;
     assert (\<not> is_ok r);
     assert (trace_is_empty (rt_trace rec))
   }"

definition trace_test_into_parts_recovers_inner_and_trace :: test where
  [test_defs]: "trace_test_into_parts_recovers_inner_and_trace = do {
     let rec = recording_new loopback_new;
     let (r, rec) = recording_send (end_ops EndA) (bytes_of ''hi'') rec;
     ok r;
     let (net, trace) = recording_into_parts rec;
     assert_eq (trace_len trace) 1;
     let (r, net) = loopback_send EndA (bytes_of ''direct'') net;
     ok r;
     (r, net) \<leftarrow> loopback_recv EndB net;
     x \<leftarrow> ok r;
     assert_eq x (bytes_of ''hi'');
     (r, net) \<leftarrow> loopback_recv EndB net;
     x \<leftarrow> ok r;
     assert_eq x (bytes_of ''direct'')
   }"

definition trace_test_replay_resends_only_request_frames :: test where
  [test_defs]: "trace_test_replay_resends_only_request_frames = do {
     let trace = trace_new;
     let req_a = trace_test_frame Request 1;
     let resp = trace_test_frame Response 1;
     let req_b = trace_test_frame Request 2;
     let trace = trace_record req_a trace;
     let trace = trace_record resp trace;
     let trace = trace_record req_b trace;
     let (r, net) = replay (end_ops EndA) trace loopback_new;
     ok r;
     let net = loopback_drop EndA net;
     (r, net) \<leftarrow> loopback_recv EndB net;
     x \<leftarrow> ok r;
     assert_eq x req_a;
     (r, net) \<leftarrow> loopback_recv EndB net;
     x \<leftarrow> ok r;
     assert_eq x req_b;
     (r, net) \<leftarrow> loopback_recv EndB net;
     assert (\<not> is_ok r)
   }"

definition trace_test_replay_skips_undecodable_frames :: test where
  [test_defs]: "trace_test_replay_skips_undecodable_frames = do {
     let trace = trace_new;
     let trace = trace_record (bytes_of ''junk'') trace;
     let req = trace_test_frame Request 7;
     let trace = trace_record req trace;
     let (r, net) = replay (end_ops EndA) trace loopback_new;
     ok r;
     let net = loopback_drop EndA net;
     (r, net) \<leftarrow> loopback_recv EndB net;
     x \<leftarrow> ok r;
     assert_eq x req;
     (r, net) \<leftarrow> loopback_recv EndB net;
     assert (\<not> is_ok r)
   }"

definition trace_test_record_then_replay_round_trips_over_loopback :: test where
  [test_defs]: "trace_test_record_then_replay_round_trips_over_loopback = do {
     let rec = recording_new loopback_new;
     let req = trace_test_frame Request 42;
     let (r, rec) = recording_send (end_ops EndA) req rec;
     ok r;
     (r, net) \<leftarrow> loopback_recv EndB (rt_inner rec);
     x \<leftarrow> ok r;
     assert_eq x req;
     let rec = rec\<lparr>rt_inner := net\<rparr>;
     let trace = recording_into_trace rec;
     let (r, net) = replay (end_ops EndA) trace loopback_new;
     ok r;
     let net = loopback_drop EndA net;
     (r, net) \<leftarrow> loopback_recv EndB net;
     x \<leftarrow> ok r;
     assert_eq x req
   }"

definition trace_test_replay_empty_trace_sends_nothing :: test where
  [test_defs]: "trace_test_replay_empty_trace_sends_nothing = do {
     let trace = trace_new;
     let (r, net) = replay (end_ops EndA) trace loopback_new;
     ok r;
     let net = loopback_drop EndA net;
     (r, net) \<leftarrow> loopback_recv EndB net;
     assert (\<not> is_ok r)
   }"

definition trace_test_replay_propagates_send_error :: test where
  [test_defs]: "trace_test_replay_propagates_send_error = do {
     let trace = trace_new;
     let trace = trace_record (trace_test_frame Request 1) trace;
     let net = loopback_drop EndB loopback_new;
     let (r, net) = replay (end_ops EndA) trace net;
     assert (\<not> is_ok r)
   }"

lemma trace_test_new_trace_is_empty_passes: "trace_test_new_trace_is_empty = Some ()"
  by (simp add: test_defs test_simps wire_eval cong: test_congs)

lemma trace_test_record_appends_in_order_passes: "trace_test_record_appends_in_order = Some ()"
  by (simp add: test_defs test_simps wire_eval cong: test_congs)

lemma trace_test_recording_transport_captures_both_directions_passes: "trace_test_recording_transport_captures_both_directions = Some ()"
  by (simp add: test_defs test_simps wire_eval cong: test_congs)

lemma trace_test_failed_send_leaves_trace_untouched_passes: "trace_test_failed_send_leaves_trace_untouched = Some ()"
  by (simp add: test_defs test_simps wire_eval cong: test_congs)

lemma trace_test_into_parts_recovers_inner_and_trace_passes: "trace_test_into_parts_recovers_inner_and_trace = Some ()"
  by (simp add: test_defs test_simps wire_eval cong: test_congs)

lemma trace_test_replay_resends_only_request_frames_passes: "trace_test_replay_resends_only_request_frames = Some ()"
  by (simp add: test_defs test_simps wire_eval cong: test_congs)

lemma trace_test_replay_skips_undecodable_frames_passes: "trace_test_replay_skips_undecodable_frames = Some ()"
  by (simp add: test_defs test_simps wire_eval cong: test_congs)

lemma trace_test_record_then_replay_round_trips_over_loopback_passes: "trace_test_record_then_replay_round_trips_over_loopback = Some ()"
  by (simp add: test_defs test_simps wire_eval cong: test_congs)

lemma trace_test_replay_empty_trace_sends_nothing_passes: "trace_test_replay_empty_trace_sends_nothing = Some ()"
  by (simp add: test_defs test_simps wire_eval cong: test_congs)

lemma trace_test_replay_propagates_send_error_passes: "trace_test_replay_propagates_send_error = Some ()"
  by (simp add: test_defs test_simps wire_eval cong: test_congs)

definition trace_unit_tests :: "test list" where
  "trace_unit_tests = [
    trace_test_new_trace_is_empty, trace_test_record_appends_in_order,
    trace_test_recording_transport_captures_both_directions,
    trace_test_failed_send_leaves_trace_untouched, trace_test_into_parts_recovers_inner_and_trace,
    trace_test_replay_resends_only_request_frames, trace_test_replay_skips_undecodable_frames,
    trace_test_record_then_replay_round_trips_over_loopback,
    trace_test_replay_empty_trace_sends_nothing, trace_test_replay_propagates_send_error]"

lemma trace_unit_tests_pass: "list_all (\<lambda>t. t = Some ()) trace_unit_tests"
  by (simp add: trace_unit_tests_def
      trace_test_new_trace_is_empty_passes trace_test_record_appends_in_order_passes
      trace_test_recording_transport_captures_both_directions_passes
      trace_test_failed_send_leaves_trace_untouched_passes
      trace_test_into_parts_recovers_inner_and_trace_passes
      trace_test_replay_resends_only_request_frames_passes
      trace_test_replay_skips_undecodable_frames_passes
      trace_test_record_then_replay_round_trips_over_loopback_passes
      trace_test_replay_empty_trace_sends_nothing_passes
      trace_test_replay_propagates_send_error_passes)

subsection \<open>The session\<close>

definition session_test_hello_frame :: bytes where
  [test_defs]: "session_test_hello_frame = (
     let hello = \<lparr>hello_proto_major = PROTOCOL_MAJOR, hello_proto_minor = PROTOCOL_MINOR, hello_features = 0,
       hello_max_frame_body = DEFAULT_MAX_FRAME_BODY\<rparr> in
     let body = hello_encode hello [] in
     let header = \<lparr>fh_version = PROTOCOL_MAJOR, fh_flags = 0, fh_kind = Request, fh_opcode = core_op_HELLO,
       fh_req_id = 1, fh_seq = 1, fh_body_len = word_of_nat (length body)\<rparr> in
     encode_frame header body)"

definition session_test_request_frame_body :: "u32 \<Rightarrow> bytes \<Rightarrow> bytes" where
  [test_defs]: "session_test_request_frame_body opc body = (
     let header = \<lparr>fh_version = PROTOCOL_MAJOR, fh_flags = 0, fh_kind = Request, fh_opcode = opc,
       fh_req_id = 7, fh_seq = 1, fh_body_len = word_of_nat (length body)\<rparr> in
     encode_frame header body)"

definition session_test_request_frame :: "u32 \<Rightarrow> bytes" where
  [test_defs]: "session_test_request_frame opc = session_test_request_frame_body opc []"

definition session_test_hello_yields_welcome :: test where
  [test_defs]: "session_test_hello_yields_welcome = do {
     let s = session_new 0x1234;
     let (r, s) = session_handle session_test_hello_frame s;
     reply \<leftarrow> ok r;
     (h, b) \<leftarrow> ok (decode_frame reply);
     assert_eq (fh_opcode h) core_op_WELCOME;
     assert_eq (fh_kind h) Response;
     w \<leftarrow> ok (welcome_decode b);
     assert_eq (welcome_session_id w) 0x1234;
     assert (session_is_handshook s)
   }"

definition session_test_registered_backend_creates_instance_then_one_device :: test where
  [test_defs]: "session_test_registered_backend_creates_instance_then_one_device = do {
     let s = session_new 1;
     let s = session_register (BoxVulkanBackend vk_new) s;
     let create_body = vk_CreateInstanceRequest_encode \<lparr>vk_CreateInstanceRequest_app_api_version = 0\<rparr> [];
     let create_frame = session_test_request_frame_body vk_op_CREATE_INSTANCE create_body;
     let (r, s) = session_handle create_frame s;
     create_reply \<leftarrow> ok r;
     (ch, cb) \<leftarrow> ok (decode_frame create_reply);
     assert_eq (fh_opcode ch) vk_op_CREATE_INSTANCE;
     assert_eq (fh_kind ch) Response;
     x \<leftarrow> ok (vk_CreateInstanceResponse_decode cb);
     let instance = vk_CreateInstanceResponse_instance x;
     let enum_body = vk_EnumeratePhysicalDevicesRequest_encode
       \<lparr>vk_EnumeratePhysicalDevicesRequest_instance = instance\<rparr> [];
     let enum_frame = session_test_request_frame_body vk_op_ENUMERATE_PHYSICAL_DEVICES enum_body;
     let (r, s) = session_handle enum_frame s;
     reply \<leftarrow> ok r;
     (h, b) \<leftarrow> ok (decode_frame reply);
     assert_eq (fh_opcode h) vk_op_ENUMERATE_PHYSICAL_DEVICES;
     assert_eq (fh_kind h) Response;
     assert_eq (fh_req_id h) 7;
     x \<leftarrow> ok (vk_EnumeratePhysicalDevicesResponse_decode b);
     let devices = vk_EnumeratePhysicalDevicesResponse_devices x;
     assert_eq (length devices) 1
   }"

definition session_test_unregistered_api_opcode_is_unknown :: test where
  [test_defs]: "session_test_unregistered_api_opcode_is_unknown = do {
     let s = session_new 1;
     let frame = session_test_request_frame vk_op_ENUMERATE_PHYSICAL_DEVICES;
     let (r, s) = session_handle frame s;
     assert (case r of Inl (UnknownOpcode _) \<Rightarrow> True | _ \<Rightarrow> False)
   }"

definition session_test_unknown_opcode_is_rejected :: test where
  [test_defs]: "session_test_unknown_opcode_is_rejected = do {
     let s = session_new 1;
     let header = \<lparr>fh_version = PROTOCOL_MAJOR, fh_flags = 0, fh_kind = Request,
       fh_opcode = opcode Vulkan 0xFFFF, fh_req_id = 1, fh_seq = 1, fh_body_len = 0\<rparr>;
     let frame = encode_frame header [];
     let (r, s) = session_handle frame s;
     assert (case r of Inl (UnknownOpcode _) \<Rightarrow> True | _ \<Rightarrow> False)
   }"

definition session_test_body_len_mismatch_is_rejected :: test where
  [test_defs]: "session_test_body_len_mismatch_is_rejected = do {
     let header = \<lparr>fh_version = PROTOCOL_MAJOR, fh_flags = 0, fh_kind = Request,
       fh_opcode = core_op_NOOP, fh_req_id = 1, fh_seq = 1, fh_body_len = 8\<rparr>;
     let frame = encode_frame header [];
     let s = session_new 1;
     let (r, s) = session_handle frame s;
     assert (case r of Inl (BodyLenMismatch _ _) \<Rightarrow> True | _ \<Rightarrow> False)
   }"

lemmas session_eval [test_simps] = session_new_def session_register_def session_handle_def session_hello_def
  session_route_def session_reply_def session_next_seq_def session_is_handshook_def vk_handle_def vk_arm_defs vk_new_def
  vk_api_def apsnd_def map_prod_def

lemma session_test_hello_yields_welcome_passes: "session_test_hello_yields_welcome = Some ()"
  by (simp add: test_defs test_simps wire_eval cong: test_congs)

lemma session_test_registered_backend_creates_instance_then_one_device_passes: "session_test_registered_backend_creates_instance_then_one_device = Some ()"
  by (simp add: test_defs test_simps wire_eval cong: test_congs)

lemma session_test_unregistered_api_opcode_is_unknown_passes: "session_test_unregistered_api_opcode_is_unknown = Some ()"
  by (simp add: test_defs test_simps wire_eval cong: test_congs)

lemma session_test_unknown_opcode_is_rejected_passes: "session_test_unknown_opcode_is_rejected = Some ()"
  by (simp add: test_defs test_simps wire_eval cong: test_congs)

lemma session_test_body_len_mismatch_is_rejected_passes: "session_test_body_len_mismatch_is_rejected = Some ()"
  by (simp add: test_defs test_simps wire_eval cong: test_congs)

definition session_unit_tests :: "test list" where
  "session_unit_tests = [
    session_test_hello_yields_welcome,
    session_test_registered_backend_creates_instance_then_one_device,
    session_test_unregistered_api_opcode_is_unknown, session_test_unknown_opcode_is_rejected,
    session_test_body_len_mismatch_is_rejected]"

lemma session_unit_tests_pass: "list_all (\<lambda>t. t = Some ()) session_unit_tests"
  by (simp add: session_unit_tests_def
      session_test_hello_yields_welcome_passes
      session_test_registered_backend_creates_instance_then_one_device_passes
      session_test_unregistered_api_opcode_is_unknown_passes
      session_test_unknown_opcode_is_rejected_passes
      session_test_body_len_mismatch_is_rejected_passes)

subsection \<open>The serve loop\<close>

definition serve_test_api_name_maps_known_namespaces_and_falls_back :: test where
  [test_defs]: "serve_test_api_name_maps_known_namespaces_and_falls_back = do {
     assert_eq (api_name 0x00) ''core'';
     assert_eq (api_name 0x01) ''vulkan'';
     assert_eq (api_name 0x0B) ''amf'';
     for_each (map word_of_nat [0..<0x0C]) (\<lambda>api. assert_ne (api_name api) ''unknown'');
     assert_eq (api_name 0x0C) ''unknown'';
     assert_eq (api_name 0xFF) ''unknown''
   }"

definition serve_test_serve_with_metrics_records_per_api_call_counts :: test where
  [test_defs]: "serve_test_serve_with_metrics_records_per_api_call_counts = do {
     let session = session_register (BoxVulkanBackend vk_new) (session_new 0x51);
     let m = \<lparr>m_link = link_new session, m_registry = registry_new, m_served = None\<rparr>;
     let (r, m) = client_handshake metered_ops m;
     welcome \<leftarrow> ok r;
     assert_eq (welcome_session_id welcome) 0x51;
     let (r, m) = client_noop metered_ops 2 2 m;
     ok r;
     let (r, m) = client_noop metered_ops 3 3 m;
     ok r;
     let (r, m) = client_vk_create_instance metered_ops 0 4 4 m;
     instance \<leftarrow> ok r;
     let (r, m) = client_vk_enumerate_physical_devices metered_ops instance 5 5 m;
     devices \<leftarrow> ok r;
     assert_eq (length devices) 1;
     let m = drop_client m;
     let m = server_joins 1 m;
     result \<leftarrow> m_served m;
     assert (is_ok result);
     let snapshot = registry_snapshot (m_registry m);
     core \<leftarrow> snapshot ''core'';
     assert_eq (cs_calls core) 3;
     vulkan \<leftarrow> snapshot ''vulkan'';
     assert_eq (cs_calls vulkan) 2;
     assert_eq (card (dom snapshot)) 2;
     assert (0 < cs_bytes_out core);
     assert (0 < cs_bytes_in core);
     assert (0 < cs_bytes_out vulkan);
     assert (0 < cs_bytes_in vulkan)
   }"

lemmas metered_eval [test_simps] = link_new_def metered_ops_def metered_send_def metered_recv_def metered_receive_def
  metered_turn_def link_send_def server_leaves_def drop_client_def client_handshake_def client_noop_def client_exchange_def
  client_call_def check_reply_def from_protocol_def request_header_def client_vk_create_instance_def
  client_vk_enumerate_physical_devices_def expect_kind_def api_name_def clean_close_def registry_new_def registry_record_def
  registry_snapshot_def call_stats_default_def call_stats_record_def
  KIND_INSTANCE_def KIND_PHYSICAL_DEVICE_def client_vk_KIND_INSTANCE_def client_vk_KIND_PHYSICAL_DEVICE_def

lemma serve_test_api_name_maps_known_namespaces_and_falls_back_passes: "serve_test_api_name_maps_known_namespaces_and_falls_back = Some ()"
  by (simp add: test_defs test_simps upt_conv_Cons cong: test_congs)

lemma serve_test_serve_with_metrics_records_per_api_call_counts_passes: "serve_test_serve_with_metrics_records_per_api_call_counts = Some ()"
  by (simp add: test_defs test_simps wire_eval cong: test_congs)

definition serve_unit_tests :: "test list" where
  "serve_unit_tests = [
    serve_test_api_name_maps_known_namespaces_and_falls_back,
    serve_test_serve_with_metrics_records_per_api_call_counts]"

lemma serve_unit_tests_pass: "list_all (\<lambda>t. t = Some ()) serve_unit_tests"
  by (simp add: serve_unit_tests_def
      serve_test_api_name_maps_known_namespaces_and_falls_back_passes
      serve_test_serve_with_metrics_records_per_api_call_counts_passes)

subsection \<open>The timer\<close>

definition timer_test_elapsed_is_monotonic_non_decreasing :: test where
  [test_defs]: "timer_test_elapsed_is_monotonic_non_decreasing = do {
     let (timer, c) = timer_start_now tick (0 :: nat);
     let (first, c) = timer_elapsed tick timer c;
     let (second, c) = timer_elapsed tick timer c;
     assert (first \<le> second)
   }"

definition timer_test_time_call_returns_closure_value :: test where
  [test_defs]: "timer_test_time_call_returns_closure_value = do {
     let ((v, _), c) = time_call tick (\<lambda>_. 42 :: int) (0 :: nat);
     assert_eq v 42
   }"

definition timer_test_time_call_yields_a_duration :: test where
  [test_defs]: "timer_test_time_call_yields_a_duration = do {
     let ((v, duration), c) = time_call tick (\<lambda>_. ''ok'') (0 :: nat);
     assert_eq v ''ok'';
     assert (0 \<le> duration)
   }"

lemma dec_value_digits [test_simps]: "dec_value ''1000'' = 1000" "dec_value ''250'' = 250"
  by code_simp+

lemma f64_small [test_simps]: "f64_of_nat 0 = Finite 0" "f64_of_nat (Suc 0) = Finite 1" "f64_mul (Finite 0) NANOS_PER_SEC = Finite 0"
  "round_f64 0 = 0"
  by code_simp+

lemmas tool_eval [test_simps] = timer_start_now_def timer_elapsed_def time_call_def round_trip_same bench_loop_succeeds
  bench_timed_def nanos_per_op_def frames_per_sec_def fuzz_iter_def parse_iters_def parse_iterations_def parse_ops_def
  parse_usize_def is_ascii_digit_def usize_max_def

lemma timer_test_elapsed_is_monotonic_non_decreasing_passes: "timer_test_elapsed_is_monotonic_non_decreasing = Some ()"
  by (simp add: test_defs test_simps wire_eval cong: test_congs)

lemma timer_test_time_call_returns_closure_value_passes: "timer_test_time_call_returns_closure_value = Some ()"
  by (simp add: test_defs test_simps wire_eval cong: test_congs)

lemma timer_test_time_call_yields_a_duration_passes: "timer_test_time_call_yields_a_duration = Some ()"
  by (simp add: test_defs test_simps wire_eval cong: test_congs)

definition timer_unit_tests :: "test list" where
  "timer_unit_tests = [
    timer_test_elapsed_is_monotonic_non_decreasing, timer_test_time_call_returns_closure_value,
    timer_test_time_call_yields_a_duration]"

lemma timer_unit_tests_pass: "list_all (\<lambda>t. t = Some ()) timer_unit_tests"
  by (simp add: timer_unit_tests_def
      timer_test_elapsed_is_monotonic_non_decreasing_passes
      timer_test_time_call_returns_closure_value_passes
      timer_test_time_call_yields_a_duration_passes)

subsection \<open>The load generator\<close>

definition load_test_CALLS_PER_ITERATION :: u64 where
  [test_defs]: "load_test_CALLS_PER_ITERATION = 2"

definition load_test_HANDSHAKE_CALLS :: u64 where
  [test_defs]: "load_test_HANDSHAKE_CALLS = 1"

definition load_test_run_load_records_expected_call_count :: test where
  [test_defs]: "load_test_run_load_records_expected_call_count = do {
     let n = 32;
     let sum = run_load n;
     assert_eq (cs_calls sum) (load_test_HANDSHAKE_CALLS + load_test_CALLS_PER_ITERATION * word_of_nat n);
     assert (0 < cs_bytes_out sum);
     assert (0 < cs_bytes_in sum)
   }"

definition load_test_run_load_with_zero_ops_records_only_the_handshake :: test where
  [test_defs]: "load_test_run_load_with_zero_ops_records_only_the_handshake = do {
     let sum = run_load 0;
     assert_eq (cs_calls sum) load_test_HANDSHAKE_CALLS
   }"

definition load_test_drive_attributes_calls_per_api :: test where
  [test_defs]: "load_test_drive_attributes_calls_per_api = do {
     let (r, registry, c) = drive_timed tick 8 registry_new (0 :: nat);
     elapsed \<leftarrow> ok r;
     assert (0 \<le> elapsed);
     let snapshot = registry_snapshot registry;
     core \<leftarrow> snapshot ''core'';
     assert_eq (cs_calls core) load_test_HANDSHAKE_CALLS;
     vulkan \<leftarrow> snapshot ''vulkan'';
     assert_eq (cs_calls vulkan) (load_test_CALLS_PER_ITERATION * 8);
     assert_eq (card (dom snapshot)) 2
   }"

definition load_test_ops_per_sec_is_zero_when_no_time_elapsed :: test where
  [test_defs]: "load_test_ops_per_sec_is_zero_when_no_time_elapsed = do {
     let report = \<lparr>load_registry = registry_new,
       load_total = \<lparr>cs_calls = 100, cs_bytes_out = 10, cs_bytes_in = 20\<rparr>, load_elapsed = 0\<rparr>;
     assert_eq (ops_per_sec report) (Finite 0)
   }"

definition load_test_ops_per_sec_scales_with_call_count :: test where
  [test_defs]: "load_test_ops_per_sec_scales_with_call_count = do {
     let report = \<lparr>load_registry = registry_new,
       load_total = \<lparr>cs_calls = 2000, cs_bytes_out = 0, cs_bytes_in = 0\<rparr>, load_elapsed = 2 * 10 ^ 9\<rparr>;
     assert (case ops_per_sec report of Finite q \<Rightarrow> \<bar>q - 1000\<bar> < 1 / 10 ^ 6 | _ \<Rightarrow> False)
   }"

definition load_test_parse_ops_reads_a_valid_count :: test where
  [test_defs]: "load_test_parse_ops_reads_a_valid_count = do {
     assert_eq (parse_ops (Some ''1000'')) (1000, False)
   }"

definition load_test_parse_ops_falls_back_on_garbage :: test where
  [test_defs]: "load_test_parse_ops_falls_back_on_garbage = do {
     assert_eq (parse_ops (Some ''not-a-number'')) (DEFAULT_OPS, True)
   }"

definition load_test_parse_ops_defaults_when_absent :: test where
  [test_defs]: "load_test_parse_ops_defaults_when_absent = do {
     assert_eq (parse_ops None) (DEFAULT_OPS, False)
   }"

lemma load_stats:
  "run_load 32 = \<lparr>cs_calls = 65, cs_bytes_out = 2216, cs_bytes_in = 2480\<rparr>"
  "run_load 0 = \<lparr>cs_calls = 1, cs_bytes_out = 40, cs_bytes_in = 48\<rparr>"
  using load_exact [of 32] load_exact [of 0] by auto

lemma drive_stats:
  obtains registry where "drive 8 registry_new = (Inr (), registry)"
    "registry_snapshot registry = [''core'' \<mapsto> \<lparr>cs_calls = 1, cs_bytes_out = 40, cs_bytes_in = 48\<rparr>,
       ''vulkan'' \<mapsto> \<lparr>cs_calls = 16, cs_bytes_out = 544, cs_bytes_in = 608\<rparr>]"
  using load_exact [of 8] that by (fastforce simp: fun_eq_iff)

lemma rate_of_2000:
  "\<exists>q. f64_div (f64_mul (f64_of_nat 2000) NANOS_PER_SEC) (f64_of_nat 2000000000) = Finite q \<and> \<bar>q - 1000\<bar> < 1 / 10 ^ 6"
  using f64_rate(1) [of 2000000000 2000] by (fastforce simp: near_abs ulp_def)

lemma load_test_run_load_records_expected_call_count_passes: "load_test_run_load_records_expected_call_count = Some ()"
  by (simp add: test_defs test_simps load_stats cong: test_congs)

lemma load_test_run_load_with_zero_ops_records_only_the_handshake_passes: "load_test_run_load_with_zero_ops_records_only_the_handshake = Some ()"
  by (simp add: test_defs test_simps load_stats cong: test_congs)

lemma load_test_drive_attributes_calls_per_api_passes: "load_test_drive_attributes_calls_per_api = Some ()"
  by (rule drive_stats) (simp add: test_defs test_simps drive_timed_def cong: test_congs)

lemma load_test_ops_per_sec_is_zero_when_no_time_elapsed_passes: "load_test_ops_per_sec_is_zero_when_no_time_elapsed = Some ()"
  by (simp add: test_defs test_simps ops_per_sec_def cong: test_congs)

lemma load_test_ops_per_sec_scales_with_call_count_passes: "load_test_ops_per_sec_scales_with_call_count = Some ()"
  using rate_of_2000 by (auto simp: test_defs test_simps ops_per_sec_def cong: test_congs)

lemma load_test_parse_ops_reads_a_valid_count_passes: "load_test_parse_ops_reads_a_valid_count = Some ()"
  by (simp add: test_defs test_simps wire_eval cong: test_congs)

lemma load_test_parse_ops_falls_back_on_garbage_passes: "load_test_parse_ops_falls_back_on_garbage = Some ()"
  by (simp add: test_defs test_simps wire_eval cong: test_congs)

lemma load_test_parse_ops_defaults_when_absent_passes: "load_test_parse_ops_defaults_when_absent = Some ()"
  by (simp add: test_defs test_simps wire_eval cong: test_congs)

definition load_unit_tests :: "test list" where
  "load_unit_tests = [
    load_test_run_load_records_expected_call_count,
    load_test_run_load_with_zero_ops_records_only_the_handshake,
    load_test_drive_attributes_calls_per_api, load_test_ops_per_sec_is_zero_when_no_time_elapsed,
    load_test_ops_per_sec_scales_with_call_count, load_test_parse_ops_reads_a_valid_count,
    load_test_parse_ops_falls_back_on_garbage, load_test_parse_ops_defaults_when_absent]"

lemma load_unit_tests_pass: "list_all (\<lambda>t. t = Some ()) load_unit_tests"
  by (simp add: load_unit_tests_def
      load_test_run_load_records_expected_call_count_passes
      load_test_run_load_with_zero_ops_records_only_the_handshake_passes
      load_test_drive_attributes_calls_per_api_passes
      load_test_ops_per_sec_is_zero_when_no_time_elapsed_passes
      load_test_ops_per_sec_scales_with_call_count_passes
      load_test_parse_ops_reads_a_valid_count_passes
      load_test_parse_ops_falls_back_on_garbage_passes
      load_test_parse_ops_defaults_when_absent_passes)

subsection \<open>The benchmark\<close>

definition bench_test_round_trip_preserves_the_frame :: test where
  [test_defs]: "bench_test_round_trip_preserves_the_frame = do {
     let frame = representative_frame;
     decoded \<leftarrow> ok (round_trip frame);
     assert_eq decoded frame
   }"

definition bench_test_round_trip_preserves_arbitrary_versions :: test where
  [test_defs]: "bench_test_round_trip_preserves_arbitrary_versions = do {
     for_each [0, 1, 0x00403000, - 1] (\<lambda>app_api_version. do {
       let frame = \<lparr>vk_CreateInstanceRequest_app_api_version = app_api_version\<rparr>;
       decoded \<leftarrow> ok (round_trip frame);
       assert_eq decoded frame
     })
   }"

definition bench_test_bench_reports_the_requested_iteration_count :: test where
  [test_defs]: "bench_test_bench_reports_the_requested_iteration_count = do {
     let (r, c) = bench_timed tick 16 (0 :: nat);
     report \<leftarrow> ok r;
     assert_eq (bench_iterations report) 16
   }"

definition bench_test_zero_iterations_yields_finite_metrics :: test where
  [test_defs]: "bench_test_zero_iterations_yields_finite_metrics = do {
     let (r, c) = bench_timed tick 0 (0 :: nat);
     report \<leftarrow> ok r;
     assert_eq (bench_iterations report) 0;
     assert_eq (nanos_per_op report) (Finite 0);
     assert_eq (frames_per_sec report) (Finite 0)
   }"

definition bench_test_parse_iterations_reads_a_valid_count :: test where
  [test_defs]: "bench_test_parse_iterations_reads_a_valid_count = do {
     assert_eq (parse_iterations (Some ''1000'')) (1000, False)
   }"

definition bench_test_parse_iterations_falls_back_on_garbage :: test where
  [test_defs]: "bench_test_parse_iterations_falls_back_on_garbage = do {
     assert_eq (parse_iterations (Some ''not-a-number'')) (DEFAULT_ITERATIONS, True)
   }"

definition bench_test_parse_iterations_defaults_when_absent :: test where
  [test_defs]: "bench_test_parse_iterations_defaults_when_absent = do {
     assert_eq (parse_iterations None) (DEFAULT_ITERATIONS, False)
   }"

lemma bench_test_round_trip_preserves_the_frame_passes: "bench_test_round_trip_preserves_the_frame = Some ()"
  by (simp add: test_defs test_simps wire_eval cong: test_congs)

lemma bench_test_round_trip_preserves_arbitrary_versions_passes: "bench_test_round_trip_preserves_arbitrary_versions = Some ()"
  by (simp add: test_defs test_simps wire_eval cong: test_congs)

lemma bench_test_bench_reports_the_requested_iteration_count_passes: "bench_test_bench_reports_the_requested_iteration_count = Some ()"
  by (simp add: test_defs test_simps wire_eval cong: test_congs)

lemma bench_test_zero_iterations_yields_finite_metrics_passes: "bench_test_zero_iterations_yields_finite_metrics = Some ()"
  by (simp add: test_defs test_simps wire_eval cong: test_congs)

lemma bench_test_parse_iterations_reads_a_valid_count_passes: "bench_test_parse_iterations_reads_a_valid_count = Some ()"
  by (simp add: test_defs test_simps wire_eval cong: test_congs)

lemma bench_test_parse_iterations_falls_back_on_garbage_passes: "bench_test_parse_iterations_falls_back_on_garbage = Some ()"
  by (simp add: test_defs test_simps wire_eval cong: test_congs)

lemma bench_test_parse_iterations_defaults_when_absent_passes: "bench_test_parse_iterations_defaults_when_absent = Some ()"
  by (simp add: test_defs test_simps wire_eval cong: test_congs)

definition bench_unit_tests :: "test list" where
  "bench_unit_tests = [
    bench_test_round_trip_preserves_the_frame, bench_test_round_trip_preserves_arbitrary_versions,
    bench_test_bench_reports_the_requested_iteration_count,
    bench_test_zero_iterations_yields_finite_metrics,
    bench_test_parse_iterations_reads_a_valid_count,
    bench_test_parse_iterations_falls_back_on_garbage,
    bench_test_parse_iterations_defaults_when_absent]"

lemma bench_unit_tests_pass: "list_all (\<lambda>t. t = Some ()) bench_unit_tests"
  by (simp add: bench_unit_tests_def
      bench_test_round_trip_preserves_the_frame_passes
      bench_test_round_trip_preserves_arbitrary_versions_passes
      bench_test_bench_reports_the_requested_iteration_count_passes
      bench_test_zero_iterations_yields_finite_metrics_passes
      bench_test_parse_iterations_reads_a_valid_count_passes
      bench_test_parse_iterations_falls_back_on_garbage_passes
      bench_test_parse_iterations_defaults_when_absent_passes)

subsection \<open>The fuzzer\<close>

definition fuzz_test_fuzz_runs_without_panic :: test where
  [test_defs]: "fuzz_test_fuzz_runs_without_panic = do {
     let processed = fst (fuzz_iter 0xDEADBEEFCAFEF00D 4000);
     assert_eq processed 4000
   }"

definition fuzz_test_input_count_is_deterministic :: test where
  [test_defs]: "fuzz_test_input_count_is_deterministic = do {
     let a = fst (fuzz_iter 1 2500);
     let b = fst (fuzz_iter 1 2500);
     assert_eq a b;
     assert_eq a 2500
   }"

definition fuzz_test_zero_iterations_processes_nothing :: test where
  [test_defs]: "fuzz_test_zero_iterations_processes_nothing = do {
     assert_eq (fst (fuzz_iter 42 0)) 0
   }"

definition fuzz_test_parse_iters_defaults_when_absent :: test where
  [test_defs]: "fuzz_test_parse_iters_defaults_when_absent = do {
     assert_eq (parse_iters None) (Some DEFAULT_ITERS)
   }"

definition fuzz_test_parse_iters_reads_a_number :: test where
  [test_defs]: "fuzz_test_parse_iters_reads_a_number = do {
     assert_eq (parse_iters (Some ''250'')) (Some 250)
   }"

definition fuzz_test_parse_iters_rejects_garbage :: test where
  [test_defs]: "fuzz_test_parse_iters_rejects_garbage = do {
     assert_eq (parse_iters (Some ''not-a-number'')) None
   }"

lemma fuzz_test_fuzz_runs_without_panic_passes: "fuzz_test_fuzz_runs_without_panic = Some ()"
  by (simp add: test_defs test_simps wire_eval cong: test_congs)

lemma fuzz_test_input_count_is_deterministic_passes: "fuzz_test_input_count_is_deterministic = Some ()"
  by (simp add: test_defs test_simps wire_eval cong: test_congs)

lemma fuzz_test_zero_iterations_processes_nothing_passes: "fuzz_test_zero_iterations_processes_nothing = Some ()"
  by (simp add: test_defs test_simps wire_eval cong: test_congs)

lemma fuzz_test_parse_iters_defaults_when_absent_passes: "fuzz_test_parse_iters_defaults_when_absent = Some ()"
  by (simp add: test_defs test_simps wire_eval cong: test_congs)

lemma fuzz_test_parse_iters_reads_a_number_passes: "fuzz_test_parse_iters_reads_a_number = Some ()"
  by (simp add: test_defs test_simps wire_eval cong: test_congs)

lemma fuzz_test_parse_iters_rejects_garbage_passes: "fuzz_test_parse_iters_rejects_garbage = Some ()"
  by (simp add: test_defs test_simps wire_eval cong: test_congs)

definition fuzz_unit_tests :: "test list" where
  "fuzz_unit_tests = [
    fuzz_test_fuzz_runs_without_panic, fuzz_test_input_count_is_deterministic,
    fuzz_test_zero_iterations_processes_nothing, fuzz_test_parse_iters_defaults_when_absent,
    fuzz_test_parse_iters_reads_a_number, fuzz_test_parse_iters_rejects_garbage]"

lemma fuzz_unit_tests_pass: "list_all (\<lambda>t. t = Some ()) fuzz_unit_tests"
  by (simp add: fuzz_unit_tests_def
      fuzz_test_fuzz_runs_without_panic_passes fuzz_test_input_count_is_deterministic_passes
      fuzz_test_zero_iterations_processes_nothing_passes
      fuzz_test_parse_iters_defaults_when_absent_passes fuzz_test_parse_iters_reads_a_number_passes
      fuzz_test_parse_iters_rejects_garbage_passes)

subsection \<open>The client\<close>

definition client_test_KIND_INSTANCE :: u8 where
  [test_defs]: "client_test_KIND_INSTANCE = 1"

definition client_test_KIND_PHYSICAL_DEVICE :: u8 where
  [test_defs]: "client_test_KIND_PHYSICAL_DEVICE = 2"

definition client_test_response_frame :: "FrameHeader \<Rightarrow> bytes \<Rightarrow> bytes" where
  [test_defs]: "client_test_response_frame req body = (
     let header = \<lparr>fh_version = PROTOCOL_MAJOR, fh_flags = 0, fh_kind = Response,
    fh_opcode = fh_opcode req, fh_req_id = fh_req_id req, fh_seq = fh_seq req, fh_body_len = word_of_nat (length body)\<rparr> in
     encode_frame header body)"

definition client_test_client_drives_handshake_noop_and_vk_calls :: test where
  [test_defs]: "client_test_client_drives_handshake_noop_and_vk_calls = do {
     let session_id = 0xABCD123456789ABC;
     let instance = handle_new client_test_KIND_INSTANCE 1 7;
     let device = handle_new client_test_KIND_PHYSICAL_DEVICE 1 11;
     let welcome = (\<lambda>frame. do {
       (h, b) \<leftarrow> ok (decode_frame frame);
       assert_eq (fh_opcode h) core_op_HELLO;
       assert_eq (fh_kind h) Request;
       assert_eq (fh_req_id h) 1;
       assert_eq (fh_seq h) 1;
       let body = welcome_encode \<lparr>welcome_proto_major = PROTOCOL_MAJOR, welcome_proto_minor = PROTOCOL_MINOR,
         welcome_features = 0, welcome_max_frame_body = DEFAULT_MAX_FRAME_BODY, welcome_session_id = session_id\<rparr> [];
       let header = \<lparr>fh_version = PROTOCOL_MAJOR, fh_flags = 0, fh_kind = Response,
         fh_opcode = core_op_WELCOME, fh_req_id = fh_req_id h, fh_seq = fh_seq h, fh_body_len = word_of_nat (length body)\<rparr>;
       Some (encode_frame header body)
     });
     let noop_ack = (\<lambda>frame. do {
       (h, b) \<leftarrow> ok (decode_frame frame);
       assert_eq (fh_opcode h) core_op_NOOP;
       assert_eq (fh_req_id h) 2;
       assert_eq (fh_seq h) 2;
       Some (client_test_response_frame h [])
     });
     let create = (\<lambda>frame. do {
       (h, b) \<leftarrow> ok (decode_frame frame);
       assert_eq (fh_opcode h) vk_op_CREATE_INSTANCE;
       assert_eq (fh_req_id h) 3;
       assert_eq (fh_seq h) 3;
       req \<leftarrow> ok (vk_CreateInstanceRequest_decode b);
       assert_eq (vk_CreateInstanceRequest_app_api_version req) 0x00403000;
       let body = vk_CreateInstanceResponse_encode \<lparr>vk_CreateInstanceResponse_instance = instance\<rparr> [];
       Some (client_test_response_frame h body)
     });
     let enumerate = (\<lambda>frame. do {
       (h, b) \<leftarrow> ok (decode_frame frame);
       assert_eq (fh_opcode h) vk_op_ENUMERATE_PHYSICAL_DEVICES;
       assert_eq (fh_req_id h) 4;
       assert_eq (fh_seq h) 4;
       req \<leftarrow> ok (vk_EnumeratePhysicalDevicesRequest_decode b);
       assert_eq (vk_EnumeratePhysicalDevicesRequest_instance req) instance;
       let body = vk_EnumeratePhysicalDevicesResponse_encode
         \<lparr>vk_EnumeratePhysicalDevicesResponse_devices = [device]\<rparr> [];
       Some (client_test_response_frame h body)
     });
     client \<leftarrow> ok (connect responder_ops ([welcome, noop_ack, create, enumerate], []));
     assert_eq (client_session_id client) session_id;
     let (r, client) = Client_noop responder_ops client;
     ok r;
     let (r, client) = Client_vk_create_instance responder_ops 0x00403000 client;
     got_instance \<leftarrow> ok r;
     assert_eq got_instance instance;
     let (r, client) = Client_vk_enumerate_physical_devices responder_ops got_instance client;
     got_devices \<leftarrow> ok r;
     assert_eq got_devices [device]
   }"

lemmas client_eval [test_simps] = connect_def next_ids_def Client_noop_def Client_vk_create_instance_def
  Client_vk_enumerate_physical_devices_def client_handshake_def client_noop_def client_exchange_def client_call_def
  check_reply_def from_protocol_def request_header_def client_vk_create_instance_def
  client_vk_enumerate_physical_devices_def expect_kind_def

lemma client_test_client_drives_handshake_noop_and_vk_calls_passes: "client_test_client_drives_handshake_noop_and_vk_calls = Some ()"
  by (simp add: test_defs test_simps wire_eval cong: test_congs)

definition client_unit_tests :: "test list" where
  "client_unit_tests = [
    client_test_client_drives_handshake_noop_and_vk_calls]"

lemma client_unit_tests_pass: "list_all (\<lambda>t. t = Some ()) client_unit_tests"
  by (simp add: client_unit_tests_def
      client_test_client_drives_handshake_noop_and_vk_calls_passes)

end
