(* ===== verification/Report_Tests.thy ===== *)
theory Report_Tests
  imports Testing Mains Xtask_Spec Xtask_Docs_Spec
begin

section \<open>The unit tests of the statistics, the task runner and the command line tool\<close>

text \<open>
  The modules \<open>tests\<close> of \<open>crates/graftx-obs/src\<close>, without the tests that install a subscriber, poison a lock,
  start threads or compare addresses, of \<open>crates/graftx-xtask/src\<close> and of
  \<open>crates/graftx-cli/src/main.rs\<close>.
\<close>

text \<open>
  The file system of the tests: nothing is there. \<open>store\<close> writes a file, \<open>remove_file\<close> removes it. A
  temporary name carries the time, which here is zero.
\<close>

definition no_files :: file_system where
  [test_defs]: "no_files = \<lparr>fs_read_to_string = \<lambda>_. Inl ''No such file or directory'',
     fs_join_exists = \<lambda>_ _. False, fs_node_at = \<lambda>_. None,
     fs_read_dir_error = \<lambda>_. ''No such file or directory''\<rparr>"

definition store :: file_writer where
  [test_defs]: "store path text fs =
     (None, fs\<lparr>fs_read_to_string := (fs_read_to_string fs)(path := Inr text)\<rparr>)"

definition remove_file :: "path \<Rightarrow> file_system \<Rightarrow> file_system" where
  [test_defs]: "remove_file path fs =
     fs\<lparr>fs_read_to_string := (fs_read_to_string fs)(path := Inl ''No such file or directory'')\<rparr>"

definition temp_dir :: string where
  [test_defs]: "temp_dir = ''tmp''"

text \<open>No test of the tool connects.\<close>

definition test_env :: "null_transport cli_env" where
  [test_defs]: "test_env = \<lparr>cli_dial = \<lambda>_. Inl ''connection refused'',
     cli_show_error = \<lambda>_. [], cli_emit = emit_all\<rparr>"

subsection \<open>Call statistics\<close>

definition stats_test_record_accumulates_calls_and_bytes :: test where
  [test_defs]: "stats_test_record_accumulates_calls_and_bytes = do {
     let stats = call_stats_default;
     let stats = call_stats_record 10 20 stats;
     let stats = call_stats_record 5 7 stats;
     assert_eq stats \<lparr>cs_calls = 2, cs_bytes_out = 15, cs_bytes_in = 27\<rparr>
   }"

definition stats_test_record_saturates_on_overflow :: test where
  [test_defs]: "stats_test_record_saturates_on_overflow = do {
     let stats = \<lparr>cs_calls = (- 1 :: u64), cs_bytes_out = (- 1 :: u64), cs_bytes_in =
       (- 1 :: u64) - 1\<rparr>;
     let stats = call_stats_record 1 5 stats;
     assert_eq stats \<lparr>cs_calls = (- 1 :: u64), cs_bytes_out = (- 1 :: u64), cs_bytes_in =
       (- 1 :: u64)\<rparr>
   }"

definition stats_test_merge_sums_fields :: test where
  [test_defs]: "stats_test_merge_sums_fields = do {
     let total = \<lparr>cs_calls = 3, cs_bytes_out = 100, cs_bytes_in = 200\<rparr>;
     let other = \<lparr>cs_calls = 4, cs_bytes_out = 50, cs_bytes_in = 60\<rparr>;
     let total = call_stats_merge other total;
     assert_eq total \<lparr>cs_calls = 7, cs_bytes_out = 150, cs_bytes_in = 260\<rparr>
   }"

definition stats_test_merge_saturates_on_overflow :: test where
  [test_defs]: "stats_test_merge_saturates_on_overflow = do {
     let total = \<lparr>cs_calls = (- 1 :: u64), cs_bytes_out = (- 1 :: u64) - 2,
       cs_bytes_in = 1\<rparr>;
     let other = \<lparr>cs_calls = 1, cs_bytes_out = 10, cs_bytes_in = (- 1 :: u64)\<rparr>;
     let total = call_stats_merge other total;
     assert_eq total \<lparr>cs_calls = (- 1 :: u64), cs_bytes_out = (- 1 :: u64), cs_bytes_in =
       (- 1 :: u64)\<rparr>
   }"

lemmas obs_eval [test_simps] = registry_new_def registry_record_def registry_record_frame_def registry_record_latency_def
  registry_reset_def registry_total_def registry_snapshot_def registry_snapshot_sorted_def registry_report_def
  registry_to_json_def registry_latency_report_def hist_new_def hist_record_def hist_count_def hist_report_def
  bucket_counts_def bucket_index_def BUCKETS_def UPPER_BOUNDS_US_def call_stats_default_def call_stats_record_def
  call_stats_merge_def guard_begin_def guard_set_bytes_def guard_drop_def show_u64_def push_json_escaped_def
  json_stats_def Obs.quoted_def
  obs_global_def obs_record_def

lemma stats_test_record_accumulates_calls_and_bytes_passes: "stats_test_record_accumulates_calls_and_bytes = Some ()"
  by (simp add: test_defs test_simps ends_with_def cong: text_congs del: text_dels)

lemma stats_test_record_saturates_on_overflow_passes: "stats_test_record_saturates_on_overflow = Some ()"
  by (simp add: test_defs test_simps ends_with_def cong: text_congs del: text_dels)

lemma stats_test_merge_sums_fields_passes: "stats_test_merge_sums_fields = Some ()"
  by (simp add: test_defs test_simps ends_with_def cong: text_congs del: text_dels)

lemma stats_test_merge_saturates_on_overflow_passes: "stats_test_merge_saturates_on_overflow = Some ()"
  by (simp add: test_defs test_simps ends_with_def cong: text_congs del: text_dels)

definition stats_unit_tests :: "test list" where
  "stats_unit_tests = [
    stats_test_record_accumulates_calls_and_bytes, stats_test_record_saturates_on_overflow,
    stats_test_merge_sums_fields, stats_test_merge_saturates_on_overflow]"

lemma stats_unit_tests_pass: "list_all (\<lambda>t. t = Some ()) stats_unit_tests"
  by (simp add: stats_unit_tests_def
      stats_test_record_accumulates_calls_and_bytes_passes
      stats_test_record_saturates_on_overflow_passes stats_test_merge_sums_fields_passes
      stats_test_merge_saturates_on_overflow_passes)

subsection \<open>The latency histogram\<close>

definition hist_test_new_and_default_start_empty :: test where
  [test_defs]: "hist_test_new_and_default_start_empty = do {
     let from_new = hist_new;
     let from_default = hist_new;
     assert_eq from_new from_default;
     assert_eq (hist_count from_new) 0;
     assert_eq (bucket_counts from_new) (replicate BUCKETS (0 :: u64))
   }"

definition hist_test_record_places_durations_in_expected_buckets :: test where
  [test_defs]: "hist_test_record_places_durations_in_expected_buckets = do {
     let hist = hist_new;
     let hist = hist_record 0 hist;
     let hist = hist_record 1 hist;
     let hist = hist_record 3 hist;
     let hist = hist_record 1000 hist;
     let counts = bucket_counts hist;
     x \<leftarrow> index counts 0;
     assert_eq x 1;
     x \<leftarrow> index counts 1;
     assert_eq x 1;
     x \<leftarrow> index counts 2;
     assert_eq x 1;
     x \<leftarrow> index counts 10;
     assert_eq x 1;
     assert_eq (hist_count hist) 4
   }"

definition hist_test_at_or_above_largest_bound_lands_in_overflow_bucket :: test where
  [test_defs]: "hist_test_at_or_above_largest_bound_lands_in_overflow_bucket = do {
     let hist = hist_new;
     let hist = hist_record 1024 hist;
     let hist = hist_record (1000000 * 1) hist;
     let counts = bucket_counts hist;
     x \<leftarrow> index counts (BUCKETS - 1);
     assert_eq x 2;
     assert_eq (hist_count hist) 2
   }"

definition hist_test_boundary_is_upper_bound_exclusive :: test where
  [test_defs]: "hist_test_boundary_is_upper_bound_exclusive = do {
     let hist = hist_new;
     let hist = hist_record 2 hist;
     let counts = bucket_counts hist;
     x \<leftarrow> index counts 1;
     assert_eq x 0;
     x \<leftarrow> index counts 2;
     assert_eq x 1
   }"

definition hist_test_record_saturates_on_overflow :: test where
  [test_defs]: "hist_test_record_saturates_on_overflow = do {
     let hist = hist_new;
     _ \<leftarrow> index (lh_counts hist) 0;
     let hist = hist\<lparr>lh_counts := (lh_counts hist)[0 := (- 1 :: u64)]\<rparr>;
     let hist = hist_record 0 hist;
     x \<leftarrow> index (bucket_counts hist) 0;
     assert_eq x (- 1 :: u64)
   }"

definition hist_test_report_lists_non_empty_buckets_with_known_rows :: test where
  [test_defs]: "hist_test_report_lists_non_empty_buckets_with_known_rows = do {
     let hist = hist_new;
     let hist = hist_record 3 hist;
     let hist = hist_record 3 hist;
     let hist = hist_record (1000000 * 1) hist;
     let report = hist_report hist;
     assert (starts_with report (''| bucket | count |'' @ newline @ ''| --- | --- |'' @ newline));
     assert (str_contains report ''| <4us | 2 |'');
     assert (str_contains report ''| >=1024us | 1 |'');
     assert (\<not> (str_contains report ''<1us''))
   }"

definition hist_test_report_on_empty_histogram_is_header_only :: test where
  [test_defs]: "hist_test_report_on_empty_histogram_is_header_only = do {
     let hist = hist_new;
     assert_eq (hist_report hist) (''| bucket | count |'' @ newline @ ''| --- | --- |'' @ newline)
   }"

lemma hist_test_new_and_default_start_empty_passes: "hist_test_new_and_default_start_empty = Some ()"
  by (simp add: test_defs test_simps ends_with_def cong: text_congs del: text_dels)

lemma hist_test_record_places_durations_in_expected_buckets_passes: "hist_test_record_places_durations_in_expected_buckets = Some ()"
  by (simp add: test_defs test_simps ends_with_def cong: text_congs del: text_dels)

lemma hist_test_at_or_above_largest_bound_lands_in_overflow_bucket_passes: "hist_test_at_or_above_largest_bound_lands_in_overflow_bucket = Some ()"
  by (simp add: test_defs test_simps ends_with_def cong: text_congs del: text_dels)

lemma hist_test_boundary_is_upper_bound_exclusive_passes: "hist_test_boundary_is_upper_bound_exclusive = Some ()"
  by (simp add: test_defs test_simps ends_with_def cong: text_congs del: text_dels)

lemma hist_test_record_saturates_on_overflow_passes: "hist_test_record_saturates_on_overflow = Some ()"
  by (simp add: test_defs test_simps ends_with_def cong: text_congs del: text_dels)

lemma hist_test_report_lists_non_empty_buckets_with_known_rows_passes: "hist_test_report_lists_non_empty_buckets_with_known_rows = Some ()"
  by (simp add: test_defs test_simps ends_with_def cong: text_congs del: text_dels)

lemma hist_test_report_on_empty_histogram_is_header_only_passes: "hist_test_report_on_empty_histogram_is_header_only = Some ()"
  by (simp add: test_defs test_simps ends_with_def cong: text_congs del: text_dels)

definition hist_unit_tests :: "test list" where
  "hist_unit_tests = [
    hist_test_new_and_default_start_empty, hist_test_record_places_durations_in_expected_buckets,
    hist_test_at_or_above_largest_bound_lands_in_overflow_bucket,
    hist_test_boundary_is_upper_bound_exclusive, hist_test_record_saturates_on_overflow,
    hist_test_report_lists_non_empty_buckets_with_known_rows,
    hist_test_report_on_empty_histogram_is_header_only]"

lemma hist_unit_tests_pass: "list_all (\<lambda>t. t = Some ()) hist_unit_tests"
  by (simp add: hist_unit_tests_def
      hist_test_new_and_default_start_empty_passes
      hist_test_record_places_durations_in_expected_buckets_passes
      hist_test_at_or_above_largest_bound_lands_in_overflow_bucket_passes
      hist_test_boundary_is_upper_bound_exclusive_passes
      hist_test_record_saturates_on_overflow_passes
      hist_test_report_lists_non_empty_buckets_with_known_rows_passes
      hist_test_report_on_empty_histogram_is_header_only_passes)

subsection \<open>The call guard\<close>

definition guard_test_guard_records_one_call_with_set_bytes :: test where
  [test_defs]: "guard_test_guard_records_one_call_with_set_bytes = do {
     let registry = registry_new;
     let guard = guard_begin ''vulkan'';
     let guard = guard_set_bytes 10 20 guard;
     let registry = guard_drop guard registry;
     let snapshot = registry_snapshot registry;
     x \<leftarrow> snapshot ''vulkan'';
     assert_eq x \<lparr>cs_calls = 1, cs_bytes_out = 10, cs_bytes_in = 20\<rparr>
   }"

definition guard_test_guard_without_set_bytes_records_zero_bytes :: test where
  [test_defs]: "guard_test_guard_without_set_bytes_records_zero_bytes = do {
     let registry = registry_new;
     let guard = guard_begin ''vulkan'';
     let registry = guard_drop guard registry;
     let snapshot = registry_snapshot registry;
     x \<leftarrow> snapshot ''vulkan'';
     assert_eq x \<lparr>cs_calls = 1, cs_bytes_out = 0, cs_bytes_in = 0\<rparr>
   }"

definition guard_test_two_guards_in_sequence_record_two_calls :: test where
  [test_defs]: "guard_test_two_guards_in_sequence_record_two_calls = do {
     let registry = registry_new;
     let guard = guard_begin ''vulkan'';
     let guard = guard_set_bytes 10 20 guard;
     let registry = guard_drop guard registry;
     let guard = guard_begin ''vulkan'';
     let guard = guard_set_bytes 3 4 guard;
     let registry = guard_drop guard registry;
     let snapshot = registry_snapshot registry;
     x \<leftarrow> snapshot ''vulkan'';
     assert_eq x \<lparr>cs_calls = 2, cs_bytes_out = 13, cs_bytes_in = 24\<rparr>
   }"

definition guard_test_set_bytes_overwrites_and_records_once :: test where
  [test_defs]: "guard_test_set_bytes_overwrites_and_records_once = do {
     let registry = registry_new;
     let guard = guard_begin ''vulkan'';
     let guard = guard_set_bytes 1 1 guard;
     let guard = guard_set_bytes 10 20 guard;
     let registry = guard_drop guard registry;
     let snapshot = registry_snapshot registry;
     x \<leftarrow> snapshot ''vulkan'';
     assert_eq x \<lparr>cs_calls = 1, cs_bytes_out = 10, cs_bytes_in = 20\<rparr>
   }"

lemma guard_test_guard_records_one_call_with_set_bytes_passes: "guard_test_guard_records_one_call_with_set_bytes = Some ()"
  by (simp add: test_defs test_simps ends_with_def cong: text_congs del: text_dels)

lemma guard_test_guard_without_set_bytes_records_zero_bytes_passes: "guard_test_guard_without_set_bytes_records_zero_bytes = Some ()"
  by (simp add: test_defs test_simps ends_with_def cong: text_congs del: text_dels)

lemma guard_test_two_guards_in_sequence_record_two_calls_passes: "guard_test_two_guards_in_sequence_record_two_calls = Some ()"
  by (simp add: test_defs test_simps ends_with_def cong: text_congs del: text_dels)

lemma guard_test_set_bytes_overwrites_and_records_once_passes: "guard_test_set_bytes_overwrites_and_records_once = Some ()"
  by (simp add: test_defs test_simps ends_with_def cong: text_congs del: text_dels)

definition guard_unit_tests :: "test list" where
  "guard_unit_tests = [
    guard_test_guard_records_one_call_with_set_bytes,
    guard_test_guard_without_set_bytes_records_zero_bytes,
    guard_test_two_guards_in_sequence_record_two_calls,
    guard_test_set_bytes_overwrites_and_records_once]"

lemma guard_unit_tests_pass: "list_all (\<lambda>t. t = Some ()) guard_unit_tests"
  by (simp add: guard_unit_tests_def
      guard_test_guard_records_one_call_with_set_bytes_passes
      guard_test_guard_without_set_bytes_records_zero_bytes_passes
      guard_test_two_guards_in_sequence_record_two_calls_passes
      guard_test_set_bytes_overwrites_and_records_once_passes)

subsection \<open>The registry\<close>

definition registry_test_count :: "string \<Rightarrow> char \<Rightarrow> nat" where
  [test_defs]: "registry_test_count haystack needle =
     length (filter (\<lambda>c. c = needle) haystack)"

definition registry_test_snapshot_reports_per_api_counts :: test where
  [test_defs]: "registry_test_snapshot_reports_per_api_counts = do {
     let registry = registry_new;
     let registry = registry_record ''NtCreateFile'' 10 20 registry;
     let registry = registry_record ''NtCreateFile'' 5 7 registry;
     let registry = registry_record ''NtClose'' 1 0 registry;
     let snapshot = registry_snapshot registry;
     assert_eq (card (dom snapshot)) 2;
     x \<leftarrow> snapshot ''NtCreateFile'';
     assert_eq x \<lparr>cs_calls = 2, cs_bytes_out = 15, cs_bytes_in = 27\<rparr>;
     x \<leftarrow> snapshot ''NtClose'';
     assert_eq x \<lparr>cs_calls = 1, cs_bytes_out = 1, cs_bytes_in = 0\<rparr>
   }"

definition registry_test_record_frame_counts_calls_and_frame_lengths :: test where
  [test_defs]: "registry_test_record_frame_counts_calls_and_frame_lengths = do {
     let registry = registry_new;
     let registry = registry_record_frame ''NtCreateFile'' (replicate 10 0)
       (replicate 20 0) registry;
     let registry = registry_record_frame ''NtCreateFile'' (replicate 5 0) (replicate 7 0) registry;
     let registry = registry_record_frame ''NtClose'' [] (replicate 3 0) registry;
     let snapshot = registry_snapshot registry;
     assert_eq (card (dom snapshot)) 2;
     x \<leftarrow> snapshot ''NtCreateFile'';
     assert_eq x \<lparr>cs_calls = 2, cs_bytes_out = 15, cs_bytes_in = 27\<rparr>;
     x \<leftarrow> snapshot ''NtClose'';
     assert_eq x \<lparr>cs_calls = 1, cs_bytes_out = 0, cs_bytes_in = 3\<rparr>
   }"

definition registry_test_record_frame_matches_record_with_slice_lengths :: test where
  [test_defs]: "registry_test_record_frame_matches_record_with_slice_lengths = do {
     let request = [1, 2, 3, 4];
     let reply = [5, 6, 7, 8, 9];
     let via_frame = registry_new;
     let via_frame = registry_record_frame ''NtReadFile'' request reply via_frame;
     let via_record = registry_new;
     let via_record = registry_record ''NtReadFile'' (word_of_nat (length request) :: u64)
       (word_of_nat (length reply) :: u64) via_record;
     assert_eq (registry_snapshot via_frame) (registry_snapshot via_record);
     x \<leftarrow> (registry_snapshot via_frame) ''NtReadFile'';
     assert_eq x \<lparr>cs_calls = 1, cs_bytes_out = 4, cs_bytes_in = 5\<rparr>
   }"

definition registry_test_record_frame_with_empty_frames_counts_a_zero_byte_call :: test where
  [test_defs]: "registry_test_record_frame_with_empty_frames_counts_a_zero_byte_call = do {
     let registry = registry_new;
     let registry = registry_record_frame ''NtClose'' [] [] registry;
     x \<leftarrow> (registry_snapshot registry) ''NtClose'';
     assert_eq x \<lparr>cs_calls = 1, cs_bytes_out = 0, cs_bytes_in = 0\<rparr>;
     assert_eq (registry_total registry) \<lparr>cs_calls = 1, cs_bytes_out = 0,
       cs_bytes_in = 0\<rparr>
   }"

definition registry_test_snapshot_sorted_is_ordered_and_matches_snapshot :: test where
  [test_defs]: "registry_test_snapshot_sorted_is_ordered_and_matches_snapshot = do {
     let registry = registry_new;
     let registry = registry_record ''NtCreateFile'' 10 20 registry;
     let registry = registry_record ''NtCreateFile'' 5 7 registry;
     let registry = registry_record ''NtClose'' 1 0 registry;
     let registry = registry_record ''NtReadFile'' 3 9 registry;
     let sorted = registry_snapshot_sorted registry;
     let names = map (\<lambda>(api, _). api) sorted;
     assert_eq names [''NtClose'', ''NtCreateFile'', ''NtReadFile''];
     let snapshot = registry_snapshot registry;
     assert_eq (length sorted) (card (dom snapshot));
     for_each sorted (\<lambda>(api, stats). do {
       x \<leftarrow> snapshot api;
       assert_eq x stats
     });
     assert_eq sorted [(''NtClose'', \<lparr>cs_calls = 1, cs_bytes_out = 1,
       cs_bytes_in = 0\<rparr>), (''NtCreateFile'', \<lparr>cs_calls = 2, cs_bytes_out = 15,
       cs_bytes_in = 27\<rparr>), (''NtReadFile'', \<lparr>cs_calls = 1, cs_bytes_out = 3,
       cs_bytes_in = 9\<rparr>)]
   }"

definition registry_test_snapshot_sorted_of_empty_registry_is_empty :: test where
  [test_defs]: "registry_test_snapshot_sorted_of_empty_registry_is_empty = do {
     let registry = registry_new;
     assert (registry_snapshot_sorted registry = [])
   }"

definition registry_test_reset_clears_all_recorded_stats :: test where
  [test_defs]: "registry_test_reset_clears_all_recorded_stats = do {
     let registry = registry_new;
     let registry = registry_record ''NtCreateFile'' 10 20 registry;
     let registry = registry_record ''NtClose'' 1 3 registry;
     assert (\<not> (registry_snapshot registry = Map.empty));
     let registry = registry_reset registry;
     assert (registry_snapshot registry = Map.empty);
     assert (registry_snapshot_sorted registry = []);
     assert_eq (registry_total registry) call_stats_default;
     let registry = registry_record ''NtReadFile'' 4 5 registry;
     x \<leftarrow> (registry_snapshot registry) ''NtReadFile'';
     assert_eq x \<lparr>cs_calls = 1, cs_bytes_out = 4, cs_bytes_in = 5\<rparr>
   }"

definition registry_test_reset_of_empty_registry_is_a_noop :: test where
  [test_defs]: "registry_test_reset_of_empty_registry_is_a_noop = do {
     let registry = registry_new;
     let registry = registry_reset registry;
     assert (registry_snapshot registry = Map.empty);
     assert_eq (registry_total registry) call_stats_default
   }"

definition registry_test_total_merges_all_apis :: test where
  [test_defs]: "registry_test_total_merges_all_apis = do {
     let registry = registry_new;
     let registry = registry_record ''NtCreateFile'' 10 20 registry;
     let registry = registry_record ''NtCreateFile'' 5 7 registry;
     let registry = registry_record ''NtClose'' 1 3 registry;
     assert_eq (registry_total registry) \<lparr>cs_calls = 3, cs_bytes_out = 16,
       cs_bytes_in = 30\<rparr>
   }"

definition registry_test_total_of_empty_registry_is_default :: test where
  [test_defs]: "registry_test_total_of_empty_registry_is_default = do {
     let registry = registry_new;
     assert_eq (registry_total registry) call_stats_default;
     assert (registry_snapshot registry = Map.empty)
   }"

definition registry_test_report_renders_sorted_table_with_total :: test where
  [test_defs]: "registry_test_report_renders_sorted_table_with_total = do {
     let registry = registry_new;
     let registry = registry_record ''NtCreateFile'' 10 20 registry;
     let registry = registry_record ''NtCreateFile'' 5 7 registry;
     let registry = registry_record ''NtClose'' 1 3 registry;
     let report = registry_report registry;
     assert (str_contains report ''| API | Calls | Bytes Out | Bytes In |'');
     assert (str_contains report ''| NtCreateFile | 2 | 15 | 27 |'');
     assert (str_contains report ''| NtClose | 1 | 1 | 3 |'');
     assert (str_contains report ''| TOTAL | 3 | 16 | 30 |'');
     ntclose \<leftarrow> str_find report ''| NtClose |'';
     ntcreate \<leftarrow> str_find report ''| NtCreateFile |'';
     total \<leftarrow> str_find report ''| TOTAL |'';
     assert (ntclose < ntcreate);
     assert (ntcreate < total)
   }"

definition registry_test_report_of_empty_registry_has_header_and_zero_total :: test where
  [test_defs]: "registry_test_report_of_empty_registry_has_header_and_zero_total = do {
     let registry = registry_new;
     let report = registry_report registry;
     assert (str_contains report ''| API | Calls | Bytes Out | Bytes In |'');
     assert (str_contains report ''| TOTAL | 0 | 0 | 0 |'')
   }"

definition registry_test_to_json_emits_sorted_apis_with_total :: test where
  [test_defs]: "registry_test_to_json_emits_sorted_apis_with_total = do {
     let registry = registry_new;
     let registry = registry_record ''NtCreateFile'' 10 20 registry;
     let registry = registry_record ''NtCreateFile'' 5 7 registry;
     let registry = registry_record ''NtClose'' 1 3 registry;
     let json = registry_to_json registry;
     assert (str_contains json ([CHR 0x22] @ ''NtCreateFile'' @ [CHR 0x22] @ '':{'' @ [CHR 0x22] @
       ''calls'' @ [CHR 0x22] @ '':2,'' @ [CHR 0x22] @ ''bytes_out'' @ [CHR 0x22] @ '':15,'' @ [CHR
       0x22] @ ''bytes_in'' @ [CHR 0x22] @ '':27}''));
     assert (str_contains json ([CHR 0x22] @ ''NtClose'' @ [CHR 0x22] @ '':{'' @ [CHR 0x22] @
       ''calls'' @ [CHR 0x22] @ '':1,'' @ [CHR 0x22] @ ''bytes_out'' @ [CHR 0x22] @ '':1,'' @ [CHR
       0x22] @ ''bytes_in'' @ [CHR 0x22] @ '':3}''));
     assert (str_contains json ([CHR 0x22] @ ''total'' @ [CHR 0x22] @ '':{'' @ [CHR 0x22] @
       ''calls'' @ [CHR 0x22] @ '':3,'' @ [CHR 0x22] @ ''bytes_out'' @ [CHR 0x22] @ '':16,'' @ [CHR
       0x22] @ ''bytes_in'' @ [CHR 0x22] @ '':30}''));
     assert (starts_with json (''{'' @ [CHR 0x22] @ ''apis'' @ [CHR 0x22] @ '':{''));
     ntclose \<leftarrow> str_find json ([CHR 0x22] @ ''NtClose'' @ [CHR 0x22]);
     ntcreate \<leftarrow> str_find json ([CHR 0x22] @ ''NtCreateFile'' @ [CHR 0x22]);
     assert (ntclose < ntcreate)
   }"

definition registry_test_to_json_is_well_formed :: test where
  [test_defs]: "registry_test_to_json_is_well_formed = do {
     let registry = registry_new;
     let registry = registry_record ''NtCreateFile'' 10 20 registry;
     let registry = registry_record ''NtClose'' 1 3 registry;
     let json = registry_to_json registry;
     assert_eq (registry_test_count json (CHR ''{'')) (registry_test_count json (CHR ''}''));
     assert_eq (registry_test_count json (CHR ''{'')) 5;
     assert (\<not> (str_contains json '',}''));
     assert (ends_with json [CHR ''}''])
   }"

definition registry_test_to_json_of_empty_registry_has_empty_apis_and_zero_total :: test where
  [test_defs]: "registry_test_to_json_of_empty_registry_has_empty_apis_and_zero_total = do {
     let registry = registry_new;
     let json = registry_to_json registry;
     assert_eq json (''{'' @ [CHR 0x22] @ ''apis'' @ [CHR 0x22] @ '':{},'' @ [CHR 0x22] @ ''total''
       @ [CHR 0x22] @ '':{'' @ [CHR 0x22] @ ''calls'' @ [CHR 0x22] @ '':0,'' @ [CHR 0x22] @
       ''bytes_out'' @ [CHR 0x22] @ '':0,'' @ [CHR 0x22] @ ''bytes_in'' @ [CHR 0x22] @ '':0}}'')
   }"

definition registry_test_to_json_escapes_quotes_and_backslashes_in_api_names :: test where
  [test_defs]: "registry_test_to_json_escapes_quotes_and_backslashes_in_api_names = do {
     let registry = registry_new;
     let registry = registry_record (''odd'' @ [CHR 0x22] @ [CHR 0x5C] @ ''name'') 1 2 registry;
     let json = registry_to_json registry;
     assert (str_contains json ([CHR 0x22] @ ''odd'' @ [CHR 0x5C] @ [CHR 0x22] @ [CHR 0x5C] @ [CHR
       0x5C] @ ''name'' @ [CHR 0x22] @ '':{'' @ [CHR 0x22] @ ''calls'' @ [CHR 0x22] @ '':1,'' @ [CHR
       0x22] @ ''bytes_out'' @ [CHR 0x22] @ '':1,'' @ [CHR 0x22] @ ''bytes_in'' @ [CHR 0x22] @
       '':2}''))
   }"

definition registry_test_record_updates_the_global_registry :: test where
  [test_defs]: "registry_test_record_updates_the_global_registry = do {
     let API = ''global_test::record_updates_the_global_registry'';
     let cell = None;
     let cell = obs_record API 10 20 cell;
     let cell = obs_record API 5 7 cell;
     let (registry, cell) = obs_global cell;
     x \<leftarrow> registry_snapshot registry API;
     assert_eq x \<lparr>cs_calls = 2, cs_bytes_out = 15, cs_bytes_in = 27\<rparr>
   }"

definition registry_test_record_latency_tracks_per_api_histograms :: test where
  [test_defs]: "registry_test_record_latency_tracks_per_api_histograms = do {
     let registry = registry_new;
     let registry = registry_record_latency ''NtCreateFile'' 3 registry;
     let registry = registry_record_latency ''NtCreateFile'' 3 registry;
     let registry = registry_record_latency ''NtClose'' (1000000 * 1) registry;
     let report = registry_latency_report registry;
     assert (str_contains report ''### NtCreateFile'');
     assert (str_contains report ''### NtClose'');
     assert (str_contains report ''| <4us | 2 |'');
     assert (str_contains report ''| >=1024us | 1 |'');
     ntclose \<leftarrow> str_find report ''### NtClose'';
     ntcreate \<leftarrow> str_find report ''### NtCreateFile'';
     assert (ntclose < ntcreate)
   }"

definition registry_test_latency_report_of_empty_registry_is_empty :: test where
  [test_defs]: "registry_test_latency_report_of_empty_registry_is_empty = do {
     let registry = registry_new;
     assert (registry_latency_report registry = [])
   }"

definition registry_test_record_latency_is_independent_of_record :: test where
  [test_defs]: "registry_test_record_latency_is_independent_of_record = do {
     let registry = registry_new;
     let registry = registry_record_latency ''NtReadFile'' 0 registry;
     assert (registry_snapshot registry = Map.empty);
     assert_eq (registry_total registry) call_stats_default;
     let other = registry_new;
     let other = registry_record ''NtWriteFile'' 1 2 other;
     assert (registry_latency_report other = [])
   }"

definition registry_test_record_and_global_record_target_the_same_registry :: test where
  [test_defs]: "registry_test_record_and_global_record_target_the_same_registry = do {
     let API = ''global_test::record_and_global_record_target_the_same_registry'';
     let cell = None;
     let cell = obs_record API 1 2 cell;
     let (registry, cell) = obs_global cell;
     let cell = Some (registry_record API 3 4 registry);
     let (registry, cell) = obs_global cell;
     x \<leftarrow> registry_snapshot registry API;
     assert_eq x \<lparr>cs_calls = 2, cs_bytes_out = 4, cs_bytes_in = 6\<rparr>
   }"

lemma registry_test_snapshot_reports_per_api_counts_passes: "registry_test_snapshot_reports_per_api_counts = Some ()"
  by (simp add: test_defs test_simps ends_with_def cong: text_congs del: text_dels)

lemma registry_test_record_frame_counts_calls_and_frame_lengths_passes: "registry_test_record_frame_counts_calls_and_frame_lengths = Some ()"
  by (simp add: test_defs test_simps ends_with_def cong: text_congs del: text_dels)

lemma registry_test_record_frame_matches_record_with_slice_lengths_passes: "registry_test_record_frame_matches_record_with_slice_lengths = Some ()"
  by (simp add: test_defs test_simps ends_with_def cong: text_congs del: text_dels)

lemma registry_test_record_frame_with_empty_frames_counts_a_zero_byte_call_passes: "registry_test_record_frame_with_empty_frames_counts_a_zero_byte_call = Some ()"
  by (simp add: test_defs test_simps ends_with_def cong: text_congs del: text_dels)

lemma registry_test_snapshot_sorted_is_ordered_and_matches_snapshot_passes: "registry_test_snapshot_sorted_is_ordered_and_matches_snapshot = Some ()"
  by (simp add: test_defs test_simps ends_with_def cong: text_congs del: text_dels)

lemma registry_test_snapshot_sorted_of_empty_registry_is_empty_passes: "registry_test_snapshot_sorted_of_empty_registry_is_empty = Some ()"
  by (simp add: test_defs test_simps ends_with_def cong: text_congs del: text_dels)

lemma registry_test_reset_clears_all_recorded_stats_passes: "registry_test_reset_clears_all_recorded_stats = Some ()"
  by (simp add: test_defs test_simps ends_with_def cong: text_congs del: text_dels)

lemma registry_test_reset_of_empty_registry_is_a_noop_passes: "registry_test_reset_of_empty_registry_is_a_noop = Some ()"
  by (simp add: test_defs test_simps ends_with_def cong: text_congs del: text_dels)

lemma registry_test_total_merges_all_apis_passes: "registry_test_total_merges_all_apis = Some ()"
  by (simp add: test_defs test_simps ends_with_def cong: text_congs del: text_dels)

lemma registry_test_total_of_empty_registry_is_default_passes: "registry_test_total_of_empty_registry_is_default = Some ()"
  by (simp add: test_defs test_simps ends_with_def cong: text_congs del: text_dels)

lemma registry_test_report_renders_sorted_table_with_total_passes: "registry_test_report_renders_sorted_table_with_total = Some ()"
  by (simp add: test_defs test_simps ends_with_def cong: text_congs del: text_dels)

lemma registry_test_report_of_empty_registry_has_header_and_zero_total_passes: "registry_test_report_of_empty_registry_has_header_and_zero_total = Some ()"
  by (simp add: test_defs test_simps ends_with_def cong: text_congs del: text_dels)

lemma registry_test_to_json_emits_sorted_apis_with_total_passes: "registry_test_to_json_emits_sorted_apis_with_total = Some ()"
  by (simp add: test_defs test_simps ends_with_def cong: text_congs del: text_dels)

lemma registry_test_to_json_is_well_formed_passes: "registry_test_to_json_is_well_formed = Some ()"
  by (simp add: test_defs test_simps ends_with_def cong: text_congs del: text_dels)

lemma registry_test_to_json_of_empty_registry_has_empty_apis_and_zero_total_passes: "registry_test_to_json_of_empty_registry_has_empty_apis_and_zero_total = Some ()"
  by (simp add: test_defs test_simps ends_with_def cong: text_congs del: text_dels)

lemma registry_test_to_json_escapes_quotes_and_backslashes_in_api_names_passes: "registry_test_to_json_escapes_quotes_and_backslashes_in_api_names = Some ()"
  by (simp add: test_defs test_simps ends_with_def cong: text_congs del: text_dels)

lemma registry_test_record_updates_the_global_registry_passes: "registry_test_record_updates_the_global_registry = Some ()"
  by (simp add: test_defs test_simps ends_with_def cong: text_congs del: text_dels)

lemma registry_test_record_latency_tracks_per_api_histograms_passes: "registry_test_record_latency_tracks_per_api_histograms = Some ()"
  by (simp add: test_defs test_simps ends_with_def cong: text_congs del: text_dels)

lemma registry_test_latency_report_of_empty_registry_is_empty_passes: "registry_test_latency_report_of_empty_registry_is_empty = Some ()"
  by (simp add: test_defs test_simps ends_with_def cong: text_congs del: text_dels)

lemma registry_test_record_latency_is_independent_of_record_passes: "registry_test_record_latency_is_independent_of_record = Some ()"
  by (simp add: test_defs test_simps ends_with_def cong: text_congs del: text_dels)

lemma registry_test_record_and_global_record_target_the_same_registry_passes: "registry_test_record_and_global_record_target_the_same_registry = Some ()"
  by (simp add: test_defs test_simps ends_with_def cong: text_congs del: text_dels)

definition registry_unit_tests :: "test list" where
  "registry_unit_tests = [
    registry_test_snapshot_reports_per_api_counts,
    registry_test_record_frame_counts_calls_and_frame_lengths,
    registry_test_record_frame_matches_record_with_slice_lengths,
    registry_test_record_frame_with_empty_frames_counts_a_zero_byte_call,
    registry_test_snapshot_sorted_is_ordered_and_matches_snapshot,
    registry_test_snapshot_sorted_of_empty_registry_is_empty,
    registry_test_reset_clears_all_recorded_stats, registry_test_reset_of_empty_registry_is_a_noop,
    registry_test_total_merges_all_apis, registry_test_total_of_empty_registry_is_default,
    registry_test_report_renders_sorted_table_with_total,
    registry_test_report_of_empty_registry_has_header_and_zero_total,
    registry_test_to_json_emits_sorted_apis_with_total, registry_test_to_json_is_well_formed,
    registry_test_to_json_of_empty_registry_has_empty_apis_and_zero_total,
    registry_test_to_json_escapes_quotes_and_backslashes_in_api_names,
    registry_test_record_updates_the_global_registry,
    registry_test_record_latency_tracks_per_api_histograms,
    registry_test_latency_report_of_empty_registry_is_empty,
    registry_test_record_latency_is_independent_of_record,
    registry_test_record_and_global_record_target_the_same_registry]"

lemma registry_unit_tests_pass: "list_all (\<lambda>t. t = Some ()) registry_unit_tests"
  by (simp add: registry_unit_tests_def
      registry_test_snapshot_reports_per_api_counts_passes
      registry_test_record_frame_counts_calls_and_frame_lengths_passes
      registry_test_record_frame_matches_record_with_slice_lengths_passes
      registry_test_record_frame_with_empty_frames_counts_a_zero_byte_call_passes
      registry_test_snapshot_sorted_is_ordered_and_matches_snapshot_passes
      registry_test_snapshot_sorted_of_empty_registry_is_empty_passes
      registry_test_reset_clears_all_recorded_stats_passes
      registry_test_reset_of_empty_registry_is_a_noop_passes
      registry_test_total_merges_all_apis_passes
      registry_test_total_of_empty_registry_is_default_passes
      registry_test_report_renders_sorted_table_with_total_passes
      registry_test_report_of_empty_registry_has_header_and_zero_total_passes
      registry_test_to_json_emits_sorted_apis_with_total_passes
      registry_test_to_json_is_well_formed_passes
      registry_test_to_json_of_empty_registry_has_empty_apis_and_zero_total_passes
      registry_test_to_json_escapes_quotes_and_backslashes_in_api_names_passes
      registry_test_record_updates_the_global_registry_passes
      registry_test_record_latency_tracks_per_api_histograms_passes
      registry_test_latency_report_of_empty_registry_is_empty_passes
      registry_test_record_latency_is_independent_of_record_passes
      registry_test_record_and_global_record_target_the_same_registry_passes)

subsection \<open>The opcode table\<close>

definition opcodes_test_opcode_packs_api_byte_and_call_id :: test where
  [test_defs]: "opcodes_test_opcode_packs_api_byte_and_call_id = do {
     let entry = \<lparr>oe_api_name = ''Vulkan'', oe_api_id = 0x01,
       oe_name = ''ENUMERATE_PHYSICAL_DEVICES'', oe_call_id = 0x000003\<rparr>;
     assert_eq (entry_opcode entry) 0x01000003
   }"

definition opcodes_test_format_opcode_uses_padded_hex_layout :: test where
  [test_defs]: "opcodes_test_format_opcode_uses_padded_hex_layout = do {
     let entry = \<lparr>oe_api_name = ''Core'', oe_api_id = 0x00, oe_name = ''HELLO'',
       oe_call_id = 0x000001\<rparr>;
     assert_eq (format_opcode entry) ''0x00_000001''
   }"

definition opcodes_test_table_has_header_and_separator :: test where
  [test_defs]: "opcodes_test_table_has_header_and_separator = do {
     let table = render_opcode_table OPCODES;
     let lines = str_lines table;
     let (r, lines) = list_next lines;
     assert_eq r (Some ''| Opcode | API | Name |'');
     let (r, lines) = list_next lines;
     assert_eq r (Some ''| --- | --- | --- |'')
   }"

definition opcodes_test_table_contains_known_vulkan_row :: test where
  [test_defs]: "opcodes_test_table_contains_known_vulkan_row = do {
     let table = render_opcode_table OPCODES;
     assert (str_contains table ''| 0x01_000003 | Vulkan | ENUMERATE_PHYSICAL_DEVICES |'')
   }"

definition opcodes_test_table_contains_known_core_row :: test where
  [test_defs]: "opcodes_test_table_contains_known_core_row = do {
     let table = render_opcode_table OPCODES;
     assert (str_contains table ''| 0x00_000001 | Core | HELLO |'')
   }"

definition opcodes_test_table_has_one_data_row_per_entry :: test where
  [test_defs]: "opcodes_test_table_has_one_data_row_per_entry = do {
     let table = render_opcode_table OPCODES;
     let data_rows = length (str_lines table) - 2;
     assert_eq data_rows (length OPCODES);
     assert_eq data_rows 44
   }"

definition opcodes_test_rows_preserve_entry_order :: test where
  [test_defs]: "opcodes_test_rows_preserve_entry_order = do {
     let table = render_opcode_table OPCODES;
     hello \<leftarrow> str_find table ''HELLO'';
     create_instance \<leftarrow> str_find table ''CREATE_INSTANCE'';
     assert (hello < create_instance)
   }"

definition opcodes_test_coverage_counts_per_api_and_total_on_fixture :: test where
  [test_defs]: "opcodes_test_coverage_counts_per_api_and_total_on_fixture = do {
     let fixture = [\<lparr>oe_api_name = ''Core'', oe_api_id = 0x00, oe_name = ''HELLO'',
       oe_call_id = 0x000001\<rparr>, \<lparr>oe_api_name = ''Core'', oe_api_id = 0x00,
       oe_name = ''WELCOME'', oe_call_id = 0x000002\<rparr>, \<lparr>oe_api_name = ''Vulkan'',
       oe_api_id = 0x01, oe_name = ''CREATE_INSTANCE'', oe_call_id = 0x0001\<rparr>];
     let table = render_coverage fixture;
     assert_eq table (''| API | Opcodes |'' @ newline @ ''| --- | --- |'' @ newline @
       ''| Core | 2 |'' @ newline @ ''| Vulkan | 1 |'' @ newline @ ''| TOTAL | 3 |'' @ newline)
   }"

definition opcodes_test_coverage_has_header_and_separator :: test where
  [test_defs]: "opcodes_test_coverage_has_header_and_separator = do {
     let table = render_coverage OPCODES;
     let lines = str_lines table;
     let (r, lines) = list_next lines;
     assert_eq r (Some ''| API | Opcodes |'');
     let (r, lines) = list_next lines;
     assert_eq r (Some ''| --- | --- |'')
   }"

definition opcodes_test_coverage_orders_apis_by_api_id :: test where
  [test_defs]: "opcodes_test_coverage_orders_apis_by_api_id = do {
     let table = render_coverage OPCODES;
     core \<leftarrow> str_find table ''| Core |'';
     vulkan \<leftarrow> str_find table ''| Vulkan |'';
     opengl \<leftarrow> str_find table ''| OpenGl |'';
     cuda \<leftarrow> str_find table ''| Cuda |'';
     opencl \<leftarrow> str_find table ''| OpenCl |'';
     hip \<leftarrow> str_find table ''| Hip |'';
     level_zero \<leftarrow> str_find table ''| LevelZero |'';
     video \<leftarrow> str_find table ''| Video |'';
     webgpu \<leftarrow> str_find table ''| WebGpu |'';
     optix \<leftarrow> str_find table ''| OptiX |'';
     sycl \<leftarrow> str_find table ''| Sycl |'';
     amf \<leftarrow> str_find table ''| Amf |'';
     total \<leftarrow> str_find table ''| TOTAL |'';
     assert (((((((((((core < vulkan \<and> vulkan < opengl) \<and> opengl < cuda)
       \<and> cuda < opencl) \<and> opencl < hip) \<and> hip < level_zero)
       \<and> level_zero < video) \<and> video < webgpu) \<and> webgpu < optix) \<and> optix < sycl)
       \<and> sycl < amf) \<and> amf < total)
   }"

definition opcodes_test_coverage_total_equals_entry_count :: test where
  [test_defs]: "opcodes_test_coverage_total_equals_entry_count = do {
     let table = render_coverage OPCODES;
     assert (str_contains table (''| TOTAL | '' @ (digits (length OPCODES)) @ '' |''))
   }"

definition opcodes_test_real_coverage_includes_all_apis_with_expected_minimum_counts :: test where
  [test_defs]: "opcodes_test_real_coverage_includes_all_apis_with_expected_minimum_counts = do {
     let counts = (\<lambda>name. length (filter (\<lambda>e. oe_api_name e = name) OPCODES));
     assert (3 \<le> counts ''Core'');
     assert (11 \<le> counts ''Vulkan'');
     assert (3 \<le> counts ''OpenGl'');
     assert (3 \<le> counts ''Cuda'');
     assert (3 \<le> counts ''OpenCl'');
     assert (3 \<le> counts ''Hip'');
     assert (3 \<le> counts ''LevelZero'');
     assert (3 \<le> counts ''Video'');
     assert (3 \<le> counts ''WebGpu'');
     assert (3 \<le> counts ''OptiX'');
     assert (3 \<le> counts ''Sycl'');
     assert (3 \<le> counts ''Amf'')
   }"

definition opcodes_test_stats_reports_total_and_distinct_apis_on_fixture :: test where
  [test_defs]: "opcodes_test_stats_reports_total_and_distinct_apis_on_fixture = do {
     let fixture = [\<lparr>oe_api_name = ''Core'', oe_api_id = 0x00, oe_name = ''HELLO'',
       oe_call_id = 0x000001\<rparr>, \<lparr>oe_api_name = ''Core'', oe_api_id = 0x00,
       oe_name = ''WELCOME'', oe_call_id = 0x000002\<rparr>, \<lparr>oe_api_name = ''Vulkan'',
       oe_api_id = 0x01, oe_name = ''CREATE_INSTANCE'', oe_call_id = 0x0001\<rparr>];
     let stats = render_stats fixture;
     assert (str_contains stats ''- Total opcodes: 3'');
     assert (str_contains stats ''- Distinct APIs: 2'');
     assert (str_contains stats ''| TOTAL | 3 |'')
   }"

definition opcodes_test_stats_total_and_distinct_match_real_opcodes :: test where
  [test_defs]: "opcodes_test_stats_total_and_distinct_match_real_opcodes = do {
     let stats = render_stats OPCODES;
     assert (str_contains stats (''- Total opcodes: '' @ (digits (length OPCODES))));
     assert (str_contains stats ''- Distinct APIs: 12'')
   }"

definition opcodes_test_stats_ends_with_newline :: test where
  [test_defs]: "opcodes_test_stats_ends_with_newline = do {
     assert (ends_with (render_stats OPCODES) [CHR 0x0A])
   }"

definition opcodes_test_apis_lists_distinct_pairs_sorted_by_id_on_fixture :: test where
  [test_defs]: "opcodes_test_apis_lists_distinct_pairs_sorted_by_id_on_fixture = do {
     let fixture = [\<lparr>oe_api_name = ''Vulkan'', oe_api_id = 0x01,
       oe_name = ''CREATE_INSTANCE'', oe_call_id = 0x0001\<rparr>, \<lparr>oe_api_name = ''Core'',
       oe_api_id = 0x00, oe_name = ''HELLO'', oe_call_id = 0x000001\<rparr>,
       \<lparr>oe_api_name = ''Core'', oe_api_id = 0x00, oe_name = ''WELCOME'',
       oe_call_id = 0x000002\<rparr>];
     let table = render_apis fixture;
     assert_eq table (''| ApiId | API |'' @ newline @ ''| --- | --- |'' @ newline @
       ''| 0x00 | Core |'' @ newline @ ''| 0x01 | Vulkan |'' @ newline)
   }"

definition opcodes_test_apis_has_header_and_separator :: test where
  [test_defs]: "opcodes_test_apis_has_header_and_separator = do {
     let table = render_apis OPCODES;
     let lines = str_lines table;
     let (r, lines) = list_next lines;
     assert_eq r (Some ''| ApiId | API |'');
     let (r, lines) = list_next lines;
     assert_eq r (Some ''| --- | --- |'')
   }"

definition opcodes_test_apis_renders_id_as_padded_hex :: test where
  [test_defs]: "opcodes_test_apis_renders_id_as_padded_hex = do {
     let table = render_apis OPCODES;
     assert (str_contains table ''| 0x00 | Core |'');
     assert (str_contains table ''| 0x0A | Sycl |'')
   }"

definition opcodes_test_apis_has_one_row_per_distinct_api :: test where
  [test_defs]: "opcodes_test_apis_has_one_row_per_distinct_api = do {
     let table = render_apis OPCODES;
     let seen = [];
     seen \<leftarrow> for_state OPCODES (\<lambda>entry seen. do {
       let key = (oe_api_id entry, oe_api_name entry);
       let seen = (if \<not> (key \<in> set seen) then seen @ [key] else seen);
       Some seen
     }) seen;
     let data_rows = length (str_lines table) - 2;
     assert_eq data_rows (length seen);
     assert_eq data_rows 12
   }"

definition opcodes_test_apis_orders_rows_by_api_id :: test where
  [test_defs]: "opcodes_test_apis_orders_rows_by_api_id = do {
     let table = render_apis OPCODES;
     core \<leftarrow> str_find table ''| Core |'';
     vulkan \<leftarrow> str_find table ''| Vulkan |'';
     amf \<leftarrow> str_find table ''| Amf |'';
     assert (core < vulkan \<and> vulkan < amf)
   }"

definition opcodes_test_apis_ends_with_newline :: test where
  [test_defs]: "opcodes_test_apis_ends_with_newline = do {
     assert (ends_with (render_apis OPCODES) [CHR 0x0A])
   }"

definition opcodes_test_summary_has_headline_and_both_subtable_headers :: test where
  [test_defs]: "opcodes_test_summary_has_headline_and_both_subtable_headers = do {
     let summary = render_summary OPCODES;
     assert (str_contains summary (''Opcode summary: '' @ (digits
       (length OPCODES)) @ '' opcode(s) across 12 API(s)''));
     assert (str_contains summary (''| ApiId | API |'' @ newline));
     assert (str_contains summary (''| API | Opcodes |'' @ newline));
     assert (str_contains summary (''| TOTAL | '' @ (digits (length OPCODES)) @ '' |''))
   }"

definition opcodes_test_summary_orders_headline_then_apis_then_coverage :: test where
  [test_defs]: "opcodes_test_summary_orders_headline_then_apis_then_coverage = do {
     let summary = render_summary OPCODES;
     headline \<leftarrow> str_find summary ''Opcode summary:'';
     apis \<leftarrow> str_find summary ''| ApiId | API |'';
     coverage \<leftarrow> str_find summary ''| API | Opcodes |'';
     assert (headline < apis \<and> apis < coverage)
   }"

definition opcodes_test_summary_ends_with_newline :: test where
  [test_defs]: "opcodes_test_summary_ends_with_newline = do {
     assert (ends_with (render_summary OPCODES) [CHR 0x0A])
   }"

definition opcodes_test_lock_starts_with_header_comment :: test where
  [test_defs]: "opcodes_test_lock_starts_with_header_comment = do {
     let lock = render_lock OPCODES;
     assert (starts_with lock ''# GraftX opcode lock'');
     assert (str_contains lock ''opcodes-lock --write'')
   }"

definition opcodes_test_lock_line_format_is_opcode_api_name :: test where
  [test_defs]: "opcodes_test_lock_line_format_is_opcode_api_name = do {
     let lock = render_lock OPCODES;
     assert (str_contains lock (newline @ ''0x01_000003 Vulkan ENUMERATE_PHYSICAL_DEVICES'' @
       newline));
     assert (str_contains lock (newline @ ''0x00_000001 Core HELLO'' @ newline))
   }"

definition opcodes_test_lock_ends_with_newline :: test where
  [test_defs]: "opcodes_test_lock_ends_with_newline = do {
     assert (ends_with (render_lock OPCODES) [CHR 0x0A])
   }"

definition opcodes_test_lock_orders_lines_by_api_id_then_call_id :: test where
  [test_defs]: "opcodes_test_lock_orders_lines_by_api_id_then_call_id = do {
     let fixture = [\<lparr>oe_api_name = ''Vulkan'', oe_api_id = 0x01,
       oe_name = ''DESTROY_INSTANCE'', oe_call_id = 0x0002\<rparr>,
       \<lparr>oe_api_name = ''Vulkan'', oe_api_id = 0x01, oe_name = ''CREATE_INSTANCE'',
       oe_call_id = 0x0001\<rparr>, \<lparr>oe_api_name = ''Core'', oe_api_id = 0x00,
       oe_name = ''HELLO'', oe_call_id = 0x000001\<rparr>];
     let lock = render_lock fixture;
     let body = filter (\<lambda>l. \<not> (starts_with l [CHR ''#''])) (str_lines lock);
     assert_eq body [''0x00_000001 Core HELLO'', ''0x01_000001 Vulkan CREATE_INSTANCE'',
       ''0x01_000002 Vulkan DESTROY_INSTANCE'']
   }"

definition opcodes_test_lock_is_independent_of_entry_order :: test where
  [test_defs]: "opcodes_test_lock_is_independent_of_entry_order = do {
     let reversed = map (\<lambda>e. \<lparr>oe_api_name = oe_api_name e, oe_api_id = oe_api_id e,
       oe_name = oe_name e, oe_call_id = oe_call_id e\<rparr>) (rev OPCODES);
     assert_eq (render_lock OPCODES) (render_lock reversed)
   }"

definition opcodes_test_lock_has_one_body_line_per_entry :: test where
  [test_defs]: "opcodes_test_lock_has_one_body_line_per_entry = do {
     let lock = render_lock OPCODES;
     let body_lines = length (filter (\<lambda>l. \<not> (starts_with l [CHR ''#'']))
       (str_lines lock));
     assert_eq body_lines (length OPCODES)
   }"

definition opcodes_test_doc_starts_with_title_and_generated_intro :: test where
  [test_defs]: "opcodes_test_doc_starts_with_title_and_generated_intro = do {
     let doc = render_doc OPCODES;
     assert (starts_with doc (''# GraftX opcode table'' @ newline));
     assert (str_contains doc (''Generated by '' @ [CHR 0x60] @ ''cargo xtask opcodes-md'' @ [CHR
       0x60]))
   }"

definition opcodes_test_doc_embeds_the_opcode_table :: test where
  [test_defs]: "opcodes_test_doc_embeds_the_opcode_table = do {
     let doc = render_doc OPCODES;
     assert (str_contains doc (''| Opcode | API | Name |'' @ newline));
     assert (str_contains doc ''| 0x01_000003 | Vulkan | ENUMERATE_PHYSICAL_DEVICES |'');
     assert (str_contains doc ''| 0x00_000001 | Core | HELLO |'')
   }"

definition opcodes_test_doc_has_blank_line_between_intro_and_table :: test where
  [test_defs]: "opcodes_test_doc_has_blank_line_between_intro_and_table = do {
     let doc = render_doc OPCODES;
     assert (str_contains doc (''.'' @ newline @ newline @ ''| Opcode | API | Name |'' @ newline))
   }"

definition opcodes_test_doc_ends_with_newline :: test where
  [test_defs]: "opcodes_test_doc_ends_with_newline = do {
     assert (ends_with (render_doc OPCODES) [CHR 0x0A])
   }"

definition opcodes_test_check_doc_reports_up_to_date_for_canonical_file :: test where
  [test_defs]: "opcodes_test_check_doc_reports_up_to_date_for_canonical_file = do {
     let file = Inr (render_doc OPCODES);
     let status = check_doc file OPCODES;
     assert (is_up_to_date status);
     assert (case status of UpToDate \<Rightarrow> True | _ \<Rightarrow> False)
   }"

definition opcodes_test_check_doc_reports_stale_on_difference :: test where
  [test_defs]: "opcodes_test_check_doc_reports_stale_on_difference = do {
     let file = Inr (''# stale doc'' @ newline);
     let status = check_doc file OPCODES;
     assert (\<not> is_up_to_date status);
     case status of Stale _ want \<Rightarrow> assert_eq want (render_doc OPCODES) | _ \<Rightarrow> None
   }"

definition opcodes_test_check_doc_reports_unreadable_when_missing :: test where
  [test_defs]: "opcodes_test_check_doc_reports_unreadable_when_missing = do {
     let file = Inl ''No such file or directory'';
     let status = check_doc file OPCODES;
     assert (\<not> is_up_to_date status);
     assert (case status of Unreadable _ \<Rightarrow> True | _ \<Rightarrow> False)
   }"

definition opcodes_test_check_lock_reports_up_to_date_for_canonical_file :: test where
  [test_defs]: "opcodes_test_check_lock_reports_up_to_date_for_canonical_file = do {
     let file = Inr (render_lock OPCODES);
     let status = check_lock file OPCODES;
     assert (is_up_to_date status);
     assert (case status of UpToDate \<Rightarrow> True | _ \<Rightarrow> False)
   }"

definition opcodes_test_check_lock_reports_stale_on_difference :: test where
  [test_defs]: "opcodes_test_check_lock_reports_stale_on_difference = do {
     let file = Inr (''# stale'' @ newline @ ''0xFF_FFFFFF Bogus OPCODE'' @ newline);
     let status = check_lock file OPCODES;
     assert (\<not> is_up_to_date status);
     case status of Stale _ want \<Rightarrow> assert_eq want (render_lock OPCODES) | _ \<Rightarrow> None
   }"

definition opcodes_test_check_lock_reports_unreadable_when_missing :: test where
  [test_defs]: "opcodes_test_check_lock_reports_unreadable_when_missing = do {
     let file = Inl ''No such file or directory'';
     let status = check_lock file OPCODES;
     assert (\<not> is_up_to_date status);
     assert (case status of Unreadable _ \<Rightarrow> True | _ \<Rightarrow> False)
   }"

text \<open>What the renderers print for the table, line by line. A test that searches the output searches these lines.\<close>

definition opcode_lines :: "string list" where
  "opcode_lines = [''| Opcode | API | Name |'', ''| --- | --- | --- |'',
    ''| 0x00_000001 | Core | HELLO |'', ''| 0x00_000002 | Core | WELCOME |'',
    ''| 0x00_000003 | Core | NOOP |'', ''| 0x01_000001 | Vulkan | CREATE_INSTANCE |'',
    ''| 0x01_000002 | Vulkan | DESTROY_INSTANCE |'',
    ''| 0x01_000003 | Vulkan | ENUMERATE_PHYSICAL_DEVICES |'',
    ''| 0x01_000004 | Vulkan | GET_PHYSICAL_DEVICE_PROPERTIES |'',
    ''| 0x01_000005 | Vulkan | CREATE_DEVICE |'', ''| 0x01_000006 | Vulkan | DESTROY_DEVICE |'',
    ''| 0x01_000007 | Vulkan | GET_DEVICE_QUEUE |'', ''| 0x01_000008 | Vulkan | DEVICE_WAIT_IDLE |'',
    ''| 0x01_000010 | Vulkan | ALLOCATE_MEMORY |'', ''| 0x01_000011 | Vulkan | CREATE_BUFFER |'',
    ''| 0x01_000012 | Vulkan | BIND_BUFFER_MEMORY |'', ''| 0x02_000001 | OpenGl | CREATE_CONTEXT |'',
    ''| 0x02_000002 | OpenGl | MAKE_CURRENT |'', ''| 0x02_000003 | OpenGl | GEN_BUFFER |'',
    ''| 0x03_000001 | Cuda | CTX_CREATE |'', ''| 0x03_000002 | Cuda | MEM_ALLOC |'',
    ''| 0x03_000003 | Cuda | MEM_FREE |'', ''| 0x04_000001 | OpenCl | CREATE_CONTEXT |'',
    ''| 0x04_000002 | OpenCl | CREATE_BUFFER |'', ''| 0x04_000003 | OpenCl | RELEASE_BUFFER |'',
    ''| 0x05_000001 | Hip | MALLOC |'', ''| 0x05_000002 | Hip | FREE |'',
    ''| 0x05_000003 | Hip | STREAM_CREATE |'', ''| 0x06_000001 | LevelZero | CONTEXT_CREATE |'',
    ''| 0x06_000002 | LevelZero | MEM_ALLOC_DEVICE |'', ''| 0x06_000003 | LevelZero | MEM_FREE |'',
    ''| 0x07_000001 | Video | CREATE_DECODE_SESSION |'', ''| 0x07_000002 | Video | DECODE_FRAME |'',
    ''| 0x07_000003 | Video | DESTROY_SESSION |'', ''| 0x08_000001 | WebGpu | REQUEST_DEVICE |'',
    ''| 0x08_000002 | WebGpu | CREATE_BUFFER |'', ''| 0x08_000003 | WebGpu | DESTROY_BUFFER |'',
    ''| 0x09_000001 | OptiX | CONTEXT_CREATE |'', ''| 0x09_000002 | OptiX | PIPELINE_CREATE |'',
    ''| 0x09_000003 | OptiX | DESTROY |'', ''| 0x0A_000001 | Sycl | QUEUE_CREATE |'',
    ''| 0x0A_000002 | Sycl | MALLOC_DEVICE |'', ''| 0x0A_000003 | Sycl | FREE |'',
    ''| 0x0B_000001 | Amf | CREATE_ENCODER |'', ''| 0x0B_000002 | Amf | ENCODE_FRAME |'',
    ''| 0x0B_000003 | Amf | DESTROY_ENCODER |'']"

definition coverage_lines :: "string list" where
  "coverage_lines = [''| API | Opcodes |'', ''| --- | --- |'',
    ''| Core | 3 |'', ''| Vulkan | 11 |'', ''| OpenGl | 3 |'', ''| Cuda | 3 |'', ''| OpenCl | 3 |'',
    ''| Hip | 3 |'', ''| LevelZero | 3 |'', ''| Video | 3 |'', ''| WebGpu | 3 |'', ''| OptiX | 3 |'',
    ''| Sycl | 3 |'', ''| Amf | 3 |'', ''| TOTAL | 44 |'']"

definition rendered_api_lines :: "string list" where
  "rendered_api_lines = [''| ApiId | API |'', ''| --- | --- |'',
    ''| 0x00 | Core |'', ''| 0x01 | Vulkan |'', ''| 0x02 | OpenGl |'', ''| 0x03 | Cuda |'',
    ''| 0x04 | OpenCl |'', ''| 0x05 | Hip |'', ''| 0x06 | LevelZero |'', ''| 0x07 | Video |'',
    ''| 0x08 | WebGpu |'', ''| 0x09 | OptiX |'', ''| 0x0A | Sycl |'', ''| 0x0B | Amf |'']"

definition lock_lines :: "string list" where
  "lock_lines = [
    ''0x00_000001 Core HELLO'', ''0x00_000002 Core WELCOME'', ''0x00_000003 Core NOOP'',
    ''0x01_000001 Vulkan CREATE_INSTANCE'', ''0x01_000002 Vulkan DESTROY_INSTANCE'',
    ''0x01_000003 Vulkan ENUMERATE_PHYSICAL_DEVICES'',
    ''0x01_000004 Vulkan GET_PHYSICAL_DEVICE_PROPERTIES'', ''0x01_000005 Vulkan CREATE_DEVICE'',
    ''0x01_000006 Vulkan DESTROY_DEVICE'', ''0x01_000007 Vulkan GET_DEVICE_QUEUE'',
    ''0x01_000008 Vulkan DEVICE_WAIT_IDLE'', ''0x01_000010 Vulkan ALLOCATE_MEMORY'',
    ''0x01_000011 Vulkan CREATE_BUFFER'', ''0x01_000012 Vulkan BIND_BUFFER_MEMORY'',
    ''0x02_000001 OpenGl CREATE_CONTEXT'', ''0x02_000002 OpenGl MAKE_CURRENT'',
    ''0x02_000003 OpenGl GEN_BUFFER'', ''0x03_000001 Cuda CTX_CREATE'', ''0x03_000002 Cuda MEM_ALLOC'',
    ''0x03_000003 Cuda MEM_FREE'', ''0x04_000001 OpenCl CREATE_CONTEXT'',
    ''0x04_000002 OpenCl CREATE_BUFFER'', ''0x04_000003 OpenCl RELEASE_BUFFER'',
    ''0x05_000001 Hip MALLOC'', ''0x05_000002 Hip FREE'', ''0x05_000003 Hip STREAM_CREATE'',
    ''0x06_000001 LevelZero CONTEXT_CREATE'', ''0x06_000002 LevelZero MEM_ALLOC_DEVICE'',
    ''0x06_000003 LevelZero MEM_FREE'', ''0x07_000001 Video CREATE_DECODE_SESSION'',
    ''0x07_000002 Video DECODE_FRAME'', ''0x07_000003 Video DESTROY_SESSION'',
    ''0x08_000001 WebGpu REQUEST_DEVICE'', ''0x08_000002 WebGpu CREATE_BUFFER'',
    ''0x08_000003 WebGpu DESTROY_BUFFER'', ''0x09_000001 OptiX CONTEXT_CREATE'',
    ''0x09_000002 OptiX PIPELINE_CREATE'', ''0x09_000003 OptiX DESTROY'',
    ''0x0A_000001 Sycl QUEUE_CREATE'', ''0x0A_000002 Sycl MALLOC_DEVICE'', ''0x0A_000003 Sycl FREE'',
    ''0x0B_000001 Amf CREATE_ENCODER'', ''0x0B_000002 Amf ENCODE_FRAME'',
    ''0x0B_000003 Amf DESTROY_ENCODER'']"

lemma render_lines:
  "render_opcode_table es = unlines ([''| Opcode | API | Name |'', ''| --- | --- | --- |'']
     @ map (\<lambda>e. ''| '' @ format_opcode e @ '' | '' @ oe_api_name e @ '' | '' @ oe_name e @ '' |'') es)"
  "render_apis es = unlines ([''| ApiId | API |'', ''| --- | --- |'']
     @ map (\<lambda>(i, name). ''| 0x'' @ hex_pad 2 (unat i) @ '' | '' @ name @ '' |'') (sort_key (\<lambda>(i, _). i) (seen_apis es)))"
  "render_lock es = LOCK_HEADER @ newline @ unlines (map lock_line (sort_key lock_key es))"
  by (simp_all add: render_opcode_table_def render_apis_def render_lock_lines unlines_def newline_def comp_def
      fold_append_concat case_prod_unfold)

lemma fold_rows: "fold (\<lambda>(_, name, n) (out, tot). (out @ f name n, tot + n)) apis (out, tot :: nat)
   = (out @ concat (map (\<lambda>(_, name, n). f name n) apis), tot + sum_list (map (\<lambda>(_, _, n). n) apis))"
  by (induction apis arbitrary: out tot) (auto simp: add.assoc)

lemma render_coverage_lines:
  "render_coverage es =
     (let apis = sort_key (\<lambda>(i, _, _). i) (api_counts es) in
      unlines ([''| API | Opcodes |'', ''| --- | --- |'']
        @ map (\<lambda>(_, name, n). ''| '' @ name @ '' | '' @ digits n @ '' |'') apis
        @ [''| TOTAL | '' @ digits (sum_list (map (\<lambda>(_, _, n). n) apis)) @ '' |'']))"
  by (simp add: render_coverage_def fold_rows Let_def unlines_def newline_def) (simp add: case_prod_unfold comp_def)

lemma str_lines_unlines [test_simps]:
  "list_all (\<lambda>l. CHR 0x0A \<notin> set l \<and> (l = [] \<or> last l \<noteq> CHR 0x0D)) ls \<Longrightarrow> str_lines (unlines ls) = ls"
  unfolding unlines_def by (rule str_lines_terminated)

lemmas rows_defs = OPCODES_def core_vulkan_rows_def other_rows_def entry_def

lemma length_OPCODES [test_simps]: "length OPCODES = 44"
  by (simp add: rows_defs)

lemma OPCODES_lines:
  "map (\<lambda>e. ''| '' @ format_opcode e @ '' | '' @ oe_api_name e @ '' | '' @ oe_name e @ '' |'') OPCODES = drop 2 opcode_lines"
  "map lock_line OPCODES = lock_lines"
  by (simp_all add: rows_defs opcode_lines_def lock_lines_def lock_line_def format_opcode_def entry_opcode_def Let_def
      hex_pad_def pad0_def hex_digits_small hex_digits_eval list_simps)

lemma OPCODES_apis:
  "seen_apis OPCODES = [(0, ''Core''), (1, ''Vulkan''), (2, ''OpenGl''), (3, ''Cuda''), (4, ''OpenCl''), (5, ''Hip''), (6, ''LevelZero''), (7, ''Video''), (8, ''WebGpu''), (9, ''OptiX''), (10, ''Sycl''), (11, ''Amf'')]"
  "api_counts OPCODES = [(0, ''Core'', 3), (1, ''Vulkan'', 11), (2, ''OpenGl'', 3), (3, ''Cuda'', 3), (4, ''OpenCl'', 3), (5, ''Hip'', 3), (6, ''LevelZero'', 3), (7, ''Video'', 3), (8, ''WebGpu'', 3), (9, ''OptiX'', 3), (10, ''Sycl'', 3), (11, ''Amf'', 3)]"
  by (simp_all add: seen_apis_def api_counts_def rows_defs Let_def)

lemma lock_order: "sort_key lock_key OPCODES = OPCODES"
  by (rule sort_key_id_if_sorted) (simp add: rows_defs lock_key_def entry_opcode_def)

definition lock_header_lines :: "string list" where
  "lock_header_lines = [
    ''# GraftX opcode lock '' @ dash @ '' generated by '' @ [CHR 0x60] @ ''cargo xtask opcodes-lock --write'' @ [CHR 0x60] @ ''.'',
    ''# One line per opcode: '' @ [CHR 0x60] @ ''0x<api>_<call> <API> <NAME>'' @ [CHR 0x60] @ '', sorted by (api_id, call_id).'',
    ''# Do not edit by hand; renumbering an opcode here will fail '' @ [CHR 0x60] @ ''opcodes-lock --check'' @ [CHR 0x60] @ ''.'']"

definition doc_header_lines :: "string list" where
  "doc_header_lines = [''# GraftX opcode table'', [],
    ''Generated by '' @ [CHR 0x60] @ ''cargo xtask opcodes-md'' @ [CHR 0x60] @ ''. Do not edit by hand; regenerate it with'',
    [CHR 0x60] @ ''cargo xtask opcodes-md --write'' @ [CHR 0x60] @ '' and gate drift in CI with '' @
      [CHR 0x60] @ ''cargo xtask opcodes-md --check'' @ [CHR 0x60] @ ''.'', []]"

lemma header_lines:
  "LOCK_HEADER @ newline = unlines lock_header_lines"
  "DOC_HEADER @ newline @ newline = unlines doc_header_lines"
  by (simp_all add: LOCK_HEADER_def DOC_HEADER_def lock_header_lines_def doc_header_lines_def unlines_def newline_def
      dash_def)

lemma rendered [test_simps]:
  "render_opcode_table OPCODES = unlines opcode_lines"
  "render_coverage OPCODES = unlines coverage_lines"
  "render_apis OPCODES = unlines rendered_api_lines"
proof -
  show "render_opcode_table OPCODES = unlines opcode_lines"
    unfolding render_lines OPCODES_lines by (simp add: opcode_lines_def)
  show "render_coverage OPCODES = unlines coverage_lines"
    unfolding render_coverage_lines OPCODES_apis by (simp add: coverage_lines_def Let_def digits_small digits_Suc digits_eval)
  show "render_apis OPCODES = unlines rendered_api_lines"
    unfolding render_lines OPCODES_apis
    by (simp add: rendered_api_lines_def hex_pad_def pad0_def hex_digits_small hex_digits_eval list_simps)
qed

lemma rendered_texts [test_simps]:
  "render_lock OPCODES = unlines (lock_header_lines @ lock_lines)"
  "render_doc OPCODES = unlines (doc_header_lines @ opcode_lines)"
  "render_stats OPCODES = unlines ([''# Opcode stats'', [], ''- Total opcodes: 44'', ''- Distinct APIs: 12'', []] @ coverage_lines)"
  "render_summary OPCODES =
     unlines ([''Opcode summary: 44 opcode(s) across 12 API(s)'', []] @ rendered_api_lines @ [[]] @ coverage_lines)"
proof -
  show "render_lock OPCODES = unlines (lock_header_lines @ lock_lines)"
    by (simp add: render_lines(3) lock_order OPCODES_lines unlines_append flip: header_lines)
  show "render_doc OPCODES = unlines (doc_header_lines @ opcode_lines)"
    by (simp add: render_doc_def rendered unlines_append flip: header_lines)
  show "render_stats OPCODES = unlines ([''# Opcode stats'', [], ''- Total opcodes: 44'', ''- Distinct APIs: 12'', []] @ coverage_lines)"
    by (simp add: render_stats_def rendered OPCODES_apis length_OPCODES unlines_append unlines_simps Let_def
        digits_small digits_Suc digits_eval newline_def)
  show "render_summary OPCODES =
     unlines ([''Opcode summary: 44 opcode(s) across 12 API(s)'', []] @ rendered_api_lines @ [[]] @ coverage_lines)"
    by (simp add: render_summary_def rendered OPCODES_apis length_OPCODES unlines_append unlines_simps Let_def
        digits_small digits_Suc digits_eval newline_def)
qed

lemmas line_defs [test_simps] = opcode_lines_def coverage_lines_def rendered_api_lines_def lock_lines_def
  lock_header_lines_def doc_header_lines_def entry_opcode_def format_opcode_def hex_pad_def pad0_def
  check_lock_def check_doc_def check_text_def is_up_to_date_def

lemmas fixture_eval = render_coverage_lines render_lines render_stats_def render_summary_def
  api_counts_def seen_apis_def lock_key_def lock_line_def

lemma same_entries:
  "map (\<lambda>e. \<lparr>oe_api_name = oe_api_name e, oe_api_id = oe_api_id e, oe_name = oe_name e, oe_call_id = oe_call_id e\<rparr>) es = es"
  by (rule map_idI) simp

lemma filter_key_rev:
  "distinct (map f xs) \<Longrightarrow> filter (\<lambda>x. f k = f x) (rev xs) = filter (\<lambda>x. f k = f x) xs"
proof (induction xs)
  case (Cons x xs)
  then show ?case by (cases "f k = f x") (auto simp: filter_empty_conv image_iff)
qed simp

lemma sort_key_rev:
  assumes "sorted (map f xs)" "distinct (map f xs)" shows "sort_key f (rev xs) = xs"
  using assms by (intro properties_for_sort_key) (auto simp: filter_key_rev)

lemma strict_lock_order: "sorted_wrt (<) (map lock_key OPCODES)"
  by (simp add: rows_defs lock_key_def entry_opcode_def sorted_wrt2 sorted_wrt1 del: sorted_wrt.simps(2))

lemma reversed_OPCODES: "sort_key lock_key (rev OPCODES) = OPCODES"
  using strict_lock_order by (intro sort_key_rev) (simp_all add: strict_sorted_iff)

lemma seen_loop:
  "for_state es (\<lambda>e seen. Some (if \<not> (oe_api_id e, oe_api_name e) \<in> set seen
     then seen @ [(oe_api_id e, oe_api_name e)] else seen)) [] = Some (seen_apis es)"
proof -
  have "for_state es (\<lambda>e seen. Some (if \<not> (oe_api_id e, oe_api_name e) \<in> set seen
      then seen @ [(oe_api_id e, oe_api_name e)] else seen)) s
    = Some (fold (\<lambda>e seen. let key = (oe_api_id e, oe_api_name e) in if key \<in> set seen then seen else seen @ [key]) es s)" for s
    by (induction es arbitrary: s) (simp_all add: Let_def)
  then show ?thesis by (simp only: seen_apis_def)
qed

lemma fixture_lock:
  "render_lock es = unlines (lock_header_lines @ map lock_line (sort_key lock_key es))"
  by (simp add: render_lines(3) unlines_append flip: header_lines)

lemma opcodes_test_opcode_packs_api_byte_and_call_id_passes: "opcodes_test_opcode_packs_api_byte_and_call_id = Some ()"
  by (simp add: test_defs test_simps cong: text_congs del: text_dels)

lemma opcodes_test_format_opcode_uses_padded_hex_layout_passes: "opcodes_test_format_opcode_uses_padded_hex_layout = Some ()"
  by (simp add: test_defs test_simps cong: text_congs del: text_dels)

lemma opcodes_test_table_has_header_and_separator_passes: "opcodes_test_table_has_header_and_separator = Some ()"
  by (simp add: test_defs test_simps cong: text_congs del: text_dels)

lemma opcodes_test_table_contains_known_vulkan_row_passes: "opcodes_test_table_contains_known_vulkan_row = Some ()"
  by (simp add: test_defs test_simps cong: text_congs del: text_dels)

lemma opcodes_test_table_contains_known_core_row_passes: "opcodes_test_table_contains_known_core_row = Some ()"
  by (simp add: test_defs test_simps cong: text_congs del: text_dels)

lemma opcodes_test_table_has_one_data_row_per_entry_passes: "opcodes_test_table_has_one_data_row_per_entry = Some ()"
  by (simp add: test_defs test_simps cong: text_congs del: text_dels)

lemma opcodes_test_rows_preserve_entry_order_passes: "opcodes_test_rows_preserve_entry_order = Some ()"
  by (simp add: test_defs test_simps cong: text_congs del: text_dels)

lemma opcodes_test_coverage_counts_per_api_and_total_on_fixture_passes: "opcodes_test_coverage_counts_per_api_and_total_on_fixture = Some ()"
  by (simp add: test_defs test_simps fixture_eval cong: text_congs del: text_dels)

lemma opcodes_test_coverage_has_header_and_separator_passes: "opcodes_test_coverage_has_header_and_separator = Some ()"
  by (simp add: test_defs test_simps cong: text_congs del: text_dels)

lemma opcodes_test_coverage_orders_apis_by_api_id_passes: "opcodes_test_coverage_orders_apis_by_api_id = Some ()"
  by (simp add: test_defs test_simps cong: text_congs del: text_dels)

lemma opcodes_test_coverage_total_equals_entry_count_passes: "opcodes_test_coverage_total_equals_entry_count = Some ()"
  by (simp add: test_defs test_simps cong: text_congs del: text_dels)

lemma opcodes_test_real_coverage_includes_all_apis_with_expected_minimum_counts_passes: "opcodes_test_real_coverage_includes_all_apis_with_expected_minimum_counts = Some ()"
  by (simp add: test_defs test_simps rows_defs cong: text_congs del: text_dels)

lemma opcodes_test_stats_reports_total_and_distinct_apis_on_fixture_passes: "opcodes_test_stats_reports_total_and_distinct_apis_on_fixture = Some ()"
  by (simp add: test_defs test_simps fixture_eval cong: text_congs del: text_dels)

lemma opcodes_test_stats_total_and_distinct_match_real_opcodes_passes: "opcodes_test_stats_total_and_distinct_match_real_opcodes = Some ()"
  by (simp add: test_defs test_simps cong: text_congs del: text_dels)

lemma opcodes_test_stats_ends_with_newline_passes: "opcodes_test_stats_ends_with_newline = Some ()"
  by (simp add: test_defs test_simps cong: text_congs del: text_dels)

lemma opcodes_test_apis_lists_distinct_pairs_sorted_by_id_on_fixture_passes: "opcodes_test_apis_lists_distinct_pairs_sorted_by_id_on_fixture = Some ()"
  by (simp add: test_defs test_simps fixture_eval cong: text_congs del: text_dels)

lemma opcodes_test_apis_has_header_and_separator_passes: "opcodes_test_apis_has_header_and_separator = Some ()"
  by (simp add: test_defs test_simps cong: text_congs del: text_dels)

lemma opcodes_test_apis_renders_id_as_padded_hex_passes: "opcodes_test_apis_renders_id_as_padded_hex = Some ()"
  by (simp add: test_defs test_simps cong: text_congs del: text_dels)

lemma opcodes_test_apis_has_one_row_per_distinct_api_passes: "opcodes_test_apis_has_one_row_per_distinct_api = Some ()"
  by (simp add: test_defs seen_loop OPCODES_apis test_simps cong: text_congs del: text_dels)

lemma opcodes_test_apis_orders_rows_by_api_id_passes: "opcodes_test_apis_orders_rows_by_api_id = Some ()"
  by (simp add: test_defs test_simps cong: text_congs del: text_dels)

lemma opcodes_test_apis_ends_with_newline_passes: "opcodes_test_apis_ends_with_newline = Some ()"
  by (simp add: test_defs test_simps cong: text_congs del: text_dels)

lemma opcodes_test_summary_has_headline_and_both_subtable_headers_passes: "opcodes_test_summary_has_headline_and_both_subtable_headers = Some ()"
  by (simp add: test_defs test_simps cong: text_congs del: text_dels)

lemma opcodes_test_summary_orders_headline_then_apis_then_coverage_passes: "opcodes_test_summary_orders_headline_then_apis_then_coverage = Some ()"
  by (simp add: test_defs test_simps cong: text_congs del: text_dels)

lemma opcodes_test_summary_ends_with_newline_passes: "opcodes_test_summary_ends_with_newline = Some ()"
  by (simp add: test_defs test_simps cong: text_congs del: text_dels)

lemma opcodes_test_lock_starts_with_header_comment_passes: "opcodes_test_lock_starts_with_header_comment = Some ()"
  by (simp add: test_defs test_simps cong: text_congs del: text_dels)

lemma opcodes_test_lock_line_format_is_opcode_api_name_passes: "opcodes_test_lock_line_format_is_opcode_api_name = Some ()"
  by (simp add: test_defs test_simps cong: text_congs del: text_dels)

lemma opcodes_test_lock_ends_with_newline_passes: "opcodes_test_lock_ends_with_newline = Some ()"
  by (simp add: test_defs test_simps cong: text_congs del: text_dels)

lemma opcodes_test_lock_orders_lines_by_api_id_then_call_id_passes: "opcodes_test_lock_orders_lines_by_api_id_then_call_id = Some ()"
  by (simp add: test_defs fixture_lock lock_key_def lock_line_def test_simps cong: text_congs del: text_dels)

lemma opcodes_test_lock_is_independent_of_entry_order_passes: "opcodes_test_lock_is_independent_of_entry_order = Some ()"
  by (simp add: test_defs render_lines same_entries reversed_OPCODES lock_order assert_simps Let_def)

lemma opcodes_test_lock_has_one_body_line_per_entry_passes: "opcodes_test_lock_has_one_body_line_per_entry = Some ()"
  by (simp add: test_defs test_simps cong: text_congs del: text_dels)

lemma opcodes_test_doc_starts_with_title_and_generated_intro_passes: "opcodes_test_doc_starts_with_title_and_generated_intro = Some ()"
  by (simp add: test_defs test_simps cong: text_congs del: text_dels)

lemma opcodes_test_doc_embeds_the_opcode_table_passes: "opcodes_test_doc_embeds_the_opcode_table = Some ()"
  by (simp add: test_defs test_simps cong: text_congs del: text_dels)

lemma opcodes_test_doc_has_blank_line_between_intro_and_table_passes: "opcodes_test_doc_has_blank_line_between_intro_and_table = Some ()"
  by (simp add: test_defs test_simps cong: text_congs del: text_dels)

lemma opcodes_test_doc_ends_with_newline_passes: "opcodes_test_doc_ends_with_newline = Some ()"
  by (simp add: test_defs test_simps cong: text_congs del: text_dels)

lemma opcodes_test_check_doc_reports_up_to_date_for_canonical_file_passes: "opcodes_test_check_doc_reports_up_to_date_for_canonical_file = Some ()"
  by (simp add: test_defs test_simps cong: text_congs del: text_dels)

lemma opcodes_test_check_doc_reports_stale_on_difference_passes: "opcodes_test_check_doc_reports_stale_on_difference = Some ()"
  by (simp add: test_defs test_simps cong: text_congs del: text_dels)

lemma opcodes_test_check_doc_reports_unreadable_when_missing_passes: "opcodes_test_check_doc_reports_unreadable_when_missing = Some ()"
  by (simp add: test_defs test_simps cong: text_congs del: text_dels)

lemma opcodes_test_check_lock_reports_up_to_date_for_canonical_file_passes: "opcodes_test_check_lock_reports_up_to_date_for_canonical_file = Some ()"
  by (simp add: test_defs test_simps cong: text_congs del: text_dels)

lemma opcodes_test_check_lock_reports_stale_on_difference_passes: "opcodes_test_check_lock_reports_stale_on_difference = Some ()"
  by (simp add: test_defs test_simps cong: text_congs del: text_dels)

lemma opcodes_test_check_lock_reports_unreadable_when_missing_passes: "opcodes_test_check_lock_reports_unreadable_when_missing = Some ()"
  by (simp add: test_defs test_simps cong: text_congs del: text_dels)

definition opcodes_unit_tests :: "test list" where
  "opcodes_unit_tests = [
    opcodes_test_opcode_packs_api_byte_and_call_id,
    opcodes_test_format_opcode_uses_padded_hex_layout, opcodes_test_table_has_header_and_separator,
    opcodes_test_table_contains_known_vulkan_row, opcodes_test_table_contains_known_core_row,
    opcodes_test_table_has_one_data_row_per_entry, opcodes_test_rows_preserve_entry_order,
    opcodes_test_coverage_counts_per_api_and_total_on_fixture,
    opcodes_test_coverage_has_header_and_separator, opcodes_test_coverage_orders_apis_by_api_id,
    opcodes_test_coverage_total_equals_entry_count,
    opcodes_test_real_coverage_includes_all_apis_with_expected_minimum_counts,
    opcodes_test_stats_reports_total_and_distinct_apis_on_fixture,
    opcodes_test_stats_total_and_distinct_match_real_opcodes, opcodes_test_stats_ends_with_newline,
    opcodes_test_apis_lists_distinct_pairs_sorted_by_id_on_fixture,
    opcodes_test_apis_has_header_and_separator, opcodes_test_apis_renders_id_as_padded_hex,
    opcodes_test_apis_has_one_row_per_distinct_api, opcodes_test_apis_orders_rows_by_api_id,
    opcodes_test_apis_ends_with_newline,
    opcodes_test_summary_has_headline_and_both_subtable_headers,
    opcodes_test_summary_orders_headline_then_apis_then_coverage,
    opcodes_test_summary_ends_with_newline, opcodes_test_lock_starts_with_header_comment,
    opcodes_test_lock_line_format_is_opcode_api_name, opcodes_test_lock_ends_with_newline,
    opcodes_test_lock_orders_lines_by_api_id_then_call_id,
    opcodes_test_lock_is_independent_of_entry_order, opcodes_test_lock_has_one_body_line_per_entry,
    opcodes_test_doc_starts_with_title_and_generated_intro,
    opcodes_test_doc_embeds_the_opcode_table,
    opcodes_test_doc_has_blank_line_between_intro_and_table, opcodes_test_doc_ends_with_newline,
    opcodes_test_check_doc_reports_up_to_date_for_canonical_file,
    opcodes_test_check_doc_reports_stale_on_difference,
    opcodes_test_check_doc_reports_unreadable_when_missing,
    opcodes_test_check_lock_reports_up_to_date_for_canonical_file,
    opcodes_test_check_lock_reports_stale_on_difference,
    opcodes_test_check_lock_reports_unreadable_when_missing]"

lemma opcodes_unit_tests_pass: "list_all (\<lambda>t. t = Some ()) opcodes_unit_tests"
  by (simp add: opcodes_unit_tests_def
      opcodes_test_opcode_packs_api_byte_and_call_id_passes
      opcodes_test_format_opcode_uses_padded_hex_layout_passes
      opcodes_test_table_has_header_and_separator_passes
      opcodes_test_table_contains_known_vulkan_row_passes
      opcodes_test_table_contains_known_core_row_passes
      opcodes_test_table_has_one_data_row_per_entry_passes
      opcodes_test_rows_preserve_entry_order_passes
      opcodes_test_coverage_counts_per_api_and_total_on_fixture_passes
      opcodes_test_coverage_has_header_and_separator_passes
      opcodes_test_coverage_orders_apis_by_api_id_passes
      opcodes_test_coverage_total_equals_entry_count_passes
      opcodes_test_real_coverage_includes_all_apis_with_expected_minimum_counts_passes
      opcodes_test_stats_reports_total_and_distinct_apis_on_fixture_passes
      opcodes_test_stats_total_and_distinct_match_real_opcodes_passes
      opcodes_test_stats_ends_with_newline_passes
      opcodes_test_apis_lists_distinct_pairs_sorted_by_id_on_fixture_passes
      opcodes_test_apis_has_header_and_separator_passes
      opcodes_test_apis_renders_id_as_padded_hex_passes
      opcodes_test_apis_has_one_row_per_distinct_api_passes
      opcodes_test_apis_orders_rows_by_api_id_passes opcodes_test_apis_ends_with_newline_passes
      opcodes_test_summary_has_headline_and_both_subtable_headers_passes
      opcodes_test_summary_orders_headline_then_apis_then_coverage_passes
      opcodes_test_summary_ends_with_newline_passes
      opcodes_test_lock_starts_with_header_comment_passes
      opcodes_test_lock_line_format_is_opcode_api_name_passes
      opcodes_test_lock_ends_with_newline_passes
      opcodes_test_lock_orders_lines_by_api_id_then_call_id_passes
      opcodes_test_lock_is_independent_of_entry_order_passes
      opcodes_test_lock_has_one_body_line_per_entry_passes
      opcodes_test_doc_starts_with_title_and_generated_intro_passes
      opcodes_test_doc_embeds_the_opcode_table_passes
      opcodes_test_doc_has_blank_line_between_intro_and_table_passes
      opcodes_test_doc_ends_with_newline_passes
      opcodes_test_check_doc_reports_up_to_date_for_canonical_file_passes
      opcodes_test_check_doc_reports_stale_on_difference_passes
      opcodes_test_check_doc_reports_unreadable_when_missing_passes
      opcodes_test_check_lock_reports_up_to_date_for_canonical_file_passes
      opcodes_test_check_lock_reports_stale_on_difference_passes
      opcodes_test_check_lock_reports_unreadable_when_missing_passes)

subsection \<open>Links and chapter references\<close>

definition xrefs_test_extract_links_finds_inline_target :: test where
  [test_defs]: "xrefs_test_extract_links_finds_inline_target = do {
     let md = ''see [the plan](plan/06-protocol.md) for details'';
     assert_eq (extract_links md) [(1, ''plan/06-protocol.md'')]
   }"

definition xrefs_test_extract_links_reports_line_numbers :: test where
  [test_defs]: "xrefs_test_extract_links_reports_line_numbers = do {
     let md = ''intro'' @ newline @ ''[a](one.md)'' @ newline @ newline @ ''[b](two.md)'' @ newline;
     assert_eq (extract_links md) [(2, ''one.md''), (4, ''two.md'')]
   }"

definition xrefs_test_extract_links_handles_multiple_links_on_one_line :: test where
  [test_defs]: "xrefs_test_extract_links_handles_multiple_links_on_one_line = do {
     let md = ''[a](a.md) and [b](b.md)'';
     assert_eq (extract_links md) [(1, ''a.md''), (1, ''b.md'')]
   }"

definition xrefs_test_extract_links_keeps_anchor_and_external_targets :: test where
  [test_defs]: "xrefs_test_extract_links_keeps_anchor_and_external_targets = do {
     let md = ''[x](https://example.com) [y](#section) [z](../README.md)'';
     assert_eq (extract_links md) [(1, ''https://example.com''), (1, ''#section''), (1, ''../README.md'')]
   }"

definition xrefs_test_extract_links_ignores_unclosed_paren :: test where
  [test_defs]: "xrefs_test_extract_links_ignores_unclosed_paren = do {
     let md = ''[broken](no-close'';
     assert (extract_links md = [])
   }"

definition xrefs_test_extract_chapter_refs_handles_both_spacings :: test where
  [test_defs]: "xrefs_test_extract_chapter_refs_handles_both_spacings = do {
     let md = ''transport (Ch. 08) and protocol (Ch.06) and appendices (Ch. 32)'';
     assert_eq (extract_chapter_refs md) [(1, 8), (1, 6), (1, 32)]
   }"

definition xrefs_test_extract_chapter_refs_reports_line_numbers :: test where
  [test_defs]: "xrefs_test_extract_chapter_refs_reports_line_numbers = do {
     let md = ''first'' @ newline @ ''see (Ch. 13)'' @ newline @ ''last (Ch.99)'' @ newline;
     assert_eq (extract_chapter_refs md) [(2, 13), (3, 99)]
   }"

definition xrefs_test_extract_chapter_refs_ignores_malformed :: test where
  [test_defs]: "xrefs_test_extract_chapter_refs_ignores_malformed = do {
     let md = ''(Ch. ) (Ch. 7x) (Ch.) plain (Ch'';
     assert (extract_chapter_refs md = [])
   }"

definition xrefs_test_chapter_range_check_bounds :: test where
  [test_defs]: "xrefs_test_chapter_range_check_bounds = do {
     assert (\<not> chapter_in_range 0);
     assert (chapter_in_range 1);
     assert (chapter_in_range 32);
     assert (\<not> chapter_in_range 33);
     assert (\<not> chapter_in_range 99)
   }"

definition xrefs_test_external_and_anchor_targets_are_skipped :: test where
  [test_defs]: "xrefs_test_external_and_anchor_targets_are_skipped = do {
     assert (is_external_or_anchor ''http://x'');
     assert (is_external_or_anchor ''https://x'');
     assert (is_external_or_anchor ''mailto:a@b.c'');
     assert (is_external_or_anchor ''#frag'');
     assert (is_external_or_anchor '''');
     assert (\<not> is_external_or_anchor ''../README.md'');
     assert (\<not> is_external_or_anchor ''plan/06-protocol.md'')
   }"

definition xrefs_test_link_target_strips_anchor_before_resolving :: test where
  [test_defs]: "xrefs_test_link_target_strips_anchor_before_resolving = do {
     let from_file = [''docs'', ''design'', ''README.md''];
     assert (\<not> link_target_exists no_files from_file ''definitely-missing-file.md#anchor'')
   }"

definition xrefs_test_lint_markdown_flags_out_of_range_chapter :: test where
  [test_defs]: "xrefs_test_lint_markdown_flags_out_of_range_chapter = do {
     let path = [''docs'', ''sample.md''];
     let issues = lint_markdown no_files path (''ok (Ch. 06)'' @ newline @ ''bad (Ch. 40)'' @ newline);
     assert_eq (length issues) 1;
     issue \<leftarrow> index issues 0;
     case issue of OutOfRangeChapter line chapter \<Rightarrow> do {
       assert_eq line 2;
       assert_eq chapter 40
     } | other \<Rightarrow> None
   }"

definition xrefs_test_lint_markdown_flags_broken_relative_link :: test where
  [test_defs]: "xrefs_test_lint_markdown_flags_broken_relative_link = do {
     let path = [''docs'', ''sample.md''];
     let issues = lint_markdown no_files path (''[gone](this-target-does-not-exist.md)'' @ newline);
     assert_eq (length issues) 1;
     issue \<leftarrow> index issues 0;
     case issue of BrokenLink line target \<Rightarrow> do {
       assert_eq line 1;
       assert_eq target ''this-target-does-not-exist.md''
     } | other \<Rightarrow> None
   }"

definition xrefs_test_lint_markdown_orders_issues_by_line :: test where
  [test_defs]: "xrefs_test_lint_markdown_orders_issues_by_line = do {
     let path = [''docs'', ''sample.md''];
     let md = ''bad (Ch. 40)'' @ newline @ ''[gone](this-target-does-not-exist.md)'' @ newline;
     let issues = lint_markdown no_files path md;
     assert_eq (length issues) 2;
     issue \<leftarrow> index issues 0;
     assert_eq (issue_line issue) 1;
     issue \<leftarrow> index issues 1;
     assert_eq (issue_line issue) 2
   }"

definition xrefs_test_missing_docs_dir_reports_no_issues :: test where
  [test_defs]: "xrefs_test_missing_docs_dir_reports_no_issues = do {
     let (out, count) = check_xrefs no_files [''definitely'', ''not'', ''a'', ''real'', ''docs'', ''dir''];
     assert_eq count 0;
     assert (str_contains out ''no issues found'')
   }"

lemma exits_cong: "c = c' \<Longrightarrow> exits c out err = exits c' out err"
  by simp

lemma char_of_b: "char_of (98 :: nat) = CHR ''b''"
  by code_simp

lemmas docs_eval = char_of_b extract_links_def extract_chapter_refs_def line_chapter_refs.simps chapter_ref_def parse_u32_def
  dec_value_def is_ascii_digit_def chapter_in_range_def MIN_CHAPTER_def MAX_CHAPTER_def is_external_or_anchor_def
  link_target_exists_def lint_markdown_def check_xrefs_def collect_markdown_files_def missing_index_links_def
  check_doc_index_def list_markdown_filenames_def README_NAME_def display_def parent_def
  run_def exits_def EXIT_SUCCESS_def EXIT_FAILURE_def EXIT_USAGE_def DOCS_DIR_def OPCODES_LOCK_def OPCODES_MD_def
  DESIGN_DIR_def parse_lock_mode_def report_first_difference_def opcodes_lock_def opcodes_md_def passed_def
  verify_exit_code_def verify_def is_ok_def cli_run_def cli_EXIT_SUCCESS_def cli_EXIT_USAGE_def print_lines_def
  cli_usage_def version_text_def client_protocol_version_def info_lines_def welcome_lines_def Cli.api_lines_def API_IDS_def
  emit_all_def CARGO_PKG_VERSION_def hex_lower_def

lemmas line_eval = str_lines_def strip_eol_def

lemma xrefs_test_extract_links_finds_inline_target_passes: "xrefs_test_extract_links_finds_inline_target = Some ()"
  by (simp add: test_defs test_simps docs_eval line_eval cong: text_congs exits_cong del: text_dels)

lemma xrefs_test_extract_links_reports_line_numbers_passes: "xrefs_test_extract_links_reports_line_numbers = Some ()"
  by (simp add: test_defs test_simps docs_eval line_eval cong: text_congs exits_cong del: text_dels)

lemma xrefs_test_extract_links_handles_multiple_links_on_one_line_passes: "xrefs_test_extract_links_handles_multiple_links_on_one_line = Some ()"
  by (simp add: test_defs test_simps docs_eval line_eval cong: text_congs exits_cong del: text_dels)

lemma xrefs_test_extract_links_keeps_anchor_and_external_targets_passes: "xrefs_test_extract_links_keeps_anchor_and_external_targets = Some ()"
  by (simp add: test_defs test_simps docs_eval line_eval cong: text_congs exits_cong del: text_dels)

lemma xrefs_test_extract_links_ignores_unclosed_paren_passes: "xrefs_test_extract_links_ignores_unclosed_paren = Some ()"
  by (simp add: test_defs test_simps docs_eval line_eval cong: text_congs exits_cong del: text_dels)

lemma xrefs_test_extract_chapter_refs_handles_both_spacings_passes: "xrefs_test_extract_chapter_refs_handles_both_spacings = Some ()"
  by (simp add: test_defs test_simps docs_eval line_eval cong: text_congs exits_cong del: text_dels)

lemma xrefs_test_extract_chapter_refs_reports_line_numbers_passes: "xrefs_test_extract_chapter_refs_reports_line_numbers = Some ()"
  by (simp add: test_defs test_simps docs_eval line_eval cong: text_congs exits_cong del: text_dels)

lemma xrefs_test_extract_chapter_refs_ignores_malformed_passes: "xrefs_test_extract_chapter_refs_ignores_malformed = Some ()"
  by (simp add: test_defs test_simps docs_eval line_eval cong: text_congs exits_cong del: text_dels)

lemma xrefs_test_chapter_range_check_bounds_passes: "xrefs_test_chapter_range_check_bounds = Some ()"
  by (simp add: test_defs test_simps docs_eval line_eval cong: text_congs exits_cong del: text_dels)

lemma xrefs_test_external_and_anchor_targets_are_skipped_passes: "xrefs_test_external_and_anchor_targets_are_skipped = Some ()"
  by (simp add: test_defs test_simps docs_eval line_eval cong: text_congs exits_cong del: text_dels)

lemma xrefs_test_link_target_strips_anchor_before_resolving_passes: "xrefs_test_link_target_strips_anchor_before_resolving = Some ()"
  by (simp add: test_defs test_simps docs_eval line_eval cong: text_congs exits_cong del: text_dels)

lemma xrefs_test_lint_markdown_flags_out_of_range_chapter_passes: "xrefs_test_lint_markdown_flags_out_of_range_chapter = Some ()"
  by (simp add: test_defs test_simps docs_eval line_eval cong: text_congs exits_cong del: text_dels)

lemma xrefs_test_lint_markdown_flags_broken_relative_link_passes: "xrefs_test_lint_markdown_flags_broken_relative_link = Some ()"
  by (simp add: test_defs test_simps docs_eval line_eval cong: text_congs exits_cong del: text_dels)

lemma xrefs_test_lint_markdown_orders_issues_by_line_passes: "xrefs_test_lint_markdown_orders_issues_by_line = Some ()"
  by (simp add: test_defs test_simps docs_eval line_eval cong: text_congs exits_cong del: text_dels)

lemma xrefs_test_missing_docs_dir_reports_no_issues_passes: "xrefs_test_missing_docs_dir_reports_no_issues = Some ()"
  by (simp add: test_defs test_simps docs_eval line_eval cong: text_congs exits_cong del: text_dels)

definition xrefs_unit_tests :: "test list" where
  "xrefs_unit_tests = [
    xrefs_test_extract_links_finds_inline_target, xrefs_test_extract_links_reports_line_numbers,
    xrefs_test_extract_links_handles_multiple_links_on_one_line,
    xrefs_test_extract_links_keeps_anchor_and_external_targets,
    xrefs_test_extract_links_ignores_unclosed_paren,
    xrefs_test_extract_chapter_refs_handles_both_spacings,
    xrefs_test_extract_chapter_refs_reports_line_numbers,
    xrefs_test_extract_chapter_refs_ignores_malformed, xrefs_test_chapter_range_check_bounds,
    xrefs_test_external_and_anchor_targets_are_skipped,
    xrefs_test_link_target_strips_anchor_before_resolving,
    xrefs_test_lint_markdown_flags_out_of_range_chapter,
    xrefs_test_lint_markdown_flags_broken_relative_link,
    xrefs_test_lint_markdown_orders_issues_by_line, xrefs_test_missing_docs_dir_reports_no_issues]"

lemma xrefs_unit_tests_pass: "list_all (\<lambda>t. t = Some ()) xrefs_unit_tests"
  by (simp add: xrefs_unit_tests_def
      xrefs_test_extract_links_finds_inline_target_passes
      xrefs_test_extract_links_reports_line_numbers_passes
      xrefs_test_extract_links_handles_multiple_links_on_one_line_passes
      xrefs_test_extract_links_keeps_anchor_and_external_targets_passes
      xrefs_test_extract_links_ignores_unclosed_paren_passes
      xrefs_test_extract_chapter_refs_handles_both_spacings_passes
      xrefs_test_extract_chapter_refs_reports_line_numbers_passes
      xrefs_test_extract_chapter_refs_ignores_malformed_passes
      xrefs_test_chapter_range_check_bounds_passes
      xrefs_test_external_and_anchor_targets_are_skipped_passes
      xrefs_test_link_target_strips_anchor_before_resolving_passes
      xrefs_test_lint_markdown_flags_out_of_range_chapter_passes
      xrefs_test_lint_markdown_flags_broken_relative_link_passes
      xrefs_test_lint_markdown_orders_issues_by_line_passes
      xrefs_test_missing_docs_dir_reports_no_issues_passes)

subsection \<open>The index of the documents\<close>

definition doc_index_test_all_linked_yields_no_missing :: test where
  [test_defs]: "doc_index_test_all_linked_yields_no_missing = do {
     let readme = ''Index:'' @ newline @ ''- [PROTOCOL](PROTOCOL.md)'' @ newline @ ''- [TRANSPORT](TRANSPORT.md)'' @ newline;
     let docs = [''PROTOCOL.md'', ''TRANSPORT.md''];
     assert (missing_index_links readme docs = [])
   }"

definition doc_index_test_unlinked_doc_is_reported :: test where
  [test_defs]: "doc_index_test_unlinked_doc_is_reported = do {
     let readme = ''Index:'' @ newline @ ''- [PROTOCOL](PROTOCOL.md)'' @ newline;
     let docs = [''PROTOCOL.md'', ''TRANSPORT.md''];
     assert_eq (missing_index_links readme docs) [''TRANSPORT.md'']
   }"

definition doc_index_test_readme_itself_is_never_flagged :: test where
  [test_defs]: "doc_index_test_readme_itself_is_never_flagged = do {
     let readme = ''no links here'';
     let docs = [''README.md''];
     assert (missing_index_links readme docs = [])
   }"

definition doc_index_test_missing_preserves_input_order :: test where
  [test_defs]: "doc_index_test_missing_preserves_input_order = do {
     let readme = ''links: [B](B.md)'';
     let docs = [''A.md'', ''B.md'', ''C.md''];
     assert_eq (missing_index_links readme docs) [''A.md'', ''C.md'']
   }"

definition doc_index_test_matching_is_case_sensitive :: test where
  [test_defs]: "doc_index_test_matching_is_case_sensitive = do {
     let readme = ''see protocol.md for details'';
     let docs = [''PROTOCOL.md''];
     assert_eq (missing_index_links readme docs) [''PROTOCOL.md'']
   }"

definition doc_index_test_empty_doc_list_is_trivially_complete :: test where
  [test_defs]: "doc_index_test_empty_doc_list_is_trivially_complete = do {
     assert (missing_index_links ''anything'' [] = [])
   }"

definition doc_index_test_check_doc_index_reports_scan_failure :: test where
  [test_defs]: "doc_index_test_check_doc_index_reports_scan_failure = do {
     let (out, count) = check_doc_index no_files [''definitely'', ''not'', ''a'', ''real'', ''design'', ''dir''];
     assert_eq count 1;
     assert (str_contains out ''failed to scan'')
   }"

lemma doc_index_test_all_linked_yields_no_missing_passes: "doc_index_test_all_linked_yields_no_missing = Some ()"
  by (simp add: test_defs test_simps docs_eval cong: text_congs exits_cong del: text_dels)

lemma doc_index_test_unlinked_doc_is_reported_passes: "doc_index_test_unlinked_doc_is_reported = Some ()"
  by (simp add: test_defs test_simps docs_eval cong: text_congs exits_cong del: text_dels)

lemma doc_index_test_readme_itself_is_never_flagged_passes: "doc_index_test_readme_itself_is_never_flagged = Some ()"
  by (simp add: test_defs test_simps docs_eval cong: text_congs exits_cong del: text_dels)

lemma doc_index_test_missing_preserves_input_order_passes: "doc_index_test_missing_preserves_input_order = Some ()"
  by (simp add: test_defs test_simps docs_eval cong: text_congs exits_cong del: text_dels)

lemma doc_index_test_matching_is_case_sensitive_passes: "doc_index_test_matching_is_case_sensitive = Some ()"
  by (simp add: test_defs test_simps docs_eval cong: text_congs exits_cong del: text_dels)

lemma doc_index_test_empty_doc_list_is_trivially_complete_passes: "doc_index_test_empty_doc_list_is_trivially_complete = Some ()"
  by (simp add: test_defs test_simps docs_eval cong: text_congs exits_cong del: text_dels)

lemma doc_index_test_check_doc_index_reports_scan_failure_passes: "doc_index_test_check_doc_index_reports_scan_failure = Some ()"
  by (simp add: test_defs test_simps docs_eval cong: text_congs exits_cong del: text_dels)

definition doc_index_unit_tests :: "test list" where
  "doc_index_unit_tests = [
    doc_index_test_all_linked_yields_no_missing, doc_index_test_unlinked_doc_is_reported,
    doc_index_test_readme_itself_is_never_flagged, doc_index_test_missing_preserves_input_order,
    doc_index_test_matching_is_case_sensitive, doc_index_test_empty_doc_list_is_trivially_complete,
    doc_index_test_check_doc_index_reports_scan_failure]"

lemma doc_index_unit_tests_pass: "list_all (\<lambda>t. t = Some ()) doc_index_unit_tests"
  by (simp add: doc_index_unit_tests_def
      doc_index_test_all_linked_yields_no_missing_passes
      doc_index_test_unlinked_doc_is_reported_passes
      doc_index_test_readme_itself_is_never_flagged_passes
      doc_index_test_missing_preserves_input_order_passes
      doc_index_test_matching_is_case_sensitive_passes
      doc_index_test_empty_doc_list_is_trivially_complete_passes
      doc_index_test_check_doc_index_reports_scan_failure_passes)

subsection \<open>The subcommands of the task runner\<close>

definition xtask_test_temp_lock_path :: "string \<Rightarrow> path" where
  [test_defs]: "xtask_test_temp_lock_path tag =
     [temp_dir, ''graftx-xtask-opcodes-'' @ tag @ ''-'' @ digits 0 @ ''.lock'']"

definition xtask_test_temp_doc_path :: "string \<Rightarrow> path" where
  [test_defs]: "xtask_test_temp_doc_path tag =
     [temp_dir, ''graftx-xtask-opcodes-md-'' @ tag @ ''-'' @ digits 0 @ ''.md'']"

definition xtask_test_no_args_defaults_to_help :: test where
  [test_defs]: "xtask_test_no_args_defaults_to_help = do {
     assert_eq (exit_code (fst (run store [] no_files))) EXIT_SUCCESS
   }"

definition xtask_test_help_succeeds :: test where
  [test_defs]: "xtask_test_help_succeeds = do {
     assert_eq (exit_code (fst (run store [''help''] no_files))) EXIT_SUCCESS;
     assert_eq (exit_code (fst (run store [''-h''] no_files))) EXIT_SUCCESS;
     assert_eq (exit_code (fst (run store [''--help''] no_files))) EXIT_SUCCESS
   }"

definition xtask_test_gen_opcodes_succeeds :: test where
  [test_defs]: "xtask_test_gen_opcodes_succeeds = do {
     assert_eq (exit_code (fst (run store [''gen-opcodes''] no_files))) EXIT_SUCCESS
   }"

definition xtask_test_coverage_succeeds :: test where
  [test_defs]: "xtask_test_coverage_succeeds = do {
     assert_eq (exit_code (fst (run store [''coverage''] no_files))) EXIT_SUCCESS
   }"

definition xtask_test_stats_succeeds :: test where
  [test_defs]: "xtask_test_stats_succeeds = do {
     assert_eq (exit_code (fst (run store [''stats''] no_files))) EXIT_SUCCESS
   }"

definition xtask_test_apis_succeeds :: test where
  [test_defs]: "xtask_test_apis_succeeds = do {
     assert_eq (exit_code (fst (run store [''apis''] no_files))) EXIT_SUCCESS
   }"

definition xtask_test_summary_succeeds :: test where
  [test_defs]: "xtask_test_summary_succeeds = do {
     assert_eq (exit_code (fst (run store [''summary''] no_files))) EXIT_SUCCESS
   }"

definition xtask_test_check_xrefs_is_a_known_subcommand :: test where
  [test_defs]: "xtask_test_check_xrefs_is_a_known_subcommand = do {
     assert_ne (exit_code (fst (run store [''check-xrefs''] no_files))) EXIT_USAGE
   }"

definition xtask_test_doc_index_is_a_known_subcommand :: test where
  [test_defs]: "xtask_test_doc_index_is_a_known_subcommand = do {
     assert_ne (exit_code (fst (run store [''doc-index''] no_files))) EXIT_USAGE
   }"

definition xtask_test_extra_args_after_known_subcommand_are_tolerated :: test where
  [test_defs]: "xtask_test_extra_args_after_known_subcommand_are_tolerated = do {
     assert_eq (exit_code (fst (run store [''gen-opcodes'', ''--dry-run''] no_files))) EXIT_SUCCESS
   }"

definition xtask_test_unknown_subcommand_is_usage_error :: test where
  [test_defs]: "xtask_test_unknown_subcommand_is_usage_error = do {
     assert_eq (exit_code (fst (run store [''frobnicate''] no_files))) EXIT_USAGE
   }"

definition xtask_test_opcodes_lock_is_a_known_subcommand :: test where
  [test_defs]: "xtask_test_opcodes_lock_is_a_known_subcommand = do {
     assert_ne (exit_code (fst (run store [''opcodes-lock''] no_files))) EXIT_USAGE
   }"

definition xtask_test_parse_lock_mode_defaults_to_check :: test where
  [test_defs]: "xtask_test_parse_lock_mode_defaults_to_check = do {
     assert_eq (parse_lock_mode []) (Inr Check);
     assert_eq (parse_lock_mode [''--check'']) (Inr Check)
   }"

definition xtask_test_parse_lock_mode_recognizes_write :: test where
  [test_defs]: "xtask_test_parse_lock_mode_recognizes_write = do {
     assert_eq (parse_lock_mode [''--write'']) (Inr Write)
   }"

definition xtask_test_parse_lock_mode_rejects_unknown_flag :: test where
  [test_defs]: "xtask_test_parse_lock_mode_rejects_unknown_flag = do {
     assert (\<not> is_ok (parse_lock_mode [''--frob'']))
   }"

definition xtask_test_write_then_check_roundtrips :: test where
  [test_defs]: "xtask_test_write_then_check_roundtrips = do {
     let path = xtask_test_temp_lock_path ''roundtrip'';
     let fs = no_files;
     let (out, fs) = opcodes_lock store [''--write''] path fs;
     assert_eq (exit_code out) EXIT_SUCCESS;
     let (out, fs) = opcodes_lock store [''--check''] path fs;
     assert_eq (exit_code out) EXIT_SUCCESS;
     let (out, fs) = opcodes_lock store [] path fs;
     assert_eq (exit_code out) EXIT_SUCCESS
   }"

definition xtask_test_check_fails_when_file_missing :: test where
  [test_defs]: "xtask_test_check_fails_when_file_missing = do {
     let path = xtask_test_temp_lock_path ''missing'';
     let fs = no_files;
     let fs = remove_file path fs;
     let (out, fs) = opcodes_lock store [''--check''] path fs;
     assert_eq (exit_code out) EXIT_FAILURE
   }"

definition xtask_test_check_fails_when_content_differs :: test where
  [test_defs]: "xtask_test_check_fails_when_content_differs = do {
     let path = xtask_test_temp_lock_path ''stale'';
     let fs = no_files;
     let (err, fs) = store path (''# stale'' @ newline @ ''0xFF_FFFFFF Bogus OPCODE'' @ newline) fs;
     let (out, fs) = opcodes_lock store [''--check''] path fs;
     assert_eq (exit_code out) EXIT_FAILURE
   }"

definition xtask_test_opcodes_lock_rejects_unknown_flag :: test where
  [test_defs]: "xtask_test_opcodes_lock_rejects_unknown_flag = do {
     let path = xtask_test_temp_lock_path ''badflag'';
     let fs = no_files;
     let (out, fs) = opcodes_lock store [''--frob''] path fs;
     assert_eq (exit_code out) EXIT_USAGE
   }"

definition xtask_test_opcodes_md_is_a_known_subcommand :: test where
  [test_defs]: "xtask_test_opcodes_md_is_a_known_subcommand = do {
     assert_ne (exit_code (fst (run store [''opcodes-md''] no_files))) EXIT_USAGE
   }"

definition xtask_test_opcodes_md_write_then_check_roundtrips :: test where
  [test_defs]: "xtask_test_opcodes_md_write_then_check_roundtrips = do {
     let path = xtask_test_temp_doc_path ''roundtrip'';
     let fs = no_files;
     let (out, fs) = opcodes_md store [''--write''] path fs;
     assert_eq (exit_code out) EXIT_SUCCESS;
     let (out, fs) = opcodes_md store [''--check''] path fs;
     assert_eq (exit_code out) EXIT_SUCCESS;
     let (out, fs) = opcodes_md store [] path fs;
     assert_eq (exit_code out) EXIT_SUCCESS
   }"

definition xtask_test_opcodes_md_check_fails_when_file_missing :: test where
  [test_defs]: "xtask_test_opcodes_md_check_fails_when_file_missing = do {
     let path = xtask_test_temp_doc_path ''missing'';
     let fs = no_files;
     let fs = remove_file path fs;
     let (out, fs) = opcodes_md store [''--check''] path fs;
     assert_eq (exit_code out) EXIT_FAILURE
   }"

definition xtask_test_opcodes_md_check_fails_when_content_differs :: test where
  [test_defs]: "xtask_test_opcodes_md_check_fails_when_content_differs = do {
     let path = xtask_test_temp_doc_path ''stale'';
     let fs = no_files;
     let (err, fs) = store path (''# not the generated doc'' @ newline) fs;
     let (out, fs) = opcodes_md store [''--check''] path fs;
     assert_eq (exit_code out) EXIT_FAILURE
   }"

definition xtask_test_opcodes_md_rejects_unknown_flag :: test where
  [test_defs]: "xtask_test_opcodes_md_rejects_unknown_flag = do {
     let path = xtask_test_temp_doc_path ''badflag'';
     let fs = no_files;
     let (out, fs) = opcodes_md store [''--frob''] path fs;
     assert_eq (exit_code out) EXIT_USAGE
   }"

definition xtask_test_report_first_difference_names_the_line :: test where
  [test_defs]: "xtask_test_report_first_difference_names_the_line = do {
     let text = report_first_difference (''a'' @ newline @ ''b'' @ newline @ ''c'' @ newline) (''a'' @ newline @ ''X'' @ newline @ ''c'' @ newline);
     assert (str_contains text ''line 2'');
     assert (str_contains text ''on disk:   b'');
     assert (str_contains text ''expected:  X'')
   }"

definition xtask_test_report_first_difference_notes_length_mismatch :: test where
  [test_defs]: "xtask_test_report_first_difference_notes_length_mismatch = do {
     let text = report_first_difference (''a'' @ newline @ ''b'' @ newline) (''a'' @ newline @ ''b'' @ newline @ ''c'' @ newline);
     assert (str_contains text ''line count differs'')
   }"

definition xtask_test_verify_outcome_passes_only_when_both_pass :: test where
  [test_defs]: "xtask_test_verify_outcome_passes_only_when_both_pass = do {
     let both_ok = \<lparr>xref_issues = 0, lock_up_to_date = True\<rparr>;
     assert (passed both_ok);
     assert_eq (verify_exit_code both_ok) EXIT_SUCCESS;
     let xref_fail = \<lparr>xref_issues = 3, lock_up_to_date = True\<rparr>;
     assert (\<not> passed xref_fail);
     assert_eq (verify_exit_code xref_fail) EXIT_FAILURE;
     let lock_fail = \<lparr>xref_issues = 0, lock_up_to_date = False\<rparr>;
     assert (\<not> passed lock_fail);
     assert_eq (verify_exit_code lock_fail) EXIT_FAILURE;
     let both_fail = \<lparr>xref_issues = 2, lock_up_to_date = False\<rparr>;
     assert (\<not> passed both_fail);
     assert_eq (verify_exit_code both_fail) EXIT_FAILURE
   }"

definition xtask_test_verify_is_a_known_subcommand :: test where
  [test_defs]: "xtask_test_verify_is_a_known_subcommand = do {
     assert_ne (exit_code (fst (run store [''verify''] no_files))) EXIT_USAGE
   }"

definition xtask_test_verify_fails_when_lock_is_missing :: test where
  [test_defs]: "xtask_test_verify_fails_when_lock_is_missing = do {
     let (text, code) = verify [''definitely'', ''not'', ''a'', ''real'', ''docs'', ''dir'']
       [''definitely'', ''not'', ''a'', ''real'', ''opcodes.lock''] no_files;
     assert_eq code EXIT_FAILURE;
     assert (str_contains text ''opcodes-lock: STALE'');
     assert (str_contains text ''verify: FAILED'')
   }"

definition xtask_test_verify_summary_lists_both_checks :: test where
  [test_defs]: "xtask_test_verify_summary_lists_both_checks = do {
     let lock = xtask_test_temp_lock_path ''verify-ok'';
     let (err, fs) = store lock (render_lock OPCODES) no_files;
     let (text, code) = verify [''definitely'', ''not'', ''a'', ''real'', ''docs'', ''dir''] lock fs;
     assert_eq code EXIT_SUCCESS;
     assert (str_contains text ''verify: xrefs: 0 issue(s)'');
     assert (str_contains text ''verify: opcodes-lock: up-to-date'');
     assert (str_contains text ''verify: OK'')
   }"

lemma xtask_test_no_args_defaults_to_help_passes: "xtask_test_no_args_defaults_to_help = Some ()"
  by (simp add: test_defs test_simps docs_eval cong: text_congs exits_cong del: text_dels)

lemma xtask_test_help_succeeds_passes: "xtask_test_help_succeeds = Some ()"
  by (simp add: test_defs test_simps docs_eval cong: text_congs exits_cong del: text_dels)

lemma xtask_test_gen_opcodes_succeeds_passes: "xtask_test_gen_opcodes_succeeds = Some ()"
  by (simp add: test_defs test_simps docs_eval cong: text_congs exits_cong del: text_dels)

lemma xtask_test_coverage_succeeds_passes: "xtask_test_coverage_succeeds = Some ()"
  by (simp add: test_defs test_simps docs_eval cong: text_congs exits_cong del: text_dels)

lemma xtask_test_stats_succeeds_passes: "xtask_test_stats_succeeds = Some ()"
  by (simp add: test_defs test_simps docs_eval cong: text_congs exits_cong del: text_dels)

lemma xtask_test_apis_succeeds_passes: "xtask_test_apis_succeeds = Some ()"
  by (simp add: test_defs test_simps docs_eval cong: text_congs exits_cong del: text_dels)

lemma xtask_test_summary_succeeds_passes: "xtask_test_summary_succeeds = Some ()"
  by (simp add: test_defs test_simps docs_eval cong: text_congs exits_cong del: text_dels)

lemma xtask_test_check_xrefs_is_a_known_subcommand_passes: "xtask_test_check_xrefs_is_a_known_subcommand = Some ()"
  by (simp add: test_defs test_simps docs_eval cong: text_congs exits_cong del: text_dels)

lemma xtask_test_doc_index_is_a_known_subcommand_passes: "xtask_test_doc_index_is_a_known_subcommand = Some ()"
  by (simp add: test_defs test_simps docs_eval cong: text_congs exits_cong del: text_dels)

lemma xtask_test_extra_args_after_known_subcommand_are_tolerated_passes: "xtask_test_extra_args_after_known_subcommand_are_tolerated = Some ()"
  by (simp add: test_defs test_simps docs_eval cong: text_congs exits_cong del: text_dels)

lemma xtask_test_unknown_subcommand_is_usage_error_passes: "xtask_test_unknown_subcommand_is_usage_error = Some ()"
  by (simp add: test_defs test_simps docs_eval cong: text_congs exits_cong del: text_dels)

lemma xtask_test_opcodes_lock_is_a_known_subcommand_passes: "xtask_test_opcodes_lock_is_a_known_subcommand = Some ()"
  by (simp add: test_defs test_simps docs_eval cong: text_congs exits_cong del: text_dels)

lemma xtask_test_parse_lock_mode_defaults_to_check_passes: "xtask_test_parse_lock_mode_defaults_to_check = Some ()"
  by (simp add: test_defs test_simps docs_eval cong: text_congs exits_cong del: text_dels)

lemma xtask_test_parse_lock_mode_recognizes_write_passes: "xtask_test_parse_lock_mode_recognizes_write = Some ()"
  by (simp add: test_defs test_simps docs_eval cong: text_congs exits_cong del: text_dels)

lemma xtask_test_parse_lock_mode_rejects_unknown_flag_passes: "xtask_test_parse_lock_mode_rejects_unknown_flag = Some ()"
  by (simp add: test_defs test_simps docs_eval cong: text_congs exits_cong del: text_dels)

lemma xtask_test_write_then_check_roundtrips_passes: "xtask_test_write_then_check_roundtrips = Some ()"
  by (simp add: test_defs test_simps docs_eval cong: text_congs exits_cong del: text_dels)

lemma xtask_test_check_fails_when_file_missing_passes: "xtask_test_check_fails_when_file_missing = Some ()"
  by (simp add: test_defs test_simps docs_eval cong: text_congs exits_cong del: text_dels)

lemma xtask_test_check_fails_when_content_differs_passes: "xtask_test_check_fails_when_content_differs = Some ()"
  by (simp add: test_defs test_simps docs_eval cong: text_congs exits_cong del: text_dels)

lemma xtask_test_opcodes_lock_rejects_unknown_flag_passes: "xtask_test_opcodes_lock_rejects_unknown_flag = Some ()"
  by (simp add: test_defs test_simps docs_eval cong: text_congs exits_cong del: text_dels)

lemma xtask_test_opcodes_md_is_a_known_subcommand_passes: "xtask_test_opcodes_md_is_a_known_subcommand = Some ()"
  by (simp add: test_defs test_simps docs_eval cong: text_congs exits_cong del: text_dels)

lemma xtask_test_opcodes_md_write_then_check_roundtrips_passes: "xtask_test_opcodes_md_write_then_check_roundtrips = Some ()"
  by (simp add: test_defs test_simps docs_eval cong: text_congs exits_cong del: text_dels)

lemma xtask_test_opcodes_md_check_fails_when_file_missing_passes: "xtask_test_opcodes_md_check_fails_when_file_missing = Some ()"
  by (simp add: test_defs test_simps docs_eval cong: text_congs exits_cong del: text_dels)

lemma xtask_test_opcodes_md_check_fails_when_content_differs_passes: "xtask_test_opcodes_md_check_fails_when_content_differs = Some ()"
  by (simp add: test_defs test_simps docs_eval cong: text_congs exits_cong del: text_dels)

lemma xtask_test_opcodes_md_rejects_unknown_flag_passes: "xtask_test_opcodes_md_rejects_unknown_flag = Some ()"
  by (simp add: test_defs test_simps docs_eval cong: text_congs exits_cong del: text_dels)

lemma xtask_test_report_first_difference_names_the_line_passes: "xtask_test_report_first_difference_names_the_line = Some ()"
  by (simp add: test_defs test_simps docs_eval line_eval cong: text_congs exits_cong del: text_dels)

lemma xtask_test_report_first_difference_notes_length_mismatch_passes: "xtask_test_report_first_difference_notes_length_mismatch = Some ()"
  by (simp add: test_defs test_simps docs_eval line_eval cong: text_congs exits_cong del: text_dels)

lemma xtask_test_verify_outcome_passes_only_when_both_pass_passes: "xtask_test_verify_outcome_passes_only_when_both_pass = Some ()"
  by (simp add: test_defs test_simps docs_eval cong: text_congs exits_cong del: text_dels)

lemma xtask_test_verify_is_a_known_subcommand_passes: "xtask_test_verify_is_a_known_subcommand = Some ()"
  by (simp add: test_defs test_simps docs_eval cong: text_congs exits_cong del: text_dels)

lemma xtask_test_verify_fails_when_lock_is_missing_passes: "xtask_test_verify_fails_when_lock_is_missing = Some ()"
  by (simp add: test_defs test_simps docs_eval cong: text_congs exits_cong del: text_dels)

lemma xtask_test_verify_summary_lists_both_checks_passes: "xtask_test_verify_summary_lists_both_checks = Some ()"
  by (simp add: test_defs test_simps docs_eval cong: text_congs exits_cong del: text_dels)

definition xtask_unit_tests :: "test list" where
  "xtask_unit_tests = [
    xtask_test_no_args_defaults_to_help, xtask_test_help_succeeds, xtask_test_gen_opcodes_succeeds,
    xtask_test_coverage_succeeds, xtask_test_stats_succeeds, xtask_test_apis_succeeds,
    xtask_test_summary_succeeds, xtask_test_check_xrefs_is_a_known_subcommand,
    xtask_test_doc_index_is_a_known_subcommand,
    xtask_test_extra_args_after_known_subcommand_are_tolerated,
    xtask_test_unknown_subcommand_is_usage_error, xtask_test_opcodes_lock_is_a_known_subcommand,
    xtask_test_parse_lock_mode_defaults_to_check, xtask_test_parse_lock_mode_recognizes_write,
    xtask_test_parse_lock_mode_rejects_unknown_flag, xtask_test_write_then_check_roundtrips,
    xtask_test_check_fails_when_file_missing, xtask_test_check_fails_when_content_differs,
    xtask_test_opcodes_lock_rejects_unknown_flag, xtask_test_opcodes_md_is_a_known_subcommand,
    xtask_test_opcodes_md_write_then_check_roundtrips,
    xtask_test_opcodes_md_check_fails_when_file_missing,
    xtask_test_opcodes_md_check_fails_when_content_differs,
    xtask_test_opcodes_md_rejects_unknown_flag, xtask_test_report_first_difference_names_the_line,
    xtask_test_report_first_difference_notes_length_mismatch,
    xtask_test_verify_outcome_passes_only_when_both_pass, xtask_test_verify_is_a_known_subcommand,
    xtask_test_verify_fails_when_lock_is_missing, xtask_test_verify_summary_lists_both_checks]"

lemma xtask_unit_tests_pass: "list_all (\<lambda>t. t = Some ()) xtask_unit_tests"
  by (simp add: xtask_unit_tests_def
      xtask_test_no_args_defaults_to_help_passes xtask_test_help_succeeds_passes
      xtask_test_gen_opcodes_succeeds_passes xtask_test_coverage_succeeds_passes
      xtask_test_stats_succeeds_passes xtask_test_apis_succeeds_passes
      xtask_test_summary_succeeds_passes xtask_test_check_xrefs_is_a_known_subcommand_passes
      xtask_test_doc_index_is_a_known_subcommand_passes
      xtask_test_extra_args_after_known_subcommand_are_tolerated_passes
      xtask_test_unknown_subcommand_is_usage_error_passes
      xtask_test_opcodes_lock_is_a_known_subcommand_passes
      xtask_test_parse_lock_mode_defaults_to_check_passes
      xtask_test_parse_lock_mode_recognizes_write_passes
      xtask_test_parse_lock_mode_rejects_unknown_flag_passes
      xtask_test_write_then_check_roundtrips_passes xtask_test_check_fails_when_file_missing_passes
      xtask_test_check_fails_when_content_differs_passes
      xtask_test_opcodes_lock_rejects_unknown_flag_passes
      xtask_test_opcodes_md_is_a_known_subcommand_passes
      xtask_test_opcodes_md_write_then_check_roundtrips_passes
      xtask_test_opcodes_md_check_fails_when_file_missing_passes
      xtask_test_opcodes_md_check_fails_when_content_differs_passes
      xtask_test_opcodes_md_rejects_unknown_flag_passes
      xtask_test_report_first_difference_names_the_line_passes
      xtask_test_report_first_difference_notes_length_mismatch_passes
      xtask_test_verify_outcome_passes_only_when_both_pass_passes
      xtask_test_verify_is_a_known_subcommand_passes
      xtask_test_verify_fails_when_lock_is_missing_passes
      xtask_test_verify_summary_lists_both_checks_passes)

subsection \<open>The command line tool\<close>

definition cli_test_no_args_prints_usage_and_succeeds :: test where
  [test_defs]: "cli_test_no_args_prints_usage_and_succeeds = do {
     assert_eq (exit_code (cli_run null_ops test_env [])) cli_EXIT_SUCCESS
   }"

definition cli_test_help_succeeds :: test where
  [test_defs]: "cli_test_help_succeeds = do {
     for_each [''help'', ''-h'', ''--help''] (\<lambda>flag.
       assert_eq (exit_code (cli_run null_ops test_env [flag])) cli_EXIT_SUCCESS)
   }"

definition cli_test_unknown_subcommand_is_usage_error :: test where
  [test_defs]: "cli_test_unknown_subcommand_is_usage_error = do {
     assert_eq (exit_code (cli_run null_ops test_env [''bogus''])) cli_EXIT_USAGE
   }"

definition cli_test_connect_without_addr_is_usage_error :: test where
  [test_defs]: "cli_test_connect_without_addr_is_usage_error = do {
     assert_eq (exit_code (cli_run null_ops test_env [''connect''])) cli_EXIT_USAGE
   }"

definition cli_test_noop_without_addr_is_usage_error :: test where
  [test_defs]: "cli_test_noop_without_addr_is_usage_error = do {
     assert_eq (exit_code (cli_run null_ops test_env [''noop''])) cli_EXIT_USAGE
   }"

definition cli_test_usage_banner_lists_noop_subcommand :: test where
  [test_defs]: "cli_test_usage_banner_lists_noop_subcommand = do {
     let text = print_lines emit_all cli_usage;
     assert (str_contains text ''noop <addr>'')
   }"

definition cli_test_usage_banner_carries_protocol_version :: test where
  [test_defs]: "cli_test_usage_banner_carries_protocol_version = do {
     let (major, minor) = client_protocol_version;
     let version = ''protocol '' @ digits (unat major) @ ''.'' @ digits (unat minor);
     let text = print_lines emit_all cli_usage;
     assert (str_contains text version);
     assert (str_contains text ''connect <addr>'')
   }"

definition cli_test_apis_subcommand_succeeds :: test where
  [test_defs]: "cli_test_apis_subcommand_succeeds = do {
     assert_eq (exit_code (cli_run null_ops test_env [''apis''])) cli_EXIT_SUCCESS
   }"

definition cli_test_apis_table_is_markdown_with_first_and_last_rows :: test where
  [test_defs]: "cli_test_apis_table_is_markdown_with_first_and_last_rows = do {
     let text = print_lines emit_all api_lines;
     assert (str_contains text ''| ApiId | API |'');
     assert (str_contains text ''| 0x00 | Core |'');
     assert (str_contains text ''| 0x0b | Amf |'')
   }"

definition cli_test_usage_banner_lists_apis_subcommand :: test where
  [test_defs]: "cli_test_usage_banner_lists_apis_subcommand = do {
     let text = print_lines emit_all cli_usage;
     assert (str_contains text ''graftx apis'')
   }"

definition cli_test_apis_table_matches_protocol :: test where
  [test_defs]: "cli_test_apis_table_matches_protocol = do {
     assert_eq (index API_IDS 0) (Some (api_id_u8 Core, ''Core''));
     assert_eq (index API_IDS (length API_IDS - 1)) (Some (api_id_u8 Amf, ''Amf''));
     assert_eq (length API_IDS) (unat (api_id_u8 Amf) - unat (api_id_u8 Core) + 1);
     for_each (enumerate 0 API_IDS) (\<lambda>(offset, (id, _)).
       assert_eq (unat id) (unat (api_id_u8 Core) + offset))
   }"

definition cli_test_info_subcommand_succeeds :: test where
  [test_defs]: "cli_test_info_subcommand_succeeds = do {
     assert_eq (exit_code (cli_run null_ops test_env [''info''])) cli_EXIT_SUCCESS
   }"

definition cli_test_info_carries_version_protocol_and_apis :: test where
  [test_defs]: "cli_test_info_carries_version_protocol_and_apis = do {
     let (major, minor) = client_protocol_version;
     let package = ''graftx-cli '' @ CARGO_PKG_VERSION;
     let version = ''protocol '' @ digits (unat major) @ ''.'' @ digits (unat minor);
     let text = print_lines emit_all info_lines;
     assert (str_contains text package);
     assert (str_contains text version);
     assert (str_contains text ''Core'');
     assert (str_contains text ''Amf'')
   }"

definition cli_test_usage_banner_lists_info_subcommand :: test where
  [test_defs]: "cli_test_usage_banner_lists_info_subcommand = do {
     let text = print_lines emit_all cli_usage;
     assert (str_contains text ''graftx info'')
   }"

definition cli_test_welcome_summary_includes_negotiated_fields :: test where
  [test_defs]: "cli_test_welcome_summary_includes_negotiated_fields = do {
     let welcome = \<lparr>welcome_proto_major = 3, welcome_proto_minor = 7, welcome_features = 0x5,
       welcome_max_frame_body = 4096, welcome_session_id = 42\<rparr>;
     let (text, err) = write_lines emit_all (welcome_lines ''198.51.100.1:7000'' welcome) [];
     assert (err = None);
     assert (str_contains text ''connected to 198.51.100.1:7000'');
     assert (str_contains text ''3.7'');
     assert (str_contains text ''42'');
     assert (str_contains text ''4096'')
   }"

lemma cli_test_no_args_prints_usage_and_succeeds_passes: "cli_test_no_args_prints_usage_and_succeeds = Some ()"
  by (simp add: test_defs test_simps docs_eval cong: text_congs exits_cong del: text_dels)

lemma cli_test_help_succeeds_passes: "cli_test_help_succeeds = Some ()"
  by (simp add: test_defs test_simps docs_eval cong: text_congs exits_cong del: text_dels)

lemma cli_test_unknown_subcommand_is_usage_error_passes: "cli_test_unknown_subcommand_is_usage_error = Some ()"
  by (simp add: test_defs test_simps docs_eval cong: text_congs exits_cong del: text_dels)

lemma cli_test_connect_without_addr_is_usage_error_passes: "cli_test_connect_without_addr_is_usage_error = Some ()"
  by (simp add: test_defs test_simps docs_eval cong: text_congs exits_cong del: text_dels)

lemma cli_test_noop_without_addr_is_usage_error_passes: "cli_test_noop_without_addr_is_usage_error = Some ()"
  by (simp add: test_defs test_simps docs_eval cong: text_congs exits_cong del: text_dels)

lemma cli_test_usage_banner_lists_noop_subcommand_passes: "cli_test_usage_banner_lists_noop_subcommand = Some ()"
  by (simp add: test_defs test_simps docs_eval cong: text_congs exits_cong del: text_dels)

lemma cli_test_usage_banner_carries_protocol_version_passes: "cli_test_usage_banner_carries_protocol_version = Some ()"
  by (simp add: test_defs test_simps docs_eval cong: test_congs exits_cong del: text_dels)

lemma cli_test_apis_subcommand_succeeds_passes: "cli_test_apis_subcommand_succeeds = Some ()"
  by (simp add: test_defs test_simps docs_eval cong: text_congs exits_cong del: text_dels)

lemma cli_test_apis_table_is_markdown_with_first_and_last_rows_passes: "cli_test_apis_table_is_markdown_with_first_and_last_rows = Some ()"
  by (simp add: test_defs test_simps docs_eval cong: text_congs exits_cong del: text_dels)

lemma cli_test_usage_banner_lists_apis_subcommand_passes: "cli_test_usage_banner_lists_apis_subcommand = Some ()"
  by (simp add: test_defs test_simps docs_eval cong: text_congs exits_cong del: text_dels)

lemma cli_test_apis_table_matches_protocol_passes: "cli_test_apis_table_matches_protocol = Some ()"
  by (simp add: test_defs test_simps docs_eval cong: text_congs exits_cong del: text_dels)

lemma cli_test_info_subcommand_succeeds_passes: "cli_test_info_subcommand_succeeds = Some ()"
  by (simp add: test_defs test_simps docs_eval cong: text_congs exits_cong del: text_dels)

lemma cli_test_info_carries_version_protocol_and_apis_passes: "cli_test_info_carries_version_protocol_and_apis = Some ()"
  by (simp add: test_defs test_simps docs_eval cong: test_congs exits_cong del: text_dels)

lemma cli_test_usage_banner_lists_info_subcommand_passes: "cli_test_usage_banner_lists_info_subcommand = Some ()"
  by (simp add: test_defs test_simps docs_eval cong: text_congs exits_cong del: text_dels)

lemma cli_test_welcome_summary_includes_negotiated_fields_passes: "cli_test_welcome_summary_includes_negotiated_fields = Some ()"
  by (simp add: test_defs test_simps docs_eval cong: text_congs exits_cong del: text_dels)

definition cli_unit_tests :: "test list" where
  "cli_unit_tests = [
    cli_test_no_args_prints_usage_and_succeeds, cli_test_help_succeeds,
    cli_test_unknown_subcommand_is_usage_error, cli_test_connect_without_addr_is_usage_error,
    cli_test_noop_without_addr_is_usage_error, cli_test_usage_banner_lists_noop_subcommand,
    cli_test_usage_banner_carries_protocol_version, cli_test_apis_subcommand_succeeds,
    cli_test_apis_table_is_markdown_with_first_and_last_rows,
    cli_test_usage_banner_lists_apis_subcommand, cli_test_apis_table_matches_protocol,
    cli_test_info_subcommand_succeeds, cli_test_info_carries_version_protocol_and_apis,
    cli_test_usage_banner_lists_info_subcommand,
    cli_test_welcome_summary_includes_negotiated_fields]"

lemma cli_unit_tests_pass: "list_all (\<lambda>t. t = Some ()) cli_unit_tests"
  by (simp add: cli_unit_tests_def
      cli_test_no_args_prints_usage_and_succeeds_passes cli_test_help_succeeds_passes
      cli_test_unknown_subcommand_is_usage_error_passes
      cli_test_connect_without_addr_is_usage_error_passes
      cli_test_noop_without_addr_is_usage_error_passes
      cli_test_usage_banner_lists_noop_subcommand_passes
      cli_test_usage_banner_carries_protocol_version_passes cli_test_apis_subcommand_succeeds_passes
      cli_test_apis_table_is_markdown_with_first_and_last_rows_passes
      cli_test_usage_banner_lists_apis_subcommand_passes cli_test_apis_table_matches_protocol_passes
      cli_test_info_subcommand_succeeds_passes
      cli_test_info_carries_version_protocol_and_apis_passes
      cli_test_usage_banner_lists_info_subcommand_passes
      cli_test_welcome_summary_includes_negotiated_fields_passes)

end
