(* ===== verification/Conformance.thy ===== *)
theory Conformance
  imports Data_Tests Backend_Tests Path_Tests Report_Tests
begin

section \<open>The unit tests of the crates\<close>

text \<open>
  The suites of the test theories together: 455 of the 464 unit tests in the crates. The other nine are two that record
  from several threads at once, two that poison a lock, three that install a tracing subscriber, one that compares
  addresses, and one that only joins the thread of \<open>serve\<close>.
\<close>

definition unit_tests :: "test list" where
  "unit_tests =
    handles_unit_tests @ protocol_unit_tests @ vk_unit_tests @ gl_unit_tests @ cuda_unit_tests @
    hip_unit_tests @ cl_unit_tests @ l0_unit_tests @ video_unit_tests @ wgpu_unit_tests @
    optix_unit_tests @ sycl_unit_tests @ amf_unit_tests @ loopback_unit_tests @ null_unit_tests @
    vec_unit_tests @ counting_unit_tests @ stream_unit_tests @ trace_unit_tests @
    session_unit_tests @ serve_unit_tests @ timer_unit_tests @ load_unit_tests @ bench_unit_tests @
    fuzz_unit_tests @ client_unit_tests @ stats_unit_tests @ hist_unit_tests @ guard_unit_tests @
    registry_unit_tests @ opcodes_unit_tests @ xrefs_unit_tests @ doc_index_unit_tests @
    xtask_unit_tests @ cli_unit_tests"

text \<open>The model passes the unit tests of the source: every test of the suites, translated statement by statement, runs
  to its end on the definitions of the model without a failed assertion, a failed \<open>unwrap\<close> or an index out of
  range. The tests pin down the values the properties quantify over: the bytes of a frame, the handles a table issues
  after a removal, the error of each malformed request, the rendered tables and reports.\<close>

theorem unit_tests_pass: "list_all (\<lambda>t. t = Some ()) unit_tests"
  by (simp add: unit_tests_def
      handles_unit_tests_pass protocol_unit_tests_pass vk_unit_tests_pass gl_unit_tests_pass
      cuda_unit_tests_pass hip_unit_tests_pass cl_unit_tests_pass l0_unit_tests_pass
      video_unit_tests_pass wgpu_unit_tests_pass optix_unit_tests_pass sycl_unit_tests_pass
      amf_unit_tests_pass loopback_unit_tests_pass null_unit_tests_pass vec_unit_tests_pass
      counting_unit_tests_pass stream_unit_tests_pass trace_unit_tests_pass session_unit_tests_pass
      serve_unit_tests_pass timer_unit_tests_pass load_unit_tests_pass bench_unit_tests_pass
      fuzz_unit_tests_pass client_unit_tests_pass stats_unit_tests_pass hist_unit_tests_pass
      guard_unit_tests_pass registry_unit_tests_pass opcodes_unit_tests_pass xrefs_unit_tests_pass
      doc_index_unit_tests_pass xtask_unit_tests_pass cli_unit_tests_pass)

end
