(* ===== verification/Spec2Isabelle.thy ===== *)
theory Spec2Isabelle
  imports Protocol_Spec Handle_Life Backend_Spec Session_Spec Obs_Spec Transport_Spec Serve_Spec Trace_Spec Client_Spec
    Rpc_Types Threads Tcp Forwarding Load_Threads Metrics Mains Xtask_Spec Xtask_Docs_Spec Conformance
begin

text \<open>
  A model of GraftX (\<open>crates/\<close> of the repository), which forwards the calls of GPU APIs from a client to a server.
  The client encodes a call as a frame and sends it over a transport. The server's loop receives the frame, its
  session checks it and routes it by the API byte of its opcode to a backend, the backend decodes the body and works on
  handle tables, and the answer goes back the same way. Around that path are the statistics, the frame trace, the load
  generator, the command line tool and the repository's task runner.

  \<^bold>\<open>Conventions.\<close> Machine integers are words of their width, \<open>usize\<close> is \<open>nat\<close> (cut to 64 bits where the source checks
  it). A result is a sum, \<open>Inl\<close> the error. A method on \<open>&mut self\<close> returns the new state, also when it fails. Names are
  those of the source; a prefix tells apart what the source tells apart by module (\<open>vk_\<close>, \<open>client_vk_\<close>, \<open>ht_\<close>, \<open>hist_\<close>,
  \<open>registry_\<close>). \<open>Prelude\<close> holds the types, the saturating arithmetic and the shared lemmas, \<open>Text_Format\<close> what the
  program uses of the standard library's text handling.

  \<^bold>\<open>The wire protocol\<close> (\<open>graftx-protocol/src/lib.rs\<close>). \<open>Wire\<close>: little-endian writers, the bounds-checked \<open>reader\<close>, and
  the locale \<open>wire_body\<close>, the contract of an encoder and a decoder of a fixed width (the round trip with any bytes
  following, the exact condition under which decoding fails), which is interpreted for every message. \<open>Protocol\<close>:
  constants, opcodes, handles, the frame header and the handshake. \<open>Vk_Wire\<close> to \<open>Amf_Wire\<close>: the messages of the eleven
  APIs. \<open>Protocol_Spec\<close>: round trips of frames, bodies and the device list, the error cases, the opcode space.

  \<^bold>\<open>The handle table\<close> (\<open>graftx-handles/src/lib.rs\<close>). \<open>Handles\<close>: every method of \<open>HandleTable\<close> on the record
  \<open>handle_table\<close>, the invariant \<open>ht_inv\<close> and that each operation keeps it. \<open>Handle_Life\<close>: the step relation of a table,
  the abstraction to a map from slot and generation, the locale \<open>object_store\<close> (the contract the backends rely on)
  interpreted on the table, and the life of a handle: no use after free, retirement of worn slots. An insertion casts
  the number of slots to 32 bits; \<open>ht_room\<close> says that the cast is exact, and is assumed where a fresh handle must be
  fresh.

  \<^bold>\<open>The server\<close> (\<open>graftx-server/src/\<close>). \<open>Backend\<close>: the trait, as the type \<open>arm\<close> of a match arm and the locale \<open>backend\<close>
  (in every reachable state the invariant holds, a refused request changes nothing, the opcodes of the arms, listed in
  \<open>ops\<close>, are served and every other opcode is refused). \<open>Vk_Backend\<close> to \<open>Amf_Backend\<close>: one definition per arm, the list of
  their opcodes (\<open>vk_ops\<close> to \<open>amf_ops\<close>) and the interpretation for each of the eleven services. \<open>Backend_Spec\<close>: the contract;
  no object without a parent (\<open>linked\<close>: the parent resolves, \<open>issued\<close>: it did, for parents that can be destroyed first); at
  most one successful free, two for the one call of OptiX that works on two tables; permanent bindings, recorded
  counts, frame indices. \<open>Session\<close> and \<open>Session_Spec\<close> (\<open>session.rs\<close>): the checks, the handshake, routing, sequence numbers, the
  limits, and the independence of the services. \<open>Serve\<close> and \<open>Serve_Spec\<close> (\<open>serve.rs\<close>, \<open>main.rs\<close>): both loops are
  \<open>partial_function (option)\<close>, where \<open>None\<close> is a loop that never returns, and that they return on the input of any
  connection is proved, not assumed. \<open>serve_run\<close> is a run of the loop that ends, over any transport; both loops return
  exactly when there is one, with its result, and the registry has the calls of its exchanges.

  \<^bold>\<open>Transports\<close> (\<open>graftx-transport/src/\<close>). \<open>Transport\<close>: the trait as a record of operations, loopback, stream, vector,
  null and counting transports. The stream under \<open>StreamTransport\<close> is a parameter; the locale \<open>byte_stream\<close> states what
  the documentation of \<open>Read\<close> and \<open>Write\<close> promises, the locale \<open>framed\<close> what a transport owes its users, and inside
  the first a stream transport is shown to be framed. They are interpreted on a pipe of bytes, on the vector transport,
  bare and counted, and on the stream transport over the pipe. \<open>Transport_Spec\<close>: interoperation of two streams, all results of \<open>recv\<close>, exact counters, order of loopback.

  \<^bold>\<open>Statistics and traces.\<close> \<open>Obs\<close> and \<open>Obs_Spec\<close> (\<open>graftx-obs/src/\<close>): counters, histograms, the registry, its reports
  and JSON. A hash map is an association list; what may not depend on its order is proved for every permutation.
  \<open>Trace\<close> and \<open>Trace_Spec\<close> (\<open>graftx-trace/src/lib.rs\<close>): recording and replay.

  \<^bold>\<open>The client\<close> (\<open>graftx-client/src/\<close>). \<open>Client\<close>: the exchange of a request and a reply, the handshake, the no-op.
  \<open>Client_Link\<close>: a client and a server over a loopback pair. The client is synchronous, so it is enough to run a turn of
  the server's loop when the client waits; \<open>call_served\<close> is the contract between a shim and the arm that serves it.
  \<open>Vk_Client\<close> to \<open>Amf_Client\<close>: the forty-seven shims, each proved to return what its arm encoded. \<open>Client_Session\<close> and
  \<open>Client_Spec\<close>: the \<open>Client\<close> wrapper, its ids, and the whole bring-up of a device against the server's session.

  \<^bold>\<open>Types of calls.\<close> \<open>Rpc_Types\<close>: for each opcode that is answered the request message it takes and the response message it answers with, with
  the kind of object a handle names, and that every service, and so every session, keeps to that table and answers no other
  opcode.

  \<^bold>\<open>Threads and sockets.\<close> \<open>Program\<close>: what a client function does apart from its transport (\<open>prog\<close>: send a frame, wait for one,
  go on), that the functions of the client are such programs, and \<open>talk\<close>, the outcome of a program against a server that
  answers in turn. \<open>Threads\<close>: client and serve loop as two threads over the channels of a loopback pair, as a step relation
  whose steps are single channel operations and drops; in every interleaving the run ends after the same number of steps in
  the outcome of \<open>talk\<close>. \<open>Tcp\<close>: both ends of a socket with buffers of \<open>room\<close> bytes, with writes and reads of any pieces; the
  bound \<open>work\<close> counts every byte of the conversation twice, and \<open>fits\<close> says that the frames are below the receiver's cap,
  which those of the client are. \<open>Load_Threads\<close>: the load generator in two threads. \<open>Forwarding\<close> composes all of it: against \<open>direct\<close>, which calls the match arms
  of the services without a client, a session or a transport, every connection is shown to be transparent. The proofs are an invariant by rule
  inversion on the phases of a conversation (\<open>phase\<close>, \<open>sock_phase\<close>), each with the outcome and the steps that are left.

  \<^bold>\<open>Around it.\<close> \<open>Load_Test\<close> and \<open>Load_Spec\<close> (\<open>graftx-loadtest\<close>): the client's rounds against \<open>serve_with_metrics\<close>, with the
  exact statistics; the bound of \<open>2 ^ 32\<close> rounds is that of a handle table's slots. \<open>Cli\<close> (\<open>graftx-cli\<close>), \<open>Harness\<close>
  (\<open>graftx-fuzz\<close>, \<open>graftx-bench\<close>). \<open>Metrics\<close>: the timer over a clock that is a parameter, and the rates in binary floating
  point, a finite number as the rational it stands for beside the infinities and not a number, with a bound of their error;
  the counts are below \<open>2 ^ 128\<close>, so nothing overflows. \<open>Mains\<close>: the \<open>main\<close> of the server with \<open>serve_tcp\<close>, of the benchmark,
  the load generator and the fuzzer, and the process-wide registry. A listener's accepts are an endless stream, and the
  server is observed after any number of them. \<open>Xtask_Opcodes\<close>,
  \<open>Xtask_Xrefs\<close>, \<open>Xtask_Main\<close> and their properties in \<open>Xtask_Spec\<close> and \<open>Xtask_Docs_Spec\<close> (\<open>graftx-xtask\<close>): the opcode table
  and its lockfile, the document checks over a file system that is a parameter, and the subcommands.

  \<^bold>\<open>The unit tests.\<close> The crates' own unit tests, translated statement by statement to executable definitions in the option
  monad, where a failed assertion is \<open>None\<close>: \<open>Testing\<close> has the monad, the assertions and the equations a test is evaluated
  with, \<open>Data_Tests\<close> the tests of the handle table and the wire protocol, \<open>Backend_Tests\<close> those of the eleven backends,
  \<open>Path_Tests\<close> those of the transports, the session, the client and the harnesses, \<open>Report_Tests\<close> those of the statistics,
  the task runner and the command line tool. Each is proved to pass, by rewriting in the kernel, and \<open>Conformance\<close> puts them
  together. They validate the definitions, and are no properties of the program: the definitions behave as the authors of the
  code require on the inputs they wrote down. Nine of the 464 tests are not translated, being about what has no counterpart: a poisoned lock, several threads
  recording at once, a tracing subscriber, the address of the global registry, and a thread that is only joined.

  \<^bold>\<open>Not modelled.\<close> What binding an address, accepting and connecting come to is a parameter, as are the clock, the decimal text
  of a floating-point number and the texts of errors that the standard library derives. A socket that resets a connection or
  loses data. The spans and the subscriber of the tracing crates, which the program calls and keeps no state for. Memory:
  capacities are modelled where the source returns them, running out of memory is not.
\<close>

end
